(* ===== verification/Prelude.thy ===== *)
theory Prelude
  imports Main "HOL-Library.List_Lexorder" "HOL-Library.Char_ord"
begin

text \<open>
  Shared vocabulary of the development.  Python \<open>str\<close> values and \<open>bytes\<close> are both \<open>string\<close>
  (a list of 8-bit characters): a \<open>str\<close> is represented by the code units of its UTF-8
  (\<open>surrogatepass\<close>) encoding, so that equality, concatenation and code-point order agree with
  Python's, and SQLite's binary collation of TEXT is the lexicographic order of
  \<^theory_text>\<open>List_Lexorder\<close>.  A fallible routine returns \<open>exn + 'a\<close> (\<open>Inl\<close> the exception) and its
  statements are chained with \<open>bnd\<close>.
\<close>

type_synonym pystr = string
type_synonym bytes = string

named_theorems db_simps \<open>unfoldings of the database operations\<close>
named_theorems evolve_intros \<open>introduction rules for the evolution of stored rows\<close>

section \<open>Errors as values\<close>

definition bnd :: "'e + 'a \<Rightarrow> ('a \<Rightarrow> 'e + 'b) \<Rightarrow> 'e + 'b" where
  "bnd m f = (case m of Inl e \<Rightarrow> Inl e | Inr x \<Rightarrow> f x)"

lemma bnd_simps [simp]: "bnd (Inl e) f = Inl e" "bnd (Inr x) f = f x"
  by (simp_all add: bnd_def)

lemma bnd_eq_Inr: "bnd m f = Inr y \<longleftrightarrow> (\<exists>x. m = Inr x \<and> f x = Inr y)"
  by (cases m) auto

lemma bnd_eq_Inl: "bnd m f = Inl e \<longleftrightarrow> m = Inl e \<or> (\<exists>x. m = Inr x \<and> f x = Inl e)"
  by (cases m) auto

lemma bnd_cong [fundef_cong]:
  "m = m' \<Longrightarrow> (\<And>x. m' = Inr x \<Longrightarrow> f x = f' x) \<Longrightarrow> bnd m f = bnd m' f'"
  by (cases m') auto

lemma bnd_assoc: "bnd (bnd m f) g = bnd m (\<lambda>x. bnd (f x) g)"
  by (cases m) auto

definition require :: "bool \<Rightarrow> 'e \<Rightarrow> 'e + unit" where
  "require b e = (if b then Inr () else Inl e)"

lemma require_eq [simp]:
  "require b e = Inr u \<longleftrightarrow> b"
  "require b e = Inl e' \<longleftrightarrow> \<not> b \<and> e' = e"
  by (auto simp: require_def)

lemma bnd_require [simp]:
  "bnd (require b e) f = (if b then f () else Inl e)"
  by (simp add: require_def)

section \<open>SQL null and TEXT comparison\<close>

text \<open>
  A nullable column is an \<open>option\<close>.  In a WHERE clause built from AND and OR only, a comparison
  with NULL counts as false, which is what these two give.
\<close>

definition opt_le :: "pystr option \<Rightarrow> pystr \<Rightarrow> bool" where
  "opt_le c v = (case c of None \<Rightarrow> False | Some t \<Rightarrow> t \<le> v)"

definition opt_in :: "pystr option \<Rightarrow> pystr list \<Rightarrow> bool" where
  "opt_in c vs = (case c of None \<Rightarrow> False | Some t \<Rightarrow> t \<in> set vs)"

definition coalesce :: "'a option \<Rightarrow> 'a option \<Rightarrow> 'a option" where
  "coalesce a b = (case a of None \<Rightarrow> b | Some v \<Rightarrow> Some v)"

lemma opt_le_simps [simp]: "opt_le None v = False" "opt_le (Some t) v = (t \<le> v)"
  by (simp_all add: opt_le_def)

lemma opt_in_simps [simp]: "opt_in None vs = False" "opt_in (Some t) vs = (t \<in> set vs)"
  by (simp_all add: opt_in_def)

lemma coalesce_simps [simp]:
  "coalesce None b = b" "coalesce (Some v) b = Some v"
  by (simp_all add: coalesce_def)

lemma coalesce_eq_None [simp]: "coalesce a b = None \<longleftrightarrow> a = None \<and> b = None"
  by (cases a) auto

section \<open>Text helpers\<close>

text \<open>Decimal rendering of a natural number, as \<open>str\<close> of a Python int and SQL's CAST to TEXT do.\<close>

definition digit :: "nat \<Rightarrow> char" where
  "digit d = char_of (48 + d)"

fun dec :: "nat \<Rightarrow> pystr" where
  "dec n = (if n < 10 then [digit n] else dec (n div 10) @ [digit (n mod 10)])"

declare dec.simps [simp del]

definition dec_int :: "int \<Rightarrow> pystr" where
  "dec_int i = (if i < 0 then CHR ''-'' # dec (nat (- i)) else dec (nat i))"

definition is_digit :: "char \<Rightarrow> bool" where
  "is_digit c = (48 \<le> (of_char c :: nat) \<and> (of_char c :: nat) \<le> 57)"

definition digit_val :: "char \<Rightarrow> nat" where
  "digit_val c = of_char c - 48"

lemma of_char_digit: "d < 10 \<Longrightarrow> (of_char (digit d) :: nat) = 48 + d"
  by (simp add: digit_def)

lemma is_digit_digit [simp]: "d < 10 \<Longrightarrow> is_digit (digit d)"
  by (simp add: is_digit_def of_char_digit)

lemma digit_val_digit [simp]: "d < 10 \<Longrightarrow> digit_val (digit d) = d"
  by (simp add: digit_val_def of_char_digit)

lemma digit_inject: "d < 10 \<Longrightarrow> e < 10 \<Longrightarrow> digit d = digit e \<longleftrightarrow> d = e"
  by (metis digit_val_digit)

lemma digit_less_iff: "d < 10 \<Longrightarrow> e < 10 \<Longrightarrow> digit d < digit e \<longleftrightarrow> d < e"
  by (simp add: less_char_def of_char_digit)

lemma digit_le_iff: "d < 10 \<Longrightarrow> e < 10 \<Longrightarrow> digit d \<le> digit e \<longleftrightarrow> d \<le> e"
  by (simp add: less_eq_char_def of_char_digit)

lemma digit_eval [simp]:
  "digit 0 = CHR ''0''" "digit 1 = CHR ''1''" "digit (Suc 0) = CHR ''1''"
  "digit 2 = CHR ''2''" "digit 3 = CHR ''3''" "digit 4 = CHR ''4''" "digit 5 = CHR ''5''"
  "digit 6 = CHR ''6''" "digit 7 = CHR ''7''" "digit 8 = CHR ''8''" "digit 9 = CHR ''9''"
  by code_simp+

lemma dec_digits: "c \<in> set (dec n) \<Longrightarrow> is_digit c"
proof (induction n rule: dec.induct)
  case (1 n)
  then show ?case
    by (subst (asm) (2) dec.simps) (auto split: if_splits)
qed

definition undec :: "pystr \<Rightarrow> nat" where
  "undec s = foldl (\<lambda>n c. 10 * n + digit_val c) 0 s"

lemma undec_dec [simp]: "undec (dec n) = n"
proof (induction n rule: dec.induct)
  case (1 n)
  then show ?case
    by (subst dec.simps) (auto simp: undec_def)
qed

lemma dec_inject [simp]: "dec m = dec n \<longleftrightarrow> m = n"
  by (metis undec_dec)

lemma dec_not_Nil [simp]: "dec n \<noteq> []"
  by (subst dec.simps) simp

lemma colon_not_in_dec: "CHR '':'' \<notin> set (dec n)"
  using dec_digits [of "CHR '':''" n] by (auto simp: is_digit_def)

text \<open>SQL \<open>trim\<close>: spaces only, at both ends.\<close>

definition sql_trim :: "pystr \<Rightarrow> pystr" where
  "sql_trim s = rev (dropWhile (\<lambda>c. c = CHR '' '') (rev (dropWhile (\<lambda>c. c = CHR '' '') s)))"

text \<open>
  \<open>not value.strip()\<close>: the text consists of Unicode white space only.  The code units of the
  white-space code points are listed as Python's \<open>str.isspace\<close> has them.
\<close>

definition ascii_space :: "char \<Rightarrow> bool" where
  "ascii_space c = (let n = (of_char c :: nat) in 9 \<le> n \<and> n \<le> 13 \<or> 28 \<le> n \<and> n \<le> 32)"

definition wide_space :: "char \<Rightarrow> char \<Rightarrow> char \<Rightarrow> bool" where
  "wide_space a b c =
     (let x = (of_char a :: nat); y = (of_char b :: nat); z = (of_char c :: nat) in
      x = 225 \<and> y = 154 \<and> z = 128
      \<or> x = 226 \<and> y = 128 \<and> (128 \<le> z \<and> z \<le> 138 \<or> z = 168 \<or> z = 169 \<or> z = 175)
      \<or> x = 226 \<and> y = 129 \<and> z = 159
      \<or> x = 227 \<and> y = 128 \<and> z = 128)"

fun blank :: "pystr \<Rightarrow> bool" where
  "blank [] = True"
| "blank [a] = ascii_space a"
| "blank [a, b] =
     (if ascii_space a then ascii_space b
      else (of_char a :: nat) = 194 \<and> ((of_char b :: nat) = 133 \<or> (of_char b :: nat) = 160))"
| "blank (a # b # c # s) =
     (if ascii_space a then blank (b # c # s)
      else if (of_char a :: nat) = 194 \<and> ((of_char b :: nat) = 133 \<or> (of_char b :: nat) = 160)
      then blank (c # s)
      else if wide_space a b c then blank s
      else False)"

text \<open>
  \<open>str.strip()\<close>: \<open>lead_space\<close> and \<open>trail_space\<close> are the code units of a white-space code point at the
  start and at the end, 0 if there is none.
\<close>

definition narrow_space :: "char \<Rightarrow> char \<Rightarrow> bool" where
  "narrow_space a b = ((of_char a :: nat) = 194 \<and> ((of_char b :: nat) = 133 \<or> (of_char b :: nat) = 160))"

definition lead_space :: "pystr \<Rightarrow> nat" where
  "lead_space s =
     (case s of [] \<Rightarrow> 0
      | a # r \<Rightarrow> if ascii_space a then 1 else
          (case r of [] \<Rightarrow> 0
           | b # r' \<Rightarrow> if narrow_space a b then 2 else
               (case r' of [] \<Rightarrow> 0 | c # _ \<Rightarrow> if wide_space a b c then 3 else 0)))"

definition trail_space :: "pystr \<Rightarrow> nat" where
  "trail_space s =
     (case rev s of [] \<Rightarrow> 0
      | c # r \<Rightarrow> if ascii_space c then 1 else
          (case r of [] \<Rightarrow> 0
           | b # r' \<Rightarrow> if narrow_space b c then 2 else
               (case r' of [] \<Rightarrow> 0 | a # _ \<Rightarrow> if wide_space a b c then 3 else 0)))"

lemma lead_space_le: "lead_space s \<le> length s"
  by (auto simp: lead_space_def split: list.split)

lemma trail_space_le: "trail_space s \<le> length s"
  using length_rev [of s] by (auto simp: trail_space_def split: list.split simp del: length_rev)

lemma trail_space_pos: "0 < trail_space s \<Longrightarrow> length s - trail_space s < length s"
  by (rule diff_less) (auto simp: trail_space_def)

function lstrip :: "pystr \<Rightarrow> pystr" where
  "lstrip s = (if lead_space s = 0 then s else lstrip (drop (lead_space s) s))"
  by auto
termination
  by (relation "measure length") (use lead_space_le in \<open>auto simp: lead_space_def split: list.splits\<close>)

function rstrip :: "pystr \<Rightarrow> pystr" where
  "rstrip s = (if trail_space s = 0 then s else rstrip (take (length s - trail_space s) s))"
  by auto
termination
  by (relation "measure length") (auto dest: trail_space_pos)

declare lstrip.simps [simp del] rstrip.simps [simp del]

definition strip :: "pystr \<Rightarrow> pystr" where
  "strip s = rstrip (lstrip s)"

lemma lstrip_done [simp]: "lead_space s = 0 \<Longrightarrow> lstrip s = s"
  by (subst lstrip.simps) simp

lemma rstrip_done [simp]: "trail_space s = 0 \<Longrightarrow> rstrip s = s"
  by (subst rstrip.simps) simp

lemma lead_space_lstrip [simp]: "lead_space (lstrip s) = 0"
proof (induction s rule: lstrip.induct)
  case (1 s)
  then show ?case by (cases "lead_space s = 0") (auto simp: lstrip.simps [of s])
qed

lemma trail_space_rstrip [simp]: "trail_space (rstrip s) = 0"
proof (induction s rule: rstrip.induct)
  case (1 s)
  then show ?case by (cases "trail_space s = 0") (auto simp: rstrip.simps [of s])
qed

lemma lead_space_append: "lead_space p \<noteq> 0 \<Longrightarrow> lead_space (p @ q) = lead_space p"
  by (auto simp: lead_space_def split: list.splits if_splits)

lemma rstrip_prefix: "\<exists>q. s = rstrip s @ q"
proof (induction s rule: rstrip.induct)
  case (1 s)
  show ?case
  proof (cases "trail_space s = 0")
    case False
    with 1 obtain q where "take (length s - trail_space s) s = rstrip s @ q"
      by (auto simp: rstrip.simps [of s])
    then have "s = rstrip s @ q @ drop (length s - trail_space s) s"
      by (metis append.assoc append_take_drop_id)
    then show ?thesis by blast
  qed simp
qed

lemma lead_space_rstrip: "lead_space s = 0 \<Longrightarrow> lead_space (rstrip s) = 0"
  using rstrip_prefix [of s] lead_space_append by metis

lemma strip_idem [simp]: "strip (strip s) = strip s"
  by (simp add: strip_def lead_space_rstrip)

lemma blank_Nil_iff: "blank s \<longleftrightarrow> lstrip s = []"
proof (induction s rule: blank.induct)
  case (2 a)
  then show ?case by (simp add: lstrip.simps [of "[a]"] lead_space_def)
next
  case (3 a b)
  then show ?case
    by (simp add: lstrip.simps [of "[a, b]"] lstrip.simps [of "[b]"] lead_space_def narrow_space_def)
next
  case (4 a b c s)
  then show ?case
    by (subst lstrip.simps) (auto simp: lead_space_def narrow_space_def)
qed (simp add: lead_space_def)

lemma trail_space_unit: "length s = trail_space s \<Longrightarrow> s \<noteq> [] \<Longrightarrow> lead_space s \<noteq> 0"
proof -
  assume a: "length s = trail_space s" "s \<noteq> []"
  obtain t where t: "s = rev t" by (metis rev_rev_ident)
  with a show ?thesis
    by (auto simp: trail_space_def lead_space_def split: list.splits if_splits)
qed

lemma rstrip_Nil: "rstrip s = [] \<Longrightarrow> lead_space s = 0 \<Longrightarrow> s = []"
proof (induction s rule: rstrip.induct)
  case (1 s)
  show ?case
  proof (cases "trail_space s = 0")
    case False
    let ?p = "take (length s - trail_space s) s"
    have "lead_space ?p = 0"
      using 1(3) lead_space_append [of ?p "drop (length s - trail_space s) s"] by (cases "lead_space ?p = 0") auto
    with 1 False have "?p = []" by (simp add: rstrip.simps [of s])
    then have "length s = trail_space s \<or> s = []" using trail_space_le [of s] by auto
    with trail_space_unit 1(3) show ?thesis by blast
  qed (use 1 in simp)
qed

text \<open>\<open>not value.strip()\<close> in both readings.\<close>

lemma strip_Nil_iff [simp]: "strip s = [] \<longleftrightarrow> blank s"
proof
  assume "blank s"
  then have "lstrip s = []" by (simp add: blank_Nil_iff)
  then show "strip s = []" by (simp add: strip_def trail_space_def)
qed (simp add: strip_def blank_Nil_iff rstrip_Nil)

lemma blank_strip [simp]: "blank (strip s) = blank s"
  by (metis strip_Nil_iff strip_idem)

text \<open>A lowercase hexadecimal SHA-256 digest, as \<open>_LOWER_HEX\<close> checks it.\<close>

definition lower_hex :: "char \<Rightarrow> bool" where
  "lower_hex c = (c \<in> set ''0123456789abcdef'')"

definition is_sha256_hex :: "pystr \<Rightarrow> bool" where
  "is_sha256_hex s = (length s = 64 \<and> list_all lower_hex s)"

section \<open>Lists\<close>

lemma filter_unique:
  "distinct (map k xs) \<Longrightarrow> x \<in> set xs \<Longrightarrow> filter (\<lambda>y. k y = k x) xs = [x]"
proof (induction xs)
  case Nil
  then show ?case by simp
next
  case (Cons y ys)
  show ?case
  proof (cases "y = x")
    case True
    with Cons.prems(1) have "filter (\<lambda>z. k z = k x) ys = []"
      by (auto simp: filter_empty_conv image_iff)
    with True show ?thesis by simp
  next
    case False
    with Cons.prems have "x \<in> set ys" "k y \<noteq> k x"
      by (auto simp: image_iff)
    with Cons.IH Cons.prems(1) show ?thesis by simp
  qed
qed

lemma append_less_append:
  fixes xs ys us vs :: "'a::order list"
  assumes "length xs = length ys"
  shows "xs @ us < ys @ vs \<longleftrightarrow> xs < ys \<or> xs = ys \<and> us < vs"
  using assms by (induction xs ys rule: list_induct2) auto

lemma find_Some_in: "find P xs = Some x \<Longrightarrow> x \<in> set xs \<and> P x"
  by (auto simp: find_Some_iff)

lemma find_key:
  "distinct (map k xs) \<Longrightarrow> x \<in> set xs \<Longrightarrow> find (\<lambda>y. k y = k x) xs = Some x"
  by (induction xs) (auto simp: image_iff)

lemma find_map_preserve:
  "(\<And>x. P (f x) = P x) \<Longrightarrow> find P (map f xs) = map_option f (find P xs)"
  by (induction xs) auto

end
