(* ===== verification/Timestamps.thy ===== *)
theory Timestamps
  imports Prelude
begin

text \<open>
  Timestamps as the worker stores them.  An aware UTC \<open>datetime\<close> is its \<open>instant\<close>: the number of
  microseconds since 0001-01-01T00:00:00 UTC.  \<open>isoformat\<close> is the text every writer stores,
  \<open>fromisoformat\<close> the reader (extended calendar form; ISO week dates and separator-free basic
  forms, which no writer of the worker produces, are not modelled), and \<open>is_utc_timestamp\<close> the SQL
  function the schema's CHECK constraints call.  The main facts: the text order SQLite compares by
  is the chronological order, and reading back what was written gives the same instant.
\<close>

type_synonym instant = int

section \<open>The proleptic Gregorian calendar\<close>

definition leap :: "nat \<Rightarrow> bool" where
  "leap y = (y mod 4 = 0 \<and> (y mod 100 \<noteq> 0 \<or> y mod 400 = 0))"

definition year_len :: "nat \<Rightarrow> nat" where
  "year_len y = (if leap y then 366 else 365)"

definition month_len :: "nat \<Rightarrow> nat \<Rightarrow> nat" where
  "month_len y m =
     (if m = 2 then (if leap y then 29 else 28)
      else if m = 4 \<or> m = 6 \<or> m = 9 \<or> m = 11 then 30 else 31)"

definition days_before_year :: "nat \<Rightarrow> nat" where
  "days_before_year y = (let p = y - 1 in p * 365 + p div 4 - p div 100 + p div 400)"

fun days_before_month :: "nat \<Rightarrow> nat \<Rightarrow> nat" where
  "days_before_month y 0 = 0"
| "days_before_month y (Suc m) =
     (if m = 0 then 0 else days_before_month y m + month_len y m)"

definition days_of :: "nat \<Rightarrow> nat \<Rightarrow> nat \<Rightarrow> nat" where
  "days_of y m d = days_before_year y + days_before_month y m + (d - 1)"

lemma year_len_pos [simp]: "0 < year_len y"
  by (simp add: year_len_def)

function year_split :: "nat \<Rightarrow> nat \<Rightarrow> nat \<times> nat" where
  "year_split y d = (if d < year_len y then (y, d) else year_split (Suc y) (d - year_len y))"
  by pat_completeness auto
termination
  by (relation "measure snd") (auto simp: not_less intro: diff_less less_le_trans [OF year_len_pos])

declare year_split.simps [simp del]

function month_split :: "nat \<Rightarrow> nat \<Rightarrow> nat \<Rightarrow> nat \<times> nat" where
  "month_split y m d =
     (if m < 12 \<and> month_len y m \<le> d then month_split y (Suc m) (d - month_len y m) else (m, d))"
  by pat_completeness auto
termination
  by (relation "measure (\<lambda>(y, m, d). 12 - m)") auto

declare month_split.simps [simp del]

definition civil :: "nat \<Rightarrow> nat \<times> nat \<times> nat" where
  "civil n =
     (let (y, r) = year_split (400 * (n div 146097) + 1) (n mod 146097);
          (m, k) = month_split y 1 r
      in (y, m, k + 1))"

section \<open>Text form\<close>

fun pad :: "nat \<Rightarrow> nat \<Rightarrow> pystr" where
  "pad 0 n = []"
| "pad (Suc w) n = pad w (n div 10) @ [digit (n mod 10)]"

definition fraction_text :: "nat \<Rightarrow> pystr" where
  "fraction_text us = (if us = 0 then [] else CHR ''.'' # pad 6 us)"

definition max_instant :: instant where
  "max_instant = 3652059 * 86400 * 1000000"

definition valid_instant :: "instant \<Rightarrow> bool" where
  "valid_instant t = (0 \<le> t \<and> t < max_instant)"

definition clock_text :: "nat \<Rightarrow> pystr" where
  "clock_text s = pad 2 (s div 3600) @ '':'' @ pad 2 (s div 60 mod 60) @ '':'' @ pad 2 (s mod 60)"

definition date_text :: "nat \<Rightarrow> pystr" where
  "date_text n = (let (y, m, d) = civil n in pad 4 y @ ''-'' @ pad 2 m @ ''-'' @ pad 2 d)"

definition isoformat :: "instant \<Rightarrow> pystr" where
  "isoformat t =
     (let n = nat t; us = n mod 1000000; s = n div 1000000 in
      date_text (s div 86400) @ ''T'' @ clock_text (s mod 86400) @ fraction_text us @ ''+00:00'')"

section \<open>Reading\<close>

definition take_num :: "nat \<Rightarrow> pystr \<Rightarrow> (nat \<times> pystr) option" where
  "take_num w s =
     (if w \<le> length s \<and> list_all is_digit (take w s)
      then Some (undec (take w s), drop w s) else None)"

definition take_char :: "char \<Rightarrow> pystr \<Rightarrow> pystr option" where
  "take_char c s = (case s of [] \<Rightarrow> None | a # r \<Rightarrow> if a = c then Some r else None)"

definition parse_date :: "pystr \<Rightarrow> (nat \<times> pystr) option" where
  "parse_date s =
     Option.bind (take_num 4 s) (\<lambda>(y, s).
     Option.bind (take_char (CHR ''-'') s) (\<lambda>s.
     Option.bind (take_num 2 s) (\<lambda>(m, s).
     Option.bind (take_char (CHR ''-'') s) (\<lambda>s.
     Option.bind (take_num 2 s) (\<lambda>(d, s).
       if 1 \<le> y \<and> 1 \<le> m \<and> m \<le> 12 \<and> 1 \<le> d \<and> d \<le> month_len y m
       then Some (days_of y m d, s) else None)))))"

text \<open>Hours, then optional minutes and seconds: seconds of the day and the rest.\<close>

definition parse_hms :: "pystr \<Rightarrow> (nat \<times> pystr) option" where
  "parse_hms s =
     Option.bind (take_num 2 s) (\<lambda>(h, s). if 23 < h then None else
       (case take_char (CHR '':'') s of None \<Rightarrow> Some (h * 3600, s)
        | Some s \<Rightarrow> Option.bind (take_num 2 s) (\<lambda>(mi, s). if 59 < mi then None else
           (case take_char (CHR '':'') s of None \<Rightarrow> Some (h * 3600 + mi * 60, s)
            | Some s \<Rightarrow> Option.bind (take_num 2 s) (\<lambda>(se, s). if 59 < se then None else
               Some (h * 3600 + mi * 60 + se, s))))))"

text \<open>An optional fraction; digits past the sixth are dropped, fewer than six are padded.\<close>

definition parse_fraction :: "pystr \<Rightarrow> (nat \<times> pystr) option" where
  "parse_fraction s =
     (case s of [] \<Rightarrow> Some (0, [])
      | c # r \<Rightarrow>
        if c = CHR ''.'' \<or> c = CHR '','' then
          (let ds = takeWhile is_digit r in
           if ds = [] then None
           else Some (undec (take 6 (ds @ ''000000'')), dropWhile is_digit r))
        else Some (0, s))"

text \<open>An optional zone: none, \<open>Z\<close>, or a signed offset in seconds.\<close>

definition parse_zone :: "pystr \<Rightarrow> int option option" where
  "parse_zone s =
     (case s of [] \<Rightarrow> Some None
      | c # r \<Rightarrow>
        if c = CHR ''Z'' \<and> r = [] then Some (Some 0)
        else if c = CHR ''+'' \<or> c = CHR ''-'' then
          (case parse_hms r of
             Some (n, []) \<Rightarrow> Some (Some (if c = CHR ''-'' then - int n else int n))
           | _ \<Rightarrow> None)
        else None)"

text \<open>
  \<open>datetime.fromisoformat\<close>: the local microseconds and the UTC offset in seconds, \<open>None\<close> for a
  naive value; \<open>None\<close> as a whole is the \<open>ValueError\<close>.
\<close>

definition fromisoformat :: "pystr \<Rightarrow> (int \<times> int option) option" where
  "fromisoformat s =
     Option.bind (parse_date s) (\<lambda>(n, s).
       (case s of [] \<Rightarrow> Some (int n * 86400 * 1000000, None)
        | _ # s \<Rightarrow>
          Option.bind (parse_hms s) (\<lambda>(sec, s).
          Option.bind (parse_fraction s) (\<lambda>(us, s).
          Option.bind (parse_zone s) (\<lambda>z.
            Some ((int n * 86400 + int sec) * 1000000 + int us, z))))))"

definition is_utc_timestamp :: "pystr \<Rightarrow> bool" where
  "is_utc_timestamp v =
     (case fromisoformat v of
        Some (t, Some off) \<Rightarrow> off = 0 \<and> isoformat t = v
      | _ \<Rightarrow> False)"

text \<open>
  \<open>_domain_timestamp\<close>, \<open>_stored_datetime\<close> and \<open>_aware_utc(datetime.fromisoformat(...))\<close>: an aware
  text becomes its UTC instant, anything else is refused.
\<close>

definition parse_aware :: "pystr \<Rightarrow> instant option" where
  "parse_aware v =
     (case fromisoformat v of
        Some (t, Some off) \<Rightarrow> Some (t - off * 1000000)
      | _ \<Rightarrow> None)"

section \<open>Calendar facts\<close>

lemma Suc_div_count:
  "0 < n \<Longrightarrow> Suc p div n = p div n + (if Suc p mod n = 0 then 1 else 0)"
  by (simp add: div_Suc)

lemma days_before_year_Suc:
  assumes "1 \<le> y"
  shows "days_before_year (Suc y) = days_before_year y + year_len y"
proof -
  obtain p where y: "y = Suc p" using assms by (cases y) auto
  define a b c a' b' c' where abc: "a = p div 4" "b = p div 100" "c = p div 400"
    "a' = Suc p div 4" "b' = Suc p div 100" "c' = Suc p div 400"
  have le: "b \<le> a" "b' \<le> a'"
    unfolding abc by (simp_all add: div_le_mono2)
  have imp: "Suc p mod 400 = 0 \<Longrightarrow> Suc p mod 100 = 0" "Suc p mod 100 = 0 \<Longrightarrow> Suc p mod 4 = 0"
    by presburger+
  have step: "a' = a + (if Suc p mod 4 = 0 then 1 else 0)"
    "b' = b + (if Suc p mod 100 = 0 then 1 else 0)"
    "c' = c + (if Suc p mod 400 = 0 then 1 else 0)"
    unfolding abc by (rule Suc_div_count, simp)+
  have lhs: "days_before_year (Suc y) = Suc p * 365 + a' - b' + c'"
    and rhs: "days_before_year y = p * 365 + a - b + c"
    unfolding abc by (simp_all only: days_before_year_def y Let_def diff_Suc_1)
  have len: "year_len y = (if Suc p mod 4 = 0 \<and> (Suc p mod 100 \<noteq> 0 \<or> Suc p mod 400 = 0) then 366 else 365)"
    by (simp only: year_len_def leap_def y)
  show ?thesis
    using le imp unfolding lhs rhs len step
    by (cases "Suc p mod 4 = 0"; cases "Suc p mod 100 = 0"; cases "Suc p mod 400 = 0") simp_all
qed

lemma days_before_year_mono:
  assumes "1 \<le> y" "y \<le> y'"
  shows "days_before_year y \<le> days_before_year y'"
  using assms(2)
proof (induction y' rule: dec_induct)
  case base
  then show ?case by simp
next
  case (step n)
  then show ?case using assms(1) days_before_year_Suc [of n] by simp
qed

lemma days_before_year_era: "days_before_year (400 * e + 1) = 146097 * e"
proof -
  have "400 * e div 4 = 100 * e" "400 * e div 100 = 4 * e" by simp_all
  then show ?thesis by (simp add: days_before_year_def Let_def)
qed

lemma days_before_month_13: "days_before_month y 13 = year_len y"
  by (simp add: eval_nat_numeral month_len_def year_len_def)

lemma days_before_month_mono: "m \<le> m' \<Longrightarrow> days_before_month y m \<le> days_before_month y m'"
  by (induction m' rule: dec_induct) auto

lemma year_split_spec:
  assumes "1 \<le> y" "year_split y d = (y', r)"
  shows "y \<le> y' \<and> r < year_len y' \<and> days_before_year y + d = days_before_year y' + r"
  using assms
proof (induction y d rule: year_split.induct)
  case (1 y d)
  show ?case
  proof (cases "d < year_len y")
    case True
    with "1.prems" show ?thesis by (simp add: year_split.simps [of y d])
  next
    case False
    with "1.prems" have "year_split (Suc y) (d - year_len y) = (y', r)"
      by (simp add: year_split.simps [of y d])
    with "1.IH" False "1.prems"(1) days_before_year_Suc [of y] show ?thesis by auto
  qed
qed

lemma month_split_spec:
  assumes "1 \<le> m" "m \<le> 12" "days_before_month y m + d < year_len y" "month_split y m d = (m', k)"
  shows "m \<le> m' \<and> m' \<le> 12 \<and> k < month_len y m'
    \<and> days_before_month y m + d = days_before_month y m' + k"
  using assms
proof (induction y m d rule: month_split.induct)
  case (1 y m d)
  show ?case
  proof (cases "m < 12 \<and> month_len y m \<le> d")
    case True
    with "1.prems" have "month_split y (Suc m) (d - month_len y m) = (m', k)"
      by (simp add: month_split.simps [of y m d])
    with "1.IH" True "1.prems" show ?thesis by auto
  next
    case False
    with "1.prems" have eq: "m' = m" "k = d"
      by (auto simp: month_split.simps [of y m d])
    have "d < month_len y m"
    proof (cases "m = 12")
      case True
      with "1.prems"(3) days_before_month_13 [of y] show ?thesis
        by (simp add: eval_nat_numeral)
    next
      case False
      with \<open>\<not> (m < 12 \<and> month_len y m \<le> d)\<close> "1.prems"(2) show ?thesis by simp
    qed
    with eq "1.prems" show ?thesis by simp
  qed
qed

definition date_ok :: "nat \<Rightarrow> nat \<Rightarrow> nat \<Rightarrow> bool" where
  "date_ok y m d = (1 \<le> y \<and> 1 \<le> m \<and> m \<le> 12 \<and> 1 \<le> d \<and> d \<le> month_len y m)"

lemma civil_spec:
  assumes "civil n = (y, m, d)"
  shows "date_ok y m d \<and> days_of y m d = n"
proof -
  obtain y' r where yr: "year_split (400 * (n div 146097) + 1) (n mod 146097) = (y', r)"
    by fastforce
  obtain m' k where mk: "month_split y' 1 r = (m', k)"
    by fastforce
  from assms yr mk have eqs: "y = y'" "m = m'" "d = k + 1"
    by (simp_all add: civil_def)
  from year_split_spec [OF _ yr] have y: "1 \<le> y'" "r < year_len y'"
    and sum: "146097 * (n div 146097) + n mod 146097 = days_before_year y' + r"
    by (auto simp: days_before_year_era simp del: One_nat_def)
  have "month_len y' 1 \<noteq> 0" by (simp add: month_len_def)
  with month_split_spec [OF _ _ _ mk] y(2)
  have "1 \<le> m'" "m' \<le> 12" "k < month_len y' m'" "r = days_before_month y' m' + k"
    by auto
  with eqs y(1) sum show ?thesis
    by (simp add: date_ok_def days_of_def)
qed

lemma date_before_year_end: "date_ok y m d \<Longrightarrow> days_of y m d < days_before_year (Suc y)"
proof -
  assume ok: "date_ok y m d"
  then have "days_before_month y m + (d - 1) < days_before_month y (Suc m)"
    by (auto simp: date_ok_def)
  also have "\<dots> \<le> days_before_month y 13"
    using ok by (intro days_before_month_mono) (simp add: date_ok_def)
  finally show ?thesis
    using ok days_before_year_Suc [of y] by (simp add: days_of_def days_before_month_13 date_ok_def)
qed

lemma days_of_less:
  assumes ok: "date_ok y m d" "date_ok y' m' d'"
    and less: "y < y' \<or> y = y' \<and> (m < m' \<or> m = m' \<and> d < d')"
  shows "days_of y m d < days_of y' m' d'"
proof (cases "y < y'")
  case True
  with ok have "days_before_year (Suc y) \<le> days_before_year y'"
    by (intro days_before_year_mono) auto
  with date_before_year_end [OF ok(1)] show ?thesis by (simp add: days_of_def)
next
  case False
  with less have y: "y' = y" by simp
  show ?thesis
  proof (cases "m < m'")
    case True
    then have "days_before_month y (Suc m) \<le> days_before_month y m'"
      by (intro days_before_month_mono) simp
    with ok True show ?thesis by (auto simp: days_of_def date_ok_def y)
  next
    case False
    with less y ok show ?thesis by (auto simp: days_of_def date_ok_def)
  qed
qed

lemma date_year_bound: "date_ok y m d \<Longrightarrow> days_of y m d < 3652059 \<Longrightarrow> y \<le> 9999"
proof (rule ccontr)
  assume ok: "date_ok y m d" "days_of y m d < 3652059" and "\<not> y \<le> 9999"
  then have "days_before_year 10000 \<le> days_before_year y"
    by (intro days_before_year_mono) auto
  moreover have "days_before_year 10000 = 3652059"
    by (simp add: days_before_year_def)
  ultimately show False using ok by (simp add: days_of_def)
qed

section \<open>The text order is the chronological order\<close>

lemma div_mod_less:
  fixes m n k :: nat
  assumes "m < n"
  shows "m div k < n div k \<or> m div k = n div k \<and> m mod k < n mod k"
proof (cases "m div k = n div k")
  case True
  with assms show ?thesis by (metis div_mult_mod_eq nat_add_left_cancel_less)
next
  case False
  moreover have "m div k \<le> n div k" using assms by (intro div_le_mono) simp
  ultimately show ?thesis by simp
qed

lemma length_pad [simp]: "length (pad w n) = w"
  by (induction w arbitrary: n) simp_all

lemma pad_numeral [simp]:
  "pad (numeral w) n = pad (pred_numeral w) (n div 10) @ [digit (n mod 10)]"
  by (simp only: numeral_eq_Suc pad.simps)

lemma pad_less:
  "m < n \<Longrightarrow> n < 10 ^ w \<Longrightarrow> pad w m < pad w n"
proof (induction w arbitrary: m n)
  case 0
  then show ?case by simp
next
  case (Suc w)
  show ?case
  proof (cases "m div 10 = n div 10")
    case True
    with Suc.prems(1) have "m mod 10 < n mod 10"
      by (metis div_mult_mod_eq nat_add_left_cancel_less)
    with True show ?thesis by (simp add: append_less_append digit_less_iff)
  next
    case False
    with Suc.prems(1) have "m div 10 < n div 10"
      by (metis div_le_mono less_or_eq_imp_le nat_less_le)
    moreover have "n div 10 < 10 ^ w"
      using Suc.prems(2) by (simp add: less_mult_imp_div_less mult.commute)
    ultimately show ?thesis
      using Suc.IH by (simp add: append_less_append)
  qed
qed

lemma length_date_text [simp]: "length (date_text n) = 10"
  by (simp add: date_text_def split: prod.split del: pad_numeral)

lemma length_clock_text [simp]: "length (clock_text n) = 8"
  by (simp add: clock_text_def del: pad_numeral)

lemma date_text_less:
  assumes "n < n'" "n' < 3652059"
  shows "date_text n < date_text n'"
proof -
  obtain y m d y' m' d' where c: "civil n = (y, m, d)" "civil n' = (y', m', d')"
    by (metis prod_cases3)
  from civil_spec [OF c(1)] civil_spec [OF c(2)]
  have ok: "date_ok y m d" "date_ok y' m' d'" and n: "n = days_of y m d" "n' = days_of y' m' d'"
    by auto
  have "y < y' \<or> y = y' \<and> (m < m' \<or> m = m' \<and> d < d')"
    using days_of_less [OF ok(2,1)] assms(1) n by (metis less_asym nat_neq_iff)
  moreover have "y' \<le> 9999" using date_year_bound [OF ok(2)] n assms by simp
  moreover have "m' \<le> 12" "d' \<le> 31" using ok(2) by (auto simp: date_ok_def month_len_def split: if_splits)
  ultimately show ?thesis
    using pad_less [of y y' 4] pad_less [of m m' 2] pad_less [of d d' 2]
    by (auto simp: date_text_def c append_less_append simp del: pad_numeral)
qed

lemma clock_text_less:
  assumes "s < s'" "s' < 86400"
  shows "clock_text s < clock_text s'"
proof -
  have h: "s' div 3600 < 10 ^ 2" "s' div 60 mod 60 < 10 ^ 2" "s' mod 60 < 10 ^ 2"
    using assms(2) by (auto intro: less_le_trans [OF mod_less_divisor])
  have "s div 3600 < s' div 3600
    \<or> s div 3600 = s' div 3600 \<and> (s div 60 mod 60 < s' div 60 mod 60
      \<or> s div 60 mod 60 = s' div 60 mod 60 \<and> s mod 60 < s' mod 60)"
  proof -
    have "s div 3600 = s div 60 div 60" "s' div 3600 = s' div 60 div 60"
      by (simp_all add: div_mult2_eq [symmetric])
    then show ?thesis
      using div_mod_less [OF assms(1), of 60] div_mod_less [of "s div 60" "s' div 60" 60] by auto
  qed
  with h show ?thesis
    using pad_less [of "s div 3600" "s' div 3600" 2] pad_less [of "s div 60 mod 60" "s' div 60 mod 60" 2]
      pad_less [of "s mod 60" "s' mod 60" 2]
    by (auto simp: clock_text_def append_less_append simp del: pad_numeral)
qed

lemma fraction_text_less:
  assumes "u < u'" "u' < 1000000"
  shows "fraction_text u @ ''+00:00'' < fraction_text u' @ ''+00:00''"
proof (cases "u = 0")
  case True
  then show ?thesis using assms by (simp add: fraction_text_def del: pad_numeral)
next
  case False
  then show ?thesis
    using assms pad_less [of u u' 6] by (simp add: fraction_text_def append_less_append del: pad_numeral)
qed

lemma isoformat_less:
  assumes "valid_instant t" "valid_instant u" "t < u"
  shows "isoformat t < isoformat u"
proof -
  define n where "n = nat t"
  define m where "m = nat u"
  have nm: "n < m" using assms by (simp add: n_def m_def valid_instant_def)
  have bound: "m < 3652059 * 86400 * 1000000"
    using assms(2) unfolding m_def valid_instant_def max_instant_def by linarith
  let ?d = "\<lambda>k. k div 1000000 div 86400" and ?s = "\<lambda>k. k div 1000000 mod 86400"
  have "?d n < ?d m \<or> ?d n = ?d m \<and> (?s n < ?s m \<or> ?s n = ?s m \<and> n mod 1000000 < m mod 1000000)"
    using div_mod_less [OF nm, of 1000000] div_mod_less [of "n div 1000000" "m div 1000000" 86400]
    by auto
  moreover have "?d m < 3652059" using bound by (simp add: less_mult_imp_div_less)
  ultimately show ?thesis
    using date_text_less [of "?d n" "?d m"] clock_text_less [of "?s n" "?s m"]
      fraction_text_less [of "n mod 1000000" "m mod 1000000"]
    by (auto simp: isoformat_def Let_def n_def [symmetric] m_def [symmetric] append_less_append
        less_imp_le simp del: append_assoc)
qed

lemma isoformat_le_iff:
  "valid_instant t \<Longrightarrow> valid_instant u \<Longrightarrow> isoformat t \<le> isoformat u \<longleftrightarrow> t \<le> u"
  by (metis isoformat_less less_le_not_le linorder_le_less_linear order_le_less)

section \<open>Reading back what was written\<close>

lemma pad_digits: "c \<in> set (pad w n) \<Longrightarrow> is_digit c"
  by (induction w arbitrary: n) auto

lemma undec_snoc: "undec (s @ [c]) = 10 * undec s + digit_val c"
  by (simp add: undec_def)

lemma undec_pad: "n < 10 ^ w \<Longrightarrow> undec (pad w n) = n"
proof (induction w arbitrary: n)
  case 0
  then show ?case by (simp add: undec_def)
next
  case (Suc w)
  then have "undec (pad w (n div 10)) = n div 10"
    by (simp add: less_mult_imp_div_less mult.commute)
  then show ?case by (simp add: undec_snoc)
qed

lemma take_num_pad: "n < 10 ^ w \<Longrightarrow> take_num w (pad w n @ r) = Some (n, r)"
  by (auto simp: take_num_def undec_pad list_all_iff dest: pad_digits)

lemma take_char_Cons [simp]: "take_char c (a # r) = (if a = c then Some r else None)"
  by (simp add: take_char_def)

lemma parse_date_text:
  assumes "n < 3652059"
  shows "parse_date (date_text n @ r) = Some (n, r)"
proof -
  obtain y m d where c: "civil n = (y, m, d)" by (metis prod_cases3)
  with civil_spec have ok: "date_ok y m d" and n: "days_of y m d = n" by auto
  have "y \<le> 9999" using date_year_bound [OF ok] n assms by simp
  moreover have "m \<le> 12" "d \<le> 31" using ok by (auto simp: date_ok_def month_len_def split: if_splits)
  ultimately show ?thesis
    using ok n by (simp add: date_text_def c parse_date_def take_num_pad date_ok_def del: pad_numeral)
qed

lemma div_mod_twice:
  fixes m k j :: nat
  shows "(m div k div j * j + m div k mod j) * k + m mod k = m"
  by (simp only: div_mult_mod_eq)

lemma parse_clock_text:
  assumes "s < 86400"
  shows "parse_hms (clock_text s @ r) = Some (s, r)"
proof -
  have h: "s div 3600 \<le> 23" using assms by (simp add: less_mult_imp_div_less flip: less_Suc_eq_le)
  have m: "s div 60 mod 60 \<le> 59" "s mod 60 \<le> 59"
    by (simp_all flip: less_Suc_eq_le)
  have hours: "s div 3600 = s div 60 div 60" by (simp add: div_mult2_eq [symmetric])
  have regroup: "a * 3600 + b * 60 + c = (a * 60 + b) * 60 + c" for a b c :: nat by simp
  have sum: "s div 3600 * 3600 + s div 60 mod 60 * 60 + s mod 60 = s"
    unfolding hours regroup by (rule div_mod_twice)
  show ?thesis
    using h m sum by (simp add: clock_text_def parse_hms_def take_num_pad del: pad_numeral)
qed

lemma parse_fraction_text:
  assumes "us < 1000000"
  shows "parse_fraction (fraction_text us @ CHR ''+'' # r) = Some (us, CHR ''+'' # r)"
proof (cases "us = 0")
  case True
  then show ?thesis by (simp add: parse_fraction_def fraction_text_def)
next
  case False
  have nd: "\<not> is_digit CHR ''+''" by (simp add: is_digit_def)
  have "takeWhile is_digit (pad 6 us @ CHR ''+'' # r) = pad 6 us"
    "dropWhile is_digit (pad 6 us @ CHR ''+'' # r) = CHR ''+'' # r"
    using nd by (auto simp: takeWhile_append dropWhile_append dest: pad_digits simp del: pad_numeral)
  moreover have "pad 6 us \<noteq> []" using length_pad [of 6 us] by (auto simp del: length_pad pad_numeral)
  ultimately show ?thesis
    using False assms by (simp add: parse_fraction_def fraction_text_def undec_pad del: pad_numeral)
qed

lemma parse_zone_utc: "parse_zone ''+00:00'' = Some (Some 0)"
  by (simp add: parse_zone_def parse_hms_def take_num_def undec_def is_digit_def digit_val_def
      take_char_def eval_nat_numeral)

lemma fromisoformat_isoformat:
  assumes "valid_instant t"
  shows "fromisoformat (isoformat t) = Some (t, Some 0)"
proof -
  define n where "n = nat t"
  have t: "t = int n" using assms by (simp add: n_def valid_instant_def)
  have "n < 3652059 * 86400 * 1000000"
    using assms unfolding n_def valid_instant_def max_instant_def by linarith
  then have d: "n div 1000000 div 86400 < 3652059" by (simp add: less_mult_imp_div_less)
  have sum: "(int (n div 1000000 div 86400) * 86400 + int (n div 1000000 mod 86400)) * 1000000
      + int (n mod 1000000) = t"
    using arg_cong [OF div_mod_twice [of n 1000000 86400], of int]
    by (simp only: of_nat_add of_nat_mult of_nat_numeral t)
  have iso: "isoformat t = date_text (n div 1000000 div 86400) @ CHR ''T''
      # clock_text (n div 1000000 mod 86400) @ fraction_text (n mod 1000000) @ ''+00:00''"
    by (simp add: isoformat_def Let_def n_def)
  have parts: "parse_date (isoformat t) = Some (n div 1000000 div 86400, CHR ''T''
      # clock_text (n div 1000000 mod 86400) @ fraction_text (n mod 1000000) @ ''+00:00'')"
    unfolding iso using d by (rule parse_date_text)
  show ?thesis
    unfolding fromisoformat_def parts
    by (simp only: bind.bind_lunit prod.case list.case parse_zone_utc
        parse_clock_text [OF mod_less_divisor] parse_fraction_text [OF mod_less_divisor] sum)
qed

lemma parse_aware_isoformat: "valid_instant t \<Longrightarrow> parse_aware (isoformat t) = Some t"
  by (simp add: parse_aware_def fromisoformat_isoformat)

lemma is_utc_timestamp_isoformat: "valid_instant t \<Longrightarrow> is_utc_timestamp (isoformat t)"
  by (simp add: is_utc_timestamp_def fromisoformat_isoformat)

lemma isoformat_inject:
  "valid_instant t \<Longrightarrow> valid_instant u \<Longrightarrow> isoformat t = isoformat u \<longleftrightarrow> t = u"
  by (metis fst_conv fromisoformat_isoformat option.inject)

end
