(* ===== verification/JobStates.thy ===== *)
theory JobStates
  imports Timestamps
begin

text \<open>
  The exceptions of \<open>errors.py\<close> (with the builtin ones the services raise) and the durable job
  states with their transition graph (\<open>domain/jobs.py\<close>).
\<close>

section \<open>Exceptions\<close>

datatype exn =
    CanonicalizationError | NotFound | VersionConflict | CompanyArchived | StateConflict
  | InvalidTransition | DataIntegrityError | MigrationError | ApprovalInvalid | CallbackRejected
  | ValueError | TypeError | LookupError | TimeoutError | RuntimeError | OverflowError | AttributeError
  | SqliteIntegrityError | SqliteOperationalError
  | SignatureVerificationError
  | ExecutorError pystr pystr "int option"
  | OtherError

text \<open>The stable code a class carries, where it carries one.\<close>

fun error_code_of :: "exn \<Rightarrow> pystr option" where
  "error_code_of VersionConflict = Some ''VERSION_CONFLICT''"
| "error_code_of CompanyArchived = Some ''COMPANY_ARCHIVED''"
| "error_code_of StateConflict = Some ''STATE_CONFLICT''"
| "error_code_of InvalidTransition = Some ''INVALID_TRANSITION''"
| "error_code_of DataIntegrityError = Some ''DATA_INTEGRITY''"
| "error_code_of MigrationError = Some ''MIGRATION_INVALID''"
| "error_code_of ApprovalInvalid = Some ''APPROVAL_INVALID''"
| "error_code_of CallbackRejected = Some ''CALLBACK_REJECTED''"
| "error_code_of (ExecutorError code _ _) = Some code"
| "error_code_of _ = None"

text \<open>\<open>except (TypeError, ValueError)\<close>: \<open>CanonicalizationError\<close> is a subclass of \<open>TypeError\<close>,
  \<open>SignatureVerificationError\<close> of \<open>ValueError\<close>.\<close>

fun type_or_value_error :: "exn \<Rightarrow> bool" where
  "type_or_value_error TypeError = True"
| "type_or_value_error ValueError = True"
| "type_or_value_error CanonicalizationError = True"
| "type_or_value_error SignatureVerificationError = True"
| "type_or_value_error _ = False"

section \<open>Job states\<close>

datatype job_state =
    DRAFT | VALIDATED | PLANNED | AWAITING_PAID_APPROVAL | QUEUED | RUNNING
  | FAILED_RETRYABLE | FAILED_FINAL | CANCELED | SUCCEEDED | AWAITING_EXPORT_APPROVAL | EXPORTED

fun state_value :: "job_state \<Rightarrow> pystr" where
  "state_value DRAFT = ''DRAFT''"
| "state_value VALIDATED = ''VALIDATED''"
| "state_value PLANNED = ''PLANNED''"
| "state_value AWAITING_PAID_APPROVAL = ''AWAITING_PAID_APPROVAL''"
| "state_value QUEUED = ''QUEUED''"
| "state_value RUNNING = ''RUNNING''"
| "state_value FAILED_RETRYABLE = ''FAILED_RETRYABLE''"
| "state_value FAILED_FINAL = ''FAILED_FINAL''"
| "state_value CANCELED = ''CANCELED''"
| "state_value SUCCEEDED = ''SUCCEEDED''"
| "state_value AWAITING_EXPORT_APPROVAL = ''AWAITING_EXPORT_APPROVAL''"
| "state_value EXPORTED = ''EXPORTED''"

definition all_job_states :: "job_state list" where
  "all_job_states =
     [DRAFT, VALIDATED, PLANNED, AWAITING_PAID_APPROVAL, QUEUED, RUNNING, FAILED_RETRYABLE,
      FAILED_FINAL, CANCELED, SUCCEEDED, AWAITING_EXPORT_APPROVAL, EXPORTED]"

text \<open>\<open>JobState(text)\<close>: \<open>None\<close> is the \<open>ValueError\<close> of an unknown value.\<close>

definition job_state_of :: "pystr \<Rightarrow> job_state option" where
  "job_state_of s = find (\<lambda>st. state_value st = s) all_job_states"

definition ALLOWED_TRANSITIONS :: "(job_state \<times> job_state) list" where
  "ALLOWED_TRANSITIONS =
     [(DRAFT, VALIDATED), (VALIDATED, PLANNED), (PLANNED, AWAITING_PAID_APPROVAL),
      (AWAITING_PAID_APPROVAL, QUEUED), (QUEUED, RUNNING), (RUNNING, SUCCEEDED),
      (SUCCEEDED, AWAITING_EXPORT_APPROVAL), (AWAITING_EXPORT_APPROVAL, EXPORTED),
      (QUEUED, FAILED_RETRYABLE), (RUNNING, FAILED_RETRYABLE), (FAILED_RETRYABLE, QUEUED),
      (QUEUED, CANCELED), (RUNNING, CANCELED), (RUNNING, FAILED_FINAL)]"

definition is_transition_allowed :: "job_state \<Rightarrow> job_state \<Rightarrow> bool" where
  "is_transition_allowed source target = ((source, target) \<in> set ALLOWED_TRANSITIONS)"

lemma all_job_states_complete: "st \<in> set all_job_states"
  by (cases st) (simp_all add: all_job_states_def)

lemma state_value_inject [simp]: "state_value a = state_value b \<longleftrightarrow> a = b"
  by (cases a; cases b) simp_all

lemma job_state_of_value [simp]: "job_state_of (state_value st) = Some st"
  by (cases st) (simp_all add: job_state_of_def all_job_states_def)

lemma job_state_of_Some: "job_state_of s = Some st \<longleftrightarrow> s = state_value st"
proof
  assume "job_state_of s = Some st"
  then show "s = state_value st"
    unfolding job_state_of_def by (auto dest: find_Some_in)
qed simp

text \<open>A job leaves these states never.\<close>

definition dead_end :: "job_state \<Rightarrow> bool" where
  "dead_end st = list_all (\<lambda>t. \<not> is_transition_allowed st t) all_job_states"

lemma dead_end_iff: "dead_end st \<longleftrightarrow> st \<in> {FAILED_FINAL, CANCELED, EXPORTED}"
  by (cases st) (simp_all add: dead_end_def all_job_states_def is_transition_allowed_def ALLOWED_TRANSITIONS_def)

text \<open>Runs of the graph.\<close>

inductive reaches :: "job_state \<Rightarrow> job_state \<Rightarrow> bool" where
  reaches_refl: "reaches s s"
| reaches_step: "reaches s t \<Longrightarrow> is_transition_allowed t u \<Longrightarrow> reaches s u"

inductive_cases reaches_step_cases: "reaches s u"

lemma reaches_trans:
  assumes "reaches s t" "reaches t u"
  shows "reaches s u"
  using assms(2,1) by (induction rule: reaches.induct) (auto intro: reaches_step)

text \<open>
  Every path from before the paid approval to a state in or after execution passes the paid
  approval gate: \<open>pre_approval\<close> states can only be left through \<open>AWAITING_PAID_APPROVAL \<rightarrow> QUEUED\<close>.
\<close>

definition pre_approval :: "job_state \<Rightarrow> bool" where
  "pre_approval st = (st \<in> {DRAFT, VALIDATED, PLANNED, AWAITING_PAID_APPROVAL})"

lemma pre_approval_exit:
  "is_transition_allowed s t \<Longrightarrow> pre_approval s \<Longrightarrow> \<not> pre_approval t
   \<Longrightarrow> s = AWAITING_PAID_APPROVAL \<and> t = QUEUED"
  by (cases s; cases t) (simp_all add: is_transition_allowed_def ALLOWED_TRANSITIONS_def pre_approval_def)

lemma pre_approval_no_entry:
  "is_transition_allowed s t \<Longrightarrow> pre_approval t \<Longrightarrow> pre_approval s"
  by (cases s; cases t) (simp_all add: is_transition_allowed_def ALLOWED_TRANSITIONS_def pre_approval_def)

end
