(* ===== verification/SqlTable.thy ===== *)
theory SqlTable
  imports JobStates
begin

text \<open>
  SQLite tables as lists of rows in rowid order.  An UPDATE visits the rows that match its WHERE
  clause; each new row is judged by the table's BEFORE UPDATE triggers (\<open>Abort\<close>: RAISE(ABORT)) and
  its declared constraints (\<open>Conflict\<close>: CHECK or UNIQUE), against the other rows as they are at that
  moment.  The statement fails as a whole with \<open>sqlite3.IntegrityError\<close>; under UPDATE OR IGNORE a
  conflicting row is left alone.  The second component of the result is \<open>cursor.rowcount\<close>.
\<close>

datatype verdict = Pass | Abort | Conflict

fun sql_update ::
  "bool \<Rightarrow> ('r list \<Rightarrow> 'r \<Rightarrow> 'r \<Rightarrow> verdict) \<Rightarrow> ('r \<Rightarrow> bool) \<Rightarrow> ('r \<Rightarrow> 'r) \<Rightarrow> 'r list \<Rightarrow> 'r list
   \<Rightarrow> exn + ('r list \<times> nat)" where
  "sql_update ign chk P f pre [] = Inr ([], 0)"
| "sql_update ign chk P f pre (r # rs) =
     (if P r then
        (case chk (pre @ rs) r (f r) of
           Pass \<Rightarrow> bnd (sql_update ign chk P f (pre @ [f r]) rs) (\<lambda>(rs', n). Inr (f r # rs', Suc n))
         | Abort \<Rightarrow> Inl SqliteIntegrityError
         | Conflict \<Rightarrow>
             if ign then bnd (sql_update ign chk P f (pre @ [r]) rs) (\<lambda>(rs', n). Inr (r # rs', n))
             else Inl SqliteIntegrityError)
      else bnd (sql_update ign chk P f (pre @ [r]) rs) (\<lambda>(rs', n). Inr (r # rs', n)))"

section \<open>What an UPDATE does, whatever the table\<close>

lemma sql_update_Inl: "sql_update ign chk P f pre rs = Inl e \<Longrightarrow> e = SqliteIntegrityError"
  by (induction ign chk P f pre rs rule: sql_update.induct)
    (auto simp: bnd_eq_Inl split: if_splits verdict.splits prod.splits)

lemma sql_update_all2:
  "sql_update ign chk P f pre rs = Inr (rs', n)
   \<Longrightarrow> list_all2 (\<lambda>r r'. r' = r \<or> P r \<and> r' = f r \<and> (\<exists>others. chk others r r' = Pass)) rs rs'"
  by (induction ign chk P f pre rs arbitrary: rs' n rule: sql_update.induct)
    (auto simp: bnd_eq_Inr split: if_splits verdict.splits prod.splits)

lemma sql_update_Cons_cases:
  "sql_update ign chk P f pre (r # rs) = Inr (rs', n) \<Longrightarrow>
   (\<exists>rs'' m. P r \<and> chk (pre @ rs) r (f r) = Pass \<and> rs' = f r # rs'' \<and> n = Suc m
      \<and> sql_update ign chk P f (pre @ [f r]) rs = Inr (rs'', m))
   \<or> (\<exists>rs''. rs' = r # rs'' \<and> sql_update ign chk P f (pre @ [r]) rs = Inr (rs'', n))"
  by (auto simp: bnd_eq_Inr split: if_splits verdict.splits prod.splits)

lemma sql_update_strict:
  "sql_update False chk P f pre rs = Inr (rs', n)
   \<Longrightarrow> rs' = map (\<lambda>r. if P r then f r else r) rs \<and> n = length (filter P rs)"
  by (induction False chk P f pre rs arbitrary: rs' n rule: sql_update.induct)
    (auto simp: bnd_eq_Inr split: if_splits verdict.splits prod.splits)

lemma sql_update_none:
  "(\<And>r. r \<in> set rs \<Longrightarrow> \<not> P r) \<Longrightarrow> sql_update ign chk P f pre rs = Inr (rs, 0)"
  by (induction ign chk P f pre rs rule: sql_update.induct) auto

lemma sql_update_Cons_miss:
  "\<not> P r \<Longrightarrow> sql_update ign chk P f pre (r # rs)
     = bnd (sql_update ign chk P f (pre @ [r]) rs) (\<lambda>(rs', n). Inr (r # rs', n))"
  by simp

text \<open>An UPDATE whose WHERE clause matches exactly one row.\<close>

lemma sql_update_one:
  assumes "\<And>r. r \<in> set (us @ vs) \<Longrightarrow> \<not> P r" "P x"
  shows "sql_update ign chk P f pre (us @ x # vs) =
    (case chk (pre @ us @ vs) x (f x) of
       Pass \<Rightarrow> Inr (us @ f x # vs, 1)
     | Abort \<Rightarrow> Inl SqliteIntegrityError
     | Conflict \<Rightarrow> if ign then Inr (us @ x # vs, 0) else Inl SqliteIntegrityError)"
  using assms(1)
proof (induction us arbitrary: pre)
  case Nil
  then have "sql_update ign chk P f ps vs = Inr (vs, 0)" for ps
    by (intro sql_update_none) auto
  with assms(2) show ?case by (auto split: verdict.splits)
next
  case (Cons u us)
  then show ?case by (auto split: verdict.splits)
qed

section \<open>Keyed tables whose rows evolve\<close>

text \<open>
  The contract a table's triggers and constraints give its clients: an accepted update keeps the
  primary key, and the new row is a permitted successor of the old one (\<open>evolves\<close>, a preorder).
  Clients get, once and for all: keys stay distinct, every row persists and evolves, an update
  selected by a full key changes at most one row, and which row it changes.
\<close>

locale keyed_table =
  fixes key :: "'r \<Rightarrow> 'k"
    and chk :: "'c \<Rightarrow> 'r list \<Rightarrow> 'r \<Rightarrow> 'r \<Rightarrow> verdict"
    and evolves :: "'r \<Rightarrow> 'r \<Rightarrow> bool"
  assumes chk_key: "chk c others r r' = Pass \<Longrightarrow> key r' = key r"
    and chk_evolves: "chk c others r r' = Pass \<Longrightarrow> evolves r r'"
    and evolves_refl: "evolves r r"
    and evolves_trans: "evolves r s \<Longrightarrow> evolves s t \<Longrightarrow> evolves r t"
begin

definition table_evolves :: "'r list \<Rightarrow> 'r list \<Rightarrow> bool" where
  "table_evolves rs rs' =
     (\<exists>us vs. rs' = us @ vs \<and> list_all2 (\<lambda>r r'. key r' = key r \<and> evolves r r') rs us)"

lemma list_all2_step_refl: "list_all2 (\<lambda>r r'. key r' = key r \<and> evolves r r') rs rs"
  by (rule list_all2_refl) (simp add: evolves_refl)

lemma table_evolves_all2:
  "list_all2 (\<lambda>r r'. key r' = key r \<and> evolves r r') rs rs' \<Longrightarrow> table_evolves rs rs'"
  unfolding table_evolves_def by (intro exI [of _ rs'] exI [of _ "[]"]) simp

lemma table_evolves_refl: "table_evolves rs rs"
  by (rule table_evolves_all2 [OF list_all2_step_refl])

lemma table_evolves_append: "table_evolves rs (rs @ new)"
  unfolding table_evolves_def
  by (intro exI [of _ rs] exI [of _ new]) (simp add: list_all2_step_refl)

lemma table_evolves_trans:
  assumes "table_evolves rs ss" "table_evolves ss ts"
  shows "table_evolves rs ts"
proof -
  obtain us vs where 1: "ss = us @ vs" "list_all2 (\<lambda>r r'. key r' = key r \<and> evolves r r') rs us"
    using assms(1) unfolding table_evolves_def by blast
  obtain us' vs' where 2: "ts = us' @ vs'"
    "list_all2 (\<lambda>r r'. key r' = key r \<and> evolves r r') (us @ vs) us'"
    using assms(2) 1(1) unfolding table_evolves_def by blast
  from 2(2) obtain xs ys where 3: "us' = xs @ ys"
    "list_all2 (\<lambda>r r'. key r' = key r \<and> evolves r r') us xs"
    by (auto simp: list_all2_append1)
  have "list_all2 (\<lambda>r r'. key r' = key r \<and> evolves r r') rs xs"
    by (rule list_all2_trans [OF _ 1(2) 3(2)]) (auto intro: evolves_trans)
  with 2(1) 3(1) show ?thesis unfolding table_evolves_def by auto
qed

lemma table_evolves_row:
  assumes "table_evolves rs rs'" "r \<in> set rs"
  shows "\<exists>r' \<in> set rs'. key r' = key r \<and> evolves r r'"
proof -
  obtain us vs where 1: "rs' = us @ vs" "list_all2 (\<lambda>r r'. key r' = key r \<and> evolves r r') rs us"
    using assms(1) unfolding table_evolves_def by blast
  obtain i where "i < length rs" "rs ! i = r"
    using assms(2) by (auto simp: in_set_conv_nth)
  with 1(2) have "us ! i \<in> set us" "key (us ! i) = key r \<and> evolves r (us ! i)"
    by (auto simp: list_all2_conv_all_nth)
  with 1(1) show ?thesis by auto
qed

lemma table_evolves_find:
  assumes "table_evolves rs rs'" "find P rs = Some r"
    and "\<And>r r'. key r' = key r \<Longrightarrow> evolves r r' \<Longrightarrow> P r' = P r"
  shows "\<exists>r'. find P rs' = Some r' \<and> key r' = key r \<and> evolves r r'"
proof -
  obtain us vs where 1: "rs' = us @ vs" "list_all2 (\<lambda>r r'. key r' = key r \<and> evolves r r') rs us"
    using assms(1) unfolding table_evolves_def by blast
  from 1(2) assms(2) have "\<exists>r'. find P us = Some r' \<and> key r' = key r \<and> evolves r r'"
    by (induction rule: list_all2_induct) (auto simp: assms(3) split: if_splits)
  moreover have "find P us = Some y \<Longrightarrow> find P (us @ vs) = Some y" for y
    by (induction us) (auto split: if_splits)
  ultimately show ?thesis using 1(1) by blast
qed

lemma update_evolves:
  assumes "sql_update ign (chk c) P f pre rs = Inr (rs', n)"
  shows "table_evolves rs rs'"
proof -
  have "list_all2 (\<lambda>r r'. key r' = key r \<and> evolves r r') rs rs'"
    by (rule list_all2_mono [OF sql_update_all2 [OF assms]])
      (auto dest: chk_key chk_evolves simp: evolves_refl)
  then show ?thesis by (rule table_evolves_all2)
qed

lemma update_keys:
  assumes "sql_update ign (chk c) P f pre rs = Inr (rs', n)"
  shows "map key rs' = map key rs"
proof -
  have "list_all2 (\<lambda>r r'. key r' = key r) rs rs'"
    by (rule list_all2_mono [OF sql_update_all2 [OF assms]]) (auto dest: chk_key)
  then show ?thesis by (auto simp: list_all2_conv_all_nth intro: nth_equalityI)
qed

lemma update_by_key:
  assumes upd: "sql_update ign (chk c) P f pre rs = Inr (rs', n)"
    and dist: "distinct (map key rs)"
    and sel: "\<And>r. P r \<Longrightarrow> key r = k"
  shows "n = 0 \<and> rs' = rs
    \<or> n = 1 \<and> (\<exists>us x vs others. rs = us @ x # vs \<and> P x \<and> key x = k
         \<and> chk c others x (f x) = Pass \<and> rs' = us @ f x # vs)"
proof (cases "\<exists>x \<in> set rs. P x")
  case False
  then have "sql_update ign (chk c) P f pre rs = Inr (rs, 0)"
    by (intro sql_update_none) auto
  with upd show ?thesis by simp
next
  case True
  then obtain x us vs where x: "P x" "rs = us @ x # vs" by (meson split_list)
  have rest: "\<not> P r" if "r \<in> set (us @ vs)" for r
  proof
    assume "P r"
    then have "key r = key x" using sel x(1) by metis
    with that dist x(2) show False by (force simp: image_iff)
  qed
  from upd x(2) sql_update_one [of us vs P x ign "chk c" f pre, OF rest x(1)] x sel show ?thesis
    by (auto split: verdict.splits if_splits)
qed

lemma update_by_key_strict:
  assumes upd: "sql_update False (chk c) P f pre rs = Inr (rs', n)"
    and dist: "distinct (map key rs)"
    and sel: "\<And>r. P r \<Longrightarrow> key r = k"
  shows "n = (if \<exists>r \<in> set rs. P r then 1 else 0)"
proof -
  have n: "n = length (filter P rs)" using sql_update_strict [OF upd] by simp
  show ?thesis
  proof (cases "\<exists>r \<in> set rs. P r")
    case True
    then obtain x where x: "x \<in> set rs" "P x" by blast
    have "filter P rs = [x]"
    proof -
      have "filter (\<lambda>y. key y = key x) rs = [x]" by (rule filter_unique [OF dist x(1)])
      then have "filter P (filter (\<lambda>y. key y = key x) rs) = [x]" using x by simp
      moreover have "filter P (filter (\<lambda>y. key y = key x) rs) = filter P rs"
        using sel x by (auto intro!: filter_cong simp: filter_filter)
      ultimately show ?thesis by simp
    qed
    with n True show ?thesis by simp
  next
    case False
    then have "filter P rs = []" by (simp add: filter_empty_conv)
    with n False show ?thesis by (auto simp del: filter_empty_conv)
  qed
qed

end

section \<open>Tables with row and uniqueness constraints\<close>

text \<open>
  The constraints a table declares: \<open>row_ok\<close> for its CHECKs, \<open>compatible\<close> for its unique
  indexes, both judged for every row an UPDATE writes.  A table that satisfies them keeps
  satisfying them.
\<close>

locale constrained_table = keyed_table key chk evolves
  for key :: "'r \<Rightarrow> 'k" and chk :: "'c \<Rightarrow> 'r list \<Rightarrow> 'r \<Rightarrow> 'r \<Rightarrow> verdict"
    and evolves :: "'r \<Rightarrow> 'r \<Rightarrow> bool" +
  fixes row_ok :: "'r \<Rightarrow> bool"
    and compatible :: "'r \<Rightarrow> 'r \<Rightarrow> bool"
  assumes chk_row_ok: "chk c others r r' = Pass \<Longrightarrow> row_ok r'"
    and chk_compatible: "chk c others r r' = Pass \<Longrightarrow> x \<in> set others \<Longrightarrow> compatible x r'"
    and compatible_sym: "compatible x y \<Longrightarrow> compatible y x"
begin

definition table_ok :: "'r list \<Rightarrow> bool" where
  "table_ok rs = (distinct (map key rs) \<and> (\<forall>r \<in> set rs. row_ok r) \<and> sorted_wrt compatible rs)"

lemma sorted_wrt_replace:
  assumes "sorted_wrt compatible (pre @ r # rs)" "\<And>x. x \<in> set (pre @ rs) \<Longrightarrow> compatible x r'"
  shows "sorted_wrt compatible (pre @ r' # rs)"
  using assms by (auto simp: sorted_wrt_append intro: compatible_sym)

lemma update_rows_ok:
  assumes "sql_update ign (chk c) P f pre rs = Inr (rs', n)" "\<forall>r \<in> set rs. row_ok r"
  shows "\<forall>r \<in> set rs'. row_ok r"
proof
  fix r' assume "r' \<in> set rs'"
  then obtain i where i: "i < length rs'" "r' = rs' ! i" by (auto simp: in_set_conv_nth)
  from sql_update_all2 [OF assms(1)] i have "i < length rs"
    and "r' = rs ! i \<or> (\<exists>others. chk c others (rs ! i) r' = Pass)"
    by (auto dest: list_all2_lengthD list_all2_nthD2)
  with assms(2) chk_row_ok show "row_ok r'" by (auto dest: nth_mem)
qed

lemma update_compatible:
  assumes "sql_update ign (chk c) P f pre rs = Inr (rs', n)" "sorted_wrt compatible (pre @ rs)"
  shows "sorted_wrt compatible (pre @ rs')"
  using assms
proof (induction rs arbitrary: pre rs' n)
  case Nil
  then show ?case by simp
next
  case (Cons r rs)
  from sql_update_Cons_cases [OF Cons.prems(1)] show ?case
  proof (elim disjE exE conjE)
    fix rs'' m
    assume hit: "chk c (pre @ rs) r (f r) = Pass" "rs' = f r # rs''"
      "sql_update ign (chk c) P f (pre @ [f r]) rs = Inr (rs'', m)"
    have "sorted_wrt compatible (pre @ f r # rs)"
      by (rule sorted_wrt_replace [OF Cons.prems(2)]) (rule chk_compatible [OF hit(1)])
    then have "sorted_wrt compatible ((pre @ [f r]) @ rs)" by simp
    from Cons.IH [OF hit(3) this] show ?thesis by (simp only: hit(2) append_assoc append_Cons append_Nil)
  next
    fix rs''
    assume miss: "rs' = r # rs''" "sql_update ign (chk c) P f (pre @ [r]) rs = Inr (rs'', n)"
    have "sorted_wrt compatible ((pre @ [r]) @ rs)" using Cons.prems(2) by simp
    from Cons.IH [OF miss(2) this] show ?thesis by (simp only: miss(1) append_assoc append_Cons append_Nil)
  qed
qed

lemma update_table_ok:
  assumes "sql_update ign (chk c) P f [] rs = Inr (rs', n)" "table_ok rs"
  shows "table_ok rs'"
  using assms update_keys [OF assms(1)] update_rows_ok [OF assms(1)]
    update_compatible [OF assms(1)]
  by (auto simp: table_ok_def)

lemma insert_table_ok:
  assumes "table_ok rs" "row_ok r" "key r \<notin> key ` set rs" "\<And>x. x \<in> set rs \<Longrightarrow> compatible x r"
  shows "table_ok (rs @ [r])"
  using assms by (auto simp: table_ok_def sorted_wrt_append)

end

end
