(* ===== verification/Schema.thy ===== *)
theory Schema
  imports SqlTable
begin

text \<open>
  The database: one record per table row, the schema's CHECK constraints and triggers
  (\<open>db/migrations.py\<close>), and the statement forms the repositories use.  Columns are typed; TEXT,
  INTEGER and BLOB columns hold \<open>pystr\<close>, \<open>int\<close> and \<open>bytes\<close>, nullable ones an \<open>option\<close>.
\<close>

section \<open>Rows\<close>

record job =
  j_job_id :: pystr
  j_brief_id :: pystr
  j_brief_fingerprint :: pystr
  j_snapshot_id :: pystr
  j_snapshot_hash :: pystr
  j_company_id :: pystr
  j_direction_id :: pystr
  j_audience_segment_id :: pystr
  j_state :: pystr
  j_current_stage :: "pystr option"
  j_approved_plan_fingerprint :: "pystr option"
  j_approval_record_id :: "pystr option"
  j_attempt :: int
  j_created_by :: pystr
  j_created_at :: pystr
  j_started_at :: "pystr option"
  j_finished_at :: "pystr option"
  j_error_code :: "pystr option"
  j_error_summary :: "pystr option"
  j_artifact_manifest_path :: "pystr option"
  j_plan_json :: "bytes option"
  j_plan_fingerprint :: "pystr option"
  j_superseded_by_job_id :: "pystr option"

record run =
  r_company_id :: pystr
  r_job_id :: pystr
  r_attempt :: int
  r_idempotency_key :: pystr
  r_external_run_id :: "pystr option"
  r_executor_name :: "pystr option"
  r_external_accepted_at :: "pystr option"
  r_acceptance_observed_at :: "pystr option"
  r_external_status :: "pystr option"
  r_current_stage :: "pystr option"
  r_next_action_at :: "pystr option"
  r_submission_attempted_at :: "pystr option"
  r_completion_observed_at :: "pystr option"
  r_error_code :: "pystr option"
  r_error_summary :: "pystr option"
  r_result_json :: "bytes option"
  r_result_hash :: "pystr option"
  r_heartbeat_at :: pystr
  r_lease_token :: "pystr option"
  r_lease_expires_at :: "pystr option"
  r_reconciliation_count :: int
  r_retry_stage_id :: pystr
  r_transient_failure_count :: int
  r_created_at :: pystr
  r_updated_at :: pystr

record transition =
  t_job_id :: pystr
  t_from_state :: "pystr option"
  t_to_state :: pystr
  t_reason_summary :: "pystr option"
  t_occurred_at :: pystr

record approval =
  a_approval_record_id :: pystr
  a_job_id :: pystr
  a_approval_type :: pystr
  a_snapshot_hash :: pystr
  a_plan_fingerprint :: pystr
  a_approved_by :: pystr
  a_approved_at :: pystr
  a_expires_at :: "pystr option"

record snapshot_row =
  s_snapshot_id :: pystr
  s_brief_id :: pystr
  s_company_id :: pystr
  s_company_profile_version :: int
  s_direction_id :: pystr
  s_direction_version :: int
  s_audience_segment_id :: pystr
  s_audience_version :: int
  s_prompt_set_version :: int
  s_compiled_context :: bytes
  s_snapshot_hash :: pystr
  s_created_at :: pystr

record brief_row =
  b_brief_id :: pystr
  b_company_id :: pystr
  b_company_profile_version :: "int option"
  b_direction_id :: "pystr option"
  b_direction_version :: "int option"
  b_audience_segment_id :: "pystr option"
  b_audience_version :: "int option"
  b_brief_json :: bytes
  b_status :: pystr
  b_created_by :: pystr
  b_created_at :: pystr
  b_updated_at :: pystr

record budget =
  g_company_id :: pystr
  g_job_id :: pystr
  g_retry_stage_id :: pystr
  g_failure_count :: int
  g_created_at :: pystr
  g_updated_at :: pystr

record heartbeat =
  h_runner_id :: pystr
  h_started_at :: pystr
  h_heartbeat_at :: pystr

record nonce_row =
  n_nonce :: pystr
  n_received_at :: pystr
  n_expires_at :: pystr

record receipt =
  c_company_id :: pystr
  c_job_id :: pystr
  c_snapshot_hash :: pystr
  c_idempotency_key :: pystr
  c_accepted_at :: pystr

record db =
  jobs :: "job list"
  runs :: "run list"
  transitions :: "transition list"
  approvals :: "approval list"
  snapshots :: "snapshot_row list"
  briefs :: "brief_row list"
  budgets :: "budget list"
  heartbeats :: "heartbeat list"
  nonces :: "nonce_row list"
  receipts :: "receipt list"

type_synonym run_key = "pystr \<times> pystr \<times> int"
type_synonym budget_key = "pystr \<times> pystr \<times> pystr"

definition run_key :: "run \<Rightarrow> run_key" where
  "run_key r = (r_company_id r, r_job_id r, r_attempt r)"

definition budget_key :: "budget \<Rightarrow> budget_key" where
  "budget_key g = (g_company_id g, g_job_id g, g_retry_stage_id g)"

section \<open>Triggers and constraints on jobs\<close>

text \<open>
  A \<open>BEFORE UPDATE OF col\<close> trigger fires when the statement's SET clause names the column; a
  column whose value changes is always named.
\<close>

definition written :: "string list \<Rightarrow> string \<Rightarrow> bool \<Rightarrow> bool" where
  "written cols col changed = (col \<in> set cols \<or> changed)"

definition active_job_state :: "pystr \<Rightarrow> bool" where
  "active_job_state s = (s \<in> {''QUEUED'', ''RUNNING'', ''FAILED_RETRYABLE''})"

definition one_active_job_per_creator :: "job list \<Rightarrow> job \<Rightarrow> bool" where
  "one_active_job_per_creator others new =
     (active_job_state (j_state new) \<longrightarrow>
        list_all (\<lambda>o'. \<not> (j_created_by o' = j_created_by new \<and> active_job_state (j_state o'))) others)"

definition jobs_created_by_immutable :: "job \<Rightarrow> job \<Rightarrow> bool" where
  "jobs_created_by_immutable old new = (j_created_by new = j_created_by old)"

definition jobs_execution_provenance_immutable :: "job \<Rightarrow> job \<Rightarrow> bool" where
  "jobs_execution_provenance_immutable old new =
     (j_job_id new = j_job_id old \<and> j_brief_id new = j_brief_id old
      \<and> j_brief_fingerprint new = j_brief_fingerprint old
      \<and> j_snapshot_id new = j_snapshot_id old \<and> j_snapshot_hash new = j_snapshot_hash old
      \<and> j_company_id new = j_company_id old \<and> j_direction_id new = j_direction_id old
      \<and> j_audience_segment_id new = j_audience_segment_id old
      \<and> j_created_at new = j_created_at old)"

definition jobs_execution_plan_immutable :: "job \<Rightarrow> job \<Rightarrow> bool" where
  "jobs_execution_plan_immutable old new =
     (j_plan_json new = j_plan_json old \<and> j_plan_fingerprint new = j_plan_fingerprint old)"

definition jobs_supersession_append_only :: "job \<Rightarrow> job \<Rightarrow> bool" where
  "jobs_supersession_append_only old new =
     (j_superseded_by_job_id old = None
      \<or> j_superseded_by_job_id new = j_superseded_by_job_id old)"

definition jobs_supersession_same_lineage :: "string list \<Rightarrow> job list \<Rightarrow> job \<Rightarrow> job \<Rightarrow> bool" where
  "jobs_supersession_same_lineage cols others old new =
     (written cols ''superseded_by_job_id''
        (j_superseded_by_job_id new \<noteq> j_superseded_by_job_id old) \<longrightarrow>
      (case j_superseded_by_job_id new of None \<Rightarrow> True
       | Some rid \<Rightarrow>
           list_ex (\<lambda>x. j_job_id x = rid \<and> j_company_id x = j_company_id old
              \<and> j_created_by x = j_created_by old) (old # others)))"

definition jobs_approval_binding_write_once :: "approval list \<Rightarrow> job \<Rightarrow> job \<Rightarrow> bool" where
  "jobs_approval_binding_write_once aps old new =
     (j_approved_plan_fingerprint new = j_approved_plan_fingerprint old
      \<and> j_approval_record_id new = j_approval_record_id old
      \<or> j_approved_plan_fingerprint old = None \<and> j_approval_record_id old = None
        \<and> j_state old = ''AWAITING_PAID_APPROVAL'' \<and> j_state new = ''QUEUED''
        \<and> j_plan_fingerprint new \<noteq> None
        \<and> j_approved_plan_fingerprint new = j_plan_fingerprint new
        \<and> j_approval_record_id new \<noteq> None
        \<and> list_ex (\<lambda>a. Some (a_approval_record_id a) = j_approval_record_id new
              \<and> a_job_id a = j_job_id old \<and> a_approval_type a = ''paid_execution''
              \<and> a_snapshot_hash a = j_snapshot_hash old
              \<and> Some (a_plan_fingerprint a) = j_plan_fingerprint new) aps)"

definition jobs_artifact_manifest_binding_write_once :: "string list \<Rightarrow> job \<Rightarrow> job \<Rightarrow> bool" where
  "jobs_artifact_manifest_binding_write_once cols old new =
     (written cols ''artifact_manifest_path''
        (j_artifact_manifest_path new \<noteq> j_artifact_manifest_path old) \<longrightarrow>
      j_artifact_manifest_path old = None \<and> j_artifact_manifest_path new \<noteq> None
      \<and> j_state old = ''SUCCEEDED'' \<and> j_state new = ''SUCCEEDED'')"

definition jobs_runner_timestamp_valid :: "job \<Rightarrow> bool" where
  "jobs_runner_timestamp_valid new =
     (case j_started_at new of None \<Rightarrow> True | Some t \<Rightarrow> is_utc_timestamp t)"

definition job_update_check ::
  "approval list \<times> string list \<Rightarrow> job list \<Rightarrow> job \<Rightarrow> job \<Rightarrow> verdict" where
  "job_update_check ctx others old new = (case ctx of (aps, cols) \<Rightarrow>
     if jobs_created_by_immutable old new
        \<and> jobs_execution_provenance_immutable old new
        \<and> jobs_execution_plan_immutable old new
        \<and> jobs_supersession_append_only old new
        \<and> jobs_supersession_same_lineage cols others old new
        \<and> jobs_approval_binding_write_once aps old new
        \<and> jobs_artifact_manifest_binding_write_once cols old new
        \<and> (written cols ''started_at'' (j_started_at new \<noteq> j_started_at old) \<longrightarrow>
             jobs_runner_timestamp_valid new)
     then if 0 < j_attempt new \<and> one_active_job_per_creator others new then Pass else Conflict
     else Abort)"

text \<open>INSERT INTO jobs: the initially-null triggers, CHECK, UNIQUE and the foreign keys.\<close>

definition job_insert_ok :: "db \<Rightarrow> job \<Rightarrow> bool" where
  "job_insert_ok d new =
     (j_superseded_by_job_id new = None
      \<and> j_approved_plan_fingerprint new = None \<and> j_approval_record_id new = None
      \<and> j_artifact_manifest_path new = None
      \<and> jobs_runner_timestamp_valid new
      \<and> 0 < j_attempt new
      \<and> list_all (\<lambda>x. j_job_id x \<noteq> j_job_id new) (jobs d)
      \<and> one_active_job_per_creator (jobs d) new
      \<and> list_ex (\<lambda>b. b_brief_id b = j_brief_id new) (briefs d)
      \<and> list_ex (\<lambda>s. s_snapshot_id s = j_snapshot_id new) (snapshots d))"

section \<open>Triggers and constraints on execution runs\<close>

definition external_statuses :: "pystr list" where
  "external_statuses =
     [''ACCEPTED'', ''RUNNING'', ''SUCCEEDED'', ''FAILED_RETRYABLE'', ''FAILED_FINAL'', ''CANCELED'']"

definition terminal_statuses :: "pystr list" where
  "terminal_statuses = [''SUCCEEDED'', ''FAILED_RETRYABLE'', ''FAILED_FINAL'', ''CANCELED'']"

definition utc_or_null :: "pystr option \<Rightarrow> bool" where
  "utc_or_null c = (case c of None \<Rightarrow> True | Some t \<Rightarrow> is_utc_timestamp t)"

definition trimmed :: "pystr \<Rightarrow> bool" where
  "trimmed s = (s = sql_trim s \<and> s \<noteq> [])"

text \<open>The CHECK constraints of \<open>job_execution_runs\<close>; a NULL result of a CHECK passes.\<close>

definition run_identity_checks :: "run \<Rightarrow> bool" where
  "run_identity_checks r =
     (0 < r_attempt r
      \<and> r_idempotency_key r = r_company_id r @ '':'' @ r_job_id r @ '':'' @ dec_int (r_attempt r)
      \<and> (r_external_run_id r = None \<and> r_external_accepted_at r = None
            \<and> r_acceptance_observed_at r = None
         \<or> r_external_run_id r \<noteq> None \<and> r_executor_name r \<noteq> None
            \<and> r_external_accepted_at r \<noteq> None \<and> r_acceptance_observed_at r \<noteq> None)
      \<and> (r_submission_attempted_at r = None \<longleftrightarrow> r_executor_name r = None)
      \<and> (case r_executor_name r of None \<Rightarrow> True | Some n \<Rightarrow> trimmed n))"

definition run_state_checks :: "run \<Rightarrow> bool" where
  "run_state_checks r =
     ((case r_external_status r of None \<Rightarrow> True | Some s \<Rightarrow> s \<in> set external_statuses)
      \<and> (r_lease_token r = None \<longleftrightarrow> r_lease_expires_at r = None)
      \<and> (r_result_json r = None \<longleftrightarrow> r_result_hash r = None)
      \<and> 0 \<le> r_reconciliation_count r
      \<and> trimmed (r_retry_stage_id r)
      \<and> 0 \<le> r_transient_failure_count r)"

definition run_time_checks :: "run \<Rightarrow> bool" where
  "run_time_checks r =
     (utc_or_null (r_external_accepted_at r) \<and> utc_or_null (r_acceptance_observed_at r)
      \<and> (case r_external_accepted_at r of None \<Rightarrow> True
         | Some acc \<Rightarrow>
             (case r_submission_attempted_at r of None \<Rightarrow> False | Some sub \<Rightarrow> sub \<le> acc)
             \<and> (case r_acceptance_observed_at r of None \<Rightarrow> True | Some obs \<Rightarrow> acc \<le> obs))
      \<and> utc_or_null (r_next_action_at r) \<and> utc_or_null (r_submission_attempted_at r)
      \<and> utc_or_null (r_completion_observed_at r)
      \<and> is_utc_timestamp (r_heartbeat_at r)
      \<and> utc_or_null (r_lease_expires_at r)
      \<and> is_utc_timestamp (r_created_at r) \<and> is_utc_timestamp (r_updated_at r))"

definition run_checks :: "run \<Rightarrow> bool" where
  "run_checks r = (run_identity_checks r \<and> run_state_checks r \<and> run_time_checks r)"

definition runs_identity_immutable :: "run \<Rightarrow> run \<Rightarrow> bool" where
  "runs_identity_immutable old new =
     (r_company_id new = r_company_id old \<and> r_job_id new = r_job_id old
      \<and> r_attempt new = r_attempt old \<and> r_idempotency_key new = r_idempotency_key old
      \<and> r_created_at new = r_created_at old)"

definition runs_result_immutable :: "run \<Rightarrow> run \<Rightarrow> bool" where
  "runs_result_immutable old new =
     (r_result_json old = None
      \<or> r_result_json new = r_result_json old \<and> r_result_hash new = r_result_hash old)"

definition runs_external_status_monotonic :: "run \<Rightarrow> run \<Rightarrow> bool" where
  "runs_external_status_monotonic old new =
     (\<not> (r_external_status old \<noteq> None \<and> r_external_status new = None
         \<or> opt_in (r_external_status old) terminal_statuses
            \<and> r_external_status new \<noteq> r_external_status old
         \<or> r_external_status old = Some ''RUNNING'' \<and> r_external_status new = Some ''ACCEPTED''))"

definition runs_external_identity_immutable :: "run \<Rightarrow> run \<Rightarrow> bool" where
  "runs_external_identity_immutable old new =
     ((r_executor_name old = None \<or> r_executor_name new = r_executor_name old)
      \<and> (r_external_run_id old = None
         \<or> r_external_run_id new = r_external_run_id old
           \<and> r_external_accepted_at new = r_external_accepted_at old
           \<and> r_acceptance_observed_at new = r_acceptance_observed_at old))"

text \<open>
  \<open>external_identity_owned_*\<close> and the partial unique index: no two attempts share an executor's
  run identity.
\<close>

definition runs_external_identity_owned :: "run list \<Rightarrow> run \<Rightarrow> bool" where
  "runs_external_identity_owned others new =
     (r_external_run_id new \<noteq> None \<longrightarrow>
        list_all (\<lambda>x. \<not> (r_executor_name x \<noteq> None \<and> r_executor_name x = r_executor_name new
              \<and> r_external_run_id x = r_external_run_id new \<and> run_key x \<noteq> run_key new)) others)"

definition run_update_check :: "unit \<Rightarrow> run list \<Rightarrow> run \<Rightarrow> run \<Rightarrow> verdict" where
  "run_update_check ctx others old new =
     (if runs_identity_immutable old new \<and> runs_result_immutable old new
         \<and> runs_external_status_monotonic old new \<and> runs_external_identity_immutable old new
         \<and> (r_external_run_id new \<noteq> r_external_run_id old \<longrightarrow>
              runs_external_identity_owned others new)
      then if run_checks new \<and> runs_external_identity_owned others new then Pass else Conflict
      else Abort)"

section \<open>Retry budgets\<close>

definition budget_checks :: "budget \<Rightarrow> bool" where
  "budget_checks g =
     (trimmed (g_retry_stage_id g) \<and> 0 \<le> g_failure_count g
      \<and> is_utc_timestamp (g_created_at g) \<and> is_utc_timestamp (g_updated_at g))"

definition budget_update_check :: "unit \<Rightarrow> budget list \<Rightarrow> budget \<Rightarrow> budget \<Rightarrow> verdict" where
  "budget_update_check ctx others old new =
     (if budget_key new = budget_key old \<and> g_created_at new = g_created_at old
         \<and> g_failure_count old \<le> g_failure_count new
      then if budget_checks new then Pass else Conflict
      else Abort)"

section \<open>Statements\<close>

definition update_jobs ::
  "string list \<Rightarrow> (job \<Rightarrow> bool) \<Rightarrow> (job \<Rightarrow> job) \<Rightarrow> db \<Rightarrow> exn + (db \<times> nat)" where
  "update_jobs cols P f d =
     bnd (sql_update False (job_update_check (approvals d, cols)) P f [] (jobs d))
       (\<lambda>(js, n). Inr (d\<lparr>jobs := js\<rparr>, n))"

definition update_or_ignore_jobs ::
  "string list \<Rightarrow> (job \<Rightarrow> bool) \<Rightarrow> (job \<Rightarrow> job) \<Rightarrow> db \<Rightarrow> exn + (db \<times> nat)" where
  "update_or_ignore_jobs cols P f d =
     bnd (sql_update True (job_update_check (approvals d, cols)) P f [] (jobs d))
       (\<lambda>(js, n). Inr (d\<lparr>jobs := js\<rparr>, n))"

definition update_runs ::
  "(run \<Rightarrow> bool) \<Rightarrow> (run \<Rightarrow> run) \<Rightarrow> db \<Rightarrow> exn + (db \<times> nat)" where
  "update_runs P f d =
     bnd (sql_update False (run_update_check ()) P f [] (runs d))
       (\<lambda>(rs, n). Inr (d\<lparr>runs := rs\<rparr>, n))"

text \<open>
  INSERT INTO job_execution_runs ... ON CONFLICT(company_id, job_id, attempt) DO NOTHING
  (\<open>ign\<close>: INSERT OR IGNORE).
\<close>

definition insert_run :: "bool \<Rightarrow> run \<Rightarrow> db \<Rightarrow> exn + db" where
  "insert_run ign new d =
     (if \<not> runs_external_identity_owned (runs d) new then Inl SqliteIntegrityError
      else if \<not> run_checks new then (if ign then Inr d else Inl SqliteIntegrityError)
      else if list_ex (\<lambda>x. run_key x = run_key new) (runs d) then Inr d
      else if list_ex (\<lambda>j. j_company_id j = r_company_id new \<and> j_job_id j = r_job_id new) (jobs d)
      then Inr (d\<lparr>runs := runs d @ [new]\<rparr>)
      else Inl SqliteIntegrityError)"

text \<open>
  BEGIN IMMEDIATE ... COMMIT, ROLLBACK on any exception: a body that raises leaves the database
  as it was.
\<close>

definition transaction :: "(db \<Rightarrow> exn + ('a \<times> db)) \<Rightarrow> db \<Rightarrow> (exn + 'a) \<times> db" where
  "transaction body d =
     (case body d of Inl e \<Rightarrow> (Inl e, d) | Inr (x, d') \<Rightarrow> (Inr x, d'))"

end
