(* ===== verification/Evolution.thy ===== *)
theory Evolution
  imports Schema
begin

text \<open>
  What the schema's triggers and constraints guarantee over time.  \<open>job_evolves\<close>, \<open>run_evolves\<close>
  and \<open>budget_evolves\<close> say how a stored row may change; \<open>db_evolves\<close> lifts them to the database
  (rows persist, audit tables are append-only) and is a preorder, so it holds across any sequence
  of statements.  \<open>schema_ok\<close> is what the declared constraints say of the three updated tables (jobs, runs
  and retry budgets: CHECKs, keys, unique indexes) and of the key from runs to jobs.  The table contracts
  of \<^theory_text>\<open>SqlTable\<close> are interpreted here on the three updated tables.
\<close>

section \<open>Permitted successors of a row\<close>

definition job_evolves :: "job \<Rightarrow> job \<Rightarrow> bool" where
  "job_evolves old new =
     (jobs_created_by_immutable old new
      \<and> jobs_execution_provenance_immutable old new
      \<and> jobs_execution_plan_immutable old new
      \<and> jobs_supersession_append_only old new
      \<and> (j_approved_plan_fingerprint old \<noteq> None \<or> j_approval_record_id old \<noteq> None \<longrightarrow>
           j_approved_plan_fingerprint new = j_approved_plan_fingerprint old
           \<and> j_approval_record_id new = j_approval_record_id old)
      \<and> (j_artifact_manifest_path old \<noteq> None \<longrightarrow>
           j_artifact_manifest_path new = j_artifact_manifest_path old))"

definition status_evolves :: "pystr option \<Rightarrow> pystr option \<Rightarrow> bool" where
  "status_evolves old new =
     (new = old
      \<or> opt_in new external_statuses \<and> \<not> opt_in old terminal_statuses
        \<and> \<not> (old = Some ''RUNNING'' \<and> new = Some ''ACCEPTED''))"

definition run_evolves :: "run \<Rightarrow> run \<Rightarrow> bool" where
  "run_evolves old new =
     (runs_identity_immutable old new \<and> runs_result_immutable old new
      \<and> status_evolves (r_external_status old) (r_external_status new)
      \<and> runs_external_identity_immutable old new)"

definition budget_evolves :: "budget \<Rightarrow> budget \<Rightarrow> bool" where
  "budget_evolves old new =
     (budget_key new = budget_key old \<and> g_created_at new = g_created_at old
      \<and> g_failure_count old \<le> g_failure_count new)"

lemmas job_evolve_defs =
  job_evolves_def jobs_created_by_immutable_def jobs_execution_provenance_immutable_def
  jobs_execution_plan_immutable_def jobs_supersession_append_only_def

lemmas run_evolve_defs =
  run_evolves_def runs_identity_immutable_def runs_result_immutable_def
  runs_external_identity_immutable_def

lemma job_evolves_trans: "job_evolves a b \<Longrightarrow> job_evolves b c \<Longrightarrow> job_evolves a c"
  by (auto simp: job_evolve_defs)

lemma status_evolves_open:
  "opt_in s external_statuses \<Longrightarrow> \<not> opt_in s terminal_statuses \<Longrightarrow> s = Some ''ACCEPTED'' \<or> s = Some ''RUNNING''"
  by (cases s) (auto simp: external_statuses_def terminal_statuses_def)

lemma status_evolves_trans:
  assumes "status_evolves a b" "status_evolves b c"
  shows "status_evolves a c"
proof (cases "a = b \<or> b = c")
  case True
  with assms show ?thesis by auto
next
  case False
  with assms have 1: "opt_in b external_statuses" "\<not> opt_in a terminal_statuses"
      "\<not> (a = Some ''RUNNING'' \<and> b = Some ''ACCEPTED'')"
    and 2: "opt_in c external_statuses" "\<not> opt_in b terminal_statuses"
      "\<not> (b = Some ''RUNNING'' \<and> c = Some ''ACCEPTED'')"
    unfolding status_evolves_def by blast+
  from status_evolves_open [OF 1(1) 2(2)] 1 2 show ?thesis
    unfolding status_evolves_def by blast
qed

lemma run_evolves_trans: "run_evolves a b \<Longrightarrow> run_evolves b c \<Longrightarrow> run_evolves a c"
  by (auto simp: run_evolve_defs intro: status_evolves_trans)

lemma monotonic_status_evolves:
  "runs_external_status_monotonic old new \<Longrightarrow> run_state_checks new
   \<Longrightarrow> status_evolves (r_external_status old) (r_external_status new)"
  by (auto simp: runs_external_status_monotonic_def run_state_checks_def status_evolves_def
      opt_in_def split: option.splits)

section \<open>Unique indexes\<close>

definition jobs_compatible :: "job \<Rightarrow> job \<Rightarrow> bool" where
  "jobs_compatible x y =
     (\<not> (j_created_by x = j_created_by y \<and> active_job_state (j_state x) \<and> active_job_state (j_state y)))"

text \<open>Runs with one executor identity are attempts of the same key (the key itself is unique).\<close>

definition runs_compatible :: "run \<Rightarrow> run \<Rightarrow> bool" where
  "runs_compatible x y =
     (\<not> (r_executor_name x \<noteq> None \<and> r_external_run_id x \<noteq> None \<and> run_key x \<noteq> run_key y
         \<and> r_executor_name x = r_executor_name y \<and> r_external_run_id x = r_external_run_id y))"

interpretation jobs_table: constrained_table
  j_job_id job_update_check job_evolves "\<lambda>j. 0 < j_attempt j" jobs_compatible
proof unfold_locales
  fix c others r r'
  assume pass: "job_update_check c others r r' = Pass"
  show "j_job_id r' = j_job_id r"
    using pass by (cases c)
      (auto simp: job_update_check_def jobs_execution_provenance_immutable_def split: if_splits)
  show "job_evolves r r'"
    using pass by (cases c)
      (auto simp: job_update_check_def job_evolves_def jobs_approval_binding_write_once_def
        jobs_artifact_manifest_binding_write_once_def written_def split: if_splits)
  show "0 < j_attempt r'"
    using pass by (cases c) (auto simp: job_update_check_def split: if_splits)
  fix x assume "x \<in> set others"
  with pass show "jobs_compatible x r'"
    by (cases c) (auto simp: job_update_check_def one_active_job_per_creator_def jobs_compatible_def
        list_all_iff split: if_splits)
next
  fix r show "job_evolves r r" by (simp add: job_evolve_defs)
next
  fix r s t assume "job_evolves r s" "job_evolves s t"
  then show "job_evolves r t" by (rule job_evolves_trans)
next
  fix x y assume "jobs_compatible x y"
  then show "jobs_compatible y x" by (auto simp: jobs_compatible_def)
qed

interpretation runs_table: constrained_table
  run_key run_update_check run_evolves run_checks runs_compatible
proof unfold_locales
  fix c others r r'
  assume pass: "run_update_check c others r r' = Pass"
  show "run_key r' = run_key r"
    using pass by (auto simp: run_update_check_def runs_identity_immutable_def run_key_def split: if_splits)
  show "run_evolves r r'"
    using pass by (auto simp: run_update_check_def run_evolves_def run_checks_def
        intro: monotonic_status_evolves split: if_splits)
  show "run_checks r'"
    using pass by (auto simp: run_update_check_def split: if_splits)
  fix x assume "x \<in> set others"
  with pass show "runs_compatible x r'"
    by (auto simp: run_update_check_def runs_external_identity_owned_def runs_compatible_def
        list_all_iff split: if_splits)
next
  fix r show "run_evolves r r" by (simp add: run_evolve_defs status_evolves_def)
next
  fix r s t assume "run_evolves r s" "run_evolves s t"
  then show "run_evolves r t" by (rule run_evolves_trans)
next
  fix x y assume "runs_compatible x y"
  then show "runs_compatible y x" by (auto simp: runs_compatible_def)
qed

interpretation budgets_table: constrained_table
  budget_key budget_update_check budget_evolves budget_checks "\<lambda>_ _. True"
  by unfold_locales
    (auto simp: budget_update_check_def budget_evolves_def split: if_splits)

section \<open>The database\<close>

definition prefix_of :: "'a list \<Rightarrow> 'a list \<Rightarrow> bool" where
  "prefix_of xs ys = (take (length xs) ys = xs)"

lemma prefix_of_refl [simp]: "prefix_of xs xs"
  by (simp add: prefix_of_def)

lemma prefix_of_append [simp]: "prefix_of xs (xs @ ys)"
  by (simp add: prefix_of_def)

lemma prefix_of_iff: "prefix_of xs ys \<longleftrightarrow> (\<exists>zs. ys = xs @ zs)"
  by (metis append_eq_conv_conj append_take_drop_id prefix_of_append prefix_of_def)

lemma prefix_of_trans: "prefix_of xs ys \<Longrightarrow> prefix_of ys zs \<Longrightarrow> prefix_of xs zs"
  by (auto simp: prefix_of_iff)

definition db_evolves :: "db \<Rightarrow> db \<Rightarrow> bool" where
  "db_evolves d d' =
     (jobs_table.table_evolves (jobs d) (jobs d')
      \<and> runs_table.table_evolves (runs d) (runs d')
      \<and> budgets_table.table_evolves (budgets d) (budgets d')
      \<and> prefix_of (transitions d) (transitions d') \<and> prefix_of (approvals d) (approvals d')
      \<and> prefix_of (snapshots d) (snapshots d') \<and> prefix_of (receipts d) (receipts d'))"

lemma db_evolves_refl [simp, evolve_intros]: "db_evolves d d"
  by (simp add: db_evolves_def jobs_table.table_evolves_refl runs_table.table_evolves_refl
      budgets_table.table_evolves_refl)

lemma db_evolves_trans: "db_evolves a b \<Longrightarrow> db_evolves b c \<Longrightarrow> db_evolves a c"
  unfolding db_evolves_def
  by (blast intro: jobs_table.table_evolves_trans runs_table.table_evolves_trans
      budgets_table.table_evolves_trans prefix_of_trans)

definition run_has_job :: "db \<Rightarrow> run \<Rightarrow> bool" where
  "run_has_job d r = (\<exists>j \<in> set (jobs d). j_company_id j = r_company_id r \<and> j_job_id j = r_job_id r)"

definition schema_ok :: "db \<Rightarrow> bool" where
  "schema_ok d =
     (jobs_table.table_ok (jobs d) \<and> runs_table.table_ok (runs d)
      \<and> budgets_table.table_ok (budgets d)
      \<and> (\<forall>r \<in> set (runs d). run_has_job d r))"

text \<open>
  An operation is \<open>safe\<close> when every outcome that commits keeps the schema and evolves the database.
\<close>

definition safe_step :: "db \<Rightarrow> db \<Rightarrow> bool" where
  "safe_step d d' = (db_evolves d d' \<and> (schema_ok d \<longrightarrow> schema_ok d'))"

lemma safe_step_refl [simp, evolve_intros]: "safe_step d d"
  by (simp add: safe_step_def)

lemma safe_step_trans: "safe_step a b \<Longrightarrow> safe_step b c \<Longrightarrow> safe_step a c"
  by (auto simp: safe_step_def intro: db_evolves_trans)

lemma job_evolves_company: "job_evolves j j' \<Longrightarrow> j_company_id j' = j_company_id j"
  by (simp add: job_evolve_defs)

lemma jobs_evolve_run_has_job:
  assumes "jobs_table.table_evolves (jobs d) (jobs d')" "run_has_job d r" "run_key r' = run_key r"
  shows "run_has_job d' r'"
proof -
  from assms(2) obtain j where j: "j \<in> set (jobs d)" "j_company_id j = r_company_id r" "j_job_id j = r_job_id r"
    by (auto simp: run_has_job_def)
  with jobs_table.table_evolves_row [OF assms(1)] obtain j' where
    "j' \<in> set (jobs d')" "j_job_id j' = j_job_id j" "job_evolves j j'" by blast
  then have "j_company_id j' = r_company_id r'" "j_job_id j' = r_job_id r'"
    using j assms(3) job_evolves_company by (simp_all add: run_key_def)
  with \<open>j' \<in> set (jobs d')\<close> show ?thesis unfolding run_has_job_def by blast
qed

lemma jobs_update_safe:
  assumes "sql_update ign (job_update_check ctx) P f [] (jobs d) = Inr (js, n)"
  shows "safe_step d (d\<lparr>jobs := js\<rparr>)"
proof -
  have ev: "jobs_table.table_evolves (jobs d) js"
    by (rule jobs_table.update_evolves [OF assms])
  have "run_has_job (d\<lparr>jobs := js\<rparr>) r" if "run_has_job d r" for r
    using that by (rule jobs_evolve_run_has_job [where d = d, rotated]) (simp_all add: ev)
  with ev show ?thesis
    using jobs_table.update_table_ok [OF assms]
    by (simp add: safe_step_def db_evolves_def schema_ok_def runs_table.table_evolves_refl
        budgets_table.table_evolves_refl)
qed

lemma update_jobs_safe: "update_jobs cols P f d = Inr (d', n) \<Longrightarrow> safe_step d d'"
  by (auto simp: update_jobs_def bnd_eq_Inr intro: jobs_update_safe)

lemma update_or_ignore_jobs_safe: "update_or_ignore_jobs cols P f d = Inr (d', n) \<Longrightarrow> safe_step d d'"
  by (auto simp: update_or_ignore_jobs_def bnd_eq_Inr intro: jobs_update_safe)

lemma update_runs_safe:
  assumes "update_runs P f d = Inr (d', n)"
  shows "safe_step d d'"
proof -
  from assms obtain rs where upd: "sql_update False (run_update_check ()) P f [] (runs d) = Inr (rs, n)"
    and d': "d' = d\<lparr>runs := rs\<rparr>"
    by (auto simp: update_runs_def bnd_eq_Inr)
  have keys: "map run_key rs = map run_key (runs d)" by (rule runs_table.update_keys [OF upd])
  have "run_has_job d' r'" if fk: "\<forall>r \<in> set (runs d). run_has_job d r" and r': "r' \<in> set rs" for r'
  proof -
    from keys r' obtain r where "r \<in> set (runs d)" "run_key r = run_key r'"
      by (metis (no_types, lifting) image_iff list.set_map)
    then have "run_has_job d r" "r_company_id r = r_company_id r'" "r_job_id r = r_job_id r'"
      using fk by (simp_all add: run_key_def)
    then show ?thesis by (simp add: d' run_has_job_def)
  qed
  then show ?thesis
    using runs_table.update_evolves [OF upd] runs_table.update_table_ok [OF upd]
    by (simp add: d' safe_step_def db_evolves_def schema_ok_def jobs_table.table_evolves_refl
        budgets_table.table_evolves_refl)
qed

lemma owned_compatible:
  "runs_external_identity_owned rs new \<Longrightarrow> x \<in> set rs \<Longrightarrow> runs_compatible x new"
  by (auto simp: runs_external_identity_owned_def runs_compatible_def list_all_iff)

lemma insert_run_safe:
  assumes "insert_run ign new d = Inr d'"
  shows "safe_step d d'"
proof (cases "d' = d")
  case True
  then show ?thesis by simp
next
  case False
  with assms have ins: "run_checks new" "runs_external_identity_owned (runs d) new"
    "run_key new \<notin> run_key ` set (runs d)" "run_has_job d new" "d' = d\<lparr>runs := runs d @ [new]\<rparr>"
    by (auto simp: insert_run_def list_ex_iff run_has_job_def split: if_splits)
  have "runs_table.table_ok (runs d) \<Longrightarrow> runs_table.table_ok (runs d @ [new])"
    by (rule runs_table.insert_table_ok [OF _ ins(1,3)]) (auto intro: owned_compatible [OF ins(2)])
  then show ?thesis
    using ins(4)
    by (simp add: ins(5) safe_step_def db_evolves_def schema_ok_def run_has_job_def
        jobs_table.table_evolves_refl budgets_table.table_evolves_refl runs_table.table_evolves_append)
qed

text \<open>Tables outside \<open>schema_ok\<close> that only grow.\<close>

lemma append_transition_safe: "safe_step d (d\<lparr>transitions := transitions d @ ts\<rparr>)"
  by (simp add: safe_step_def db_evolves_def schema_ok_def run_has_job_def
      jobs_table.table_evolves_refl runs_table.table_evolves_refl budgets_table.table_evolves_refl)

lemma append_approval_safe: "safe_step d (d\<lparr>approvals := approvals d @ ts\<rparr>)"
  by (simp add: safe_step_def db_evolves_def schema_ok_def run_has_job_def
      jobs_table.table_evolves_refl runs_table.table_evolves_refl budgets_table.table_evolves_refl)

lemma append_snapshot_safe: "safe_step d (d\<lparr>snapshots := snapshots d @ ts\<rparr>)"
  by (simp add: safe_step_def db_evolves_def schema_ok_def run_has_job_def
      jobs_table.table_evolves_refl runs_table.table_evolves_refl budgets_table.table_evolves_refl)

lemma append_receipt_safe: "safe_step d (d\<lparr>receipts := receipts d @ ts\<rparr>)"
  by (simp add: safe_step_def db_evolves_def schema_ok_def run_has_job_def
      jobs_table.table_evolves_refl runs_table.table_evolves_refl budgets_table.table_evolves_refl)

lemma heartbeats_safe: "safe_step d (d\<lparr>heartbeats := hs\<rparr>)"
  by (simp add: safe_step_def db_evolves_def schema_ok_def run_has_job_def
      jobs_table.table_evolves_refl runs_table.table_evolves_refl budgets_table.table_evolves_refl)

lemma nonces_safe: "safe_step d (d\<lparr>nonces := ns\<rparr>)"
  by (simp add: safe_step_def db_evolves_def schema_ok_def run_has_job_def
      jobs_table.table_evolves_refl runs_table.table_evolves_refl budgets_table.table_evolves_refl)

lemmas [evolve_intros] =
  update_jobs_safe update_or_ignore_jobs_safe update_runs_safe insert_run_safe
  append_transition_safe append_approval_safe append_snapshot_safe append_receipt_safe
  heartbeats_safe nonces_safe

lemma transaction_safe:
  assumes "\<And>x d'. body d = Inr (x, d') \<Longrightarrow> safe_step d d'"
  shows "safe_step d (snd (transaction body d))"
  using assms by (auto simp: transaction_def split: sum.splits)

section \<open>Statements that hit exactly one row\<close>

lemma update_jobs_one:
  assumes "jobs d = us @ j # vs" "P j" "\<And>x. x \<in> set (us @ vs) \<Longrightarrow> \<not> P x"
    and "job_update_check (approvals d, cols) (us @ vs) j (f j) = Pass"
  shows "update_jobs cols P f d = Inr (d\<lparr>jobs := us @ f j # vs\<rparr>, 1)"
    and "update_or_ignore_jobs cols P f d = Inr (d\<lparr>jobs := us @ f j # vs\<rparr>, 1)"
  using assms sql_update_one [of us vs P j _ "job_update_check (approvals d, cols)" f "[]"]
  by (simp_all add: update_jobs_def update_or_ignore_jobs_def)

lemma update_jobs_none:
  assumes "\<And>x. x \<in> set (jobs d) \<Longrightarrow> \<not> P x"
  shows "update_jobs cols P f d = Inr (d, 0)" "update_or_ignore_jobs cols P f d = Inr (d, 0)"
  using sql_update_none [of "jobs d" P] assms by (simp_all add: update_jobs_def update_or_ignore_jobs_def)

lemma update_runs_one:
  assumes "runs d = us @ r # vs" "P r" "\<And>x. x \<in> set (us @ vs) \<Longrightarrow> \<not> P x"
    and "run_update_check () (us @ vs) r (f r) = Pass"
  shows "update_runs P f d = Inr (d\<lparr>runs := us @ f r # vs\<rparr>, 1)"
  using assms sql_update_one [of us vs P r False "run_update_check ()" f "[]"]
  by (simp add: update_runs_def)

text \<open>A row of a well-formed jobs table, and the rows around it.\<close>

lemma job_split:
  assumes "schema_ok d" "j \<in> set (jobs d)"
  obtains us vs where "jobs d = us @ j # vs" "\<And>x. x \<in> set (us @ vs) \<Longrightarrow> j_job_id x \<noteq> j_job_id j"
    "\<And>x. x \<in> set (us @ vs) \<Longrightarrow> jobs_compatible x j" "0 < j_attempt j"
proof -
  obtain us vs where eq: "jobs d = us @ j # vs" using assms(2) by (meson split_list)
  have ok: "distinct (map j_job_id (us @ j # vs))" "sorted_wrt jobs_compatible (us @ j # vs)"
    "\<forall>x \<in> set (us @ j # vs). 0 < j_attempt x"
    using assms(1) unfolding schema_ok_def jobs_table.table_ok_def eq by simp_all
  have "j_job_id x \<noteq> j_job_id j" if "x \<in> set (us @ vs)" for x
    using ok(1) that by (simp add: image_iff) metis
  moreover have "jobs_compatible x j" if "x \<in> set (us @ vs)" for x
    using ok(2) that jobs_table.compatible_sym by (auto simp: sorted_wrt_append)
  moreover have "0 < j_attempt j" using ok(3) by simp
  ultimately show ?thesis by (intro that [OF eq])
qed

text \<open>An update of the mutable columns only: what the triggers look at stays.\<close>

definition same_bindings :: "job \<Rightarrow> job \<Rightarrow> bool" where
  "same_bindings old new =
     (jobs_created_by_immutable old new \<and> jobs_execution_provenance_immutable old new
      \<and> jobs_execution_plan_immutable old new
      \<and> j_superseded_by_job_id new = j_superseded_by_job_id old
      \<and> j_approved_plan_fingerprint new = j_approved_plan_fingerprint old
      \<and> j_approval_record_id new = j_approval_record_id old
      \<and> j_artifact_manifest_path new = j_artifact_manifest_path old)"

lemma mutable_update_passes:
  assumes "same_bindings old new" "0 < j_attempt new" "one_active_job_per_creator others new"
    and "jobs_runner_timestamp_valid new"
    and "''superseded_by_job_id'' \<notin> set cols" "''artifact_manifest_path'' \<notin> set cols"
  shows "job_update_check (aps, cols) others old new = Pass"
  using assms
  by (simp add: same_bindings_def job_update_check_def jobs_supersession_append_only_def
      jobs_supersession_same_lineage_def written_def jobs_approval_binding_write_once_def
      jobs_artifact_manifest_binding_write_once_def)

lemma inactive_one_active: "\<not> active_job_state (j_state new) \<Longrightarrow> one_active_job_per_creator others new"
  by (simp add: one_active_job_per_creator_def)

lemma active_stays_one_active:
  assumes "\<And>x. x \<in> set others \<Longrightarrow> jobs_compatible x old" "active_job_state (j_state old)"
    and "j_created_by new = j_created_by old"
  shows "one_active_job_per_creator others new"
  using assms by (auto simp: one_active_job_per_creator_def list_all_iff jobs_compatible_def)

lemmas same_bindings_defs =
  same_bindings_def jobs_created_by_immutable_def jobs_execution_provenance_immutable_def
  jobs_execution_plan_immutable_def

end
