(* ===== verification/JobRepository.thy ===== *)
theory JobRepository
  imports Evolution
begin

text \<open>
  The company-scoped repositories over jobs, approvals, webhook nonces and callback receipts
  (\<open>db/repositories.py\<close>).  A reading method returns \<open>exn + 'a\<close>, a writing one
  \<open>exn + ('a \<times> db)\<close>; the caller owns the transaction.
\<close>

section \<open>Jobs\<close>

definition get_job :: "db \<Rightarrow> pystr \<Rightarrow> pystr \<Rightarrow> exn + job" where
  "get_job d company_id job_id =
     (case find (\<lambda>j. j_company_id j = company_id \<and> j_job_id j = job_id) (jobs d) of
        None \<Rightarrow> Inl NotFound | Some j \<Rightarrow> Inr j)"

text \<open>The snapshot-brief join that fixes what a job's row must say.\<close>

definition authoritative_identity :: "db \<Rightarrow> job \<Rightarrow> (pystr \<times> pystr \<times> pystr \<times> pystr) option" where
  "authoritative_identity d job =
     Option.bind (find (\<lambda>s. s_company_id s = j_company_id job \<and> s_snapshot_id s = j_snapshot_id job)
                   (snapshots d)) (\<lambda>s.
     Option.bind (find (\<lambda>b. b_company_id b = s_company_id s \<and> b_brief_id b = s_brief_id s
                          \<and> b_brief_id b = j_brief_id job) (briefs d)) (\<lambda>b.
       Some (s_snapshot_hash s, s_direction_id s, s_audience_segment_id s, b_created_by b)))"

definition add_job :: "job \<Rightarrow> db \<Rightarrow> exn + (unit \<times> db)" where
  "add_job job d =
     (case authoritative_identity d job of
        None \<Rightarrow> Inl NotFound
      | Some auth \<Rightarrow>
          if auth \<noteq> (j_snapshot_hash job, j_direction_id job, j_audience_segment_id job, j_created_by job)
          then Inl DataIntegrityError
          else if \<not> job_insert_ok d job then Inl SqliteIntegrityError
          else Inr ((), d\<lparr>jobs := jobs d @ [job]\<rparr>))"

definition pending_states :: "pystr list" where
  "pending_states = [''DRAFT'', ''VALIDATED'', ''PLANNED'', ''AWAITING_PAID_APPROVAL'']"

definition supersede_pending_jobs :: "pystr \<Rightarrow> pystr \<Rightarrow> pystr \<Rightarrow> db \<Rightarrow> exn + (unit \<times> db)" where
  "supersede_pending_jobs company_id created_by replacement_job_id d =
     bnd (update_jobs [''superseded_by_job_id'']
           (\<lambda>j. j_company_id j = company_id \<and> j_created_by j = created_by
              \<and> j_job_id j \<noteq> replacement_job_id \<and> j_superseded_by_job_id j = None
              \<and> j_state j \<in> set pending_states)
           (\<lambda>j. j\<lparr>j_superseded_by_job_id := Some replacement_job_id\<rparr>) d)
       (\<lambda>(d', n). Inr ((), d'))"

definition append_transition ::
  "pystr \<Rightarrow> pystr \<Rightarrow> pystr option \<Rightarrow> pystr \<Rightarrow> pystr \<Rightarrow> pystr option \<Rightarrow> db \<Rightarrow> exn + (unit \<times> db)" where
  "append_transition company_id job_id from_state to_state occurred_at reason_summary d =
     (let hits = filter (\<lambda>j. j_company_id j = company_id \<and> j_job_id j = job_id) (jobs d);
          new = map (\<lambda>j. \<lparr>t_job_id = j_job_id j, t_from_state = from_state, t_to_state = to_state,
                         t_reason_summary = reason_summary, t_occurred_at = occurred_at\<rparr>) hits
      in if length hits = 1 then Inr ((), d\<lparr>transitions := transitions d @ new\<rparr>) else Inl NotFound)"

definition compare_and_swap_state ::
  "pystr \<Rightarrow> pystr \<Rightarrow> pystr \<Rightarrow> pystr \<Rightarrow> int \<Rightarrow> pystr option \<Rightarrow> pystr option \<Rightarrow> pystr option
   \<Rightarrow> pystr option \<Rightarrow> pystr option \<Rightarrow> db \<Rightarrow> exn + (bool \<times> db)" where
  "compare_and_swap_state company_id job_id expected_state target_state attempt started_at
     finished_at current_stage error_code error_summary d =
     bnd (update_jobs
           [''state'', ''attempt'', ''started_at'', ''finished_at'', ''current_stage'',
            ''error_code'', ''error_summary'']
           (\<lambda>j. j_company_id j = company_id \<and> j_job_id j = job_id \<and> j_state j = expected_state
              \<and> j_superseded_by_job_id j = None)
           (\<lambda>j. j\<lparr>j_state := target_state, j_attempt := attempt, j_started_at := started_at,
                 j_finished_at := finished_at, j_current_stage := current_stage,
                 j_error_code := error_code, j_error_summary := error_summary\<rparr>) d)
       (\<lambda>(d', n). Inr (n = 1, d'))"

definition bind_artifact_manifest :: "pystr \<Rightarrow> pystr \<Rightarrow> pystr \<Rightarrow> db \<Rightarrow> exn + (bool \<times> db)" where
  "bind_artifact_manifest company_id job_id manifest_path d =
     (if manifest_path = [] then Inl ValueError else
      bnd (update_jobs [''artifact_manifest_path'']
            (\<lambda>j. j_company_id j = company_id \<and> j_job_id j = job_id \<and> j_state j = ''SUCCEEDED''
               \<and> j_artifact_manifest_path j = None \<and> j_superseded_by_job_id j = None)
            (\<lambda>j. j\<lparr>j_artifact_manifest_path := Some manifest_path\<rparr>) d)
        (\<lambda>(d', n). Inr (n = 1, d')))"

definition bind_paid_approval ::
  "pystr \<Rightarrow> pystr \<Rightarrow> pystr \<Rightarrow> pystr \<Rightarrow> pystr \<Rightarrow> db \<Rightarrow> exn + (bool \<times> db)" where
  "bind_paid_approval company_id job_id expected_state plan_fingerprint approval_record_id d =
     bnd (update_or_ignore_jobs [''state'', ''approved_plan_fingerprint'', ''approval_record_id'']
           (\<lambda>j. j_company_id j = company_id \<and> j_job_id j = job_id \<and> j_state j = expected_state
              \<and> j_plan_fingerprint j = Some plan_fingerprint
              \<and> j_approved_plan_fingerprint j = None \<and> j_approval_record_id j = None
              \<and> j_superseded_by_job_id j = None)
           (\<lambda>j. j\<lparr>j_state := ''QUEUED'', j_approved_plan_fingerprint := Some plan_fingerprint,
                 j_approval_record_id := Some approval_record_id\<rparr>) d)
       (\<lambda>(d', n). Inr (n = 1, d'))"

section \<open>Approvals\<close>

text \<open>
  An \<open>ApprovalRecord\<close> as the domain has it: aware UTC instants.  \<open>approval_record\<close> is its
  constructor with \<open>__post_init__\<close>.
\<close>

record approval_record =
  approval_record_id :: pystr
  approval_job_id :: pystr
  approval_type :: pystr
  approval_snapshot_hash :: pystr
  approval_plan_fingerprint :: pystr
  approved_by :: pystr
  approved_at :: instant
  expires_at :: "instant option"

definition approval_types :: "pystr list" where
  "approval_types = [''paid_execution'', ''sheet_export'', ''final_publication'']"

definition make_approval_record :: "approval_record \<Rightarrow> exn + approval_record" where
  "make_approval_record a =
     (if blank (approval_record_id a) \<or> blank (approval_job_id a) \<or> blank (approval_type a)
         \<or> blank (approval_snapshot_hash a) \<or> blank (approval_plan_fingerprint a)
         \<or> blank (approved_by a)
      then Inl ValueError
      else if approval_type a \<notin> set approval_types then Inl ValueError
      else if \<not> is_sha256_hex (approval_snapshot_hash a)
           \<or> \<not> is_sha256_hex (approval_plan_fingerprint a) then Inl ValueError
      else (case expires_at a of
              None \<Rightarrow> Inr a
            | Some e \<Rightarrow> if e \<le> approved_at a then Inl ValueError else Inr a))"

definition storage_timestamp :: "instant option \<Rightarrow> pystr option" where
  "storage_timestamp value = map_option isoformat value"

definition domain_timestamp :: "pystr option \<Rightarrow> bool \<Rightarrow> exn + instant option" where
  "domain_timestamp value optional =
     (case value of
        None \<Rightarrow> if optional then Inr None else Inl DataIntegrityError
      | Some v \<Rightarrow> (case parse_aware v of None \<Rightarrow> Inl DataIntegrityError | Some t \<Rightarrow> Inr (Some t)))"

definition add_approval :: "pystr \<Rightarrow> approval_record \<Rightarrow> db \<Rightarrow> exn + (unit \<times> db)" where
  "add_approval company_id ap d =
     (let hits = filter (\<lambda>j. j_company_id j = company_id \<and> j_job_id j = approval_job_id ap) (jobs d);
          row = \<lparr>a_approval_record_id = approval_record_id ap, a_job_id = approval_job_id ap,
                 a_approval_type = approval_type ap, a_snapshot_hash = approval_snapshot_hash ap,
                 a_plan_fingerprint = approval_plan_fingerprint ap, a_approved_by = approved_by ap,
                 a_approved_at = isoformat (approved_at ap),
                 a_expires_at = storage_timestamp (expires_at ap)\<rparr>
      in if length hits \<noteq> 1 then Inl NotFound
         else if list_ex (\<lambda>a. a_approval_record_id a = approval_record_id ap) (approvals d)
              \<or> approval_type ap \<notin> set approval_types then Inl SqliteIntegrityError
         else Inr ((), d\<lparr>approvals := approvals d @ [row]\<rparr>))"

definition approval_of_row :: "approval \<Rightarrow> instant \<Rightarrow> instant option \<Rightarrow> approval_record" where
  "approval_of_row row at ex =
     \<lparr>approval_record_id = a_approval_record_id row, approval_job_id = a_job_id row,
      approval_type = a_approval_type row, approval_snapshot_hash = a_snapshot_hash row,
      approval_plan_fingerprint = a_plan_fingerprint row, approved_by = a_approved_by row,
      approved_at = at, expires_at = ex\<rparr>"

definition get_approval :: "db \<Rightarrow> pystr \<Rightarrow> pystr \<Rightarrow> pystr \<Rightarrow> exn + approval_record" where
  "get_approval d company_id job_id record_id =
     (case find (\<lambda>a. a_job_id a = job_id \<and> a_approval_record_id a = record_id
              \<and> list_ex (\<lambda>j. j_job_id j = job_id \<and> j_company_id j = company_id) (jobs d)) (approvals d) of
        None \<Rightarrow> Inl NotFound
      | Some row \<Rightarrow>
          bnd (domain_timestamp (Some (a_approved_at row)) False) (\<lambda>at.
          bnd (domain_timestamp (a_expires_at row) True) (\<lambda>ex.
            (case at of None \<Rightarrow> Inl DataIntegrityError | Some t \<Rightarrow>
              (case make_approval_record (approval_of_row row t ex) of
                 Inl _ \<Rightarrow> Inl DataIntegrityError
               | Inr ap \<Rightarrow> Inr ap)))))"

section \<open>Webhook nonces and callback receipts\<close>

definition nonce_is_fresh :: "db \<Rightarrow> pystr \<Rightarrow> bool" where
  "nonce_is_fresh d nonce = (nonce \<noteq> [] \<and> list_all (\<lambda>n. n_nonce n \<noteq> nonce) (nonces d))"

definition consume_nonce :: "pystr \<Rightarrow> instant \<Rightarrow> instant \<Rightarrow> db \<Rightarrow> exn + (bool \<times> db)" where
  "consume_nonce nonce received_at expires d =
     (if nonce = [] \<or> expires \<le> received_at then Inl ValueError else
      let kept = filter (\<lambda>n. \<not> n_expires_at n \<le> isoformat received_at) (nonces d) in
      if list_ex (\<lambda>n. n_nonce n = nonce) kept then Inr (False, d\<lparr>nonces := kept\<rparr>)
      else Inr (True, d\<lparr>nonces := kept @ [\<lparr>n_nonce = nonce, n_received_at = isoformat received_at,
                                           n_expires_at = isoformat expires\<rparr>]\<rparr>))"

definition record_receipt ::
  "pystr \<Rightarrow> pystr \<Rightarrow> pystr \<Rightarrow> pystr \<Rightarrow> instant \<Rightarrow> db \<Rightarrow> exn + (bool \<times> db)" where
  "record_receipt company_id job_id snapshot_hash idempotency_key received_at d =
     (if company_id = [] \<or> job_id = [] \<or> snapshot_hash = [] \<or> idempotency_key = [] then Inl ValueError
      else if list_ex (\<lambda>c. c_company_id c = company_id \<and> c_job_id c = job_id
            \<and> c_snapshot_hash c = snapshot_hash \<and> c_idempotency_key c = idempotency_key) (receipts d)
      then Inr (False, d)
      else if \<not> list_ex (\<lambda>j. j_company_id j = company_id \<and> j_job_id j = job_id) (jobs d)
      then Inl SqliteIntegrityError
      else Inr (True, d\<lparr>receipts := receipts d @
             [\<lparr>c_company_id = company_id, c_job_id = job_id, c_snapshot_hash = snapshot_hash,
               c_idempotency_key = idempotency_key, c_accepted_at = isoformat received_at\<rparr>]\<rparr>))"

section \<open>Every repository write keeps the schema and evolves the database\<close>

lemma get_job_Inr:
  "get_job d c i = Inr j \<Longrightarrow> j \<in> set (jobs d) \<and> j_company_id j = c \<and> j_job_id j = i"
  by (auto simp: get_job_def split: option.splits dest: find_Some_in)

lemma add_job_safe:
  assumes "add_job job d = Inr (u, d')"
  shows "safe_step d d'"
proof -
  from assms have ok: "job_insert_ok d job" and d': "d' = d\<lparr>jobs := jobs d @ [job]\<rparr>"
    by (auto simp: add_job_def split: option.splits if_splits)
  from ok have "j_job_id job \<notin> j_job_id ` set (jobs d)" "0 < j_attempt job"
    and comp: "\<And>x. x \<in> set (jobs d) \<Longrightarrow> jobs_compatible x job"
    by (auto simp: job_insert_ok_def list_all_iff one_active_job_per_creator_def jobs_compatible_def)
  then have "jobs_table.table_ok (jobs d) \<Longrightarrow> jobs_table.table_ok (jobs d @ [job])"
    by (intro jobs_table.insert_table_ok)
  then show ?thesis
    by (auto simp: d' safe_step_def db_evolves_def schema_ok_def run_has_job_def
        runs_table.table_evolves_refl budgets_table.table_evolves_refl jobs_table.table_evolves_append)
qed

lemma supersede_pending_jobs_safe: "supersede_pending_jobs c b r d = Inr (u, d') \<Longrightarrow> safe_step d d'"
  by (auto simp: supersede_pending_jobs_def bnd_eq_Inr intro: update_jobs_safe)

lemma append_transition_op_safe: "append_transition c j f t a r d = Inr (u, d') \<Longrightarrow> safe_step d d'"
  by (auto simp: append_transition_def Let_def split: if_splits intro: append_transition_safe)

lemma compare_and_swap_state_safe:
  "compare_and_swap_state c j e t a s f cs ec es d = Inr (b, d') \<Longrightarrow> safe_step d d'"
  by (auto simp: compare_and_swap_state_def bnd_eq_Inr intro: update_jobs_safe)

lemma bind_artifact_manifest_safe: "bind_artifact_manifest c j m d = Inr (b, d') \<Longrightarrow> safe_step d d'"
  by (auto simp: bind_artifact_manifest_def bnd_eq_Inr split: if_splits intro: update_jobs_safe)

lemma bind_paid_approval_safe: "bind_paid_approval c j e p a d = Inr (b, d') \<Longrightarrow> safe_step d d'"
  by (auto simp: bind_paid_approval_def bnd_eq_Inr intro: update_or_ignore_jobs_safe)

lemma add_approval_safe: "add_approval c ap d = Inr (u, d') \<Longrightarrow> safe_step d d'"
  by (auto simp: add_approval_def Let_def split: if_splits intro: append_approval_safe)

lemma consume_nonce_safe: "consume_nonce n r e d = Inr (b, d') \<Longrightarrow> safe_step d d'"
  by (auto simp: consume_nonce_def Let_def split: if_splits intro: nonces_safe)

lemma record_receipt_safe: "record_receipt c j h k r d = Inr (b, d') \<Longrightarrow> safe_step d d'"
  by (auto simp: record_receipt_def split: if_splits intro: append_receipt_safe)

lemmas job_repository_safe =
  add_job_safe supersede_pending_jobs_safe append_transition_op_safe compare_and_swap_state_safe
  bind_artifact_manifest_safe bind_paid_approval_safe add_approval_safe consume_nonce_safe
  record_receipt_safe

end
