(* ===== verification/RunnerStore.thy ===== *)
theory RunnerStore
  imports JobRepository "HOL-Library.Product_Lexorder" "HOL-Library.Option_ord"
begin

text \<open>
  \<open>RunnerRepository\<close> (\<open>db/repositories.py\<close>): the scheduler's candidate queries, the leases on
  execution runs and the statements that record what an executor answered.  Every writing method
  returns \<open>exn + (bool \<times> db)\<close> or \<open>exn + (run option \<times> db)\<close>; the caller owns the transaction.
\<close>

record candidate =
  k_company_id :: pystr
  k_job_id :: pystr
  k_attempt :: int
  k_state :: pystr

definition candidate_key :: "candidate \<Rightarrow> run_key" where
  "candidate_key k = (k_company_id k, k_job_id k, k_attempt k)"

definition job_key :: "job \<Rightarrow> run_key" where
  "job_key j = (j_company_id j, j_job_id j, j_attempt j)"

definition candidate_of :: "job \<Rightarrow> candidate" where
  "candidate_of j = \<lparr>k_company_id = j_company_id j, k_job_id = j_job_id j,
                     k_attempt = j_attempt j, k_state = j_state j\<rparr>"

section \<open>Shapes of statements\<close>

text \<open>The run a LEFT JOIN on the attempt finds, and a column of it (NULL when there is none).\<close>

definition run_of :: "db \<Rightarrow> run_key \<Rightarrow> run option" where
  "run_of d key = find (\<lambda>r. run_key r = key) (runs d)"

definition col :: "(run \<Rightarrow> 'a option) \<Rightarrow> run option \<Rightarrow> 'a option" where
  "col f ro = Option.bind ro f"

text \<open>ORDER BY key LIMIT 1 (NULLs first, as SQLite and \<^theory_text>\<open>Option_ord\<close> have it).\<close>

fun first_by :: "('r \<Rightarrow> 'k::linorder) \<Rightarrow> 'r list \<Rightarrow> 'r option" where
  "first_by key [] = None"
| "first_by key (x # xs) =
     (case first_by key xs of None \<Rightarrow> Some x
      | Some y \<Rightarrow> if key x \<le> key y then Some x else Some y)"

text \<open>
  One UPDATE reported as \<open>cursor.rowcount == 1\<close>, and one followed by another statement when it
  changed a row (\<open>if cursor.rowcount != 1: return False\<close>).
\<close>

definition run_write :: "(run \<Rightarrow> bool) \<Rightarrow> (run \<Rightarrow> run) \<Rightarrow> db \<Rightarrow> exn + (bool \<times> db)" where
  "run_write P f d = bnd (update_runs P f d) (\<lambda>(d', n). Inr (n = 1, d'))"

definition run_then ::
  "(run \<Rightarrow> bool) \<Rightarrow> (run \<Rightarrow> run) \<Rightarrow> (db \<Rightarrow> exn + (bool \<times> db)) \<Rightarrow> db \<Rightarrow> exn + (bool \<times> db)" where
  "run_then P f g d = bnd (update_runs P f d) (\<lambda>(d', n). if n = 1 then g d' else Inr (False, d'))"

definition job_write ::
  "string list \<Rightarrow> (job \<Rightarrow> bool) \<Rightarrow> (job \<Rightarrow> job) \<Rightarrow> db \<Rightarrow> exn + (bool \<times> db)" where
  "job_write cols P f d = bnd (update_jobs cols P f d) (\<lambda>(d', n). Inr (n = 1, d'))"

text \<open>WHERE fragments and SET fragments that recur.\<close>

definition at_run :: "candidate \<Rightarrow> run \<Rightarrow> bool" where
  "at_run k r = (r_company_id r = k_company_id k \<and> r_job_id r = k_job_id k \<and> r_attempt r = k_attempt k)"

definition at_job :: "candidate \<Rightarrow> job \<Rightarrow> bool" where
  "at_job k j = (j_company_id j = k_company_id k \<and> j_job_id j = k_job_id k \<and> j_attempt j = k_attempt k)"

definition lease_open :: "pystr \<Rightarrow> run \<Rightarrow> bool" where
  "lease_open now r = (r_lease_token r = None \<or> opt_le (r_lease_expires_at r) now)"

definition claimable :: "pystr \<Rightarrow> pystr \<Rightarrow> run \<Rightarrow> bool" where
  "claimable now tok r = (lease_open now r \<or> r_lease_token r = Some tok)"

definition touch :: "pystr \<Rightarrow> run \<Rightarrow> run" where
  "touch now r = r\<lparr>r_heartbeat_at := now, r_updated_at := now\<rparr>"

definition release :: "pystr \<Rightarrow> run \<Rightarrow> run" where
  "release now r = r\<lparr>r_heartbeat_at := now, r_lease_token := None, r_lease_expires_at := None,
                    r_updated_at := now\<rparr>"

definition lease :: "pystr \<Rightarrow> pystr \<Rightarrow> pystr \<Rightarrow> run \<Rightarrow> run" where
  "lease tok expires now r =
     r\<lparr>r_lease_token := Some tok, r_lease_expires_at := Some expires, r_heartbeat_at := now,
       r_updated_at := now\<rparr>"

definition in_flight :: "run \<Rightarrow> bool" where
  "in_flight r = opt_in (r_external_status r) [''ACCEPTED'', ''RUNNING'']"

definition job_exists :: "db \<Rightarrow> (job \<Rightarrow> bool) \<Rightarrow> bool" where
  "job_exists d P = list_ex P (jobs d)"

section \<open>Heartbeat\<close>

definition record_heartbeat :: "pystr \<Rightarrow> pystr \<Rightarrow> db \<Rightarrow> exn + (unit \<times> db)" where
  "record_heartbeat runner_id now d =
     (if list_ex (\<lambda>h. h_runner_id h = runner_id) (heartbeats d)
      then Inr ((), d\<lparr>heartbeats := map (\<lambda>h. if h_runner_id h = runner_id
                                    then h\<lparr>h_heartbeat_at := now\<rparr> else h) (heartbeats d)\<rparr>)
      else Inr ((), d\<lparr>heartbeats := heartbeats d @
             [\<lparr>h_runner_id = runner_id, h_started_at = now, h_heartbeat_at = now\<rparr>]\<rparr>))"

section \<open>Candidate queries\<close>

definition stage_is_not :: "pystr option \<Rightarrow> pystr \<Rightarrow> bool" where
  "stage_is_not stage v = ((case stage of None \<Rightarrow> [] | Some s \<Rightarrow> s) \<noteq> v)"

definition not_utc :: "pystr option \<Rightarrow> bool" where
  "not_utc c = (case c of None \<Rightarrow> False | Some t \<Rightarrow> \<not> is_utc_timestamp t)"

definition invalid_scheduler_times :: "db \<Rightarrow> job \<Rightarrow> bool" where
  "invalid_scheduler_times d j =
     (let run = run_of d (job_key j) in
      j_superseded_by_job_id j = None
      \<and> (not_utc (j_started_at j) \<or> not_utc (col r_next_action_at run)
         \<or> not_utc (col r_lease_expires_at run)))"

definition next_invalid_scheduler_candidate :: "db \<Rightarrow> candidate option" where
  "next_invalid_scheduler_candidate d =
     map_option candidate_of
       (first_by (\<lambda>j. (j_company_id j, j_job_id j)) (filter (invalid_scheduler_times d) (jobs d)))"

definition recovery_eligible :: "pystr \<Rightarrow> pystr \<Rightarrow> db \<Rightarrow> job \<Rightarrow> bool" where
  "recovery_eligible now stale_before d j =
     (let run = run_of d (job_key j) in
      j_superseded_by_job_id j = None
      \<and> (j_state j = ''QUEUED''
           \<and> stage_is_not (j_current_stage j) ''reconciliation_required''
           \<and> (col r_lease_token run = None \<or> opt_le (col r_lease_expires_at run) now)
         \<or> j_state j = ''RUNNING'' \<and> j_current_stage j = Some ''dispatching''
           \<and> col r_external_run_id run = None \<and> col r_external_status run = None
           \<and> (col r_next_action_at run = None \<or> opt_le (col r_next_action_at run) now)
           \<and> (col r_lease_token run = None \<or> opt_le (col r_lease_expires_at run) now)
         \<or> j_state j = ''RUNNING'' \<and> run = None
           \<and> opt_le (j_started_at j) stale_before
           \<and> stage_is_not (j_current_stage j) ''reconciliation_required''))"

definition next_recovery_candidate :: "pystr \<Rightarrow> pystr \<Rightarrow> db \<Rightarrow> candidate option" where
  "next_recovery_candidate now stale_before d =
     map_option candidate_of
       (first_by (\<lambda>j. (if j_state j = ''QUEUED'' then 0 else 1 :: nat, j_created_at j,
                        j_company_id j, j_job_id j))
         (filter (recovery_eligible now stale_before d) (jobs d)))"

text \<open>The other queries join a job with its run; \<open>joined\<close> is that inner join.\<close>

definition joined :: "db \<Rightarrow> (job \<Rightarrow> run \<Rightarrow> bool) \<Rightarrow> (job \<times> run) list" where
  "joined d P =
     List.map_filter (\<lambda>j. case run_of d (job_key j) of None \<Rightarrow> None
                          | Some r \<Rightarrow> if P j r then Some (j, r) else None) (jobs d)"

definition poll_eligible :: "pystr \<Rightarrow> job \<Rightarrow> run \<Rightarrow> bool" where
  "poll_eligible now j r =
     (j_state j = ''RUNNING'' \<and> j_superseded_by_job_id j = None
      \<and> r_external_run_id r \<noteq> None \<and> in_flight r
      \<and> stage_is_not (r_current_stage r) ''reconciliation_required''
      \<and> (r_next_action_at r = None \<or> opt_le (r_next_action_at r) now)
      \<and> lease_open now r)"

definition next_poll_candidate :: "pystr \<Rightarrow> db \<Rightarrow> candidate option" where
  "next_poll_candidate now d =
     map_option (candidate_of \<circ> fst)
       (first_by (\<lambda>(j, r). (case r_next_action_at r of None \<Rightarrow> r_updated_at r | Some t \<Rightarrow> t,
                             j_company_id j, j_job_id j))
         (joined d (poll_eligible now)))"

definition retry_eligible :: "pystr \<Rightarrow> job \<Rightarrow> run \<Rightarrow> bool" where
  "retry_eligible now j r =
     (j_state j = ''FAILED_RETRYABLE'' \<and> j_superseded_by_job_id j = None
      \<and> r_external_status r = Some ''FAILED_RETRYABLE''
      \<and> opt_le (r_next_action_at r) now \<and> lease_open now r)"

definition next_retry_candidate :: "pystr \<Rightarrow> db \<Rightarrow> candidate option" where
  "next_retry_candidate now d =
     map_option (candidate_of \<circ> fst)
       (first_by (\<lambda>(j, r). (r_next_action_at r, j_company_id j, j_job_id j))
         (joined d (retry_eligible now)))"

definition cancel_eligible :: "pystr \<Rightarrow> job \<Rightarrow> run \<Rightarrow> bool" where
  "cancel_eligible now j r =
     (j_state j = ''CANCELED'' \<and> j_superseded_by_job_id j = None
      \<and> r_external_status r \<noteq> Some ''CANCELED''
      \<and> stage_is_not (r_current_stage r) ''cancel_reconciliation_required''
      \<and> (stage_is_not (r_current_stage r) ''cancel_retry_pending''
         \<or> r_next_action_at r = None \<or> opt_le (r_next_action_at r) now)
      \<and> lease_open now r)"

definition next_cancel_candidate :: "pystr \<Rightarrow> db \<Rightarrow> candidate option" where
  "next_cancel_candidate now d =
     map_option (candidate_of \<circ> fst)
       (first_by (\<lambda>(j, r). (j_finished_at j, j_company_id j, j_job_id j))
         (joined d (cancel_eligible now)))"

definition terminal_eligible :: "pystr \<Rightarrow> job \<Rightarrow> run \<Rightarrow> bool" where
  "terminal_eligible now j r =
     (j_superseded_by_job_id j = None
      \<and> stage_is_not (r_current_stage r) ''reconciliation_required''
      \<and> (j_state j = ''RUNNING'' \<and> opt_in (r_external_status r) terminal_statuses
         \<or> j_state j = ''QUEUED'' \<and> r_external_run_id r = None
           \<and> opt_in (r_external_status r) [''FAILED_RETRYABLE'', ''FAILED_FINAL'']
         \<or> j_state j = ''SUCCEEDED'' \<and> r_external_status r = Some ''SUCCEEDED''
           \<and> j_artifact_manifest_path j = None)
      \<and> lease_open now r)"

definition next_terminal_recovery_candidate :: "pystr \<Rightarrow> db \<Rightarrow> candidate option" where
  "next_terminal_recovery_candidate now d =
     map_option (candidate_of \<circ> fst)
       (first_by (\<lambda>(j, r). (r_completion_observed_at r, j_company_id j, j_job_id j))
         (joined d (terminal_eligible now)))"

section \<open>Reading\<close>

definition get_run :: "db \<Rightarrow> run_key \<Rightarrow> exn + run" where
  "get_run d key = (case run_of d key of None \<Rightarrow> Inl NotFound | Some r \<Rightarrow> Inr r)"

definition retry_count_for_stage :: "db \<Rightarrow> pystr \<Rightarrow> pystr \<Rightarrow> pystr \<Rightarrow> exn + int" where
  "retry_count_for_stage d company_id job_id retry_stage_id =
     (case find (\<lambda>g. budget_key g = (company_id, job_id, retry_stage_id)) (budgets d) of
        None \<Rightarrow> Inr 0
      | Some g \<Rightarrow> if g_failure_count g < 0 then Inl DataIntegrityError else Inr (g_failure_count g))"

definition stored_job_state :: "db \<Rightarrow> candidate \<Rightarrow> exn + pystr" where
  "stored_job_state d k =
     (case find (at_job k) (jobs d) of None \<Rightarrow> Inl NotFound | Some j \<Rightarrow> Inr (j_state j))"

end
