(* ===== verification/RunnerClaims.thy ===== *)
theory RunnerClaims
  imports RunnerStore
begin

text \<open>
  \<open>RunnerRepository\<close>: claiming a run under a lease, the retry budgets, and the statements that move
  a run into reconciliation without a lease.
\<close>

section \<open>Claims\<close>

definition claim_result :: "candidate \<Rightarrow> db \<times> nat \<Rightarrow> exn + (run option \<times> db)" where
  "claim_result k res = (case res of (d', n) \<Rightarrow>
     if n \<noteq> 1 then Inr (None, d') else bnd (get_run d' (candidate_key k)) (\<lambda>r. Inr (Some r, d')))"

definition claim_existing_run ::
  "candidate \<Rightarrow> pystr list \<Rightarrow> pystr \<Rightarrow> pystr \<Rightarrow> pystr \<Rightarrow> db \<Rightarrow> exn + (run option \<times> db)" where
  "claim_existing_run k expected_statuses now lease_token lease_expires_at d =
     (if expected_statuses = [] then Inl ValueError else
      bnd (update_runs
            (\<lambda>r. at_run k r \<and> opt_in (r_external_status r) expected_statuses
               \<and> claimable now lease_token r
               \<and> job_exists d (\<lambda>j. job_key j = run_key r \<and> j_state j = k_state k
                    \<and> j_superseded_by_job_id j = None))
            (lease lease_token lease_expires_at now) d)
        (claim_result k))"

text \<open>A run row as an INSERT writes it: the columns not named take their schema defaults.\<close>

definition default_run :: "candidate \<Rightarrow> pystr \<Rightarrow> pystr \<Rightarrow> run" where
  "default_run k idempotency_key now =
     \<lparr>r_company_id = k_company_id k, r_job_id = k_job_id k, r_attempt = k_attempt k,
      r_idempotency_key = idempotency_key, r_external_run_id = None, r_executor_name = None,
      r_external_accepted_at = None, r_acceptance_observed_at = None, r_external_status = None,
      r_current_stage = None, r_next_action_at = None, r_submission_attempted_at = None,
      r_completion_observed_at = None, r_error_code = None, r_error_summary = None,
      r_result_json = None, r_result_hash = None, r_heartbeat_at = now, r_lease_token = None,
      r_lease_expires_at = None, r_reconciliation_count = 0, r_retry_stage_id = ''submission'',
      r_transient_failure_count = 0, r_created_at = now, r_updated_at = now\<rparr>"

definition submission_job :: "candidate \<Rightarrow> job \<Rightarrow> bool" where
  "submission_job k j =
     (at_job k j \<and> j_state j = k_state k \<and> j_superseded_by_job_id j = None
      \<and> (k_state k \<noteq> ''RUNNING'' \<or> j_current_stage j = Some ''dispatching''))"

text \<open>The queued half of \<open>claim_submission\<close>: the job starts running and the audit row is written.\<close>

definition dispatch_rows :: "candidate \<Rightarrow> pystr \<Rightarrow> db \<Rightarrow> transition list" where
  "dispatch_rows k now d =
     map (\<lambda>j. \<lparr>t_job_id = j_job_id j, t_from_state = Some ''QUEUED'', t_to_state = ''RUNNING'',
               t_reason_summary = Some ''external dispatch claimed'', t_occurred_at = now\<rparr>)
       (filter (\<lambda>j. at_job k j \<and> j_state j = ''RUNNING''
            \<and> j_current_stage j = Some ''dispatching'') (jobs d))"

definition start_dispatch :: "candidate \<Rightarrow> pystr \<Rightarrow> db \<Rightarrow> exn + (unit \<times> db)" where
  "start_dispatch k now d =
     bnd (update_jobs [''state'', ''current_stage'', ''started_at'']
           (\<lambda>j. at_job k j \<and> j_state j = ''QUEUED'' \<and> j_superseded_by_job_id j = None)
           (\<lambda>j. j\<lparr>j_state := ''RUNNING'', j_current_stage := Some ''dispatching'',
                 j_started_at := coalesce (j_started_at j) (Some now)\<rparr>) d) (\<lambda>(d1, n).
     bnd (require (n = 1) DataIntegrityError) (\<lambda>_.
     bnd (require (length (dispatch_rows k now d1) = 1) DataIntegrityError) (\<lambda>_.
     Inr ((), d1\<lparr>transitions := transitions d1 @ dispatch_rows k now d1\<rparr>))))"

definition insert_submission ::
  "candidate \<Rightarrow> pystr \<Rightarrow> pystr \<Rightarrow> pystr \<Rightarrow> pystr \<Rightarrow> pystr \<Rightarrow> db \<Rightarrow> exn + db" where
  "insert_submission k idempotency_key executor_name now lease_token lease_expires_at d =
     (if job_exists d (submission_job k)
      then insert_run False
             ((default_run k idempotency_key now)
                \<lparr>r_executor_name := Some executor_name, r_submission_attempted_at := Some now,
                 r_lease_token := Some lease_token, r_lease_expires_at := Some lease_expires_at\<rparr>) d
      else Inr d)"

definition lease_submission ::
  "candidate \<Rightarrow> pystr \<Rightarrow> pystr \<Rightarrow> pystr \<Rightarrow> pystr \<Rightarrow> pystr \<Rightarrow> db \<Rightarrow> exn + (db \<times> nat)" where
  "lease_submission k idempotency_key executor_name now lease_token lease_expires_at d =
     update_runs
       (\<lambda>r. at_run k r \<and> r_idempotency_key r = idempotency_key
          \<and> (r_executor_name r = None \<or> r_executor_name r = Some executor_name)
          \<and> claimable now lease_token r
          \<and> job_exists d (\<lambda>j. job_key j = run_key r \<and> j_state j = k_state k
               \<and> (k_state k \<noteq> ''RUNNING'' \<or> j_current_stage j = Some ''dispatching'')
               \<and> j_superseded_by_job_id j = None))
       (\<lambda>r. (lease lease_token lease_expires_at now r)
               \<lparr>r_executor_name := coalesce (r_executor_name r) (Some executor_name)\<rparr>) d"

definition claim_submission ::
  "candidate \<Rightarrow> pystr \<Rightarrow> pystr \<Rightarrow> pystr \<Rightarrow> pystr \<Rightarrow> pystr \<Rightarrow> db \<Rightarrow> exn + (run option \<times> db)" where
  "claim_submission k idempotency_key executor_name now lease_token lease_expires_at d =
     (if k_state k \<notin> {''QUEUED'', ''RUNNING''} then Inl ValueError else
      bnd (insert_submission k idempotency_key executor_name now lease_token lease_expires_at d) (\<lambda>d1.
      bnd (lease_submission k idempotency_key executor_name now lease_token lease_expires_at d1)
        (\<lambda>(d2, n).
      if n \<noteq> 1 then Inr (None, d2) else
      bnd (if k_state k = ''QUEUED'' then start_dispatch k now d2 else Inr ((), d2)) (\<lambda>(u, d3).
      bnd (get_run d3 (candidate_key k)) (\<lambda>r. Inr (Some r, d3))))))"

definition claim_canceled_lookup ::
  "candidate \<Rightarrow> pystr \<Rightarrow> pystr \<Rightarrow> pystr \<Rightarrow> db \<Rightarrow> exn + (run option \<times> db)" where
  "claim_canceled_lookup k lease_token lease_expires_at now d =
     bnd (update_runs
           (\<lambda>r. at_run k r \<and> r_external_run_id r = None \<and> r_external_status r = None
              \<and> claimable now lease_token r
              \<and> job_exists d (\<lambda>j. job_key j = run_key r \<and> j_state j = ''CANCELED''
                   \<and> j_current_stage j = Some ''dispatching'' \<and> j_superseded_by_job_id j = None))
           (lease lease_token lease_expires_at now) d)
       (claim_result k)"

section \<open>Retry budgets\<close>

definition consume_stage_retry :: "candidate \<Rightarrow> pystr \<Rightarrow> pystr \<Rightarrow> db \<Rightarrow> exn + (unit \<times> db)" where
  "consume_stage_retry k retry_stage_id now d =
     (let new = \<lparr>g_company_id = k_company_id k, g_job_id = k_job_id k,
                 g_retry_stage_id = retry_stage_id, g_failure_count = 1,
                 g_created_at = now, g_updated_at = now\<rparr> in
      if \<not> budget_checks new then Inl SqliteIntegrityError
      else if list_ex (\<lambda>g. budget_key g = budget_key new) (budgets d)
      then bnd (sql_update False (budget_update_check ()) (\<lambda>g. budget_key g = budget_key new)
                 (\<lambda>g. g\<lparr>g_failure_count := g_failure_count g + 1, g_updated_at := now\<rparr>) [] (budgets d))
             (\<lambda>(gs, n). Inr ((), d\<lparr>budgets := gs\<rparr>))
      else if list_ex (\<lambda>j. j_company_id j = k_company_id k \<and> j_job_id j = k_job_id k) (jobs d)
      then Inr ((), d\<lparr>budgets := budgets d @ [new]\<rparr>)
      else Inl SqliteIntegrityError)"

definition then_consume_retry :: "candidate \<Rightarrow> pystr \<Rightarrow> pystr \<Rightarrow> db \<Rightarrow> exn + (bool \<times> db)" where
  "then_consume_retry k retry_stage_id now d =
     bnd (consume_stage_retry k retry_stage_id now d) (\<lambda>(u, d'). Inr (True, d'))"

section \<open>Moving work aside without a lease\<close>

definition quarantine_invalid_scheduler_timestamps ::
  "candidate \<Rightarrow> pystr \<Rightarrow> db \<Rightarrow> exn + (bool \<times> db)" where
  "quarantine_invalid_scheduler_timestamps k now d =
     (if \<not> job_exists d (\<lambda>j. at_job k j \<and> invalid_scheduler_times d j) then Inr (False, d) else
      bnd (update_runs (at_run k)
            (\<lambda>r. (release now r)\<lparr>r_current_stage := Some ''reconciliation_required'',
                  r_next_action_at := None,
                  r_error_code := Some ''SCHEDULER_TIMESTAMP_INVALID'',
                  r_error_summary := Some ''scheduler timestamp requires reconciliation'',
                  r_reconciliation_count := r_reconciliation_count r + 1\<rparr>) d) (\<lambda>(d1, n).
      job_write [''current_stage'', ''error_code'', ''error_summary'']
        (\<lambda>j. at_job k j \<and> j_superseded_by_job_id j = None)
        (\<lambda>j. j\<lparr>j_current_stage := Some ''reconciliation_required'',
              j_error_code := Some ''SCHEDULER_TIMESTAMP_INVALID'',
              j_error_summary := Some ''scheduler timestamp requires reconciliation''\<rparr>) d1))"

definition reconcile_poll_after_local_cancel ::
  "candidate \<Rightarrow> bool \<Rightarrow> pystr \<Rightarrow> db \<Rightarrow> exn + (bool \<times> db)" where
  "reconcile_poll_after_local_cancel k terminal now d =
     (if terminal
      then run_write
             (\<lambda>r. at_run k r \<and> r_lease_token r = None
                \<and> opt_in (r_external_status r) [''SUCCEEDED'', ''FAILED_RETRYABLE'', ''FAILED_FINAL'']
                \<and> job_exists d (\<lambda>j. at_job k j \<and> j_state j = ''CANCELED''))
             (\<lambda>r. (touch now r)\<lparr>r_current_stage := Some ''cancel_reconciliation_required'',
                   r_next_action_at := None,
                   r_reconciliation_count := r_reconciliation_count r + 1\<rparr>) d
      else run_write
             (\<lambda>r. at_run k r \<and> r_lease_token r = None \<and> in_flight r
                \<and> job_exists d (\<lambda>j. at_job k j \<and> j_state j = ''CANCELED''))
             (\<lambda>r. (touch now r)\<lparr>r_next_action_at := None\<rparr>) d)"

definition reconcile_terminal_after_local_cancel :: "candidate \<Rightarrow> pystr \<Rightarrow> db \<Rightarrow> exn + (bool \<times> db)" where
  "reconcile_terminal_after_local_cancel k now d =
     run_write
       (\<lambda>r. at_run k r
          \<and> opt_in (r_external_status r) [''SUCCEEDED'', ''FAILED_RETRYABLE'', ''FAILED_FINAL'']
          \<and> lease_open now r \<and> job_exists d (\<lambda>j. at_job k j \<and> j_state j = ''CANCELED''))
       (\<lambda>r. (release now r)\<lparr>r_current_stage := Some ''cancel_reconciliation_required'',
             r_next_action_at := None,
             r_reconciliation_count := r_reconciliation_count r + 1\<rparr>) d"

definition update_running_stage :: "candidate \<Rightarrow> pystr option \<Rightarrow> db \<Rightarrow> exn + (bool \<times> db)" where
  "update_running_stage k current_stage d =
     job_write [''current_stage'']
       (\<lambda>j. at_job k j \<and> j_state j = ''RUNNING'' \<and> j_superseded_by_job_id j = None)
       (\<lambda>j. j\<lparr>j_current_stage := current_stage\<rparr>) d"

text \<open>The SET clause shared by the operations that move a run into reconciliation.\<close>

definition reconcile_run :: "pystr \<Rightarrow> pystr \<Rightarrow> pystr \<Rightarrow> pystr \<Rightarrow> run \<Rightarrow> run" where
  "reconcile_run stage error_code error_summary now r =
     (release now r)\<lparr>r_current_stage := Some stage, r_next_action_at := None,
        r_error_code := Some error_code, r_error_summary := Some error_summary,
        r_reconciliation_count := r_reconciliation_count r + 1\<rparr>"

definition reconcile_job :: "pystr \<Rightarrow> pystr \<Rightarrow> job \<Rightarrow> job" where
  "reconcile_job error_code error_summary j =
     j\<lparr>j_current_stage := Some ''reconciliation_required'', j_error_code := Some error_code,
       j_error_summary := Some error_summary\<rparr>"

definition mark_observed_reconciliation_required ::
  "candidate \<Rightarrow> pystr \<Rightarrow> pystr \<Rightarrow> pystr \<Rightarrow> db \<Rightarrow> exn + (bool \<times> db)" where
  "mark_observed_reconciliation_required k error_code error_summary now d =
     run_then (\<lambda>r. at_run k r \<and> r_external_run_id r \<noteq> None)
       (reconcile_run ''reconciliation_required'' error_code error_summary now)
       (job_write [''current_stage'', ''error_code'', ''error_summary'']
          (\<lambda>j. at_job k j \<and> j_state j \<in> {''RUNNING'', ''SUCCEEDED'', ''CANCELED''})
          (reconcile_job error_code error_summary)) d"

definition quarantine_running_dispatch ::
  "candidate \<Rightarrow> pystr \<Rightarrow> pystr \<Rightarrow> pystr \<Rightarrow> db \<Rightarrow> exn + (bool \<times> db)" where
  "quarantine_running_dispatch k error_code error_summary now d =
     run_then (\<lambda>r. at_run k r \<and> r_external_run_id r = None \<and> r_external_status r = None
               \<and> lease_open now r)
       (reconcile_run ''reconciliation_required'' error_code error_summary now)
       (job_write [''current_stage'', ''error_code'', ''error_summary'']
          (\<lambda>j. at_job k j \<and> j_state j = ''RUNNING'' \<and> j_current_stage j = Some ''dispatching'')
          (reconcile_job error_code error_summary)) d"

definition mark_cancel_reconciliation_required :: "candidate \<Rightarrow> pystr \<Rightarrow> db \<Rightarrow> exn + (bool \<times> db)" where
  "mark_cancel_reconciliation_required k now d =
     run_then (\<lambda>r. at_run k r \<and> r_external_run_id r = None \<and> lease_open now r)
       (\<lambda>r. (release now r)\<lparr>r_current_stage := Some ''cancel_reconciliation_required'',
             r_reconciliation_count := r_reconciliation_count r + 1\<rparr>)
       (job_write [''current_stage''] (\<lambda>j. at_job k j \<and> j_state j = ''CANCELED'')
          (\<lambda>j. j\<lparr>j_current_stage := Some ''cancel_reconciliation_required''\<rparr>)) d"

definition mark_reconciliation_required :: "candidate \<Rightarrow> pystr \<Rightarrow> pystr \<Rightarrow> db \<Rightarrow> exn + (unit \<times> db)" where
  "mark_reconciliation_required k idempotency_key now d =
     bnd (insert_run False
           ((default_run k idempotency_key now)\<lparr>r_current_stage := Some ''reconciliation_required'',
              r_reconciliation_count := 1\<rparr>) d) (\<lambda>d1.
     bnd (update_jobs [''current_stage'']
           (\<lambda>j. at_job k j \<and> j_state j = ''RUNNING'' \<and> j_superseded_by_job_id j = None)
           (\<lambda>j. j\<lparr>j_current_stage := Some ''reconciliation_required''\<rparr>) d1) (\<lambda>(d2, n).
     if n \<noteq> 1 then Inl NotFound else Inr ((), d2)))"

definition quarantine_queued_job ::
  "candidate \<Rightarrow> pystr \<Rightarrow> pystr \<Rightarrow> pystr \<Rightarrow> db \<Rightarrow> exn + (bool \<times> db)" where
  "quarantine_queued_job k error_code error_summary now d =
     (if \<not> job_exists d (\<lambda>j. at_job k j \<and> j_state j = ''QUEUED'' \<and> j_superseded_by_job_id j = None)
      then Inr (False, d) else
      bnd (insert_run True
            ((default_run k (k_company_id k @ '':'' @ k_job_id k @ '':'' @ dec_int (k_attempt k)) now)
               \<lparr>r_current_stage := Some ''reconciliation_required'',
                r_error_code := Some error_code, r_error_summary := Some error_summary,
                r_reconciliation_count := 1\<rparr>) d) (\<lambda>d1.
      run_then
        (\<lambda>r. at_run k r \<and> r_external_run_id r = None \<and> r_external_status r = None
           \<and> r_lease_token r = None)
        (\<lambda>r. (touch now r)\<lparr>r_current_stage := Some ''reconciliation_required'',
              r_error_code := Some error_code, r_error_summary := Some error_summary,
              r_reconciliation_count :=
                (if r_current_stage r = Some ''reconciliation_required'' then r_reconciliation_count r
                 else r_reconciliation_count r + 1)\<rparr>)
        (job_write [''current_stage'', ''error_code'', ''error_summary'']
           (\<lambda>j. at_job k j \<and> j_state j = ''QUEUED'' \<and> j_superseded_by_job_id j = None)
           (reconcile_job error_code error_summary)) d1))"

end
