(* ===== verification/RunnerSettle.thy ===== *)
theory RunnerSettle
  imports RunnerClaims
begin

text \<open>
  \<open>RunnerRepository\<close>: the operations a runner may perform only under the lease it holds.  Each
  one records an outcome for the run; all but \<open>begin_cancel_stage\<close> give the lease back.
\<close>

section \<open>Acceptance\<close>

definition accept_run ::
  "pystr \<Rightarrow> pystr \<Rightarrow> pystr \<Rightarrow> pystr \<Rightarrow> run \<Rightarrow> run" where
  "accept_run external_run_id executor_name accepted_at now r =
     (release now r)\<lparr>r_external_run_id := Some external_run_id, r_executor_name := Some executor_name,
        r_external_accepted_at := Some accepted_at, r_acceptance_observed_at := Some now,
        r_external_status := Some ''ACCEPTED'', r_next_action_at := None, r_error_code := None,
        r_error_summary := None, r_retry_stage_id := ''poll:unknown'',
        r_transient_failure_count := 0\<rparr>"

definition record_external_acceptance ::
  "candidate \<Rightarrow> pystr \<Rightarrow> pystr \<Rightarrow> pystr \<Rightarrow> pystr \<Rightarrow> pystr \<Rightarrow> pystr \<Rightarrow> db \<Rightarrow> exn + (bool \<times> db)" where
  "record_external_acceptance k lease_token external_run_id executor_name idempotency_key
     accepted_at now d =
     run_write (\<lambda>r. at_run k r \<and> r_lease_token r = Some lease_token
                \<and> r_idempotency_key r = idempotency_key \<and> r_external_run_id r = None)
       (accept_run external_run_id executor_name accepted_at now) d"

definition record_lookup_acceptance_for_canceled ::
  "candidate \<Rightarrow> pystr \<Rightarrow> pystr \<Rightarrow> pystr \<Rightarrow> pystr \<Rightarrow> pystr \<Rightarrow> pystr \<Rightarrow> db \<Rightarrow> exn + (bool \<times> db)" where
  "record_lookup_acceptance_for_canceled k lease_token external_run_id executor_name
     idempotency_key accepted_at now d =
     run_write (\<lambda>r. at_run k r \<and> r_idempotency_key r = idempotency_key
                \<and> r_lease_token r = Some lease_token \<and> r_external_run_id r = None
                \<and> job_exists d (\<lambda>j. job_key j = run_key r \<and> j_state j = ''CANCELED''
                     \<and> j_current_stage j = Some ''dispatching'' \<and> j_superseded_by_job_id j = None))
       (accept_run external_run_id executor_name accepted_at now) d"

section \<open>Transport failures\<close>

definition record_submit_transport_failure ::
  "candidate \<Rightarrow> pystr \<Rightarrow> pystr option \<Rightarrow> pystr \<Rightarrow> pystr \<Rightarrow> pystr \<Rightarrow> db \<Rightarrow> exn + (bool \<times> db)" where
  "record_submit_transport_failure k lease_token next_action_at error_code error_summary now d =
     run_then (\<lambda>r. at_run k r \<and> r_lease_token r = Some lease_token \<and> r_external_run_id r = None
               \<and> r_external_status r = None)
       (\<lambda>r. (release now r)\<lparr>r_next_action_at := next_action_at, r_error_code := Some error_code,
             r_error_summary := Some error_summary,
             r_transient_failure_count := r_transient_failure_count r + 1\<rparr>)
       (then_consume_retry k ''submission'' now) d"

definition record_poll_transport_failure ::
  "candidate \<Rightarrow> pystr \<Rightarrow> pystr option \<Rightarrow> pystr option \<Rightarrow> pystr \<Rightarrow> pystr \<Rightarrow> pystr \<Rightarrow> pystr \<Rightarrow> db
   \<Rightarrow> exn + (bool \<times> db)" where
  "record_poll_transport_failure k lease_token next_action_at current_stage retry_stage_id
     error_code error_summary now d =
     run_then (\<lambda>r. at_run k r \<and> r_lease_token r = Some lease_token \<and> r_external_run_id r \<noteq> None
               \<and> in_flight r)
       (\<lambda>r. (release now r)\<lparr>r_next_action_at := next_action_at,
             r_current_stage := coalesce current_stage (r_current_stage r),
             r_retry_stage_id := retry_stage_id, r_error_code := Some error_code,
             r_error_summary := Some error_summary,
             r_transient_failure_count := r_transient_failure_count r + 1\<rparr>)
       (then_consume_retry k retry_stage_id now) d"

definition record_cancel_transport_failure ::
  "candidate \<Rightarrow> pystr \<Rightarrow> pystr \<Rightarrow> pystr \<Rightarrow> pystr \<Rightarrow> pystr \<Rightarrow> db \<Rightarrow> exn + (bool \<times> db)" where
  "record_cancel_transport_failure k lease_token next_action_at error_code error_summary now d =
     run_then (\<lambda>r. at_run k r \<and> r_lease_token r = Some lease_token \<and> r_external_run_id r \<noteq> None
               \<and> r_external_status r \<noteq> Some ''CANCELED'')
       (\<lambda>r. (release now r)\<lparr>r_current_stage := Some ''cancel_retry_pending'',
             r_next_action_at := Some next_action_at, r_error_code := Some error_code,
             r_error_summary := Some error_summary,
             r_transient_failure_count := r_transient_failure_count r + 1\<rparr>)
       (then_consume_retry k ''cancel'' now) d"

section \<open>Poll results\<close>

record poll_outcome =
  po_external_status :: pystr
  po_current_stage :: "pystr option"
  po_retry_stage_id :: pystr
  po_consume_retry :: bool
  po_next_action_at :: "pystr option"
  po_completion_observed_at :: "pystr option"
  po_error_code :: "pystr option"
  po_error_summary :: "pystr option"
  po_result_json :: "bytes option"
  po_result_hash :: "pystr option"

text \<open>
  \<open>result_json = ? AND result_hash = ?\<close>, false when a parameter or column is NULL.
\<close>

definition same_result :: "poll_outcome \<Rightarrow> run \<Rightarrow> bool" where
  "same_result po r =
     (r_result_json r \<noteq> None \<and> r_result_json r = po_result_json po
      \<and> r_result_hash r \<noteq> None \<and> r_result_hash r = po_result_hash po)"

definition record_poll_status ::
  "candidate \<Rightarrow> pystr \<Rightarrow> poll_outcome \<Rightarrow> pystr \<Rightarrow> db \<Rightarrow> exn + (bool \<times> db)" where
  "record_poll_status k lease_token po now d =
     run_then (\<lambda>r. at_run k r \<and> r_lease_token r = Some lease_token \<and> in_flight r
               \<and> (r_result_json r = None \<or> same_result po r))
       (\<lambda>r. (release now r)\<lparr>r_external_status := Some (po_external_status po),
             r_current_stage := po_current_stage po, r_next_action_at := po_next_action_at po,
             r_completion_observed_at := po_completion_observed_at po,
             r_error_code := po_error_code po, r_error_summary := po_error_summary po,
             r_result_json := coalesce (r_result_json r) (po_result_json po),
             r_result_hash := coalesce (r_result_hash r) (po_result_hash po),
             r_transient_failure_count :=
               (if r_retry_stage_id r \<noteq> po_retry_stage_id po then if po_consume_retry po then 1 else 0
                else if po_consume_retry po then r_transient_failure_count r + 1
                else r_transient_failure_count r),
             r_retry_stage_id := po_retry_stage_id po\<rparr>)
       (\<lambda>d'. if po_consume_retry po then then_consume_retry k (po_retry_stage_id po) now d'
             else Inr (True, d')) d"

definition mark_retry_consumed :: "candidate \<Rightarrow> pystr \<Rightarrow> pystr \<Rightarrow> db \<Rightarrow> exn + (bool \<times> db)" where
  "mark_retry_consumed k lease_token now d =
     run_write (\<lambda>r. at_run k r \<and> r_lease_token r = Some lease_token
                \<and> r_external_status r = Some ''FAILED_RETRYABLE'')
       (\<lambda>r. (release now r)\<lparr>r_next_action_at := None\<rparr>) d"

section \<open>Cancellation\<close>

definition begin_cancel_stage :: "candidate \<Rightarrow> pystr \<Rightarrow> pystr \<Rightarrow> db \<Rightarrow> exn + (bool \<times> db)" where
  "begin_cancel_stage k lease_token now d =
     run_write (\<lambda>r. at_run k r \<and> r_lease_token r = Some lease_token \<and> in_flight r)
       (\<lambda>r. (touch now r)\<lparr>r_transient_failure_count :=
               (if r_retry_stage_id r = ''cancel'' then r_transient_failure_count r else 0),
             r_retry_stage_id := ''cancel'',
             r_current_stage :=
               (if r_current_stage r = Some ''cancel_retry_pending'' then r_current_stage r
                else Some ''canceling'')\<rparr>) d"

definition record_remote_canceled :: "candidate \<Rightarrow> pystr \<Rightarrow> pystr \<Rightarrow> db \<Rightarrow> exn + (bool \<times> db)" where
  "record_remote_canceled k lease_token now d =
     run_write (\<lambda>r. at_run k r \<and> r_lease_token r = Some lease_token \<and> r_external_run_id r \<noteq> None)
       (\<lambda>r. (release now r)\<lparr>r_external_status := Some ''CANCELED'', r_next_action_at := None,
             r_completion_observed_at := coalesce (r_completion_observed_at r) (Some now)\<rparr>) d"

definition reconcile_claimed_terminal_after_local_cancel ::
  "candidate \<Rightarrow> pystr \<Rightarrow> pystr \<Rightarrow> db \<Rightarrow> exn + (bool \<times> db)" where
  "reconcile_claimed_terminal_after_local_cancel k lease_token now d =
     run_write (\<lambda>r. at_run k r \<and> r_lease_token r = Some lease_token
                \<and> opt_in (r_external_status r) terminal_statuses
                \<and> job_exists d (\<lambda>j. at_job k j \<and> j_state j = ''CANCELED''))
       (\<lambda>r. (release now r)\<lparr>r_current_stage := Some ''cancel_reconciliation_required'',
             r_next_action_at := None,
             r_reconciliation_count := r_reconciliation_count r + 1\<rparr>) d"

definition record_exhausted_poll_after_local_cancel ::
  "candidate \<Rightarrow> pystr \<Rightarrow> pystr \<Rightarrow> pystr \<Rightarrow> pystr \<Rightarrow> db \<Rightarrow> exn + (bool \<times> db)" where
  "record_exhausted_poll_after_local_cancel k lease_token error_code error_summary now d =
     run_write (\<lambda>r. at_run k r \<and> r_lease_token r = Some lease_token \<and> in_flight r
                \<and> job_exists d (\<lambda>j. at_job k j \<and> j_state j = ''CANCELED''))
       (\<lambda>r. (release now r)\<lparr>r_next_action_at := None, r_error_code := Some error_code,
             r_error_summary := Some error_summary,
             r_transient_failure_count := r_transient_failure_count r + 1,
             r_reconciliation_count := r_reconciliation_count r + 1\<rparr>) d"

section \<open>Reconciliation and release\<close>

definition canceled_job_stage :: "candidate \<Rightarrow> db \<Rightarrow> exn + (bool \<times> db)" where
  "canceled_job_stage k d =
     job_write [''current_stage''] (\<lambda>j. at_job k j \<and> j_state j = ''CANCELED'')
       (\<lambda>j. j\<lparr>j_current_stage := Some ''cancel_reconciliation_required''\<rparr>) d"

definition mark_claimed_cancel_lookup_reconciliation ::
  "candidate \<Rightarrow> pystr \<Rightarrow> pystr \<Rightarrow> pystr \<Rightarrow> pystr \<Rightarrow> db \<Rightarrow> exn + (bool \<times> db)" where
  "mark_claimed_cancel_lookup_reconciliation k lease_token error_code error_summary now d =
     run_then (\<lambda>r. at_run k r \<and> r_lease_token r = Some lease_token \<and> r_external_run_id r = None
               \<and> r_external_status r = None)
       (reconcile_run ''cancel_reconciliation_required'' error_code error_summary now)
       (canceled_job_stage k) d"

definition mark_known_cancel_reconciliation_required ::
  "candidate \<Rightarrow> pystr \<Rightarrow> pystr \<Rightarrow> pystr \<Rightarrow> pystr \<Rightarrow> db \<Rightarrow> exn + (bool \<times> db)" where
  "mark_known_cancel_reconciliation_required k lease_token error_code error_summary now d =
     run_then (\<lambda>r. at_run k r \<and> r_lease_token r = Some lease_token \<and> r_external_run_id r \<noteq> None
               \<and> r_external_status r \<noteq> Some ''CANCELED'')
       (\<lambda>r. (reconcile_run ''cancel_reconciliation_required'' error_code error_summary now r)
              \<lparr>r_transient_failure_count := r_transient_failure_count r + 1\<rparr>)
       (canceled_job_stage k) d"

definition mark_poll_reconciliation_required ::
  "candidate \<Rightarrow> pystr \<Rightarrow> pystr \<Rightarrow> pystr \<Rightarrow> pystr \<Rightarrow> db \<Rightarrow> exn + (bool \<times> db)" where
  "mark_poll_reconciliation_required k lease_token error_code error_summary now d =
     run_then (\<lambda>r. at_run k r \<and> r_lease_token r = Some lease_token \<and> r_external_run_id r \<noteq> None
               \<and> in_flight r)
       (\<lambda>r. (reconcile_run ''reconciliation_required'' error_code error_summary now r)
              \<lparr>r_transient_failure_count := r_transient_failure_count r + 1\<rparr>)
       (job_write [''current_stage''] (\<lambda>j. at_job k j \<and> j_state j = ''RUNNING'')
          (\<lambda>j. j\<lparr>j_current_stage := Some ''reconciliation_required''\<rparr>)) d"

definition mark_claimed_reconciliation_required ::
  "candidate \<Rightarrow> pystr \<Rightarrow> pystr \<Rightarrow> pystr \<Rightarrow> pystr \<Rightarrow> db \<Rightarrow> exn + (bool \<times> db)" where
  "mark_claimed_reconciliation_required k lease_token error_code error_summary now d =
     run_then (\<lambda>r. at_run k r \<and> r_lease_token r = Some lease_token)
       (reconcile_run ''reconciliation_required'' error_code error_summary now)
       (job_write [''current_stage'', ''error_code'', ''error_summary'']
          (\<lambda>j. at_job k j \<and> j_state j \<in> {''QUEUED'', ''RUNNING'', ''SUCCEEDED'',
                  ''FAILED_RETRYABLE'', ''FAILED_FINAL'', ''CANCELED''})
          (reconcile_job error_code error_summary)) d"

definition release_lease :: "candidate \<Rightarrow> pystr \<Rightarrow> pystr \<Rightarrow> db \<Rightarrow> exn + (bool \<times> db)" where
  "release_lease k lease_token now d =
     run_write (\<lambda>r. at_run k r \<and> r_lease_token r = Some lease_token) (release now) d"

end
