(* ===== verification/RunnerSafety.thy ===== *)
theory RunnerSafety
  imports RunnerSettle
begin

text \<open>
  Every operation of \<open>RunnerRepository\<close> keeps the schema and evolves the database: rows persist,
  immutable columns stay, audit tables only grow, statuses and budgets are monotone.
\<close>

section \<open>The statement shapes\<close>

lemma run_write_safe: "run_write P f d = Inr (b, d') \<Longrightarrow> safe_step d d'"
  by (auto simp: run_write_def bnd_eq_Inr intro: update_runs_safe)

lemma job_write_safe: "job_write cols P f d = Inr (b, d') \<Longrightarrow> safe_step d d'"
  by (auto simp: job_write_def bnd_eq_Inr intro: update_jobs_safe)

lemma run_then_safe:
  assumes "run_then P f g d = Inr (b, d')" "\<And>d1 b d2. g d1 = Inr (b, d2) \<Longrightarrow> safe_step d1 d2"
  shows "safe_step d d'"
proof -
  obtain d1 n where "update_runs P f d = Inr (d1, n)" "(if n = 1 then g d1 else Inr (False, d1)) = Inr (b, d')"
    using assms(1) unfolding run_then_def bnd_eq_Inr by auto
  then show ?thesis
    using assms(2) update_runs_safe safe_step_trans by (metis Inr_inject Pair_inject)
qed

lemma claim_result_safe:
  "claim_result k (d1, n) = Inr (r, d') \<Longrightarrow> d' = d1"
  by (auto simp: claim_result_def bnd_eq_Inr split: if_splits)

lemma budgets_update_safe:
  assumes "sql_update False (budget_update_check ()) P f [] (budgets d) = Inr (gs, n)"
  shows "safe_step d (d\<lparr>budgets := gs\<rparr>)"
  using budgets_table.update_evolves [OF assms] budgets_table.update_table_ok [OF assms]
  by (simp add: safe_step_def db_evolves_def schema_ok_def run_has_job_def
      jobs_table.table_evolves_refl runs_table.table_evolves_refl)

lemma budgets_insert_safe:
  assumes "budget_checks new" "budget_key new \<notin> budget_key ` set (budgets d)"
  shows "safe_step d (d\<lparr>budgets := budgets d @ [new]\<rparr>)"
  using budgets_table.insert_table_ok [of "budgets d" new] assms
  by (simp add: safe_step_def db_evolves_def schema_ok_def run_has_job_def
      jobs_table.table_evolves_refl runs_table.table_evolves_refl budgets_table.table_evolves_append)

lemma consume_stage_retry_safe:
  assumes "consume_stage_retry k s now d = Inr (u, d')"
  shows "safe_step d d'"
  using assms unfolding consume_stage_retry_def Let_def
  by (auto simp: bnd_eq_Inr list_ex_iff budgets_update_safe split: if_splits
      intro!: budgets_insert_safe)

lemma then_consume_retry_safe: "then_consume_retry k s now d = Inr (b, d') \<Longrightarrow> safe_step d d'"
  by (auto simp: then_consume_retry_def bnd_eq_Inr intro: consume_stage_retry_safe)

section \<open>Claims\<close>

lemma claim_existing_run_safe:
  "claim_existing_run k ss now tok ex d = Inr (r, d') \<Longrightarrow> safe_step d d'"
  by (auto simp: claim_existing_run_def bnd_eq_Inr split: if_splits
      dest: claim_result_safe intro: update_runs_safe)

lemma claim_canceled_lookup_safe:
  "claim_canceled_lookup k tok ex now d = Inr (r, d') \<Longrightarrow> safe_step d d'"
  by (auto simp: claim_canceled_lookup_def bnd_eq_Inr
      dest: claim_result_safe intro: update_runs_safe)

lemma start_dispatch_cases:
  assumes "start_dispatch k now d = Inr (u, d')"
  obtains d1 where
    "update_jobs [''state'', ''current_stage'', ''started_at'']
       (\<lambda>j. at_job k j \<and> j_state j = ''QUEUED'' \<and> j_superseded_by_job_id j = None)
       (\<lambda>j. j\<lparr>j_state := ''RUNNING'', j_current_stage := Some ''dispatching'',
             j_started_at := coalesce (j_started_at j) (Some now)\<rparr>) d = Inr (d1, 1)"
    "length (dispatch_rows k now d1) = 1"
    "d' = d1\<lparr>transitions := transitions d1 @ dispatch_rows k now d1\<rparr>"
  using assms unfolding start_dispatch_def bnd_eq_Inr
  by (clarsimp simp: bnd_eq_Inr split: if_splits)

lemma start_dispatch_safe:
  assumes "start_dispatch k now d = Inr (u, d')"
  shows "safe_step d d'"
  using assms
  by (rule start_dispatch_cases) (blast intro: safe_step_trans update_jobs_safe append_transition_safe)

lemma claim_submission_cases:
  assumes "claim_submission k key ex now tok expires d = Inr (res, d')"
  obtains (none) d1 d2 n where
      "insert_submission k key ex now tok expires d = Inr d1"
      "lease_submission k key ex now tok expires d1 = Inr (d2, n)" "n \<noteq> 1" "res = None" "d' = d2"
    | (won) d1 d2 r where
      "insert_submission k key ex now tok expires d = Inr d1"
      "lease_submission k key ex now tok expires d1 = Inr (d2, 1)"
      "res = Some r" "get_run d' (candidate_key k) = Inr r"
      "k_state k = ''QUEUED'' \<and> start_dispatch k now d2 = Inr ((), d') \<or> k_state k = ''RUNNING'' \<and> d' = d2"
  using assms unfolding claim_submission_def bnd_eq_Inr
  by (clarsimp simp: bnd_eq_Inr split: if_splits) metis+

lemma insert_submission_safe:
  "insert_submission k key ex now tok expires d = Inr d1 \<Longrightarrow> safe_step d d1"
  by (auto simp: insert_submission_def split: if_splits intro: insert_run_safe)

lemma lease_submission_safe:
  "lease_submission k key ex now tok expires d = Inr (d1, n) \<Longrightarrow> safe_step d d1"
  unfolding lease_submission_def by (rule update_runs_safe)

lemma claim_submission_safe:
  assumes "claim_submission k key ex now tok expires d = Inr (res, d')"
  shows "safe_step d d'"
  using assms
  by (cases rule: claim_submission_cases)
    (blast intro: safe_step_trans insert_submission_safe lease_submission_safe start_dispatch_safe)+

section \<open>The other writers\<close>

lemma record_heartbeat_safe: "record_heartbeat i now d = Inr (u, d') \<Longrightarrow> safe_step d d'"
  by (auto simp: record_heartbeat_def heartbeats_safe split: if_splits)

lemma quarantine_invalid_safe:
  assumes "quarantine_invalid_scheduler_timestamps k now d = Inr (b, d')"
  shows "safe_step d d'"
  using assms unfolding quarantine_invalid_scheduler_timestamps_def bnd_eq_Inr
  by (auto simp: bnd_eq_Inr split: if_splits dest!: update_runs_safe job_write_safe
      intro: safe_step_trans)

lemma mark_reconciliation_required_safe:
  assumes "mark_reconciliation_required k key now d = Inr (u, d')"
  shows "safe_step d d'"
  using assms unfolding mark_reconciliation_required_def bnd_eq_Inr
  by (auto simp: bnd_eq_Inr split: if_splits dest!: insert_run_safe update_jobs_safe
      intro: safe_step_trans)

lemma quarantine_queued_job_safe:
  assumes "quarantine_queued_job k c s now d = Inr (b, d')"
  shows "safe_step d d'"
  using assms unfolding quarantine_queued_job_def bnd_eq_Inr
  by (auto simp: bnd_eq_Inr split: if_splits dest!: insert_run_safe run_then_safe
      intro: safe_step_trans job_write_safe)

lemma reconcile_poll_after_local_cancel_safe:
  "reconcile_poll_after_local_cancel k t now d = Inr (b, d') \<Longrightarrow> safe_step d d'"
  unfolding reconcile_poll_after_local_cancel_def by (auto split: if_splits intro: run_write_safe)

lemma reconcile_terminal_after_local_cancel_safe:
  "reconcile_terminal_after_local_cancel k now d = Inr (b, d') \<Longrightarrow> safe_step d d'"
  unfolding reconcile_terminal_after_local_cancel_def by (rule run_write_safe)

lemma update_running_stage_safe: "update_running_stage k s d = Inr (b, d') \<Longrightarrow> safe_step d d'"
  unfolding update_running_stage_def by (rule job_write_safe)

lemma mark_observed_reconciliation_required_safe:
  "mark_observed_reconciliation_required k c s now d = Inr (b, d') \<Longrightarrow> safe_step d d'"
  unfolding mark_observed_reconciliation_required_def by (erule run_then_safe) (rule job_write_safe)

lemma quarantine_running_dispatch_safe:
  "quarantine_running_dispatch k c s now d = Inr (b, d') \<Longrightarrow> safe_step d d'"
  unfolding quarantine_running_dispatch_def by (erule run_then_safe) (rule job_write_safe)

lemma mark_cancel_reconciliation_required_safe:
  "mark_cancel_reconciliation_required k now d = Inr (b, d') \<Longrightarrow> safe_step d d'"
  unfolding mark_cancel_reconciliation_required_def by (erule run_then_safe) (rule job_write_safe)

end
