(* ===== verification/Leases.thy ===== *)
theory Leases
  imports RunnerSafety
begin

text \<open>
  What leases guarantee.  \<open>settlement\<close> and \<open>claim\<close> name the leased operations of
  \<open>RunnerRepository\<close>; the locales state the contract the runner relies on (a write is fenced by its
  lease, settles it at most once, and a live lease excludes every other holder), prove its
  consequences once, and are interpreted on the model's operations.
\<close>

section \<open>The rows of one attempt\<close>

definition rows :: "db \<Rightarrow> run_key \<Rightarrow> run list" where
  "rows d key = filter (\<lambda>r. run_key r = key) (runs d)"

definition holds_lease :: "db \<Rightarrow> run_key \<Rightarrow> pystr \<Rightarrow> bool" where
  "holds_lease d key tok = list_ex (\<lambda>r. r_lease_token r = Some tok) (rows d key)"

definition unleased :: "db \<Rightarrow> run_key \<Rightarrow> bool" where
  "unleased d key = list_all (\<lambda>r. r_lease_token r = None) (rows d key)"

text \<open>The attempt's row is leased under \<open>tok\<close> until \<open>expires\<close>.\<close>

definition leased_until :: "db \<Rightarrow> run_key \<Rightarrow> pystr \<Rightarrow> pystr \<Rightarrow> bool" where
  "leased_until d key tok expires =
     (rows d key \<noteq> []
      \<and> list_all (\<lambda>r. r_lease_token r = Some tok \<and> r_lease_expires_at r = Some expires) (rows d key))"

lemma at_run_key: "at_run k r \<longleftrightarrow> run_key r = candidate_key k"
  by (auto simp: at_run_def run_key_def candidate_key_def)

lemma unleased_not_held: "unleased d key \<Longrightarrow> \<not> holds_lease d key tok"
  by (auto simp: unleased_def holds_lease_def list_all_iff list_ex_iff)

lemma leased_until_not_held:
  "leased_until d key tok expires \<Longrightarrow> tok' \<noteq> tok \<Longrightarrow> \<not> holds_lease d key tok'"
  by (auto simp: leased_until_def holds_lease_def list_all_iff list_ex_iff)

lemma rows_in_runs: "r \<in> set (rows d key) \<longleftrightarrow> r \<in> set (runs d) \<and> run_key r = key"
  by (auto simp: rows_def)

lemma not_held_row: "\<not> holds_lease d (candidate_key k) tok \<Longrightarrow> r \<in> set (runs d) \<Longrightarrow> at_run k r
    \<Longrightarrow> r_lease_token r \<noteq> Some tok"
  by (auto simp: holds_lease_def list_ex_iff rows_in_runs at_run_key)

lemma unique_row:
  assumes "schema_ok d" "r \<in> set (runs d)"
  shows "rows d (run_key r) = [r]"
  using assms by (auto simp: rows_def schema_ok_def runs_table.table_ok_def intro: filter_unique)

section \<open>How an UPDATE changes the rows of an attempt\<close>

lemma update_runs_result:
  assumes "update_runs P f d = Inr (d', n)"
  shows "d' = d\<lparr>runs := map (\<lambda>r. if P r then f r else r) (runs d)\<rparr>" "n = length (filter P (runs d))"
  using assms by (auto simp: update_runs_def bnd_eq_Inr dest: sql_update_strict)

lemma update_runs_keys:
  assumes "update_runs P f d = Inr (d', n)"
  shows "map run_key (runs d') = map run_key (runs d)"
  using assms by (auto simp: update_runs_def bnd_eq_Inr dest: runs_table.update_keys)

lemma update_runs_miss:
  assumes "\<And>r. r \<in> set (runs d) \<Longrightarrow> \<not> P r"
  shows "update_runs P f d = Inr (d, 0)"
  using sql_update_none [of "runs d" P] assms by (simp add: update_runs_def)

lemma filter_map_keyed:
  assumes "map key (map h xs) = map key xs" "\<And>x. x \<in> set xs \<Longrightarrow> key x = k \<Longrightarrow> h x = x"
  shows "filter (\<lambda>x. key x = k) (map h xs) = filter (\<lambda>x. key x = k) xs"
  using assms by (induction xs) auto

lemma update_runs_frame:
  assumes upd: "update_runs P f d = Inr (d', n)"
    and miss: "\<And>r. r \<in> set (runs d) \<Longrightarrow> P r \<Longrightarrow> run_key r \<noteq> key"
  shows "rows d' key = rows d key"
proof -
  have d': "runs d' = map (\<lambda>r. if P r then f r else r) (runs d)"
    using update_runs_result(1) [OF upd] by simp
  show ?thesis
    unfolding rows_def d'
    by (rule filter_map_keyed) (use update_runs_keys [OF upd] miss d' in auto)
qed

text \<open>A selected row of a well-formed table is the attempt's only row.\<close>

lemma update_runs_hit:
  assumes upd: "update_runs P f d = Inr (d', n)" and "n \<noteq> 0" "schema_ok d"
    and sel: "\<And>r. P r \<Longrightarrow> run_key r = key"
  obtains r where "rows d key = [r]" "P r" "rows d' key = [f r]"
proof -
  from update_runs_result(2) [OF upd] \<open>n \<noteq> 0\<close> have "filter P (runs d) \<noteq> []" by auto
  then obtain r where r: "r \<in> set (runs d)" "P r" by (auto simp: filter_empty_conv)
  have one: "rows d key = [r]" using unique_row [OF assms(3) r(1)] sel [OF r(2)] by simp
  have d': "runs d' = map (\<lambda>x. if P x then f x else x) (runs d)"
    using update_runs_result(1) [OF upd] by simp
  have ok: "schema_ok d'" using update_runs_safe [OF upd] assms(3) by (simp add: safe_step_def)
  have "f r \<in> set (runs d')" using d' r by force
  moreover have "run_key (f r) = key"
  proof -
    have "map run_key (map (\<lambda>x. if P x then f x else x) (runs d)) = map run_key (runs d)"
      using update_runs_keys [OF upd] d' by simp
    then have "\<forall>x \<in> set (runs d). run_key (if P x then f x else x) = run_key x" by auto
    with r sel show ?thesis by force
  qed
  ultimately have "rows d' key = [f r]" using unique_row [OF ok] by metis
  with one r(2) show ?thesis by (rule that)
qed

lemma job_write_runs: "job_write cols P f d = Inr (b, d') \<Longrightarrow> runs d' = runs d"
  by (auto simp: job_write_def update_jobs_def bnd_eq_Inr)

lemma then_consume_retry_runs: "then_consume_retry k s now d = Inr (b, d') \<Longrightarrow> runs d' = runs d"
  by (auto simp: then_consume_retry_def consume_stage_retry_def bnd_eq_Inr Let_def split: if_splits)

lemma rows_cong: "runs d' = runs d \<Longrightarrow> rows d' key = rows d key"
  by (simp add: rows_def)

section \<open>The contract of a leased write\<close>

definition fenced :: "(candidate \<Rightarrow> pystr \<Rightarrow> db \<Rightarrow> exn + (bool \<times> db)) \<Rightarrow> bool" where
  "fenced op = (\<forall>k tok d. \<not> holds_lease d (candidate_key k) tok \<longrightarrow> op k tok d = Inr (False, d))"

definition frames :: "(candidate \<Rightarrow> pystr \<Rightarrow> db \<Rightarrow> exn + (bool \<times> db)) \<Rightarrow> bool" where
  "frames op = (\<forall>k tok d b d' key. op k tok d = Inr (b, d') \<longrightarrow> key \<noteq> candidate_key k \<longrightarrow>
     rows d' key = rows d key)"

definition settles :: "(candidate \<Rightarrow> pystr \<Rightarrow> db \<Rightarrow> exn + (bool \<times> db)) \<Rightarrow> bool" where
  "settles op = (\<forall>k tok d b d'. schema_ok d \<longrightarrow> op k tok d = Inr (b, d') \<longrightarrow>
     \<not> b \<and> d' = d \<or> unleased d' (candidate_key k))"

definition under_lease :: "(candidate \<Rightarrow> pystr \<Rightarrow> db \<Rightarrow> run \<Rightarrow> bool) \<Rightarrow> bool" where
  "under_lease P = (\<forall>k tok d r. P k tok d r \<longrightarrow> at_run k r \<and> r_lease_token r = Some tok)"

definition releasing :: "(run \<Rightarrow> run) \<Rightarrow> bool" where
  "releasing f = (\<forall>r. r_lease_token (f r) = None)"

lemma run_then_fenced:
  assumes "under_lease P"
  shows "fenced (\<lambda>k tok d. run_then (P k tok d) f (g k) d)"
proof (unfold fenced_def, intro allI impI)
  fix k tok d
  assume "\<not> holds_lease d (candidate_key k) tok"
  then have "\<And>r. r \<in> set (runs d) \<Longrightarrow> \<not> P k tok d r"
    using assms not_held_row unfolding under_lease_def by blast
  from update_runs_miss [OF this] show "run_then (P k tok d) f (g k) d = Inr (False, d)"
    by (simp add: run_then_def)
qed

lemma run_write_as_then: "run_write P f d = run_then P f (\<lambda>d'. Inr (True, d')) d"
  unfolding run_write_def run_then_def by (rule arg_cong [where f = "bnd _"]) (auto simp: fun_eq_iff)

lemma run_then_cases:
  assumes "run_then P f g d = Inr (b, d')"
  obtains (miss) n where "update_runs P f d = Inr (d', n)" "n \<noteq> 1" "\<not> b"
    | (hit) d1 where "update_runs P f d = Inr (d1, 1)" "g d1 = Inr (b, d')"
  using assms unfolding run_then_def bnd_eq_Inr by (auto split: if_splits)


lemma run_then_frames:
  assumes "under_lease P" "\<And>k d1 b d2. g k d1 = Inr (b, d2) \<Longrightarrow> runs d2 = runs d1"
  shows "frames (\<lambda>k tok d. run_then (P k tok d) f (g k) d)"
proof (unfold frames_def, intro allI impI)
  fix k tok d b d' key
  assume res: "run_then (P k tok d) f (g k) d = Inr (b, d')" and key: "key \<noteq> candidate_key k"
  have miss: "run_key r \<noteq> key" if "P k tok d r" for r
    using assms(1) that key unfolding under_lease_def at_run_key by metis
  from res show "rows d' key = rows d key"
  proof (cases rule: run_then_cases)
    case miss
    then show ?thesis using update_runs_frame \<open>\<And>r. P k tok d r \<Longrightarrow> run_key r \<noteq> key\<close> by blast
  next
    case (hit d1)
    then have "rows d1 key = rows d key"
      using update_runs_frame \<open>\<And>r. P k tok d r \<Longrightarrow> run_key r \<noteq> key\<close> by blast
    with rows_cong [OF assms(2) [OF hit(2)]] show ?thesis by simp
  qed
qed

lemma update_runs_zero: "update_runs P f d = Inr (d', 0) \<Longrightarrow> d' = d"
  by (auto simp: update_runs_def bnd_eq_Inr dest!: sql_update_strict intro!: db.equality map_idI)
    (auto simp: filter_empty_conv)

lemma update_one_row:
  assumes "schema_ok d" "update_runs P f d = Inr (d', n)" "\<And>r. P r \<Longrightarrow> run_key r = key"
  shows "n = 0 \<or> n = 1"
proof -
  obtain rs where "sql_update False (run_update_check ()) P f [] (runs d) = Inr (rs, n)"
    using assms(2) by (auto simp: update_runs_def bnd_eq_Inr)
  moreover have "distinct (map run_key (runs d))"
    using assms(1) by (simp add: schema_ok_def runs_table.table_ok_def)
  ultimately show ?thesis
    using runs_table.update_by_key assms(3) by metis
qed

lemma run_then_settles:
  assumes "under_lease P" "releasing f" "\<And>k d1 b d2. g k d1 = Inr (b, d2) \<Longrightarrow> runs d2 = runs d1"
  shows "settles (\<lambda>k tok d. run_then (P k tok d) f (g k) d)"
proof (unfold settles_def, intro allI impI)
  fix k tok d b d'
  assume ok: "schema_ok d" and res: "run_then (P k tok d) f (g k) d = Inr (b, d')"
  have sel: "run_key r = candidate_key k" if "P k tok d r" for r
    using assms(1) that unfolding under_lease_def at_run_key by metis
  from res show "\<not> b \<and> d' = d \<or> unleased d' (candidate_key k)"
  proof (cases rule: run_then_cases)
    case (miss n)
    then have "n = 0" using update_one_row [OF ok miss(1) sel] by auto
    with miss update_runs_zero show ?thesis by blast
  next
    case (hit d1)
    obtain r where "rows d1 (candidate_key k) = [f r]"
      by (rule update_runs_hit [OF hit(1) _ ok sel]) simp_all
    then have "unleased d1 (candidate_key k)"
      using assms(2) by (simp add: unleased_def releasing_def)
    then show ?thesis
      using rows_cong [OF assms(3) [OF hit(2)]] by (simp add: unleased_def)
  qed
qed

section \<open>The leased operations\<close>

datatype settlement =
    Acceptance pystr pystr pystr pystr
  | LookupAcceptance pystr pystr pystr pystr
  | SubmitFailure "pystr option" pystr pystr
  | PollFailure "pystr option" "pystr option" pystr pystr pystr
  | CancelFailure pystr pystr pystr
  | PollStatus poll_outcome
  | RetryConsumed
  | RemoteCanceled
  | TerminalAfterCancel
  | ExhaustedAfterCancel pystr pystr
  | CancelLookupReconciliation pystr pystr
  | KnownCancelReconciliation pystr pystr
  | PollReconciliation pystr pystr
  | ClaimedReconciliation pystr pystr
  | Release

fun settle :: "settlement \<Rightarrow> pystr \<Rightarrow> candidate \<Rightarrow> pystr \<Rightarrow> db \<Rightarrow> exn + (bool \<times> db)" where
  "settle (Acceptance i x ik acc) now k tok d = record_external_acceptance k tok i x ik acc now d"
| "settle (LookupAcceptance i x ik acc) now k tok d =
     record_lookup_acceptance_for_canceled k tok i x ik acc now d"
| "settle (SubmitFailure t c s) now k tok d = record_submit_transport_failure k tok t c s now d"
| "settle (PollFailure t cs rs c s) now k tok d =
     record_poll_transport_failure k tok t cs rs c s now d"
| "settle (CancelFailure t c s) now k tok d = record_cancel_transport_failure k tok t c s now d"
| "settle (PollStatus po) now k tok d = record_poll_status k tok po now d"
| "settle RetryConsumed now k tok d = mark_retry_consumed k tok now d"
| "settle RemoteCanceled now k tok d = record_remote_canceled k tok now d"
| "settle TerminalAfterCancel now k tok d =
     reconcile_claimed_terminal_after_local_cancel k tok now d"
| "settle (ExhaustedAfterCancel c s) now k tok d =
     record_exhausted_poll_after_local_cancel k tok c s now d"
| "settle (CancelLookupReconciliation c s) now k tok d =
     mark_claimed_cancel_lookup_reconciliation k tok c s now d"
| "settle (KnownCancelReconciliation c s) now k tok d =
     mark_known_cancel_reconciliation_required k tok c s now d"
| "settle (PollReconciliation c s) now k tok d = mark_poll_reconciliation_required k tok c s now d"
| "settle (ClaimedReconciliation c s) now k tok d =
     mark_claimed_reconciliation_required k tok c s now d"
| "settle Release now k tok d = release_lease k tok now d"

lemmas settle_op_defs =
  record_external_acceptance_def record_lookup_acceptance_for_canceled_def
  record_submit_transport_failure_def record_poll_transport_failure_def
  record_cancel_transport_failure_def record_poll_status_def mark_retry_consumed_def
  record_remote_canceled_def reconcile_claimed_terminal_after_local_cancel_def
  record_exhausted_poll_after_local_cancel_def mark_claimed_cancel_lookup_reconciliation_def
  mark_known_cancel_reconciliation_required_def mark_poll_reconciliation_required_def
  mark_claimed_reconciliation_required_def release_lease_def canceled_job_stage_def

text \<open>Every settlement is one UPDATE under the lease that releases it, then an update elsewhere.\<close>

lemma settle_shape:
  "\<exists>P f g. under_lease P \<and> releasing f
     \<and> (\<forall>k d1 b d2. g k d1 = Inr (b, d2) \<longrightarrow> runs d2 = runs d1 \<and> safe_step d1 d2)
     \<and> settle s now = (\<lambda>k tok d. run_then (P k tok d) f (g k) d)"
proof -
  have rel: "releasing (release now)" "releasing (accept_run i x acc now)"
    "releasing (reconcile_run st c e now)" for i x acc st c e
    by (simp_all add: releasing_def release_def accept_run_def reconcile_run_def)
  have shape: ?thesis if "settle s now = (\<lambda>k tok d. run_then (P k tok d) f (g k) d)"
    "under_lease P" "releasing f"
    "\<And>k d1 b d2. g k d1 = Inr (b, d2) \<Longrightarrow> runs d2 = runs d1 \<and> safe_step d1 d2" for P f g
    using that by blast
  note tails = job_write_runs job_write_safe then_consume_retry_runs then_consume_retry_safe
  show ?thesis
    by (cases s; (rule shape, (rule ext)+,
        simp only: settle.simps settle_op_defs run_write_as_then))
      (auto simp: under_lease_def releasing_def release_def accept_run_def reconcile_run_def
        canceled_job_stage_def dest: tails split: if_splits)
qed


lemma settle_laws:
  "fenced (settle s now)" "frames (settle s now)" "settles (settle s now)"
  "settle s now k tok d = Inr (b, d') \<Longrightarrow> safe_step d d'"
proof -
  obtain P f g where sh: "under_lease P" "releasing f"
    "\<And>k d1 b d2. g k d1 = Inr (b, d2) \<Longrightarrow> runs d2 = runs d1 \<and> safe_step d1 d2"
    "settle s now = (\<lambda>k tok d. run_then (P k tok d) f (g k) d)"
    using settle_shape [of s now] by blast
  show "fenced (settle s now)" unfolding sh(4) by (rule run_then_fenced [OF sh(1)])
  show "frames (settle s now)" unfolding sh(4) by (rule run_then_frames [OF sh(1)]) (simp add: sh(3))
  show "settles (settle s now)" unfolding sh(4)
    by (rule run_then_settles [OF sh(1,2)]) (simp add: sh(3))
  show "settle s now k tok d = Inr (b, d') \<Longrightarrow> safe_step d d'"
    unfolding sh(4) by (erule run_then_safe) (simp add: sh(3))
qed

section \<open>Where a settlement writes\<close>

lemma filter_map_other:
  assumes "map key (map h xs) = map key xs" "\<And>x. x \<in> set xs \<Longrightarrow> key x \<noteq> k \<Longrightarrow> h x = x"
  shows "filter (\<lambda>x. key x \<noteq> k) (map h xs) = filter (\<lambda>x. key x \<noteq> k) xs"
  using assms by (induction xs) auto

text \<open>
  Only rows of \<open>k\<close>'s attempt and budgets of \<open>k\<close>'s job differ; the other tables are the same.
\<close>

definition budget_job :: "budget \<Rightarrow> pystr \<times> pystr" where
  "budget_job g = (g_company_id g, g_job_id g)"

definition confined :: "candidate \<Rightarrow> db \<Rightarrow> db \<Rightarrow> bool" where
  "confined k d d' =
     (filter (\<lambda>r. run_key r \<noteq> candidate_key k) (runs d') = filter (\<lambda>r. run_key r \<noteq> candidate_key k) (runs d)
      \<and> filter (\<lambda>j. job_key j \<noteq> candidate_key k) (jobs d') = filter (\<lambda>j. job_key j \<noteq> candidate_key k) (jobs d)
      \<and> filter (\<lambda>g. budget_job g \<noteq> (k_company_id k, k_job_id k)) (budgets d')
          = filter (\<lambda>g. budget_job g \<noteq> (k_company_id k, k_job_id k)) (budgets d)
      \<and> d' = d\<lparr>jobs := jobs d', runs := runs d', budgets := budgets d'\<rparr>)"

lemma confined_refl [simp]: "confined k d d"
  by (simp add: confined_def)

lemma confined_trans:
  assumes "confined k a b" "confined k b c"
  shows "confined k a c"
proof -
  have "c = b\<lparr>jobs := jobs c, runs := runs c, budgets := budgets c\<rparr>"
    "b = a\<lparr>jobs := jobs b, runs := runs b, budgets := budgets b\<rparr>"
    using assms by (simp_all add: confined_def)
  then have "c = a\<lparr>jobs := jobs c, runs := runs c, budgets := budgets c\<rparr>" by (cases a) (metis db.update_convs(1,2,7))
  with assms show ?thesis by (simp add: confined_def)
qed

lemma update_runs_confined:
  assumes "update_runs P f d = Inr (d', n)" "\<And>r. P r \<Longrightarrow> at_run k r"
  shows "confined k d d'"
proof -
  have d': "d' = d\<lparr>runs := map (\<lambda>r. if P r then f r else r) (runs d)\<rparr>" by (rule update_runs_result(1) [OF assms(1)])
  have "filter (\<lambda>r. run_key r \<noteq> candidate_key k) (map (\<lambda>r. if P r then f r else r) (runs d))
      = filter (\<lambda>r. run_key r \<noteq> candidate_key k) (runs d)"
    by (rule filter_map_other) (use update_runs_keys [OF assms(1)] d' assms(2) at_run_key in auto)
  with d' show ?thesis by (simp add: confined_def)
qed

lemma job_write_confined:
  assumes "job_write cols P f d = Inr (b, d')" "\<And>j. P j \<Longrightarrow> at_job k j" "\<And>j. job_key (f j) = job_key j"
  shows "confined k d d'"
proof -
  obtain js n where js: "sql_update False (job_update_check (approvals d, cols)) P f [] (jobs d) = Inr (js, n)"
    "d' = d\<lparr>jobs := js\<rparr>"
    using assms(1) by (auto simp: job_write_def update_jobs_def bnd_eq_Inr)
  from sql_update_strict [OF js(1)] have js': "js = map (\<lambda>r. if P r then f r else r) (jobs d)" by simp
  have "filter (\<lambda>j. job_key j \<noteq> candidate_key k) js = filter (\<lambda>j. job_key j \<noteq> candidate_key k) (jobs d)"
    unfolding js' by (rule filter_map_other) (use assms(2,3) in \<open>auto simp: at_job_def job_key_def candidate_key_def\<close>)
  then show ?thesis by (simp add: js(2) confined_def)
qed

lemma then_consume_retry_confined:
  assumes "then_consume_retry k s now d = Inr (b, d')"
  shows "confined k d d'"
proof -
  obtain u where u: "consume_stage_retry k s now d = Inr (u, d')"
    using assms by (auto simp: then_consume_retry_def bnd_eq_Inr)
  let ?new = "\<lparr>g_company_id = k_company_id k, g_job_id = k_job_id k, g_retry_stage_id = s,
      g_failure_count = 1, g_created_at = now, g_updated_at = now\<rparr>"
  let ?h = "\<lambda>g. if budget_key g = budget_key ?new then g\<lparr>g_failure_count := g_failure_count g + 1, g_updated_at := now\<rparr> else g"
  have "budgets d' = map ?h (budgets d) \<or> budgets d' = budgets d @ [?new]"
    "d' = d\<lparr>budgets := budgets d'\<rparr>"
    using u by (auto simp: consume_stage_retry_def Let_def bnd_eq_Inr split: if_splits dest!: sql_update_strict)
  moreover have "filter (\<lambda>g. budget_job g \<noteq> (k_company_id k, k_job_id k)) (map ?h (budgets d))
      = filter (\<lambda>g. budget_job g \<noteq> (k_company_id k, k_job_id k)) (budgets d)"
    by (rule filter_map_other) (auto simp: budget_job_def budget_key_def)
  ultimately show ?thesis by (auto simp: confined_def budget_job_def)
qed

lemma run_then_confined:
  assumes "run_then P f g d = Inr (b, d')" "\<And>r. P r \<Longrightarrow> at_run k r"
    and "\<And>d1 b d2. g d1 = Inr (b, d2) \<Longrightarrow> confined k d1 d2"
  shows "confined k d d'"
  using assms(1)
  by (cases rule: run_then_cases) (blast intro: confined_trans update_runs_confined assms(2,3))+

lemma settle_confined: "settle s now k tok d = Inr (b, d') \<Longrightarrow> confined k d d'"
  by (cases s; simp only: settle.simps settle_op_defs run_write_as_then; erule run_then_confined)
    (auto simp: canceled_job_stage_def reconcile_job_def job_key_def split: if_splits
      elim!: job_write_confined dest: then_consume_retry_confined)

section \<open>The claims\<close>

datatype claim = ExistingRun "pystr list" | Submission pystr pystr | CanceledLookup

fun claim_run ::
  "claim \<Rightarrow> candidate \<Rightarrow> pystr \<Rightarrow> pystr \<Rightarrow> pystr \<Rightarrow> db \<Rightarrow> exn + (run option \<times> db)" where
  "claim_run (ExistingRun statuses) k now tok expires d = claim_existing_run k statuses now tok expires d"
| "claim_run (Submission key executor) k now tok expires d =
     claim_submission k key executor now tok expires d"
| "claim_run CanceledLookup k now tok expires d = claim_canceled_lookup k tok expires now d"

text \<open>A live lease of another token makes no row claimable.\<close>

lemma not_claimable:
  assumes "leased_until d (candidate_key k) tok' expires'" "tok \<noteq> tok'" "now < expires'"
    and "r \<in> set (runs d)" "at_run k r"
  shows "\<not> claimable now tok r"
  using assms
  by (auto simp: leased_until_def list_all_iff rows_in_runs at_run_key claimable_def lease_open_def)

lemma leased_until_exists:
  "leased_until d key tok expires \<Longrightarrow> \<exists>r \<in> set (runs d). run_key r = key"
  by (auto simp: leased_until_def rows_def filter_empty_conv)

lemma insert_submission_kept:
  assumes "leased_until d (candidate_key k) tok' expires'"
    and "insert_submission k ik ex now tok expires d = Inr d1"
  shows "d1 = d"
proof -
  obtain r where "r \<in> set (runs d)" "run_key r = candidate_key k"
    using leased_until_exists [OF assms(1)] by blast
  then have "list_ex (\<lambda>x. run_key x = candidate_key k) (runs d)" by (auto simp: list_ex_iff)
  with assms(2) show ?thesis
    by (auto simp: insert_submission_def insert_run_def run_key_def default_run_def candidate_key_def
        split: if_splits)
qed

lemma claim_run_refused:
  assumes "leased_until d (candidate_key k) tok' expires'" "tok \<noteq> tok'" "now < expires'"
    and "claim_run c k now tok expires d = Inr (res, d')"
  shows "res = None \<and> d' = d"
proof -
  have miss: "d2 = d \<and> n = 0"
    if "update_runs P f d = Inr (d2, n)" "\<And>r. P r \<Longrightarrow> at_run k r \<and> claimable now tok r" for P f d2 n
  proof -
    have "update_runs P f d = Inr (d, 0)"
      using update_runs_miss not_claimable [OF assms(1-3)] that(2) by metis
    with that(1) show ?thesis by simp
  qed
  show ?thesis
  proof (cases c)
    case (ExistingRun statuses)
    then show ?thesis
      using assms(4) by (auto simp: claim_existing_run_def claim_result_def bnd_eq_Inr
          dest!: miss split: if_splits)
  next
    case (Submission ik ex)
    with assms(4) have "claim_submission k ik ex now tok expires d = Inr (res, d')" by simp
    then show ?thesis
    proof (cases rule: claim_submission_cases)
      case (none d1 d2 n)
      then have "d1 = d" using insert_submission_kept [OF assms(1)] by blast
      then have "lease_submission k ik ex now tok expires d = Inr (d2, n)" using none(2) by simp
      then have "d2 = d \<and> n = 0" unfolding lease_submission_def by (rule miss) simp
      with none show ?thesis by simp
    next
      case (won d1 d2 r)
      then have "d1 = d" using insert_submission_kept [OF assms(1)] by blast
      then have "lease_submission k ik ex now tok expires d = Inr (d2, 1)" using won(2) by simp
      then have "d2 = d \<and> (1::nat) = 0" unfolding lease_submission_def by (rule miss) simp
      then show ?thesis by simp
    qed
  next
    case CanceledLookup
    then show ?thesis
      using assms(4) by (auto simp: claim_canceled_lookup_def claim_result_def bnd_eq_Inr
          dest!: miss split: if_splits)
  qed
qed

lemma claim_update_grants:
  assumes "schema_ok d" "update_runs P f d = Inr (d', n)" "n \<noteq> 0"
    and "\<And>r. P r \<Longrightarrow> at_run k r"
    and "\<And>r. r_lease_token (f r) = Some tok \<and> r_lease_expires_at (f r) = Some expires"
  shows "leased_until d' (candidate_key k) tok expires"
proof -
  have sel: "\<And>r. P r \<Longrightarrow> run_key r = candidate_key k" using assms(4) by (simp add: at_run_key)
  obtain r where "rows d' (candidate_key k) = [f r]"
    by (rule update_runs_hit [OF assms(2,3,1) sel]) simp
  then show ?thesis by (simp add: leased_until_def assms(5))
qed

lemma start_dispatch_runs: "start_dispatch k now d = Inr (u, d') \<Longrightarrow> runs d' = runs d"
  by (erule start_dispatch_cases) (auto simp: update_jobs_def bnd_eq_Inr)

lemma claim_run_grants:
  assumes ok: "schema_ok d" and res: "claim_run c k now tok expires d = Inr (Some r, d')"
  shows "leased_until d' (candidate_key k) tok expires"
proof (cases c)
  case (ExistingRun statuses)
  then show ?thesis
    using res by (auto simp: claim_existing_run_def claim_result_def bnd_eq_Inr lease_def split: if_splits
        intro!: claim_update_grants [OF ok])
next
  case (Submission ik ex)
  with res have "claim_submission k ik ex now tok expires d = Inr (Some r, d')" by simp
  then show ?thesis
  proof (cases rule: claim_submission_cases)
    case (won d1 d2 r)
    have "schema_ok d1" using insert_submission_safe [OF won(1)] ok by (simp add: safe_step_def)
    from claim_update_grants [OF this won(2) [unfolded lease_submission_def]]
    have "leased_until d2 (candidate_key k) tok expires" by (simp add: lease_def)
    moreover have "runs d' = runs d2" using won(5) start_dispatch_runs by blast
    ultimately show ?thesis by (simp add: leased_until_def rows_def)
  qed simp
next
  case CanceledLookup
  then show ?thesis
    using res by (auto simp: claim_canceled_lookup_def claim_result_def bnd_eq_Inr lease_def split: if_splits
        intro!: claim_update_grants [OF ok])
qed

lemma insert_submission_frame:
  "insert_submission k ik ex now tok expires d = Inr d1 \<Longrightarrow> key \<noteq> candidate_key k
   \<Longrightarrow> rows d1 key = rows d key"
  by (auto simp: insert_submission_def insert_run_def rows_def run_key_def default_run_def
      candidate_key_def split: if_splits)

lemma claim_run_frames:
  assumes res: "claim_run c k now tok expires d = Inr (r, d')" and key: "key \<noteq> candidate_key k"
  shows "rows d' key = rows d key"
proof -
  have frame: "rows d2 key = rows d1 key"
    if "update_runs P f d1 = Inr (d2, n)" "\<And>r. P r \<Longrightarrow> at_run k r" for P f d1 d2 n
    using update_runs_frame [OF that(1)] that(2) key unfolding at_run_key by metis
  show ?thesis
  proof (cases c)
    case (ExistingRun statuses)
    then show ?thesis
      using res by (auto simp: claim_existing_run_def claim_result_def bnd_eq_Inr split: if_splits
          intro!: frame)
  next
    case (Submission ik ex)
    with res have "claim_submission k ik ex now tok expires d = Inr (r, d')" by simp
    then show ?thesis
    proof (cases rule: claim_submission_cases)
      case (none d1 d2 n)
      have "rows d2 key = rows d1 key"
        using none(2) unfolding lease_submission_def by (rule frame) simp
      with insert_submission_frame [OF none(1) key] none show ?thesis by simp
    next
      case (won d1 d2 r)
      have "rows d2 key = rows d1 key"
        using won(2) unfolding lease_submission_def by (rule frame) simp
      moreover have "runs d' = runs d2" using won(5) start_dispatch_runs by blast
      ultimately show ?thesis
        using insert_submission_frame [OF won(1) key] by (simp add: rows_def)
    qed
  next
    case CanceledLookup
    then show ?thesis
      using res by (auto simp: claim_canceled_lookup_def claim_result_def bnd_eq_Inr split: if_splits
          intro!: frame)
  qed
qed

lemma claim_run_safe: "claim_run c k now tok expires d = Inr (r, d') \<Longrightarrow> safe_step d d'"
  by (cases c) (auto intro: claim_existing_run_safe claim_submission_safe claim_canceled_lookup_safe)


section \<open>The contract, and what it gives\<close>

text \<open>One step of some runner: a claim or a settlement, each in its own transaction.\<close>

datatype ('c, 's) lease_event =
    Claiming 'c candidate pystr pystr pystr
  | Settling 's candidate pystr pystr

fun lease_step ::
  "('c \<Rightarrow> candidate \<Rightarrow> pystr \<Rightarrow> pystr \<Rightarrow> pystr \<Rightarrow> db \<Rightarrow> exn + (run option \<times> db))
   \<Rightarrow> ('s \<Rightarrow> pystr \<Rightarrow> candidate \<Rightarrow> pystr \<Rightarrow> db \<Rightarrow> exn + (bool \<times> db))
   \<Rightarrow> ('c, 's) lease_event \<Rightarrow> db \<Rightarrow> db" where
  "lease_step cl se (Claiming c k now tok expires) d = snd (transaction (cl c k now tok expires) d)"
| "lease_step cl se (Settling s k now tok) d = snd (transaction (se s now k tok) d)"

text \<open>
  An event that does not hold the lease \<open>tok\<close> of attempt \<open>key\<close>: it is about another attempt, or it
  carries another token and, if it is a claim, comes before \<open>expires\<close>.
\<close>

fun foreign :: "run_key \<Rightarrow> pystr \<Rightarrow> pystr \<Rightarrow> ('c, 's) lease_event \<Rightarrow> bool" where
  "foreign key tok expires (Claiming c k now tok' expires') =
     (candidate_key k \<noteq> key \<or> tok' \<noteq> tok \<and> now < expires)"
| "foreign key tok expires (Settling s k now tok') = (candidate_key k \<noteq> key \<or> tok' \<noteq> tok)"

locale leased_writes =
  fixes store :: "'s \<Rightarrow> pystr \<Rightarrow> candidate \<Rightarrow> pystr \<Rightarrow> db \<Rightarrow> exn + (bool \<times> db)"
  assumes write_fenced: "fenced (store s now)"
    and write_frames: "frames (store s now)"
    and write_settles: "settles (store s now)"
    and write_safe: "store s now k tok d = Inr (b, d') \<Longrightarrow> safe_step d d'"
begin

lemma write_refused: "\<not> holds_lease d (candidate_key k) tok \<Longrightarrow> store s now k tok d = Inr (False, d)"
  using write_fenced by (simp add: fenced_def)

lemma write_once:
  assumes "schema_ok d" "store s now k tok d = Inr (b, d')" "d' \<noteq> d \<or> b"
  shows "store s' now' k tok' d' = Inr (False, d')"
proof -
  have "\<not> b \<and> d' = d \<or> unleased d' (candidate_key k)"
    using write_settles [of s now] assms(1,2) unfolding settles_def by blast
  with assms(3) have "unleased d' (candidate_key k)" by blast
  then show ?thesis by (rule write_refused [OF unleased_not_held])
qed

lemma writes_once:
  assumes "schema_ok d" "store s now k tok d = Inr (b, d')" "d' \<noteq> d \<or> b"
  shows "foldl (\<lambda>x (s', now', tok'). snd (transaction (store s' now' k tok') x)) d' later = d'"
  by (induction later) (auto simp: transaction_def write_once [OF assms])

end

locale lease_protocol = leased_writes store
  for store :: "'s \<Rightarrow> pystr \<Rightarrow> candidate \<Rightarrow> pystr \<Rightarrow> db \<Rightarrow> exn + (bool \<times> db)" +
  fixes grab :: "'c \<Rightarrow> candidate \<Rightarrow> pystr \<Rightarrow> pystr \<Rightarrow> pystr \<Rightarrow> db \<Rightarrow> exn + (run option \<times> db)"
  assumes grab_refused:
    "leased_until d (candidate_key k) tok' expires' \<Longrightarrow> tok \<noteq> tok' \<Longrightarrow> now < expires'
     \<Longrightarrow> grab c k now tok expires d = Inr (res, d') \<Longrightarrow> res = None \<and> d' = d"
    and grab_grants:
    "schema_ok d \<Longrightarrow> grab c k now tok expires d = Inr (Some r, d')
     \<Longrightarrow> leased_until d' (candidate_key k) tok expires"
    and grab_frames:
    "grab c k now tok expires d = Inr (res, d') \<Longrightarrow> key \<noteq> candidate_key k \<Longrightarrow> rows d' key = rows d key"
begin

lemma foreign_step:
  assumes held: "leased_until d key tok expires" and ev: "foreign key tok expires e"
  shows "rows (lease_step grab store e d) key = rows d key"
proof (cases e)
  case (Claiming c k now tok' expires')
  have "rows d' key = rows d key" if res: "grab c k now tok' expires' d = Inr (res, d')" for res d'
  proof (cases "candidate_key k = key")
    case True
    with ev Claiming have "tok' \<noteq> tok" "now < expires" by simp_all
    with grab_refused [of d k tok expires, OF _ _ _ res] held True have "d' = d" by simp
    then show ?thesis by simp
  next
    case False
    then show ?thesis using grab_frames [OF res] by simp
  qed
  then show ?thesis by (simp add: Claiming transaction_def split: sum.split)
next
  case (Settling s k now tok')
  have "rows d' key = rows d key" if res: "store s now k tok' d = Inr (b, d')" for b d'
  proof (cases "candidate_key k = key")
    case True
    with ev Settling have "\<not> holds_lease d (candidate_key k) tok'"
      using leased_until_not_held held by simp
    with write_refused res show ?thesis by simp
  next
    case False
    then show ?thesis using write_frames [of s now] res unfolding frames_def by metis
  qed
  then show ?thesis by (simp add: Settling transaction_def split: sum.split)
qed

lemma exclusion:
  assumes "leased_until d key tok expires" "list_all (foreign key tok expires) es"
  shows "rows (foldl (\<lambda>x e. lease_step grab store e x) d es) key = rows d key"
  using assms
proof (induction es arbitrary: d)
  case (Cons e es)
  then have step: "rows (lease_step grab store e d) key = rows d key" by (simp add: foreign_step)
  with Cons.prems have "leased_until (lease_step grab store e d) key tok expires"
    by (simp add: leased_until_def)
  from Cons.IH [OF this] Cons.prems(2) step show ?case by simp
qed simp

lemma granted_exclusion:
  assumes "schema_ok d" "grab c k now tok expires d = Inr (Some r, d')"
    and "list_all (foreign (candidate_key k) tok expires) es"
  shows "rows (foldl (\<lambda>x e. lease_step grab store e x) d' es) (candidate_key k) = rows d' (candidate_key k)
    \<and> leased_until (foldl (\<lambda>x e. lease_step grab store e x) d' es) (candidate_key k) tok expires"
  using exclusion [OF grab_grants [OF assms(1,2)] assms(3)] grab_grants [OF assms(1,2)]
  by (simp add: leased_until_def)

end

interpretation runner_writes: leased_writes settle
  by unfold_locales (rule settle_laws, assumption?)+

interpretation runner_leases: lease_protocol settle claim_run
  by unfold_locales (fact claim_run_refused, fact claim_run_grants, fact claim_run_frames)

end
