(* ===== verification/Canonical.thy ===== *)
theory Canonical
  imports JobStates
begin

text \<open>
  \<open>canonical.py\<close>: resource-bounded canonical JSON, with the parts of Python's \<open>json\<close> it rests on
  (\<open>json.dumps\<close> with sorted keys and \<open>json.loads\<close>).  A dict is a list of pairs in insertion order; a
  container cycle cannot be written as a \<open>jval\<close>, so that check has no counterpart.
\<close>

section \<open>JSON values\<close>

text \<open>\<open>JOther\<close> stands for any other Python object; \<open>json.loads\<close> yields one for a float literal.\<close>

datatype jval =
    JNull | JBool bool | JInt int | JStr pystr | JOther pystr
  | JList "jval list" | JObj "(pystr \<times> jval) list"

definition jget :: "pystr \<Rightarrow> (pystr \<times> jval) list \<Rightarrow> jval option" where
  "jget k kvs = map_of kvs k"

section \<open>UTF-8\<close>

definition cont :: "char \<Rightarrow> bool" where
  "cont c = (128 \<le> (of_char c :: nat) \<and> (of_char c :: nat) \<le> 191)"

text \<open>
  The byte length of the first code point, 0 if the bytes do not start one; \<open>surrogates\<close> says
  whether an encoded surrogate is accepted (\<open>surrogatepass\<close>).
\<close>

definition first_len :: "bool \<Rightarrow> bytes \<Rightarrow> nat" where
  "first_len surrogates s =
     (case s of [] \<Rightarrow> 0 | a # r \<Rightarrow>
        let x = (of_char a :: nat) in
        if x < 128 then 1
        else if 194 \<le> x \<and> x \<le> 223 then
          (case r of b # _ \<Rightarrow> if cont b then 2 else 0 | _ \<Rightarrow> 0)
        else if 224 \<le> x \<and> x \<le> 239 then
          (case r of b # c # _ \<Rightarrow>
             let y = (of_char b :: nat) in
             if cont b \<and> cont c \<and> (x = 224 \<longrightarrow> 160 \<le> y) \<and> (x = 237 \<longrightarrow> surrogates \<or> y \<le> 159)
             then 3 else 0
           | _ \<Rightarrow> 0)
        else if 240 \<le> x \<and> x \<le> 244 then
          (case r of b # c # d # _ \<Rightarrow>
             let y = (of_char b :: nat) in
             if cont b \<and> cont c \<and> cont d \<and> (x = 240 \<longrightarrow> 144 \<le> y) \<and> (x = 244 \<longrightarrow> y \<le> 143)
             then 4 else 0
           | _ \<Rightarrow> 0)
        else 0)"

function utf8_ok :: "bool \<Rightarrow> bytes \<Rightarrow> bool" where
  "utf8_ok sg s =
     (if s = [] then True
      else if first_len sg s = 0 then False
      else utf8_ok sg (drop (first_len sg s) s))"
  by auto
termination
  by (relation "measure (length \<circ> snd)") auto

declare utf8_ok.simps [simp del]

text \<open>The code points of a \<open>str\<close>, each by its UTF-8 units.\<close>

function characters :: "pystr \<Rightarrow> pystr list" where
  "characters s =
     (if s = [] then [] else
      let n = max 1 (first_len True s) in take n s # characters (drop n s))"
  by auto
termination
  by (relation "measure length") (auto simp: Let_def)

declare characters.simps [simp del]

section \<open>Writing\<close>

definition quote_char :: char where "quote_char = CHR 0x22"
definition escape_char :: char where "escape_char = CHR 0x5C"

definition hex_digit :: "nat \<Rightarrow> char" where
  "hex_digit n = (if n < 10 then digit n else char_of (87 + n))"

text \<open>\<open>py_encode_basestring\<close>: the escapes of \<open>ensure_ascii=False\<close>.\<close>

definition escape :: "char \<Rightarrow> pystr" where
  "escape c =
     (if c = quote_char then [escape_char, quote_char]
      else if c = escape_char then [escape_char, escape_char]
      else if c = CHR 0x0A then [escape_char, CHR ''n'']
      else if c = CHR 0x0D then [escape_char, CHR ''r'']
      else if c = CHR 0x09 then [escape_char, CHR ''t'']
      else if c = CHR 0x0C then [escape_char, CHR ''f'']
      else if c = CHR 0x08 then [escape_char, CHR ''b'']
      else if (of_char c :: nat) < 32
      then [escape_char, CHR ''u'', CHR ''0'', CHR ''0'', hex_digit (of_char c div 16),
            hex_digit (of_char c mod 16)]
      else [c])"

definition quote :: "pystr \<Rightarrow> pystr" where
  "quote s = quote_char # concat (map escape s) @ [quote_char]"

fun join :: "pystr list \<Rightarrow> pystr" where
  "join [] = []"
| "join [x] = x"
| "join (x # y # xs) = x @ '','' @ join (y # xs)"

fun dumps :: "jval \<Rightarrow> pystr" where
  "dumps JNull = ''null''"
| "dumps (JBool b) = (if b then ''true'' else ''false'')"
| "dumps (JInt i) = dec_int i"
| "dumps (JStr s) = quote s"
| "dumps (JOther t) = t"
| "dumps (JList vs) = ''['' @ join (map dumps vs) @ '']''"
| "dumps (JObj kvs) =
     ''{'' @ join (map (\<lambda>(k, t). quote k @ '':'' @ t)
                    (sort_key fst (map (\<lambda>(k, v). (k, dumps v)) kvs))) @ ''}''"

section \<open>Preflight and canonical bytes\<close>

definition max_depth :: nat where "max_depth = 64"
definition max_nodes :: nat where "max_nodes = 10000"
definition max_bytes :: nat where "max_bytes = 1048576"
definition max_safe_integer :: int where "max_safe_integer = 9007199254740991"

type_synonym vstate = "nat \<times> nat"  \<comment> \<open>nodes, string bytes\<close>

definition visit_node :: "vstate \<Rightarrow> exn + vstate" where
  "visit_node st =
     (if max_nodes < fst st + 1 then Inl CanonicalizationError else Inr (fst st + 1, snd st))"

definition visit_string :: "pystr \<Rightarrow> vstate \<Rightarrow> exn + vstate" where
  "visit_string s st =
     bnd (visit_node st) (\<lambda>(n, b).
       if \<not> utf8_ok False s \<or> max_bytes < b + length s then Inl CanonicalizationError
       else Inr (n, b + length s))"

fun normalize :: "jval \<Rightarrow> nat \<Rightarrow> vstate \<Rightarrow> exn + (jval \<times> vstate)"
  and normalize_list :: "jval list \<Rightarrow> nat \<Rightarrow> vstate \<Rightarrow> exn + (jval list \<times> vstate)"
  and normalize_items :: "(pystr \<times> jval) list \<Rightarrow> nat \<Rightarrow> vstate \<Rightarrow> exn + ((pystr \<times> jval) list \<times> vstate)"
  where
  "normalize (JStr s) depth st = bnd (visit_string s st) (\<lambda>st. Inr (JStr s, st))"
| "normalize JNull depth st = bnd (visit_node st) (\<lambda>st. Inr (JNull, st))"
| "normalize (JBool b) depth st = bnd (visit_node st) (\<lambda>st. Inr (JBool b, st))"
| "normalize (JInt i) depth st =
     bnd (visit_node st) (\<lambda>st.
       if - max_safe_integer \<le> i \<and> i \<le> max_safe_integer then Inr (JInt i, st)
       else Inl CanonicalizationError)"
| "normalize (JOther t) depth st = bnd (visit_node st) (\<lambda>st. Inl CanonicalizationError)"
| "normalize (JList vs) depth st =
     bnd (visit_node st) (\<lambda>st. if max_depth < depth then Inl CanonicalizationError else
       bnd (normalize_list vs (depth + 1) st) (\<lambda>(vs', st). Inr (JList vs', st)))"
| "normalize (JObj kvs) depth st =
     bnd (visit_node st) (\<lambda>st. if max_depth < depth then Inl CanonicalizationError else
       bnd (normalize_items kvs (depth + 1) st) (\<lambda>(kvs', st). Inr (JObj kvs', st)))"
| "normalize_list [] depth st = Inr ([], st)"
| "normalize_list (v # vs) depth st =
     bnd (normalize v depth st) (\<lambda>(v', st).
     bnd (normalize_list vs depth st) (\<lambda>(vs', st). Inr (v' # vs', st)))"
| "normalize_items [] depth st = Inr ([], st)"
| "normalize_items ((k, v) # kvs) depth st =
     bnd (visit_string k st) (\<lambda>st.
     bnd (normalize v depth st) (\<lambda>(v', st).
     bnd (normalize_items kvs depth st) (\<lambda>(kvs', st). Inr ((k, v') # kvs', st))))"

definition canonical_json :: "jval \<Rightarrow> exn + bytes" where
  "canonical_json value =
     bnd (normalize value 0 (0, 0)) (\<lambda>(normalized, st).
       let payload = dumps normalized in
       if max_bytes < length payload then Inl CanonicalizationError else Inr payload)"

section \<open>Reading\<close>

definition is_ws :: "char \<Rightarrow> bool" where
  "is_ws c = (c \<in> {CHR '' '', CHR 0x09, CHR 0x0A, CHR 0x0D})"

definition skip_ws :: "pystr \<Rightarrow> pystr" where
  "skip_ws s = dropWhile is_ws s"

definition hex_val :: "char \<Rightarrow> nat option" where
  "hex_val c =
     (let x = (of_char c :: nat) in
      if 48 \<le> x \<and> x \<le> 57 then Some (x - 48)
      else if 97 \<le> x \<and> x \<le> 102 then Some (x - 87)
      else if 65 \<le> x \<and> x \<le> 70 then Some (x - 55)
      else None)"

definition hex4 :: "pystr \<Rightarrow> (nat \<times> pystr) option" where
  "hex4 s =
     (case s of a # b # c # d # r \<Rightarrow>
        Option.bind (hex_val a) (\<lambda>w. Option.bind (hex_val b) (\<lambda>x.
        Option.bind (hex_val c) (\<lambda>y. Option.bind (hex_val d) (\<lambda>z.
          Some (4096 * w + 256 * x + 16 * y + z, r)))))
      | _ \<Rightarrow> None)"

definition utf8_encode :: "nat \<Rightarrow> pystr" where
  "utf8_encode u =
     (if u < 128 then [char_of u]
      else if u < 2048 then [char_of (192 + u div 64), char_of (128 + u mod 64)]
      else if u < 65536
      then [char_of (224 + u div 4096), char_of (128 + u div 64 mod 64), char_of (128 + u mod 64)]
      else [char_of (240 + u div 262144), char_of (128 + u div 4096 mod 64),
            char_of (128 + u div 64 mod 64), char_of (128 + u mod 64)])"

text \<open>After \<open>\u\<close>: four hex digits, and a following low surrogate joined to a high one.\<close>

definition unicode_escape :: "pystr \<Rightarrow> (pystr \<times> pystr) option" where
  "unicode_escape s =
     Option.bind (hex4 s) (\<lambda>(u, r).
       if 55296 \<le> u \<and> u \<le> 56319 then
         (case r of a # b # r' \<Rightarrow>
            if a = escape_char \<and> b = CHR ''u'' then
              (case hex4 r' of
                 Some (v, r'') \<Rightarrow>
                   if 56320 \<le> v \<and> v \<le> 57343
                   then Some (utf8_encode (65536 + (u - 55296) * 1024 + (v - 56320)), r'')
                   else Some (utf8_encode u, r)
               | None \<Rightarrow> None)
            else Some (utf8_encode u, r)
          | _ \<Rightarrow> Some (utf8_encode u, r))
       else Some (utf8_encode u, r))"

definition simple_escape :: "char \<Rightarrow> char option" where
  "simple_escape c =
     (if c = quote_char then Some quote_char
      else if c = escape_char then Some escape_char
      else if c = CHR ''/'' then Some (CHR ''/'')
      else if c = CHR ''b'' then Some (CHR 0x08)
      else if c = CHR ''f'' then Some (CHR 0x0C)
      else if c = CHR ''n'' then Some (CHR 0x0A)
      else if c = CHR ''r'' then Some (CHR 0x0D)
      else if c = CHR ''t'' then Some (CHR 0x09)
      else None)"

text \<open>The rest of a string literal after its opening quote; fuel is the number of characters left.\<close>

fun scan_string :: "nat \<Rightarrow> pystr \<Rightarrow> (pystr \<times> pystr) option" where
  "scan_string 0 s = None"
| "scan_string (Suc n) s =
     (case s of [] \<Rightarrow> None
      | c # r \<Rightarrow>
        if c = quote_char then Some ([], r)
        else if c = escape_char then
          (case r of [] \<Rightarrow> None
           | e # r' \<Rightarrow>
             if e = CHR ''u'' then
               Option.bind (unicode_escape r') (\<lambda>(t, r''). 
               Option.bind (scan_string n r'') (\<lambda>(u, z). Some (t @ u, z)))
             else
               Option.bind (simple_escape e) (\<lambda>t.
               Option.bind (scan_string n r') (\<lambda>(u, z). Some (t # u, z))))
        else if (of_char c :: nat) < 32 then None
        else Option.bind (scan_string n r) (\<lambda>(u, z). Some (c # u, z)))"

text \<open>A number literal: the integer part, and whether a fraction or exponent makes it a float.\<close>

definition scan_fraction :: "pystr \<Rightarrow> pystr" where
  "scan_fraction s =
     (case s of c # d # r \<Rightarrow>
        if c = CHR ''.'' \<and> is_digit d then dropWhile is_digit r else s | _ \<Rightarrow> s)"

definition scan_exponent :: "pystr \<Rightarrow> pystr" where
  "scan_exponent s =
     (case s of c # r \<Rightarrow>
        if c = CHR ''e'' \<or> c = CHR ''E'' then
          (let r' = (case r of g # q \<Rightarrow> if g = CHR ''+'' \<or> g = CHR ''-'' then q else r | _ \<Rightarrow> r) in
           (case r' of d # q \<Rightarrow> if is_digit d then dropWhile is_digit q else s | _ \<Rightarrow> s))
        else s
      | _ \<Rightarrow> s)"

definition scan_natural :: "pystr \<Rightarrow> (nat \<times> pystr) option" where
  "scan_natural s =
     (case s of [] \<Rightarrow> None
      | c # r \<Rightarrow>
        if c = CHR ''0'' then Some (0, r)
        else if is_digit c then Some (undec (takeWhile is_digit s), dropWhile is_digit s)
        else None)"

definition scan_number :: "pystr \<Rightarrow> (jval \<times> pystr) option" where
  "scan_number s =
     (let (neg, t) = (case s of c # r \<Rightarrow> if c = CHR ''-'' then (True, r) else (False, s)
                      | _ \<Rightarrow> (False, s)) in
      Option.bind (scan_natural t) (\<lambda>(n, r).
        let r' = scan_exponent (scan_fraction r) in
        if r' = r then Some (JInt (if neg then - int n else int n), r)
        else Some (JOther (take (length s - length r') s), r')))"

definition scan_word :: "pystr \<Rightarrow> jval \<Rightarrow> pystr \<Rightarrow> (jval \<times> pystr) option" where
  "scan_word w v s = (if take (length w) s = w then Some (v, drop (length w) s) else None)"

definition scan_scalar :: "pystr \<Rightarrow> (jval \<times> pystr) option" where
  "scan_scalar s =
     (case s of [] \<Rightarrow> None
      | c # _ \<Rightarrow>
        if c = CHR ''n'' then scan_word ''null'' JNull s
        else if c = CHR ''t'' then scan_word ''true'' (JBool True) s
        else if c = CHR ''f'' then scan_word ''false'' (JBool False) s
        else if c = CHR ''N'' then scan_word ''NaN'' (JOther ''NaN'') s
        else if c = CHR ''I'' then scan_word ''Infinity'' (JOther ''Infinity'') s
        else if take 2 s = ''-I'' then scan_word ''-Infinity'' (JOther ''-Infinity'') s
        else scan_number s)"

text \<open>\<open>dict(pairs)\<close>: a repeated key keeps its first position and takes the last value.\<close>

fun dict_set :: "pystr \<Rightarrow> jval \<Rightarrow> (pystr \<times> jval) list \<Rightarrow> (pystr \<times> jval) list" where
  "dict_set k v [] = [(k, v)]"
| "dict_set k v ((k', v') # kvs) = (if k' = k then (k, v) # kvs else (k', v') # dict_set k v kvs)"

definition dict_of :: "(pystr \<times> jval) list \<Rightarrow> (pystr \<times> jval) list" where
  "dict_of pairs = foldl (\<lambda>kvs (k, v). dict_set k v kvs) [] pairs"

fun scan_value :: "nat \<Rightarrow> pystr \<Rightarrow> (jval \<times> pystr) option"
  and scan_elements :: "nat \<Rightarrow> pystr \<Rightarrow> (jval list \<times> pystr) option"
  and scan_members :: "nat \<Rightarrow> pystr \<Rightarrow> ((pystr \<times> jval) list \<times> pystr) option"
  where
  "scan_value 0 s = None"
| "scan_value (Suc n) s =
     (case s of [] \<Rightarrow> None
      | c # r \<Rightarrow>
        if c = quote_char then
          Option.bind (scan_string (length r) r) (\<lambda>(t, z). Some (JStr t, z))
        else if c = CHR ''['' then
          (case skip_ws r of d # z \<Rightarrow>
             if d = CHR '']'' then Some (JList [], z)
             else Option.bind (scan_elements n (d # z)) (\<lambda>(vs, z). Some (JList vs, z))
           | [] \<Rightarrow> None)
        else if c = CHR ''{'' then
          (case skip_ws r of d # z \<Rightarrow>
             if d = CHR ''}'' then Some (JObj [], z)
             else Option.bind (scan_members n (d # z)) (\<lambda>(kvs, z). Some (JObj (dict_of kvs), z))
           | [] \<Rightarrow> None)
        else scan_scalar s)"
| "scan_elements 0 s = None"
| "scan_elements (Suc n) s =
     Option.bind (scan_value n s) (\<lambda>(v, r).
       (case skip_ws r of d # z \<Rightarrow>
          if d = CHR '']'' then Some ([v], z)
          else if d = CHR '','' then
            Option.bind (scan_elements n (skip_ws z)) (\<lambda>(vs, z). Some (v # vs, z))
          else None
        | [] \<Rightarrow> None))"
| "scan_members 0 s = None"
| "scan_members (Suc n) s =
     (case s of [] \<Rightarrow> None
      | c # r \<Rightarrow> if c \<noteq> quote_char then None else
        Option.bind (scan_string (length r) r) (\<lambda>(k, r).
          (case skip_ws r of d # z \<Rightarrow> if d \<noteq> CHR '':'' then None else
             Option.bind (scan_value n (skip_ws z)) (\<lambda>(v, r).
               (case skip_ws r of d # z \<Rightarrow>
                  if d = CHR ''}'' then Some ([(k, v)], z)
                  else if d = CHR '','' then
                    Option.bind (scan_members n (skip_ws z)) (\<lambda>(kvs, z). Some ((k, v) # kvs, z))
                  else None
                | [] \<Rightarrow> None))
           | [] \<Rightarrow> None)))"

definition parse_text :: "pystr \<Rightarrow> jval option" where
  "parse_text s =
     Option.bind (scan_value (2 * length s + 2) (skip_ws s)) (\<lambda>(v, r).
       if skip_ws r = [] then Some v else None)"

text \<open>
  \<open>json.loads(bytes)\<close>, \<open>None\<close> for the \<open>ValueError\<close>s it raises.  \<open>detect_encoding\<close> takes payloads with a
  UTF-16 or UTF-32 mark, or a NUL among the first bytes, for wide encodings; those are not read here
  (\<open>None\<close>), which no caller can tell apart, since each compares the value's canonical UTF-8 bytes
  with the payload afterwards.
\<close>

definition wide_encoded :: "bytes \<Rightarrow> bool" where
  "wide_encoded s =
     (take 2 s = [CHR 0xFF, CHR 0xFE] \<or> take 2 s = [CHR 0xFE, CHR 0xFF]
      \<or> 2 \<le> length s \<and> (s ! 0 = CHR 0x00 \<or> s ! 1 = CHR 0x00))"

definition json_loads :: "bytes \<Rightarrow> jval option" where
  "json_loads s =
     (if wide_encoded s then None
      else let t = (if take 3 s = [CHR 0xEF, CHR 0xBB, CHR 0xBF] then drop 3 s else s) in
        if utf8_ok True t then parse_text t else None)"

end
