(* ===== verification/CanonicalFacts.thy ===== *)
theory CanonicalFacts
  imports Canonical
begin

text \<open>
  Reading canonical bytes back: \<open>json_loads\<close> inverts \<open>canonical_json\<close> up to the order of dict keys, so
  canonical bytes identify a value.
\<close>

section \<open>Values up to key order\<close>

fun canon :: "jval \<Rightarrow> jval" where
  "canon (JList vs) = JList (map canon vs)"
| "canon (JObj kvs) = JObj (map (\<lambda>(k, v). (k, canon v)) (sort_key fst kvs))"
| "canon v = v"

text \<open>What a Python value of JSON type satisfies: exact types, and dict keys are unique.\<close>

fun plain :: "jval \<Rightarrow> bool" where
  "plain (JOther t) = False"
| "plain (JList vs) = list_all plain vs"
| "plain (JObj kvs) = (distinct (map fst kvs) \<and> list_all (\<lambda>(k, v). plain v) kvs)"
| "plain v = True"

fun good_strings :: "jval \<Rightarrow> bool" where
  "good_strings (JStr s) = utf8_ok False s"
| "good_strings (JOther t) = False"
| "good_strings (JList vs) = list_all good_strings vs"
| "good_strings (JObj kvs) = list_all (\<lambda>(k, v). utf8_ok False k \<and> good_strings v) kvs"
| "good_strings v = True"

section \<open>Strings\<close>

lemma hex_val_digit: "n < 16 \<Longrightarrow> hex_val (hex_digit n) = Some n"
proof -
  assume "n < 16"
  then have "n \<in> set [0..<16]" by simp
  then show ?thesis
    by (simp add: upt_rec hex_val_def hex_digit_def Let_def) (elim disjE; simp add: digit_def)
qed

lemma unicode_escape_control:
  assumes "(of_char c :: nat) < 32"
  shows "unicode_escape ([CHR ''0'', CHR ''0'', hex_digit (of_char c div 16), hex_digit (of_char c mod 16)] @ r)
    = Some ([c], r)"
proof -
  have "hex_val (hex_digit (of_char c div 16)) = Some (of_char c div 16)"
    "hex_val (hex_digit (of_char c mod 16)) = Some (of_char c mod 16)"
    using assms by (auto intro: hex_val_digit)
  moreover have "hex_val CHR ''0'' = Some 0" by (simp add: hex_val_def)
  moreover have "16 * (of_char c div 16) + of_char c mod 16 = (of_char c :: nat)" by simp
  ultimately have "hex4 ([CHR ''0'', CHR ''0'', hex_digit (of_char c div 16), hex_digit (of_char c mod 16)] @ r)
      = Some (of_char c, r)"
    by (simp add: hex4_def)
  with assms show ?thesis by (simp add: unicode_escape_def utf8_encode_def)
qed

lemma escape_length: "Suc 0 \<le> length (escape c)"
  by (simp add: escape_def)

lemma escape_cases:
  "(\<exists>e. escape c = [escape_char, e] \<and> e \<noteq> CHR ''u'' \<and> simple_escape e = Some c)
   \<or> escape c = [escape_char, CHR ''u'', CHR ''0'', CHR ''0'', hex_digit (of_char c div 16),
       hex_digit (of_char c mod 16)] \<and> (of_char c :: nat) < 32
   \<or> escape c = [c] \<and> c \<noteq> quote_char \<and> c \<noteq> escape_char \<and> \<not> (of_char c :: nat) < 32"
  unfolding escape_def by (simp add: simple_escape_def quote_char_def escape_char_def)

lemma scan_escaped:
  "length s < n \<Longrightarrow> scan_string n (concat (map escape s) @ quote_char # r) = Some (s, r)"
proof (induction s arbitrary: n)
  case Nil
  then show ?case by (cases n) (simp_all add: quote_char_def)
next
  case (Cons c s)
  then obtain m where n: "n = Suc m" by (cases n) auto
  have ih: "scan_string m (concat (map escape s) @ quote_char # r) = Some (s, r)"
    using Cons n by simp
  let ?t = "concat (map escape s) @ quote_char # r"
  consider (simple) e where "escape c = [escape_char, e]" "e \<noteq> CHR ''u''" "simple_escape e = Some c"
    | (control) "escape c = [escape_char, CHR ''u'', CHR ''0'', CHR ''0'',
        hex_digit (of_char c div 16), hex_digit (of_char c mod 16)]" "(of_char c :: nat) < 32"
    | (raw) "escape c = [c]" "c \<noteq> quote_char" "c \<noteq> escape_char" "\<not> (of_char c :: nat) < 32"
    using escape_cases [of c] by blast
  then show ?case
  proof cases
    case simple
    then show ?thesis using ih by (simp add: n escape_char_def quote_char_def)
  next
    case control
    have "unicode_escape (CHR ''0'' # CHR ''0'' # hex_digit (of_char c div 16) # hex_digit (of_char c mod 16) # ?t)
        = Some ([c], ?t)"
      using unicode_escape_control [OF control(2), of ?t] by simp
    then show ?thesis using ih control(1) by (simp add: n escape_char_def quote_char_def)
  next
    case raw
    then show ?thesis using ih by (simp add: n)
  qed
qed

lemma concat_escape_length: "length s \<le> length (concat (map escape s))"
proof (induction s)
  case (Cons c s)
  then show ?case using escape_length [of c] by simp
qed simp

lemma scan_quoted:
  assumes "q = concat (map escape s) @ quote_char # r"
  shows "scan_string (length q) q = Some (s, r)"
  using scan_escaped [of s "length q" r] concat_escape_length [of s] assms by simp

section \<open>Numbers\<close>

definition stops :: "pystr \<Rightarrow> bool" where
  "stops r = (case r of [] \<Rightarrow> True | c # _ \<Rightarrow> \<not> is_digit c \<and> c \<notin> {CHR ''.'', CHR ''e'', CHR ''E''})"

lemma dec_leading_zero: "dec n = CHR ''0'' # s \<Longrightarrow> n = 0"
proof (induction n arbitrary: s rule: dec.induct)
  case (1 n)
  show ?case
  proof (cases "n < 10")
    case True
    with "1.prems" have "digit n = CHR ''0''" by (simp add: dec.simps [of n])
    then show ?thesis using True digit_inject [of n 0] by simp
  next
    case False
    then obtain c t where "dec (n div 10) = c # t" by (cases "dec (n div 10)") auto
    with "1.prems" False have "dec (n div 10) = CHR ''0'' # t" by (simp add: dec.simps [of n])
    from "1.IH" [OF False this] False show ?thesis by simp
  qed
qed

lemma dec_zero: "dec 0 = ''0''"
  by (simp add: dec.simps)

lemma scan_natural_dec:
  assumes "stops r"
  shows "scan_natural (dec n @ r) = Some (n, r)"
proof (cases "n = 0")
  case True
  then show ?thesis by (simp add: scan_natural_def dec_zero)
next
  case False
  obtain c t where eq: "dec n = c # t" by (cases "dec n") auto
  with False dec_leading_zero have "c \<noteq> CHR ''0''" by blast
  moreover have digits: "\<forall>x \<in> set (dec n). is_digit x" using dec_digits by blast
  moreover have "takeWhile is_digit r = []" "dropWhile is_digit r = r"
    using assms by (auto simp: stops_def split: list.splits)
  ultimately show ?thesis
    using eq undec_dec [of n]
    by (simp add: scan_natural_def takeWhile_append2 dropWhile_append2)
qed

lemma stops_rest: "stops r \<Longrightarrow> scan_exponent (scan_fraction r) = r"
  by (auto simp: stops_def scan_exponent_def scan_fraction_def split: list.splits)

lemma dec_first: "\<exists>c t. dec n = c # t \<and> is_digit c"
  using dec_digits [of _ n] by (cases "dec n") auto

lemma scan_scalar_int:
  assumes "stops r"
  shows "scan_scalar (dec_int i @ r) = Some (JInt i, r)"
proof (cases "i < 0")
  case True
  obtain c t where c: "dec (nat (- i)) = c # t" "is_digit c" using dec_first by blast
  then have "c \<noteq> CHR ''I''" by (auto simp: is_digit_def)
  with c True show ?thesis
    using scan_natural_dec [OF assms, of "nat (- i)"]
    by (simp add: scan_scalar_def scan_number_def dec_int_def stops_rest [OF assms])
next
  case False
  obtain c t where c: "dec (nat i) = c # t" "is_digit c" using dec_first by blast
  then have "c \<noteq> CHR ''-''" "c \<noteq> CHR ''n''" "c \<noteq> CHR ''t''" "c \<noteq> CHR ''f''" "c \<noteq> CHR ''N''" "c \<noteq> CHR ''I''"
    by (auto simp: is_digit_def)
  with c False show ?thesis
    using scan_natural_dec [OF assms, of "nat i"]
    by (simp add: scan_scalar_def scan_number_def dec_int_def stops_rest [OF assms])
qed

section \<open>Values\<close>

definition member :: "pystr \<times> pystr \<Rightarrow> pystr" where
  "member kt = (case kt of (k, t) \<Rightarrow> quote k @ '':'' @ t)"

lemma sort_key_map_snd:
  "sort_key fst (map (\<lambda>(k, v). (k, f v)) kvs) = map (\<lambda>(k, v). (k, f v)) (sort_key fst kvs)"
proof -
  have ins: "insort_key fst (k, f v) (map (\<lambda>(k, v). (k, f v)) xs) = map (\<lambda>(k, v). (k, f v)) (insort_key fst (k, v) xs)"
    for k v xs by (induction xs) auto
  show ?thesis
    by (induction kvs) (auto simp: ins)
qed

lemma dumps_obj:
  "dumps (JObj kvs) = ''{'' @ join (map member (map (\<lambda>(k, v). (k, dumps v)) (sort_key fst kvs))) @ ''}''"
  by (simp add: member_def [abs_def] sort_key_map_snd)

text \<open>The first character of a value's text.\<close>

definition starts_value :: "pystr \<Rightarrow> bool" where
  "starts_value s = (case s of [] \<Rightarrow> False | c # _ \<Rightarrow> \<not> is_ws c \<and> c \<noteq> CHR '']'' \<and> c \<noteq> CHR ''}'')"

lemma starts_value_append: "starts_value s \<Longrightarrow> starts_value (s @ r)"
  by (auto simp: starts_value_def split: list.splits)

lemma skip_ws_starts: "starts_value s \<Longrightarrow> skip_ws s = s"
  by (auto simp: starts_value_def skip_ws_def split: list.splits)

lemma starts_value_cases:
  "starts_value s \<Longrightarrow> \<exists>c t. s = c # t \<and> \<not> is_ws c \<and> c \<noteq> CHR '']'' \<and> c \<noteq> CHR ''}''"
  by (auto simp: starts_value_def split: list.splits)

lemma digit_starts: "is_digit c \<Longrightarrow> starts_value (c # t)"
  by (auto simp: starts_value_def is_ws_def is_digit_def)

lemma dumps_starts: "plain v \<Longrightarrow> starts_value (dumps v)"
proof (cases v)
  case (JInt i)
  obtain c t c' t' where "dec (nat i) = c # t" "is_digit c" "dec (nat (- i)) = c' # t'"
    using dec_first by meson
  then show ?thesis using JInt digit_starts by (auto simp: dec_int_def starts_value_def is_ws_def)
qed (auto simp: starts_value_def quote_def quote_char_def is_ws_def)

lemma join_starts: "starts_value x \<Longrightarrow> starts_value (join (x # xs))"
  by (cases xs) (auto intro: starts_value_append)

lemma stops_punct: "c \<in> {CHR '','', CHR '']'', CHR ''}''} \<Longrightarrow> stops (c # r)"
  by (auto simp: stops_def is_digit_def)

lemma skip_punct: "c \<in> {CHR '','', CHR '']'', CHR ''}'', CHR '':''} \<Longrightarrow> skip_ws (c # r) = c # r"
  by (auto simp: skip_ws_def is_ws_def)

lemma scan_elements_join:
  assumes "\<And>v n r. v \<in> set vs \<Longrightarrow> stops r \<Longrightarrow> 2 * length (dumps v) \<le> n \<Longrightarrow> scan_value n (dumps v @ r) = Some (canon v, r)"
    and "vs \<noteq> []" "\<And>v. v \<in> set vs \<Longrightarrow> plain v" "2 * length (join (map dumps vs)) + 1 \<le> n"
  shows "scan_elements n (join (map dumps vs) @ CHR '']'' # r) = Some (map canon vs, r)"
  using assms
proof (induction vs arbitrary: n)
  case (Cons v vs)
  then obtain m where n: "n = Suc m" by (cases n) auto
  show ?case
  proof (cases vs)
    case Nil
    have "scan_value m (dumps v @ CHR '']'' # r) = Some (canon v, CHR '']'' # r)"
      using Cons.prems(4) n Nil by (intro Cons.prems(1)) (auto intro: stops_punct)
    then show ?thesis using Nil n by (simp add: skip_punct)
  next
    case (Cons w ws)
    let ?rest = "join (map dumps vs) @ CHR '']'' # r"
    have "scan_value m (dumps v @ CHR '','' # ?rest) = Some (canon v, CHR '','' # ?rest)"
      using Cons.prems(4) n Cons by (intro Cons.prems(1)) (auto intro: stops_punct)
    moreover have "scan_elements m ?rest = Some (map canon vs, r)"
      using Cons.prems n Cons by (intro Cons.IH) auto
    moreover have "skip_ws ?rest = ?rest"
      using Cons.prems(3) [of w] Cons
      by (intro skip_ws_starts starts_value_append) (auto intro: join_starts dumps_starts simp del: join.simps)
    ultimately show ?thesis using Cons n by (simp add: skip_punct)
  qed
qed simp

lemma join_Cons: "ys \<noteq> [] \<Longrightarrow> join (x # ys) = x @ '','' @ join ys"
  by (cases ys) simp_all

lemma scan_members_join:
  assumes "\<And>k v n r. (k, v) \<in> set kvs \<Longrightarrow> stops r \<Longrightarrow> 2 * length (dumps v) \<le> n \<Longrightarrow> scan_value n (dumps v @ r) = Some (canon v, r)"
    and "kvs \<noteq> []" "\<And>k v. (k, v) \<in> set kvs \<Longrightarrow> plain v"
    and "2 * length (join (map member (map (\<lambda>(k, v). (k, dumps v)) kvs))) + 1 \<le> n"
  shows "scan_members n (join (map member (map (\<lambda>(k, v). (k, dumps v)) kvs)) @ CHR ''}'' # r)
    = Some (map (\<lambda>(k, v). (k, canon v)) kvs, r)"
  using assms
proof (induction kvs arbitrary: n)
  case (Cons kv kvs)
  obtain k v where kv: "kv = (k, v)" by fastforce
  from Cons.prems(4) obtain m where n: "n = Suc m" by (cases n) auto
  have plain: "plain v" using Cons.prems(3) kv by auto
  have key: "scan_string (length (concat (map escape k) @ quote_char # s)) (concat (map escape k) @ quote_char # s) = Some (k, s)" for s
    by (rule scan_quoted) simp
  have val: "scan_value m (dumps v @ c # s) = Some (canon v, c # s)"
    if "c \<in> {CHR '','', CHR ''}''}" "2 * length (dumps v) \<le> m" for c s
    using that kv Cons.prems(1) [of k v] by (auto intro: stops_punct)
  have skip: "skip_ws (dumps v @ s) = dumps v @ s" for s
    using dumps_starts [OF plain] by (intro skip_ws_starts starts_value_append)
  show ?case
  proof (cases kvs)
    case Nil
    have "2 * length (dumps v) \<le> m" using Cons.prems(4) n Nil kv by (simp add: member_def)
    then show ?thesis
      using Nil n kv key [of "CHR '':'' # dumps v @ CHR ''}'' # r"] val [of "CHR ''}''"]
      by (simp add: member_def quote_def skip_punct skip)
  next
    case (Cons w ws)
    let ?ms = "map member (map (\<lambda>(k, v). (k, dumps v)) kvs)"
    let ?rest = "join ?ms @ CHR ''}'' # r"
    have ne: "?ms \<noteq> []" using Cons by simp
    have whole: "join (map member (map (\<lambda>(k, v). (k, dumps v)) (kv # kvs)))
        = quote k @ '':'' @ dumps v @ '','' @ join ?ms"
      using join_Cons [OF ne, of "member (k, dumps v)"] by (simp add: kv member_def [of "(k, _)"])
    have len: "2 * length (dumps v) \<le> m" "2 * length (join ?ms) + 1 \<le> m"
      using Cons.prems(4) n unfolding whole by simp_all
    have "scan_members m ?rest = Some (map (\<lambda>(k, v). (k, canon v)) kvs, r)"
    proof (rule Cons.IH [OF _ _ _ len(2)])
      show "kvs \<noteq> []" using Cons by simp
      show "plain v'" if "(k', v') \<in> set kvs" for k' v'
        using Cons.prems(3) [of k' v'] that by simp
      show "scan_value n' (dumps v' @ r') = Some (canon v', r')"
        if "(k', v') \<in> set kvs" "stops r'" "2 * length (dumps v') \<le> n'" for k' v' n' r'
        using Cons.prems(1) [of k' v'] that by simp
    qed
    moreover have "skip_ws ?rest = ?rest"
      using Cons by (cases w; cases ws)
        (auto simp: member_def quote_def quote_char_def skip_ws_def is_ws_def)
    ultimately show ?thesis
      unfolding whole n
      using key [of "CHR '':'' # dumps v @ CHR '','' # ?rest"] val [of "CHR '',''"] len(1)
      by (simp add: kv quote_def skip_punct skip del: map_map scan_string.simps)
  qed
qed simp

lemma dict_set_new: "k \<notin> fst ` set acc \<Longrightarrow> dict_set k v acc = acc @ [(k, v)]"
  by (induction acc) auto

lemma foldl_dict_set:
  "distinct (map fst (acc @ kvs)) \<Longrightarrow> foldl (\<lambda>kvs (k, v). dict_set k v kvs) acc kvs = acc @ kvs"
proof (induction kvs arbitrary: acc)
  case (Cons kv kvs)
  obtain k v where kv: "kv = (k, v)" by fastforce
  with Cons.prems have "dict_set k v acc = acc @ [(k, v)]" by (intro dict_set_new) auto
  with kv Cons.prems Cons.IH [of "acc @ [(k, v)]"] show ?case by simp
qed simp

lemma dict_of_distinct: "distinct (map fst kvs) \<Longrightarrow> dict_of kvs = kvs"
  unfolding dict_of_def using foldl_dict_set [of "[]" kvs] by simp

lemma join_member_first: "kts \<noteq> [] \<Longrightarrow> \<exists>t. join (map member kts) = quote_char # t"
proof (cases kts)
  case (Cons kt kts')
  obtain k t where "kt = (k, t)" by fastforce
  then show ?thesis using Cons by (cases kts') (simp_all add: member_def quote_def)
qed simp

lemma digit_not_special: "is_digit c \<Longrightarrow> c \<noteq> CHR 0x22 \<and> c \<noteq> CHR ''['' \<and> c \<noteq> CHR ''{''"
  by (auto simp: is_digit_def)

lemma dec_int_first: "\<exists>c t. dec_int i = c # t \<and> c \<noteq> quote_char \<and> c \<noteq> CHR ''['' \<and> c \<noteq> CHR ''{''"
  using dec_first [of "nat i"] digit_not_special by (cases "i < 0") (auto simp: dec_int_def quote_char_def)

lemma distinct_sort_keys: "distinct (map fst kvs) \<Longrightarrow> distinct (map fst (sort_key fst kvs))"
  by (simp add: distinct_map)

lemma scan_dumps:
  assumes "plain v" "stops r" "2 * length (dumps v) \<le> n"
  shows "scan_value n (dumps v @ r) = Some (canon v, r)"
  using assms
proof (induction v arbitrary: n r)
  case (JInt i)
  obtain c t where ct: "dec_int i = c # t" "c \<noteq> quote_char" "c \<noteq> CHR ''[''" "c \<noteq> CHR ''{''"
    using dec_int_first by blast
  moreover obtain m where "n = Suc m" using JInt.prems(3) ct by (cases n) auto
  ultimately show ?case using scan_scalar_int [OF JInt.prems(2), of i] by simp
next
  case (JList vs)
  obtain m where n: "n = Suc m" using JList.prems(3) by (cases n) auto
  show ?case
  proof (cases "vs = []")
    case True
    then show ?thesis using n by (simp add: quote_char_def skip_punct)
  next
    case False
    have plain: "plain w" if "w \<in> set vs" for w using JList.prems(1) that by (auto simp: list_all_iff)
    have elems: "scan_elements m (join (map dumps vs) @ CHR '']'' # r) = Some (map canon vs, r)"
      by (rule scan_elements_join [OF _ False]) (use JList plain n in auto)
    have "starts_value (join (map dumps vs))"
      using False plain by (cases vs) (auto intro: join_starts dumps_starts simp del: join.simps)
    then obtain c t where "join (map dumps vs) = c # t" "\<not> is_ws c" "c \<noteq> CHR '']''"
      using starts_value_cases by blast
    then show ?thesis using n elems by (simp add: quote_char_def skip_ws_def)
  qed
next
  case (JObj kvs)
  obtain m where n: "n = Suc m" using JObj.prems(3) by (cases n) auto
  let ?ks = "sort_key fst kvs"
  let ?ms = "map member (map (\<lambda>(k, v). (k, dumps v)) ?ks)"
  show ?case
  proof (cases "kvs = []")
    case True
    then show ?thesis using n by (simp add: quote_char_def skip_punct dict_of_def)
  next
    case False
    have plain: "plain w" if "(k, w) \<in> set ?ks" for k w
      using JObj.prems(1) that by (auto simp: list_all_iff)
    have elems: "scan_members m (join ?ms @ CHR ''}'' # r) = Some (map (\<lambda>(k, v). (k, canon v)) ?ks, r)"
    proof (rule scan_members_join)
      show "?ks \<noteq> []" using False by (metis length_0_conv length_sort)
      show "2 * length (join ?ms) + 1 \<le> m"
        using JObj.prems(3) n unfolding dumps_obj by simp
      show "scan_value l (dumps w @ s) = Some (canon w, s)"
        if "(k, w) \<in> set ?ks" "stops s" "2 * length (dumps w) \<le> l" for k w l s
        using JObj.IH [of "(k, w)" w s l] that plain [OF that(1)] by simp
    qed (use plain in blast)
    have "dict_of (map (\<lambda>(k, v). (k, canon v)) ?ks) = map (\<lambda>(k, v). (k, canon v)) ?ks"
      using distinct_sort_keys [of kvs] JObj.prems(1)
      by (intro dict_of_distinct) (simp add: comp_def case_prod_unfold)
    moreover obtain t where "join ?ms = quote_char # t"
      using join_member_first [of "map (\<lambda>(k, v). (k, dumps v)) ?ks"] False
      by (metis (no_types, lifting) length_0_conv length_map length_sort)
    ultimately show ?thesis
      using n elems unfolding dumps_obj
      by (simp add: quote_char_def skip_ws_def is_ws_def del: map_map)
  qed
next
  case (JStr s)
  then obtain m where "n = Suc m" by (cases n) (auto simp: quote_def)
  then show ?case using scan_quoted [of "concat (map escape s) @ quote_char # r" s r]
    by (simp add: quote_def del: scan_string.simps)
next
  case JNull
  then obtain m where "n = Suc m" by (cases n) auto
  then show ?case by (simp add: scan_scalar_def scan_word_def quote_char_def)
next
  case (JBool b)
  then obtain m where "n = Suc m" by (cases n) (auto split: if_splits)
  then show ?case by (simp add: scan_scalar_def scan_word_def quote_char_def)
qed simp

theorem parse_dumps:
  assumes "plain v"
  shows "parse_text (dumps v) = Some (canon v)"
  using scan_dumps [OF assms, of "[]" "2 * length (dumps v) + 2"]
    skip_ws_starts [OF dumps_starts [OF assms]]
  by (simp add: parse_text_def stops_def skip_ws_def)

section \<open>The preflight\<close>

lemma visit_string_ok: "visit_string s st = Inr st' \<Longrightarrow> utf8_ok False s"
  by (auto simp: visit_string_def bnd_eq_Inr split: if_splits)

lemma normalize_ok:
  "normalize v depth st = Inr (v', st') \<Longrightarrow> v' = v \<and> good_strings v"
  "normalize_list vs depth st = Inr (vs', st') \<Longrightarrow> vs' = vs \<and> list_all good_strings vs"
  "normalize_items kvs depth st = Inr (kvs', st')
   \<Longrightarrow> kvs' = kvs \<and> list_all (\<lambda>(k, v). utf8_ok False k \<and> good_strings v) kvs"
  by (induction v depth st and vs depth st and kvs depth st arbitrary: v' st' and vs' st' and kvs' st'
      rule: normalize_normalize_list_normalize_items.induct)
    (auto simp: bnd_eq_Inr intro: visit_string_ok split: if_splits, blast+)

lemma canonical_json_Inr:
  "canonical_json v = Inr s \<Longrightarrow> s = dumps v \<and> good_strings v \<and> length s \<le> max_bytes"
  by (auto simp: canonical_json_def bnd_eq_Inr Let_def dest!: normalize_ok split: if_splits)

section \<open>Canonical bytes are UTF-8\<close>

text \<open>The first code point of a valid text: one ASCII byte, or bytes above 127 only.\<close>

definition code_point :: "bool \<Rightarrow> bytes \<Rightarrow> bool" where
  "code_point sg u =
     (u \<noteq> [] \<and> ((\<exists>c. u = [c] \<and> (of_char c :: nat) < 128) \<or> (\<forall>c \<in> set u. 128 \<le> (of_char c :: nat)))
      \<and> (\<forall>t. first_len sg (u @ t) = length u) \<and> (\<forall>t. first_len True (u @ t) = length u))"

lemma cont_high: "cont c \<Longrightarrow> 128 \<le> (of_char c :: nat)"
  by (simp add: cont_def)

lemma first_len_code_point:
  assumes "first_len sg s \<noteq> 0"
  shows "code_point sg (take (first_len sg s) s)"
proof -
  obtain a r where s: "s = a # r" using assms by (cases s) (auto simp: first_len_def)
  let ?x = "of_char a :: nat"
  consider "?x < 128" | "194 \<le> ?x" "?x \<le> 223" | "224 \<le> ?x" "?x \<le> 239" | "240 \<le> ?x" "?x \<le> 244"
    using assms s by (fastforce simp: first_len_def)
  then show ?thesis
  proof cases
    case 1
    then show ?thesis by (simp add: s code_point_def first_len_def)
  next
    case 2
    obtain b r' where r: "r = b # r'" "cont b"
      using assms s 2 by (cases r) (auto simp: first_len_def split: if_splits)
    with 2 show ?thesis by (simp add: s code_point_def first_len_def cont_high)
  next
    case 3
    then have "(case r of b # c # _ \<Rightarrow> cont b \<and> cont c \<and> (?x = 224 \<longrightarrow> 160 \<le> (of_char b :: nat))
        \<and> (?x = 237 \<longrightarrow> sg \<or> (of_char b :: nat) \<le> 159) | _ \<Rightarrow> False)"
      using assms s by (auto simp: first_len_def Let_def split: list.splits if_splits)
    then obtain b c r' where "r = b # c # r'" "cont b" "cont c" "?x = 224 \<longrightarrow> 160 \<le> (of_char b :: nat)"
      "?x = 237 \<longrightarrow> sg \<or> (of_char b :: nat) \<le> 159"
      by (auto split: list.splits)
    with 3 show ?thesis by (simp add: s code_point_def first_len_def cont_high Let_def)
  next
    case 4
    then have "(case r of b # c # d # _ \<Rightarrow> cont b \<and> cont c \<and> cont d \<and> (?x = 240 \<longrightarrow> 144 \<le> (of_char b :: nat))
        \<and> (?x = 244 \<longrightarrow> (of_char b :: nat) \<le> 143) | _ \<Rightarrow> False)"
      using assms s by (auto simp: first_len_def Let_def split: list.splits if_splits)
    then obtain b c e r' where "r = b # c # e # r'" "cont b" "cont c" "cont e"
      "?x = 240 \<longrightarrow> 144 \<le> (of_char b :: nat)" "?x = 244 \<longrightarrow> (of_char b :: nat) \<le> 143"
      by (auto split: list.splits)
    with 4 show ?thesis by (simp add: s code_point_def first_len_def cont_high Let_def)
  qed
qed

lemma utf8_code_point: "code_point sg u \<Longrightarrow> utf8_ok sg (u @ t) = utf8_ok sg t"
  by (subst utf8_ok.simps) (auto simp: code_point_def)

text \<open>Induction along code points.\<close>

lemma utf8_induct [consumes 1, case_names Nil Point]:
  assumes "utf8_ok sg s" "P []" "\<And>u t. code_point sg u \<Longrightarrow> utf8_ok sg t \<Longrightarrow> P t \<Longrightarrow> P (u @ t)"
  shows "P s"
  using assms(1)
proof (induction "length s" arbitrary: s rule: less_induct)
  case less
  show ?case
  proof (cases "s = []")
    case False
    let ?n = "first_len sg s"
    have n: "?n \<noteq> 0" "utf8_ok sg (drop ?n s)"
      using less.prems False by (subst (asm) utf8_ok.simps; simp split: if_splits)+
    have "P (drop ?n s)" using n False by (intro less.hyps) auto
    with assms(3) [OF first_len_code_point [OF n(1)] n(2)] show ?thesis by simp
  qed (simp add: assms(2))
qed

lemma utf8_nil [simp]: "utf8_ok sg []"
  by (simp add: utf8_ok.simps)

lemma code_point_True: "code_point sg u \<Longrightarrow> code_point True u"
  by (simp add: code_point_def)

lemma ascii_code_point: "(of_char c :: nat) < 128 \<Longrightarrow> code_point sg [c]"
  by (simp add: code_point_def first_len_def)

lemma utf8_ascii_Cons: "(of_char c :: nat) < 128 \<Longrightarrow> utf8_ok sg (c # t) = utf8_ok sg t"
  using utf8_code_point [OF ascii_code_point, of c sg t] by simp

lemma utf8_append: "utf8_ok sg s \<Longrightarrow> utf8_ok sg t \<Longrightarrow> utf8_ok sg (s @ t)"
  by (induction rule: utf8_induct) (simp_all add: utf8_code_point)

lemma utf8_mono: "utf8_ok sg s \<Longrightarrow> utf8_ok True s"
  by (induction rule: utf8_induct) (simp_all add: utf8_code_point code_point_True)

lemma escape_high:
  assumes "128 \<le> (of_char c :: nat)"
  shows "escape c = [c]"
proof -
  have "c \<noteq> d" if "(of_char d :: nat) < 128" for d using assms that by auto
  then have "c \<noteq> CHR 0x22" "c \<noteq> CHR 0x5C" "c \<noteq> CHR 0x0A" "c \<noteq> CHR 0x0D" "c \<noteq> CHR 0x09"
    "c \<noteq> CHR 0x0C" "c \<noteq> CHR 0x08"
    by simp_all
  with assms show ?thesis by (simp add: escape_def quote_char_def escape_char_def)
qed

definition ascii :: "pystr \<Rightarrow> bool" where
  "ascii s = list_all (\<lambda>c. (of_char c :: nat) < 128) s"

lemma utf8_ascii: "ascii s \<Longrightarrow> utf8_ok sg s"
  by (induction s) (simp_all add: ascii_def utf8_ascii_Cons)

lemma hex_digit_ascii: "n < 16 \<Longrightarrow> (of_char (hex_digit n) :: nat) < 128"
  by (simp add: hex_digit_def of_char_digit)

lemma escape_ascii: "(of_char c :: nat) < 128 \<Longrightarrow> ascii (escape c)"
  by (auto simp: escape_def ascii_def quote_char_def escape_char_def intro!: hex_digit_ascii)

lemma utf8_escape: "utf8_ok sg s \<Longrightarrow> utf8_ok sg (concat (map escape s))"
proof (induction rule: utf8_induct)
  case (Point u t)
  have "utf8_ok sg (concat (map escape u))"
  proof (cases "\<exists>c. u = [c] \<and> (of_char c :: nat) < 128")
    case True
    then obtain c where "u = [c]" "(of_char c :: nat) < 128" by blast
    then show ?thesis using utf8_ascii [OF escape_ascii] by simp
  next
    case False
    then have "concat (map escape u) = u"
      using Point(1) by (auto simp: code_point_def escape_high concat_map_singleton intro: map_idI
          cong: map_cong)
    then show ?thesis using utf8_code_point [OF Point(1), of "[]"] by simp
  qed
  with Point show ?case by (simp add: utf8_append)
qed simp

lemma utf8_quote: "utf8_ok sg s \<Longrightarrow> utf8_ok sg (quote s)"
  by (simp add: quote_def utf8_ascii_Cons quote_char_def utf8_append utf8_escape)

lemma utf8_join: "list_all (utf8_ok sg) xs \<Longrightarrow> utf8_ok sg (join xs)"
  by (induction xs rule: join.induct) (simp_all add: utf8_append utf8_ascii_Cons)

lemma digit_ascii: "is_digit c \<Longrightarrow> (of_char c :: nat) < 128"
  by (simp add: is_digit_def)

lemma utf8_dec_int: "utf8_ok sg (dec_int i)"
proof -
  have "ascii (dec n)" for n using dec_digits [of _ n] by (auto simp: ascii_def list_all_iff digit_ascii)
  then show ?thesis by (simp add: dec_int_def utf8_ascii utf8_ascii_Cons)
qed

lemma sort_key_all: "(\<forall>x \<in> set (sort_key f xs). P x) \<longleftrightarrow> (\<forall>x \<in> set xs. P x)"
  by simp

lemma utf8_dumps: "good_strings v \<Longrightarrow> utf8_ok False (dumps v)"
proof (induction v)
  case (JList vs)
  then have "utf8_ok False (join (map dumps vs))"
    by (intro utf8_join) (simp add: list_all_iff)
  then show ?case by (simp add: utf8_append utf8_ascii_Cons)
next
  case (JObj kvs)
  have "utf8_ok False (member (k, dumps w))" if "(k, w) \<in> set kvs" for k w
    using JObj.IH [OF that] JObj.prems that
    by (auto simp: member_def list_all_iff intro!: utf8_append utf8_quote simp: utf8_ascii_Cons)
  then have "utf8_ok False (join (map member (map (\<lambda>(k, v). (k, dumps v)) (sort_key fst kvs))))"
    by (intro utf8_join) (auto simp: list_all_iff)
  then show ?case unfolding dumps_obj by (simp add: utf8_append utf8_ascii_Cons)
qed (simp_all add: utf8_ascii_Cons utf8_quote utf8_dec_int)

lemma escape_no_nul: "CHR 0x00 \<notin> set (escape c)"
proof -
  have "hex_digit n \<noteq> CHR 0x00" if "n < 16" for n
  proof
    assume "hex_digit n = CHR 0x00"
    then have "hex_val (hex_digit n) = hex_val CHR 0x00" by simp
    then show False using hex_val_digit [OF that] by (simp add: hex_val_def)
  qed
  then have digits: "hex_digit (of_char c mod 16) \<noteq> CHR 0x00"
    "(of_char c :: nat) < 32 \<Longrightarrow> hex_digit (of_char c div 16) \<noteq> CHR 0x00"
    by simp_all
  have "simple_escape CHR 0x00 = None"
    by (simp add: simple_escape_def quote_char_def escape_char_def)
  then have simple: "simple_escape e = Some c \<Longrightarrow> e \<noteq> CHR 0x00" for e by auto
  have raw: "\<not> (of_char c :: nat) < 32 \<Longrightarrow> c \<noteq> CHR 0x00" by auto
  have esc: "escape_char \<noteq> CHR 0x00" by (simp add: escape_char_def)
  show ?thesis
    using escape_cases [of c]
  proof (elim disjE exE conjE)
    fix e assume "escape c = [escape_char, e]" "simple_escape e = Some c"
    with simple esc show ?thesis by auto
  next
    assume "escape c = [escape_char, CHR ''u'', CHR ''0'', CHR ''0'', hex_digit (of_char c div 16),
       hex_digit (of_char c mod 16)]" "(of_char c :: nat) < 32"
    with digits esc show ?thesis by simp
  next
    assume "escape c = [c]" "\<not> (of_char c :: nat) < 32"
    with raw show ?thesis by simp
  qed
qed

lemma join_set: "set (join xs) \<subseteq> insert CHR '','' (\<Union> (set ` set xs))"
  by (induction xs rule: join.induct) auto

lemma quote_no_nul: "CHR 0x00 \<notin> set (quote s)"
  using escape_no_nul by (auto simp: quote_def quote_char_def)

lemma dec_int_no_nul: "CHR 0x00 \<notin> set (dec_int i)"
  using dec_digits [of "CHR 0x00"] by (auto simp: dec_int_def is_digit_def)

lemma dumps_no_nul: "good_strings v \<Longrightarrow> CHR 0x00 \<notin> set (dumps v)"
proof (induction v)
  case (JList vs)
  then show ?case using join_set [of "map dumps vs"] by (auto simp: list_all_iff)
next
  case (JObj kvs)
  have "CHR 0x00 \<notin> set (member (k, dumps w))" if "(k, w) \<in> set kvs" for k w
    using JObj.IH [OF that] JObj.prems that quote_no_nul by (auto simp: member_def list_all_iff)
  then show ?case
    using join_set [of "map member (map (\<lambda>(k, v). (k, dumps v)) (sort_key fst kvs))"]
    unfolding dumps_obj by auto
qed (simp_all add: quote_no_nul dec_int_no_nul)

lemma dumps_first_ascii: "good_strings v \<Longrightarrow> \<exists>c t. dumps v = c # t \<and> (of_char c :: nat) < 128"
proof (cases v)
  case (JInt i)
  then show ?thesis
    using dec_first [of "nat i"] digit_ascii by (auto simp: dec_int_def)
qed (auto simp: quote_def quote_char_def)

text \<open>Reading canonical bytes gives the value back, with sorted keys.\<close>

lemma json_loads_canonical:
  assumes "plain v" "canonical_json v = Inr s"
  shows "json_loads s = Some (canon v)"
proof -
  from canonical_json_Inr [OF assms(2)] have s: "s = dumps v" "good_strings v" by simp_all
  obtain c t where c: "s = c # t" "(of_char c :: nat) < 128" using dumps_first_ascii s by blast
  have "c \<noteq> d" if "128 \<le> (of_char d :: nat)" for d using c that by auto
  then have "c \<noteq> CHR 0xFF" "c \<noteq> CHR 0xFE" "c \<noteq> CHR 0xEF" by simp_all
  moreover have "CHR 0x00 \<notin> set s" using dumps_no_nul s by simp
  then have "2 \<le> length s \<longrightarrow> s ! 0 \<noteq> CHR 0x00 \<and> s ! 1 \<noteq> CHR 0x00"
    by (metis One_nat_def Suc_le_lessD Suc_lessD nth_mem numeral_2_eq_2)
  moreover have "utf8_ok True s" using utf8_mono [OF utf8_dumps] s by simp
  ultimately show ?thesis
    using parse_dumps [OF assms(1)] c by (auto simp: json_loads_def wide_encoded_def s(1) [symmetric])
qed

lemma dumps_canon: "dumps (canon v) = dumps v"
proof (induction v)
  case (JList vs)
  then show ?case by (simp add: comp_def cong: map_cong)
next
  case (JObj kvs)
  let ?ks = "sort_key fst kvs"
  have "sort_key fst (map (\<lambda>(k, v). (k, canon v)) ?ks) = map (\<lambda>(k, v). (k, canon v)) ?ks"
    by (subst sort_key_map_snd) (simp add: sorted_sort_id sort_key_id_if_sorted)
  moreover have "dumps (canon (snd x)) = dumps (snd x)" if "x \<in> set kvs" for x
    using JObj.IH [OF that] by (simp add: snds.simps)
  ultimately show ?case
    unfolding canon.simps dumps_obj
    by (simp add: comp_def case_prod_unfold) (intro arg_cong [where f = join] map_cong; simp)
qed simp_all

text \<open>
  C29.  Canonical bytes identify a value: for two values of JSON type that canonicalize, the bytes are
  equal exactly when the values are equal up to the order of dict keys, and \<open>json.loads\<close> of the
  bytes gives the value back with its keys sorted.
\<close>

theorem canonical_bytes_identify:
  assumes "plain v" "plain w" "canonical_json v = Inr s" "canonical_json w = Inr t"
  shows "(s = t \<longleftrightarrow> canon v = canon w) \<and> json_loads s = Some (canon v)"
proof -
  have "canon v = canon w" if "s = t"
    using json_loads_canonical assms that by (metis option.inject)
  moreover have "s = t" if "canon v = canon w"
    using canonical_json_Inr [OF assms(3)] canonical_json_Inr [OF assms(4)] dumps_canon that by metis
  ultimately show ?thesis using json_loads_canonical [OF assms(1,3)] by blast
qed

lemma canonical_bytes_identify_witness:
  "canonical_json (JObj [(''b'', JInt 1), (''a'', JNull)]) = canonical_json (JObj [(''a'', JNull), (''b'', JInt 1)])"
proof -
  note eval = canonical_json_def visit_node_def visit_string_def utf8_ascii_Cons max_nodes_def
    max_bytes_def max_depth_def max_safe_integer_def Let_def quote_def escape_def dec_int_def
  have "dec 1 = ''1''" by (simp add: dec.simps)
  then have v: "canonical_json (JObj [(''b'', JInt 1), (''a'', JNull)]) = Inr (dumps (JObj [(''b'', JInt 1), (''a'', JNull)]))"
    and w: "canonical_json (JObj [(''a'', JNull), (''b'', JInt 1)]) = Inr (dumps (JObj [(''a'', JNull), (''b'', JInt 1)]))"
    by (simp_all add: eval)
  show ?thesis
    using canonical_bytes_identify [OF _ _ v w] v w by simp
qed

section \<open>How long the bytes can get\<close>

fun weight :: "jval \<Rightarrow> nat" where
  "weight (JStr s) = 6 * length s + 2"
| "weight (JList vs) = 2 + sum_list (map (\<lambda>v. weight v + 1) vs)"
| "weight (JObj kvs) = 2 + sum_list (map (\<lambda>(k, v). 6 * length k + weight v + 4) kvs)"
| "weight (JInt i) = length (dec_int i)"
| "weight (JOther t) = length t"
| "weight v = 5"

lemma length_join: "length (join xs) \<le> sum_list (map (\<lambda>x. length x + 1) xs)"
  by (induction xs rule: join.induct) auto

lemma length_quote: "length (quote s) \<le> 6 * length s + 2"
proof -
  have "length (escape c) \<le> 6" for c by (simp add: escape_def)
  then have "length (concat (map escape s)) \<le> 6 * length s"
    by (induction s) (auto intro: add_mono [of _ 6, simplified])
  then show ?thesis by (simp add: quote_def)
qed

lemma sum_list_sort_key: "sum_list (map f (sort_key g xs)) = (sum_list (map f xs) :: nat)"
proof (induction xs)
  case (Cons x xs)
  have "sum_list (map f (insort_key g x ys)) = f x + sum_list (map f ys)" for ys
    by (induction ys) auto
  with Cons show ?case by simp
qed simp

lemma length_dumps: "length (dumps v) \<le> weight v"
proof (induction v)
  case (JList vs)
  have "sum_list (map (\<lambda>x. length x + 1) (map dumps vs)) \<le> sum_list (map (\<lambda>v. weight v + 1) vs)"
    using JList by (auto intro: sum_list_mono)
  with length_join [of "map dumps vs"] show ?case by simp
next
  case (JObj kvs)
  let ?ms = "map member (map (\<lambda>(k, v). (k, dumps v)) (sort_key fst kvs))"
  have "length (member (k, dumps v)) + 1 \<le> 6 * length k + weight v + 4" if "(k, v) \<in> set kvs" for k v
    using JObj [of "(k, v)" v] length_quote [of k] that by (simp add: member_def)
  then have "sum_list (map (\<lambda>(k, v). length (member (k, dumps v)) + 1) kvs)
      \<le> sum_list (map (\<lambda>(k, v). 6 * length k + weight v + 4) kvs)"
    by (intro sum_list_mono) auto
  then have "sum_list (map (\<lambda>x. length x + 1) ?ms) \<le> sum_list (map (\<lambda>(k, v). 6 * length k + weight v + 4) kvs)"
    by (simp add: comp_def case_prod_unfold sum_list_sort_key)
  with length_join [of ?ms] show ?case unfolding dumps_obj by simp
qed (use length_quote in \<open>auto simp: numeral_2_eq_2\<close>)

lemma canonical_json_fits:
  assumes "weight v \<le> max_bytes" "\<exists>w st. normalize v 0 (0, 0) = Inr (w, st)"
  shows "canonical_json v = Inr (dumps v)"
  using assms normalize_ok(1) length_dumps [of v]
  by (fastforce simp: canonical_json_def Let_def)

end
