(* ===== verification/Plans.thy ===== *)
theory Plans
  imports CanonicalFacts
begin

text \<open>
  Paid-execution plans (\<open>domain/approvals.py\<close>): the frozen plan, its canonical bytes and fingerprint,
  and the strict reader.  \<open>sha256\<close> (hashlib's \<open>hexdigest\<close>) is an argument of what uses it.
\<close>

record execution_plan =
  pipeline_version :: pystr
  executor_name :: pystr
  model_ids :: "pystr list"
  provider_ids :: "pystr list"
  maximum_retries :: int
  cost_currency :: "pystr option"
  cost_min_decimal :: "pystr option"
  cost_max_decimal :: "pystr option"
  unknown_cost_reasons :: "pystr list"
  result_destination :: pystr

definition plan_fields :: "pystr list" where
  "plan_fields =
     [''pipeline_version'', ''executor_name'', ''model_ids'', ''provider_ids'', ''maximum_retries'',
      ''cost_currency'', ''cost_min_decimal'', ''cost_max_decimal'', ''unknown_cost_reasons'',
      ''result_destination'']"

text \<open>The constructor; field types hold by typing, what remains of \<open>__post_init__\<close> is the bound.\<close>

definition make_plan :: "execution_plan \<Rightarrow> exn + execution_plan" where
  "make_plan p = (if maximum_retries p < 0 then Inl ValueError else Inr p)"

definition jopt :: "pystr option \<Rightarrow> jval" where
  "jopt v = (case v of None \<Rightarrow> JNull | Some s \<Rightarrow> JStr s)"

definition plan_mapping :: "execution_plan \<Rightarrow> (pystr \<times> jval) list" where
  "plan_mapping plan =
     [(''pipeline_version'', JStr (pipeline_version plan)),
      (''executor_name'', JStr (executor_name plan)),
      (''model_ids'', JList (map JStr (model_ids plan))),
      (''provider_ids'', JList (map JStr (provider_ids plan))),
      (''maximum_retries'', JInt (maximum_retries plan)),
      (''cost_currency'', jopt (cost_currency plan)),
      (''cost_min_decimal'', jopt (cost_min_decimal plan)),
      (''cost_max_decimal'', jopt (cost_max_decimal plan)),
      (''unknown_cost_reasons'', JList (map JStr (unknown_cost_reasons plan))),
      (''result_destination'', JStr (result_destination plan))]"

definition canonical_plan_bytes :: "execution_plan \<Rightarrow> exn + bytes" where
  "canonical_plan_bytes plan = canonical_json (JObj (plan_mapping plan))"

definition fingerprint_plan :: "(bytes \<Rightarrow> pystr) \<Rightarrow> execution_plan \<Rightarrow> exn + pystr" where
  "fingerprint_plan sha256 plan = bnd (canonical_plan_bytes plan) (\<lambda>b. Inr (sha256 b))"

definition sha256_fingerprint :: "(bytes \<Rightarrow> pystr) \<Rightarrow> jval \<Rightarrow> exn + pystr" where
  "sha256_fingerprint sha256 value = bnd (canonical_json value) (\<lambda>b. Inr (sha256 b))"

section \<open>Reading a plan\<close>

fun all_strings :: "jval list \<Rightarrow> pystr list option" where
  "all_strings [] = Some []"
| "all_strings (JStr s # vs) = map_option ((#) s) (all_strings vs)"
| "all_strings (_ # vs) = None"

definition string_tuple :: "jval option \<Rightarrow> exn + pystr list" where
  "string_tuple value =
     (case value of Some (JList vs) \<Rightarrow>
        (case all_strings vs of Some ss \<Rightarrow> Inr ss | None \<Rightarrow> Inl ValueError)
      | _ \<Rightarrow> Inl ValueError)"

definition required_string :: "jval option \<Rightarrow> exn + pystr" where
  "required_string value = (case value of Some (JStr s) \<Rightarrow> Inr s | _ \<Rightarrow> Inl ValueError)"

definition optional_string :: "jval option \<Rightarrow> exn + pystr option" where
  "optional_string value =
     (case value of Some (JStr s) \<Rightarrow> Inr (Some s) | Some JNull \<Rightarrow> Inr None | _ \<Rightarrow> Inl ValueError)"

definition required_retries :: "jval option \<Rightarrow> exn + int" where
  "required_retries value =
     (case value of Some (JInt n) \<Rightarrow> if n < 0 then Inl ValueError else Inr n | _ \<Rightarrow> Inl ValueError)"

definition deserialize_plan :: "bytes \<Rightarrow> exn + execution_plan" where
  "deserialize_plan payload =
     (case json_loads payload of
        Some (JObj kvs) \<Rightarrow>
          if set (map fst kvs) \<noteq> set plan_fields then Inl ValueError else
          bnd (required_retries (jget ''maximum_retries'' kvs)) (\<lambda>retries.
          bnd (required_string (jget ''pipeline_version'' kvs)) (\<lambda>pv.
          bnd (required_string (jget ''executor_name'' kvs)) (\<lambda>en.
          bnd (string_tuple (jget ''model_ids'' kvs)) (\<lambda>mi.
          bnd (string_tuple (jget ''provider_ids'' kvs)) (\<lambda>pi.
          bnd (optional_string (jget ''cost_currency'' kvs)) (\<lambda>cc.
          bnd (optional_string (jget ''cost_min_decimal'' kvs)) (\<lambda>cmin.
          bnd (optional_string (jget ''cost_max_decimal'' kvs)) (\<lambda>cmax.
          bnd (string_tuple (jget ''unknown_cost_reasons'' kvs)) (\<lambda>uc.
          bnd (required_string (jget ''result_destination'' kvs)) (\<lambda>rd.
            make_plan \<lparr>pipeline_version = pv, executor_name = en, model_ids = mi, provider_ids = pi,
              maximum_retries = retries, cost_currency = cc, cost_min_decimal = cmin,
              cost_max_decimal = cmax, unknown_cost_reasons = uc, result_destination = rd\<rparr>))))))))))
      | _ \<Rightarrow> Inl ValueError)"

section \<open>A plan is what its canonical bytes say\<close>

lemma plain_jopt [simp]: "plain (jopt v)"
  by (cases v) (simp_all add: jopt_def)

lemma list_all_plain_strings [simp]: "list_all plain (map JStr ss)"
  by (simp add: list_all_iff)

lemma plain_plan: "plain (JObj (plan_mapping p))"
  by (simp add: plan_mapping_def)

lemma jget_sorted:
  assumes "distinct (map fst kvs)"
  shows "jget k (sort_key fst kvs) = jget k kvs"
proof -
  have "map_of (sort_key fst kvs) k = Some v \<longleftrightarrow> map_of kvs k = Some v" for v
    using assms distinct_sort_keys [OF assms] by (simp add: map_of_eq_Some_iff)
  then show ?thesis unfolding jget_def by (metis not_None_eq)
qed

lemma jget_map: "jget k (map (\<lambda>(k, v). (k, f v)) kvs) = map_option f (jget k kvs)"
  by (induction kvs) (auto simp: jget_def)

text \<open>A field of a dict that was written and read back.\<close>

lemma jget_canon: "distinct (map fst kvs) \<Longrightarrow> canon (JObj kvs) = JObj kvs' \<Longrightarrow> jget k kvs' = map_option canon (jget k kvs)"
  by (auto simp: jget_map jget_sorted)

lemma keys_canon: "canon (JObj kvs) = JObj kvs' \<Longrightarrow> set (map fst kvs') = set (map fst kvs)"
  by (force simp: case_prod_unfold)

lemma canon_strings [simp]: "canon (JList (map JStr ss)) = JList (map JStr ss)"
  by (simp add: comp_def)

lemma canon_jopt [simp]: "canon (jopt v) = jopt v"
  by (cases v) (simp_all add: jopt_def)

lemma all_strings_JStr [simp]: "all_strings (map JStr ss) = Some ss"
  by (induction ss) simp_all

lemma optional_jopt [simp]: "optional_string (Some (jopt v)) = Inr v"
  by (cases v) (simp_all add: jopt_def optional_string_def)

lemma plan_mapping_keys: "map fst (plan_mapping p) = plan_fields"
  by (simp add: plan_mapping_def plan_fields_def)

lemma plan_fields_distinct: "distinct plan_fields"
  by (simp add: plan_fields_def)

lemma plan_bytes_read:
  assumes "canonical_plan_bytes p = Inr b" "0 \<le> maximum_retries p"
  shows "deserialize_plan b = Inr p"
proof -
  have loads: "json_loads b = Some (canon (JObj (plan_mapping p)))"
    using json_loads_canonical [OF plain_plan] assms(1) by (simp add: canonical_plan_bytes_def)
  obtain kvs where kvs: "canon (JObj (plan_mapping p)) = JObj kvs" by simp
  have dist: "distinct (map fst (plan_mapping p))"
    using plan_fields_distinct by (simp add: plan_mapping_keys)
  have keys: "set (map fst kvs) = set plan_fields"
    using keys_canon [OF kvs] by (simp add: plan_mapping_keys)
  have get: "jget k kvs = map_option canon (jget k (plan_mapping p))" for k
    by (rule jget_canon [OF dist kvs])
  show ?thesis
    using assms(2) unfolding deserialize_plan_def loads kvs
    by (simp add: keys [simplified] get [unfolded jget_def plan_mapping_def] jget_def required_string_def
        string_tuple_def required_retries_def make_plan_def del: canon.simps(1))
qed

definition demo_plan :: execution_plan where
  "demo_plan = \<lparr>pipeline_version = ''v1'', executor_name = ''n8n'', model_ids = [''m''], provider_ids = [],
     maximum_retries = 2, cost_currency = None, cost_min_decimal = None, cost_max_decimal = None,
     unknown_cost_reasons = [''unpriced''], result_destination = ''sheet''\<rparr>"

lemma dec_two: "dec 2 = ''2''"
  by (simp add: dec.simps)

definition demo_plan_json :: bytes where
  "demo_plan_json = dumps (JObj (plan_mapping demo_plan))"

lemma demo_plan_bytes: "canonical_plan_bytes demo_plan = Inr demo_plan_json"
  unfolding canonical_plan_bytes_def demo_plan_json_def
proof (rule canonical_json_fits)
  show "weight (JObj (plan_mapping demo_plan)) \<le> max_bytes"
    by (simp add: plan_mapping_def demo_plan_def jopt_def max_bytes_def dec_int_def dec_two)
  show "\<exists>w st. normalize (JObj (plan_mapping demo_plan)) 0 (0, 0) = Inr (w, st)"
    by (simp add: plan_mapping_def demo_plan_def jopt_def visit_node_def visit_string_def
        utf8_ascii_Cons max_nodes_def max_bytes_def max_depth_def max_safe_integer_def)
qed

lemma demo_plan_read: "deserialize_plan demo_plan_json = Inr demo_plan"
  by (rule plan_bytes_read [OF demo_plan_bytes]) (simp add: demo_plan_def)

end
