(* ===== verification/Snapshots.thy ===== *)
theory Snapshots
  imports Plans JobRepository
begin

text \<open>
  Execution snapshots (\<open>SnapshotRepository\<close> in \<open>db/repositories.py\<close>, \<open>ExecutionSnapshot\<close> in
  \<open>domain/models.py\<close>): what a stored snapshot must satisfy before any service uses it.
\<close>

section \<open>Code outside the repository\<close>

text \<open>
  \<open>ext_sha256\<close> is \<open>hashlib.sha256(..).hexdigest()\<close>; \<open>ext_identifier\<close> is pydantic's check of an
  \<open>Identifier\<close> field (the stripped text, if it is one); \<open>ext_model_dump\<close> is \<open>model_validate\<close> followed by
  \<open>model_dump(mode="json")\<close> for a domain model, given the payload and its two parsed timestamps.
\<close>

datatype domain_model = CompanyProfile | BusinessDirection | AudienceSegment | SeoBrief

record externals =
  ext_sha256 :: "bytes \<Rightarrow> pystr"
  ext_identifier :: "pystr \<Rightarrow> pystr option"
  ext_model_dump :: "domain_model \<Rightarrow> (pystr \<times> jval) list \<Rightarrow> instant \<Rightarrow> instant \<Rightarrow> jval option"

section \<open>The snapshot model\<close>

record execution_snapshot =
  sn_snapshot_id :: pystr
  sn_brief_id :: pystr
  sn_company_id :: pystr
  sn_company_profile_version :: int
  sn_direction_id :: pystr
  sn_direction_version :: int
  sn_audience_segment_id :: pystr
  sn_audience_version :: int
  sn_prompt_set_version :: int
  sn_compiled_context :: jval
  sn_snapshot_hash :: pystr
  sn_created_at :: instant

definition positive :: "int \<Rightarrow> int option" where
  "positive n = (if 0 < n then Some n else None)"

text \<open>\<open>validate_and_freeze_context\<close>: the context normalized through its canonical bytes.\<close>

definition freeze_context :: "jval \<Rightarrow> jval option" where
  "freeze_context value = (case canonical_json value of Inl _ \<Rightarrow> None | Inr b \<Rightarrow> json_loads b)"

text \<open>The constructor on a stored row, \<open>None\<close> for a \<open>ValidationError\<close> or unreadable timestamp.\<close>

definition construct_snapshot :: "externals \<Rightarrow> snapshot_row \<Rightarrow> jval \<Rightarrow> execution_snapshot option" where
  "construct_snapshot x row context =
     Option.bind (parse_aware (s_created_at row)) (\<lambda>created.
     Option.bind (ext_identifier x (s_snapshot_id row)) (\<lambda>sid.
     Option.bind (ext_identifier x (s_brief_id row)) (\<lambda>bid.
     Option.bind (ext_identifier x (s_company_id row)) (\<lambda>cid.
     Option.bind (positive (s_company_profile_version row)) (\<lambda>cv.
     Option.bind (ext_identifier x (s_direction_id row)) (\<lambda>did.
     Option.bind (positive (s_direction_version row)) (\<lambda>dv.
     Option.bind (ext_identifier x (s_audience_segment_id row)) (\<lambda>aid.
     Option.bind (positive (s_audience_version row)) (\<lambda>av.
     Option.bind (positive (s_prompt_set_version row)) (\<lambda>pv.
     Option.bind (freeze_context context) (\<lambda>frozen.
       if is_sha256_hex (s_snapshot_hash row) then
         Some \<lparr>sn_snapshot_id = sid, sn_brief_id = bid, sn_company_id = cid,
           sn_company_profile_version = cv, sn_direction_id = did, sn_direction_version = dv,
           sn_audience_segment_id = aid, sn_audience_version = av, sn_prompt_set_version = pv,
           sn_compiled_context = frozen, sn_snapshot_hash = s_snapshot_hash row,
           sn_created_at = created\<rparr>
       else None)))))))))))"

section \<open>Hydration\<close>

definition snapshot_context_base_keys :: "pystr list" where
  "snapshot_context_base_keys =
     [''schema_version'', ''company'', ''direction'', ''audience'', ''brief'', ''prompt_set_version'']"

type_synonym jdict = "(pystr \<times> jval) list"

definition expected_values ::
  "execution_snapshot \<Rightarrow> jdict \<Rightarrow> jdict \<Rightarrow> jdict \<Rightarrow> jdict \<Rightarrow> jdict \<Rightarrow> (jval option \<times> jval) list" where
  "expected_values sn context company direction audience brief =
     [(jget ''schema_version'' context, JInt 1),
      (jget ''prompt_set_version'' context, JInt (sn_prompt_set_version sn)),
      (jget ''company_id'' company, JStr (sn_company_id sn)),
      (jget ''company_profile_version'' company, JInt (sn_company_profile_version sn)),
      (jget ''company_id'' direction, JStr (sn_company_id sn)),
      (jget ''company_profile_version'' direction, JInt (sn_company_profile_version sn)),
      (jget ''direction_id'' direction, JStr (sn_direction_id sn)),
      (jget ''direction_version'' direction, JInt (sn_direction_version sn)),
      (jget ''company_id'' audience, JStr (sn_company_id sn)),
      (jget ''direction_id'' audience, JStr (sn_direction_id sn)),
      (jget ''direction_version'' audience, JInt (sn_direction_version sn)),
      (jget ''audience_segment_id'' audience, JStr (sn_audience_segment_id sn)),
      (jget ''audience_version'' audience, JInt (sn_audience_version sn)),
      (jget ''brief_id'' brief, JStr (sn_brief_id sn)),
      (jget ''company_id'' brief, JStr (sn_company_id sn)),
      (jget ''company_profile_version'' brief, JInt (sn_company_profile_version sn)),
      (jget ''direction_id'' brief, JStr (sn_direction_id sn)),
      (jget ''direction_version'' brief, JInt (sn_direction_version sn)),
      (jget ''audience_segment_id'' brief, JStr (sn_audience_segment_id sn)),
      (jget ''audience_version'' brief, JInt (sn_audience_version sn))]"

definition stored_instant :: "jval option \<Rightarrow> instant option" where
  "stored_instant v = (case v of Some (JStr s) \<Rightarrow> parse_aware s | _ \<Rightarrow> None)"

text \<open>One of the four model payloads must be exactly what its validated model dumps.\<close>

definition verify_model :: "externals \<Rightarrow> domain_model \<Rightarrow> jdict \<Rightarrow> exn + unit" where
  "verify_model x m payload =
     (case (stored_instant (jget ''created_at'' payload), stored_instant (jget ''updated_at'' payload)) of
        (Some created, Some updated) \<Rightarrow>
          (case ext_model_dump x m payload created updated of
             None \<Rightarrow> Inl DataIntegrityError
           | Some normalized \<Rightarrow>
               bnd (canonical_json normalized) (\<lambda>a. bnd (canonical_json (JObj payload)) (\<lambda>b.
                 require (a = b) DataIntegrityError)))
      | _ \<Rightarrow> Inl DataIntegrityError)"

definition jdict_of :: "jval option \<Rightarrow> jdict option" where
  "jdict_of v = (case v of Some (JObj kvs) \<Rightarrow> Some kvs | _ \<Rightarrow> None)"

definition verify_context :: "externals \<Rightarrow> execution_snapshot \<Rightarrow> jval \<Rightarrow> exn + unit" where
  "verify_context x sn context =
     (case context of JObj kvs \<Rightarrow>
        if \<not> (set (map fst kvs) = set snapshot_context_base_keys
              \<or> set (map fst kvs) = insert ''evidence'' (set snapshot_context_base_keys))
        then Inl DataIntegrityError
        else (case (jdict_of (jget ''company'' kvs), jdict_of (jget ''direction'' kvs),
                    jdict_of (jget ''audience'' kvs), jdict_of (jget ''brief'' kvs)) of
                (Some company, Some direction, Some audience, Some brief) \<Rightarrow>
                  if \<not> list_all (\<lambda>(actual, expected). actual = Some expected)
                         (expected_values sn kvs company direction audience brief)
                  then Inl DataIntegrityError
                  else bnd (verify_model x CompanyProfile company) (\<lambda>_.
                       bnd (verify_model x BusinessDirection direction) (\<lambda>_.
                       bnd (verify_model x AudienceSegment audience) (\<lambda>_.
                       verify_model x SeoBrief brief)))
              | _ \<Rightarrow> Inl DataIntegrityError)
      | _ \<Rightarrow> Inl DataIntegrityError)"

definition hydrate_verified :: "externals \<Rightarrow> snapshot_row \<Rightarrow> exn + execution_snapshot" where
  "hydrate_verified x row =
     (case json_loads (s_compiled_context row) of
        None \<Rightarrow> Inl DataIntegrityError
      | Some context \<Rightarrow>
          if canonical_json context \<noteq> Inr (s_compiled_context row) then Inl DataIntegrityError
          else if sha256_fingerprint (ext_sha256 x) context \<noteq> Inr (s_snapshot_hash row)
          then Inl DataIntegrityError
          else (case construct_snapshot x row context of
                  None \<Rightarrow> Inl DataIntegrityError
                | Some sn \<Rightarrow> bnd (verify_context x sn context) (\<lambda>_. Inr sn)))"

definition get_snapshot :: "externals \<Rightarrow> db \<Rightarrow> pystr \<Rightarrow> pystr \<Rightarrow> exn + execution_snapshot" where
  "get_snapshot x d company_id snapshot_id =
     (case find (\<lambda>s. s_company_id s = company_id \<and> s_snapshot_id s = snapshot_id) (snapshots d) of
        None \<Rightarrow> Inl NotFound | Some row \<Rightarrow> hydrate_verified x row)"

definition get_snapshot_by_hash :: "externals \<Rightarrow> db \<Rightarrow> pystr \<Rightarrow> pystr \<Rightarrow> exn + execution_snapshot option" where
  "get_snapshot_by_hash x d company_id snapshot_hash =
     (case find (\<lambda>s. s_company_id s = company_id \<and> s_snapshot_hash s = snapshot_hash) (snapshots d) of
        None \<Rightarrow> Inr None | Some row \<Rightarrow> bnd (hydrate_verified x row) (\<lambda>sn. Inr (Some sn)))"

section \<open>Insertion\<close>

definition validated_brief :: "execution_snapshot \<Rightarrow> brief_row \<Rightarrow> bool" where
  "validated_brief sn b =
     (b_company_id b = sn_company_id sn \<and> b_brief_id b = sn_brief_id sn \<and> b_status b = ''validated''
      \<and> b_company_profile_version b = Some (sn_company_profile_version sn)
      \<and> b_direction_id b = Some (sn_direction_id sn)
      \<and> b_direction_version b = Some (sn_direction_version sn)
      \<and> b_audience_segment_id b = Some (sn_audience_segment_id sn)
      \<and> b_audience_version b = Some (sn_audience_version sn))"

definition snapshot_row_of :: "execution_snapshot \<Rightarrow> bytes \<Rightarrow> snapshot_row" where
  "snapshot_row_of sn context =
     \<lparr>s_snapshot_id = sn_snapshot_id sn, s_brief_id = sn_brief_id sn, s_company_id = sn_company_id sn,
      s_company_profile_version = sn_company_profile_version sn,
      s_direction_id = sn_direction_id sn, s_direction_version = sn_direction_version sn,
      s_audience_segment_id = sn_audience_segment_id sn, s_audience_version = sn_audience_version sn,
      s_prompt_set_version = sn_prompt_set_version sn, s_compiled_context = context,
      s_snapshot_hash = sn_snapshot_hash sn, s_created_at = isoformat (sn_created_at sn)\<rparr>"

definition add_snapshot :: "execution_snapshot \<Rightarrow> db \<Rightarrow> exn + (unit \<times> db)" where
  "add_snapshot sn d =
     bnd (canonical_json (sn_compiled_context sn)) (\<lambda>context.
       if \<not> list_ex (validated_brief sn) (briefs d) then Inl NotFound
       else if list_ex (\<lambda>s. s_snapshot_id s = sn_snapshot_id sn \<or> s_snapshot_hash s = sn_snapshot_hash sn)
                 (snapshots d)
            \<or> sn_prompt_set_version sn \<le> 0
       then Inl SqliteIntegrityError
       else Inr ((), d\<lparr>snapshots := snapshots d @ [snapshot_row_of sn context]\<rparr>))"

lemma add_snapshot_safe: "add_snapshot sn d = Inr (u, d') \<Longrightarrow> safe_step d d'"
  by (auto simp: add_snapshot_def bnd_eq_Inr split: if_splits intro: append_snapshot_safe)

end
