(* ===== verification/JobService.thy ===== *)
theory JobService
  imports Snapshots
begin

text \<open>
  \<open>JobService\<close> (\<open>services/jobs.py\<close>) and \<open>ApprovalService\<close> (\<open>services/approvals.py\<close>): planning, state
  changes and the checks every execution passes.  The service's \<open>company_id\<close>, its clock reading and
  the id its factory returns are arguments; a routine that only reads returns \<open>exn + 'a\<close>, one that
  writes is a transaction body \<open>db \<Rightarrow> exn + ('a \<times> db)\<close>.
\<close>

section \<open>Hydrating a stored job\<close>

record seo_job =
  sj_job_id :: pystr
  sj_brief_id :: pystr
  sj_brief_fingerprint :: pystr
  sj_snapshot_id :: pystr
  sj_snapshot_hash :: pystr
  sj_company_id :: pystr
  sj_direction_id :: pystr
  sj_audience_segment_id :: pystr
  sj_state :: job_state
  sj_current_stage :: "pystr option"
  sj_approved_plan_fingerprint :: "pystr option"
  sj_approval_record_id :: "pystr option"
  sj_attempt :: int
  sj_created_at :: instant
  sj_started_at :: "instant option"
  sj_finished_at :: "instant option"
  sj_error_code :: "pystr option"
  sj_error_summary :: "pystr option"
  sj_artifact_manifest_path :: "pystr option"
  sj_company_profile_version :: "int option"
  sj_direction_version :: "int option"
  sj_audience_version :: "int option"
  sj_prompt_set_version :: "int option"

definition stored_datetime :: "pystr option \<Rightarrow> exn + instant option" where
  "stored_datetime value =
     (case value of None \<Rightarrow> Inr None
      | Some s \<Rightarrow> (case parse_aware s of None \<Rightarrow> Inl DataIntegrityError | Some t \<Rightarrow> Inr (Some t)))"

definition domain_job :: "job \<Rightarrow> exn + seo_job" where
  "domain_job r =
     (if list_ex blank [j_job_id r, j_brief_id r, j_snapshot_id r, j_company_id r, j_direction_id r,
           j_audience_segment_id r, j_created_by r]
         \<or> \<not> is_sha256_hex (j_brief_fingerprint r) \<or> \<not> is_sha256_hex (j_snapshot_hash r)
         \<or> (case j_approved_plan_fingerprint r of None \<Rightarrow> False | Some f \<Rightarrow> \<not> is_sha256_hex f)
         \<or> (case j_approval_record_id r of None \<Rightarrow> False | Some i \<Rightarrow> blank i)
         \<or> (case j_superseded_by_job_id r of None \<Rightarrow> False | Some i \<Rightarrow> blank i)
         \<or> j_attempt r < 1
      then Inl DataIntegrityError else
      bnd (stored_datetime (Some (j_created_at r))) (\<lambda>created.
      (case (created, job_state_of (j_state r)) of
         (Some created_at, Some state) \<Rightarrow>
           bnd (stored_datetime (j_started_at r)) (\<lambda>started.
           bnd (stored_datetime (j_finished_at r)) (\<lambda>finished.
             Inr \<lparr>sj_job_id = j_job_id r, sj_brief_id = j_brief_id r,
               sj_brief_fingerprint = j_brief_fingerprint r, sj_snapshot_id = j_snapshot_id r,
               sj_snapshot_hash = j_snapshot_hash r, sj_company_id = j_company_id r,
               sj_direction_id = j_direction_id r, sj_audience_segment_id = j_audience_segment_id r,
               sj_state = state, sj_current_stage = j_current_stage r,
               sj_approved_plan_fingerprint = j_approved_plan_fingerprint r,
               sj_approval_record_id = j_approval_record_id r, sj_attempt = j_attempt r,
               sj_created_at = created_at, sj_started_at = started, sj_finished_at = finished,
               sj_error_code = j_error_code r, sj_error_summary = j_error_summary r,
               sj_artifact_manifest_path = j_artifact_manifest_path r,
               sj_company_profile_version = None, sj_direction_version = None,
               sj_audience_version = None, sj_prompt_set_version = None\<rparr>))
       | _ \<Rightarrow> Inl DataIntegrityError)))"

section \<open>Integrity checks\<close>

definition require_plan_integrity :: "externals \<Rightarrow> job \<Rightarrow> exn + execution_plan" where
  "require_plan_integrity x r =
     (case (j_plan_json r, j_plan_fingerprint r) of
        (Some payload, Some fingerprint) \<Rightarrow>
          if ext_sha256 x payload \<noteq> fingerprint then Inl DataIntegrityError else
          (case deserialize_plan payload of
             Inl e \<Rightarrow> Inl (if type_or_value_error e then DataIntegrityError else e)
           | Inr plan \<Rightarrow>
               bnd (canonical_plan_bytes plan) (\<lambda>b.
                 if b \<noteq> payload then Inl DataIntegrityError else Inr plan))
      | _ \<Rightarrow> Inl DataIntegrityError)"

definition context_brief :: "execution_snapshot \<Rightarrow> jdict option" where
  "context_brief sn =
     (case sn_compiled_context sn of JObj kvs \<Rightarrow> jdict_of (jget ''brief'' kvs) | _ \<Rightarrow> None)"

definition require_job_snapshot_integrity :: "externals \<Rightarrow> job \<Rightarrow> execution_snapshot \<Rightarrow> exn + unit" where
  "require_job_snapshot_integrity x r sn =
     (case context_brief sn of
        None \<Rightarrow> Inl DataIntegrityError
      | Some brief \<Rightarrow>
          if j_snapshot_id r \<noteq> sn_snapshot_id sn \<or> j_snapshot_hash r \<noteq> sn_snapshot_hash sn
             \<or> j_brief_id r \<noteq> sn_brief_id sn \<or> j_company_id r \<noteq> sn_company_id sn
             \<or> j_direction_id r \<noteq> sn_direction_id sn
             \<or> j_audience_segment_id r \<noteq> sn_audience_segment_id sn
             \<or> jget ''created_by'' brief \<noteq> Some (JStr (j_created_by r))
          then Inl DataIntegrityError
          else bnd (sha256_fingerprint (ext_sha256 x) (JObj brief)) (\<lambda>f.
            require (j_brief_fingerprint r = f) DataIntegrityError))"

definition domain_job_with_snapshot ::
  "externals \<Rightarrow> job \<Rightarrow> execution_snapshot \<Rightarrow> exn + seo_job" where
  "domain_job_with_snapshot x r sn =
     bnd (require_job_snapshot_integrity x r sn) (\<lambda>_.
     bnd (domain_job r) (\<lambda>sj.
       Inr (sj\<lparr>sj_company_profile_version := Some (sn_company_profile_version sn),
               sj_direction_version := Some (sn_direction_version sn),
               sj_audience_version := Some (sn_audience_version sn),
               sj_prompt_set_version := Some (sn_prompt_set_version sn)\<rparr>)))"

definition paid_approval :: "db \<Rightarrow> pystr \<Rightarrow> job \<Rightarrow> exn + approval_record" where
  "paid_approval d company_id r =
     (case j_approval_record_id r of
        None \<Rightarrow> Inl DataIntegrityError
      | Some approval_id \<Rightarrow>
          if j_approved_plan_fingerprint r \<noteq> j_plan_fingerprint r then Inl DataIntegrityError else
          (case get_approval d company_id (j_job_id r) approval_id of
             Inl e \<Rightarrow> Inl (if e = NotFound then DataIntegrityError else e)
           | Inr a \<Rightarrow>
               if approval_record_id a \<noteq> approval_id \<or> approval_job_id a \<noteq> j_job_id r
                  \<or> approval_type a \<noteq> ''paid_execution''
                  \<or> approval_snapshot_hash a \<noteq> j_snapshot_hash r
                  \<or> Some (approval_plan_fingerprint a) \<noteq> j_plan_fingerprint r
               then Inl DataIntegrityError else Inr a))"

definition require_approval_window :: "approval_record \<Rightarrow> instant \<Rightarrow> exn + unit" where
  "require_approval_window a now =
     (if now < approved_at a
         \<or> (case expires_at a of None \<Rightarrow> False | Some e \<Rightarrow> e \<le> approved_at a \<or> e \<le> now)
      then Inl ApprovalInvalid else Inr ())"

section \<open>Reading services\<close>

definition job_of :: "externals \<Rightarrow> db \<Rightarrow> pystr \<Rightarrow> pystr \<Rightarrow> exn + seo_job" where
  "job_of x d company_id job_id =
     bnd (get_job d company_id job_id) (\<lambda>r.
     bnd (get_snapshot x d company_id (j_snapshot_id r)) (\<lambda>sn. domain_job_with_snapshot x r sn))"

text \<open>The body shared by the execution checks, from plan integrity on.\<close>

definition execution_identity ::
  "externals \<Rightarrow> db \<Rightarrow> pystr \<Rightarrow> job \<Rightarrow> instant option \<Rightarrow> exn + (seo_job \<times> execution_snapshot)" where
  "execution_identity x d company_id r now =
     bnd (require_plan_integrity x r) (\<lambda>_.
     bnd (get_snapshot x d company_id (j_snapshot_id r)) (\<lambda>sn.
     bnd (require_job_snapshot_integrity x r sn) (\<lambda>_.
     bnd (paid_approval d company_id r) (\<lambda>a.
     bnd (case now of None \<Rightarrow> Inr () | Some t \<Rightarrow> require_approval_window a t) (\<lambda>_.
     bnd (domain_job_with_snapshot x r sn) (\<lambda>sj. Inr (sj, sn)))))))"

definition running_execution_identity ::
  "externals \<Rightarrow> db \<Rightarrow> pystr \<Rightarrow> pystr \<Rightarrow> exn + (seo_job \<times> execution_snapshot)" where
  "running_execution_identity x d company_id job_id =
     bnd (get_job d company_id job_id) (\<lambda>r. bnd (domain_job r) (\<lambda>sj.
     bnd (require (sj_state sj = RUNNING \<and> j_superseded_by_job_id r = None) StateConflict) (\<lambda>_.
       execution_identity x d company_id r None)))"

definition prepare_execution ::
  "externals \<Rightarrow> db \<Rightarrow> pystr \<Rightarrow> instant \<Rightarrow> pystr \<Rightarrow> exn + (seo_job \<times> execution_snapshot)" where
  "prepare_execution x d company_id now job_id =
     bnd (get_job d company_id job_id) (\<lambda>r. bnd (domain_job r) (\<lambda>sj.
     bnd (require (sj_state sj = QUEUED \<and> j_superseded_by_job_id r = None) StateConflict) (\<lambda>_.
       execution_identity x d company_id r (Some now))))"

definition dispatching :: "job_state \<Rightarrow> job \<Rightarrow> seo_job \<Rightarrow> bool" where
  "dispatching state r sj =
     (sj_state sj = state \<and> j_current_stage r = Some ''dispatching'' \<and> j_superseded_by_job_id r = None)"

definition resume_dispatch ::
  "externals \<Rightarrow> db \<Rightarrow> pystr \<Rightarrow> instant \<Rightarrow> pystr \<Rightarrow> exn + (seo_job \<times> execution_snapshot)" where
  "resume_dispatch x d company_id now job_id =
     bnd (get_job d company_id job_id) (\<lambda>r. bnd (domain_job r) (\<lambda>sj.
     bnd (require (dispatching RUNNING r sj) StateConflict) (\<lambda>_.
       execution_identity x d company_id r (Some now))))"

definition recover_dispatch_identity ::
  "externals \<Rightarrow> db \<Rightarrow> pystr \<Rightarrow> pystr \<Rightarrow> exn + (seo_job \<times> execution_snapshot)" where
  "recover_dispatch_identity x d company_id job_id =
     bnd (get_job d company_id job_id) (\<lambda>r. bnd (domain_job r) (\<lambda>sj.
     bnd (require (dispatching RUNNING r sj) StateConflict) (\<lambda>_.
       execution_identity x d company_id r None)))"

definition recover_canceled_dispatch ::
  "externals \<Rightarrow> db \<Rightarrow> pystr \<Rightarrow> pystr \<Rightarrow> exn + (seo_job \<times> execution_snapshot)" where
  "recover_canceled_dispatch x d company_id job_id =
     bnd (get_job d company_id job_id) (\<lambda>r. bnd (domain_job r) (\<lambda>sj.
     bnd (require (dispatching CANCELED r sj) StateConflict) (\<lambda>_.
       execution_identity x d company_id r None)))"

definition validate_external_cancellation :: "externals \<Rightarrow> db \<Rightarrow> pystr \<Rightarrow> pystr \<Rightarrow> exn + execution_plan" where
  "validate_external_cancellation x d company_id job_id =
     bnd (get_job d company_id job_id) (\<lambda>r. bnd (domain_job r) (\<lambda>sj.
     bnd (require (sj_state sj \<in> {RUNNING, CANCELED} \<and> j_superseded_by_job_id r = None) StateConflict) (\<lambda>_.
     bnd (require_plan_integrity x r) (\<lambda>plan.
     bnd (get_snapshot x d company_id (j_snapshot_id r)) (\<lambda>sn.
     bnd (require_job_snapshot_integrity x r sn) (\<lambda>_.
     bnd (paid_approval d company_id r) (\<lambda>_. Inr plan)))))))"

definition launch_approval_window ::
  "externals \<Rightarrow> db \<Rightarrow> pystr \<Rightarrow> pystr \<Rightarrow> exn + (instant \<times> instant option)" where
  "launch_approval_window x d company_id job_id =
     bnd (get_job d company_id job_id) (\<lambda>r.
     bnd (require_plan_integrity x r) (\<lambda>_.
     bnd (get_snapshot x d company_id (j_snapshot_id r)) (\<lambda>sn.
     bnd (require_job_snapshot_integrity x r sn) (\<lambda>_.
     bnd (paid_approval d company_id r) (\<lambda>a. Inr (approved_at a, expires_at a))))))"

definition execution_plan_of :: "externals \<Rightarrow> db \<Rightarrow> pystr \<Rightarrow> pystr \<Rightarrow> exn + execution_plan" where
  "execution_plan_of x d company_id job_id =
     bnd (get_job d company_id job_id) (\<lambda>r.
     bnd (get_snapshot x d company_id (j_snapshot_id r)) (\<lambda>sn.
     bnd (require_job_snapshot_integrity x r sn) (\<lambda>_. require_plan_integrity x r)))"

section \<open>What a complete execution check has found\<close>

lemma execution_identity_Inr:
  assumes "execution_identity x d c r t = Inr (sj, sn)"
  obtains plan a u sj0 where "require_plan_integrity x r = Inr plan" "get_snapshot x d c (j_snapshot_id r) = Inr sn"
    "require_job_snapshot_integrity x r sn = Inr u" "paid_approval d c r = Inr a"
    "\<And>now. t = Some now \<Longrightarrow> require_approval_window a now = Inr ()"
    "domain_job r = Inr sj0" "sj_state sj = sj_state sj0" "sj_attempt sj = j_attempt r"
    "sj_company_id sj = j_company_id r" "sj_job_id sj = j_job_id r"
proof -
  from assms obtain plan u a where 1: "require_plan_integrity x r = Inr plan"
    "get_snapshot x d c (j_snapshot_id r) = Inr sn" "require_job_snapshot_integrity x r sn = Inr u"
    "paid_approval d c r = Inr a" "(case t of None \<Rightarrow> Inr () | Some now \<Rightarrow> require_approval_window a now) = Inr ()"
    "domain_job_with_snapshot x r sn = Inr sj"
    by (auto simp: execution_identity_def bnd_eq_Inr)
  from 1(6) obtain sj0 where "domain_job r = Inr sj0" "sj = sj0\<lparr>sj_company_profile_version := Some (sn_company_profile_version sn),
      sj_direction_version := Some (sn_direction_version sn), sj_audience_version := Some (sn_audience_version sn),
      sj_prompt_set_version := Some (sn_prompt_set_version sn)\<rparr>"
    by (auto simp: domain_job_with_snapshot_def bnd_eq_Inr)
  moreover from this(1) have "sj_attempt sj0 = j_attempt r" "sj_company_id sj0 = j_company_id r" "sj_job_id sj0 = j_job_id r"
    by (auto simp: domain_job_def bnd_eq_Inr split: if_splits option.splits)
  ultimately show ?thesis using 1(1-5) by (intro that) auto
qed

end
