(* ===== verification/JobTransitions.thy ===== *)
theory JobTransitions
  imports JobService
begin

text \<open>
  The writing half of \<open>JobService\<close> and \<open>ApprovalService\<close>: planning a job, approving it, moving it
  through the state graph and binding its artifact manifest.
\<close>

section \<open>State changes\<close>

definition finished_states :: "job_state list" where
  "finished_states = [SUCCEEDED, FAILED_FINAL, CANCELED, EXPORTED]"

definition reserved_approval_edges :: "(job_state \<times> job_state) list" where
  "reserved_approval_edges =
     [(AWAITING_PAID_APPROVAL, QUEUED), (AWAITING_EXPORT_APPROVAL, EXPORTED)]"

text \<open>
  The checks before the compare-and-swap: the edge, the immutable inputs, the approval and, for
  RUNNING, its window at the transition time.
\<close>

definition transition_guard ::
  "externals \<Rightarrow> db \<Rightarrow> pystr \<Rightarrow> job \<Rightarrow> job_state \<Rightarrow> job_state \<Rightarrow> job_state \<Rightarrow> instant \<Rightarrow> exn + unit" where
  "transition_guard x d company_id r actual expected target now =
     bnd (require (j_superseded_by_job_id r = None) StateConflict) (\<lambda>_.
     bnd (require (actual = expected) StateConflict) (\<lambda>_.
     bnd (require ((actual, target) \<notin> set reserved_approval_edges) InvalidTransition) (\<lambda>_.
     bnd (require (is_transition_allowed actual target) InvalidTransition) (\<lambda>_.
     bnd (if actual = DRAFT \<and> target = VALIDATED then Inr () else
          bnd (require_plan_integrity x r) (\<lambda>_.
          bnd (get_snapshot x d company_id (j_snapshot_id r)) (\<lambda>sn.
            require_job_snapshot_integrity x r sn))) (\<lambda>_.
     if target \<in> {RUNNING, SUCCEEDED, AWAITING_EXPORT_APPROVAL, EXPORTED} then
       bnd (paid_approval d company_id r) (\<lambda>a.
         if target = RUNNING then require_approval_window a now else Inr ())
     else Inr ())))))"

text \<open>The error columns the transition stores.\<close>

definition transition_errors ::
  "job \<Rightarrow> job_state \<Rightarrow> job_state \<Rightarrow> pystr \<Rightarrow> pystr option \<Rightarrow> exn + (pystr option \<times> pystr option)" where
  "transition_errors r actual target reason error_code =
     (if target \<in> {FAILED_RETRYABLE, FAILED_FINAL} then
        (case error_code of
           None \<Rightarrow> Inr (j_error_code r, Some reason)
         | Some c \<Rightarrow> if blank c then Inl ValueError else Inr (Some c, Some reason))
      else if actual = FAILED_RETRYABLE \<and> target = QUEUED then Inr (None, None)
      else if error_code \<noteq> None then Inl ValueError
      else Inr (j_error_code r, j_error_summary r))"

definition transition_attempt :: "job \<Rightarrow> job_state \<Rightarrow> job_state \<Rightarrow> int" where
  "transition_attempt r actual target =
     j_attempt r + (if actual = FAILED_RETRYABLE \<and> target = QUEUED then 1 else 0)"

definition transition_started :: "job \<Rightarrow> job_state \<Rightarrow> pystr \<Rightarrow> pystr option" where
  "transition_started r target now =
     (if target = RUNNING then coalesce (j_started_at r) (Some now) else j_started_at r)"

definition transition_finished :: "job \<Rightarrow> job_state \<Rightarrow> pystr \<Rightarrow> pystr option" where
  "transition_finished r target now =
     (if target \<in> set finished_states then coalesce (j_finished_at r) (Some now) else j_finished_at r)"

definition apply_transition ::
  "externals \<Rightarrow> pystr \<Rightarrow> job \<Rightarrow> job_state \<Rightarrow> job_state \<Rightarrow> pystr \<Rightarrow> pystr option \<Rightarrow> pystr option \<Rightarrow> instant \<Rightarrow> db
   \<Rightarrow> exn + (seo_job \<times> db)" where
  "apply_transition x company_id r actual target reason error_code current_stage clock d =
     (let now = isoformat clock; job_id = j_job_id r in
      bnd (transition_errors r actual target reason error_code) (\<lambda>(code, summary).
      bnd (require (case current_stage of None \<Rightarrow> True | Some s \<Rightarrow> \<not> blank s) ValueError) (\<lambda>_.
      bnd (compare_and_swap_state company_id job_id (state_value actual) (state_value target)
            (transition_attempt r actual target) (transition_started r target now)
            (transition_finished r target now) (coalesce current_stage (j_current_stage r))
            code summary d) (\<lambda>(changed, d1).
      bnd (require changed StateConflict) (\<lambda>_.
      bnd (append_transition company_id job_id (Some (state_value actual)) (state_value target) now
            (Some reason) d1) (\<lambda>(u, d2).
      bnd (get_job d2 company_id job_id) (\<lambda>r2.
      bnd (get_snapshot x d2 company_id (j_snapshot_id r2)) (\<lambda>sn2.
      bnd (domain_job_with_snapshot x r2 sn2) (\<lambda>sj. Inr (sj, d2))))))))))"

definition transition_body ::
  "externals \<Rightarrow> pystr \<Rightarrow> pystr \<Rightarrow> job_state \<Rightarrow> job_state \<Rightarrow> pystr \<Rightarrow> pystr option \<Rightarrow> pystr option \<Rightarrow> instant \<Rightarrow> db
   \<Rightarrow> exn + (seo_job \<times> db)" where
  "transition_body x company_id job_id expected target reason error_code current_stage clock d =
     bnd (get_job d company_id job_id) (\<lambda>r. bnd (domain_job r) (\<lambda>sj.
       if sj_state sj = CANCELED \<and> target = CANCELED then Inr (sj, d)
       else bnd (transition_guard x d company_id r (sj_state sj) expected target clock) (\<lambda>_.
         apply_transition x company_id r (sj_state sj) target reason error_code current_stage clock d)))"

text \<open>A service method is its body run in one transaction.\<close>

definition transition_job ::
  "externals \<Rightarrow> pystr \<Rightarrow> pystr \<Rightarrow> job_state \<Rightarrow> job_state \<Rightarrow> pystr \<Rightarrow> pystr option \<Rightarrow> pystr option \<Rightarrow> instant \<Rightarrow> db
   \<Rightarrow> (exn + seo_job) \<times> db" where
  "transition_job x company_id job_id expected target reason error_code current_stage clock d =
     transaction (transition_body x company_id job_id expected target reason error_code current_stage clock) d"

definition request_paid_approval :: "externals \<Rightarrow> pystr \<Rightarrow> pystr \<Rightarrow> instant \<Rightarrow> db \<Rightarrow> (exn + seo_job) \<times> db" where
  "request_paid_approval x company_id job_id clock d =
     transition_job x company_id job_id PLANNED AWAITING_PAID_APPROVAL
       ''paid execution approval requested'' None None clock d"

definition cancel_job :: "externals \<Rightarrow> pystr \<Rightarrow> pystr \<Rightarrow> job_state \<Rightarrow> instant \<Rightarrow> db \<Rightarrow> (exn + seo_job) \<times> db" where
  "cancel_job x company_id job_id expected clock d =
     (if expected \<notin> {QUEUED, RUNNING} then (Inl InvalidTransition, d)
      else transition_job x company_id job_id expected CANCELED ''job canceled through Worker API''
             None None clock d)"

definition retry_job :: "externals \<Rightarrow> pystr \<Rightarrow> pystr \<Rightarrow> instant \<Rightarrow> db \<Rightarrow> (exn + seo_job) \<times> db" where
  "retry_job x company_id job_id clock d =
     transition_job x company_id job_id FAILED_RETRYABLE QUEUED ''job retry requested through Worker API''
       None None clock d"

section \<open>Planning\<close>

record planned_job =
  pj_job_id :: pystr
  pj_snapshot_id :: pystr
  pj_snapshot_hash :: pystr
  pj_plan :: execution_plan
  pj_plan_fingerprint :: pystr
  pj_state :: job_state

definition planned_row ::
  "execution_snapshot \<Rightarrow> pystr \<Rightarrow> pystr \<Rightarrow> pystr \<Rightarrow> pystr \<Rightarrow> bytes \<Rightarrow> pystr \<Rightarrow> job" where
  "planned_row sn job_id brief_fingerprint created_by now plan_json plan_fingerprint =
     \<lparr>j_job_id = job_id, j_brief_id = sn_brief_id sn, j_brief_fingerprint = brief_fingerprint,
      j_snapshot_id = sn_snapshot_id sn, j_snapshot_hash = sn_snapshot_hash sn,
      j_company_id = sn_company_id sn, j_direction_id = sn_direction_id sn,
      j_audience_segment_id = sn_audience_segment_id sn, j_state = state_value PLANNED,
      j_current_stage = None, j_approved_plan_fingerprint = None, j_approval_record_id = None,
      j_attempt = 1, j_created_by = created_by, j_created_at = now, j_started_at = None,
      j_finished_at = None, j_error_code = None, j_error_summary = None,
      j_artifact_manifest_path = None, j_plan_json = Some plan_json,
      j_plan_fingerprint = Some plan_fingerprint, j_superseded_by_job_id = None\<rparr>"

definition brief_matches :: "execution_snapshot \<Rightarrow> jdict \<Rightarrow> bool" where
  "brief_matches sn brief =
     (jget ''brief_id'' brief = Some (JStr (sn_brief_id sn))
      \<and> jget ''company_id'' brief = Some (JStr (sn_company_id sn))
      \<and> jget ''direction_id'' brief = Some (JStr (sn_direction_id sn))
      \<and> jget ''audience_segment_id'' brief = Some (JStr (sn_audience_segment_id sn)))"

definition plan_body ::
  "externals \<Rightarrow> pystr \<Rightarrow> pystr \<Rightarrow> execution_plan \<Rightarrow> bytes \<Rightarrow> pystr \<Rightarrow> pystr \<Rightarrow> pystr \<Rightarrow> db
   \<Rightarrow> exn + (planned_job \<times> db)" where
  "plan_body x company_id snapshot_id plan plan_json plan_fingerprint now job_id d =
     bnd (get_snapshot x d company_id snapshot_id) (\<lambda>sn.
     (case context_brief sn of
        None \<Rightarrow> Inl DataIntegrityError
      | Some brief \<Rightarrow>
          (case jget ''created_by'' brief of
             Some (JStr created_by) \<Rightarrow>
               if \<not> brief_matches sn brief then Inl DataIntegrityError else
               bnd (sha256_fingerprint (ext_sha256 x) (JObj brief)) (\<lambda>brief_fingerprint.
               bnd (add_job (planned_row sn job_id brief_fingerprint created_by now plan_json
                      plan_fingerprint) d) (\<lambda>(_, d1).
               bnd (supersede_pending_jobs company_id created_by job_id d1) (\<lambda>(_, d2).
               bnd (append_transition company_id job_id None (state_value PLANNED) now None d2) (\<lambda>(_, d3).
                 Inr (\<lparr>pj_job_id = job_id, pj_snapshot_id = snapshot_id,
                       pj_snapshot_hash = sn_snapshot_hash sn, pj_plan = plan,
                       pj_plan_fingerprint = plan_fingerprint, pj_state = PLANNED\<rparr>, d3)))))
           | _ \<Rightarrow> Inl DataIntegrityError)))"

definition plan_job ::
  "externals \<Rightarrow> pystr \<Rightarrow> pystr \<Rightarrow> execution_plan \<Rightarrow> instant \<Rightarrow> pystr \<Rightarrow> db \<Rightarrow> (exn + planned_job) \<times> db" where
  "plan_job x company_id snapshot_id plan clock job_id d =
     (case canonical_plan_bytes plan of
        Inl e \<Rightarrow> (Inl e, d)
      | Inr plan_json \<Rightarrow>
          transaction (plan_body x company_id snapshot_id plan plan_json (ext_sha256 x plan_json)
            (isoformat clock) job_id) d)"

section \<open>Artifact manifests\<close>

text \<open>
  The artifact store reads the file system; what the service uses of it is the path it expects for a
  job's manifest and the path it has verified.
\<close>

record artifact_store =
  manifest_path_for_job :: "pystr \<Rightarrow> pystr \<Rightarrow> exn + pystr"
  verify_manifest_for_job :: "seo_job \<Rightarrow> exn + pystr"

definition bind_manifest_body ::
  "externals \<Rightarrow> artifact_store \<Rightarrow> pystr \<Rightarrow> pystr \<Rightarrow> db \<Rightarrow> exn + (seo_job \<times> db)" where
  "bind_manifest_body x store company_id job_id d =
     bnd (get_job d company_id job_id) (\<lambda>r.
     bnd (get_snapshot x d company_id (j_snapshot_id r)) (\<lambda>sn.
     bnd (domain_job_with_snapshot x r sn) (\<lambda>sj.
     bnd (require (sj_state sj = SUCCEEDED) StateConflict) (\<lambda>_.
     bnd (manifest_path_for_job store company_id job_id) (\<lambda>path.
     bnd (case j_artifact_manifest_path r of
            None \<Rightarrow>
              bnd (verify_manifest_for_job store sj) (\<lambda>verified.
              bnd (require (verified = path) DataIntegrityError) (\<lambda>_.
              bnd (bind_artifact_manifest company_id job_id verified d) (\<lambda>(bound, d1).
              bnd (require bound StateConflict) (\<lambda>_.
              bnd (get_job d1 company_id job_id) (\<lambda>r1. Inr (r1, d1))))))
          | Some stored \<Rightarrow>
              bnd (require (stored = path) DataIntegrityError) (\<lambda>_. Inr (r, d))) (\<lambda>(r1, d1).
     bnd (domain_job_with_snapshot x r1 sn) (\<lambda>sj1. Inr (sj1, d1))))))))"

definition bind_artifact_manifest_service ::
  "externals \<Rightarrow> artifact_store option \<Rightarrow> pystr \<Rightarrow> pystr \<Rightarrow> db \<Rightarrow> (exn + seo_job) \<times> db" where
  "bind_artifact_manifest_service x store company_id job_id d =
     (case store of None \<Rightarrow> (Inl ValueError, d)
      | Some s \<Rightarrow> transaction (bind_manifest_body x s company_id job_id) d)"

section \<open>Approval\<close>

definition approve_body ::
  "externals \<Rightarrow> pystr \<Rightarrow> pystr \<Rightarrow> pystr \<Rightarrow> pystr \<Rightarrow> pystr \<Rightarrow> instant \<Rightarrow> pystr \<Rightarrow> db
   \<Rightarrow> exn + (approval_record \<times> db)" where
  "approve_body x company_id job_id actor_id snapshot_hash plan_fingerprint clock approval_id d =
     bnd (get_job d company_id job_id) (\<lambda>r.
     bnd (domain_job r) (\<lambda>_.
     bnd (require (j_state r = state_value AWAITING_PAID_APPROVAL \<and> j_superseded_by_job_id r = None)
           StateConflict) (\<lambda>_.
     bnd (require (\<not> blank actor_id) ApprovalInvalid) (\<lambda>_.
     bnd (case require_plan_integrity x r of
            Inl e \<Rightarrow> Inl (if e = DataIntegrityError then ApprovalInvalid else e)
          | Inr _ \<Rightarrow> Inr ()) (\<lambda>_.
     (case j_plan_fingerprint r of
        None \<Rightarrow> Inl ApprovalInvalid
      | Some stored \<Rightarrow>
          bnd (get_snapshot x d company_id (j_snapshot_id r)) (\<lambda>sn.
          bnd (require_job_snapshot_integrity x r sn) (\<lambda>_.
          bnd (require (snapshot_hash = j_snapshot_hash r) ApprovalInvalid) (\<lambda>_.
          bnd (require (plan_fingerprint = stored) ApprovalInvalid) (\<lambda>_.
          bnd (make_approval_record
                \<lparr>approval_record_id = approval_id, approval_job_id = j_job_id r,
                 approval_type = ''paid_execution'', approval_snapshot_hash = j_snapshot_hash r,
                 approval_plan_fingerprint = stored, approved_by = actor_id, approved_at = clock,
                 expires_at = None\<rparr>) (\<lambda>ap.
          bnd (add_approval company_id ap d) (\<lambda>(_, d1).
          bnd (bind_paid_approval company_id (j_job_id r) (state_value AWAITING_PAID_APPROVAL) stored
                (approval_record_id ap) d1) (\<lambda>(bound, d2).
          bnd (require bound StateConflict) (\<lambda>_.
          bnd (append_transition company_id (j_job_id r) (Some (state_value AWAITING_PAID_APPROVAL))
                (state_value QUEUED) (isoformat clock) None d2) (\<lambda>(_, d3).
            Inr (ap, d3))))))))))))))))"

definition approve_job ::
  "externals \<Rightarrow> pystr \<Rightarrow> pystr \<Rightarrow> pystr \<Rightarrow> pystr \<Rightarrow> pystr \<Rightarrow> instant \<Rightarrow> pystr \<Rightarrow> db
   \<Rightarrow> (exn + approval_record) \<times> db" where
  "approve_job x company_id job_id actor_id snapshot_hash plan_fingerprint clock approval_id d =
     transaction (approve_body x company_id job_id actor_id snapshot_hash plan_fingerprint clock approval_id) d"

end
