(* ===== verification/Signatures.thy ===== *)
theory Signatures
  imports JobStates
begin

text \<open>
  HMAC request signing (\<open>security/signatures.py\<close>).  \<open>sha256\<close> (a hexdigest) and \<open>hmac\<close> (key, message,
  hexdigest) are arguments; the nonce consumer is a state-passing function.
\<close>

definition max_timestamp_skew_seconds :: int where "max_timestamp_skew_seconds = 300"

definition newline :: char where "newline = CHR 0x0A"

definition no_line_break :: "pystr \<Rightarrow> bool" where
  "no_line_break s = list_all (\<lambda>c. c \<noteq> newline \<and> c \<noteq> CHR 0x0D) s"

definition is_ascii :: "pystr \<Rightarrow> bool" where
  "is_ascii s = list_all (\<lambda>c. (of_char c :: nat) < 128) s"

definition lowercase :: "char \<Rightarrow> bool" where
  "lowercase c = (97 \<le> (of_char c :: nat) \<and> (of_char c :: nat) \<le> 122)"

definition validated_method :: "pystr \<Rightarrow> exn + pystr" where
  "validated_method value =
     (if value = [] \<or> list_ex lowercase value \<or> \<not> is_ascii value \<or> \<not> no_line_break value
      then Inl SignatureVerificationError else Inr value)"

definition validated_path :: "pystr \<Rightarrow> exn + pystr" where
  "validated_path value =
     (if take 1 value \<noteq> ''/'' \<or> \<not> is_ascii value \<or> \<not> no_line_break value
      then Inl SignatureVerificationError else Inr value)"

definition validated_timestamp :: "int \<Rightarrow> exn + int" where
  "validated_timestamp value = (if value < 0 then Inl SignatureVerificationError else Inr value)"

definition nonce_char :: "char \<Rightarrow> bool" where
  "nonce_char c =
     (let n = (of_char c :: nat) in
      65 \<le> n \<and> n \<le> 90 \<or> 97 \<le> n \<and> n \<le> 122 \<or> 48 \<le> n \<and> n \<le> 57 \<or> n = 95 \<or> n = 45)"

definition validated_nonce :: "pystr \<Rightarrow> exn + pystr" where
  "validated_nonce value =
     (if 16 \<le> length value \<and> length value \<le> 128 \<and> list_all nonce_char value
      then Inr value else Inl SignatureVerificationError)"

definition validated_key :: "bytes \<Rightarrow> exn + bytes" where
  "validated_key value = (if length value = 32 then Inr value else Inl SignatureVerificationError)"

definition canonical_input ::
  "(bytes \<Rightarrow> pystr) \<Rightarrow> pystr \<Rightarrow> pystr \<Rightarrow> int \<Rightarrow> pystr \<Rightarrow> bytes \<Rightarrow> exn + bytes" where
  "canonical_input sha256 verb path timestamp nonce body =
     bnd (validated_method verb) (\<lambda>m.
     bnd (validated_path path) (\<lambda>p.
     bnd (validated_timestamp timestamp) (\<lambda>t.
     bnd (validated_nonce nonce) (\<lambda>n.
       Inr (m @ [newline] @ p @ [newline] @ dec_int t @ [newline] @ n @ [newline] @ sha256 body)))))"

definition sign_request ::
  "(bytes \<Rightarrow> pystr) \<Rightarrow> (bytes \<Rightarrow> bytes \<Rightarrow> pystr) \<Rightarrow> pystr \<Rightarrow> pystr \<Rightarrow> int \<Rightarrow> pystr \<Rightarrow> bytes \<Rightarrow> bytes
   \<Rightarrow> exn + pystr" where
  "sign_request sha256 hmac verb path timestamp nonce body key =
     bnd (canonical_input sha256 verb path timestamp nonce body) (\<lambda>canonical.
     bnd (validated_key key) (\<lambda>k. Inr (hmac k canonical)))"

definition verify_request ::
  "(bytes \<Rightarrow> pystr) \<Rightarrow> (bytes \<Rightarrow> bytes \<Rightarrow> pystr) \<Rightarrow> pystr \<Rightarrow> pystr \<Rightarrow> int \<Rightarrow> pystr \<Rightarrow> bytes \<Rightarrow> bytes
   \<Rightarrow> pystr \<Rightarrow> int \<Rightarrow> (pystr \<Rightarrow> 's \<Rightarrow> (exn + bool) \<times> 's) \<Rightarrow> 's \<Rightarrow> (exn + unit) \<times> 's" where
  "verify_request sha256 hmac verb path timestamp nonce body key signature now consumer s =
     (case bnd (validated_timestamp timestamp) (\<lambda>t.
           bnd (validated_timestamp now) (\<lambda>n.
           bnd (require (is_sha256_hex signature \<and> \<bar>n - t\<bar> \<le> max_timestamp_skew_seconds)
                 SignatureVerificationError) (\<lambda>_.
           bnd (sign_request sha256 hmac verb path t nonce body key) (\<lambda>expected.
           bnd (require (expected = signature) SignatureVerificationError) (\<lambda>_.
             validated_nonce nonce))))) of
        Inl e \<Rightarrow> (Inl e, s)
      | Inr n \<Rightarrow>
          (case consumer n s of
             (Inr True, s') \<Rightarrow> (Inr (), s')
           | (_, s') \<Rightarrow> (Inl SignatureVerificationError, s')))"

section \<open>The signed text is unambiguous\<close>

lemma split_at_newline:
  assumes "newline \<notin> set a" "newline \<notin> set b" "a @ newline # s = b @ newline # t"
  shows "a = b \<and> s = t"
  using assms
proof (induction a arbitrary: b)
  case Nil
  then show ?case by (cases b) auto
next
  case (Cons c a)
  then show ?case by (cases b) auto
qed

lemma dec_int_inject: "dec_int i = dec_int j \<longleftrightarrow> i = j"
proof -
  have minus: "dec n \<noteq> CHR ''-'' # s" for n s
    using dec_digits [of "CHR ''-''" n] by (auto simp: is_digit_def)
  show ?thesis
    using minus minus [symmetric] by (auto simp: dec_int_def)
qed

lemma dec_int_no_newline: "newline \<notin> set (dec_int i)"
  using dec_digits [of newline] by (auto simp: dec_int_def is_digit_def newline_def)

lemma no_line_break_newline: "no_line_break s \<Longrightarrow> newline \<notin> set s"
  by (auto simp: no_line_break_def list_all_iff)

lemma nonce_no_newline: "list_all nonce_char s \<Longrightarrow> newline \<notin> set s"
  by (auto simp: list_all_iff nonce_char_def newline_def Let_def)

text \<open>
  The signed text determines what was signed: two accepted requests with the same canonical
  input agree in method, path, timestamp and nonce and in the digest of the body, so a signature
  cannot be carried over to another request.
\<close>

theorem canonical_input_injective:
  assumes "canonical_input sha256 m p t n b = Inr c" "canonical_input sha256 m' p' t' n' b' = Inr c"
  shows "m = m' \<and> p = p' \<and> t = t' \<and> n = n' \<and> sha256 b = sha256 b'"
proof -
  have 1: "c = m @ newline # p @ newline # dec_int t @ newline # n @ newline # sha256 b"
    "newline \<notin> set m" "newline \<notin> set p" "newline \<notin> set n"
    using assms(1) by (auto simp: canonical_input_def bnd_eq_Inr validated_method_def validated_path_def
        validated_timestamp_def validated_nonce_def split: if_splits
        dest: no_line_break_newline nonce_no_newline)
  have 2: "c = m' @ newline # p' @ newline # dec_int t' @ newline # n' @ newline # sha256 b'"
    "newline \<notin> set m'" "newline \<notin> set p'" "newline \<notin> set n'"
    using assms(2) by (auto simp: canonical_input_def bnd_eq_Inr validated_method_def validated_path_def
        validated_timestamp_def validated_nonce_def split: if_splits
        dest: no_line_break_newline nonce_no_newline)
  have s0: "m @ newline # p @ newline # dec_int t @ newline # n @ newline # sha256 b
      = m' @ newline # p' @ newline # dec_int t' @ newline # n' @ newline # sha256 b'"
    using 1(1) 2(1) by (rule trans [OF sym])
  have m: "m = m'" and s1: "p @ newline # dec_int t @ newline # n @ newline # sha256 b
      = p' @ newline # dec_int t' @ newline # n' @ newline # sha256 b'"
    using split_at_newline [OF 1(2) 2(2) s0] by auto
  have p: "p = p'" and s2: "dec_int t @ newline # n @ newline # sha256 b = dec_int t' @ newline # n' @ newline # sha256 b'"
    using split_at_newline [OF 1(3) 2(3) s1] by auto
  have t: "dec_int t = dec_int t'" and s3: "n @ newline # sha256 b = n' @ newline # sha256 b'"
    using split_at_newline [OF dec_int_no_newline dec_int_no_newline s2] by auto
  show ?thesis
    using m p t dec_int_inject split_at_newline [OF 1(4) 2(4) s3] by auto
qed

text \<open>
  What a verified request shows: its signature is the HMAC of its own fields under the key, its
  timestamp is within 300 seconds of the verifier's clock, and the nonce was consumed just now.
\<close>

theorem verify_request_sound:
  assumes "verify_request sha256 hmac m p t n b key sig now consumer s = (Inr (), s')"
  shows "sign_request sha256 hmac m p t n b key = Inr sig \<and> \<bar>now - t\<bar> \<le> 300 \<and> 0 \<le> t
     \<and> consumer n s = (Inr True, s')"
  using assms
  by (auto simp: verify_request_def validated_timestamp_def validated_nonce_def bnd_eq_Inr
      max_timestamp_skew_seconds_def split: sum.splits prod.splits bool.splits if_splits)

definition demo_signature :: pystr where
  "demo_signature = ''0000000000000000000000000000000000000000000000000000000000000000''"

end
