(* ===== verification/Callbacks.thy ===== *)
theory Callbacks
  imports JobTransitions Signatures
begin

text \<open>
  \<open>CallbackService\<close> (\<open>services/callbacks.py\<close>): a signed executor callback is accepted at most once.
  Instants are microseconds since 0001-01-01; \<open>unix_epoch\<close> is 1970-01-01.
\<close>

definition unix_epoch :: instant where "unix_epoch = 62135596800000000"

definition seconds :: "int \<Rightarrow> int" where "seconds n = n * 1000000"

text \<open>\<open>datetime.fromtimestamp(t, UTC)\<close> of a non-negative integer, \<open>None\<close> when out of range.\<close>

definition from_timestamp :: "int \<Rightarrow> instant option" where
  "from_timestamp t = (let i = unix_epoch + seconds t in if i < max_instant then Some i else None)"

definition nonce_expiry :: "int \<Rightarrow> instant \<Rightarrow> exn + (instant \<times> instant)" where
  "nonce_expiry signed_timestamp received_at =
     (if signed_timestamp < 0 then Inl ValueError else
      (case from_timestamp signed_timestamp of
         None \<Rightarrow> Inl ValueError
       | Some signed_at \<Rightarrow>
           let expires = max received_at signed_at + seconds (max_timestamp_skew_seconds + 1) in
           if max_instant \<le> expires then Inl OverflowError else Inr (received_at, expires)))"

definition accept_body ::
  "externals \<Rightarrow> pystr \<Rightarrow> pystr \<Rightarrow> pystr \<Rightarrow> pystr \<Rightarrow> pystr \<Rightarrow> instant \<Rightarrow> instant \<Rightarrow> db \<Rightarrow> exn + (bool \<times> db)" where
  "accept_body x company_id job_id snapshot_hash idempotency_key nonce received_at expires d =
     bnd (case job_of x d company_id job_id of
            Inl e \<Rightarrow> Inl (if e = NotFound then CallbackRejected else e) | Inr sj \<Rightarrow> Inr sj) (\<lambda>sj.
     bnd (require (sj_snapshot_hash sj = snapshot_hash) CallbackRejected) (\<lambda>_.
     bnd (consume_nonce nonce received_at expires d) (\<lambda>(consumed, d1).
     bnd (require consumed CallbackRejected) (\<lambda>_.
     bnd (record_receipt company_id job_id snapshot_hash idempotency_key received_at d1) (\<lambda>(inserted, d2).
       if \<not> inserted then Inr (False, d2)
       else bnd (require (sj_state sj \<in> {QUEUED, RUNNING}) CallbackRejected) (\<lambda>_. Inr (True, d2)))))))"

definition accept_callback ::
  "externals \<Rightarrow> pystr \<Rightarrow> pystr \<Rightarrow> pystr \<Rightarrow> pystr \<Rightarrow> pystr \<Rightarrow> int \<Rightarrow> instant \<Rightarrow> db \<Rightarrow> (exn + bool) \<times> db" where
  "accept_callback x company_id job_id snapshot_hash idempotency_key nonce signed_timestamp received_at d =
     (if idempotency_key \<noteq> job_id then (Inl CallbackRejected, d) else
      (case nonce_expiry signed_timestamp received_at of
         Inl e \<Rightarrow> (Inl e, d)
       | Inr (received, expires) \<Rightarrow>
           transaction (accept_body x company_id job_id snapshot_hash idempotency_key nonce received expires) d))"

lemma accept_body_safe:
  assumes "accept_body x c j h k n r e d = Inr (b, d')"
  shows "safe_step d d'"
proof -
  obtain d1 where "consume_nonce n r e d = Inr (True, d1)" "record_receipt c j h k r d1 = Inr (b, d')"
    using assms unfolding accept_body_def
    by (auto simp: bnd_eq_Inr split: if_splits sum.splits)
  then show ?thesis using consume_nonce_safe record_receipt_safe safe_step_trans by blast
qed

section \<open>Replay\<close>

text \<open>What an acceptance, of either result, leaves behind.\<close>

lemma accept_callback_Inr:
  assumes "accept_callback x c j h k n ts r d = (Inr b, d')"
  shows "k = j \<and> (\<exists>e. nonce_expiry ts r = Inr (r, e) \<and> accept_body x c j h k n r e d = Inr (b, d'))"
  using assms
  by (auto simp: accept_callback_def nonce_expiry_def Let_def transaction_def
      split: if_splits sum.splits prod.splits option.splits)

lemma consume_nonce_stored:
  assumes "consume_nonce n r e d = Inr (True, d1)"
  shows "\<exists>row \<in> set (nonces d1). n_nonce row = n \<and> n_expires_at row = isoformat e"
  using assms by (auto simp: consume_nonce_def Let_def split: if_splits)

lemma record_receipt_nonces: "record_receipt c j h k r d = Inr (b, d') \<Longrightarrow> nonces d' = nonces d"
  by (auto simp: record_receipt_def split: if_splits)

lemma accept_body_nonce:
  assumes "accept_body x c j h k n r e d = Inr (b, d')"
  shows "\<exists>row \<in> set (nonces d'). n_nonce row = n \<and> n_expires_at row = isoformat e"
proof -
  obtain d1 where "consume_nonce n r e d = Inr (True, d1)" "record_receipt c j h k r d1 = Inr (b, d')"
    using assms unfolding accept_body_def
    by (auto simp: bnd_eq_Inr split: if_splits sum.splits)
  with consume_nonce_stored record_receipt_nonces show ?thesis by metis
qed

text \<open>A live nonce row refuses its nonce.\<close>

lemma live_nonce_refused:
  assumes "row \<in> set (nonces d)" "n_nonce row = n" "n_expires_at row = isoformat e"
    and "valid_instant e" "valid_instant r" "r < e"
  shows "accept_body x c j h k n r e' d \<noteq> Inr (b, d')"
proof
  assume "accept_body x c j h k n r e' d = Inr (b, d')"
  then obtain d1 where "consume_nonce n r e' d = Inr (True, d1)"
    unfolding accept_body_def by (auto simp: bnd_eq_Inr split: if_splits sum.splits)
  moreover have "\<not> n_expires_at row \<le> isoformat r"
    using assms by (simp add: isoformat_le_iff)
  ultimately show False
    using assms(1,2) by (auto simp: consume_nonce_def list_ex_iff Let_def split: if_splits)
qed

text \<open>Later deliveries only drop rows that have expired by then.\<close>

record delivery =
  v_company_id :: pystr
  v_job_id :: pystr
  v_snapshot_hash :: pystr
  v_idempotency_key :: pystr
  v_nonce :: pystr
  v_signed_timestamp :: int
  v_received_at :: instant

definition deliver :: "externals \<Rightarrow> delivery \<Rightarrow> db \<Rightarrow> (exn + bool) \<times> db" where
  "deliver x v d =
     accept_callback x (v_company_id v) (v_job_id v) (v_snapshot_hash v) (v_idempotency_key v) (v_nonce v)
       (v_signed_timestamp v) (v_received_at v) d"

lemma accept_body_keeps:
  assumes "accept_body x c j h k n r e d = Inr (b, d')" "row \<in> set (nonces d)"
    and "\<not> n_expires_at row \<le> isoformat r"
  shows "row \<in> set (nonces d')"
proof -
  obtain d1 where "consume_nonce n r e d = Inr (True, d1)" "record_receipt c j h k r d1 = Inr (b, d')"
    using assms(1) unfolding accept_body_def
    by (auto simp: bnd_eq_Inr split: if_splits sum.splits)
  then show ?thesis
    using assms(2,3) record_receipt_nonces [of c j h k r d1 b d']
    by (auto simp: consume_nonce_def Let_def split: if_splits)
qed

lemma deliver_keeps:
  assumes "row \<in> set (nonces d)" "\<not> n_expires_at row \<le> isoformat (v_received_at v)"
  shows "row \<in> set (nonces (snd (deliver x v d)))"
  using assms accept_body_keeps
  by (fastforce simp: deliver_def accept_callback_def nonce_expiry_def Let_def transaction_def
      split: sum.splits prod.splits option.splits)

lemma deliveries_keep:
  assumes "row \<in> set (nonces d)" "\<And>v. v \<in> set vs \<Longrightarrow> \<not> n_expires_at row \<le> isoformat (v_received_at v)"
  shows "row \<in> set (nonces (foldl (\<lambda>d v. snd (deliver x v d)) d vs))"
  using assms by (induction vs arbitrary: d) (auto intro: deliver_keeps)

lemma record_receipt_again:
  assumes "list_ex (\<lambda>q. c_company_id q = c \<and> c_job_id q = j \<and> c_snapshot_hash q = h \<and> c_idempotency_key q = k) (receipts d)"
  shows "record_receipt c j h k r d \<noteq> Inr (True, d')"
  using assms by (auto simp: record_receipt_def)

lemma accept_body_True:
  assumes "accept_body x c j h k n r e d = Inr (True, d')"
  shows "\<exists>d1. record_receipt c j h k r d1 = Inr (True, d') \<and> receipts d1 = receipts d"
  using assms unfolding accept_body_def
  by (auto simp: bnd_eq_Inr consume_nonce_def Let_def split: if_splits sum.splits)

end
