(* ===== verification/Demo.thy ===== *)
theory Demo
  imports Leases Callbacks
begin

text \<open>
  Concrete rows and databases on which the properties are exercised: a queued job with its snapshot,
  brief and approval.
\<close>

text \<open>\<open>demo_time s\<close> is the canonical text of the instant \<open>s\<close> seconds after 2026-01-01.\<close>

definition demo_instant :: "int \<Rightarrow> instant" where
  "demo_instant s = 63902822400000000 + s * 1000000"

definition demo_time :: "int \<Rightarrow> pystr" where
  "demo_time s = isoformat (demo_instant s)"

lemma demo_instant_valid [simp]: "0 \<le> s \<Longrightarrow> s < 10000000 \<Longrightarrow> valid_instant (demo_instant s)"
  by (simp add: demo_instant_def valid_instant_def max_instant_def)

lemma demo_time_utc [simp]: "0 \<le> s \<Longrightarrow> s < 10000000 \<Longrightarrow> is_utc_timestamp (demo_time s)"
  by (simp add: demo_time_def is_utc_timestamp_isoformat)

lemma demo_time_le [simp]:
  "0 \<le> s \<Longrightarrow> s < 10000000 \<Longrightarrow> 0 \<le> t \<Longrightarrow> t < 10000000 \<Longrightarrow> demo_time s \<le> demo_time t \<longleftrightarrow> s \<le> t"
  by (simp add: demo_time_def isoformat_le_iff) (simp add: demo_instant_def)

lemma demo_time_less [simp]:
  "0 \<le> s \<Longrightarrow> s < 10000000 \<Longrightarrow> 0 \<le> t \<Longrightarrow> t < 10000000 \<Longrightarrow> demo_time s < demo_time t \<longleftrightarrow> s < t"
  by (auto simp: less_le_not_le)

lemma demo_time_eq [simp]:
  "0 \<le> s \<Longrightarrow> s < 10000000 \<Longrightarrow> 0 \<le> t \<Longrightarrow> t < 10000000 \<Longrightarrow> demo_time s = demo_time t \<longleftrightarrow> s = t"
  by (metis demo_time_le order_antisym order_refl)

abbreviation demo_now :: pystr where "demo_now \<equiv> demo_time 0"
abbreviation demo_later :: pystr where "demo_later \<equiv> demo_time 300"

definition demo_hash :: pystr where
  "demo_hash = ''aaaaaaaaaaaaaaaaaaaaaaaaaaaaaaaaaaaaaaaaaaaaaaaaaaaaaaaaaaaaaaaa''"

definition demo_job :: job where
  "demo_job =
     \<lparr>j_job_id = ''job'', j_brief_id = ''brief'', j_brief_fingerprint = demo_hash,
      j_snapshot_id = ''snap'', j_snapshot_hash = demo_hash, j_company_id = ''co'',
      j_direction_id = ''dir'', j_audience_segment_id = ''aud'', j_state = ''QUEUED'',
      j_current_stage = None, j_approved_plan_fingerprint = Some demo_hash,
      j_approval_record_id = Some ''apr'', j_attempt = 1, j_created_by = ''user'',
      j_created_at = demo_now, j_started_at = None, j_finished_at = None, j_error_code = None,
      j_error_summary = None, j_artifact_manifest_path = None, j_plan_json = Some demo_plan_json,
      j_plan_fingerprint = Some demo_hash, j_superseded_by_job_id = None\<rparr>"

definition demo_approval :: approval where
  "demo_approval =
     \<lparr>a_approval_record_id = ''apr'', a_job_id = ''job'', a_approval_type = ''paid_execution'',
      a_snapshot_hash = demo_hash, a_plan_fingerprint = demo_hash, a_approved_by = ''boss'',
      a_approved_at = demo_now, a_expires_at = Some demo_later\<rparr>"

text \<open>The compiled context of the snapshot, its keys sorted.\<close>

definition demo_brief_context :: jdict where
  "demo_brief_context =
     [(''audience_segment_id'', JStr ''aud''), (''audience_version'', JInt 1), (''brief_id'', JStr ''brief''),
      (''company_id'', JStr ''co''), (''company_profile_version'', JInt 1),
      (''created_at'', JStr demo_now), (''created_by'', JStr ''user''), (''direction_id'', JStr ''dir''),
      (''direction_version'', JInt 1), (''updated_at'', JStr demo_now)]"

definition demo_audience_context :: jdict where
  "demo_audience_context =
     [(''audience_segment_id'', JStr ''aud''), (''audience_version'', JInt 1),
      (''company_id'', JStr ''co''), (''created_at'', JStr demo_now), (''direction_id'', JStr ''dir''),
      (''direction_version'', JInt 1), (''updated_at'', JStr demo_now)]"

definition demo_company_context :: jdict where
  "demo_company_context =
     [(''company_id'', JStr ''co''), (''company_profile_version'', JInt 1),
      (''created_at'', JStr demo_now), (''updated_at'', JStr demo_now)]"

definition demo_direction_context :: jdict where
  "demo_direction_context =
     [(''company_id'', JStr ''co''), (''company_profile_version'', JInt 1),
      (''created_at'', JStr demo_now), (''direction_id'', JStr ''dir''),
      (''direction_version'', JInt 1), (''updated_at'', JStr demo_now)]"

definition demo_context :: jval where
  "demo_context = JObj
     [(''audience'', JObj demo_audience_context), (''brief'', JObj demo_brief_context),
      (''company'', JObj demo_company_context), (''direction'', JObj demo_direction_context),
      (''prompt_set_version'', JInt 1), (''schema_version'', JInt 1)]"

lemmas demo_context_defs =
  demo_context_def demo_brief_context_def demo_audience_context_def demo_company_context_def
  demo_direction_context_def

definition demo_snapshot :: snapshot_row where
  "demo_snapshot =
     \<lparr>s_snapshot_id = ''snap'', s_brief_id = ''brief'', s_company_id = ''co'',
      s_company_profile_version = 1, s_direction_id = ''dir'', s_direction_version = 1,
      s_audience_segment_id = ''aud'', s_audience_version = 1, s_prompt_set_version = 1,
      s_compiled_context = dumps demo_context, s_snapshot_hash = demo_hash, s_created_at = demo_now\<rparr>"

definition demo_brief :: brief_row where
  "demo_brief =
     \<lparr>b_brief_id = ''brief'', b_company_id = ''co'', b_company_profile_version = Some 1,
      b_direction_id = Some ''dir'', b_direction_version = Some 1,
      b_audience_segment_id = Some ''aud'', b_audience_version = Some 1, b_brief_json = ''{}'',
      b_status = ''validated'', b_created_by = ''user'', b_created_at = demo_now,
      b_updated_at = demo_now\<rparr>"

definition demo_db :: db where
  "demo_db = \<lparr>jobs = [demo_job], runs = [], transitions = [], approvals = [demo_approval],
     snapshots = [demo_snapshot], briefs = [demo_brief], budgets = [], heartbeats = [],
     nonces = [], receipts = []\<rparr>"

definition demo_candidate :: candidate where
  "demo_candidate = \<lparr>k_company_id = ''co'', k_job_id = ''job'', k_attempt = 1, k_state = ''QUEUED''\<rparr>"

text \<open>A digest that is constant, identifiers and models that are accepted as they are.\<close>

definition demo_externals :: externals where
  "demo_externals = \<lparr>ext_sha256 = (\<lambda>b. demo_hash), ext_identifier = Some,
     ext_model_dump = (\<lambda>m p c u. Some (JObj p))\<rparr>"

definition demo_execution_snapshot :: execution_snapshot where
  "demo_execution_snapshot =
     \<lparr>sn_snapshot_id = ''snap'', sn_brief_id = ''brief'', sn_company_id = ''co'',
      sn_company_profile_version = 1, sn_direction_id = ''dir'', sn_direction_version = 1,
      sn_audience_segment_id = ''aud'', sn_audience_version = 1, sn_prompt_set_version = 1,
      sn_compiled_context = demo_context, sn_snapshot_hash = demo_hash, sn_created_at = demo_instant 0\<rparr>"

text \<open>The queued job once a runner has claimed it for dispatch, and its run.\<close>

definition demo_running_job :: job where
  "demo_running_job = demo_job\<lparr>j_state := ''RUNNING'', j_current_stage := Some ''dispatching'',
     j_started_at := Some demo_now\<rparr>"

definition demo_run :: run where
  "demo_run =
     \<lparr>r_company_id = ''co'', r_job_id = ''job'', r_attempt = 1,
      r_idempotency_key = ''co:job:1'', r_external_run_id = None, r_executor_name = Some ''n8n'',
      r_external_accepted_at = None, r_acceptance_observed_at = None, r_external_status = None,
      r_current_stage = None, r_next_action_at = None, r_submission_attempted_at = Some demo_now,
      r_completion_observed_at = None, r_error_code = None, r_error_summary = None,
      r_result_json = None, r_result_hash = None, r_heartbeat_at = demo_now,
      r_lease_token = Some ''A'', r_lease_expires_at = Some demo_later, r_reconciliation_count = 0,
      r_retry_stage_id = ''submission'', r_transient_failure_count = 0, r_created_at = demo_now,
      r_updated_at = demo_now\<rparr>"

definition demo_claimed_db :: db where
  "demo_claimed_db = demo_db\<lparr>jobs := [demo_running_job], runs := [demo_run],
     transitions := [\<lparr>t_job_id = ''job'', t_from_state = Some ''QUEUED'', t_to_state = ''RUNNING'',
       t_reason_summary = Some ''external dispatch claimed'', t_occurred_at = demo_now\<rparr>]\<rparr>"

definition demo_dispatching :: candidate where
  "demo_dispatching = \<lparr>k_company_id = ''co'', k_job_id = ''job'', k_attempt = 1, k_state = ''RUNNING''\<rparr>"

lemmas row_defs =
  demo_db_def demo_job_def demo_candidate_def demo_approval_def demo_snapshot_def demo_brief_def
  demo_running_job_def demo_run_def demo_claimed_db_def demo_dispatching_def

lemmas check_defs =
  run_update_check_def job_update_check_def run_checks_def run_identity_checks_def
  run_state_checks_def run_time_checks_def utc_or_null_def trimmed_def sql_trim_def
  external_statuses_def terminal_statuses_def runs_external_identity_owned_def
  jobs_created_by_immutable_def jobs_execution_provenance_immutable_def
  jobs_execution_plan_immutable_def jobs_supersession_append_only_def
  jobs_supersession_same_lineage_def jobs_approval_binding_write_once_def
  jobs_artifact_manifest_binding_write_once_def jobs_runner_timestamp_valid_def written_def
  one_active_job_per_creator_def active_job_state_def runs_identity_immutable_def
  runs_result_immutable_def runs_external_status_monotonic_def
  runs_external_identity_immutable_def

lemmas write_defs =
  update_runs_def update_jobs_def update_or_ignore_jobs_def insert_run_def

lemma dec_int_one [simp]: "dec_int 1 = ''1''"
  by code_simp

lemma demo_insert:
  "insert_submission demo_candidate ''co:job:1'' ''n8n'' demo_now ''A'' demo_later demo_db
   = Inr (demo_db\<lparr>runs := [demo_run]\<rparr>)"
  by (simp add: insert_submission_def row_defs write_defs check_defs job_exists_def
      submission_job_def default_run_def at_job_def)

lemma demo_lease:
  "lease_submission demo_candidate ''co:job:1'' ''n8n'' demo_now ''A'' demo_later (demo_db\<lparr>runs := [demo_run]\<rparr>)
   = Inr (demo_db\<lparr>runs := [demo_run]\<rparr>, 1)"
  by (simp add: lease_submission_def row_defs write_defs check_defs job_exists_def at_run_def
      claimable_def job_key_def run_key_def lease_def)

lemma demo_start:
  "start_dispatch demo_candidate demo_now (demo_db\<lparr>runs := [demo_run]\<rparr>) = Inr ((), demo_claimed_db)"
  by (simp add: start_dispatch_def dispatch_rows_def row_defs write_defs check_defs at_job_def)

lemma demo_claim:
  "claim_submission demo_candidate ''co:job:1'' ''n8n'' demo_now ''A'' demo_later demo_db
   = Inr (Some demo_run, demo_claimed_db)"
  unfolding claim_submission_def
  by (simp add: demo_insert demo_lease demo_start)
    (simp add: row_defs get_run_def run_of_def candidate_key_def run_key_def)

lemma demo_schema_ok [simp]: "schema_ok demo_db" "schema_ok demo_claimed_db"
  by (simp_all add: schema_ok_def row_defs check_defs jobs_table.table_ok_def
      runs_table.table_ok_def budgets_table.table_ok_def run_has_job_def)

section \<open>The demo snapshot verifies\<close>

lemma demo_now_text: "demo_now = ''2026-01-01T00:00:00+00:00''"
  by (simp add: demo_time_def demo_instant_def isoformat_def date_text_def civil_def year_split.simps
      month_split.simps year_len_def leap_def month_len_def clock_text_def fraction_text_def)

lemma demo_parse [simp]: "parse_aware (demo_time 0) = Some (demo_instant 0)"
  by (simp add: demo_time_def parse_aware_isoformat)

lemma demo_utf8 [simp]: "utf8_ok sg demo_now"
  by (simp add: demo_now_text utf8_ascii_Cons)

lemma demo_length [simp]: "length demo_now = 25"
  by (simp add: demo_now_text)

lemma demo_hash_hex [simp]: "is_sha256_hex demo_hash"
  by (simp add: demo_hash_def is_sha256_hex_def lower_hex_def)

lemmas preflight_defs =
  visit_node_def visit_string_def utf8_ascii_Cons max_nodes_def max_bytes_def max_depth_def
  max_safe_integer_def

lemma demo_normalize: "\<exists>w st. normalize demo_context 0 (0, 0) = Inr (w, st)"
  by (simp add: demo_context_defs visit_node_def visit_string_def utf8_ascii_Cons
      max_nodes_def max_bytes_def max_depth_def max_safe_integer_def)

lemma demo_context_bytes: "canonical_json demo_context = Inr (dumps demo_context)"
proof (rule canonical_json_fits)
  show "weight demo_context \<le> max_bytes"
    by (simp add: demo_context_defs max_bytes_def)
  show "\<exists>w st. normalize demo_context 0 (0, 0) = Inr (w, st)" by (rule demo_normalize)
qed

lemma demo_context_canon: "canon demo_context = demo_context"
  by (simp add: demo_context_defs)

lemma demo_context_plain: "plain demo_context"
  by (simp add: demo_context_defs)

lemma demo_context_loads: "json_loads (dumps demo_context) = Some demo_context"
  using json_loads_canonical [OF demo_context_plain demo_context_bytes] demo_context_canon by simp

lemma demo_payload_bytes:
  "canonical_json (JObj demo_brief_context) = Inr (dumps (JObj demo_brief_context))"
  "canonical_json (JObj demo_audience_context) = Inr (dumps (JObj demo_audience_context))"
  "canonical_json (JObj demo_company_context) = Inr (dumps (JObj demo_company_context))"
  "canonical_json (JObj demo_direction_context) = Inr (dumps (JObj demo_direction_context))"
  by (rule canonical_json_fits; simp add: demo_context_defs preflight_defs)+

lemma demo_model_verifies:
  assumes "jget ''created_at'' p = Some (JStr demo_now)" "jget ''updated_at'' p = Some (JStr demo_now)"
    and "canonical_json (JObj p) = Inr b"
  shows "verify_model demo_externals m p = Inr ()"
  using assms by (simp add: verify_model_def demo_externals_def stored_instant_def)

lemma demo_models_verify:
  "verify_model demo_externals m demo_brief_context = Inr ()"
  "verify_model demo_externals m demo_audience_context = Inr ()"
  "verify_model demo_externals m demo_company_context = Inr ()"
  "verify_model demo_externals m demo_direction_context = Inr ()"
  by (rule demo_model_verifies [OF _ _ demo_payload_bytes(1)]
        demo_model_verifies [OF _ _ demo_payload_bytes(2)]
        demo_model_verifies [OF _ _ demo_payload_bytes(3)]
        demo_model_verifies [OF _ _ demo_payload_bytes(4)];
      simp add: demo_context_defs jget_def)+

lemma demo_context_verifies: "verify_context demo_externals demo_execution_snapshot demo_context = Inr ()"
proof -
  have "list_all (\<lambda>(actual, expected). actual = Some expected)
      (expected_values demo_execution_snapshot
        [(''audience'', JObj demo_audience_context), (''brief'', JObj demo_brief_context),
         (''company'', JObj demo_company_context), (''direction'', JObj demo_direction_context),
         (''prompt_set_version'', JInt 1), (''schema_version'', JInt 1)]
        demo_company_context demo_direction_context demo_audience_context demo_brief_context)"
    by (simp add: expected_values_def demo_execution_snapshot_def demo_context_defs jget_def)
  then show ?thesis
    unfolding demo_context_def
    by (simp add: verify_context_def snapshot_context_base_keys_def jdict_of_def jget_def
        demo_models_verify insert_commute)
qed

lemma demo_hydrate: "hydrate_verified demo_externals demo_snapshot = Inr demo_execution_snapshot"
proof -
  have "construct_snapshot demo_externals demo_snapshot demo_context = Some demo_execution_snapshot"
    by (simp add: construct_snapshot_def demo_snapshot_def demo_externals_def positive_def
        freeze_context_def demo_context_bytes demo_context_loads demo_execution_snapshot_def)
  then show ?thesis
    using demo_context_verifies
    by (simp add: hydrate_verified_def demo_snapshot_def [THEN arg_cong, of s_compiled_context]
        demo_snapshot_def [THEN arg_cong, of s_snapshot_hash] demo_context_loads demo_context_bytes
        sha256_fingerprint_def demo_externals_def [THEN arg_cong, of ext_sha256])
qed

lemma demo_get_snapshot:
  "snapshots d = [demo_snapshot] \<Longrightarrow> get_snapshot demo_externals d ''co'' ''snap'' = Inr demo_execution_snapshot"
  using demo_hydrate by (simp add: get_snapshot_def) (simp add: demo_snapshot_def)

section \<open>The demo job passes the service's checks\<close>

lemma demo_hash_nonempty: "demo_hash \<noteq> []"
  by (simp add: demo_hash_def)

lemma demo_hash_not_blank [simp]: "\<not> blank demo_hash"
  by (simp add: demo_hash_def ascii_space_def wide_space_def)

lemma demo_domain_job:
  assumes "j_state j = state_value st" "j\<lparr>j_state := ''QUEUED''\<rparr> = demo_job\<lparr>j_approved_plan_fingerprint := f, j_approval_record_id := i\<rparr>"
    and "f = None \<or> f = Some demo_hash" "i = None \<or> i = Some ''apr''"
  shows "\<exists>sj. domain_job j = Inr sj \<and> sj_state sj = st \<and> sj_snapshot_hash sj = demo_hash"
proof -
  have eq: "j = demo_job\<lparr>j_state := state_value st, j_approved_plan_fingerprint := f, j_approval_record_id := i\<rparr>"
    using assms(1) arg_cong [OF assms(2), of "\<lambda>x. x\<lparr>j_state := state_value st\<rparr>"]
    by (cases j) (simp add: demo_job_def)
  show ?thesis
    using assms(3,4)
    by (auto simp: eq domain_job_def demo_job_def ascii_space_def wide_space_def stored_datetime_def
        simp del: state_value.simps)
qed

lemma demo_job_integrity:
  assumes "j_snapshot_id j = ''snap''" "j_snapshot_hash j = demo_hash" "j_brief_id j = ''brief''"
    "j_company_id j = ''co''" "j_direction_id j = ''dir''" "j_audience_segment_id j = ''aud''"
    "j_created_by j = ''user''" "j_brief_fingerprint j = demo_hash"
  shows "require_job_snapshot_integrity demo_externals j demo_execution_snapshot = Inr ()"
proof -
  have "context_brief demo_execution_snapshot = Some demo_brief_context"
    by (simp add: context_brief_def demo_execution_snapshot_def demo_context_def jdict_of_def jget_def)
  moreover have "jget ''created_by'' demo_brief_context = Some (JStr ''user'')"
    by (simp add: demo_brief_context_def jget_def)
  moreover have "sha256_fingerprint (ext_sha256 demo_externals) (JObj demo_brief_context) = Inr demo_hash"
    by (simp add: sha256_fingerprint_def demo_payload_bytes demo_externals_def)
  ultimately show ?thesis
    using assms by (simp add: require_job_snapshot_integrity_def demo_execution_snapshot_def)
qed

lemma demo_plan_integrity:
  assumes "j_plan_json j = Some demo_plan_json" "j_plan_fingerprint j = Some demo_hash"
  shows "require_plan_integrity demo_externals j = Inr demo_plan"
  using assms by (simp add: require_plan_integrity_def demo_externals_def demo_plan_read demo_plan_bytes)

lemma demo_job_of:
  assumes "jobs d = [demo_job]" "snapshots d = [demo_snapshot]"
  shows "\<exists>sj. job_of demo_externals d ''co'' ''job'' = Inr sj \<and> sj_state sj = QUEUED \<and> sj_snapshot_hash sj = demo_hash"
proof -
  have q: "j_state demo_job = state_value QUEUED"
    "demo_job\<lparr>j_state := ''QUEUED''\<rparr>
     = demo_job\<lparr>j_approved_plan_fingerprint := Some demo_hash, j_approval_record_id := Some ''apr''\<rparr>"
    by (simp_all add: demo_job_def)
  from demo_domain_job [OF q] obtain sj where
    "domain_job demo_job = Inr sj" "sj_state sj = QUEUED" "sj_snapshot_hash sj = demo_hash" by auto
  moreover have "require_job_snapshot_integrity demo_externals demo_job demo_execution_snapshot = Inr ()"
    by (rule demo_job_integrity) (simp_all add: demo_job_def)
  moreover have "get_job d ''co'' ''job'' = Inr demo_job" "j_snapshot_id demo_job = ''snap''"
    using assms(1) by (simp_all add: get_job_def demo_job_def)
  ultimately show ?thesis
    by (simp add: job_of_def demo_get_snapshot [OF assms(2)] domain_job_with_snapshot_def)
qed

text \<open>The running job accepted by the executor, its lease still held.\<close>

definition demo_accepted_run :: run where
  "demo_accepted_run = demo_run\<lparr>r_external_run_id := Some ''ext'', r_external_accepted_at := Some demo_now,
     r_acceptance_observed_at := Some demo_now, r_external_status := Some ''ACCEPTED''\<rparr>"

definition recovery_accepted_db :: db where
  "recovery_accepted_db = demo_claimed_db\<lparr>runs := [demo_accepted_run]\<rparr>"

lemma demo_accepted_ok: "schema_ok recovery_accepted_db"
  by (simp add: schema_ok_def recovery_accepted_db_def demo_accepted_run_def row_defs check_defs
      jobs_table.table_ok_def runs_table.table_ok_def budgets_table.table_ok_def run_has_job_def)

end
