(* ===== verification/CallbackProperties.thy ===== *)
theory CallbackProperties
  imports Demo
begin

text \<open>Replay protection of signed callbacks, with deliveries it is exercised on.\<close>

definition demo_delivery :: "int \<Rightarrow> pystr \<Rightarrow> delivery" where
  "demo_delivery s n =
     \<lparr>v_company_id = ''co'', v_job_id = ''job'', v_snapshot_hash = demo_hash, v_idempotency_key = ''job'',
      v_nonce = n, v_signed_timestamp = 1767225600, v_received_at = demo_instant s\<rparr>"

definition demo_accepted_db :: db where
  "demo_accepted_db = demo_db\<lparr>
     nonces := [\<lparr>n_nonce = ''n1'', n_received_at = demo_time 0, n_expires_at = demo_time 301\<rparr>],
     receipts := [\<lparr>c_company_id = ''co'', c_job_id = ''job'', c_snapshot_hash = demo_hash,
                   c_idempotency_key = ''job'', c_accepted_at = demo_time 0\<rparr>]\<rparr>"

lemma demo_accepted: "deliver demo_externals (demo_delivery 0 ''n1'') demo_db = (Inr True, demo_accepted_db)"
proof -
  obtain sj where "job_of demo_externals demo_db ''co'' ''job'' = Inr sj" "sj_state sj = QUEUED"
    "sj_snapshot_hash sj = demo_hash"
    using demo_job_of [of demo_db] by (auto simp: demo_db_def)
  moreover have "nonce_expiry 1767225600 (demo_instant 0) = Inr (demo_instant 0, demo_instant 301)"
    by (simp add: nonce_expiry_def from_timestamp_def unix_epoch_def seconds_def demo_instant_def
        max_instant_def max_timestamp_skew_seconds_def)
  ultimately show ?thesis
    by (simp add: deliver_def demo_delivery_def accept_callback_def accept_body_def transaction_def
        consume_nonce_def record_receipt_def demo_accepted_db_def demo_db_def demo_time_def
        demo_hash_nonempty)
      (simp add: demo_job_def demo_instant_def)
qed

text \<open>
  C36.  A signed callback cannot be replayed: once a delivery with some nonce has been accepted, then
  after any sequence of other deliveries, a delivery with that nonce at a time the signature would
  still verify (within 300 seconds of the signed timestamp) is not accepted and changes nothing.
\<close>

theorem callback_not_replayable:
  assumes "deliver x v d = (Inr b, d1)"
    and "\<And>u. u \<in> set (v # vs @ [w]) \<Longrightarrow> valid_instant (v_received_at u)"
    and "\<And>u. u \<in> set vs \<Longrightarrow> v_received_at u \<le> v_received_at w"
    and "v_received_at w \<le> unix_epoch + seconds (v_signed_timestamp v + max_timestamp_skew_seconds)"
    and "v_nonce w = v_nonce v" "d2 = foldl (\<lambda>d u. snd (deliver x u d)) d1 vs"
  shows "\<exists>e. deliver x w d2 = (Inl e, d2)"
proof -
  let ?r = "v_received_at v"
  from accept_callback_Inr [OF assms(1) [unfolded deliver_def]] obtain e where
    e: "nonce_expiry (v_signed_timestamp v) ?r = Inr (?r, e)"
    "accept_body x (v_company_id v) (v_job_id v) (v_snapshot_hash v) (v_idempotency_key v) (v_nonce v) ?r e d
       = Inr (b, d1)" by blast
  from e(1) obtain signed where s: "from_timestamp (v_signed_timestamp v) = Some signed"
    "e = max ?r signed + seconds (max_timestamp_skew_seconds + 1)" "e < max_instant"
    by (auto simp: nonce_expiry_def Let_def split: if_splits option.splits)
  have "0 \<le> max ?r signed" using assms(2) [of v] by (simp add: valid_instant_def le_max_iff_disj)
  then have ve: "valid_instant e"
    using s by (simp add: valid_instant_def seconds_def max_timestamp_skew_seconds_def)
  have "signed = unix_epoch + seconds (v_signed_timestamp v)"
    using s(1) by (auto simp: from_timestamp_def Let_def split: if_splits)
  then have late: "v_received_at w < e"
    using assms(4) s(2) by (simp add: seconds_def max_timestamp_skew_seconds_def)
  obtain row where row: "row \<in> set (nonces d1)" "n_nonce row = v_nonce v" "n_expires_at row = isoformat e"
    using accept_body_nonce [OF e(2)] by blast
  have "\<not> n_expires_at row \<le> isoformat (v_received_at u)" if "u \<in> set vs" for u
    using that assms(2) [of u] assms(3) [of u] ve late row(3) by (simp add: isoformat_le_iff)
  then have kept: "row \<in> set (nonces d2)"
    unfolding assms(6) by (rule deliveries_keep [OF row(1)])
  have refused: "accept_body x c j h k (v_nonce w) (v_received_at w) e' d2 \<noteq> Inr (b', d3)" for c j h k e' b' d3
    using live_nonce_refused [OF kept, of "v_nonce w" e "v_received_at w"] row ve late assms(2,5) by simp
  show ?thesis
  proof (cases "fst (deliver x w d2)")
    case (Inl err)
    then show ?thesis
      by (auto simp: deliver_def accept_callback_def transaction_def split: if_splits sum.splits prod.splits)
  next
    case (Inr b')
    then obtain d3 where "deliver x w d2 = (Inr b', d3)" by (metis prod.collapse)
    from accept_callback_Inr [OF this [unfolded deliver_def]] refused show ?thesis by blast
  qed
qed

lemma callback_not_replayable_witness:
  "\<exists>e. deliver demo_externals (demo_delivery 120 ''n1'') demo_accepted_db = (Inl e, demo_accepted_db)"
  by (rule callback_not_replayable [OF demo_accepted, where vs = "[]"])
    (auto simp: demo_delivery_def unix_epoch_def seconds_def demo_instant_def
      max_timestamp_skew_seconds_def valid_instant_def max_instant_def)

text \<open>
  A callback counts once: after an acceptance that returned \<open>True\<close>, another delivery for the
  same job and snapshot, under whatever nonce, never returns \<open>True\<close> again.
\<close>

theorem callback_counts_once:
  assumes "accept_callback x c j h k n ts r d = (Inr True, d1)" "prefix_of (receipts d1) (receipts d2)"
  shows "fst (accept_callback x c j h k n' ts' r' d2) \<noteq> Inr True"
proof
  assume "fst (accept_callback x c j h k n' ts' r' d2) = Inr True"
  then obtain d3 where "accept_callback x c j h k n' ts' r' d2 = (Inr True, d3)"
    by (metis prod.collapse)
  from accept_callback_Inr [OF this] accept_body_True obtain da where
    again: "record_receipt c j h k r' da = Inr (True, d3)" "receipts da = receipts d2" by metis
  from accept_callback_Inr [OF assms(1)] accept_body_True obtain db where
    "record_receipt c j h k r db = Inr (True, d1)" by metis
  then have "list_ex (\<lambda>q. c_company_id q = c \<and> c_job_id q = j \<and> c_snapshot_hash q = h \<and> c_idempotency_key q = k) (receipts d1)"
    by (auto simp: record_receipt_def split: if_splits)
  then have "list_ex (\<lambda>q. c_company_id q = c \<and> c_job_id q = j \<and> c_snapshot_hash q = h \<and> c_idempotency_key q = k) (receipts da)"
    using assms(2) again(2) by (auto simp: prefix_of_iff)
  from record_receipt_again [OF this] again(1) show False by blast
qed

end
