(* ===== verification/AuditSpec.thy ===== *)
theory AuditSpec
  imports Schema
begin

text \<open>
  The abstract specification of the job life cycle.  A \<open>ledger\<close> is what the audit of a job rests on:
  each job's state, attempt and approval binding, the log of state changes and the approval records.  It may
  change in four ways only; its invariants are proved here, on the specification, and hold for the
  program because its transactions refine it (\<^theory_text>\<open>AuditRefinement\<close>).
\<close>

section \<open>The ledger\<close>

record entry =
  e_state :: pystr
  e_snapshot_hash :: pystr
  e_plan :: "pystr option"
  e_approved_plan :: "pystr option"
  e_approval_id :: "pystr option"
  e_attempt :: int

type_synonym log_line = "pystr \<times> pystr option \<times> pystr"

record ledger =
  l_jobs :: "pystr \<rightharpoonup> entry"
  l_log :: "log_line list"
  l_approvals :: "approval list"

text \<open>A paid approval of exactly this job's immutable inputs, under the id the job is bound to.\<close>

definition approves :: "approval \<Rightarrow> pystr \<Rightarrow> entry \<Rightarrow> bool" where
  "approves a job_id e =
     (a_job_id a = job_id \<and> a_approval_type a = ''paid_execution''
      \<and> a_snapshot_hash a = e_snapshot_hash e \<and> Some (a_plan_fingerprint a) = e_plan e)"

definition bound_to :: "approval \<Rightarrow> entry \<Rightarrow> bool" where
  "bound_to a e = (e_approval_id e = Some (a_approval_record_id a) \<and> e_approved_plan e = e_plan e)"

text \<open>Leaving FAILED_RETRYABLE for QUEUED starts the next attempt; every other edge keeps the attempt.\<close>

definition retry_edge :: "job_state \<Rightarrow> job_state \<Rightarrow> bool" where
  "retry_edge s t = (s = FAILED_RETRYABLE \<and> t = QUEUED)"

definition moved_entry :: "job_state \<Rightarrow> job_state \<Rightarrow> entry \<Rightarrow> entry" where
  "moved_entry s t e =
     e\<lparr>e_state := state_value t, e_attempt := e_attempt e + (if retry_edge s t then 1 else 0)\<rparr>"

inductive ledger_step :: "ledger \<Rightarrow> ledger \<Rightarrow> bool" where
  ledger_stay: "ledger_step l l"
| ledger_plan:
    "\<lbrakk>l_jobs l job_id = None; e_state e = state_value PLANNED; e_approved_plan e = None; e_approval_id e = None;
      e_attempt e = 1\<rbrakk>
     \<Longrightarrow> ledger_step l (l\<lparr>l_jobs := (l_jobs l)(job_id \<mapsto> e),
                         l_log := l_log l @ [(job_id, None, state_value PLANNED)]\<rparr>)"
| ledger_move:
    "\<lbrakk>l_jobs l job_id = Some e; e_state e = state_value s; is_transition_allowed s t;
      \<not> (s = AWAITING_PAID_APPROVAL \<and> t = QUEUED)\<rbrakk>
     \<Longrightarrow> ledger_step l (l\<lparr>l_jobs := (l_jobs l)(job_id \<mapsto> moved_entry s t e),
                         l_log := l_log l @ [(job_id, Some (state_value s), state_value t)]\<rparr>)"
| ledger_approve:
    "\<lbrakk>l_jobs l job_id = Some e; e_state e = state_value AWAITING_PAID_APPROVAL; approves a job_id e;
      e_approval_id e = None\<rbrakk>
     \<Longrightarrow> ledger_step l (l\<lparr>l_jobs := (l_jobs l)(job_id \<mapsto> e\<lparr>e_state := state_value QUEUED,
                            e_approved_plan := e_plan e, e_approval_id := Some (a_approval_record_id a)\<rparr>),
                         l_log := l_log l @ [(job_id, Some (state_value AWAITING_PAID_APPROVAL), state_value QUEUED)],
                         l_approvals := l_approvals l @ [a]\<rparr>)"

inductive ledger_run :: "ledger \<Rightarrow> ledger \<Rightarrow> bool" where
  ledger_run_refl: "ledger_run l l"
| ledger_run_step: "ledger_run l l' \<Longrightarrow> ledger_step l' l'' \<Longrightarrow> ledger_run l l''"

lemma ledger_run_one: "ledger_step l l' \<Longrightarrow> ledger_run l l'"
  using ledger_run_refl ledger_run_step by blast

lemma ledger_run_trans:
  assumes "ledger_run a b" "ledger_run b c"
  shows "ledger_run a c"
  using assms(2,1) by (induction rule: ledger_run.induct) (auto intro: ledger_run_step)

section \<open>The audit trail\<close>

text \<open>
  \<open>walks start lines\<close> is the state a job is in after the logged changes, \<open>None\<close> (outside) when a line
  does not continue the one before it or is not an edge of the state graph.
\<close>

definition edge_logged :: "pystr option \<Rightarrow> pystr \<Rightarrow> bool" where
  "edge_logged from to =
     (case (from, job_state_of to) of
        (None, Some t) \<Rightarrow> t = PLANNED
      | (Some f, Some t) \<Rightarrow> (case job_state_of f of None \<Rightarrow> False | Some s \<Rightarrow> is_transition_allowed s t)
      | _ \<Rightarrow> False)"

fun walks :: "pystr option \<Rightarrow> (pystr option \<times> pystr) list \<Rightarrow> pystr option option" where
  "walks s [] = Some s"
| "walks s ((f, t) # lines) = (if f = s \<and> edge_logged f t then walks (Some t) lines else None)"

definition job_lines :: "pystr \<Rightarrow> log_line list \<Rightarrow> (pystr option \<times> pystr) list" where
  "job_lines job_id log = map snd (filter (\<lambda>x. fst x = job_id) log)"

lemma walks_append: "walks s (xs @ ys) = Option.bind (walks s xs) (\<lambda>u. walks u ys)"
  by (induction s xs rule: walks.induct) auto

lemma job_lines_append [simp]:
  "job_lines j (log @ [(i, f, t)]) = (if i = j then job_lines j log @ [(f, t)] else job_lines j log)"
  by (auto simp: job_lines_def)

lemma edge_logged_plan [simp]: "edge_logged None (state_value PLANNED)"
  by (simp only: edge_logged_def job_state_of_value) simp

lemma edge_logged_move: "is_transition_allowed s t \<Longrightarrow> edge_logged (Some (state_value s)) (state_value t)"
  by (simp only: edge_logged_def job_state_of_value) simp

text \<open>Every job's log is one path of the graph from its creation to its current state.\<close>

definition trail_ok :: "ledger \<Rightarrow> bool" where
  "trail_ok l = (\<forall>j. walks None (job_lines j (l_log l)) = Some (map_option e_state (l_jobs l j)))"

lemma trail_extend:
  assumes "trail_ok l" "map_option e_state (l_jobs l j) = f" "edge_logged f t" "e_state e = t"
  shows "trail_ok (l\<lparr>l_jobs := (l_jobs l)(j \<mapsto> e), l_log := l_log l @ [(j, f, t)], l_approvals := as\<rparr>)"
proof (unfold trail_ok_def, intro allI)
  fix i
  have "walks None (job_lines i (l_log l)) = Some (map_option e_state (l_jobs l i))"
    using assms(1) by (simp add: trail_ok_def)
  then show "walks None (job_lines i (l_log (l\<lparr>l_jobs := (l_jobs l)(j \<mapsto> e), l_log := l_log l @ [(j, f, t)],
        l_approvals := as\<rparr>)))
      = Some (map_option e_state (l_jobs (l\<lparr>l_jobs := (l_jobs l)(j \<mapsto> e), l_log := l_log l @ [(j, f, t)],
        l_approvals := as\<rparr>) i))"
    using assms(2-4) by (cases "j = i") (simp_all add: walks_append)
qed

lemma ledger_same_approvals:
  "l\<lparr>l_jobs := x, l_log := y\<rparr> = l\<lparr>l_jobs := x, l_log := y, l_approvals := l_approvals l\<rparr>"
  by simp

lemma trail_ok_step:
  assumes "ledger_step l l'" "trail_ok l"
  shows "trail_ok l'"
  using assms
proof (induction rule: ledger_step.induct)
  case (ledger_stay l)
  then show ?case .
next
  case (ledger_plan l j e)
  then show ?case
    by (subst ledger_same_approvals) (rule trail_extend; simp del: state_value.simps)
next
  case (ledger_move l j e s t)
  then show ?case
    by (subst ledger_same_approvals)
      (rule trail_extend; simp add: edge_logged_move moved_entry_def del: state_value.simps)
next
  case (ledger_approve l j e a)
  have "is_transition_allowed AWAITING_PAID_APPROVAL QUEUED"
    by (simp add: is_transition_allowed_def ALLOWED_TRANSITIONS_def)
  with ledger_approve show ?case
    by (intro trail_extend) (simp_all add: edge_logged_move del: state_value.simps)
qed

section \<open>The approval gate\<close>

definition state_pre_approval :: "pystr \<Rightarrow> bool" where
  "state_pre_approval s = (case job_state_of s of None \<Rightarrow> False | Some st \<Rightarrow> pre_approval st)"

text \<open>A job past the gate is bound to a stored paid approval of its own snapshot and plan.\<close>

definition gate_ok :: "ledger \<Rightarrow> bool" where
  "gate_ok l = (\<forall>j e. l_jobs l j = Some e \<longrightarrow>
     (if state_pre_approval (e_state e) then e_approval_id e = None
      else \<exists>a \<in> set (l_approvals l). approves a j e \<and> bound_to a e))"

lemma state_pre_approval_value [simp]: "state_pre_approval (state_value s) = pre_approval s"
  by (simp add: state_pre_approval_def)

lemma approves_moved [simp]:
  "approves a j (moved_entry s t e) = approves a j e" "bound_to a (moved_entry s t e) = bound_to a e"
  "e_state (moved_entry s t e) = state_value t" "e_approval_id (moved_entry s t e) = e_approval_id e"
  by (simp_all add: approves_def bound_to_def moved_entry_def)

lemma gate_ok_step:
  assumes "ledger_step l l'" "gate_ok l"
  shows "gate_ok l'"
  using assms
proof (induction rule: ledger_step.induct)
  case (ledger_stay l)
  then show ?case .
next
  case (ledger_plan l j e)
  have "pre_approval PLANNED" by (simp add: pre_approval_def)
  with ledger_plan show ?case by (simp add: gate_ok_def del: state_value.simps)
next
  case (ledger_move l j e s t)
  have "pre_approval s \<longleftrightarrow> pre_approval t"
    using ledger_move(3,4) pre_approval_exit pre_approval_no_entry by blast
  with ledger_move show ?case by (simp add: gate_ok_def del: state_value.simps)
next
  case (ledger_approve l j e a)
  have "\<not> pre_approval QUEUED" by (simp add: pre_approval_def)
  moreover have "approves a j (e\<lparr>e_state := state_value QUEUED, e_approved_plan := e_plan e,
      e_approval_id := Some (a_approval_record_id a)\<rparr>)"
    using ledger_approve(3) by (simp add: approves_def)
  moreover have "bound_to a (e\<lparr>e_state := state_value QUEUED, e_approved_plan := e_plan e,
      e_approval_id := Some (a_approval_record_id a)\<rparr>)"
    by (simp add: bound_to_def)
  ultimately show ?case
    using ledger_approve(5) by (auto simp: gate_ok_def simp del: state_value.simps)
qed

section \<open>Attempts\<close>

text \<open>The logged retries of a job, and the attempt every job is in.\<close>

fun retry_line :: "pystr option \<times> pystr \<Rightarrow> bool" where
  "retry_line (f, t) = (f = Some (state_value FAILED_RETRYABLE) \<and> t = state_value QUEUED)"

definition retries_logged :: "(pystr option \<times> pystr) list \<Rightarrow> nat" where
  "retries_logged lines = length (filter retry_line lines)"

definition attempts_ok :: "ledger \<Rightarrow> bool" where
  "attempts_ok l = (\<forall>j e. l_jobs l j = Some e \<longrightarrow> e_attempt e = 1 + int (retries_logged (job_lines j (l_log l))))"

lemma retries_logged_simps [simp]:
  "retries_logged [] = 0"
  "retries_logged (xs @ [x]) = retries_logged xs + (if retry_line x then 1 else 0)"
  by (simp_all add: retries_logged_def)

lemma state_value_eq: "state_value s = state_value t \<longleftrightarrow> s = t"
  by (metis job_state_of_value option.inject)

lemma retry_line_value [simp]:
  "retry_line (Some (state_value s), state_value t) = retry_edge s t"
  by (simp add: retry_edge_def state_value_eq del: state_value.simps)

lemma walks_nowhere: "walks s lines = Some None \<Longrightarrow> lines = []"
  by (induction s lines rule: walks.induct) (auto split: if_splits elim: walks.elims)

lemma attempts_ok_step:
  assumes "ledger_step l l'" "trail_ok l" "attempts_ok l"
  shows "attempts_ok l'"
  using assms
proof (induction rule: ledger_step.induct)
  case (ledger_plan l j e)
  then have "job_lines j (l_log l) = []"
    by (auto simp: trail_ok_def dest!: spec [of _ j] walks_nowhere)
  with ledger_plan show ?case by (simp add: attempts_ok_def retries_logged_def)
next
  case (ledger_move l j e s t)
  then show ?case
    by (simp add: attempts_ok_def moved_entry_def del: state_value.simps retry_line.simps)
next
  case (ledger_approve l j e a)
  have "\<not> retry_edge AWAITING_PAID_APPROVAL QUEUED" by (simp add: retry_edge_def)
  with ledger_approve show ?case
    by (simp add: attempts_ok_def del: state_value.simps retry_line.simps)
qed

text \<open>Attempts never go back.\<close>

lemma attempts_grow_step:
  assumes "ledger_step l l'" "l_jobs l j = Some e"
  shows "\<exists>e'. l_jobs l' j = Some e' \<and> e_attempt e \<le> e_attempt e'"
  using assms by (cases rule: ledger_step.cases) (auto simp: moved_entry_def)

section \<open>Final states\<close>

lemma final_step:
  assumes "ledger_step l l'" "l_jobs l j = Some e" "e_state e = state_value s" "dead_end s"
  shows "l_jobs l' j = Some e"
proof -
  have stuck: "\<not> is_transition_allowed s t" for t
    using assms(4) all_job_states_complete [of t] by (auto simp: dead_end_def list_all_iff)
  moreover have "s \<noteq> AWAITING_PAID_APPROVAL"
    using assms(4) by (auto simp: dead_end_iff)
  ultimately show ?thesis
    using assms by (cases rule: ledger_step.cases [OF assms(1)]) (auto simp del: state_value.simps)
qed

lemma ledger_run_invariants:
  assumes "ledger_run l l'"
  shows "trail_ok l \<Longrightarrow> trail_ok l'" "gate_ok l \<Longrightarrow> gate_ok l'"
    "l_jobs l j = Some e \<Longrightarrow> e_state e = state_value s \<Longrightarrow> dead_end s \<Longrightarrow> l_jobs l' j = Some e"
  using assms
  by (induction rule: ledger_run.induct) (auto intro: trail_ok_step gate_ok_step final_step)

lemma ledger_run_attempts:
  assumes "ledger_run l l'" "trail_ok l" "attempts_ok l"
  shows "attempts_ok l'"
  using assms
  by (induction rule: ledger_run.induct) (auto intro: attempts_ok_step ledger_run_invariants(1))

end
