(* ===== verification/AuditRefinement.thy ===== *)
theory AuditRefinement
  imports AuditSpec JobTransitions Leases Callbacks
begin

text \<open>
  The transactions of the program refine the ledger of \<^theory_text>\<open>AuditSpec\<close>: \<open>ledger_of\<close> abstracts a
  database, and every committed transaction is a \<open>ledger_step\<close> between the abstractions.  Most are
  quiet (they leave the ledger alone); planning, state changes, approval and dispatch are not.
\<close>

section \<open>The abstraction\<close>

definition entry_of :: "job \<Rightarrow> entry" where
  "entry_of j = \<lparr>e_state = j_state j, e_snapshot_hash = j_snapshot_hash j, e_plan = j_plan_fingerprint j,
     e_approved_plan = j_approved_plan_fingerprint j, e_approval_id = j_approval_record_id j,
     e_attempt = j_attempt j\<rparr>"

definition job_entry :: "job \<Rightarrow> pystr \<times> entry" where
  "job_entry j = (j_job_id j, entry_of j)"

definition log_line_of :: "transition \<Rightarrow> log_line" where
  "log_line_of t = (t_job_id t, t_from_state t, t_to_state t)"

definition ledger_of :: "db \<Rightarrow> ledger" where
  "ledger_of d = \<lparr>l_jobs = map_of (map job_entry (jobs d)), l_log = map log_line_of (transitions d),
     l_approvals = approvals d\<rparr>"

definition quiet :: "db \<Rightarrow> db \<Rightarrow> bool" where
  "quiet d d' = (map job_entry (jobs d') = map job_entry (jobs d) \<and> transitions d' = transitions d
     \<and> approvals d' = approvals d)"

lemma quiet_ledger: "quiet d d' \<Longrightarrow> ledger_of d' = ledger_of d"
  by (simp add: quiet_def ledger_of_def)

lemma quiet_refl [simp]: "quiet d d"
  by (simp add: quiet_def)

lemma quiet_trans: "quiet a b \<Longrightarrow> quiet b c \<Longrightarrow> quiet a c"
  by (simp add: quiet_def)

lemma quiet_step: "quiet d d' \<Longrightarrow> ledger_step (ledger_of d) (ledger_of d')"
  by (simp add: quiet_ledger ledger_stay)

section \<open>Quiet statements\<close>

text \<open>\<open>keeps_entry f\<close>: the SET clause touches no column of the ledger.\<close>

definition keeps_entry :: "(job \<Rightarrow> job) \<Rightarrow> bool" where
  "keeps_entry f = (\<forall>j. job_entry (f j) = job_entry j)"

lemma update_jobs_quiet:
  assumes "update_jobs cols P f d = Inr (d', n)" "keeps_entry f"
  shows "quiet d d'"
proof -
  obtain js where "sql_update False (job_update_check (approvals d, cols)) P f [] (jobs d) = Inr (js, n)"
    and d': "d' = d\<lparr>jobs := js\<rparr>"
    using assms(1) by (auto simp: update_jobs_def bnd_eq_Inr)
  from sql_update_strict [OF this(1)] have "js = map (\<lambda>r. if P r then f r else r) (jobs d)" by simp
  then have "map job_entry js = map job_entry (jobs d)"
    using assms(2) by (simp add: keeps_entry_def)
  then show ?thesis by (simp add: quiet_def d')
qed

lemma job_write_quiet: "job_write cols P f d = Inr (b, d') \<Longrightarrow> keeps_entry f \<Longrightarrow> quiet d d'"
  by (auto simp: job_write_def bnd_eq_Inr intro: update_jobs_quiet)

lemma update_runs_quiet: "update_runs P f d = Inr (d', n) \<Longrightarrow> quiet d d'"
  by (auto simp: update_runs_def bnd_eq_Inr quiet_def)

lemma run_write_quiet: "run_write P f d = Inr (b, d') \<Longrightarrow> quiet d d'"
  by (auto simp: run_write_def bnd_eq_Inr intro: update_runs_quiet)

lemma insert_run_quiet: "insert_run ign r d = Inr d' \<Longrightarrow> quiet d d'"
  by (auto simp: insert_run_def quiet_def split: if_splits)

lemma run_then_quiet:
  assumes "run_then P f g d = Inr (b, d')" "\<And>d1 b d2. g d1 = Inr (b, d2) \<Longrightarrow> quiet d1 d2"
  shows "quiet d d'"
  using assms(1)
  by (cases rule: run_then_cases) (blast intro: quiet_trans update_runs_quiet assms(2))+

lemma consume_stage_retry_quiet: "consume_stage_retry k s now d = Inr (u, d') \<Longrightarrow> quiet d d'"
  by (auto simp: consume_stage_retry_def bnd_eq_Inr Let_def quiet_def split: if_splits)

lemma then_consume_retry_quiet: "then_consume_retry k s now d = Inr (b, d') \<Longrightarrow> quiet d d'"
  by (auto simp: then_consume_retry_def bnd_eq_Inr intro: consume_stage_retry_quiet)

lemma claim_result_quiet: "claim_result k (d1, n) = Inr (r, d') \<Longrightarrow> quiet d d1 \<Longrightarrow> quiet d d'"
  by (auto dest: claim_result_safe)

lemmas keeps_entry_defs = keeps_entry_def job_entry_def entry_of_def reconcile_job_def

section \<open>Quiet operations of the runner repository\<close>

lemma settle_quiet: "settle s now k tok d = Inr (b, d') \<Longrightarrow> quiet d d'"
  by (cases s; simp only: settle.simps settle_op_defs run_write_as_then; erule run_then_quiet)
    (auto simp: canceled_job_stage_def keeps_entry_defs split: if_splits
      dest: job_write_quiet then_consume_retry_quiet)

lemma begin_cancel_stage_quiet: "begin_cancel_stage k tok now d = Inr (b, d') \<Longrightarrow> quiet d d'"
  unfolding begin_cancel_stage_def by (rule run_write_quiet)

lemma claim_existing_run_quiet: "claim_existing_run k ss now tok ex d = Inr (r, d') \<Longrightarrow> quiet d d'"
  by (auto simp: claim_existing_run_def bnd_eq_Inr split: if_splits
      intro: claim_result_quiet update_runs_quiet)

lemma claim_canceled_lookup_quiet: "claim_canceled_lookup k tok ex now d = Inr (r, d') \<Longrightarrow> quiet d d'"
  by (auto simp: claim_canceled_lookup_def bnd_eq_Inr intro: claim_result_quiet update_runs_quiet)

lemma record_heartbeat_quiet: "record_heartbeat i now d = Inr (u, d') \<Longrightarrow> quiet d d'"
  by (auto simp: record_heartbeat_def quiet_def split: if_splits)

lemma update_running_stage_quiet: "update_running_stage k s d = Inr (b, d') \<Longrightarrow> quiet d d'"
  unfolding update_running_stage_def by (erule job_write_quiet) (simp add: keeps_entry_defs)

lemma reconcile_poll_after_local_cancel_quiet:
  "reconcile_poll_after_local_cancel k t now d = Inr (b, d') \<Longrightarrow> quiet d d'"
  unfolding reconcile_poll_after_local_cancel_def by (auto split: if_splits intro: run_write_quiet)

lemma reconcile_terminal_after_local_cancel_quiet:
  "reconcile_terminal_after_local_cancel k now d = Inr (b, d') \<Longrightarrow> quiet d d'"
  unfolding reconcile_terminal_after_local_cancel_def by (rule run_write_quiet)

lemma mark_observed_reconciliation_required_quiet:
  "mark_observed_reconciliation_required k c s now d = Inr (b, d') \<Longrightarrow> quiet d d'"
  unfolding mark_observed_reconciliation_required_def
  by (erule run_then_quiet) (erule job_write_quiet, simp add: keeps_entry_defs)

lemma quarantine_running_dispatch_quiet:
  "quarantine_running_dispatch k c s now d = Inr (b, d') \<Longrightarrow> quiet d d'"
  unfolding quarantine_running_dispatch_def
  by (erule run_then_quiet) (erule job_write_quiet, simp add: keeps_entry_defs)

lemma mark_cancel_reconciliation_required_quiet:
  "mark_cancel_reconciliation_required k now d = Inr (b, d') \<Longrightarrow> quiet d d'"
  unfolding mark_cancel_reconciliation_required_def
  by (erule run_then_quiet) (erule job_write_quiet, simp add: keeps_entry_defs)

lemma quarantine_invalid_quiet:
  "quarantine_invalid_scheduler_timestamps k now d = Inr (b, d') \<Longrightarrow> quiet d d'"
  unfolding quarantine_invalid_scheduler_timestamps_def bnd_eq_Inr
  by (auto simp: bnd_eq_Inr keeps_entry_defs split: if_splits
      dest!: update_runs_quiet job_write_quiet intro: quiet_trans)

lemma mark_reconciliation_required_quiet:
  "mark_reconciliation_required k key now d = Inr (u, d') \<Longrightarrow> quiet d d'"
  unfolding mark_reconciliation_required_def bnd_eq_Inr
  by (auto simp: bnd_eq_Inr keeps_entry_defs split: if_splits
      dest!: insert_run_quiet update_jobs_quiet intro: quiet_trans)

lemma quarantine_queued_job_quiet:
  assumes "quarantine_queued_job k c s now d = Inr (b, d')"
  shows "quiet d d'"
proof -
  have tail: "quiet d1 d'" if "run_then P f (job_write cols Q (reconcile_job c s)) d1 = Inr (b, d')" for P f cols Q d1
    using that by (rule run_then_quiet) (erule job_write_quiet, simp add: keeps_entry_defs)
  from assms show ?thesis
    unfolding quarantine_queued_job_def bnd_eq_Inr
    by (auto simp: bnd_eq_Inr split: if_splits dest!: insert_run_quiet tail intro: quiet_trans)
qed

section \<open>Quiet operations of the job repository and the services\<close>

lemma supersede_pending_jobs_quiet: "supersede_pending_jobs c b r d = Inr (u, d') \<Longrightarrow> quiet d d'"
  by (auto simp: supersede_pending_jobs_def bnd_eq_Inr keeps_entry_defs intro: update_jobs_quiet)

lemma bind_artifact_manifest_quiet: "bind_artifact_manifest c j m d = Inr (b, d') \<Longrightarrow> quiet d d'"
  by (auto simp: bind_artifact_manifest_def bnd_eq_Inr keeps_entry_defs split: if_splits
      intro: update_jobs_quiet)

lemma bind_manifest_body_cases:
  assumes "bind_manifest_body x store c j d = Inr (sj, d')"
  shows "d' = d \<or> (\<exists>m b. bind_artifact_manifest c j m d = Inr (b, d'))"
  using assms unfolding bind_manifest_body_def
  by (auto simp: bnd_eq_Inr split: option.splits if_splits)

lemma bind_manifest_body_quiet: "bind_manifest_body x store c j d = Inr (sj, d') \<Longrightarrow> quiet d d'"
  by (auto dest!: bind_manifest_body_cases intro: bind_artifact_manifest_quiet)

lemma bind_manifest_body_safe: "bind_manifest_body x store c j d = Inr (sj, d') \<Longrightarrow> safe_step d d'"
  by (auto dest!: bind_manifest_body_cases intro: bind_artifact_manifest_safe)

lemma add_snapshot_quiet: "add_snapshot sn d = Inr (u, d') \<Longrightarrow> quiet d d'"
  by (auto simp: add_snapshot_def bnd_eq_Inr quiet_def split: if_splits)

lemma accept_body_quiet: "accept_body x c j h k n r e d = Inr (b, d') \<Longrightarrow> quiet d d'"
  unfolding accept_body_def
  by (auto simp: bnd_eq_Inr consume_nonce_def record_receipt_def Let_def quiet_def
      split: if_splits sum.splits)

section \<open>Statements that hit one job\<close>

lemma job_check_hit:
  assumes upd: "sql_update ign (job_update_check (approvals d, cols)) P f [] (jobs d) = Inr (js, n)"
    and "n = 1" "schema_ok d" "\<And>j. P j \<Longrightarrow> j_job_id j = k"
  obtains us j vs where "jobs d = us @ j # vs" "P j" "js = us @ f j # vs" "j_job_id (f j) = k"
    "job_update_check (approvals d, cols) (us @ vs) j (f j) = Pass"
proof -
  have dist: "distinct (map j_job_id (jobs d))"
    using assms(3) by (simp add: schema_ok_def jobs_table.table_ok_def)
  have upd': "sql_update ign (job_update_check (approvals d, cols)) P f [] (jobs d) = Inr (js, 1)"
    using upd assms(2) by simp
  from jobs_table.update_by_key [OF upd' dist assms(4)] obtain us j vs others where
    1: "jobs d = us @ j # vs" "P j" "js = us @ f j # vs" "j_job_id j = k"
    "job_update_check (approvals d, cols) others j (f j) = Pass" by auto
  moreover have "\<not> P r" if "r \<in> set (us @ vs)" for r
    using that dist 1(1,2) assms(4) by (force simp: image_iff)
  ultimately have "job_update_check (approvals d, cols) (us @ vs) j (f j) = Pass"
    using upd' sql_update_one [of us vs P j ign "job_update_check (approvals d, cols)" f "[]"]
    by (auto split: verdict.splits if_splits)
  with 1 jobs_table.chk_key [OF this] show ?thesis by (intro that) auto
qed

lemma update_jobs_hit:
  assumes "update_jobs cols P f d = Inr (d', 1)" "schema_ok d" "\<And>j. P j \<Longrightarrow> j_job_id j = k"
  obtains us j vs where "jobs d = us @ j # vs" "P j" "d' = d\<lparr>jobs := us @ f j # vs\<rparr>"
    "j_job_id (f j) = k" "job_update_check (approvals d, cols) (us @ vs) j (f j) = Pass"
  using assms(1) by (auto simp: update_jobs_def bnd_eq_Inr elim!: job_check_hit [OF _ _ assms(2,3)] intro: that)

lemma update_or_ignore_jobs_hit:
  assumes "update_or_ignore_jobs cols P f d = Inr (d', 1)" "schema_ok d" "\<And>j. P j \<Longrightarrow> j_job_id j = k"
  obtains us j vs where "jobs d = us @ j # vs" "P j" "d' = d\<lparr>jobs := us @ f j # vs\<rparr>"
    "j_job_id (f j) = k" "job_update_check (approvals d, cols) (us @ vs) j (f j) = Pass"
  using assms(1)
  by (auto simp: update_or_ignore_jobs_def bnd_eq_Inr elim!: job_check_hit [OF _ _ assms(2,3)] intro: that)

lemma ledger_job:
  assumes "schema_ok d" "jobs d = us @ j # vs"
  shows "l_jobs (ledger_of d) (j_job_id j) = Some (entry_of j)"
    and "j_job_id j' = j_job_id j \<Longrightarrow>
      map_of (map job_entry (us @ j' # vs)) = (l_jobs (ledger_of d))(j_job_id j \<mapsto> entry_of j')"
proof -
  have "j_job_id j \<notin> fst ` set (map job_entry us)"
    using assms by (auto simp: schema_ok_def jobs_table.table_ok_def job_entry_def image_iff)
  then have "map_of (map job_entry us) (j_job_id j) = None"
    by (simp add: map_of_eq_None_iff)
  then show "l_jobs (ledger_of d) (j_job_id j) = Some (entry_of j)"
    "j_job_id j' = j_job_id j \<Longrightarrow>
      map_of (map job_entry (us @ j' # vs)) = (l_jobs (ledger_of d))(j_job_id j \<mapsto> entry_of j')"
    using assms(2) by (auto simp: ledger_of_def job_entry_def map_add_def fun_eq_iff split: option.splits)
qed

lemma same_job:
  assumes "schema_ok d" "r \<in> set (jobs d)" "j \<in> set (jobs d)" "j_job_id j = j_job_id r"
  shows "j = r"
  using assms by (auto simp: schema_ok_def jobs_table.table_ok_def distinct_map dest: inj_onD)

text \<open>The audit row a service appends.\<close>

lemma append_transition_cases:
  assumes "append_transition c j f t at reason d = Inr (u, d')"
  obtains "d' = d\<lparr>transitions := transitions d @ [\<lparr>t_job_id = j, t_from_state = f, t_to_state = t,
      t_reason_summary = reason, t_occurred_at = at\<rparr>]\<rparr>" "\<exists>r \<in> set (jobs d). j_company_id r = c \<and> j_job_id r = j"
proof -
  let ?hits = "filter (\<lambda>r. j_company_id r = c \<and> j_job_id r = j) (jobs d)"
  from assms obtain r where r: "?hits = [r]"
    by (auto simp: append_transition_def Let_def length_Suc_conv split: if_splits)
  then have "r \<in> set ?hits" by simp
  then have "j_company_id r = c" "j_job_id r = j" "r \<in> set (jobs d)" by simp_all
  with assms r show ?thesis by (intro that) (auto simp: append_transition_def)
qed

text \<open>A job row changes state and the change is logged: the ledger moves.\<close>

lemma logged_move:
  assumes "schema_ok d" "jobs d = us @ j # vs" "j_state j = state_value s" "j_job_id j' = j_job_id j"
    and "entry_of j' = moved_entry s t (entry_of j)" "is_transition_allowed s t"
    and "\<not> (s = AWAITING_PAID_APPROVAL \<and> t = QUEUED)"
    and "log_line_of tr = (j_job_id j, Some (state_value s), state_value t)"
    and "jobs d' = us @ j' # vs" "transitions d' = transitions d @ [tr]" "approvals d' = approvals d"
  shows "ledger_step (ledger_of d) (ledger_of d')"
proof -
  have "ledger_of d' = (ledger_of d)
      \<lparr>l_jobs := (l_jobs (ledger_of d))(j_job_id j \<mapsto> moved_entry s t (entry_of j)),
       l_log := l_log (ledger_of d) @ [(j_job_id j, Some (state_value s), state_value t)]\<rparr>"
    using ledger_job(2) [OF assms(1,2,4)] assms(5,8-11) by (simp add: ledger_of_def)
  moreover have "e_state (entry_of j) = state_value s" using assms(3) by (simp add: entry_of_def)
  ultimately show ?thesis
    using ledger_move [OF ledger_job(1) [OF assms(1,2)] _ assms(6,7)] by simp
qed

section \<open>State changes\<close>

lemma transition_guard_edge:
  "transition_guard x d c r actual expected target now = Inr u
   \<Longrightarrow> actual = expected \<and> is_transition_allowed actual target \<and> (actual, target) \<notin> set reserved_approval_edges"
  by (auto simp: transition_guard_def split: if_splits)

lemma apply_transition_cases:
  assumes "apply_transition x c r actual target reason ec cs clock d = Inr (sj, d')"
  obtains code summary d1 where
    "transition_errors r actual target reason ec = Inr (code, summary)"
    "compare_and_swap_state c (j_job_id r) (state_value actual) (state_value target)
       (transition_attempt r actual target) (transition_started r target (isoformat clock))
       (transition_finished r target (isoformat clock)) (coalesce cs (j_current_stage r)) code summary d
     = Inr (True, d1)"
    "append_transition c (j_job_id r) (Some (state_value actual)) (state_value target) (isoformat clock)
       (Some reason) d1 = Inr ((), d')"
  using assms unfolding apply_transition_def Let_def bnd_eq_Inr
  by (auto simp: bnd_eq_Inr split: if_splits)

lemma transition_body_cases:
  assumes "transition_body x c j expected target reason ec cs clock d = Inr (sj, d')"
  obtains (again) r where "get_job d c j = Inr r" "domain_job r = Inr sj" "sj_state sj = CANCELED" "target = CANCELED" "d' = d"
    | (moved) r sj0 where "get_job d c j = Inr r" "domain_job r = Inr sj0"
        "\<not> (sj_state sj0 = CANCELED \<and> target = CANCELED)"
        "transition_guard x d c r (sj_state sj0) expected target clock = Inr ()"
        "apply_transition x c r (sj_state sj0) target reason ec cs clock d = Inr (sj, d')"
  using assms unfolding transition_body_def
  by (auto simp: bnd_eq_Inr split: if_splits)

text \<open>What a compare-and-swap that succeeds has done.\<close>

definition swap_state ::
  "pystr \<Rightarrow> int \<Rightarrow> pystr option \<Rightarrow> pystr option \<Rightarrow> pystr option \<Rightarrow> pystr option \<Rightarrow> pystr option \<Rightarrow> job \<Rightarrow> job" where
  "swap_state t att started finished stage code summary j =
     j\<lparr>j_state := t, j_attempt := att, j_started_at := started, j_finished_at := finished,
       j_current_stage := stage, j_error_code := code, j_error_summary := summary\<rparr>"

lemma compare_and_swap_hit:
  assumes "compare_and_swap_state c k e t att s f cs ec es d = Inr (True, d')" "schema_ok d"
  obtains us j vs where "jobs d = us @ j # vs" "j_company_id j = c" "j_job_id j = k" "j_state j = e"
    "j_superseded_by_job_id j = None" "d' = d\<lparr>jobs := us @ swap_state t att s f cs ec es j # vs\<rparr>"
proof -
  from assms(1) have "update_jobs
      [''state'', ''attempt'', ''started_at'', ''finished_at'', ''current_stage'', ''error_code'', ''error_summary'']
      (\<lambda>j. j_company_id j = c \<and> j_job_id j = k \<and> j_state j = e \<and> j_superseded_by_job_id j = None)
      (swap_state t att s f cs ec es) d = Inr (d', 1)"
    by (auto simp: compare_and_swap_state_def swap_state_def [abs_def] bnd_eq_Inr)
  then show ?thesis
  proof (rule update_jobs_hit [OF _ assms(2), of _ _ _ _ k])
    fix us j vs
    assume "jobs d = us @ j # vs"
      "j_company_id j = c \<and> j_job_id j = k \<and> j_state j = e \<and> j_superseded_by_job_id j = None"
      "d' = d\<lparr>jobs := us @ swap_state t att s f cs ec es j # vs\<rparr>"
    then show thesis by (intro that) simp_all
  qed simp
qed

lemma transition_body_refines:
  assumes "schema_ok d" "transition_body x c k expected target reason ec cs clock d = Inr (sj, d')"
  shows "ledger_step (ledger_of d) (ledger_of d')"
  using assms(2)
proof (cases rule: transition_body_cases)
  case (again r)
  then show ?thesis by (simp add: ledger_stay)
next
  case (moved r sj0)
  let ?s = "sj_state sj0"
  from transition_guard_edge [OF moved(4)] have edge: "is_transition_allowed ?s target"
    "\<not> (?s = AWAITING_PAID_APPROVAL \<and> target = QUEUED)"
    by (auto simp: reserved_approval_edges_def)
  from moved(5) obtain code summary d1 where d1:
    "compare_and_swap_state c (j_job_id r) (state_value ?s) (state_value target)
       (transition_attempt r ?s target) (transition_started r target (isoformat clock))
       (transition_finished r target (isoformat clock)) (coalesce cs (j_current_stage r)) code summary d
     = Inr (True, d1)"
    "append_transition c (j_job_id r) (Some (state_value ?s)) (state_value target) (isoformat clock)
       (Some reason) d1 = Inr ((), d')"
    by (rule apply_transition_cases)
  from d1(1) assms(1) obtain us j vs where hit: "jobs d = us @ j # vs" "j_job_id j = j_job_id r"
    "j_state j = state_value ?s"
    "d1 = d\<lparr>jobs := us @ swap_state (state_value target) (transition_attempt r ?s target)
        (transition_started r target (isoformat clock)) (transition_finished r target (isoformat clock))
        (coalesce cs (j_current_stage r)) code summary j # vs\<rparr>"
    by (rule compare_and_swap_hit)
  have "j = r" using same_job [OF assms(1), of r j] get_job_Inr [OF moved(1)] hit(1,2) by simp
  with d1(2) show ?thesis
    by (elim append_transition_cases)
      (rule logged_move [OF assms(1) hit(1,3) _ _ edge],
        auto simp: hit swap_state_def entry_of_def log_line_of_def moved_entry_def transition_attempt_def
          retry_edge_def)
qed

lemma transition_body_safe:
  assumes "transition_body x c k expected target reason ec cs clock d = Inr (sj, d')"
  shows "safe_step d d'"
  using assms
  by (cases rule: transition_body_cases)
    (auto elim!: apply_transition_cases dest!: compare_and_swap_state_safe append_transition_op_safe
      intro: safe_step_trans)

section \<open>Dispatch\<close>

lemma dispatch_rows_one:
  assumes "length (dispatch_rows k now d) = 1"
  obtains tr where "dispatch_rows k now d = [tr]" "log_line_of tr = (k_job_id k, Some ''QUEUED'', ''RUNNING'')"
proof -
  let ?hits = "filter (\<lambda>j. at_job k j \<and> j_state j = ''RUNNING'' \<and> j_current_stage j = Some ''dispatching'') (jobs d)"
  from assms obtain j where j: "?hits = [j]"
    by (auto simp: dispatch_rows_def length_Suc_conv)
  then have "j \<in> set ?hits" by simp
  then have "j_job_id j = k_job_id k" by (simp add: at_job_def)
  with j show ?thesis by (intro that) (auto simp: dispatch_rows_def log_line_of_def)
qed

lemma start_dispatch_refines:
  assumes "schema_ok d" "start_dispatch k now d = Inr (u, d')"
  shows "ledger_step (ledger_of d) (ledger_of d')"
proof -
  from assms(2) obtain d1 where d1: "update_jobs [''state'', ''current_stage'', ''started_at'']
       (\<lambda>j. at_job k j \<and> j_state j = ''QUEUED'' \<and> j_superseded_by_job_id j = None)
       (\<lambda>j. j\<lparr>j_state := ''RUNNING'', j_current_stage := Some ''dispatching'',
             j_started_at := coalesce (j_started_at j) (Some now)\<rparr>) d = Inr (d1, 1)"
    "length (dispatch_rows k now d1) = 1"
    "d' = d1\<lparr>transitions := transitions d1 @ dispatch_rows k now d1\<rparr>"
    by (rule start_dispatch_cases)
  from d1(2) obtain tr where tr: "dispatch_rows k now d1 = [tr]"
    "log_line_of tr = (k_job_id k, Some ''QUEUED'', ''RUNNING'')" by (rule dispatch_rows_one)
  from d1(1) assms(1) show ?thesis
  proof (rule update_jobs_hit [where k = "k_job_id k"])
    fix j assume "at_job k j \<and> j_state j = ''QUEUED'' \<and> j_superseded_by_job_id j = None"
    then show "j_job_id j = k_job_id k" by (simp add: at_job_def)
  next
    fix us vs :: "job list" and j :: job
    let ?j' = "j\<lparr>j_state := ''RUNNING'', j_current_stage := Some ''dispatching'',
             j_started_at := coalesce (j_started_at j) (Some now)\<rparr>"
    assume hit: "jobs d = us @ j # vs" "at_job k j \<and> j_state j = ''QUEUED'' \<and> j_superseded_by_job_id j = None"
      "d1 = d\<lparr>jobs := us @ ?j' # vs\<rparr>"
    have "is_transition_allowed QUEUED RUNNING"
      by (simp add: is_transition_allowed_def ALLOWED_TRANSITIONS_def)
    with hit tr d1(3) show ?thesis
      by (intro logged_move [OF assms(1) hit(1), where s = QUEUED and t = RUNNING and j' = ?j' and tr = tr])
        (simp_all add: entry_of_def at_job_def moved_entry_def retry_edge_def)
  qed
qed

lemma claim_submission_refines:
  assumes "schema_ok d" "claim_submission k key ex now tok expires d = Inr (res, d')"
  shows "ledger_step (ledger_of d) (ledger_of d')"
proof -
  have leased: "quiet d d2 \<and> schema_ok d2"
    if ins: "insert_submission k key ex now tok expires d = Inr d1"
      and lease: "lease_submission k key ex now tok expires d1 = Inr (d2, n)" for d1 d2 n
  proof
    have "quiet d d1" using ins by (auto simp: insert_submission_def split: if_splits intro: insert_run_quiet)
    moreover have "quiet d1 d2" using lease unfolding lease_submission_def by (rule update_runs_quiet)
    ultimately show "quiet d d2" by (rule quiet_trans)
    show "schema_ok d2"
      using insert_submission_safe [OF ins] lease_submission_safe [OF lease] assms(1)
      by (simp add: safe_step_def)
  qed
  from assms(2) show ?thesis
  proof (cases rule: claim_submission_cases)
    case (none d1 d2 n)
    then show ?thesis using leased quiet_step by blast
  next
    case (won d1 d2 r)
    with leased have d2: "quiet d d2" "schema_ok d2" by blast+
    with won(5) start_dispatch_refines quiet_ledger show ?thesis
      by (metis ledger_stay)
  qed
qed

lemma claim_run_refines:
  assumes "schema_ok d" "claim_run c k now tok expires d = Inr (res, d')"
  shows "ledger_step (ledger_of d) (ledger_of d')"
  using assms
  by (cases c) (auto intro: quiet_step claim_existing_run_quiet claim_canceled_lookup_quiet claim_submission_refines)

section \<open>Planning\<close>

lemma plan_body_cases:
  assumes "plan_body x c sid plan pj pf now job_id d = Inr (p, d')"
  obtains sn bf creator d1 d2 where
    "add_job (planned_row sn job_id bf creator now pj pf) d = Inr ((), d1)"
    "supersede_pending_jobs c creator job_id d1 = Inr ((), d2)"
    "append_transition c job_id None (state_value PLANNED) now None d2 = Inr ((), d')"
proof -
  obtain sn where 1: "(case context_brief sn of None \<Rightarrow> Inl DataIntegrityError
      | Some brief \<Rightarrow>
          (case jget ''created_by'' brief of
             Some (JStr created_by) \<Rightarrow>
               if \<not> brief_matches sn brief then Inl DataIntegrityError else
               bnd (sha256_fingerprint (ext_sha256 x) (JObj brief)) (\<lambda>brief_fingerprint.
               bnd (add_job (planned_row sn job_id brief_fingerprint created_by now pj pf) d) (\<lambda>(_, d1).
               bnd (supersede_pending_jobs c created_by job_id d1) (\<lambda>(_, d2).
               bnd (append_transition c job_id None (state_value PLANNED) now None d2) (\<lambda>(_, d3).
                 Inr (\<lparr>pj_job_id = job_id, pj_snapshot_id = sid,
                       pj_snapshot_hash = sn_snapshot_hash sn, pj_plan = plan,
                       pj_plan_fingerprint = pf, pj_state = PLANNED\<rparr>, d3)))))
           | _ \<Rightarrow> Inl DataIntegrityError)) = Inr (p, d')"
    using assms unfolding plan_body_def bnd_eq_Inr by blast
  then obtain brief where 2: "context_brief sn = Some brief" by (cases "context_brief sn") auto
  obtain v where 3: "jget ''created_by'' brief = Some v"
    using 1 2 by (cases "jget ''created_by'' brief") auto
  obtain creator where 4: "v = JStr creator"
    using 1 2 3 by (cases v) auto
  from 1 show ?thesis
    by (auto simp: 2 3 4 bnd_eq_Inr split: if_splits intro: that)
qed

lemma add_job_cases:
  assumes "add_job job d = Inr (u, d')"
  shows "d' = d\<lparr>jobs := jobs d @ [job]\<rparr> \<and> (\<forall>j \<in> set (jobs d). j_job_id j \<noteq> j_job_id job)"
  using assms by (auto simp: add_job_def job_insert_ok_def list_all_iff split: option.splits if_splits)

lemma plan_body_refines:
  assumes "plan_body x c sid plan pj pf now job_id d = Inr (p, d')"
  shows "ledger_step (ledger_of d) (ledger_of d')"
  using assms
proof (rule plan_body_cases)
  fix sn bf creator d1 d2
  let ?row = "planned_row sn job_id bf creator now pj pf"
  assume add: "add_job ?row d = Inr ((), d1)"
    and sup: "supersede_pending_jobs c creator job_id d1 = Inr ((), d2)"
    and log: "append_transition c job_id None (state_value PLANNED) now None d2 = Inr ((), d')"
  have id: "j_job_id ?row = job_id" by (simp add: planned_row_def)
  from add_job_cases [OF add] id have d1: "d1 = d\<lparr>jobs := jobs d @ [?row]\<rparr>"
    and new: "\<forall>j \<in> set (jobs d). j_job_id j \<noteq> job_id" by simp_all
  have none: "map_of (map job_entry (jobs d)) job_id = None"
    using new by (auto simp: map_of_eq_None_iff job_entry_def)
  then have "map_of (map job_entry (jobs d1)) = (map_of (map job_entry (jobs d)))(job_id \<mapsto> entry_of ?row)"
    using id by (auto simp: d1 job_entry_def map_add_def fun_eq_iff split: option.splits)
  moreover from sup have "quiet d1 d2" by (rule supersede_pending_jobs_quiet)
  moreover from log obtain tr where "d' = d2\<lparr>transitions := transitions d2 @ [tr]\<rparr>"
    "log_line_of tr = (job_id, None, state_value PLANNED)"
    by (rule append_transition_cases) (simp add: log_line_of_def)
  ultimately have "ledger_of d' = (ledger_of d)
      \<lparr>l_jobs := (l_jobs (ledger_of d))(job_id \<mapsto> entry_of ?row),
       l_log := l_log (ledger_of d) @ [(job_id, None, state_value PLANNED)]\<rparr>"
    by (simp add: ledger_of_def quiet_def d1)
  with none show ?thesis
    using ledger_plan [of "ledger_of d" job_id "entry_of ?row"]
    by (simp add: ledger_of_def entry_of_def planned_row_def)
qed

lemma plan_body_safe:
  assumes "plan_body x c sid plan pj pf now job_id d = Inr (p, d')"
  shows "safe_step d d'"
  using assms
  by (rule plan_body_cases) (blast dest: job_repository_safe intro: safe_step_trans)

section \<open>Approval\<close>

lemma make_approval_record_id: "make_approval_record a = Inr b \<Longrightarrow> b = a"
  by (auto simp: make_approval_record_def split: if_splits option.splits)

definition paid_record :: "job \<Rightarrow> pystr \<Rightarrow> pystr \<Rightarrow> instant \<Rightarrow> pystr \<Rightarrow> approval_record" where
  "paid_record r stored actor clock approval_id =
     \<lparr>approval_record_id = approval_id, approval_job_id = j_job_id r,
      approval_type = ''paid_execution'', approval_snapshot_hash = j_snapshot_hash r,
      approval_plan_fingerprint = stored, approved_by = actor, approved_at = clock, expires_at = None\<rparr>"

lemma approve_body_cases:
  assumes "approve_body x c k actor sh pf clock aid d = Inr (ap, d')"
  obtains r plan d1 d2 where "get_job d c k = Inr r"
    "j_state r = state_value AWAITING_PAID_APPROVAL" "j_superseded_by_job_id r = None" "\<not> blank actor"
    "require_plan_integrity x r = Inr plan" "j_plan_fingerprint r = Some pf" "sh = j_snapshot_hash r"
    "ap = paid_record r pf actor clock aid" "add_approval c ap d = Inr ((), d1)"
    "bind_paid_approval c k (state_value AWAITING_PAID_APPROVAL) pf aid d1 = Inr (True, d2)"
    "append_transition c k (Some (state_value AWAITING_PAID_APPROVAL)) (state_value QUEUED) (isoformat clock)
       None d2 = Inr ((), d')"
proof -
  obtain r where 1: "get_job d c k = Inr r" using assms by (auto simp: approve_body_def bnd_eq_Inr)
  then have k: "j_job_id r = k" using get_job_Inr by blast
  obtain plan where 2: "require_plan_integrity x r = Inr plan"
    using assms 1 by (cases "require_plan_integrity x r") (auto simp: approve_body_def bnd_eq_Inr split: if_splits)
  obtain stored where 3: "j_plan_fingerprint r = Some stored"
    using assms 1 2 by (cases "j_plan_fingerprint r") (auto simp: approve_body_def bnd_eq_Inr split: if_splits)
  have id: "approval_record_id (paid_record r s actor clock aid) = aid" for s by (simp add: paid_record_def)
  from assms show ?thesis
    unfolding approve_body_def paid_record_def [symmetric]
    by (auto simp: bnd_eq_Inr 1 2 3 k id simp del: state_value.simps split: if_splits
        dest!: make_approval_record_id intro!: that [OF 1 _ _ _ 2])
qed

lemma add_approval_cases:
  assumes "add_approval c ap d = Inr (u, d')"
  shows "d' = d\<lparr>approvals := approvals d @ [\<lparr>a_approval_record_id = approval_record_id ap, a_job_id = approval_job_id ap,
                 a_approval_type = approval_type ap, a_snapshot_hash = approval_snapshot_hash ap,
                 a_plan_fingerprint = approval_plan_fingerprint ap, a_approved_by = approved_by ap,
                 a_approved_at = isoformat (approved_at ap),
                 a_expires_at = storage_timestamp (expires_at ap)\<rparr>]\<rparr>"
  using assms by (auto simp: add_approval_def Let_def split: if_splits)

text \<open>The row after the approval is bound.\<close>

definition queue_approved :: "pystr \<Rightarrow> pystr \<Rightarrow> job \<Rightarrow> job" where
  "queue_approved pf aid j = j\<lparr>j_state := ''QUEUED'', j_approved_plan_fingerprint := Some pf,
     j_approval_record_id := Some aid\<rparr>"

lemma bind_paid_approval_hit:
  assumes "bind_paid_approval c k e pf aid d = Inr (True, d')" "schema_ok d"
  obtains us j vs where "jobs d = us @ j # vs" "j_company_id j = c" "j_job_id j = k" "j_state j = e"
    "j_plan_fingerprint j = Some pf" "j_approval_record_id j = None" "j_superseded_by_job_id j = None"
    "d' = d\<lparr>jobs := us @ queue_approved pf aid j # vs\<rparr>"
proof -
  from assms(1) have "update_or_ignore_jobs [''state'', ''approved_plan_fingerprint'', ''approval_record_id'']
      (\<lambda>j. j_company_id j = c \<and> j_job_id j = k \<and> j_state j = e \<and> j_plan_fingerprint j = Some pf
        \<and> j_approved_plan_fingerprint j = None \<and> j_approval_record_id j = None \<and> j_superseded_by_job_id j = None)
      (queue_approved pf aid) d = Inr (d', 1)"
    by (auto simp: bind_paid_approval_def queue_approved_def [abs_def] bnd_eq_Inr)
  then show ?thesis
  proof (rule update_or_ignore_jobs_hit [OF _ assms(2), of _ _ _ _ k])
    fix us j vs
    assume "jobs d = us @ j # vs"
      "j_company_id j = c \<and> j_job_id j = k \<and> j_state j = e \<and> j_plan_fingerprint j = Some pf
        \<and> j_approved_plan_fingerprint j = None \<and> j_approval_record_id j = None \<and> j_superseded_by_job_id j = None"
      "d' = d\<lparr>jobs := us @ queue_approved pf aid j # vs\<rparr>"
    then show thesis by (intro that) simp_all
  qed simp
qed

lemma approve_body_refines:
  assumes ok: "schema_ok d" and res: "approve_body x c k actor sh pf clock aid d = Inr (ap, d')"
  shows "ledger_step (ledger_of d) (ledger_of d')"
  using res
proof (rule approve_body_cases)
  fix r plan d1 d2
  assume r: "get_job d c k = Inr r" "ap = paid_record r pf actor clock aid" "j_plan_fingerprint r = Some pf"
    and add: "add_approval c ap d = Inr ((), d1)"
    and bind: "bind_paid_approval c k (state_value AWAITING_PAID_APPROVAL) pf aid d1 = Inr (True, d2)"
    and log: "append_transition c k (Some (state_value AWAITING_PAID_APPROVAL)) (state_value QUEUED)
      (isoformat clock) None d2 = Inr ((), d')"
  obtain a where a: "d1 = d\<lparr>approvals := approvals d @ [a]\<rparr>" "a_job_id a = j_job_id r"
    "a_approval_type a = ''paid_execution''" "a_snapshot_hash a = j_snapshot_hash r"
    "a_plan_fingerprint a = pf" "a_approval_record_id a = aid"
    using add_approval_cases [OF add] r(2) by (simp add: paid_record_def)
  have ok1: "schema_ok d1" using add_approval_safe [OF add] ok by (simp add: safe_step_def)
  from bind ok1 obtain us j vs where j: "jobs d1 = us @ j # vs" "j_job_id j = k"
    "j_state j = state_value AWAITING_PAID_APPROVAL" "j_approval_record_id j = None"
    "d2 = d1\<lparr>jobs := us @ queue_approved pf aid j # vs\<rparr>"
    by (rule bind_paid_approval_hit)
  have jobs: "jobs d = us @ j # vs" using j(1) a(1) by simp
  have "r \<in> set (jobs d)" "j_job_id r = k" using get_job_Inr [OF r(1)] by simp_all
  then have jr: "j = r" using same_job [OF ok, of r j] jobs j(2) by simp
  let ?e = "(entry_of j)\<lparr>e_state := state_value QUEUED, e_approved_plan := e_plan (entry_of j),
      e_approval_id := Some (a_approval_record_id a)\<rparr>"
  have entry: "entry_of (queue_approved pf aid j) = ?e"
    using r(3) jr a(6) by (simp add: entry_of_def queue_approved_def)
  have "map_of (map job_entry (us @ queue_approved pf aid j # vs)) = (l_jobs (ledger_of d))(k \<mapsto> ?e)"
    using ledger_job(2) [OF ok jobs, of "queue_approved pf aid j"] entry j(2) by (simp add: queue_approved_def)
  moreover from log obtain tr where "d' = d2\<lparr>transitions := transitions d2 @ [tr]\<rparr>"
    "log_line_of tr = (k, Some (state_value AWAITING_PAID_APPROVAL), state_value QUEUED)"
    by (rule append_transition_cases) (simp add: log_line_of_def)
  ultimately have "ledger_of d' = (ledger_of d)\<lparr>l_jobs := (l_jobs (ledger_of d))(k \<mapsto> ?e),
      l_log := l_log (ledger_of d) @ [(k, Some (state_value AWAITING_PAID_APPROVAL), state_value QUEUED)],
      l_approvals := l_approvals (ledger_of d) @ [a]\<rparr>"
    using j(5) a(1) by (simp add: ledger_of_def del: map_append map_of_append list.map state_value.simps) simp
  moreover have "approves a k (entry_of j)"
    using a jr j(2) r(3) by (simp add: approves_def entry_of_def)
  ultimately show ?thesis
    using ledger_approve [of "ledger_of d" k "entry_of j" a] ledger_job(1) [OF ok jobs] j(2-4)
    by (simp add: entry_of_def del: state_value.simps)
qed

lemma approve_body_safe:
  assumes "approve_body x c k actor sh pf clock aid d = Inr (ap, d')"
  shows "safe_step d d'"
  using assms
  by (rule approve_body_cases) (blast dest: job_repository_safe intro: safe_step_trans)

end
