(* ===== verification/System.thy ===== *)
theory System
  imports AuditRefinement
begin

text \<open>
  The system as a state machine over the database: a \<open>request\<close> names a transaction some process
  commits, \<open>serve\<close> is what it does, \<open>run_of_system\<close> is any sequence of them, by any number of services
  and runners in any order (SQLite serializes them: BEGIN IMMEDIATE).
\<close>

section \<open>Requests\<close>

text \<open>
  The transaction of \<open>Runner._poll\<close> that records what the executor answered and, while the execution
  goes on, the job's stage.
\<close>

definition record_poll_and_stage ::
  "candidate \<Rightarrow> pystr \<Rightarrow> poll_outcome \<Rightarrow> bool \<Rightarrow> pystr \<Rightarrow> db \<Rightarrow> exn + (bool \<times> db)" where
  "record_poll_and_stage k lease_token po ongoing now d =
     bnd (record_poll_status k lease_token po now d) (\<lambda>(recorded, d1).
       if \<not> ongoing then Inr (recorded, d1) else
       bnd (update_running_stage k (po_current_stage po) d1) (\<lambda>(updated, d2).
         if updated then Inr (recorded, d2) else
         bnd (stored_job_state d2 k) (\<lambda>s.
           if s \<noteq> ''CANCELED'' then Inl StateConflict else Inr (recorded, d2))))"

datatype request =
    PlanJob pystr pystr execution_plan instant pystr
  | ApproveJob pystr pystr pystr pystr pystr instant pystr
  | MoveJob pystr pystr job_state job_state pystr "pystr option" "pystr option" instant
  | BindManifest artifact_store pystr pystr
  | StoreSnapshot execution_snapshot
  | Deliver delivery
  | Heartbeat pystr pystr
  | Claim claim candidate pystr pystr pystr
  | Settle settlement pystr candidate pystr
  | BeginCancel candidate pystr pystr
  | RecordPoll candidate pystr poll_outcome bool pystr
  | QuarantineInvalid candidate pystr
  | ReconcilePoll candidate bool pystr
  | ReconcileTerminal candidate pystr
  | RunningStage candidate "pystr option"
  | MarkObserved candidate pystr pystr pystr
  | QuarantineRunning candidate pystr pystr pystr
  | MarkCancel candidate pystr
  | MarkStale candidate pystr pystr
  | QuarantineQueued candidate pystr pystr pystr

definition commit :: "(db \<Rightarrow> exn + ('a \<times> db)) \<Rightarrow> db \<Rightarrow> db" where
  "commit body d = snd (transaction body d)"

fun serve :: "externals \<Rightarrow> request \<Rightarrow> db \<Rightarrow> db" where
  "serve x (PlanJob c sid plan clock jid) d = snd (plan_job x c sid plan clock jid d)"
| "serve x (ApproveJob c k actor sh pf clock aid) d = snd (approve_job x c k actor sh pf clock aid d)"
| "serve x (MoveJob c k expected target reason ec cs clock) d =
     snd (transition_job x c k expected target reason ec cs clock d)"
| "serve x (BindManifest store c k) d = snd (bind_artifact_manifest_service x (Some store) c k d)"
| "serve x (StoreSnapshot sn) d = commit (add_snapshot sn) d"
| "serve x (Deliver v) d = snd (deliver x v d)"
| "serve x (Heartbeat i now) d = commit (record_heartbeat i now) d"
| "serve x (Claim c k now tok expires) d = commit (claim_run c k now tok expires) d"
| "serve x (Settle s now k tok) d = commit (settle s now k tok) d"
| "serve x (BeginCancel k tok now) d = commit (begin_cancel_stage k tok now) d"
| "serve x (RecordPoll k tok po ongoing now) d = commit (record_poll_and_stage k tok po ongoing now) d"
| "serve x (QuarantineInvalid k now) d = commit (quarantine_invalid_scheduler_timestamps k now) d"
| "serve x (ReconcilePoll k t now) d = commit (reconcile_poll_after_local_cancel k t now) d"
| "serve x (ReconcileTerminal k now) d = commit (reconcile_terminal_after_local_cancel k now) d"
| "serve x (RunningStage k s) d = commit (update_running_stage k s) d"
| "serve x (MarkObserved k c s now) d = commit (mark_observed_reconciliation_required k c s now) d"
| "serve x (QuarantineRunning k c s now) d = commit (quarantine_running_dispatch k c s now) d"
| "serve x (MarkCancel k now) d = commit (mark_cancel_reconciliation_required k now) d"
| "serve x (MarkStale k key now) d = commit (mark_reconciliation_required k key now) d"
| "serve x (QuarantineQueued k c s now) d = commit (quarantine_queued_job k c s now) d"

inductive run_of_system :: "externals \<Rightarrow> db \<Rightarrow> db \<Rightarrow> bool" for x where
  system_refl: "run_of_system x d d"
| system_serve: "run_of_system x d d' \<Longrightarrow> run_of_system x d (serve x rq d')"

lemma system_one: "run_of_system x d (serve x rq d)"
  by (rule system_serve [OF system_refl])

lemma system_trans:
  assumes "run_of_system x a b" "run_of_system x b c"
  shows "run_of_system x a c"
  using assms(2,1) by (induction rule: run_of_system.induct) (auto intro: system_serve)

section \<open>Every request is safe and refines the ledger\<close>

lemma commit_cases:
  assumes "\<And>u d'. body d = Inr (u, d') \<Longrightarrow> R d'" "R d"
  shows "R (commit body d)"
  using assms by (auto simp: commit_def transaction_def split: sum.splits)

lemma record_poll_and_stage_cases:
  assumes "record_poll_and_stage k tok po ongoing now d = Inr (b, d')"
  obtains d1 where "settle (PollStatus po) now k tok d = Inr (b, d1)"
    "d' = d1 \<or> (\<exists>u. update_running_stage k (po_current_stage po) d1 = Inr (u, d'))"
  using assms unfolding record_poll_and_stage_def bnd_eq_Inr
  by (auto simp: bnd_eq_Inr split: if_splits)

lemma record_poll_and_stage_safe:
  "record_poll_and_stage k tok po ongoing now d = Inr (b, d') \<Longrightarrow> safe_step d d'"
  by (erule record_poll_and_stage_cases)
    (blast intro: safe_step_trans settle_laws(4) update_running_stage_safe)

lemma record_poll_and_stage_quiet:
  "record_poll_and_stage k tok po ongoing now d = Inr (b, d') \<Longrightarrow> quiet d d'"
  by (erule record_poll_and_stage_cases)
    (blast intro: quiet_trans settle_quiet update_running_stage_quiet)

lemma claim_run_safe': "claim_run c k now tok expires d = Inr (r, d') \<Longrightarrow> safe_step d d'"
  by (cases c) (auto intro: claim_existing_run_safe claim_submission_safe claim_canceled_lookup_safe)

lemmas quiet_operations =
  bind_manifest_body_quiet add_snapshot_quiet accept_body_quiet record_heartbeat_quiet settle_quiet
  begin_cancel_stage_quiet record_poll_and_stage_quiet quarantine_invalid_quiet
  reconcile_poll_after_local_cancel_quiet reconcile_terminal_after_local_cancel_quiet
  update_running_stage_quiet mark_observed_reconciliation_required_quiet
  quarantine_running_dispatch_quiet mark_cancel_reconciliation_required_quiet
  mark_reconciliation_required_quiet quarantine_queued_job_quiet

lemmas safe_operations =
  plan_body_safe approve_body_safe transition_body_safe claim_run_safe' settle_laws(4)
  bind_manifest_body_safe add_snapshot_safe accept_body_safe record_heartbeat_safe
  record_poll_and_stage_safe quarantine_invalid_safe
  reconcile_poll_after_local_cancel_safe reconcile_terminal_after_local_cancel_safe
  update_running_stage_safe mark_observed_reconciliation_required_safe
  quarantine_running_dispatch_safe mark_cancel_reconciliation_required_safe
  mark_reconciliation_required_safe quarantine_queued_job_safe

lemma begin_cancel_stage_safe: "begin_cancel_stage k tok now d = Inr (b, d') \<Longrightarrow> safe_step d d'"
  unfolding begin_cancel_stage_def by (rule run_write_safe)

text \<open>A service method that runs one transaction after its preliminary checks.\<close>

lemma snd_transaction: "snd (transaction body d) = commit body d"
  by (simp add: commit_def)

lemma plan_job_commit:
  "snd (plan_job x c sid plan clock jid d) = d
   \<or> (\<exists>pj pf now. snd (plan_job x c sid plan clock jid d) = commit (plan_body x c sid plan pj pf now jid) d)"
  by (auto simp: plan_job_def snd_transaction split: sum.splits)

lemma deliver_commit:
  "snd (deliver x v d) = d
   \<or> (\<exists>c j h k n r e. snd (deliver x v d) = commit (accept_body x c j h k n r e) d)"
proof (cases "v_idempotency_key v \<noteq> v_job_id v \<or> (\<exists>e. nonce_expiry (v_signed_timestamp v) (v_received_at v) = Inl e)")
  case True
  then show ?thesis by (auto simp: deliver_def accept_callback_def)
next
  case False
  then obtain r e where "nonce_expiry (v_signed_timestamp v) (v_received_at v) = Inr (r, e)"
    by (cases "nonce_expiry (v_signed_timestamp v) (v_received_at v)") auto
  with False have "snd (deliver x v d) = commit (accept_body x (v_company_id v) (v_job_id v)
      (v_snapshot_hash v) (v_idempotency_key v) (v_nonce v) r e) d"
    by (simp add: deliver_def accept_callback_def snd_transaction)
  then show ?thesis by blast
qed

text \<open>Whatever holds of every committed body and of doing nothing holds of \<open>serve\<close>.\<close>

lemma serve_induct:
  assumes refl: "R d"
    and plan: "\<And>c sid plan pj pf now jid p d'. plan_body x c sid plan pj pf now jid d = Inr (p, d') \<Longrightarrow> R d'"
    and approve: "\<And>c k actor sh pf clock aid ap d'.
      approve_body x c k actor sh pf clock aid d = Inr (ap, d') \<Longrightarrow> R d'"
    and move: "\<And>c k e t reason ec cs clock sj d'.
      transition_body x c k e t reason ec cs clock d = Inr (sj, d') \<Longrightarrow> R d'"
    and claim: "\<And>c k now tok ex r d'. claim_run c k now tok ex d = Inr (r, d') \<Longrightarrow> R d'"
    and quiet: "\<And>d'. quiet d d' \<Longrightarrow> safe_step d d' \<Longrightarrow> R d'"
  shows "R (serve x rq d)"
proof -
  have body: "R (commit b d)" if "\<And>u d'. b d = Inr (u, d') \<Longrightarrow> R d'" for b :: "db \<Rightarrow> exn + ('u \<times> db)"
    using that refl by (rule commit_cases)
  show ?thesis
proof (cases rq)
  case (PlanJob c sid plan clock jid)
  have "R (commit (plan_body x c sid plan pj pf now jid) d)" for pj pf now
    by (rule body) (rule plan)
  then show ?thesis
    unfolding PlanJob serve.simps using plan_job_commit [of x c sid plan clock jid d] refl by metis
next
  case (ApproveJob c k actor sh pf clock aid)
  show ?thesis
    unfolding ApproveJob serve.simps approve_job_def snd_transaction
    by (rule body) (rule approve)
next
  case (MoveJob c k e t reason ec cs clock)
  show ?thesis
    unfolding MoveJob serve.simps transition_job_def snd_transaction
    by (rule body) (rule move)
next
  case (BindManifest store c k)
  show ?thesis
    unfolding BindManifest serve.simps bind_artifact_manifest_service_def option.case snd_transaction
    by (rule body) (rule quiet, erule bind_manifest_body_quiet, erule bind_manifest_body_safe)
next
  case (Deliver v)
  have "R (commit (accept_body x c j h k n r e) d)" for c j h k n r e
    by (rule body) (rule quiet, erule accept_body_quiet, erule accept_body_safe)
  then show ?thesis
    unfolding Deliver serve.simps using deliver_commit [of x v d] refl by metis
next
  case (Claim c k now tok ex)
  show ?thesis
    unfolding Claim serve.simps by (rule body) (rule claim)
qed (simp only: serve.simps, rule body, rule quiet,
    erule quiet_operations, erule safe_operations begin_cancel_stage_safe)+
qed

lemma serve_safe: "safe_step d (serve x rq d)"
  by (rule serve_induct) (auto intro: safe_operations)

lemma serve_refines:
  assumes "schema_ok d"
  shows "ledger_step (ledger_of d) (ledger_of (serve x rq d))"
  by (rule serve_induct)
    (auto intro: ledger_stay plan_body_refines approve_body_refines [OF assms]
      transition_body_refines [OF assms] claim_run_refines [OF assms] quiet_step)

lemma run_safe: "run_of_system x d d' \<Longrightarrow> safe_step d d'"
  by (induction rule: run_of_system.induct) (auto intro: safe_step_trans serve_safe)

lemma run_refines:
  assumes "run_of_system x d d'" "schema_ok d"
  shows "ledger_run (ledger_of d) (ledger_of d')"
  using assms
proof (induction rule: run_of_system.induct)
  case (system_refl d)
  then show ?case by (simp add: ledger_run_refl)
next
  case (system_serve d d' rq)
  then have "schema_ok d'" using run_safe by (auto simp: safe_step_def)
  with system_serve show ?case by (blast intro: ledger_run_step serve_refines)
qed

end
