(* ===== verification/SystemLeases.thy ===== *)
theory SystemLeases
  imports System
begin

text \<open>
  Leases and attempts across the whole system: which requests of \<^theory_text>\<open>System\<close> leave the leased run of an
  attempt alone, and which runs a request may add.
\<close>

section \<open>Operations that write no run\<close>

lemma update_jobs_runs: "update_jobs cols P f d = Inr (d', n) \<Longrightarrow> runs d' = runs d"
  by (auto simp: update_jobs_def bnd_eq_Inr)

lemma update_or_ignore_jobs_runs: "update_or_ignore_jobs cols P f d = Inr (d', n) \<Longrightarrow> runs d' = runs d"
  by (auto simp: update_or_ignore_jobs_def bnd_eq_Inr)

lemma append_transition_runs: "append_transition c j f t at reason d = Inr (u, d') \<Longrightarrow> runs d' = runs d"
  by (erule append_transition_cases) simp

lemma plan_body_runs: "plan_body x c sid plan pj pf now jid d = Inr (p, d') \<Longrightarrow> runs d' = runs d"
  by (erule plan_body_cases)
    (auto simp: supersede_pending_jobs_def bnd_eq_Inr
      dest!: add_job_cases append_transition_runs update_jobs_runs)

lemma approve_body_runs: "approve_body x c k actor sh pf clock aid d = Inr (ap, d') \<Longrightarrow> runs d' = runs d"
  by (erule approve_body_cases)
    (auto simp: bind_paid_approval_def bnd_eq_Inr
      dest!: add_approval_cases append_transition_runs update_or_ignore_jobs_runs)

lemma transition_body_runs: "transition_body x c k e t reason ec cs clock d = Inr (sj, d') \<Longrightarrow> runs d' = runs d"
  by (erule transition_body_cases)
    (auto simp: compare_and_swap_state_def bnd_eq_Inr elim!: apply_transition_cases
      dest!: append_transition_runs update_jobs_runs)

lemma bind_manifest_body_runs: "bind_manifest_body x store c j d = Inr (sj, d') \<Longrightarrow> runs d' = runs d"
  by (auto simp: bind_artifact_manifest_def bnd_eq_Inr split: if_splits
      dest!: bind_manifest_body_cases update_jobs_runs)

lemma add_snapshot_runs: "add_snapshot sn d = Inr (u, d') \<Longrightarrow> runs d' = runs d"
  by (auto simp: add_snapshot_def bnd_eq_Inr split: if_splits)

lemma accept_body_runs: "accept_body x c j h k n r e d = Inr (b, d') \<Longrightarrow> runs d' = runs d"
  unfolding accept_body_def
  by (auto simp: bnd_eq_Inr consume_nonce_def record_receipt_def Let_def split: if_splits sum.splits)

lemma record_heartbeat_runs: "record_heartbeat i now d = Inr (u, d') \<Longrightarrow> runs d' = runs d"
  by (auto simp: record_heartbeat_def split: if_splits)

lemma update_running_stage_runs: "update_running_stage k s d = Inr (b, d') \<Longrightarrow> runs d' = runs d"
  unfolding update_running_stage_def by (rule job_write_runs)

lemmas runless = plan_body_runs approve_body_runs transition_body_runs bind_manifest_body_runs
  add_snapshot_runs accept_body_runs record_heartbeat_runs update_running_stage_runs

section \<open>A live lease\<close>

text \<open>
  The requests that do not hold the lease \<open>tok\<close> of attempt \<open>key\<close>: about this attempt, claims and the
  operations that take an expired lease over come before \<open>expires\<close>, leased operations carry another
  token, and the two operations that ask for no lease at all (\<open>mark_observed_reconciliation_required\<close>
  and \<open>quarantine_invalid_scheduler_timestamps\<close>) do not occur.
\<close>

fun rival :: "run_key \<Rightarrow> pystr \<Rightarrow> pystr \<Rightarrow> request \<Rightarrow> bool" where
  "rival key tok expires (Claim c k now tok' ends) = (candidate_key k \<noteq> key \<or> tok' \<noteq> tok \<and> now < expires)"
| "rival key tok expires (Settle s now k tok') = (candidate_key k \<noteq> key \<or> tok' \<noteq> tok)"
| "rival key tok expires (BeginCancel k tok' now) = (candidate_key k \<noteq> key \<or> tok' \<noteq> tok)"
| "rival key tok expires (RecordPoll k tok' po ongoing now) = (candidate_key k \<noteq> key \<or> tok' \<noteq> tok)"
| "rival key tok expires (ReconcileTerminal k now) = (candidate_key k \<noteq> key \<or> now < expires)"
| "rival key tok expires (QuarantineRunning k c s now) = (candidate_key k \<noteq> key \<or> now < expires)"
| "rival key tok expires (MarkCancel k now) = (candidate_key k \<noteq> key \<or> now < expires)"
| "rival key tok expires (MarkObserved k c s now) = (candidate_key k \<noteq> key)"
| "rival key tok expires (QuarantineInvalid k now) = (candidate_key k \<noteq> key)"
| "rival key tok expires rq = True"

lemma leased_row:
  assumes "leased_until d key tok expires" "r \<in> set (runs d)" "run_key r = key"
  shows "r_lease_token r = Some tok" "now < expires \<Longrightarrow> \<not> lease_open now r"
  using assms by (auto simp: leased_until_def list_all_iff rows_in_runs lease_open_def)

text \<open>An UPDATE that selects rows of its own attempt only, and none that is under a live lease.\<close>

definition spares :: "run_key \<Rightarrow> (run \<Rightarrow> bool) \<Rightarrow> db \<Rightarrow> bool" where
  "spares key P d = (\<forall>r \<in> set (runs d). P r \<longrightarrow> run_key r \<noteq> key)"

lemma run_then_spares:
  assumes "run_then P f g d = Inr (b, d')" "spares key P d"
    and "\<And>d1 b d2. g d1 = Inr (b, d2) \<Longrightarrow> runs d2 = runs d1"
  shows "rows d' key = rows d key"
proof -
  have miss: "P r \<Longrightarrow> run_key r \<noteq> key" if "r \<in> set (runs d)" for r
    using assms(2) that by (simp add: spares_def)
  from assms(1) show ?thesis
  proof (cases rule: run_then_cases)
    case (miss n)
    then show ?thesis using update_runs_frame \<open>\<And>r. r \<in> set (runs d) \<Longrightarrow> P r \<Longrightarrow> run_key r \<noteq> key\<close> by blast
  next
    case (hit d1)
    have "rows d1 key = rows d key" by (rule update_runs_frame [OF hit(1)]) (rule miss)
    with rows_cong [OF assms(3) [OF hit(2)]] show ?thesis by simp
  qed
qed

lemma run_write_spares:
  "run_write P f d = Inr (b, d') \<Longrightarrow> spares key P d \<Longrightarrow> rows d' key = rows d key"
  unfolding run_write_as_then by (erule run_then_spares) auto

lemma rows_add: "rows (d\<lparr>runs := runs d @ [r]\<rparr>) key = rows d key @ (if run_key r = key then [r] else [])"
  by (simp add: rows_def)

lemma insert_run_spares:
  assumes "insert_run ign r d = Inr d'" "leased_until d key tok expires"
  shows "rows d' key = rows d key"
proof (cases "d' = d")
  case False
  with assms(1) have "\<not> list_ex (\<lambda>x. run_key x = run_key r) (runs d)" "d' = d\<lparr>runs := runs d @ [r]\<rparr>"
    by (auto simp: insert_run_def split: if_splits)
  then show ?thesis
    using leased_until_exists [OF assms(2)] by (auto simp: rows_add list_ex_iff)
qed simp

lemma quarantine_invalid_spares:
  assumes "quarantine_invalid_scheduler_timestamps k now d = Inr (b, d')" "candidate_key k \<noteq> key"
  shows "rows d' key = rows d key"
proof -
  have "rows d1 key = rows d key" if "update_runs (at_run k) f d = Inr (d1, n)" for f d1 n
    using that by (rule update_runs_frame) (use assms(2) in \<open>simp add: at_run_key\<close>)
  with assms(1) show ?thesis
    unfolding quarantine_invalid_scheduler_timestamps_def bnd_eq_Inr
    by (auto simp: bnd_eq_Inr split: if_splits dest!: job_write_runs rows_cong [where key = key])
qed

lemma quarantine_queued_spares:
  assumes "quarantine_queued_job k c s now d = Inr (b, d')" "leased_until d key tok expires"
  shows "rows d' key = rows d key"
proof -
  have tail: "rows d' key = rows d1 key"
    if "run_then (\<lambda>r. at_run k r \<and> r_external_run_id r = None \<and> r_external_status r = None
          \<and> r_lease_token r = None) f (job_write cols Q g) d1 = Inr (b, d')"
      and "leased_until d1 key tok expires" for f cols Q g d1
    using that(1) by (rule run_then_spares)
      (use leased_row(1) [OF that(2)] in \<open>auto simp: spares_def dest: job_write_runs\<close>)
  from assms(1) consider "d' = d"
    | r d1 f cols Q g where "insert_run True r d = Inr d1"
      "run_then (\<lambda>r. at_run k r \<and> r_external_run_id r = None \<and> r_external_status r = None
          \<and> r_lease_token r = None) f (job_write cols Q g) d1 = Inr (b, d')"
    unfolding quarantine_queued_job_def by (auto simp: bnd_eq_Inr split: if_splits)
  then show ?thesis
  proof cases
    case 2
    have same: "rows d1 key = rows d key" by (rule insert_run_spares [OF 2(1) assms(2)])
    with assms(2) have "leased_until d1 key tok expires" by (simp add: leased_until_def)
    from tail [OF 2(2) this] same show ?thesis by simp
  qed simp
qed

lemma mark_stale_spares:
  assumes "mark_reconciliation_required k ik now d = Inr (u, d')" "leased_until d key tok expires"
  shows "rows d' key = rows d key"
  using assms(1) insert_run_spares [OF _ assms(2)] unfolding mark_reconciliation_required_def bnd_eq_Inr
  by (auto simp: bnd_eq_Inr split: if_splits dest!: update_jobs_runs rows_cong [where key = key])

lemma settle_spares:
  assumes "settle s now k tok' d = Inr (b, d')" "leased_until d key tok expires"
    and "candidate_key k \<noteq> key \<or> tok' \<noteq> tok"
  shows "rows d' key = rows d key"
proof (cases "candidate_key k = key")
  case True
  with assms(2,3) have "\<not> holds_lease d (candidate_key k) tok'" using leased_until_not_held by auto
  with runner_writes.write_refused assms(1) show ?thesis by simp
next
  case False
  with assms(1) settle_laws(2) [of s now] show ?thesis unfolding frames_def by metis
qed

lemma serve_spares:
  assumes held: "leased_until d key tok expires" and rq: "rival key tok expires rq"
  shows "rows (serve x rq d) key = rows d key"
proof -
  note row = leased_row [OF held]
  have body: "rows (commit b d) key = rows d key"
    if "\<And>u d'. b d = Inr (u, d') \<Longrightarrow> rows d' key = rows d key" for b :: "db \<Rightarrow> exn + ('u \<times> db)"
    by (rule commit_cases [where R = "\<lambda>d'. rows d' key = rows d key"]) (rule that, assumption, rule refl)
  have same: "rows (commit b d) key = rows d key"
    if "\<And>u d'. b d = Inr (u, d') \<Longrightarrow> runs d' = runs d" for b :: "db \<Rightarrow> exn + ('u \<times> db)"
    by (rule body) (rule rows_cong, rule that)
  show ?thesis
  proof (cases rq)
    case (PlanJob c sid plan clock jid)
    then show ?thesis
      using plan_job_commit [of x c sid plan clock jid d] same [OF plan_body_runs] by auto
  next
    case (Deliver v)
    then show ?thesis
      using deliver_commit [of x v d] same [OF accept_body_runs] by auto
  next
    case (Claim c k now tok' ends)
    then show ?thesis
      using rq runner_leases.foreign_step [OF held, of "Claiming c k now tok' ends"] by (simp add: commit_def)
  next
    case (Settle s now k tok')
    then show ?thesis
      using rq runner_leases.foreign_step [OF held, of "Settling s k now tok'"] by (simp add: commit_def)
  next
    case (BeginCancel k tok' now)
    then have "spares key (\<lambda>r. at_run k r \<and> r_lease_token r = Some tok' \<and> in_flight r) d"
      using rq row(1) by (auto simp: spares_def at_run_key)
    then show ?thesis
      unfolding BeginCancel serve.simps begin_cancel_stage_def by (intro body) (rule run_write_spares)
  next
    case (RecordPoll k tok' po ongoing now)
    then have other: "candidate_key k \<noteq> key \<or> tok' \<noteq> tok" using rq by simp
    have "rows d' key = rows d key" if res: "record_poll_and_stage k tok' po ongoing now d = Inr (b, d')" for b d'
    proof -
      from res obtain d1 where d1: "settle (PollStatus po) now k tok' d = Inr (b, d1)" "runs d' = runs d1"
        by (rule record_poll_and_stage_cases) (auto dest: update_running_stage_runs)
      with settle_spares [OF d1(1) held other] rows_cong show ?thesis by metis
    qed
    then show ?thesis unfolding RecordPoll serve.simps by (rule body)
  next
    case (ReconcilePoll k t now)
    then show ?thesis
      unfolding ReconcilePoll serve.simps reconcile_poll_after_local_cancel_def
      by (intro body) (use row(1) in \<open>auto simp: spares_def split: if_splits dest!: run_write_spares\<close>)
  next
    case (ReconcileTerminal k now)
    then show ?thesis
      using rq row(2) [of _ now] unfolding ReconcileTerminal serve.simps reconcile_terminal_after_local_cancel_def
      by (intro body) (erule run_write_spares, auto simp: spares_def at_run_key)
  next
    case (QuarantineRunning k c s now)
    then show ?thesis
      using rq row(2) [of _ now] unfolding QuarantineRunning serve.simps quarantine_running_dispatch_def
      by (intro body) (erule run_then_spares, auto simp: spares_def at_run_key dest: job_write_runs)
  next
    case (MarkCancel k now)
    then show ?thesis
      using rq row(2) [of _ now] unfolding MarkCancel serve.simps mark_cancel_reconciliation_required_def
      by (intro body) (erule run_then_spares, auto simp: spares_def at_run_key dest: job_write_runs)
  next
    case (MarkObserved k c s now)
    then show ?thesis
      using rq unfolding MarkObserved serve.simps mark_observed_reconciliation_required_def
      by (intro body) (erule run_then_spares, auto simp: spares_def at_run_key dest: job_write_runs)
  next
    case (QuarantineInvalid k now)
    then show ?thesis
      using rq by (simp, intro body) (erule quarantine_invalid_spares, simp)
  next
    case (MarkStale k ik now)
    then show ?thesis by (simp, intro body) (rule mark_stale_spares [OF _ held])
  next
    case (QuarantineQueued k c s now)
    then show ?thesis by (simp, intro body) (rule quarantine_queued_spares [OF _ held])
  qed (simp add: approve_job_def transition_job_def bind_artifact_manifest_service_def snd_transaction,
      intro same, erule runless)+
qed

lemma rivals_spare:
  assumes "leased_until d key tok expires" "list_all (rival key tok expires) rqs"
  shows "rows (foldl (\<lambda>d rq. serve x rq d) d rqs) key = rows d key
    \<and> leased_until (foldl (\<lambda>d rq. serve x rq d) d rqs) key tok expires"
  using assms
proof (induction rqs arbitrary: d)
  case (Cons rq rqs)
  then have step: "rows (serve x rq d) key = rows d key" by (simp add: serve_spares)
  with Cons.prems have "leased_until (serve x rq d) key tok expires" by (simp add: leased_until_def)
  from Cons.IH [OF this] Cons.prems(2) step show ?case by simp
qed simp

text \<open>The exception is real: this operation ends any lease of an attempt that has an external run.\<close>

lemma mark_observed_ends_lease:
  assumes "schema_ok d" "mark_observed_reconciliation_required k c s now d = Inr (b, d')"
    and "rows d (candidate_key k) = [r]" "r_external_run_id r \<noteq> None"
  shows "unleased d' (candidate_key k)"
  using assms(2) unfolding mark_observed_reconciliation_required_def
proof (cases rule: run_then_cases)
  case (miss n)
  have "r \<in> set (rows d (candidate_key k))" using assms(3) by simp
  then have "r \<in> set (runs d)" "at_run k r" by (simp_all add: rows_in_runs at_run_key)
  with assms(4) update_runs_result(2) [OF miss(1)] have "n \<noteq> 0" by (auto simp: filter_empty_conv)
  with update_one_row [OF assms(1) miss(1), of "candidate_key k"] miss(2) show ?thesis by (auto simp: at_run_key)
next
  case (hit d1)
  obtain q where "rows d1 (candidate_key k) = [reconcile_run ''reconciliation_required'' c s now q]"
    by (rule update_runs_hit [OF hit(1) _ assms(1), of "candidate_key k"]) (auto simp: at_run_key)
  with rows_cong [OF job_write_runs [OF hit(2)]] show ?thesis
    by (simp add: unleased_def reconcile_run_def release_def)
qed

section \<open>Taking over an expired lease\<close>

lemma find_hit: "(\<And>x. x \<in> set us \<Longrightarrow> \<not> P x) \<Longrightarrow> P y \<Longrightarrow> find P (us @ y # vs) = Some y"
  by (induction us) simp_all

lemma run_split:
  assumes "schema_ok d" "r \<in> set (runs d)"
  obtains us vs where "runs d = us @ r # vs" "\<And>x. x \<in> set (us @ vs) \<Longrightarrow> run_key x \<noteq> run_key r"
    "\<And>x. x \<in> set (us @ vs) \<Longrightarrow> runs_compatible x r" "run_checks r"
proof -
  obtain us vs where eq: "runs d = us @ r # vs" using assms(2) by (meson split_list)
  have ok: "distinct (map run_key (us @ r # vs))" "sorted_wrt runs_compatible (us @ r # vs)"
    "\<forall>x \<in> set (us @ r # vs). run_checks x"
    using assms(1) unfolding schema_ok_def runs_table.table_ok_def eq by simp_all
  have "run_key x \<noteq> run_key r" if "x \<in> set (us @ vs)" for x
    using ok(1) that by (simp add: image_iff) metis
  moreover have "runs_compatible x r" if "x \<in> set (us @ vs)" for x
    using ok(2) that runs_table.compatible_sym by (auto simp: sorted_wrt_append)
  moreover have "run_checks r" using ok(3) by simp
  ultimately show ?thesis by (intro that [OF eq])
qed

lemma lease_key: "run_key (lease tok ends now r) = run_key r"
  by (simp add: lease_def run_key_def)

lemma lease_passes:
  assumes "\<And>x. x \<in> set rest \<Longrightarrow> runs_compatible x r" "run_checks r" "is_utc_timestamp now" "is_utc_timestamp ends"
  shows "run_update_check () rest r (lease tok ends now r) = Pass"
proof -
  have "run_identity_checks (lease tok ends now r) = run_identity_checks r"
    by (simp add: run_identity_checks_def lease_def)
  moreover have "run_state_checks r \<Longrightarrow> run_state_checks (lease tok ends now r)"
    by (simp add: run_state_checks_def lease_def)
  moreover have "run_time_checks r \<Longrightarrow> run_time_checks (lease tok ends now r)"
  proof -
    have "utc_or_null (Some ends)" using assms(4) by (simp add: utc_or_null_def)
    then show "run_time_checks r \<Longrightarrow> run_time_checks (lease tok ends now r)"
      using assms(3)
      by (cases "r_external_accepted_at r"; cases "r_submission_attempted_at r"; cases "r_acceptance_observed_at r")
        (simp_all add: run_time_checks_def lease_def)
  qed
  ultimately have "run_checks (lease tok ends now r)" using assms(2) by (simp add: run_checks_def)
  moreover have "runs_external_identity_owned rest (lease tok ends now r)"
    unfolding runs_external_identity_owned_def list_all_iff lease_key
  proof (intro impI ballI notI)
    fix x assume "x \<in> set rest" "r_external_run_id (lease tok ends now r) \<noteq> None"
      "r_executor_name x \<noteq> None \<and> r_executor_name x = r_executor_name (lease tok ends now r)
       \<and> r_external_run_id x = r_external_run_id (lease tok ends now r) \<and> run_key x \<noteq> run_key r"
    with assms(1) [of x] show False by (auto simp: runs_compatible_def lease_def)
  qed
  ultimately show ?thesis
    by (auto simp: run_update_check_def runs_identity_immutable_def runs_result_immutable_def
        runs_external_status_monotonic_def runs_external_identity_immutable_def lease_def opt_in_def split: option.split)
qed

text \<open>A claim of an attempt whose lease is absent or over succeeds.\<close>

lemma expired_claim:
  assumes "schema_ok d" "r \<in> set (runs d)" "at_run k r" "opt_in (r_external_status r) statuses" "lease_open now r"
    and "j \<in> set (jobs d)" "job_key j = candidate_key k" "j_state j = k_state k" "j_superseded_by_job_id j = None"
    and "is_utc_timestamp now" "is_utc_timestamp ends"
  shows "\<exists>d'. claim_existing_run k statuses now tok ends d = Inr (Some (lease tok ends now r), d')
     \<and> d' = d\<lparr>runs := map (\<lambda>x. if run_key x = candidate_key k then lease tok ends now r else x) (runs d)\<rparr>"
proof -
  let ?P = "\<lambda>r. at_run k r \<and> opt_in (r_external_status r) statuses \<and> claimable now tok r
      \<and> job_exists d (\<lambda>j. job_key j = run_key r \<and> j_state j = k_state k \<and> j_superseded_by_job_id j = None)"
  have key: "run_key r = candidate_key k" using assms(3) by (simp add: at_run_key)
  obtain us vs where s: "runs d = us @ r # vs" "\<And>x. x \<in> set (us @ vs) \<Longrightarrow> run_key x \<noteq> run_key r"
    "\<And>x. x \<in> set (us @ vs) \<Longrightarrow> runs_compatible x r" "run_checks r"
    using run_split [OF assms(1,2)] by blast
  let ?d = "d\<lparr>runs := us @ lease tok ends now r # vs\<rparr>"
  have "?P r" using assms key by (auto simp: job_exists_def list_ex_iff claimable_def)
  moreover have "\<not> ?P x" if "x \<in> set (us @ vs)" for x using s(2) [OF that] key by (simp add: at_run_key)
  ultimately have "update_runs ?P (lease tok ends now) d = Inr (?d, 1)"
    by (intro update_runs_one [OF s(1)] lease_passes s assms)
  moreover have "get_run ?d (candidate_key k) = Inr (lease tok ends now r)"
  proof -
    have "find (\<lambda>x. run_key x = candidate_key k) (us @ lease tok ends now r # vs) = Some (lease tok ends now r)"
      using s(2) key by (intro find_hit) (auto simp: lease_key)
    then show ?thesis by (simp add: get_run_def run_of_def)
  qed
  moreover have "statuses \<noteq> []" using assms(4) by (auto simp: opt_in_def split: option.splits)
  moreover have "us @ lease tok ends now r # vs = map (\<lambda>x. if run_key x = candidate_key k then lease tok ends now r else x) (runs d)"
    using s(2) key by (auto simp: s(1) intro: map_idI [symmetric])
  ultimately show ?thesis by (simp add: claim_existing_run_def claim_result_def)
qed

text \<open>
  A claim by a token no row carries is granted exactly when the run's status is asked for, its lease is
  absent or over and the job is not superseded.
\<close>

definition granted :: "pystr list \<Rightarrow> pystr \<Rightarrow> pystr \<Rightarrow> pystr \<Rightarrow> db \<Rightarrow> candidate \<Rightarrow> bool" where
  "granted statuses now tok ends d k =
     (\<exists>r d'. claim_existing_run k statuses now tok ends d = Inr (Some r, d'))"

lemma granted_iff:
  assumes "schema_ok d" "j \<in> set (jobs d)" "run_of d (job_key j) = Some r"
    and "is_utc_timestamp now" "is_utc_timestamp ends" "\<forall>q \<in> set (runs d). r_lease_token q \<noteq> Some tok"
  shows "granted statuses now tok ends d (candidate_of j) \<longleftrightarrow>
    opt_in (r_external_status r) statuses \<and> lease_open now r \<and> j_superseded_by_job_id j = None"
proof
  let ?k = "candidate_of j"
  have key: "candidate_key ?k = job_key j" by (simp add: candidate_key_def candidate_of_def job_key_def)
  have r: "r \<in> set (runs d)" "run_key r = job_key j"
    using assms(3) by (auto simp: run_of_def dest: find_Some_in)
  {
    assume "opt_in (r_external_status r) statuses \<and> lease_open now r \<and> j_superseded_by_job_id j = None"
    then have ok: "opt_in (r_external_status r) statuses" "lease_open now r" "j_superseded_by_job_id j = None" by simp_all
    have at: "at_run ?k r" using r(2) key by (simp add: at_run_key)
    have state: "j_state j = k_state ?k" by (simp add: candidate_of_def)
    from expired_claim [OF assms(1) r(1) at ok(1,2) assms(2) key [symmetric] state ok(3) assms(4,5)]
    show "granted statuses now tok ends d ?k" unfolding granted_def by blast
  next
    assume "granted statuses now tok ends d ?k"
    then obtain d1 n where n: "update_runs (\<lambda>r. at_run ?k r \<and> opt_in (r_external_status r) statuses
        \<and> claimable now tok r \<and> job_exists d (\<lambda>j. job_key j = run_key r \<and> j_state j = k_state ?k
           \<and> j_superseded_by_job_id j = None)) (lease tok ends now) d = Inr (d1, n)" "n \<noteq> 0"
      by (auto simp: granted_def claim_existing_run_def claim_result_def bnd_eq_Inr split: if_splits)
    from update_runs_result(2) [OF n(1)] n(2) obtain q i where q: "q \<in> set (runs d)" "run_key q = job_key j"
      "opt_in (r_external_status q) statuses" "claimable now tok q"
      "i \<in> set (jobs d)" "job_key i = job_key j" "j_superseded_by_job_id i = None"
      by (auto simp: filter_empty_conv at_run_key key job_exists_def list_ex_iff)
    have "[q] = [r]" using unique_row [OF assms(1) q(1)] unique_row [OF assms(1) r(1)] q(2) r(2) by simp
    moreover have "i = j" using same_job [OF assms(1,2) q(5)] q(6) by (simp add: job_key_def)
    ultimately show "opt_in (r_external_status r) statuses \<and> lease_open now r \<and> j_superseded_by_job_id j = None"
      using q(3,4,7) assms(6) r(1) by (auto simp: claimable_def)
  }
qed

section \<open>Final states\<close>

lemma ledger_entry:
  assumes "schema_ok d" "j \<in> set (jobs d)"
  shows "l_jobs (ledger_of d) (j_job_id j) = Some (entry_of j)"
proof -
  obtain us vs where "jobs d = us @ j # vs" using assms(2) by (meson split_list)
  with assms(1) show ?thesis by (rule ledger_job(1))
qed

text \<open>A job in a final state keeps its entry, so its state and its attempt.\<close>

lemma final_entry_stays:
  assumes "run_of_system x d d'" "schema_ok d" "j \<in> set (jobs d)" "j_state j = state_value s" "dead_end s"
  shows "\<exists>j' \<in> set (jobs d'). j_job_id j' = j_job_id j \<and> entry_of j' = entry_of j"
proof -
  have "e_state (entry_of j) = state_value s" using assms(4) by (simp add: entry_of_def)
  from ledger_run_invariants(3) [OF run_refines [OF assms(1,2)] ledger_entry [OF assms(2,3)] this assms(5)]
  have "map_of (map job_entry (jobs d')) (j_job_id j) = Some (entry_of j)" by (simp add: ledger_of_def)
  then have "(j_job_id j, entry_of j) \<in> set (map job_entry (jobs d'))" by (rule map_of_SomeD)
  then obtain j' where "j' \<in> set (jobs d')" "job_entry j' = (j_job_id j, entry_of j)" by auto
  then show ?thesis by (intro bexI [of _ j']) (simp_all add: job_entry_def)
qed

text \<open>The attempt of a canceled job, read again after whatever was committed in between.\<close>

lemma canceled_attempt_stays:
  assumes "run_of_system x d d'" "schema_ok d" "j \<in> set (jobs d)" "j_state j = ''CANCELED''"
    and "j' \<in> set (jobs d')" "j_job_id j' = j_job_id j"
  shows "j_attempt j' = j_attempt j"
proof -
  have "j_state j = state_value CANCELED" "dead_end CANCELED" using assms(4) by (simp_all add: dead_end_iff)
  from final_entry_stays [OF assms(1-3) this] obtain i where
    i: "i \<in> set (jobs d')" "j_job_id i = j_job_id j" "entry_of i = entry_of j" by blast
  have "schema_ok d'" using run_safe [OF assms(1)] assms(2) by (simp add: safe_step_def)
  with i(1,2) assms(5,6) have "j' = i" using same_job by metis
  with i(3) show ?thesis by (simp add: entry_of_def)
qed

section \<open>Which runs appear\<close>

text \<open>A request adds runs only for the attempts its jobs are in.\<close>

definition runs_known :: "db \<Rightarrow> db \<Rightarrow> bool" where
  "runs_known d d' =
     (\<forall>r \<in> set (runs d'). run_key r \<in> run_key ` set (runs d) \<or> (\<exists>j \<in> set (jobs d). job_key j = run_key r))"

lemma runs_known_same: "runs d' = runs d \<Longrightarrow> runs_known d d'"
  by (simp add: runs_known_def)

lemma runs_known_keys:
  assumes "runs_known d d1" "map run_key (runs d') = map run_key (runs d1)"
  shows "runs_known d d'"
proof -
  have "set (map run_key (runs d')) = set (map run_key (runs d1))" by (simp only: assms(2))
  then have keys: "run_key ` set (runs d') = run_key ` set (runs d1)" by simp
  show ?thesis
    unfolding runs_known_def
  proof
    fix r assume "r \<in> set (runs d')"
    then have "run_key r \<in> run_key ` set (runs d1)" using keys by blast
    then obtain q where "q \<in> set (runs d1)" "run_key r = run_key q" by blast
    with assms(1) show "run_key r \<in> run_key ` set (runs d) \<or> (\<exists>j \<in> set (jobs d). job_key j = run_key r)"
      by (simp add: runs_known_def)
  qed
qed

lemma runs_known_update: "update_runs P f d = Inr (d', n) \<Longrightarrow> runs_known d d'"
  by (rule runs_known_keys [OF runs_known_same [OF refl]]) (rule update_runs_keys)

lemma run_then_keys:
  assumes "run_then P f g d = Inr (b, d')" "\<And>d1 b d2. g d1 = Inr (b, d2) \<Longrightarrow> runs d2 = runs d1"
  shows "map run_key (runs d') = map run_key (runs d)"
  using assms(1) by (cases rule: run_then_cases) (auto dest!: update_runs_keys assms(2))

lemma runs_known_then:
  assumes "run_then P f g d = Inr (b, d')" "\<And>d1 b d2. g d1 = Inr (b, d2) \<Longrightarrow> runs d2 = runs d1"
  shows "runs_known d d'"
  by (rule runs_known_keys [OF runs_known_same [OF refl]]) (rule run_then_keys [OF assms])

lemma runs_known_write: "run_write P f d = Inr (b, d') \<Longrightarrow> runs_known d d'"
  unfolding run_write_as_then by (erule runs_known_then) auto

lemma runs_known_insert:
  assumes "insert_run ign r d = Inr d'" "\<exists>j \<in> set (jobs d). job_key j = run_key r"
  shows "runs_known d d'"
  using assms by (auto simp: insert_run_def runs_known_def split: if_splits)

lemma at_job_key: "at_job k j \<longleftrightarrow> job_key j = candidate_key k"
  by (auto simp: at_job_def job_key_def candidate_key_def)

lemma default_run_key [simp]: "run_key (default_run k ik now) = candidate_key k"
  by (simp add: run_key_def default_run_def candidate_key_def)

lemma run_key_updates [simp]:
  "run_key (r\<lparr>r_current_stage := a, r_reconciliation_count := n\<rparr>) = run_key r"
  "run_key (r\<lparr>r_current_stage := a, r_error_code := b, r_error_summary := c, r_reconciliation_count := n\<rparr>) = run_key r"
  "run_key (r\<lparr>r_executor_name := e, r_submission_attempted_at := f, r_lease_token := g, r_lease_expires_at := h\<rparr>) = run_key r"
  by (simp_all add: run_key_def)

lemma settle_known:
  assumes "settle s now k tok d = Inr (b, d')"
  shows "runs_known d d'"
proof -
  obtain P f g where "\<And>k d1 b d2. g k d1 = Inr (b, d2) \<Longrightarrow> runs d2 = runs d1 \<and> safe_step d1 d2"
    "settle s now = (\<lambda>k tok d. run_then (P k tok d) f (g k) d)"
    using settle_shape [of s now] by blast
  with assms show ?thesis by (intro runs_known_then [of "P k tok d" f "g k"]) simp_all
qed

lemma insert_submission_known:
  assumes "insert_submission k ik ex now tok ends d = Inr d1"
  shows "runs_known d d1"
proof (cases "job_exists d (submission_job k)")
  case True
  let ?new = "(default_run k ik now)\<lparr>r_executor_name := Some ex, r_submission_attempted_at := Some now,
      r_lease_token := Some tok, r_lease_expires_at := Some ends\<rparr>"
  have "insert_run False ?new d = Inr d1" using True assms by (simp add: insert_submission_def)
  moreover have "run_key ?new = candidate_key k" by simp
  moreover have "\<exists>j \<in> set (jobs d). job_key j = candidate_key k"
    using True by (auto simp: job_exists_def list_ex_iff submission_job_def at_job_key)
  ultimately show ?thesis using runs_known_insert by metis
qed (use assms in \<open>simp add: insert_submission_def runs_known_same\<close>)

lemma claim_known:
  assumes "claim_run c k now tok ends d = Inr (r, d')"
  shows "runs_known d d'"
proof (cases c)
  case (Submission ik ex)
  with assms have "claim_submission k ik ex now tok ends d = Inr (r, d')" by simp
  then show ?thesis
  proof (cases rule: claim_submission_cases)
    case (none d1 d2 n)
    with runs_known_keys [OF insert_submission_known update_runs_keys] show ?thesis
      unfolding lease_submission_def by blast
  next
    case (won d1 d2 r')
    then have "map run_key (runs d') = map run_key (runs d1)"
      unfolding lease_submission_def using start_dispatch_runs by (auto dest!: update_runs_keys)
    with runs_known_keys [OF insert_submission_known [OF won(1)]] show ?thesis .
  qed
qed (use assms in \<open>auto simp: claim_existing_run_def claim_canceled_lookup_def claim_result_def bnd_eq_Inr
    split: if_splits intro: runs_known_update\<close>)

lemma mark_stale_known:
  assumes "mark_reconciliation_required k ik now d = Inr (u, d')"
  shows "runs_known d d'"
proof -
  let ?new = "(default_run k ik now)\<lparr>r_current_stage := Some ''reconciliation_required'', r_reconciliation_count := 1\<rparr>"
  obtain d1 where d1: "insert_run False ?new d = Inr d1"
    "update_jobs [''current_stage''] (\<lambda>j. at_job k j \<and> j_state j = ''RUNNING'' \<and> j_superseded_by_job_id j = None)
       (\<lambda>j. j\<lparr>j_current_stage := Some ''reconciliation_required''\<rparr>) d1 = Inr (d', 1)"
    using assms unfolding mark_reconciliation_required_def by (auto simp: bnd_eq_Inr split: if_splits)
  have "jobs d1 = jobs d" using d1(1) by (auto simp: insert_run_def split: if_splits)
  moreover obtain js where "sql_update False (job_update_check (approvals d1, [''current_stage'']))
      (\<lambda>j. at_job k j \<and> j_state j = ''RUNNING'' \<and> j_superseded_by_job_id j = None)
      (\<lambda>j. j\<lparr>j_current_stage := Some ''reconciliation_required''\<rparr>) [] (jobs d1) = Inr (js, 1)"
    using d1(2) by (auto simp: update_jobs_def bnd_eq_Inr)
  from sql_update_strict [OF this] have "filter (\<lambda>j. at_job k j \<and> j_state j = ''RUNNING''
      \<and> j_superseded_by_job_id j = None) (jobs d1) \<noteq> []" by auto
  ultimately have "\<exists>j \<in> set (jobs d). job_key j = run_key ?new"
    by (auto simp: filter_empty_conv at_job_key)
  from runs_known_insert [OF d1(1) this] have "runs_known d d1" .
  then show ?thesis by (rule runs_known_keys) (simp add: update_jobs_runs [OF d1(2)])
qed

lemma quarantine_queued_known:
  assumes "quarantine_queued_job k c s now d = Inr (b, d')"
  shows "runs_known d d'"
proof (cases "job_exists d (\<lambda>j. at_job k j \<and> j_state j = ''QUEUED'' \<and> j_superseded_by_job_id j = None)")
  case True
  then have job: "\<exists>j \<in> set (jobs d). job_key j = candidate_key k"
    by (auto simp: job_exists_def list_ex_iff at_job_key)
  from True assms obtain d1 new P f Q g where d1: "insert_run True new d = Inr d1" "run_key new = candidate_key k"
    "run_then P f (job_write [''current_stage'', ''error_code'', ''error_summary''] Q g) d1 = Inr (b, d')"
    unfolding quarantine_queued_job_def by (auto simp: bnd_eq_Inr)
  have "runs_known d d1" using job d1(2) by (intro runs_known_insert [OF d1(1)]) simp
  then show ?thesis by (rule runs_known_keys) (rule run_then_keys [OF d1(3)], erule job_write_runs)
qed (use assms in \<open>simp add: quarantine_queued_job_def runs_known_same\<close>)

lemma quarantine_invalid_known:
  assumes "quarantine_invalid_scheduler_timestamps k now d = Inr (b, d')"
  shows "runs_known d d'"
  using assms unfolding quarantine_invalid_scheduler_timestamps_def
  by (auto simp: bnd_eq_Inr runs_known_same split: if_splits dest!: job_write_runs
      intro: runs_known_keys [OF runs_known_update])

lemma reconcile_poll_known: "reconcile_poll_after_local_cancel k t now d = Inr (b, d') \<Longrightarrow> runs_known d d'"
  unfolding reconcile_poll_after_local_cancel_def by (auto split: if_splits intro: runs_known_write)

lemma record_poll_known:
  assumes "record_poll_and_stage k tok po ongoing now d = Inr (b, d')"
  shows "runs_known d d'"
proof -
  obtain d1 where "settle (PollStatus po) now k tok d = Inr (b, d1)" "runs d' = runs d1"
    using assms by (rule record_poll_and_stage_cases) (auto dest: update_running_stage_runs)
  with runs_known_keys [OF settle_known] show ?thesis by metis
qed

lemma reconcile_terminal_known:
  "reconcile_terminal_after_local_cancel k now d = Inr (b, d') \<Longrightarrow> runs_known d d'"
  unfolding reconcile_terminal_after_local_cancel_def by (rule runs_known_write)

lemma begin_cancel_known: "begin_cancel_stage k tok now d = Inr (b, d') \<Longrightarrow> runs_known d d'"
  unfolding begin_cancel_stage_def by (rule runs_known_write)

lemma quarantine_running_known: "quarantine_running_dispatch k c s now d = Inr (b, d') \<Longrightarrow> runs_known d d'"
  unfolding quarantine_running_dispatch_def by (erule runs_known_then) (rule job_write_runs)

lemma mark_cancel_known: "mark_cancel_reconciliation_required k now d = Inr (b, d') \<Longrightarrow> runs_known d d'"
  unfolding mark_cancel_reconciliation_required_def by (erule runs_known_then) (rule job_write_runs)

lemma mark_observed_known: "mark_observed_reconciliation_required k c s now d = Inr (b, d') \<Longrightarrow> runs_known d d'"
  unfolding mark_observed_reconciliation_required_def by (erule runs_known_then) (rule job_write_runs)

lemmas known_operations = settle_known claim_known mark_stale_known quarantine_queued_known
  quarantine_invalid_known reconcile_poll_known record_poll_known reconcile_terminal_known
  begin_cancel_known quarantine_running_known mark_cancel_known mark_observed_known

lemma serve_known: "runs_known d (serve x rq d)"
proof -
  have body: "runs_known d (commit b d)"
    if "\<And>u d'. b d = Inr (u, d') \<Longrightarrow> runs_known d d'" for b :: "db \<Rightarrow> exn + ('u \<times> db)"
    by (rule commit_cases [where R = "runs_known d"]) (rule that, assumption, rule runs_known_same [OF refl])
  have same: "runs_known d (commit b d)"
    if "\<And>u d'. b d = Inr (u, d') \<Longrightarrow> runs d' = runs d" for b :: "db \<Rightarrow> exn + ('u \<times> db)"
    by (rule body) (rule runs_known_same, rule that)
  show ?thesis
  proof (cases rq)
    case (PlanJob c sid plan clock jid)
    then show ?thesis
      using plan_job_commit [of x c sid plan clock jid d] same [OF plan_body_runs] runs_known_same [OF refl]
      by auto
  next
    case (Deliver v)
    then show ?thesis
      using deliver_commit [of x v d] same [OF accept_body_runs] runs_known_same [OF refl] by auto
  qed ((simp only: serve.simps approve_job_def transition_job_def bind_artifact_manifest_service_def
        option.case snd_transaction, rule same, erule runless)
      | (simp only: serve.simps, rule body, erule known_operations))+
qed

end
