(* ===== verification/LeaseProperties.thy ===== *)
theory LeaseProperties
  imports SystemLeases Demo
begin

text \<open>
  Properties of the runner's leases and of the dispatch claim, with the runs they are exercised on.
\<close>

section \<open>Claiming a queued job\<close>

lemma fresh_insert:
  assumes "j \<in> set (jobs d)" "j_state j = ''QUEUED''" "j_superseded_by_job_id j = None" "0 < j_attempt j"
    and fresh: "\<And>r. r \<in> set (runs d) \<Longrightarrow> run_key r \<noteq> job_key j"
    and times: "is_utc_timestamp now" "is_utc_timestamp expires" and ex: "trimmed ex"
    and k: "k = candidate_of j"
    and ik: "ik = j_company_id j @ '':'' @ j_job_id j @ '':'' @ dec_int (j_attempt j)"
    and new: "new = (default_run k ik now)\<lparr>r_executor_name := Some ex,
       r_submission_attempted_at := Some now, r_lease_token := Some tok, r_lease_expires_at := Some expires\<rparr>"
  shows "insert_submission k ik ex now tok expires d = Inr (d\<lparr>runs := runs d @ [new]\<rparr>)"
    and "run_checks new" "run_key new = job_key j"
proof -
  have job: "job_exists d (submission_job k)"
    using assms(1-3) by (auto simp: job_exists_def list_ex_iff submission_job_def at_job_def k candidate_of_def)
  have fk: "list_ex (\<lambda>x. j_company_id x = r_company_id new \<and> j_job_id x = r_job_id new) (jobs d)"
    using assms(1) by (auto simp: list_ex_iff new default_run_def k candidate_of_def)
  show key: "run_key new = job_key j"
    by (simp add: new default_run_def k candidate_of_def run_key_def job_key_def)
  have none: "\<not> list_ex (\<lambda>x. run_key x = run_key new) (runs d)"
    using fresh by (auto simp: list_ex_iff key)
  show checks: "run_checks new"
    using times ex assms(4)
    by (simp add: run_checks_def run_identity_checks_def run_state_checks_def run_time_checks_def
        utc_or_null_def new default_run_def k candidate_of_def ik trimmed_def sql_trim_def)
  have owned: "runs_external_identity_owned (runs d) new"
    by (simp add: runs_external_identity_owned_def new default_run_def)
  show "insert_submission k ik ex now tok expires d = Inr (d\<lparr>runs := runs d @ [new]\<rparr>)"
    using job fk none checks owned by (simp add: insert_submission_def insert_run_def flip: new)
qed

lemma lease_fresh_row:
  assumes "runs d = us @ [new]" "\<And>x. x \<in> set us \<Longrightarrow> run_key x \<noteq> run_key new"
    and "run_checks new" "at_run k new" "r_idempotency_key new = ik" "r_executor_name new = Some ex"
    and "r_lease_token new = Some tok" "r_lease_expires_at new = Some expires"
    and "r_heartbeat_at new = now" "r_updated_at new = now" "r_external_run_id new = None"
    and "job_exists d (\<lambda>j. job_key j = run_key new \<and> j_state j = k_state k
           \<and> (k_state k \<noteq> ''RUNNING'' \<or> j_current_stage j = Some ''dispatching'')
           \<and> j_superseded_by_job_id j = None)"
  shows "lease_submission k ik ex now tok expires d = Inr (d, 1)"
proof -
  let ?f = "\<lambda>r. (lease tok expires now r)\<lparr>r_executor_name := coalesce (r_executor_name r) (Some ex)\<rparr>"
  have same: "?f new = new" using assms(6-10) by (simp add: lease_def)
  have "run_update_check () us new new = Pass"
    using assms(3,11)
    by (cases "r_external_status new") (simp_all add: run_update_check_def runs_identity_immutable_def runs_result_immutable_def
        runs_external_status_monotonic_def runs_external_identity_immutable_def
        runs_external_identity_owned_def)
  with assms same show ?thesis
    unfolding lease_submission_def
    by (subst update_runs_one [of d us new "[]"]) (auto simp: at_run_key claimable_def)
qed

lemma dispatch_update:
  assumes ok: "schema_ok d" and j: "j \<in> set (jobs d)" "j_state j = ''QUEUED''"
    "j_superseded_by_job_id j = None" "jobs_runner_timestamp_valid j" and now: "is_utc_timestamp now"
    and k: "k = candidate_of j"
  obtains us vs where "jobs d = us @ j # vs" "\<And>x. x \<in> set (us @ vs) \<Longrightarrow> j_job_id x \<noteq> j_job_id j"
    "start_dispatch k now d = Inr ((), d\<lparr>
       jobs := us @ j\<lparr>j_state := ''RUNNING'', j_current_stage := Some ''dispatching'',
                 j_started_at := coalesce (j_started_at j) (Some now)\<rparr> # vs,
       transitions := transitions d @ [\<lparr>t_job_id = j_job_id j, t_from_state = Some ''QUEUED'',
         t_to_state = ''RUNNING'', t_reason_summary = Some ''external dispatch claimed'',
         t_occurred_at = now\<rparr>]\<rparr>)"
proof -
  obtain us vs where sp: "jobs d = us @ j # vs" "\<And>x. x \<in> set (us @ vs) \<Longrightarrow> j_job_id x \<noteq> j_job_id j"
    "\<And>x. x \<in> set (us @ vs) \<Longrightarrow> jobs_compatible x j" "0 < j_attempt j"
    using job_split [OF ok j(1)] by metis
  let ?f = "\<lambda>j. j\<lparr>j_state := ''RUNNING'', j_current_stage := Some ''dispatching'',
                 j_started_at := coalesce (j_started_at j) (Some now)\<rparr>"
  let ?cols = "[''state'', ''current_stage'', ''started_at'']"
  have "one_active_job_per_creator (us @ vs) (?f j)"
    by (rule active_stays_one_active [OF sp(3)]) (simp_all add: j(2) active_job_state_def)
  moreover have "jobs_runner_timestamp_valid (?f j)"
    using j(4) now by (cases "j_started_at j") (simp_all add: jobs_runner_timestamp_valid_def)
  ultimately have pass: "job_update_check (approvals d, ?cols) (us @ vs) j (?f j) = Pass"
    using sp(4) by (intro mutable_update_passes) (simp_all add: same_bindings_defs)
  have upd: "update_jobs ?cols (\<lambda>j. at_job k j \<and> j_state j = ''QUEUED'' \<and> j_superseded_by_job_id j = None) ?f d
      = Inr (d\<lparr>jobs := us @ ?f j # vs\<rparr>, 1)"
    by (rule update_jobs_one(1) [where f = ?f, OF sp(1) _ _ pass])
      (use sp(2) j in \<open>auto simp: at_job_def k candidate_of_def\<close>)
  have miss: "filter (\<lambda>x. at_job k x \<and> Q x) ys = []" if "set ys \<subseteq> set (us @ vs)" for ys Q
    using sp(2) that by (auto simp: filter_empty_conv at_job_def k candidate_of_def)
  have "dispatch_rows k now (d\<lparr>jobs := us @ ?f j # vs\<rparr>) =
      [\<lparr>t_job_id = j_job_id j, t_from_state = Some ''QUEUED'', t_to_state = ''RUNNING'',
        t_reason_summary = Some ''external dispatch claimed'', t_occurred_at = now\<rparr>]"
    using miss [of us] miss [of vs] by (simp add: dispatch_rows_def at_job_def k candidate_of_def)
  with upd that [OF sp(1,2)] show ?thesis
    by (simp add: start_dispatch_def)
qed

definition dispatched :: "pystr \<Rightarrow> job \<Rightarrow> job" where
  "dispatched now j = j\<lparr>j_state := ''RUNNING'', j_current_stage := Some ''dispatching'',
     j_started_at := coalesce (j_started_at j) (Some now)\<rparr>"

definition dispatch_transition :: "pystr \<Rightarrow> job \<Rightarrow> transition" where
  "dispatch_transition now j =
     \<lparr>t_job_id = j_job_id j, t_from_state = Some ''QUEUED'', t_to_state = ''RUNNING'',
      t_reason_summary = Some ''external dispatch claimed'', t_occurred_at = now\<rparr>"

definition submission_key :: "job \<Rightarrow> pystr" where
  "submission_key j = j_company_id j @ '':'' @ j_job_id j @ '':'' @ dec_int (j_attempt j)"

text \<open>
  A queued job that no runner has touched can be dispatched: the claim succeeds, writes exactly
  one leased run under the job's idempotency key, turns exactly that job RUNNING in stage
  dispatching, and appends exactly one QUEUED-to-RUNNING audit row; nothing else changes.
\<close>

theorem claim_fresh_submission:
  assumes "schema_ok d" "j \<in> set (jobs d)" "j_state j = ''QUEUED''" "j_superseded_by_job_id j = None"
    and "jobs_runner_timestamp_valid j" "\<And>r. r \<in> set (runs d) \<Longrightarrow> run_key r \<noteq> job_key j"
    and "is_utc_timestamp now" "is_utc_timestamp expires" "trimmed ex"
  shows "\<exists>us vs run. jobs d = us @ j # vs
     \<and> run = (default_run (candidate_of j) (submission_key j) now)\<lparr>r_executor_name := Some ex,
         r_submission_attempted_at := Some now, r_lease_token := Some tok,
         r_lease_expires_at := Some expires\<rparr>
     \<and> claim_submission (candidate_of j) (submission_key j) ex now tok expires d
       = Inr (Some run, d\<lparr>runs := runs d @ [run], jobs := us @ dispatched now j # vs,
                          transitions := transitions d @ [dispatch_transition now j]\<rparr>)"
proof -
  define run where "run = (default_run (candidate_of j) (submission_key j) now)\<lparr>r_executor_name := Some ex,
    r_submission_attempted_at := Some now, r_lease_token := Some tok, r_lease_expires_at := Some expires\<rparr>"
  let ?d1 = "d\<lparr>runs := runs d @ [run]\<rparr>"
  have att: "0 < j_attempt j" using job_split [OF assms(1,2)] by metis
  have ins: "insert_submission (candidate_of j) (submission_key j) ex now tok expires d = Inr ?d1"
    "run_checks run" "run_key run = job_key j"
    using fresh_insert [where k = "candidate_of j" and ik = "submission_key j" and new = run and tok = tok,
        OF assms(2-4) att assms(6,7-9)] by (simp_all add: run_def submission_key_def)
  have ok1: "schema_ok ?d1"
    using insert_submission_safe [OF ins(1)] assms(1) by (simp add: safe_step_def)
  have lease1: "lease_submission (candidate_of j) (submission_key j) ex now tok expires ?d1 = Inr (?d1, 1)"
  proof (rule lease_fresh_row [OF _ _ ins(2)])
    show "at_run (candidate_of j) run"
      using ins(3) by (simp add: at_run_key candidate_key_def candidate_of_def job_key_def)
    show "job_exists ?d1 (\<lambda>x. job_key x = run_key run \<and> j_state x = k_state (candidate_of j)
        \<and> (k_state (candidate_of j) \<noteq> ''RUNNING'' \<or> j_current_stage x = Some ''dispatching'')
        \<and> j_superseded_by_job_id x = None)"
      using assms(2-4) ins(3) by (auto simp: job_exists_def list_ex_iff candidate_of_def)
  qed (use assms(6) ins(3) in \<open>auto simp: run_def default_run_def\<close>)
  obtain us vs where sp: "jobs ?d1 = us @ j # vs"
    and st: "start_dispatch (candidate_of j) now ?d1 = Inr ((), ?d1\<lparr>jobs := us @ dispatched now j # vs,
       transitions := transitions ?d1 @ [dispatch_transition now j]\<rparr>)"
    unfolding dispatched_def dispatch_transition_def
    by (rule dispatch_update [OF ok1 _ assms(3-5,7), where k = "candidate_of j"]) (use assms(2) in auto)
  let ?d3 = "d\<lparr>runs := runs d @ [run], jobs := us @ dispatched now j # vs,
                          transitions := transitions d @ [dispatch_transition now j]\<rparr>"
  have "k_state (candidate_of j) = ''QUEUED''" using assms(3) by (simp add: candidate_of_def)
  have key: "run_key run = candidate_key (candidate_of j)"
    using ins(3) by (simp add: candidate_key_def candidate_of_def job_key_def)
  have "find (\<lambda>r. run_key r = run_key run) (runs d @ [run]) = Some run"
    using assms(6) ins(3) by (auto simp: find_Some_iff nth_append less_Suc_eq)
  then have "get_run ?d3 (candidate_key (candidate_of j)) = Inr run"
    by (simp add: get_run_def run_of_def key)
  with ins(1) lease1 st sp have "claim_submission (candidate_of j) (submission_key j) ex now tok expires d = Inr (Some run, ?d3)"
    using \<open>k_state (candidate_of j) = ''QUEUED''\<close> by (simp add: claim_submission_def)
  with sp show ?thesis unfolding run_def by auto
qed

lemma demo_job_fresh:
  "demo_job \<in> set (jobs demo_db)" "j_state demo_job = ''QUEUED''" "j_superseded_by_job_id demo_job = None"
  "jobs_runner_timestamp_valid demo_job" "\<And>r. r \<in> set (runs demo_db) \<Longrightarrow> run_key r \<noteq> job_key demo_job"
  "trimmed ''n8n''"
  by (simp_all add: row_defs jobs_runner_timestamp_valid_def trimmed_def sql_trim_def)

section \<open>Mutual exclusion and fencing\<close>

text \<open>
  C25.  Mutual exclusion: once a claim (for submission, for an existing run, or for a canceled lookup)
  has been granted, no sequence of requests of the system, whoever commits them, changes the attempt's
  run as long as they are rivals: about this attempt they claim or take over only before the lease
  expires, they settle, begin a cancellation or record a poll only with other tokens, and the two
  operations that ask for no lease (\<open>mark_observed_reconciliation_required\<close> and
  \<open>quarantine_invalid_scheduler_timestamps\<close>) are not called for it.  The lease stays.
\<close>

theorem lease_excludes_others:
  assumes "schema_ok d" "claim_run c k now tok expires d = Inr (Some r, d')"
    and "list_all (rival (candidate_key k) tok expires) rqs"
  shows "rows (foldl (\<lambda>d rq. serve x rq d) d' rqs) (candidate_key k) = rows d' (candidate_key k)
     \<and> leased_until (foldl (\<lambda>d rq. serve x rq d) d' rqs) (candidate_key k) tok expires"
  by (rule rivals_spare [OF runner_leases.grab_grants [OF assms(1,2)] assms(3)])

definition demo_rivals :: "request list" where
  "demo_rivals =
     [Claim (Submission ''co:job:1'' ''n8n'') demo_dispatching (demo_time 60) ''B'' (demo_time 360),
      Settle Release (demo_time 70) demo_dispatching ''B'',
      MoveJob ''co'' ''job'' RUNNING CANCELED ''stop'' None None (demo_instant 75),
      Claim CanceledLookup demo_dispatching (demo_time 80) ''C'' (demo_time 380),
      QuarantineRunning demo_dispatching ''CODE'' ''summary'' (demo_time 90)]"

lemma lease_excludes_others_witness:
  "rows (foldl (\<lambda>d rq. serve demo_externals rq d) demo_claimed_db demo_rivals) (candidate_key demo_candidate)
     = [demo_run]"
proof -
  have "claim_run (Submission ''co:job:1'' ''n8n'') demo_candidate demo_now ''A'' demo_later demo_db
      = Inr (Some demo_run, demo_claimed_db)"
    by (simp add: demo_claim)
  moreover have "list_all (rival (candidate_key demo_candidate) ''A'' demo_later) demo_rivals"
    by (simp add: demo_rivals_def)
  moreover have "rows demo_claimed_db (candidate_key demo_candidate) = [demo_run]"
    by (simp add: rows_def row_defs run_key_def candidate_key_def)
  ultimately show ?thesis
    using lease_excludes_others [of demo_db "Submission ''co:job:1'' ''n8n''" demo_candidate demo_now
        "''A''" demo_later demo_run demo_claimed_db demo_rivals demo_externals] by simp
qed

text \<open>
  A lease settles at most once: after any of the fifteen leased operations has taken effect,
  every later one on that attempt, whatever its token, is refused and leaves the database alone.
\<close>

theorem lease_settles_once:
  assumes "schema_ok d" "settle s now k tok d = Inr (b, d')" "d' \<noteq> d \<or> b"
  shows "foldl (\<lambda>x (s', now', tok'). snd (transaction (settle s' now' k tok') x)) d' later = d'
    \<and> (\<forall>s' now' tok'. settle s' now' k tok' d' = Inr (False, d'))"
  using runner_writes.writes_once [OF assms] runner_writes.write_once [OF assms] by blast

definition demo_released_db :: db where
  "demo_released_db = demo_claimed_db\<lparr>runs := [release (demo_time 10) demo_run]\<rparr>"

lemma demo_release:
  "settle Release (demo_time 10) demo_dispatching ''A'' demo_claimed_db = Inr (True, demo_released_db)"
  by (simp add: release_lease_def run_write_def demo_released_db_def row_defs write_defs check_defs
      at_run_def release_def)

text \<open>
  C28.  Fencing: without the attempt's lease token none of the fifteen leased operations does anything.
  With it, an operation writes only rows of that attempt (its run and its job's current attempt) and
  retry budgets of that job; no job changes its state, plan, snapshot, approval or attempt, nothing is
  logged, stored rows evolve only as the triggers allow, and the constraints on jobs, runs and budgets
  keep holding.
\<close>

theorem settlements_are_fenced:
  "(\<not> holds_lease d (candidate_key k) tok \<longrightarrow> settle s now k tok d = Inr (False, d))
   \<and> (\<forall>b d'. settle s now k tok d = Inr (b, d') \<longrightarrow>
        confined k d d' \<and> ledger_of d' = ledger_of d \<and> db_evolves d d' \<and> (schema_ok d \<longrightarrow> schema_ok d'))"
  using runner_writes.write_refused settle_laws(4) [of s now k tok d] settle_confined quiet_ledger settle_quiet
  unfolding safe_step_def by metis

lemma settlements_are_fenced_witness:
  "settle Release (demo_time 10) demo_dispatching ''B'' demo_claimed_db = Inr (False, demo_claimed_db)
   \<and> confined demo_dispatching demo_claimed_db demo_released_db"
proof -
  have "\<not> holds_lease demo_claimed_db (candidate_key demo_dispatching) ''B''"
    by (simp add: holds_lease_def rows_def row_defs)
  then show ?thesis using settlements_are_fenced demo_release by blast
qed

end
