(* ===== verification/SystemProperties.thy ===== *)
theory SystemProperties
  imports SystemLeases Demo
begin

text \<open>
  What holds in every state the system can reach, whoever commits what in which order, with a small
  history (a job planned, submitted for approval and approved) on which it is exercised.
\<close>

section \<open>A history\<close>

definition demo_start :: db where
  "demo_start = demo_db\<lparr>jobs := [], approvals := []\<rparr>"

definition demo_planned_job :: job where
  "demo_planned_job = demo_job\<lparr>j_state := ''PLANNED'', j_approved_plan_fingerprint := None,
     j_approval_record_id := None\<rparr>"

definition demo_waiting_job :: job where
  "demo_waiting_job = demo_planned_job\<lparr>j_state := ''AWAITING_PAID_APPROVAL''\<rparr>"

definition demo_line :: "pystr option \<Rightarrow> pystr \<Rightarrow> pystr option \<Rightarrow> transition" where
  "demo_line from to reason = \<lparr>t_job_id = ''job'', t_from_state = from, t_to_state = to,
     t_reason_summary = reason, t_occurred_at = demo_now\<rparr>"

abbreviation demo_reason :: pystr where "demo_reason \<equiv> ''paid execution approval requested''"

definition demo_log :: "transition list" where
  "demo_log = [demo_line None ''PLANNED'' None,
     demo_line (Some ''PLANNED'') ''AWAITING_PAID_APPROVAL'' (Some demo_reason),
     demo_line (Some ''AWAITING_PAID_APPROVAL'') ''QUEUED'' None]"

definition demo_approval_row :: approval where
  "demo_approval_row = demo_approval\<lparr>a_expires_at := None\<rparr>"

definition demo_planned_db :: db where
  "demo_planned_db = demo_start\<lparr>jobs := [demo_planned_job], transitions := take 1 demo_log\<rparr>"

definition demo_waiting_db :: db where
  "demo_waiting_db = demo_start\<lparr>jobs := [demo_waiting_job], transitions := take 2 demo_log\<rparr>"

definition demo_approved_db :: db where
  "demo_approved_db = demo_start\<lparr>jobs := [demo_job], approvals := [demo_approval_row], transitions := demo_log\<rparr>"

lemmas history_defs =
  demo_start_def demo_planned_job_def demo_waiting_job_def demo_line_def demo_log_def
  demo_approval_row_def demo_planned_db_def demo_waiting_db_def demo_approved_db_def

lemma demo_brief_found: "context_brief demo_execution_snapshot = Some demo_brief_context"
  by (simp add: context_brief_def demo_execution_snapshot_def demo_context_def jdict_of_def jget_def)

lemma demo_brief_fingerprint: "sha256_fingerprint (ext_sha256 demo_externals) (JObj demo_brief_context) = Inr demo_hash"
  by (simp add: sha256_fingerprint_def demo_payload_bytes demo_externals_def)

lemma demo_planned_row:
  "planned_row demo_execution_snapshot ''job'' demo_hash ''user'' demo_now
     demo_plan_json demo_hash = demo_planned_job"
  by (simp add: planned_row_def demo_execution_snapshot_def demo_planned_job_def demo_job_def)

lemma demo_add_job: "add_job demo_planned_job demo_start = Inr ((), demo_start\<lparr>jobs := [demo_planned_job]\<rparr>)"
  by (simp add: add_job_def authoritative_identity_def job_insert_ok_def history_defs row_defs
      jobs_runner_timestamp_valid_def one_active_job_per_creator_def)

lemma demo_plan_step:
  "serve demo_externals (PlanJob ''co'' ''snap'' demo_plan (demo_instant 0) ''job'') demo_start = demo_planned_db"
proof -
  have "get_snapshot demo_externals demo_start ''co'' ''snap'' = Inr demo_execution_snapshot"
    by (rule demo_get_snapshot) (simp add: demo_start_def demo_db_def)
  moreover have "jget ''created_by'' demo_brief_context = Some (JStr ''user'')"
    "brief_matches demo_execution_snapshot demo_brief_context"
    by (simp_all add: brief_matches_def demo_brief_context_def demo_execution_snapshot_def jget_def)
  moreover have "supersede_pending_jobs ''co'' ''user'' ''job'' (demo_start\<lparr>jobs := [demo_planned_job]\<rparr>)
      = Inr ((), demo_start\<lparr>jobs := [demo_planned_job]\<rparr>)"
    by (simp add: supersede_pending_jobs_def update_jobs_def history_defs row_defs)
  moreover have "append_transition ''co'' ''job'' None ''PLANNED'' demo_now None
      (demo_start\<lparr>jobs := [demo_planned_job]\<rparr>) = Inr ((), demo_planned_db)"
    by (simp add: append_transition_def history_defs row_defs)
  moreover have "ext_sha256 demo_externals b = demo_hash" for b by (simp add: demo_externals_def)
  ultimately show ?thesis
    by (simp add: plan_job_def demo_plan_bytes snd_transaction commit_def transaction_def plan_body_def
        demo_brief_found demo_brief_fingerprint demo_time_def [symmetric] demo_planned_row demo_add_job)
qed

lemma demo_rows_in_state:
  "\<exists>sj. domain_job demo_planned_job = Inr sj \<and> sj_state sj = PLANNED \<and> sj_snapshot_hash sj = demo_hash"
  "\<exists>sj. domain_job demo_waiting_job = Inr sj \<and> sj_state sj = AWAITING_PAID_APPROVAL \<and> sj_snapshot_hash sj = demo_hash"
  by (rule demo_domain_job [where f = None and i = None]; simp add: history_defs demo_job_def)+

lemma demo_rows_integrity:
  "require_job_snapshot_integrity demo_externals demo_planned_job demo_execution_snapshot = Inr ()"
  "require_job_snapshot_integrity demo_externals demo_waiting_job demo_execution_snapshot = Inr ()"
  by (rule demo_job_integrity; simp add: history_defs demo_job_def)+

lemma demo_rows_plan:
  "require_plan_integrity demo_externals demo_planned_job = Inr demo_plan"
  "require_plan_integrity demo_externals demo_waiting_job = Inr demo_plan"
  by (rule demo_plan_integrity; simp add: history_defs demo_job_def)+

lemma demo_swap:
  "compare_and_swap_state ''co'' ''job'' ''PLANNED'' ''AWAITING_PAID_APPROVAL'' 1 None None None None None demo_planned_db
     = Inr (True, demo_planned_db\<lparr>jobs := [demo_waiting_job]\<rparr>)"
  by (simp add: compare_and_swap_state_def write_defs check_defs history_defs row_defs)

lemma demo_waiting_snapshot:
  "get_snapshot demo_externals demo_planned_db ''co'' ''snap'' = Inr demo_execution_snapshot"
  "get_snapshot demo_externals demo_waiting_db ''co'' ''snap'' = Inr demo_execution_snapshot"
  by (rule demo_get_snapshot; simp add: history_defs demo_db_def)+

lemma demo_request_step:
  "serve demo_externals (MoveJob ''co'' ''job'' PLANNED AWAITING_PAID_APPROVAL demo_reason None None (demo_instant 0))
     demo_planned_db = demo_waiting_db"
proof -
  obtain sj where sj: "domain_job demo_planned_job = Inr sj" "sj_state sj = PLANNED"
    using demo_rows_in_state(1) by blast
  obtain sj' where sj': "domain_job demo_waiting_job = Inr sj'"
    using demo_rows_in_state(2) by blast
  have rows: "get_job demo_planned_db ''co'' ''job'' = Inr demo_planned_job"
    "get_job demo_waiting_db ''co'' ''job'' = Inr demo_waiting_job"
    "j_snapshot_id demo_planned_job = ''snap''" "j_snapshot_id demo_waiting_job = ''snap''"
    by (simp_all add: get_job_def history_defs demo_job_def)
  have guard: "transition_guard demo_externals demo_planned_db ''co'' demo_planned_job PLANNED PLANNED
      AWAITING_PAID_APPROVAL (demo_instant 0) = Inr ()"
    using rows(3) by (simp add: transition_guard_def demo_rows_plan demo_waiting_snapshot demo_rows_integrity
        reserved_approval_edges_def is_transition_allowed_def ALLOWED_TRANSITIONS_def)
      (simp add: history_defs demo_job_def)
  have log: "append_transition ''co'' ''job'' (Some ''PLANNED'') ''AWAITING_PAID_APPROVAL'' demo_now (Some demo_reason)
      (demo_planned_db\<lparr>jobs := [demo_waiting_job]\<rparr>) = Inr ((), demo_waiting_db)"
    by (simp add: append_transition_def history_defs row_defs)
  have cols: "j_job_id demo_planned_job = ''job''" "j_attempt demo_planned_job = 1"
    "j_started_at demo_planned_job = None" "j_finished_at demo_planned_job = None"
    "j_current_stage demo_planned_job = None" "j_error_code demo_planned_job = None"
    "j_error_summary demo_planned_job = None"
    by (simp_all add: history_defs demo_job_def)
  have "apply_transition demo_externals ''co'' demo_planned_job PLANNED AWAITING_PAID_APPROVAL demo_reason None None
      (demo_instant 0) demo_planned_db
    = bnd (domain_job_with_snapshot demo_externals demo_waiting_job demo_execution_snapshot) (\<lambda>sj. Inr (sj, demo_waiting_db))"
    using demo_swap log rows(2,4) demo_waiting_snapshot(2)
    by (simp add: apply_transition_def Let_def transition_errors_def transition_attempt_def
        transition_started_def transition_finished_def finished_states_def demo_time_def [symmetric] cols)
  then show ?thesis
    using sj sj' guard rows(1) demo_rows_integrity(2)
    by (simp add: transition_job_def transition_body_def transaction_def domain_job_with_snapshot_def)
qed

lemma demo_approve_step:
  "serve demo_externals (ApproveJob ''co'' ''job'' ''boss'' demo_hash demo_hash (demo_instant 0) ''apr'')
     demo_waiting_db = demo_approved_db"
proof -
  obtain sj where sj: "domain_job demo_waiting_job = Inr sj"
    using demo_rows_in_state(2) by blast
  have rows: "get_job demo_waiting_db ''co'' ''job'' = Inr demo_waiting_job"
    by (simp add: get_job_def history_defs demo_job_def)
  have cols: "j_state demo_waiting_job = ''AWAITING_PAID_APPROVAL''" "j_superseded_by_job_id demo_waiting_job = None"
    "j_plan_fingerprint demo_waiting_job = Some demo_hash" "j_snapshot_hash demo_waiting_job = demo_hash"
    "j_job_id demo_waiting_job = ''job''" "j_snapshot_id demo_waiting_job = ''snap''"
    by (simp_all add: history_defs demo_job_def)
  let ?ap = "paid_record demo_waiting_job demo_hash ''boss'' (demo_instant 0) ''apr''"
  have made: "make_approval_record ?ap = Inr ?ap"
    by (simp add: make_approval_record_def paid_record_def cols approval_types_def
        ascii_space_def wide_space_def)
  have added: "add_approval ''co'' ?ap demo_waiting_db = Inr ((), demo_waiting_db\<lparr>approvals := [demo_approval_row]\<rparr>)"
    by (simp add: add_approval_def paid_record_def history_defs row_defs approval_types_def
        storage_timestamp_def demo_time_def)
  have bound: "bind_paid_approval ''co'' ''job'' ''AWAITING_PAID_APPROVAL'' demo_hash ''apr''
      (demo_waiting_db\<lparr>approvals := [demo_approval_row]\<rparr>)
    = Inr (True, demo_waiting_db\<lparr>approvals := [demo_approval_row], jobs := [demo_job]\<rparr>)"
    by (simp add: bind_paid_approval_def write_defs check_defs history_defs row_defs)
  have log: "append_transition ''co'' ''job'' (Some ''AWAITING_PAID_APPROVAL'') ''QUEUED'' demo_now None
      (demo_waiting_db\<lparr>approvals := [demo_approval_row], jobs := [demo_job]\<rparr>) = Inr ((), demo_approved_db)"
    by (simp add: append_transition_def history_defs row_defs)
  have "\<not> blank ''boss''" by (simp add: ascii_space_def wide_space_def)
  with sj rows show ?thesis
    by (simp add: approve_job_def approve_body_def transaction_def cols demo_rows_plan demo_waiting_snapshot
        demo_rows_integrity demo_time_def [symmetric]
        made [unfolded paid_record_def cols] added [unfolded paid_record_def cols] bound log)
qed

lemma demo_history: "run_of_system demo_externals demo_start demo_approved_db"
  using system_serve [OF system_serve [OF system_one]] demo_plan_step demo_request_step demo_approve_step
  by metis

section \<open>Invariants of every reachable state\<close>

text \<open>A database just after migration, with whatever briefs and snapshots.\<close>

definition fresh_db :: "db \<Rightarrow> bool" where
  "fresh_db d = (jobs d = [] \<and> runs d = [] \<and> transitions d = [] \<and> approvals d = [] \<and> budgets d = [])"

lemma fresh_ok: "fresh_db d \<Longrightarrow> schema_ok d" "fresh_db d \<Longrightarrow> trail_ok (ledger_of d)" "fresh_db d \<Longrightarrow> gate_ok (ledger_of d)"
  by (simp_all add: fresh_db_def schema_ok_def jobs_table.table_ok_def runs_table.table_ok_def
      budgets_table.table_ok_def trail_ok_def gate_ok_def ledger_of_def job_lines_def)

lemma demo_start_fresh: "fresh_db demo_start"
  by (simp add: fresh_db_def demo_start_def demo_db_def)

lemma reachable_invariants:
  assumes "run_of_system x d d'" "fresh_db d"
  shows "schema_ok d'" "trail_ok (ledger_of d')" "gate_ok (ledger_of d')"
  using ledger_run_invariants(1,2) [OF run_refines [OF assms(1) fresh_ok(1) [OF assms(2)]]]
    fresh_ok [OF assms(2)] run_safe [OF assms(1)]
  by (simp_all add: safe_step_def)

text \<open>
  C3.  The audit trail is complete: in every reachable state the logged transitions of a job form one
  path of the state graph, from its creation as PLANNED to the state its row shows, and every logged
  transition belongs to a stored job.
\<close>

theorem audit_trail_complete:
  assumes "run_of_system x d d'" "fresh_db d"
  shows "(\<forall>j \<in> set (jobs d').
      walks None (job_lines (j_job_id j) (map log_line_of (transitions d'))) = Some (Some (j_state j)))
    \<and> (\<forall>t \<in> set (transitions d'). \<exists>j \<in> set (jobs d'). j_job_id j = t_job_id t)"
proof (intro conjI ballI)
  note inv = reachable_invariants [OF assms]
  have log: "l_log (ledger_of d') = map log_line_of (transitions d')" by (simp add: ledger_of_def)
  fix j assume "j \<in> set (jobs d')"
  with inv(1,2) show "walks None (job_lines (j_job_id j) (map log_line_of (transitions d'))) = Some (Some (j_state j))"
    using ledger_entry [of d' j] by (simp add: trail_ok_def log entry_of_def)
next
  note inv = reachable_invariants [OF assms]
  fix t assume t: "t \<in> set (transitions d')"
  show "\<exists>j \<in> set (jobs d'). j_job_id j = t_job_id t"
  proof (rule ccontr)
    assume "\<not> ?thesis"
    then have "l_jobs (ledger_of d') (t_job_id t) = None"
      by (auto simp: ledger_of_def map_of_eq_None_iff job_entry_def)
    with inv(2) have "job_lines (t_job_id t) (l_log (ledger_of d')) = []"
      by (auto simp: trail_ok_def dest!: spec [of _ "t_job_id t"] walks_nowhere)
    with t show False
      by (auto simp: ledger_of_def job_lines_def filter_empty_conv log_line_of_def)
  qed
qed

lemma audit_trail_complete_witness:
  "walks None (job_lines ''job'' (map log_line_of (transitions demo_approved_db))) = Some (Some ''QUEUED'')
   \<and> transitions demo_approved_db = demo_log"
proof -
  have "demo_job \<in> set (jobs demo_approved_db)" "j_job_id demo_job = ''job''" "j_state demo_job = ''QUEUED''"
    by (simp_all add: demo_approved_db_def demo_job_def)
  then show ?thesis
    using audit_trail_complete [OF demo_history demo_start_fresh] by (auto simp: demo_approved_db_def)
qed

text \<open>
  C1.  Nothing executes unpaid: in every reachable state, a job that has been queued (and so any job
  that runs, retries, succeeded, failed or was canceled) is bound to a stored paid-execution approval
  of exactly its own snapshot and its own plan.
\<close>

theorem execution_needs_paid_approval:
  assumes "run_of_system x d d'" "fresh_db d" "j \<in> set (jobs d')" "\<not> state_pre_approval (j_state j)"
  shows "\<exists>a \<in> set (approvals d'). a_job_id a = j_job_id j \<and> a_approval_type a = ''paid_execution''
      \<and> a_snapshot_hash a = j_snapshot_hash j \<and> j_plan_fingerprint j = Some (a_plan_fingerprint a)
      \<and> j_approval_record_id j = Some (a_approval_record_id a)
      \<and> j_approved_plan_fingerprint j = j_plan_fingerprint j"
proof -
  note inv = reachable_invariants [OF assms(1,2)]
  have "e_state (entry_of j) = j_state j" by (simp add: entry_of_def)
  moreover have "l_approvals (ledger_of d') = approvals d'" by (simp add: ledger_of_def)
  ultimately obtain a where "a \<in> set (approvals d')" "approves a (j_job_id j) (entry_of j)" "bound_to a (entry_of j)"
    using inv(3) ledger_entry [OF inv(1) assms(3)] assms(4) \<open>e_state (entry_of j) = j_state j\<close>
    unfolding gate_ok_def by metis
  then show ?thesis by (intro bexI [of _ a]) (auto simp: approves_def bound_to_def entry_of_def)
qed

lemma execution_needs_paid_approval_witness:
  "\<exists>a \<in> set (approvals demo_approved_db). a_job_id a = ''job'' \<and> a_snapshot_hash a = demo_hash"
proof -
  have j: "demo_job \<in> set (jobs demo_approved_db)" by (simp add: demo_approved_db_def)
  have "j_state demo_job = state_value QUEUED" by (simp add: demo_job_def)
  then have "\<not> state_pre_approval (j_state demo_job)" by (simp only: state_pre_approval_value) (simp add: pre_approval_def)
  from execution_needs_paid_approval [OF demo_history demo_start_fresh j this]
  show ?thesis by (auto simp: demo_job_def)
qed

text \<open>A job keeps its company and never goes back to an earlier attempt.\<close>

lemma attempts_grow:
  assumes "run_of_system x d d'" "schema_ok d" "j \<in> set (jobs d)"
  shows "\<exists>j' \<in> set (jobs d'). j_company_id j' = j_company_id j \<and> j_job_id j' = j_job_id j
    \<and> j_attempt j \<le> j_attempt j'"
proof -
  have safe: "safe_step d d'" using assms(1) by (rule run_safe)
  then obtain j' where j': "j' \<in> set (jobs d')" "j_job_id j' = j_job_id j" "job_evolves j j'"
    using jobs_table.table_evolves_row assms(3) unfolding safe_step_def db_evolves_def by blast
  have "\<exists>e'. l_jobs l' i = Some e' \<and> e_attempt e \<le> e_attempt e'"
    if "ledger_run l l'" "l_jobs l i = Some e" for l l' i e
    using that by (induction rule: ledger_run.induct) (auto dest: attempts_grow_step intro: order_trans)
  from this [OF run_refines [OF assms(1,2)] ledger_entry [OF assms(2,3)]]
  have "j_attempt j \<le> j_attempt j'"
    using ledger_entry [of d' j'] safe assms(2) j'(1,2) by (auto simp: safe_step_def entry_of_def)
  with j' show ?thesis using job_evolves_company by blast
qed

text \<open>Every run is of an attempt its job has reached.\<close>

definition attempts_reached :: "db \<Rightarrow> bool" where
  "attempts_reached d = (\<forall>r \<in> set (runs d). \<exists>j \<in> set (jobs d). j_company_id j = r_company_id r
     \<and> j_job_id j = r_job_id r \<and> r_attempt r \<le> j_attempt j)"

lemma attempts_reached_serve:
  assumes "schema_ok d" "attempts_reached d"
  shows "attempts_reached (serve x rq d)"
  unfolding attempts_reached_def
proof
  fix r assume r: "r \<in> set (runs (serve x rq d))"
  obtain j where "j \<in> set (jobs d)" "j_company_id j = r_company_id r" "j_job_id j = r_job_id r"
    "r_attempt r \<le> j_attempt j"
  proof (cases "run_key r \<in> run_key ` set (runs d)")
    case True
    then obtain q where "q \<in> set (runs d)" "run_key q = run_key r" by auto
    with assms(2) that show thesis by (auto simp: attempts_reached_def run_key_def)
  next
    case False
    with serve_known [of d x rq] r that show thesis by (auto simp: runs_known_def run_key_def job_key_def)
  qed
  with attempts_grow [OF system_one assms(1)] show "\<exists>j \<in> set (jobs (serve x rq d)).
      j_company_id j = r_company_id r \<and> j_job_id j = r_job_id r \<and> r_attempt r \<le> j_attempt j"
    by (metis order_trans)
qed

lemma attempts_reached_run:
  assumes "run_of_system x d d'" "schema_ok d" "attempts_reached d"
  shows "attempts_reached d'"
  using assms
proof (induction rule: run_of_system.induct)
  case (system_serve d d' rq)
  then have "schema_ok d'" using run_safe by (auto simp: safe_step_def)
  with system_serve show ?case by (simp add: attempts_reached_serve)
qed

text \<open>
  C4.  Attempts are accounted for: in every reachable state the attempt number of a job is one more than
  the number of its logged retries (FAILED_RETRYABLE to QUEUED), and every execution run belongs to an
  attempt between the first and the one its job has reached.
\<close>

theorem attempts_count_retries:
  assumes "run_of_system x d d'" "fresh_db d"
  shows "(\<forall>j \<in> set (jobs d').
      j_attempt j = 1 + int (retries_logged (job_lines (j_job_id j) (map log_line_of (transitions d')))))
    \<and> (\<forall>r \<in> set (runs d'). \<exists>j \<in> set (jobs d'). j_company_id j = r_company_id r
        \<and> j_job_id j = r_job_id r \<and> 0 < r_attempt r \<and> r_attempt r \<le> j_attempt j)"
proof (intro conjI ballI)
  note ok = fresh_ok [OF assms(2)]
  have "attempts_ok (ledger_of d)" using assms(2) by (simp add: fresh_db_def attempts_ok_def ledger_of_def)
  with ledger_run_attempts [OF run_refines [OF assms(1) ok(1)] ok(2)] have counted: "attempts_ok (ledger_of d')" .
  fix j assume "j \<in> set (jobs d')"
  then have "l_jobs (ledger_of d') (j_job_id j) = Some (entry_of j)"
    by (rule ledger_entry [OF reachable_invariants(1) [OF assms]])
  with counted have "e_attempt (entry_of j) = 1 + int (retries_logged (job_lines (j_job_id j) (l_log (ledger_of d'))))"
    unfolding attempts_ok_def by blast
  then show "j_attempt j = 1 + int (retries_logged (job_lines (j_job_id j) (map log_line_of (transitions d'))))"
    by (simp add: entry_of_def ledger_of_def)
next
  fix r assume r: "r \<in> set (runs d')"
  have "attempts_reached d" using assms(2) by (simp add: fresh_db_def attempts_reached_def)
  with attempts_reached_run [OF assms(1) fresh_ok(1) [OF assms(2)]] r obtain j where
    "j \<in> set (jobs d')" "j_company_id j = r_company_id r" "j_job_id j = r_job_id r" "r_attempt r \<le> j_attempt j"
    by (auto simp: attempts_reached_def)
  moreover have "0 < r_attempt r"
    using reachable_invariants(1) [OF assms] r
    by (auto simp: schema_ok_def runs_table.table_ok_def run_checks_def run_identity_checks_def)
  ultimately show "\<exists>j \<in> set (jobs d'). j_company_id j = r_company_id r
      \<and> j_job_id j = r_job_id r \<and> 0 < r_attempt r \<and> r_attempt r \<le> j_attempt j" by blast
qed

lemma attempts_count_retries_witness:
  "j_attempt demo_job = 1 + int (retries_logged (job_lines ''job'' (map log_line_of demo_log))) \<and> j_attempt demo_job = 1"
proof -
  have "demo_job \<in> set (jobs demo_approved_db)" "transitions demo_approved_db = demo_log" "j_job_id demo_job = ''job''"
    by (simp_all add: demo_approved_db_def demo_job_def)
  with attempts_count_retries [OF demo_history demo_start_fresh] show ?thesis by (auto simp: demo_job_def)
qed

text \<open>
  C15.  A creator has one active job at most (queued, running or waiting for a retry), an attempt has
  one run at most, and no two attempts share a run of the same executor.
\<close>

theorem one_active_job_one_run:
  assumes "run_of_system x d d'" "fresh_db d"
  shows "(\<forall>j \<in> set (jobs d'). \<forall>i \<in> set (jobs d'). j_created_by i = j_created_by j
        \<longrightarrow> active_job_state (j_state i) \<longrightarrow> active_job_state (j_state j) \<longrightarrow> i = j)
    \<and> (\<forall>r \<in> set (runs d'). \<forall>q \<in> set (runs d').
        run_key q = run_key r
        \<or> r_external_run_id r \<noteq> None \<and> r_executor_name q = r_executor_name r
           \<and> r_external_run_id q = r_external_run_id r
        \<longrightarrow> q = r)"
proof -
  note ok = reachable_invariants(1) [OF assms]
  have "i = j" if in_i: "i \<in> set (jobs d')" and in_j: "j \<in> set (jobs d')"
    and same: "j_created_by i = j_created_by j" "active_job_state (j_state i)" "active_job_state (j_state j)" for i j
  proof -
    obtain us vs where sp: "jobs d' = us @ j # vs" "\<And>x. x \<in> set (us @ vs) \<Longrightarrow> jobs_compatible x j"
      using job_split [OF ok in_j] by metis
    have "\<not> jobs_compatible i j" using same by (simp add: jobs_compatible_def)
    with sp in_i show ?thesis by auto
  qed
  moreover have "q = r" if "q \<in> set (runs d')" "r \<in> set (runs d')" "run_key q = run_key r" for q r
    using ok that by (auto simp: schema_ok_def runs_table.table_ok_def distinct_map dest: inj_onD)
  moreover have "run_key q = run_key r" if in_q: "q \<in> set (runs d')" and in_r: "r \<in> set (runs d')"
    and same: "r_external_run_id r \<noteq> None" "r_executor_name q = r_executor_name r"
      "r_external_run_id q = r_external_run_id r" for q r
  proof -
    obtain us vs where sp: "runs d' = us @ r # vs" using \<open>r \<in> set (runs d')\<close> by (meson split_list)
    with ok have compat: "x = r \<or> runs_compatible x r" if "x \<in> set (runs d')" for x
      using that runs_table.compatible_sym
      by (auto simp: schema_ok_def runs_table.table_ok_def sorted_wrt_append)
    have "r_executor_name r \<noteq> None"
      using ok in_r same(1) by (auto simp: schema_ok_def runs_table.table_ok_def run_checks_def run_identity_checks_def)
    with compat [OF in_q] same show ?thesis by (auto simp: runs_compatible_def)
  qed
  ultimately show ?thesis by metis
qed

lemma one_active_job_one_run_witness:
  "{i \<in> set (jobs demo_approved_db). j_created_by i = ''user'' \<and> active_job_state (j_state i)} = {demo_job}"
proof -
  have "demo_job \<in> set (jobs demo_approved_db)" by (simp add: demo_approved_db_def)
  moreover have "j_created_by demo_job = ''user''" "active_job_state (j_state demo_job)"
    by (simp_all add: demo_job_def active_job_state_def)
  ultimately show ?thesis using one_active_job_one_run [OF demo_history demo_start_fresh] by auto
qed

text \<open>
  C16.  Final states are final: a job that is CANCELED, FAILED_FINAL or EXPORTED stays so, with its
  plan, snapshot, approval binding and attempt, whatever is committed later.
\<close>

theorem final_states_never_left:
  assumes "run_of_system x d d'" "schema_ok d" "j \<in> set (jobs d)" "j_state j \<in> {''CANCELED'', ''FAILED_FINAL'', ''EXPORTED''}"
  shows "\<exists>j' \<in> set (jobs d'). j_job_id j' = j_job_id j \<and> entry_of j' = entry_of j"
proof -
  obtain s where s: "j_state j = state_value s" "dead_end s"
  proof -
    have "j_state j \<in> state_value ` {FAILED_FINAL, CANCELED, EXPORTED}" using assms(4) by auto
    with that show thesis unfolding dead_end_iff by blast
  qed
  from final_entry_stays [OF assms(1-3) s] show ?thesis .
qed

definition demo_canceled_db :: db where
  "demo_canceled_db = demo_approved_db\<lparr>jobs := [demo_job\<lparr>j_state := ''CANCELED'', j_finished_at := Some demo_now\<rparr>]\<rparr>"

lemma final_states_never_left_witness:
  "\<exists>j' \<in> set (jobs (serve demo_externals
        (MoveJob ''co'' ''job'' CANCELED QUEUED ''again'' None None (demo_instant 5)) demo_canceled_db)).
     j_job_id j' = ''job'' \<and> j_state j' = ''CANCELED''"
proof -
  let ?j = "demo_job\<lparr>j_state := ''CANCELED'', j_finished_at := Some demo_now\<rparr>"
  have "schema_ok demo_canceled_db"
    by (simp add: schema_ok_def demo_canceled_db_def history_defs row_defs check_defs jobs_table.table_ok_def
        runs_table.table_ok_def budgets_table.table_ok_def run_has_job_def)
  then obtain j' where "j' \<in> set (jobs (serve demo_externals
        (MoveJob ''co'' ''job'' CANCELED QUEUED ''again'' None None (demo_instant 5)) demo_canceled_db))"
    "j_job_id j' = j_job_id ?j" "entry_of j' = entry_of ?j"
    using final_states_never_left [OF system_one, of demo_canceled_db ?j] unfolding demo_canceled_db_def
    by (simp del: serve.simps) blast
  moreover have "e_state (entry_of j') = j_state j'" by (simp add: entry_of_def)
  moreover have "j_job_id ?j = ''job''" "e_state (entry_of ?j) = ''CANCELED''"
    by (simp_all add: demo_job_def entry_of_def)
  ultimately show ?thesis by metis
qed

end
