(* ===== verification/JobProperties.thy ===== *)
theory JobProperties
  imports SystemProperties
begin

text \<open>
  What the job service does, operation by operation: the exact effect of a state change, what the
  execution checks establish, supersession on planning, and retry budgets.
\<close>

section \<open>State changes\<close>

text \<open>The row a committed state change writes.\<close>

definition transitioned ::
  "job_state \<Rightarrow> job_state \<Rightarrow> instant \<Rightarrow> pystr option \<Rightarrow> pystr option \<times> pystr option \<Rightarrow> job \<Rightarrow> job" where
  "transitioned s t clock stage errors j =
     swap_state (state_value t) (transition_attempt j s t) (transition_started j t (isoformat clock))
       (transition_finished j t (isoformat clock)) (coalesce stage (j_current_stage j))
       (fst errors) (snd errors) j"

definition transition_line :: "job_state \<Rightarrow> job_state \<Rightarrow> instant \<Rightarrow> pystr \<Rightarrow> job \<Rightarrow> transition" where
  "transition_line s t clock reason j =
     \<lparr>t_job_id = j_job_id j, t_from_state = Some (state_value s), t_to_state = state_value t,
      t_reason_summary = Some reason, t_occurred_at = isoformat clock\<rparr>"

text \<open>What the guard has checked.\<close>

definition edge_open :: "externals \<Rightarrow> db \<Rightarrow> pystr \<Rightarrow> job \<Rightarrow> job_state \<Rightarrow> job_state \<Rightarrow> instant \<Rightarrow> bool" where
  "edge_open x d c j s t clock =
     (j_state j = state_value s \<and> j_superseded_by_job_id j = None \<and> is_transition_allowed s t
      \<and> (s, t) \<notin> set reserved_approval_edges
      \<and> (t = RUNNING \<longrightarrow> (\<exists>a. paid_approval d c j = Inr a \<and> approved_at a \<le> clock
            \<and> (\<forall>e. expires_at a = Some e \<longrightarrow> clock < e)))
      \<and> ((s, t) \<noteq> (DRAFT, VALIDATED) \<longrightarrow> (\<exists>plan. require_plan_integrity x j = Inr plan)
            \<and> (\<exists>sn. get_snapshot x d c (j_snapshot_id j) = Inr sn \<and> require_job_snapshot_integrity x j sn = Inr ())))"

lemma approval_window_Inr:
  "require_approval_window a now = Inr u \<longleftrightarrow>
     approved_at a \<le> now \<and> (\<forall>e. expires_at a = Some e \<longrightarrow> approved_at a < e \<and> now < e)"
  by (cases "expires_at a") (auto simp: require_approval_window_def)

lemma guard_opens:
  assumes "transition_guard x d c j s e t clock = Inr ()" "j_state j = state_value s"
  shows "edge_open x d c j s t clock"
proof -
  have "\<exists>a. paid_approval d c j = Inr a \<and> require_approval_window a clock = Inr ()" if "t = RUNNING"
    using assms(1) that by (auto simp: transition_guard_def bnd_eq_Inr split: if_splits)
  moreover have "(\<exists>plan. require_plan_integrity x j = Inr plan)
      \<and> (\<exists>sn. get_snapshot x d c (j_snapshot_id j) = Inr sn \<and> require_job_snapshot_integrity x j sn = Inr ())"
    if "(s, t) \<noteq> (DRAFT, VALIDATED)"
    using assms(1) that by (auto simp: transition_guard_def bnd_eq_Inr split: if_splits)
  ultimately show ?thesis
    using assms transition_guard_edge [OF assms(1)]
    by (auto simp: edge_open_def transition_guard_def approval_window_Inr split: if_splits)
qed

lemma domain_job_state: "domain_job r = Inr sj \<Longrightarrow> j_state r = state_value (sj_state sj)"
  by (auto simp: domain_job_def bnd_eq_Inr job_state_of_Some split: if_splits option.splits)

text \<open>
  The exact effect of a state change: it either finds the job already canceled and changes
  nothing, or the job was in the expected state on an open edge, and the commit replaces exactly that
  row (attempt counted up on a retry only, start and finish stamped once) and logs exactly that change.
\<close>

theorem transition_effect:
  assumes "schema_ok d" "transition_job x c k expected target reason ec stage clock d = (Inr sj, d')"
  shows "d' = d \<and> target = CANCELED \<and> (\<exists>j \<in> set (jobs d). j_job_id j = k \<and> j_state j = ''CANCELED'')
    \<or> (\<exists>us j vs errors. jobs d = us @ j # vs \<and> j_job_id j = k \<and> j_company_id j = c
        \<and> edge_open x d c j expected target clock
        \<and> transition_errors j expected target reason ec = Inr errors
        \<and> d' = d\<lparr>jobs := us @ transitioned expected target clock stage errors j # vs,
                 transitions := transitions d @ [transition_line expected target clock reason j]\<rparr>)"
proof -
  have "transition_body x c k expected target reason ec stage clock d = Inr (sj, d')"
    using assms(2) by (auto simp: transition_job_def transaction_def split: sum.splits)
  then show ?thesis
  proof (cases rule: transition_body_cases)
    case (again r)
    then have "r \<in> set (jobs d)" "j_job_id r = k" "j_state r = ''CANCELED''"
      using get_job_Inr [of d c k r] domain_job_state [of r sj] by auto
    with again show ?thesis by blast
  next
    case (moved r sj0)
    have r: "r \<in> set (jobs d)" "j_job_id r = k" "j_company_id r = c"
      using get_job_Inr [OF moved(1)] by simp_all
    have st: "sj_state sj0 = expected" using transition_guard_edge [OF moved(4)] by simp
    have state: "j_state r = state_value expected" using domain_job_state [OF moved(2)] st by simp
    have opened: "edge_open x d c r expected target clock"
      using guard_opens [OF moved(4) [unfolded st] state] .
    from moved(5) obtain code summary d1 where d1: "transition_errors r expected target reason ec = Inr (code, summary)"
      "compare_and_swap_state c k (state_value expected) (state_value target)
         (transition_attempt r expected target) (transition_started r target (isoformat clock))
         (transition_finished r target (isoformat clock)) (coalesce stage (j_current_stage r)) code summary d
       = Inr (True, d1)"
      "append_transition c k (Some (state_value expected)) (state_value target) (isoformat clock)
         (Some reason) d1 = Inr ((), d')"
      unfolding st r(2) [symmetric] by (rule apply_transition_cases)
    from d1(2) assms(1) obtain us j vs where hit: "jobs d = us @ j # vs" "j_job_id j = k"
      "d1 = d\<lparr>jobs := us @ swap_state (state_value target) (transition_attempt r expected target)
        (transition_started r target (isoformat clock)) (transition_finished r target (isoformat clock))
        (coalesce stage (j_current_stage r)) code summary j # vs\<rparr>"
      by (rule compare_and_swap_hit)
    have j: "j = r" using same_job [OF assms(1) r(1), of j] hit(1,2) r(2) by simp
    have "d1 = d\<lparr>jobs := us @ transitioned expected target clock stage (code, summary) r # vs\<rparr>"
      using hit(3) j by (simp add: transitioned_def)
    with d1(3) have "d' = d\<lparr>jobs := us @ transitioned expected target clock stage (code, summary) r # vs,
        transitions := transitions d @ [transition_line expected target clock reason r]\<rparr>"
      by (rule_tac append_transition_cases) (auto simp: transition_line_def r(2))
    with hit(1) j d1(1) opened r show ?thesis by blast
  qed
qed

section \<open>Execution checks\<close>

text \<open>
  What the runner may rely on before it hands a job to an executor: the plan is the one that was
  fingerprinted, the snapshot is the one the job was planned on, and a paid approval of exactly these
  two is stored and open at the given instant.
\<close>

definition launchable :: "externals \<Rightarrow> db \<Rightarrow> pystr \<Rightarrow> pystr \<Rightarrow> instant \<Rightarrow> seo_job \<Rightarrow> execution_snapshot \<Rightarrow> bool" where
  "launchable x d c k now sj sn =
     (\<exists>r payload plan a row. r \<in> set (jobs d) \<and> j_company_id r = c \<and> j_job_id r = k \<and> j_superseded_by_job_id r = None
        \<and> j_state r = state_value (sj_state sj) \<and> sj_attempt sj = j_attempt r
        \<and> j_plan_json r = Some payload \<and> j_plan_fingerprint r = Some (ext_sha256 x payload)
        \<and> canonical_plan_bytes plan = Inr payload
        \<and> get_snapshot x d c (j_snapshot_id r) = Inr sn \<and> sn_snapshot_hash sn = j_snapshot_hash r
        \<and> row \<in> set (approvals d) \<and> a_job_id row = k \<and> a_approval_type row = ''paid_execution''
        \<and> a_snapshot_hash row = j_snapshot_hash r \<and> a_plan_fingerprint row = ext_sha256 x payload
        \<and> j_approval_record_id r = Some (a_approval_record_id row)
        \<and> paid_approval d c r = Inr a \<and> approved_at a \<le> now
        \<and> (\<forall>e. expires_at a = Some e \<longrightarrow> now < e))"

lemma plan_integrity_Inr:
  assumes "require_plan_integrity x r = Inr plan"
  obtains payload where "j_plan_json r = Some payload" "j_plan_fingerprint r = Some (ext_sha256 x payload)"
    "canonical_plan_bytes plan = Inr payload" "deserialize_plan payload = Inr plan"
  using assms by (auto simp: require_plan_integrity_def bnd_eq_Inr split: option.splits if_splits sum.splits)

lemma snapshot_integrity_hash:
  "require_job_snapshot_integrity x r sn = Inr u \<Longrightarrow> sn_snapshot_hash sn = j_snapshot_hash r"
  by (auto simp: require_job_snapshot_integrity_def split: option.splits if_splits)

lemma get_approval_row:
  assumes "get_approval d c k aid = Inr a"
  obtains row where "row \<in> set (approvals d)" "a_job_id row = k" "a_approval_record_id row = aid"
    "approval_record_id a = aid" "approval_job_id a = k" "approval_type a = a_approval_type row"
    "approval_snapshot_hash a = a_snapshot_hash row" "approval_plan_fingerprint a = a_plan_fingerprint row"
proof -
  let ?P = "\<lambda>a. a_job_id a = k \<and> a_approval_record_id a = aid
      \<and> list_ex (\<lambda>j. j_job_id j = k \<and> j_company_id j = c) (jobs d)"
  obtain row where row: "find ?P (approvals d) = Some row"
    using assms by (cases "find ?P (approvals d)") (auto simp: get_approval_def)
  then have r: "row \<in> set (approvals d)" "a_job_id row = k" "a_approval_record_id row = aid"
    using find_Some_in by force+
  from assms row obtain at ex where
    "(case at of None \<Rightarrow> Inl DataIntegrityError | Some t \<Rightarrow>
       (case make_approval_record (approval_of_row row t ex) of Inl _ \<Rightarrow> Inl DataIntegrityError | Inr ap \<Rightarrow> Inr ap)) = Inr a"
    unfolding get_approval_def by (auto simp: bnd_eq_Inr)
  moreover from this obtain t where "at = Some t" by (cases at) auto
  ultimately have "a = approval_of_row row t ex"
    by (cases "make_approval_record (approval_of_row row t ex)") (auto dest: make_approval_record_id)
  with r show ?thesis by (intro that) (simp_all add: approval_of_row_def)
qed

lemma paid_approval_row:
  assumes "paid_approval d c r = Inr a"
  obtains row where "row \<in> set (approvals d)" "a_job_id row = j_job_id r" "a_approval_type row = ''paid_execution''"
    "a_snapshot_hash row = j_snapshot_hash r" "j_plan_fingerprint r = Some (a_plan_fingerprint row)"
    "j_approval_record_id r = Some (a_approval_record_id row)"
proof -
  obtain aid where aid: "j_approval_record_id r = Some aid" "get_approval d c (j_job_id r) aid = Inr a"
    "approval_type a = ''paid_execution''" "approval_snapshot_hash a = j_snapshot_hash r"
    "j_plan_fingerprint r = Some (approval_plan_fingerprint a)"
    using assms by (auto simp: paid_approval_def split: option.splits if_splits sum.splits)
  from aid(2) show ?thesis by (rule get_approval_row) (use aid in \<open>auto intro: that\<close>)
qed

lemma identity_launchable:
  assumes "execution_identity x d c r (Some now) = Inr (sj, sn)" "get_job d c k = Inr r"
    and "j_superseded_by_job_id r = None"
  shows "launchable x d c k now sj sn"
  using assms(1)
proof (rule execution_identity_Inr)
  fix plan a u sj0
  assume e: "require_plan_integrity x r = Inr plan" "get_snapshot x d c (j_snapshot_id r) = Inr sn"
    "require_job_snapshot_integrity x r sn = Inr u" "paid_approval d c r = Inr a"
    "\<And>t. Some now = Some t \<Longrightarrow> require_approval_window a t = Inr ()"
    "domain_job r = Inr sj0" "sj_state sj = sj_state sj0" "sj_attempt sj = j_attempt r"
  obtain payload where p: "j_plan_json r = Some payload" "j_plan_fingerprint r = Some (ext_sha256 x payload)"
    "canonical_plan_bytes plan = Inr payload" using e(1) by (rule plan_integrity_Inr)
  obtain row where "row \<in> set (approvals d)" "a_job_id row = j_job_id r" "a_approval_type row = ''paid_execution''"
    "a_snapshot_hash row = j_snapshot_hash r" "j_plan_fingerprint r = Some (a_plan_fingerprint row)"
    "j_approval_record_id r = Some (a_approval_record_id row)" using e(4) by (rule paid_approval_row)
  moreover have "r \<in> set (jobs d)" "j_company_id r = c" "j_job_id r = k"
    using get_job_Inr [OF assms(2)] by simp_all
  moreover have "j_state r = state_value (sj_state sj)" using domain_job_state [OF e(6)] e(7) by simp
  moreover have "approved_at a \<le> now" "\<forall>t. expires_at a = Some t \<longrightarrow> now < t"
    using e(5) by (simp_all add: approval_window_Inr)
  ultimately show ?thesis
    unfolding launchable_def using p e(2,4,8) snapshot_integrity_hash [OF e(3)] assms(3)
    by (intro exI [of _ r] exI [of _ payload] exI [of _ plan] exI [of _ a] exI [of _ row]) simp
qed

text \<open>
  C17.  What the execution checks establish: whenever \<open>prepare_execution\<close> (for a queued job) or
  \<open>resume_dispatch\<close> (for one being dispatched) succeeds, plan, snapshot and paid approval are stored,
  intact and bound to each other, and the approval is open at the instant of the check.
\<close>

theorem execution_checks_sound:
  assumes "prepare_execution x d c now k = Inr (sj, sn) \<or> resume_dispatch x d c now k = Inr (sj, sn)"
  shows "launchable x d c k now sj sn \<and> sj_state sj \<in> {QUEUED, RUNNING}"
proof -
  from assms obtain r sj0 where r: "get_job d c k = Inr r" "domain_job r = Inr sj0" "j_superseded_by_job_id r = None"
    "execution_identity x d c r (Some now) = Inr (sj, sn)" "sj_state sj0 \<in> {QUEUED, RUNNING}"
    by (auto simp: prepare_execution_def resume_dispatch_def dispatching_def bnd_eq_Inr split: if_splits)
  moreover have "sj_state sj = sj_state sj0"
    using r(4) by (rule execution_identity_Inr) (use r(2) in simp)
  ultimately show ?thesis using identity_launchable by metis
qed

lemma demo_prepared: "\<exists>sj. prepare_execution demo_externals demo_db ''co'' (demo_instant 5) ''job'' = Inr (sj, demo_execution_snapshot)"
proof -
  have q: "j_state demo_job = state_value QUEUED"
    "demo_job\<lparr>j_state := ''QUEUED''\<rparr>
     = demo_job\<lparr>j_approved_plan_fingerprint := Some demo_hash, j_approval_record_id := Some ''apr''\<rparr>"
    by (simp_all add: demo_job_def)
  from demo_domain_job [OF q] obtain sj where sj: "domain_job demo_job = Inr sj" "sj_state sj = QUEUED" by auto
  have cols: "j_superseded_by_job_id demo_job = None" "j_snapshot_id demo_job = ''snap''"
    "j_approval_record_id demo_job = Some ''apr''" "j_approved_plan_fingerprint demo_job = Some demo_hash"
    "j_plan_fingerprint demo_job = Some demo_hash" "j_job_id demo_job = ''job''" "j_snapshot_hash demo_job = demo_hash"
    by (simp_all add: demo_job_def)
  have row: "get_job demo_db ''co'' ''job'' = Inr demo_job"
    by (simp add: get_job_def demo_db_def) (simp add: demo_job_def)
  let ?a = "approval_of_row demo_approval (demo_instant 0) (Some (demo_instant 300))"
  have "make_approval_record ?a = Inr ?a"
    by (simp add: make_approval_record_def approval_of_row_def demo_approval_def approval_types_def
        ascii_space_def wide_space_def) (simp add: demo_instant_def)
  moreover have "parse_aware (demo_time 300) = Some (demo_instant 300)"
    by (simp add: demo_time_def parse_aware_isoformat)
  ultimately have "get_approval demo_db ''co'' ''job'' ''apr'' = Inr ?a"
    by (simp add: get_approval_def row_defs domain_timestamp_def)
  then have "paid_approval demo_db ''co'' demo_job = Inr ?a"
    by (simp add: paid_approval_def cols) (simp add: approval_of_row_def demo_approval_def)
  moreover have "require_approval_window ?a (demo_instant 5) = Inr ()"
    by (simp add: approval_window_Inr approval_of_row_def) (simp add: demo_instant_def)
  moreover have "require_job_snapshot_integrity demo_externals demo_job demo_execution_snapshot = Inr ()"
    by (rule demo_job_integrity) (simp_all add: demo_job_def)
  moreover have "require_plan_integrity demo_externals demo_job = Inr demo_plan"
    by (rule demo_plan_integrity) (simp_all add: demo_job_def)
  moreover have "get_snapshot demo_externals demo_db ''co'' ''snap'' = Inr demo_execution_snapshot"
    by (rule demo_get_snapshot) (simp add: demo_db_def)
  ultimately show ?thesis
    using sj row by (simp add: prepare_execution_def execution_identity_def domain_job_with_snapshot_def cols)
qed

lemma execution_checks_sound_witness:
  "\<exists>sj. launchable demo_externals demo_db ''co'' ''job'' (demo_instant 5) sj demo_execution_snapshot"
  using demo_prepared execution_checks_sound by blast

section \<open>Planning supersedes\<close>

text \<open>
  C18.  Planning a job: the new row is appended in state PLANNED with the plan's canonical bytes and
  their fingerprint, its creation is logged, and exactly the creator's other jobs that are still before
  approval and not yet superseded now point to it; no other row changes.
\<close>

theorem plan_supersedes_pending:
  assumes "plan_job x c sid plan clock job_id d = (Inr p, d')"
  shows "\<exists>row bytes. canonical_plan_bytes plan = Inr bytes
     \<and> j_job_id row = job_id \<and> j_state row = ''PLANNED'' \<and> j_attempt row = 1
     \<and> j_plan_json row = Some bytes \<and> j_plan_fingerprint row = Some (ext_sha256 x bytes)
     \<and> j_approval_record_id row = None \<and> j_superseded_by_job_id row = None
     \<and> (\<forall>j \<in> set (jobs d). j_job_id j \<noteq> job_id)
     \<and> jobs d' = map (\<lambda>j. if j_company_id j = c \<and> j_created_by j = j_created_by row
                          \<and> j_superseded_by_job_id j = None \<and> j_state j \<in> set pending_states
                        then j\<lparr>j_superseded_by_job_id := Some job_id\<rparr> else j) (jobs d) @ [row]
     \<and> transitions d' = transitions d @ [\<lparr>t_job_id = job_id, t_from_state = None, t_to_state = ''PLANNED'',
          t_reason_summary = None, t_occurred_at = isoformat clock\<rparr>]"
proof -
  obtain bytes where bytes: "canonical_plan_bytes plan = Inr bytes"
    "plan_body x c sid plan bytes (ext_sha256 x bytes) (isoformat clock) job_id d = Inr (p, d')"
    using assms by (auto simp: plan_job_def transaction_def split: sum.splits)
  from bytes(2) show ?thesis
  proof (rule plan_body_cases)
    fix sn bf creator d1 d2
    let ?row = "planned_row sn job_id bf creator (isoformat clock) bytes (ext_sha256 x bytes)"
    assume add: "add_job ?row d = Inr ((), d1)"
      and sup: "supersede_pending_jobs c creator job_id d1 = Inr ((), d2)"
      and log: "append_transition c job_id None (state_value PLANNED) (isoformat clock) None d2 = Inr ((), d')"
    have row: "j_job_id ?row = job_id" "j_created_by ?row = creator" "j_state ?row = ''PLANNED''"
      "j_attempt ?row = 1" "j_plan_json ?row = Some bytes" "j_plan_fingerprint ?row = Some (ext_sha256 x bytes)"
      "j_approval_record_id ?row = None" "j_superseded_by_job_id ?row = None"
      by (simp_all add: planned_row_def)
    from add_job_cases [OF add] row(1) have d1: "d1 = d\<lparr>jobs := jobs d @ [?row]\<rparr>"
      and new: "\<forall>j \<in> set (jobs d). j_job_id j \<noteq> job_id" by simp_all
    from sup have "jobs d2 = map (\<lambda>j. if j_company_id j = c \<and> j_created_by j = creator \<and> j_job_id j \<noteq> job_id
          \<and> j_superseded_by_job_id j = None \<and> j_state j \<in> set pending_states
        then j\<lparr>j_superseded_by_job_id := Some job_id\<rparr> else j) (jobs d1)" "transitions d2 = transitions d1"
      by (auto simp: supersede_pending_jobs_def update_jobs_def bnd_eq_Inr dest!: sql_update_strict)
    then have "jobs d2 = map (\<lambda>j. if j_company_id j = c \<and> j_created_by j = creator
          \<and> j_superseded_by_job_id j = None \<and> j_state j \<in> set pending_states
        then j\<lparr>j_superseded_by_job_id := Some job_id\<rparr> else j) (jobs d) @ [?row]" "transitions d2 = transitions d"
      using new row(1) by (auto simp: d1)
    with log row new bytes(1) show ?thesis
      by (rule_tac append_transition_cases) (auto intro!: exI [of _ ?row])
  qed
qed

lemma plan_supersedes_pending_witness:
  "\<exists>row. jobs demo_planned_db = [row] \<and> j_job_id row = ''job'' \<and> j_state row = ''PLANNED''"
proof -
  let ?res = "plan_job demo_externals ''co'' ''snap'' demo_plan (demo_instant 0) ''job'' demo_start"
  have "snd ?res = demo_planned_db" using demo_plan_step by simp
  moreover have "demo_planned_db \<noteq> demo_start"
    by (simp add: demo_planned_db_def demo_start_def demo_db_def)
  ultimately obtain p where "?res = (Inr p, demo_planned_db)"
    by (cases ?res) (auto simp: plan_job_def transaction_def split: sum.splits)
  from plan_supersedes_pending [OF this] show ?thesis by (auto simp: demo_start_def)
qed

end
