(* ===== verification/SchedulerProperties.thy ===== *)
theory SchedulerProperties
  imports SystemLeases Demo
begin

text \<open>
  The scheduler's queries and the retry budgets: which job a query returns, and how a budget counts.
\<close>

section \<open>ORDER BY ... LIMIT 1\<close>

lemma first_by_None [simp]: "first_by key xs = None \<longleftrightarrow> xs = []"
  by (cases xs) (auto split: option.splits)

lemma first_by_least:
  "first_by key xs = Some x \<Longrightarrow> x \<in> set xs \<and> (\<forall>y \<in> set xs. key x \<le> key y)"
proof (induction xs arbitrary: x)
  case Nil
  then show ?case by simp
next
  case (Cons a xs)
  show ?case
  proof (cases "first_by key xs")
    case None
    with Cons.prems show ?thesis by simp
  next
    case (Some b)
    with Cons.IH have b: "b \<in> set xs" "\<forall>y \<in> set xs. key b \<le> key y" by blast+
    with Cons.prems Some show ?thesis
      by (cases "key a \<le> key b") (auto intro: order_trans [OF _ b(2) [rule_format]])
  qed
qed

text \<open>\<open>chosen res key f eligible\<close>: \<open>res\<close> is the candidate of a least row, and none exactly when there is no row.\<close>

definition chosen :: "candidate option \<Rightarrow> ('a \<Rightarrow> 'k::linorder) \<Rightarrow> ('a \<Rightarrow> job) \<Rightarrow> 'a set \<Rightarrow> bool" where
  "chosen res key job_of_row eligible =
     (case res of None \<Rightarrow> eligible = {}
      | Some k \<Rightarrow> \<exists>x \<in> eligible. k = candidate_of (job_of_row x) \<and> (\<forall>y \<in> eligible. key x \<le> key y))"

lemma chosen_first: "chosen (map_option (candidate_of \<circ> f) (first_by key xs)) key f (set xs)"
  by (cases "first_by key xs") (auto simp: chosen_def dest!: first_by_least)

text \<open>The rows of a join: each job with its attempt's run.\<close>

definition due_pairs :: "db \<Rightarrow> (job \<Rightarrow> run \<Rightarrow> bool) \<Rightarrow> (job \<times> run) set" where
  "due_pairs d P = {(j, r). j \<in> set (jobs d) \<and> run_of d (job_key j) = Some r \<and> P j r}"

lemma set_map_filter: "y \<in> set (List.map_filter f xs) \<longleftrightarrow> (\<exists>x \<in> set xs. f x = Some y)"
  by (induction xs) (auto simp: map_filter_simps split: option.splits)

lemma set_joined: "set (joined d P) = due_pairs d P"
proof -
  have "(case run_of d (job_key j') of None \<Rightarrow> None | Some r' \<Rightarrow> if P j' r' then Some (j', r') else None) = Some (j, r)
      \<longleftrightarrow> j' = j \<and> run_of d (job_key j) = Some r \<and> P j r" for j j' r
    by (auto split: option.splits)
  then show ?thesis by (auto simp: joined_def due_pairs_def set_map_filter)
qed

lemma chosen_joined:
  "chosen (map_option (candidate_of \<circ> fst) (first_by key (joined d P))) key fst (due_pairs d P)"
  using chosen_first [of fst key "joined d P"] by (simp add: set_joined)

lemma chosen_jobs:
  "chosen (map_option candidate_of (first_by key (filter P (jobs d)))) key (\<lambda>j. j) {j \<in> set (jobs d). P j}"
  using chosen_first [of "\<lambda>j. j" key "filter P (jobs d)"] by (simp add: comp_def)

text \<open>
  \<open>offers d grant due res key\<close>: the query's answer \<open>res\<close> is the job that comes first by \<open>key\<close> among
  the jobs whose work is due and whose claim would be granted, and there is none only when there is
  no such job.
\<close>

definition due_work :: "db \<Rightarrow> (candidate \<Rightarrow> bool) \<Rightarrow> (job \<Rightarrow> run \<Rightarrow> bool) \<Rightarrow> (job \<times> run) set" where
  "due_work d grant due =
     {(j, r). j \<in> set (jobs d) \<and> run_of d (job_key j) = Some r \<and> due j r \<and> grant (candidate_of j)}"

definition offers ::
  "db \<Rightarrow> (candidate \<Rightarrow> bool) \<Rightarrow> (job \<Rightarrow> run \<Rightarrow> bool) \<Rightarrow> candidate option \<Rightarrow> (job \<times> run \<Rightarrow> 'k::linorder) \<Rightarrow> bool" where
  "offers d grant due res key =
     (case res of None \<Rightarrow> due_work d grant due = {}
      | Some k \<Rightarrow> grant k \<and> (\<exists>x \<in> due_work d grant due. k = candidate_of (fst x)
          \<and> (\<forall>y \<in> due_work d grant due. key x \<le> key y)))"

lemma offers_joined:
  assumes "\<And>j r. j \<in> set (jobs d) \<Longrightarrow> run_of d (job_key j) = Some r
      \<Longrightarrow> P j r \<longleftrightarrow> due j r \<and> grant (candidate_of j)"
  shows "offers d grant due (map_option (candidate_of \<circ> fst) (first_by key (joined d P))) key"
proof -
  have "due_pairs d P = due_work d grant due"
    using assms by (auto simp: due_pairs_def due_work_def)
  with chosen_joined [of key d P] show ?thesis
    by (auto simp: offers_def chosen_def due_work_def split: option.splits)
qed

text \<open>What makes the work on a run due, apart from the state of its lease.\<close>

definition poll_due :: "pystr \<Rightarrow> job \<Rightarrow> run \<Rightarrow> bool" where
  "poll_due now j r =
     (j_state j = ''RUNNING'' \<and> r_external_run_id r \<noteq> None
      \<and> stage_is_not (r_current_stage r) ''reconciliation_required''
      \<and> (r_next_action_at r = None \<or> opt_le (r_next_action_at r) now))"

definition retry_due :: "pystr \<Rightarrow> job \<Rightarrow> run \<Rightarrow> bool" where
  "retry_due now j r = (j_state j = ''FAILED_RETRYABLE'' \<and> opt_le (r_next_action_at r) now)"

text \<open>A stored outcome that its job does not show yet.\<close>

definition outcome_due :: "job \<Rightarrow> run \<Rightarrow> bool" where
  "outcome_due j r =
     (stage_is_not (r_current_stage r) ''reconciliation_required''
      \<and> (j_state j = ''RUNNING''
         \<or> j_state j = ''QUEUED'' \<and> r_external_run_id r = None
             \<and> opt_in (r_external_status r) [''FAILED_RETRYABLE'', ''FAILED_FINAL'']
         \<or> j_state j = ''SUCCEEDED'' \<and> r_external_status r = Some ''SUCCEEDED''
             \<and> j_artifact_manifest_path j = None))"

abbreviation poll_statuses :: "pystr list" where "poll_statuses \<equiv> [''ACCEPTED'', ''RUNNING'']"
abbreviation retry_statuses :: "pystr list" where "retry_statuses \<equiv> [''FAILED_RETRYABLE'']"

text \<open>
  C19.  The scheduler offers exactly the work a runner can claim.  The poll, retry and terminal-recovery
  queries return a job whose claim, made at once with a fresh token and the statuses the runner asks for,
  is granted; it is the first in the query's order among all jobs whose work is due and whose claim would
  be granted; and they return nothing only when no claim of due work would be granted.
\<close>

theorem offered_work_is_claimable:
  assumes "schema_ok d" "is_utc_timestamp now" "is_utc_timestamp ends"
    and "\<forall>r \<in> set (runs d). r_lease_token r \<noteq> Some tok"
  shows "offers d (granted poll_statuses now tok ends d) (poll_due now) (next_poll_candidate now d)
        (\<lambda>(j, r). (case r_next_action_at r of None \<Rightarrow> r_updated_at r | Some t \<Rightarrow> t, j_company_id j, j_job_id j))
    \<and> offers d (granted retry_statuses now tok ends d) (retry_due now) (next_retry_candidate now d)
        (\<lambda>(j, r). (r_next_action_at r, j_company_id j, j_job_id j))
    \<and> offers d (granted terminal_statuses now tok ends d) outcome_due (next_terminal_recovery_candidate now d)
        (\<lambda>(j, r). (r_completion_observed_at r, j_company_id j, j_job_id j))"
proof -
  note grant = granted_iff [OF assms(1) _ _ assms(2-4)]
  show ?thesis
    unfolding next_poll_candidate_def next_retry_candidate_def next_terminal_recovery_candidate_def
  proof (intro conjI offers_joined)
    fix j r assume row: "j \<in> set (jobs d)" "run_of d (job_key j) = Some r"
    show "poll_eligible now j r \<longleftrightarrow> poll_due now j r \<and> granted poll_statuses now tok ends d (candidate_of j)"
      unfolding grant [OF row] by (auto simp: poll_eligible_def poll_due_def in_flight_def)
    show "retry_eligible now j r \<longleftrightarrow> retry_due now j r \<and> granted retry_statuses now tok ends d (candidate_of j)"
      unfolding grant [OF row] by (auto simp: retry_eligible_def retry_due_def opt_in_def split: option.splits)
    show "terminal_eligible now j r \<longleftrightarrow> outcome_due j r \<and> granted terminal_statuses now tok ends d (candidate_of j)"
      unfolding grant [OF row]
      by (auto simp: terminal_eligible_def outcome_due_def opt_in_def terminal_statuses_def split: option.splits)
  qed
qed

lemma demo_due:
  "due_work recovery_accepted_db grant (poll_due t)
     = (if grant demo_dispatching then {(demo_running_job, demo_accepted_run)} else {})"
  by (auto simp: due_work_def poll_due_def recovery_accepted_db_def demo_accepted_run_def row_defs stage_is_not_def
      run_of_def job_key_def run_key_def candidate_of_def)

lemma demo_next_poll:
  "next_poll_candidate (demo_time 400) recovery_accepted_db = Some demo_dispatching"
  "next_poll_candidate (demo_time 60) recovery_accepted_db = None"
  by (simp_all add: next_poll_candidate_def joined_def map_filter_simps poll_eligible_def recovery_accepted_db_def
      demo_accepted_run_def row_defs run_of_def job_key_def run_key_def candidate_of_def in_flight_def
      opt_in_def stage_is_not_def lease_open_def)

lemma offered_work_is_claimable_witness:
  "granted poll_statuses (demo_time 400) ''B'' (demo_time 700) recovery_accepted_db demo_dispatching
   \<and> \<not> granted poll_statuses (demo_time 60) ''B'' (demo_time 700) recovery_accepted_db demo_dispatching"
proof -
  have fresh: "\<forall>r \<in> set (runs recovery_accepted_db). r_lease_token r \<noteq> Some ''B''"
    by (simp add: recovery_accepted_db_def demo_accepted_run_def row_defs)
  note offered = offered_work_is_claimable [OF demo_accepted_ok demo_time_utc demo_time_utc fresh, THEN conjunct1]
  show ?thesis
    using offered [of 400 700] offered [of 60 700]
    by (simp add: offers_def demo_due demo_next_poll split: if_splits)
qed

section \<open>Retry budgets\<close>

lemma find_budget_update:
  assumes "distinct (map budget_key gs)" "\<And>g. budget_key (f g) = budget_key g"
  shows "find (\<lambda>g. budget_key g = key) (map (\<lambda>g. if budget_key g = k then f g else g) gs)
       = (if key = k then map_option f (find (\<lambda>g. budget_key g = k) gs) else find (\<lambda>g. budget_key g = key) gs)"
  using assms(1) by (induction gs) (auto simp: assms(2))

lemma find_append_new:
  "\<forall>g \<in> set gs. key g \<noteq> k \<Longrightarrow> find (\<lambda>g. key g = i) (gs @ [new])
     = (if key new = i \<and> i = k then Some new else if i = k then None else
        case find (\<lambda>g. key g = i) gs of None \<Rightarrow> if key new = i then Some new else None | Some g \<Rightarrow> Some g)"
  by (induction gs) auto

text \<open>
  A retry budget counts exactly: consuming a retry raises the count of that company, job and
  stage by one and leaves every other count alone.
\<close>

theorem consume_retry_counts:
  assumes "schema_ok d" "consume_stage_retry k stage now d = Inr ((), d')"
    and "retry_count_for_stage d (k_company_id k) (k_job_id k) stage = Inr n"
  shows "retry_count_for_stage d' (k_company_id k) (k_job_id k) stage = Inr (n + 1)
     \<and> (\<forall>c j s. (c, j, s) \<noteq> (k_company_id k, k_job_id k, stage) \<longrightarrow>
          retry_count_for_stage d' c j s = retry_count_for_stage d c j s)"
proof -
  let ?key = "(k_company_id k, k_job_id k, stage)"
  let ?new = "\<lparr>g_company_id = k_company_id k, g_job_id = k_job_id k, g_retry_stage_id = stage,
      g_failure_count = 1, g_created_at = now, g_updated_at = now\<rparr>"
  let ?f = "\<lambda>g. g\<lparr>g_failure_count := g_failure_count g + 1, g_updated_at := now\<rparr>"
  have key: "budget_key ?new = ?key" "\<And>g. budget_key (?f g) = budget_key g"
    by (simp_all add: budget_key_def)
  have dist: "distinct (map budget_key (budgets d))"
    using assms(1) by (simp add: schema_ok_def budgets_table.table_ok_def)
  show ?thesis
  proof (cases "list_ex (\<lambda>g. budget_key g = ?key) (budgets d)")
    case True
    then have "budgets d' = map (\<lambda>g. if budget_key g = ?key then ?f g else g) (budgets d)"
      using assms(2) key(1)
      by (auto simp: consume_stage_retry_def Let_def bnd_eq_Inr split: if_splits dest!: sql_update_strict)
    then have find: "find (\<lambda>g. budget_key g = i) (budgets d')
        = (if i = ?key then map_option ?f (find (\<lambda>g. budget_key g = ?key) (budgets d))
           else find (\<lambda>g. budget_key g = i) (budgets d))" for i
      using find_budget_update [OF dist key(2)] by simp
    obtain g where g: "find (\<lambda>g. budget_key g = ?key) (budgets d) = Some g"
      using True by (cases "find (\<lambda>g. budget_key g = ?key) (budgets d)") (auto simp: find_None_iff list_ex_iff)
    with assms(3) have "\<not> g_failure_count g < 0" "g_failure_count g = n"
      by (auto simp: retry_count_for_stage_def split: if_splits)
    with find g show ?thesis by (auto simp: retry_count_for_stage_def)
  next
    case False
    then have new: "budgets d' = budgets d @ [?new]"
      using assms(2) key(1) by (auto simp: consume_stage_retry_def Let_def split: if_splits)
    have absent: "\<forall>g \<in> set (budgets d). budget_key g \<noteq> ?key"
      using False by (auto simp: list_ex_iff)
    then have "find (\<lambda>g. budget_key g = ?key) (budgets d) = None" by (auto simp: find_None_iff)
    with assms(3) have "n = 0" by (simp add: retry_count_for_stage_def)
    have "find (\<lambda>g. budget_key g = i) (budgets d') = (if i = ?key then Some ?new else find (\<lambda>g. budget_key g = i) (budgets d))" for i
      using find_append_new [OF absent, of i ?new] new key(1) by (auto split: option.splits)
    with \<open>n = 0\<close> show ?thesis by (auto simp: retry_count_for_stage_def)
  qed
qed

section \<open>Stored instants\<close>

text \<open>
  C24.  Stored instants are faithful: the text written for an instant is accepted by the database's
  timestamp check, reads back as the same instant, and the queries' comparison of texts is the
  comparison of the instants, so due times and lease expiries are compared chronologically.
\<close>

theorem stored_instants_faithful:
  assumes "valid_instant t" "valid_instant u"
  shows "domain_timestamp (storage_timestamp (Some t)) optional = Inr (Some t)
     \<and> (\<forall>text. storage_timestamp (Some t) = Some text \<longrightarrow> is_utc_timestamp text)
     \<and> (opt_le (storage_timestamp (Some t)) (isoformat u) \<longleftrightarrow> t \<le> u)"
  using assms by (simp add: domain_timestamp_def storage_timestamp_def parse_aware_isoformat
      is_utc_timestamp_isoformat isoformat_le_iff)

lemma stored_instants_faithful_witness:
  "domain_timestamp (storage_timestamp (Some (demo_instant 7))) False = Inr (Some (demo_instant 7))
   \<and> \<not> opt_le (storage_timestamp (Some (demo_instant 7))) (isoformat (demo_instant 6))"
  using stored_instants_faithful [of "demo_instant 7" "demo_instant 6" False] by (simp add: demo_instant_def valid_instant_def max_instant_def)

end
