(* ===== verification/CanonicalBounds.thy ===== *)
theory CanonicalBounds
  imports CanonicalFacts
begin

text \<open>
  What \<open>canonical_json\<close> accepts: the budgets its traversal counts down are the number of nodes, the
  bytes of all strings, the nesting depth and the size of integers, so acceptance does not depend on
  the order in which the members of an object are visited.
\<close>

section \<open>The measures of a value\<close>

fun nodes :: "jval \<Rightarrow> nat" where
  "nodes (JList vs) = 1 + sum_list (map nodes vs)"
| "nodes (JObj kvs) = 1 + sum_list (map (\<lambda>(k, v). 1 + nodes v) kvs)"
| "nodes _ = 1"

fun string_bytes :: "jval \<Rightarrow> nat" where
  "string_bytes (JStr s) = length s"
| "string_bytes (JList vs) = sum_list (map string_bytes vs)"
| "string_bytes (JObj kvs) = sum_list (map (\<lambda>(k, v). length k + string_bytes v) kvs)"
| "string_bytes _ = 0"

text \<open>Texts are encodable, integers exact in a double, nothing else is a number, depth is bounded.\<close>

fun shaped :: "nat \<Rightarrow> jval \<Rightarrow> bool" where
  "shaped d (JStr s) = utf8_ok False s"
| "shaped d (JInt i) = (- max_safe_integer \<le> i \<and> i \<le> max_safe_integer)"
| "shaped d (JOther t) = False"
| "shaped d (JList vs) = (d \<le> max_depth \<and> list_all (shaped (d + 1)) vs)"
| "shaped d (JObj kvs) = (d \<le> max_depth \<and> list_all (\<lambda>(k, v). utf8_ok False k \<and> shaped (d + 1) v) kvs)"
| "shaped d _ = True"

definition within :: "nat \<Rightarrow> nat \<Rightarrow> vstate \<Rightarrow> bool" where
  "within n b st = (fst st + n \<le> max_nodes \<and> snd st + b \<le> max_bytes)"

definition spend :: "nat \<Rightarrow> nat \<Rightarrow> vstate \<Rightarrow> vstate" where
  "spend n b st = (fst st + n, snd st + b)"

lemma within_spend: "within n b (spend m c st) \<longleftrightarrow> within (m + n) (c + b) st"
  by (simp add: within_def spend_def add.assoc)

lemma spend_spend: "spend n b (spend m c st) = spend (m + n) (c + b) st"
  by (simp add: spend_def)

lemma within_le: "within n b st \<Longrightarrow> m \<le> n \<Longrightarrow> c \<le> b \<Longrightarrow> within m c st"
  by (simp add: within_def)

lemma within_parts: "within (m + n) (c + b) st \<Longrightarrow> within m c st" "within (Suc n) b st \<Longrightarrow> within (Suc 0) 0 st"
  "within (Suc (n + m)) (b + c) st \<Longrightarrow> within (Suc n) b st"
  "within (Suc n) (b + c) st \<Longrightarrow> within (Suc 0) b st"
  by (simp_all add: within_def)

lemma spend_zero [simp]: "spend 0 0 st = st"
  by (simp add: spend_def)

lemma visit_node_eq: "within 0 0 st \<Longrightarrow>
    visit_node st = (if within 1 0 st then Inr (spend 1 0 st) else Inl CanonicalizationError)"
  by (simp add: visit_node_def within_def spend_def)

lemma visit_string_eq: "within 0 0 st \<Longrightarrow>
    visit_string s st = (if utf8_ok False s \<and> within 1 (length s) st then Inr (spend 1 (length s) st)
      else Inl CanonicalizationError)"
  by (simp add: visit_string_def visit_node_def within_def spend_def)

lemma normalize_eq:
  "within 0 0 st \<Longrightarrow> normalize v d st =
     (if shaped d v \<and> within (nodes v) (string_bytes v) st
      then Inr (v, spend (nodes v) (string_bytes v) st) else Inl CanonicalizationError)"
  "within 0 0 st \<Longrightarrow> normalize_list vs d st =
     (if list_all (shaped d) vs \<and> within (sum_list (map nodes vs)) (sum_list (map string_bytes vs)) st
      then Inr (vs, spend (sum_list (map nodes vs)) (sum_list (map string_bytes vs)) st)
      else Inl CanonicalizationError)"
  "within 0 0 st \<Longrightarrow> normalize_items kvs d st =
     (if list_all (\<lambda>(k, v). utf8_ok False k \<and> shaped d v) kvs
         \<and> within (sum_list (map (\<lambda>(k, v). 1 + nodes v) kvs))
                 (sum_list (map (\<lambda>(k, v). length k + string_bytes v) kvs)) st
      then Inr (kvs, spend (sum_list (map (\<lambda>(k, v). 1 + nodes v) kvs))
                 (sum_list (map (\<lambda>(k, v). length k + string_bytes v) kvs)) st)
      else Inl CanonicalizationError)"
proof (induction v d st and vs d st and kvs d st
    rule: normalize_normalize_list_normalize_items.induct)
  case (6 vs d st)
  then show ?case
    by (auto simp: visit_node_eq within_spend spend_spend dest: within_parts)
next
  case (7 kvs d st)
  then show ?case
    by (auto simp: visit_node_eq within_spend spend_spend dest: within_parts)
next
  case (9 v vs d st)
  then show ?case
    by (auto simp: within_spend spend_spend dest: within_parts)
next
  case (11 k v kvs d st)
  then show ?case
    by (auto simp: visit_string_eq within_spend spend_spend dest: within_parts)
qed (auto simp: visit_node_eq visit_string_eq dest: within_parts)

section \<open>Acceptance\<close>

text \<open>
  C39.  The canonical encoder accepts a value exactly when it is within the budgets: at most 10000
  nodes, 1 MiB of text, 64 levels of nesting below the top, integers a double holds exactly, texts
  that encode, and at most 1 MiB of output; it then returns the output, and else it always raises the
  same \<open>CanonicalizationError\<close>.
\<close>

lemma canonical_json_eq:
  "canonical_json v =
     (if shaped 0 v \<and> nodes v \<le> max_nodes \<and> string_bytes v \<le> max_bytes \<and> length (dumps v) \<le> max_bytes
      then Inr (dumps v) else Inl CanonicalizationError)"
proof -
  have "within 0 0 (0, 0)" by (simp add: within_def)
  then show ?thesis by (simp add: canonical_json_def normalize_eq Let_def within_def)
qed

theorem canonical_json_accepts:
  "canonical_json v =
     (if shaped 0 v \<and> nodes v \<le> max_nodes \<and> string_bytes v \<le> max_bytes \<and> length (dumps v) \<le> max_bytes
      then Inr (dumps v) else Inl CanonicalizationError)"
  by (rule canonical_json_eq)

section \<open>Order of members does not matter\<close>

lemma nodes_canon [simp]: "nodes (canon v) = nodes v"
proof (induction v)
  case (JList vs)
  then show ?case by (simp add: comp_def cong: map_cong)
next
  case (JObj kvs)
  have "nodes (canon w) = nodes w" if "(k, w) \<in> set kvs" for k w
    using JObj.IH [OF that] by (simp add: snds.simps)
  then have "map (\<lambda>x. Suc (nodes (canon (snd x)))) kvs = map (\<lambda>x. Suc (nodes (snd x))) kvs"
    by (intro map_cong) auto
  then show ?case by (simp add: comp_def case_prod_unfold sum_list_sort_key del: map_eq_conv)
qed simp_all

lemma string_bytes_canon [simp]: "string_bytes (canon v) = string_bytes v"
proof (induction v)
  case (JList vs)
  then show ?case by (simp add: comp_def cong: map_cong)
next
  case (JObj kvs)
  have "string_bytes (canon w) = string_bytes w" if "(k, w) \<in> set kvs" for k w
    using JObj.IH [OF that] by (simp add: snds.simps)
  then have "map (\<lambda>x. length (fst x) + string_bytes (canon (snd x))) kvs
      = map (\<lambda>x. length (fst x) + string_bytes (snd x)) kvs"
    by (intro map_cong) auto
  then show ?case by (simp add: comp_def case_prod_unfold sum_list_sort_key del: map_eq_conv)
qed simp_all

lemma shaped_canon [simp]: "shaped d (canon v) = shaped d v"
proof (induction v arbitrary: d)
  case (JList vs)
  then show ?case by (auto simp: list_all_iff)
next
  case (JObj kvs)
  have "shaped e (canon w) = shaped e w" if "(k, w) \<in> set kvs" for k w e
    using JObj.IH [OF that] by (simp add: snds.simps)
  then show ?case by (force simp: list_all_iff)
qed simp_all

lemma canon_idem [simp]: "canon (canon v) = canon v"
proof (induction v)
  case (JObj kvs)
  let ?ks = "sort_key fst kvs"
  have "sort_key fst (map (\<lambda>(k, v). (k, canon v)) ?ks) = map (\<lambda>(k, v). (k, canon v)) ?ks"
    by (subst sort_key_map_snd) (simp add: sorted_sort_id sort_key_id_if_sorted)
  moreover have "canon (canon w) = canon w" if "(k, w) \<in> set kvs" for k w
    using JObj.IH [OF that] by (simp add: snds.simps)
  ultimately show ?case by (force simp: comp_def)
qed (simp_all add: comp_def cong: map_cong)

lemma canonical_json_canon: "canonical_json (canon v) = canonical_json v"
  by (simp add: canonical_json_eq dumps_canon)

end
