(* ===== verification/Screening.thy ===== *)
theory Screening
  imports Plans CanonicalBounds
begin

text \<open>
  The screens a text, a JSON value or a source passes before it may enter an artifact
  (\<open>services/artifacts.py\<close>, with \<open>_normalize_url\<close> of \<open>domain/models.py\<close>).  Regular-expression search,
  case folding, \<open>urllib.parse\<close>, \<open>ipaddress\<close> and \<open>idna\<close> are library code, collected in \<open>screens\<close>.  An
  integer literal beyond CPython's digit limit, or nesting beyond its recursion limit, ends the two
  JSON probes with a \<open>ValueError\<close> that is not represented.
\<close>

section \<open>Library code\<close>

text \<open>\<open>urlsplit\<close> with the derived attributes the code reads.\<close>

record split_url =
  u_scheme :: pystr
  u_netloc :: pystr
  u_path :: pystr
  u_query :: pystr
  u_hostname :: "pystr option"
  u_port :: "nat option"
  u_username :: "pystr option"
  u_password :: "pystr option"

text \<open>\<open>ip_address\<close>: its text, whether it is an IPv6 address, and \<open>is_global\<close>.\<close>

record ip_literal =
  ip_text :: pystr
  ip_six :: bool
  ip_global :: bool

text \<open>
  \<open>sc_credential\<close> is \<open>_CREDENTIAL_LIKE_TEXT.search\<close>, \<open>sc_sensitive\<close> the search of
  \<open>_SENSITIVE_TEXT_PATTERNS\<close>; \<open>None\<close> stands for the \<open>ValueError\<close> of \<open>urlsplit\<close> (or of its port), of
  \<open>parse_qsl\<close>, of \<open>ip_address\<close> and of \<open>idna.encode\<close>.
\<close>

record screens =
  sc_casefold :: "pystr \<Rightarrow> pystr"
  sc_credential :: "pystr \<Rightarrow> bool"
  sc_sensitive :: "pystr \<Rightarrow> bool"
  sc_urlsplit :: "pystr \<Rightarrow> split_url option"
  sc_urlunsplit :: "pystr \<Rightarrow> pystr \<Rightarrow> pystr \<Rightarrow> pystr \<Rightarrow> pystr"
  sc_parse_qsl :: "pystr \<Rightarrow> (pystr \<times> pystr) list option"
  sc_ip_address :: "pystr \<Rightarrow> ip_literal option"
  sc_idna :: "pystr \<Rightarrow> pystr option"

section \<open>Characters and substrings\<close>

definition lower_letter :: "char \<Rightarrow> bool" where
  "lower_letter c = (let n = (of_char c :: nat) in 97 \<le> n \<and> n \<le> 122)"

definition lower_char :: "char \<Rightarrow> char" where
  "lower_char c =
     (let n = (of_char c :: nat) in if 65 \<le> n \<and> n \<le> 90 then char_of (n + 32) else c)"

definition ends_with :: "pystr \<Rightarrow> pystr \<Rightarrow> bool" where
  "ends_with p s = (length p \<le> length s \<and> drop (length s - length p) s = p)"

definition contains :: "pystr \<Rightarrow> pystr \<Rightarrow> bool" where
  "contains p s = list_ex (\<lambda>n. take (length p) (drop n s) = p) [0..<Suc (length s)]"

fun split_on :: "char \<Rightarrow> pystr \<Rightarrow> pystr list" where
  "split_on d [] = [[]]"
| "split_on d (c # s) =
     (if c = d then [] # split_on d s
      else (case split_on d s of [] \<Rightarrow> [[c]] | w # ws \<Rightarrow> (c # w) # ws))"

section \<open>Forbidden fields\<close>

definition forbidden_artifact_fields :: "pystr list" where
  "forbidden_artifact_fields =
     [''accesstoken'', ''apikey'', ''authorization'', ''chainofthought'', ''clientsecret'', ''cookie'',
      ''credential'', ''credentials'', ''hiddenreasoning'', ''idtoken'', ''password'', ''passwordhash'',
      ''passwd'', ''privatekey'', ''reasoning'', ''refreshtoken'', ''secret'', ''setcookie'', ''thinking'']"

definition forbidden_field_suffixes :: "pystr list" where
  "forbidden_field_suffixes =
     [''accesstoken'', ''apikey'', ''authorization'', ''chainofthought'', ''clientsecret'', ''cookie'',
      ''credential'', ''credentials'', ''hiddenreasoning'', ''idtoken'', ''password'', ''passwordhash'',
      ''privatekey'', ''refreshtoken'', ''secret'', ''setcookie'', ''token'']"

definition forbidden_field_substrings :: "pystr list" where
  "forbidden_field_substrings = forbidden_artifact_fields @ [''tokenvalue'']"

definition compact_field_name :: "screens \<Rightarrow> pystr \<Rightarrow> pystr" where
  "compact_field_name g value = filter (\<lambda>c. lower_letter c \<or> is_digit c) (sc_casefold g value)"

definition is_forbidden_field :: "screens \<Rightarrow> pystr \<Rightarrow> bool" where
  "is_forbidden_field g value =
     (let compact = compact_field_name g value in
      compact \<in> set forbidden_artifact_fields
      \<or> list_ex (\<lambda>p. ends_with p compact) forbidden_field_suffixes
      \<or> list_ex (\<lambda>p. contains p compact) forbidden_field_substrings)"

section \<open>Structured output hidden in text\<close>

definition max_json_string_wrappers :: nat where "max_json_string_wrappers = 8"
definition max_embedded_json_fragments :: nat where "max_embedded_json_fragments = 64"

definition json_start :: "char \<Rightarrow> bool" where
  "json_start c = (c = CHR ''['' \<or> c = CHR ''{'' \<or> c = quote_char)"

text \<open>The loop of \<open>_reject_raw_json_artifact_text\<close>, with the rounds it has left.\<close>

fun unwrap_json :: "nat \<Rightarrow> pystr \<Rightarrow> exn + unit" where
  "unwrap_json 0 candidate =
     (if length candidate < 2 \<or> \<not> json_start (hd candidate) then Inr ()
      else (case parse_text candidate of None \<Rightarrow> Inr () | Some _ \<Rightarrow> Inl ValueError))"
| "unwrap_json (Suc n) candidate =
     (if length candidate < 2 \<or> \<not> json_start (hd candidate) then Inr ()
      else (case parse_text candidate of
              None \<Rightarrow> Inr ()
            | Some (JObj _) \<Rightarrow> Inl ValueError
            | Some (JList _) \<Rightarrow> Inl ValueError
            | Some (JStr s) \<Rightarrow> unwrap_json n (strip s)
            | Some _ \<Rightarrow> Inr ()))"

definition reject_raw_json :: "pystr \<Rightarrow> exn + unit" where
  "reject_raw_json value = unwrap_json max_json_string_wrappers (strip value)"

text \<open>
  \<open>_reject_embedded_json_artifact_text\<close>: \<open>d\<close> nested string levels are left, \<open>k\<close> fragments were met, and
  the last argument is the text from the current position on (\<open>raw_decode\<close> reads a value there).
\<close>

fun reject_embedded :: "nat \<Rightarrow> nat \<Rightarrow> pystr \<Rightarrow> exn + unit" where
  "reject_embedded d k [] = Inr ()"
| "reject_embedded d k (c # s) =
     (if \<not> json_start c then reject_embedded d k s
      else if max_embedded_json_fragments < k + 1 then Inl ValueError
      else (case scan_value (2 * length (c # s) + 2) (c # s) of
              None \<Rightarrow> reject_embedded d (k + 1) s
            | Some (JObj _, _) \<Rightarrow> Inl ValueError
            | Some (JList _, _) \<Rightarrow> Inl ValueError
            | Some (JStr t, _) \<Rightarrow>
                bnd (reject_raw_json t) (\<lambda>_.
                bnd (case d of 0 \<Rightarrow> Inl ValueError | Suc d' \<Rightarrow> reject_embedded d' 0 t) (\<lambda>_.
                  reject_embedded d (k + 1) s))
            | Some _ \<Rightarrow> reject_embedded d (k + 1) s))"

definition reject_sensitive_text :: "screens \<Rightarrow> pystr \<Rightarrow> exn + unit" where
  "reject_sensitive_text g value =
     bnd (reject_raw_json value) (\<lambda>_.
     bnd (reject_embedded max_json_string_wrappers 0 value) (\<lambda>_.
     bnd (require (\<not> sc_credential g value) ValueError) (\<lambda>_.
     require (\<not> sc_sensitive g value) ValueError)))"

fun reject_forbidden :: "screens \<Rightarrow> jval \<Rightarrow> exn + unit"
  and reject_forbidden_list :: "screens \<Rightarrow> jval list \<Rightarrow> exn + unit"
  and reject_forbidden_items :: "screens \<Rightarrow> (pystr \<times> jval) list \<Rightarrow> exn + unit" where
  "reject_forbidden g (JObj kvs) = reject_forbidden_items g kvs"
| "reject_forbidden g (JList vs) = reject_forbidden_list g vs"
| "reject_forbidden g (JStr s) = reject_sensitive_text g s"
| "reject_forbidden g _ = Inr ()"
| "reject_forbidden_list g [] = Inr ()"
| "reject_forbidden_list g (v # vs) =
     bnd (reject_forbidden g v) (\<lambda>_. reject_forbidden_list g vs)"
| "reject_forbidden_items g [] = Inr ()"
| "reject_forbidden_items g ((k, v) # kvs) =
     (if is_forbidden_field g k then Inl ValueError else
      bnd (reject_forbidden g v) (\<lambda>_. reject_forbidden_items g kvs))"

text \<open>\<open>validate_artifact_safe_value\<close>.\<close>

definition screened :: "screens \<Rightarrow> jval \<Rightarrow> exn + unit" where
  "screened g v = bnd (canonical_json v) (\<lambda>_. reject_forbidden g v)"

section \<open>Source addresses\<close>

text \<open>\<open>_normalize_url\<close>; every refusal is a \<open>ValueError\<close>.  A white-space code point is found by its units.\<close>

fun has_space :: "pystr \<Rightarrow> bool" where
  "has_space [] = False"
| "has_space (c # s) = (lead_space (c # s) \<noteq> 0 \<or> has_space s)"

definition url_char_refused :: "char \<Rightarrow> bool" where
  "url_char_refused c = ((of_char c :: nat) \<le> 31 \<or> (of_char c :: nat) = 127 \<or> c = CHR ''#'')"

fun after_scheme :: "pystr \<Rightarrow> pystr" where
  "after_scheme [] = []"
| "after_scheme (c # s) =
     (if take 3 (c # s) = ''://'' then drop 3 (c # s) else after_scheme s)"

definition url_authority :: "pystr \<Rightarrow> pystr" where
  "url_authority value =
     takeWhile (\<lambda>c. c \<noteq> CHR ''?'') (takeWhile (\<lambda>c. c \<noteq> CHR ''/'') (after_scheme value))"

definition dns_char :: "char \<Rightarrow> bool" where
  "dns_char c = (lower_letter c \<or> is_digit c)"

definition dns_label :: "pystr \<Rightarrow> bool" where
  "dns_label l =
     (1 \<le> length l \<and> length l \<le> 63 \<and> dns_char (hd l) \<and> dns_char (last l)
      \<and> list_all (\<lambda>c. dns_char c \<or> c = CHR ''-'') l)"

definition canonical_host :: "screens \<Rightarrow> pystr \<Rightarrow> exn + pystr" where
  "canonical_host g hostname =
     (case sc_ip_address g hostname of
        Some ip \<Rightarrow> Inr (if ip_six ip then ''['' @ ip_text ip @ '']'' else ip_text ip)
      | None \<Rightarrow>
          if CHR '':'' \<in> set hostname
             \<or> CHR ''.'' \<in> set hostname \<and> list_all (\<lambda>c. c \<in> set ''0123456789.'') hostname
          then Inl ValueError
          else (case sc_idna g hostname of
                  None \<Rightarrow> Inl ValueError
                | Some encoded \<Rightarrow>
                    let host = map lower_char encoded in
                    if 253 < length host \<or> \<not> list_all dns_label (split_on (CHR ''.'') host)
                    then Inl ValueError else Inr host))"

definition normalize_url :: "screens \<Rightarrow> pystr \<Rightarrow> exn + pystr" where
  "normalize_url g value =
     (if value \<noteq> strip value \<or> value = [] \<or> has_space value \<or> list_ex url_char_refused value
         \<or> CHR ''%'' \<in> set (url_authority value)
      then Inl ValueError
      else (case sc_urlsplit g value of
              None \<Rightarrow> Inl ValueError
            | Some u \<Rightarrow>
                if ends_with '':'' (u_netloc u) then Inl ValueError else
                let scheme = map lower_char (u_scheme u) in
                if scheme \<noteq> ''http'' \<and> scheme \<noteq> ''https'' then Inl ValueError else
                (case u_hostname u of
                   None \<Rightarrow> Inl ValueError
                 | Some hostname \<Rightarrow>
                     if u_username u \<noteq> None \<or> u_password u \<noteq> None then Inl ValueError else
                     bnd (canonical_host g hostname) (\<lambda>host.
                       let netloc = (case u_port u of
                             None \<Rightarrow> host
                           | Some port \<Rightarrow>
                               if scheme = ''http'' \<and> port = 80 \<or> scheme = ''https'' \<and> port = 443
                               then host else host @ '':'' @ dec port) in
                       Inr (sc_urlunsplit g scheme netloc
                             (if u_path u = [] then ''/'' else u_path u) (u_query u))))))"

text \<open>The host of a canonical address is ASCII, so \<open>isdecimal\<close> means the ASCII digits.\<close>

definition hex_component :: "pystr \<Rightarrow> bool" where
  "hex_component w =
     (case map lower_char w of
        a # b # r \<Rightarrow> a = CHR ''0'' \<and> b = CHR ''x'' \<and> r \<noteq> []
          \<and> list_all (\<lambda>c. c \<in> set ''0123456789abcdef'') r
      | _ \<Rightarrow> False)"

definition is_alternate_ip_literal :: "pystr \<Rightarrow> bool" where
  "is_alternate_ip_literal hostname =
     list_all (\<lambda>w. w \<noteq> [] \<and> list_all is_digit w \<or> hex_component w) (split_on (CHR ''.'') hostname)"

definition sensitive_query_keys :: "pystr list" where
  "sensitive_query_keys =
     [''apikey'', ''auth'', ''authorization'', ''credential'', ''credentials'', ''hmac'', ''key'', ''sig'',
      ''sign'', ''signature'']"

definition sensitive_query_key :: "screens \<Rightarrow> pystr \<Rightarrow> bool" where
  "sensitive_query_key g key =
     (let compact = compact_field_name g key in
      is_forbidden_field g key \<or> compact \<in> set sensitive_query_keys
      \<or> contains ''token'' compact \<or> contains ''signature'' compact)"

definition strip_dots :: "pystr \<Rightarrow> pystr" where
  "strip_dots s = rev (dropWhile (\<lambda>c. c = CHR ''.'') (rev s))"

definition public_host :: "screens \<Rightarrow> pystr \<Rightarrow> bool" where
  "public_host g hostname =
     (let folded = sc_casefold g (strip_dots hostname) in
      folded \<noteq> ''localhost'' \<and> \<not> ends_with ''.localhost'' folded
      \<and> (case sc_ip_address g hostname of
           None \<Rightarrow> \<not> is_alternate_ip_literal hostname
         | Some ip \<Rightarrow> ip_global ip))"

definition validated_source_url :: "screens \<Rightarrow> jval option \<Rightarrow> exn + pystr" where
  "validated_source_url g v =
     (case v of
        Some (JStr value) \<Rightarrow>
          bnd (normalize_url g value) (\<lambda>normalized.
            (case sc_urlsplit g normalized of
               None \<Rightarrow> Inl ValueError
             | Some u \<Rightarrow>
                 (case sc_parse_qsl g (u_query u) of
                    None \<Rightarrow> Inl ValueError
                  | Some query \<Rightarrow>
                      if normalized \<noteq> value then Inl ValueError else
                      (case u_hostname u of
                         None \<Rightarrow> Inl ValueError
                       | Some hostname \<Rightarrow>
                           if \<not> public_host g hostname then Inl ValueError
                           else if list_ex (\<lambda>(key, _). sensitive_query_key g key) query
                           then Inl ValueError
                           else bnd (reject_sensitive_text g value) (\<lambda>_. Inr value)))))
      | _ \<Rightarrow> Inl ValueError)"

section \<open>Source records\<close>

definition same_keys :: "(pystr \<times> jval) list \<Rightarrow> pystr list \<Rightarrow> bool" where
  "same_keys kvs ks = (set (map fst kvs) = set ks)"

text \<open>\<open>_parse_aware_datetime(..).isoformat()\<close>; leaving the calendar in UTC is an \<open>OverflowError\<close>.\<close>

definition normalized_fetch_time :: "jval option \<Rightarrow> exn + pystr" where
  "normalized_fetch_time v =
     (case v of
        Some (JStr s) \<Rightarrow>
          (case parse_aware s of
             None \<Rightarrow> Inl ValueError
           | Some t \<Rightarrow> if valid_instant t then Inr (isoformat t) else Inl OverflowError)
      | _ \<Rightarrow> Inl ValueError)"

definition source_provenance :: "screens \<Rightarrow> jval \<Rightarrow> exn + jval" where
  "source_provenance g source =
     (case source of
        JObj kvs \<Rightarrow>
          if \<not> same_keys kvs [''url'', ''content_hash'', ''fetched_at''] then Inl ValueError else
          bnd (validated_source_url g (jget ''url'' kvs)) (\<lambda>url.
            (case jget ''content_hash'' kvs of
               Some (JStr h) \<Rightarrow>
                 if \<not> is_sha256_hex h then Inl ValueError else
                 bnd (normalized_fetch_time (jget ''fetched_at'' kvs)) (\<lambda>t.
                   Inr (JObj [(''url'', JStr url), (''content_hash'', JStr h), (''fetched_at'', JStr t)]))
             | _ \<Rightarrow> Inl ValueError))
      | _ \<Rightarrow> Inl ValueError)"

section \<open>Screening does not depend on the order of members\<close>

lemma reject_list_iff: "reject_forbidden_list g vs = Inr u \<longleftrightarrow> (\<forall>v \<in> set vs. reject_forbidden g v = Inr ())"
  by (induction vs) (auto simp: bnd_eq_Inr)

lemma reject_items_iff:
  "reject_forbidden_items g kvs = Inr u
   \<longleftrightarrow> (\<forall>(k, v) \<in> set kvs. \<not> is_forbidden_field g k \<and> reject_forbidden g v = Inr ())"
  by (induction kvs) (auto simp: bnd_eq_Inr split: if_splits)

lemma reject_canon: "reject_forbidden g v = Inr () \<Longrightarrow> reject_forbidden g (canon v) = Inr ()"
proof (induction v)
  case (JList vs)
  then show ?case by (simp add: reject_list_iff)
next
  case (JObj kvs)
  have "reject_forbidden g (canon w) = Inr ()" if "(k, w) \<in> set kvs" for k w
    using JObj.IH [OF that] JObj.prems that by (force simp: snds.simps reject_items_iff)
  with JObj.prems show ?case by (fastforce simp: reject_items_iff)
qed simp_all

lemma screened_canon: "screened g v = Inr () \<Longrightarrow> screened g (canon v) = Inr ()"
  by (auto simp: screened_def canonical_json_canon bnd_eq_Inr intro: reject_canon)

lemma obj_canon:
  assumes "distinct (map fst kvs)"
  obtains kvs' where "canon (JObj kvs) = JObj kvs'" "\<And>ks. same_keys kvs' ks = same_keys kvs ks"
    "\<And>k. jget k kvs' = map_option canon (jget k kvs)" "set (map fst kvs') = set (map fst kvs)"
    "set kvs' = (\<lambda>(k, v). (k, canon v)) ` set kvs"
proof -
  obtain kvs' where c: "canon (JObj kvs) = JObj kvs'" by simp
  have "set kvs' = (\<lambda>(k, v). (k, canon v)) ` set kvs" using c by auto
  with that [OF c] keys_canon [OF c] jget_canon [OF assms c] show thesis by (simp add: same_keys_def)
qed

lemma source_url_canon: "validated_source_url g (map_option canon v) = validated_source_url g v"
  by (cases v; cases "the v") (simp_all add: validated_source_url_def)

lemma fetch_time_canon: "normalized_fetch_time (map_option canon v) = normalized_fetch_time v"
  by (cases v; cases "the v") (simp_all add: normalized_fetch_time_def)

lemma source_provenance_canon:
  assumes "plain v"
  shows "source_provenance g (canon v) = source_provenance g v"
proof (cases v)
  case (JObj kvs)
  with assms have "distinct (map fst kvs)" by simp
  then obtain kvs' where c: "canon (JObj kvs) = JObj kvs'" "\<And>ks. same_keys kvs' ks = same_keys kvs ks"
    "\<And>k. jget k kvs' = map_option canon (jget k kvs)"
    using obj_canon by metis
  show ?thesis
  proof (cases "jget ''content_hash'' kvs")
    case None
    then show ?thesis
      unfolding JObj source_provenance_def c(1) by (simp add: c(2,3) source_url_canon)
  next
    case (Some h)
    then show ?thesis
      unfolding JObj source_provenance_def c(1)
      by (cases h) (simp_all add: c(2,3) source_url_canon fetch_time_canon cong: if_cong)
  qed
qed (simp_all add: source_provenance_def)

end
