(* ===== verification/Results.thy ===== *)
theory Results
  imports Screening
begin

text \<open>
  \<open>ExecutionResult\<close> (\<open>services/artifacts.py\<close>) with the validation its constructor runs, and its
  durable bytes (\<open>execution_result_bytes\<close>, \<open>execution_result_from_bytes\<close> of \<open>executors/base.py\<close>).
  The screens its texts and sources pass are those of \<^theory_text>\<open>Screening\<close>.
\<close>

section \<open>The result of an execution\<close>

record execution_result =
  content_markdown :: pystr
  titles :: "pystr list"
  descriptions :: "pystr list"
  keyword_qa :: jval
  text_metrics :: jval
  sources :: "jval list"
  warnings :: "pystr list"
  model_usage :: jval
  stage_timings :: jval
  prompt_versions :: jval

section \<open>Character classes and labels\<close>

definition letter :: "char \<Rightarrow> bool" where
  "letter c = (let n = (of_char c :: nat) in 97 \<le> n \<and> n \<le> 122 \<or> 65 \<le> n \<and> n \<le> 90)"

definition alnum :: "char \<Rightarrow> bool" where
  "alnum c = (letter c \<or> is_digit c)"

text \<open>\<open>_STRUCTURED_FIELD_NAME\<close> and \<open>_COMPACT_LABEL\<close>, matched as a whole.\<close>

definition is_field_name :: "pystr \<Rightarrow> bool" where
  "is_field_name s =
     (case s of [] \<Rightarrow> False
      | c # r \<Rightarrow> lower_letter c \<and> length r \<le> 63
          \<and> list_all (\<lambda>d. lower_letter d \<or> is_digit d \<or> d = CHR ''_'') r)"

definition is_compact_label :: "pystr \<Rightarrow> bool" where
  "is_compact_label s =
     (case s of [] \<Rightarrow> False
      | c # r \<Rightarrow> alnum c \<and> length r \<le> 127 \<and> list_all (\<lambda>d. alnum d \<or> d \<in> set ''._:/-'') r)"

text \<open>
  \<open>_CREDENTIAL_LIKE_LABEL\<close>, matched as a whole and without regard to case, on a text that is a
  compact label (so ASCII).  \<open>tail_of p s\<close> is what follows the prefix \<open>p\<close>.
\<close>

definition tail_of :: "pystr \<Rightarrow> pystr \<Rightarrow> pystr option" where
  "tail_of p s = (if take (length p) s = p then Some (drop (length p) s) else None)"

definition word_char :: "char \<Rightarrow> bool" where
  "word_char c = (alnum c \<or> c = CHR ''_'' \<or> c = CHR ''-'')"

definition after_any :: "pystr list \<Rightarrow> (pystr \<Rightarrow> bool) \<Rightarrow> pystr \<Rightarrow> bool" where
  "after_any ps P s = list_ex (\<lambda>p. case tail_of p s of None \<Rightarrow> False | Some r \<Rightarrow> P r) ps"

definition run_of_chars :: "nat \<Rightarrow> (char \<Rightarrow> bool) \<Rightarrow> pystr \<Rightarrow> bool" where
  "run_of_chars n P s = (n \<le> length s \<and> list_all P s)"

text \<open>\<open>eyJ\<close> followed by three dot-separated parts, the first of ten characters or more.\<close>

definition token_parts :: "pystr \<Rightarrow> bool" where
  "token_parts s =
     (let a = takeWhile (\<lambda>c. c \<noteq> CHR ''.'') s; r = drop (Suc (length a)) s;
          b = takeWhile (\<lambda>c. c \<noteq> CHR ''.'') r; z = drop (Suc (length b)) r in
      run_of_chars 10 word_char a \<and> run_of_chars 1 word_char b \<and> run_of_chars 1 word_char z)"

definition seps :: "pystr \<Rightarrow> pystr list" where
  "seps p = [p @ ''_'', p @ ''-'']"

definition joined_words :: "pystr \<Rightarrow> pystr \<Rightarrow> pystr list" where
  "joined_words a b = [a @ b, a @ ''_'' @ b, a @ ''-'' @ b]"

definition credential_label :: "pystr \<Rightarrow> bool" where
  "credential_label t =
     (let s = map lower_char t; keyed = concat (map seps
            (joined_words ''api'' ''key'' @ [''credential'', ''secret'']
             @ joined_words ''access'' ''token'' @ joined_words ''refresh'' ''token''
             @ joined_words ''id'' ''token'' @ [''token'', ''sk'', ''pk'', ''rk'', ''ak'']))
      in after_any keyed (run_of_chars 8 word_char) s
       \<or> after_any [''aiza''] (run_of_chars 20 word_char) s
       \<or> after_any [''akia''] (\<lambda>r. length r = 16 \<and> list_all alnum r) s
       \<or> after_any [''ghp_'', ''gho_'', ''ghu_'', ''ghs_'', ''ghr_''] (run_of_chars 20 alnum) s
       \<or> after_any [''github_pat_''] (run_of_chars 20 (\<lambda>c. alnum c \<or> c = CHR ''_'')) s
       \<or> after_any [''xox'']
           (\<lambda>r. case r of c # d # r \<Rightarrow> lower_letter c \<and> d = CHR ''-''
                  \<and> run_of_chars 10 (\<lambda>e. alnum e \<or> e = CHR ''-'') r | _ \<Rightarrow> False) s
       \<or> after_any [''eyj''] token_parts s)"

definition validate_compact_label :: "jval option \<Rightarrow> exn + unit" where
  "validate_compact_label v =
     (case v of
        Some (JStr s) \<Rightarrow> require (is_compact_label s \<and> \<not> credential_label s) ValueError
      | _ \<Rightarrow> Inl ValueError)"

section \<open>Validators\<close>

fun all_ok :: "('a \<Rightarrow> exn + unit) \<Rightarrow> 'a list \<Rightarrow> exn + unit" where
  "all_ok f [] = Inr ()"
| "all_ok f (x # xs) = bnd (f x) (\<lambda>_. all_ok f xs)"

definition validate_five_strings :: "screens \<Rightarrow> pystr list \<Rightarrow> exn + unit" where
  "validate_five_strings g ss =
     bnd (require (length ss = 5 \<and> \<not> list_ex blank ss) ValueError) (\<lambda>_.
       all_ok (reject_sensitive_text g) ss)"

definition nonneg_int :: "jval option \<Rightarrow> bool" where
  "nonneg_int v = (case v of Some (JInt i) \<Rightarrow> 0 \<le> i | _ \<Rightarrow> False)"

definition max_primary_keyword_bytes :: nat where
  "max_primary_keyword_bytes = 256"

definition validate_keyword_qa :: "screens \<Rightarrow> jval \<Rightarrow> exn + unit" where
  "validate_keyword_qa g value =
     (case value of
        JObj kvs \<Rightarrow>
          if \<not> same_keys kvs [''primary_keyword'', ''occurrences'', ''passed''] then Inl ValueError else
          (case jget ''primary_keyword'' kvs of
             Some (JStr s) \<Rightarrow>
               if blank s \<or> \<not> utf8_ok False s \<or> max_primary_keyword_bytes < length s
                  \<or> CHR 0x0A \<in> set s then Inl ValueError else
               bnd (reject_sensitive_text g s) (\<lambda>_.
               bnd (require (nonneg_int (jget ''occurrences'' kvs)) ValueError) (\<lambda>_.
               require (case jget ''passed'' kvs of Some (JBool b) \<Rightarrow> True | _ \<Rightarrow> False) ValueError))
           | _ \<Rightarrow> Inl ValueError)
      | _ \<Rightarrow> Inl ValueError)"

definition validate_nonnegative_integer_mapping :: "jval \<Rightarrow> exn + unit" where
  "validate_nonnegative_integer_mapping value =
     (case value of
        JObj kvs \<Rightarrow> all_ok (\<lambda>(k, v). require (is_field_name k \<and> nonneg_int (Some v)) ValueError) kvs
      | _ \<Rightarrow> Inl ValueError)"

definition validate_usage_model :: "jval \<Rightarrow> exn + unit" where
  "validate_usage_model m =
     (case m of
        JObj kvs \<Rightarrow>
          bnd (require (set [''model_id'', ''provider_id''] \<subseteq> set (map fst kvs)
                \<and> set (map fst kvs) \<subseteq> set [''model_id'', ''provider_id'', ''input_tokens'', ''output_tokens''])
                ValueError) (\<lambda>_.
          bnd (validate_compact_label (jget ''model_id'' kvs)) (\<lambda>_.
          bnd (validate_compact_label (jget ''provider_id'' kvs)) (\<lambda>_.
          all_ok (\<lambda>f. require (jget f kvs = None \<or> nonneg_int (jget f kvs)) ValueError)
            [''input_tokens'', ''output_tokens''])))
      | _ \<Rightarrow> Inl ValueError)"

definition validate_model_usage :: "jval \<Rightarrow> exn + unit" where
  "validate_model_usage value =
     (case value of
        JObj kvs \<Rightarrow>
          if \<not> same_keys kvs [''models''] then Inl ValueError else
          (case jget ''models'' kvs of
             Some (JList ms) \<Rightarrow> if ms = [] then Inl ValueError else all_ok validate_usage_model ms
           | _ \<Rightarrow> Inl ValueError)
      | _ \<Rightarrow> Inl ValueError)"

definition validate_prompt_versions :: "jval \<Rightarrow> exn + unit" where
  "validate_prompt_versions value =
     (case value of
        JObj kvs \<Rightarrow>
          if kvs = [] then Inl ValueError else
          all_ok (\<lambda>(k, v). bnd (require (is_field_name k) ValueError) (\<lambda>_.
                     validate_compact_label (Some v))) kvs
      | _ \<Rightarrow> Inl ValueError)"

text \<open>\<open>ExecutionResult.__post_init__\<close>; the fields have their declared types.\<close>

definition result_post_init :: "screens \<Rightarrow> execution_result \<Rightarrow> exn + unit" where
  "result_post_init g r =
     bnd (require (utf8_ok False (content_markdown r)) ValueError) (\<lambda>_.
     bnd (require (\<not> blank (content_markdown r) \<and> length (content_markdown r) \<le> max_bytes) ValueError) (\<lambda>_.
     bnd (reject_sensitive_text g (content_markdown r)) (\<lambda>_.
     bnd (validate_five_strings g (titles r)) (\<lambda>_.
     bnd (validate_five_strings g (descriptions r)) (\<lambda>_.
     bnd (require (\<not> list_ex blank (warnings r)) ValueError) (\<lambda>_.
     bnd (all_ok (reject_sensitive_text g) (warnings r)) (\<lambda>_.
     bnd (all_ok (screened g) [keyword_qa r, text_metrics r, model_usage r, stage_timings r,
           prompt_versions r]) (\<lambda>_.
     bnd (screened g (JList (sources r))) (\<lambda>_.
     bnd (all_ok (\<lambda>v. bnd (source_provenance g v) (\<lambda>_. Inr ())) (sources r)) (\<lambda>_.
     bnd (validate_keyword_qa g (keyword_qa r)) (\<lambda>_.
     bnd (validate_nonnegative_integer_mapping (text_metrics r)) (\<lambda>_.
     bnd (validate_model_usage (model_usage r)) (\<lambda>_.
     bnd (validate_nonnegative_integer_mapping (stage_timings r)) (\<lambda>_.
     validate_prompt_versions (prompt_versions r)))))))))))))))"

section \<open>Durable bytes\<close>

definition result_fields :: "pystr list" where
  "result_fields =
     [''content_markdown'', ''titles'', ''descriptions'', ''keyword_qa'', ''text_metrics'', ''sources'',
      ''warnings'', ''model_usage'', ''stage_timings'', ''prompt_versions'']"

definition result_mapping :: "execution_result \<Rightarrow> (pystr \<times> jval) list" where
  "result_mapping r =
     [(''content_markdown'', JStr (content_markdown r)),
      (''titles'', JList (map JStr (titles r))),
      (''descriptions'', JList (map JStr (descriptions r))),
      (''keyword_qa'', keyword_qa r),
      (''text_metrics'', text_metrics r),
      (''sources'', JList (sources r)),
      (''warnings'', JList (map JStr (warnings r))),
      (''model_usage'', model_usage r),
      (''stage_timings'', stage_timings r),
      (''prompt_versions'', prompt_versions r)]"

definition execution_result_bytes :: "screens \<Rightarrow> execution_result \<Rightarrow> exn + bytes" where
  "execution_result_bytes g r =
     bnd (result_post_init g r) (\<lambda>_. canonical_json (JObj (result_mapping r)))"

definition json_array :: "jval option \<Rightarrow> exn + jval list" where
  "json_array v = (case v of Some (JList vs) \<Rightarrow> Inr vs | _ \<Rightarrow> Inl ValueError)"

text \<open>
  The arrays must be arrays before the constructor runs; a text field that holds something else is the
  constructor's \<open>ValueError\<close>.
\<close>

definition execution_result_from_bytes :: "screens \<Rightarrow> bytes \<Rightarrow> exn + execution_result" where
  "execution_result_from_bytes g payload =
     (case json_loads payload of
        Some (JObj kvs) \<Rightarrow>
          if \<not> same_keys kvs result_fields then Inl ValueError else
          bnd (json_array (jget ''sources'' kvs)) (\<lambda>srcs.
          bnd (required_string (jget ''content_markdown'' kvs)) (\<lambda>content.
          bnd (string_tuple (jget ''titles'' kvs)) (\<lambda>ts.
          bnd (string_tuple (jget ''descriptions'' kvs)) (\<lambda>ds.
          bnd (string_tuple (jget ''warnings'' kvs)) (\<lambda>ws.
          let json = (\<lambda>f. case jget f kvs of None \<Rightarrow> JNull | Some v \<Rightarrow> v);
              r = \<lparr>content_markdown = content, titles = ts, descriptions = ds,
                   keyword_qa = json ''keyword_qa'', text_metrics = json ''text_metrics'',
                   sources = srcs, warnings = ws, model_usage = json ''model_usage'',
                   stage_timings = json ''stage_timings'',
                   prompt_versions = json ''prompt_versions''\<rparr> in
          bnd (result_post_init g r) (\<lambda>_.
          bnd (execution_result_bytes g r) (\<lambda>b.
          if b \<noteq> payload then Inl ValueError else Inr r)))))))
      | _ \<Rightarrow> Inl ValueError)"

section \<open>Reading back what was written\<close>

text \<open>The result with its JSON members in canonical form.\<close>

definition canon_result :: "execution_result \<Rightarrow> execution_result" where
  "canon_result r =
     r\<lparr>keyword_qa := canon (keyword_qa r), text_metrics := canon (text_metrics r),
       sources := map canon (sources r), model_usage := canon (model_usage r),
       stage_timings := canon (stage_timings r), prompt_versions := canon (prompt_versions r)\<rparr>"

definition plain_result :: "execution_result \<Rightarrow> bool" where
  "plain_result r =
     (list_all plain [keyword_qa r, text_metrics r, model_usage r, stage_timings r, prompt_versions r]
      \<and> list_all plain (sources r))"

lemma result_mapping_keys: "map fst (result_mapping r) = result_fields"
  by (simp add: result_mapping_def result_fields_def)

lemma result_fields_distinct: "distinct result_fields"
  by (simp add: result_fields_def)

lemma plain_result_mapping: "plain_result r \<Longrightarrow> plain (JObj (result_mapping r))"
  by (simp add: result_mapping_def plain_result_def)

lemma all_strings_canon [simp]: "all_strings (map (canon \<circ> JStr) ss) = Some ss"
  by (induction ss) simp_all

lemma result_mapping_canon: "result_mapping (canon_result r) = map (\<lambda>(k, v). (k, canon v)) (result_mapping r)"
  by (simp add: result_mapping_def canon_result_def comp_def)

lemma canon_result_mapping: "canon (JObj (result_mapping (canon_result r))) = canon (JObj (result_mapping r))"
  unfolding result_mapping_canon canon.simps sort_key_map_snd by (simp add: comp_def case_prod_unfold)

lemma canon_result_bytes:
  "canonical_json (JObj (result_mapping (canon_result r))) = canonical_json (JObj (result_mapping r))"
  by (metis canonical_json_canon canon_result_mapping)

lemma result_bytes_read:
  assumes "execution_result_bytes g r = Inr b" "plain_result r"
  shows "execution_result_from_bytes g b = bnd (result_post_init g (canon_result r)) (\<lambda>_. Inr (canon_result r))"
proof -
  from assms(1) have bytes: "canonical_json (JObj (result_mapping r)) = Inr b"
    by (auto simp: execution_result_bytes_def bnd_eq_Inr)
  have loads: "json_loads b = Some (canon (JObj (result_mapping r)))"
    by (rule json_loads_canonical [OF plain_result_mapping [OF assms(2)] bytes])
  obtain kvs where kvs: "canon (JObj (result_mapping r)) = JObj kvs" by simp
  have dist: "distinct (map fst (result_mapping r))"
    using result_fields_distinct by (simp add: result_mapping_keys)
  have keys: "same_keys kvs result_fields"
    using keys_canon [OF kvs] by (simp add: result_mapping_keys same_keys_def)
  have get: "jget k kvs = map_option canon (jget k (result_mapping r))" for k
    by (rule jget_canon [OF dist kvs])
  have again: "bnd (result_post_init g (canon_result r)) (\<lambda>_. bnd (execution_result_bytes g (canon_result r))
       (\<lambda>c. if c \<noteq> b then Inl ValueError else Inr (canon_result r)))
     = bnd (result_post_init g (canon_result r)) (\<lambda>_. Inr (canon_result r))"
    by (cases "result_post_init g (canon_result r)")
      (simp_all add: execution_result_bytes_def canon_result_bytes bytes)
  have rebuilt: "\<lparr>content_markdown = content_markdown r, titles = titles r, descriptions = descriptions r,
      keyword_qa = canon (keyword_qa r), text_metrics = canon (text_metrics r),
      sources = map canon (sources r), warnings = warnings r, model_usage = canon (model_usage r),
      stage_timings = canon (stage_timings r), prompt_versions = canon (prompt_versions r)\<rparr> = canon_result r"
    by (cases r) (simp add: canon_result_def)
  show ?thesis
    unfolding again [symmetric] unfolding execution_result_from_bytes_def loads kvs
    by (simp add: keys get [unfolded jget_def result_mapping_def] jget_def required_string_def json_array_def
        string_tuple_def rebuilt Let_def del: canon_strings cong: if_cong)
qed

section \<open>Validation does not depend on the order of members\<close>

lemma all_ok_iff: "all_ok f xs = Inr u \<longleftrightarrow> (\<forall>x \<in> set xs. f x = Inr ())"
  by (induction xs) (auto simp: bnd_eq_Inr)

lemma nonneg_int_canon: "nonneg_int (map_option canon v) = nonneg_int v"
proof (cases v)
  case (Some w)
  then show ?thesis by (cases w) (simp_all add: nonneg_int_def)
qed (simp add: nonneg_int_def)

lemma label_canon: "validate_compact_label (map_option canon v) = validate_compact_label v"
proof (cases v)
  case (Some w)
  then show ?thesis by (cases w) (simp_all add: validate_compact_label_def)
qed (simp add: validate_compact_label_def)

lemma validate_keyword_qa_canon:
  assumes "plain v" "validate_keyword_qa g v = Inr ()"
  shows "validate_keyword_qa g (canon v) = Inr ()"
proof (cases v)
  case (JObj kvs)
  with assms(1) have "distinct (map fst kvs)" by simp
  then obtain kvs' where c: "canon (JObj kvs) = JObj kvs'" "\<And>ks. same_keys kvs' ks = same_keys kvs ks"
    "\<And>k. jget k kvs' = map_option canon (jget k kvs)"
    using obj_canon by metis
  note qa = assms(2) [unfolded JObj validate_keyword_qa_def jval.case]
  obtain s where s: "jget ''primary_keyword'' kvs = Some (JStr s)"
  proof (cases "jget ''primary_keyword'' kvs")
    case (Some w)
    with qa that show thesis by (cases w) (auto split: if_splits)
  qed (use qa in \<open>simp split: if_splits\<close>)
  obtain b where b: "jget ''passed'' kvs = Some (JBool b)"
  proof (cases "jget ''passed'' kvs")
    case (Some w)
    with qa s that show thesis by (cases w) (auto simp: bnd_eq_Inr split: if_splits)
  qed (use qa s in \<open>auto simp: bnd_eq_Inr split: if_splits\<close>)
  from s b qa show ?thesis
    unfolding JObj validate_keyword_qa_def c(1) by (simp add: c(2,3) nonneg_int_canon cong: if_cong)
qed (use assms in \<open>simp_all add: validate_keyword_qa_def\<close>)

lemma validate_mapping_canon:
  assumes "plain v" "validate_nonnegative_integer_mapping v = Inr ()"
  shows "validate_nonnegative_integer_mapping (canon v) = Inr ()"
proof (cases v)
  case (JObj kvs)
  with assms(1) have "distinct (map fst kvs)" by simp
  then obtain kvs' where "canon (JObj kvs) = JObj kvs'" "set kvs' = (\<lambda>(k, v). (k, canon v)) ` set kvs"
    by (rule obj_canon)
  with assms(2) show ?thesis
    unfolding JObj validate_nonnegative_integer_mapping_def
    using nonneg_int_canon [of "Some _"] by (auto simp: all_ok_iff)
qed (use assms in \<open>simp_all add: validate_nonnegative_integer_mapping_def\<close>)

lemma validate_prompt_versions_canon:
  assumes "plain v" "validate_prompt_versions v = Inr ()"
  shows "validate_prompt_versions (canon v) = Inr ()"
proof (cases v)
  case (JObj kvs)
  with assms(1) have "distinct (map fst kvs)" by simp
  then obtain kvs' where c: "canon (JObj kvs) = JObj kvs'" "set kvs' = (\<lambda>(k, v). (k, canon v)) ` set kvs"
    by (rule obj_canon)
  then have "kvs' = [] \<longleftrightarrow> kvs = []" by auto
  with c assms(2) show ?thesis
    unfolding JObj validate_prompt_versions_def
    using label_canon [of "Some _"] by (auto simp: all_ok_iff split: if_splits)
qed (use assms in \<open>simp_all add: validate_prompt_versions_def\<close>)

lemma validate_usage_model_canon:
  assumes "plain v" "validate_usage_model v = Inr ()"
  shows "validate_usage_model (canon v) = Inr ()"
proof (cases v)
  case (JObj kvs)
  with assms(1) have "distinct (map fst kvs)" by simp
  then obtain kvs' where "canon (JObj kvs) = JObj kvs'"
    "\<And>k. jget k kvs' = map_option canon (jget k kvs)" "set (map fst kvs') = set (map fst kvs)"
    using obj_canon by metis
  with assms(2) show ?thesis
    unfolding JObj validate_usage_model_def
    by (simp add: label_canon nonneg_int_canon all_ok_iff bnd_eq_Inr)
qed (use assms in \<open>simp_all add: validate_usage_model_def\<close>)

lemma validate_model_usage_canon:
  assumes "plain v" "validate_model_usage v = Inr ()"
  shows "validate_model_usage (canon v) = Inr ()"
proof (cases v)
  case (JObj kvs)
  with assms(1) have dist: "distinct (map fst kvs)" by simp
  then obtain kvs' where c: "canon (JObj kvs) = JObj kvs'"
    "\<And>ks. same_keys kvs' ks = same_keys kvs ks"
    "\<And>k. jget k kvs' = map_option canon (jget k kvs)"
    using obj_canon by metis
  from assms(2) obtain ms where ms: "jget ''models'' kvs = Some (JList ms)"
    unfolding JObj by (auto simp: validate_model_usage_def split: if_splits option.splits jval.splits)
  then have "(''models'', JList ms) \<in> set kvs" by (simp add: jget_def map_of_SomeD)
  with assms(1) have "list_all plain ms" unfolding JObj by (auto simp: list_all_iff)
  with assms(2) ms show ?thesis
    unfolding JObj validate_model_usage_def c(1)
    by (auto simp: c(2,3) all_ok_iff list_all_iff intro: validate_usage_model_canon split: if_splits)
qed (use assms in \<open>simp_all add: validate_model_usage_def\<close>)

lemma result_post_init_canon:
  assumes "plain_result r" "result_post_init g r = Inr ()"
  shows "result_post_init g (canon_result r) = Inr ()"
proof -
  note parts = assms(2) [unfolded result_post_init_def bnd_eq_Inr require_eq]
  have "screened g (JList (map canon (sources r))) = Inr ()"
    using parts screened_canon [of g "JList (sources r)"] by auto
  moreover have "all_ok (screened g) (map canon [keyword_qa r, text_metrics r, model_usage r, stage_timings r,
      prompt_versions r]) = Inr ()"
    using parts by (auto simp: all_ok_iff simp del: all_ok.simps intro: screened_canon)
  moreover have "all_ok (\<lambda>v. bnd (source_provenance g v) (\<lambda>_. Inr ())) (map canon (sources r)) = Inr ()"
    using parts assms(1)
    by (auto simp: all_ok_iff bnd_eq_Inr plain_result_def list_all_iff source_provenance_canon)
  moreover have "validate_keyword_qa g (canon (keyword_qa r)) = Inr ()"
    "validate_nonnegative_integer_mapping (canon (text_metrics r)) = Inr ()"
    "validate_model_usage (canon (model_usage r)) = Inr ()"
    "validate_nonnegative_integer_mapping (canon (stage_timings r)) = Inr ()"
    "validate_prompt_versions (canon (prompt_versions r)) = Inr ()"
    using assms(1) parts
    by (auto simp: plain_result_def intro: validate_keyword_qa_canon validate_mapping_canon
        validate_model_usage_canon validate_prompt_versions_canon)
  ultimately show ?thesis
    using parts by (auto simp: result_post_init_def canon_result_def)
qed

text \<open>
  C23.  Durable results round-trip: the bytes stored for a result read back, with every validator run
  again, as that result with its JSON members in canonical form, and rewriting it gives the same
  bytes.  (JSON values are what Python builds: dicts with distinct keys.)
\<close>

theorem result_bytes_roundtrip:
  assumes "execution_result_bytes g r = Inr b" "plain_result r"
  shows "execution_result_from_bytes g b = Inr (canon_result r)
    \<and> execution_result_bytes g (canon_result r) = Inr b"
proof -
  have ok: "result_post_init g (canon_result r) = Inr ()"
    using assms(1) by (intro result_post_init_canon [OF assms(2)])
      (auto simp: execution_result_bytes_def bnd_eq_Inr)
  then show ?thesis
    using result_bytes_read [OF assms(1,2)] assms(1) canon_result_bytes [of r]
    by (auto simp: execution_result_bytes_def bnd_eq_Inr)
qed

definition demo_result :: execution_result where
  "demo_result = \<lparr>content_markdown = ''text'', titles = [''t'', ''t'', ''t'', ''t'', ''t''], descriptions = [''d'', ''d'', ''d'', ''d'', ''d''],
     keyword_qa = JObj [(''primary_keyword'', JStr ''k''), (''occurrences'', JInt 1), (''passed'', JBool True)],
     text_metrics = JObj [(''words'', JInt 1)], sources = [], warnings = [],
     model_usage = JObj [(''models'', JList [JObj [(''model_id'', JStr ''m''), (''provider_id'', JStr ''p'')]])],
     stage_timings = JObj [], prompt_versions = JObj [(''write'', JStr ''v1'')]\<rparr>"

definition demo_screens :: screens where
  "demo_screens = \<lparr>sc_casefold = map lower_char, sc_credential = (\<lambda>s. False), sc_sensitive = (\<lambda>s. False),
     sc_urlsplit = (\<lambda>s. None), sc_urlunsplit = (\<lambda>a b c d. a @ ''://'' @ b @ c),
     sc_parse_qsl = (\<lambda>s. Some []), sc_ip_address = (\<lambda>s. None), sc_idna = Some\<rparr>"

lemma demo_fields_allowed:
  "list_all (\<lambda>k. \<not> is_forbidden_field demo_screens k)
     [''primary_keyword'', ''occurrences'', ''passed'', ''words'', ''models'', ''model_id'', ''provider_id'', ''write'']"
  by code_simp

lemma demo_texts_allowed:
  "list_all (\<lambda>s. reject_sensitive_text demo_screens s = Inr ()) [''text'', ''t'', ''d'', ''k'', ''m'', ''p'', ''v1'']"
  by code_simp

lemma within_budget:
  assumes "shaped 0 v" "nodes v \<le> max_nodes" "string_bytes v \<le> max_bytes" "weight v \<le> max_bytes"
  shows "canonical_json v = Inr (dumps v)"
  using assms length_dumps [of v] by (simp add: canonical_json_eq)

lemmas budget_simps = utf8_ascii_Cons max_nodes_def max_bytes_def max_depth_def max_safe_integer_def

lemma demo_members_canonical:
  "canonical_json (keyword_qa demo_result) = Inr (dumps (keyword_qa demo_result))"
  "canonical_json (text_metrics demo_result) = Inr (dumps (text_metrics demo_result))"
  "canonical_json (model_usage demo_result) = Inr (dumps (model_usage demo_result))"
  "canonical_json (stage_timings demo_result) = Inr (dumps (stage_timings demo_result))"
  "canonical_json (prompt_versions demo_result) = Inr (dumps (prompt_versions demo_result))"
  "canonical_json (JList (sources demo_result)) = Inr (dumps (JList (sources demo_result)))"
  by (rule within_budget; simp add: demo_result_def budget_simps dec_int_def dec.simps)+

lemma demo_mapping_canonical:
  "canonical_json (JObj (result_mapping demo_result)) = Inr (dumps (JObj (result_mapping demo_result)))"
  by (rule within_budget) (simp_all add: result_mapping_def demo_result_def budget_simps dec_int_def dec.simps)

lemma demo_result_ok: "result_post_init demo_screens demo_result = Inr ()"
proof -
  have filled: "\<not> blank ''text''" "\<not> blank ''t''" "\<not> blank ''d''" "\<not> blank ''k''"
    by (simp_all add: ascii_space_def wide_space_def)
  have labels: "validate_compact_label (Some (JStr ''m'')) = Inr ()" "validate_compact_label (Some (JStr ''p'')) = Inr ()"
    "validate_compact_label (Some (JStr ''v1'')) = Inr ()"
    by (code_simp)+
  have names: "is_field_name ''words''" "is_field_name ''write''" by code_simp+
  have "screened demo_screens v = Inr ()"
    if "canonical_json v = Inr b" "reject_forbidden demo_screens v = Inr ()" for v b
    using that by (simp add: screened_def)
  from demo_members_canonical [THEN this]
  have "screened demo_screens (keyword_qa demo_result) = Inr ()"
    "screened demo_screens (text_metrics demo_result) = Inr ()"
    "screened demo_screens (model_usage demo_result) = Inr ()"
    "screened demo_screens (stage_timings demo_result) = Inr ()"
    "screened demo_screens (prompt_versions demo_result) = Inr ()"
    "screened demo_screens (JList (sources demo_result)) = Inr ()"
    using demo_fields_allowed demo_texts_allowed by (simp_all add: demo_result_def)
  then have screen: "all_ok (screened demo_screens) [keyword_qa demo_result, text_metrics demo_result,
      model_usage demo_result, stage_timings demo_result, prompt_versions demo_result] = Inr ()"
    "screened demo_screens (JList (sources demo_result)) = Inr ()"
    by simp_all
  have "validate_keyword_qa demo_screens (keyword_qa demo_result) = Inr ()"
    "validate_nonnegative_integer_mapping (text_metrics demo_result) = Inr ()"
    "validate_model_usage (model_usage demo_result) = Inr ()"
    "validate_nonnegative_integer_mapping (stage_timings demo_result) = Inr ()"
    "validate_prompt_versions (prompt_versions demo_result) = Inr ()"
    using demo_texts_allowed
    by (simp_all add: demo_result_def filled labels names validate_keyword_qa_def
        validate_nonnegative_integer_mapping_def validate_model_usage_def validate_usage_model_def
        validate_prompt_versions_def same_keys_def jget_def nonneg_int_def budget_simps
        max_primary_keyword_bytes_def ascii_space_def)
  with screen show ?thesis
    unfolding result_post_init_def
    using demo_texts_allowed
    by (simp del: all_ok.simps) (simp add: demo_result_def validate_five_strings_def filled ascii_space_def budget_simps)
qed

lemma result_bytes_roundtrip_witness:
  "execution_result_from_bytes demo_screens (dumps (JObj (result_mapping demo_result)))
     = Inr (canon_result demo_result)"
proof -
  have "execution_result_bytes demo_screens demo_result = Inr (dumps (JObj (result_mapping demo_result)))"
    by (simp add: execution_result_bytes_def demo_result_ok demo_mapping_canonical)
  moreover have "plain_result demo_result" by (simp add: plain_result_def demo_result_def)
  ultimately show ?thesis using result_bytes_roundtrip by blast
qed

end
