(* ===== verification/Executors.thy ===== *)
theory Executors
  imports Results JobService Complex_Main
begin

text \<open>
  The executor boundary (\<open>executors/base.py\<close>) and the retry policy (\<open>RetryPolicy\<close> in \<open>runner.py\<close>).
  An executor is untrusted: a field whose type its declaration does not enforce carries an option,
  \<open>None\<close> standing for a value of another type.  Delays are rationals: the arithmetic of the policy
  (doubling, minimum, maximum) is exact on the doubles Python computes with.
\<close>

section \<open>What an executor answers\<close>

datatype external_status =
    ExtAccepted | ExtRunning | ExtSucceeded | ExtFailedRetryable | ExtFailedFinal | ExtCanceled

fun status_value :: "external_status \<Rightarrow> pystr" where
  "status_value ExtAccepted = ''ACCEPTED''"
| "status_value ExtRunning = ''RUNNING''"
| "status_value ExtSucceeded = ''SUCCEEDED''"
| "status_value ExtFailedRetryable = ''FAILED_RETRYABLE''"
| "status_value ExtFailedFinal = ''FAILED_FINAL''"
| "status_value ExtCanceled = ''CANCELED''"

definition external_status_of :: "pystr \<Rightarrow> external_status option" where
  "external_status_of s =
     find (\<lambda>st. status_value st = s)
       [ExtAccepted, ExtRunning, ExtSucceeded, ExtFailedRetryable, ExtFailedFinal, ExtCanceled]"

text \<open>\<open>ExternalRun\<close>; \<open>er_accepted_at\<close> is \<open>None\<close> when the value is no aware datetime.\<close>

record external_run =
  er_external_run_id :: pystr
  er_idempotency_key :: pystr
  er_accepted_at :: "instant option"

text \<open>\<open>ExecutionStatus\<close>; \<open>es_status\<close> is \<open>None\<close> when the value is no \<open>ExternalStatus\<close>.\<close>

record execution_status =
  es_external_run_id :: pystr
  es_status :: "external_status option"
  es_stage_id :: "pystr option"
  es_retry_after_seconds :: "int option"
  es_error_code :: "pystr option"
  es_error_summary :: "pystr option"
  es_result :: "execution_result option"

definition make_executor_error :: "pystr \<Rightarrow> pystr \<Rightarrow> int option \<Rightarrow> exn" where
  "make_executor_error error_code error_summary retry_after_seconds =
     (if blank error_code \<or> blank error_summary
         \<or> (case retry_after_seconds of None \<Rightarrow> False | Some n \<Rightarrow> n < 0)
      then ValueError else ExecutorError error_code error_summary retry_after_seconds)"

definition run_post_init :: "external_run \<Rightarrow> exn + unit" where
  "run_post_init r =
     require (\<not> blank (er_external_run_id r) \<and> \<not> blank (er_idempotency_key r)
        \<and> er_accepted_at r \<noteq> None) ValueError"

definition optional_text_ok :: "pystr option \<Rightarrow> bool" where
  "optional_text_ok v = (case v of None \<Rightarrow> True | Some s \<Rightarrow> \<not> blank s)"

definition status_post_init :: "execution_status \<Rightarrow> exn + unit" where
  "status_post_init s =
     bnd (require (\<not> blank (es_external_run_id s)) ValueError) (\<lambda>_.
     (case es_status s of
        None \<Rightarrow> Inl TypeError
      | Some st \<Rightarrow>
          bnd (require (optional_text_ok (es_stage_id s) \<and> optional_text_ok (es_error_code s)
                \<and> optional_text_ok (es_error_summary s)) ValueError) (\<lambda>_.
          bnd (require (case es_retry_after_seconds s of None \<Rightarrow> True | Some n \<Rightarrow> 0 \<le> n) ValueError) (\<lambda>_.
          bnd (require (if st = ExtSucceeded then es_result s \<noteq> None else es_result s = None) ValueError) (\<lambda>_.
          require (if st \<in> {ExtFailedRetryable, ExtFailedFinal}
                   then es_error_code s \<noteq> None \<and> es_error_summary s \<noteq> None
                   else es_error_code s = None \<and> es_error_summary s = None) ValueError)))))"

definition submission_idempotency_key :: "seo_job \<Rightarrow> pystr" where
  "submission_idempotency_key sj =
     sj_company_id sj @ '':'' @ sj_job_id sj @ '':'' @ dec_int (sj_attempt sj)"

section \<open>The retry policy\<close>

text \<open>
  \<open>jitter\<close> is the configured function: \<open>Inr None\<close> is a result that is no finite number, \<open>Inl\<close> an
  exception it raises.
\<close>

record retry_policy =
  base_delay_seconds :: rat
  maximum_delay_seconds :: rat
  jitter :: "rat \<Rightarrow> exn + rat option"

definition make_retry_policy :: "retry_policy \<Rightarrow> exn + retry_policy" where
  "make_retry_policy p =
     bnd (require (0 < base_delay_seconds p \<and> 0 < maximum_delay_seconds p
           \<and> base_delay_seconds p \<le> maximum_delay_seconds p) ValueError) (\<lambda>_. Inr p)"

definition is_retryable :: "pystr \<Rightarrow> bool" where
  "is_retryable error_code =
     (error_code \<in> set [''NETWORK_ERROR'', ''HTTP_429'', ''HTTP_502'', ''HTTP_503'', ''HTTP_504''])"

text \<open>The doubling loop: it stops when the doublings are used up or the maximum is reached.\<close>

fun doubled :: "rat \<Rightarrow> nat \<Rightarrow> rat \<Rightarrow> rat" where
  "doubled maximum 0 base = base"
| "doubled maximum (Suc n) base =
     (if base < maximum then doubled maximum n (min maximum (base * 2)) else base)"

definition delay_for :: "retry_policy \<Rightarrow> pystr \<Rightarrow> int \<Rightarrow> exn + rat" where
  "delay_for p error_code retry_number =
     (if \<not> is_retryable error_code \<or> retry_number < 1 then Inl ValueError else
      bnd (jitter p (doubled (maximum_delay_seconds p) (nat (retry_number - 1)) (base_delay_seconds p)))
        (\<lambda>jittered. case jittered of
           None \<Rightarrow> Inl ValueError
         | Some j \<Rightarrow> if j < 0 then Inl ValueError else Inr (min (maximum_delay_seconds p) j)))"

text \<open>\<open>Runner._retry_delay\<close> and \<open>Runner._poll_delay\<close>; \<open>requested_delay or n\<close> also replaces a zero.\<close>

definition or_default :: "int option \<Rightarrow> int \<Rightarrow> int" where
  "or_default v n = (case v of None \<Rightarrow> n | Some m \<Rightarrow> if m = 0 then n else m)"

definition retry_delay :: "retry_policy \<Rightarrow> pystr \<Rightarrow> int \<Rightarrow> int option \<Rightarrow> exn + rat" where
  "retry_delay p error_code retry_number requested_delay =
     bnd (delay_for p error_code retry_number) (\<lambda>policy_delay.
       let maximum = maximum_delay_seconds p; requested = or_default requested_delay 0 in
       if maximum \<le> of_int requested then Inr maximum else Inr (max policy_delay (of_int requested)))"

definition poll_delay :: "retry_policy \<Rightarrow> int option \<Rightarrow> rat" where
  "poll_delay p requested_delay =
     (let maximum = maximum_delay_seconds p; requested = or_default requested_delay 1 in
      if maximum \<le> of_int requested then maximum else of_int requested)"

section \<open>Adding durations to instants\<close>

text \<open>A \<open>timedelta\<close> is its microseconds; \<open>datetime + timedelta\<close> raises outside the calendar.\<close>

definition shift :: "instant \<Rightarrow> int \<Rightarrow> exn + instant" where
  "shift t us = (if valid_instant (t + us) then Inr (t + us) else Inl OverflowError)"

text \<open>\<open>timedelta(seconds=s)\<close>: microseconds, rounded half to even.\<close>

definition round_half_even :: "rat \<Rightarrow> int" where
  "round_half_even q =
     (let n = floor q; d = q - of_int n in
      if d < 1/2 then n else if 1/2 < d then n + 1 else if even n then n else n + 1)"

definition seconds_us :: "rat \<Rightarrow> int" where
  "seconds_us s = round_half_even (s * 1000000)"

section \<open>Delays are bounded\<close>

lemma doubled_bounds:
  assumes "0 < base" "base \<le> maximum"
  shows "base \<le> doubled maximum n base" "doubled maximum n base \<le> maximum"
  using assms
proof (induction maximum n base rule: doubled.induct)
  case (2 maximum n base)
  {
    case 1
    with 2 show ?case by (auto intro: order_trans [of _ "min maximum (base * 2)"])
  next
    case 2
    with "2.IH" show ?case by auto
  }
qed simp_all

lemma doubled_pow:
  assumes "0 < base" "base \<le> maximum"
  shows "doubled maximum n base = min maximum (base * 2 ^ n)"
  using assms
proof (induction maximum n base rule: doubled.induct)
  case (2 maximum n base)
  show ?case
  proof (cases "base < maximum")
    case True
    have "0 < min maximum (base * 2)" "min maximum (base * 2) \<le> maximum" using 2 True by auto
    with 2 True have "doubled maximum n (min maximum (base * 2)) = min maximum (min maximum (base * 2) * 2 ^ n)"
      by blast
    moreover have "maximum \<le> maximum * 2 ^ n" using 2 by (simp add: mult_le_cancel_left1)
    moreover have "maximum \<le> base * (2 * 2 ^ n)" if "maximum \<le> base * 2"
      using 2 by (intro order_trans [OF that] mult_left_mono) simp_all
    ultimately show ?thesis using True 2
      by (auto simp: min_def mult.assoc)
  next
    case False
    then have "base = maximum" using 2 by simp
    moreover have "(1::rat) \<le> 2 ^ Suc n" by (rule one_le_power) simp
    ultimately show ?thesis using 2 by (simp add: min_def mult_le_cancel_left1)
  qed
qed simp

end
