(* ===== verification/RunnerWorld.thy ===== *)
theory RunnerWorld
  imports System Executors
begin

text \<open>
  The world a runner acts in.  A runner action is a function on \<open>world\<close>: the database, a counter of the
  observations made so far and the log of executor calls.  Everything outside the process is the
  parameter \<open>environment\<close>, a function of that counter: clock readings, lease tokens, the executor's
  attributes and answers, database failures, and the requests other processes commit before each of
  the runner's own database accesses (\<open>v_requests\<close>).  A \<open>JobService\<close> reading runs inside one transaction, so
  it sees one database state.
\<close>

section \<open>Configuration and environment\<close>

text \<open>Durations are microseconds.\<close>

record runner_config =
  c_executor_name :: pystr
  c_runner_id :: pystr
  c_stale_after :: int
  c_lease_duration :: int
  c_external_call_timeout :: int
  c_lease_safety_margin :: int
  c_approval_submission_margin :: int
  c_retry_policy :: retry_policy

text \<open>
  One reading of the executor's attributes: whether all six capabilities are \<open>True\<close>, its name (\<open>None\<close>:
  no string), its model and provider ids (\<open>None\<close>: no tuple of strings) and its optional pipeline
  version (\<open>None\<close>: neither absent nor a string).
\<close>

record executor_identity =
  ei_capable :: bool
  ei_name :: "pystr option"
  ei_model_ids :: "pystr list option"
  ei_provider_ids :: "pystr list option"
  ei_pipeline_version :: "pystr option option"

text \<open>
  An executor's answer is an exception (its own, the timeout alarm, or a \<open>RuntimeError\<close> of the timer
  set-up) or a value, \<open>None\<close> when that value is not of the declared class.
\<close>

record environment =
  v_ext :: externals
  v_screens :: screens
  v_clock :: "nat \<Rightarrow> instant option"
  v_token :: "nat \<Rightarrow> pystr option"
  v_requests :: "nat \<Rightarrow> request list"
  v_db_error :: "nat \<Rightarrow> exn option"
  v_identity :: "nat \<Rightarrow> exn + executor_identity"
  v_submit :: "nat \<Rightarrow> seo_job \<Rightarrow> execution_snapshot \<Rightarrow> instant option \<Rightarrow> pystr list \<Rightarrow> pystr list
               \<Rightarrow> exn + external_run option"
  v_lookup :: "nat \<Rightarrow> seo_job \<Rightarrow> execution_snapshot \<Rightarrow> exn + external_run option"
  v_poll :: "nat \<Rightarrow> external_run \<Rightarrow> exn + execution_status option"
  v_cancel :: "nat \<Rightarrow> external_run \<Rightarrow> exn + execution_status option"
  v_after_submit :: "nat \<Rightarrow> exn + unit"
  v_validate_result :: "(seo_job \<Rightarrow> execution_snapshot \<Rightarrow> execution_result \<Rightarrow> exn + unit) option"
  v_write_bundle :: "nat \<Rightarrow> seo_job \<Rightarrow> execution_result \<Rightarrow> exn + unit"
  v_store :: artifact_store

text \<open>
  \<open>Runner.__init__\<close>: what it checks of its arguments, beyond their types.  The executor's name and its
  six capabilities are read once.
\<close>

definition make_runner :: "executor_identity \<Rightarrow> runner_config \<Rightarrow> exn + runner_config" where
  "make_runner i cfg =
     (case ei_name i of
        None \<Rightarrow> Inl TypeError
      | Some name \<Rightarrow>
          if blank name \<or> \<not> ei_capable i then Inl TypeError
          else if blank (c_runner_id cfg) then Inl ValueError
          else if c_stale_after cfg \<le> 0 \<or> c_lease_duration cfg \<le> 0 \<or> c_external_call_timeout cfg \<le> 0
             \<or> c_lease_safety_margin cfg \<le> 0
             \<or> c_lease_duration cfg < c_external_call_timeout cfg + c_lease_safety_margin cfg
             \<or> c_approval_submission_margin cfg \<le> 0
          then Inl ValueError
          else Inr (cfg\<lparr>c_executor_name := name\<rparr>))"

section \<open>Actions\<close>

datatype call =
    SubmitCall candidate seo_job execution_snapshot "instant option" "pystr list" "pystr list"
  | LookupCall seo_job execution_snapshot
  | PollCall external_run
  | CancelCall external_run

text \<open>A logged call carries the timeout it was made under and the step (observation number) at which it was made.\<close>

record world =
  w_db :: db
  w_step :: nat
  w_calls :: "(call \<times> int \<times> nat) list"

type_synonym 'a act = "world \<Rightarrow> (exn + 'a) \<times> world"

definition lift :: "exn + 'a \<Rightarrow> 'a act" where
  "lift r w = (r, w)"

abbreviation ret :: "'a \<Rightarrow> 'a act" where
  "ret a \<equiv> lift (Inr a)"

abbreviation raise :: "exn \<Rightarrow> 'a act" where
  "raise e \<equiv> lift (Inl e)"

definition andthen :: "'a act \<Rightarrow> ('a \<Rightarrow> 'b act) \<Rightarrow> 'b act" where
  "andthen m f w = (case m w of (Inl e, w') \<Rightarrow> (Inl e, w') | (Inr a, w') \<Rightarrow> f a w')"

text \<open>\<open>try\<close>: the continuation sees the value or the exception.\<close>

definition attempt :: "'a act \<Rightarrow> (exn + 'a \<Rightarrow> 'b act) \<Rightarrow> 'b act" where
  "attempt m f w = (case m w of (r, w') \<Rightarrow> f r w')"

definition stepped :: "world \<Rightarrow> world" where
  "stepped w = w\<lparr>w_step := Suc (w_step w)\<rparr>"

definition observe :: "(nat \<Rightarrow> exn + 'a) \<Rightarrow> 'a act" where
  "observe f w = (f (w_step w), stepped w)"

definition others :: "environment \<Rightarrow> nat \<Rightarrow> db \<Rightarrow> db" where
  "others v n d = foldl (\<lambda>d rq. serve (v_ext v) rq d) d (v_requests v n)"

text \<open>
  One database access: the others' commits, then the operation; or a failure of the database
  connection (a lock that is not released in time), which leaves the operation undone.
\<close>

definition service :: "environment \<Rightarrow> (db \<Rightarrow> (exn + 'a) \<times> db) \<Rightarrow> 'a act" where
  "service v op w =
     (let d = others v (w_step w) (w_db w) in
      case v_db_error v (w_step w) of
        Some e \<Rightarrow> (Inl e, stepped (w\<lparr>w_db := d\<rparr>))
      | None \<Rightarrow> (case op d of (r, d') \<Rightarrow> (r, stepped (w\<lparr>w_db := d'\<rparr>))))"

definition commit_act :: "environment \<Rightarrow> (db \<Rightarrow> exn + ('a \<times> db)) \<Rightarrow> 'a act" where
  "commit_act v body = service v (transaction body)"

definition reading :: "environment \<Rightarrow> (db \<Rightarrow> exn + 'a) \<Rightarrow> 'a act" where
  "reading v f = service v (\<lambda>d. (f d, d))"

section \<open>Clock, tokens and external calls\<close>

definition aware_utc :: "instant option \<Rightarrow> exn + instant" where
  "aware_utc value =
     (case value of None \<Rightarrow> Inl ValueError
      | Some t \<Rightarrow> if valid_instant t then Inr t else Inl OverflowError)"

text \<open>\<open>_aware_utc(datetime.fromisoformat(text), ...)\<close>\<close>

definition aware_text :: "pystr \<Rightarrow> exn + instant" where
  "aware_text s = (case parse_aware s of None \<Rightarrow> Inl ValueError | Some t \<Rightarrow> Inr t)"

definition now_act :: "environment \<Rightarrow> instant act" where
  "now_act v = observe (\<lambda>n. aware_utc (v_clock v n))"

definition lease_token :: "environment \<Rightarrow> pystr act" where
  "lease_token v = observe (\<lambda>n.
     case v_token v n of None \<Rightarrow> Inl ValueError
     | Some t \<Rightarrow> if blank t then Inl ValueError else Inr t)"

definition logged :: "call \<Rightarrow> int \<Rightarrow> world \<Rightarrow> world" where
  "logged c timeout w = w\<lparr>w_calls := w_calls w @ [(c, timeout, w_step w)]\<rparr>"

text \<open>
  \<open>with self._external_call(timeout): ...\<close>: a zero timeout means the configured one; a timeout outside
  the configured bound raises before the call is made.
\<close>

definition external_call :: "runner_config \<Rightarrow> int \<Rightarrow> call \<Rightarrow> (nat \<Rightarrow> exn + 'a) \<Rightarrow> 'a act" where
  "external_call cfg timeout c reply w =
     (let selected = (if timeout = 0 then c_external_call_timeout cfg else timeout) in
      if selected \<le> 0 \<or> c_external_call_timeout cfg < selected then (Inl ValueError, w)
      else (reply (w_step w), stepped (logged c selected w)))"

definition lease_call_timeout :: "environment \<Rightarrow> runner_config \<Rightarrow> run \<Rightarrow> int act" where
  "lease_call_timeout v cfg run =
     (case r_lease_expires_at run of
        None \<Rightarrow> raise DataIntegrityError
      | Some s \<Rightarrow>
          (case aware_text s of
             Inl e \<Rightarrow> raise DataIntegrityError
           | Inr lease_expires_at \<Rightarrow>
               andthen (now_act v) (\<lambda>now.
                 let available = lease_expires_at - now - c_lease_safety_margin cfg in
                 if available \<le> 0 then raise TimeoutError
                 else ret (min (c_external_call_timeout cfg) available))))"

definition record_heartbeat_act :: "environment \<Rightarrow> runner_config \<Rightarrow> instant \<Rightarrow> unit act" where
  "record_heartbeat_act v cfg now = commit_act v (record_heartbeat (c_runner_id cfg) (isoformat now))"

text \<open>\<open>if not done: raise StateConflict; return True\<close>\<close>

definition settled :: "bool \<Rightarrow> bool act" where
  "settled done = (if done then ret True else raise StateConflict)"

definition mark_stale_act :: "environment \<Rightarrow> candidate \<Rightarrow> instant \<Rightarrow> unit act" where
  "mark_stale_act v k now =
     commit_act v (mark_reconciliation_required k
       (k_company_id k @ '':'' @ k_job_id k @ '':'' @ dec_int (k_attempt k)) (isoformat now))"

definition mark_claimed_act :: "environment \<Rightarrow> candidate \<Rightarrow> pystr \<Rightarrow> pystr \<Rightarrow> pystr \<Rightarrow> instant \<Rightarrow> bool act" where
  "mark_claimed_act v k tok error_code error_summary now =
     andthen (commit_act v (mark_claimed_reconciliation_required k tok error_code error_summary
       (isoformat now))) settled"

section \<open>Executor identity\<close>

definition current_executor_name :: "environment \<Rightarrow> runner_config \<Rightarrow> pystr act" where
  "current_executor_name v cfg =
     andthen (observe (v_identity v)) (\<lambda>i.
       if \<not> ei_capable i \<or> ei_name i \<noteq> Some (c_executor_name cfg) then raise DataIntegrityError
       else ret (c_executor_name cfg))"

definition executor_matches_plan :: "environment \<Rightarrow> runner_config \<Rightarrow> candidate \<Rightarrow> bool act" where
  "executor_matches_plan v cfg k =
     andthen (current_executor_name v cfg) (\<lambda>current_name.
     andthen (observe (v_identity v)) (\<lambda>i.
     (case (ei_model_ids i, ei_provider_ids i, ei_pipeline_version i) of
        (Some current_models, Some current_providers, Some current_pipeline) \<Rightarrow>
          if list_ex (\<lambda>s. s = []) current_models \<or> list_ex (\<lambda>s. s = []) current_providers
             \<or> current_pipeline = Some []
          then raise DataIntegrityError else
          andthen (reading v (\<lambda>d. execution_plan_of (v_ext v) d (k_company_id k) (k_job_id k))) (\<lambda>plan.
            ret (executor_name plan = current_name \<and> model_ids plan = current_models
                 \<and> provider_ids plan = current_providers
                 \<and> (current_pipeline = None \<or> Some (pipeline_version plan) = current_pipeline)))
      | _ \<Rightarrow> raise DataIntegrityError)))"

text \<open>Membership of a JSON value in a set of strings; a list or a dict is not hashable.\<close>

definition in_approved :: "jval option \<Rightarrow> pystr list \<Rightarrow> exn + bool" where
  "in_approved v approved =
     (case v of
        Some (JStr s) \<Rightarrow> Inr (s \<in> set approved)
      | Some (JList _) \<Rightarrow> Inl TypeError
      | Some (JObj _) \<Rightarrow> Inl TypeError
      | _ \<Rightarrow> Inr False)"

fun usage_entries :: "execution_plan \<Rightarrow> jval list \<Rightarrow> exn + bool" where
  "usage_entries plan [] = Inr True"
| "usage_entries plan (JObj kvs # ms) =
     bnd (in_approved (jget ''model_id'' kvs) (model_ids plan)) (\<lambda>a.
       if \<not> a then Inr False else
       bnd (in_approved (jget ''provider_id'' kvs) (provider_ids plan)) (\<lambda>b.
         if \<not> b then Inr False else usage_entries plan ms))"
| "usage_entries plan (_ # ms) = Inr False"

definition result_usage_matches_plan :: "execution_result \<Rightarrow> execution_plan \<Rightarrow> exn + bool" where
  "result_usage_matches_plan r plan =
     (case model_usage r of
        JObj kvs \<Rightarrow>
          if \<not> same_keys kvs [''models''] then Inr False else
          (case jget ''models'' kvs of
             Some (JList ms) \<Rightarrow> if ms = [] then Inr False else usage_entries plan ms
           | _ \<Rightarrow> Inr False)
      | _ \<Rightarrow> Inr False)"

definition executor_identity_still_matches :: "environment \<Rightarrow> runner_config \<Rightarrow> candidate \<Rightarrow> bool act" where
  "executor_identity_still_matches v cfg k =
     attempt (executor_matches_plan v cfg k) (\<lambda>r.
       case r of
         Inr b \<Rightarrow> ret b
       | Inl e \<Rightarrow> if e = DataIntegrityError \<or> type_or_value_error e then ret False else raise e)"

definition durable_executor_matches :: "environment \<Rightarrow> runner_config \<Rightarrow> candidate \<Rightarrow> run \<Rightarrow> bool act" where
  "durable_executor_matches v cfg k run =
     (if r_executor_name run = Some (c_executor_name cfg)
      then executor_identity_still_matches v cfg k else ret False)"

section \<open>Acceptance provenance\<close>

definition acceptance_provenance_valid ::
  "environment \<Rightarrow> candidate \<Rightarrow> run \<Rightarrow> instant \<Rightarrow> instant \<Rightarrow> bool act" where
  "acceptance_provenance_valid v k run accepted observed =
     (case r_submission_attempted_at run of
        None \<Rightarrow> ret False
      | Some s \<Rightarrow>
          attempt
            (andthen (lift (aware_text s)) (\<lambda>submitted.
             andthen (reading v (\<lambda>d. launch_approval_window (v_ext v) d (k_company_id k) (k_job_id k)))
               (\<lambda>window. ret (submitted, window))))
            (\<lambda>r. case r of
               Inr (submitted, approved, expiry) \<Rightarrow>
                 ret (approved \<le> submitted \<and> submitted \<le> accepted \<and> accepted \<le> observed
                      \<and> (case expiry of None \<Rightarrow> True | Some e \<Rightarrow> accepted < e))
             | Inl e \<Rightarrow>
                 if e \<in> {ApprovalInvalid, DataIntegrityError} \<or> type_or_value_error e then ret False
                 else raise e))"

definition durable_acceptance_provenance_valid ::
  "environment \<Rightarrow> candidate \<Rightarrow> run \<Rightarrow> bool act" where
  "durable_acceptance_provenance_valid v k run =
     (case (r_external_accepted_at run, r_acceptance_observed_at run) of
        (Some a, Some b) \<Rightarrow>
          (case (aware_text a, aware_text b) of
             (Inr accepted, Inr observed) \<Rightarrow> acceptance_provenance_valid v k run accepted observed
           | _ \<Rightarrow> ret False)
      | _ \<Rightarrow> ret False)"

definition external_run_of :: "run \<Rightarrow> exn + external_run" where
  "external_run_of run =
     (case (r_external_run_id run, r_external_accepted_at run) of
        (Some run_id, Some accepted) \<Rightarrow>
          (case aware_text accepted of
             Inl e \<Rightarrow> Inl DataIntegrityError
           | Inr accepted_at \<Rightarrow>
               let r = \<lparr>er_external_run_id = run_id, er_idempotency_key = r_idempotency_key run,
                        er_accepted_at = Some accepted_at\<rparr> in
               (case run_post_init r of Inl e \<Rightarrow> Inl DataIntegrityError | Inr u \<Rightarrow> Inr r))
      | _ \<Rightarrow> Inl DataIntegrityError)"

definition claim_existing_act ::
  "environment \<Rightarrow> runner_config \<Rightarrow> candidate \<Rightarrow> pystr list \<Rightarrow> (run \<times> pystr) option act" where
  "claim_existing_act v cfg k expected_statuses =
     andthen (now_act v) (\<lambda>claim_now.
     andthen (lease_token v) (\<lambda>tok.
     andthen (lift (shift claim_now (c_lease_duration cfg))) (\<lambda>lease_expires_at.
     andthen (commit_act v (claim_existing_run k expected_statuses (isoformat claim_now) tok
         (isoformat lease_expires_at))) (\<lambda>claimed.
     ret (map_option (\<lambda>run. (run, tok)) claimed)))))"

definition reconcile_terminal_cancel_act :: "environment \<Rightarrow> candidate \<Rightarrow> instant \<Rightarrow> bool act" where
  "reconcile_terminal_cancel_act v k now =
     andthen (reading v (\<lambda>d. stored_job_state d k)) (\<lambda>s.
       if s \<noteq> ''CANCELED'' then ret False else
       andthen (commit_act v (reconcile_poll_after_local_cancel k True (isoformat now))) settled)"

end
