(* ===== verification/RunnerSubmit.thy ===== *)
theory RunnerSubmit
  imports RunnerWorld
begin

text \<open>
  \<open>Runner._recover_dispatch_without_submit\<close>, \<open>Runner._cancel\<close> and \<open>Runner._submit\<close>.  Each method is
  split at its early returns; a piece carries the name of the stage it starts with.
\<close>

section \<open>Shared pieces\<close>

definition sqlite_error :: "exn \<Rightarrow> bool" where
  "sqlite_error e = (e \<in> {SqliteIntegrityError, SqliteOperationalError})"

definition claim_submission_act ::
  "environment \<Rightarrow> runner_config \<Rightarrow> candidate \<Rightarrow> pystr \<Rightarrow> (run \<times> pystr) option act" where
  "claim_submission_act v cfg k key =
     andthen (now_act v) (\<lambda>claim_now.
     andthen (lease_token v) (\<lambda>tok.
     andthen (lift (shift claim_now (c_lease_duration cfg))) (\<lambda>lease_expires_at.
     andthen (commit_act v (claim_submission k key (c_executor_name cfg) (isoformat claim_now) tok
         (isoformat lease_expires_at))) (\<lambda>claimed.
     ret (map_option (\<lambda>run. (run, tok)) claimed)))))"

text \<open>The guarded call of \<open>lookup\<close> and the checks of what it returns.\<close>

definition lookup_act ::
  "environment \<Rightarrow> runner_config \<Rightarrow> run \<Rightarrow> seo_job \<Rightarrow> execution_snapshot \<Rightarrow> (external_run \<times> instant) act" where
  "lookup_act v cfg run job snapshot =
     andthen (lease_call_timeout v cfg run) (\<lambda>timeout.
     andthen (external_call cfg timeout (LookupCall job snapshot) (\<lambda>n. v_lookup v n job snapshot)) (\<lambda>found.
     (case found of
        None \<Rightarrow> raise DataIntegrityError
      | Some er \<Rightarrow>
          andthen (lift (run_post_init er)) (\<lambda>_.
          if er_idempotency_key er \<noteq> submission_idempotency_key job then raise DataIntegrityError else
          andthen (lift (aware_utc (er_accepted_at er))) (\<lambda>accepted. ret (er, accepted))))))"

definition acceptance_trusted ::
  "environment \<Rightarrow> runner_config \<Rightarrow> candidate \<Rightarrow> run \<Rightarrow> instant \<Rightarrow> instant \<Rightarrow> bool act" where
  "acceptance_trusted v cfg k run accepted observed =
     andthen (executor_identity_still_matches v cfg k) (\<lambda>same.
       if \<not> same then ret False else acceptance_provenance_valid v k run accepted observed)"

text \<open>A recording statement whose SQLite errors count as \<open>not recorded\<close>.\<close>

definition recorded_or_not :: "environment \<Rightarrow> (db \<Rightarrow> exn + (bool \<times> db)) \<Rightarrow> bool act" where
  "recorded_or_not v body =
     attempt (commit_act v body) (\<lambda>r. case r of
         Inr b \<Rightarrow> ret b | Inl e \<Rightarrow> if sqlite_error e then ret False else raise e)"

definition record_acceptance_act ::
  "environment \<Rightarrow> runner_config \<Rightarrow> candidate \<Rightarrow> pystr \<Rightarrow> external_run \<Rightarrow> instant \<Rightarrow> instant \<Rightarrow> bool act" where
  "record_acceptance_act v cfg k tok er accepted observed =
     recorded_or_not v (record_external_acceptance k tok (er_external_run_id er) (c_executor_name cfg)
       (er_idempotency_key er) (isoformat accepted) (isoformat observed))"

section \<open>Recovering a dispatch without submitting\<close>

definition recover_accepted ::
  "environment \<Rightarrow> runner_config \<Rightarrow> candidate \<Rightarrow> run \<Rightarrow> pystr \<Rightarrow> external_run \<Rightarrow> instant \<Rightarrow> bool act" where
  "recover_accepted v cfg k run tok er accepted =
     andthen (now_act v) (\<lambda>observed.
     andthen (acceptance_trusted v cfg k run accepted observed) (\<lambda>trusted.
     if \<not> trusted then
       mark_claimed_act v k tok ''EXTERNAL_ACCEPTANCE_PROVENANCE_INVALID''
         ''external acceptance provenance requires reconciliation'' observed
     else
     andthen (record_acceptance_act v cfg k tok er accepted observed) (\<lambda>recorded.
     if \<not> recorded then
       mark_claimed_act v k tok ''APPROVAL_EXPIRED_LOOKUP_PERSIST_FAILED''
         ''expired approval lookup persistence requires reconciliation'' observed
     else
     andthen (commit_act v (update_running_stage k (Some ''accepted''))) settled)))"

definition recover_dispatch_act ::
  "environment \<Rightarrow> runner_config \<Rightarrow> candidate \<Rightarrow> instant \<Rightarrow> bool act" where
  "recover_dispatch_act v cfg k now =
     attempt (reading v (\<lambda>d. recover_dispatch_identity (v_ext v) d (k_company_id k) (k_job_id k))) (\<lambda>r.
     (case r of
        Inl e \<Rightarrow>
          if e = DataIntegrityError then
            commit_act v (quarantine_running_dispatch k ''DATA_INTEGRITY''
              ''execution provenance failed integrity verification'' (isoformat now))
          else if e = StateConflict then ret False else raise e
      | Inr (job, snapshot) \<Rightarrow>
          if sj_attempt job \<noteq> k_attempt k \<or> sj_state job \<noteq> RUNNING then raise StateConflict else
          andthen (executor_identity_still_matches v cfg k) (\<lambda>same.
          if \<not> same then
            commit_act v (quarantine_running_dispatch k ''EXECUTOR_MISMATCH''
              ''selected executor does not match the approved plan'' (isoformat now))
          else
          andthen (claim_submission_act v cfg k (submission_idempotency_key job)) (\<lambda>claimed.
          (case claimed of
             None \<Rightarrow> ret False
           | Some (run, tok) \<Rightarrow>
               attempt (lookup_act v cfg run job snapshot) (\<lambda>r.
               (case r of
                  Inl e \<Rightarrow>
                    andthen (now_act v) (mark_claimed_act v k tok ''APPROVAL_EXPIRED_LOOKUP_FAILED''
                      ''expired approval prevents dispatch replay; lookup requires reconciliation'')
                | Inr (er, accepted) \<Rightarrow> recover_accepted v cfg k run tok er accepted)))))))"

section \<open>Canceling\<close>

definition mark_known_act ::
  "environment \<Rightarrow> candidate \<Rightarrow> pystr \<Rightarrow> pystr \<Rightarrow> pystr \<Rightarrow> instant \<Rightarrow> bool act" where
  "mark_known_act v k tok error_code error_summary now =
     andthen (commit_act v (mark_known_cancel_reconciliation_required k tok error_code error_summary
       (isoformat now))) settled"

definition mark_lookup_act ::
  "environment \<Rightarrow> candidate \<Rightarrow> pystr \<Rightarrow> pystr \<Rightarrow> pystr \<Rightarrow> instant \<Rightarrow> bool act" where
  "mark_lookup_act v k tok error_code error_summary now =
     andthen (commit_act v (mark_claimed_cancel_lookup_reconciliation k tok error_code error_summary
       (isoformat now))) settled"

definition cancel_looked_up ::
  "environment \<Rightarrow> runner_config \<Rightarrow> candidate \<Rightarrow> run \<Rightarrow> pystr \<Rightarrow> external_run \<Rightarrow> instant \<Rightarrow> bool act" where
  "cancel_looked_up v cfg k run tok er accepted =
     andthen (now_act v) (\<lambda>observed.
     andthen (acceptance_trusted v cfg k run accepted observed) (\<lambda>trusted.
     if \<not> trusted then
       mark_lookup_act v k tok ''EXTERNAL_ACCEPTANCE_PROVENANCE_INVALID''
         ''external acceptance provenance requires reconciliation'' observed
     else
     andthen (recorded_or_not v (record_lookup_acceptance_for_canceled k tok (er_external_run_id er)
         (c_executor_name cfg) (er_idempotency_key er) (isoformat accepted) (isoformat observed)))
       (\<lambda>recorded.
         if recorded then ret True else
         andthen (now_act v) (mark_lookup_act v k tok ''EXTERNAL_RUN_LOOKUP_PERSIST_FAILED''
           ''external run lookup persistence requires reconciliation''))))"

definition cancel_lookup :: "environment \<Rightarrow> runner_config \<Rightarrow> candidate \<Rightarrow> bool act" where
  "cancel_lookup v cfg k =
     andthen (now_act v) (\<lambda>claim_now.
     andthen (lease_token v) (\<lambda>tok.
     andthen (lift (shift claim_now (c_lease_duration cfg))) (\<lambda>lease_expires_at.
     andthen (commit_act v (claim_canceled_lookup k tok (isoformat lease_expires_at)
         (isoformat claim_now))) (\<lambda>claimed.
     (case claimed of
        None \<Rightarrow> ret False
      | Some run \<Rightarrow>
          attempt
            (andthen (reading v (\<lambda>d. recover_canceled_dispatch (v_ext v) d (k_company_id k) (k_job_id k)))
              (\<lambda>(job, snapshot).
             andthen (executor_identity_still_matches v cfg k) (\<lambda>same.
               if \<not> same then raise DataIntegrityError else lookup_act v cfg run job snapshot)))
            (\<lambda>r. case r of
               Inl e \<Rightarrow> andthen (now_act v) (mark_lookup_act v k tok ''EXTERNAL_RUN_LOOKUP_FAILED''
                   ''external run lookup requires reconciliation'')
             | Inr (er, accepted) \<Rightarrow> cancel_looked_up v cfg k run tok er accepted))))))"

definition cancel_failed ::
  "environment \<Rightarrow> runner_config \<Rightarrow> candidate \<Rightarrow> pystr \<Rightarrow> pystr \<Rightarrow> pystr \<Rightarrow> int option \<Rightarrow> bool act" where
  "cancel_failed v cfg k tok error_code error_summary retry_after =
     andthen (now_act v) (\<lambda>observed.
     andthen (executor_identity_still_matches v cfg k) (\<lambda>same.
     if \<not> same then
       mark_known_act v k tok ''EXECUTOR_MISMATCH'' ''executor identity changed during cancellation'' observed
     else
     andthen (reading v (\<lambda>d. execution_plan_of (v_ext v) d (k_company_id k) (k_job_id k))) (\<lambda>plan.
     andthen (reading v (\<lambda>d. retry_count_for_stage d (k_company_id k) (k_job_id k) ''cancel'')) (\<lambda>count.
     let retry_number = count + 1 in
     if is_retryable error_code \<and> retry_number \<le> maximum_retries plan then
       andthen (lift (retry_delay (c_retry_policy cfg) error_code retry_number retry_after)) (\<lambda>delay.
       andthen (lift (shift observed (seconds_us delay))) (\<lambda>next_action_at.
       andthen (commit_act v (record_cancel_transport_failure k tok (isoformat next_action_at) error_code
         error_summary (isoformat observed))) settled))
     else mark_known_act v k tok error_code error_summary observed))))"

definition cancel_confirmed ::
  "environment \<Rightarrow> runner_config \<Rightarrow> candidate \<Rightarrow> pystr \<Rightarrow> run \<Rightarrow> bool act" where
  "cancel_confirmed v cfg k tok run =
     andthen (now_act v) (\<lambda>canceled_at.
     andthen (durable_executor_matches v cfg k run) (\<lambda>same.
     if \<not> same then
       mark_known_act v k tok ''EXECUTOR_MISMATCH'' ''executor identity changed during cancellation''
         canceled_at
     else andthen (commit_act v (record_remote_canceled k tok (isoformat canceled_at))) settled))"

definition cancel_call ::
  "environment \<Rightarrow> runner_config \<Rightarrow> candidate \<Rightarrow> pystr \<Rightarrow> run \<Rightarrow> external_run \<Rightarrow> bool act" where
  "cancel_call v cfg k tok run er =
     attempt
       (andthen (lease_call_timeout v cfg run) (\<lambda>timeout.
        andthen (external_call cfg timeout (CancelCall er) (\<lambda>n. v_cancel v n er)) (\<lambda>answer.
        (case answer of
           None \<Rightarrow> raise AttributeError
         | Some st \<Rightarrow>
             andthen (lift (status_post_init st)) (\<lambda>_.
             if es_external_run_id st \<noteq> er_external_run_id er \<or> es_status st \<noteq> Some ExtCanceled
             then raise ValueError else ret ())))))
       (\<lambda>r. case r of
          Inr u \<Rightarrow> cancel_confirmed v cfg k tok run
        | Inl (ExecutorError error_code error_summary retry_after) \<Rightarrow>
            cancel_failed v cfg k tok error_code error_summary retry_after
        | Inl _ \<Rightarrow>
            andthen (now_act v) (mark_known_act v k tok ''EXECUTOR_CANCEL_OUTPUT_INVALID''
              ''external cancellation outcome requires reconciliation''))"

text \<open>What \<open>executor_matches\<close> becomes when its checks raise.\<close>

definition cancel_authority ::
  "environment \<Rightarrow> runner_config \<Rightarrow> candidate \<Rightarrow> run \<Rightarrow> bool act" where
  "cancel_authority v cfg k run =
     attempt
       (andthen (reading v (\<lambda>d. validate_external_cancellation (v_ext v) d (k_company_id k) (k_job_id k)))
         (\<lambda>_. andthen (durable_executor_matches v cfg k run) (\<lambda>same.
           if \<not> same then ret False else durable_acceptance_provenance_valid v k run)))
       (\<lambda>r. case r of
          Inr b \<Rightarrow> ret b
        | Inl e \<Rightarrow> if e = DataIntegrityError \<or> e = StateConflict then ret False else raise e)"

definition cancel_claimed ::
  "environment \<Rightarrow> runner_config \<Rightarrow> candidate \<Rightarrow> pystr \<Rightarrow> instant \<Rightarrow> bool act" where
  "cancel_claimed v cfg k tok now =
     andthen (now_act v) (\<lambda>authority_now.
     andthen (commit_act v (begin_cancel_stage k tok (isoformat authority_now))) (\<lambda>began.
     if \<not> began then raise StateConflict else
     andthen (reading v (\<lambda>d. get_run d (candidate_key k))) (\<lambda>run.
     attempt (cancel_authority v cfg k run) (\<lambda>r.
     (case r of
        Inl e \<Rightarrow>
          if e = ApprovalInvalid then
            mark_known_act v k tok ''APPROVAL_INVALID''
              ''paid approval binding is not valid for external cancellation'' authority_now
          else raise e
      | Inr matches \<Rightarrow>
          if \<not> matches then
            mark_known_act v k tok ''EXECUTOR_MISMATCH''
              ''selected executor does not match the approved plan'' authority_now
          else
          (case external_run_of run of
             Inl e \<Rightarrow> mark_claimed_act v k tok ''EXTERNAL_RUN_IDENTITY_INVALID''
                 ''durable external identity requires reconciliation'' now
           | Inr er \<Rightarrow> cancel_call v cfg k tok run er))))))"

definition cancel_act :: "environment \<Rightarrow> runner_config \<Rightarrow> candidate \<Rightarrow> instant \<Rightarrow> bool act" where
  "cancel_act v cfg k now =
     andthen (reading v (\<lambda>d. get_run d (candidate_key k))) (\<lambda>run.
     if r_external_run_id run = None then cancel_lookup v cfg k
     else if opt_in (r_external_status run) [''SUCCEEDED'', ''FAILED_RETRYABLE'', ''FAILED_FINAL''] then
       andthen (commit_act v (reconcile_terminal_after_local_cancel k (isoformat now))) settled
     else
     andthen (claim_existing_act v cfg k [''ACCEPTED'', ''RUNNING'']) (\<lambda>claim.
     (case claim of
        None \<Rightarrow> ret False
      | Some (_, tok) \<Rightarrow> cancel_claimed v cfg k tok now)))"

section \<open>Submitting\<close>

definition submit_accepted ::
  "environment \<Rightarrow> runner_config \<Rightarrow> candidate \<Rightarrow> run \<Rightarrow> pystr \<Rightarrow> pystr \<Rightarrow> external_run \<Rightarrow> bool act" where
  "submit_accepted v cfg k run tok key er =
     (let invalid = mark_claimed_act v k tok ''EXECUTOR_SUBMIT_OUTPUT_INVALID''
          ''external submission outcome requires reconciliation'' in
      if er_idempotency_key er \<noteq> key then andthen (now_act v) invalid else
      (case aware_utc (er_accepted_at er) of
         Inl e \<Rightarrow> if type_or_value_error e then andthen (now_act v) invalid else raise e
       | Inr accepted \<Rightarrow>
           andthen (now_act v) (\<lambda>observed.
           andthen (acceptance_trusted v cfg k run accepted observed) (\<lambda>trusted.
           if \<not> trusted then
             mark_claimed_act v k tok ''EXTERNAL_ACCEPTANCE_PROVENANCE_INVALID''
               ''external acceptance provenance requires reconciliation'' observed
           else
           andthen (record_acceptance_act v cfg k tok er accepted observed) (\<lambda>recorded.
           if \<not> recorded then invalid observed else
           andthen (reading v (\<lambda>d. job_of (v_ext v) d (k_company_id k) (k_job_id k))) (\<lambda>current.
           if sj_state current = RUNNING then
             andthen (commit_act v (update_running_stage (k\<lparr>k_state := ''RUNNING''\<rparr>) (Some ''accepted''))) settled
           else if sj_state current \<noteq> CANCELED then raise StateConflict else ret True))))))"

definition submit_failed ::
  "environment \<Rightarrow> runner_config \<Rightarrow> candidate \<Rightarrow> pystr \<Rightarrow> pystr \<Rightarrow> pystr \<Rightarrow> int option \<Rightarrow> bool act" where
  "submit_failed v cfg k tok error_code error_summary retry_after =
     andthen (now_act v) (\<lambda>observed.
     andthen (executor_identity_still_matches v cfg k) (\<lambda>same.
     if \<not> same then
       mark_claimed_act v k tok ''EXECUTOR_MISMATCH'' ''executor identity changed during submission'' observed
     else
     attempt (reading v (\<lambda>d. execution_plan_of (v_ext v) d (k_company_id k) (k_job_id k))) (\<lambda>r.
     (case r of
        Inl e \<Rightarrow>
          if e = DataIntegrityError then
            mark_claimed_act v k tok ''DATA_INTEGRITY''
              ''execution provenance failed integrity verification'' observed
          else raise e
      | Inr plan \<Rightarrow>
          andthen (reading v (\<lambda>d. retry_count_for_stage d (k_company_id k) (k_job_id k) ''submission''))
            (\<lambda>count. let retry_number = count + 1 in
          if \<not> (is_retryable error_code \<and> retry_number \<le> maximum_retries plan) then
            mark_claimed_act v k tok error_code ''submission outcome requires manual reconciliation'' observed
          else
          andthen (lift (retry_delay (c_retry_policy cfg) error_code retry_number retry_after)) (\<lambda>delay.
          andthen (lift (shift observed (seconds_us delay))) (\<lambda>next_action_at.
          andthen (commit_act v (record_submit_transport_failure k tok (Some (isoformat next_action_at))
            error_code error_summary (isoformat observed))) settled)))))))"

definition submit_call ::
  "environment \<Rightarrow> runner_config \<Rightarrow> candidate \<Rightarrow> run \<Rightarrow> pystr \<Rightarrow> pystr \<Rightarrow> seo_job \<Rightarrow> execution_snapshot
   \<Rightarrow> instant option \<Rightarrow> int \<Rightarrow> bool act" where
  "submit_call v cfg k run tok key job snapshot expiry timeout =
     attempt
       (andthen (reading v (\<lambda>d. execution_plan_of (v_ext v) d (k_company_id k) (k_job_id k))) (\<lambda>plan.
        andthen (external_call cfg timeout
            (SubmitCall k job snapshot expiry (model_ids plan) (provider_ids plan))
            (\<lambda>n. v_submit v n job snapshot expiry (model_ids plan) (provider_ids plan))) (\<lambda>answer.
        andthen (observe (v_after_submit v)) (\<lambda>_.
        (case answer of None \<Rightarrow> raise TypeError | Some er \<Rightarrow> ret er)))))
       (\<lambda>r. case r of
          Inr er \<Rightarrow> submit_accepted v cfg k run tok key er
        | Inl (ExecutorError error_code error_summary retry_after) \<Rightarrow>
            submit_failed v cfg k tok error_code error_summary retry_after
        | Inl _ \<Rightarrow>
            andthen (now_act v) (mark_claimed_act v k tok ''EXECUTOR_SUBMIT_OUTPUT_INVALID''
              ''external submission outcome requires reconciliation''))"

text \<open>\<open>if not released: raise StateConflict\<close>, then recovery without submission.\<close>

definition release_then_recover ::
  "environment \<Rightarrow> runner_config \<Rightarrow> candidate \<Rightarrow> pystr \<Rightarrow> instant \<Rightarrow> bool act" where
  "release_then_recover v cfg k tok now =
     andthen (commit_act v (release_lease k tok (isoformat now))) (\<lambda>released.
       if \<not> released then raise StateConflict
       else recover_dispatch_act v cfg (k\<lparr>k_state := ''RUNNING''\<rparr>) now)"

text \<open>The time the approval leaves for the call; \<open>None\<close> when there is none left.\<close>

definition authority_timeout :: "runner_config \<Rightarrow> instant option \<Rightarrow> instant \<Rightarrow> int option" where
  "authority_timeout cfg expiry submit_now =
     (case expiry of
        None \<Rightarrow> Some (c_external_call_timeout cfg)
      | Some e \<Rightarrow>
          let remaining = e - submit_now - c_approval_submission_margin cfg in
          if remaining \<le> 0 then None else Some (min (c_external_call_timeout cfg) remaining))"

definition submit_window ::
  "environment \<Rightarrow> runner_config \<Rightarrow> candidate \<Rightarrow> run \<Rightarrow> pystr \<Rightarrow> pystr \<Rightarrow> seo_job \<Rightarrow> execution_snapshot \<Rightarrow> bool act" where
  "submit_window v cfg k run tok key job snapshot =
     andthen (now_act v) (\<lambda>submit_now.
     andthen (reading v (\<lambda>d. launch_approval_window (v_ext v) d (k_company_id k) (k_job_id k)))
       (\<lambda>(_, expiry).
     (case authority_timeout cfg expiry submit_now of
        None \<Rightarrow> release_then_recover v cfg k tok submit_now
      | Some submit_timeout \<Rightarrow>
          attempt (lease_call_timeout v cfg run) (\<lambda>r.
          (case r of
             Inl e \<Rightarrow>
               if e = DataIntegrityError \<or> e = TimeoutError then
                 andthen (now_act v) (mark_claimed_act v k tok ''EXTERNAL_CALL_DEADLINE_INVALID''
                   ''insufficient durable lease remains for submission'')
               else raise e
           | Inr lease_timeout \<Rightarrow>
               submit_call v cfg k run tok key job snapshot expiry (min submit_timeout lease_timeout))))))"

definition submit_claimed ::
  "environment \<Rightarrow> runner_config \<Rightarrow> candidate \<Rightarrow> run \<Rightarrow> pystr \<Rightarrow> pystr \<Rightarrow> bool act" where
  "submit_claimed v cfg k run tok key =
     andthen (now_act v) (\<lambda>fresh_now.
     andthen (reading v (\<lambda>d. job_of (v_ext v) d (k_company_id k) (k_job_id k))) (\<lambda>current.
     if sj_state current = CANCELED then
       andthen (commit_act v (release_lease k tok (isoformat fresh_now))) (\<lambda>released.
         if \<not> released then raise StateConflict
         else cancel_act v cfg (k\<lparr>k_state := ''CANCELED''\<rparr>) fresh_now)
     else
     attempt (reading v (\<lambda>d. resume_dispatch (v_ext v) d (k_company_id k) fresh_now (k_job_id k))) (\<lambda>r.
     (case r of
        Inl e \<Rightarrow>
          if e = ApprovalInvalid then release_then_recover v cfg k tok fresh_now
          else if e = DataIntegrityError then
            mark_claimed_act v k tok ''DATA_INTEGRITY''
              ''execution provenance failed integrity verification'' fresh_now
          else if e = StateConflict then
            andthen (commit_act v (release_lease k tok (isoformat fresh_now))) (\<lambda>_. ret False)
          else raise e
      | Inr (job, snapshot) \<Rightarrow>
          andthen (executor_identity_still_matches v cfg k) (\<lambda>same.
          if \<not> same then
            mark_claimed_act v k tok ''EXECUTOR_MISMATCH''
              ''selected executor does not match the approved plan'' fresh_now
          else submit_window v cfg k run tok key job snapshot)))))"

text \<open>The first part of \<open>_submit\<close>: \<open>Inl\<close> is an early return, \<open>Inr\<close> the verified job and snapshot.\<close>

definition submit_identity ::
  "environment \<Rightarrow> runner_config \<Rightarrow> candidate \<Rightarrow> instant \<Rightarrow> (bool + seo_job \<times> execution_snapshot) act" where
  "submit_identity v cfg k now =
     (if k_state k = ''QUEUED'' then
        attempt (reading v (\<lambda>d. prepare_execution (v_ext v) d (k_company_id k) now (k_job_id k))) (\<lambda>r.
        (case r of
           Inr verified \<Rightarrow> ret (Inr verified)
         | Inl e \<Rightarrow>
             if e = ApprovalInvalid then
               andthen (commit_act v (quarantine_queued_job k ''APPROVAL_INVALID''
                 ''approval is not valid at dispatch time'' (isoformat now))) (\<lambda>b. ret (Inl b))
             else if e = DataIntegrityError then
               andthen (commit_act v (quarantine_queued_job k ''DATA_INTEGRITY''
                 ''execution provenance failed integrity verification'' (isoformat now))) (\<lambda>b. ret (Inl b))
             else if e = StateConflict then ret (Inl False) else raise e))
      else if k_state k = ''RUNNING'' then
        attempt (reading v (\<lambda>d. resume_dispatch (v_ext v) d (k_company_id k) now (k_job_id k))) (\<lambda>r.
        (case r of
           Inr verified \<Rightarrow> ret (Inr verified)
         | Inl e \<Rightarrow>
             if e = ApprovalInvalid then
               andthen (recover_dispatch_act v cfg k now) (\<lambda>b. ret (Inl b))
             else if e = DataIntegrityError then
               andthen (commit_act v (quarantine_running_dispatch k ''DATA_INTEGRITY''
                 ''execution provenance failed integrity verification'' (isoformat now))) (\<lambda>b. ret (Inl b))
             else if e = StateConflict then ret (Inl False) else raise e))
      else raise StateConflict)"

definition submit_act :: "environment \<Rightarrow> runner_config \<Rightarrow> candidate \<Rightarrow> instant \<Rightarrow> bool act" where
  "submit_act v cfg k now =
     andthen (submit_identity v cfg k now) (\<lambda>r.
     (case r of
        Inl b \<Rightarrow> ret b
      | Inr (job, _) \<Rightarrow>
          if sj_attempt job \<noteq> k_attempt k \<or> state_value (sj_state job) \<noteq> k_state k then raise StateConflict
          else
          andthen (executor_identity_still_matches v cfg k) (\<lambda>same.
          if \<not> same then
            (if k_state k = ''QUEUED'' then
               commit_act v (quarantine_queued_job k ''EXECUTOR_MISMATCH''
                 ''selected executor does not match the approved plan'' (isoformat now))
             else
               commit_act v (quarantine_running_dispatch k ''EXECUTOR_MISMATCH''
                 ''selected executor does not match the approved plan'' (isoformat now)))
          else
          andthen (claim_submission_act v cfg k (submission_idempotency_key job)) (\<lambda>claimed.
          (case claimed of
             None \<Rightarrow> ret False
           | Some (run, tok) \<Rightarrow> submit_claimed v cfg k run tok (submission_idempotency_key job))))))"

end
