(* ===== verification/RunnerTick.thy ===== *)
theory RunnerTick
  imports RunnerSubmit
begin

text \<open>
  \<open>Runner._poll\<close>, \<open>Runner._requeue\<close>, \<open>Runner._finalize_terminal\<close> and \<open>Runner.tick\<close>.
\<close>

section \<open>Polling\<close>

definition is_canceled_act :: "environment \<Rightarrow> candidate \<Rightarrow> bool act" where
  "is_canceled_act v k =
     andthen (reading v (\<lambda>d. stored_job_state d k)) (\<lambda>s. ret (s = ''CANCELED''))"

definition reconcile_poll_act :: "environment \<Rightarrow> candidate \<Rightarrow> bool \<Rightarrow> instant \<Rightarrow> bool act" where
  "reconcile_poll_act v k terminal now =
     andthen (commit_act v (reconcile_poll_after_local_cancel k terminal (isoformat now))) settled"

definition transition_act ::
  "environment \<Rightarrow> candidate \<Rightarrow> job_state \<Rightarrow> job_state \<Rightarrow> pystr \<Rightarrow> pystr option \<Rightarrow> pystr option \<Rightarrow> instant
   \<Rightarrow> seo_job act" where
  "transition_act v k expected target reason error_code stage now =
     service v (transition_job (v_ext v) (k_company_id k) (k_job_id k) expected target reason error_code
       stage now)"

definition failed_final_outcome :: "run \<Rightarrow> pystr \<Rightarrow> pystr \<Rightarrow> instant \<Rightarrow> poll_outcome" where
  "failed_final_outcome run error_code error_summary observed =
     \<lparr>po_external_status = ''FAILED_FINAL'', po_current_stage = r_current_stage run,
      po_retry_stage_id = r_retry_stage_id run, po_consume_retry = False, po_next_action_at = None,
      po_completion_observed_at = Some (isoformat observed), po_error_code = Some error_code,
      po_error_summary = Some error_summary, po_result_json = None, po_result_hash = None\<rparr>"

definition poll_retry ::
  "environment \<Rightarrow> runner_config \<Rightarrow> candidate \<Rightarrow> run \<Rightarrow> pystr \<Rightarrow> pystr \<Rightarrow> pystr \<Rightarrow> int option \<Rightarrow> int \<Rightarrow> instant
   \<Rightarrow> bool act" where
  "poll_retry v cfg k run tok error_code error_summary retry_after retry_number observed =
     andthen (lift (retry_delay (c_retry_policy cfg) error_code retry_number retry_after)) (\<lambda>delay.
     andthen (lift (shift observed (seconds_us delay))) (\<lambda>next_action_at.
     andthen (commit_act v (record_poll_transport_failure k tok (Some (isoformat next_action_at))
       (r_current_stage run) (r_retry_stage_id run) error_code error_summary (isoformat observed)))
       (\<lambda>recorded.
     if \<not> recorded then raise StateConflict else
     andthen (is_canceled_act v k) (\<lambda>canceled.
     if canceled then reconcile_poll_act v k False observed else ret True))))"

definition poll_exhausted ::
  "environment \<Rightarrow> candidate \<Rightarrow> pystr \<Rightarrow> pystr \<Rightarrow> pystr \<Rightarrow> instant \<Rightarrow> bool act" where
  "poll_exhausted v k tok error_code error_summary observed =
     andthen (is_canceled_act v k) (\<lambda>canceled.
     andthen (if canceled
       then commit_act v (record_exhausted_poll_after_local_cancel k tok error_code error_summary
              (isoformat observed))
       else commit_act v (mark_poll_reconciliation_required k tok error_code error_summary
              (isoformat observed))) settled)"

definition poll_rejected ::
  "environment \<Rightarrow> candidate \<Rightarrow> run \<Rightarrow> pystr \<Rightarrow> pystr \<Rightarrow> pystr \<Rightarrow> instant \<Rightarrow> bool act" where
  "poll_rejected v k run tok error_code error_summary observed =
     andthen (commit_act v (record_poll_status k tok
       (failed_final_outcome run error_code error_summary observed) (isoformat observed))) (\<lambda>recorded.
     if \<not> recorded then raise StateConflict else
     andthen (is_canceled_act v k) (\<lambda>canceled.
     if canceled then reconcile_poll_act v k True observed else
     andthen (transition_act v k RUNNING FAILED_FINAL error_summary (Some error_code)
       (r_current_stage run) observed) (\<lambda>_. ret True)))"

definition poll_failed ::
  "environment \<Rightarrow> runner_config \<Rightarrow> candidate \<Rightarrow> run \<Rightarrow> pystr \<Rightarrow> pystr \<Rightarrow> pystr \<Rightarrow> int option \<Rightarrow> bool act" where
  "poll_failed v cfg k run tok error_code error_summary retry_after =
     andthen (now_act v) (\<lambda>observed.
     andthen (executor_identity_still_matches v cfg k) (\<lambda>same.
     if \<not> same then
       mark_claimed_act v k tok ''EXECUTOR_MISMATCH'' ''executor identity changed during polling'' observed
     else
     andthen (reading v (\<lambda>d. execution_plan_of (v_ext v) d (k_company_id k) (k_job_id k))) (\<lambda>plan.
     andthen (reading v (\<lambda>d. retry_count_for_stage d (k_company_id k) (k_job_id k) (r_retry_stage_id run)))
       (\<lambda>count. let retry_number = count + 1 in
     if is_retryable error_code \<and> retry_number \<le> maximum_retries plan then
       poll_retry v cfg k run tok error_code error_summary retry_after retry_number observed
     else if is_retryable error_code then poll_exhausted v k tok error_code error_summary observed
     else poll_rejected v k run tok error_code error_summary observed))))"

text \<open>What the poll result means: the outcome to record and the job state it leads to, if any.\<close>

definition outcome ::
  "execution_status \<Rightarrow> pystr \<Rightarrow> pystr \<Rightarrow> bool \<Rightarrow> instant option \<Rightarrow> instant option \<Rightarrow> bytes option \<Rightarrow> pystr option
   \<Rightarrow> poll_outcome" where
  "outcome st status stage consume next_at completion json hash =
     \<lparr>po_external_status = status, po_current_stage = es_stage_id st, po_retry_stage_id = stage,
      po_consume_retry = consume, po_next_action_at = map_option isoformat next_at,
      po_completion_observed_at = map_option isoformat completion, po_error_code = es_error_code st,
      po_error_summary = es_error_summary st, po_result_json = json, po_result_hash = hash\<rparr>"

definition poll_stage :: "execution_status \<Rightarrow> pystr" where
  "poll_stage st = ''poll:'' @ (case es_stage_id st of None \<Rightarrow> ''unknown'' | Some s \<Rightarrow> s)"

definition plan_success ::
  "environment \<Rightarrow> candidate \<Rightarrow> execution_status \<Rightarrow> execution_result \<Rightarrow> instant
   \<Rightarrow> (poll_outcome \<times> job_state option) act" where
  "plan_success v k st result observed =
     andthen (reading v (\<lambda>d. execution_plan_of (v_ext v) d (k_company_id k) (k_job_id k))) (\<lambda>plan.
     andthen (lift (result_usage_matches_plan result plan)) (\<lambda>matches.
     if \<not> matches then raise DataIntegrityError else
     andthen (case v_validate_result v of
         None \<Rightarrow> ret ()
       | Some validate \<Rightarrow>
           andthen (reading v (\<lambda>d. running_execution_identity (v_ext v) d (k_company_id k) (k_job_id k)))
             (\<lambda>(job, snapshot). lift (validate job snapshot result))) (\<lambda>_.
     andthen (lift (execution_result_bytes (v_screens v) result)) (\<lambda>json.
     ret (outcome st ''SUCCEEDED'' (poll_stage st) False None (Some observed) (Some json)
            (Some (ext_sha256 (v_ext v) json)), Some SUCCEEDED)))))"

definition plan_failure ::
  "environment \<Rightarrow> runner_config \<Rightarrow> candidate \<Rightarrow> execution_status \<Rightarrow> pystr \<Rightarrow> bool \<Rightarrow> instant
   \<Rightarrow> (poll_outcome \<times> job_state option) act" where
  "plan_failure v cfg k st error_code failed_retryable observed =
     andthen (reading v (\<lambda>d. execution_plan_of (v_ext v) d (k_company_id k) (k_job_id k))) (\<lambda>plan.
     andthen (reading v (\<lambda>d. retry_count_for_stage d (k_company_id k) (k_job_id k) (poll_stage st)))
       (\<lambda>count.
     let retry_number = count + 1; transient = is_retryable error_code;
         consume = (failed_retryable \<and> transient) in
     if failed_retryable \<and> transient \<and> retry_number \<le> maximum_retries plan then
       andthen (lift (retry_delay (c_retry_policy cfg) error_code retry_number (es_retry_after_seconds st)))
         (\<lambda>delay.
       andthen (lift (shift observed (seconds_us delay))) (\<lambda>next_action_at.
       ret (outcome st ''FAILED_RETRYABLE'' (poll_stage st) consume (Some next_action_at) None None None,
            Some FAILED_RETRYABLE)))
     else
       ret (outcome st ''FAILED_FINAL'' (poll_stage st) consume None (Some observed) None None,
            Some FAILED_FINAL)))"

definition poll_plan ::
  "environment \<Rightarrow> runner_config \<Rightarrow> candidate \<Rightarrow> external_run \<Rightarrow> execution_status option \<Rightarrow> instant
   \<Rightarrow> (execution_status \<times> poll_outcome \<times> job_state option) act" where
  "poll_plan v cfg k er answer observed =
     (case answer of
        None \<Rightarrow> raise DataIntegrityError
      | Some st \<Rightarrow>
          andthen (lift (status_post_init st)) (\<lambda>_.
          if es_external_run_id st \<noteq> er_external_run_id er then raise DataIntegrityError else
          andthen
            (case es_status st of
               None \<Rightarrow> raise DataIntegrityError
             | Some ExtSucceeded \<Rightarrow>
                 (case es_result st of None \<Rightarrow> raise DataIntegrityError
                  | Some result \<Rightarrow> plan_success v k st result observed)
             | Some ExtFailedRetryable \<Rightarrow>
                 (case (es_error_code st, es_error_summary st) of
                    (Some error_code, Some _) \<Rightarrow> plan_failure v cfg k st error_code True observed
                  | _ \<Rightarrow> raise DataIntegrityError)
             | Some ExtFailedFinal \<Rightarrow>
                 (case (es_error_code st, es_error_summary st) of
                    (Some error_code, Some _) \<Rightarrow> plan_failure v cfg k st error_code False observed
                  | _ \<Rightarrow> raise DataIntegrityError)
             | Some ExtCanceled \<Rightarrow>
                 ret (outcome st ''CANCELED'' (poll_stage st) False None (Some observed) None None,
                      Some CANCELED)
             | Some ongoing \<Rightarrow>
                 andthen (lift (shift observed
                     (seconds_us (poll_delay (c_retry_policy cfg) (es_retry_after_seconds st)))))
                   (\<lambda>next_action_at.
                   ret (outcome st (status_value ongoing) (poll_stage st) False (Some next_action_at)
                          None None None, None)))
            (\<lambda>(po, target). ret (st, po, target))))"

text \<open>The job's own transition after a terminal outcome was recorded.\<close>

definition or_canceled :: "environment \<Rightarrow> candidate \<Rightarrow> instant \<Rightarrow> seo_job act \<Rightarrow> (seo_job \<Rightarrow> bool act) \<Rightarrow> bool act" where
  "or_canceled v k observed moved continue =
     attempt moved (\<lambda>r. case r of
         Inr sj \<Rightarrow> continue sj
       | Inl e \<Rightarrow>
           if e = StateConflict then
             andthen (reconcile_terminal_cancel_act v k observed) (\<lambda>reconciled.
               if reconciled then ret True else raise StateConflict)
           else raise e)"

definition publish_act :: "environment \<Rightarrow> candidate \<Rightarrow> seo_job \<Rightarrow> execution_result \<Rightarrow> bool act" where
  "publish_act v k sj result =
     andthen (observe (\<lambda>n. v_write_bundle v n sj result)) (\<lambda>_.
     andthen (service v (bind_artifact_manifest_service (v_ext v) (Some (v_store v)) (k_company_id k)
       (k_job_id k))) (\<lambda>_. ret True))"

definition poll_transition ::
  "environment \<Rightarrow> candidate \<Rightarrow> execution_status \<Rightarrow> job_state \<Rightarrow> instant \<Rightarrow> bool act" where
  "poll_transition v k st target observed =
     (if target = SUCCEEDED then
        or_canceled v k observed
          (transition_act v k RUNNING SUCCEEDED ''external execution succeeded'' None (es_stage_id st) observed)
          (\<lambda>sj. case es_result st of None \<Rightarrow> raise DataIntegrityError
                | Some result \<Rightarrow> publish_act v k sj result)
      else if target \<in> {FAILED_RETRYABLE, FAILED_FINAL} then
        (case (es_error_code st, es_error_summary st) of
           (Some error_code, Some error_summary) \<Rightarrow>
             or_canceled v k observed
               (transition_act v k RUNNING target error_summary (Some error_code) (es_stage_id st) observed)
               (\<lambda>_. ret True)
         | _ \<Rightarrow> raise DataIntegrityError)
      else
        andthen (transition_act v k RUNNING CANCELED ''external execution canceled'' None (es_stage_id st)
          observed) (\<lambda>_. ret True))"

definition poll_record ::
  "environment \<Rightarrow> candidate \<Rightarrow> pystr \<Rightarrow> execution_status \<Rightarrow> poll_outcome \<Rightarrow> job_state option \<Rightarrow> instant
   \<Rightarrow> bool act" where
  "poll_record v k tok st po target observed =
     andthen (commit_act v (record_poll_and_stage k tok po (target = None) (isoformat observed)))
       (\<lambda>recorded.
     if \<not> recorded then raise StateConflict else
     andthen (reading v (\<lambda>d. job_of (v_ext v) d (k_company_id k) (k_job_id k))) (\<lambda>local.
     if sj_state local = CANCELED then reconcile_poll_act v k (target \<noteq> None) observed
     else (case target of None \<Rightarrow> ret True | Some t \<Rightarrow> poll_transition v k st t observed)))"

definition poll_observed ::
  "environment \<Rightarrow> runner_config \<Rightarrow> candidate \<Rightarrow> run \<Rightarrow> pystr \<Rightarrow> external_run \<Rightarrow> execution_status option
   \<Rightarrow> bool act" where
  "poll_observed v cfg k run tok er answer =
     andthen (now_act v) (\<lambda>observed.
     andthen (durable_executor_matches v cfg k run) (\<lambda>same.
     if \<not> same then
       mark_claimed_act v k tok ''EXECUTOR_MISMATCH'' ''executor identity changed during poll'' observed
     else
     attempt (poll_plan v cfg k er answer observed) (\<lambda>r.
     (case r of
        Inl e \<Rightarrow>
          if e \<in> {AttributeError, DataIntegrityError} \<or> type_or_value_error e then
            mark_claimed_act v k tok ''EXECUTOR_POLL_OUTPUT_INVALID''
              ''external poll outcome requires reconciliation'' observed
          else raise e
      | Inr (st, po, target) \<Rightarrow> poll_record v k tok st po target observed))))"

definition poll_call ::
  "environment \<Rightarrow> runner_config \<Rightarrow> candidate \<Rightarrow> run \<Rightarrow> pystr \<Rightarrow> external_run \<Rightarrow> bool act" where
  "poll_call v cfg k run tok er =
     attempt
       (attempt
          (andthen (lease_call_timeout v cfg run) (\<lambda>timeout.
             external_call cfg timeout (PollCall er) (\<lambda>n. v_poll v n er)))
          (\<lambda>r. case r of
             Inr answer \<Rightarrow> ret answer
           | Inl e \<Rightarrow> raise (if e = TimeoutError
                            then make_executor_error ''NETWORK_ERROR'' ''external poll timed out'' None
                            else e)))
       (\<lambda>r. case r of
          Inr answer \<Rightarrow> poll_observed v cfg k run tok er answer
        | Inl (ExecutorError error_code error_summary retry_after) \<Rightarrow>
            poll_failed v cfg k run tok error_code error_summary retry_after
        | Inl _ \<Rightarrow>
            andthen (now_act v) (mark_claimed_act v k tok ''EXECUTOR_POLL_OUTPUT_INVALID''
              ''external poll outcome requires reconciliation''))"

definition poll_act :: "environment \<Rightarrow> runner_config \<Rightarrow> candidate \<Rightarrow> instant \<Rightarrow> bool act" where
  "poll_act v cfg k now =
     andthen (claim_existing_act v cfg k [''ACCEPTED'', ''RUNNING'']) (\<lambda>claimed.
     (case claimed of
        None \<Rightarrow> ret False
      | Some (run, tok) \<Rightarrow>
          attempt (durable_executor_matches v cfg k run) (\<lambda>r.
          (case (case r of Inl e \<Rightarrow> if e = DataIntegrityError then Inr False else Inl e | Inr b \<Rightarrow> Inr b) of
             Inl e \<Rightarrow> raise e
           | Inr matches \<Rightarrow>
               if \<not> matches then
                 mark_claimed_act v k tok ''EXECUTOR_MISMATCH''
                   ''selected executor does not match the approved plan'' now
               else
               andthen (durable_acceptance_provenance_valid v k run) (\<lambda>valid.
               if \<not> valid then
                 mark_claimed_act v k tok ''EXTERNAL_ACCEPTANCE_PROVENANCE_INVALID''
                   ''durable external acceptance requires reconciliation'' now
               else
               (case external_run_of run of
                  Inl e \<Rightarrow> mark_claimed_act v k tok ''EXTERNAL_RUN_IDENTITY_INVALID''
                      ''durable external identity requires reconciliation'' now
                | Inr er \<Rightarrow> poll_call v cfg k run tok er))))))"

section \<open>Requeueing\<close>

definition requeue_act :: "environment \<Rightarrow> runner_config \<Rightarrow> candidate \<Rightarrow> instant \<Rightarrow> bool act" where
  "requeue_act v cfg k now =
     andthen (claim_existing_act v cfg k [''FAILED_RETRYABLE'']) (\<lambda>claimed.
     (case claimed of
        None \<Rightarrow> ret False
      | Some (_, tok) \<Rightarrow>
          andthen (service v (retry_job (v_ext v) (k_company_id k) (k_job_id k) now)) (\<lambda>_.
          andthen (commit_act v (mark_retry_consumed k tok (isoformat now))) settled)))"

section \<open>Recovering terminal outcomes\<close>

definition stored_result :: "environment \<Rightarrow> run \<Rightarrow> exn + execution_result" where
  "stored_result v run =
     (case (r_result_json run, r_result_hash run) of
        (Some payload, Some hash) \<Rightarrow>
          if ext_sha256 (v_ext v) payload \<noteq> hash then Inl DataIntegrityError else
          (case execution_result_from_bytes (v_screens v) payload of
             Inl e \<Rightarrow> Inl (if type_or_value_error e then DataIntegrityError else e)
           | Inr result \<Rightarrow> Inr result)
      | _ \<Rightarrow> Inl DataIntegrityError)"

definition finalize_success ::
  "environment \<Rightarrow> candidate \<Rightarrow> run \<Rightarrow> seo_job \<Rightarrow> instant \<Rightarrow> bool act" where
  "finalize_success v k run job now =
     andthen (lift (stored_result v run)) (\<lambda>result.
     andthen (reading v (\<lambda>d. execution_plan_of (v_ext v) d (k_company_id k) (k_job_id k))) (\<lambda>plan.
     andthen (lift (result_usage_matches_plan result plan)) (\<lambda>matches.
     if \<not> matches then raise DataIntegrityError else
     andthen
       (if sj_state job = RUNNING then
          transition_act v k RUNNING SUCCEEDED ''recover durable external success'' None
            (r_current_stage run) now
        else if sj_state job \<noteq> SUCCEEDED then raise StateConflict else ret job) (\<lambda>succeeded.
     publish_act v k succeeded result))))"

definition finalize_failure ::
  "environment \<Rightarrow> candidate \<Rightarrow> run \<Rightarrow> job_state \<Rightarrow> seo_job \<Rightarrow> instant \<Rightarrow> bool act" where
  "finalize_failure v k run target job now =
     (case (r_error_code run, r_error_summary run) of
        (Some error_code, Some error_summary) \<Rightarrow>
          let fail = (\<lambda>from. andthen (transition_act v k from target error_summary (Some error_code)
                (r_current_stage run) now) (\<lambda>_. ret True)) in
          if sj_state job = QUEUED then
            (if target = FAILED_RETRYABLE then fail QUEUED else
             andthen (transition_act v k QUEUED RUNNING ''recover durable submission rejection'' None None now)
               (\<lambda>_. fail RUNNING))
          else if sj_state job \<noteq> RUNNING then raise StateConflict else fail RUNNING
      | _ \<Rightarrow> raise DataIntegrityError)"

definition finalize_claimed ::
  "environment \<Rightarrow> runner_config \<Rightarrow> candidate \<Rightarrow> run \<Rightarrow> instant \<Rightarrow> bool act" where
  "finalize_claimed v cfg k run now =
     andthen (lift (external_run_of run)) (\<lambda>_.
     andthen (durable_executor_matches v cfg k run) (\<lambda>same.
     andthen (if same then durable_acceptance_provenance_valid v k run else ret False) (\<lambda>trusted.
     if \<not> trusted then raise DataIntegrityError else
     (case Option.bind (r_external_status run) external_status_of of
        None \<Rightarrow> raise DataIntegrityError
      | Some status \<Rightarrow>
          andthen (reading v (\<lambda>d. job_of (v_ext v) d (k_company_id k) (k_job_id k))) (\<lambda>job.
          if status = ExtSucceeded then finalize_success v k run job now
          else if status = ExtFailedRetryable then finalize_failure v k run FAILED_RETRYABLE job now
          else if status = ExtFailedFinal then finalize_failure v k run FAILED_FINAL job now
          else if sj_state job \<noteq> RUNNING then raise StateConflict
          else if status = ExtCanceled then
            andthen (transition_act v k RUNNING CANCELED ''recover durable external cancellation'' None
              (r_current_stage run) now) (\<lambda>_. ret True)
          else raise DataIntegrityError)))))"

definition release_then_raise :: "environment \<Rightarrow> candidate \<Rightarrow> pystr \<Rightarrow> exn \<Rightarrow> bool act" where
  "release_then_raise v k tok e =
     andthen (now_act v) (\<lambda>now.
     andthen (commit_act v (release_lease k tok (isoformat now))) (\<lambda>_. raise e))"

definition finalize_terminal_act :: "environment \<Rightarrow> runner_config \<Rightarrow> candidate \<Rightarrow> instant \<Rightarrow> bool act" where
  "finalize_terminal_act v cfg k now =
     andthen (claim_existing_act v cfg k
       [''SUCCEEDED'', ''FAILED_RETRYABLE'', ''FAILED_FINAL'', ''CANCELED'']) (\<lambda>claimed.
     (case claimed of
        None \<Rightarrow> ret False
      | Some (run, tok) \<Rightarrow>
          attempt (finalize_claimed v cfg k run now) (\<lambda>r.
          (case r of
             Inl e \<Rightarrow>
               if e = DataIntegrityError then
                 mark_claimed_act v k tok ''TERMINAL_PROVENANCE_INVALID''
                   ''durable terminal result requires reconciliation'' now
               else if e = StateConflict then
                 andthen (is_canceled_act v k) (\<lambda>canceled.
                 if canceled then
                   andthen (commit_act v (reconcile_claimed_terminal_after_local_cancel k tok
                     (isoformat now))) settled
                 else release_then_raise v k tok StateConflict)
               else release_then_raise v k tok e
           | Inr finalized \<Rightarrow>
               andthen (now_act v) (\<lambda>released_at.
               andthen (commit_act v (release_lease k tok (isoformat released_at))) (\<lambda>released.
               if \<not> released then raise StateConflict else ret finalized))))))"

section \<open>One scheduling round\<close>

definition tick_recover :: "environment \<Rightarrow> runner_config \<Rightarrow> candidate \<Rightarrow> instant \<Rightarrow> bool act" where
  "tick_recover v cfg k now =
     (let dispatch = (if k_state k \<notin> {''QUEUED'', ''RUNNING''} then raise DataIntegrityError
                      else submit_act v cfg k now) in
      if k_state k = ''RUNNING'' then
        andthen (reading v (\<lambda>d. job_of (v_ext v) d (k_company_id k) (k_job_id k))) (\<lambda>job.
          if sj_current_stage job \<noteq> Some ''dispatching'' then
            andthen (mark_stale_act v k now) (\<lambda>_. ret True)
          else dispatch)
      else dispatch)"

text \<open>The candidates in the order the loop asks for them; \<open>False\<close> ends the loop.\<close>

definition tick_candidates :: "environment \<Rightarrow> runner_config \<Rightarrow> instant \<Rightarrow> bool act" where
  "tick_candidates v cfg now =
     andthen (reading v (\<lambda>d. Inr (next_cancel_candidate (isoformat now) d))) (\<lambda>c.
     (case c of Some k \<Rightarrow> cancel_act v cfg k now | None \<Rightarrow>
     andthen (reading v (\<lambda>d. Inr (next_terminal_recovery_candidate (isoformat now) d))) (\<lambda>c.
     (case c of Some k \<Rightarrow> finalize_terminal_act v cfg k now | None \<Rightarrow>
     andthen (reading v (\<lambda>d. Inr (next_poll_candidate (isoformat now) d))) (\<lambda>c.
     (case c of Some k \<Rightarrow> poll_act v cfg k now | None \<Rightarrow>
     andthen (reading v (\<lambda>d. Inr (next_retry_candidate (isoformat now) d))) (\<lambda>c.
     (case c of Some k \<Rightarrow> requeue_act v cfg k now | None \<Rightarrow>
     andthen (lift (shift now (- c_stale_after cfg))) (\<lambda>stale_before.
     andthen (reading v (\<lambda>d. Inr (next_recovery_candidate (isoformat now) (isoformat stale_before) d)))
       (\<lambda>c. (case c of Some k \<Rightarrow> tick_recover v cfg k now | None \<Rightarrow> ret False)))))))))))"

definition tick_step :: "environment \<Rightarrow> runner_config \<Rightarrow> bool act" where
  "tick_step v cfg =
     andthen (now_act v) (\<lambda>now.
     andthen (reading v (\<lambda>d. Inr (next_invalid_scheduler_candidate d))) (\<lambda>c.
     (case c of
        None \<Rightarrow> tick_candidates v cfg now
      | Some k \<Rightarrow>
          andthen (commit_act v (quarantine_invalid_scheduler_timestamps k (isoformat now)))
            (\<lambda>quarantined. if quarantined then ret True else tick_candidates v cfg now))))"

fun tick_loop :: "environment \<Rightarrow> runner_config \<Rightarrow> nat \<Rightarrow> int \<Rightarrow> int act" where
  "tick_loop v cfg 0 processed = ret processed"
| "tick_loop v cfg (Suc n) processed =
     andthen (tick_step v cfg) (\<lambda>advanced.
       if advanced then tick_loop v cfg n (processed + 1) else ret processed)"

definition tick :: "environment \<Rightarrow> runner_config \<Rightarrow> int \<Rightarrow> int act" where
  "tick v cfg limit =
     (if limit < 0 then raise ValueError else
      andthen (now_act v) (\<lambda>heartbeat_at.
      andthen (record_heartbeat_act v cfg heartbeat_at) (\<lambda>_.
      tick_loop v cfg (nat limit) 0)))"

end
