(* ===== verification/RunnerFrame.thy ===== *)
theory RunnerFrame
  imports RunnerTick
begin

text \<open>
  Reasoning about runner actions.  \<open>keeps\<close> and \<open>yields\<close> are partial-correctness judgements over worlds;
  \<open>world_invariant\<close> is the contract of an invariant that survives the transactions of the system.
  Under it, every action that calls no executor keeps the invariant, whatever exception is raised and
  whatever other processes commit in between.
\<close>

section \<open>Judgements\<close>

definition keeps :: "(world \<Rightarrow> bool) \<Rightarrow> 'a act \<Rightarrow> bool" where
  "keeps I m = (\<forall>w. I w \<longrightarrow> I (snd (m w)))"

text \<open>After \<open>m\<close>, started in \<open>P\<close>: \<open>Q\<close> of its value, or \<open>I\<close> when it raises.\<close>

definition post :: "(world \<Rightarrow> bool) \<Rightarrow> ('a \<Rightarrow> world \<Rightarrow> bool) \<Rightarrow> (exn + 'a) \<times> world \<Rightarrow> bool" where
  "post I Q rw = (case fst rw of Inl e \<Rightarrow> I (snd rw) | Inr a \<Rightarrow> Q a (snd rw))"

definition yields :: "(world \<Rightarrow> bool) \<Rightarrow> (world \<Rightarrow> bool) \<Rightarrow> 'a act \<Rightarrow> ('a \<Rightarrow> world \<Rightarrow> bool) \<Rightarrow> bool" where
  "yields I P m Q = (\<forall>w. P w \<longrightarrow> post I Q (m w))"

lemma post_pair [simp]: "post I Q (Inl e, w) = I w" "post I Q (Inr a, w) = Q a w"
  by (simp_all add: post_def)

lemma yieldsD: "yields I P m Q \<Longrightarrow> P w \<Longrightarrow> post I Q (m w)"
  by (simp add: yields_def)

lemma keeps_lift: "keeps I (lift r)"
  by (simp add: keeps_def lift_def)

lemma keeps_andthen: "keeps I m \<Longrightarrow> (\<And>a. keeps I (f a)) \<Longrightarrow> keeps I (andthen m f)"
  by (simp add: keeps_def andthen_def case_prod_unfold split: sum.split)

lemma keeps_attempt: "keeps I m \<Longrightarrow> (\<And>r. keeps I (f r)) \<Longrightarrow> keeps I (attempt m f)"
  by (simp add: keeps_def attempt_def case_prod_unfold)

lemma keeps_executor_error:
  assumes "\<And>a b c. keeps I (f a b c)" "keeps I g"
  shows "keeps I (case e of ExecutorError a b c \<Rightarrow> f a b c | _ \<Rightarrow> g)"
  using assms by (cases e) simp_all

lemma keeps_iff_yields: "keeps I m \<longleftrightarrow> yields I I m (\<lambda>a. I)"
  by (simp add: keeps_def yields_def post_def sum.case_eq_if)

lemma yields_andthen:
  assumes "yields I P m Q" "\<And>a. yields I (Q a) (f a) R"
  shows "yields I P (andthen m f) R"
  unfolding yields_def
proof (intro allI impI)
  fix w assume "P w"
  obtain r w' where m: "m w = (r, w')" by fastforce
  then have "post I Q (r, w')" using yieldsD [OF assms(1) \<open>P w\<close>] by simp
  then show "post I R (andthen m f w)"
    using yieldsD [OF assms(2)] by (cases r) (simp_all add: andthen_def m)
qed

lemma yields_attempt:
  assumes "yields I P m Q" "\<And>a. yields I (Q a) (f (Inr a)) R" "\<And>e. yields I I (f (Inl e)) R"
  shows "yields I P (attempt m f) R"
  unfolding yields_def
proof (intro allI impI)
  fix w assume "P w"
  obtain r w' where m: "m w = (r, w')" by fastforce
  then have "post I Q (r, w')" using yieldsD [OF assms(1) \<open>P w\<close>] by simp
  then show "post I R (attempt m f w)"
    using yieldsD [OF assms(2)] yieldsD [OF assms(3)] by (cases r) (simp_all add: attempt_def m)
qed

lemma yields_pre: "yields I P m Q \<Longrightarrow> (\<And>w. P' w \<Longrightarrow> P w) \<Longrightarrow> yields I P' m Q"
  by (simp add: yields_def)

lemma yields_post: "yields I P m Q \<Longrightarrow> (\<And>a w. Q a w \<Longrightarrow> R a w) \<Longrightarrow> yields I P m R"
  by (auto simp: yields_def post_def sum.case_eq_if)

lemma yields_ret: "(\<And>w. P w \<Longrightarrow> Q a w) \<Longrightarrow> yields I P (ret a) Q"
  by (simp add: yields_def lift_def)

lemma yields_raise: "(\<And>w. P w \<Longrightarrow> I w) \<Longrightarrow> yields I P (raise e) Q"
  by (simp add: yields_def lift_def)

text \<open>Facts about the past are known once and for all: they can be taken out of a precondition.\<close>

lemma yields_fact: "(F \<Longrightarrow> yields I P m Q) \<Longrightarrow> yields I (\<lambda>w. P w \<and> F) m Q"
  by (auto simp: yields_def)

section \<open>The runner's database accesses are runs of the system\<close>

lemma others_run: "run_of_system (v_ext v) d (others v n d)"
proof -
  have "run_of_system x d (foldl (\<lambda>d rq. serve x rq d) d rqs)" for x rqs
  proof (induction rqs arbitrary: d)
    case (Cons rq rqs)
    from system_trans [OF system_one Cons.IH] show ?case by simp
  qed (simp add: system_refl)
  then show ?thesis by (simp add: others_def)
qed

definition serves :: "externals \<Rightarrow> (db \<Rightarrow> (exn + 'a) \<times> db) \<Rightarrow> bool" where
  "serves x op = (\<forall>d. run_of_system x d (snd (op d)))"

lemma serves_reading: "serves x (\<lambda>d. (f d, d))"
  by (simp add: serves_def system_refl)

lemma served:
  assumes "\<And>d. serve x rq d = snd (op d)"
  shows "serves x op"
  unfolding serves_def using assms system_one by metis

lemma serves_settle: "serves x (transaction (settle s now k tok))"
  by (rule served [of _ "Settle s now k tok"]) (simp add: commit_def)

lemmas operation_functions = settle.simps [abs_def] claim_run.simps [abs_def]

lemmas serves_settlements =
  serves_settle [of _ "Acceptance _ _ _ _", unfolded operation_functions]
  serves_settle [of _ "LookupAcceptance _ _ _ _", unfolded operation_functions]
  serves_settle [of _ "SubmitFailure _ _ _", unfolded operation_functions]
  serves_settle [of _ "PollFailure _ _ _ _ _", unfolded operation_functions]
  serves_settle [of _ "CancelFailure _ _ _", unfolded operation_functions]
  serves_settle [of _ "PollStatus _", unfolded operation_functions]
  serves_settle [of _ RetryConsumed, unfolded operation_functions]
  serves_settle [of _ RemoteCanceled, unfolded operation_functions]
  serves_settle [of _ TerminalAfterCancel, unfolded operation_functions]
  serves_settle [of _ "ExhaustedAfterCancel _ _", unfolded operation_functions]
  serves_settle [of _ "CancelLookupReconciliation _ _", unfolded operation_functions]
  serves_settle [of _ "KnownCancelReconciliation _ _", unfolded operation_functions]
  serves_settle [of _ "PollReconciliation _ _", unfolded operation_functions]
  serves_settle [of _ "ClaimedReconciliation _ _", unfolded operation_functions]
  serves_settle [of _ Release, unfolded operation_functions]

text \<open>The rest of what the runner commits.\<close>

lemma serves_claims:
  "serves x (transaction (claim_existing_run k statuses now tok ends))"
  "serves x (transaction (claim_submission k key name now tok ends))"
  "serves x (transaction (claim_canceled_lookup k tok ends now))"
  by (rule served [of _ "Claim (ExistingRun statuses) k now tok ends"]
      served [of _ "Claim (Submission key name) k now tok ends"]
      served [of _ "Claim CanceledLookup k now tok ends"], simp add: commit_def operation_functions)+

lemma serves_plain:
  "serves x (transaction (record_heartbeat i now))"
  "serves x (transaction (begin_cancel_stage k tok now))"
  "serves x (transaction (record_poll_and_stage k tok po ongoing now))"
  "serves x (transaction (quarantine_invalid_scheduler_timestamps k now))"
  "serves x (transaction (reconcile_poll_after_local_cancel k t now))"
  "serves x (transaction (reconcile_terminal_after_local_cancel k now))"
  "serves x (transaction (update_running_stage k stage))"
  "serves x (transaction (quarantine_running_dispatch k code summary now))"
  "serves x (transaction (mark_reconciliation_required k key now))"
  "serves x (transaction (quarantine_queued_job k code summary now))"
  by (rule served [of _ "Heartbeat i now"] served [of _ "BeginCancel k tok now"]
      served [of _ "RecordPoll k tok po ongoing now"] served [of _ "QuarantineInvalid k now"]
      served [of _ "ReconcilePoll k t now"] served [of _ "ReconcileTerminal k now"]
      served [of _ "RunningStage k stage"] served [of _ "QuarantineRunning k code summary now"]
      served [of _ "MarkStale k key now"] served [of _ "QuarantineQueued k code summary now"],
      simp add: commit_def)+

lemma serves_services:
  "serves x (transition_job x c j expected target reason ec stage now)"
  "serves x (retry_job x c j now)"
  "serves x (bind_artifact_manifest_service x (Some store) c j)"
  unfolding retry_job_def
  by (rule served [of _ "MoveJob c j expected target reason ec stage now"]
      served [of _ "MoveJob c j _ _ _ _ _ now"] served [of _ "BindManifest store c j"], simp)+

section \<open>The contract of an invariant\<close>

locale world_invariant =
  fixes v :: environment and I :: "world \<Rightarrow> bool"
  assumes db_step: "I w \<Longrightarrow> run_of_system (v_ext v) (w_db w) d \<Longrightarrow> w_step w \<le> n
    \<Longrightarrow> I (w\<lparr>w_db := d, w_step := n\<rparr>)"
begin

section \<open>Primitives\<close>

lemma stepped_I: "I w \<Longrightarrow> I (stepped w)"
  using db_step [of w "w_db w" "Suc (w_step w)"] by (simp add: stepped_def system_refl)

lemma keeps_observe: "keeps I (observe f)"
  by (simp add: keeps_def observe_def stepped_I)

lemma keeps_now: "keeps I (now_act v)"
  by (simp add: now_act_def keeps_observe)

lemma keeps_token: "keeps I (lease_token v)"
  by (simp add: lease_token_def keeps_observe)

lemma keeps_service: "serves (v_ext v) op \<Longrightarrow> keeps I (service v op)"
proof (unfold keeps_def, intro allI impI)
  fix w assume sv: "serves (v_ext v) op" and I: "I w"
  let ?d = "others v (w_step w) (w_db w)"
  have "run_of_system (v_ext v) ?d (snd (op ?d))" using sv by (simp add: serves_def)
  then have "run_of_system (v_ext v) (w_db w) (snd (op ?d))" by (rule system_trans [OF others_run])
  then have "I (w\<lparr>w_db := ?d, w_step := Suc (w_step w)\<rparr>)" "I (w\<lparr>w_db := snd (op ?d), w_step := Suc (w_step w)\<rparr>)"
    using db_step [OF I, of _ "Suc (w_step w)"] others_run by simp_all
  then show "I (snd (service v op w))"
    by (simp add: service_def Let_def stepped_def case_prod_unfold split: option.split)
qed

lemma keeps_reading: "keeps I (reading v f)"
  unfolding reading_def by (rule keeps_service [OF serves_reading])

lemma keeps_commit: "serves (v_ext v) (transaction body) \<Longrightarrow> keeps I (commit_act v body)"
  unfolding commit_act_def by (rule keeps_service)

lemmas keeps_commits = serves_settlements [THEN keeps_commit] serves_claims [THEN keeps_commit]
  serves_plain [THEN keeps_commit] serves_services [THEN keeps_service]

section \<open>Actions that call no executor\<close>

lemma keeps_if: "keeps I a \<Longrightarrow> keeps I b \<Longrightarrow> keeps I (if c then a else b)"
  by simp

lemma keeps_option: "keeps I a \<Longrightarrow> (\<And>y. keeps I (f y)) \<Longrightarrow> keeps I (case u of None \<Rightarrow> a | Some y \<Rightarrow> f y)"
  by (cases u) simp_all

lemma keeps_sum: "(\<And>e. keeps I (f e)) \<Longrightarrow> (\<And>a. keeps I (g a)) \<Longrightarrow> keeps I (case u of Inl e \<Rightarrow> f e | Inr a \<Rightarrow> g a)"
  by (cases u) simp_all

lemma keeps_prod: "(\<And>a b. keeps I (f a b)) \<Longrightarrow> keeps I (case u of (a, b) \<Rightarrow> f a b)"
  by (cases u) simp

lemma keeps_settled: "keeps I (settled done)"
  by (simp add: settled_def keeps_lift)

lemmas keeps_intros = keeps_lift keeps_andthen keeps_attempt keeps_if keeps_option keeps_sum keeps_prod
  keeps_settled keeps_observe keeps_now keeps_token keeps_reading keeps_commits

lemma keeps_mark_claimed: "keeps I (mark_claimed_act v k tok code summary now)"
  unfolding mark_claimed_act_def by (intro keeps_intros)

lemma keeps_mark_known: "keeps I (mark_known_act v k tok code summary now)"
  unfolding mark_known_act_def by (intro keeps_intros)

lemma keeps_mark_lookup: "keeps I (mark_lookup_act v k tok code summary now)"
  unfolding mark_lookup_act_def by (intro keeps_intros)

lemma keeps_identity: "keeps I (executor_identity_still_matches v cfg k)"
  unfolding executor_identity_still_matches_def executor_matches_plan_def current_executor_name_def
  by (intro keeps_intros)

lemma keeps_durable_executor: "keeps I (durable_executor_matches v cfg k r)"
  unfolding durable_executor_matches_def by (intro keeps_intros keeps_identity)

lemma keeps_provenance: "keeps I (acceptance_provenance_valid v k r accepted observed)"
  unfolding acceptance_provenance_valid_def by (intro keeps_intros)

lemma keeps_durable_provenance: "keeps I (durable_acceptance_provenance_valid v k r)"
  unfolding durable_acceptance_provenance_valid_def by (intro keeps_intros keeps_provenance)

lemma keeps_trusted: "keeps I (acceptance_trusted v cfg k r accepted observed)"
  unfolding acceptance_trusted_def by (intro keeps_intros keeps_identity keeps_provenance)

lemma keeps_record_acceptance: "keeps I (record_acceptance_act v cfg k tok er accepted observed)"
  unfolding record_acceptance_act_def recorded_or_not_def by (intro keeps_intros)

lemma keeps_lease_timeout: "keeps I (lease_call_timeout v cfg r)"
  unfolding lease_call_timeout_def Let_def by (intro keeps_intros)

lemma keeps_reconcile_cancel: "keeps I (reconcile_terminal_cancel_act v k now)"
  unfolding reconcile_terminal_cancel_act_def by (intro keeps_intros)

lemma keeps_is_canceled: "keeps I (is_canceled_act v k)"
  unfolding is_canceled_act_def by (intro keeps_intros)

lemma keeps_transition: "keeps I (transition_act v k expected target reason code stage now)"
  unfolding transition_act_def by (intro keeps_intros)

lemmas keeps_helpers = keeps_mark_claimed keeps_mark_known keeps_mark_lookup keeps_identity
  keeps_durable_executor keeps_provenance keeps_durable_provenance keeps_trusted
  keeps_record_acceptance keeps_lease_timeout keeps_reconcile_cancel keeps_is_canceled keeps_transition

lemma keeps_recover_accepted: "keeps I (recover_accepted v cfg k r tok er accepted)"
  unfolding recover_accepted_def by (intro keeps_intros keeps_helpers)

lemma keeps_cancel_looked_up: "keeps I (cancel_looked_up v cfg k r tok er accepted)"
  unfolding cancel_looked_up_def recorded_or_not_def by (intro keeps_intros keeps_helpers)

lemma keeps_cancel_failed: "keeps I (cancel_failed v cfg k tok code summary after)"
  unfolding cancel_failed_def Let_def by (intro keeps_intros keeps_helpers)

lemma keeps_cancel_confirmed: "keeps I (cancel_confirmed v cfg k tok r)"
  unfolding cancel_confirmed_def by (intro keeps_intros keeps_helpers)

lemma keeps_cancel_authority: "keeps I (cancel_authority v cfg k r)"
  unfolding cancel_authority_def by (intro keeps_intros keeps_helpers)

lemma keeps_submit_accepted: "keeps I (submit_accepted v cfg k r tok key er)"
  unfolding submit_accepted_def Let_def by (intro keeps_intros keeps_helpers)

lemma keeps_submit_failed: "keeps I (submit_failed v cfg k tok code summary after)"
  unfolding submit_failed_def Let_def by (intro keeps_intros keeps_helpers)

lemma keeps_poll_failed: "keeps I (poll_failed v cfg k r tok code summary after)"
  unfolding poll_failed_def poll_retry_def poll_exhausted_def poll_rejected_def reconcile_poll_act_def Let_def
  by (intro keeps_intros keeps_helpers)

lemma keeps_publish: "keeps I (publish_act v k sj result)"
  unfolding publish_act_def by (intro keeps_intros)

lemma keeps_or_canceled:
  "keeps I m \<Longrightarrow> (\<And>sj. keeps I (f sj)) \<Longrightarrow> keeps I (or_canceled v k observed m f)"
  unfolding or_canceled_def by (intro keeps_intros keeps_helpers)

lemma keeps_poll_plan: "keeps I (poll_plan v cfg k er answer observed)"
proof (cases answer)
  case (Some st)
  show ?thesis
    unfolding Some poll_plan_def option.case
    by (cases "es_status st"; (cases "the (es_status st)")?)
      (auto simp: plan_success_def plan_failure_def Let_def intro!: keeps_intros)
qed (simp add: poll_plan_def keeps_lift)

lemma keeps_poll_record: "keeps I (poll_record v k tok st po target observed)"
  unfolding poll_record_def poll_transition_def reconcile_poll_act_def
  by (intro keeps_intros keeps_helpers keeps_or_canceled keeps_publish)

lemma keeps_poll_observed: "keeps I (poll_observed v cfg k r tok er answer)"
  unfolding poll_observed_def by (intro keeps_intros keeps_helpers keeps_poll_plan keeps_poll_record)

lemma keeps_claim_existing: "keeps I (claim_existing_act v cfg k statuses)"
  unfolding claim_existing_act_def by (intro keeps_intros)

lemma keeps_requeue: "keeps I (requeue_act v cfg k now)"
  unfolding requeue_act_def by (intro keeps_intros keeps_claim_existing)

lemma keeps_finalize_claimed: "keeps I (finalize_claimed v cfg k r now)"
  unfolding finalize_claimed_def finalize_success_def finalize_failure_def Let_def
  by (intro keeps_intros keeps_helpers keeps_publish)

lemma keeps_finalize_terminal: "keeps I (finalize_terminal_act v cfg k now)"
  unfolding finalize_terminal_act_def release_then_raise_def
  by (intro keeps_intros keeps_helpers keeps_claim_existing keeps_finalize_claimed)

end

end
