(* ===== verification/RunnerInvariant.thy ===== *)
theory RunnerInvariant
  imports RunnerFrame SystemLeases
begin

text \<open>
  What the runner's executor calls are subject to.  \<open>sanctioned\<close> says when a call is in order;
  \<open>runner_invariant\<close> is the contract of a world invariant that also survives every sanctioned call.
  Under it the whole scheduling round keeps the invariant: so every call it makes is sanctioned.
\<close>

section \<open>When a call is in order\<close>

text \<open>
  The attempt's row was seen with a lease that ends at least the safety margin after the call's
  timeout, by a reading of the clock that was made since step \<open>base\<close> and at most two observations
  before the call (for a submission the stored plan is read in between).
\<close>

definition leased_call ::
  "environment \<Rightarrow> runner_config \<Rightarrow> nat \<Rightarrow> run \<Rightarrow> int \<Rightarrow> nat \<Rightarrow> bool" where
  "leased_call v cfg base r timeout step =
     (\<exists>ends e n s. r_lease_expires_at r = Some ends \<and> parse_aware ends = Some e
        \<and> base \<le> n \<and> n < step \<and> step \<le> n + 2 \<and> v_clock v n = Some s
        \<and> s + timeout + c_lease_safety_margin cfg \<le> e)"

text \<open>The row is that of the call's attempt, or of the execution it names.\<close>

fun concerns :: "call \<Rightarrow> run \<Rightarrow> bool" where
  "concerns (SubmitCall k job sn expiry models providers) r = (run_key r = candidate_key k)"
| "concerns (LookupCall job sn) r = (run_key r = (sj_company_id job, sj_job_id job, sj_attempt job))"
| "concerns (PollCall er) r = (external_run_of r = Inr er)"
| "concerns (CancelCall er) r = (external_run_of r = Inr er)"

text \<open>
  A submission follows, in this order, a claim of the attempt, a complete execution check of the
  claimed job at an instant read from the clock, and a later reading of the clock (four observations
  before the call) and of the approval window that leaves time for the call; the models and providers
  it names are those of the job's stored plan.
\<close>

definition launch_checked ::
  "environment \<Rightarrow> runner_config \<Rightarrow> nat \<Rightarrow> db \<Rightarrow> db \<Rightarrow> candidate \<Rightarrow> seo_job \<Rightarrow> execution_snapshot \<Rightarrow> instant option
   \<Rightarrow> pystr list \<Rightarrow> pystr list \<Rightarrow> int \<Rightarrow> nat \<Rightarrow> bool" where
  "launch_checked v cfg base claimed d k job sn expiry models providers timeout step =
     (\<exists>checked windowed planned m t approved plan n s.
        run_of_system (v_ext v) claimed checked \<and> run_of_system (v_ext v) checked windowed
        \<and> run_of_system (v_ext v) windowed planned \<and> run_of_system (v_ext v) planned d
        \<and> base \<le> m \<and> m < n \<and> n < step \<and> step \<le> n + 4 \<and> v_clock v m = Some t \<and> v_clock v n = Some s
        \<and> resume_dispatch (v_ext v) checked (k_company_id k) t (k_job_id k) = Inr (job, sn)
        \<and> launch_approval_window (v_ext v) windowed (k_company_id k) (k_job_id k) = Inr (approved, expiry)
        \<and> (\<forall>e. expiry = Some e \<longrightarrow> s + timeout + c_approval_submission_margin cfg \<le> e)
        \<and> execution_plan_of (v_ext v) planned (k_company_id k) (k_job_id k) = Inr plan
        \<and> models = model_ids plan \<and> providers = provider_ids plan)"

definition sanctioned ::
  "environment \<Rightarrow> runner_config \<Rightarrow> nat \<Rightarrow> db \<Rightarrow> db \<Rightarrow> call \<Rightarrow> int \<Rightarrow> nat \<Rightarrow> bool" where
  "sanctioned v cfg base start d c timeout step =
     (0 < timeout \<and> timeout \<le> c_external_call_timeout cfg
      \<and> (\<exists>seen r. run_of_system (v_ext v) start seen \<and> run_of_system (v_ext v) seen d
           \<and> r \<in> set (runs seen) \<and> leased_call v cfg base r timeout step \<and> concerns c r
           \<and> (\<forall>k job sn expiry models providers. c = SubmitCall k job sn expiry models providers \<longrightarrow>
                r_lease_token r \<noteq> None
                \<and> launch_checked v cfg base seen d k job sn expiry models providers timeout step)))"

text \<open>A row as a successful claim returns it.\<close>

definition claimed_row :: "db \<Rightarrow> candidate \<Rightarrow> pystr \<Rightarrow> run \<Rightarrow> bool" where
  "claimed_row d k tok r =
     (r \<in> set (runs d) \<and> run_key r = candidate_key k \<and> r_lease_token r = Some tok)"

lemma get_run_row: "get_run d key = Inr r \<Longrightarrow> r \<in> set (runs d) \<and> run_key r = key"
  by (auto simp: get_run_def run_of_def split: option.splits dest: find_Some_in)

lemma claim_run_row:
  assumes "claim_run c k now tok ends d = Inr (Some r, d')" "schema_ok d"
  shows "claimed_row d' k tok r"
proof -
  have "get_run d' (candidate_key k) = Inr r"
    using assms(1)
    by (cases c) (auto simp: claim_existing_run_def claim_canceled_lookup_def claim_submission_def
        claim_result_def bnd_eq_Inr split: if_splits prod.splits)
  then have row: "r \<in> set (runs d')" "run_key r = candidate_key k" by (auto dest: get_run_row)
  with claim_run_grants [OF assms(2,1)] show ?thesis
    by (auto simp: claimed_row_def leased_until_def list_all_iff rows_in_runs)
qed

text \<open>A claim for a canceled lookup finds the job canceled, in the attempt that is claimed.\<close>

lemma claim_lookup_job:
  assumes "claim_canceled_lookup k tok ends now d = Inr (Some r, d')"
  shows "\<exists>j \<in> set (jobs d'). job_key j = candidate_key k \<and> j_state j = ''CANCELED''"
proof -
  obtain n where n: "update_runs
           (\<lambda>r. at_run k r \<and> r_external_run_id r = None \<and> r_external_status r = None
              \<and> claimable now tok r
              \<and> job_exists d (\<lambda>j. job_key j = run_key r \<and> j_state j = ''CANCELED''
                   \<and> j_current_stage j = Some ''dispatching'' \<and> j_superseded_by_job_id j = None))
           (lease tok ends now) d = Inr (d', n)" "n \<noteq> 0"
    using assms by (auto simp: claim_canceled_lookup_def claim_result_def bnd_eq_Inr split: if_splits)
  from update_runs_result [OF n(1)] n(2) obtain q where
    "at_run k q" "job_exists d (\<lambda>j. job_key j = run_key q \<and> j_state j = ''CANCELED''
       \<and> j_current_stage j = Some ''dispatching'' \<and> j_superseded_by_job_id j = None)"
    by (auto simp: filter_empty_conv)
  moreover have "jobs d' = jobs d" using update_runs_result(1) [OF n(1)] by simp
  ultimately show ?thesis by (auto simp: job_exists_def list_ex_iff at_run_key)
qed

text \<open>The identity a recovery service returns is that of the stored job.\<close>

lemma recovered_identity:
  assumes "recover_dispatch_identity x d c k = Inr (sj, sn) \<or> recover_canceled_dispatch x d c k = Inr (sj, sn)"
  obtains j where "j \<in> set (jobs d)" "j_company_id j = c" "j_job_id j = k"
    "sj_company_id sj = c" "sj_job_id sj = k" "sj_attempt sj = j_attempt j"
proof -
  from assms obtain j where "get_job d c k = Inr j" "execution_identity x d c j None = Inr (sj, sn)"
    by (auto simp: recover_dispatch_identity_def recover_canceled_dispatch_def bnd_eq_Inr split: if_splits)
  moreover from this(2) have "sj_attempt sj = j_attempt j" "sj_company_id sj = j_company_id j" "sj_job_id sj = j_job_id j"
    by (auto elim: execution_identity_Inr)
  moreover from get_job_Inr [OF \<open>get_job d c k = Inr j\<close>]
  have "j \<in> set (jobs d)" "j_company_id j = c" "j_job_id j = k" by simp_all
  ultimately show ?thesis using that by simp
qed

section \<open>Invariants that survive sanctioned calls\<close>

locale runner_invariant = world_invariant v I
  for v :: environment and cfg :: runner_config and base :: nat and start :: db and I :: "world \<Rightarrow> bool" +
  assumes schema: "I w \<Longrightarrow> schema_ok start"
    and anchored: "I w \<Longrightarrow> run_of_system (v_ext v) start (w_db w)"
    and started: "I w \<Longrightarrow> base \<le> w_step w"
    and call_step: "I w \<Longrightarrow> sanctioned v cfg base start (w_db w) c timeout (w_step w) \<Longrightarrow> I (logged c timeout w)"
begin

text \<open>
  An invariant may remember a past state of the database (\<open>past\<close>), together with the current step
  (\<open>past_at\<close>) or with a step that is over (\<open>past_after\<close>).
\<close>

definition past :: "db \<Rightarrow> world \<Rightarrow> bool" where
  "past p w = (I w \<and> run_of_system (v_ext v) start p \<and> run_of_system (v_ext v) p (w_db w))"

definition past_at :: "db \<Rightarrow> nat \<Rightarrow> world \<Rightarrow> bool" where
  "past_at p n w = (past p w \<and> w_step w = n)"

definition past_after :: "db \<Rightarrow> nat \<Rightarrow> world \<Rightarrow> bool" where
  "past_after p m w = (past p w \<and> m < w_step w)"

lemma past_world: "world_invariant v (past p)"
proof
  fix w d n assume "past p w" "run_of_system (v_ext v) (w_db w) d" "w_step w \<le> n"
  then show "past p (w\<lparr>w_db := d, w_step := n\<rparr>)"
    using db_step system_trans by (auto simp: past_def)
qed

lemma past_after_world: "world_invariant v (past_after p m)"
proof
  fix w d n assume "past_after p m w" "run_of_system (v_ext v) (w_db w) d" "w_step w \<le> n"
  then show "past_after p m (w\<lparr>w_db := d, w_step := n\<rparr>)"
    using world_invariant.db_step [OF past_world, of p w d n] by (auto simp: past_after_def)
qed

lemma past_now: "I w \<Longrightarrow> past (w_db w) w"
  using anchored by (simp add: past_def system_refl)

lemma pastD: "past p w \<Longrightarrow> I w"
  by (simp add: past_def)

lemma past_afterD: "past_after p m w \<Longrightarrow> past p w" "past_after p m w \<Longrightarrow> I w"
  by (simp_all add: past_after_def past_def)

lemma yields_at: "(\<And>n. yields I (past_at p n) m Q) \<Longrightarrow> yields I (past p) m Q"
  by (auto simp: yields_def past_at_def)

lemma yields_after: "(\<And>n. k < n \<Longrightarrow> yields I (past_at p n) m Q) \<Longrightarrow> yields I (past_after p k) m Q"
  by (auto simp: yields_def past_at_def past_after_def)

lemma schema_now: "I w \<Longrightarrow> schema_ok (w_db w)"
  using run_safe [OF anchored] schema unfolding safe_step_def by blast

lemma past_schema: "past p w \<Longrightarrow> schema_ok p"
  using run_safe [of "v_ext v" start p] schema unfolding past_def safe_step_def by blast

text \<open>One access: the value was computed on the state before the operation, which is in the past.\<close>

lemma yields_service:
  assumes "serves (v_ext v) op"
  shows "yields I I (service v op) (\<lambda>a w. I w \<and> (\<exists>d. op d = (Inr a, w_db w) \<and> past d w))"
  unfolding yields_def
proof (intro allI impI)
  fix w assume I: "I w"
  let ?d = "others v (w_step w) (w_db w)"
  have there: "I (w\<lparr>w_db := ?d, w_step := Suc (w_step w)\<rparr>)" by (rule db_step [OF I others_run]) simp
  have op: "run_of_system (v_ext v) ?d (snd (op ?d))" using assms by (simp add: serves_def)
  have "I (w\<lparr>w_db := snd (op ?d), w_step := Suc (w_step w)\<rparr>)"
    by (rule db_step [OF I system_trans [OF others_run op]]) simp
  moreover have "run_of_system (v_ext v) start ?d"
    using anchored [OF I] others_run system_trans by blast
  moreover obtain r d' where "op ?d = (r, d')" by fastforce
  ultimately show "post I (\<lambda>a w. I w \<and> (\<exists>d. op d = (Inr a, w_db w) \<and> past d w)) (service v op w)"
    using there op
    by (cases "v_db_error v (w_step w)"; cases r)
      (auto simp: service_def Let_def stepped_def past_def)
qed

lemma yields_reading:
  "yields I I (reading v f) (\<lambda>a w. I w \<and> f (w_db w) = Inr a \<and> past (w_db w) w)"
  unfolding reading_def
  by (rule yields_post [OF yields_service [OF serves_reading]]) auto

section \<open>Remembering the past\<close>

lemma keeps_within:
  assumes "keeps K m" "\<And>w. K w \<Longrightarrow> I w"
  shows "yields I K m (\<lambda>a. K)"
  using assms by (auto simp: keeps_def yields_def post_def split: sum.splits)

lemma past_keeps:
  assumes "\<And>J. world_invariant v J \<Longrightarrow> keeps J m"
  shows "yields I (past p) m (\<lambda>a. past p)"
  by (rule keeps_within [OF assms [OF past_world] pastD])

lemma past_after_keeps:
  assumes "\<And>J. world_invariant v J \<Longrightarrow> keeps J m"
  shows "yields I (past_after p k) m (\<lambda>a. past_after p k)"
  by (rule keeps_within [OF assms [OF past_after_world] past_afterD(2)])

lemma drop_past: "keeps I m \<Longrightarrow> yields I (past p) m (\<lambda>a. I)"
  unfolding keeps_iff_yields by (erule yields_pre) (rule pastD)

lemma drop_past_at: "keeps I m \<Longrightarrow> yields I (past_at p n) m (\<lambda>a. I)"
  using drop_past by (auto simp: yields_def past_at_def)

lemma drop_past_after: "keeps I m \<Longrightarrow> yields I (past_after p n) m (\<lambda>a. I)"
  using drop_past by (auto simp: yields_def past_after_def)

lemma past_mono: "past q w \<Longrightarrow> run_of_system (v_ext v) p q \<Longrightarrow> run_of_system (v_ext v) start p \<Longrightarrow> past p w"
  using system_trans by (auto simp: past_def)

lemma yields_service_at:
  assumes "serves (v_ext v) op" "run_of_system (v_ext v) start p"
  shows "yields I (past_at p n) (service v op)
    (\<lambda>a w. \<exists>d q. past_at q (Suc n) w \<and> op d = (Inr a, q) \<and> run_of_system (v_ext v) p d \<and> run_of_system (v_ext v) d q)"
  unfolding yields_def
proof (intro allI impI)
  fix w assume at: "past_at p n w"
  then have P: "past p w" and n: "w_step w = n" by (simp_all add: past_at_def)
  let ?d = "others v (w_step w) (w_db w)"
  obtain r d' where op: "op ?d = (r, d')" by fastforce
  have runs: "run_of_system (v_ext v) start p" "run_of_system (v_ext v) p ?d" "run_of_system (v_ext v) ?d d'"
    using P assms others_run system_trans op by (auto simp: past_def serves_def dest: spec [of _ ?d])
  have "I (w\<lparr>w_db := ?d, w_step := Suc (w_step w)\<rparr>)" "I (w\<lparr>w_db := d', w_step := Suc (w_step w)\<rparr>)"
    using db_step [OF pastD [OF P], of _ "Suc (w_step w)"] others_run runs(3) system_trans by (simp, metis le_SucI le_refl)
  then have "past_at d' (Suc n) (w\<lparr>w_db := d', w_step := Suc (w_step w)\<rparr>)"
    using runs system_trans [OF runs(1) system_trans [OF runs(2,3)]] n by (simp add: past_at_def past_def system_refl)
  with \<open>I (w\<lparr>w_db := ?d, w_step := Suc (w_step w)\<rparr>)\<close> \<open>I (w\<lparr>w_db := d', w_step := Suc (w_step w)\<rparr>)\<close>
  show "post I (\<lambda>a w. \<exists>d q. past_at q (Suc n) w \<and> op d = (Inr a, q) \<and> run_of_system (v_ext v) p d
      \<and> run_of_system (v_ext v) d q) (service v op w)"
    using op runs
    by (cases "v_db_error v (w_step w)"; cases r) (auto simp: service_def stepped_def Let_def)
qed

lemma yields_reading_at:
  assumes "run_of_system (v_ext v) start p"
  shows "yields I (past_at p n) (reading v f)
    (\<lambda>a w. \<exists>q. past_at q (Suc n) w \<and> f q = Inr a \<and> run_of_system (v_ext v) p q)"
  unfolding reading_def
  by (rule yields_post [OF yields_service_at [OF serves_reading assms]]) blast

lemma yields_past_reading:
  assumes "run_of_system (v_ext v) start p"
  shows "yields I (past p) (reading v f) (\<lambda>a w. \<exists>q. past q w \<and> f q = Inr a \<and> run_of_system (v_ext v) p q)"
  by (rule yields_at, rule yields_post [OF yields_reading_at [OF assms]]) (auto simp: past_at_def)

lemma yields_after_reading:
  assumes "run_of_system (v_ext v) start p"
  shows "yields I (past_after p k) (reading v f)
    (\<lambda>a w. \<exists>q. past_after q k w \<and> f q = Inr a \<and> run_of_system (v_ext v) p q)"
  by (rule yields_after, rule yields_post [OF yields_reading_at [OF assms]]) (auto simp: past_at_def past_after_def)

lemma yields_some: "(\<And>q. yields I (P q) m R) \<Longrightarrow> yields I (\<lambda>w. \<exists>q. P q w) m R"
  by (auto simp: yields_def)

lemma yields_given: "(F \<Longrightarrow> yields I P m R) \<Longrightarrow> yields I (\<lambda>w. P w \<and> F) m R"
  by (auto simp: yields_def)

lemma yields_now_at:
  "yields I (past_at p n) (now_act v) (\<lambda>t w. past_at p (Suc n) w \<and> base \<le> n \<and> v_clock v n = Some t)"
  unfolding yields_def
proof (intro allI impI)
  fix w assume at: "past_at p n w"
  then have P: "past p w" and n: "w_step w = n" by (simp_all add: past_at_def)
  have "past p (stepped w)" by (rule world_invariant.stepped_I [OF past_world P])
  then have "past_at p (Suc n) (stepped w)" using n by (simp add: past_at_def stepped_def)
  moreover have "base \<le> n" using started [OF pastD [OF P]] n by simp
  ultimately show "post I (\<lambda>t w. past_at p (Suc n) w \<and> base \<le> n \<and> v_clock v n = Some t) (now_act v w)"
    using pastD [OF \<open>past p (stepped w)\<close>] n
    by (cases "aware_utc (v_clock v (w_step w))")
      (auto simp: now_act_def observe_def aware_utc_def split: option.splits if_splits)
qed

section \<open>Actions that call the executor\<close>

lemma raise_at: "yields I (past_at p n) (raise e) Q"
  by (rule yields_raise) (auto simp: past_at_def past_def)

text \<open>What a timeout computed at step \<open>n\<close> is good for: a call at one of the next two steps.\<close>

definition timely :: "run \<Rightarrow> nat \<Rightarrow> int \<Rightarrow> bool" where
  "timely r n timeout =
     ((timeout \<noteq> 0 \<or> c_external_call_timeout cfg = 0)
      \<and> (\<forall>t step. t \<le> timeout \<longrightarrow> n < step \<longrightarrow> step \<le> n + 2 \<longrightarrow> leased_call v cfg base r t step))"

lemma yields_lease_timeout_at:
  "yields I (past_at p n) (lease_call_timeout v cfg r) (\<lambda>timeout w. past_at p (Suc n) w \<and> timely r n timeout)"
proof (cases "r_lease_expires_at r")
  case None
  then show ?thesis by (simp add: lease_call_timeout_def raise_at)
next
  case (Some ends)
  show ?thesis
  proof (cases "parse_aware ends")
    case None
    then show ?thesis by (simp add: lease_call_timeout_def Some aware_text_def raise_at)
  next
    case (Some e)
    let ?f = "\<lambda>now. let available = e - now - c_lease_safety_margin cfg in
         if available \<le> 0 then raise TimeoutError else ret (min (c_external_call_timeout cfg) available)"
    have act: "lease_call_timeout v cfg r = andthen (now_act v) ?f"
      using \<open>r_lease_expires_at r = Some ends\<close> Some by (simp add: lease_call_timeout_def aware_text_def)
    have go: "yields I (past_at p (Suc n)) (?f now) (\<lambda>timeout w. past_at p (Suc n) w \<and> timely r n timeout)"
      if now: "base \<le> n \<and> v_clock v n = Some now" for now
    proof (cases "e - now - c_lease_safety_margin cfg \<le> 0")
      case True
      then show ?thesis by (simp add: Let_def raise_at)
    next
      case False
      have "leased_call v cfg base r t step"
        if "t \<le> min (c_external_call_timeout cfg) (e - now - c_lease_safety_margin cfg)" "n < step" "step \<le> n + 2" for t step
        unfolding leased_call_def
        using \<open>r_lease_expires_at r = Some ends\<close> Some now that
        by (intro exI [of _ ends] exI [of _ e] exI [of _ n] exI [of _ now]) simp
      with False show ?thesis
        by (auto simp: Let_def timely_def min_def intro!: yields_ret)
    qed
    show ?thesis unfolding act by (rule yields_andthen [OF yields_now_at], rule yields_given, rule go)
  qed
qed

text \<open>The one place where a call is made.\<close>

lemma yields_external_call:
  assumes "timeout \<noteq> 0 \<or> c_external_call_timeout cfg = 0"
    and "\<And>w. past p w \<Longrightarrow> 0 < timeout \<Longrightarrow> timeout \<le> c_external_call_timeout cfg
      \<Longrightarrow> sanctioned v cfg base start (w_db w) c timeout n"
  shows "yields I (past_at p n) (external_call cfg timeout c reply) (\<lambda>a. I)"
  unfolding yields_def
proof (intro allI impI)
  fix w assume at: "past_at p n w"
  then have P: "past p w" and n: "w_step w = n" by (simp_all add: past_at_def)
  let ?sel = "if timeout = 0 then c_external_call_timeout cfg else timeout"
  show "post I (\<lambda>a. I) (external_call cfg timeout c reply w)"
  proof (cases "?sel \<le> 0 \<or> c_external_call_timeout cfg < ?sel")
    case True
    then show ?thesis using P by (simp add: external_call_def Let_def pastD)
  next
    case False
    with assms(1) have "?sel = timeout" by auto
    with False assms(2) [OF P] n have "I (stepped (logged c timeout w))"
      by (intro stepped_I call_step [OF pastD [OF P]]) auto
    with False \<open>?sel = timeout\<close> show ?thesis
      by (simp add: external_call_def post_def split: sum.split)
  qed
qed

text \<open>A call under the lease of a row that was seen.\<close>

lemma sanctioned_plain:
  assumes "past p w" "r \<in> set (runs p)" "leased_call v cfg base r timeout step" "concerns c r"
    and "0 < timeout" "timeout \<le> c_external_call_timeout cfg"
    and "\<And>k job sn expiry models providers. c \<noteq> SubmitCall k job sn expiry models providers"
  shows "sanctioned v cfg base start (w_db w) c timeout step"
  unfolding sanctioned_def using assms by (auto simp: past_def)

lemma yields_leased_call:
  assumes "r \<in> set (runs p)" "concerns c r"
    and "\<And>k job sn expiry models providers. c \<noteq> SubmitCall k job sn expiry models providers"
    and "\<And>a. keeps I (f a)"
  shows "yields I (past p) (andthen (lease_call_timeout v cfg r)
      (\<lambda>timeout. andthen (external_call cfg timeout c reply) f)) (\<lambda>a. I)"
proof (rule yields_at, rule yields_andthen [OF yields_lease_timeout_at], rule yields_given)
  fix n timeout
  assume t: "timely r n timeout"
  then have lease: "leased_call v cfg base r timeout (Suc n)" by (simp add: timely_def)
  show "yields I (past_at p (Suc n)) (andthen (external_call cfg timeout c reply) f) (\<lambda>a. I)"
  proof (rule yields_andthen)
    show "yields I (past_at p (Suc n)) (external_call cfg timeout c reply) (\<lambda>a. I)"
      by (rule yields_external_call)
        (use t lease sanctioned_plain [OF _ assms(1) _ assms(2) _ _ assms(3)] in \<open>auto simp: timely_def\<close>)
  qed (use assms(4) in \<open>simp add: keeps_iff_yields\<close>)
qed

lemma yields_attempt_keeps:
  "yields I P m (\<lambda>a. I) \<Longrightarrow> (\<And>r. keeps I (f r)) \<Longrightarrow> yields I P (attempt m f) (\<lambda>a. I)"
  by (erule yields_attempt) (simp_all add: keeps_iff_yields)

lemma andthen_ret: "andthen m ret = m"
  by (rule ext) (auto simp: andthen_def lift_def split: prod.split sum.split)

lemma yields_lookup:
  assumes "r \<in> set (runs p)" "run_key r = (sj_company_id job, sj_job_id job, sj_attempt job)"
  shows "yields I (past p) (lookup_act v cfg r job sn) (\<lambda>a. I)"
  unfolding lookup_act_def by (rule yields_leased_call [OF assms(1)]) (simp_all add: assms(2), intro keeps_intros)

lemma yields_cancel_call:
  assumes "r \<in> set (runs p)" "external_run_of r = Inr er"
  shows "yields I (past p) (cancel_call v cfg k tok r er) (\<lambda>a. I)"
  unfolding cancel_call_def
  by (rule yields_attempt_keeps, rule yields_leased_call [OF assms(1)])
    (use assms(2) in \<open>simp_all\<close>,
      intro keeps_intros keeps_helpers keeps_executor_error keeps_cancel_confirmed keeps_cancel_failed,
      intro keeps_intros keeps_helpers keeps_executor_error keeps_cancel_confirmed keeps_cancel_failed)

lemma yields_poll_call:
  assumes "r \<in> set (runs p)" "external_run_of r = Inr er"
  shows "yields I (past p) (poll_call v cfg k r tok er) (\<lambda>a. I)"
proof -
  have "yields I (past p) (andthen (lease_call_timeout v cfg r) (\<lambda>timeout.
      external_call cfg timeout (PollCall er) (\<lambda>n. v_poll v n er))) (\<lambda>a. I)"
    using yields_leased_call [OF assms(1), of "PollCall er" ret "\<lambda>n. v_poll v n er"] assms(2)
    by (simp add: andthen_ret keeps_lift)
  then show ?thesis
    unfolding poll_call_def
    by (intro yields_attempt_keeps, assumption)
      (intro keeps_intros keeps_helpers keeps_executor_error keeps_poll_observed keeps_poll_failed,
       intro keeps_intros keeps_helpers keeps_executor_error keeps_poll_observed keeps_poll_failed)
qed

section \<open>Claims\<close>

lemma yields_claim:
  "yields I I (commit_act v (claim_run c k now tok ends))
     (\<lambda>a w. I w \<and> (\<forall>r. a = Some r \<longrightarrow>
        (\<exists>q d. past q w \<and> claimed_row q k tok r \<and> claim_run c k now tok ends d = Inr (a, q))))"
  unfolding commit_act_def
proof (rule yields_post [OF yields_service])
  show "serves (v_ext v) (transaction (claim_run c k now tok ends))"
    by (rule served [of _ "Claim c k now tok ends"]) (simp add: commit_def)
next
  fix a w
  assume "I w \<and> (\<exists>d. transaction (claim_run c k now tok ends) d = (Inr a, w_db w) \<and> past d w)"
  then obtain d where d: "I w" "transaction (claim_run c k now tok ends) d = (Inr a, w_db w)" "past d w" by blast
  then have "schema_ok d" using run_safe schema unfolding past_def safe_step_def by blast
  moreover have "claim_run c k now tok ends d = Inr (a, w_db w)"
    using d(2) by (auto simp: transaction_def split: sum.splits)
  ultimately show "I w \<and> (\<forall>r. a = Some r \<longrightarrow>
      (\<exists>q d. past q w \<and> claimed_row q k tok r \<and> claim_run c k now tok ends d = Inr (a, q)))"
    using claim_run_row past_now [OF d(1)] d(1) by blast
qed

lemma claims_yield:
  assumes "body = claim_run c k (isoformat now) tok (isoformat ends)"
  shows "yields I I (andthen (commit_act v body) (\<lambda>claimed. ret (map_option (\<lambda>r. (r, tok)) claimed)))
    (\<lambda>a w. I w \<and> (\<forall>r tok. a = Some (r, tok) \<longrightarrow> (\<exists>q. past q w \<and> claimed_row q k tok r)))"
  unfolding assms by (rule yields_andthen [OF yields_claim], rule yields_ret) fastforce

lemma yields_from_keeps: "keeps I m \<Longrightarrow> (\<And>a. yields I I (f a) Q) \<Longrightarrow> yields I I (andthen m f) Q"
  by (rule yields_andthen) (simp_all add: keeps_iff_yields)

lemma yields_claim_existing:
  "yields I I (claim_existing_act v cfg k statuses)
     (\<lambda>a w. I w \<and> (\<forall>r tok. a = Some (r, tok) \<longrightarrow> (\<exists>q. past q w \<and> claimed_row q k tok r)))"
  unfolding claim_existing_act_def
  by (intro yields_from_keeps keeps_intros claims_yield [where c = "ExistingRun statuses"])
    (simp add: operation_functions)

lemma yields_claim_submission:
  "yields I I (claim_submission_act v cfg k key)
     (\<lambda>a w. I w \<and> (\<forall>r tok. a = Some (r, tok) \<longrightarrow> (\<exists>q. past q w \<and> claimed_row q k tok r)))"
  unfolding claim_submission_act_def
  by (intro yields_from_keeps keeps_intros claims_yield [where c = "Submission key (c_executor_name cfg)"])
    (simp add: operation_functions)

text \<open>Going on with a claimed row, or without one.\<close>

lemma keeps_claimed:
  assumes "yields I I m (\<lambda>a w. I w \<and> (\<forall>r tok. a = Some (r, tok) \<longrightarrow> (\<exists>q. past q w \<and> claimed_row q k tok r)))"
    and "\<And>r tok q. claimed_row q k tok r \<Longrightarrow> run_of_system (v_ext v) start q
      \<Longrightarrow> yields I (past q) (f (Some (r, tok))) (\<lambda>b. I)"
    and "keeps I (f None)"
  shows "keeps I (andthen m f)"
  unfolding keeps_iff_yields
proof (rule yields_andthen [OF assms(1)])
  fix a
  show "yields I (\<lambda>w. I w \<and> (\<forall>r tok. a = Some (r, tok) \<longrightarrow> (\<exists>q. past q w \<and> claimed_row q k tok r))) (f a) (\<lambda>b. I)"
  proof (cases a)
    case None
    then show ?thesis using assms(3) by (simp add: keeps_iff_yields)
  next
    case (Some c)
    obtain r tok where c: "c = (r, tok)" by fastforce
    have "yields I (\<lambda>w. \<exists>q. past q w \<and> claimed_row q k tok r) (f a) (\<lambda>b. I)"
      using assms(2) unfolding Some c yields_def by (metis past_def)
    then show ?thesis unfolding Some c by (rule yields_pre) auto
  qed
qed

lemma claimed_in: "claimed_row q k tok r \<Longrightarrow> r \<in> set (runs q)"
  by (simp add: claimed_row_def)

text \<open>What a reading returns holds of some state of the database.\<close>

lemma keeps_attempt_reading:
  assumes "\<And>d a. f d = Inr a \<Longrightarrow> keeps I (g (Inr a))" "\<And>e. keeps I (g (Inl e))"
  shows "keeps I (attempt (reading v f) g)"
  unfolding keeps_iff_yields
proof (rule yields_attempt [OF yields_reading])
  fix a
  show "yields I (\<lambda>w. I w \<and> f (w_db w) = Inr a \<and> past (w_db w) w) (g (Inr a)) (\<lambda>b. I)"
    unfolding yields_def
  proof (intro allI impI, elim conjE)
    fix w assume "I w" "f (w_db w) = Inr a"
    from yieldsD [OF assms(1) [OF this(2), unfolded keeps_iff_yields] this(1)]
    show "post I (\<lambda>b. I) (g (Inr a) w)" .
  qed
qed (use assms(2) in \<open>simp add: keeps_iff_yields\<close>)

lemma recovered_key:
  assumes "recover_dispatch_identity x d (k_company_id k) (k_job_id k) = Inr (job, sn)"
    and "sj_attempt job = k_attempt k"
  shows "candidate_key k = (sj_company_id job, sj_job_id job, sj_attempt job)"
proof (rule recovered_identity [OF disjI1 [OF assms(1)]])
  fix j assume "sj_company_id job = k_company_id k" "sj_job_id job = k_job_id k"
  with assms(2) show ?thesis by (simp add: candidate_key_def)
qed

lemma keeps_recover_lookup:
  assumes "candidate_key k = (sj_company_id job, sj_job_id job, sj_attempt job)"
  shows "keeps I (andthen (claim_submission_act v cfg k (submission_idempotency_key job)) (\<lambda>claimed.
          (case claimed of
             None \<Rightarrow> ret False
           | Some (run, tok) \<Rightarrow>
               attempt (lookup_act v cfg run job snapshot) (\<lambda>r.
               (case r of
                  Inl e \<Rightarrow>
                    andthen (now_act v) (mark_claimed_act v k tok ''APPROVAL_EXPIRED_LOOKUP_FAILED''
                      ''expired approval prevents dispatch replay; lookup requires reconciliation'')
                | Inr (er, accepted) \<Rightarrow> recover_accepted v cfg k run tok er accepted)))))"
proof (rule keeps_claimed [OF yields_claim_submission])
  fix r tok q assume r: "claimed_row q k tok r"
  have "yields I (past q) (lookup_act v cfg r job snapshot) (\<lambda>a. I)"
    using r assms by (intro yields_lookup) (simp_all add: claimed_row_def)
  then show "yields I (past q) (case Some (r, tok) of None \<Rightarrow> ret False
      | Some (run, tok) \<Rightarrow> attempt (lookup_act v cfg run job snapshot) (\<lambda>r. case r of
          Inl e \<Rightarrow> andthen (now_act v) (mark_claimed_act v k tok ''APPROVAL_EXPIRED_LOOKUP_FAILED''
             ''expired approval prevents dispatch replay; lookup requires reconciliation'')
        | Inr (er, accepted) \<Rightarrow> recover_accepted v cfg k run tok er accepted)) (\<lambda>b. I)"
    by (simp, intro yields_attempt_keeps keeps_intros keeps_helpers keeps_recover_accepted)
qed (simp add: keeps_lift)

lemma keeps_recover_dispatch: "keeps I (recover_dispatch_act v cfg k now)"
  unfolding recover_dispatch_act_def
proof (rule keeps_attempt_reading, goal_cases)
  case (1 d u)
  obtain job sn where u: "u = (job, sn)" by fastforce
  show ?case
  proof (cases "sj_attempt job \<noteq> k_attempt k \<or> sj_state job \<noteq> RUNNING")
    case True
    then show ?thesis by (simp add: u keeps_lift)
  next
    case False
    then have "keeps I (andthen (claim_submission_act v cfg k (submission_idempotency_key job)) (\<lambda>claimed.
          (case claimed of
             None \<Rightarrow> ret False
           | Some (run, tok) \<Rightarrow>
               attempt (lookup_act v cfg run job sn) (\<lambda>r.
               (case r of
                  Inl e \<Rightarrow>
                    andthen (now_act v) (mark_claimed_act v k tok ''APPROVAL_EXPIRED_LOOKUP_FAILED''
                      ''expired approval prevents dispatch replay; lookup requires reconciliation'')
                | Inr (er, accepted) \<Rightarrow> recover_accepted v cfg k run tok er accepted)))))"
      using recovered_key [OF 1 [unfolded u]] by (intro keeps_recover_lookup) blast
    then show ?thesis
      unfolding u sum.case prod.case if_not_P [OF False]
      by (intro keeps_andthen [OF keeps_identity] keeps_if keeps_commits)
  qed
next
  case (2 e)
  show ?case unfolding sum.case by (intro keeps_intros)
qed

lemma yields_claim_lookup:
  "yields I I (commit_act v (claim_canceled_lookup k tok ends now))
     (\<lambda>a w. I w \<and> (\<forall>r. a = Some r \<longrightarrow> (\<exists>q. past q w \<and> claimed_row q k tok r
        \<and> (\<exists>j \<in> set (jobs q). job_key j = candidate_key k \<and> j_state j = ''CANCELED''))))"
proof (rule yields_post)
  show "yields I I (commit_act v (claim_canceled_lookup k tok ends now)) (\<lambda>a w. I w \<and> (\<forall>r. a = Some r \<longrightarrow>
      (\<exists>q d. past q w \<and> claimed_row q k tok r \<and> claim_canceled_lookup k tok ends now d = Inr (a, q))))"
    using yields_claim [of CanceledLookup k now tok ends] by (simp add: operation_functions)
qed (blast dest: claim_lookup_job)

lemma canceled_key:
  assumes "claimed_row q k tok r" "schema_ok q" "run_of_system (v_ext v) q d"
    and "j \<in> set (jobs q)" "job_key j = candidate_key k" "j_state j = ''CANCELED''"
    and "recover_canceled_dispatch (v_ext v) d (k_company_id k) (k_job_id k) = Inr (job, sn)"
  shows "run_key r = (sj_company_id job, sj_job_id job, sj_attempt job)"
proof -
  obtain i where i: "i \<in> set (jobs d)" "j_job_id i = k_job_id k" "sj_company_id job = k_company_id k"
    "sj_job_id job = k_job_id k" "sj_attempt job = j_attempt i"
    by (rule recovered_identity [OF disjI2 [OF assms(7)]])
  have j: "j_job_id j = k_job_id k" "j_attempt j = k_attempt k"
    using assms(5) by (simp_all add: job_key_def candidate_key_def)
  from canceled_attempt_stays [OF assms(3,2,4,6) i(1)] i j assms(1) show ?thesis
    by (simp add: claimed_row_def candidate_key_def)
qed

lemma yields_canceled_lookup:
  assumes "claimed_row q k tok r" "schema_ok q" "run_of_system (v_ext v) start q"
    and "j \<in> set (jobs q)" "job_key j = candidate_key k" "j_state j = ''CANCELED''"
  shows "yields I (past q)
    (andthen (reading v (\<lambda>d. recover_canceled_dispatch (v_ext v) d (k_company_id k) (k_job_id k)))
      (\<lambda>(job, sn). andthen (executor_identity_still_matches v cfg k) (\<lambda>b.
        if \<not> b then raise e else lookup_act v cfg r job sn))) (\<lambda>a. I)"
proof (rule yields_andthen [OF yields_past_reading [OF assms(3)]], rule yields_some, rule yields_given)
  fix u d
  assume d: "recover_canceled_dispatch (v_ext v) d (k_company_id k) (k_job_id k) = Inr u
    \<and> run_of_system (v_ext v) q d"
  obtain job sn where u: "u = (job, sn)" by fastforce
  have key: "run_key r = (sj_company_id job, sj_job_id job, sj_attempt job)"
    using canceled_key [OF assms(1,2) _ assms(4-6)] d u by blast
  have "r \<in> set (runs q)" using assms(1) by (simp add: claimed_row_def)
  then have "yields I (past q) (andthen (executor_identity_still_matches v cfg k) (\<lambda>b.
        if \<not> b then raise e else lookup_act v cfg r job sn)) (\<lambda>a. I)"
    using yields_lookup [OF _ key]
    by (intro yields_andthen [OF past_keeps [OF world_invariant.keeps_identity]]) (auto intro: yields_raise pastD)
  then show "yields I (past d) (case u of (job, sn) \<Rightarrow> andthen (executor_identity_still_matches v cfg k)
      (\<lambda>b. if \<not> b then raise e else lookup_act v cfg r job sn)) (\<lambda>a. I)"
    unfolding u prod.case by (rule yields_pre) (use d assms(3) in \<open>auto intro: past_mono\<close>)
qed

lemma keeps_cancel_lookup: "keeps I (cancel_lookup v cfg k)"
  unfolding cancel_lookup_def
proof (intro keeps_andthen [OF keeps_now] keeps_andthen [OF keeps_token] keeps_andthen [OF keeps_lift])
  fix claim_now tok ends
  let ?rest = "\<lambda>r. attempt
            (andthen (reading v (\<lambda>d. recover_canceled_dispatch (v_ext v) d (k_company_id k) (k_job_id k)))
              (\<lambda>(job, snapshot).
             andthen (executor_identity_still_matches v cfg k) (\<lambda>same.
               if \<not> same then raise DataIntegrityError else lookup_act v cfg r job snapshot)))
            (\<lambda>u. case u of
               Inl e \<Rightarrow> andthen (now_act v) (mark_lookup_act v k tok ''EXTERNAL_RUN_LOOKUP_FAILED''
                   ''external run lookup requires reconciliation'')
             | Inr (er, accepted) \<Rightarrow> cancel_looked_up v cfg k r tok er accepted)"
  let ?known = "\<lambda>q r. claimed_row q k tok r \<and> (\<exists>j \<in> set (jobs q). job_key j = candidate_key k \<and> j_state j = ''CANCELED'')"
  have rest: "yields I (past q) (?rest r) (\<lambda>a. I)"
    if "?known q r" "run_of_system (v_ext v) start q" "schema_ok q" for r q
    by (rule yields_attempt_keeps)
      (use that in \<open>auto intro!: keeps_intros keeps_helpers keeps_cancel_looked_up yields_canceled_lookup\<close>)
  show "keeps I (andthen (commit_act v (claim_canceled_lookup k tok (isoformat ends) (isoformat claim_now)))
      (\<lambda>claimed. case claimed of None \<Rightarrow> ret False | Some r \<Rightarrow> ?rest r))"
    unfolding keeps_iff_yields
  proof (rule yields_andthen [OF yields_claim_lookup])
    fix a
    show "yields I (\<lambda>w. I w \<and> (\<forall>r. a = Some r \<longrightarrow> (\<exists>q. past q w \<and> ?known q r)))
        (case a of None \<Rightarrow> ret False | Some r \<Rightarrow> ?rest r) (\<lambda>a. I)"
    proof (cases a)
      case None
      then show ?thesis by (simp add: yields_ret)
    next
      case (Some r)
      have "yields I (\<lambda>w. \<exists>q. past q w \<and> ?known q r) (?rest r) (\<lambda>a. I)"
      proof (rule yields_some)
        fix q
        have "yields I (\<lambda>w. past q w \<and> (?known q r \<and> run_of_system (v_ext v) start q \<and> schema_ok q)) (?rest r) (\<lambda>a. I)"
          by (rule yields_given) (use rest in blast)
        then show "yields I (\<lambda>w. past q w \<and> ?known q r) (?rest r) (\<lambda>a. I)"
          by (rule yields_pre) (auto simp: past_schema, auto simp: past_def)
      qed
      then show ?thesis unfolding Some by (simp add: yields_def)
    qed
  qed
qed

lemma yields_andthen_past:
  assumes "\<And>J. world_invariant v J \<Longrightarrow> keeps J m"
    and "\<And>a. yields I (past p) (f a) (\<lambda>b. I)"
  shows "yields I (past p) (andthen m f) (\<lambda>b. I)"
  by (rule yields_andthen [OF past_keeps [OF assms(1)] assms(2)])

lemma yields_attempt_past:
  assumes "\<And>J. world_invariant v J \<Longrightarrow> keeps J m"
    and "\<And>a. yields I (past p) (f (Inr a)) (\<lambda>b. I)" "\<And>e. keeps I (f (Inl e))"
  shows "yields I (past p) (attempt m f) (\<lambda>b. I)"
proof (rule yields_attempt)
  show "yields I (past p) m (\<lambda>a. past p)" by (rule past_keeps) (rule assms(1))
qed (use assms(2,3) in \<open>auto simp: keeps_iff_yields\<close>)

lemma yields_if: "yields I P a Q \<Longrightarrow> yields I P b Q \<Longrightarrow> yields I P (if c then a else b) Q"
  by simp

lemma yields_run_identity:
  assumes "keeps I a" "\<And>er. external_run_of r = Inr er \<Longrightarrow> yields I (past p) (f er) (\<lambda>b. I)"
  shows "yields I (past p) (case external_run_of r of Inl e \<Rightarrow> a | Inr er \<Rightarrow> f er) (\<lambda>b. I)"
  using assms drop_past by (cases "external_run_of r") auto

text \<open>A run the runner reads back.\<close>

lemma keeps_read_run:
  assumes "\<And>r q. r \<in> set (runs q) \<Longrightarrow> yields I (past q) (f r) (\<lambda>b. I)"
  shows "keeps I (andthen (reading v (\<lambda>d. get_run d key)) f)"
  unfolding keeps_iff_yields
proof (rule yields_andthen [OF yields_reading])
  fix r
  show "yields I (\<lambda>w. I w \<and> get_run (w_db w) key = Inr r \<and> past (w_db w) w) (f r) (\<lambda>b. I)"
    unfolding yields_def
  proof (intro allI impI)
    fix w assume "I w \<and> get_run (w_db w) key = Inr r \<and> past (w_db w) w"
    then show "post I (\<lambda>b. I) (f r w)" using assms get_run_row by (blast intro: yieldsD)
  qed
qed

lemma keeps_cancel_claimed: "keeps I (cancel_claimed v cfg k tok now)"
proof -
  have go: "yields I (past q) (attempt (cancel_authority v cfg k r) (\<lambda>u. case u of
        Inl e \<Rightarrow>
          if e = ApprovalInvalid then
            mark_known_act v k tok ''APPROVAL_INVALID''
              ''paid approval binding is not valid for external cancellation'' authority_now
          else raise e
      | Inr matches \<Rightarrow>
          if \<not> matches then
            mark_known_act v k tok ''EXECUTOR_MISMATCH''
              ''selected executor does not match the approved plan'' authority_now
          else
          (case external_run_of r of
             Inl e \<Rightarrow> mark_claimed_act v k tok ''EXTERNAL_RUN_IDENTITY_INVALID''
                 ''durable external identity requires reconciliation'' now
           | Inr er \<Rightarrow> cancel_call v cfg k tok r er))) (\<lambda>b. I)"
    if "r \<in> set (runs q)" for r q authority_now
    by (rule yields_attempt_past, erule world_invariant.keeps_cancel_authority, simp only: sum.case,
        rule yields_if, rule drop_past, rule keeps_mark_known, rule yields_run_identity,
        rule keeps_mark_claimed, rule yields_cancel_call [OF that], assumption,
        simp only: sum.case, intro keeps_intros keeps_helpers)
  show ?thesis
    unfolding cancel_claimed_def
    by (rule keeps_andthen, rule keeps_now, rule keeps_andthen, rule keeps_commits, rule keeps_if,
        rule keeps_lift, rule keeps_read_run, erule go)
qed

lemma keeps_cancel: "keeps I (cancel_act v cfg k now)"
  unfolding cancel_act_def
  by (intro keeps_intros keeps_cancel_lookup keeps_claim_existing keeps_cancel_claimed)

lemma keeps_poll: "keeps I (poll_act v cfg k now)"
proof -
  let ?go = "\<lambda>r tok same. if \<not> same then
         mark_claimed_act v k tok ''EXECUTOR_MISMATCH'' ''selected executor does not match the approved plan'' now
       else andthen (durable_acceptance_provenance_valid v k r) (\<lambda>valid.
         if \<not> valid then
           mark_claimed_act v k tok ''EXTERNAL_ACCEPTANCE_PROVENANCE_INVALID''
             ''durable external acceptance requires reconciliation'' now
         else (case external_run_of r of
             Inl e \<Rightarrow> mark_claimed_act v k tok ''EXTERNAL_RUN_IDENTITY_INVALID''
                 ''durable external identity requires reconciliation'' now
           | Inr er \<Rightarrow> poll_call v cfg k r tok er))"
  have go: "yields I (past q) (?go r tok same) (\<lambda>b. I)" if "r \<in> set (runs q)" for r q tok same
    by (rule yields_if, rule drop_past, rule keeps_mark_claimed, rule yields_andthen_past,
        erule world_invariant.keeps_durable_provenance, rule yields_if, rule drop_past, rule keeps_mark_claimed,
        rule yields_run_identity, rule keeps_mark_claimed, rule yields_poll_call [OF that])
  have claimed: "yields I (past q) (attempt (durable_executor_matches v cfg k r) (\<lambda>u.
      case (case u of Inl e \<Rightarrow> if e = DataIntegrityError then Inr False else Inl e | Inr b \<Rightarrow> Inr b) of
        Inl e \<Rightarrow> raise e | Inr same \<Rightarrow> ?go r tok same)) (\<lambda>b. I)"
    if "claimed_row q k tok r" for q r tok
    by (rule yields_attempt_past, erule world_invariant.keeps_durable_executor)
      (use go [OF claimed_in [OF that]] in \<open>auto intro: keeps_lift keeps_mark_claimed\<close>)
  show ?thesis
    unfolding poll_act_def
    by (rule keeps_claimed [OF yields_claim_existing]; simp only: option.case prod.case)
      (erule claimed, rule keeps_lift)
qed

section \<open>Submissions\<close>

text \<open>What is known when the runner submits: the claim, the check and the window, in this order.\<close>

definition ready ::
  "db \<Rightarrow> run \<Rightarrow> db \<Rightarrow> candidate \<Rightarrow> pystr \<Rightarrow> seo_job \<Rightarrow> execution_snapshot \<Rightarrow> nat \<Rightarrow> bool" where
  "ready p r checked k tok job sn m =
     (claimed_row p k tok r \<and> run_of_system (v_ext v) start p \<and> run_of_system (v_ext v) p checked
      \<and> base \<le> m
      \<and> (\<exists>t. v_clock v m = Some t
           \<and> resume_dispatch (v_ext v) checked (k_company_id k) t (k_job_id k) = Inr (job, sn)))"

definition opened ::
  "db \<Rightarrow> db \<Rightarrow> candidate \<Rightarrow> instant option \<Rightarrow> nat \<Rightarrow> int \<Rightarrow> bool" where
  "opened checked windowed k expiry n timeout =
     (run_of_system (v_ext v) checked windowed
      \<and> (\<exists>approved. launch_approval_window (v_ext v) windowed (k_company_id k) (k_job_id k) = Inr (approved, expiry))
      \<and> (\<exists>s. v_clock v n = Some s
          \<and> (\<forall>e. expiry = Some e \<longrightarrow> s + timeout + c_approval_submission_margin cfg \<le> e)))"

lemma sanctioned_submit:
  assumes "ready p r checked k tok job sn m" "m < n" "opened checked windowed k expiry n timeout"
    and "past planned w" "run_of_system (v_ext v) windowed planned"
    and "execution_plan_of (v_ext v) planned (k_company_id k) (k_job_id k) = Inr plan"
    and "leased_call v cfg base r timeout (n + 4)" "0 < timeout" "timeout \<le> c_external_call_timeout cfg"
  shows "sanctioned v cfg base start (w_db w)
    (SubmitCall k job sn expiry (model_ids plan) (provider_ids plan)) timeout (n + 4)"
proof -
  have now: "run_of_system (v_ext v) planned (w_db w)" using assms(4) by (simp add: past_def)
  have "run_of_system (v_ext v) p windowed"
    using assms(1,3) system_trans by (auto simp: ready_def opened_def)
  then have "run_of_system (v_ext v) p (w_db w)" using assms(5) now system_trans by blast
  moreover have "launch_checked v cfg base p (w_db w) k job sn expiry (model_ids plan) (provider_ids plan) timeout (n + 4)"
  proof -
    obtain t where t: "resume_dispatch (v_ext v) checked (k_company_id k) t (k_job_id k) = Inr (job, sn)"
      "v_clock v m = Some t" "base \<le> m"
      using assms(1) by (auto simp: ready_def)
    obtain approved s where o:
      "launch_approval_window (v_ext v) windowed (k_company_id k) (k_job_id k) = Inr (approved, expiry)"
      "v_clock v n = Some s" "\<forall>e. expiry = Some e \<longrightarrow> s + timeout + c_approval_submission_margin cfg \<le> e"
      using assms(3) by (auto simp: opened_def)
    show ?thesis
      unfolding launch_checked_def
      by (intro exI [of _ checked] exI [of _ windowed] exI [of _ planned] exI [of _ m] exI [of _ t]
          exI [of _ approved] exI [of _ plan] exI [of _ n] exI [of _ s])
        (use assms(1-3,5,6) now t o in \<open>simp add: ready_def opened_def\<close>)
  qed
  ultimately show ?thesis
    unfolding sanctioned_def using assms(1,7-9) by (auto simp: ready_def claimed_row_def)
qed

lemma yields_submit_call:
  assumes "ready p r checked k tok job sn m" "m < n" "opened checked windowed k expiry n timeout"
    and "run_of_system (v_ext v) start windowed" "leased_call v cfg base r timeout (n + 4)"
    and "timeout \<noteq> 0 \<or> c_external_call_timeout cfg = 0"
  shows "yields I (past_at windowed (n + 3)) (submit_call v cfg k r tok key job sn expiry timeout) (\<lambda>a. I)"
proof -
  have step: "Suc (n + 3) = n + 4" by simp
  have call: "yields I (past_at planned (n + 4)) (external_call cfg timeout
        (SubmitCall k job sn expiry (model_ids plan) (provider_ids plan)) reply) (\<lambda>a. I)"
    if "execution_plan_of (v_ext v) planned (k_company_id k) (k_job_id k) = Inr plan
      \<and> run_of_system (v_ext v) windowed planned" for planned plan reply
    using that sanctioned_submit [OF assms(1-3) _ _ _ assms(5)] by (intro yields_external_call [OF assms(6)]) blast
  have "yields I (past_at windowed (n + 3))
       (andthen (reading v (\<lambda>d. execution_plan_of (v_ext v) d (k_company_id k) (k_job_id k))) (\<lambda>plan.
        andthen (external_call cfg timeout
            (SubmitCall k job sn expiry (model_ids plan) (provider_ids plan))
            (\<lambda>n. v_submit v n job sn expiry (model_ids plan) (provider_ids plan))) (\<lambda>answer.
        andthen (observe (v_after_submit v)) (\<lambda>_.
        (case answer of None \<Rightarrow> raise TypeError | Some er \<Rightarrow> ret er))))) (\<lambda>a. I)"
    by (rule yields_andthen [OF yields_reading_at [OF assms(4)]], rule yields_some, rule yields_given,
        rule yields_andthen, unfold step, erule call, unfold keeps_iff_yields [symmetric], intro keeps_intros)
  then show ?thesis
    unfolding submit_call_def
    by (rule yields_attempt_keeps)
      (intro keeps_intros keeps_helpers keeps_executor_error keeps_submit_accepted keeps_submit_failed)
qed

lemma keeps_release_then_recover: "keeps I (release_then_recover v cfg k tok now)"
  unfolding release_then_recover_def by (intro keeps_intros keeps_recover_dispatch)

lemma authority_timeout_bounds:
  assumes "authority_timeout cfg expiry s = Some t"
  shows "t \<noteq> 0 \<or> c_external_call_timeout cfg = 0"
    and "expiry = Some e \<Longrightarrow> s + t + c_approval_submission_margin cfg \<le> e"
  using assms by (auto simp: authority_timeout_def Let_def split: option.splits if_splits)

lemma yields_submit_window:
  assumes "ready p r checked k tok job sn m" "run_of_system (v_ext v) start checked"
  shows "yields I (past_after checked m) (submit_window v cfg k r tok key job sn) (\<lambda>a. I)"
  unfolding submit_window_def
proof (rule yields_after, rule yields_andthen [OF yields_now_at], rule yields_given,
    rule yields_andthen [OF yields_reading_at [OF assms(2)]], rule yields_some, rule yields_given)
  fix n s window windowed
  assume n: "m < n" and clock: "base \<le> n \<and> v_clock v n = Some s"
    and win: "launch_approval_window (v_ext v) windowed (k_company_id k) (k_job_id k) = Inr window
      \<and> run_of_system (v_ext v) checked windowed"
  obtain approved expiry where w: "window = (approved, expiry)" by fastforce
  have start: "run_of_system (v_ext v) start windowed" using assms(2) win system_trans by blast
  have steps: "Suc (Suc (Suc n)) = n + 3" by simp
  show "yields I (past_at windowed (Suc (Suc n))) (case window of (_, expiry) \<Rightarrow>
     (case authority_timeout cfg expiry s of
        None \<Rightarrow> release_then_recover v cfg k tok s
      | Some submit_timeout \<Rightarrow>
          attempt (lease_call_timeout v cfg r) (\<lambda>u.
          (case u of
             Inl e \<Rightarrow>
               if e = DataIntegrityError \<or> e = TimeoutError then
                 andthen (now_act v) (mark_claimed_act v k tok ''EXTERNAL_CALL_DEADLINE_INVALID''
                   ''insufficient durable lease remains for submission'')
               else raise e
           | Inr lease_timeout \<Rightarrow>
               submit_call v cfg k r tok key job sn expiry (min submit_timeout lease_timeout)))))
     (\<lambda>a. I)"
  proof (cases "authority_timeout cfg expiry s")
    case None
    then show ?thesis unfolding w by (simp add: drop_past_at keeps_release_then_recover)
  next
    case (Some t)
    show ?thesis
      unfolding w prod.case Some option.case
    proof (rule yields_attempt [OF yields_lease_timeout_at], simp_all only: sum.case, rule yields_given)
      fix lt
      assume lt: "timely r (Suc (Suc n)) lt"
      have "opened checked windowed k expiry n (min t lt)"
        using win clock authority_timeout_bounds(2) [OF Some] by (force simp: opened_def w)
      moreover have "min t lt \<noteq> 0 \<or> c_external_call_timeout cfg = 0"
        using lt authority_timeout_bounds(1) [OF Some] by (auto simp: min_def timely_def)
      moreover have "leased_call v cfg base r (min t lt) (n + 4)" using lt by (simp add: timely_def)
      ultimately show "yields I (past_at windowed (Suc (Suc (Suc n))))
          (submit_call v cfg k r tok key job sn expiry (min t lt)) (\<lambda>a. I)"
        unfolding steps by (intro yields_submit_call [OF assms(1) n _ start])
    qed (unfold keeps_iff_yields [symmetric], intro keeps_intros keeps_helpers)
  qed
qed

lemma yields_checked:
  assumes "claimed_row p k tok r" "run_of_system (v_ext v) start p" "base \<le> m \<and> v_clock v m = Some t"
    and "resume_dispatch (v_ext v) checked (k_company_id k) t (k_job_id k) = Inr u \<and> run_of_system (v_ext v) p checked"
  shows "yields I (past_after checked m) (case u of (job, sn) \<Rightarrow>
      andthen (executor_identity_still_matches v cfg k) (\<lambda>same.
        if \<not> same then
          mark_claimed_act v k tok ''EXECUTOR_MISMATCH''
            ''selected executor does not match the approved plan'' t
        else submit_window v cfg k r tok key job sn)) (\<lambda>a. I)"
proof -
  obtain job sn where u: "u = (job, sn)" by fastforce
  have "ready p r checked k tok job sn m" using assms u by (auto simp: ready_def)
  moreover have "run_of_system (v_ext v) start checked" using assms(2,4) system_trans by blast
  ultimately show ?thesis
    unfolding u prod.case
    by - (rule yields_andthen [OF past_after_keeps], erule world_invariant.keeps_identity, rule yields_if,
        rule drop_past_after, rule keeps_mark_claimed, rule yields_submit_window)
qed

lemma yields_now_after:
  "yields I (past p) (now_act v) (\<lambda>t w. \<exists>m. past_after p m w \<and> (base \<le> m \<and> v_clock v m = Some t))"
  by (rule yields_at, rule yields_post [OF yields_now_at]) (auto simp: past_at_def past_after_def)

lemma yields_submit_claimed:
  assumes "claimed_row p k tok r" "run_of_system (v_ext v) start p"
  shows "yields I (past p) (submit_claimed v cfg k r tok key) (\<lambda>a. I)"
  unfolding submit_claimed_def
  by (rule yields_andthen [OF yields_now_after], rule yields_some, rule yields_given,
      rule yields_andthen [OF past_after_keeps], erule world_invariant.keeps_reading,
      rule yields_if, rule drop_past_after, intro keeps_intros keeps_cancel,
      rule yields_attempt [OF yields_after_reading [OF assms(2)]], rule yields_some, rule yields_given,
      simp only: sum.case, rule yields_checked [OF assms], assumption, assumption,
      simp only: sum.case, unfold keeps_iff_yields [symmetric],
      intro keeps_intros keeps_helpers keeps_release_then_recover)

lemma keeps_submit_identity: "keeps I (submit_identity v cfg k now)"
  unfolding submit_identity_def by (intro keeps_intros keeps_recover_dispatch)

lemma keeps_submit: "keeps I (submit_act v cfg k now)"
  unfolding submit_act_def
  by ((simp only: option.case, rule keeps_lift) | rule keeps_claimed [OF yields_claim_submission]
      | (simp only: option.case prod.case, erule yields_submit_claimed, assumption)
      | rule keeps_intros keeps_helpers keeps_submit_identity)+

lemma keeps_tick: "keeps I (tick v cfg limit)"
proof -
  have "keeps I (tick_step v cfg)"
    unfolding tick_step_def tick_candidates_def tick_recover_def mark_stale_act_def Let_def
    by (intro keeps_intros keeps_cancel keeps_finalize_terminal keeps_poll keeps_requeue keeps_submit)
  then have "keeps I (tick_loop v cfg n m)" for n m
    by (induction n arbitrary: m) (simp_all add: keeps_lift keeps_andthen)
  then show ?thesis
    unfolding tick_def record_heartbeat_act_def by (intro keeps_intros)
qed

end

end
