(* ===== verification/RunnerCalls.thy ===== *)
theory RunnerCalls
  imports RunnerInvariant JobProperties
begin

text \<open>
  The two readings of the runner's contracts: \<open>audited\<close> keeps the log of executor calls together with
  the reasons each of them was in order, \<open>silent\<close> and \<open>once\<close> count the calls of an action.
\<close>

section \<open>The audited log\<close>

text \<open>
  Every call logged since \<open>cs\<close> was made at a step that is over and was sanctioned by the history that
  leads from \<open>start\<close> to the current database.
\<close>

definition audited ::
  "environment \<Rightarrow> runner_config \<Rightarrow> nat \<Rightarrow> db \<Rightarrow> (call \<times> int \<times> nat) list \<Rightarrow> world \<Rightarrow> bool" where
  "audited v cfg base start cs w =
     (schema_ok start \<and> run_of_system (v_ext v) start (w_db w) \<and> base \<le> w_step w
      \<and> (\<exists>new. w_calls w = cs @ new
           \<and> (\<forall>(c, timeout, step) \<in> set new.
                step \<le> w_step w \<and> sanctioned v cfg base start (w_db w) c timeout step)))"

lemma launch_checked_later:
  assumes "launch_checked v cfg base p d k job sn expiry models providers timeout step" "run_of_system (v_ext v) d d'"
  shows "launch_checked v cfg base p d' k job sn expiry models providers timeout step"
proof -
  obtain checked windowed planned m t approved plan n s where
    "run_of_system (v_ext v) p checked" "run_of_system (v_ext v) checked windowed"
    "run_of_system (v_ext v) windowed planned" "run_of_system (v_ext v) planned d"
    and rest: "base \<le> m" "m < n" "n < step" "step \<le> n + 4" "v_clock v m = Some t" "v_clock v n = Some s"
    "resume_dispatch (v_ext v) checked (k_company_id k) t (k_job_id k) = Inr (job, sn)"
    "launch_approval_window (v_ext v) windowed (k_company_id k) (k_job_id k) = Inr (approved, expiry)"
    "\<forall>e. expiry = Some e \<longrightarrow> s + timeout + c_approval_submission_margin cfg \<le> e"
    "execution_plan_of (v_ext v) planned (k_company_id k) (k_job_id k) = Inr plan"
    "models = model_ids plan" "providers = provider_ids plan"
    using assms(1) unfolding launch_checked_def by blast
  moreover from this have "run_of_system (v_ext v) planned d'" using assms(2) system_trans by blast
  ultimately show ?thesis unfolding launch_checked_def by blast
qed

lemma sanctioned_later:
  assumes "sanctioned v cfg base start d c timeout step" "run_of_system (v_ext v) d d'"
  shows "sanctioned v cfg base start d' c timeout step"
  using assms unfolding sanctioned_def by (meson launch_checked_later system_trans)

interpretation audit: runner_invariant v cfg base start "audited v cfg base start cs" for v cfg base start cs
proof
  fix w d n assume "audited v cfg base start cs w" "run_of_system (v_ext v) (w_db w) d" "w_step w \<le> n"
  then show "audited v cfg base start cs (w\<lparr>w_db := d, w_step := n\<rparr>)"
    by (auto simp: audited_def split: prod.splits
        intro: system_trans sanctioned_later [of v cfg base start "w_db w"] order_trans)
next
  fix w c timeout assume "audited v cfg base start cs w" "sanctioned v cfg base start (w_db w) c timeout (w_step w)"
  then show "audited v cfg base start cs (logged c timeout w)"
    by (auto simp: audited_def logged_def)
qed (simp_all add: audited_def)

lemma audited_tick:
  assumes "schema_ok (w_db w)"
  shows "audited v cfg (w_step w) (w_db w) (w_calls w) (snd (tick v cfg limit w))"
proof -
  have "audited v cfg (w_step w) (w_db w) (w_calls w) w" using assms by (simp add: audited_def system_refl)
  with audit.keeps_tick show ?thesis by (simp add: keeps_def)
qed

section \<open>Counting calls\<close>

definition silent :: "'a act \<Rightarrow> bool" where
  "silent m = (\<forall>w. w_calls (snd (m w)) = w_calls w)"

definition once :: "'a act \<Rightarrow> bool" where
  "once m = (\<forall>w. \<exists>new. w_calls (snd (m w)) = w_calls w @ new \<and> length new \<le> 1)"

interpretation silence: world_invariant v "\<lambda>w. w_calls w = cs" for v cs
  by unfold_locales simp

lemma silent_keeps: "(\<And>cs. keeps (\<lambda>w. w_calls w = cs) m) \<Longrightarrow> silent m"
  by (simp add: silent_def keeps_def)

lemma silent_once: "silent m \<Longrightarrow> once m"
  by (simp add: silent_def once_def)

lemma once_then:
  "silent m \<Longrightarrow> (\<And>a. once (f a)) \<Longrightarrow> once (andthen m f)"
  by (auto simp: silent_def once_def andthen_def case_prod_unfold split: sum.split) metis

lemma once_try:
  "silent m \<Longrightarrow> (\<And>r. once (g r)) \<Longrightarrow> once (attempt m g)"
  unfolding silent_def once_def attempt_def case_prod_unfold by metis

lemma then_silent:
  "once m \<Longrightarrow> (\<And>a. silent (f a)) \<Longrightarrow> once (andthen m f)"
  by (simp add: silent_def once_def andthen_def case_prod_unfold split: sum.split)

lemma try_silent:
  "once m \<Longrightarrow> (\<And>r. silent (g r)) \<Longrightarrow> once (attempt m g)"
  by (simp add: silent_def once_def attempt_def case_prod_unfold)

lemma once_cases:
  "once a \<Longrightarrow> once b \<Longrightarrow> once (if c then a else b)"
  "once a \<Longrightarrow> (\<And>y. once (h y)) \<Longrightarrow> once (case u of None \<Rightarrow> a | Some y \<Rightarrow> h y)"
  "(\<And>e. once (p e)) \<Longrightarrow> (\<And>y. once (q y)) \<Longrightarrow> once (case s of Inl e \<Rightarrow> p e | Inr y \<Rightarrow> q y)"
  "(\<And>y z. once (t y z)) \<Longrightarrow> once (case pr of (y, z) \<Rightarrow> t y z)"
  by (simp_all split: option.split sum.split prod.split)

lemma once_external: "once (external_call cfg timeout c reply)"
  by (auto simp: once_def external_call_def stepped_def logged_def Let_def)

lemmas quiet_rules = silence.keeps_intros silence.keeps_helpers silence.keeps_poll_failed
  silence.keeps_poll_observed silence.keeps_claim_existing silence.keeps_requeue
  silence.keeps_finalize_terminal silence.keeps_submit_accepted silence.keeps_submit_failed
  silence.keeps_cancel_looked_up silence.keeps_cancel_failed silence.keeps_cancel_confirmed
  silence.keeps_cancel_authority silence.keeps_recover_accepted

lemma once_lookup: "once (lookup_act v cfg r job sn)"
  unfolding lookup_act_def
  by (rule once_then [OF silent_keeps then_silent [OF once_external silent_keeps]]) (intro quiet_rules)+

lemma silent_claim: "silent (claim_submission_act v cfg k key)"
  unfolding claim_submission_act_def by (rule silent_keeps) (intro quiet_rules)

lemmas once_steps = once_cases once_then [OF silent_keeps] once_try [OF silent_keeps]

lemma once_recover: "once (recover_dispatch_act v cfg k now)"
  unfolding recover_dispatch_act_def
  by ((rule silent_once [OF silent_keeps], (intro quiet_rules; fail)) | rule try_silent [OF once_lookup]
      | rule once_then [OF silent_claim] | rule once_steps | (rule silent_keeps, intro quiet_rules)
      | intro quiet_rules)+

lemma once_cancel_lookup: "once (cancel_lookup v cfg k)"
  unfolding cancel_lookup_def
  by ((rule silent_once [OF silent_keeps], (intro quiet_rules; fail)) | rule once_lookup try_silent
      | rule once_steps | (rule silent_keeps, intro quiet_rules) | intro quiet_rules)+

lemma once_cancel_call: "once (cancel_call v cfg k tok r er)"
  unfolding cancel_call_def
  by (rule try_silent [OF once_then [OF silent_keeps then_silent [OF once_external silent_keeps]] silent_keeps])
    (intro quiet_rules keeps_executor_error)+

lemma once_poll_call: "once (poll_call v cfg k r tok er)"
  unfolding poll_call_def
  by (rule try_silent [OF try_silent [OF once_then [OF silent_keeps once_external] silent_keeps] silent_keeps])
    (intro quiet_rules keeps_executor_error)+

lemma once_submit_call: "once (submit_call v cfg k r tok key job sn expiry timeout)"
  unfolding submit_call_def
  by (rule try_silent [OF once_then [OF silent_keeps then_silent [OF once_external silent_keeps]] silent_keeps])
    (intro quiet_rules keeps_executor_error)+

lemmas once_calls = once_cancel_lookup once_cancel_call once_poll_call once_submit_call once_recover

lemma silent_if_quiet: "(\<And>cs. keeps (\<lambda>w. w_calls w = cs) m) \<Longrightarrow> once m"
  by (rule silent_once [OF silent_keeps])

lemma once_cancel: "once (cancel_act v cfg k now)"
  unfolding cancel_act_def cancel_claimed_def
  by ((rule silent_if_quiet, (intro quiet_rules; fail)) | rule once_calls once_steps
      | (rule silent_keeps, intro quiet_rules) | intro quiet_rules)+

lemma once_poll: "once (poll_act v cfg k now)"
  unfolding poll_act_def
  by ((rule silent_if_quiet, (intro quiet_rules; fail)) | rule once_calls once_steps
      | (rule silent_keeps, intro quiet_rules) | intro quiet_rules)+

lemma once_submit_claimed: "once (submit_claimed v cfg k r tok key)"
  unfolding submit_claimed_def submit_window_def release_then_recover_def
  by ((rule silent_if_quiet, (intro quiet_rules; fail)) | rule once_calls once_cancel once_steps
      | (rule silent_keeps, intro quiet_rules) | intro quiet_rules)+

text \<open>The first part of a submission hands over only when it made no call.\<close>

definition hands :: "('b + 'a) act \<Rightarrow> bool" where
  "hands m = (\<forall>w. \<exists>new. w_calls (snd (m w)) = w_calls w @ new \<and> length new \<le> 1
      \<and> (\<forall>a. fst (m w) = Inr (Inr a) \<longrightarrow> new = []))"

lemma hands_intros:
  "hands (lift x)"
  "once n \<Longrightarrow> hands (andthen n (\<lambda>b. ret (Inl b)))"
  "silent n \<Longrightarrow> (\<And>r. hands (g r)) \<Longrightarrow> hands (attempt n g)"
  "hands a \<Longrightarrow> hands b \<Longrightarrow> hands (if c then a else b)"
  "(\<And>e. hands (p e)) \<Longrightarrow> (\<And>y. hands (q y)) \<Longrightarrow> hands (case s of Inl e \<Rightarrow> p e | Inr y \<Rightarrow> q y)"
      apply (simp add: hands_def lift_def)
     apply (force simp: hands_def once_def andthen_def lift_def case_prod_unfold split: sum.split)
    apply (unfold hands_def silent_def attempt_def case_prod_unfold, metis)
   apply (simp_all split: sum.split)
  done

lemma hands_then:
  assumes "hands m" "\<And>b. silent (f (Inl b))" "\<And>a. once (f (Inr a))"
  shows "once (andthen m f)"
  unfolding once_def
proof
  fix w
  obtain new where new: "w_calls (snd (m w)) = w_calls w @ new" "length new \<le> 1"
    "\<And>a. fst (m w) = Inr (Inr a) \<Longrightarrow> new = []"
    using assms(1) unfolding hands_def by blast
  obtain r w' where m: "m w = (r, w')" by fastforce
  consider e where "r = Inl e" | b where "r = Inr (Inl b)" | a where "r = Inr (Inr a)"
    by (metis sumE)
  then show "\<exists>new. w_calls (snd (andthen m f w)) = w_calls w @ new \<and> length new \<le> 1"
    using new assms(2) assms(3) [unfolded once_def, THEN spec, of _ w']
    by cases (auto simp: andthen_def m silent_def)
qed

lemma hands_identity: "hands (submit_identity v cfg k now)"
  unfolding submit_identity_def
  by (rule hands_intros once_recover | (rule silent_keeps, intro quiet_rules)
      | (rule silent_if_quiet, intro quiet_rules))+

lemma once_submit: "once (submit_act v cfg k now)"
  unfolding submit_act_def
  by (rule hands_then [OF hands_identity]; (simp only: sum.case)?)
    ((rule silent_if_quiet, (intro quiet_rules; fail)) | rule once_submit_claimed silent_claim
      | rule once_then [OF silent_claim] | rule once_steps | (rule silent_keeps, intro quiet_rules)
      | intro quiet_rules)+

lemmas once_acts = once_cancel once_poll once_submit

lemma once_step: "once (tick_step v cfg)"
  unfolding tick_step_def tick_candidates_def tick_recover_def mark_stale_act_def Let_def
  by ((rule silent_if_quiet, (intro quiet_rules; fail)) | rule once_acts | rule once_steps
      | (rule silent_keeps, intro quiet_rules) | intro quiet_rules)+

section \<open>Rounds\<close>

text \<open>A loop of \<open>n\<close> steps makes at most \<open>n\<close> calls and returns between \<open>m\<close> and \<open>m + n\<close>.\<close>

lemma tick_loop_bounded:
  "\<exists>new. w_calls (snd (tick_loop v cfg n m w)) = w_calls w @ new \<and> length new \<le> n
     \<and> (\<forall>r. fst (tick_loop v cfg n m w) = Inr r \<longrightarrow> m \<le> r \<and> r \<le> m + int n)"
proof (induction n arbitrary: m w)
  case (Suc n)
  obtain r w1 where step: "tick_step v cfg w = (r, w1)" by fastforce
  obtain new where new: "w_calls w1 = w_calls w @ new" "length new \<le> 1"
    using once_step [of v cfg] step unfolding once_def by (metis snd_conv)
  consider e where "r = Inl e" | "r = Inr False" | "r = Inr True" by (cases r) auto
  then show ?case
  proof cases
    case 3
    obtain more where more: "w_calls (snd (tick_loop v cfg n (m + 1) w1)) = w_calls w1 @ more" "length more \<le> n"
      "\<forall>r. fst (tick_loop v cfg n (m + 1) w1) = Inr r \<longrightarrow> m + 1 \<le> r \<and> r \<le> m + 1 + int n"
      using Suc.IH by blast
    then show ?thesis
      using new 3 by (intro exI [of _ "new @ more"]) (auto simp: andthen_def step)
  qed (use new step in \<open>auto simp: andthen_def lift_def\<close>)
qed (simp add: lift_def)

lemma tick_calls:
  "\<exists>new. w_calls (snd (tick v cfg limit w)) = w_calls w @ new \<and> length new \<le> nat limit
     \<and> (\<forall>r. fst (tick v cfg limit w) = Inr r \<longrightarrow> 0 \<le> r \<and> r \<le> limit)"
proof (cases "limit < 0")
  case False
  have "silent (now_act v)" "silent (record_heartbeat_act v cfg t)" for t
    unfolding record_heartbeat_act_def by (rule silent_keeps, intro quiet_rules)+
  then show ?thesis
    using False tick_loop_bounded [of v cfg "nat limit" 0]
    unfolding tick_def silent_def andthen_def
    by (simp add: case_prod_unfold split: sum.split) metis
qed (simp add: tick_def lift_def)

end
