(* ===== verification/RunnerDemo.thy ===== *)
theory RunnerDemo
  imports RunnerCalls LeaseProperties SchedulerProperties
begin

text \<open>
  A runner on the demo database: the clock stands still at the demo instant, nobody interferes, the
  executor is the one the plan names and accepts what it is given.  One scheduling round submits the
  queued job.
\<close>

section \<open>The demo environment\<close>

definition demo_identity :: executor_identity where
  "demo_identity = \<lparr>ei_capable = True, ei_name = Some ''n8n'', ei_model_ids = Some [''m''],
     ei_provider_ids = Some [], ei_pipeline_version = Some None\<rparr>"

definition demo_acceptance :: external_run where
  "demo_acceptance = \<lparr>er_external_run_id = ''ext'', er_idempotency_key = ''co:job:1'',
     er_accepted_at = Some (demo_instant 0)\<rparr>"

definition demo_environment :: environment where
  "demo_environment =
     \<lparr>v_ext = demo_externals, v_screens = demo_screens, v_clock = (\<lambda>n. Some (demo_instant 0)),
      v_token = (\<lambda>n. Some ''A''), v_requests = (\<lambda>n. []), v_db_error = (\<lambda>n. None),
      v_identity = (\<lambda>n. Inr demo_identity),
      v_submit = (\<lambda>n job sn expiry models providers. Inr (Some demo_acceptance)),
      v_lookup = (\<lambda>n job sn. Inr None), v_poll = (\<lambda>n er. Inr None), v_cancel = (\<lambda>n er. Inr None),
      v_after_submit = (\<lambda>n. Inr ()), v_validate_result = None,
      v_write_bundle = (\<lambda>n job result. Inr ()),
      v_store = \<lparr>manifest_path_for_job = (\<lambda>co k. Inr ''manifest''),
        verify_manifest_for_job = (\<lambda>sj. Inr ''manifest'')\<rparr>\<rparr>"

definition demo_config :: runner_config where
  "demo_config =
     \<lparr>c_executor_name = ''n8n'', c_runner_id = ''runner'', c_stale_after = 60000000,
      c_lease_duration = 300000000, c_external_call_timeout = 30000000,
      c_lease_safety_margin = 5000000, c_approval_submission_margin = 5000000,
      c_retry_policy = \<lparr>base_delay_seconds = 1, maximum_delay_seconds = 60, jitter = (\<lambda>q. Inr (Some q))\<rparr>\<rparr>"

text \<open>The runner has beaten before: its heartbeat row exists.\<close>

definition demo_beats :: "heartbeat list" where
  "demo_beats = [\<lparr>h_runner_id = ''runner'', h_started_at = demo_now, h_heartbeat_at = demo_now\<rparr>]"

definition demo_world :: world where
  "demo_world = \<lparr>w_db = demo_db\<lparr>heartbeats := demo_beats\<rparr>, w_step = 0, w_calls = []\<rparr>"

section \<open>Single actions\<close>

lemma demo_reading: "reading demo_environment f w = (f (w_db w), stepped w)"
  by (simp add: reading_def service_def others_def demo_environment_def stepped_def)

lemma demo_commit: "commit_act demo_environment body w =
    (case body (w_db w) of Inl e \<Rightarrow> (Inl e, stepped w) | Inr (a, d) \<Rightarrow> (Inr a, stepped (w\<lparr>w_db := d\<rparr>)))"
  by (auto simp: commit_act_def service_def others_def demo_environment_def stepped_def transaction_def
      split: sum.split)

lemma demo_now_act: "now_act demo_environment w = (Inr (demo_instant 0), stepped w)"
  by (simp add: now_act_def observe_def demo_environment_def aware_utc_def)

lemma demo_token: "lease_token demo_environment w = (Inr ''A'', stepped w)"
  by (simp add: lease_token_def observe_def demo_environment_def ascii_space_def wide_space_def)

lemma stepped_fields [simp]:
  "w_db (stepped w) = w_db w" "w_calls (stepped w) = w_calls w"
  by (simp_all add: stepped_def)

section \<open>Calls already made stay in the log\<close>

definition makes :: "call \<times> int \<Rightarrow> 'a act \<Rightarrow> world \<Rightarrow> bool" where
  "makes c m w = (\<exists>step. (fst c, snd c, step) \<in> set (w_calls (snd (m w))))"

lemma makes_intros:
  "m w = (Inr a, w1) \<Longrightarrow> makes c (f a) w1 \<Longrightarrow> makes c (andthen m f) w"
  "m w = (r, w1) \<Longrightarrow> makes c (g r) w1 \<Longrightarrow> makes c (attempt m g) w"
  by (simp_all add: makes_def andthen_def attempt_def)

lemma makes_in_then: "makes c m w \<Longrightarrow> (\<And>a. once (f a)) \<Longrightarrow> makes c (andthen m f) w"
  unfolding makes_def andthen_def once_def case_prod_unfold
  by (auto split: sum.split) (metis UnCI set_append)

lemma makes_in_try: "makes c m w \<Longrightarrow> (\<And>r. once (g r)) \<Longrightarrow> makes c (attempt m g) w"
  unfolding makes_def attempt_def once_def case_prod_unfold by (metis UnCI set_append)

section \<open>The checks on the demo databases\<close>

lemma demo_columns:
  "j_superseded_by_job_id demo_job = None" "j_snapshot_id demo_job = ''snap''"
  "j_approval_record_id demo_job = Some ''apr''" "j_approved_plan_fingerprint demo_job = Some demo_hash"
  "j_plan_fingerprint demo_job = Some demo_hash" "j_job_id demo_job = ''job''" "j_snapshot_hash demo_job = demo_hash"
  "j_plan_json demo_job = Some demo_plan_json" "j_brief_id demo_job = ''brief''" "j_company_id demo_job = ''co''"
  "j_direction_id demo_job = ''dir''" "j_audience_segment_id demo_job = ''aud''" "j_created_by demo_job = ''user''"
  "j_brief_fingerprint demo_job = demo_hash" "j_attempt demo_job = 1" "j_state demo_job = ''QUEUED''"
  by (simp_all add: demo_job_def)

text \<open>A row that keeps the identity and provenance columns of the demo job.\<close>

definition demo_like :: "job \<Rightarrow> bool" where
  "demo_like j = (j = demo_job \<or> j = demo_running_job)"

lemma demo_like_row:
  assumes "jobs d = [j]" "demo_like j"
  shows "get_job d ''co'' ''job'' = Inr j"
  using assms by (auto simp: get_job_def demo_like_def demo_running_job_def demo_columns)

lemma demo_states: "job_state_of ''QUEUED'' = Some QUEUED" "job_state_of ''RUNNING'' = Some RUNNING"
  using job_state_of_value [of QUEUED] job_state_of_value [of RUNNING] by simp_all

lemma demo_like_domain:
  assumes "demo_like j"
  obtains sj where "domain_job j = Inr sj" "sj_state sj = (if j_state j = ''QUEUED'' then QUEUED else RUNNING)"
    "sj_attempt sj = 1" "sj_company_id sj = ''co''" "sj_job_id sj = ''job''"
  using assms unfolding demo_like_def
  by (auto simp: domain_job_def demo_running_job_def demo_job_def ascii_space_def wide_space_def
      stored_datetime_def demo_states intro: that)

definition demo_paid :: approval_record where
  "demo_paid = approval_of_row demo_approval (demo_instant 0) (Some (demo_instant 300))"

lemma demo_paid_approval:
  assumes "demo_like j" "jobs d = [j]" "approvals d = [demo_approval]"
  shows "paid_approval d ''co'' j = Inr demo_paid"
proof -
  have "make_approval_record demo_paid = Inr demo_paid"
    by (simp add: make_approval_record_def demo_paid_def approval_of_row_def demo_approval_def approval_types_def
        ascii_space_def wide_space_def) (simp add: demo_instant_def)
  moreover have "parse_aware (demo_time 300) = Some (demo_instant 300)"
    by (simp add: demo_time_def parse_aware_isoformat)
  ultimately have "get_approval d ''co'' ''job'' ''apr'' = Inr demo_paid"
    using assms(1) unfolding demo_like_def
    by (auto simp: get_approval_def assms(2,3) demo_paid_def row_defs domain_timestamp_def)
  then show ?thesis
    using assms(1) unfolding demo_like_def
    by (auto simp: paid_approval_def demo_running_job_def demo_columns)
      (simp_all add: demo_paid_def approval_of_row_def demo_approval_def)
qed

lemma demo_paid_window: "require_approval_window demo_paid (demo_instant 0) = Inr ()"
  by (simp add: approval_window_Inr demo_paid_def approval_of_row_def) (simp add: demo_instant_def)

text \<open>Databases that hold one such job with its snapshot and approval.\<close>

definition demo_holds :: "job \<Rightarrow> db \<Rightarrow> bool" where
  "demo_holds j d = (demo_like j \<and> jobs d = [j] \<and> approvals d = [demo_approval] \<and> snapshots d = [demo_snapshot])"

lemma demo_holds_checks:
  assumes "demo_holds j d"
  shows "get_job d ''co'' ''job'' = Inr j" "get_snapshot demo_externals d ''co'' ''snap'' = Inr demo_execution_snapshot"
    "require_plan_integrity demo_externals j = Inr demo_plan"
    "require_job_snapshot_integrity demo_externals j demo_execution_snapshot = Inr ()"
    "paid_approval d ''co'' j = Inr demo_paid"
    "j_snapshot_id j = ''snap''" "j_superseded_by_job_id j = None"
proof -
  have j: "demo_like j" "jobs d = [j]" "approvals d = [demo_approval]" "snapshots d = [demo_snapshot]"
    using assms by (simp_all add: demo_holds_def)
  show "get_job d ''co'' ''job'' = Inr j" by (rule demo_like_row [OF j(2,1)])
  show "get_snapshot demo_externals d ''co'' ''snap'' = Inr demo_execution_snapshot" by (rule demo_get_snapshot [OF j(4)])
  show "require_plan_integrity demo_externals j = Inr demo_plan"
    using j(1) by (intro demo_plan_integrity) (auto simp: demo_like_def demo_running_job_def demo_columns)
  show "require_job_snapshot_integrity demo_externals j demo_execution_snapshot = Inr ()"
    using j(1) by (intro demo_job_integrity) (auto simp: demo_like_def demo_running_job_def demo_columns)
  show "paid_approval d ''co'' j = Inr demo_paid" by (rule demo_paid_approval [OF j(1-3)])
  show "j_snapshot_id j = ''snap''" "j_superseded_by_job_id j = None"
    using j(1) by (auto simp: demo_like_def demo_running_job_def demo_columns)
qed

lemma demo_holds_services:
  assumes "demo_holds j d"
  shows "execution_plan_of demo_externals d ''co'' ''job'' = Inr demo_plan"
    "launch_approval_window demo_externals d ''co'' ''job'' = Inr (demo_instant 0, Some (demo_instant 300))"
  using demo_holds_checks [OF assms]
  by (simp_all add: execution_plan_of_def launch_approval_window_def demo_paid_def approval_of_row_def)

lemma demo_holds_job:
  assumes "demo_holds j d"
  obtains sj where "domain_job_with_snapshot demo_externals j demo_execution_snapshot = Inr sj"
    "job_of demo_externals d ''co'' ''job'' = Inr sj"
    "execution_identity demo_externals d ''co'' j (Some (demo_instant 0)) = Inr (sj, demo_execution_snapshot)"
    "sj_state sj = (if j_state j = ''QUEUED'' then QUEUED else RUNNING)"
    "sj_attempt sj = 1" "sj_company_id sj = ''co''" "sj_job_id sj = ''job''"
proof -
  note checks = demo_holds_checks [OF assms]
  have "demo_like j" using assms by (simp add: demo_holds_def)
  then obtain sj where sj: "domain_job j = Inr sj" "sj_state sj = (if j_state j = ''QUEUED'' then QUEUED else RUNNING)"
    "sj_attempt sj = 1" "sj_company_id sj = ''co''" "sj_job_id sj = ''job''" by (rule demo_like_domain)
  define v where "v = sj\<lparr>sj_company_profile_version := Some (sn_company_profile_version demo_execution_snapshot),
      sj_direction_version := Some (sn_direction_version demo_execution_snapshot),
      sj_audience_version := Some (sn_audience_version demo_execution_snapshot),
      sj_prompt_set_version := Some (sn_prompt_set_version demo_execution_snapshot)\<rparr>"
  have dom: "domain_job_with_snapshot demo_externals j demo_execution_snapshot = Inr v"
    using checks(4) sj(1) by (simp add: domain_job_with_snapshot_def v_def)
  then have "job_of demo_externals d ''co'' ''job'' = Inr v"
    "execution_identity demo_externals d ''co'' j (Some (demo_instant 0)) = Inr (v, demo_execution_snapshot)"
    using checks demo_paid_window by (simp_all add: job_of_def execution_identity_def)
  with dom sj show ?thesis by (intro that [of v]) (simp_all add: v_def)
qed

section \<open>The round, step by step\<close>

definition demo_at :: "db \<Rightarrow> nat \<Rightarrow> world" where
  "demo_at d n = \<lparr>w_db = d, w_step = n, w_calls = []\<rparr>"

lemma demo_at_simps [simp]: "stepped (demo_at d n) = demo_at d (Suc n)" "w_db (demo_at d n) = d"
  "(demo_at d n)\<lparr>w_db := e\<rparr> = demo_at e n" "w_calls (demo_at d n) = []"
  by (simp_all add: demo_at_def stepped_def)

abbreviation demo_start_db :: db where "demo_start_db \<equiv> demo_db\<lparr>heartbeats := demo_beats\<rparr>"
abbreviation demo_leased_db :: db where "demo_leased_db \<equiv> demo_claimed_db\<lparr>heartbeats := demo_beats\<rparr>"

lemma demo_dbs_hold: "demo_holds demo_job demo_start_db" "demo_holds demo_running_job demo_leased_db"
  by (simp_all add: demo_holds_def demo_like_def demo_db_def demo_claimed_db_def)

lemma demo_identity_matches:
  assumes "demo_holds j d" "k_company_id k = ''co''" "k_job_id k = ''job''"
  shows "executor_identity_still_matches demo_environment demo_config k (demo_at d n)
    = (Inr True, demo_at d (Suc (Suc (Suc n))))"
proof -
  have identity: "observe (v_identity demo_environment) w = (Inr demo_identity, stepped w)" for w
    by (simp add: observe_def demo_environment_def)
  have x: "v_ext demo_environment = demo_externals" by (simp add: demo_environment_def)
  show ?thesis
    using demo_holds_services(1) [OF assms(1)]
    unfolding executor_identity_still_matches_def executor_matches_plan_def current_executor_name_def
    by (simp add: andthen_def attempt_def identity lift_def demo_identity_def demo_config_def demo_reading
        demo_plan_def assms(2,3) x)
qed

lemma demo_claimed_key:
  "claim_submission demo_candidate ''co:job:1'' ''n8n'' demo_now ''A'' demo_later demo_start_db
   = Inr (Some demo_run, demo_leased_db)"
proof -
  have "insert_submission demo_candidate ''co:job:1'' ''n8n'' demo_now ''A'' demo_later demo_start_db
      = Inr (demo_start_db\<lparr>runs := [demo_run]\<rparr>)"
    by (simp add: insert_submission_def row_defs write_defs check_defs job_exists_def
        submission_job_def default_run_def at_job_def)
  moreover have "lease_submission demo_candidate ''co:job:1'' ''n8n'' demo_now ''A'' demo_later
      (demo_start_db\<lparr>runs := [demo_run]\<rparr>) = Inr (demo_start_db\<lparr>runs := [demo_run]\<rparr>, 1)"
    by (simp add: lease_submission_def row_defs write_defs check_defs job_exists_def at_run_def
        claimable_def job_key_def run_key_def lease_def)
  moreover have "start_dispatch demo_candidate demo_now (demo_start_db\<lparr>runs := [demo_run]\<rparr>) = Inr ((), demo_leased_db)"
    by (simp add: start_dispatch_def dispatch_rows_def row_defs write_defs check_defs at_job_def)
  ultimately show ?thesis
    unfolding claim_submission_def by simp (simp add: row_defs get_run_def run_of_def candidate_key_def run_key_def)
qed

lemma demo_shift: "shift (demo_instant 0) 300000000 = Inr (demo_instant 300)"
  "isoformat (demo_instant 300) = demo_later" "isoformat (demo_instant 0) = demo_now"
  by (simp_all add: shift_def demo_time_def) (simp_all add: demo_instant_def valid_instant_def max_instant_def)

lemma demo_claim_act:
  "claim_submission_act demo_environment demo_config demo_candidate ''co:job:1'' (demo_at demo_start_db n)
   = (Inr (Some (demo_run, ''A'')), demo_at demo_leased_db (Suc (Suc (Suc n))))"
  unfolding claim_submission_act_def
  by (simp add: andthen_def demo_now_act demo_token lift_def demo_config_def demo_shift demo_commit
      demo_claimed_key)

lemma demo_lease_timeout:
  "lease_call_timeout demo_environment demo_config demo_run (demo_at d n) = (Inr 30000000, demo_at d (Suc n))"
proof -
  have "aware_text demo_later = Inr (demo_instant 300)"
    by (simp add: aware_text_def demo_time_def parse_aware_isoformat)
  then show ?thesis
    unfolding lease_call_timeout_def
    by (simp add: demo_run_def andthen_def demo_now_act lift_def demo_config_def) (simp add: demo_instant_def)
qed

lemma demo_candidates:
  "next_invalid_scheduler_candidate demo_start_db = None" "next_cancel_candidate t demo_start_db = None"
  "next_terminal_recovery_candidate t demo_start_db = None" "next_poll_candidate t demo_start_db = None"
  "next_retry_candidate t demo_start_db = None" "next_recovery_candidate t s demo_start_db = Some demo_candidate"
  by (simp_all add: next_invalid_scheduler_candidate_def next_cancel_candidate_def candidate_of_def
      next_terminal_recovery_candidate_def next_poll_candidate_def next_retry_candidate_def joined_def
      next_recovery_candidate_def recovery_eligible_def run_of_def col_def stage_is_not_def row_defs
      invalid_scheduler_times_def not_utc_def)

lemma demo_x: "v_ext demo_environment = demo_externals"
  by (simp add: demo_environment_def)

lemma demo_k: "k_company_id demo_candidate = ''co''" "k_job_id demo_candidate = ''job''"
  "k_attempt demo_candidate = 1" "k_state demo_candidate = ''QUEUED''"
  by (simp_all add: demo_candidate_def)

definition demo_call :: "seo_job \<Rightarrow> call \<times> int" where
  "demo_call sj = (SubmitCall demo_candidate sj demo_execution_snapshot (Some (demo_instant 300)) [''m''] [], 30000000)"

lemma demo_external:
  "makes (demo_call sj) (external_call demo_config 30000000 (SubmitCall demo_candidate sj
     demo_execution_snapshot (Some (demo_instant 300)) [''m''] []) reply) w"
  by (auto simp: makes_def external_call_def demo_config_def demo_call_def logged_def stepped_def)

lemma demo_submits:
  "makes (demo_call sj) (submit_call demo_environment demo_config demo_candidate demo_run ''A'' ''co:job:1'' sj
     demo_execution_snapshot (Some (demo_instant 300)) 30000000) (demo_at demo_leased_db n)"
  unfolding submit_call_def
  apply (rule makes_in_try)
   apply (rule makes_intros(1) [of _ _ demo_plan])
    apply (simp add: demo_reading demo_x demo_k demo_holds_services [OF demo_dbs_hold(2)])
   apply (rule makes_in_then)
    apply (simp add: demo_plan_def demo_external)
   apply (rule silent_if_quiet, intro quiet_rules)
  apply (rule silent_if_quiet, intro quiet_rules keeps_executor_error)
  done

lemma demo_window_time: "authority_timeout demo_config (Some (demo_instant 300)) (demo_instant 0) = Some 30000000"
  by (simp add: authority_timeout_def demo_config_def) (simp add: demo_instant_def)

lemma demo_window:
  "makes (demo_call sj) (submit_window demo_environment demo_config demo_candidate demo_run ''A'' ''co:job:1'' sj
     demo_execution_snapshot) (demo_at demo_leased_db n)"
  unfolding submit_window_def
  apply (rule makes_intros(1), rule demo_now_act)
  apply (rule makes_intros(1))
   apply (simp add: demo_reading demo_x demo_k demo_holds_services [OF demo_dbs_hold(2)])
  apply (simp add: demo_window_time)
  apply (rule makes_intros(2), rule demo_lease_timeout)
  apply (simp add: demo_submits)
  done

lemma demo_running_state: "j_state demo_running_job = ''RUNNING''" "j_state demo_job = ''QUEUED''"
  by (simp_all add: demo_running_job_def demo_columns)

text \<open>The job the submission is for.\<close>

definition demo_dispatched :: seo_job where
  "demo_dispatched = projr (job_of demo_externals demo_leased_db ''co'' ''job'')"

lemma demo_resumes:
  "job_of demo_externals demo_leased_db ''co'' ''job'' = Inr demo_dispatched
   \<and> sj_state demo_dispatched = RUNNING
   \<and> resume_dispatch demo_externals demo_leased_db ''co'' (demo_instant 0) ''job''
       = Inr (demo_dispatched, demo_execution_snapshot)"
proof (rule demo_holds_job [OF demo_dbs_hold(2)])
  fix sj assume sj: "job_of demo_externals demo_leased_db ''co'' ''job'' = Inr sj"
    "execution_identity demo_externals demo_leased_db ''co'' demo_running_job (Some (demo_instant 0)) = Inr (sj, demo_execution_snapshot)"
    "sj_state sj = (if j_state demo_running_job = ''QUEUED'' then QUEUED else RUNNING)"
  have "demo_like demo_running_job" by (simp add: demo_like_def)
  then obtain sj0 where "domain_job demo_running_job = Inr sj0" "sj_state sj0 = RUNNING"
    by (rule demo_like_domain) (simp add: demo_running_state)
  then have "resume_dispatch demo_externals demo_leased_db ''co'' (demo_instant 0) ''job'' = Inr (sj, demo_execution_snapshot)"
    using sj(2) by (simp add: resume_dispatch_def demo_holds_checks(1) [OF demo_dbs_hold(2)] dispatching_def)
      (simp add: demo_running_job_def demo_columns)
  moreover have "demo_dispatched = sj" by (simp add: demo_dispatched_def sj)
  ultimately show ?thesis using sj by (simp add: demo_running_state)
qed

lemma demo_claimed_submits:
  "makes (demo_call demo_dispatched)
     (submit_claimed demo_environment demo_config demo_candidate demo_run ''A'' ''co:job:1'') (demo_at demo_leased_db n)"
  unfolding submit_claimed_def
  apply (rule makes_intros(1), rule demo_now_act)
  apply (rule makes_intros(1))
   apply (simp add: demo_reading demo_x demo_k demo_resumes)
  apply (simp add: demo_resumes)
  apply (rule makes_intros(2))
   apply (simp add: demo_reading demo_x demo_k demo_resumes)
  apply simp
  apply (rule makes_intros(1), rule demo_identity_matches [OF demo_dbs_hold(2) demo_k(1,2)])
  apply (simp add: demo_window)
  done

lemma demo_prepares:
  "\<exists>sj. prepare_execution demo_externals demo_start_db ''co'' (demo_instant 0) ''job'' = Inr (sj, demo_execution_snapshot)
     \<and> sj_state sj = QUEUED \<and> sj_attempt sj = 1 \<and> submission_idempotency_key sj = ''co:job:1''"
proof (rule demo_holds_job [OF demo_dbs_hold(1)])
  fix sj assume sj: "execution_identity demo_externals demo_start_db ''co'' demo_job (Some (demo_instant 0)) = Inr (sj, demo_execution_snapshot)"
    "sj_state sj = (if j_state demo_job = ''QUEUED'' then QUEUED else RUNNING)" "sj_attempt sj = 1"
    "sj_company_id sj = ''co''" "sj_job_id sj = ''job''"
  have "demo_like demo_job" by (simp add: demo_like_def)
  then obtain sj0 where "domain_job demo_job = Inr sj0" "sj_state sj0 = QUEUED"
    by (rule demo_like_domain) (simp add: demo_running_state)
  then have "prepare_execution demo_externals demo_start_db ''co'' (demo_instant 0) ''job'' = Inr (sj, demo_execution_snapshot)"
    using sj(1) by (simp add: prepare_execution_def demo_holds_checks(1) [OF demo_dbs_hold(1)] demo_columns)
  with sj show ?thesis by (simp add: demo_running_state submission_idempotency_key_def)
qed

lemma demo_submit_act:
  "makes (demo_call demo_dispatched) (submit_act demo_environment demo_config demo_candidate (demo_instant 0))
     (demo_at demo_start_db n)"
proof -
  obtain sj where sj: "prepare_execution demo_externals demo_start_db ''co'' (demo_instant 0) ''job'' = Inr (sj, demo_execution_snapshot)"
    "sj_state sj = QUEUED" "sj_attempt sj = 1" "submission_idempotency_key sj = ''co:job:1''"
    using demo_prepares by blast
  have "submit_identity demo_environment demo_config demo_candidate (demo_instant 0) (demo_at demo_start_db n)
      = (Inr (Inr (sj, demo_execution_snapshot)), demo_at demo_start_db (Suc n))"
    unfolding submit_identity_def
    by (simp add: demo_k attempt_def demo_reading demo_x sj lift_def)
  then show ?thesis
    using demo_claimed_submits unfolding submit_act_def makes_def
    by (simp add: andthen_def demo_identity_matches [OF demo_dbs_hold(1) demo_k(1,2)] sj demo_k demo_claim_act)
qed

lemma demo_step_submits:
  "makes (demo_call demo_dispatched) (tick_step demo_environment demo_config) (demo_at demo_start_db n)"
proof -
  have "shift (demo_instant 0) (- c_stale_after demo_config) = Inr (demo_instant (- 60))"
    by (simp add: shift_def demo_config_def) (simp add: demo_instant_def valid_instant_def max_instant_def)
  then show ?thesis
    using demo_submit_act unfolding tick_step_def tick_candidates_def tick_recover_def makes_def Let_def
    by (simp add: andthen_def demo_now_act demo_reading demo_candidates demo_k lift_def)
qed

lemma demo_beat: "record_heartbeat ''runner'' demo_now demo_start_db = Inr ((), demo_start_db)"
  by (simp add: record_heartbeat_def demo_beats_def)

lemma demo_tick_submits:
  "makes (demo_call demo_dispatched) (tick demo_environment demo_config 1) demo_world"
proof -
  have w: "demo_world = demo_at demo_start_db 0" by (simp add: demo_world_def demo_at_def)
  have "makes (demo_call demo_dispatched) (tick_loop demo_environment demo_config 1 0) (demo_at demo_start_db n)" for n
    unfolding One_nat_def tick_loop.simps
    by (rule makes_in_then [OF demo_step_submits]) (rule silent_if_quiet, intro quiet_rules)
  moreover have "record_heartbeat_act demo_environment demo_config (demo_instant 0) (demo_at demo_start_db n)
      = (Inr (), demo_at demo_start_db (Suc n))" for n
    by (simp add: record_heartbeat_act_def demo_commit demo_shift demo_beat demo_config_def)
  ultimately show ?thesis
    unfolding w tick_def makes_def by (simp add: andthen_def demo_now_act)
qed

lemma demo_world_ok: "schema_ok (w_db demo_world)"
  by (simp add: demo_world_def schema_ok_def row_defs check_defs jobs_table.table_ok_def
      runs_table.table_ok_def budgets_table.table_ok_def run_has_job_def)

end
