(* ===== verification/RunnerProperties.thy ===== *)
theory RunnerProperties
  imports RunnerDemo
begin

text \<open>
  What a scheduling round guarantees: it is a run of the system, so it keeps \<open>schema_ok\<close> and moves
  the ledger only by its steps; every submission it makes was authorized; every executor call fits the
  lease under which it is made; and the calls and steps of a round are bounded by its limit.
\<close>

section \<open>A round is a run of the system\<close>

lemma tick_run:
  assumes "schema_ok (w_db w)"
  shows "run_of_system (v_ext v) (w_db w) (w_db (snd (tick v cfg limit w)))"
  using audited_tick [OF assms, of v cfg limit] by (simp add: audited_def)

text \<open>
  C14.  A scheduling round refines the ledger: whatever the executor answers, whatever fails and
  whatever other processes commit in between, the round keeps the constraints on jobs, runs and retry
  budgets, evolves stored
  rows only forward, and its effect on states, approvals and the audit log is a run of the abstract
  ledger.
\<close>

theorem tick_refines_ledger:
  assumes "schema_ok (w_db w)"
  shows "schema_ok (w_db (snd (tick v cfg limit w))) \<and> db_evolves (w_db w) (w_db (snd (tick v cfg limit w)))
     \<and> ledger_run (ledger_of (w_db w)) (ledger_of (w_db (snd (tick v cfg limit w))))"
  using run_safe [OF tick_run [OF assms]] run_refines [OF tick_run [OF assms] assms] assms
  by (simp add: safe_step_def)

lemma tick_refines_ledger_witness:
  "ledger_run (ledger_of (w_db demo_world)) (ledger_of (w_db (snd (tick demo_environment demo_config 1 demo_world))))"
  using tick_refines_ledger [OF demo_world_ok] by blast

section \<open>Submissions\<close>

lemma tick_call_sanctioned:
  assumes "schema_ok (w_db w)" "w_calls (snd (tick v cfg limit w)) = w_calls w @ new" "(c, timeout, step) \<in> set new"
  shows "sanctioned v cfg (w_step w) (w_db w) (w_db (snd (tick v cfg limit w))) c timeout step"
    "step \<le> w_step (snd (tick v cfg limit w))"
  using audited_tick [OF assms(1), of v cfg limit] assms(2,3) by (auto simp: audited_def)

lemma resume_launchable:
  assumes "resume_dispatch x d c t k = Inr (sj, sn)"
  shows "launchable x d c k t sj sn \<and> sj_state sj = RUNNING"
proof -
  from assms obtain r sj0 where r: "get_job d c k = Inr r" "domain_job r = Inr sj0" "j_superseded_by_job_id r = None"
    "execution_identity x d c r (Some t) = Inr (sj, sn)" "sj_state sj0 = RUNNING"
    by (auto simp: resume_dispatch_def dispatching_def bnd_eq_Inr split: if_splits)
  moreover have "sj_state sj = sj_state sj0"
    using r(4) by (rule execution_identity_Inr) (use r(2) in simp)
  ultimately show ?thesis using identity_launchable by metis
qed

text \<open>
  C2.  No unauthorized submission: when a round calls the executor's \<open>submit\<close>, then, in this order and
  within the run of the system the round is part of, the attempt was leased; its job was RUNNING with
  intact plan and snapshot and a stored paid approval of both that was open at an instant the round had
  read from its clock; the approval's window was read, after a later reading of the clock (four
  observations before the call), and by that reading it did not close before the call's timeout and the
  margin were over; and the models and providers handed over are those of the job's stored plan.
\<close>

theorem submissions_authorized:
  assumes "schema_ok (w_db w)" "w_calls (snd (tick v cfg limit w)) = w_calls w @ new"
    and "(SubmitCall k job sn expiry models providers, timeout, step) \<in> set new"
  shows "\<exists>claimed checked windowed planned r m t approved plan n s.
     run_of_system (v_ext v) (w_db w) claimed \<and> run_of_system (v_ext v) claimed checked
     \<and> run_of_system (v_ext v) checked windowed \<and> run_of_system (v_ext v) windowed planned
     \<and> run_of_system (v_ext v) planned (w_db (snd (tick v cfg limit w)))
     \<and> r \<in> set (runs claimed) \<and> run_key r = candidate_key k \<and> r_lease_token r \<noteq> None
     \<and> w_step w \<le> m \<and> m < n \<and> n < step \<and> step \<le> n + 4 \<and> v_clock v m = Some t \<and> v_clock v n = Some s
     \<and> launchable (v_ext v) checked (k_company_id k) (k_job_id k) t job sn \<and> sj_state job = RUNNING
     \<and> launch_approval_window (v_ext v) windowed (k_company_id k) (k_job_id k) = Inr (approved, expiry)
     \<and> (case expiry of None \<Rightarrow> True | Some e \<Rightarrow> s + timeout + c_approval_submission_margin cfg \<le> e)
     \<and> execution_plan_of (v_ext v) planned (k_company_id k) (k_job_id k) = Inr plan
     \<and> models = model_ids plan \<and> providers = provider_ids plan"
proof -
  let ?d = "w_db (snd (tick v cfg limit w))"
  from tick_call_sanctioned(1) [OF assms] obtain claimed r where
    c: "run_of_system (v_ext v) (w_db w) claimed" "r \<in> set (runs claimed)" "run_key r = candidate_key k"
      "r_lease_token r \<noteq> None"
      "launch_checked v cfg (w_step w) claimed ?d k job sn expiry models providers timeout step"
    unfolding sanctioned_def by (elim conjE exE) simp
  from c(5) obtain checked windowed planned m t approved plan n s where
    l: "run_of_system (v_ext v) claimed checked" "run_of_system (v_ext v) checked windowed"
      "run_of_system (v_ext v) windowed planned" "run_of_system (v_ext v) planned ?d"
      "w_step w \<le> m" "m < n" "n < step" "step \<le> n + 4" "v_clock v m = Some t" "v_clock v n = Some s"
      "resume_dispatch (v_ext v) checked (k_company_id k) t (k_job_id k) = Inr (job, sn)"
      "launch_approval_window (v_ext v) windowed (k_company_id k) (k_job_id k) = Inr (approved, expiry)"
      "\<forall>e. expiry = Some e \<longrightarrow> s + timeout + c_approval_submission_margin cfg \<le> e"
      "execution_plan_of (v_ext v) planned (k_company_id k) (k_job_id k) = Inr plan"
      "models = model_ids plan" "providers = provider_ids plan"
    unfolding launch_checked_def by blast
  moreover from l(11) have "launchable (v_ext v) checked (k_company_id k) (k_job_id k) t job sn" "sj_state job = RUNNING"
    by (simp_all add: resume_launchable)
  moreover from l(13) have "case expiry of None \<Rightarrow> True | Some e \<Rightarrow> s + timeout + c_approval_submission_margin cfg \<le> e"
    by (simp split: option.split)
  ultimately show ?thesis using c(1-4) by blast
qed

text \<open>The demo round does submit.\<close>

lemma demo_round:
  obtains new step where "w_calls (snd (tick demo_environment demo_config 1 demo_world)) = w_calls demo_world @ new"
    "(fst (demo_call demo_dispatched), snd (demo_call demo_dispatched), step) \<in> set new"
  using demo_tick_submits tick_calls [of demo_environment demo_config 1 demo_world]
  by (auto simp: makes_def demo_world_def)

lemma submissions_authorized_witness:
  "\<exists>checked t. run_of_system demo_externals (w_db demo_world) checked
     \<and> launchable demo_externals checked ''co'' ''job'' t demo_dispatched demo_execution_snapshot"
proof -
  obtain new step where "w_calls (snd (tick demo_environment demo_config 1 demo_world)) = w_calls demo_world @ new"
    "(fst (demo_call demo_dispatched), snd (demo_call demo_dispatched), step) \<in> set new" by (rule demo_round)
  from submissions_authorized [OF demo_world_ok this(1) this(2) [unfolded demo_call_def fst_conv snd_conv]]
  show ?thesis unfolding demo_x demo_k using system_trans by blast
qed

section \<open>Deadlines\<close>

text \<open>
  C26.  Every executor call of a round has a positive timeout of at most the configured one.  It is made
  for a row that was stored during the round for the very attempt the call is about (a submission's or
  lookup's company, job and attempt; the execution a poll or cancellation names), and the lease of that
  row ends at least the safety margin after the timeout, counted from a reading of the runner's clock
  that was made in this round and at most two observations before the call: a call that observes its
  timeout is over before the lease is.
\<close>

theorem external_calls_fit_lease:
  assumes "schema_ok (w_db w)" "w_calls (snd (tick v cfg limit w)) = w_calls w @ new" "(c, timeout, step) \<in> set new"
  shows "0 < timeout \<and> timeout \<le> c_external_call_timeout cfg \<and> step \<le> w_step (snd (tick v cfg limit w))
     \<and> (\<exists>seen r ends e n s. run_of_system (v_ext v) (w_db w) seen
          \<and> run_of_system (v_ext v) seen (w_db (snd (tick v cfg limit w)))
          \<and> r \<in> set (runs seen) \<and> concerns c r
          \<and> r_lease_expires_at r = Some ends \<and> parse_aware ends = Some e
          \<and> w_step w \<le> n \<and> n < step \<and> step \<le> n + 2 \<and> v_clock v n = Some s
          \<and> s + timeout + c_lease_safety_margin cfg \<le> e)"
  using tick_call_sanctioned [OF assms] unfolding sanctioned_def leased_call_def by blast

lemma external_calls_fit_lease_witness:
  "\<exists>seen r ends e. run_of_system demo_externals (w_db demo_world) seen \<and> r \<in> set (runs seen)
     \<and> run_key r = candidate_key demo_candidate
     \<and> r_lease_expires_at r = Some ends \<and> parse_aware ends = Some e \<and> demo_instant 35 \<le> e"
proof -
  obtain new step where "w_calls (snd (tick demo_environment demo_config 1 demo_world)) = w_calls demo_world @ new"
    "(fst (demo_call demo_dispatched), snd (demo_call demo_dispatched), step) \<in> set new" by (rule demo_round)
  from external_calls_fit_lease [OF demo_world_ok this(1) this(2) [unfolded demo_call_def fst_conv snd_conv]]
  obtain seen r ends e n s where "run_of_system demo_externals (w_db demo_world) seen" "r \<in> set (runs seen)"
    "run_key r = candidate_key demo_candidate"
    "r_lease_expires_at r = Some ends" "parse_aware ends = Some e" "v_clock demo_environment n = Some s"
    "s + 30000000 + c_lease_safety_margin demo_config \<le> e"
    unfolding demo_x concerns.simps by blast
  then show ?thesis
    by (intro exI [of _ seen] exI [of _ r] exI [of _ ends] exI [of _ e])
      (simp add: demo_environment_def demo_config_def demo_instant_def)
qed

text \<open>
  C22.  A round is bounded: it appends to the log of executor calls at most \<open>limit\<close> calls, and the
  number of processed candidates it returns lies between 0 and \<open>limit\<close>; a negative limit is refused
  before anything happens.
\<close>

theorem tick_bounded:
  "(\<exists>new. w_calls (snd (tick v cfg limit w)) = w_calls w @ new \<and> int (length new) \<le> max 0 limit)
   \<and> (case fst (tick v cfg limit w) of Inl e \<Rightarrow> True | Inr n \<Rightarrow> 0 \<le> n \<and> n \<le> limit)
   \<and> tick v cfg (- 1 - int m) w = (Inl ValueError, w)"
proof -
  obtain new where "w_calls (snd (tick v cfg limit w)) = w_calls w @ new" "length new \<le> nat limit"
    "\<forall>r. fst (tick v cfg limit w) = Inr r \<longrightarrow> 0 \<le> r \<and> r \<le> limit"
    using tick_calls by blast
  then show ?thesis
    by (intro conjI exI [of _ new]) (simp_all add: tick_def lift_def nat_le_iff split: sum.split)
qed

end
