(* ===== verification/RecoveryProperties.thy ===== *)
theory RecoveryProperties
  imports RunnerDemo SystemProperties
begin

text \<open>
  How work goes on after failures: an attempt whose holder vanished can be taken over once its lease is
  over, retry delays follow the policy, retries of a stage end, and two corners where the recovery code
  does something else than it means to.
\<close>

section \<open>Taking over\<close>

text \<open>
  C27.  No attempt stays stuck behind a vanished holder: in any database that meets the schema, once an
  attempt's lease is absent or over, a claim of it for one of its statuses succeeds, returns the row
  under the new lease and changes nothing else.
\<close>

theorem expired_lease_reclaimable:
  assumes "schema_ok d" "r \<in> set (runs d)" "at_run k r" "opt_in (r_external_status r) statuses" "lease_open now r"
    and "j \<in> set (jobs d)" "job_key j = candidate_key k" "j_state j = k_state k" "j_superseded_by_job_id j = None"
    and "is_utc_timestamp now" "is_utc_timestamp ends"
  shows "\<exists>d'. claim_existing_run k statuses now tok ends d = Inr (Some (lease tok ends now r), d')
     \<and> d' = d\<lparr>runs := map (\<lambda>x. if run_key x = candidate_key k then lease tok ends now r else x) (runs d)\<rparr>"
  by (rule expired_claim [OF assms])

lemma expired_lease_reclaimable_witness:
  "\<exists>d'. claim_existing_run demo_dispatching [''ACCEPTED'', ''RUNNING''] (demo_time 400) ''B'' (demo_time 700) recovery_accepted_db
     = Inr (Some (lease ''B'' (demo_time 700) (demo_time 400) demo_accepted_run), d')"
proof -
  have "demo_accepted_run \<in> set (runs recovery_accepted_db)" "at_run demo_dispatching demo_accepted_run"
    "opt_in (r_external_status demo_accepted_run) [''ACCEPTED'', ''RUNNING'']" "lease_open (demo_time 400) demo_accepted_run"
    "demo_running_job \<in> set (jobs recovery_accepted_db)" "job_key demo_running_job = candidate_key demo_dispatching"
    "j_state demo_running_job = k_state demo_dispatching" "j_superseded_by_job_id demo_running_job = None"
    "is_utc_timestamp (demo_time 400)" "is_utc_timestamp (demo_time 700)"
    by (simp_all add: recovery_accepted_db_def demo_accepted_run_def at_run_def lease_open_def
        job_key_def candidate_key_def row_defs)
  from expired_lease_reclaimable [OF demo_accepted_ok this] show ?thesis by blast
qed

section \<open>Retry delays\<close>

text \<open>
  C21.  The delay before a retry: with a jitter that leaves the delay alone, the policy's doubling loop
  and the executor's wish amount to the base delay doubled once per earlier retry, raised to the
  requested delay, and cut at the maximum.
\<close>

theorem retry_delay_closed_form:
  assumes "make_retry_policy p = Inr q" "jitter q = (\<lambda>s. Inr (Some s))" "is_retryable error_code"
  shows "retry_delay q error_code (int n + 1) requested
    = Inr (min (maximum_delay_seconds q)
        (max (base_delay_seconds q * 2 ^ n) (of_int (or_default requested 0))))"
proof -
  have p: "q = p" "0 < base_delay_seconds p" "base_delay_seconds p \<le> maximum_delay_seconds p"
    using assms(1) by (auto simp: make_retry_policy_def bnd_eq_Inr split: if_splits)
  have "doubled (maximum_delay_seconds p) n (base_delay_seconds p)
      = min (maximum_delay_seconds p) (base_delay_seconds p * 2 ^ n)" by (rule doubled_pow [OF p(2,3)])
  moreover have "0 \<le> base_delay_seconds p * 2 ^ n" using p(2) by simp
  ultimately have "delay_for p error_code (int n + 1) = Inr (min (maximum_delay_seconds p) (base_delay_seconds p * 2 ^ n))"
    using p(2,3) assms(2,3) by (simp add: delay_for_def p(1) min_def not_less)
  then show ?thesis
    using p(3) by (auto simp: retry_delay_def p(1) Let_def min_def max_def)
qed

lemma retry_delay_closed_form_witness:
  "retry_delay (c_retry_policy demo_config) ''HTTP_503'' (int 3 + 1) (Some 5) = Inr 8"
proof -
  have "make_retry_policy (c_retry_policy demo_config) = Inr (c_retry_policy demo_config)"
    "jitter (c_retry_policy demo_config) = (\<lambda>s. Inr (Some s))" "is_retryable ''HTTP_503''"
    by (simp_all add: make_retry_policy_def demo_config_def is_retryable_def)
  from retry_delay_closed_form [OF this, of 3 "Some 5"] show ?thesis by (simp add: demo_config_def or_default_def)
qed

text \<open>
  Whatever the configured jitter does, a delay that is computed lies between zero and the policy's
  maximum, and it is at least what the executor asked for unless it is that maximum; polling is delayed
  by at least a second, again up to the maximum.
\<close>

theorem retry_delay_bounds:
  assumes "make_retry_policy p = Inr q" "retry_delay q error_code n requested = Inr s"
  shows "0 \<le> s \<and> s \<le> maximum_delay_seconds q
     \<and> (of_int (or_default requested 0) \<le> s \<or> s = maximum_delay_seconds q)
     \<and> is_retryable error_code \<and> 1 \<le> n"
proof -
  have p: "q = p" "0 < maximum_delay_seconds p"
    using assms(1) by (auto simp: make_retry_policy_def bnd_eq_Inr split: if_splits)
  from assms(2) obtain t where t: "delay_for p error_code n = Inr t"
    "s = (if maximum_delay_seconds p \<le> of_int (or_default requested 0) then maximum_delay_seconds p
          else max t (of_int (or_default requested 0)))"
    by (auto simp: retry_delay_def p(1) bnd_eq_Inr Let_def split: if_splits)
  from t(1) have "0 \<le> t" "t \<le> maximum_delay_seconds p" "is_retryable error_code" "1 \<le> n"
    using p(2) by (auto simp: delay_for_def bnd_eq_Inr split: if_splits option.splits)
  with t(2) p show ?thesis by auto
qed

section \<open>Retries end\<close>

lemma plan_stays:
  assumes "execution_plan_of x d c k = Inr plan" "run_of_system x d d'" "execution_plan_of x d' c k = Inr plan'"
  shows "plan' = plan"
proof -
  obtain r where r: "get_job d c k = Inr r" "require_plan_integrity x r = Inr plan"
    using assms(1) by (auto simp: execution_plan_of_def bnd_eq_Inr)
  obtain r' where r': "get_job d' c k = Inr r'" "require_plan_integrity x r' = Inr plan'"
    using assms(3) by (auto simp: execution_plan_of_def bnd_eq_Inr)
  have "jobs_table.table_evolves (jobs d) (jobs d')"
    using run_safe [OF assms(2)] by (simp add: safe_step_def db_evolves_def)
  from jobs_table.table_evolves_find [OF this, of "\<lambda>j. j_company_id j = c \<and> j_job_id j = k"]
  have "job_evolves r r'"
    using r(1) r'(1) by (auto simp: get_job_def job_evolves_company split: option.splits)
  then have "j_plan_json r' = j_plan_json r" "j_plan_fingerprint r' = j_plan_fingerprint r"
    by (simp_all add: job_evolve_defs)
  then have "require_plan_integrity x r' = require_plan_integrity x r" by (simp add: require_plan_integrity_def)
  with r(2) r'(2) show ?thesis by simp
qed

lemma retry_count_grows:
  assumes "retry_count_for_stage d c k stage = Inr n" "run_of_system x d d'" "retry_count_for_stage d' c k stage = Inr m"
  shows "n \<le> m"
proof (cases "find (\<lambda>g. budget_key g = (c, k, stage)) (budgets d)")
  case None
  then show ?thesis using assms(1,3) by (auto simp: retry_count_for_stage_def split: option.splits if_splits)
next
  case (Some g)
  have "budgets_table.table_evolves (budgets d) (budgets d')"
    using run_safe [OF assms(2)] by (simp add: safe_step_def db_evolves_def)
  from budgets_table.table_evolves_find [OF this Some]
  obtain g' where "find (\<lambda>g. budget_key g = (c, k, stage)) (budgets d') = Some g'" "budget_evolves g g'" by auto
  then show ?thesis
    using assms(1,3) Some by (auto simp: retry_count_for_stage_def budget_evolves_def split: if_splits)
qed

text \<open>
  C20.  Retries end.  Once a stage of a job has used up the retries of its plan, every later failure
  the executor reports for that stage, however long after and whatever was committed in between, is
  recorded as final and schedules nothing.
\<close>

theorem exhausted_stage_fails_finally:
  assumes "execution_plan_of (v_ext v) d (k_company_id k) (k_job_id k) = Inr plan"
    and "retry_count_for_stage d (k_company_id k) (k_job_id k) (poll_stage st) = Inr used"
    and "maximum_retries plan \<le> used" "run_of_system (v_ext v) d (w_db w)"
    and "plan_failure v cfg k st error_code retryable observed w = (Inr (po, target), w')"
  shows "target = Some FAILED_FINAL \<and> po_external_status po = ''FAILED_FINAL'' \<and> po_next_action_at po = None"
proof -
  have read: "run_of_system (v_ext v) (w_db u) (w_db u') \<and> f (w_db u') = Inr a"
    if "reading v f u = (Inr a, u')" for f :: "db \<Rightarrow> exn + 'a" and u u' a
    using that others_run [of v "w_db u" "w_step u"]
    by (auto simp: reading_def service_def Let_def stepped_def split: option.splits)
  obtain plan' u1 where p: "reading v (\<lambda>d. execution_plan_of (v_ext v) d (k_company_id k) (k_job_id k)) w = (Inr plan', u1)"
    and rest: "andthen (reading v (\<lambda>d. retry_count_for_stage d (k_company_id k) (k_job_id k) (poll_stage st)))
       (\<lambda>count. let retry_number = count + 1; transient = is_retryable error_code; consume = (retryable \<and> transient) in
     if retryable \<and> transient \<and> retry_number \<le> maximum_retries plan' then
       andthen (lift (retry_delay (c_retry_policy cfg) error_code retry_number (es_retry_after_seconds st)))
         (\<lambda>delay.
       andthen (lift (shift observed (seconds_us delay))) (\<lambda>next_action_at.
       ret (outcome st ''FAILED_RETRYABLE'' (poll_stage st) consume (Some next_action_at) None None None,
            Some FAILED_RETRYABLE)))
     else
       ret (outcome st ''FAILED_FINAL'' (poll_stage st) consume None (Some observed) None None,
            Some FAILED_FINAL)) u1 = (Inr (po, target), w')"
    using assms(5) unfolding plan_failure_def
    by (subst (asm) andthen_def) (auto split: prod.splits sum.splits)
  from rest obtain count u2 where c:
    "reading v (\<lambda>d. retry_count_for_stage d (k_company_id k) (k_job_id k) (poll_stage st)) u1 = (Inr count, u2)"
    by (subst (asm) andthen_def) (auto split: prod.splits sum.splits)
  have "plan' = plan" using plan_stays [OF assms(1) system_trans [OF assms(4)]] read [OF p] by blast
  moreover have "used \<le> count"
    using retry_count_grows [OF assms(2) system_trans [OF assms(4) system_trans]] read [OF p] read [OF c] by blast
  ultimately have "\<not> count + 1 \<le> maximum_retries plan'" using assms(3) by simp
  with rest c show ?thesis by (auto simp: andthen_def lift_def outcome_def Let_def)
qed

definition demo_failure :: execution_status where
  "demo_failure = \<lparr>es_external_run_id = ''ext'', es_status = Some ExtFailedRetryable, es_stage_id = Some ''draft'',
     es_retry_after_seconds = None, es_error_code = Some ''HTTP_503'', es_error_summary = Some ''busy'',
     es_result = None\<rparr>"

definition demo_spent_db :: db where
  "demo_spent_db = demo_db\<lparr>budgets := [\<lparr>g_company_id = ''co'', g_job_id = ''job'', g_retry_stage_id = ''poll:draft'',
     g_failure_count = 2, g_created_at = demo_now, g_updated_at = demo_now\<rparr>]\<rparr>"

lemma exhausted_stage_fails_finally_witness:
  "\<exists>po w'. plan_failure demo_environment demo_config demo_candidate demo_failure ''HTTP_503'' True (demo_instant 9)
       (demo_at demo_spent_db 0) = (Inr (po, Some FAILED_FINAL), w') \<and> po_next_action_at po = None"
proof -
  have "demo_holds demo_job demo_spent_db"
    by (simp add: demo_holds_def demo_like_def demo_spent_db_def demo_db_def)
  from demo_holds_services(1) [OF this]
  have plan: "execution_plan_of (v_ext demo_environment) demo_spent_db (k_company_id demo_candidate) (k_job_id demo_candidate)
      = Inr demo_plan" by (simp add: demo_x demo_k)
  have count: "retry_count_for_stage demo_spent_db (k_company_id demo_candidate) (k_job_id demo_candidate) (poll_stage demo_failure) = Inr 2"
    by (simp add: retry_count_for_stage_def demo_spent_db_def demo_k poll_stage_def demo_failure_def budget_key_def)
  obtain po target w' where run: "plan_failure demo_environment demo_config demo_candidate demo_failure ''HTTP_503'' True
      (demo_instant 9) (demo_at demo_spent_db 0) = (Inr (po, target), w')"
    unfolding plan_failure_def
    by (simp add: andthen_def demo_reading plan count lift_def demo_plan_def)
  from exhausted_stage_fails_finally [OF plan count _ _ run]
  have "target = Some FAILED_FINAL \<and> po_next_action_at po = None"
    by (simp add: demo_plan_def system_refl)
  with run show ?thesis by blast
qed

section \<open>Two corners\<close>

text \<open>
  C38.  A poll outcome that arrives after the lease was lost is not recorded, and yet the transaction
  overwrites the stage of the running job: the transaction of \<open>_poll\<close> goes on to the job's stage without
  looking at what \<open>record_poll_status\<close> returned, and commits before the refusal is raised.
\<close>

theorem stale_poll_writes_stage:
  assumes "schema_ok d" "\<not> holds_lease d (candidate_key k) tok"
    and "jobs d = us @ j # vs" "at_job k j" "j_state j = ''RUNNING''" "j_superseded_by_job_id j = None"
  shows "record_poll_and_stage k tok po True now d
    = Inr (False, d\<lparr>jobs := us @ j\<lparr>j_current_stage := po_current_stage po\<rparr> # vs\<rparr>)"
proof -
  have "record_poll_status k tok po now d = Inr (False, d)"
    using settle_laws(1) [of "PollStatus po" now] assms(2) by (simp add: fenced_def)
  moreover have "update_running_stage k (po_current_stage po) d
      = Inr (True, d\<lparr>jobs := us @ j\<lparr>j_current_stage := po_current_stage po\<rparr> # vs\<rparr>)"
  proof -
    let ?P = "\<lambda>j. at_job k j \<and> j_state j = ''RUNNING'' \<and> j_superseded_by_job_id j = None"
    have j: "j \<in> set (jobs d)" using assms(3) by simp
    have distinct: "distinct (map j_job_id (us @ j # vs))" and ok: "0 < j_attempt j"
      and compatible: "x \<in> set (us @ vs) \<Longrightarrow> jobs_compatible x j" for x
      using assms(1,3) jobs_table.compatible_sym
      by (auto simp: schema_ok_def jobs_table.table_ok_def sorted_wrt_append)
    have "\<not> ?P x" if "x \<in> set (us @ vs)" for x
      using distinct that assms(4) by (auto simp: at_job_def image_iff)
    moreover have "active_job_state (j_state j)" using assms(5) by (simp add: active_job_state_def)
    then have "one_active_job_per_creator (us @ vs) (j\<lparr>j_current_stage := po_current_stage po\<rparr>)"
      by (intro active_stays_one_active [OF compatible]) simp_all
    then have "job_update_check (approvals d, [''current_stage'']) (us @ vs) j (j\<lparr>j_current_stage := po_current_stage po\<rparr>) = Pass"
      using ok by (simp add: job_update_check_def jobs_created_by_immutable_def jobs_execution_provenance_immutable_def
          jobs_execution_plan_immutable_def jobs_supersession_append_only_def jobs_supersession_same_lineage_def
          written_def jobs_approval_binding_write_once_def jobs_artifact_manifest_binding_write_once_def)
    ultimately have "update_jobs [''current_stage''] ?P (\<lambda>j. j\<lparr>j_current_stage := po_current_stage po\<rparr>) d
        = Inr (d\<lparr>jobs := us @ j\<lparr>j_current_stage := po_current_stage po\<rparr> # vs\<rparr>, 1)"
      using assms(4-6) by (intro update_jobs_one(1) [OF assms(3)]) auto
    then show ?thesis by (simp add: update_running_stage_def job_write_def)
  qed
  ultimately show ?thesis by (simp add: record_poll_and_stage_def)
qed

definition demo_stale_outcome :: poll_outcome where
  "demo_stale_outcome =
     \<lparr>po_external_status = ''RUNNING'', po_current_stage = Some ''draft'', po_retry_stage_id = ''poll:draft'',
      po_consume_retry = False, po_next_action_at = Some demo_later, po_completion_observed_at = None,
      po_error_code = None, po_error_summary = None, po_result_json = None, po_result_hash = None\<rparr>"

lemma stale_poll_writes_stage_witness:
  "record_poll_and_stage demo_dispatching ''B'' demo_stale_outcome True (demo_time 400) recovery_accepted_db
    = Inr (False, recovery_accepted_db\<lparr>jobs := [demo_running_job\<lparr>j_current_stage := Some ''draft''\<rparr>]\<rparr>)"
proof -
  have "\<not> holds_lease recovery_accepted_db (candidate_key demo_dispatching) ''B''"
    by (simp add: holds_lease_def rows_def recovery_accepted_db_def demo_accepted_run_def row_defs)
  moreover have "jobs recovery_accepted_db = [] @ demo_running_job # []" "at_job demo_dispatching demo_running_job"
    "j_state demo_running_job = ''RUNNING''" "j_superseded_by_job_id demo_running_job = None"
    by (simp_all add: recovery_accepted_db_def row_defs at_job_def)
  ultimately have "record_poll_and_stage demo_dispatching ''B'' demo_stale_outcome True (demo_time 400) recovery_accepted_db
    = Inr (False, recovery_accepted_db\<lparr>jobs := [] @ demo_running_job\<lparr>j_current_stage := po_current_stage demo_stale_outcome\<rparr> # []\<rparr>)"
    by (intro stale_poll_writes_stage [OF demo_accepted_ok])
  then show ?thesis by (simp add: demo_stale_outcome_def)
qed

text \<open>
  C37.  A queued job whose submission was durably rejected is offered for terminal recovery but can never
  be finalized: the attempt has no accepted external run, and the check of the external identity comes
  first and fails, so that no database access follows and the branch for queued jobs is dead.
\<close>

theorem rejected_submission_not_finalized:
  assumes "terminal_eligible now j r" "j_state j = ''QUEUED''"
  shows "finalize_claimed v cfg k r instant w = (Inl DataIntegrityError, w)"
proof -
  have "r_external_run_id r = None" using assms by (auto simp: terminal_eligible_def)
  then show ?thesis by (simp add: finalize_claimed_def external_run_of_def andthen_def lift_def)
qed

lemma rejected_submission_not_finalized_witness:
  "finalize_claimed demo_environment demo_config demo_candidate
     (demo_run\<lparr>r_external_status := Some ''FAILED_FINAL'', r_lease_token := None, r_lease_expires_at := None\<rparr>)
     (demo_instant 9) demo_world = (Inl DataIntegrityError, demo_world)"
  by (rule rejected_submission_not_finalized [of "demo_time 9" demo_job])
    (simp_all add: terminal_eligible_def row_defs stage_is_not_def lease_open_def opt_in_def)

end
