(* ===== verification/RailLedger.thy ===== *)
theory RailLedger
  imports RailPackets SqlTable
begin

text \<open>
  The rail's ledger (\<open>SupervisedRail\<close> in \<open>supervised_rail.py\<close>): its four tables with their CHECKs, keys
  and triggers, the statements that write them, and \<open>_append_event\<close>, which extends a job's hash chain.
  The integrity key's HMAC and SHA-256 are parameters; a column holds a value of its declared type.
\<close>

section \<open>Rows\<close>

record rail_job =
  rj_company_id :: pystr
  rj_job_id :: pystr
  rj_status :: pystr
  rj_packet_json :: pystr
  rj_approval_record_id :: pystr
  rj_approved_plan_fingerprint :: pystr
  rj_snapshot_hash :: pystr
  rj_evidence_hash :: pystr
  rj_context_json :: pystr
  rj_event_count :: int
  rj_event_head_hash :: "pystr option"
  rj_event_head_mac :: "pystr option"
  rj_artifact_manifest_path :: "pystr option"
  rj_artifact_manifest_hash :: "pystr option"

record rail_packet =
  rp_company_id :: pystr
  rp_job_id :: pystr
  rp_stage_id :: pystr
  rp_sequence :: int
  rp_input_hash :: pystr
  rp_packet_json :: pystr

record rail_completion =
  rc_company_id :: pystr
  rc_job_id :: pystr
  rc_input_hash :: pystr
  rc_completion_hash :: pystr
  rc_completion_json :: pystr

record rail_event =
  re_company_id :: pystr
  re_job_id :: pystr
  re_event_sequence :: int
  re_predecessor_hash :: "pystr option"
  re_event_type :: pystr
  re_recorded_at :: pystr
  re_event_hash :: pystr
  re_event_mac :: pystr
  re_event_json :: pystr

text \<open>The tables in rowid order.\<close>

record rail =
  rl_jobs :: "rail_job list"
  rl_packets :: "rail_packet list"
  rl_completions :: "rail_completion list"
  rl_events :: "rail_event list"

record rail_env =
  rv_sha256 :: "bytes \<Rightarrow> pystr"
  rv_mac :: "pystr \<Rightarrow> pystr"
  rv_screens :: screens

datatype supervised_status =
    PACKET_READY | AWAITING_OPERATOR_EXECUTION | OPERATOR_RECOVERY_REQUIRED | CANCEL_REQUESTED
  | FINAL_QA_READY | ARTIFACT_FROZEN

fun status_text :: "supervised_status \<Rightarrow> pystr" where
  "status_text PACKET_READY = ''PACKET_READY''"
| "status_text AWAITING_OPERATOR_EXECUTION = ''AWAITING_OPERATOR_EXECUTION''"
| "status_text OPERATOR_RECOVERY_REQUIRED = ''OPERATOR_RECOVERY_REQUIRED''"
| "status_text CANCEL_REQUESTED = ''CANCEL_REQUESTED''"
| "status_text FINAL_QA_READY = ''FINAL_QA_READY''"
| "status_text ARTIFACT_FROZEN = ''ARTIFACT_FROZEN''"

definition status_of :: "pystr \<Rightarrow> supervised_status option" where
  "status_of s =
     find (\<lambda>st. status_text st = s)
       [PACKET_READY, AWAITING_OPERATOR_EXECUTION, OPERATOR_RECOVERY_REQUIRED, CANCEL_REQUESTED,
        FINAL_QA_READY, ARTIFACT_FROZEN]"

text \<open>The values of \<open>CompletionState\<close>.\<close>

definition completion_submitted :: pystr where "completion_submitted = ''COMPLETION_SUBMITTED''"
definition completion_accepted :: pystr where "completion_accepted = ''COMPLETION_ACCEPTED''"
definition completion_rejected :: pystr where "completion_rejected = ''COMPLETION_REJECTED''"

section \<open>Keys\<close>

type_synonym rail_key = "pystr \<times> pystr"  \<comment> \<open>company and job\<close>

definition rail_job_key :: "rail_job \<Rightarrow> rail_key" where "rail_job_key j = (rj_company_id j, rj_job_id j)"
definition packet_key :: "rail_packet \<Rightarrow> rail_key" where "packet_key p = (rp_company_id p, rp_job_id p)"
definition completion_key :: "rail_completion \<Rightarrow> rail_key" where
  "completion_key c = (rc_company_id c, rc_job_id c)"
definition event_key :: "rail_event \<Rightarrow> rail_key" where "event_key e = (re_company_id e, re_job_id e)"

definition run_row :: "rail \<Rightarrow> rail_key \<Rightarrow> rail_job option" where
  "run_row l k = find (\<lambda>j. rail_job_key j = k) (rl_jobs l)"

definition run_packets :: "rail \<Rightarrow> rail_key \<Rightarrow> rail_packet list" where
  "run_packets l k = filter (\<lambda>p. packet_key p = k) (rl_packets l)"

definition run_completions :: "rail \<Rightarrow> rail_key \<Rightarrow> rail_completion list" where
  "run_completions l k = filter (\<lambda>c. completion_key c = k) (rl_completions l)"

definition run_events :: "rail \<Rightarrow> rail_key \<Rightarrow> rail_event list" where
  "run_events l k = filter (\<lambda>e. event_key e = k) (rl_events l)"

section \<open>Constraints and triggers\<close>

definition hex_or_null :: "pystr option \<Rightarrow> bool" where
  "hex_or_null v = (case v of None \<Rightarrow> True | Some s \<Rightarrow> is_sha256_hex s)"

definition rail_job_row_ok :: "rail_job \<Rightarrow> bool" where
  "rail_job_row_ok j =
     (is_sha256_hex (rj_approved_plan_fingerprint j) \<and> is_sha256_hex (rj_snapshot_hash j)
      \<and> is_sha256_hex (rj_evidence_hash j) \<and> 0 \<le> rj_event_count j
      \<and> hex_or_null (rj_event_head_hash j) \<and> hex_or_null (rj_event_head_mac j)
      \<and> hex_or_null (rj_artifact_manifest_hash j)
      \<and> (rj_artifact_manifest_path j = None) = (rj_artifact_manifest_hash j = None)
      \<and> (rj_event_count j = 0 \<and> rj_event_head_hash j = None \<and> rj_event_head_mac j = None
         \<or> 0 < rj_event_count j \<and> rj_event_head_hash j \<noteq> None \<and> rj_event_head_mac j \<noteq> None))"

definition binding_no_update :: "rail_job \<Rightarrow> rail_job \<Rightarrow> bool" where
  "binding_no_update old new =
     (rj_company_id old = rj_company_id new \<and> rj_job_id old = rj_job_id new
      \<and> rj_approval_record_id old = rj_approval_record_id new
      \<and> rj_approved_plan_fingerprint old = rj_approved_plan_fingerprint new
      \<and> rj_snapshot_hash old = rj_snapshot_hash new \<and> rj_evidence_hash old = rj_evidence_hash new
      \<and> rj_context_json old = rj_context_json new)"

definition packet_head_next :: "rail \<Rightarrow> rail_job \<Rightarrow> rail_job \<Rightarrow> bool" where
  "packet_head_next l old new =
     (rj_packet_json old = rj_packet_json new
      \<or> list_ex (\<lambda>p. rp_packet_json p = rj_packet_json old
           \<and> list_ex (\<lambda>q. rp_sequence q = rp_sequence p + 1 \<and> rp_packet_json q = rj_packet_json new)
               (run_packets l (rail_job_key old)))
          (run_packets l (rail_job_key old)))"

text \<open>This trigger runs for statements that set a head column (\<open>BEFORE UPDATE OF\<close>).\<close>

definition event_head_next :: "rail \<Rightarrow> rail_job \<Rightarrow> rail_job \<Rightarrow> bool" where
  "event_head_next l old new =
     (rj_event_count new = rj_event_count old + 1
      \<and> list_ex (\<lambda>e. re_event_sequence e = rj_event_count old
           \<and> re_predecessor_hash e = rj_event_head_hash old
           \<and> Some (re_event_hash e) = rj_event_head_hash new \<and> Some (re_event_mac e) = rj_event_head_mac new)
          (run_events l (rail_job_key old)))"

definition artifact_initial_bind :: "rail_job \<Rightarrow> rail_job \<Rightarrow> bool" where
  "artifact_initial_bind old new =
     (rj_artifact_manifest_path old \<noteq> None \<or> rj_artifact_manifest_hash old \<noteq> None
      \<or> rj_artifact_manifest_path new = None \<and> rj_artifact_manifest_hash new = None
      \<or> rj_status old = ''FINAL_QA_READY'' \<and> rj_status new = ''ARTIFACT_FROZEN''
        \<and> rj_artifact_manifest_path new \<noteq> None \<and> rj_artifact_manifest_hash new \<noteq> None)"

definition artifact_no_rebind :: "rail_job \<Rightarrow> rail_job \<Rightarrow> bool" where
  "artifact_no_rebind old new =
     (rj_artifact_manifest_path old = None \<and> rj_artifact_manifest_hash old = None
      \<or> rj_artifact_manifest_path old = rj_artifact_manifest_path new
        \<and> rj_artifact_manifest_hash old = rj_artifact_manifest_hash new)"

definition rail_job_chk :: "bool \<times> rail \<Rightarrow> rail_job list \<Rightarrow> rail_job \<Rightarrow> rail_job \<Rightarrow> verdict" where
  "rail_job_chk c others old new =
     (case c of (sets_head, l) \<Rightarrow>
        if \<not> (binding_no_update old new \<and> packet_head_next l old new
              \<and> (sets_head \<longrightarrow> event_head_next l old new)
              \<and> artifact_initial_bind old new \<and> artifact_no_rebind old new) then Abort
        else if \<not> rail_job_row_ok new \<or> rail_job_key new \<in> set (map rail_job_key others) then Conflict
        else Pass)"

section \<open>Statements\<close>

definition update_run :: "bool \<Rightarrow> (rail_job \<Rightarrow> bool) \<Rightarrow> (rail_job \<Rightarrow> rail_job) \<Rightarrow> rail \<Rightarrow> exn + (rail \<times> nat)" where
  "update_run sets_head P f l =
     bnd (sql_update False (rail_job_chk (sets_head, l)) P f [] (rl_jobs l)) (\<lambda>(js, n).
       Inr (l\<lparr>rl_jobs := js\<rparr>, n))"

definition insert_rail_job :: "rail_job \<Rightarrow> rail \<Rightarrow> exn + rail" where
  "insert_rail_job j l =
     (if rail_job_row_ok j \<and> rail_job_key j \<notin> set (map rail_job_key (rl_jobs l))
      then Inr (l\<lparr>rl_jobs := rl_jobs l @ [j]\<rparr>) else Inl SqliteIntegrityError)"

definition insert_packet :: "rail_packet \<Rightarrow> rail \<Rightarrow> exn + rail" where
  "insert_packet p l =
     (if list_ex (\<lambda>q. rp_stage_id q = rp_stage_id p \<and> rp_sequence q = rp_sequence p
             \<or> rp_input_hash q = rp_input_hash p) (run_packets l (packet_key p))
      then Inl SqliteIntegrityError else Inr (l\<lparr>rl_packets := rl_packets l @ [p]\<rparr>))"

definition insert_completion :: "rail_completion \<Rightarrow> rail \<Rightarrow> exn + rail" where
  "insert_completion c l =
     (if is_sha256_hex (rc_completion_hash c)
         \<and> \<not> list_ex (\<lambda>d. rc_input_hash d = rc_input_hash c) (run_completions l (completion_key c))
         \<and> list_ex (\<lambda>p. rp_input_hash p = rc_input_hash c) (run_packets l (completion_key c))
      then Inr (l\<lparr>rl_completions := rl_completions l @ [c]\<rparr>) else Inl SqliteIntegrityError)"

text \<open>Without a job row the subqueries of the append trigger are NULL, which no sequence number is.\<close>

definition events_append_next :: "rail_env \<Rightarrow> rail \<Rightarrow> rail_event \<Rightarrow> bool" where
  "events_append_next v l e =
     (case run_row l (event_key e) of
        None \<Rightarrow> False
      | Some j \<Rightarrow> re_event_sequence e = rj_event_count j \<and> re_predecessor_hash e = rj_event_head_hash j
          \<and> re_event_mac e = rv_mac v (re_event_json e))"

definition rail_event_row_ok :: "rail_event \<Rightarrow> bool" where
  "rail_event_row_ok e =
     (0 \<le> re_event_sequence e \<and> hex_or_null (re_predecessor_hash e) \<and> is_sha256_hex (re_event_hash e)
      \<and> is_sha256_hex (re_event_mac e))"

definition insert_event :: "rail_env \<Rightarrow> rail_event \<Rightarrow> rail \<Rightarrow> exn + rail" where
  "insert_event v e l =
     (if events_append_next v l e \<and> rail_event_row_ok e
         \<and> \<not> list_ex (\<lambda>d. re_event_sequence d = re_event_sequence e \<or> re_event_hash d = re_event_hash e)
               (run_events l (event_key e))
      then Inr (l\<lparr>rl_events := rl_events l @ [e]\<rparr>) else Inl SqliteIntegrityError)"

section \<open>Appending an event\<close>

definition event_value ::
  "rail_key \<Rightarrow> int \<Rightarrow> pystr option \<Rightarrow> pystr \<Rightarrow> pystr \<Rightarrow> jdict \<Rightarrow> jdict" where
  "event_value k sequence predecessor event_type recorded_at details =
     [(''company_id'', JStr (fst k)), (''job_id'', JStr (snd k)), (''event_sequence'', JInt sequence),
      (''predecessor_hash'', jopt predecessor), (''event_type'', JStr event_type),
      (''recorded_at'', JStr recorded_at), (''details'', JObj details)]"

text \<open>\<open>now\<close> is the clock reading.\<close>

definition append_event ::
  "rail_env \<Rightarrow> rail_key \<Rightarrow> pystr \<Rightarrow> jdict \<Rightarrow> instant \<Rightarrow> rail \<Rightarrow> exn + rail" where
  "append_event v k event_type details now l =
     (case run_row l k of
        None \<Rightarrow> Inl DataIntegrityError
      | Some j \<Rightarrow>
          if rj_event_count j < 0 then Inl DataIntegrityError else
          let sequence = rj_event_count j; predecessor = rj_event_head_hash j;
              recorded_at = isoformat now;
              value = JObj (event_value k sequence predecessor event_type recorded_at details) in
          bnd (canonical_json value) (\<lambda>event_text.
          bnd (sha256_fingerprint (rv_sha256 v) value) (\<lambda>event_hash.
          let event_mac = rv_mac v event_text in
          bnd (insert_event v \<lparr>re_company_id = fst k, re_job_id = snd k, re_event_sequence = sequence,
                 re_predecessor_hash = predecessor, re_event_type = event_type,
                 re_recorded_at = recorded_at, re_event_hash = event_hash, re_event_mac = event_mac,
                 re_event_json = event_text\<rparr> l) (\<lambda>l.
          bnd (update_run True
                 (\<lambda>r. rail_job_key r = k \<and> rj_event_count r = sequence \<and> rj_event_head_hash r = predecessor)
                 (\<lambda>r. r\<lparr>rj_event_count := sequence + 1, rj_event_head_hash := Some event_hash,
                        rj_event_head_mac := Some event_mac\<rparr>) l) (\<lambda>(l, n).
            if n \<noteq> 1 then Inl DataIntegrityError else Inr l)))))"

section \<open>The job table keeps its bindings\<close>

text \<open>What an accepted update leaves alone: the frozen binding, and an artifact once it is bound.\<close>

definition rail_run_evolves :: "rail_job \<Rightarrow> rail_job \<Rightarrow> bool" where
  "rail_run_evolves old new = (binding_no_update old new \<and> artifact_no_rebind old new)"

interpretation runs: keyed_table rail_job_key rail_job_chk rail_run_evolves
proof
  fix c others r r'
  assume "rail_job_chk c others r r' = Pass"
  then show "rail_job_key r' = rail_job_key r" "rail_run_evolves r r'"
    by (auto simp: rail_job_chk_def rail_run_evolves_def binding_no_update_def rail_job_key_def
        split: prod.splits if_splits)
next
  fix r s t
  show "rail_run_evolves r r"
    by (simp add: rail_run_evolves_def binding_no_update_def artifact_no_rebind_def)
  assume "rail_run_evolves r s" "rail_run_evolves s t"
  then show "rail_run_evolves r t"
    by (auto simp: rail_run_evolves_def binding_no_update_def artifact_no_rebind_def)
qed

end
