(* ===== verification/RailStatus.thy ===== *)
theory RailStatus
  imports RailLedger
begin

text \<open>
  How the rail trusts its ledger: \<open>_validated_status_projection\<close> re-reads a run's whole event chain,
  authenticates every event, and checks that packets, completions, artifact and status are exactly what
  the events say (\<open>_validate_authenticated_materializations\<close>).  Every operation starts with it.
\<close>

section \<open>Reading event details\<close>

definition event_details :: "jdict \<Rightarrow> pystr list \<Rightarrow> exn + jdict" where
  "event_details event expected_keys =
     (case jget ''details'' event of
        Some (JObj details) \<Rightarrow> if same_keys details expected_keys then Inr details else Inl DataIntegrityError
      | _ \<Rightarrow> Inl DataIntegrityError)"

definition event_string :: "jdict \<Rightarrow> pystr \<Rightarrow> exn + pystr" where
  "event_string details key =
     (case jget key details of
        Some (JStr s) \<Rightarrow> if blank s then Inl DataIntegrityError else Inr s
      | _ \<Rightarrow> Inl DataIntegrityError)"

definition as_integrity_error :: "exn + 'a \<Rightarrow> exn + 'a" where
  "as_integrity_error m =
     (case m of Inl e \<Rightarrow> Inl (if type_or_value_error e then DataIntegrityError else e) | Inr x \<Rightarrow> Inr x)"

definition event_digest :: "jdict \<Rightarrow> pystr \<Rightarrow> exn + pystr" where
  "event_digest details key = as_integrity_error (sha256_digest (field_of details key))"

section \<open>What the events say\<close>

text \<open>Packets and acceptances in order, each with the position of its event.\<close>

record materialized =
  mz_packets :: "(pystr \<times> int \<times> pystr \<times> nat) list"
  mz_accepted :: "(pystr \<times> pystr \<times> pystr \<times> nat) list"
  mz_final :: "(pystr \<times> nat) option"
  mz_artifact :: "(pystr \<times> pystr \<times> nat) option"

definition nothing_materialized :: materialized where
  "nothing_materialized = \<lparr>mz_packets = [], mz_accepted = [], mz_final = None, mz_artifact = None\<rparr>"

definition materialize_packet :: "nat \<Rightarrow> jdict \<Rightarrow> materialized \<Rightarrow> exn + materialized" where
  "materialize_packet position event m =
     bnd (event_details event [''stage_id'', ''sequence'', ''input_hash'']) (\<lambda>details.
     bnd (event_string details ''stage_id'') (\<lambda>stage.
     bnd (event_digest details ''input_hash'') (\<lambda>input.
     (case jget ''sequence'' details of
        Some (JInt sequence) \<Rightarrow>
          if sequence \<noteq> int (length (mz_packets m)) \<or> int (length STAGE_IDS) \<le> sequence
             \<or> stage \<noteq> STAGE_IDS ! nat sequence
          then Inl DataIntegrityError
          else Inr (m\<lparr>mz_packets := mz_packets m @ [(stage, sequence, input, position)]\<rparr>)
      | _ \<Rightarrow> Inl DataIntegrityError))))"

definition materialize_accepted :: "nat \<Rightarrow> jdict \<Rightarrow> materialized \<Rightarrow> exn + materialized" where
  "materialize_accepted position event m =
     bnd (event_details event [''stage_id'', ''input_hash'', ''completion_hash'']) (\<lambda>details.
     bnd (event_string details ''stage_id'') (\<lambda>stage.
     bnd (event_digest details ''input_hash'') (\<lambda>input.
     bnd (event_digest details ''completion_hash'') (\<lambda>completion.
     if length (mz_packets m) \<le> length (mz_accepted m) then Inl DataIntegrityError else
     (case mz_packets m ! length (mz_accepted m) of (packet_stage, _, packet_input, _) \<Rightarrow>
        if (stage, input) \<noteq> (packet_stage, packet_input) then Inl DataIntegrityError
        else Inr (m\<lparr>mz_accepted := mz_accepted m @ [(stage, input, completion, position)]\<rparr>))))))"

definition submission_keys :: "pystr list" where
  "submission_keys =
     [''stage_id'', ''outstanding_input_hash'', ''submitted_stage_id'', ''submitted_input_hash'', ''operator_id'']"

definition check_submission :: "jdict \<Rightarrow> exn + unit" where
  "check_submission details =
     bnd (event_string details ''stage_id'') (\<lambda>_.
     bnd (event_digest details ''outstanding_input_hash'') (\<lambda>_.
     bnd (event_string details ''submitted_stage_id'') (\<lambda>_.
     bnd (event_digest details ''submitted_input_hash'') (\<lambda>_.
     bnd (event_string details ''operator_id'') (\<lambda>_. Inr ())))))"

definition check_resolved :: "jdict \<Rightarrow> exn + unit" where
  "check_resolved event =
     bnd (event_details event [''operator_id'', ''outstanding_input_hash'', ''replacement_attempt'', ''maximum_retries''])
       (\<lambda>details.
     bnd (event_string details ''operator_id'') (\<lambda>_.
     bnd (event_digest details ''outstanding_input_hash'') (\<lambda>_.
     require (jget ''replacement_attempt'' details = Some (JBool False)
              \<and> jget ''maximum_retries'' details = Some (JInt 0)) DataIntegrityError)))"

definition check_cancel :: "jdict \<Rightarrow> exn + unit" where
  "check_cancel event =
     bnd (event_details event [''operator_id'', ''prior_status'', ''outstanding_input_hash'',
            ''local_request_only'', ''upstream_cancellation'']) (\<lambda>details.
     bnd (event_string details ''operator_id'') (\<lambda>_.
     bnd (event_string details ''prior_status'') (\<lambda>prior.
     bnd (event_digest details ''outstanding_input_hash'') (\<lambda>_.
     require (prior \<in> {''AWAITING_OPERATOR_EXECUTION'', ''OPERATOR_RECOVERY_REQUIRED''}
              \<and> jget ''local_request_only'' details = Some (JBool True)
              \<and> jget ''upstream_cancellation'' details = Some (JBool False)) DataIntegrityError))))"

definition materialize_final :: "nat \<Rightarrow> jdict \<Rightarrow> materialized \<Rightarrow> exn + materialized" where
  "materialize_final position event m =
     (if mz_final m \<noteq> None then Inl DataIntegrityError else
      bnd (event_details event [''final_input_hash'']) (\<lambda>details.
      bnd (event_digest details ''final_input_hash'') (\<lambda>input.
        Inr (m\<lparr>mz_final := Some (input, position)\<rparr>))))"

definition materialize_artifact :: "nat \<Rightarrow> jdict \<Rightarrow> materialized \<Rightarrow> exn + materialized" where
  "materialize_artifact position event m =
     (if mz_artifact m \<noteq> None then Inl DataIntegrityError else
      bnd (event_details event [''manifest_path'', ''manifest_hash'']) (\<lambda>details.
      bnd (event_string details ''manifest_path'') (\<lambda>path.
      bnd (event_digest details ''manifest_hash'') (\<lambda>h.
        Inr (m\<lparr>mz_artifact := Some (path, h, position)\<rparr>)))))"

definition materialize :: "nat \<Rightarrow> jdict \<Rightarrow> materialized \<Rightarrow> exn + materialized" where
  "materialize position event m =
     (case jget ''event_type'' event of
        Some (JStr event_type) \<Rightarrow>
          if event_type = ''PACKET_PREPARED'' then materialize_packet position event m
          else if event_type = completion_accepted then materialize_accepted position event m
          else if event_type = completion_submitted then
            bnd (event_details event submission_keys) (\<lambda>details.
            bnd (check_submission details) (\<lambda>_. Inr m))
          else if event_type = completion_rejected then
            bnd (event_details event (submission_keys @ [''reason_code''])) (\<lambda>details.
            bnd (check_submission details) (\<lambda>_.
            bnd (event_string details ''reason_code'') (\<lambda>_. Inr m)))
          else if event_type = ''OPERATOR_RECOVERY_REQUIRED'' then
            bnd (event_details event [''outstanding_input_hash'']) (\<lambda>details.
            bnd (event_digest details ''outstanding_input_hash'') (\<lambda>_. Inr m))
          else if event_type = ''RECOVERY_RESOLVED_FOR_EXACT_BINDING'' then
            bnd (check_resolved event) (\<lambda>_. Inr m)
          else if event_type = ''CANCEL_REQUESTED'' then bnd (check_cancel event) (\<lambda>_. Inr m)
          else if event_type = ''FINAL_QA_READY'' then materialize_final position event m
          else if event_type = ''ARTIFACT_FROZEN'' then materialize_artifact position event m
          else Inl DataIntegrityError
      | _ \<Rightarrow> Inl DataIntegrityError)"

fun materialize_all :: "nat \<Rightarrow> jdict list \<Rightarrow> materialized \<Rightarrow> exn + materialized" where
  "materialize_all position [] m = Inr m"
| "materialize_all position (event # events) m =
     bnd (materialize position event m) (materialize_all (Suc position) events)"

text \<open>The order of the events: each acceptance after its packet and before the next one.\<close>

definition acceptance_in_order :: "materialized \<Rightarrow> nat \<Rightarrow> bool" where
  "acceptance_in_order m i =
     (case (mz_packets m ! i, mz_accepted m ! i) of ((_, _, _, packet_position), (_, _, _, position)) \<Rightarrow>
        packet_position < position
        \<and> (i + 1 < length (mz_packets m) \<longrightarrow>
             (case mz_packets m ! (i + 1) of (_, _, _, next_position) \<Rightarrow> position < next_position)))"

definition final_in_order :: "materialized \<Rightarrow> bool" where
  "final_in_order m =
     (case mz_final m of None \<Rightarrow> True
      | Some (input, position) \<Rightarrow>
          length (mz_accepted m) = length STAGE_IDS
          \<and> (case last (mz_accepted m) of (_, last_input, _, last_position) \<Rightarrow>
               input = last_input \<and> last_position < position))"

definition artifact_in_order :: "materialized \<Rightarrow> bool" where
  "artifact_in_order m =
     (case mz_artifact m of None \<Rightarrow> True
      | Some (_, _, position) \<Rightarrow>
          (case mz_final m of None \<Rightarrow> False | Some (_, final_position) \<Rightarrow> final_position < position))"

definition events_in_order :: "materialized \<Rightarrow> bool" where
  "events_in_order m =
     (mz_packets m \<noteq> [] \<and> list_all (acceptance_in_order m) [0..<length (mz_accepted m)]
      \<and> final_in_order m \<and> artifact_in_order m)"

section \<open>The stored packets and completions\<close>

definition check_context :: "rail_env \<Rightarrow> rail_job \<Rightarrow> exn + jdict" where
  "check_context v j =
     (case parse_text (rj_context_json j) of
        Some (JObj context) \<Rightarrow>
          as_integrity_error (
            bnd (canonical_json (JObj context)) (\<lambda>b.
            if b \<noteq> rj_context_json j then Inl DataIntegrityError else
            bnd (sha256_fingerprint (rv_sha256 v) (JObj context)) (\<lambda>h.
            if h \<noteq> rj_snapshot_hash j then Inl DataIntegrityError else Inr context)))
      | _ \<Rightarrow> Inl DataIntegrityError)"

definition load_packet :: "rail_env \<Rightarrow> pystr \<Rightarrow> exn + stage_packet" where
  "load_packet v s =
     (case parse_text s of None \<Rightarrow> Inl ValueError | Some value \<Rightarrow> packet_from_value (rv_sha256 v) value)"

definition check_packet :: "rail_env \<Rightarrow> rail_job \<Rightarrow> pystr \<times> int \<times> pystr \<times> nat \<Rightarrow> rail_packet \<Rightarrow> exn + stage_packet" where
  "check_packet v j expected row =
     (case expected of (stage, sequence, input, _) \<Rightarrow>
        if (rp_stage_id row, rp_sequence row, rp_input_hash row) \<noteq> (stage, sequence, input)
        then Inl DataIntegrityError else
        bnd (as_integrity_error (load_packet v (rp_packet_json row))) (\<lambda>packet.
        bnd (canonical_json (JObj (packet_value packet))) (\<lambda>b.
        if b \<noteq> rp_packet_json row \<or> (pk_company_id packet, pk_job_id packet) \<noteq> rail_job_key j
           \<or> pk_stage_id packet \<noteq> rp_stage_id row \<or> pk_sequence packet \<noteq> rp_sequence row
           \<or> pk_input_hash packet \<noteq> rp_input_hash row
           \<or> pk_approval_record_id packet \<noteq> rj_approval_record_id j
           \<or> pk_approved_plan_fingerprint packet \<noteq> rj_approved_plan_fingerprint j
           \<or> pk_snapshot_hash packet \<noteq> rj_snapshot_hash j
           \<or> pk_evidence_hash packet \<noteq> rj_evidence_hash j
        then Inl DataIntegrityError else Inr packet)))"

fun check_packets ::
  "rail_env \<Rightarrow> rail_job \<Rightarrow> (pystr \<times> int \<times> pystr \<times> nat) list \<Rightarrow> rail_packet list \<Rightarrow> exn + stage_packet list" where
  "check_packets v j (expected # es) (row # rows) =
     bnd (check_packet v j expected row) (\<lambda>packet.
     bnd (check_packets v j es rows) (\<lambda>packets. Inr (packet # packets)))"
| "check_packets v j [] [] = Inr []"
| "check_packets v j _ _ = Inl DataIntegrityError"

text \<open>The join of the completions with their packets, in packet order.\<close>

type_synonym completion_line = "pystr \<times> int \<times> pystr \<times> pystr \<times> pystr"
  \<comment> \<open>stage, sequence, input hash, completion hash, JSON\<close>

definition completion_lines :: "rail \<Rightarrow> rail_key \<Rightarrow> completion_line list" where
  "completion_lines l k =
     sort_key (\<lambda>(_, sequence, _). sequence)
       (concat (map (\<lambda>c.
          map (\<lambda>p. (rp_stage_id p, rp_sequence p, rc_input_hash c, rc_completion_hash c, rc_completion_json c))
            (filter (\<lambda>p. rp_input_hash p = rc_input_hash c) (run_packets l k)))
          (run_completions l k)))"

definition check_completion ::
  "rail_env \<Rightarrow> rail_key \<Rightarrow> jdict \<Rightarrow> stage_packet list \<Rightarrow> pystr \<times> pystr \<times> pystr \<times> nat \<Rightarrow> completion_line
   \<Rightarrow> exn + (pystr \<times> pystr)" where
  "check_completion v k context packets expected row =
     (case (expected, row) of ((stage, input, completion_hash, _), (row_stage, _, row_input, row_hash, json)) \<Rightarrow>
        if (row_stage, row_input, row_hash) \<noteq> (stage, input, completion_hash) then Inl DataIntegrityError else
        bnd (as_integrity_error (
          (case parse_text json of
             None \<Rightarrow> Inl ValueError
           | Some value \<Rightarrow>
               bnd (canonical_json value) (\<lambda>b.
               if b \<noteq> json then Inl DataIntegrityError else
               bnd (sha256_fingerprint (rv_sha256 v) value) (\<lambda>h.
               if h \<noteq> row_hash then Inl DataIntegrityError else
               bnd (completion_from_value value) (\<lambda>completion.
               if row_stage \<notin> set STAGE_IDS then Inl ValueError else
               if length packets \<le> stage_index row_stage then Inl LookupError else
               let packet = packets ! stage_index row_stage in
               bnd (validate_stage_payload (rv_screens v) (pk_stage_id packet) (oc_payload completion)) (\<lambda>_.
               bnd (if pk_stage_id packet = ''revision''
                    then validate_revision_sources (rv_screens v) (oc_payload completion) context
                    else Inr ()) (\<lambda>_. Inr (completion, packet)))))))))
        (\<lambda>(completion, packet).
          if (oc_company_id completion, oc_job_id completion) \<noteq> k
             \<or> oc_stage_id completion \<noteq> pk_stage_id packet \<or> oc_input_hash completion \<noteq> pk_input_hash packet
             \<or> oa_session_ref (oc_attestation completion) \<noteq> pk_designated_session_ref packet
             \<or> oa_provider_id (oc_attestation completion) \<noteq> pk_provider_id packet
             \<or> oa_model_id (oc_attestation completion) \<noteq> pk_model_id packet
          then Inl DataIntegrityError else Inr (oc_input_hash completion, row_hash)))"

fun check_completions ::
  "rail_env \<Rightarrow> rail_key \<Rightarrow> jdict \<Rightarrow> stage_packet list \<Rightarrow> (pystr \<times> pystr \<times> pystr \<times> nat) list
   \<Rightarrow> completion_line list \<Rightarrow> exn + (pystr \<times> pystr) list" where
  "check_completions v k context packets (expected # es) (row # rows) =
     bnd (check_completion v k context packets expected row) (\<lambda>h.
     bnd (check_completions v k context packets es rows) (\<lambda>hs. Inr (h # hs)))"
| "check_completions v k context packets [] [] = Inr []"
| "check_completions v k context packets _ _ = Inl DataIntegrityError"

definition packet_chained :: "stage_packet list \<Rightarrow> (pystr \<times> pystr) list \<Rightarrow> stage_packet \<Rightarrow> bool" where
  "packet_chained packets hashes packet =
     (if pk_sequence packet = 0 then pk_previous_completion_hash packet = None
      else pk_previous_completion_hash packet
             = map_of (rev hashes) (pk_input_hash (packets ! nat (pk_sequence packet - 1))))"

definition validate_materializations :: "rail_env \<Rightarrow> rail \<Rightarrow> rail_key \<Rightarrow> jdict list \<Rightarrow> exn + unit" where
  "validate_materializations v l k events =
     (case run_row l k of
        None \<Rightarrow> Inl DataIntegrityError
      | Some j \<Rightarrow>
          if (rj_artifact_manifest_path j = None) \<noteq> (rj_artifact_manifest_hash j = None)
          then Inl DataIntegrityError else
          bnd (check_context v j) (\<lambda>context.
          bnd (materialize_all 0 events nothing_materialized) (\<lambda>m.
          if \<not> events_in_order m then Inl DataIntegrityError else
          let packet_rows = sort_key rp_sequence (run_packets l k) in
          if length packet_rows \<noteq> length (mz_packets m) then Inl DataIntegrityError else
          bnd (check_packets v j (mz_packets m) packet_rows) (\<lambda>packets.
          if rj_packet_json j \<noteq> rp_packet_json (last packet_rows) then Inl DataIntegrityError else
          let rows = completion_lines l k in
          if length (run_completions l k) \<noteq> length rows \<or> length rows \<noteq> length (mz_accepted m)
          then Inl DataIntegrityError else
          bnd (check_completions v k context packets (mz_accepted m) rows) (\<lambda>hashes.
          if \<not> list_all (packet_chained packets hashes) packets then Inl DataIntegrityError else
          (case mz_artifact m of
             None \<Rightarrow> require (rj_artifact_manifest_path j = None \<and> rj_artifact_manifest_hash j = None)
                       DataIntegrityError
           | Some (path, h, _) \<Rightarrow>
               require (rj_artifact_manifest_path j = Some path \<and> rj_artifact_manifest_hash j = Some h)
                 DataIntegrityError))))))"

section \<open>The event chain\<close>

definition event_fields :: "pystr list" where
  "event_fields =
     [''company_id'', ''job_id'', ''event_sequence'', ''predecessor_hash'', ''event_type'', ''recorded_at'',
      ''details'']"

definition authenticate_event ::
  "rail_env \<Rightarrow> rail_key \<Rightarrow> nat \<Rightarrow> pystr option \<Rightarrow> rail_event \<Rightarrow> exn + jdict" where
  "authenticate_event v k expected predecessor e =
     (if re_event_sequence e \<noteq> int expected \<or> re_predecessor_hash e \<noteq> predecessor
      then Inl DataIntegrityError else
      bnd (as_integrity_error (sha256_digest (JStr (re_event_hash e)))) (\<lambda>_.
      bnd (as_integrity_error (sha256_digest (JStr (re_event_mac e)))) (\<lambda>_.
      (case parse_text (re_event_json e) of
         Some (JObj value) \<Rightarrow>
           if \<not> same_keys value event_fields then Inl DataIntegrityError else
           bnd (canonical_json (JObj value)) (\<lambda>b.
           if b \<noteq> re_event_json e then Inl DataIntegrityError else
           bnd (sha256_fingerprint (rv_sha256 v) (JObj value)) (\<lambda>h.
           if h \<noteq> re_event_hash e
              \<or> field_of value ''company_id'' \<noteq> JStr (fst k) \<or> field_of value ''job_id'' \<noteq> JStr (snd k)
              \<or> field_of value ''event_sequence'' \<noteq> JInt (re_event_sequence e)
              \<or> field_of value ''predecessor_hash'' \<noteq> jopt (re_predecessor_hash e)
              \<or> field_of value ''event_type'' \<noteq> JStr (re_event_type e)
              \<or> field_of value ''recorded_at'' \<noteq> JStr (re_recorded_at e)
              \<or> (case field_of value ''details'' of JObj _ \<Rightarrow> False | _ \<Rightarrow> True)
              \<or> rv_mac v (re_event_json e) \<noteq> re_event_mac e
           then Inl DataIntegrityError else Inr value))
       | _ \<Rightarrow> Inl DataIntegrityError))))"

fun authenticate_chain ::
  "rail_env \<Rightarrow> rail_key \<Rightarrow> nat \<Rightarrow> pystr option \<Rightarrow> rail_event list \<Rightarrow> exn + jdict list" where
  "authenticate_chain v k expected predecessor [] = Inr []"
| "authenticate_chain v k expected predecessor (e # es) =
     bnd (authenticate_event v k expected predecessor e) (\<lambda>value.
     bnd (authenticate_chain v k (Suc expected) (Some (re_event_hash e)) es) (\<lambda>values.
       Inr (value # values)))"

definition expected_by_event :: "pystr \<Rightarrow> supervised_status option" where
  "expected_by_event event_type =
     map_of
       [(''PACKET_PREPARED'', AWAITING_OPERATOR_EXECUTION),
        (completion_rejected, AWAITING_OPERATOR_EXECUTION),
        (''RECOVERY_RESOLVED_FOR_EXACT_BINDING'', AWAITING_OPERATOR_EXECUTION),
        (''OPERATOR_RECOVERY_REQUIRED'', OPERATOR_RECOVERY_REQUIRED),
        (''CANCEL_REQUESTED'', CANCEL_REQUESTED),
        (''FINAL_QA_READY'', FINAL_QA_READY),
        (''ARTIFACT_FROZEN'', ARTIFACT_FROZEN)]
       event_type"

definition validated_status :: "rail_env \<Rightarrow> rail \<Rightarrow> rail_key \<Rightarrow> pystr \<Rightarrow> exn + supervised_status" where
  "validated_status v l k raw_status =
     (case status_of raw_status of
        None \<Rightarrow> Inl DataIntegrityError
      | Some status \<Rightarrow>
          (case run_row l k of
             None \<Rightarrow> Inl DataIntegrityError
           | Some j \<Rightarrow>
               let rows = sort_key re_event_sequence (run_events l k) in
               if rj_event_count j \<le> 0 \<or> rj_event_head_hash j = None \<or> rj_event_head_mac j = None
                  \<or> int (length rows) \<noteq> rj_event_count j
               then Inl DataIntegrityError else
               bnd (authenticate_chain v k 0 None rows) (\<lambda>events.
               if rj_event_head_hash j \<noteq> Some (re_event_hash (last rows))
                  \<or> rj_event_head_mac j \<noteq> Some (re_event_mac (last rows))
               then Inl DataIntegrityError else
               bnd (validate_materializations v l k events) (\<lambda>_.
               if expected_by_event (re_event_type (last rows)) \<noteq> Some status then Inl DataIntegrityError
               else Inr status))))"

end
