(* ===== verification/RailOps.thy ===== *)
theory RailOps
  imports RailStatus
begin

text \<open>
  The operations of \<open>SupervisedRail\<close>.  A method is a function on the ledger that returns its value or
  exception and the ledger it leaves: a transaction that raises is rolled back, except that
  \<open>_reject_completion\<close> commits the rejection before it raises.  \<open>now n\<close> is the clock at the call's
  \<open>n\<close>-th event.
\<close>

section \<open>Transactions\<close>

definition commit_rail :: "exn + ('a \<times> rail) \<Rightarrow> rail \<Rightarrow> (exn + 'a) \<times> rail" where
  "commit_rail m l = (case m of Inl e \<Rightarrow> (Inl e, l) | Inr (x, l') \<Rightarrow> (Inr x, l'))"

text \<open>A body that may commit_rail and raise.\<close>

definition commit_outcome :: "exn + ((exn + 'a) \<times> rail) \<Rightarrow> rail \<Rightarrow> (exn + 'a) \<times> rail" where
  "commit_outcome m l = (case m of Inl e \<Rightarrow> (Inl e, l) | Inr (r, l') \<Rightarrow> (r, l'))"

text \<open>\<open>except ValueError\<close>.\<close>

definition value_error :: "exn \<Rightarrow> bool" where
  "value_error e = (e = ValueError \<or> e = SignatureVerificationError)"

text \<open>The row of a run with its validated status: the opening of every method.\<close>

definition open_run :: "rail_env \<Rightarrow> rail \<Rightarrow> rail_key \<Rightarrow> exn + (rail_job \<times> supervised_status)" where
  "open_run v l k =
     (case run_row l k of
        None \<Rightarrow> Inl LookupError
      | Some j \<Rightarrow> bnd (validated_status v l k (rj_status j)) (\<lambda>st. Inr (j, st)))"

definition set_status :: "rail_key \<Rightarrow> supervised_status \<Rightarrow> rail \<Rightarrow> exn + rail" where
  "set_status k st l =
     bnd (update_run False (\<lambda>r. rail_job_key r = k) (\<lambda>r. r\<lparr>rj_status := status_text st\<rparr>) l) (\<lambda>(l, n). Inr l)"

section \<open>Preparing a run\<close>

definition packet_details :: "stage_packet \<Rightarrow> jdict" where
  "packet_details p =
     [(''stage_id'', JStr (pk_stage_id p)), (''sequence'', JInt (pk_sequence p)),
      (''input_hash'', JStr (pk_input_hash p))]"

definition packet_row :: "stage_packet \<Rightarrow> pystr \<Rightarrow> rail_packet" where
  "packet_row p encoded =
     \<lparr>rp_company_id = pk_company_id p, rp_job_id = pk_job_id p, rp_stage_id = pk_stage_id p,
      rp_sequence = pk_sequence p, rp_input_hash = pk_input_hash p, rp_packet_json = encoded\<rparr>"

definition new_run :: "seo_job \<Rightarrow> stage_packet \<Rightarrow> pystr \<Rightarrow> pystr \<Rightarrow> rail_job" where
  "new_run job p encoded_packet encoded_context =
     \<lparr>rj_company_id = sj_company_id job, rj_job_id = sj_job_id job,
      rj_status = status_text AWAITING_OPERATOR_EXECUTION, rj_packet_json = encoded_packet,
      rj_approval_record_id = pk_approval_record_id p,
      rj_approved_plan_fingerprint = pk_approved_plan_fingerprint p, rj_snapshot_hash = pk_snapshot_hash p,
      rj_evidence_hash = pk_evidence_hash p, rj_context_json = encoded_context, rj_event_count = 0,
      rj_event_head_hash = None, rj_event_head_mac = None, rj_artifact_manifest_path = None,
      rj_artifact_manifest_hash = None\<rparr>"

definition start_run ::
  "rail_env \<Rightarrow> seo_job \<Rightarrow> stage_packet \<Rightarrow> pystr \<Rightarrow> pystr \<Rightarrow> instant \<Rightarrow> rail \<Rightarrow> exn + (stage_packet \<times> rail)" where
  "start_run v job p encoded_packet encoded_context now l =
     bnd (insert_packet (packet_row p encoded_packet) l) (\<lambda>l.
     bnd (insert_rail_job (new_run job p encoded_packet encoded_context) l) (\<lambda>l.
     bnd (append_event v (pk_company_id p, pk_job_id p) ''PACKET_PREPARED'' (packet_details p) now l) (\<lambda>l.
       Inr (p, l))))"

definition resume_run ::
  "rail_env \<Rightarrow> seo_job \<Rightarrow> stage_packet \<Rightarrow> pystr \<Rightarrow> rail \<Rightarrow> exn + stage_packet" where
  "resume_run v job p encoded_context l =
     bnd (open_run v l (sj_company_id job, sj_job_id job)) (\<lambda>(j, st).
     if st \<noteq> AWAITING_OPERATOR_EXECUTION then Inl ValueError else
     bnd (load_packet v (rj_packet_json j)) (\<lambda>existing.
     if existing \<noteq> p
        \<or> (rj_approval_record_id j, rj_approved_plan_fingerprint j, rj_snapshot_hash j, rj_evidence_hash j,
            rj_context_json j)
          \<noteq> (pk_approval_record_id p, pk_approved_plan_fingerprint p, pk_snapshot_hash p, pk_evidence_hash p,
              encoded_context)
     then Inl ValueError else Inr existing))"

definition prepare_packet ::
  "rail_env \<Rightarrow> (nat \<Rightarrow> instant) \<Rightarrow> seo_job \<Rightarrow> execution_snapshot \<Rightarrow> pystr \<Rightarrow> rail \<Rightarrow> (exn + stage_packet) \<times> rail" where
  "prepare_packet v now job snapshot session_ref l =
     (case bnd (build_stage_packet (rv_sha256 v) (rv_screens v) job snapshot ''outline'' 0 session_ref) (\<lambda>p.
           bnd (canonical_json (JObj (packet_value p))) (\<lambda>encoded_packet.
           bnd (canonical_json (sn_compiled_context snapshot)) (\<lambda>encoded_context.
             Inr (p, encoded_packet, encoded_context)))) of
        Inl e \<Rightarrow> (Inl e, l)
      | Inr (p, encoded_packet, encoded_context) \<Rightarrow>
          if run_row l (sj_company_id job, sj_job_id job) = None
          then commit_rail (start_run v job p encoded_packet encoded_context (now 0) l) l
          else (resume_run v job p encoded_context l, l))"

section \<open>Binding a completion\<close>

datatype bind_result = Outstanding stage_packet | Finished supervised_status

definition submission_details :: "stage_packet \<Rightarrow> observed_completion \<Rightarrow> jdict" where
  "submission_details p c =
     [(''stage_id'', JStr (pk_stage_id p)),
      (''outstanding_input_hash'', JStr (pk_input_hash p)),
      (''submitted_stage_id'', JStr (oc_stage_id c)),
      (''submitted_input_hash'', JStr (oc_input_hash c)),
      (''operator_id'', JStr (oa_operator_id (oc_attestation c)))]"

definition packet_run :: "stage_packet \<Rightarrow> rail_key" where
  "packet_run p = (pk_company_id p, pk_job_id p)"

definition completion_run :: "observed_completion \<Rightarrow> rail_key" where
  "completion_run c = (oc_company_id c, oc_job_id c)"

definition reject_completion ::
  "rail_env \<Rightarrow> stage_packet \<Rightarrow> observed_completion \<Rightarrow> pystr \<Rightarrow> exn \<Rightarrow> instant \<Rightarrow> rail
   \<Rightarrow> exn + ((exn + 'a) \<times> rail)" where
  "reject_completion v p c reason_code error now l =
     bnd (append_event v (packet_run p) completion_rejected
            (submission_details p c @ [(''reason_code'', JStr reason_code)]) now l) (\<lambda>l.
       Inr (Inl error, l))"

definition finish_run ::
  "rail_env \<Rightarrow> observed_completion \<Rightarrow> instant \<Rightarrow> rail \<Rightarrow> exn + ((exn + bind_result) \<times> rail)" where
  "finish_run v c now l =
     bnd (set_status (completion_run c) FINAL_QA_READY l) (\<lambda>l.
     bnd (append_event v (completion_run c) ''FINAL_QA_READY''
            [(''final_input_hash'', JStr (oc_input_hash c))] now l) (\<lambda>l.
       Inr (Inr (Finished FINAL_QA_READY), l)))"

definition advance_run ::
  "rail_env \<Rightarrow> observed_completion \<Rightarrow> stage_packet \<Rightarrow> instant \<Rightarrow> rail \<Rightarrow> exn + ((exn + bind_result) \<times> rail)" where
  "advance_run v c next now l =
     bnd (canonical_json (JObj (packet_value next))) (\<lambda>encoded.
     bnd (insert_packet (packet_row next encoded) l) (\<lambda>l.
     bnd (append_event v (packet_run next) ''PACKET_PREPARED'' (packet_details next) now l) (\<lambda>l.
     bnd (update_run False (\<lambda>r. rail_job_key r = completion_run c)
            (\<lambda>r. r\<lparr>rj_status := status_text AWAITING_OPERATOR_EXECUTION, rj_packet_json := encoded\<rparr>) l)
       (\<lambda>(l, n). Inr (Inr (Outstanding next), l)))))"

definition accept_completion ::
  "rail_env \<Rightarrow> stage_packet \<Rightarrow> observed_completion \<Rightarrow> pystr \<Rightarrow> pystr \<Rightarrow> (nat \<Rightarrow> instant) \<Rightarrow> rail
   \<Rightarrow> exn + ((exn + bind_result) \<times> rail)" where
  "accept_completion v p c encoded completion_hash now l =
     bnd (insert_completion
            \<lparr>rc_company_id = oc_company_id c, rc_job_id = oc_job_id c, rc_input_hash = oc_input_hash c,
             rc_completion_hash = completion_hash, rc_completion_json = encoded\<rparr> l) (\<lambda>l.
     bnd (append_event v (completion_run c) completion_accepted
            [(''stage_id'', JStr (oc_stage_id c)), (''input_hash'', JStr (oc_input_hash c)),
             (''completion_hash'', JStr completion_hash)] (now 1) l) (\<lambda>l.
     bnd (next_packet (rv_sha256 v) p completion_hash (oc_payload c)) (\<lambda>next.
     (case next of
        None \<Rightarrow> finish_run v c (now 2) l
      | Some next \<Rightarrow> advance_run v c next (now 2) l))))"

definition stored_context :: "rail_job \<Rightarrow> exn + jdict" where
  "stored_context j =
     (case parse_text (rj_context_json j) of
        None \<Rightarrow> Inl ValueError
      | Some (JObj context) \<Rightarrow>
          bnd (canonical_json (JObj context)) (\<lambda>b.
            if b \<noteq> rj_context_json j then Inl DataIntegrityError else Inr context)
      | Some _ \<Rightarrow> Inl DataIntegrityError)"

definition judge_completion ::
  "rail_env \<Rightarrow> rail_job \<Rightarrow> stage_packet \<Rightarrow> observed_completion \<Rightarrow> pystr \<Rightarrow> pystr \<Rightarrow> (nat \<Rightarrow> instant) \<Rightarrow> rail
   \<Rightarrow> exn + ((exn + bind_result) \<times> rail)" where
  "judge_completion v j p c encoded completion_hash now l =
     (let g = rv_screens v; a = oc_attestation c in
      if completion_run c \<noteq> packet_run p \<or> oc_stage_id c \<noteq> pk_stage_id p \<or> oc_input_hash c \<noteq> pk_input_hash p
      then reject_completion v p c ''IDENTITY_MISMATCH'' ValueError (now 1) l
      else if oa_session_ref a \<noteq> pk_designated_session_ref p \<or> oa_provider_id a \<noteq> pk_provider_id p
              \<or> oa_model_id a \<noteq> pk_model_id p
      then reject_completion v p c ''ATTESTATION_MISMATCH'' ValueError (now 1) l
      else
        (case validate_stage_payload g (pk_stage_id p) (oc_payload c) of
           Inl e \<Rightarrow> if value_error e then reject_completion v p c ''PAYLOAD_INVALID'' e (now 1) l else Inl e
         | Inr _ \<Rightarrow>
             bnd (stored_context j) (\<lambda>context.
             (case (if pk_stage_id p = ''revision''
                    then validate_revision_sources g (oc_payload c) context else Inr ()) of
                Inl e \<Rightarrow> if value_error e then reject_completion v p c ''EVIDENCE_MISMATCH'' e (now 1) l else Inl e
              | Inr _ \<Rightarrow> accept_completion v p c encoded completion_hash now l))))"

definition bind_body ::
  "rail_env \<Rightarrow> (nat \<Rightarrow> instant) \<Rightarrow> observed_completion \<Rightarrow> pystr \<Rightarrow> pystr \<Rightarrow> rail
   \<Rightarrow> exn + ((exn + bind_result) \<times> rail)" where
  "bind_body v now c encoded completion_hash l =
     (if list_ex (\<lambda>d. rc_input_hash d = oc_input_hash c) (run_completions l (completion_run c))
      then Inl ValueError else
      bnd (open_run v l (completion_run c)) (\<lambda>(j, st).
      if st \<noteq> AWAITING_OPERATOR_EXECUTION then Inl ValueError else
      bnd (load_packet v (rj_packet_json j)) (\<lambda>p.
      bnd (append_event v (packet_run p) completion_submitted (submission_details p c) (now 0) l) (\<lambda>l.
        judge_completion v j p c encoded completion_hash now l))))"

definition bind_completion ::
  "rail_env \<Rightarrow> (nat \<Rightarrow> instant) \<Rightarrow> observed_completion \<Rightarrow> rail \<Rightarrow> (exn + bind_result) \<times> rail" where
  "bind_completion v now c l =
     (let value = JObj (completion_value c) in
      commit_outcome (
        bnd (canonical_json value) (\<lambda>encoded.
        bnd (sha256_fingerprint (rv_sha256 v) value) (\<lambda>completion_hash.
          bind_body v now c encoded completion_hash l))) l)"

section \<open>Reading a run\<close>

text \<open>\<open>_non_empty\<close> of the two identifiers.\<close>

definition run_key_of :: "pystr \<Rightarrow> pystr \<Rightarrow> exn + rail_key" where
  "run_key_of company_id job_id =
     bnd (non_empty (JStr company_id)) (\<lambda>c. bnd (non_empty (JStr job_id)) (\<lambda>j. Inr (c, j)))"

record frozen_run_binding =
  fb_company_id :: pystr
  fb_job_id :: pystr
  fb_approval_record_id :: pystr
  fb_approved_plan_fingerprint :: pystr
  fb_snapshot_hash :: pystr

definition make_run_binding :: "rail_key \<Rightarrow> pystr \<Rightarrow> pystr \<Rightarrow> pystr \<Rightarrow> exn + frozen_run_binding" where
  "make_run_binding k approval plan snapshot =
     bnd (non_empty (JStr (fst k))) (\<lambda>c.
     bnd (non_empty (JStr (snd k))) (\<lambda>j.
     bnd (non_empty (JStr approval)) (\<lambda>a.
     bnd (sha256_digest (JStr plan)) (\<lambda>p.
     bnd (sha256_digest (JStr snapshot)) (\<lambda>s.
       Inr \<lparr>fb_company_id = c, fb_job_id = j, fb_approval_record_id = a,
            fb_approved_plan_fingerprint = p, fb_snapshot_hash = s\<rparr>)))))"

definition frozen_binding :: "rail_env \<Rightarrow> pystr \<Rightarrow> pystr \<Rightarrow> rail \<Rightarrow> exn + frozen_run_binding" where
  "frozen_binding v company_id job_id l =
     bnd (run_key_of company_id job_id) (\<lambda>k.
     bnd (open_run v l k) (\<lambda>(j, st).
       make_run_binding k (rj_approval_record_id j) (rj_approved_plan_fingerprint j) (rj_snapshot_hash j)))"

definition frozen_context :: "rail_env \<Rightarrow> pystr \<Rightarrow> pystr \<Rightarrow> rail \<Rightarrow> exn + jval" where
  "frozen_context v company_id job_id l =
     bnd (run_key_of company_id job_id) (\<lambda>k.
     bnd (open_run v l k) (\<lambda>(j, st).
     (case parse_text (rj_context_json j) of
        None \<Rightarrow> Inl ValueError
      | Some context \<Rightarrow>
          bnd (canonical_json context) (\<lambda>b.
          if b \<noteq> rj_context_json j then Inl ValueError else
          bnd (sha256_fingerprint (rv_sha256 v) context) (\<lambda>h.
          if h \<noteq> rj_snapshot_hash j then Inl ValueError else
          (case json_loads b of None \<Rightarrow> Inl ValueError | Some value \<Rightarrow> Inr value))))))"

definition final_completion_row :: "rail \<Rightarrow> rail_key \<Rightarrow> (rail_completion \<times> rail_packet) option" where
  "final_completion_row l k =
     find (\<lambda>(c, p). rp_input_hash p = rc_input_hash c \<and> rp_stage_id p = ''revision'' \<and> rp_sequence p = 3)
       (List.product (run_completions l k) (run_packets l k))"

definition final_completion :: "rail_env \<Rightarrow> pystr \<Rightarrow> pystr \<Rightarrow> rail \<Rightarrow> exn + observed_completion" where
  "final_completion v company_id job_id l =
     bnd (run_key_of company_id job_id) (\<lambda>k.
     bnd (open_run v l k) (\<lambda>(j, st).
     if st \<noteq> FINAL_QA_READY \<and> st \<noteq> ARTIFACT_FROZEN then Inl ValueError else
     (case final_completion_row l k of
        None \<Rightarrow> Inl ValueError
      | Some (row, packet) \<Rightarrow>
          (case parse_text (rc_completion_json row) of
             None \<Rightarrow> Inl ValueError
           | Some value \<Rightarrow>
               bnd (canonical_json value) (\<lambda>b.
               if b \<noteq> rc_completion_json row then Inl ValueError else
               bnd (sha256_fingerprint (rv_sha256 v) value) (\<lambda>h.
               if h \<noteq> rc_completion_hash row then Inl ValueError else
               bnd (completion_from_value value) (\<lambda>c.
               bnd (load_packet v (rp_packet_json packet)) (\<lambda>p.
               if completion_run c \<noteq> packet_run p \<or> oc_stage_id c \<noteq> pk_stage_id p
                  \<or> oc_input_hash c \<noteq> pk_input_hash p
               then Inl ValueError else Inr c))))))))"

definition supervised_run_status :: "rail_env \<Rightarrow> pystr \<Rightarrow> pystr \<Rightarrow> rail \<Rightarrow> exn + supervised_status" where
  "supervised_run_status v company_id job_id l =
     bnd (open_run v l (company_id, job_id)) (\<lambda>(j, st). Inr st)"

definition outstanding_packet :: "rail_env \<Rightarrow> pystr \<Rightarrow> pystr \<Rightarrow> rail \<Rightarrow> exn + stage_packet" where
  "outstanding_packet v company_id job_id l =
     bnd (open_run v l (company_id, job_id)) (\<lambda>(j, st).
     if st \<noteq> AWAITING_OPERATOR_EXECUTION then Inl LookupError
     else load_packet v (rj_packet_json j))"

section \<open>Freezing the artifact\<close>

record frozen_artifact_binding =
  fa_manifest_path :: pystr
  fa_manifest_hash :: pystr

text \<open>\<open>Path(text).name\<close>: the last component; empty ones and \<open>.\<close> are dropped.\<close>

definition path_name :: "pystr \<Rightarrow> pystr" where
  "path_name s =
     (let parts = filter (\<lambda>w. w \<noteq> [] \<and> w \<noteq> ''.'') (split_on (CHR ''/'') s) in
      if parts = [] then [] else last parts)"

definition make_artifact_binding :: "pystr \<Rightarrow> pystr \<Rightarrow> exn + frozen_artifact_binding" where
  "make_artifact_binding manifest_path manifest_hash =
     bnd (non_empty (JStr manifest_path)) (\<lambda>path.
     if take 1 path \<noteq> ''/'' \<or> path_name path \<noteq> ''manifest.json'' then Inl ValueError else
     bnd (sha256_digest (JStr manifest_hash)) (\<lambda>h.
       Inr \<lparr>fa_manifest_path = path, fa_manifest_hash = h\<rparr>))"

text \<open>The stored columns are nullable; \<open>None\<close> is no string.\<close>

definition stored_artifact_binding :: "rail_job \<Rightarrow> exn + frozen_artifact_binding" where
  "stored_artifact_binding j =
     (case (rj_artifact_manifest_path j, rj_artifact_manifest_hash j) of
        (Some path, Some h) \<Rightarrow> make_artifact_binding path h
      | _ \<Rightarrow> Inl ValueError)"

definition freeze_artifact ::
  "rail_env \<Rightarrow> instant \<Rightarrow> rail_key \<Rightarrow> frozen_artifact_binding \<Rightarrow> rail \<Rightarrow> exn + (frozen_artifact_binding \<times> rail)" where
  "freeze_artifact v now k b l =
     bnd (update_run False
            (\<lambda>r. rail_job_key r = k \<and> rj_status r = status_text FINAL_QA_READY)
            (\<lambda>r. r\<lparr>rj_status := status_text ARTIFACT_FROZEN,
                   rj_artifact_manifest_path := Some (fa_manifest_path b),
                   rj_artifact_manifest_hash := Some (fa_manifest_hash b)\<rparr>) l) (\<lambda>(l, n).
     if n \<noteq> 1 then Inl ValueError else
     bnd (append_event v k ''ARTIFACT_FROZEN''
            [(''manifest_path'', JStr (fa_manifest_path b)), (''manifest_hash'', JStr (fa_manifest_hash b))]
            now l) (\<lambda>l. Inr (b, l)))"

definition record_artifact ::
  "rail_env \<Rightarrow> (nat \<Rightarrow> instant) \<Rightarrow> pystr \<Rightarrow> pystr \<Rightarrow> pystr \<Rightarrow> pystr \<Rightarrow> rail
   \<Rightarrow> (exn + frozen_artifact_binding) \<times> rail" where
  "record_artifact v now company_id job_id manifest_path manifest_hash l =
     commit_rail (
       bnd (run_key_of company_id job_id) (\<lambda>k.
       bnd (make_artifact_binding manifest_path manifest_hash) (\<lambda>b.
       bnd (open_run v l k) (\<lambda>(j, st).
       if st = ARTIFACT_FROZEN then
         bnd (stored_artifact_binding j) (\<lambda>existing.
           if existing \<noteq> b then Inl ValueError else Inr (existing, l))
       else if st \<noteq> FINAL_QA_READY then Inl ValueError
       else freeze_artifact v (now 0) k b l)))) l"

definition artifact_binding :: "rail_env \<Rightarrow> pystr \<Rightarrow> pystr \<Rightarrow> rail \<Rightarrow> exn + frozen_artifact_binding" where
  "artifact_binding v company_id job_id l =
     bnd (run_key_of company_id job_id) (\<lambda>k.
     bnd (open_run v l k) (\<lambda>(j, st).
     if st \<noteq> ARTIFACT_FROZEN then Inl LookupError else stored_artifact_binding j))"

section \<open>Cancellation and recovery\<close>

definition change_status ::
  "rail_env \<Rightarrow> instant \<Rightarrow> rail_key \<Rightarrow> supervised_status \<Rightarrow> jdict \<Rightarrow> pystr \<Rightarrow> rail \<Rightarrow> exn + (supervised_status \<times> rail)" where
  "change_status v now k st details event_type l =
     bnd (set_status k st l) (\<lambda>l.
     bnd (append_event v k event_type details now l) (\<lambda>l. Inr (st, l)))"

definition request_cancel ::
  "rail_env \<Rightarrow> (nat \<Rightarrow> instant) \<Rightarrow> pystr \<Rightarrow> pystr \<Rightarrow> pystr \<Rightarrow> rail \<Rightarrow> (exn + supervised_status) \<times> rail" where
  "request_cancel v now company_id job_id operator_id l =
     commit_rail (
       bnd (run_key_of company_id job_id) (\<lambda>k.
       bnd (non_empty (JStr operator_id)) (\<lambda>operator.
       bnd (open_run v l k) (\<lambda>(j, st).
       if st = CANCEL_REQUESTED then Inr (st, l)
       else if st \<noteq> AWAITING_OPERATOR_EXECUTION \<and> st \<noteq> OPERATOR_RECOVERY_REQUIRED then Inl ValueError else
       bnd (load_packet v (rj_packet_json j)) (\<lambda>p.
       change_status v (now 0) k CANCEL_REQUESTED
         [(''operator_id'', JStr operator), (''prior_status'', JStr (status_text st)),
          (''outstanding_input_hash'', JStr (pk_input_hash p)), (''local_request_only'', JBool True),
          (''upstream_cancellation'', JBool False)]
         ''CANCEL_REQUESTED'' l))))) l"

definition mark_operator_recovery_required ::
  "rail_env \<Rightarrow> (nat \<Rightarrow> instant) \<Rightarrow> pystr \<Rightarrow> pystr \<Rightarrow> rail \<Rightarrow> (exn + supervised_status) \<times> rail" where
  "mark_operator_recovery_required v now company_id job_id l =
     commit_rail (
       bnd (run_key_of company_id job_id) (\<lambda>k.
       bnd (open_run v l k) (\<lambda>(j, st).
       if st = OPERATOR_RECOVERY_REQUIRED then Inr (st, l)
       else if st \<noteq> AWAITING_OPERATOR_EXECUTION then Inl ValueError else
       bnd (load_packet v (rj_packet_json j)) (\<lambda>p.
       change_status v (now 0) k OPERATOR_RECOVERY_REQUIRED
         [(''outstanding_input_hash'', JStr (pk_input_hash p))] ''OPERATOR_RECOVERY_REQUIRED'' l)))) l"

text \<open>A replayed resolution: the last resolution event must be the same operator's for this packet.\<close>

definition recovery_event_details :: "rail_env \<Rightarrow> rail_key \<Rightarrow> rail_event \<Rightarrow> exn + jdict" where
  "recovery_event_details v k e =
     (case parse_text (re_event_json e) of
        Some (JObj value) \<Rightarrow>
          if \<not> same_keys value event_fields then Inl DataIntegrityError else
          bnd (canonical_json (JObj value)) (\<lambda>b.
          if b \<noteq> re_event_json e then Inl DataIntegrityError else
          bnd (sha256_fingerprint (rv_sha256 v) (JObj value)) (\<lambda>h.
          if h \<noteq> re_event_hash e
             \<or> field_of value ''company_id'' \<noteq> JStr (fst k) \<or> field_of value ''job_id'' \<noteq> JStr (snd k)
             \<or> field_of value ''event_sequence'' \<noteq> JInt (re_event_sequence e)
             \<or> field_of value ''predecessor_hash'' \<noteq> jopt (re_predecessor_hash e)
             \<or> field_of value ''event_type'' \<noteq> JStr (re_event_type e)
             \<or> field_of value ''recorded_at'' \<noteq> JStr (re_recorded_at e)
          then Inl DataIntegrityError else
          (case field_of value ''details'' of
             JObj details \<Rightarrow>
               if \<not> same_keys details
                      [''operator_id'', ''outstanding_input_hash'', ''replacement_attempt'', ''maximum_retries'']
                  \<or> jget ''replacement_attempt'' details \<noteq> Some (JBool False)
                  \<or> jget ''maximum_retries'' details \<noteq> Some (JInt 0)
               then Inl DataIntegrityError else Inr details
           | _ \<Rightarrow> Inl DataIntegrityError)))
      | _ \<Rightarrow> Inl DataIntegrityError)"

definition replay_resolution ::
  "rail_env \<Rightarrow> rail_key \<Rightarrow> pystr \<Rightarrow> pystr \<Rightarrow> rail \<Rightarrow> exn + (supervised_status \<times> rail)" where
  "replay_resolution v k expected_input_hash operator l =
     (case filter (\<lambda>e. re_event_type e = ''RECOVERY_RESOLVED_FOR_EXACT_BINDING'') (run_events l k) of
        [] \<Rightarrow> Inl ValueError
      | es \<Rightarrow>
          bnd (recovery_event_details v k (last es)) (\<lambda>details.
          if jget ''outstanding_input_hash'' details \<noteq> Some (JStr expected_input_hash)
          then Inl DataIntegrityError
          else if jget ''operator_id'' details \<noteq> Some (JStr operator) then Inl ValueError
          else Inr (AWAITING_OPERATOR_EXECUTION, l)))"

definition resolve_recovery ::
  "rail_env \<Rightarrow> (nat \<Rightarrow> instant) \<Rightarrow> pystr \<Rightarrow> pystr \<Rightarrow> pystr \<Rightarrow> pystr \<Rightarrow> rail
   \<Rightarrow> (exn + supervised_status) \<times> rail" where
  "resolve_recovery v now company_id job_id expected_input_hash operator_id l =
     commit_rail (
       bnd (run_key_of company_id job_id) (\<lambda>k.
       bnd (sha256_digest (JStr expected_input_hash)) (\<lambda>expected.
       bnd (non_empty (JStr operator_id)) (\<lambda>operator.
       bnd (open_run v l k) (\<lambda>(j, st).
       bnd (load_packet v (rj_packet_json j)) (\<lambda>p.
       if pk_input_hash p \<noteq> expected then Inl ValueError
       else if st = AWAITING_OPERATOR_EXECUTION then replay_resolution v k expected operator l
       else if st \<noteq> OPERATOR_RECOVERY_REQUIRED then Inl ValueError
       else change_status v (now 0) k AWAITING_OPERATOR_EXECUTION
              [(''operator_id'', JStr operator), (''outstanding_input_hash'', JStr expected),
               (''replacement_attempt'', JBool False), (''maximum_retries'', JInt 0)]
              ''RECOVERY_RESOLVED_FOR_EXACT_BINDING'' l))))) ) l"

end
