(* ===== verification/RailFacts.thy ===== *)
theory RailFacts
  imports RailOps
begin

text \<open>
  Facts the rail's properties share: constructed packets and completions are fixed points of their
  constructors, so what the ledger stores reads back as what was stored, and payload checks do not depend
  on the order of members.
\<close>

section \<open>Field checks\<close>

definition tidy :: "pystr \<Rightarrow> bool" where
  "tidy s = (\<not> blank s \<and> strip s = s)"

lemma lower_hex_not_space:
  assumes "lower_hex c"
  shows "\<not> ascii_space c \<and> \<not> narrow_space b c \<and> \<not> narrow_space c b \<and> \<not> wide_space a b c \<and> \<not> wide_space c b a"
  using assms by (auto simp: lower_hex_def ascii_space_def narrow_space_def wide_space_def)

lemma hex_tidy:
  assumes "is_sha256_hex s"
  shows "tidy s"
proof -
  have s: "s \<noteq> []" "list_all lower_hex s" using assms by (auto simp: is_sha256_hex_def)
  then have "lower_hex (hd s)" "lower_hex (last s)" by (auto simp: list_all_iff)
  then have "lead_space s = 0"
    using s lower_hex_not_space by (auto simp: lead_space_def neq_Nil_conv split: list.split)
  moreover have "trail_space s = 0"
  proof (cases "rev s")
    case (Cons c r)
    with s have "lower_hex c" by (auto simp: list_all_iff dest: arg_cong [where f = set])
    with Cons show ?thesis
      using lower_hex_not_space by (auto simp: trail_space_def split: list.split)
  qed (simp add: trail_space_def)
  ultimately have "strip s = s" by (simp add: strip_def)
  with s show ?thesis unfolding tidy_def by (metis strip_Nil_iff)
qed

lemma non_empty_Inr: "non_empty v = Inr s \<Longrightarrow> tidy s"
  by (auto simp: non_empty_def tidy_def split: jval.splits if_splits)

lemma non_empty_tidy: "tidy s \<Longrightarrow> non_empty (JStr s) = Inr s"
  by (simp add: non_empty_def tidy_def)

lemma digest_Inr: "sha256_digest v = Inr s \<Longrightarrow> is_sha256_hex s"
  by (auto simp: sha256_digest_def bnd_eq_Inr split: if_splits)

lemma digest_hex: "is_sha256_hex s \<Longrightarrow> sha256_digest (JStr s) = Inr s"
  by (simp add: sha256_digest_def non_empty_tidy hex_tidy)

lemma stage_field_Inr: "stage_field v = Inr s \<Longrightarrow> s \<in> set STAGE_IDS"
  by (auto simp: stage_field_def split: jval.splits if_splits)

lemma field_of_canon:
  assumes "distinct (map fst kvs)" "canon (JObj kvs) = JObj kvs'"
  shows "field_of kvs' k = canon (field_of kvs k)"
  using jget_canon [OF assms] by (simp add: field_of_def split: option.split)

section \<open>Packets are fixed points of their constructor\<close>

definition packet_ok :: "(bytes \<Rightarrow> pystr) \<Rightarrow> stage_packet \<Rightarrow> bool" where
  "packet_ok sha256 p =
     (list_all tidy [pk_job_id p, pk_company_id p, pk_approval_record_id p, pk_provider_id p, pk_model_id p,
        pk_designated_session_ref p, pk_prompt_template_version p, pk_prompt p]
      \<and> pk_stage_id p \<in> set STAGE_IDS \<and> pk_sequence p = int (stage_index (pk_stage_id p))
      \<and> list_all is_sha256_hex [pk_approved_plan_fingerprint p, pk_snapshot_hash p, pk_evidence_hash p, pk_input_hash p]
      \<and> (if pk_sequence p = 0 then pk_previous_completion_hash p = None
         else \<exists>h. pk_previous_completion_hash p = Some h \<and> is_sha256_hex h)
      \<and> sha256_fingerprint sha256 (JObj (packet_identity_mapping p)) = Inr (pk_input_hash p))"

lemma sequence_field_Inr: "sequence_field stage v = Inr n \<longleftrightarrow> v = JInt n \<and> n = int (stage_index stage)"
  by (auto simp: sequence_field_def split: jval.splits if_splits)

lemma previous_field_Inr:
  "previous_field n v = Inr h \<Longrightarrow> (if n = 0 then h = None else \<exists>s. h = Some s \<and> is_sha256_hex s)"
  by (auto simp: previous_field_def bnd_eq_Inr dest: digest_Inr split: if_splits)

lemma make_packet_ok:
  assumes "make_stage_packet sha256 kvs = Inr p"
  shows "packet_ok sha256 p"
  using assms unfolding make_stage_packet_def Let_def bnd_eq_Inr
  by (elim exE conjE)
    (auto simp: packet_ok_def sequence_field_Inr split: if_splits
      dest: non_empty_Inr digest_Inr stage_field_Inr previous_field_Inr)

lemma previous_field_same:
  "(if n = 0 then h = None else \<exists>s. h = Some s \<and> is_sha256_hex s) \<Longrightarrow> previous_field n (jopt h) = Inr h"
  by (auto simp: previous_field_def jopt_def digest_hex split: if_splits)

text \<open>A packet built from exactly its own fields.\<close>

definition packet_view :: "jdict \<Rightarrow> stage_packet \<Rightarrow> bool" where
  "packet_view kvs p = (\<forall>k \<in> set packet_fields. field_of kvs k = field_of (packet_value p) k)"

lemmas packet_value_defs = packet_value_def packet_identity_mapping_def

lemma make_packet_same:
  assumes "packet_ok sha256 p" "packet_view kvs p"
  shows "make_stage_packet sha256 kvs = Inr p"
proof -
  have "field_of kvs ''job_id'' = JStr (pk_job_id p)" "field_of kvs ''company_id'' = JStr (pk_company_id p)"
    "field_of kvs ''stage_id'' = JStr (pk_stage_id p)" "field_of kvs ''sequence'' = JInt (pk_sequence p)"
    "field_of kvs ''approval_record_id'' = JStr (pk_approval_record_id p)"
    "field_of kvs ''approved_plan_fingerprint'' = JStr (pk_approved_plan_fingerprint p)"
    "field_of kvs ''snapshot_hash'' = JStr (pk_snapshot_hash p)"
    "field_of kvs ''evidence_hash'' = JStr (pk_evidence_hash p)"
    "field_of kvs ''provider_id'' = JStr (pk_provider_id p)"
    "field_of kvs ''model_id'' = JStr (pk_model_id p)"
    "field_of kvs ''designated_session_ref'' = JStr (pk_designated_session_ref p)"
    "field_of kvs ''prompt_template_version'' = JStr (pk_prompt_template_version p)"
    "field_of kvs ''previous_completion_hash'' = jopt (pk_previous_completion_hash p)"
    "field_of kvs ''input_hash'' = JStr (pk_input_hash p)"
    "field_of kvs ''prompt'' = JStr (pk_prompt p)"
    using assms(2) by (auto simp: packet_view_def packet_fields_def field_of_def jget_def packet_value_defs)
  note view = this
  have p: "\<lparr>pk_job_id = pk_job_id p, pk_company_id = pk_company_id p, pk_stage_id = pk_stage_id p,
      pk_sequence = int (stage_index (pk_stage_id p)),
      pk_approval_record_id = pk_approval_record_id p, pk_approved_plan_fingerprint = pk_approved_plan_fingerprint p,
      pk_snapshot_hash = pk_snapshot_hash p, pk_evidence_hash = pk_evidence_hash p,
      pk_provider_id = pk_provider_id p, pk_model_id = pk_model_id p,
      pk_designated_session_ref = pk_designated_session_ref p,
      pk_prompt_template_version = pk_prompt_template_version p,
      pk_previous_completion_hash = pk_previous_completion_hash p, pk_input_hash = pk_input_hash p,
      pk_prompt = pk_prompt p\<rparr> = p"
    using assms(1) by (cases p) (simp add: packet_ok_def)
  note ok = assms(1) [unfolded packet_ok_def]
  have prev: "previous_field (int (stage_index (pk_stage_id p))) (jopt (pk_previous_completion_hash p))
      = Inr (pk_previous_completion_hash p)"
    by (rule previous_field_same) (use ok in \<open>auto split: if_splits\<close>)
  show ?thesis
    unfolding make_stage_packet_def Let_def view
    using ok by (simp add: non_empty_tidy digest_hex stage_field_def sequence_field_def prev p)
qed

lemma packet_value_distinct: "distinct (map fst (packet_value p))"
  by (simp add: packet_value_defs)

lemma packet_value_plain: "plain (JObj (packet_value p))"
  by (simp add: packet_value_defs)

lemma packet_field_atomic: "canon (field_of (packet_value p) k) = field_of (packet_value p) k"
  by (simp add: field_of_def jget_def packet_value_defs split: option.split)

lemma packet_reads_back:
  assumes "packet_ok sha256 p"
  shows "packet_from_value sha256 (canon (JObj (packet_value p))) = Inr p"
proof -
  obtain kvs where kvs: "canon (JObj (packet_value p)) = JObj kvs" by simp
  have "packet_view kvs p"
    using field_of_canon [OF packet_value_distinct kvs]
    by (simp add: packet_view_def packet_field_atomic)
  moreover have "set packet_fields \<subseteq> set (map fst kvs)"
    unfolding keys_canon [OF kvs] by (simp add: packet_value_defs packet_fields_def)
  ultimately show ?thesis
    unfolding packet_from_value_def kvs using make_packet_same [OF assms] by (simp add: as_value_error_def)
qed

lemma load_packet_stored:
  assumes "packet_ok (rv_sha256 v) p" "canonical_json (JObj (packet_value p)) = Inr s"
  shows "load_packet v s = Inr p"
  using packet_reads_back [OF assms(1)] parse_dumps [OF packet_value_plain [of p]]
    canonical_json_Inr [OF assms(2)] by (simp add: load_packet_def del: canon.simps)

end
