(* ===== verification/RailSound.thy ===== *)
theory RailSound
  imports RailFacts
begin

text \<open>
  What a validated status establishes.  \<open>run_valid\<close> collects the conditions of
  \<open>_validated_status_projection\<close> with the values it computes; the lemmas read off it what the stored
  packets and completions must be.
\<close>

section \<open>The validation as one predicate\<close>

definition event_rows :: "rail \<Rightarrow> rail_key \<Rightarrow> rail_event list" where
  "event_rows l k = sort_key re_event_sequence (run_events l k)"

definition packet_rows :: "rail \<Rightarrow> rail_key \<Rightarrow> rail_packet list" where
  "packet_rows l k = sort_key rp_sequence (run_packets l k)"

record run_reading =
  rr_events :: "jdict list"
  rr_context :: jdict
  rr_materialized :: materialized
  rr_packets :: "stage_packet list"
  rr_hashes :: "(pystr \<times> pystr) list"

definition artifact_matches :: "rail_job \<Rightarrow> materialized \<Rightarrow> bool" where
  "artifact_matches j m =
     ((rj_artifact_manifest_path j, rj_artifact_manifest_hash j)
        = (case mz_artifact m of None \<Rightarrow> (None, None) | Some (path, h, _) \<Rightarrow> (Some path, Some h)))"

definition chain_valid :: "rail_env \<Rightarrow> rail \<Rightarrow> rail_key \<Rightarrow> rail_job \<Rightarrow> jdict list \<Rightarrow> bool" where
  "chain_valid v l k j events =
     (0 < rj_event_count j \<and> int (length (event_rows l k)) = rj_event_count j
      \<and> authenticate_chain v k 0 None (event_rows l k) = Inr events
      \<and> rj_event_head_hash j = Some (re_event_hash (last (event_rows l k)))
      \<and> rj_event_head_mac j = Some (re_event_mac (last (event_rows l k))))"

definition packets_valid :: "rail_env \<Rightarrow> rail \<Rightarrow> rail_key \<Rightarrow> rail_job \<Rightarrow> run_reading \<Rightarrow> bool" where
  "packets_valid v l k j x =
     (length (mz_packets (rr_materialized x)) = length (packet_rows l k)
      \<and> check_packets v j (mz_packets (rr_materialized x)) (packet_rows l k) = Inr (rr_packets x)
      \<and> rj_packet_json j = rp_packet_json (last (packet_rows l k)))"

definition completions_valid :: "rail_env \<Rightarrow> rail \<Rightarrow> rail_key \<Rightarrow> run_reading \<Rightarrow> bool" where
  "completions_valid v l k x =
     (length (run_completions l k) = length (completion_lines l k)
      \<and> length (mz_accepted (rr_materialized x)) = length (completion_lines l k)
      \<and> check_completions v k (rr_context x) (rr_packets x) (mz_accepted (rr_materialized x))
          (completion_lines l k) = Inr (rr_hashes x)
      \<and> list_all (packet_chained (rr_packets x) (rr_hashes x)) (rr_packets x))"

definition run_valid :: "rail_env \<Rightarrow> rail \<Rightarrow> rail_key \<Rightarrow> rail_job \<Rightarrow> run_reading \<Rightarrow> bool" where
  "run_valid v l k j x =
     (run_row l k = Some j \<and> chain_valid v l k j (rr_events x)
      \<and> check_context v j = Inr (rr_context x)
      \<and> materialize_all 0 (rr_events x) nothing_materialized = Inr (rr_materialized x)
      \<and> events_in_order (rr_materialized x)
      \<and> packets_valid v l k j x \<and> completions_valid v l k x
      \<and> artifact_matches j (rr_materialized x))"

lemma validate_materializations_Inr:
  assumes "run_row l k = Some j"
  shows "validate_materializations v l k events = Inr u
    \<longleftrightarrow> (\<exists>x. rr_events x = events \<and> check_context v j = Inr (rr_context x)
      \<and> materialize_all 0 events nothing_materialized = Inr (rr_materialized x)
      \<and> events_in_order (rr_materialized x)
      \<and> packets_valid v l k j x \<and> completions_valid v l k x
      \<and> artifact_matches j (rr_materialized x))" (is "?lhs \<longleftrightarrow> (\<exists>x. ?P x)")
proof
  assume ?lhs
  then obtain ctx m packets hashes where *: "check_context v j = Inr ctx"
    "materialize_all 0 events nothing_materialized = Inr m" "events_in_order m"
    "length (packet_rows l k) = length (mz_packets m)"
    "check_packets v j (mz_packets m) (packet_rows l k) = Inr packets"
    "rj_packet_json j = rp_packet_json (last (packet_rows l k))"
    "length (run_completions l k) = length (completion_lines l k)"
    "length (completion_lines l k) = length (mz_accepted m)"
    "check_completions v k ctx packets (mz_accepted m) (completion_lines l k) = Inr hashes"
    "list_all (packet_chained packets hashes) packets" "artifact_matches j m"
    using assms
    by (auto simp: validate_materializations_def Let_def bnd_eq_Inr packet_rows_def [symmetric]
        artifact_matches_def split: if_splits option.splits prod.splits)
  show "\<exists>x. ?P x"
    by (rule exI [of _ "\<lparr>rr_events = events, rr_context = ctx, rr_materialized = m, rr_packets = packets,
          rr_hashes = hashes\<rparr>"])
      (use * in \<open>simp add: packets_valid_def completions_valid_def\<close>)
next
  assume "\<exists>x. ?P x"
  then obtain x where "?P x" ..
  then show ?lhs
    using assms
    by (auto simp: validate_materializations_def Let_def bnd_eq_Inr packet_rows_def [symmetric]
        packets_valid_def completions_valid_def artifact_matches_def split: if_splits option.splits prod.splits)
qed

lemma status_of_Some: "status_of s = Some st \<longleftrightarrow> s = status_text st"
proof
  assume "status_of s = Some st"
  from find_Some_in [OF this [unfolded status_of_def]] show "s = status_text st" by simp
next
  assume "s = status_text st"
  then show "status_of s = Some st" by (cases st) (simp_all add: status_of_def)
qed

lemma status_text_inject [simp]: "status_text s = status_text t \<longleftrightarrow> s = t"
  by (metis option.inject status_of_Some)

declare status_text.simps [simp del]

text \<open>The status projection, as elimination and introduction rule.\<close>

lemma validated_status_Inr:
  "validated_status v l k raw = Inr st
   \<longleftrightarrow> raw = status_text st
     \<and> (\<exists>j x. run_valid v l k j x \<and> expected_by_event (re_event_type (last (event_rows l k))) = Some st)"
proof (cases "run_row l k")
  case None
  then show ?thesis by (auto simp: validated_status_def run_valid_def split: option.splits)
next
  case (Some j)
  have "validated_status v l k raw = Inr st
    \<longleftrightarrow> status_of raw = Some st \<and> (\<exists>events. chain_valid v l k j events
        \<and> validate_materializations v l k events = Inr ()
        \<and> expected_by_event (re_event_type (last (event_rows l k))) = Some st)"
    using Some
    by (auto simp: validated_status_def Let_def bnd_eq_Inr chain_valid_def event_rows_def [symmetric]
        split: option.splits if_splits)
  also have "\<dots> \<longleftrightarrow> raw = status_text st
     \<and> (\<exists>j x. run_valid v l k j x \<and> expected_by_event (re_event_type (last (event_rows l k))) = Some st)"
    using Some unfolding status_of_Some validate_materializations_Inr [OF Some] run_valid_def by auto
  finally show ?thesis .
qed

lemma open_run_Inr:
  "open_run v l k = Inr (j, st)
   \<longleftrightarrow> rj_status j = status_text st
     \<and> (\<exists>x. run_valid v l k j x) \<and> expected_by_event (re_event_type (last (event_rows l k))) = Some st"
proof
  assume "open_run v l k = Inr (j, st)"
  then have j: "run_row l k = Some j" and "validated_status v l k (rj_status j) = Inr st"
    by (auto simp: open_run_def bnd_eq_Inr split: option.splits)
  then show "rj_status j = status_text st
     \<and> (\<exists>x. run_valid v l k j x) \<and> expected_by_event (re_event_type (last (event_rows l k))) = Some st"
    unfolding validated_status_Inr by (auto simp: run_valid_def)
next
  assume a: "rj_status j = status_text st
     \<and> (\<exists>x. run_valid v l k j x) \<and> expected_by_event (re_event_type (last (event_rows l k))) = Some st"
  then have "validated_status v l k (rj_status j) = Inr st" unfolding validated_status_Inr by blast
  with a show "open_run v l k = Inr (j, st)" by (auto simp: open_run_def run_valid_def)
qed

lemma run_row_key: "run_row l k = Some j \<Longrightarrow> rail_job_key j = k \<and> j \<in> set (rl_jobs l)"
  by (auto simp: run_row_def dest: find_Some_in)

section \<open>What the events say\<close>

text \<open>The stages come in their fixed order, and acceptances follow the packets.\<close>

definition well_materialized :: "materialized \<Rightarrow> bool" where
  "well_materialized m =
     (length (mz_packets m) \<le> length STAGE_IDS \<and> length (mz_accepted m) \<le> length (mz_packets m)
      \<and> (\<forall>i < length (mz_packets m). \<exists>h pos. mz_packets m ! i = (STAGE_IDS ! i, int i, h, pos))
      \<and> (\<forall>i < length (mz_accepted m). \<exists>h ch pos ppos. mz_accepted m ! i = (STAGE_IDS ! i, h, ch, pos)
           \<and> mz_packets m ! i = (STAGE_IDS ! i, int i, h, ppos)))"

lemma well_nothing: "well_materialized nothing_materialized"
  by (simp add: well_materialized_def nothing_materialized_def)

lemma materialize_packet_Inr:
  assumes "materialize_packet pos e m = Inr m'"
  shows "\<exists>input. m' = m\<lparr>mz_packets := mz_packets m @
        [(STAGE_IDS ! length (mz_packets m), int (length (mz_packets m)), input, pos)]\<rparr>
      \<and> length (mz_packets m) < length STAGE_IDS"
proof -
  from assms obtain details stage input where
    "(case jget ''sequence'' details of
        Some (JInt sequence) \<Rightarrow>
          if sequence \<noteq> int (length (mz_packets m)) \<or> int (length STAGE_IDS) \<le> sequence
             \<or> stage \<noteq> STAGE_IDS ! nat sequence
          then Inl DataIntegrityError
          else Inr (m\<lparr>mz_packets := mz_packets m @ [(stage, sequence, input, pos)]\<rparr>)
      | _ \<Rightarrow> Inl DataIntegrityError) = Inr m'"
    unfolding materialize_packet_def bnd_eq_Inr by blast
  then show ?thesis
    by (auto split: option.split_asm jval.split_asm if_split_asm)
qed

lemma materialize_accepted_Inr:
  assumes "materialize_accepted pos e m = Inr m'"
  shows "\<exists>stage input ch q ppos. m' = m\<lparr>mz_accepted := mz_accepted m @ [(stage, input, ch, pos)]\<rparr>
      \<and> length (mz_accepted m) < length (mz_packets m)
      \<and> mz_packets m ! length (mz_accepted m) = (stage, q, input, ppos)"
proof -
  from assms obtain details stage input ch where
    "(if length (mz_packets m) \<le> length (mz_accepted m) then Inl DataIntegrityError else
     (case mz_packets m ! length (mz_accepted m) of (packet_stage, _, packet_input, _) \<Rightarrow>
        if (stage, input) \<noteq> (packet_stage, packet_input) then Inl DataIntegrityError
        else Inr (m\<lparr>mz_accepted := mz_accepted m @ [(stage, input, ch, pos)]\<rparr>))) = Inr m'"
    unfolding materialize_accepted_def bnd_eq_Inr by blast
  then show ?thesis
    by (auto split: prod.split_asm if_split_asm)
qed

lemma well_packet:
  assumes "materialize_packet pos e m = Inr m'" "well_materialized m"
  shows "well_materialized m'"
proof -
  let ?n = "length (mz_packets m)"
  from assms(1) obtain input where
    m': "m' = m\<lparr>mz_packets := mz_packets m @ [(STAGE_IDS ! ?n, int ?n, input, pos)]\<rparr>"
    and n: "?n < length STAGE_IDS"
    using materialize_packet_Inr by blast
  have old: "mz_packets m' ! i = mz_packets m ! i" if "i < ?n" for i
    using that by (simp add: m' nth_append)
  have new: "mz_packets m' ! ?n = (STAGE_IDS ! ?n, int ?n, input, pos)" by (simp add: m')
  have acc: "mz_accepted m' = mz_accepted m" "length (mz_packets m') = Suc ?n" by (simp_all add: m')
  note w = assms(2) [unfolded well_materialized_def]
  show ?thesis
    unfolding well_materialized_def acc
  proof (intro conjI allI impI)
    fix i assume "i < Suc ?n"
    then show "\<exists>h pos. mz_packets m' ! i = (STAGE_IDS ! i, int i, h, pos)"
      using w old new by (cases "i = ?n") simp_all
  next
    fix i assume "i < length (mz_accepted m)"
    then show "\<exists>h ch pos ppos. mz_accepted m ! i = (STAGE_IDS ! i, h, ch, pos)
        \<and> mz_packets m' ! i = (STAGE_IDS ! i, int i, h, ppos)"
      using w old by simp
  qed (use w n in auto)
qed

lemma well_accepted:
  assumes "materialize_accepted pos e m = Inr m'" "well_materialized m"
  shows "well_materialized m'"
proof -
  let ?n = "length (mz_accepted m)"
  from assms(1) obtain stage input ch q ppos where
    m': "m' = m\<lparr>mz_accepted := mz_accepted m @ [(stage, input, ch, pos)]\<rparr>"
    and n: "?n < length (mz_packets m)" "mz_packets m ! ?n = (stage, q, input, ppos)"
    using materialize_accepted_Inr by blast
  from assms(2) n(1) obtain h pos' where "mz_packets m ! ?n = (STAGE_IDS ! ?n, int ?n, h, pos')"
    unfolding well_materialized_def by blast
  with n assms(2) m' show ?thesis
    by (auto simp: well_materialized_def nth_append less_Suc_eq)
qed

lemma materialize_cases:
  assumes "materialize pos e m = Inr m'"
  shows "materialize_packet pos e m = Inr m' \<or> materialize_accepted pos e m = Inr m'
    \<or> mz_packets m' = mz_packets m \<and> mz_accepted m' = mz_accepted m"
  using assms
  by (auto simp: materialize_def bnd_eq_Inr materialize_final_def materialize_artifact_def
      split: option.splits jval.splits if_splits)

lemma well_step:
  assumes "materialize pos e m = Inr m'" "well_materialized m"
  shows "well_materialized m'"
  using materialize_cases [OF assms(1)] well_packet [OF _ assms(2)] well_accepted [OF _ assms(2)] assms(2)
  by (auto simp: well_materialized_def)

lemma well_all:
  "materialize_all pos es m = Inr m' \<Longrightarrow> well_materialized m \<Longrightarrow> well_materialized m'"
  by (induction es arbitrary: pos m) (auto simp: bnd_eq_Inr intro: well_step)

lemma materialize_all_append:
  "materialize_all pos (es @ fs) m = bnd (materialize_all pos es m) (materialize_all (pos + length es) fs)"
proof (induction es arbitrary: pos m)
  case (Cons e es)
  then show ?case by (cases "materialize pos e m") simp_all
qed simp

section \<open>What the stored packets are\<close>

lemma check_packet_Inr:
  assumes "check_packet v j (stage, sequence, input, pos) row = Inr p"
  shows "packet_ok (rv_sha256 v) p \<and> canonical_json (JObj (packet_value p)) = Inr (rp_packet_json row)
    \<and> packet_run p = rail_job_key j \<and> pk_stage_id p = stage \<and> pk_sequence p = sequence \<and> pk_input_hash p = input
    \<and> (rp_stage_id row, rp_sequence row, rp_input_hash row) = (stage, sequence, input)
    \<and> pk_approval_record_id p = rj_approval_record_id j
    \<and> pk_approved_plan_fingerprint p = rj_approved_plan_fingerprint j
    \<and> pk_snapshot_hash p = rj_snapshot_hash j \<and> pk_evidence_hash p = rj_evidence_hash j
    \<and> load_packet v (rp_packet_json row) = Inr p"
proof -
  from assms have load: "load_packet v (rp_packet_json row) = Inr p"
    by (auto simp: check_packet_def bnd_eq_Inr as_integrity_error_def split: if_splits sum.splits)
  then have "packet_ok (rv_sha256 v) p"
    by (auto simp: load_packet_def packet_from_value_def as_value_error_def
        split: option.splits jval.splits if_splits sum.splits intro: make_packet_ok)
  with assms load show ?thesis
    by (auto simp: check_packet_def bnd_eq_Inr as_integrity_error_def packet_run_def rail_job_key_def
        split: if_splits sum.splits)
qed

lemma check_packets_Inr:
  "check_packets v j es rows = Inr ps
   \<longleftrightarrow> length es = length rows \<and> length ps = length rows
     \<and> (\<forall>i < length rows. check_packet v j (es ! i) (rows ! i) = Inr (ps ! i))"
proof (induction v j es rows arbitrary: ps rule: check_packets.induct)
  case (1 v j e es row rows)
  show ?case
    by (cases ps) (auto simp: bnd_eq_Inr 1 All_less_Suc2)
qed auto

definition stage_packets :: "rail_job \<Rightarrow> rail_key \<Rightarrow> stage_packet list \<Rightarrow> bool" where
  "stage_packets j k ps =
     (ps \<noteq> [] \<and> length ps \<le> length STAGE_IDS
      \<and> (\<forall>i < length ps. pk_stage_id (ps ! i) = STAGE_IDS ! i \<and> pk_sequence (ps ! i) = int i
           \<and> packet_run (ps ! i) = k
           \<and> pk_approval_record_id (ps ! i) = rj_approval_record_id j
           \<and> pk_approved_plan_fingerprint (ps ! i) = rj_approved_plan_fingerprint j
           \<and> pk_snapshot_hash (ps ! i) = rj_snapshot_hash j \<and> pk_evidence_hash (ps ! i) = rj_evidence_hash j))"

lemma run_valid_well: "run_valid v l k j x \<Longrightarrow> well_materialized (rr_materialized x)"
  unfolding run_valid_def using well_all [OF _ well_nothing] by blast

lemma run_valid_packet:
  assumes "run_valid v l k j x" "i < length (rr_packets x)"
  shows "\<exists>h pos. mz_packets (rr_materialized x) ! i = (STAGE_IDS ! i, int i, h, pos)
    \<and> check_packet v j (STAGE_IDS ! i, int i, h, pos) (packet_rows l k ! i) = Inr (rr_packets x ! i)"
proof -
  from assms(1) have "packets_valid v l k j x" by (simp add: run_valid_def)
  with assms(2) have i: "i < length (mz_packets (rr_materialized x))"
    and check: "check_packet v j (mz_packets (rr_materialized x) ! i) (packet_rows l k ! i) = Inr (rr_packets x ! i)"
    unfolding packets_valid_def check_packets_Inr by simp_all
  from run_valid_well [OF assms(1)] i(1)
  obtain h pos where "mz_packets (rr_materialized x) ! i = (STAGE_IDS ! i, int i, h, pos)"
    unfolding well_materialized_def by blast
  with check show ?thesis by auto
qed

lemma run_valid_lengths:
  assumes "run_valid v l k j x"
  shows "length (rr_packets x) = length (packet_rows l k)" "length (mz_packets (rr_materialized x)) = length (packet_rows l k)"
    "rr_packets x \<noteq> []" "length (rr_packets x) \<le> length STAGE_IDS"
proof -
  have "packets_valid v l k j x" "events_in_order (rr_materialized x)" using assms by (simp_all add: run_valid_def)
  then have "length (rr_packets x) = length (packet_rows l k)"
    "length (mz_packets (rr_materialized x)) = length (packet_rows l k)" "mz_packets (rr_materialized x) \<noteq> []"
    unfolding packets_valid_def check_packets_Inr events_in_order_def by simp_all
  moreover have "length (mz_packets (rr_materialized x)) \<le> length STAGE_IDS"
    using run_valid_well [OF assms] by (simp add: well_materialized_def)
  ultimately show "length (rr_packets x) = length (packet_rows l k)"
    "length (mz_packets (rr_materialized x)) = length (packet_rows l k)"
    "rr_packets x \<noteq> []" "length (rr_packets x) \<le> length STAGE_IDS" by auto
qed

lemma run_valid_stages:
  assumes "run_valid v l k j x"
  shows "stage_packets j k (rr_packets x)"
proof -
  have "rail_job_key j = k" using assms run_row_key [of l k j] by (simp add: run_valid_def)
  then show ?thesis
    using run_valid_lengths [OF assms] run_valid_packet [OF assms] check_packet_Inr
    unfolding stage_packets_def by metis
qed

lemma run_valid_head:
  assumes "run_valid v l k j x"
  shows "load_packet v (rj_packet_json j) = Inr (last (rr_packets x))"
proof -
  let ?n = "length (rr_packets x) - 1"
  note len = run_valid_lengths [OF assms]
  have "rr_packets x \<noteq> []" "packet_rows l k \<noteq> []" using len by auto
  then have last: "last (rr_packets x) = rr_packets x ! ?n" "last (packet_rows l k) = packet_rows l k ! ?n"
    using len by (simp_all add: last_conv_nth)
  have "?n < length (rr_packets x)" using len(3) by (cases "rr_packets x") simp_all
  from run_valid_packet [OF assms this] check_packet_Inr
  have "load_packet v (rp_packet_json (packet_rows l k ! ?n)) = Inr (rr_packets x ! ?n)" by metis
  with assms last show ?thesis by (simp add: run_valid_def packets_valid_def)
qed

section \<open>What the stored completions are\<close>

text \<open>The completion is an answer to the packet: same identity, same session and authority, a valid payload.\<close>

definition completion_answers :: "rail_env \<Rightarrow> jdict \<Rightarrow> stage_packet \<Rightarrow> observed_completion \<Rightarrow> bool" where
  "completion_answers v context p c =
     (completion_run c = packet_run p \<and> oc_stage_id c = pk_stage_id p \<and> oc_input_hash c = pk_input_hash p
      \<and> oa_session_ref (oc_attestation c) = pk_designated_session_ref p
      \<and> oa_provider_id (oc_attestation c) = pk_provider_id p
      \<and> oa_model_id (oc_attestation c) = pk_model_id p
      \<and> validate_stage_payload (rv_screens v) (pk_stage_id p) (oc_payload c) = Inr ()
      \<and> (pk_stage_id p = ''revision'' \<longrightarrow>
           validate_revision_sources (rv_screens v) (oc_payload c) context = Inr ()))"

definition completion_stored :: "rail_env \<Rightarrow> rail \<Rightarrow> rail_key \<Rightarrow> observed_completion \<Rightarrow> pystr \<Rightarrow> bool" where
  "completion_stored v l k c h =
     (\<exists>row \<in> set (run_completions l k). \<exists>value.
        parse_text (rc_completion_json row) = Some value \<and> completion_from_value value = Inr c
        \<and> canonical_json value = Inr (rc_completion_json row) \<and> h = rv_sha256 v (rc_completion_json row)
        \<and> rc_completion_hash row = h \<and> rc_input_hash row = oc_input_hash c)"

lemma check_completion_Inr:
  assumes "check_completion v k context ps (stage, input, ch, pos) (row_stage, sequence, row_input, row_hash, json) = Inr h"
  shows "row_stage = stage \<and> row_input = input \<and> row_hash = ch \<and> stage_index stage < length ps
    \<and> (\<exists>c value. parse_text json = Some value \<and> canonical_json value = Inr json
        \<and> ch = rv_sha256 v json \<and> completion_from_value value = Inr c \<and> completion_run c = k
        \<and> (packet_run (ps ! stage_index stage) = k \<longrightarrow> completion_answers v context (ps ! stage_index stage) c)
        \<and> h = (pk_input_hash (ps ! stage_index stage), ch))"
proof -
  from assms have same: "row_stage = stage" "row_input = input" "row_hash = ch"
    by (simp_all add: check_completion_def split: if_split_asm)
  define p where "p = ps ! stage_index stage"
  from assms obtain c q where
    "(case parse_text json of None \<Rightarrow> Inl ValueError
      | Some value \<Rightarrow> bnd (canonical_json value) (\<lambda>b. if b \<noteq> json then Inl DataIntegrityError else
          bnd (sha256_fingerprint (rv_sha256 v) value) (\<lambda>h. if h \<noteq> ch then Inl DataIntegrityError else
          bnd (completion_from_value value) (\<lambda>completion.
          if stage \<notin> set STAGE_IDS then Inl ValueError else
          if length ps \<le> stage_index stage then Inl LookupError else
          let packet = ps ! stage_index stage in
          bnd (validate_stage_payload (rv_screens v) (pk_stage_id packet) (oc_payload completion)) (\<lambda>_.
          bnd (if pk_stage_id packet = ''revision''
               then validate_revision_sources (rv_screens v) (oc_payload completion) context
               else Inr ()) (\<lambda>_. Inr (completion, packet))))))) = Inr (c, q)"
    and match: "\<not> ((oc_company_id c, oc_job_id c) \<noteq> k
         \<or> oc_stage_id c \<noteq> pk_stage_id q \<or> oc_input_hash c \<noteq> pk_input_hash q
         \<or> oa_session_ref (oc_attestation c) \<noteq> pk_designated_session_ref q
         \<or> oa_provider_id (oc_attestation c) \<noteq> pk_provider_id q
         \<or> oa_model_id (oc_attestation c) \<noteq> pk_model_id q)" "h = (oc_input_hash c, ch)"
    unfolding check_completion_def same as_integrity_error_def bnd_eq_Inr
    by (auto split: sum.split_asm if_split_asm)
  then obtain val where val: "parse_text json = Some val" "canonical_json val = Inr json"
    "ch = rv_sha256 v json" "completion_from_value val = Inr c" "q = p"
    "validate_stage_payload (rv_screens v) (pk_stage_id p) (oc_payload c) = Inr ()"
    "pk_stage_id p = ''revision'' \<longrightarrow> validate_revision_sources (rv_screens v) (oc_payload c) context = Inr ()"
    "stage_index stage < length ps"
    by (auto simp: bnd_eq_Inr Let_def sha256_fingerprint_def p_def split: option.split_asm if_split_asm)
  with match same show ?thesis
    unfolding p_def [symmetric] completion_answers_def completion_run_def packet_run_def by auto
qed

lemma check_completions_Inr:
  "check_completions v k context ps es rows = Inr hs
   \<longleftrightarrow> length es = length rows \<and> length hs = length rows
     \<and> (\<forall>i < length rows. check_completion v k context ps (es ! i) (rows ! i) = Inr (hs ! i))"
proof (induction v k "context" ps es rows arbitrary: hs rule: check_completions.induct)
  case (1 v k cx ps e es row rows)
  show ?case
    by (cases hs) (auto simp: bnd_eq_Inr 1 All_less_Suc2)
qed auto

lemma completion_line_stored:
  assumes "(stage, sequence, input, h, json) \<in> set (completion_lines l k)"
  shows "\<exists>row \<in> set (run_completions l k).
    rc_input_hash row = input \<and> rc_completion_hash row = h \<and> rc_completion_json row = json"
  using assms by (auto simp: completion_lines_def)

lemma stage_index_nth: "i < length STAGE_IDS \<Longrightarrow> stage_index (STAGE_IDS ! i) = i"
  by (auto simp: STAGE_IDS_def stage_index_def less_Suc_eq numeral_eq_Suc)

lemma run_valid_completion:
  assumes x: "run_valid v l k j x" and i: "i < length (rr_hashes x)"
  shows "i < length (rr_packets x) \<and> (\<exists>c h. rr_hashes x ! i = (pk_input_hash (rr_packets x ! i), h)
    \<and> completion_answers v (rr_context x) (rr_packets x ! i) c \<and> completion_stored v l k c h)"
proof -
  have "completions_valid v l k x" using x by (simp add: run_valid_def)
  with i have len: "i < length (mz_accepted (rr_materialized x))" "i < length (completion_lines l k)"
    and check: "check_completion v k (rr_context x) (rr_packets x) (mz_accepted (rr_materialized x) ! i)
      (completion_lines l k ! i) = Inr (rr_hashes x ! i)"
    unfolding completions_valid_def check_completions_Inr by simp_all
  have m: "i < length (mz_packets (rr_materialized x))"
    using run_valid_well [OF x] len(1) by (simp add: well_materialized_def)
  then have i4: "i < length STAGE_IDS" "i < length (rr_packets x)"
    using run_valid_lengths [OF x] by simp_all
  obtain h ch pos where acc: "mz_accepted (rr_materialized x) ! i = (STAGE_IDS ! i, h, ch, pos)"
    using run_valid_well [OF x] len(1) unfolding well_materialized_def by blast
  obtain rs seq ri rh json where row: "completion_lines l k ! i = (rs, seq, ri, rh, json)" by (metis prod_cases5)
  note * = check_completion_Inr [OF check [unfolded acc row], unfolded stage_index_nth [OF i4(1)]]
  have "packet_run (rr_packets x ! i) = k"
    using run_valid_stages [OF x] i4 by (simp add: stage_packets_def)
  with * obtain c val where c: "parse_text json = Some val" "canonical_json val = Inr json"
    "ch = rv_sha256 v json" "completion_from_value val = Inr c"
    "completion_answers v (rr_context x) (rr_packets x ! i) c"
    "rr_hashes x ! i = (pk_input_hash (rr_packets x ! i), ch)" "ri = h" "rh = ch"
    by blast
  obtain r where r: "r \<in> set (run_completions l k)" "rc_input_hash r = ri" "rc_completion_hash r = rh"
    "rc_completion_json r = json"
    using completion_line_stored row len(2) nth_mem by metis
  have "h = oc_input_hash c"
  proof -
    obtain ppos where "mz_packets (rr_materialized x) ! i = (STAGE_IDS ! i, int i, h, ppos)"
      using run_valid_well [OF x] len(1) acc unfolding well_materialized_def by (metis prod.inject)
    with run_valid_packet [OF x i4(2)] check_packet_Inr have "pk_input_hash (rr_packets x ! i) = h"
      by (metis prod.inject)
    with c(5) show ?thesis by (simp add: completion_answers_def)
  qed
  with c r have "completion_stored v l k c ch"
    unfolding completion_stored_def by (intro bexI [of _ r] exI [of _ val]) simp_all
  with c i4 show ?thesis by blast
qed

lemma run_valid_chained:
  assumes x: "run_valid v l k j x" and i: "Suc i < length (rr_packets x)"
  shows "\<exists>c h. pk_previous_completion_hash (rr_packets x ! Suc i) = Some h
    \<and> oc_input_hash c = pk_input_hash (rr_packets x ! i) \<and> completion_stored v l k c h"
proof -
  let ?p = "rr_packets x ! Suc i"
  have seq: "pk_sequence ?p = int (Suc i)" using run_valid_stages [OF x] i by (simp add: stage_packets_def)
  have "completions_valid v l k x" using x by (simp add: run_valid_def)
  then have "packet_chained (rr_packets x) (rr_hashes x) ?p"
    using i by (simp add: completions_valid_def list_all_length)
  with seq have prev: "pk_previous_completion_hash ?p = map_of (rev (rr_hashes x)) (pk_input_hash (rr_packets x ! i))"
    by (simp add: packet_chained_def)
  obtain hh pos where "check_packet v j (STAGE_IDS ! Suc i, int (Suc i), hh, pos) (packet_rows l k ! Suc i) = Inr ?p"
    using run_valid_packet [OF x i] by blast
  then have "packet_ok (rv_sha256 v) ?p" using check_packet_Inr by metis
  with seq obtain h where h: "pk_previous_completion_hash ?p = Some h"
    by (auto simp: packet_ok_def split: if_split_asm)
  with prev have "(pk_input_hash (rr_packets x ! i), h) \<in> set (rr_hashes x)"
    by (metis map_of_SomeD set_rev)
  then obtain n where n: "n < length (rr_hashes x)" "rr_hashes x ! n = (pk_input_hash (rr_packets x ! i), h)"
    by (auto simp: in_set_conv_nth)
  from run_valid_completion [OF x n(1)] n(2) obtain c where
    "completion_answers v (rr_context x) (rr_packets x ! n) c" "completion_stored v l k c h"
    "pk_input_hash (rr_packets x ! n) = pk_input_hash (rr_packets x ! i)" by auto
  with h show ?thesis by (auto simp: completion_answers_def)
qed

section \<open>The last event\<close>

lemma authenticate_event_Inr:
  assumes "authenticate_event v k n pred e = Inr ev"
  shows "re_event_sequence e = int n \<and> re_predecessor_hash e = pred
    \<and> parse_text (re_event_json e) = Some (JObj ev) \<and> canonical_json (JObj ev) = Inr (re_event_json e)
    \<and> re_event_hash e = rv_sha256 v (re_event_json e) \<and> re_event_mac e = rv_mac v (re_event_json e)
    \<and> field_of ev ''company_id'' = JStr (fst k) \<and> field_of ev ''job_id'' = JStr (snd k)
    \<and> field_of ev ''event_sequence'' = JInt (re_event_sequence e)
    \<and> field_of ev ''predecessor_hash'' = jopt (re_predecessor_hash e)
    \<and> field_of ev ''event_type'' = JStr (re_event_type e) \<and> field_of ev ''recorded_at'' = JStr (re_recorded_at e)
    \<and> same_keys ev event_fields \<and> (\<exists>ds. field_of ev ''details'' = JObj ds)"
proof -
  from assms have hd: "re_event_sequence e = int n" "re_predecessor_hash e = pred"
    by (auto simp: authenticate_event_def split: if_split_asm)
  from assms hd have body: "(case parse_text (re_event_json e) of
         Some (JObj value) \<Rightarrow>
           if \<not> same_keys value event_fields then Inl DataIntegrityError else
           bnd (canonical_json (JObj value)) (\<lambda>b.
           if b \<noteq> re_event_json e then Inl DataIntegrityError else
           bnd (sha256_fingerprint (rv_sha256 v) (JObj value)) (\<lambda>h.
           if h \<noteq> re_event_hash e
              \<or> field_of value ''company_id'' \<noteq> JStr (fst k) \<or> field_of value ''job_id'' \<noteq> JStr (snd k)
              \<or> field_of value ''event_sequence'' \<noteq> JInt (re_event_sequence e)
              \<or> field_of value ''predecessor_hash'' \<noteq> jopt (re_predecessor_hash e)
              \<or> field_of value ''event_type'' \<noteq> JStr (re_event_type e)
              \<or> field_of value ''recorded_at'' \<noteq> JStr (re_recorded_at e)
              \<or> (case field_of value ''details'' of JObj _ \<Rightarrow> False | _ \<Rightarrow> True)
              \<or> rv_mac v (re_event_json e) \<noteq> re_event_mac e
           then Inl DataIntegrityError else Inr value))
       | _ \<Rightarrow> Inl DataIntegrityError) = Inr ev"
    unfolding authenticate_event_def bnd_eq_Inr as_integrity_error_def
    by (auto split: sum.split_asm if_split_asm)
  from body have p: "parse_text (re_event_json e) = Some (JObj ev)"
    and ks: "same_keys ev event_fields" and c: "canonical_json (JObj ev) = Inr (re_event_json e)"
    and rest: "bnd (sha256_fingerprint (rv_sha256 v) (JObj ev)) (\<lambda>h.
           if h \<noteq> re_event_hash e
              \<or> field_of ev ''company_id'' \<noteq> JStr (fst k) \<or> field_of ev ''job_id'' \<noteq> JStr (snd k)
              \<or> field_of ev ''event_sequence'' \<noteq> JInt (re_event_sequence e)
              \<or> field_of ev ''predecessor_hash'' \<noteq> jopt (re_predecessor_hash e)
              \<or> field_of ev ''event_type'' \<noteq> JStr (re_event_type e)
              \<or> field_of ev ''recorded_at'' \<noteq> JStr (re_recorded_at e)
              \<or> (case field_of ev ''details'' of JObj _ \<Rightarrow> False | _ \<Rightarrow> True)
              \<or> rv_mac v (re_event_json e) \<noteq> re_event_mac e
           then Inl DataIntegrityError else Inr ev) = Inr ev"
    by (auto simp: bnd_eq_Inr split: option.split_asm jval.split_asm if_split_asm)
  obtain ds where "field_of ev ''details'' = JObj ds"
    using rest by (cases "field_of ev ''details''") (auto simp: bnd_eq_Inr split: if_split_asm)
  with rest have "re_event_hash e = rv_sha256 v (re_event_json e) \<and> re_event_mac e = rv_mac v (re_event_json e)
    \<and> field_of ev ''company_id'' = JStr (fst k) \<and> field_of ev ''job_id'' = JStr (snd k)
    \<and> field_of ev ''event_sequence'' = JInt (re_event_sequence e)
    \<and> field_of ev ''predecessor_hash'' = jopt (re_predecessor_hash e)
    \<and> field_of ev ''event_type'' = JStr (re_event_type e) \<and> field_of ev ''recorded_at'' = JStr (re_recorded_at e)
    \<and> (\<exists>ds. field_of ev ''details'' = JObj ds)"
    by (simp add: sha256_fingerprint_def c split: if_split_asm)
  with hd p ks c show ?thesis by blast
qed

definition chain_hash :: "pystr option \<Rightarrow> rail_event list \<Rightarrow> pystr option" where
  "chain_hash pred es = (if es = [] then pred else Some (re_event_hash (last es)))"

lemma authenticate_chain_append:
  "authenticate_chain v k n pred (es @ fs) =
     bnd (authenticate_chain v k n pred es) (\<lambda>evs.
     bnd (authenticate_chain v k (n + length es) (chain_hash pred es) fs) (\<lambda>evs'. Inr (evs @ evs')))"
proof (induction es arbitrary: n pred)
  case Nil
  then show ?case by (cases "authenticate_chain v k n pred fs") (simp_all add: chain_hash_def)
next
  case (Cons e es)
  have "chain_hash (Some (re_event_hash e)) es = chain_hash pred (e # es)" by (simp add: chain_hash_def)
  with Cons show ?case
    by (cases "authenticate_event v k n pred e") (simp_all add: bnd_assoc)
qed

lemma authenticate_chain_length: "authenticate_chain v k n pred es = Inr evs \<Longrightarrow> length evs = length es"
  by (induction es arbitrary: n pred evs) (auto simp: bnd_eq_Inr)

text \<open>The last event of a valid run, split off.\<close>

lemma run_valid_last:
  assumes x: "run_valid v l k j x"
  obtains evs ev m where "rr_events x = evs @ [ev]"
    "jget ''event_type'' ev = Some (JStr (re_event_type (last (event_rows l k))))"
    "materialize_all 0 evs nothing_materialized = Inr m"
    "materialize (length evs) ev m = Inr (rr_materialized x)"
proof -
  have chain: "authenticate_chain v k 0 None (event_rows l k) = Inr (rr_events x)" "event_rows l k \<noteq> []"
    using x by (auto simp: run_valid_def chain_valid_def)
  then have rows: "event_rows l k = butlast (event_rows l k) @ [last (event_rows l k)]" by simp
  define rs r where "rs = butlast (event_rows l k)" and "r = last (event_rows l k)"
  have "authenticate_chain v k 0 None (rs @ [r]) = Inr (rr_events x)"
    using chain(1) rows unfolding rs_def r_def by metis
  then obtain evs ev where evs: "authenticate_chain v k 0 None rs = Inr evs"
    "authenticate_event v k (length rs) (chain_hash None rs) r = Inr ev" "rr_events x = evs @ [ev]"
    by (auto simp: authenticate_chain_append bnd_eq_Inr)
  have "field_of ev ''event_type'' = JStr (re_event_type r)" using authenticate_event_Inr [OF evs(2)] by blast
  then have ty: "jget ''event_type'' ev = Some (JStr (re_event_type r))"
    by (auto simp: field_of_def split: option.split_asm)
  have "materialize_all 0 (evs @ [ev]) nothing_materialized = Inr (rr_materialized x)"
    using x evs(3) by (simp add: run_valid_def)
  then obtain m where "materialize_all 0 evs nothing_materialized = Inr m"
    "materialize (length evs) ev m = Inr (rr_materialized x)"
    by (auto simp: materialize_all_append bnd_eq_Inr)
  from that [OF evs(3) ty [unfolded r_def] this] show thesis .
qed

lemma expected_by_event_final:
  "expected_by_event t = Some FINAL_QA_READY \<longleftrightarrow> t = ''FINAL_QA_READY''"
  "expected_by_event t = Some ARTIFACT_FROZEN \<longleftrightarrow> t = ''ARTIFACT_FROZEN''"
  by (auto simp: expected_by_event_def completion_rejected_def)

lemma materialize_final_set:
  "jget ''event_type'' ev = Some (JStr ''FINAL_QA_READY'') \<Longrightarrow> materialize n ev m = Inr m' \<Longrightarrow> mz_final m' \<noteq> None"
  by (auto simp: materialize_def completion_accepted_def completion_submitted_def completion_rejected_def
      materialize_final_def bnd_eq_Inr split: if_split_asm)

lemma materialize_artifact_set:
  "jget ''event_type'' ev = Some (JStr ''ARTIFACT_FROZEN'') \<Longrightarrow> materialize n ev m = Inr m' \<Longrightarrow> mz_artifact m' \<noteq> None"
  by (auto simp: materialize_def completion_accepted_def completion_submitted_def completion_rejected_def
      materialize_artifact_def bnd_eq_Inr split: if_split_asm)

lemma run_valid_final:
  assumes x: "run_valid v l k j x"
    and last: "expected_by_event (re_event_type (last (event_rows l k))) = Some st" "st = FINAL_QA_READY \<or> st = ARTIFACT_FROZEN"
  shows "length (rr_hashes x) = length STAGE_IDS \<and> length (rr_packets x) = length STAGE_IDS
    \<and> (st = ARTIFACT_FROZEN \<longrightarrow> rj_artifact_manifest_path j \<noteq> None \<and> rj_artifact_manifest_hash j \<noteq> None)"
proof -
  let ?m = "rr_materialized x"
  from run_valid_last [OF x] obtain n ev m where
    ev: "jget ''event_type'' ev = Some (JStr (re_event_type (last (event_rows l k))))" "materialize n ev m = Inr ?m"
    by metis
  have "events_in_order ?m" using x by (simp add: run_valid_def)
  then have order: "final_in_order ?m" "artifact_in_order ?m" by (simp_all add: events_in_order_def)
  have art: "st = ARTIFACT_FROZEN \<Longrightarrow> mz_artifact ?m \<noteq> None"
    using ev last(1) materialize_artifact_set by (simp add: expected_by_event_final)
  have "mz_final ?m \<noteq> None"
  proof (cases "st = FINAL_QA_READY")
    case True
    with ev last(1) materialize_final_set show ?thesis by (simp add: expected_by_event_final)
  next
    case False
    with last(2) art have "mz_artifact ?m \<noteq> None" by blast
    with order(2) show ?thesis by (auto simp: artifact_in_order_def split: option.split_asm)
  qed
  with order(1) have four: "length (mz_accepted ?m) = length STAGE_IDS"
    by (auto simp: final_in_order_def split: option.split_asm)
  have comp: "completions_valid v l k x" and am: "artifact_matches j ?m" using x by (simp_all add: run_valid_def)
  from comp four have h: "length (rr_hashes x) = length STAGE_IDS"
    unfolding completions_valid_def check_completions_Inr by simp
  have "length STAGE_IDS \<le> length (mz_packets ?m)"
    using run_valid_well [OF x] four by (simp add: well_materialized_def)
  then have "length (rr_packets x) = length STAGE_IDS" using run_valid_lengths [OF x] by simp
  with h art am show ?thesis by (auto simp: artifact_matches_def)
qed

end
