(* ===== verification/RailStored.thy ===== *)
theory RailStored
  imports RailSound
begin

text \<open>
  Stored completions read back as the completion that was bound, with its payload in canonical form, and
  pass every check again; a packet carries the fields it was built from.
\<close>

section \<open>Fields of a constructed packet\<close>

lemma make_packet_fields:
  assumes "make_stage_packet sha256 kvs = Inr p"
  shows "non_empty (field_of kvs ''job_id'') = Inr (pk_job_id p)
    \<and> non_empty (field_of kvs ''company_id'') = Inr (pk_company_id p)
    \<and> non_empty (field_of kvs ''approval_record_id'') = Inr (pk_approval_record_id p)
    \<and> non_empty (field_of kvs ''designated_session_ref'') = Inr (pk_designated_session_ref p)
    \<and> stage_field (field_of kvs ''stage_id'') = Inr (pk_stage_id p)
    \<and> sha256_digest (field_of kvs ''approved_plan_fingerprint'') = Inr (pk_approved_plan_fingerprint p)
    \<and> sha256_digest (field_of kvs ''snapshot_hash'') = Inr (pk_snapshot_hash p)
    \<and> sha256_digest (field_of kvs ''evidence_hash'') = Inr (pk_evidence_hash p)
    \<and> previous_field (pk_sequence p) (field_of kvs ''previous_completion_hash'') = Inr (pk_previous_completion_hash p)"
  using assms unfolding make_stage_packet_def Let_def bnd_eq_Inr
  by (elim exE conjE) (auto simp: sequence_field_Inr split: if_split_asm)

section \<open>Completions are fixed points of their constructors\<close>

definition attestation_ok :: "operator_attestation \<Rightarrow> bool" where
  "attestation_ok a =
     (list_all tidy [oa_session_ref a, oa_provider_id a, oa_model_id a, oa_operator_id a]
      \<and> valid_instant (oa_observed_at a))"

definition completion_ok :: "observed_completion \<Rightarrow> bool" where
  "completion_ok c =
     (tidy (oc_job_id c) \<and> tidy (oc_company_id c) \<and> oc_stage_id c \<in> set STAGE_IDS \<and> is_sha256_hex (oc_input_hash c)
      \<and> (\<exists>b. canonical_json (oc_payload c) = Inr b) \<and> plain (oc_payload c) \<and> attestation_ok (oc_attestation c))"

text \<open>A completion as a caller makes one: both constructors ran, and the payload is a JSON value.\<close>

definition constructed :: "observed_completion \<Rightarrow> bool" where
  "constructed c =
     (plain (oc_payload c)
      \<and> (\<exists>att t. make_attestation att t = Inr (oc_attestation c))
      \<and> (\<exists>kvs. make_completion kvs (oc_attestation c) = Inr c))"

lemma as_value_error_Inr [simp]: "as_value_error m = Inr x \<longleftrightarrow> m = Inr x"
  by (cases m) (auto simp: as_value_error_def)

lemma as_integrity_error_Inr [simp]: "as_integrity_error m = Inr x \<longleftrightarrow> m = Inr x"
  by (cases m) (auto simp: as_integrity_error_def)

lemma make_attestation_ok: "make_attestation kvs t = Inr a \<Longrightarrow> attestation_ok a"
  by (auto simp: make_attestation_def Let_def bnd_eq_Inr attestation_ok_def dest: non_empty_Inr split: if_split_asm)

lemma constructed_ok:
  assumes "constructed c"
  shows "completion_ok c"
proof -
  from assms obtain att t kvs where a: "make_attestation att t = Inr (oc_attestation c)"
    and c: "make_completion kvs (oc_attestation c) = Inr c" and "plain (oc_payload c)"
    unfolding constructed_def by blast
  from c have "tidy (oc_job_id c) \<and> tidy (oc_company_id c) \<and> oc_stage_id c \<in> set STAGE_IDS
      \<and> is_sha256_hex (oc_input_hash c) \<and> (\<exists>b. canonical_json (oc_payload c) = Inr b)"
    unfolding make_completion_def Let_def bnd_eq_Inr
    by (cases c) (auto dest: non_empty_Inr stage_field_Inr digest_Inr)
  with make_attestation_ok [OF a] \<open>plain _\<close> show ?thesis by (simp add: completion_ok_def)
qed

definition canon_completion :: "observed_completion \<Rightarrow> observed_completion" where
  "canon_completion c = c\<lparr>oc_payload := canon (oc_payload c)\<rparr>"

lemma attestation_value_facts:
  "distinct (map fst (attestation_value a))" "plain (JObj (attestation_value a))"
  by (simp_all add: attestation_value_def)

lemma completion_value_facts:
  "distinct (map fst (completion_value c))"
  "plain (JObj (completion_value c)) = plain (oc_payload c)"
  by (simp_all add: completion_value_def attestation_value_def)

lemma attestation_reads_back:
  assumes "attestation_ok a" "canon (JObj (attestation_value a)) = JObj kvs"
  shows "make_attestation kvs (oa_observed_at a) = Inr a" "observed_instant kvs = Inr (oa_observed_at a)"
proof -
  have f: "field_of kvs k = canon (field_of (attestation_value a) k)" for k
    by (rule field_of_canon [OF attestation_value_facts(1) assms(2)])
  have g: "jget k kvs = map_option canon (jget k (attestation_value a))" for k
    by (rule jget_canon [OF attestation_value_facts(1) assms(2)])
  have "field_of kvs ''session_ref'' = JStr (oa_session_ref a)" "field_of kvs ''provider_id'' = JStr (oa_provider_id a)"
    "field_of kvs ''model_id'' = JStr (oa_model_id a)" "field_of kvs ''operator_id'' = JStr (oa_operator_id a)"
    unfolding f by (simp_all add: field_of_def jget_def attestation_value_def)
  then show "make_attestation kvs (oa_observed_at a) = Inr a"
    using assms(1) by (simp add: make_attestation_def attestation_ok_def non_empty_tidy)
  have "jget ''observed_at'' kvs = Some (JStr (isoformat (oa_observed_at a)))"
    unfolding g by (simp add: jget_def attestation_value_def)
  then show "observed_instant kvs = Inr (oa_observed_at a)"
    using assms(1) by (simp add: observed_instant_def attestation_ok_def parse_aware_isoformat)
qed

lemma completion_reads_back:
  assumes "completion_ok c"
  shows "completion_from_value (canon (JObj (completion_value c))) = Inr (canon_completion c)"
proof -
  obtain kvs where kvs: "canon (JObj (completion_value c)) = JObj kvs" by simp
  obtain att where att: "canon (JObj (attestation_value (oc_attestation c))) = JObj att" by simp
  note dist = completion_value_facts(1)
  have f: "field_of kvs k = canon (field_of (completion_value c) k)" for k
    by (rule field_of_canon [OF dist kvs])
  have g: "jget k kvs = map_option canon (jget k (completion_value c))" for k
    by (rule jget_canon [OF dist kvs])
  have "jget ''attestation'' kvs = Some (canon (JObj (attestation_value (oc_attestation c))))"
    unfolding g by (simp add: jget_def completion_value_def del: canon.simps)
  then have a: "jget ''attestation'' kvs = Some (JObj att)" using att by simp
  have keys: "fst ` set kvs = fst ` set (completion_value c)" using keys_canon [OF kvs] by simp
  have ok: "attestation_ok (oc_attestation c)" using assms by (simp add: completion_ok_def)
  have "field_of kvs ''job_id'' = JStr (oc_job_id c)" "field_of kvs ''company_id'' = JStr (oc_company_id c)"
    "field_of kvs ''stage_id'' = JStr (oc_stage_id c)" "field_of kvs ''input_hash'' = JStr (oc_input_hash c)"
    "field_of kvs ''payload'' = canon (oc_payload c)"
    unfolding f by (simp_all add: field_of_def jget_def completion_value_def)
  then have "make_completion kvs (oc_attestation c) = Inr (canon_completion c)"
    using assms
    by (auto simp: make_completion_def completion_ok_def non_empty_tidy digest_hex stage_field_def
        canonical_json_canon canon_completion_def as_value_error_def)
  then show ?thesis
    unfolding completion_from_value_def kvs
    by (simp add: a attestation_reads_back [OF ok att] keys completion_value_def cong: if_cong)
qed

section \<open>Payload checks on the canonical form\<close>

lemma bounded_text_canon: "bounded_stage_text n (canon v) = bounded_stage_text n v"
  by (cases v) (simp_all add: bounded_stage_text_def)

lemma each_ok_map: "each_ok f (map g xs) = each_ok (f \<circ> g) xs"
  by (induction xs) simp_all

lemma string_list_canon: "stage_string_list a b (canon v) = stage_string_list a b v"
  by (cases v) (simp_all add: stage_string_list_def each_ok_map comp_def bounded_text_canon)

lemma decision_canon: "canon v = JStr s \<longleftrightarrow> v = JStr s"
  by (cases v) simp_all

lemma sources_canon:
  "(case canon v of JList sources \<Rightarrow> require (length sources \<le> n) e | _ \<Rightarrow> Inl e)
   = (case v of JList sources \<Rightarrow> require (length sources \<le> n) e | _ \<Rightarrow> Inl e)"
  by (cases v) simp_all

lemma payload_fields_canon:
  assumes "distinct (map fst kvs)" "canon (JObj kvs) = JObj kvs'"
  shows "stage_payload_fields stage kvs' = stage_payload_fields stage kvs"
proof -
  have "same_keys kvs' ks = same_keys kvs ks" for ks
    using keys_canon [OF assms(2)] by (simp add: same_keys_def)
  then show ?thesis
    unfolding stage_payload_fields_def Let_def
    by (simp add: field_of_canon [OF assms] bounded_text_canon string_list_canon decision_canon sources_canon)
qed

lemma validate_payload_canon:
  assumes "plain v" "validate_stage_payload g stage v = Inr ()"
  shows "validate_stage_payload g stage (canon v) = Inr ()"
proof (cases v)
  case (JObj kvs)
  obtain kvs' where kvs': "canon (JObj kvs) = JObj kvs'" by simp
  have "distinct (map fst kvs)" using assms(1) JObj by simp
  from payload_fields_canon [OF this kvs'] assms(2) show ?thesis
    using screened_canon [of g v]
    by (auto simp: validate_stage_payload_def JObj kvs' bnd_eq_Inr simp del: canon.simps)
qed (use assms in \<open>auto simp: validate_stage_payload_def bnd_eq_Inr\<close>)

lemma commitment_canon: "plain v \<Longrightarrow> source_commitment g (canon v) = source_commitment g v"
  by (simp add: source_commitment_def source_provenance_canon canonical_json_canon)

lemma commitments_canon: "list_all plain vs \<Longrightarrow> source_commitments g (map canon vs) = source_commitments g vs"
  by (induction vs) (simp_all add: commitment_canon)

lemma revision_sources_canon:
  assumes "plain v"
  shows "validate_revision_sources g (canon v) context = validate_revision_sources g v context"
proof (cases v)
  case (JObj kvs)
  obtain kvs' where kvs': "canon (JObj kvs) = JObj kvs'" by simp
  have dist: "distinct (map fst kvs)" using assms JObj by simp
  show ?thesis
  proof (cases "jget ''sources'' kvs")
    case None
    then show ?thesis
      using jget_canon [OF dist kvs'] by (simp add: JObj kvs' validate_revision_sources_def del: canon.simps)
  next
    case (Some w)
    then have "(''sources'', w) \<in> set kvs" by (simp add: jget_def map_of_SomeD)
    with assms have "plain w" unfolding JObj by (auto simp: list_all_iff)
    with Some show ?thesis
      using jget_canon [OF dist kvs']
      by (cases w) (simp_all add: JObj kvs' validate_revision_sources_def commitments_canon del: canon.simps(2),
          simp_all add: commitments_canon)
  qed
qed (simp_all add: validate_revision_sources_def)

lemma answers_canon:
  assumes "completion_answers v context p c" "plain (oc_payload c)"
  shows "completion_answers v context p (canon_completion c)"
  using assms
  by (auto simp: completion_answers_def canon_completion_def completion_run_def revision_sources_canon
      intro: validate_payload_canon)

end
