(* ===== verification/RailHistory.thy ===== *)
theory RailHistory
  imports RailSound
begin

text \<open>
  What the rail's operations may do to a ledger, whatever the ledger holds: rows are only added, a run's
  frozen binding and its artifact never change, and statuses move along a fixed graph.
\<close>

section \<open>Requests\<close>

datatype rail_request =
    Prepare seo_job execution_snapshot pystr
  | Bind observed_completion
  | RecordArtifact pystr pystr pystr pystr
  | ResolveRecovery pystr pystr pystr pystr
  | RequestCancel pystr pystr pystr
  | MarkRecovery pystr pystr

fun serve_rail :: "rail_env \<Rightarrow> (nat \<Rightarrow> instant) \<Rightarrow> rail_request \<Rightarrow> rail \<Rightarrow> rail" where
  "serve_rail v now (Prepare job snapshot session) l = snd (prepare_packet v now job snapshot session l)"
| "serve_rail v now (Bind c) l = snd (bind_completion v now c l)"
| "serve_rail v now (RecordArtifact company job path h) l = snd (record_artifact v now company job path h l)"
| "serve_rail v now (ResolveRecovery company job expected operator) l =
     snd (resolve_recovery v now company job expected operator l)"
| "serve_rail v now (RequestCancel company job operator) l = snd (request_cancel v now company job operator l)"
| "serve_rail v now (MarkRecovery company job) l = snd (mark_operator_recovery_required v now company job l)"

inductive rail_reaches :: "rail_env \<Rightarrow> rail \<Rightarrow> rail \<Rightarrow> bool" for v where
  rail_start: "rail_reaches v l l"
| rail_serve: "rail_reaches v l m \<Longrightarrow> rail_reaches v l (serve_rail v now q m)"

inductive_cases rail_reaches_cases: "rail_reaches v l l'"

section \<open>The ledger only grows\<close>

definition rail_evolves :: "rail \<Rightarrow> rail \<Rightarrow> bool" where
  "rail_evolves l l' =
     (runs.table_evolves (rl_jobs l) (rl_jobs l')
      \<and> (\<exists>ps. rl_packets l' = rl_packets l @ ps) \<and> (\<exists>cs. rl_completions l' = rl_completions l @ cs)
      \<and> (\<exists>es. rl_events l' = rl_events l @ es))"

named_theorems rail_grows \<open>operations that only extend the ledger\<close>

lemma rail_evolves_refl [simp]: "rail_evolves l l"
  by (simp add: rail_evolves_def runs.table_evolves_refl)

lemma rail_evolves_trans: "rail_evolves l m \<Longrightarrow> rail_evolves m n \<Longrightarrow> rail_evolves l n"
  unfolding rail_evolves_def by (metis append.assoc runs.table_evolves_trans)

lemma update_run_evolves [rail_grows]: "update_run h P f l = Inr (l', n) \<Longrightarrow> rail_evolves l l'"
  by (auto simp: update_run_def rail_evolves_def bnd_eq_Inr dest: runs.update_evolves)

lemma insert_packet_evolves [rail_grows]: "insert_packet p l = Inr l' \<Longrightarrow> rail_evolves l l'"
  by (auto simp: insert_packet_def rail_evolves_def runs.table_evolves_refl split: if_splits)

lemma insert_completion_evolves [rail_grows]: "insert_completion c l = Inr l' \<Longrightarrow> rail_evolves l l'"
  by (auto simp: insert_completion_def rail_evolves_def runs.table_evolves_refl split: if_splits)

lemma insert_event_evolves [rail_grows]: "insert_event v e l = Inr l' \<Longrightarrow> rail_evolves l l'"
  by (auto simp: insert_event_def rail_evolves_def runs.table_evolves_refl split: if_splits)

lemma insert_job_evolves [rail_grows]: "insert_rail_job j l = Inr l' \<Longrightarrow> rail_evolves l l'"
  by (auto simp: insert_rail_job_def rail_evolves_def runs.table_evolves_append split: if_splits)

lemma append_event_evolves [rail_grows]:
  assumes "append_event v k t ds now l = Inr l'"
  shows "rail_evolves l l'"
  using assms
  by (auto simp: append_event_def bnd_eq_Inr Let_def split: option.splits if_splits
      intro: rail_evolves_trans rail_grows)

section \<open>Statuses\<close>

definition statuses :: "rail \<Rightarrow> (rail_key \<times> pystr) list" where
  "statuses l = map (\<lambda>j. (rail_job_key j, rj_status j)) (rl_jobs l)"

definition with_status :: "rail_key \<Rightarrow> supervised_status \<Rightarrow> (rail_key \<times> pystr) list \<Rightarrow> (rail_key \<times> pystr) list" where
  "with_status k st ss = map (\<lambda>(k', s). (k', if k' = k then status_text st else s)) ss"

definition status_edges :: "(supervised_status \<times> supervised_status) list" where
  "status_edges =
     [(AWAITING_OPERATOR_EXECUTION, OPERATOR_RECOVERY_REQUIRED), (AWAITING_OPERATOR_EXECUTION, CANCEL_REQUESTED),
      (AWAITING_OPERATOR_EXECUTION, FINAL_QA_READY), (AWAITING_OPERATOR_EXECUTION, AWAITING_OPERATOR_EXECUTION),
      (OPERATOR_RECOVERY_REQUIRED, AWAITING_OPERATOR_EXECUTION), (OPERATOR_RECOVERY_REQUIRED, CANCEL_REQUESTED),
      (FINAL_QA_READY, ARTIFACT_FROZEN)]"

lemma update_run_rows:
  assumes "update_run h P f l = Inr (l', n)"
  shows "rl_jobs l' = map (\<lambda>r. if P r then f r else r) (rl_jobs l) \<and> n = length (filter P (rl_jobs l))"
  using assms by (auto simp: update_run_def bnd_eq_Inr dest: sql_update_strict)

lemma insert_statuses [simp]:
  "insert_packet p l = Inr l' \<Longrightarrow> rl_jobs l' = rl_jobs l"
  "insert_completion c l = Inr l' \<Longrightarrow> rl_jobs l' = rl_jobs l"
  "insert_event v e l = Inr l' \<Longrightarrow> rl_jobs l' = rl_jobs l"
  by (auto simp: insert_packet_def insert_completion_def insert_event_def split: if_split_asm)

lemma append_event_Inr:
  assumes "append_event v k t ds now l = Inr l'"
  obtains j e l1 where "run_row l k = Some j" "0 \<le> rj_event_count j"
    "canonical_json (JObj (event_value k (rj_event_count j) (rj_event_head_hash j) t (isoformat now) ds))
       = Inr (re_event_json e)"
    "re_event_hash e = rv_sha256 v (re_event_json e)" "re_event_mac e = rv_mac v (re_event_json e)"
    "event_key e = k" "re_event_sequence e = rj_event_count j" "re_predecessor_hash e = rj_event_head_hash j"
    "re_event_type e = t" "re_recorded_at e = isoformat now" "insert_event v e l = Inr l1"
    "update_run True
        (\<lambda>r. rail_job_key r = k \<and> rj_event_count r = rj_event_count j \<and> rj_event_head_hash r = rj_event_head_hash j)
        (\<lambda>r. r\<lparr>rj_event_count := rj_event_count j + 1, rj_event_head_hash := Some (re_event_hash e),
               rj_event_head_mac := Some (re_event_mac e)\<rparr>) l1 = Inr (l', 1)"
proof -
  from assms obtain j where j: "run_row l k = Some j" "0 \<le> rj_event_count j"
    by (auto simp: append_event_def split: option.split_asm if_split_asm)
  let ?val = "JObj (event_value k (rj_event_count j) (rj_event_head_hash j) t (isoformat now) ds)"
  from assms j obtain s where s: "canonical_json ?val = Inr s"
    by (auto simp: append_event_def bnd_eq_Inr Let_def)
  let ?e = "\<lparr>re_company_id = fst k, re_job_id = snd k, re_event_sequence = rj_event_count j,
     re_predecessor_hash = rj_event_head_hash j, re_event_type = t, re_recorded_at = isoformat now,
     re_event_hash = rv_sha256 v s, re_event_mac = rv_mac v s, re_event_json = s\<rparr>"
  from assms j s obtain l1 where "insert_event v ?e l = Inr l1"
    "update_run True
        (\<lambda>r. rail_job_key r = k \<and> rj_event_count r = rj_event_count j \<and> rj_event_head_hash r = rj_event_head_hash j)
        (\<lambda>r. r\<lparr>rj_event_count := rj_event_count j + 1, rj_event_head_hash := Some (rv_sha256 v s),
               rj_event_head_mac := Some (rv_mac v s)\<rparr>) l1 = Inr (l', 1)"
    by (auto simp: append_event_def bnd_eq_Inr Let_def sha256_fingerprint_def split: if_split_asm)
  with j s show thesis
    by (intro that [of j ?e l1]) (simp_all add: event_key_def)
qed

lemma append_event_statuses:
  assumes "append_event v k t ds now l = Inr l'"
  shows "statuses l' = statuses l"
proof -
  obtain e l1 P f where l1: "insert_event v e l = Inr l1" "update_run True P f l1 = Inr (l', 1)"
    "\<forall>r. rail_job_key (f r) = rail_job_key r \<and> rj_status (f r) = rj_status r"
    by (rule append_event_Inr [OF assms]) (erule that, assumption, simp add: rail_job_key_def)
  from update_run_rows [OF l1(2)] l1(1) have "rl_jobs l' = map (\<lambda>r. if P r then f r else r) (rl_jobs l)" by simp
  with l1(3) show ?thesis by (simp add: statuses_def)
qed

lemma set_status_statuses: "set_status k st l = Inr l' \<Longrightarrow> statuses l' = with_status k st (statuses l)"
  by (auto simp: set_status_def bnd_eq_Inr statuses_def with_status_def rail_job_key_def dest!: update_run_rows)

text \<open>What one request may do to the statuses: nothing, one edge of the graph, or a new run.\<close>

definition status_effect :: "rail \<Rightarrow> rail \<Rightarrow> bool" where
  "status_effect l l' =
     (statuses l' = statuses l
      \<or> (\<exists>k s t. run_row l k \<noteq> None \<and> rj_status (the (run_row l k)) = status_text s \<and> (s, t) \<in> set status_edges
           \<and> statuses l' = with_status k t (statuses l))
      \<or> (\<exists>k. k \<notin> fst ` set (statuses l)
           \<and> statuses l' = statuses l @ [(k, status_text AWAITING_OPERATOR_EXECUTION)]))"

lemma status_effect_same: "statuses l' = statuses l \<Longrightarrow> status_effect l l'"
  by (simp add: status_effect_def)

lemma status_effect_edge:
  "open_run v l k = Inr (j, s) \<Longrightarrow> (s, t) \<in> set status_edges \<Longrightarrow> statuses l' = with_status k t (statuses l)
   \<Longrightarrow> status_effect l l'"
  unfolding status_effect_def open_run_Inr run_valid_def by fastforce

section \<open>The effect of each request\<close>

lemma reject_Inr:
  assumes "reject_completion v p c reason err now l = Inr (r, l')"
  shows "r = Inl err \<and> append_event v (packet_run p) completion_rejected
            (submission_details p c @ [(''reason_code'', JStr reason)]) now l = Inr l'"
  using assms by (auto simp: reject_completion_def bnd_eq_Inr)

lemma advance_update_statuses:
  assumes "update_run False (\<lambda>r. rail_job_key r = k)
      (\<lambda>r. r\<lparr>rj_status := status_text st, rj_packet_json := encoded\<rparr>) l = Inr (l', n)"
  shows "statuses l' = with_status k st (statuses l)"
  using update_run_rows [OF assms] by (auto simp: statuses_def with_status_def rail_job_key_def)

lemma insert_statuses' [simp]:
  "insert_packet p l = Inr l' \<Longrightarrow> statuses l' = statuses l"
  "insert_completion c l = Inr l' \<Longrightarrow> statuses l' = statuses l"
  by (simp_all add: statuses_def)

lemma accept_statuses:
  assumes "accept_completion v p c encoded h now l = Inr (r, l')"
  shows "\<exists>t. t \<in> {FINAL_QA_READY, AWAITING_OPERATOR_EXECUTION}
    \<and> statuses l' = with_status (completion_run c) t (statuses l)"
proof -
  from assms obtain l1 l2 next_p where 1: "statuses l1 = statuses l" "statuses l2 = statuses l1"
    "(case next_p of None \<Rightarrow> finish_run v c (now 2) l2 | Some q \<Rightarrow> advance_run v c q (now 2) l2) = Inr (r, l')"
    unfolding accept_completion_def bnd_eq_Inr by (metis append_event_statuses insert_statuses'(2))
  show ?thesis
  proof (cases next_p)
    case None
    with 1(3) obtain l3 where "set_status (completion_run c) FINAL_QA_READY l2 = Inr l3" "statuses l' = statuses l3"
      by (auto simp: finish_run_def bnd_eq_Inr dest: append_event_statuses)
    with 1 show ?thesis by (auto dest!: set_status_statuses)
  next
    case (Some q)
    with 1(3) obtain l3 enc n where "statuses l3 = statuses l2"
      "update_run False (\<lambda>r. rail_job_key r = completion_run c)
        (\<lambda>r. r\<lparr>rj_status := status_text AWAITING_OPERATOR_EXECUTION, rj_packet_json := enc\<rparr>) l3 = Inr (l', n)"
      by (auto simp: advance_run_def bnd_eq_Inr dest!: append_event_statuses insert_statuses')
    with 1 show ?thesis by (auto dest!: advance_update_statuses)
  qed
qed

lemma judge_cases:
  assumes "judge_completion v j p c encoded h now l = Inr (r, l')"
  shows "(\<exists>reason err. reject_completion v p c reason err (now 1) l = Inr (r, l') \<and> \<not> blank reason)
    \<or> (\<exists>context. stored_context j = Inr context
         \<and> (packet_run p = completion_run c \<longrightarrow> completion_answers v context p c)
         \<and> accept_completion v p c encoded h now l = Inr (r, l'))"
proof -
  have reasons: "\<not> blank ''IDENTITY_MISMATCH''" "\<not> blank ''ATTESTATION_MISMATCH''" "\<not> blank ''PAYLOAD_INVALID''"
    "\<not> blank ''EVIDENCE_MISMATCH''"
    by (simp_all add: ascii_space_def wide_space_def)
  show ?thesis
    using assms reasons
    by (auto simp: judge_completion_def Let_def bnd_eq_Inr completion_answers_def simp del: blank.simps
        split: if_split_asm sum.split_asm)
qed

lemma judge_statuses:
  assumes "judge_completion v j p c encoded h now l = Inr (r, l')"
  shows "statuses l' = statuses l
    \<or> (\<exists>t. t \<in> {FINAL_QA_READY, AWAITING_OPERATOR_EXECUTION} \<and> statuses l' = with_status (completion_run c) t (statuses l))"
  using judge_cases [OF assms] reject_Inr append_event_statuses accept_statuses by metis

lemma bind_effect: "status_effect l (snd (bind_completion v now c l))"
proof -
  have "status_effect l l'" if "bind_body v now c encoded h l = Inr (r, l')" for encoded h r l'
  proof -
    from that obtain j p l1 where o: "open_run v l (completion_run c) = Inr (j, AWAITING_OPERATOR_EXECUTION)"
      and "append_event v (packet_run p) completion_submitted (submission_details p c) (now 0) l = Inr l1"
      and judge: "judge_completion v j p c encoded h now l1 = Inr (r, l')"
      by (auto simp: bind_body_def bnd_eq_Inr split: if_split_asm)
    then have "statuses l1 = statuses l" using append_event_statuses by blast
    with judge_statuses [OF judge] show ?thesis
      using status_effect_same status_effect_edge [OF o] by (fastforce simp: status_edges_def)
  qed
  then show ?thesis
    by (auto simp: bind_completion_def Let_def commit_outcome_def bnd_eq_Inr status_effect_same
        split: sum.splits)
qed

lemma commit_effect: "(\<And>x l'. m = Inr (x, l') \<Longrightarrow> P l l') \<Longrightarrow> P l l \<Longrightarrow> P l (snd (commit_rail m l))"
  by (auto simp: commit_rail_def split: sum.splits)

lemma prepare_effect: "status_effect l (snd (prepare_packet v now job snapshot session l))"
proof -
  have "status_effect l l'" if st: "start_run v job p enc cx t l = Inr (q, l')" for p enc cx t q l'
  proof -
    from st obtain l1 l2 where 1: "insert_packet (packet_row p enc) l = Inr l1" "insert_rail_job (new_run job p enc cx) l1 = Inr l2"
      "statuses l' = statuses l2"
      by (auto simp: start_run_def bnd_eq_Inr dest: append_event_statuses)
    then have "statuses l1 = statuses l" by simp
    with 1 show ?thesis
      by (auto simp: status_effect_def insert_rail_job_def statuses_def new_run_def rail_job_key_def split: if_split_asm)
  qed
  then show ?thesis
    by (auto simp: prepare_packet_def commit_rail_def status_effect_same split: sum.splits)
qed

lemma change_status_statuses:
  assumes "change_status v now k st details ty l = Inr (r, l')"
  shows "statuses l' = with_status k st (statuses l)"
  using assms by (auto simp: change_status_def bnd_eq_Inr dest!: append_event_statuses set_status_statuses)

lemma cancel_effect: "status_effect l (snd (request_cancel v now company job operator l))"
  unfolding request_cancel_def
  by (rule commit_effect [where P = status_effect])
    (auto simp: bnd_eq_Inr status_edges_def status_effect_same split: if_split_asm
      dest!: change_status_statuses intro: status_effect_edge)

lemma mark_effect: "status_effect l (snd (mark_operator_recovery_required v now company job l))"
  unfolding mark_operator_recovery_required_def
  by (rule commit_effect [where P = status_effect])
    (auto simp: bnd_eq_Inr status_edges_def status_effect_same split: if_split_asm
      dest!: change_status_statuses intro: status_effect_edge)

lemma replay_same: "replay_resolution v k expected operator l = Inr (r, l') \<Longrightarrow> l' = l"
  by (auto simp: replay_resolution_def bnd_eq_Inr split: list.split_asm if_split_asm)

lemma resolve_effect: "status_effect l (snd (resolve_recovery v now company job expected operator l))"
  unfolding resolve_recovery_def
  by (rule commit_effect [where P = status_effect])
    (auto simp: bnd_eq_Inr status_edges_def status_effect_same split: if_split_asm
      dest!: change_status_statuses replay_same intro: status_effect_edge)

lemma freeze_statuses:
  assumes "freeze_artifact v now k b l = Inr (r, l')" "run_row l k = Some j" "distinct (map rail_job_key (rl_jobs l))"
    "rj_status j = status_text FINAL_QA_READY"
  shows "statuses l' = with_status k ARTIFACT_FROZEN (statuses l)"
proof -
  from assms(1) obtain l1 where 1: "update_run False
            (\<lambda>r. rail_job_key r = k \<and> rj_status r = status_text FINAL_QA_READY)
            (\<lambda>r. r\<lparr>rj_status := status_text ARTIFACT_FROZEN,
                   rj_artifact_manifest_path := Some (fa_manifest_path b),
                   rj_artifact_manifest_hash := Some (fa_manifest_hash b)\<rparr>) l = Inr (l1, 1)" "statuses l' = statuses l1"
    by (auto simp: freeze_artifact_def bnd_eq_Inr split: if_split_asm dest: append_event_statuses)
  have "rj_status r = status_text FINAL_QA_READY" if "r \<in> set (rl_jobs l)" "rail_job_key r = k" for r
    using that assms(2-4) by (metis run_row_key find_key option.inject run_row_def)
  with update_run_rows [OF 1(1)] 1(2) show ?thesis
    by (auto simp: statuses_def with_status_def rail_job_key_def)
qed

lemma record_effect:
  assumes "distinct (map rail_job_key (rl_jobs l))"
  shows "status_effect l (snd (record_artifact v now company job path h l))"
  unfolding record_artifact_def
proof (rule commit_effect [where P = status_effect])
  fix x l'
  assume "bnd (run_key_of company job) (\<lambda>k.
       bnd (make_artifact_binding path h) (\<lambda>b.
       bnd (open_run v l k) (\<lambda>(j, st).
       if st = ARTIFACT_FROZEN then
         bnd (stored_artifact_binding j) (\<lambda>existing.
           if existing \<noteq> b then Inl ValueError else Inr (existing, l))
       else if st \<noteq> FINAL_QA_READY then Inl ValueError
       else freeze_artifact v (now 0) k b l))) = Inr (x, l')"
  then consider "l' = l"
    | k b j where "open_run v l k = Inr (j, FINAL_QA_READY)" "freeze_artifact v (now 0) k b l = Inr (x, l')"
    by (auto simp: bnd_eq_Inr split: if_split_asm)
  then show "status_effect l l'"
  proof cases
    case (2 k b j)
    then have "run_row l k = Some j" "rj_status j = status_text FINAL_QA_READY"
      by (auto simp: open_run_Inr run_valid_def)
    from freeze_statuses [OF 2(2) this(1) assms this(2)] show ?thesis
      by (rule status_effect_edge [OF 2(1), rotated]) (simp add: status_edges_def)
  qed (simp add: status_effect_same)
qed (simp add: status_effect_same)

lemma serve_rail_effect: "distinct (map rail_job_key (rl_jobs l)) \<Longrightarrow> status_effect l (serve_rail v now q l)"
  by (cases q) (simp_all add: bind_effect prepare_effect cancel_effect mark_effect resolve_effect record_effect)

lemma statuses_keys: "map fst (statuses l) = map rail_job_key (rl_jobs l)"
  by (simp add: statuses_def)

lemma with_status_keys: "map fst (with_status k st ss) = map fst ss"
  by (auto simp: with_status_def)

lemma effect_keys:
  assumes "status_effect l l'" "distinct (map rail_job_key (rl_jobs l))"
  shows "distinct (map rail_job_key (rl_jobs l'))"
  using assms(1)
proof (unfold status_effect_def, elim disjE exE conjE)
  fix k assume "k \<notin> fst ` set (statuses l)"
    "statuses l' = statuses l @ [(k, status_text AWAITING_OPERATOR_EXECUTION)]"
  then show ?thesis
    using assms(2) by (auto simp: statuses_keys [symmetric] simp del: map_map)
next
  fix k s t assume "statuses l' = with_status k t (statuses l)"
  then show ?thesis using assms(2) with_status_keys statuses_keys by metis
qed (metis assms(2) statuses_keys)

section \<open>Growth of each request\<close>

lemma set_status_evolves [rail_grows]: "set_status k st l = Inr l' \<Longrightarrow> rail_evolves l l'"
  by (auto simp: set_status_def bnd_eq_Inr intro: rail_grows)

lemma finish_evolves: "finish_run v c now l = Inr (r, l') \<Longrightarrow> rail_evolves l l'"
  by (auto simp: finish_run_def bnd_eq_Inr intro: rail_evolves_trans set_status_evolves append_event_evolves)

lemma advance_evolves: "advance_run v c q now l = Inr (r, l') \<Longrightarrow> rail_evolves l l'"
  by (auto simp: advance_run_def bnd_eq_Inr
      dest!: insert_packet_evolves append_event_evolves update_run_evolves intro: rail_evolves_trans)

lemma accept_evolves:
  assumes "accept_completion v p c encoded h now l = Inr (r, l')"
  shows "rail_evolves l l'"
proof -
  from assms obtain l1 l2 next_p where 1: "insert_completion
            \<lparr>rc_company_id = oc_company_id c, rc_job_id = oc_job_id c, rc_input_hash = oc_input_hash c,
             rc_completion_hash = h, rc_completion_json = encoded\<rparr> l = Inr l1"
    "append_event v (completion_run c) completion_accepted
            [(''stage_id'', JStr (oc_stage_id c)), (''input_hash'', JStr (oc_input_hash c)),
             (''completion_hash'', JStr h)] (now 1) l1 = Inr l2"
    "(case next_p of None \<Rightarrow> finish_run v c (now 2) l2 | Some q \<Rightarrow> advance_run v c q (now 2) l2) = Inr (r, l')"
    unfolding accept_completion_def bnd_eq_Inr by metis
  have "rail_evolves l2 l'" using 1(3) finish_evolves advance_evolves by (auto split: option.split_asm)
  with insert_completion_evolves [OF 1(1)] append_event_evolves [OF 1(2)] show ?thesis
    by (blast intro: rail_evolves_trans)
qed

lemma judge_evolves:
  assumes "judge_completion v j p c encoded h now l = Inr (r, l')"
  shows "rail_evolves l l'"
  using judge_cases [OF assms] reject_Inr append_event_evolves accept_evolves by metis

lemma bind_evolves: "rail_evolves l (snd (bind_completion v now c l))"
proof -
  have "rail_evolves l l'" if "bind_body v now c encoded h l = Inr (r, l')" for encoded h r l'
    using that
    by (auto simp: bind_body_def bnd_eq_Inr split: if_split_asm
        dest!: append_event_evolves judge_evolves intro: rail_evolves_trans)
  then show ?thesis
    by (auto simp: bind_completion_def Let_def commit_outcome_def bnd_eq_Inr split: sum.splits)
qed

lemma prepare_evolves: "rail_evolves l (snd (prepare_packet v now job snapshot session l))"
  by (auto simp: prepare_packet_def commit_rail_def start_run_def bnd_eq_Inr split: sum.splits
      dest!: insert_packet_evolves insert_job_evolves append_event_evolves intro: rail_evolves_trans)

lemma change_status_evolves: "change_status v now k st details ty l = Inr (r, l') \<Longrightarrow> rail_evolves l l'"
  by (auto simp: change_status_def bnd_eq_Inr intro: rail_evolves_trans set_status_evolves append_event_evolves)

lemma freeze_evolves: "freeze_artifact v now k b l = Inr (r, l') \<Longrightarrow> rail_evolves l l'"
  by (auto simp: freeze_artifact_def bnd_eq_Inr split: if_split_asm
      intro: rail_evolves_trans update_run_evolves append_event_evolves)

lemma serve_rail_evolves: "rail_evolves l (serve_rail v now q l)"
proof (cases q)
  case (RecordArtifact company job path h)
  then show ?thesis
    by (auto simp: record_artifact_def commit_rail_def bnd_eq_Inr split: sum.splits if_split_asm dest!: freeze_evolves)
next
  case (ResolveRecovery company job expected operator)
  then show ?thesis
    by (auto simp: resolve_recovery_def commit_rail_def bnd_eq_Inr split: sum.splits if_split_asm
        dest!: change_status_evolves replay_same)
next
  case (RequestCancel company job operator)
  then show ?thesis
    by (auto simp: request_cancel_def commit_rail_def bnd_eq_Inr split: sum.splits if_split_asm
        dest!: change_status_evolves)
next
  case (MarkRecovery company job)
  then show ?thesis
    by (auto simp: mark_operator_recovery_required_def commit_rail_def bnd_eq_Inr split: sum.splits if_split_asm
        dest!: change_status_evolves)
qed (simp_all add: bind_evolves prepare_evolves)

declare insert_statuses [simp del] insert_statuses' [simp del]

section \<open>Statuses along a history\<close>

inductive status_reaches :: "supervised_status \<Rightarrow> supervised_status \<Rightarrow> bool" where
  status_here: "status_reaches s s"
| status_move: "status_reaches s t \<Longrightarrow> (t, u) \<in> set status_edges \<Longrightarrow> status_reaches s u"

text \<open>A text that is no status cannot be opened, so it stays.\<close>

definition status_path :: "pystr \<Rightarrow> pystr \<Rightarrow> bool" where
  "status_path a b = (a = b \<or> (\<exists>s t. a = status_text s \<and> b = status_text t \<and> status_reaches s t))"

lemma status_path_step:
  assumes "status_path a b" "b = c \<or> (\<exists>s t. b = status_text s \<and> c = status_text t \<and> (s, t) \<in> set status_edges)"
  shows "status_path a c"
  using assms unfolding status_path_def by (metis status_here status_move status_text_inject)

lemma effect_row:
  assumes "status_effect l l'" "distinct (map rail_job_key (rl_jobs l))" "(k, a) \<in> set (statuses l)"
  shows "\<exists>b. (k, b) \<in> set (statuses l')
    \<and> (a = b \<or> (\<exists>s t. a = status_text s \<and> b = status_text t \<and> (s, t) \<in> set status_edges))"
  using assms(1)
proof (unfold status_effect_def, elim disjE exE conjE)
  fix k' s t
  assume 1: "run_row l k' \<noteq> None" "rj_status (the (run_row l k')) = status_text s" "(s, t) \<in> set status_edges"
    "statuses l' = with_status k' t (statuses l)"
  show ?thesis
  proof (cases "k' = k")
    case True
    obtain r where r: "r \<in> set (rl_jobs l)" "rail_job_key r = k" "rj_status r = a"
      using assms(3) by (auto simp: statuses_def)
    then have "run_row l k = Some r" using find_key [OF assms(2) r(1)] by (simp add: run_row_def)
    with 1 r True have "a = status_text s" by simp
    moreover have "(k, status_text t) \<in> set (statuses l')"
      using 1(4) assms(3) True by (force simp: with_status_def)
    ultimately show ?thesis using 1(3) by blast
  next
    case False
    with 1(4) assms(3) have "(k, a) \<in> set (statuses l')" by (force simp: with_status_def)
    then show ?thesis by blast
  qed
qed (use assms(3) in auto)

end
