(* ===== verification/RailViews.thy ===== *)
theory RailViews
  imports RailStored RailHistory
begin

text \<open>
  One run's rows and how the ledger's statements change them: every statement an operation runs touches
  the rows of its own run only, and an appended event extends the run's chain by one authentic link.
\<close>

section \<open>A run's rows\<close>

type_synonym run_rows = "rail_job option \<times> rail_packet list \<times> rail_completion list \<times> rail_event list"

definition run_view :: "rail \<Rightarrow> rail_key \<Rightarrow> run_rows" where
  "run_view l k = (run_row l k, run_packets l k, run_completions l k, run_events l k)"

definition others_same :: "rail_key \<Rightarrow> rail \<Rightarrow> rail \<Rightarrow> bool" where
  "others_same k l l' = (\<forall>k'. k' \<noteq> k \<longrightarrow> run_view l' k' = run_view l k')"

lemma others_same_refl [simp]: "others_same k l l"
  by (simp add: others_same_def)

lemma others_same_trans: "others_same k l m \<Longrightarrow> others_same k m n \<Longrightarrow> others_same k l n"
  by (simp add: others_same_def)

lemmas view_defs = run_view_def run_row_def run_packets_def run_completions_def run_events_def

lemma view_extend:
  "run_view (l\<lparr>rl_packets := rl_packets l @ [p]\<rparr>) k
     = (run_row l k, run_packets l k @ (if packet_key p = k then [p] else []), run_completions l k, run_events l k)"
  "run_view (l\<lparr>rl_completions := rl_completions l @ [c]\<rparr>) k
     = (run_row l k, run_packets l k, run_completions l k @ (if completion_key c = k then [c] else []), run_events l k)"
  "run_view (l\<lparr>rl_events := rl_events l @ [e]\<rparr>) k
     = (run_row l k, run_packets l k, run_completions l k, run_events l k @ (if event_key e = k then [e] else []))"
  by (simp_all add: view_defs)

lemma view_insert_packet:
  assumes "insert_packet p l = Inr l'" "packet_key p = k" "run_view l k = (r, ps, cs, es)"
  shows "run_view l' k = (r, ps @ [p], cs, es) \<and> others_same k l l' \<and> rp_input_hash p \<notin> set (map rp_input_hash ps)
    \<and> \<not> list_ex (\<lambda>q. rp_stage_id q = rp_stage_id p \<and> rp_sequence q = rp_sequence p) ps"
proof -
  from assms have l': "l' = l\<lparr>rl_packets := rl_packets l @ [p]\<rparr>"
    and no: "\<not> list_ex (\<lambda>q. rp_stage_id q = rp_stage_id p \<and> rp_sequence q = rp_sequence p
             \<or> rp_input_hash q = rp_input_hash p) ps"
    by (simp_all add: insert_packet_def run_view_def split: if_split_asm)
  have "rp_input_hash p \<notin> set (map rp_input_hash ps)"
    "\<not> list_ex (\<lambda>q. rp_stage_id q = rp_stage_id p \<and> rp_sequence q = rp_sequence p) ps"
    using no by (fastforce simp: list_ex_iff)+
  then show ?thesis
    using assms(2,3) unfolding l' others_same_def view_extend by (simp add: run_view_def)
qed

lemma view_insert_completion:
  assumes "insert_completion c l = Inr l'" "completion_key c = k" "run_view l k = (r, ps, cs, es)"
  shows "run_view l' k = (r, ps, cs @ [c], es) \<and> others_same k l l'"
proof -
  from assms(1) have l': "l' = l\<lparr>rl_completions := rl_completions l @ [c]\<rparr>"
    by (simp add: insert_completion_def split: if_split_asm)
  show ?thesis using assms(2,3) unfolding l' others_same_def view_extend by (simp add: run_view_def)
qed

lemma view_insert_event:
  assumes "insert_event v e l = Inr l'" "event_key e = k" "run_view l k = (r, ps, cs, es)"
  shows "run_view l' k = (r, ps, cs, es @ [e]) \<and> others_same k l l'
    \<and> is_sha256_hex (re_event_hash e) \<and> is_sha256_hex (re_event_mac e)"
proof -
  from assms(1) have l': "l' = l\<lparr>rl_events := rl_events l @ [e]\<rparr>" and "rail_event_row_ok e"
    by (simp_all add: insert_event_def split: if_split_asm)
  with assms(2,3) show ?thesis
    unfolding l' others_same_def view_extend by (simp add: run_view_def rail_event_row_ok_def)
qed

lemma view_insert_job:
  assumes "insert_rail_job j l = Inr l'" "rail_job_key j = k" "run_view l k = (None, ps, cs, es)"
  shows "run_view l' k = (Some j, ps, cs, es) \<and> others_same k l l'"
proof -
  from assms(1) have l': "l' = l\<lparr>rl_jobs := rl_jobs l @ [j]\<rparr>"
    by (simp add: insert_rail_job_def split: if_split_asm)
  have row: "run_row l' k' = (if run_row l k' = None \<and> k' = k then Some j else run_row l k')" for k'
  proof -
    have "find P (rs @ [j]) = (case find P rs of None \<Rightarrow> if P j then Some j else None | Some r \<Rightarrow> Some r)" for P rs
      by (induction rs) auto
    then show ?thesis using assms(2) by (auto simp: l' run_row_def split: option.split)
  qed
  show ?thesis
    using assms(3) row by (simp add: run_view_def others_same_def l' run_packets_def run_completions_def run_events_def)
qed

lemma view_update_run:
  assumes "update_run h P f l = Inr (l', n)" "run_view l k = (Some j, ps, cs, es)"
    "\<And>r. P r \<Longrightarrow> rail_job_key r = k" "P j" "\<And>r. rail_job_key (f r) = rail_job_key r"
  shows "run_view l' k = (Some (f j), ps, cs, es) \<and> others_same k l l'"
proof -
  let ?g = "\<lambda>r. if P r then f r else r"
  from update_run_rows [OF assms(1)] have jobs: "rl_jobs l' = map ?g (rl_jobs l)" by simp
  have rest: "rl_packets l' = rl_packets l" "rl_completions l' = rl_completions l" "rl_events l' = rl_events l"
    using assms(1) by (auto simp: update_run_def bnd_eq_Inr)
  have row: "run_row l' k' = map_option ?g (run_row l k')" for k'
  proof -
    have "find (\<lambda>r. rail_job_key r = k') (map ?g rs) = map_option ?g (find (\<lambda>r. rail_job_key r = k') rs)" for rs
      by (induction rs) (auto simp: assms(5))
    then show ?thesis by (simp add: run_row_def jobs)
  qed
  have "run_view l' k = (Some (f j), ps, cs, es)"
    using assms(2,4) row [of k]
    by (simp add: run_view_def run_packets_def run_completions_def run_events_def rest)
  moreover have "run_row l' k' = run_row l k'" if "k' \<noteq> k" for k'
    using row [of k'] run_row_key [of l k'] that assms(3) by (cases "run_row l k'") auto
  ultimately show ?thesis
    by (simp add: others_same_def run_view_def run_packets_def run_completions_def run_events_def rest)
qed

section \<open>Appending an event\<close>

text \<open>The row that \<open>append_event\<close> stores, and the head it leaves.\<close>

definition event_made ::
  "rail_env \<Rightarrow> rail_key \<Rightarrow> rail_job \<Rightarrow> pystr \<Rightarrow> instant \<Rightarrow> jdict \<Rightarrow> rail_event \<Rightarrow> bool" where
  "event_made v k j t now ds e =
     (canonical_json (JObj (event_value k (rj_event_count j) (rj_event_head_hash j) t (isoformat now) ds))
        = Inr (re_event_json e)
      \<and> re_event_hash e = rv_sha256 v (re_event_json e) \<and> re_event_mac e = rv_mac v (re_event_json e)
      \<and> re_event_sequence e = rj_event_count j \<and> re_predecessor_hash e = rj_event_head_hash j
      \<and> re_event_type e = t \<and> re_recorded_at e = isoformat now
      \<and> is_sha256_hex (re_event_hash e) \<and> is_sha256_hex (re_event_mac e))"

definition headed :: "rail_job \<Rightarrow> rail_event \<Rightarrow> rail_job" where
  "headed j e = j\<lparr>rj_event_count := rj_event_count j + 1, rj_event_head_hash := Some (re_event_hash e),
                 rj_event_head_mac := Some (re_event_mac e)\<rparr>"

lemma view_append_event:
  assumes "append_event v k t ds now l = Inr l'" "run_view l k = (Some j, ps, cs, es)"
  obtains e where "event_made v k j t now ds e" "run_view l' k = (Some (headed j e), ps, cs, es @ [e])"
    "others_same k l l'"
proof (rule append_event_Inr [OF assms(1)])
  fix j' e l1
  assume j': "run_row l k = Some j'" and
    e: "canonical_json (JObj (event_value k (rj_event_count j') (rj_event_head_hash j') t (isoformat now) ds))
       = Inr (re_event_json e)"
    "re_event_hash e = rv_sha256 v (re_event_json e)" "re_event_mac e = rv_mac v (re_event_json e)"
    "event_key e = k" "re_event_sequence e = rj_event_count j'" "re_predecessor_hash e = rj_event_head_hash j'"
    "re_event_type e = t" "re_recorded_at e = isoformat now"
    and ins: "insert_event v e l = Inr l1"
    and upd: "update_run True
        (\<lambda>r. rail_job_key r = k \<and> rj_event_count r = rj_event_count j' \<and> rj_event_head_hash r = rj_event_head_hash j')
        (\<lambda>r. r\<lparr>rj_event_count := rj_event_count j' + 1, rj_event_head_hash := Some (re_event_hash e),
               rj_event_head_mac := Some (re_event_mac e)\<rparr>) l1 = Inr (l', 1)"
  from j' assms(2) have "j' = j" by (simp add: run_view_def)
  note e = e [unfolded this] and upd = upd [unfolded this]
  have "rail_job_key j = k" using run_row_key [OF j'] \<open>j' = j\<close> by simp
  note 1 = view_insert_event [OF ins e(4) assms(2)]
  have 2: "run_view l' k = (Some (headed j e), ps, cs, es @ [e]) \<and> others_same k l1 l'"
    using view_update_run [OF upd conjunct1 [OF 1]] \<open>rail_job_key j = k\<close> by (simp add: headed_def rail_job_key_def)
  show thesis
  proof (rule that)
    show "event_made v k j t now ds e" using e 1 by (simp add: event_made_def)
    show "run_view l' k = (Some (headed j e), ps, cs, es @ [e])" using 2 ..
    show "others_same k l l'" using 1 2 others_same_trans by blast
  qed
qed

end
