(* ===== verification/RailChain.thy ===== *)
theory RailChain
  imports RailViews
begin

text \<open>
  The event chain of a run and what an appended event says when it is read back: its canonical text parses
  to the value that was written, authenticates as the next link, and materializes as it was meant.
\<close>

section \<open>Authentic chains\<close>

definition chain_ok :: "rail_env \<Rightarrow> rail_key \<Rightarrow> rail_job \<Rightarrow> rail_event list \<Rightarrow> jdict list \<Rightarrow> bool" where
  "chain_ok v k j es evs =
     (rj_event_count j = int (length es) \<and> authenticate_chain v k 0 None es = Inr evs
      \<and> rj_event_head_hash j = chain_hash None es
      \<and> rj_event_head_mac j = (if es = [] then None else Some (re_event_mac (last es))))"

text \<open>What an event's value says: its type and its details.\<close>

definition event_said :: "jdict \<Rightarrow> pystr \<Rightarrow> jdict \<Rightarrow> bool" where
  "event_said ev t ds =
     (jget ''event_type'' ev = Some (JStr t)
      \<and> (\<exists>ds'. jget ''details'' ev = Some (JObj ds') \<and> (\<forall>ks. same_keys ds' ks = same_keys ds ks)
           \<and> (\<forall>key. jget key ds' = map_option canon (jget key ds))))"

lemma event_read_back:
  assumes "event_made v k j t now ds e" "plain (JObj ds)" "rj_event_count j = int n" "rj_event_head_hash j = pred"
  obtains ev where "authenticate_event v k n pred e = Inr ev" "event_said ev t ds"
proof -
  let ?kvs = "event_value k (rj_event_count j) (rj_event_head_hash j) t (isoformat now) ds"
  have dist: "distinct (map fst ?kvs)" by (simp add: event_value_def)
  then obtain ev where ev: "canon (JObj ?kvs) = JObj ev" "\<And>ks. same_keys ev ks = same_keys ?kvs ks"
    "\<And>key. jget key ev = map_option canon (jget key ?kvs)"
    using obj_canon by metis
  from assms(2) obtain ds' where ds': "canon (JObj ds) = JObj ds'" "\<And>ks. same_keys ds' ks = same_keys ds ks"
    "\<And>key. jget key ds' = map_option canon (jget key ds)"
    using obj_canon by (metis plain.simps(3))
  have fields: "jget ''company_id'' ev = Some (JStr (fst k))" "jget ''job_id'' ev = Some (JStr (snd k))"
    "jget ''event_sequence'' ev = Some (JInt (rj_event_count j))"
    "jget ''predecessor_hash'' ev = Some (jopt (rj_event_head_hash j))"
    "jget ''event_type'' ev = Some (JStr t)" "jget ''recorded_at'' ev = Some (JStr (isoformat now))"
    "jget ''details'' ev = Some (JObj ds')"
    unfolding ev(3) by (simp_all add: event_value_def jget_def jopt_def ds'(1) split: option.split del: canon.simps(2))
  have keys: "same_keys ev event_fields"
    unfolding ev(2) by (auto simp: event_value_def event_fields_def same_keys_def)
  note e = assms(1) [unfolded event_made_def]
  have "plain (JObj ?kvs)"
    using assms(2) by (simp add: event_value_def jopt_def split: option.split)
  from parse_dumps [OF this] e have parsed: "parse_text (re_event_json e) = Some (JObj ev)"
    using canonical_json_Inr ev(1) by metis
  have enc: "canonical_json (JObj ev) = Inr (re_event_json e)"
    using e canonical_json_canon [of "JObj ?kvs"] unfolding ev(1) by simp
  have digests: "sha256_digest (JStr (rv_sha256 v (re_event_json e))) = Inr (re_event_hash e)"
    "sha256_digest (JStr (rv_mac v (re_event_json e))) = Inr (re_event_mac e)"
    using e digest_hex by metis+
  have "authenticate_event v k n pred e = Inr ev"
    using e assms(3,4)
    by (simp add: authenticate_event_def digests parsed keys enc fields field_of_def sha256_fingerprint_def
        as_integrity_error_def)
  moreover have "event_said ev t ds"
    using fields ds' by (simp add: event_said_def)
  ultimately show thesis by (rule that)
qed

lemma chain_extend:
  assumes "chain_ok v k j es evs" "event_made v k j t now ds e" "plain (JObj ds)"
  obtains ev where "chain_ok v k (headed j e) (es @ [e]) (evs @ [ev])" "event_said ev t ds"
proof -
  from assms(1) have "rj_event_count j = int (length es)" "rj_event_head_hash j = chain_hash None es"
    by (simp_all add: chain_ok_def)
  from event_read_back [OF assms(2,3) this] obtain ev where
    "authenticate_event v k (length es) (chain_hash None es) e = Inr ev" "event_said ev t ds" by metis
  with assms(1) show thesis
    by (intro that) (simp_all add: chain_ok_def headed_def authenticate_chain_append chain_hash_def)
qed

lemma chain_sequences:
  "authenticate_chain v k n pred es = Inr evs \<Longrightarrow> map re_event_sequence es = map int [n..<n + length es]"
proof (induction es arbitrary: n pred evs)
  case (Cons e es)
  then obtain ev evs' where "authenticate_event v k n pred e = Inr ev"
    "authenticate_chain v k (Suc n) (Some (re_event_hash e)) es = Inr evs'"
    by (auto simp: bnd_eq_Inr)
  with Cons.IH authenticate_event_Inr have "re_event_sequence e = int n"
    "map re_event_sequence es = map int [Suc n..<Suc n + length es]" by blast+
  then show ?case by (simp add: upt_conv_Cons del: upt_Suc)
qed simp

section \<open>Reading an event's details\<close>

lemma said_details:
  assumes "event_said ev t ds" "same_keys ds ks"
  obtains ds' where "event_details ev ks = Inr ds'" "\<And>key. jget key ds' = map_option canon (jget key ds)"
  using assms by (auto simp: event_said_def event_details_def)

lemma string_field:
  "jget key ds' = Some (JStr s) \<Longrightarrow> \<not> blank s \<Longrightarrow> event_string ds' key = Inr s"
  by (simp add: event_string_def)

lemma digest_field:
  "jget key ds' = Some (JStr s) \<Longrightarrow> is_sha256_hex s \<Longrightarrow> event_digest ds' key = Inr s"
  by (simp add: event_digest_def field_of_def digest_hex as_integrity_error_def)

lemma tidy_not_blank: "tidy s \<Longrightarrow> \<not> blank s"
  by (simp add: tidy_def)

lemma stage_not_blank: "s \<in> set STAGE_IDS \<Longrightarrow> \<not> blank s"
  by (auto simp: STAGE_IDS_def ascii_space_def wide_space_def)

section \<open>What the appended events materialize\<close>

lemmas event_kinds = completion_accepted_def completion_submitted_def completion_rejected_def

lemma said_prepared:
  assumes "event_said ev ''PACKET_PREPARED'' (packet_details p)" "packet_ok sha256 p"
    "pk_sequence p = int (length (mz_packets m))" "pk_stage_id p = STAGE_IDS ! length (mz_packets m)"
    "length (mz_packets m) < length STAGE_IDS"
  shows "materialize n ev m
     = Inr (m\<lparr>mz_packets := mz_packets m @ [(pk_stage_id p, pk_sequence p, pk_input_hash p, n)]\<rparr>)"
proof -
  have keys: "same_keys (packet_details p) [''stage_id'', ''sequence'', ''input_hash'']"
    by (simp add: packet_details_def same_keys_def)
  obtain ds where ds: "event_details ev [''stage_id'', ''sequence'', ''input_hash''] = Inr ds"
    "\<And>key. jget key ds = map_option canon (jget key (packet_details p))"
    by (rule said_details [OF assms(1) keys]) blast
  have f: "jget ''stage_id'' ds = Some (JStr (pk_stage_id p))" "jget ''sequence'' ds = Some (JInt (pk_sequence p))"
    "jget ''input_hash'' ds = Some (JStr (pk_input_hash p))"
    unfolding ds(2) by (simp_all add: packet_details_def jget_def)
  have ok: "pk_stage_id p \<in> set STAGE_IDS" "is_sha256_hex (pk_input_hash p)"
    using assms(2) by (simp_all add: packet_ok_def)
  have ty: "jget ''event_type'' ev = Some (JStr ''PACKET_PREPARED'')" using assms(1) by (simp add: event_said_def)
  show ?thesis
    using assms(3-5)
    by (simp add: materialize_def ty materialize_packet_def ds(1) f string_field [OF f(1) stage_not_blank [OF ok(1)]]
        digest_field [OF f(3) ok(2)])
qed

lemma said_accepted:
  assumes "event_said ev completion_accepted
      [(''stage_id'', JStr stage), (''input_hash'', JStr input), (''completion_hash'', JStr h)]"
    "stage \<in> set STAGE_IDS" "is_sha256_hex input" "is_sha256_hex h"
    "length (mz_accepted m) < length (mz_packets m)"
    "mz_packets m ! length (mz_accepted m) = (stage, q, input, pos)"
  shows "materialize n ev m = Inr (m\<lparr>mz_accepted := mz_accepted m @ [(stage, input, h, n)]\<rparr>)"
proof -
  let ?ds = "[(''stage_id'', JStr stage), (''input_hash'', JStr input), (''completion_hash'', JStr h)]"
  have keys: "same_keys ?ds [''stage_id'', ''input_hash'', ''completion_hash'']"
    by (simp add: same_keys_def)
  obtain ds where ds: "event_details ev [''stage_id'', ''input_hash'', ''completion_hash''] = Inr ds"
    "\<And>key. jget key ds = map_option canon (jget key ?ds)"
    by (rule said_details [OF assms(1) keys]) blast
  have f: "jget ''stage_id'' ds = Some (JStr stage)" "jget ''input_hash'' ds = Some (JStr input)"
    "jget ''completion_hash'' ds = Some (JStr h)"
    unfolding ds(2) by (simp_all add: jget_def)
  have ty: "jget ''event_type'' ev = Some (JStr completion_accepted)" using assms(1) by (simp add: event_said_def)
  show ?thesis
    using assms(5,6)
    by (simp add: materialize_def ty event_kinds materialize_accepted_def ds(1)
        string_field [OF f(1) stage_not_blank [OF assms(2)]] digest_field [OF f(2) assms(3)]
        digest_field [OF f(3) assms(4)])
qed

text \<open>The submission of a completion, accepted or not.\<close>

definition submission_ok :: "stage_packet \<Rightarrow> observed_completion \<Rightarrow> bool" where
  "submission_ok p c =
     (pk_stage_id p \<in> set STAGE_IDS \<and> is_sha256_hex (pk_input_hash p) \<and> oc_stage_id c \<in> set STAGE_IDS
      \<and> is_sha256_hex (oc_input_hash c) \<and> tidy (oa_operator_id (oc_attestation c)))"

lemma submission_fields:
  assumes "\<And>key. jget key ds = map_option canon (jget key (submission_details p c @ extra))" "submission_ok p c"
  shows "check_submission ds = Inr ()"
proof -
  have f: "jget ''stage_id'' ds = Some (JStr (pk_stage_id p))"
    "jget ''outstanding_input_hash'' ds = Some (JStr (pk_input_hash p))"
    "jget ''submitted_stage_id'' ds = Some (JStr (oc_stage_id c))"
    "jget ''submitted_input_hash'' ds = Some (JStr (oc_input_hash c))"
    "jget ''operator_id'' ds = Some (JStr (oa_operator_id (oc_attestation c)))"
    unfolding assms(1) by (simp_all add: submission_details_def jget_def)
  note ok = assms(2) [unfolded submission_ok_def]
  show ?thesis
    using ok by (simp add: check_submission_def string_field [OF f(1) stage_not_blank] digest_field [OF f(2)]
        string_field [OF f(3) stage_not_blank] digest_field [OF f(4)] string_field [OF f(5) tidy_not_blank])
qed

lemma said_submitted:
  assumes "event_said ev completion_submitted (submission_details p c)" "submission_ok p c"
  shows "materialize n ev m = Inr m"
proof -
  have keys: "same_keys (submission_details p c) submission_keys"
    by (simp add: submission_details_def submission_keys_def same_keys_def)
  obtain ds where ds: "event_details ev submission_keys = Inr ds"
    "\<And>key. jget key ds = map_option canon (jget key (submission_details p c @ []))"
    by (rule said_details [OF assms(1) keys]) simp
  have ty: "jget ''event_type'' ev = Some (JStr completion_submitted)" using assms(1) by (simp add: event_said_def)
  show ?thesis
    by (simp add: materialize_def ty event_kinds ds(1) submission_fields [OF ds(2) assms(2)])
qed

lemma said_rejected:
  assumes "event_said ev completion_rejected (submission_details p c @ [(''reason_code'', JStr reason)])"
    "submission_ok p c" "\<not> blank reason"
  shows "materialize n ev m = Inr m"
proof -
  let ?ds = "submission_details p c @ [(''reason_code'', JStr reason)]"
  have keys: "same_keys ?ds (submission_keys @ [''reason_code''])"
    by (simp add: submission_details_def submission_keys_def same_keys_def)
  obtain ds where ds: "event_details ev (submission_keys @ [''reason_code'']) = Inr ds"
    "\<And>key. jget key ds = map_option canon (jget key ?ds)"
    by (rule said_details [OF assms(1) keys]) blast
  have f: "jget ''reason_code'' ds = Some (JStr reason)"
    unfolding ds(2) by (simp add: submission_details_def jget_def)
  have ty: "jget ''event_type'' ev = Some (JStr completion_rejected)" using assms(1) by (simp add: event_said_def)
  show ?thesis
    by (simp add: materialize_def ty event_kinds ds(1) submission_fields [OF ds(2) assms(2)]
        string_field [OF f assms(3)])
qed

lemma said_recovery:
  assumes "event_said ev ''OPERATOR_RECOVERY_REQUIRED'' [(''outstanding_input_hash'', JStr input)]"
    "is_sha256_hex input"
  shows "materialize n ev m = Inr m"
proof -
  have keys: "same_keys [(''outstanding_input_hash'', JStr input)] [''outstanding_input_hash'']"
    by (simp add: same_keys_def)
  obtain ds where ds: "event_details ev [''outstanding_input_hash''] = Inr ds"
    "\<And>key. jget key ds = map_option canon (jget key [(''outstanding_input_hash'', JStr input)])"
    by (rule said_details [OF assms(1) keys]) blast
  have f: "jget ''outstanding_input_hash'' ds = Some (JStr input)" unfolding ds(2) by (simp add: jget_def)
  have ty: "jget ''event_type'' ev = Some (JStr ''OPERATOR_RECOVERY_REQUIRED'')"
    using assms(1) by (simp add: event_said_def)
  show ?thesis by (simp add: materialize_def ty event_kinds ds(1) digest_field [OF f assms(2)])
qed

lemma said_resolved:
  assumes "event_said ev ''RECOVERY_RESOLVED_FOR_EXACT_BINDING''
      [(''operator_id'', JStr operator), (''outstanding_input_hash'', JStr input),
       (''replacement_attempt'', JBool False), (''maximum_retries'', JInt 0)]"
    "is_sha256_hex input" "tidy operator"
  shows "materialize n ev m = Inr m"
proof -
  let ?ds = "[(''operator_id'', JStr operator), (''outstanding_input_hash'', JStr input),
       (''replacement_attempt'', JBool False), (''maximum_retries'', JInt 0)]"
  have keys: "same_keys ?ds [''operator_id'', ''outstanding_input_hash'', ''replacement_attempt'', ''maximum_retries'']"
    by (simp add: same_keys_def)
  obtain ds where ds: "event_details ev
      [''operator_id'', ''outstanding_input_hash'', ''replacement_attempt'', ''maximum_retries''] = Inr ds"
    "\<And>key. jget key ds = map_option canon (jget key ?ds)"
    by (rule said_details [OF assms(1) keys]) blast
  have f: "jget ''operator_id'' ds = Some (JStr operator)" "jget ''outstanding_input_hash'' ds = Some (JStr input)"
    "jget ''replacement_attempt'' ds = Some (JBool False)" "jget ''maximum_retries'' ds = Some (JInt 0)"
    unfolding ds(2) by (simp_all add: jget_def)
  have ty: "jget ''event_type'' ev = Some (JStr ''RECOVERY_RESOLVED_FOR_EXACT_BINDING'')"
    using assms(1) by (simp add: event_said_def)
  show ?thesis
    by (simp add: materialize_def ty event_kinds check_resolved_def ds(1) f require_def
        string_field [OF f(1) tidy_not_blank [OF assms(3)]] digest_field [OF f(2) assms(2)])
qed

lemma said_cancel:
  assumes "event_said ev ''CANCEL_REQUESTED''
      [(''operator_id'', JStr operator), (''prior_status'', JStr (status_text st)),
       (''outstanding_input_hash'', JStr input), (''local_request_only'', JBool True),
       (''upstream_cancellation'', JBool False)]"
    "is_sha256_hex input" "tidy operator" "st = AWAITING_OPERATOR_EXECUTION \<or> st = OPERATOR_RECOVERY_REQUIRED"
  shows "materialize n ev m = Inr m"
proof -
  let ?ds = "[(''operator_id'', JStr operator), (''prior_status'', JStr (status_text st)),
       (''outstanding_input_hash'', JStr input), (''local_request_only'', JBool True),
       (''upstream_cancellation'', JBool False)]"
  have keys: "same_keys ?ds [''operator_id'', ''prior_status'', ''outstanding_input_hash'',
            ''local_request_only'', ''upstream_cancellation'']"
    by (simp add: same_keys_def)
  obtain ds where ds: "event_details ev [''operator_id'', ''prior_status'', ''outstanding_input_hash'',
            ''local_request_only'', ''upstream_cancellation''] = Inr ds"
    "\<And>key. jget key ds = map_option canon (jget key ?ds)"
    by (rule said_details [OF assms(1) keys]) blast
  have f: "jget ''operator_id'' ds = Some (JStr operator)" "jget ''prior_status'' ds = Some (JStr (status_text st))"
    "jget ''outstanding_input_hash'' ds = Some (JStr input)" "jget ''local_request_only'' ds = Some (JBool True)"
    "jget ''upstream_cancellation'' ds = Some (JBool False)"
    unfolding ds(2) by (simp_all add: jget_def)
  have prior: "status_text st \<in> {''AWAITING_OPERATOR_EXECUTION'', ''OPERATOR_RECOVERY_REQUIRED''}"
    "\<not> blank (status_text st)"
    using assms(4) by (auto simp: status_text.simps ascii_space_def wide_space_def)
  have ty: "jget ''event_type'' ev = Some (JStr ''CANCEL_REQUESTED'')"
    using assms(1) by (simp add: event_said_def)
  show ?thesis
    using prior(1)
    by (simp add: materialize_def ty event_kinds check_cancel_def ds(1) f require_def
        string_field [OF f(1) tidy_not_blank [OF assms(3)]] string_field [OF f(2) prior(2)]
        digest_field [OF f(3) assms(2)])
qed

lemma said_final:
  assumes "event_said ev ''FINAL_QA_READY'' [(''final_input_hash'', JStr input)]" "is_sha256_hex input"
    "mz_final m = None"
  shows "materialize n ev m = Inr (m\<lparr>mz_final := Some (input, n)\<rparr>)"
proof -
  have keys: "same_keys [(''final_input_hash'', JStr input)] [''final_input_hash'']" by (simp add: same_keys_def)
  obtain ds where ds: "event_details ev [''final_input_hash''] = Inr ds"
    "\<And>key. jget key ds = map_option canon (jget key [(''final_input_hash'', JStr input)])"
    by (rule said_details [OF assms(1) keys]) blast
  have f: "jget ''final_input_hash'' ds = Some (JStr input)" unfolding ds(2) by (simp add: jget_def)
  have ty: "jget ''event_type'' ev = Some (JStr ''FINAL_QA_READY'')" using assms(1) by (simp add: event_said_def)
  show ?thesis
    using assms(3) by (simp add: materialize_def ty event_kinds materialize_final_def ds(1) digest_field [OF f assms(2)])
qed

lemma said_artifact:
  assumes "event_said ev ''ARTIFACT_FROZEN'' [(''manifest_path'', JStr path), (''manifest_hash'', JStr h)]"
    "is_sha256_hex h" "tidy path" "mz_artifact m = None"
  shows "materialize n ev m = Inr (m\<lparr>mz_artifact := Some (path, h, n)\<rparr>)"
proof -
  let ?ds = "[(''manifest_path'', JStr path), (''manifest_hash'', JStr h)]"
  have keys: "same_keys ?ds [''manifest_path'', ''manifest_hash'']" by (simp add: same_keys_def)
  obtain ds where ds: "event_details ev [''manifest_path'', ''manifest_hash''] = Inr ds"
    "\<And>key. jget key ds = map_option canon (jget key ?ds)"
    by (rule said_details [OF assms(1) keys]) blast
  have f: "jget ''manifest_path'' ds = Some (JStr path)" "jget ''manifest_hash'' ds = Some (JStr h)"
    unfolding ds(2) by (simp_all add: jget_def)
  have ty: "jget ''event_type'' ev = Some (JStr ''ARTIFACT_FROZEN'')" using assms(1) by (simp add: event_said_def)
  show ?thesis
    using assms(4)
    by (simp add: materialize_def ty event_kinds materialize_artifact_def ds(1)
        string_field [OF f(1) tidy_not_blank [OF assms(3)]] digest_field [OF f(2) assms(2)])
qed

section \<open>Order\<close>

text \<open>The order checks, with every recorded position before the next event's.\<close>

definition mat_ok :: "materialized \<Rightarrow> nat \<Rightarrow> bool" where
  "mat_ok m n =
     ((\<forall>(_, _, _, pos) \<in> set (mz_packets m). pos < n) \<and> (\<forall>(_, _, _, pos) \<in> set (mz_accepted m). pos < n)
      \<and> (\<forall>(_, pos) \<in> set_option (mz_final m). pos < n)
      \<and> length (mz_accepted m) \<le> length (mz_packets m)
      \<and> list_all (acceptance_in_order m) [0..<length (mz_accepted m)]
      \<and> final_in_order m \<and> artifact_in_order m)"

lemma mat_ok_later: "mat_ok m n \<Longrightarrow> mat_ok m (Suc n)"
  by (auto simp: mat_ok_def less_Suc_eq)

lemma nth_fst4: "i < length xs \<Longrightarrow> \<forall>(_, _, _, pos) \<in> set xs. pos < n \<Longrightarrow> (case xs ! i of (_, _, _, pos) \<Rightarrow> pos < n)"
  using nth_mem by fastforce

lemma mat_ok_packet:
  assumes "mat_ok m n" "length (mz_accepted m) = length (mz_packets m)" "mz_final m = None" "mz_artifact m = None"
  shows "mat_ok (m\<lparr>mz_packets := mz_packets m @ [(s, q, input, n)]\<rparr>) (Suc n)"
proof -
  let ?m = "m\<lparr>mz_packets := mz_packets m @ [(s, q, input, n)]\<rparr>"
  have "acceptance_in_order ?m i" if i: "i < length (mz_accepted m)" for i
  proof -
    have "acceptance_in_order m i" using assms(1) i by (simp add: mat_ok_def list_all_iff)
    moreover have "case mz_accepted m ! i of (_, _, _, pos) \<Rightarrow> pos < n"
      using i assms(1) by (intro nth_fst4) (simp_all add: mat_ok_def)
    ultimately show ?thesis
      using i assms(2) by (auto simp: acceptance_in_order_def nth_append less_Suc_eq split: prod.splits)
  qed
  then show ?thesis
    using assms by (auto simp: mat_ok_def list_all_iff final_in_order_def artifact_in_order_def less_Suc_eq)
qed

lemma mat_ok_accepted:
  assumes "mat_ok m n" "Suc (length (mz_accepted m)) = length (mz_packets m)" "mz_final m = None" "mz_artifact m = None"
  shows "mat_ok (m\<lparr>mz_accepted := mz_accepted m @ [(s, input, h, n)]\<rparr>) (Suc n)"
proof -
  let ?m = "m\<lparr>mz_accepted := mz_accepted m @ [(s, input, h, n)]\<rparr>"
  have old: "acceptance_in_order ?m i" if i: "i < length (mz_accepted m)" for i
    using assms(1) i by (simp add: mat_ok_def list_all_iff acceptance_in_order_def nth_append)
  have "case mz_packets m ! length (mz_accepted m) of (_, _, _, pos) \<Rightarrow> pos < n"
    using assms by (intro nth_fst4) (simp_all add: mat_ok_def)
  then have "acceptance_in_order ?m (length (mz_accepted m))"
    using assms(2) by (auto simp: acceptance_in_order_def split: prod.splits)
  with old have "list_all (acceptance_in_order ?m) [0..<length (mz_accepted ?m)]"
    by (auto simp: list_all_iff less_Suc_eq)
  then show ?thesis
    using assms by (auto simp: mat_ok_def final_in_order_def artifact_in_order_def less_Suc_eq)
qed

lemma acceptance_final [simp]:
  "acceptance_in_order (m\<lparr>mz_final := f\<rparr>) = acceptance_in_order m"
  "acceptance_in_order (m\<lparr>mz_artifact := a\<rparr>) = acceptance_in_order m"
  by (auto simp: acceptance_in_order_def fun_eq_iff)

lemma mat_ok_final:
  assumes "mat_ok m n" "length (mz_accepted m) = length STAGE_IDS" "mz_artifact m = None"
    "last (mz_accepted m) = (s, input, h, pos)" "pos < n"
  shows "mat_ok (m\<lparr>mz_final := Some (input, n)\<rparr>) (Suc n)"
  using assms by (auto simp: mat_ok_def final_in_order_def artifact_in_order_def less_Suc_eq)

lemma mat_ok_artifact:
  assumes "mat_ok m n" "mz_final m \<noteq> None"
  shows "mat_ok (m\<lparr>mz_artifact := Some (path, h, n)\<rparr>) (Suc n)"
  using assms by (auto simp: mat_ok_def final_in_order_def artifact_in_order_def less_Suc_eq split: option.splits)

end
