(* ===== verification/RailHonest.thy ===== *)
theory RailHonest
  imports RailChain
begin

text \<open>
  A run that the operations themselves wrote: its rows in order, as the validation will read them.  The
  lemmas extend such a run by one event, one accepted completion, the next packet, the final event or the
  artifact, and derive that its status validates.
\<close>

section \<open>A well-kept run\<close>

definition lines_of :: "rail_completion list \<Rightarrow> rail_packet list \<Rightarrow> completion_line list" where
  "lines_of cs ps =
     map (\<lambda>(c, p). (rp_stage_id p, rp_sequence p, rc_input_hash c, rc_completion_hash c, rc_completion_json c)) (zip cs ps)"

definition answered :: "rail_completion list \<Rightarrow> rail_packet list \<Rightarrow> bool" where
  "answered cs ps =
     (length cs \<le> length ps \<and> map rc_input_hash cs = take (length cs) (map rp_input_hash ps)
      \<and> distinct (map rp_input_hash ps))"

definition kept ::
  "rail_env \<Rightarrow> rail_key \<Rightarrow> rail_job \<Rightarrow> rail_packet list \<Rightarrow> rail_completion list \<Rightarrow> rail_event list \<Rightarrow> run_reading \<Rightarrow> bool" where
  "kept v k j ps cs es x =
     (rail_job_key j = k \<and> chain_ok v k j es (rr_events x) \<and> check_context v j = Inr (rr_context x)
      \<and> materialize_all 0 (rr_events x) nothing_materialized = Inr (rr_materialized x)
      \<and> mat_ok (rr_materialized x) (length es)
      \<and> check_packets v j (mz_packets (rr_materialized x)) ps = Inr (rr_packets x)
      \<and> ps \<noteq> [] \<and> rj_packet_json j = rp_packet_json (last ps) \<and> answered cs ps
      \<and> check_completions v k (rr_context x) (rr_packets x) (mz_accepted (rr_materialized x)) (lines_of cs ps)
          = Inr (rr_hashes x)
      \<and> list_all (packet_chained (rr_packets x) (rr_hashes x)) (rr_packets x)
      \<and> artifact_matches j (rr_materialized x))"

text \<open>What a status says about the progress of the run.\<close>

definition status_fits :: "supervised_status \<Rightarrow> materialized \<Rightarrow> bool" where
  "status_fits st m =
     (if st = FINAL_QA_READY then length (mz_accepted m) = length STAGE_IDS \<and> mz_final m \<noteq> None \<and> mz_artifact m = None
      else if st = ARTIFACT_FROZEN then True
      else Suc (length (mz_accepted m)) = length (mz_packets m) \<and> mz_final m = None \<and> mz_artifact m = None)"

definition honest_run ::
  "rail_env \<Rightarrow> rail_key \<Rightarrow> rail_job \<Rightarrow> rail_packet list \<Rightarrow> rail_completion list \<Rightarrow> rail_event list \<Rightarrow> bool" where
  "honest_run v k j ps cs es =
     (\<exists>x st. kept v k j ps cs es x \<and> es \<noteq> [] \<and> status_fits st (rr_materialized x)
        \<and> rj_status j = status_text st \<and> expected_by_event (re_event_type (last es)) = Some st)"

section \<open>What the checks depend on\<close>

lemma binding_fields:
  assumes "binding_no_update j j'"
  shows "rj_context_json j' = rj_context_json j" "rj_snapshot_hash j' = rj_snapshot_hash j" "rail_job_key j' = rail_job_key j"
    "rj_approval_record_id j' = rj_approval_record_id j" "rj_evidence_hash j' = rj_evidence_hash j"
    "rj_approved_plan_fingerprint j' = rj_approved_plan_fingerprint j"
  using assms by (simp_all add: binding_no_update_def rail_job_key_def)

lemma check_context_binding: "binding_no_update j j' \<Longrightarrow> check_context v j' = check_context v j"
  unfolding check_context_def by (simp only: binding_fields)

lemma check_packets_binding:
  assumes "binding_no_update j j'"
  shows "check_packets v j' es rs = check_packets v j es rs"
proof -
  have one: "check_packet v j' e r = check_packet v j e r" for e r
    unfolding check_packet_def by (simp only: binding_fields [OF assms])
  show ?thesis
  proof (induction es arbitrary: rs)
    case Nil
    then show ?case by (cases rs) simp_all
  next
    case (Cons e es)
    then show ?case by (cases rs) (simp_all add: one)
  qed
qed

lemma kept_status [simp]: "kept v k (j\<lparr>rj_status := s\<rparr>) ps cs es x = kept v k j ps cs es x"
proof -
  have "binding_no_update j (j\<lparr>rj_status := s\<rparr>)" by (simp add: binding_no_update_def)
  from check_context_binding [OF this] check_packets_binding [OF this] show ?thesis
    by (simp add: kept_def chain_ok_def artifact_matches_def rail_job_key_def)
qed

lemma headed_binding: "binding_no_update j (headed j e)"
  by (simp add: binding_no_update_def headed_def)

lemma headed_fields [simp]:
  "rj_packet_json (headed j e) = rj_packet_json j" "rj_status (headed j e) = rj_status j"
  "rj_artifact_manifest_path (headed j e) = rj_artifact_manifest_path j"
  "rj_artifact_manifest_hash (headed j e) = rj_artifact_manifest_hash j"
  by (simp_all add: headed_def)

section \<open>What a kept run holds\<close>

lemma kept_well: "kept v k j ps cs es x \<Longrightarrow> well_materialized (rr_materialized x)"
  unfolding kept_def using well_all [OF _ well_nothing] by blast

lemma kept_lengths:
  assumes "kept v k j ps cs es x"
  shows "length (mz_packets (rr_materialized x)) = length ps" "length (rr_packets x) = length ps"
    "length (mz_accepted (rr_materialized x)) = length cs" "length (rr_hashes x) = length cs" "length cs \<le> length ps"
  using assms by (simp_all add: kept_def check_packets_Inr check_completions_Inr lines_of_def answered_def)

lemma kept_packet:
  assumes "kept v k j ps cs es x" "i < length ps"
  shows "i < length STAGE_IDS \<and> packet_ok (rv_sha256 v) (rr_packets x ! i) \<and> packet_run (rr_packets x ! i) = k
    \<and> pk_stage_id (rr_packets x ! i) = STAGE_IDS ! i \<and> pk_sequence (rr_packets x ! i) = int i
    \<and> pk_input_hash (rr_packets x ! i) = rp_input_hash (ps ! i) \<and> rp_sequence (ps ! i) = int i
    \<and> rp_stage_id (ps ! i) = STAGE_IDS ! i
    \<and> (\<exists>pos. mz_packets (rr_materialized x) ! i = (STAGE_IDS ! i, int i, rp_input_hash (ps ! i), pos))
    \<and> load_packet v (rp_packet_json (ps ! i)) = Inr (rr_packets x ! i)
    \<and> pk_approval_record_id (rr_packets x ! i) = rj_approval_record_id j
    \<and> pk_approved_plan_fingerprint (rr_packets x ! i) = rj_approved_plan_fingerprint j
    \<and> pk_snapshot_hash (rr_packets x ! i) = rj_snapshot_hash j \<and> pk_evidence_hash (rr_packets x ! i) = rj_evidence_hash j"
proof -
  have i: "i < length (mz_packets (rr_materialized x))" using kept_lengths [OF assms(1)] assms(2) by simp
  with kept_well [OF assms(1)] obtain h pos where m: "mz_packets (rr_materialized x) ! i = (STAGE_IDS ! i, int i, h, pos)"
    and "i < length STAGE_IDS"
    unfolding well_materialized_def by fastforce
  from assms have c: "check_packet v j (mz_packets (rr_materialized x) ! i) (ps ! i) = Inr (rr_packets x ! i)"
    unfolding kept_def check_packets_Inr by blast
  have "rail_job_key j = k" using assms(1) by (simp add: kept_def)
  with check_packet_Inr [OF c [unfolded m]] m \<open>i < length STAGE_IDS\<close> show ?thesis by simp
qed

lemma kept_last:
  assumes "kept v k j ps cs es x"
  shows "load_packet v (rj_packet_json j) = Inr (last (rr_packets x))" "last (rr_packets x) = rr_packets x ! (length ps - 1)"
proof -
  have n: "length ps - 1 < length ps" and json: "rj_packet_json j = rp_packet_json (ps ! (length ps - 1))"
    using assms by (auto simp: kept_def last_conv_nth)
  show l: "last (rr_packets x) = rr_packets x ! (length ps - 1)"
    using kept_lengths [OF assms] n by (metis last_conv_nth length_0_conv less_nat_zero_code)
  show "load_packet v (rj_packet_json j) = Inr (last (rr_packets x))"
    using kept_packet [OF assms n] json l by simp
qed

lemma kept_positions:
  assumes "kept v k j ps cs es x" "i < length cs"
  shows "\<exists>h pos. mz_accepted (rr_materialized x) ! i = (STAGE_IDS ! i, rp_input_hash (ps ! i), h, pos) \<and> pos < length es"
proof -
  have i: "i < length (mz_accepted (rr_materialized x))" "i < length ps" using kept_lengths [OF assms(1)] assms(2) by simp_all
  from kept_well [OF assms(1)] i(1) obtain h ch pos ppos where
    m: "mz_accepted (rr_materialized x) ! i = (STAGE_IDS ! i, h, ch, pos)"
    "mz_packets (rr_materialized x) ! i = (STAGE_IDS ! i, int i, h, ppos)"
    unfolding well_materialized_def by blast
  with kept_packet [OF assms(1) i(2)] have "h = rp_input_hash (ps ! i)" by auto
  moreover have "pos < length es"
    using assms(1) m(1) i(1) nth_mem unfolding kept_def mat_ok_def by fastforce
  ultimately show ?thesis using m(1) by blast
qed

section \<open>A kept run validates\<close>

lemma zip_join:
  assumes "map f cs = take (length cs) (map g ps)" "distinct (map g ps)" "length cs \<le> length ps"
  shows "concat (map (\<lambda>c. map (h c) (filter (\<lambda>p. g p = f c) ps)) cs) = map (\<lambda>(c, p). h c p) (zip cs ps)"
proof -
  have "map (\<lambda>c. map (h c) (filter (\<lambda>p. g p = f c) ps)) cs = map (\<lambda>cp. [h (fst cp) (snd cp)]) (zip cs ps)"
  proof (rule nth_equalityI)
    fix i assume "i < length (map (\<lambda>c. map (h c) (filter (\<lambda>p. g p = f c) ps)) cs)"
    then have i: "i < length cs" "i < length ps" using assms(3) by simp_all
    have "f (cs ! i) = g (ps ! i)"
      using arg_cong [OF assms(1), of "\<lambda>xs. xs ! i"] i by simp
    then show "map (\<lambda>c. map (h c) (filter (\<lambda>p. g p = f c) ps)) cs ! i = map (\<lambda>cp. [h (fst cp) (snd cp)]) (zip cs ps) ! i"
      using i filter_unique [OF assms(2), of "ps ! i"] by simp
  qed (use assms(3) in simp)
  then show ?thesis by (simp add: concat_map_singleton case_prod_unfold)
qed

lemma kept_rows:
  assumes "kept v k j ps cs es x" "run_view l k = (Some j, ps, cs, es)"
  shows "event_rows l k = es" "packet_rows l k = ps" "completion_lines l k = lines_of cs ps"
proof -
  have l: "run_events l k = es" "run_packets l k = ps" "run_completions l k = cs"
    using assms(2) by (simp_all add: run_view_def)
  have "authenticate_chain v k 0 None es = Inr (rr_events x)" using assms(1) by (simp add: kept_def chain_ok_def)
  from chain_sequences [OF this] have "map re_event_sequence es = map int [0..<length es]" by simp
  moreover have sorted: "sorted (map int [0..<n])" for n by (simp add: sorted_iff_nth_mono)
  ultimately show "event_rows l k = es"
    unfolding event_rows_def l by (simp add: sort_key_id_if_sorted)
  have seq: "map rp_sequence ps = map int [0..<length ps]"
    by (rule nth_equalityI) (use kept_packet [OF assms(1)] in simp_all)
  with sorted show "packet_rows l k = ps"
    unfolding packet_rows_def l by (simp add: sort_key_id_if_sorted)
  have ans: "map rc_input_hash cs = take (length cs) (map rp_input_hash ps)" "distinct (map rp_input_hash ps)"
    "length cs \<le> length ps"
    using assms(1) by (simp_all add: kept_def answered_def)
  have joined: "concat (map (\<lambda>c. map (\<lambda>p. (rp_stage_id p, rp_sequence p, rc_input_hash c, rc_completion_hash c,
        rc_completion_json c)) (filter (\<lambda>p. rp_input_hash p = rc_input_hash c) ps)) cs) = lines_of cs ps"
    unfolding lines_of_def by (rule zip_join [OF ans])
  have "map (\<lambda>(_, sequence, _). sequence) (lines_of cs ps) = map int [0..<length cs]"
  proof (rule nth_equalityI)
    fix i assume "i < length (map (\<lambda>(_, sequence, _). sequence) (lines_of cs ps))"
    with ans(3) have "i < length cs" "i < length ps" by (simp_all add: lines_of_def)
    with kept_packet [OF assms(1)] show "map (\<lambda>(_, sequence, _). sequence) (lines_of cs ps) ! i = map int [0..<length cs] ! i"
      by (simp add: lines_of_def)
  qed (use ans(3) in \<open>simp add: lines_of_def\<close>)
  with sorted show "completion_lines l k = lines_of cs ps"
    unfolding completion_lines_def l joined by (simp add: sort_key_id_if_sorted)
qed

lemma kept_valid:
  assumes "kept v k j ps cs es x" "es \<noteq> []" "run_view l k = (Some j, ps, cs, es)"
  shows "run_valid v l k j x"
proof -
  note r = kept_rows [OF assms(1,3)] and len = kept_lengths [OF assms(1)]
  have l: "run_row l k = Some j" "run_completions l k = cs" using assms(3) by (simp_all add: run_view_def)
  have lines: "length (lines_of cs ps) = length cs" using len by (simp add: lines_of_def)
  note kept = assms(1) [unfolded kept_def mat_ok_def]
  have chain: "chain_ok v k j es (rr_events x)" using kept by blast
  have "chain_valid v l k j (rr_events x)"
    using chain assms(2) by (simp add: chain_valid_def r chain_ok_def chain_hash_def)
  moreover have "packets_valid v l k j x" using kept len by (simp add: packets_valid_def r)
  moreover have "completions_valid v l k x" using kept len lines by (simp add: completions_valid_def r l)
  moreover have "events_in_order (rr_materialized x)" using kept len by (auto simp: events_in_order_def)
  ultimately show ?thesis using kept l unfolding run_valid_def by blast
qed

lemma honest_opens:
  assumes "honest_run v k j ps cs es" "run_view l k = (Some j, ps, cs, es)"
  obtains st x where "open_run v l k = Inr (j, st)" "rj_status j = status_text st" "kept v k j ps cs es x"
    "status_fits st (rr_materialized x)"
proof -
  from assms(1) obtain x st where x: "kept v k j ps cs es x" "es \<noteq> []" "status_fits st (rr_materialized x)"
    "rj_status j = status_text st" "expected_by_event (re_event_type (last es)) = Some st"
    unfolding honest_run_def by blast
  have "open_run v l k = Inr (j, st)"
    unfolding open_run_Inr kept_rows(1) [OF x(1) assms(2)] using kept_valid [OF x(1,2) assms(2)] x by blast
  with x that show thesis by blast
qed

lemma honest_reading:
  assumes "honest_run v k j ps cs es" "run_view l k = (Some j, ps, cs, es)" "open_run v l k = Inr (j', st)"
  obtains x where "j' = j" "rj_status j = status_text st" "kept v k j ps cs es x" "status_fits st (rr_materialized x)"
proof -
  obtain st' x where "open_run v l k = Inr (j, st')" "rj_status j = status_text st'" "kept v k j ps cs es x"
    "status_fits st' (rr_materialized x)"
    by (rule honest_opens [OF assms(1,2)])
  with assms(3) that show thesis by simp
qed

section \<open>One more event\<close>

lemma event_made_status [simp]: "event_made v k (j\<lparr>rj_status := s\<rparr>) t now ds e = event_made v k j t now ds e"
  by (simp add: event_made_def)

text \<open>What every extension by an event keeps: the chain, the context, and the packets' checks.\<close>

definition with_events :: "run_reading \<Rightarrow> jdict \<Rightarrow> materialized \<Rightarrow> run_reading" where
  "with_events x ev m = x\<lparr>rr_events := rr_events x @ [ev], rr_materialized := m\<rparr>"

lemma kept_extends:
  assumes "kept v k j ps cs es x" "event_made v k j t now ds e" "plain (JObj ds)"
  obtains ev where "event_said ev t ds" "chain_ok v k (headed j e) (es @ [e]) (rr_events x @ [ev])"
    "check_context v (headed j e) = Inr (rr_context x)" "rail_job_key (headed j e) = k"
    "\<And>m. materialize (length es) ev (rr_materialized x) = Inr m
       \<Longrightarrow> materialize_all 0 (rr_events x @ [ev]) nothing_materialized = Inr m"
proof -
  from assms(1) have chain: "chain_ok v k j es (rr_events x)" by (simp add: kept_def)
  obtain ev where ev: "chain_ok v k (headed j e) (es @ [e]) (rr_events x @ [ev])" "event_said ev t ds"
    by (rule chain_extend [OF chain assms(2,3)])
  have "length (rr_events x) = length es"
    using chain authenticate_chain_length unfolding chain_ok_def by blast
  then have "materialize_all 0 (rr_events x @ [ev]) nothing_materialized = Inr m"
    if "materialize (length es) ev (rr_materialized x) = Inr m" for m
    using assms(1) that by (simp add: materialize_all_append kept_def)
  with that [OF ev(2,1)] show thesis
    using check_context_binding [OF headed_binding] assms(1) binding_fields(3) [OF headed_binding]
    by (simp add: kept_def)
qed

lemma kept_event:
  assumes "kept v k j ps cs es x" "event_made v k j t now ds e" "plain (JObj ds)"
    "\<And>ev. event_said ev t ds \<Longrightarrow> materialize (length es) ev (rr_materialized x) = Inr (rr_materialized x)"
  obtains x' where "kept v k (headed j e) ps cs (es @ [e]) x'" "rr_materialized x' = rr_materialized x"
    "rr_packets x' = rr_packets x" "rr_context x' = rr_context x"
proof -
  obtain ev where ev: "event_said ev t ds" "chain_ok v k (headed j e) (es @ [e]) (rr_events x @ [ev])"
    "check_context v (headed j e) = Inr (rr_context x)" "rail_job_key (headed j e) = k"
    "\<And>m. materialize (length es) ev (rr_materialized x) = Inr m
       \<Longrightarrow> materialize_all 0 (rr_events x @ [ev]) nothing_materialized = Inr m"
    by (rule kept_extends [OF assms(1-3)]) blast
  let ?x = "with_events x ev (rr_materialized x)"
  have m: "materialize_all 0 (rr_events x @ [ev]) nothing_materialized = Inr (rr_materialized x)"
    using ev(5) assms(4) [OF ev(1)] by blast
  have "kept v k (headed j e) ps cs (es @ [e]) ?x"
    using assms(1) ev m mat_ok_later
    by (simp add: kept_def with_events_def check_packets_binding [OF headed_binding] artifact_matches_def)
  then show thesis by (rule that) (simp_all add: with_events_def)
qed

section \<open>An accepted completion\<close>

lemma completion_checks:
  assumes c: "completion_ok c" "canonical_json (JObj (completion_value c)) = Inr json"
    and p: "completion_answers v context p c" "packet_run p = k" "ps ! stage_index (pk_stage_id p) = p"
      "stage_index (pk_stage_id p) < length ps"
  shows "check_completion v k context ps (pk_stage_id p, pk_input_hash p, rv_sha256 v json, pos)
      (pk_stage_id p, q, pk_input_hash p, rv_sha256 v json, json) = Inr (pk_input_hash p, rv_sha256 v json)"
proof -
  let ?val = "canon (JObj (completion_value c))"
  have plain: "plain (oc_payload c)" using c(1) by (simp add: completion_ok_def)
  then have "plain (JObj (completion_value c))" by (simp only: completion_value_facts(2))
  from parse_dumps [OF this] c(2) have parsed: "parse_text json = Some ?val"
    using canonical_json_Inr by metis
  have bytes: "canonical_json ?val = Inr json" using c(2) by (simp only: canonical_json_canon)
  note reads = completion_reads_back [OF c(1)]
  note answers = answers_canon [OF p(1) plain, unfolded completion_answers_def]
  have stage: "pk_stage_id p \<in> set STAGE_IDS"
    using c(1) p(1) by (simp add: completion_ok_def completion_answers_def)
  have "as_integrity_error (
          (case parse_text json of
             None \<Rightarrow> Inl ValueError
           | Some value \<Rightarrow>
               bnd (canonical_json value) (\<lambda>b.
               if b \<noteq> json then Inl DataIntegrityError else
               bnd (sha256_fingerprint (rv_sha256 v) value) (\<lambda>h.
               if h \<noteq> rv_sha256 v json then Inl DataIntegrityError else
               bnd (completion_from_value value) (\<lambda>completion.
               if pk_stage_id p \<notin> set STAGE_IDS then Inl ValueError else
               if length ps \<le> stage_index (pk_stage_id p) then Inl LookupError else
               let packet = ps ! stage_index (pk_stage_id p) in
               bnd (validate_stage_payload (rv_screens v) (pk_stage_id packet) (oc_payload completion)) (\<lambda>_.
               bnd (if pk_stage_id packet = ''revision''
                    then validate_revision_sources (rv_screens v) (oc_payload completion) context
                    else Inr ()) (\<lambda>_. Inr (completion, packet)))))))) = Inr (canon_completion c, p)"
    using answers stage p(3,4)
    by (simp add: parsed bytes sha256_fingerprint_def reads as_integrity_error_def del: canon.simps(2))
  then show ?thesis
    using answers p(2)
    by (simp add: check_completion_def completion_run_def packet_run_def as_integrity_error_def [of "Inr _"])
qed

lemma check_completion_more:
  assumes "check_completion v k context ps e r = Inr h"
  shows "check_completion v k context (ps @ qs) e r = Inr h"
proof -
  obtain stage input ch pos where e: "e = (stage, input, ch, pos)" by (cases e)
  obtain rs q ri rh json where r: "r = (rs, q, ri, rh, json)" by (cases r)
  from check_completion_Inr [OF assms [unfolded e r]] have "rs = stage" "stage_index stage < length ps" by simp_all
  then show ?thesis using assms unfolding e r check_completion_def
    by (simp add: nth_append cong: if_cong option.case_cong)
qed

lemma check_completions_more:
  "check_completions v k context ps es rs = Inr hs \<Longrightarrow> check_completions v k context (ps @ qs) es rs = Inr hs"
  unfolding check_completions_Inr using check_completion_more by blast

lemma check_completions_snoc:
  assumes "check_completions v k context ps es rs = Inr hs" "check_completion v k context ps e r = Inr h"
  shows "check_completions v k context ps (es @ [e]) (rs @ [r]) = Inr (hs @ [h])"
  using assms unfolding check_completions_Inr by (auto simp: nth_append less_Suc_eq)

lemma check_packets_snoc:
  assumes "check_packets v j es rs = Inr ps" "check_packet v j e r = Inr p"
  shows "check_packets v j (es @ [e]) (rs @ [r]) = Inr (ps @ [p])"
  using assms unfolding check_packets_Inr by (auto simp: nth_append less_Suc_eq)

text \<open>The hashes a kept run read: input hash and completion hash of each accepted stage.\<close>

lemma kept_hash:
  assumes "kept v k j ps cs es x" "i < length cs"
  shows "rr_hashes x ! i = (rp_input_hash (ps ! i), rc_completion_hash (cs ! i))"
proof -
  note len = kept_lengths [OF assms(1)]
  have i: "i < length ps" "i < length (lines_of cs ps)" using assms(2) len by (simp_all add: lines_of_def)
  obtain h pos where acc: "mz_accepted (rr_materialized x) ! i = (STAGE_IDS ! i, rp_input_hash (ps ! i), h, pos)"
    using kept_positions [OF assms] by blast
  have line: "lines_of cs ps ! i = (rp_stage_id (ps ! i), rp_sequence (ps ! i), rc_input_hash (cs ! i),
      rc_completion_hash (cs ! i), rc_completion_json (cs ! i))"
    using assms(2) i by (simp add: lines_of_def)
  from assms(1) i(2) have "check_completion v k (rr_context x) (rr_packets x) (mz_accepted (rr_materialized x) ! i)
      (lines_of cs ps ! i) = Inr (rr_hashes x ! i)"
    unfolding kept_def check_completions_Inr by blast
  from check_completion_Inr [OF this [unfolded acc line]]
  have "rc_completion_hash (cs ! i) = h"
    "rr_hashes x ! i = (pk_input_hash (rr_packets x ! stage_index (STAGE_IDS ! i)), h)" by auto
  with kept_packet [OF assms(1) i(1)] stage_index_nth show ?thesis by simp
qed

text \<open>A packet stays chained when the hash of a later packet's completion is added.\<close>

lemma chained_more:
  assumes "packet_chained packets hashes p"
    "pk_sequence p = 0 \<or> h \<noteq> pk_input_hash (packets ! nat (pk_sequence p - 1))"
  shows "packet_chained packets (hashes @ [(h, ch)]) p"
  using assms by (auto simp: packet_chained_def)

lemma chained_append:
  assumes "packet_chained packets hashes p" "nat (pk_sequence p - 1) < length packets"
  shows "packet_chained (packets @ qs) hashes p"
  using assms by (simp add: packet_chained_def nth_append)

lemma kept_distinct:
  assumes "kept v k j ps cs es x" "i < length ps" "i' < length ps" "i \<noteq> i'"
  shows "pk_input_hash (rr_packets x ! i) \<noteq> pk_input_hash (rr_packets x ! i')"
proof -
  have "distinct (map rp_input_hash ps)" using assms(1) by (simp add: kept_def answered_def)
  with assms(2-4) have "map rp_input_hash ps ! i \<noteq> map rp_input_hash ps ! i'"
    by (simp add: distinct_conv_nth)
  with assms(2,3) kept_packet [OF assms(1)] show ?thesis by simp
qed

end
