(* ===== verification/RailSteps.thy ===== *)
theory RailSteps
  imports RailHonest
begin

text \<open>
  The steps that change what a run holds: an accepted completion, the next packet, the final event, the
  artifact, and the first packet of a new run.
\<close>

section \<open>Accepting a completion\<close>

definition completion_row :: "observed_completion \<Rightarrow> pystr \<Rightarrow> pystr \<Rightarrow> rail_completion" where
  "completion_row c h json =
     \<lparr>rc_company_id = oc_company_id c, rc_job_id = oc_job_id c, rc_input_hash = oc_input_hash c,
      rc_completion_hash = h, rc_completion_json = json\<rparr>"

definition accepted_details :: "observed_completion \<Rightarrow> pystr \<Rightarrow> jdict" where
  "accepted_details c h =
     [(''stage_id'', JStr (oc_stage_id c)), (''input_hash'', JStr (oc_input_hash c)), (''completion_hash'', JStr h)]"

lemma lines_snoc:
  assumes "length cs < length ps"
  shows "lines_of (cs @ [c]) ps = lines_of cs ps
    @ [(rp_stage_id (ps ! length cs), rp_sequence (ps ! length cs), rc_input_hash c, rc_completion_hash c, rc_completion_json c)]"
  unfolding lines_of_def using assms
  by (intro nth_equalityI) (auto simp: nth_append less_Suc_eq)

lemma lines_longer: "length cs \<le> length ps \<Longrightarrow> lines_of cs (ps @ qs) = lines_of cs ps"
  by (simp add: lines_of_def zip_append2)

lemma kept_accept:
  assumes kept: "kept v k j ps cs es x"
    and fits: "Suc (length (mz_accepted (rr_materialized x))) = length (mz_packets (rr_materialized x))"
      "mz_final (rr_materialized x) = None" "mz_artifact (rr_materialized x) = None"
    and c: "completion_ok c" "canonical_json (JObj (completion_value c)) = Inr json"
      "completion_answers v (rr_context x) (last (rr_packets x)) c" "is_sha256_hex (rv_sha256 v json)"
    and e: "event_made v k j completion_accepted now (accepted_details c (rv_sha256 v json)) e"
  obtains x' where
    "kept v k (headed j e) ps (cs @ [completion_row c (rv_sha256 v json) json]) (es @ [e]) x'"
    "rr_packets x' = rr_packets x" "mz_packets (rr_materialized x') = mz_packets (rr_materialized x)"
    "mz_final (rr_materialized x') = None" "mz_artifact (rr_materialized x') = None"
proof -
  let ?m = "rr_materialized x" and ?n = "length cs" and ?h = "rv_sha256 v json"
  let ?row = "completion_row c ?h json" and ?p = "last (rr_packets x)"
  note len = kept_lengths [OF kept]
  have n: "length ps = Suc ?n" using fits(1) len by simp
  then have last: "?p = rr_packets x ! ?n" using kept_last(2) [OF kept] by simp
  have p: "?n < length STAGE_IDS" "packet_run ?p = k" "pk_stage_id ?p = STAGE_IDS ! ?n"
    "pk_input_hash ?p = rp_input_hash (ps ! ?n)" "rp_stage_id (ps ! ?n) = STAGE_IDS ! ?n"
    using kept_packet [OF kept, of ?n] n last by simp_all
  obtain pos where mp: "mz_packets ?m ! ?n = (STAGE_IDS ! ?n, int ?n, rp_input_hash (ps ! ?n), pos)"
    using kept_packet [OF kept, of ?n] n by auto
  have cf: "oc_stage_id c = STAGE_IDS ! ?n" "oc_input_hash c = rp_input_hash (ps ! ?n)"
    using c(3) p by (simp_all add: completion_answers_def)
  have stages: "STAGE_IDS ! ?n \<in> set STAGE_IDS" using p(1) by simp
  have hex: "is_sha256_hex (rp_input_hash (ps ! ?n))"
    using c(1) cf by (simp add: completion_ok_def)
  have dist: "distinct (map rp_input_hash ps)" using kept by (simp add: kept_def answered_def)
  have "plain (JObj (accepted_details c ?h))" by (simp add: accepted_details_def)
  then obtain ev where ev: "event_said ev completion_accepted (accepted_details c ?h)"
    "chain_ok v k (headed j e) (es @ [e]) (rr_events x @ [ev])"
    "check_context v (headed j e) = Inr (rr_context x)" "rail_job_key (headed j e) = k"
    "\<And>m. materialize (length es) ev ?m = Inr m \<Longrightarrow> materialize_all 0 (rr_events x @ [ev]) nothing_materialized = Inr m"
    by (rule kept_extends [OF kept e]) blast
  let ?acc = "(STAGE_IDS ! ?n, rp_input_hash (ps ! ?n), ?h, length es)"
  let ?m' = "?m\<lparr>mz_accepted := mz_accepted ?m @ [?acc]\<rparr>"
  have "materialize (length es) ev ?m = Inr ?m'"
    by (rule said_accepted [OF ev(1) [unfolded accepted_details_def cf] stages hex c(4)])
      (use len n mp in simp_all)
  note m' = ev(5) [OF this]
  have "check_completion v k (rr_context x) (rr_packets x)
      (pk_stage_id ?p, pk_input_hash ?p, ?h, length es)
      (pk_stage_id ?p, rp_sequence (ps ! ?n), pk_input_hash ?p, ?h, json) = Inr (pk_input_hash ?p, ?h)"
    by (rule completion_checks [OF c(1,2,3) p(2)]) (use p(3) last stage_index_nth [OF p(1)] len n in simp_all)
  then have one: "check_completion v k (rr_context x) (rr_packets x) ?acc
      (rp_stage_id (ps ! ?n), rp_sequence (ps ! ?n), rc_input_hash ?row, rc_completion_hash ?row, rc_completion_json ?row)
      = Inr (rp_input_hash (ps ! ?n), ?h)"
    using p cf by (simp add: completion_row_def)
  let ?x = "x\<lparr>rr_events := rr_events x @ [ev], rr_materialized := ?m', rr_hashes := rr_hashes x @ [(rp_input_hash (ps ! ?n), ?h)]\<rparr>"
  have comps: "check_completions v k (rr_context x) (rr_packets x) (mz_accepted ?m @ [?acc]) (lines_of (cs @ [?row]) ps)
      = Inr (rr_hashes x @ [(rp_input_hash (ps ! ?n), ?h)])"
  proof -
    have "check_completions v k (rr_context x) (rr_packets x) (mz_accepted ?m) (lines_of cs ps) = Inr (rr_hashes x)"
      using kept by (simp add: kept_def)
    from check_completions_snoc [OF this one] show ?thesis using n by (simp add: lines_snoc)
  qed
  have chained: "list_all (packet_chained (rr_packets x) (rr_hashes x @ [(rp_input_hash (ps ! ?n), ?h)])) (rr_packets x)"
    unfolding list_all_length
  proof (intro allI impI)
    fix i assume "i < length (rr_packets x)"
    then have i: "i < length ps" "i \<le> ?n" "i < length (rr_packets x)" using len n by simp_all
    have "packet_chained (rr_packets x) (rr_hashes x) (rr_packets x ! i)"
      using kept i(3) by (simp add: kept_def list_all_length)
    moreover have "pk_sequence (rr_packets x ! i) = int i" using kept_packet [OF kept i(1)] by blast
    moreover have "i = 0 \<or> rp_input_hash (ps ! ?n) \<noteq> pk_input_hash (rr_packets x ! (i - 1))"
      using kept_distinct [OF kept, of ?n "i - 1"] i n p(4) last by (cases "i = 0") simp_all
    ultimately show "packet_chained (rr_packets x) (rr_hashes x @ [(rp_input_hash (ps ! ?n), ?h)]) (rr_packets x ! i)"
      by (intro chained_more) (auto simp: nat_diff_distrib)
  qed
  have answered: "answered (cs @ [?row]) ps"
    using kept n cf(2) take_Suc_conv_app_nth [of ?n "map rp_input_hash ps"]
    by (simp add: kept_def answered_def completion_row_def)
  have order: "mat_ok ?m' (Suc (length es))"
    by (rule mat_ok_accepted) (use kept fits in \<open>simp_all add: kept_def\<close>)
  have packets: "check_packets v (headed j e) (mz_packets ?m) ps = Inr (rr_packets x)"
    using kept by (simp add: kept_def check_packets_binding [OF headed_binding])
  have "kept v k (headed j e) ps (cs @ [?row]) (es @ [e]) ?x"
    using kept ev(2-4) m' comps chained answered order packets
    by (simp add: kept_def artifact_matches_def)
  then show thesis by (rule that) (use fits in simp_all)
qed

section \<open>The next packet\<close>

definition next_ok :: "rail_env \<Rightarrow> rail_key \<Rightarrow> rail_job \<Rightarrow> nat \<Rightarrow> stage_packet \<Rightarrow> bool" where
  "next_ok v k j n p =
     (packet_ok (rv_sha256 v) p \<and> packet_run p = k \<and> n < length STAGE_IDS \<and> pk_stage_id p = STAGE_IDS ! n
      \<and> pk_sequence p = int n \<and> pk_approval_record_id p = rj_approval_record_id j
      \<and> pk_approved_plan_fingerprint p = rj_approved_plan_fingerprint j
      \<and> pk_snapshot_hash p = rj_snapshot_hash j \<and> pk_evidence_hash p = rj_evidence_hash j)"

lemma check_packet_row:
  assumes "next_ok v k j n p" "rail_job_key j = k" "canonical_json (JObj (packet_value p)) = Inr encoded"
  shows "check_packet v j (pk_stage_id p, pk_sequence p, pk_input_hash p, pos) (packet_row p encoded) = Inr p"
proof -
  have "load_packet v encoded = Inr p"
    using load_packet_stored [OF _ assms(3)] assms(1) by (simp add: next_ok_def)
  then show ?thesis
    using assms by (simp add: check_packet_def packet_row_def as_integrity_error_def next_ok_def packet_run_def)
qed

lemma kept_json [simp]:
  "event_made v k (j\<lparr>rj_packet_json := s\<rparr>) t now ds e = event_made v k j t now ds e"
  "chain_ok v k (j\<lparr>rj_packet_json := s\<rparr>) es evs = chain_ok v k j es evs"
  "artifact_matches (j\<lparr>rj_packet_json := s\<rparr>) m = artifact_matches j m"
  "rail_job_key (j\<lparr>rj_packet_json := s\<rparr>) = rail_job_key j"
  by (simp_all add: event_made_def chain_ok_def artifact_matches_def rail_job_key_def)

lemma json_binding: "binding_no_update j (j\<lparr>rj_packet_json := s\<rparr>)"
  by (simp add: binding_no_update_def)

lemma kept_prepare:
  assumes kept: "kept v k j ps cs es x"
    and fits: "length cs = length ps" "mz_final (rr_materialized x) = None" "mz_artifact (rr_materialized x) = None"
    and p: "next_ok v k j (length ps) p" "canonical_json (JObj (packet_value p)) = Inr encoded"
      "pk_previous_completion_hash p = Some (rc_completion_hash (last cs))"
      "pk_input_hash p \<notin> set (map rp_input_hash ps)"
    and e: "event_made v k j ''PACKET_PREPARED'' now (packet_details p) e"
  obtains x' where
    "kept v k ((headed j e)\<lparr>rj_packet_json := encoded\<rparr>) (ps @ [packet_row p encoded]) cs (es @ [e]) x'"
    "mz_final (rr_materialized x') = None" "mz_artifact (rr_materialized x') = None"
proof -
  let ?m = "rr_materialized x" and ?n = "length ps" and ?row = "packet_row p encoded"
  let ?j = "(headed j e)\<lparr>rj_packet_json := encoded\<rparr>"
  note len = kept_lengths [OF kept]
  note ok = p(1) [unfolded next_ok_def]
  have "plain (JObj (packet_details p))" by (simp add: packet_details_def)
  then obtain ev where ev: "event_said ev ''PACKET_PREPARED'' (packet_details p)"
    "chain_ok v k (headed j e) (es @ [e]) (rr_events x @ [ev])"
    "check_context v (headed j e) = Inr (rr_context x)" "rail_job_key (headed j e) = k"
    "\<And>m. materialize (length es) ev ?m = Inr m \<Longrightarrow> materialize_all 0 (rr_events x @ [ev]) nothing_materialized = Inr m"
    by (rule kept_extends [OF kept e]) blast
  let ?new = "(pk_stage_id p, pk_sequence p, pk_input_hash p, length es)"
  let ?m' = "?m\<lparr>mz_packets := mz_packets ?m @ [?new]\<rparr>"
  have "materialize (length es) ev ?m = Inr ?m'"
    by (rule said_prepared [OF ev(1) conjunct1 [OF ok]]) (use ok len in simp_all)
  note m' = ev(5) [OF this]
  let ?x = "x\<lparr>rr_events := rr_events x @ [ev], rr_materialized := ?m', rr_packets := rr_packets x @ [p]\<rparr>"
  have order: "mat_ok ?m' (Suc (length es))"
    by (rule mat_ok_packet) (use kept fits len in \<open>simp_all add: kept_def\<close>)
  have packets: "check_packets v ?j (mz_packets ?m @ [?new]) (ps @ [?row]) = Inr (rr_packets x @ [p])"
  proof -
    have "check_packets v j (mz_packets ?m) ps = Inr (rr_packets x)" "rail_job_key j = k"
      using kept by (simp_all add: kept_def)
    with check_packets_snoc check_packet_row [OF p(1) _ p(2)]
    have "check_packets v j (mz_packets ?m @ [?new]) (ps @ [?row]) = Inr (rr_packets x @ [p])" by blast
    then show ?thesis
      by (simp only: check_packets_binding [OF json_binding] check_packets_binding [OF headed_binding])
  qed
  have answered: "answered cs (ps @ [?row])"
    using kept fits(1) p(4) by (simp add: kept_def answered_def packet_row_def)
  have comps: "check_completions v k (rr_context x) (rr_packets x @ [p]) (mz_accepted ?m) (lines_of cs (ps @ [?row]))
      = Inr (rr_hashes x)"
    using kept fits(1) by (simp add: kept_def lines_longer check_completions_more)
  have chained: "list_all (packet_chained (rr_packets x @ [p]) (rr_hashes x)) (rr_packets x @ [p])"
  proof -
    have "packet_chained (rr_packets x @ [p]) (rr_hashes x) q" if q: "q \<in> set (rr_packets x)" for q
    proof -
      obtain i where i: "i < length ps" "q = rr_packets x ! i" using q len by (auto simp: in_set_conv_nth)
      then have "pk_sequence q = int i" using kept_packet [OF kept] by blast
      moreover have "packet_chained (rr_packets x) (rr_hashes x) q"
        using kept q by (simp add: kept_def list_all_iff)
      ultimately show ?thesis using i(1) len by (intro chained_append) simp_all
    qed
    moreover have "packet_chained (rr_packets x @ [p]) (rr_hashes x) p"
    proof -
      have "ps \<noteq> []" using kept by (simp add: kept_def)
      then have n: "?n - 1 < length cs" "?n - 1 < ?n" "?n \<noteq> 0" using fits(1) by simp_all
      have hs: "rr_hashes x = butlast (rr_hashes x) @ [(rp_input_hash (ps ! (?n - 1)), rc_completion_hash (last cs))]"
        using kept_hash [OF kept n(1)] len fits(1) n
        by (metis append_butlast_last_id last_conv_nth length_0_conv)
      have "pk_input_hash ((rr_packets x @ [p]) ! (?n - 1)) = rp_input_hash (ps ! (?n - 1))"
        using kept_packet [OF kept n(2)] n(2) len by (simp add: nth_append)
      moreover have "map_of (rev (rr_hashes x)) (rp_input_hash (ps ! (?n - 1))) = Some (rc_completion_hash (last cs))"
        by (subst hs) simp
      moreover have "nat (pk_sequence p - 1) = ?n - 1" using ok by arith
      ultimately show ?thesis
        using ok p(3) n(3) by (simp add: packet_chained_def)
    qed
    ultimately show ?thesis by (simp add: list_all_iff)
  qed
  have ctx: "check_context v ?j = Inr (rr_context x)"
    using ev(3) by (simp only: check_context_binding [OF json_binding])
  have "kept v k ?j (ps @ [?row]) cs (es @ [e]) ?x"
    using kept ev(2,4) ctx m' comps chained answered order packets
    by (simp add: kept_def artifact_matches_def packet_row_def)
  then show thesis by (rule that) (use fits in simp_all)
qed

section \<open>The end of a run\<close>

lemma kept_final:
  assumes kept: "kept v k j ps cs es x"
    and fits: "length cs = length STAGE_IDS" "mz_final (rr_materialized x) = None" "mz_artifact (rr_materialized x) = None"
    and e: "event_made v k j ''FINAL_QA_READY'' now [(''final_input_hash'', JStr (rp_input_hash (last ps)))] e"
  obtains x' where "kept v k (headed j e) ps cs (es @ [e]) x'" "status_fits FINAL_QA_READY (rr_materialized x')"
proof -
  let ?m = "rr_materialized x" and ?input = "rp_input_hash (last ps)" and ?n = "length cs - 1"
  note len = kept_lengths [OF kept]
  have "length ps \<le> length STAGE_IDS" using kept_well [OF kept] len by (simp add: well_materialized_def)
  then have n: "?n < length cs" "length ps = length cs" "?n < length ps" "last ps = ps ! ?n"
    using fits(1) len kept by (auto simp: STAGE_IDS_def last_conv_nth kept_def)
  have hex: "is_sha256_hex ?input" using kept_packet [OF kept n(3)] n(4) by (auto simp: packet_ok_def)
  have "plain (JObj [(''final_input_hash'', JStr ?input)])" by simp
  then obtain ev where ev: "event_said ev ''FINAL_QA_READY'' [(''final_input_hash'', JStr ?input)]"
    "chain_ok v k (headed j e) (es @ [e]) (rr_events x @ [ev])"
    "check_context v (headed j e) = Inr (rr_context x)" "rail_job_key (headed j e) = k"
    "\<And>m. materialize (length es) ev ?m = Inr m \<Longrightarrow> materialize_all 0 (rr_events x @ [ev]) nothing_materialized = Inr m"
    by (rule kept_extends [OF kept e]) blast
  let ?m' = "?m\<lparr>mz_final := Some (?input, length es)\<rparr>"
  note m' = ev(5) [OF said_final [OF ev(1) hex fits(2)]]
  obtain h pos where "mz_accepted ?m ! ?n = (STAGE_IDS ! ?n, rp_input_hash (ps ! ?n), h, pos)" "pos < length es"
    using kept_positions [OF kept n(1)] by blast
  moreover have "last (mz_accepted ?m) = mz_accepted ?m ! ?n"
    using len(3) n(1) by (metis last_conv_nth length_0_conv less_nat_zero_code)
  ultimately have "mat_ok ?m' (Suc (length es))"
    using kept fits len n(4) by (intro mat_ok_final) (simp_all add: kept_def)
  then have "kept v k (headed j e) ps cs (es @ [e]) (with_events x ev ?m')"
    using kept ev m'
    by (simp add: kept_def with_events_def check_packets_binding [OF headed_binding] artifact_matches_def)
  then show thesis
    by (rule that) (use fits len in \<open>simp add: with_events_def status_fits_def\<close>)
qed

definition frozen_row :: "rail_job \<Rightarrow> frozen_artifact_binding \<Rightarrow> rail_job" where
  "frozen_row j b =
     j\<lparr>rj_status := status_text ARTIFACT_FROZEN, rj_artifact_manifest_path := Some (fa_manifest_path b),
       rj_artifact_manifest_hash := Some (fa_manifest_hash b)\<rparr>"

lemma frozen_row_binding: "binding_no_update j (frozen_row j b)"
  by (simp add: binding_no_update_def frozen_row_def)

lemma event_made_frozen: "event_made v k (frozen_row j b) t now ds e = event_made v k j t now ds e"
  by (simp add: event_made_def frozen_row_def)

lemma kept_artifact:
  assumes kept: "kept v k j ps cs es x"
    and fits: "mz_final (rr_materialized x) \<noteq> None" "mz_artifact (rr_materialized x) = None"
    and b: "tidy (fa_manifest_path b)" "is_sha256_hex (fa_manifest_hash b)"
    and e: "event_made v k (frozen_row j b) ''ARTIFACT_FROZEN'' now
      [(''manifest_path'', JStr (fa_manifest_path b)), (''manifest_hash'', JStr (fa_manifest_hash b))] e"
  obtains x' where "kept v k (headed (frozen_row j b) e) ps cs (es @ [e]) x'"
proof -
  let ?m = "rr_materialized x" and ?ds = "[(''manifest_path'', JStr (fa_manifest_path b)), (''manifest_hash'', JStr (fa_manifest_hash b))]"
  have e': "event_made v k j ''ARTIFACT_FROZEN'' now ?ds e"
    using e by (simp only: event_made_frozen)
  have "plain (JObj ?ds)" by simp
  then obtain ev where ev: "event_said ev ''ARTIFACT_FROZEN'' ?ds"
    "chain_ok v k (headed j e) (es @ [e]) (rr_events x @ [ev])"
    "check_context v (headed j e) = Inr (rr_context x)" "rail_job_key (headed j e) = k"
    "\<And>m. materialize (length es) ev ?m = Inr m \<Longrightarrow> materialize_all 0 (rr_events x @ [ev]) nothing_materialized = Inr m"
    by (rule kept_extends [OF kept e']) blast
  let ?m' = "?m\<lparr>mz_artifact := Some (fa_manifest_path b, fa_manifest_hash b, length es)\<rparr>"
  let ?j = "headed (frozen_row j b) e"
  have binding: "binding_no_update (headed j e) ?j"
    by (simp add: binding_no_update_def headed_def frozen_row_def)
  have "materialize (length es) ev ?m = Inr ?m'"
    by (rule said_artifact [OF ev(1) b(2,1) fits(2)])
  note m' = ev(5) [OF this]
  have "mat_ok ?m' (Suc (length es))"
    using kept fits by (intro mat_ok_artifact) (simp_all add: kept_def)
  moreover have "chain_ok v k ?j (es @ [e]) (rr_events x @ [ev])"
    using ev(2) by (simp add: chain_ok_def headed_def frozen_row_def)
  moreover have "check_context v ?j = Inr (rr_context x)" "rail_job_key ?j = k"
    using check_context_binding [OF binding] ev(3,4) binding_fields(3) [OF binding] by simp_all
  moreover have "check_packets v ?j (mz_packets ?m) ps = Inr (rr_packets x)"
    using kept check_packets_binding [OF binding] check_packets_binding [OF headed_binding]
    by (simp add: kept_def)
  moreover have "artifact_matches ?j ?m'" "rj_packet_json ?j = rj_packet_json j"
    by (simp_all add: artifact_matches_def frozen_row_def)
  ultimately have "kept v k ?j ps cs (es @ [e]) (with_events x ev ?m')"
    using kept m' by (simp add: kept_def with_events_def)
  then show thesis by (rule that)
qed

section \<open>The first packet\<close>

lemma kept_start:
  assumes j: "rj_event_count j = 0" "rj_event_head_hash j = None" "rj_event_head_mac j = None"
      "rj_artifact_manifest_path j = None" "rj_artifact_manifest_hash j = None" "rj_packet_json j = encoded"
      "rail_job_key j = k"
    and context_ok: "check_context v j = Inr cx"
    and p: "next_ok v k j 0 p" "canonical_json (JObj (packet_value p)) = Inr encoded"
    and e: "event_made v k j ''PACKET_PREPARED'' now (packet_details p) e"
  obtains x where "kept v k (headed j e) [packet_row p encoded] [] [e] x"
    "status_fits AWAITING_OPERATOR_EXECUTION (rr_materialized x)"
proof -
  note ok = p(1) [unfolded next_ok_def]
  have chain: "chain_ok v k j [] []" using j by (simp add: chain_ok_def chain_hash_def)
  have "plain (JObj (packet_details p))" by (simp add: packet_details_def)
  then obtain ev where ev: "chain_ok v k (headed j e) [e] [ev]" "event_said ev ''PACKET_PREPARED'' (packet_details p)"
    using chain_extend [OF chain e] by (metis append_Nil)
  let ?m = "nothing_materialized\<lparr>mz_packets := [(pk_stage_id p, pk_sequence p, pk_input_hash p, 0)]\<rparr>"
  have m: "materialize 0 ev nothing_materialized = Inr ?m"
    using said_prepared [OF ev(2) conjunct1 [OF ok], of nothing_materialized 0] ok
    by (simp add: nothing_materialized_def)
  let ?x = "\<lparr>rr_events = [ev], rr_context = cx, rr_materialized = ?m, rr_packets = [p], rr_hashes = []\<rparr>"
  have "check_packet v j (pk_stage_id p, pk_sequence p, pk_input_hash p, 0) (packet_row p encoded) = Inr p"
    by (rule check_packet_row [OF p(1) j(7) p(2)])
  then have "check_packets v (headed j e) (mz_packets ?m) [packet_row p encoded] = Inr [p]"
    unfolding check_packets_binding [OF headed_binding] by simp
  moreover have "pk_previous_completion_hash p = None" using ok by (auto simp: packet_ok_def split: if_split_asm)
  ultimately have "kept v k (headed j e) [packet_row p encoded] [] [e] ?x"
    using ev(1) m j ok context_ok check_context_binding [OF headed_binding, of v j e] binding_fields(3) [OF headed_binding, of j e]
    by (simp add: kept_def mat_ok_def final_in_order_def artifact_in_order_def nothing_materialized_def lines_of_def
        answered_def artifact_matches_def packet_chained_def packet_row_def)
  then show thesis
    by (rule that) (simp add: status_fits_def nothing_materialized_def)
qed

end
