(* ===== verification/RailAlive.thy ===== *)
theory RailAlive
  imports RailSteps
begin

text \<open>
  Every request keeps every run's status validating: what the operations write is what the validation
  expects to read.
\<close>

section \<open>The invariant\<close>

fun view_ok :: "rail_env \<Rightarrow> rail_key \<Rightarrow> run_rows \<Rightarrow> bool" where
  "view_ok v k (None, ps, cs, es) = (ps = [] \<and> cs = [] \<and> es = [])"
| "view_ok v k (Some j, ps, cs, es) = honest_run v k j ps cs es"

definition rail_ok :: "rail_env \<Rightarrow> rail \<Rightarrow> bool" where
  "rail_ok v l = (\<forall>k. view_ok v k (run_view l k))"

lemma rail_ok_change:
  assumes "rail_ok v l" "others_same k l l'" "view_ok v k (run_view l' k)"
  shows "rail_ok v l'"
  using assms unfolding rail_ok_def others_same_def by metis

lemma rail_ok_open:
  assumes "rail_ok v l" "open_run v l k = Inr (j, st)"
  obtains ps cs es x where "run_view l k = (Some j, ps, cs, es)" "kept v k j ps cs es x" "es \<noteq> []"
    "rj_status j = status_text st" "status_fits st (rr_materialized x)"
proof -
  from assms(2) have "run_row l k = Some j" by (auto simp: open_run_Inr run_valid_def)
  then obtain ps cs es where view: "run_view l k = (Some j, ps, cs, es)" by (simp add: run_view_def)
  with assms(1) have honest: "honest_run v k j ps cs es" unfolding rail_ok_def by (metis view_ok.simps(2))
  then have "es \<noteq> []" unfolding honest_run_def by blast
  with honest_reading [OF honest view assms(2)] view that show thesis by metis
qed

lemma honest_runI:
  assumes "kept v k j ps cs (es @ [e]) x" "status_fits st (rr_materialized x)" "rj_status j = status_text st"
    "expected_by_event (re_event_type e) = Some st"
  shows "honest_run v k j ps cs (es @ [e])"
  using assms unfolding honest_run_def by auto

lemma event_made_type: "event_made v k j t now ds e \<Longrightarrow> re_event_type e = t"
  by (simp add: event_made_def)

lemma headed_status: "headed (j\<lparr>rj_status := s\<rparr>) e = (headed j e)\<lparr>rj_status := s\<rparr>"
  by (simp add: headed_def)

lemma open_statuses:
  "status_fits AWAITING_OPERATOR_EXECUTION m = status_fits CANCEL_REQUESTED m"
  "status_fits OPERATOR_RECOVERY_REQUIRED m = status_fits CANCEL_REQUESTED m"
  by (simp_all add: status_fits_def)

section \<open>Status changes\<close>

lemma view_set_status:
  assumes "set_status k st l = Inr l'" "run_view l k = (Some j, ps, cs, es)"
  shows "run_view l' k = (Some (j\<lparr>rj_status := status_text st\<rparr>), ps, cs, es) \<and> others_same k l l'"
proof -
  from assms(1) obtain n where
    "update_run False (\<lambda>r. rail_job_key r = k) (\<lambda>r. r\<lparr>rj_status := status_text st\<rparr>) l = Inr (l', n)"
    by (auto simp: set_status_def bnd_eq_Inr)
  moreover have "rail_job_key j = k" using assms(2) run_row_key [of l k j] by (simp add: run_view_def)
  ultimately show ?thesis using view_update_run [OF _ assms(2)] by (auto simp: rail_job_key_def)
qed

lemma change_status_ok:
  assumes ok: "rail_ok v l"
    and view: "run_view l k = (Some j, ps, cs, es)" "kept v k j ps cs es x"
    and fits: "status_fits st (rr_materialized x)" "expected_by_event t = Some st"
    and said: "plain (JObj ds)"
      "\<And>ev. event_said ev t ds \<Longrightarrow> materialize (length es) ev (rr_materialized x) = Inr (rr_materialized x)"
    and run: "change_status v now k st ds t l = Inr (r, l')"
  shows "rail_ok v l'"
proof -
  from run obtain l1 where 1: "set_status k st l = Inr l1" "append_event v k t ds now l1 = Inr l'"
    by (auto simp: change_status_def bnd_eq_Inr)
  note s = view_set_status [OF 1(1) view(1)]
  obtain e where e: "event_made v k (j\<lparr>rj_status := status_text st\<rparr>) t now ds e"
    "run_view l' k = (Some (headed (j\<lparr>rj_status := status_text st\<rparr>) e), ps, cs, es @ [e])" "others_same k l1 l'"
    by (rule view_append_event [OF 1(2) conjunct1 [OF s]])
  from e(1) have made: "event_made v k j t now ds e" by simp
  obtain x' where x': "kept v k (headed j e) ps cs (es @ [e]) x'" "rr_materialized x' = rr_materialized x"
    by (rule kept_event [OF view(2) made said])
  have "honest_run v k (headed (j\<lparr>rj_status := status_text st\<rparr>) e) ps cs (es @ [e])"
    unfolding headed_status
    by (rule honest_runI [of _ _ _ _ _ _ _ x' st]) (use x' fits event_made_type [OF made] in simp_all)
  with e(2) have "view_ok v k (run_view l' k)" by simp
  with ok show ?thesis using s e(3) others_same_trans rail_ok_change by blast
qed

text \<open>The outstanding packet of an open run.\<close>

lemma outstanding_kept:
  assumes "kept v k j ps cs es x" "load_packet v (rj_packet_json j) = Inr p"
  shows "p = last (rr_packets x)" "packet_ok (rv_sha256 v) p" "packet_run p = k" "is_sha256_hex (pk_input_hash p)"
    "pk_stage_id p \<in> set STAGE_IDS" "pk_stage_id p = STAGE_IDS ! (length ps - 1)" "pk_sequence p = int (length ps - 1)"
    "pk_input_hash p = rp_input_hash (last ps)"
proof -
  show p: "p = last (rr_packets x)" using kept_last(1) [OF assms(1)] assms(2) by simp
  have "ps \<noteq> []" using assms(1) by (simp add: kept_def)
  then have n: "length ps - 1 < length ps" "last ps = ps ! (length ps - 1)" by (simp_all add: last_conv_nth)
  note q = kept_packet [OF assms(1) n(1), folded kept_last(2) [OF assms(1)], folded p]
  from q n(2) show "packet_ok (rv_sha256 v) p" "packet_run p = k" "is_sha256_hex (pk_input_hash p)"
    "pk_stage_id p \<in> set STAGE_IDS" "pk_stage_id p = STAGE_IDS ! (length ps - 1)" "pk_sequence p = int (length ps - 1)"
    "pk_input_hash p = rp_input_hash (last ps)"
    by (auto simp: packet_ok_def)
qed

lemma commit_changed: "snd (commit_rail m l) = l' \<Longrightarrow> l' = l \<or> (\<exists>r. m = Inr (r, l'))"
  by (auto simp: commit_rail_def split: sum.splits)

lemma request_cancel_ok:
  assumes ok: "rail_ok v l"
  shows "rail_ok v (snd (request_cancel v now company job operator l))" (is "rail_ok v ?l'")
proof -
  consider "?l' = l"
    | k op j st p r where "tidy op" "open_run v l k = Inr (j, st)"
      "st = AWAITING_OPERATOR_EXECUTION \<or> st = OPERATOR_RECOVERY_REQUIRED" "load_packet v (rj_packet_json j) = Inr p"
      "change_status v (now 0) k CANCEL_REQUESTED
         [(''operator_id'', JStr op), (''prior_status'', JStr (status_text st)),
          (''outstanding_input_hash'', JStr (pk_input_hash p)), (''local_request_only'', JBool True),
          (''upstream_cancellation'', JBool False)]
         ''CANCEL_REQUESTED'' l = Inr (r, ?l')"
    using commit_changed [OF request_cancel_def [of v now company job operator l, THEN arg_cong [where f = snd], symmetric]]
    by (auto simp: bnd_eq_Inr split: if_split_asm dest: non_empty_Inr)
  then show ?thesis
  proof cases
    case 1
    with ok show ?thesis by simp
  next
    case (2 k op j st p r)
    obtain ps cs es x where x: "run_view l k = (Some j, ps, cs, es)" "kept v k j ps cs es x"
      "status_fits st (rr_materialized x)"
      by (rule rail_ok_open [OF ok 2(2)])
    have fits: "status_fits CANCEL_REQUESTED (rr_materialized x)"
      using x(3) 2(3) by (auto simp: open_statuses)
    show ?thesis
      by (rule change_status_ok [OF ok x(1,2) fits _ _ _ 2(5)])
        (use said_cancel outstanding_kept(4) [OF x(2) 2(4)] 2(1,3) in \<open>simp_all add: expected_by_event_def event_kinds\<close>)
  qed
qed

lemma mark_recovery_ok:
  assumes ok: "rail_ok v l"
  shows "rail_ok v (snd (mark_operator_recovery_required v now company job l))" (is "rail_ok v ?l'")
proof -
  consider "?l' = l"
    | k j p r where "open_run v l k = Inr (j, AWAITING_OPERATOR_EXECUTION)" "load_packet v (rj_packet_json j) = Inr p"
      "change_status v (now 0) k OPERATOR_RECOVERY_REQUIRED
         [(''outstanding_input_hash'', JStr (pk_input_hash p))] ''OPERATOR_RECOVERY_REQUIRED'' l = Inr (r, ?l')"
    using commit_changed [OF mark_operator_recovery_required_def [of v now company job l, THEN arg_cong [where f = snd], symmetric]]
    by (auto simp: bnd_eq_Inr split: if_split_asm)
  then show ?thesis
  proof cases
    case 1
    with ok show ?thesis by simp
  next
    case (2 k j p r)
    obtain ps cs es x where x: "run_view l k = (Some j, ps, cs, es)" "kept v k j ps cs es x"
      "status_fits AWAITING_OPERATOR_EXECUTION (rr_materialized x)"
      by (rule rail_ok_open [OF ok 2(1)])
    then have fits: "status_fits OPERATOR_RECOVERY_REQUIRED (rr_materialized x)" by (simp add: open_statuses)
    show ?thesis
      by (rule change_status_ok [OF ok x(1,2) fits _ _ _ 2(3)])
        (use said_recovery outstanding_kept(4) [OF x(2) 2(2)] in \<open>simp_all add: expected_by_event_def event_kinds\<close>)
  qed
qed

lemma resolve_recovery_ok:
  assumes ok: "rail_ok v l"
  shows "rail_ok v (snd (resolve_recovery v now company job expected operator l))" (is "rail_ok v ?l'")
proof -
  consider "?l' = l"
    | k j p op r where "tidy op" "open_run v l k = Inr (j, OPERATOR_RECOVERY_REQUIRED)"
      "load_packet v (rj_packet_json j) = Inr p"
      "change_status v (now 0) k AWAITING_OPERATOR_EXECUTION
              [(''operator_id'', JStr op), (''outstanding_input_hash'', JStr (pk_input_hash p)),
               (''replacement_attempt'', JBool False), (''maximum_retries'', JInt 0)]
              ''RECOVERY_RESOLVED_FOR_EXACT_BINDING'' l = Inr (r, ?l')"
    using commit_changed [OF resolve_recovery_def [of v now company job expected operator l, THEN arg_cong [where f = snd], symmetric]]
    by (auto simp: bnd_eq_Inr split: if_split_asm dest: non_empty_Inr replay_same)
  then show ?thesis
  proof cases
    case 1
    with ok show ?thesis by simp
  next
    case (2 k j p op r)
    obtain ps cs es x where x: "run_view l k = (Some j, ps, cs, es)" "kept v k j ps cs es x"
      "status_fits OPERATOR_RECOVERY_REQUIRED (rr_materialized x)"
      by (rule rail_ok_open [OF ok 2(2)])
    then have fits: "status_fits AWAITING_OPERATOR_EXECUTION (rr_materialized x)" by (simp add: open_statuses)
    show ?thesis
      by (rule change_status_ok [OF ok x(1,2) fits _ _ _ 2(4)])
        (use said_resolved outstanding_kept(4) [OF x(2) 2(3)] 2(1) in \<open>simp_all add: expected_by_event_def event_kinds\<close>)
  qed
qed

section \<open>Freezing the artifact\<close>

lemma artifact_binding_ok:
  "make_artifact_binding path h = Inr b \<Longrightarrow> tidy (fa_manifest_path b) \<and> is_sha256_hex (fa_manifest_hash b)"
  by (auto simp: make_artifact_binding_def bnd_eq_Inr dest: non_empty_Inr digest_Inr split: if_split_asm)

lemma freeze_artifact_ok:
  assumes ok: "rail_ok v l" and "open_run v l k = Inr (j, FINAL_QA_READY)" "make_artifact_binding path h = Inr b"
    and run: "freeze_artifact v now k b l = Inr (r, l')"
  shows "rail_ok v l'"
proof -
  let ?ds = "[(''manifest_path'', JStr (fa_manifest_path b)), (''manifest_hash'', JStr (fa_manifest_hash b))]"
  obtain ps cs es x where x: "run_view l k = (Some j, ps, cs, es)" "kept v k j ps cs es x"
    "rj_status j = status_text FINAL_QA_READY" "status_fits FINAL_QA_READY (rr_materialized x)"
    by (rule rail_ok_open [OF ok assms(2)])
  from run obtain l1 where 1: "update_run False
            (\<lambda>r. rail_job_key r = k \<and> rj_status r = status_text FINAL_QA_READY) (\<lambda>r. frozen_row r b) l = Inr (l1, 1)"
    "append_event v k ''ARTIFACT_FROZEN'' ?ds now l1 = Inr l'"
    by (auto simp: freeze_artifact_def frozen_row_def bnd_eq_Inr split: if_split_asm)
  have "rail_job_key j = k" using x(2) by (simp add: kept_def)
  then have s: "run_view l1 k = (Some (frozen_row j b), ps, cs, es) \<and> others_same k l l1"
    using view_update_run [OF 1(1) x(1)] x(3) by (auto simp: rail_job_key_def frozen_row_def)
  obtain e where e: "event_made v k (frozen_row j b) ''ARTIFACT_FROZEN'' now ?ds e"
    "run_view l' k = (Some (headed (frozen_row j b) e), ps, cs, es @ [e])" "others_same k l1 l'"
    by (rule view_append_event [OF 1(2) conjunct1 [OF s]])
  have fits: "mz_final (rr_materialized x) \<noteq> None" "mz_artifact (rr_materialized x) = None"
    using x(4) by (simp_all add: status_fits_def)
  note b = artifact_binding_ok [OF assms(3)]
  obtain x' where x': "kept v k (headed (frozen_row j b) e) ps cs (es @ [e]) x'"
    by (rule kept_artifact [OF x(2) fits conjunct1 [OF b] conjunct2 [OF b] e(1)])
  have "honest_run v k (headed (frozen_row j b) e) ps cs (es @ [e])"
    by (rule honest_runI [OF x', of ARTIFACT_FROZEN])
      (simp_all add: status_fits_def frozen_row_def event_made_type [OF e(1)] expected_by_event_def event_kinds)
  with e(2) have "view_ok v k (run_view l' k)" by simp
  with ok show ?thesis using s e(3) others_same_trans rail_ok_change by blast
qed

lemma record_artifact_ok:
  assumes ok: "rail_ok v l"
  shows "rail_ok v (snd (record_artifact v now company job path h l))" (is "rail_ok v ?l'")
proof -
  consider "?l' = l"
    | k b j r where "open_run v l k = Inr (j, FINAL_QA_READY)" "make_artifact_binding path h = Inr b"
      "freeze_artifact v (now 0) k b l = Inr (r, ?l')"
    using commit_changed [OF record_artifact_def [of v now company job path h l, THEN arg_cong [where f = snd], symmetric]]
    by (auto simp: bnd_eq_Inr split: if_split_asm)
  then show ?thesis
    by cases (use ok freeze_artifact_ok in \<open>simp, blast\<close>)
qed

section \<open>A new run\<close>

text \<open>The fingerprint is a SHA-256 digest in hexadecimal.\<close>

definition digests_ok :: "rail_env \<Rightarrow> bool" where
  "digests_ok v = (\<forall>b. is_sha256_hex (rv_sha256 v b))"

lemma non_empty_hex: "is_sha256_hex s \<Longrightarrow> sha256_digest (JStr s) = Inr t \<longleftrightarrow> t = s"
  using digest_hex by auto

lemma build_packet_first:
  assumes "digests_ok v" "build_stage_packet (rv_sha256 v) g job snapshot ''outline'' 0 session = Inr p"
    "canonical_json (sn_compiled_context snapshot) = Inr cx"
  shows "packet_ok (rv_sha256 v) p \<and> pk_stage_id p = ''outline'' \<and> pk_sequence p = 0
    \<and> pk_snapshot_hash p = rv_sha256 v cx \<and> (\<exists>kvs. sn_compiled_context snapshot = JObj kvs)
    \<and> non_empty (JStr (sj_company_id job)) = Inr (pk_company_id p) \<and> non_empty (JStr (sj_job_id job)) = Inr (pk_job_id p)"
proof -
  have binding: "validate_frozen_job_binding (rv_sha256 v) job snapshot = Inr ()"
    using assms(2) by (auto simp: build_stage_packet_def bnd_eq_Inr)
  then have hash: "sn_snapshot_hash snapshot = rv_sha256 v cx"
    using assms(3) by (auto simp: validate_frozen_job_binding_def bnd_eq_Inr sha256_fingerprint_def split: if_split_asm)
  obtain cxs where cxs: "sn_compiled_context snapshot = JObj cxs"
    using assms(2) by (cases "sn_compiled_context snapshot") (auto simp: build_stage_packet_def bnd_eq_Inr split: if_split_asm)
  from assms(2) obtain s eh pr ih where make: "make_stage_packet (rv_sha256 v)
     ([(''job_id'', JStr (sj_job_id job)), (''company_id'', JStr (sj_company_id job)), (''stage_id'', JStr ''outline''),
       (''sequence'', JInt 0), (''approval_record_id'', jopt (sj_approval_record_id job)),
       (''approved_plan_fingerprint'', jopt (sj_approved_plan_fingerprint job)),
       (''snapshot_hash'', JStr (sn_snapshot_hash snapshot)), (''evidence_hash'', JStr eh),
       (''provider_id'', JStr supervised_provider_id), (''model_id'', JStr supervised_model_id),
       (''designated_session_ref'', JStr s), (''prompt_template_version'', JStr supervised_pipeline_version),
       (''previous_completion_hash'', JNull), (''prompt'', JStr pr)] @ [(''input_hash'', JStr ih)]) = Inr p"
    unfolding build_stage_packet_def Let_def cxs by (auto simp: bnd_eq_Inr split: if_split_asm)
  note ok = make_packet_ok [OF make] and fields = make_packet_fields [OF make]
  have "stage_field (JStr ''outline'') = Inr (pk_stage_id p)" "sha256_digest (JStr (rv_sha256 v cx)) = Inr (pk_snapshot_hash p)"
    "non_empty (JStr (sj_company_id job)) = Inr (pk_company_id p)" "non_empty (JStr (sj_job_id job)) = Inr (pk_job_id p)"
    using fields hash by (simp_all add: field_of_def jget_def)
  moreover from this(1) have "pk_stage_id p = ''outline''" by (simp add: stage_field_def split: if_split_asm)
  ultimately show ?thesis
    using ok cxs assms(1) by (simp add: non_empty_hex digests_ok_def packet_ok_def stage_index_def STAGE_IDS_def)
qed

lemma stored_context_checks:
  assumes "canonical_json (JObj kvs) = Inr (rj_context_json j)" "plain (JObj kvs)"
    "rj_snapshot_hash j = rv_sha256 v (rj_context_json j)"
  obtains cx where "check_context v j = Inr cx"
proof -
  obtain cx where cx: "canon (JObj kvs) = JObj cx" by simp
  from parse_dumps [OF assms(2)] have "parse_text (rj_context_json j) = Some (JObj cx)"
    using canonical_json_Inr [OF assms(1)] cx by simp
  moreover have "canonical_json (JObj cx) = Inr (rj_context_json j)"
    using assms(1) canonical_json_canon [of "JObj kvs"] cx by simp
  ultimately have "check_context v j = Inr cx"
    using assms(3) by (simp add: check_context_def sha256_fingerprint_def)
  then show thesis by (rule that)
qed

lemma start_run_ok:
  assumes ok: "rail_ok v l" and p: "packet_ok (rv_sha256 v) p" "pk_stage_id p = ''outline''" "pk_sequence p = 0"
    and enc: "canonical_json (JObj (packet_value p)) = Inr encoded"
    and cx: "canonical_json (JObj kvs) = Inr cx" "plain (JObj kvs)" "pk_snapshot_hash p = rv_sha256 v cx"
    and run: "start_run v job p encoded cx now l = Inr (q, l')"
  shows "rail_ok v l'"
proof -
  let ?k = "packet_run p" and ?j = "new_run job p encoded cx" and ?row = "packet_row p encoded"
  from run obtain l1 l2 where 1: "insert_packet ?row l = Inr l1" "insert_rail_job ?j l1 = Inr l2"
    "append_event v ?k ''PACKET_PREPARED'' (packet_details p) now l2 = Inr l'"
    by (auto simp: start_run_def bnd_eq_Inr packet_run_def)
  have keys: "packet_key ?row = ?k" "rp_stage_id ?row = ''outline''" "rp_sequence ?row = 0"
    using p by (simp_all add: packet_key_def packet_row_def packet_run_def)
  obtain r ps cs es where view: "run_view l ?k = (r, ps, cs, es)" by (metis prod_cases4)
  note ins = view_insert_packet [OF 1(1) keys(1) view]
  have "r = None"
  proof (cases r)
    case (Some j)
    with ok view have "honest_run v ?k j ps cs es" unfolding rail_ok_def by (metis view_ok.simps(2))
    then obtain x where x: "kept v ?k j ps cs es x" unfolding honest_run_def by blast
    then have "0 < length ps" by (simp add: kept_def)
    from kept_packet [OF x this] this have "list_ex (\<lambda>q. rp_stage_id q = rp_stage_id ?row \<and> rp_sequence q = rp_sequence ?row) ps"
      unfolding list_ex_iff keys by (intro bexI [of _ "ps ! 0"]) (simp_all add: STAGE_IDS_def)
    with ins show ?thesis by blast
  qed
  with ok view have empty: "ps = []" "cs = []" "es = []" unfolding rail_ok_def by (metis view_ok.simps(1))+
  with \<open>r = None\<close> ins have v1: "run_view l1 ?k = (None, [?row], [], [])" "others_same ?k l l1" by simp_all
  have "rail_job_key ?j = ?k"
  proof (rule ccontr)
    assume "rail_job_key ?j \<noteq> ?k"
    obtain r0 ps0 cs0 es0 where v0: "run_view l1 (rail_job_key ?j) = (r0, ps0, cs0, es0)" by (metis prod_cases4)
    have "run_row l1 (rail_job_key ?j) = None"
      using 1(2) by (fastforce simp: insert_rail_job_def run_row_def find_None_iff image_iff split: if_split_asm)
    with v0 have "run_view l1 (rail_job_key ?j) = (None, ps0, cs0, es0)" by (simp add: run_view_def)
    from view_insert_job [OF 1(2) refl this] \<open>rail_job_key ?j \<noteq> ?k\<close> have "run_view l2 ?k = run_view l1 ?k"
      unfolding others_same_def by metis
    with v1(1) have "run_row l2 ?k = None" by (simp add: run_view_def)
    with 1(3) show False by (simp add: append_event_def)
  qed
  from view_insert_job [OF 1(2) this v1(1)] have v2: "run_view l2 ?k = (Some ?j, [?row], [], [])" "others_same ?k l1 l2"
    by simp_all
  obtain e where e: "event_made v ?k ?j ''PACKET_PREPARED'' now (packet_details p) e"
    "run_view l' ?k = (Some (headed ?j e), [?row], [], [] @ [e])" "others_same ?k l2 l'"
    by (rule view_append_event [OF 1(3) v2(1)])
  obtain cxt where ctx: "check_context v ?j = Inr cxt"
    by (rule stored_context_checks [of kvs ?j v]) (use cx in \<open>simp_all add: new_run_def\<close>)
  have ok0: "next_ok v ?k ?j 0 p"
    using p by (simp add: next_ok_def new_run_def STAGE_IDS_def)
  obtain x where x: "kept v ?k (headed ?j e) [?row] [] [e] x" "status_fits AWAITING_OPERATOR_EXECUTION (rr_materialized x)"
    by (rule kept_start [OF _ _ _ _ _ _ \<open>rail_job_key ?j = ?k\<close> ctx ok0 enc e(1)]) (simp_all add: new_run_def)
  have "honest_run v ?k (headed ?j e) [?row] [] ([] @ [e])"
    by (rule honest_runI [of _ _ _ _ _ _ _ x]) (use x in \<open>simp_all add: new_run_def event_made_type [OF e(1)] expected_by_event_def\<close>)
  with e(2) have "view_ok v ?k (run_view l' ?k)" by simp
  with ok show ?thesis using v1(2) v2(2) e(3) others_same_trans rail_ok_change by blast
qed

lemma prepare_packet_ok:
  assumes ok: "rail_ok v l" and digests: "digests_ok v" and plain: "plain (sn_compiled_context snapshot)"
  shows "rail_ok v (snd (prepare_packet v now job snapshot session l))" (is "rail_ok v ?l'")
proof -
  have "?l' = l \<or> (\<exists>p encoded cx r.
      build_stage_packet (rv_sha256 v) (rv_screens v) job snapshot ''outline'' 0 session = Inr p
      \<and> canonical_json (JObj (packet_value p)) = Inr encoded \<and> canonical_json (sn_compiled_context snapshot) = Inr cx
      \<and> start_run v job p encoded cx (now 0) l = Inr (r, ?l'))"
    unfolding prepare_packet_def commit_rail_def by (auto simp: bnd_eq_Inr split: sum.split if_split)
  then consider "?l' = l"
    | p encoded cx r where
      "build_stage_packet (rv_sha256 v) (rv_screens v) job snapshot ''outline'' 0 session = Inr p"
      "canonical_json (JObj (packet_value p)) = Inr encoded" "canonical_json (sn_compiled_context snapshot) = Inr cx"
      "start_run v job p encoded cx (now 0) l = Inr (r, ?l')"
    by blast
  then show ?thesis
  proof cases
    case (2 p encoded cx r)
    note first = build_packet_first [OF digests 2(1,3)]
    then obtain kvs where kvs: "sn_compiled_context snapshot = JObj kvs" by blast
    show ?thesis
      by (rule start_run_ok [OF ok _ _ _ 2(2) _ _ _ 2(4), of kvs]) (use first plain 2(3) kvs in auto)
  qed (use ok in simp)
qed

section \<open>Binding a completion\<close>

lemma next_packet_Some:
  assumes "next_packet sha256 p ch payload = Inr (Some q)" "packet_ok sha256 p"
  shows "packet_ok sha256 q \<and> packet_run q = packet_run p \<and> stage_index (pk_stage_id p) + 1 < length STAGE_IDS
    \<and> pk_stage_id q = STAGE_IDS ! (stage_index (pk_stage_id p) + 1) \<and> pk_sequence q = pk_sequence p + 1
    \<and> pk_approval_record_id q = pk_approval_record_id p
    \<and> pk_approved_plan_fingerprint q = pk_approved_plan_fingerprint p
    \<and> pk_snapshot_hash q = pk_snapshot_hash p \<and> pk_evidence_hash q = pk_evidence_hash p
    \<and> (is_sha256_hex ch \<longrightarrow> pk_previous_completion_hash q = Some ch)"
proof -
  let ?pos = "stage_index (pk_stage_id p)"
  from assms(1) have last: "?pos \<noteq> length STAGE_IDS - 1" by (auto simp: next_packet_def)
  have "?pos < length STAGE_IDS"
    using assms(2) by (auto simp: packet_ok_def STAGE_IDS_def stage_index_def)
  with last have pos: "?pos + 1 < length STAGE_IDS" by simp
  from assms(1) last obtain ch' pr ih where ch': "sha256_digest (JStr ch) = Inr ch'"
    and make: "make_stage_packet sha256
     ([(''job_id'', JStr (pk_job_id p)), (''company_id'', JStr (pk_company_id p)),
       (''stage_id'', JStr (STAGE_IDS ! (?pos + 1))), (''sequence'', JInt (pk_sequence p + 1)),
       (''approval_record_id'', JStr (pk_approval_record_id p)),
       (''approved_plan_fingerprint'', JStr (pk_approved_plan_fingerprint p)),
       (''snapshot_hash'', JStr (pk_snapshot_hash p)), (''evidence_hash'', JStr (pk_evidence_hash p)),
       (''provider_id'', JStr (pk_provider_id p)), (''model_id'', JStr (pk_model_id p)),
       (''designated_session_ref'', JStr (pk_designated_session_ref p)),
       (''prompt_template_version'', JStr (pk_prompt_template_version p)),
       (''previous_completion_hash'', JStr ch'), (''prompt'', JStr pr)] @ [(''input_hash'', JStr ih)]) = Inr q"
    unfolding next_packet_def Let_def by (auto simp: bnd_eq_Inr split: if_split_asm)
  note ok = assms(2) [unfolded packet_ok_def] and q = make_packet_ok [OF make]
  note fields = make_packet_fields [OF make]
  have f: "non_empty (JStr (pk_job_id p)) = Inr (pk_job_id q)" "non_empty (JStr (pk_company_id p)) = Inr (pk_company_id q)"
    "non_empty (JStr (pk_approval_record_id p)) = Inr (pk_approval_record_id q)"
    "stage_field (JStr (STAGE_IDS ! (?pos + 1))) = Inr (pk_stage_id q)"
    "sha256_digest (JStr (pk_approved_plan_fingerprint p)) = Inr (pk_approved_plan_fingerprint q)"
    "sha256_digest (JStr (pk_snapshot_hash p)) = Inr (pk_snapshot_hash q)"
    "sha256_digest (JStr (pk_evidence_hash p)) = Inr (pk_evidence_hash q)"
    "previous_field (pk_sequence q) (JStr ch') = Inr (pk_previous_completion_hash q)"
    using fields by (simp_all add: field_of_def jget_def)
  from f(4) have stage: "pk_stage_id q = STAGE_IDS ! (?pos + 1)" by (simp add: stage_field_def split: if_split_asm)
  have sequence: "pk_sequence q = pk_sequence p + 1"
    using q ok stage pos stage_index_nth [OF pos] by (simp add: packet_ok_def)
  have "is_sha256_hex ch'" using ch' by (rule digest_Inr)
  then have "pk_previous_completion_hash q = Some ch'"
    using f(8) sequence ok by (auto simp: previous_field_def digest_hex bnd_eq_Inr split: if_split_asm)
  moreover have "is_sha256_hex ch \<Longrightarrow> ch' = ch" using ch' non_empty_hex by blast
  ultimately show ?thesis
    using f ok q pos stage sequence by (simp add: non_empty_tidy digest_hex packet_run_def)
qed

lemma next_packet_None:
  "next_packet sha256 p ch payload = Inr None \<Longrightarrow> stage_index (pk_stage_id p) = length STAGE_IDS - 1"
  unfolding next_packet_def Let_def by (auto simp: bnd_eq_Inr split: if_split_asm)

lemma check_context_stored: "check_context v j = Inr cx \<Longrightarrow> stored_context j = Inr cx"
  by (auto simp: check_context_def stored_context_def bnd_eq_Inr split: option.split_asm jval.split_asm if_split_asm)

lemma finish_run_ok:
  assumes ok: "rail_ok v l0" "others_same k l0 l"
    and view: "run_view l k = (Some j, ps, cs, es)" "kept v k j ps cs es x" "completion_run c = k"
    and fits: "length cs = length STAGE_IDS" "mz_final (rr_materialized x) = None" "mz_artifact (rr_materialized x) = None"
    and input: "oc_input_hash c = rp_input_hash (last ps)"
    and run: "finish_run v c now l = Inr (r, l')"
  shows "rail_ok v l'"
proof -
  from run view(3) input obtain l1 where 1: "set_status k FINAL_QA_READY l = Inr l1"
    "append_event v k ''FINAL_QA_READY'' [(''final_input_hash'', JStr (rp_input_hash (last ps)))] now l1 = Inr l'"
    by (auto simp: finish_run_def bnd_eq_Inr)
  note s = view_set_status [OF 1(1) view(1)]
  obtain e where e: "event_made v k (j\<lparr>rj_status := status_text FINAL_QA_READY\<rparr>) ''FINAL_QA_READY'' now
      [(''final_input_hash'', JStr (rp_input_hash (last ps)))] e"
    "run_view l' k = (Some (headed (j\<lparr>rj_status := status_text FINAL_QA_READY\<rparr>) e), ps, cs, es @ [e])" "others_same k l1 l'"
    by (rule view_append_event [OF 1(2) conjunct1 [OF s]])
  from e(1) have made: "event_made v k j ''FINAL_QA_READY'' now [(''final_input_hash'', JStr (rp_input_hash (last ps)))] e"
    by simp
  obtain x' where x': "kept v k (headed j e) ps cs (es @ [e]) x'" "status_fits FINAL_QA_READY (rr_materialized x')"
    by (rule kept_final [OF view(2) fits made])
  have "honest_run v k (headed (j\<lparr>rj_status := status_text FINAL_QA_READY\<rparr>) e) ps cs (es @ [e])"
    unfolding headed_status
    by (rule honest_runI [of _ _ _ _ _ _ _ x' FINAL_QA_READY])
      (use x' event_made_type [OF made] in \<open>simp_all add: expected_by_event_def event_kinds\<close>)
  with e(2) have "view_ok v k (run_view l' k)" by simp
  with ok show ?thesis using s e(3) others_same_trans rail_ok_change by blast
qed

lemma advance_run_ok:
  assumes ok: "rail_ok v l0" "others_same k l0 l"
    and view: "run_view l k = (Some j, ps, cs, es)" "kept v k j ps cs es x" "completion_run c = k"
    and fits: "length cs = length ps" "mz_final (rr_materialized x) = None" "mz_artifact (rr_materialized x) = None"
    and q: "next_ok v k j (length ps) q" "pk_previous_completion_hash q = Some (rc_completion_hash (last cs))"
    and run: "advance_run v c q now l = Inr (r, l')"
  shows "rail_ok v l'"
proof -
  from q(1) have "packet_run q = k" by (simp add: next_ok_def)
  with run view(3) obtain encoded l1 l2 n where 1: "canonical_json (JObj (packet_value q)) = Inr encoded"
    "insert_packet (packet_row q encoded) l = Inr l1"
    "append_event v k ''PACKET_PREPARED'' (packet_details q) now l1 = Inr l2"
    "update_run False (\<lambda>r. rail_job_key r = k)
       (\<lambda>r. r\<lparr>rj_status := status_text AWAITING_OPERATOR_EXECUTION, rj_packet_json := encoded\<rparr>) l2 = Inr (l', n)"
    by (auto simp: advance_run_def bnd_eq_Inr)
  let ?row = "packet_row q encoded"
  have "packet_key ?row = k" using \<open>packet_run q = k\<close> by (simp add: packet_key_def packet_row_def packet_run_def)
  from view_insert_packet [OF 1(2) this view(1)] have v1: "run_view l1 k = (Some j, ps @ [?row], cs, es)"
    "others_same k l l1" "pk_input_hash q \<notin> set (map rp_input_hash ps)"
    by (simp_all add: packet_row_def)
  obtain e where e: "event_made v k j ''PACKET_PREPARED'' now (packet_details q) e"
    "run_view l2 k = (Some (headed j e), ps @ [?row], cs, es @ [e])" "others_same k l1 l2"
    by (rule view_append_event [OF 1(3) v1(1)])
  let ?j = "(headed j e)\<lparr>rj_packet_json := encoded\<rparr>"
  have "rail_job_key (headed j e) = k" using view(2) binding_fields(3) [OF headed_binding] by (simp add: kept_def)
  then have v2: "run_view l' k = (Some (?j\<lparr>rj_status := status_text AWAITING_OPERATOR_EXECUTION\<rparr>), ps @ [?row], cs, es @ [e])"
    "others_same k l2 l'"
    using view_update_run [OF 1(4) e(2)] by (simp_all add: rail_job_key_def)
  obtain x' where x': "kept v k ?j (ps @ [?row]) cs (es @ [e]) x'" "mz_final (rr_materialized x') = None"
    "mz_artifact (rr_materialized x') = None"
    by (rule kept_prepare [OF view(2) fits q(1) 1(1) q(2) v1(3) e(1)])
  have "status_fits AWAITING_OPERATOR_EXECUTION (rr_materialized x')"
    using kept_lengths [OF x'(1)] fits(1) x'(2,3) by (simp add: status_fits_def)
  then have "honest_run v k (?j\<lparr>rj_status := status_text AWAITING_OPERATOR_EXECUTION\<rparr>) (ps @ [?row]) cs (es @ [e])"
    by (intro honest_runI [of _ _ _ _ _ _ _ x' AWAITING_OPERATOR_EXECUTION])
      (use x' event_made_type [OF e(1)] in \<open>simp_all add: expected_by_event_def\<close>)
  with v2(1) have "view_ok v k (run_view l' k)" by simp
  with ok show ?thesis using v1(2) v2(2) e(3) others_same_trans rail_ok_change by blast
qed

lemma accept_completion_ok:
  assumes ok: "rail_ok v l0" "others_same k l0 l"
    and view: "run_view l k = (Some j, ps, cs, es)" "kept v k j ps cs es x" "completion_run c = k"
    and fits: "status_fits AWAITING_OPERATOR_EXECUTION (rr_materialized x)"
    and p: "p = last (rr_packets x)" "load_packet v (rj_packet_json j) = Inr p"
    and c: "completion_ok c" "canonical_json (JObj (completion_value c)) = Inr encoded"
      "completion_answers v (rr_context x) p c"
    and run: "accept_completion v p c encoded (rv_sha256 v encoded) now l = Inr (r, l')"
  shows "rail_ok v l'"
proof -
  let ?h = "rv_sha256 v encoded"
  let ?row = "completion_row c ?h encoded"
  note fits' = fits [unfolded status_fits_def, simplified]
  from run view(3) obtain l1 l2 next_p where 1: "insert_completion ?row l = Inr l1"
    "append_event v k completion_accepted (accepted_details c ?h) (now 1) l1 = Inr l2"
    "next_packet (rv_sha256 v) p ?h (oc_payload c) = Inr next_p"
    "(case next_p of None \<Rightarrow> finish_run v c (now 2) l2 | Some q \<Rightarrow> advance_run v c q (now 2) l2) = Inr (r, l')"
    unfolding accept_completion_def bnd_eq_Inr completion_row_def accepted_details_def by blast
  have "completion_key ?row = k" using view(3) by (simp add: completion_key_def completion_row_def completion_run_def)
  from view_insert_completion [OF 1(1) this view(1)]
  have v1: "run_view l1 k = (Some j, ps, cs @ [?row], es)" "others_same k l l1" by simp_all
  have hex: "is_sha256_hex ?h" using 1(1) by (simp add: insert_completion_def completion_row_def split: if_split_asm)
  obtain e where e: "event_made v k j completion_accepted (now 1) (accepted_details c ?h) e"
    "run_view l2 k = (Some (headed j e), ps, cs @ [?row], es @ [e])" "others_same k l1 l2"
    by (rule view_append_event [OF 1(2) v1(1)])
  have fin: "Suc (length (mz_accepted (rr_materialized x))) = length (mz_packets (rr_materialized x))"
    "mz_final (rr_materialized x) = None" "mz_artifact (rr_materialized x) = None"
    using fits' by simp_all
  obtain x' where x': "kept v k (headed j e) ps (cs @ [?row]) (es @ [e]) x'" "rr_packets x' = rr_packets x"
    "mz_final (rr_materialized x') = None" "mz_artifact (rr_materialized x') = None"
    by (rule kept_accept [OF view(2) fin c(1,2) c(3) [unfolded p(1)] hex e(1)])
  have others: "others_same k l0 l2" using ok(2) v1(2) e(3) others_same_trans by blast
  note len = kept_lengths [OF view(2)]
  have n: "length ps = Suc (length cs)" using fin len by simp
  note out = outstanding_kept [OF view(2) p(2)]
  have idx: "stage_index (pk_stage_id p) = length ps - 1" "length ps \<le> length STAGE_IDS"
    using out(6) n kept_packet [OF view(2), of "length ps - 1"] stage_index_nth by auto
  show ?thesis
  proof (cases next_p)
    case None
    then have "length (cs @ [?row]) = length STAGE_IDS"
      using next_packet_None 1(3) idx n by (fastforce simp: STAGE_IDS_def)
    moreover have "oc_input_hash c = rp_input_hash (last ps)"
      using c(3) out(8) by (simp add: completion_answers_def)
    moreover have "finish_run v c (now 2) l2 = Inr (r, l')" using 1(4) None by simp
    ultimately show ?thesis by (intro finish_run_ok [OF ok(1) others e(2) x'(1) view(3) _ x'(3,4)])
  next
    case (Some q)
    note q = next_packet_Some [OF 1(3) [unfolded Some] out(2)]
    have "next_ok v k (headed j e) (length ps) q"
      using q idx n out(3,7) kept_packet [OF view(2), of "length ps - 1"] kept_last(2) [OF view(2)] p(1)
        binding_fields [OF headed_binding, of j e]
      by (simp add: next_ok_def)
    moreover have "pk_previous_completion_hash q = Some (rc_completion_hash (last (cs @ [?row])))"
      using q hex by (simp add: completion_row_def)
    moreover have "advance_run v c q (now 2) l2 = Inr (r, l')" using 1(4) Some by simp
    moreover have "length (cs @ [?row]) = length ps" using n by simp
    ultimately show ?thesis by (intro advance_run_ok [OF ok(1) others e(2) x'(1) view(3) _ x'(3,4)])
  qed
qed

lemma reject_completion_ok:
  assumes ok: "rail_ok v l0" "others_same k l0 l"
    and view: "run_view l k = (Some j, ps, cs, es)" "kept v k j ps cs es x" "packet_run p = k"
      "rj_status j = status_text AWAITING_OPERATOR_EXECUTION"
    and fits: "status_fits AWAITING_OPERATOR_EXECUTION (rr_materialized x)"
    and sub: "submission_ok p c" "\<not> blank reason"
    and run: "reject_completion v p c reason err now l = Inr (r, l')"
  shows "rail_ok v l'"
proof -
  let ?ds = "submission_details p c @ [(''reason_code'', JStr reason)]"
  from reject_Inr [OF run] view(3) have 1: "append_event v k completion_rejected ?ds now l = Inr l'" by simp
  obtain e where e: "event_made v k j completion_rejected now ?ds e"
    "run_view l' k = (Some (headed j e), ps, cs, es @ [e])" "others_same k l l'"
    by (rule view_append_event [OF 1 view(1)])
  have "plain (JObj ?ds)" by (simp add: submission_details_def)
  then obtain x' where x': "kept v k (headed j e) ps cs (es @ [e]) x'" "rr_materialized x' = rr_materialized x"
    using kept_event [OF view(2) e(1)] said_rejected [OF _ sub] by metis
  have "honest_run v k (headed j e) ps cs (es @ [e])"
    by (rule honest_runI [of _ _ _ _ _ _ _ x' AWAITING_OPERATOR_EXECUTION])
      (use x' fits view(4) event_made_type [OF e(1)] in \<open>simp_all add: expected_by_event_def event_kinds\<close>)
  with e(2) have "view_ok v k (run_view l' k)" by simp
  with ok show ?thesis using e(3) others_same_trans rail_ok_change by blast
qed

lemma bind_body_ok:
  assumes ok: "rail_ok v l" and c: "completion_ok c" "canonical_json (JObj (completion_value c)) = Inr encoded"
    and run: "bind_body v now c encoded (rv_sha256 v encoded) l = Inr (r, l')"
  shows "rail_ok v l'"
proof -
  let ?k = "completion_run c"
  from run obtain j p l1 where 1: "open_run v l ?k = Inr (j, AWAITING_OPERATOR_EXECUTION)"
    "load_packet v (rj_packet_json j) = Inr p"
    "append_event v (packet_run p) completion_submitted (submission_details p c) (now 0) l = Inr l1"
    "judge_completion v j p c encoded (rv_sha256 v encoded) now l1 = Inr (r, l')"
    by (auto simp: bind_body_def bnd_eq_Inr split: if_split_asm)
  obtain ps cs es x where x: "run_view l ?k = (Some j, ps, cs, es)" "kept v ?k j ps cs es x"
    "rj_status j = status_text AWAITING_OPERATOR_EXECUTION" "status_fits AWAITING_OPERATOR_EXECUTION (rr_materialized x)"
    by (rule rail_ok_open [OF ok 1(1)])
  note out = outstanding_kept [OF x(2) 1(2)]
  have sub: "submission_ok p c"
    using out c(1) by (simp add: submission_ok_def completion_ok_def attestation_ok_def)
  obtain e where e: "event_made v ?k j completion_submitted (now 0) (submission_details p c) e"
    "run_view l1 ?k = (Some (headed j e), ps, cs, es @ [e])" "others_same ?k l l1"
    by (rule view_append_event [OF 1(3) [unfolded out(3)] x(1)])
  have "plain (JObj (submission_details p c))" by (simp add: submission_details_def)
  then obtain x' where x': "kept v ?k (headed j e) ps cs (es @ [e]) x'" "rr_materialized x' = rr_materialized x"
    "rr_packets x' = rr_packets x" "rr_context x' = rr_context x"
    using kept_event [OF x(2) e(1)] said_submitted [OF _ sub] by metis
  have fits: "status_fits AWAITING_OPERATOR_EXECUTION (rr_materialized x')" using x(4) x'(2) by simp
  from judge_cases [OF 1(4)] show ?thesis
  proof (elim disjE exE conjE)
    fix reason err
    assume "reject_completion v p c reason err (now 1) l1 = Inr (r, l')" "\<not> blank reason"
    then show ?thesis
      by (intro reject_completion_ok [OF ok e(3,2) x'(1) out(3) _ fits sub]) (use x(3) in simp_all)
  next
    fix cx
    assume a: "stored_context j = Inr cx" "packet_run p = ?k \<longrightarrow> completion_answers v cx p c"
      "accept_completion v p c encoded (rv_sha256 v encoded) now l1 = Inr (r, l')"
    have "stored_context j = Inr (rr_context x)" using x(2) check_context_stored [of v j] by (simp add: kept_def)
    with a out(3) x'(4) have "completion_answers v (rr_context x') p c" by simp
    then show ?thesis
      by (intro accept_completion_ok [OF ok e(3,2) x'(1) refl fits _ _ c _ a(3)]) (use out(1) x'(3) 1(2) in simp_all)
  qed
qed

lemma bind_completion_ok:
  assumes ok: "rail_ok v l" and c: "completion_ok c"
  shows "rail_ok v (snd (bind_completion v now c l))"
proof (cases "canonical_json (JObj (completion_value c))")
  case (Inl e)
  with ok show ?thesis by (simp add: bind_completion_def commit_outcome_def)
next
  case (Inr encoded)
  have "rail_ok v l'" if "bind_body v now c encoded (rv_sha256 v encoded) l = Inr (r, l')" for r l'
    by (rule bind_body_ok [OF ok c Inr that])
  with ok Inr show ?thesis
    by (cases "bind_body v now c encoded (rv_sha256 v encoded) l")
      (auto simp: bind_completion_def commit_outcome_def sha256_fingerprint_def)
qed

section \<open>Histories\<close>

text \<open>A request whose values a caller can have: JSON dicts have unique keys, completions are constructed.\<close>

fun well_formed :: "rail_request \<Rightarrow> bool" where
  "well_formed (Prepare job snapshot session) = plain (sn_compiled_context snapshot)"
| "well_formed (Bind c) = constructed c"
| "well_formed _ = True"

definition empty_rail :: rail where
  "empty_rail = \<lparr>rl_jobs = [], rl_packets = [], rl_completions = [], rl_events = []\<rparr>"

inductive served :: "rail_env \<Rightarrow> rail \<Rightarrow> bool" for v where
  served_empty: "served v empty_rail"
| served_request: "served v l \<Longrightarrow> well_formed q \<Longrightarrow> served v (serve_rail v now q l)"

lemma serve_rail_ok:
  assumes "rail_ok v l" "digests_ok v" "well_formed q"
  shows "rail_ok v (serve_rail v now q l)"
  using assms
  by (cases q) (simp_all add: prepare_packet_ok bind_completion_ok constructed_ok record_artifact_ok resolve_recovery_ok
      request_cancel_ok mark_recovery_ok)

lemma served_ok: "served v l \<Longrightarrow> digests_ok v \<Longrightarrow> rail_ok v l"
proof (induction rule: served.induct)
  case served_empty
  show ?case by (simp add: rail_ok_def run_view_def empty_rail_def run_row_def run_packets_def run_completions_def run_events_def)
next
  case (served_request l q now)
  then show ?case by (simp add: serve_rail_ok)
qed

lemma rail_ok_status:
  assumes "rail_ok v l" "run_row l k = Some j"
  obtains st where "open_run v l k = Inr (j, st)" "rj_status j = status_text st"
proof -
  from assms(2) obtain ps cs es where view: "run_view l k = (Some j, ps, cs, es)" by (simp add: run_view_def)
  with assms(1) have "honest_run v k j ps cs es" unfolding rail_ok_def by (metis view_ok.simps(2))
  from honest_opens [OF this view] that show thesis by metis
qed

end
