(* ===== verification/RailDemo.thy ===== *)
theory RailDemo
  imports RailAlive RunnerDemo
begin

text \<open>
  A concrete run on which the rail's properties are exercised: one prepared outline packet over a small
  frozen context with one evidence source.
\<close>

section \<open>Texts\<close>

definition visible :: "char \<Rightarrow> bool" where
  "visible c = (let n = (of_char c :: nat) in 33 \<le> n \<and> n \<le> 126)"

lemma visible_not_space:
  assumes "visible c"
  shows "\<not> ascii_space c \<and> \<not> narrow_space b c \<and> \<not> narrow_space c b \<and> \<not> wide_space a b c \<and> \<not> wide_space c b a"
  using assms by (auto simp: visible_def Let_def ascii_space_def narrow_space_def wide_space_def)

lemma visible_tidy:
  assumes "visible (hd s)" "visible (last s)" "s \<noteq> []"
  shows "tidy s"
proof -
  have "lead_space s = 0"
    using assms visible_not_space by (auto simp: lead_space_def neq_Nil_conv split: list.split)
  moreover have "trail_space s = 0"
  proof (cases "rev s")
    case (Cons c r)
    then have "last s = c" by (metis hd_rev list.sel(1))
    with assms(2) Cons show ?thesis
      using visible_not_space by (auto simp: trail_space_def split: list.split)
  qed (simp add: trail_space_def)
  ultimately have "strip s = s" by (simp add: strip_def)
  with assms(3) show ?thesis unfolding tidy_def by (metis strip_Nil_iff)
qed

lemma dumps_second:
  assumes "sort_key fst kvs = (c # k, w) # rest" "escape c = [c]"
  shows "dumps (JObj kvs) ! 2 = c"
  using assms unfolding dumps_obj
  by (cases rest) (simp_all add: member_def quote_def nth_append)

section \<open>The environment\<close>

definition demo_url :: split_url where
  "demo_url = \<lparr>u_scheme = ''https'', u_netloc = ''example.com'', u_path = ''/'', u_query = [],
     u_hostname = Some ''example.com'', u_port = None, u_username = None, u_password = None\<rparr>"

definition rail_screens :: screens where
  "rail_screens = demo_screens\<lparr>sc_urlsplit := (\<lambda>s. Some demo_url)\<rparr>"

text \<open>A digest that tells the kinds of text in the demo run apart.\<close>

definition demo_digest :: "bytes \<Rightarrow> pystr" where
  "demo_digest s = replicate 64 (if lower_hex (s ! 2) then s ! 2 else CHR ''0'')"

definition rail_demo_env :: rail_env where
  "rail_demo_env = \<lparr>rv_sha256 = demo_digest, rv_mac = demo_digest, rv_screens = rail_screens\<rparr>"

lemma demo_digest_hex [simp]: "is_sha256_hex (demo_digest s)"
  by (simp add: demo_digest_def is_sha256_hex_def list_all_iff lower_hex_def)

lemma rail_demo_digests: "digests_ok rail_demo_env"
  by (simp add: digests_ok_def rail_demo_env_def)

section \<open>The frozen context\<close>

definition demo_source :: jval where
  "demo_source = JObj [(''content_hash'', JStr demo_hash), (''fetched_at'', JStr demo_now),
     (''url'', JStr ''https://example.com/'')]"

definition demo_evidence :: jdict where
  "demo_evidence = [(''sources'', JList [demo_source])]"

definition rail_context :: jval where
  "rail_context = JObj [(''evidence'', JObj demo_evidence)]"

lemmas rail_context_defs = rail_context_def demo_evidence_def demo_source_def

lemma rail_context_bytes:
  "canonical_json rail_context = Inr (dumps rail_context)"
  "canonical_json (JObj demo_evidence) = Inr (dumps (JObj demo_evidence))"
  "canonical_json demo_source = Inr (dumps demo_source)"
  by (rule within_budget; simp add: rail_context_defs budget_simps demo_hash_def)+

lemma rail_context_plain: "plain rail_context"
  by (simp add: rail_context_defs)

lemma rail_context_digest: "demo_digest (dumps rail_context) = replicate 64 (CHR ''e'')"
proof -
  have "dumps rail_context ! 2 = CHR ''e''"
    unfolding rail_context_def by (rule dumps_second) (simp_all add: escape_def quote_char_def escape_char_def)
  then show ?thesis by (simp add: demo_digest_def lower_hex_def)
qed

lemma demo_url_valid: "validated_source_url rail_screens (Some (JStr ''https://example.com/'')) = Inr ''https://example.com/''"
  by code_simp

lemma demo_source_committed: "source_commitment rail_screens demo_source = Inr (dumps demo_source)"
proof -
  have "source_provenance rail_screens demo_source
    = Inr (JObj [(''url'', JStr ''https://example.com/''), (''content_hash'', JStr demo_hash), (''fetched_at'', JStr demo_now)])"
    using demo_url_valid
    by (simp add: source_provenance_def demo_source_def same_keys_def jget_def normalized_fetch_time_def insert_commute
        demo_time_def parse_aware_isoformat)
  moreover have "canonical_json (JObj [(''url'', JStr ''https://example.com/''), (''content_hash'', JStr demo_hash),
      (''fetched_at'', JStr demo_now)]) = Inr (dumps demo_source)"
    by (subst within_budget) (simp_all add: demo_source_def budget_simps demo_hash_def)
  ultimately show ?thesis by (simp add: source_commitment_def rail_context_bytes)
qed

section \<open>The first packet\<close>

definition rail_demo_job :: seo_job where
  "rail_demo_job =
     \<lparr>sj_job_id = ''job'', sj_brief_id = ''brief'', sj_brief_fingerprint = demo_hash, sj_snapshot_id = ''snap'',
      sj_snapshot_hash = replicate 64 (CHR ''e''), sj_company_id = ''co'', sj_direction_id = ''dir'',
      sj_audience_segment_id = ''aud'', sj_state = QUEUED, sj_current_stage = None,
      sj_approved_plan_fingerprint = Some demo_hash, sj_approval_record_id = Some ''apr'', sj_attempt = 1,
      sj_created_at = demo_instant 0, sj_started_at = None, sj_finished_at = None, sj_error_code = None,
      sj_error_summary = None, sj_artifact_manifest_path = None, sj_company_profile_version = Some 1,
      sj_direction_version = Some 1, sj_audience_version = Some 1, sj_prompt_set_version = Some 1\<rparr>"

definition rail_demo_snapshot :: execution_snapshot where
  "rail_demo_snapshot = demo_execution_snapshot\<lparr>sn_compiled_context := rail_context,
     sn_snapshot_hash := replicate 64 (CHR ''e'')\<rparr>"

definition outline_schema :: pystr where
  "outline_schema = dumps (JObj [(''sections'', JList [JStr ''non-empty string''])])"

definition rail_prompt :: pystr where
  "rail_prompt = prompt_header ''outline'' outline_schema @ prompt_instructions @ ''frozen-context='' @ dumps rail_context"

lemma rail_prompt_built: "stage_prompt ''outline'' rail_context = Inr rail_prompt"
proof -
  have "canonical_json (JObj [(''sections'', JList [JStr ''non-empty string''])]) = Inr outline_schema"
    unfolding outline_schema_def by (rule within_budget) (simp_all add: budget_simps)
  then show ?thesis
    by (simp add: stage_prompt_def rail_context_bytes stage_schema_text_def stage_schema_def rail_prompt_def)
qed

lemma outline_schema_text: "outline_schema = ''{\"sections\":[\"non-empty string\"]}''"
  by (simp add: outline_schema_def quote_def escape_def quote_char_def escape_char_def)

lemma instructions_ascii: "ascii prompt_instructions" "length prompt_instructions \<le> 1000"
  unfolding ascii_def by code_simp+

lemma rail_prompt_utf8: "utf8_ok False rail_prompt"
proof -
  have "utf8_ok False (dumps rail_context)"
    by (rule utf8_dumps) (simp add: rail_context_defs budget_simps demo_hash_def)
  moreover have "ascii (prompt_header ''outline'' outline_schema)" "ascii ''frozen-context=''"
    by (simp_all add: prompt_header_def line_def outline_schema_text ascii_def)
  ultimately show ?thesis
    unfolding rail_prompt_def using instructions_ascii(1) by (simp add: utf8_append utf8_ascii utf8_ascii_Cons)
qed

lemma rail_prompt_length: "length rail_prompt \<le> 3000"
proof -
  have "length (dumps rail_context) \<le> 1800"
    using length_dumps [of rail_context] by (simp add: rail_context_defs demo_hash_def)
  then show ?thesis
    using instructions_ascii(2) by (simp add: rail_prompt_def prompt_header_def line_def outline_schema_text)
qed

lemma rail_prompt_tidy: "tidy rail_prompt"
proof (rule visible_tidy)
  show "visible (hd rail_prompt)" by (simp add: rail_prompt_def prompt_header_def line_def visible_def)
  have "last rail_prompt = last (dumps rail_context)"
    by (simp add: rail_prompt_def rail_context_def)
  then show "visible (last rail_prompt)" by (simp add: rail_context_def visible_def)
  show "rail_prompt \<noteq> []" by (simp add: rail_prompt_def prompt_header_def line_def)
qed

text \<open>The packet, whose identity has the digest of texts that begin with an \<open>a\<close>.\<close>

definition demo_packet :: stage_packet where
  "demo_packet =
     \<lparr>pk_job_id = ''job'', pk_company_id = ''co'', pk_stage_id = ''outline'', pk_sequence = 0,
      pk_approval_record_id = ''apr'', pk_approved_plan_fingerprint = demo_hash,
      pk_snapshot_hash = replicate 64 (CHR ''e''), pk_evidence_hash = replicate 64 (CHR ''0''),
      pk_provider_id = supervised_provider_id, pk_model_id = supervised_model_id,
      pk_designated_session_ref = ''session'', pk_prompt_template_version = supervised_pipeline_version,
      pk_previous_completion_hash = None, pk_input_hash = replicate 64 (CHR ''a''), pk_prompt = rail_prompt\<rparr>"

lemma utf8_replicate: "(of_char c :: nat) < 128 \<Longrightarrow> utf8_ok b (replicate n c)"
  by (induction n) (simp_all add: utf8_ascii_Cons)

lemma demo_packet_text:
  "canonical_json (JObj (packet_identity_mapping demo_packet)) = Inr (dumps (JObj (packet_identity_mapping demo_packet)))"
  "canonical_json (JObj (packet_value demo_packet)) = Inr (dumps (JObj (packet_value demo_packet)))"
  using rail_prompt_utf8 rail_prompt_length
  by - (rule within_budget; simp add: packet_value_defs demo_packet_def budget_simps demo_hash_def jopt_def
      supervised_provider_id_def supervised_model_id_def supervised_pipeline_version_def dec_int_def dec.simps
      utf8_replicate)+

lemma demo_packet_digest: "demo_digest (dumps (JObj (packet_identity_mapping demo_packet))) = replicate 64 (CHR ''a'')"
proof -
  have "dumps (JObj (packet_identity_mapping demo_packet)) ! 2 = CHR ''a''"
    by (rule dumps_second) (simp_all add: packet_identity_mapping_def escape_def quote_char_def escape_char_def)
  then show ?thesis by (simp add: demo_digest_def lower_hex_def)
qed

lemma hex_replicate [simp]: "lower_hex c \<Longrightarrow> is_sha256_hex (replicate 64 c)"
  by (simp add: is_sha256_hex_def list_all_iff)

lemma demo_packet_ok: "packet_ok demo_digest demo_packet"
proof -
  have "tidy s" if "s \<in> {''job'', ''co'', ''apr'', supervised_provider_id, supervised_model_id, ''session'',
      supervised_pipeline_version}" for s
    using that
    by (intro visible_tidy)
      (auto simp: supervised_provider_id_def supervised_model_id_def supervised_pipeline_version_def visible_def)
  moreover have "sha256_fingerprint demo_digest (JObj (packet_identity_mapping demo_packet)) = Inr (replicate 64 (CHR ''a''))"
    by (simp add: sha256_fingerprint_def demo_packet_text demo_packet_digest del: dumps.simps)
  ultimately show ?thesis
    by (simp add: packet_ok_def demo_packet_def rail_prompt_tidy STAGE_IDS_def stage_index_def lower_hex_def)
qed

lemma demo_packet_built:
  "build_stage_packet demo_digest rail_screens rail_demo_job rail_demo_snapshot ''outline'' 0 ''session'' = Inr demo_packet"
proof -
  have job: "sj_company_id rail_demo_job = ''co''" "sj_job_id rail_demo_job = ''job''" "sj_snapshot_id rail_demo_job = ''snap''"
    "sj_snapshot_hash rail_demo_job = replicate 64 (CHR ''e'')" "sj_approved_plan_fingerprint rail_demo_job = Some demo_hash"
    "sj_approval_record_id rail_demo_job = Some ''apr''"
    by (simp_all add: rail_demo_job_def)
  have snap: "sn_company_id rail_demo_snapshot = ''co''" "sn_snapshot_id rail_demo_snapshot = ''snap''"
    "sn_snapshot_hash rail_demo_snapshot = replicate 64 (CHR ''e'')" "sn_compiled_context rail_demo_snapshot = rail_context"
    by (simp_all add: rail_demo_snapshot_def demo_execution_snapshot_def)
  have tidy: "tidy ''apr''" "tidy ''session''" by (rule visible_tidy; simp add: visible_def)+
  have binding: "validate_frozen_job_binding demo_digest rail_demo_job rail_demo_snapshot = Inr ()"
    by (simp add: validate_frozen_job_binding_def job snap sha256_fingerprint_def rail_context_bytes rail_context_digest
        digest_hex non_empty_tidy tidy jopt_def)
  have commitments: "frozen_evidence_commitments rail_screens [(''evidence'', JObj demo_evidence)] = Inr [dumps demo_source]"
    by (simp add: frozen_evidence_commitments_def jget_def same_keys_def demo_evidence_def field_of_def
        demo_source_committed max_stage_list_items_def del: dumps.simps)
  have evidence: "sha256_fingerprint demo_digest (JObj demo_evidence) = Inr (replicate 64 (CHR ''0''))"
  proof -
    have "dumps (JObj demo_evidence) ! 2 = CHR ''s''"
      by (rule dumps_second) (simp_all add: demo_evidence_def escape_def quote_char_def escape_char_def)
    then show ?thesis by (simp add: sha256_fingerprint_def rail_context_bytes demo_digest_def lower_hex_def)
  qed
  have body: "packet_identity_mapping demo_packet =
    [(''job_id'', JStr ''job''), (''company_id'', JStr ''co''), (''stage_id'', JStr ''outline''), (''sequence'', JInt 0),
     (''approval_record_id'', jopt (Some ''apr'')), (''approved_plan_fingerprint'', jopt (Some demo_hash)),
     (''snapshot_hash'', JStr (replicate 64 (CHR ''e''))), (''evidence_hash'', JStr (replicate 64 (CHR ''0''))),
     (''provider_id'', JStr supervised_provider_id), (''model_id'', JStr supervised_model_id),
     (''designated_session_ref'', JStr ''session''), (''prompt_template_version'', JStr supervised_pipeline_version),
     (''previous_completion_hash'', JNull), (''prompt'', JStr rail_prompt)]"
    by (simp add: packet_identity_mapping_def demo_packet_def jopt_def)
  have fingerprint: "sha256_fingerprint demo_digest (JObj (packet_identity_mapping demo_packet)) = Inr (replicate 64 (CHR ''a''))"
    by (simp add: sha256_fingerprint_def demo_packet_text demo_packet_digest del: dumps.simps)
  have "packet_view (packet_value demo_packet) demo_packet" by (simp add: packet_view_def)
  from make_packet_same [OF demo_packet_ok this]
  have made: "make_stage_packet demo_digest (packet_identity_mapping demo_packet @ [(''input_hash'', JStr (replicate 64 (CHR ''a'')))])
    = Inr demo_packet"
    by (simp add: packet_value_def demo_packet_def)
  have "field_of [(''evidence'', JObj demo_evidence)] ''evidence'' = JObj demo_evidence"
    by (simp add: field_of_def jget_def)
  with binding commitments evidence fingerprint made [unfolded body append_Cons append_Nil] rail_prompt_built show ?thesis
    unfolding build_stage_packet_def snap
    by (simp add: job snap rail_context_def non_empty_tidy tidy STAGE_IDS_def body [symmetric])
qed

section \<open>The run\<close>

definition demo_run_key :: rail_key where "demo_run_key = (''co'', ''job'')"

definition rail_demo_now :: "nat \<Rightarrow> instant" where "rail_demo_now n = demo_instant (int n)"

definition rail_demo :: rail where
  "rail_demo = serve_rail rail_demo_env rail_demo_now (Prepare rail_demo_job rail_demo_snapshot ''session'') empty_rail"

lemma rail_demo_served: "served rail_demo_env rail_demo"
  unfolding rail_demo_def
  by (intro served_request served_empty) (simp add: rail_demo_snapshot_def rail_context_plain)

definition prepared_event :: jval where
  "prepared_event = JObj (event_value demo_run_key 0 None ''PACKET_PREPARED'' demo_now (packet_details demo_packet))"

lemma prepared_event_text: "canonical_json prepared_event = Inr (dumps prepared_event)"
  unfolding prepared_event_def
  by (rule within_budget; simp add: event_value_def demo_run_key_def packet_details_def demo_packet_def budget_simps
      utf8_replicate dec_int_def dec.simps jopt_def)

definition demo_row :: rail_job where
  "demo_row = new_run rail_demo_job demo_packet (dumps (JObj (packet_value demo_packet))) (dumps rail_context)"

definition demo_event :: rail_event where
  "demo_event = \<lparr>re_company_id = ''co'', re_job_id = ''job'', re_event_sequence = 0, re_predecessor_hash = None,
      re_event_type = ''PACKET_PREPARED'', re_recorded_at = demo_now, re_event_hash = demo_digest (dumps prepared_event),
      re_event_mac = demo_digest (dumps prepared_event), re_event_json = dumps prepared_event\<rparr>"

lemma demo_row_facts:
  "rail_job_key demo_row = demo_run_key" "rail_job_row_ok demo_row" "rj_event_count demo_row = 0"
  "rj_event_head_hash demo_row = None"
  by (simp_all add: demo_row_def rail_job_key_def new_run_def rail_demo_job_def demo_run_key_def rail_job_row_ok_def
      demo_packet_def hex_or_null_def lower_hex_def)

lemma demo_append:
  assumes l: "l = \<lparr>rl_jobs = [demo_row], rl_packets = [p], rl_completions = [], rl_events = []\<rparr>"
  shows "append_event rail_demo_env demo_run_key ''PACKET_PREPARED'' (packet_details demo_packet) (demo_instant 0) l
    = Inr (l\<lparr>rl_events := [demo_event], rl_jobs := [headed demo_row demo_event]\<rparr>)"
proof -
  let ?l = "l\<lparr>rl_events := [demo_event]\<rparr>"
  have row: "run_row l demo_run_key = Some demo_row" by (simp add: l run_row_def demo_row_facts)
  have key: "event_key demo_event = demo_run_key" by (simp add: event_key_def demo_run_key_def demo_event_def)
  have "insert_event rail_demo_env demo_event l = Inr ?l"
    by (simp add: insert_event_def events_append_next_def key row) (simp add: l run_events_def rail_event_row_ok_def
        hex_or_null_def rail_demo_env_def demo_event_def demo_row_facts)
  moreover have "update_run True
        (\<lambda>r. rail_job_key r = demo_run_key \<and> rj_event_count r = 0 \<and> rj_event_head_hash r = None)
        (\<lambda>r. r\<lparr>rj_event_count := 1, rj_event_head_hash := Some (demo_digest (dumps prepared_event)),
               rj_event_head_mac := Some (demo_digest (dumps prepared_event))\<rparr>) ?l
     = Inr (?l\<lparr>rl_jobs := [headed demo_row demo_event]\<rparr>, 1)"
  proof -
    let ?new = "headed demo_row demo_event"
    have new: "demo_row\<lparr>rj_event_count := 1, rj_event_head_hash := Some (demo_digest (dumps prepared_event)),
        rj_event_head_mac := Some (demo_digest (dumps prepared_event))\<rparr> = ?new"
      by (simp add: headed_def demo_row_facts demo_event_def)
    have "rail_job_row_ok ?new"
      using demo_row_facts(2) by (simp add: rail_job_row_ok_def headed_def demo_row_facts hex_or_null_def demo_event_def)
    moreover have "event_head_next ?l demo_row ?new"
      using key by (simp add: event_head_next_def run_events_def demo_row_facts headed_def demo_event_def)
    ultimately have "rail_job_chk (True, ?l) [] demo_row ?new = Pass"
      using headed_binding [of demo_row demo_event]
      by (simp add: rail_job_chk_def packet_head_next_def artifact_initial_bind_def artifact_no_rebind_def)
        (simp add: demo_row_def new_run_def)
    then show ?thesis
      by (simp add: update_run_def l demo_row_facts new del: dumps.simps)
  qed
  moreover have "\<lparr>re_company_id = fst demo_run_key, re_job_id = snd demo_run_key, re_event_sequence = 0,
      re_predecessor_hash = None, re_event_type = ''PACKET_PREPARED'', re_recorded_at = demo_now,
      re_event_hash = demo_digest (dumps prepared_event), re_event_mac = demo_digest (dumps prepared_event),
      re_event_json = dumps prepared_event\<rparr> = demo_event"
    by (simp add: demo_event_def demo_run_key_def)
  moreover have "rv_sha256 rail_demo_env = demo_digest" "rv_mac rail_demo_env = demo_digest"
    by (simp_all add: rail_demo_env_def)
  ultimately show ?thesis
    using prepared_event_text
    by (simp add: append_event_def row demo_row_facts prepared_event_def [symmetric] demo_time_def [symmetric]
        sha256_fingerprint_def del: dumps.simps)
qed

lemma rail_demo_rows:
  "rail_demo = \<lparr>rl_jobs = [headed demo_row demo_event],
     rl_packets = [packet_row demo_packet (dumps (JObj (packet_value demo_packet)))], rl_completions = [],
     rl_events = [demo_event]\<rparr>"
proof -
  let ?enc = "dumps (JObj (packet_value demo_packet))"
  let ?row = "packet_row demo_packet ?enc"
  let ?l1 = "\<lparr>rl_jobs = [], rl_packets = [?row], rl_completions = [], rl_events = []\<rparr>"
  have snap: "sn_compiled_context rail_demo_snapshot = rail_context" by (simp add: rail_demo_snapshot_def)
  have ins: "insert_packet ?row empty_rail = Inr ?l1"
    by (simp add: insert_packet_def run_packets_def empty_rail_def)
  have run: "insert_rail_job demo_row ?l1 = Inr (?l1\<lparr>rl_jobs := [demo_row]\<rparr>)"
    using demo_row_facts(2) by (simp add: insert_rail_job_def)
  have key: "(pk_company_id demo_packet, pk_job_id demo_packet) = demo_run_key"
    by (simp add: demo_run_key_def demo_packet_def)
  have "start_run rail_demo_env rail_demo_job demo_packet ?enc (dumps rail_context) (demo_instant 0) empty_rail
      = Inr (demo_packet, ?l1\<lparr>rl_events := [demo_event], rl_jobs := [headed demo_row demo_event]\<rparr>)"
    unfolding start_run_def demo_row_def [symmetric] key
    by (simp add: ins run demo_append [OF refl] del: dumps.simps)
  moreover have "build_stage_packet (rv_sha256 rail_demo_env) (rv_screens rail_demo_env) rail_demo_job rail_demo_snapshot
      ''outline'' 0 ''session'' = Inr demo_packet"
    using demo_packet_built by (simp add: rail_demo_env_def)
  ultimately show ?thesis
    by (simp add: rail_demo_def prepare_packet_def snap demo_packet_text rail_context_bytes commit_rail_def
        rail_demo_now_def del: dumps.simps) (simp add: empty_rail_def run_row_def)
qed

lemma rail_demo_run: "run_row rail_demo demo_run_key = Some (headed demo_row demo_event)"
  using binding_fields(3) [OF headed_binding, of demo_row demo_event]
  by (simp add: rail_demo_rows run_row_def demo_row_facts)

section \<open>The digests of the demo run\<close>

lemma prepared_event_digest: "demo_digest (dumps prepared_event) = replicate 64 (CHR ''c'')"
proof -
  have "dumps prepared_event ! 2 = CHR ''c''"
    unfolding prepared_event_def
    by (rule dumps_second) (simp_all add: event_value_def escape_def quote_char_def escape_char_def)
  then show ?thesis by (simp add: demo_digest_def lower_hex_def)
qed

text \<open>The demo run beside a row of another company.\<close>

definition rail_demo_neighbour :: rail where
  "rail_demo_neighbour = rail_demo\<lparr>rl_jobs := rl_jobs rail_demo @ [demo_row\<lparr>rj_company_id := ''other''\<rparr>]\<rparr>"

lemma demo_headed_key: "rail_job_key (headed demo_row demo_event) = demo_run_key"
  using binding_fields(3) [OF headed_binding, of demo_row demo_event] demo_row_facts(1) by simp

lemma rail_demo_view:
  "run_view rail_demo demo_run_key = (Some (headed demo_row demo_event),
     [packet_row demo_packet (dumps (JObj (packet_value demo_packet)))], [], [demo_event])"
  by (simp add: run_view_def run_row_def run_packets_def run_completions_def run_events_def rail_demo_rows demo_headed_key
      packet_key_def event_key_def del: dumps.simps)
    (simp add: packet_row_def demo_packet_def demo_event_def demo_run_key_def)

lemma rail_demo_neighbour_view: "run_view rail_demo_neighbour demo_run_key = run_view rail_demo demo_run_key"
  by (simp add: rail_demo_neighbour_def run_view_def run_row_def run_packets_def run_completions_def run_events_def
      rail_demo_rows demo_headed_key)

lemma open_run_view:
  assumes "run_view l k = run_view l' k"
  shows "open_run v l k = open_run v l' k"
proof -
  have "run_row l k = run_row l' k" "run_packets l k = run_packets l' k" "run_completions l k = run_completions l' k"
    "run_events l k = run_events l' k"
    using assms by (simp_all add: run_view_def)
  note same = this
  show ?thesis
    unfolding open_run_def validated_status_def validate_materializations_def completion_lines_def same ..
qed

lemma rail_demo_opens: "\<exists>st. open_run rail_demo_env rail_demo demo_run_key = Inr (headed demo_row demo_event, st)"
  by (rule rail_ok_status [OF served_ok [OF rail_demo_served rail_demo_digests] rail_demo_run]) blast

end
