(* ===== verification/RailCommit.thy ===== *)
theory RailCommit
  imports RailStored
begin

text \<open>
  The head hash of a validated run commits to everything the run stored: as far as the digest tells the
  stored texts apart, two ledgers that validate with the same head hold the same rows.
\<close>

section \<open>The texts a run's digests cover\<close>

definition identity_texts :: "rail_env \<Rightarrow> rail \<Rightarrow> rail_key \<Rightarrow> pystr set" where
  "identity_texts v l k =
     {b. \<exists>row \<in> set (run_packets l k). \<exists>p. load_packet v (rp_packet_json row) = Inr p
           \<and> canonical_json (JObj (packet_identity_mapping p)) = Inr b}"

definition hashed_texts :: "rail_env \<Rightarrow> rail \<Rightarrow> rail_key \<Rightarrow> pystr set" where
  "hashed_texts v l k =
     re_event_json ` set (run_events l k) \<union> rc_completion_json ` set (run_completions l k)
     \<union> identity_texts v l k \<union> rj_context_json ` set_option (run_row l k)"

section \<open>Events\<close>

lemma jopt_inject: "jopt a = jopt b \<longleftrightarrow> a = b"
  by (cases a; cases b) (simp_all add: jopt_def)

lemma authentic_row_eq:
  assumes "authenticate_event v k n pred e = Inr ev" "authenticate_event v k n' pred' e' = Inr ev'"
    "re_event_json e = re_event_json e'" "event_key e = k" "event_key e' = k"
  shows "e = e' \<and> ev = ev' \<and> n = n' \<and> pred = pred'"
proof -
  note 1 = authenticate_event_Inr [OF assms(1)] and 2 = authenticate_event_Inr [OF assms(2)]
  have ev: "ev = ev'" using 1 2 assms(3) by simp
  with 1 2 have "re_event_sequence e = re_event_sequence e'" "re_predecessor_hash e = re_predecessor_hash e'"
    "re_event_type e = re_event_type e'" "re_recorded_at e = re_recorded_at e'"
    by (simp_all add: jopt_inject)
  moreover have "re_event_hash e = re_event_hash e'" "re_event_mac e = re_event_mac e'" using 1 2 assms(3) by simp_all
  ultimately have "e = e'"
    using assms(3-5) by (cases e; cases e') (auto simp: event_key_def)
  with ev 1 2 show ?thesis by simp
qed

lemma chain_determined:
  assumes "authenticate_chain v k 0 None es = Inr evs" "authenticate_chain v k 0 None es' = Inr evs'"
    "chain_hash None es = chain_hash None es'" "\<forall>e \<in> set es \<union> set es'. event_key e = k"
    "inj_on (rv_sha256 v) (re_event_json ` (set es \<union> set es'))"
  shows "es = es' \<and> evs = evs'"
  using assms
proof (induction es arbitrary: evs es' evs' rule: rev_induct)
  case Nil
  then have "es' = []" by (simp add: chain_hash_def split: if_split_asm)
  with Nil show ?case by simp
next
  case (snoc e es)
  from snoc.prems(3) obtain fs f where es': "es' = fs @ [f]"
    by (cases es' rule: rev_cases) (simp_all add: chain_hash_def)
  from snoc.prems(1) obtain evs0 ev where e: "authenticate_chain v k 0 None es = Inr evs0"
    "authenticate_event v k (length es) (chain_hash None es) e = Inr ev" "evs = evs0 @ [ev]"
    by (auto simp: authenticate_chain_append bnd_eq_Inr)
  from snoc.prems(2) obtain fvs0 fv where f: "authenticate_chain v k 0 None fs = Inr fvs0"
    "authenticate_event v k (length fs) (chain_hash None fs) f = Inr fv" "evs' = fvs0 @ [fv]"
    by (auto simp: es' authenticate_chain_append bnd_eq_Inr)
  from snoc.prems(3) have "re_event_hash e = re_event_hash f" by (simp add: es' chain_hash_def)
  with authenticate_event_Inr [OF e(2)] authenticate_event_Inr [OF f(2)]
  have "rv_sha256 v (re_event_json e) = rv_sha256 v (re_event_json f)" by simp
  then have "re_event_json e = re_event_json f"
    using inj_onD [OF snoc.prems(5), of "re_event_json e" "re_event_json f"] by (simp add: es')
  moreover have "event_key e = k" "event_key f = k" using snoc.prems(4) by (simp_all add: es')
  ultimately have same: "e = f" "ev = fv" "chain_hash None es = chain_hash None fs"
    using authentic_row_eq [OF e(2) f(2)] by simp_all
  have "es = fs \<and> evs0 = fvs0"
    by (rule snoc.IH [OF e(1) f(1) same(3)])
      (use snoc.prems(4,5) in \<open>auto simp: es' intro: inj_on_subset\<close>)
  with same e(3) f(3) es' show ?case by simp
qed

lemma run_events_key: "e \<in> set (event_rows l k) \<Longrightarrow> event_key e = k \<and> e \<in> set (run_events l k)"
  by (simp add: event_rows_def run_events_def)

section \<open>Packets\<close>

lemma canonical_injective:
  assumes "canonical_json (JObj kvs) = Inr s" "canonical_json (JObj kvs') = Inr s" "plain (JObj kvs)" "plain (JObj kvs')"
  shows "canon (field_of kvs key) = canon (field_of kvs' key)"
proof -
  obtain c c' where c: "canon (JObj kvs) = JObj c" "canon (JObj kvs') = JObj c'" by simp
  from parse_dumps [OF assms(3)] parse_dumps [OF assms(4)] canonical_json_Inr [OF assms(1)] canonical_json_Inr [OF assms(2)]
  have "JObj c = JObj c'" using c by simp
  then show ?thesis
    using field_of_canon [OF _ c(1), of key] field_of_canon [OF _ c(2), of key] assms(3,4) by simp
qed

lemma identity_fields:
  "field_of (packet_identity_mapping p) ''job_id'' = JStr (pk_job_id p)"
  "field_of (packet_identity_mapping p) ''company_id'' = JStr (pk_company_id p)"
  "field_of (packet_identity_mapping p) ''stage_id'' = JStr (pk_stage_id p)"
  "field_of (packet_identity_mapping p) ''sequence'' = JInt (pk_sequence p)"
  "field_of (packet_identity_mapping p) ''approval_record_id'' = JStr (pk_approval_record_id p)"
  "field_of (packet_identity_mapping p) ''approved_plan_fingerprint'' = JStr (pk_approved_plan_fingerprint p)"
  "field_of (packet_identity_mapping p) ''snapshot_hash'' = JStr (pk_snapshot_hash p)"
  "field_of (packet_identity_mapping p) ''evidence_hash'' = JStr (pk_evidence_hash p)"
  "field_of (packet_identity_mapping p) ''provider_id'' = JStr (pk_provider_id p)"
  "field_of (packet_identity_mapping p) ''model_id'' = JStr (pk_model_id p)"
  "field_of (packet_identity_mapping p) ''designated_session_ref'' = JStr (pk_designated_session_ref p)"
  "field_of (packet_identity_mapping p) ''prompt_template_version'' = JStr (pk_prompt_template_version p)"
  "field_of (packet_identity_mapping p) ''previous_completion_hash'' = jopt (pk_previous_completion_hash p)"
  "field_of (packet_identity_mapping p) ''prompt'' = JStr (pk_prompt p)"
  by (simp_all add: field_of_def jget_def packet_identity_mapping_def)

lemma packet_identified:
  assumes p: "packet_ok sha p" "packet_ok sha q" "pk_input_hash p = pk_input_hash q"
    and texts: "canonical_json (JObj (packet_identity_mapping p)) = Inr b" "canonical_json (JObj (packet_identity_mapping q)) = Inr c"
      "sha b = sha c \<Longrightarrow> b = c"
  shows "p = q"
proof -
  have "sha b = sha c" using p texts(1,2) by (simp add: packet_ok_def sha256_fingerprint_def)
  with texts have q: "canonical_json (JObj (packet_identity_mapping q)) = Inr b" by simp
  have "plain (JObj (packet_identity_mapping r))" for r by (simp add: packet_identity_mapping_def)
  from canonical_injective [OF texts(1) q this this]
  have "map (\<lambda>key. canon (field_of (packet_identity_mapping p) key)) packet_fields
      = map (\<lambda>key. canon (field_of (packet_identity_mapping q) key)) packet_fields" by simp
  then have "pk_job_id p = pk_job_id q" "pk_company_id p = pk_company_id q" "pk_stage_id p = pk_stage_id q"
    "pk_sequence p = pk_sequence q" "pk_approval_record_id p = pk_approval_record_id q"
    "pk_approved_plan_fingerprint p = pk_approved_plan_fingerprint q" "pk_snapshot_hash p = pk_snapshot_hash q"
    "pk_evidence_hash p = pk_evidence_hash q" "pk_provider_id p = pk_provider_id q" "pk_model_id p = pk_model_id q"
    "pk_designated_session_ref p = pk_designated_session_ref q"
    "pk_prompt_template_version p = pk_prompt_template_version q"
    "pk_previous_completion_hash p = pk_previous_completion_hash q" "pk_prompt p = pk_prompt q"
    by (simp_all add: packet_fields_def identity_fields jopt_inject)
  with p(3) show ?thesis by (cases p; cases q) simp
qed

lemma valid_packet_row:
  assumes "run_valid v l k j x" "i < length (packet_rows l k)"
  obtains h pos b where "mz_packets (rr_materialized x) ! i = (STAGE_IDS ! i, int i, h, pos)"
    "packet_ok (rv_sha256 v) (rr_packets x ! i)" "pk_input_hash (rr_packets x ! i) = h"
    "canonical_json (JObj (packet_value (rr_packets x ! i))) = Inr (rp_packet_json (packet_rows l k ! i))"
    "packet_rows l k ! i = \<lparr>rp_company_id = fst k, rp_job_id = snd k, rp_stage_id = STAGE_IDS ! i, rp_sequence = int i,
       rp_input_hash = h, rp_packet_json = rp_packet_json (packet_rows l k ! i)\<rparr>"
    "canonical_json (JObj (packet_identity_mapping (rr_packets x ! i))) = Inr b" "b \<in> identity_texts v l k"
proof -
  let ?row = "packet_rows l k ! i" and ?p = "rr_packets x ! i"
  have i: "i < length (rr_packets x)" using assms run_valid_lengths(1) by metis
  obtain h pos where m: "mz_packets (rr_materialized x) ! i = (STAGE_IDS ! i, int i, h, pos)"
    and c: "check_packet v j (STAGE_IDS ! i, int i, h, pos) ?row = Inr ?p"
    using run_valid_packet [OF assms(1) i] by blast
  note q = check_packet_Inr [OF c]
  have "?row \<in> set (packet_rows l k)" using assms(2) by simp
  then have row: "?row \<in> set (run_packets l k)" "packet_key ?row = k"
    by (simp_all add: packet_rows_def run_packets_def)
  obtain b where b: "canonical_json (JObj (packet_identity_mapping ?p)) = Inr b"
    using q by (auto simp: packet_ok_def sha256_fingerprint_def bnd_eq_Inr)
  with q row(1) have "b \<in> identity_texts v l k" unfolding identity_texts_def by blast
  moreover have "?row = \<lparr>rp_company_id = fst k, rp_job_id = snd k, rp_stage_id = STAGE_IDS ! i, rp_sequence = int i,
       rp_input_hash = h, rp_packet_json = rp_packet_json ?row\<rparr>"
    using q row(2) by (cases ?row) (auto simp: packet_key_def)
  ultimately show thesis using that m q b by blast
qed

lemma packets_determined:
  assumes "run_valid v l k j x" "run_valid v l' k j' x'" "rr_materialized x = rr_materialized x'"
    and inj: "inj_on (rv_sha256 v) (identity_texts v l k \<union> identity_texts v l' k)"
  shows "rr_packets x = rr_packets x' \<and> packet_rows l k = packet_rows l' k"
proof -
  note len = run_valid_lengths [OF assms(1)] run_valid_lengths [OF assms(2)]
  have n: "length (packet_rows l k) = length (packet_rows l' k)" using len assms(3) by simp
  have same: "rr_packets x ! i = rr_packets x' ! i \<and> packet_rows l k ! i = packet_rows l' k ! i"
    if i: "i < length (packet_rows l k)" for i
  proof -
    obtain h pos b where 1: "mz_packets (rr_materialized x) ! i = (STAGE_IDS ! i, int i, h, pos)"
      "packet_ok (rv_sha256 v) (rr_packets x ! i)" "pk_input_hash (rr_packets x ! i) = h"
      "canonical_json (JObj (packet_value (rr_packets x ! i))) = Inr (rp_packet_json (packet_rows l k ! i))"
      "packet_rows l k ! i = \<lparr>rp_company_id = fst k, rp_job_id = snd k, rp_stage_id = STAGE_IDS ! i, rp_sequence = int i,
         rp_input_hash = h, rp_packet_json = rp_packet_json (packet_rows l k ! i)\<rparr>"
      "canonical_json (JObj (packet_identity_mapping (rr_packets x ! i))) = Inr b" "b \<in> identity_texts v l k"
      by (rule valid_packet_row [OF assms(1) i])
    obtain h' pos' b' where 2: "mz_packets (rr_materialized x') ! i = (STAGE_IDS ! i, int i, h', pos')"
      "packet_ok (rv_sha256 v) (rr_packets x' ! i)" "pk_input_hash (rr_packets x' ! i) = h'"
      "canonical_json (JObj (packet_value (rr_packets x' ! i))) = Inr (rp_packet_json (packet_rows l' k ! i))"
      "packet_rows l' k ! i = \<lparr>rp_company_id = fst k, rp_job_id = snd k, rp_stage_id = STAGE_IDS ! i, rp_sequence = int i,
         rp_input_hash = h', rp_packet_json = rp_packet_json (packet_rows l' k ! i)\<rparr>"
      "canonical_json (JObj (packet_identity_mapping (rr_packets x' ! i))) = Inr b'" "b' \<in> identity_texts v l' k"
      by (rule valid_packet_row [OF assms(2) i [unfolded n]])
    have h: "h = h'" using 1(1) 2(1) assms(3) by simp
    have "b = b'" if "rv_sha256 v b = rv_sha256 v b'"
      using inj that 1(7) 2(7) by (auto dest: inj_onD)
    from packet_identified [OF 1(2) 2(2) _ 1(6) 2(6) this] 1(3) 2(3) h have p: "rr_packets x ! i = rr_packets x' ! i" by simp
    with 1(4) 2(4) have "rp_packet_json (packet_rows l k ! i) = rp_packet_json (packet_rows l' k ! i)" by simp
    with 1(5) 2(5) h p show ?thesis by metis
  qed
  have "rr_packets x = rr_packets x'"
    by (rule nth_equalityI) (use len n same in simp_all)
  moreover have "packet_rows l k = packet_rows l' k"
    by (rule nth_equalityI) (use n same in simp_all)
  ultimately show ?thesis ..
qed

section \<open>Completions\<close>

text \<open>A completion as it is stored: stage, input hash, completion hash and text.\<close>

definition stored_completions :: "rail \<Rightarrow> rail_key \<Rightarrow> (pystr \<times> pystr \<times> pystr \<times> pystr) list" where
  "stored_completions l k =
     map (\<lambda>(stage, _, input, h, json). (stage, input, h, json)) (completion_lines l k)"

lemma valid_completion_row:
  assumes "run_valid v l k j x" "i < length (completion_lines l k)"
  obtains stage input pos json where
    "mz_accepted (rr_materialized x) ! i = (stage, input, rv_sha256 v json, pos)"
    "stored_completions l k ! i = (stage, input, rv_sha256 v json, json)" "json \<in> rc_completion_json ` set (run_completions l k)"
proof -
  have "completions_valid v l k x" using assms(1) by (simp add: run_valid_def)
  with assms(2) have c: "check_completion v k (rr_context x) (rr_packets x) (mz_accepted (rr_materialized x) ! i)
      (completion_lines l k ! i) = Inr (rr_hashes x ! i)"
    unfolding completions_valid_def check_completions_Inr by simp
  obtain stage input ch pos where acc: "mz_accepted (rr_materialized x) ! i = (stage, input, ch, pos)"
    by (metis prod_cases4)
  obtain rs seq ri rh json where row: "completion_lines l k ! i = (rs, seq, ri, rh, json)" by (metis prod_cases5)
  from check_completion_Inr [OF c [unfolded acc row]] have "rs = stage" "ri = input" "rh = ch" "ch = rv_sha256 v json"
    by auto
  moreover have "json \<in> rc_completion_json ` set (run_completions l k)"
    using completion_line_stored nth_mem [OF assms(2)] row by fastforce
  ultimately show thesis
    using that acc row assms(2) by (simp add: stored_completions_def)
qed

lemma completions_determined:
  assumes "run_valid v l k j x" "run_valid v l' k j' x'" "rr_materialized x = rr_materialized x'"
    and inj: "inj_on (rv_sha256 v) (rc_completion_json ` set (run_completions l k) \<union> rc_completion_json ` set (run_completions l' k))"
  shows "stored_completions l k = stored_completions l' k"
proof (rule nth_equalityI)
  have "completions_valid v l k x" "completions_valid v l' k x'" using assms(1,2) by (simp_all add: run_valid_def)
  then have n: "length (completion_lines l k) = length (completion_lines l' k)"
    using assms(3) by (simp add: completions_valid_def)
  then show "length (stored_completions l k) = length (stored_completions l' k)" by (simp add: stored_completions_def)
  fix i assume "i < length (stored_completions l k)"
  then have i: "i < length (completion_lines l k)" by (simp add: stored_completions_def)
  obtain stage input pos json where 1: "mz_accepted (rr_materialized x) ! i = (stage, input, rv_sha256 v json, pos)"
    "stored_completions l k ! i = (stage, input, rv_sha256 v json, json)" "json \<in> rc_completion_json ` set (run_completions l k)"
    by (rule valid_completion_row [OF assms(1) i])
  obtain stage' input' pos' json' where 2: "mz_accepted (rr_materialized x') ! i = (stage', input', rv_sha256 v json', pos')"
    "stored_completions l' k ! i = (stage', input', rv_sha256 v json', json')" "json' \<in> rc_completion_json ` set (run_completions l' k)"
    by (rule valid_completion_row [OF assms(2) i [unfolded n]])
  have "stage = stage'" "input = input'" "rv_sha256 v json = rv_sha256 v json'" using 1(1) 2(1) assms(3) by simp_all
  moreover from this(3) have "json = json'" using inj 1(3) 2(3) by (auto dest: inj_onD)
  ultimately show "stored_completions l k ! i = stored_completions l' k ! i" using 1(2) 2(2) by simp
qed

section \<open>The job row\<close>

lemma context_determined:
  assumes "check_context v j = Inr cx" "check_context v j' = Inr cx'" "rj_snapshot_hash j = rj_snapshot_hash j'"
    "inj_on (rv_sha256 v) {rj_context_json j, rj_context_json j'}"
  shows "rj_context_json j = rj_context_json j'"
proof -
  have hash: "rv_sha256 v (rj_context_json i) = rj_snapshot_hash i" if "check_context v i = Inr c" for i c
    using that by (auto simp: check_context_def bnd_eq_Inr sha256_fingerprint_def
        split: option.split_asm jval.split_asm if_split_asm)
  from hash [OF assms(1)] hash [OF assms(2)] assms(3,4) show ?thesis by (auto dest: inj_onD)
qed

lemma committed_run:
  assumes run: "run_valid v l k j x" "run_valid v l' k j' x'"
    and head: "rj_event_head_hash j = rj_event_head_hash j'"
    and inj: "inj_on (rv_sha256 v) (hashed_texts v l k \<union> hashed_texts v l' k)"
  shows "event_rows l k = event_rows l' k \<and> packet_rows l k = packet_rows l' k
    \<and> stored_completions l k = stored_completions l' k \<and> (rj_status j = rj_status j' \<longrightarrow> j = j')"
proof -
  note valid = run [unfolded run_valid_def chain_valid_def packets_valid_def]
  have es: "event_rows l k \<noteq> []" "event_rows l' k \<noteq> []" using valid by auto
  have "chain_hash None (event_rows l k) = chain_hash None (event_rows l' k)"
    using valid head es by (simp add: chain_hash_def)
  moreover have "inj_on (rv_sha256 v) (re_event_json ` (set (event_rows l k) \<union> set (event_rows l' k)))"
    by (rule inj_on_subset [OF inj]) (auto simp: hashed_texts_def dest: run_events_key)
  ultimately have events: "event_rows l k = event_rows l' k \<and> rr_events x = rr_events x'"
    using valid by (intro chain_determined) (auto dest: run_events_key)
  then have m: "rr_materialized x = rr_materialized x'" using valid by simp
  have packets: "rr_packets x = rr_packets x' \<and> packet_rows l k = packet_rows l' k"
    by (rule packets_determined [OF run m inj_on_subset [OF inj]]) (auto simp: hashed_texts_def)
  have completions: "stored_completions l k = stored_completions l' k"
    by (rule completions_determined [OF run m inj_on_subset [OF inj]]) (auto simp: hashed_texts_def)
  have "j = j'" if status: "rj_status j = rj_status j'"
  proof -
    have "rr_packets x \<noteq> []" using run_valid_lengths [OF run(1)] by simp
    then have zero: "0 < length (rr_packets x)" by simp
    have binding: "rj_approval_record_id j = rj_approval_record_id j'"
      "rj_approved_plan_fingerprint j = rj_approved_plan_fingerprint j'" "rj_snapshot_hash j = rj_snapshot_hash j'"
      "rj_evidence_hash j = rj_evidence_hash j'"
      using run_valid_stages [OF run(1)] run_valid_stages [OF run(2)] packets zero
      unfolding stage_packets_def by metis+
    have rows: "run_row l k = Some j" "run_row l' k = Some j'" using valid by simp_all
    then have keys: "rail_job_key j = rail_job_key j'" using run_row_key by metis
    have frozen_context: "rj_context_json j = rj_context_json j'"
      by (rule context_determined [of v j "rr_context x" j' "rr_context x'", OF _ _ binding(3) inj_on_subset [OF inj]])
        (use valid rows in \<open>auto simp: hashed_texts_def\<close>)
    have "artifact_matches j (rr_materialized x)" "artifact_matches j' (rr_materialized x)" using valid m by simp_all
    then have artifact: "rj_artifact_manifest_path j = rj_artifact_manifest_path j'"
      "rj_artifact_manifest_hash j = rj_artifact_manifest_hash j'"
      by (auto simp: artifact_matches_def split: option.split_asm)
    have counts: "rj_event_count j = rj_event_count j'" "rj_event_head_mac j = rj_event_head_mac j'"
      using valid events by auto
    have json: "rj_packet_json j = rj_packet_json j'" using valid packets by simp
    show ?thesis
      using status binding keys frozen_context artifact counts json head
      by (cases j; cases j') (simp add: rail_job_key_def)
  qed
  with events packets completions show ?thesis by blast
qed

end
