(* ===== verification/RailProperties.thy ===== *)
theory RailProperties
  imports RailDemo RailCommit
begin

text \<open>
  The properties of the supervised rail: what a validated status proves, what the head hash commits to,
  how runs may move, and that the operations never write a run the validation refuses.
\<close>

section \<open>The operations never break a run\<close>

text \<open>
  C5. Whatever well-formed requests are served from the empty ledger on, every stored run can be opened:
  its whole event chain, packets, completions and artifact pass the validation every method starts with,
  and the status it reports is the stored one.  (SHA-256 returns 64 hexadecimal digits; JSON dicts have
  unique keys; completions come out of their constructors.)
\<close>

theorem rail_stays_valid:
  assumes "served v l" "digests_ok v" "run_row l k = Some j"
  shows "\<exists>st. open_run v l k = Inr (j, st) \<and> rj_status j = status_text st
    \<and> supervised_run_status v (fst k) (snd k) l = Inr st"
proof -
  from served_ok [OF assms(1,2)] assms(3) obtain st where "open_run v l k = Inr (j, st)" "rj_status j = status_text st"
    by (rule rail_ok_status)
  then show ?thesis by (simp add: supervised_run_status_def)
qed

lemma rail_stays_valid_witness:
  "\<exists>st. supervised_run_status rail_demo_env ''co'' ''job'' rail_demo = Inr st"
  using rail_stays_valid [OF rail_demo_served rail_demo_digests rail_demo_run]
  by (auto simp: demo_run_key_def)

section \<open>What a validated status proves\<close>

text \<open>
  C7. If a run opens, its ledger rows back it, whoever wrote them: the frozen context has the snapshot
  hash; the packets are a prefix of the four stages, built for exactly this run, plan, snapshot and
  evidence, and the outstanding packet is the last of them; every accepted completion answers its packet
  (identity, session, provider and model, valid payload, frozen sources) and has the stored hash; every
  later packet names the hash of a stored completion of the packet before it; and a final status means
  that all four stages are answered, a frozen one that the artifact is bound.
\<close>

theorem validated_run_backed:
  assumes "open_run v l k = Inr (j, st)"
  shows "\<exists>cx ps hs. check_context v j = Inr cx \<and> stage_packets j k ps \<and> load_packet v (rj_packet_json j) = Inr (last ps)
    \<and> length hs \<le> length ps
    \<and> (\<forall>i < length hs. \<exists>c. completion_answers v cx (ps ! i) c \<and> completion_stored v l k c (hs ! i))
    \<and> (\<forall>i. Suc i < length ps \<longrightarrow> (\<exists>c h. pk_previous_completion_hash (ps ! Suc i) = Some h
          \<and> oc_input_hash c = pk_input_hash (ps ! i) \<and> completion_stored v l k c h))
    \<and> (st = FINAL_QA_READY \<or> st = ARTIFACT_FROZEN \<longrightarrow> length ps = length STAGE_IDS \<and> length hs = length STAGE_IDS)
    \<and> (st = ARTIFACT_FROZEN \<longrightarrow> rj_artifact_manifest_path j \<noteq> None \<and> rj_artifact_manifest_hash j \<noteq> None)"
proof -
  from assms obtain x where x: "run_valid v l k j x"
    and last: "expected_by_event (re_event_type (last (event_rows l k))) = Some st"
    unfolding open_run_Inr by blast
  let ?hs = "map snd (rr_hashes x)"
  have answers: "\<forall>i < length ?hs. \<exists>c. completion_answers v (rr_context x) (rr_packets x ! i) c \<and> completion_stored v l k c (?hs ! i)"
  proof (intro allI impI)
    fix i assume "i < length ?hs"
    with run_valid_completion [OF x, of i] show "\<exists>c. completion_answers v (rr_context x) (rr_packets x ! i) c
        \<and> completion_stored v l k c (?hs ! i)" by auto
  qed
  have "length ?hs \<le> length (rr_packets x)"
  proof (rule ccontr)
    assume "\<not> ?thesis"
    then have "length (rr_packets x) < length (rr_hashes x)" by simp
    from run_valid_completion [OF x this] show False by simp
  qed
  moreover have "check_context v j = Inr (rr_context x)" using x by (simp add: run_valid_def)
  moreover have "st = FINAL_QA_READY \<or> st = ARTIFACT_FROZEN
      \<longrightarrow> length (rr_packets x) = length STAGE_IDS \<and> length ?hs = length STAGE_IDS"
    "st = ARTIFACT_FROZEN \<longrightarrow> rj_artifact_manifest_path j \<noteq> None \<and> rj_artifact_manifest_hash j \<noteq> None"
    using run_valid_final [OF x last] by auto
  ultimately show ?thesis
    using run_valid_stages [OF x] run_valid_head [OF x] run_valid_chained [OF x] answers
    by (intro exI [of _ "rr_context x"] exI [of _ "rr_packets x"] exI [of _ ?hs] conjI) blast+
qed

lemma validated_run_backed_witness:
  "\<exists>cx ps. check_context rail_demo_env (headed demo_row demo_event) = Inr cx
     \<and> stage_packets (headed demo_row demo_event) demo_run_key ps
     \<and> load_packet rail_demo_env (rj_packet_json (headed demo_row demo_event)) = Inr (last ps)"
proof -
  from rail_demo_opens obtain st where "open_run rail_demo_env rail_demo demo_run_key = Inr (headed demo_row demo_event, st)"
    by blast
  from validated_run_backed [OF this] show ?thesis by blast
qed

section \<open>The head hash commits to the run\<close>

text \<open>
  C6. As far as SHA-256 tells the stored texts apart, the head hash of a run commits to all it stored:
  two ledgers in which the run validates with the same head hold the same events, packets and completions,
  and the same job row, so nothing can be changed, dropped, added or reordered without changing the head.
\<close>

theorem head_hash_commits_run:
  assumes "open_run v l k = Inr (j, st)" "open_run v l' k = Inr (j', st')"
    and "rj_event_head_hash j = rj_event_head_hash j'"
    and "inj_on (rv_sha256 v) (hashed_texts v l k \<union> hashed_texts v l' k)"
  shows "event_rows l k = event_rows l' k \<and> packet_rows l k = packet_rows l' k
    \<and> stored_completions l k = stored_completions l' k \<and> j = j' \<and> st = st'"
proof -
  from assms(1,2) obtain x x' where x: "run_valid v l k j x" "run_valid v l' k j' x'"
    and status: "rj_status j = status_text st" "rj_status j' = status_text st'"
    and last: "expected_by_event (re_event_type (last (event_rows l k))) = Some st"
      "expected_by_event (re_event_type (last (event_rows l' k))) = Some st'"
    unfolding open_run_Inr by blast
  note same = committed_run [OF x assms(3,4)]
  with last have "st = st'" by simp
  with same status show ?thesis by simp
qed

lemma demo_texts_told_apart:
  assumes "run_view l demo_run_key = run_view rail_demo demo_run_key"
  shows "hashed_texts rail_demo_env l demo_run_key
    = {dumps prepared_event, dumps (JObj (packet_identity_mapping demo_packet)), dumps rail_context}"
proof -
  let ?enc = "dumps (JObj (packet_value demo_packet))"
  have view: "run_row l demo_run_key = Some (headed demo_row demo_event)" "run_packets l demo_run_key = [packet_row demo_packet ?enc]"
    "run_completions l demo_run_key = []" "run_events l demo_run_key = [demo_event]"
    using assms rail_demo_view by (simp_all add: run_view_def del: dumps.simps)
  have "load_packet rail_demo_env ?enc = Inr demo_packet"
    by (rule load_packet_stored) (simp_all add: rail_demo_env_def demo_packet_ok demo_packet_text del: dumps.simps)
  then have "identity_texts rail_demo_env l demo_run_key = {dumps (JObj (packet_identity_mapping demo_packet))}"
    by (simp add: identity_texts_def view demo_packet_text packet_row_def del: dumps.simps)
  moreover have "rj_context_json (headed demo_row demo_event) = dumps rail_context"
    using binding_fields(1) [OF headed_binding, of demo_row demo_event] by (simp add: demo_row_def new_run_def)
  ultimately show ?thesis
    by (auto simp: hashed_texts_def view demo_event_def simp del: dumps.simps)
qed

lemma head_hash_commits_run_witness:
  "event_rows rail_demo_neighbour demo_run_key = event_rows rail_demo demo_run_key
   \<and> packet_rows rail_demo_neighbour demo_run_key = packet_rows rail_demo demo_run_key"
proof -
  from rail_demo_opens obtain st where st: "open_run rail_demo_env rail_demo demo_run_key = Inr (headed demo_row demo_event, st)"
    by blast
  then have "open_run rail_demo_env rail_demo_neighbour demo_run_key = Inr (headed demo_row demo_event, st)"
    using open_run_view [OF rail_demo_neighbour_view] by simp
  moreover have "CHR ''c'' \<noteq> CHR ''a''" "CHR ''a'' \<noteq> CHR ''e''" "CHR ''c'' \<noteq> CHR ''e''" by simp_all
  then have "inj_on demo_digest {dumps prepared_event, dumps (JObj (packet_identity_mapping demo_packet)), dumps rail_context}"
    by (simp add: inj_on_def prepared_event_digest demo_packet_digest rail_context_digest del: dumps.simps)
  then have "inj_on (rv_sha256 rail_demo_env) (hashed_texts rail_demo_env rail_demo_neighbour demo_run_key
      \<union> hashed_texts rail_demo_env rail_demo demo_run_key)"
    unfolding demo_texts_told_apart [OF rail_demo_neighbour_view] demo_texts_told_apart [OF refl]
    by (simp add: rail_demo_env_def del: dumps.simps)
  ultimately show ?thesis
    using head_hash_commits_run [OF _ st refl] by blast
qed

section \<open>Runs move forward\<close>

lemma terminal_reaches:
  "status_reaches s t \<Longrightarrow> s = CANCEL_REQUESTED \<or> s = ARTIFACT_FROZEN \<Longrightarrow> t = s"
  by (induction rule: status_reaches.induct) (auto simp: status_edges_def)

lemma terminal_path:
  assumes "status_path (status_text s) b" "s = CANCEL_REQUESTED \<or> s = ARTIFACT_FROZEN"
  shows "b = status_text s"
  using assms terminal_reaches unfolding status_path_def by auto

lemma reaches_keys:
  "rail_reaches v l l' \<Longrightarrow> distinct (map rail_job_key (rl_jobs l)) \<Longrightarrow> distinct (map rail_job_key (rl_jobs l'))"
  by (induction rule: rail_reaches.induct) (auto intro: effect_keys serve_rail_effect)

lemma reaches_evolves: "rail_reaches v l l' \<Longrightarrow> rail_evolves l l'"
  by (induction rule: rail_reaches.induct) (auto intro: rail_evolves_trans serve_rail_evolves)

lemma reaches_status:
  assumes "rail_reaches v l l'" "distinct (map rail_job_key (rl_jobs l))" "(k, a) \<in> set (statuses l)"
  shows "\<exists>b. (k, b) \<in> set (statuses l') \<and> status_path a b"
  using assms
proof (induction rule: rail_reaches.induct)
  case (rail_start l)
  then show ?case by (auto simp: status_path_def)
next
  case (rail_serve l m now q)
  then obtain b where b: "(k, b) \<in> set (statuses m)" "status_path a b" by blast
  have "distinct (map rail_job_key (rl_jobs m))" by (rule reaches_keys [OF rail_serve.hyps rail_serve.prems(1)])
  from effect_row [OF serve_rail_effect [OF this] this b(1)] status_path_step [OF b(2)] show ?case by metis
qed

text \<open>
  C8. Whatever requests are served, a run keeps its frozen binding (approval, plan, snapshot, evidence,
  context) and its artifact once it is bound; its status moves along the edges of the status graph, never
  out of CANCEL_REQUESTED or ARTIFACT_FROZEN; and packets, completions and events are only appended.
  (Company and job identify a row: the table's primary key.)
\<close>

theorem supervised_run_moves_forward:
  assumes "rail_reaches v l l'" "distinct (map rail_job_key (rl_jobs l))" "r \<in> set (rl_jobs l)"
  shows "(\<exists>r' \<in> set (rl_jobs l'). rail_job_key r' = rail_job_key r \<and> rail_run_evolves r r'
      \<and> status_path (rj_status r) (rj_status r')
      \<and> (rj_status r \<in> {status_text CANCEL_REQUESTED, status_text ARTIFACT_FROZEN} \<longrightarrow> rj_status r' = rj_status r))
    \<and> (\<exists>ps cs es. rl_packets l' = rl_packets l @ ps \<and> rl_completions l' = rl_completions l @ cs
         \<and> rl_events l' = rl_events l @ es)"
proof -
  have grown: "rail_evolves l l'" by (rule reaches_evolves [OF assms(1)])
  then obtain r' where r': "r' \<in> set (rl_jobs l')" "rail_job_key r' = rail_job_key r" "rail_run_evolves r r'"
    using runs.table_evolves_row [OF _ assms(3)] unfolding rail_evolves_def by metis
  have "(rail_job_key r, rj_status r) \<in> set (statuses l)" using assms(3) by (force simp: statuses_def)
  from reaches_status [OF assms(1,2) this] obtain r'' where r'': "r'' \<in> set (rl_jobs l')" "rail_job_key r'' = rail_job_key r"
    "status_path (rj_status r) (rj_status r'')"
    by (auto simp: statuses_def)
  have "distinct (map rail_job_key (rl_jobs l'))" by (rule reaches_keys [OF assms(1,2)])
  with r' r'' have same: "r'' = r'" by (metis distinct_map inj_onD)
  then have path: "status_path (rj_status r) (rj_status r')" using r''(3) by simp
  then have "rj_status r \<in> {status_text CANCEL_REQUESTED, status_text ARTIFACT_FROZEN} \<longrightarrow> rj_status r' = rj_status r"
    using terminal_path by auto
  with r' path have "\<exists>r' \<in> set (rl_jobs l'). rail_job_key r' = rail_job_key r \<and> rail_run_evolves r r'
      \<and> status_path (rj_status r) (rj_status r')
      \<and> (rj_status r \<in> {status_text CANCEL_REQUESTED, status_text ARTIFACT_FROZEN} \<longrightarrow> rj_status r' = rj_status r)"
    by blast
  with grown show ?thesis unfolding rail_evolves_def by blast
qed

lemma supervised_run_moves_forward_witness:
  "\<exists>r' \<in> set (rl_jobs (serve_rail rail_demo_env rail_demo_now (RequestCancel ''co'' ''job'' ''op'') rail_demo)).
     rail_job_key r' = demo_run_key \<and> rj_context_json r' = dumps rail_context"
proof -
  have "rail_reaches rail_demo_env rail_demo (serve_rail rail_demo_env rail_demo_now (RequestCancel ''co'' ''job'' ''op'') rail_demo)"
    by (rule rail_serve [OF rail_start])
  moreover have "distinct (map rail_job_key (rl_jobs rail_demo))" "headed demo_row demo_event \<in> set (rl_jobs rail_demo)"
    by (simp_all add: rail_demo_rows)
  ultimately obtain r' where r': "r' \<in> set (rl_jobs (serve_rail rail_demo_env rail_demo_now (RequestCancel ''co'' ''job'' ''op'') rail_demo))"
    "rail_job_key r' = rail_job_key (headed demo_row demo_event)" "rail_run_evolves (headed demo_row demo_event) r'"
    using supervised_run_moves_forward by blast
  have "rj_context_json (headed demo_row demo_event) = dumps rail_context"
    using binding_fields(1) [OF headed_binding, of demo_row demo_event] by (simp add: demo_row_def new_run_def)
  with r' demo_headed_key show ?thesis
    by (intro bexI [of _ r']) (simp_all add: rail_run_evolves_def binding_no_update_def)
qed

end
