(* ===== verification/UrlPolicy.thy ===== *)
theory UrlPolicy
  imports Screening "HOL-Library.Product_Lexorder"
begin

text \<open>
  The URL policy against requests into private networks (\<open>security/url_policy.py\<close>).  \<open>urllib.parse\<close>,
  \<open>ipaddress\<close> and \<open>idna\<close> are library code, collected in \<open>url_library\<close>; the resolver is the caller's.
  A raw value that is not a \<open>str\<close> is any \<open>jval\<close> other than \<open>JStr\<close>.
\<close>

section \<open>Library code\<close>

text \<open>An \<open>IPv4Address\<close> or \<open>IPv6Address\<close> with the attributes the policy reads.\<close>

record ip_value =
  iv_text :: pystr
  iv_version :: nat
  iv_packed :: bytes
  iv_is_global :: bool
  iv_is_private :: bool
  iv_is_loopback :: bool
  iv_is_link_local :: bool
  iv_is_multicast :: bool
  iv_is_reserved :: bool
  iv_is_unspecified :: bool

text \<open>
  \<open>None\<close> is the \<open>ValueError\<close> of \<open>urlsplit\<close> (or of its port), of \<open>urljoin\<close> and of \<open>ip_address\<close>, and the
  \<open>IDNAError\<close> of \<open>idna.encode\<close>.
\<close>

record url_library =
  ul_urlsplit :: "pystr \<Rightarrow> split_url option"
  ul_urlunsplit :: "pystr \<Rightarrow> pystr \<Rightarrow> pystr \<Rightarrow> pystr \<Rightarrow> pystr"
  ul_urljoin :: "pystr \<Rightarrow> pystr \<Rightarrow> pystr option"
  ul_ip_address :: "pystr \<Rightarrow> ip_value option"
  ul_idna :: "pystr \<Rightarrow> pystr option"

datatype url_error = UrlPolicyError | UrlValueError

text \<open>A resolver answers a host name with its addresses (of any type), or raises.\<close>

type_synonym resolver = "pystr \<Rightarrow> jval list option"

record normalized_url =
  nu_url :: pystr
  nu_scheme :: pystr
  nu_hostname :: pystr
  nu_port :: nat
  nu_resolved_addresses :: "pystr list"

section \<open>Host names\<close>

text \<open>\<open>_IPV4_NUMBER\<close> and \<open>_LEGACY_IPV4.fullmatch\<close>: one to four numbers, octal ones being decimal digits.\<close>

definition ipv4_number :: "pystr \<Rightarrow> bool" where
  "ipv4_number w = (w \<noteq> [] \<and> list_all is_digit w \<or> hex_component w)"

definition legacy_ipv4 :: "pystr \<Rightarrow> bool" where
  "legacy_ipv4 s =
     (let parts = split_on (CHR ''.'') s in length parts \<le> 4 \<and> list_all ipv4_number parts)"

definition canonical_hostname ::
  "url_library \<Rightarrow> pystr \<Rightarrow> url_error + (pystr \<times> ip_value option)" where
  "canonical_hostname lib hostname =
     (case ul_ip_address lib hostname of
        Some literal \<Rightarrow> Inr (iv_text literal, Some literal)
      | None \<Rightarrow>
          if CHR '':'' \<in> set hostname \<or> legacy_ipv4 hostname then Inl UrlPolicyError
          else (case ul_idna lib hostname of
                  None \<Rightarrow> Inl UrlPolicyError
                | Some encoded \<Rightarrow>
                    let ascii_host = map lower_char encoded in
                    if ul_ip_address lib ascii_host \<noteq> None \<or> legacy_ipv4 ascii_host
                       \<or> 253 < length ascii_host
                       \<or> \<not> list_all dns_label (split_on (CHR ''.'') ascii_host)
                    then Inl UrlPolicyError else Inr (ascii_host, None)))"

section \<open>Addresses\<close>

definition public_address :: "url_library \<Rightarrow> jval \<Rightarrow> url_error + ip_value" where
  "public_address lib raw =
     (case raw of
        JStr s \<Rightarrow>
          if CHR ''%'' \<in> set s then Inl UrlPolicyError else
          (case ul_ip_address lib s of
             None \<Rightarrow> Inl UrlPolicyError
           | Some a \<Rightarrow>
               if \<not> iv_is_global a \<or> iv_is_private a \<or> iv_is_loopback a \<or> iv_is_link_local a
                  \<or> iv_is_multicast a \<or> iv_is_reserved a \<or> iv_is_unspecified a
               then Inl UrlPolicyError else Inr a)
      | _ \<Rightarrow> Inl UrlPolicyError)"

fun public_addresses :: "url_library \<Rightarrow> jval list \<Rightarrow> url_error + ip_value list" where
  "public_addresses lib [] = Inr []"
| "public_addresses lib (raw # raws) =
     bnd (public_address lib raw) (\<lambda>a. bnd (public_addresses lib raws) (\<lambda>as. Inr (a # as)))"

definition resolved_addresses ::
  "url_library \<Rightarrow> pystr \<Rightarrow> ip_value option \<Rightarrow> resolver \<Rightarrow> url_error + pystr list" where
  "resolved_addresses lib hostname literal resolve =
     (case (case literal of Some a \<Rightarrow> Some [JStr (iv_text a)] | None \<Rightarrow> resolve hostname) of
        None \<Rightarrow> Inl UrlPolicyError
      | Some raw_addresses \<Rightarrow>
          bnd (public_addresses lib raw_addresses) (\<lambda>parsed.
            let addresses = map iv_text (sort_key (\<lambda>a. (iv_version a, iv_packed a)) (remdups parsed)) in
            if addresses = [] then Inl UrlPolicyError else Inr addresses))"

section \<open>Normalization\<close>

definition raw_url_ok :: "pystr \<Rightarrow> bool" where
  "raw_url_ok raw =
     (raw \<noteq> [] \<and> raw = strip raw \<and> \<not> has_space raw
      \<and> list_all (\<lambda>c. 31 < (of_char c :: nat) \<and> (of_char c :: nat) \<noteq> 127) raw
      \<and> CHR 0x5C \<notin> set raw \<and> CHR ''#'' \<notin> set raw \<and> CHR ''%'' \<notin> set (url_authority raw))"

definition default_port :: "pystr \<Rightarrow> nat" where
  "default_port scheme = (if scheme = ''http'' then 80 else 443)"

definition normalize_public_http_url ::
  "url_library \<Rightarrow> jval \<Rightarrow> resolver \<Rightarrow> url_error + normalized_url" where
  "normalize_public_http_url lib value_raw resolve =
     (case value_raw of
        JStr raw \<Rightarrow>
          if \<not> raw_url_ok raw then Inl UrlPolicyError else
          (case ul_urlsplit lib raw of
             None \<Rightarrow> Inl UrlPolicyError
           | Some parsed \<Rightarrow>
               if ends_with '':'' (u_netloc parsed) then Inl UrlPolicyError else
               let scheme = map lower_char (u_scheme parsed) in
               if scheme \<noteq> ''http'' \<and> scheme \<noteq> ''https'' then Inl UrlPolicyError else
               (case u_hostname parsed of
                  None \<Rightarrow> Inl UrlPolicyError
                | Some host \<Rightarrow>
                    if u_username parsed \<noteq> None \<or> u_password parsed \<noteq> None \<or> u_port parsed = Some 0
                    then Inl UrlPolicyError else
                    bnd (canonical_hostname lib host) (\<lambda>(hostname, literal).
                      let effective_port =
                            (case u_port parsed of Some p \<Rightarrow> p | None \<Rightarrow> default_port scheme) in
                      bnd (resolved_addresses lib hostname literal resolve) (\<lambda>addresses.
                        let display_host =
                              (case literal of
                                 Some a \<Rightarrow> if iv_version a = 6 then ''['' @ hostname @ '']'' else hostname
                               | None \<Rightarrow> hostname);
                            netloc =
                              (if effective_port \<noteq> default_port scheme
                               then display_host @ '':'' @ dec effective_port else display_host) in
                        Inr \<lparr>nu_url = ul_urlunsplit lib scheme netloc
                                 (if u_path parsed = [] then ''/'' else u_path parsed) (u_query parsed),
                             nu_scheme = scheme, nu_hostname = hostname, nu_port = effective_port,
                             nu_resolved_addresses = addresses\<rparr>))))
      | _ \<Rightarrow> Inl UrlPolicyError)"

text \<open>
  A redirect target is resolved against the source and passes the whole policy again; a target
  \<open>urljoin\<close> cannot parse leaves as its plain \<open>ValueError\<close>.
\<close>

definition validate_redirect ::
  "url_library \<Rightarrow> normalized_url \<Rightarrow> jval \<Rightarrow> resolver \<Rightarrow> url_error + normalized_url" where
  "validate_redirect lib source target resolve =
     (case target of
        JStr t \<Rightarrow>
          if t = [] \<or> t \<noteq> strip t then Inl UrlPolicyError else
          (case ul_urljoin lib (nu_url source) t of
             None \<Rightarrow> Inl UrlValueError
           | Some joined \<Rightarrow> normalize_public_http_url lib (JStr joined) resolve)
      | _ \<Rightarrow> Inl UrlPolicyError)"

section \<open>What an accepted URL guarantees\<close>

definition public_ip :: "ip_value \<Rightarrow> bool" where
  "public_ip a =
     (iv_is_global a \<and> \<not> iv_is_private a \<and> \<not> iv_is_loopback a \<and> \<not> iv_is_link_local a
      \<and> \<not> iv_is_multicast a \<and> \<not> iv_is_reserved a \<and> \<not> iv_is_unspecified a)"

lemma public_address_ok:
  assumes "public_address lib raw = Inr a"
  shows "public_ip a \<and> (\<exists>s. raw = JStr s \<and> ul_ip_address lib s = Some a \<and> CHR ''%'' \<notin> set s)"
  using assms by (auto simp: public_address_def public_ip_def split: jval.splits option.splits if_splits)

lemma public_addresses_ok:
  assumes "public_addresses lib raws = Inr as"
  shows "list_all2 (\<lambda>raw a. public_ip a \<and> (\<exists>s. raw = JStr s \<and> ul_ip_address lib s = Some a)) raws as"
  using assms
  by (induction raws arbitrary: as) (auto simp: bnd_eq_Inr dest!: public_address_ok)

text \<open>Every answer of the resolver counts: one that is not public refuses the whole URL.\<close>

definition public_answer :: "url_library \<Rightarrow> jval \<Rightarrow> bool" where
  "public_answer lib raw = (\<exists>a s. raw = JStr s \<and> ul_ip_address lib s = Some a \<and> public_ip a)"

lemma resolved_addresses_ok:
  assumes "resolved_addresses lib hostname literal resolve = Inr addresses"
  shows "addresses \<noteq> []
    \<and> (\<forall>x \<in> set addresses. \<exists>a s. ul_ip_address lib s = Some a \<and> public_ip a \<and> x = iv_text a)
    \<and> (case literal of
         None \<Rightarrow> \<exists>raws. resolve hostname = Some raws \<and> (\<forall>raw \<in> set raws. public_answer lib raw)
       | Some a \<Rightarrow> public_answer lib (JStr (iv_text a)))"
proof -
  obtain raws as where raws: "(case literal of Some a \<Rightarrow> Some [JStr (iv_text a)] | None \<Rightarrow> resolve hostname) = Some raws"
    and as: "public_addresses lib raws = Inr as"
    and eq: "addresses = map iv_text (sort_key (\<lambda>a. (iv_version a, iv_packed a)) (remdups as))"
    and ne: "addresses \<noteq> []"
    using assms by (auto simp: resolved_addresses_def bnd_eq_Inr Let_def split: option.splits if_splits)
  note pairs = public_addresses_ok [OF as]
  have "\<exists>s. ul_ip_address lib s = Some a \<and> public_ip a" if "a \<in> set as" for a
    using pairs that by (auto simp: list_all2_conv_all_nth in_set_conv_nth)
  then have "\<forall>x \<in> set addresses. \<exists>a s. ul_ip_address lib s = Some a \<and> public_ip a \<and> x = iv_text a"
    unfolding eq by fastforce
  moreover have "public_answer lib raw" if "raw \<in> set raws" for raw
    using pairs that unfolding public_answer_def by (auto simp: list_all2_conv_all_nth in_set_conv_nth)
  ultimately show ?thesis using raws ne by (auto split: option.splits)
qed

lemma canonical_hostname_ok:
  assumes "canonical_hostname lib host = Inr (hostname, literal)"
  shows "case literal of None \<Rightarrow> ul_ip_address lib hostname = None | Some a \<Rightarrow> hostname = iv_text a"
  using assms by (auto simp: canonical_hostname_def Let_def split: option.splits if_splits)

lemma normalized_ok:
  assumes "normalize_public_http_url lib v resolve = Inr n"
  shows "nu_scheme n \<in> {''http'', ''https''} \<and> nu_port n \<noteq> 0 \<and> nu_resolved_addresses n \<noteq> []
    \<and> (\<forall>x \<in> set (nu_resolved_addresses n). \<exists>a s. ul_ip_address lib s = Some a \<and> public_ip a \<and> x = iv_text a)
    \<and> (ul_ip_address lib (nu_hostname n) = None \<longrightarrow>
         (\<exists>raws. resolve (nu_hostname n) = Some raws \<and> (\<forall>raw \<in> set raws. public_answer lib raw)))"
proof -
  obtain parsed host literal where n: "nu_scheme n \<in> {''http'', ''https''}" "nu_port n \<noteq> 0"
    and host: "canonical_hostname lib host = Inr (nu_hostname n, literal)"
    and addresses: "resolved_addresses lib (nu_hostname n) literal resolve = Inr (nu_resolved_addresses n)"
    using assms
    by (auto simp: normalize_public_http_url_def bnd_eq_Inr Let_def default_port_def
        split: jval.splits option.splits if_splits)
  from canonical_hostname_ok [OF host] resolved_addresses_ok [OF addresses] n show ?thesis
    by (auto simp: public_answer_def split: option.splits)
qed

end
