(* ===== verification/Notifications.thy ===== *)
theory Notifications
  imports UrlPolicy Signatures
begin

text \<open>
  Progress notifications (\<open>services/notifications.py\<close>): the event with its validation, the payload and
  its identity, the construction of the webhook sink, and the sink's shared state.  SHA-256, HMAC and
  \<open>str.isalnum\<close> of a character outside ASCII are parameters; the value handed to \<open>send\<close> and the one
  the catalog returns are untrusted, so they are raw field values.
\<close>

section \<open>Characters of display names\<close>

definition ascii_alnum :: "char \<Rightarrow> bool" where
  "ascii_alnum c = (is_digit c \<or> lower_letter (lower_char c))"

definition is_alnum :: "(pystr \<Rightarrow> bool) \<Rightarrow> pystr \<Rightarrow> bool" where
  "is_alnum wide ch =
     (case ch of [c] \<Rightarrow> (of_char c :: nat) < 128 \<and> ascii_alnum c | _ \<Rightarrow> wide ch)"

text \<open>Guillemets, the numero sign and the two dashes by their units.\<close>

definition allowed_display_punctuation :: "pystr list" where
  "allowed_display_punctuation =
     ['' '', '','', ''&'', [CHR 0x27], ''('', '')'', [CHR 0xC2, CHR 0xAB], [CHR 0xC2, CHR 0xBB],
      [CHR 0xE2, CHR 0x84, CHR 0x96], ''+'', ''-'', [CHR 0xE2, CHR 0x80, CHR 0x93],
      [CHR 0xE2, CHR 0x80, CHR 0x94]]"

text \<open>The scan carries the length of the current alphanumeric run.\<close>

fun opaque_run :: "(pystr \<Rightarrow> bool) \<Rightarrow> nat \<Rightarrow> pystr list \<Rightarrow> bool" where
  "opaque_run wide run_length [] = False"
| "opaque_run wide run_length (ch # chs) =
     (let n = (if is_alnum wide ch then run_length + 1 else 0) in
      20 < n \<or> opaque_run wide n chs)"

definition has_long_opaque_run :: "(pystr \<Rightarrow> bool) \<Rightarrow> pystr \<Rightarrow> bool" where
  "has_long_opaque_run wide s = opaque_run wide 0 (characters s)"

definition display_text_ok :: "(pystr \<Rightarrow> bool) \<Rightarrow> pystr \<Rightarrow> bool" where
  "display_text_ok wide s =
     (s = strip s \<and> \<not> contains ''  '' s \<and> \<not> contains ''--'' s \<and> \<not> has_long_opaque_run wide s
      \<and> list_all (\<lambda>ch. is_alnum wide ch \<or> ch \<in> set allowed_display_punctuation) (characters s))"

section \<open>Events\<close>

datatype event_type = EvProgress | EvRetry | EvCompleted

fun event_type_value :: "event_type \<Rightarrow> pystr" where
  "event_type_value EvProgress = ''progress''"
| "event_type_value EvRetry = ''retry''"
| "event_type_value EvCompleted = ''completed''"

definition event_type_of :: "pystr \<Rightarrow> event_type option" where
  "event_type_of s = find (\<lambda>t. event_type_value t = s) [EvProgress, EvRetry, EvCompleted]"

record notification_event =
  ne_event_id :: pystr
  ne_job_id :: pystr
  ne_event_type :: event_type
  ne_company_display_name :: pystr
  ne_direction_display_name :: pystr
  ne_completed_stage_count :: int
  ne_stage_id :: "pystr option"
  ne_attempt :: int
  ne_elapsed_seconds :: int
  ne_artifact_ready :: bool

text \<open>\<open>Identifier\<close>, and \<open>NonEmptyStr\<close> of at most 120 characters.\<close>

definition is_identifier :: "pystr \<Rightarrow> bool" where
  "is_identifier s =
     (2 \<le> length s \<and> length s \<le> 64 \<and> dns_char (hd s)
      \<and> list_all (\<lambda>c. dns_char c \<or> c = CHR ''-'') (tl s))"

definition display_name_ok :: "(pystr \<Rightarrow> bool) \<Rightarrow> pystr \<Rightarrow> bool" where
  "display_name_ok wide s = (s \<noteq> [] \<and> length (characters s) \<le> 120 \<and> display_text_ok wide s)"

definition event_key_ok :: "notification_event \<Rightarrow> bool" where
  "event_key_ok e =
     (if ne_event_type e = EvCompleted then ne_stage_id e = None \<and> ne_attempt e = 1
      else ne_stage_id e \<noteq> None)"

definition event_ok :: "(pystr \<Rightarrow> bool) \<Rightarrow> notification_event \<Rightarrow> bool" where
  "event_ok wide e =
     (is_identifier (ne_event_id e) \<and> is_identifier (ne_job_id e)
      \<and> display_name_ok wide (ne_company_display_name e)
      \<and> display_name_ok wide (ne_direction_display_name e)
      \<and> 0 \<le> ne_completed_stage_count e \<and> ne_completed_stage_count e \<le> 1000
      \<and> (case ne_stage_id e of None \<Rightarrow> True | Some s \<Rightarrow> is_identifier s)
      \<and> 1 \<le> ne_attempt e \<and> ne_attempt e \<le> 100
      \<and> 0 \<le> ne_elapsed_seconds e \<and> ne_elapsed_seconds e \<le> 2592000
      \<and> event_key_ok e)"

text \<open>
  An untrusted value: \<open>None\<close> unless it is exactly a \<open>NotificationEvent\<close> with all ten attributes, which
  then may hold anything (an instance can be made without validation).
\<close>

type_synonym raw_event = "jval list option"

fun exact_str :: "jval \<Rightarrow> pystr option" where
  "exact_str (JStr s) = Some s"
| "exact_str _ = None"

fun exact_int :: "jval \<Rightarrow> int option" where
  "exact_int (JInt i) = Some i"
| "exact_int _ = None"

fun exact_bool :: "jval \<Rightarrow> bool option" where
  "exact_bool (JBool b) = Some b"
| "exact_bool _ = None"

fun exact_stage :: "jval \<Rightarrow> pystr option option" where
  "exact_stage (JStr s) = Some (Some s)"
| "exact_stage JNull = Some None"
| "exact_stage _ = None"

definition strict_event_copy :: "(pystr \<Rightarrow> bool) \<Rightarrow> raw_event \<Rightarrow> notification_event option" where
  "strict_event_copy wide raw =
     (case raw of
        Some [v0, v1, v2, v3, v4, v5, v6, v7, v8, v9] \<Rightarrow>
          Option.bind (exact_str v0) (\<lambda>event_id. Option.bind (exact_str v1) (\<lambda>job_id.
          Option.bind (exact_str v2) (\<lambda>ty. Option.bind (exact_str v3) (\<lambda>company.
          Option.bind (exact_str v4) (\<lambda>direction. Option.bind (exact_int v5) (\<lambda>count.
          Option.bind (exact_stage v6) (\<lambda>stage_id. Option.bind (exact_int v7) (\<lambda>attempt.
          Option.bind (exact_int v8) (\<lambda>elapsed. Option.bind (exact_bool v9) (\<lambda>ready.
          Option.bind (event_type_of ty) (\<lambda>event_type.
            let e = \<lparr>ne_event_id = event_id, ne_job_id = job_id, ne_event_type = event_type,
                     ne_company_display_name = company, ne_direction_display_name = direction,
                     ne_completed_stage_count = count, ne_stage_id = stage_id, ne_attempt = attempt,
                     ne_elapsed_seconds = elapsed, ne_artifact_ready = ready\<rparr> in
            if event_ok wide e then Some e else None)))))))))))
      | _ \<Rightarrow> None)"

section \<open>Payload and identity\<close>

definition stage_json :: "pystr option \<Rightarrow> jval" where
  "stage_json s = (case s of None \<Rightarrow> JNull | Some t \<Rightarrow> JStr t)"

definition event_json :: "notification_event \<Rightarrow> jval" where
  "event_json e =
     JObj [(''event_id'', JStr (ne_event_id e)), (''job_id'', JStr (ne_job_id e)),
           (''event_type'', JStr (event_type_value (ne_event_type e))),
           (''company_display_name'', JStr (ne_company_display_name e)),
           (''direction_display_name'', JStr (ne_direction_display_name e)),
           (''completed_stage_count'', JInt (ne_completed_stage_count e)),
           (''stage_id'', stage_json (ne_stage_id e)), (''attempt'', JInt (ne_attempt e)),
           (''elapsed_seconds'', JInt (ne_elapsed_seconds e)),
           (''artifact_ready'', JBool (ne_artifact_ready e))]"

definition notification_key :: "notification_event \<Rightarrow> jval" where
  "notification_key e =
     JList [JStr (ne_job_id e), JStr (event_type_value (ne_event_type e)), stage_json (ne_stage_id e),
            JInt (ne_attempt e)]"

definition payload :: "pystr \<Rightarrow> notification_event \<Rightarrow> jval" where
  "payload destination e =
     JObj [(''destination'', JStr destination), (''event'', event_json e), (''event_key'', notification_key e)]"

definition identity_payload :: "pystr \<Rightarrow> notification_event \<Rightarrow> jval" where
  "identity_payload destination e =
     JObj [(''destination'', JStr destination), (''event_key'', notification_key e)]"

text \<open>The body and the idempotency key.\<close>

definition payload_bytes ::
  "(bytes \<Rightarrow> pystr) \<Rightarrow> pystr \<Rightarrow> notification_event \<Rightarrow> exn + (bytes \<times> pystr)" where
  "payload_bytes sha256 destination e =
     bnd (canonical_json (payload destination e)) (\<lambda>body.
     bnd (canonical_json (identity_payload destination e)) (\<lambda>identity.
       Inr (body, sha256 identity)))"

end
