(* ===== verification/Auth.thy ===== *)
theory Auth
  imports Screening CanonicalFacts
begin

text \<open>
  The token and HMAC key files of the Worker API and its bearer check (\<open>api/auth.py\<close>).  What \<open>fstat\<close>
  and \<open>read\<close> answer about the opened file is an argument.
\<close>

datatype auth_error = ApiTokenConfigurationError | ApiAuthenticationError

definition token_bytes :: nat where "token_bytes = 32"
definition token_hex_length :: nat where "token_hex_length = token_bytes * 2"
definition max_authorization_header_chars :: nat where "max_authorization_header_chars = 512"

text \<open>\<open>bytes.fromhex\<close>: pairs of hexadecimal digits, ASCII white space allowed between the pairs.\<close>

definition hex_gap :: "char \<Rightarrow> bool" where
  "hex_gap c = (c = CHR '' '' \<or> 9 \<le> (of_char c :: nat) \<and> (of_char c :: nat) \<le> 13)"

fun from_hex :: "pystr \<Rightarrow> bytes option" where
  "from_hex [] = Some []"
| "from_hex [c] = (if hex_gap c then Some [] else None)"
| "from_hex (c # d # s) =
     (if hex_gap c then from_hex (d # s)
      else case (hex_val c, hex_val d) of
             (Some h, Some l) \<Rightarrow> map_option (Cons (char_of (16 * h + l))) (from_hex s)
           | _ \<Rightarrow> None)"

text \<open>The opened file: its metadata and the bytes a read from its start finds.\<close>

record key_file =
  kf_regular :: bool
  kf_mode :: nat
  kf_owned :: bool
  kf_links :: nat
  kf_bytes :: bytes

text \<open>\<open>None\<close> is the \<open>OSError\<close> of \<open>os.open\<close>; 384 is the mode 0600.\<close>

definition load_api_token :: "key_file option \<Rightarrow> auth_error + bytes" where
  "load_api_token file =
     (case file of
        None \<Rightarrow> Inl ApiTokenConfigurationError
      | Some f \<Rightarrow>
          if \<not> kf_regular f \<or> kf_mode f \<noteq> 384 \<or> \<not> kf_owned f \<or> kf_links f \<noteq> 1
          then Inl ApiTokenConfigurationError else
          let encoded = take (token_hex_length + 1) (kf_bytes f) in
          if length encoded \<noteq> token_hex_length then Inl ApiTokenConfigurationError else
          (case from_hex encoded of
             None \<Rightarrow> Inl ApiTokenConfigurationError
           | Some token \<Rightarrow>
               if length token \<noteq> token_bytes then Inl ApiTokenConfigurationError else Inr token))"

definition load_hmac_key :: "key_file option \<Rightarrow> auth_error + bytes" where
  "load_hmac_key file = load_api_token file"

text \<open>A header outside ASCII is refused whichever way its length is counted.\<close>

definition verify_bearer_authorization :: "pystr option \<Rightarrow> bytes \<Rightarrow> auth_error + unit" where
  "verify_bearer_authorization authorization expected_token =
     (case authorization of
        None \<Rightarrow> Inl ApiAuthenticationError
      | Some a \<Rightarrow>
          if max_authorization_header_chars < length a \<or> take 7 a \<noteq> ''Bearer ''
          then Inl ApiAuthenticationError else
          let encoded = drop 7 a in
          if length encoded \<noteq> token_hex_length then Inl ApiAuthenticationError else
          (case from_hex encoded of
             None \<Rightarrow> Inl ApiAuthenticationError
           | Some presented \<Rightarrow>
               if length presented \<noteq> token_bytes \<or> presented \<noteq> expected_token
               then Inl ApiAuthenticationError else Inr ()))"

section \<open>Two digits per byte\<close>

definition to_hex :: "bytes \<Rightarrow> pystr" where
  "to_hex bs = concat (map (\<lambda>b. let n = (of_char b :: nat) in [hex_digit (n div 16), hex_digit (n mod 16)]) bs)"

lemma from_hex_pair:
  "\<not> hex_gap c \<Longrightarrow> from_hex (c # d # s) = Some bs
   \<Longrightarrow> \<exists>h l r. hex_val c = Some h \<and> hex_val d = Some l \<and> from_hex s = Some r \<and> bs = char_of (16 * h + l) # r"
  by (auto split: option.splits)

lemma from_hex_length: "from_hex s = Some bs \<Longrightarrow> 2 * length bs \<le> length s"
proof (induction s arbitrary: bs rule: from_hex.induct)
  case (3 c d s)
  show ?case
  proof (cases "hex_gap c")
    case True
    with 3 show ?thesis by fastforce
  next
    case False
    then obtain h l r where *: "hex_val c = Some h" "hex_val d = Some l" "from_hex s = Some r"
      "bs = char_of (16 * h + l) # r"
      using from_hex_pair [OF False 3(3)] by blast
    have "2 * length r \<le> length s" by (rule 3(2) [OF False _ *(1) _ *(3)]) (auto simp: *)
    with *(4) show ?thesis by simp
  qed
qed (auto split: if_splits)

text \<open>A key has 32 bytes, so a file with a white-space character in it is refused.\<close>

lemma load_api_token_length: "load_api_token file = Inr k \<Longrightarrow> length k = 32"
  by (auto simp: load_api_token_def token_bytes_def Let_def split: option.splits if_splits)

lemma hex_val_lower: "hex_val c = Some h \<Longrightarrow> h < 16 \<and> lower_char c = hex_digit h"
  by (auto simp: hex_val_def lower_char_def hex_digit_def digit_def Let_def split: if_splits)

lemma char_of_nibbles:
  assumes "h < 16" "l < 16"
  shows "(of_char (char_of (16 * h + l :: nat)) :: nat) div 16 = h"
    and "(of_char (char_of (16 * h + l :: nat)) :: nat) mod 16 = l"
proof -
  have "16 * h + l < 256" using assms by simp
  then have "(of_char (char_of (16 * h + l :: nat)) :: nat) = 16 * h + l" by simp
  then show "(of_char (char_of (16 * h + l :: nat)) :: nat) div 16 = h"
    "(of_char (char_of (16 * h + l :: nat)) :: nat) mod 16 = l" using assms by simp_all
qed

text \<open>Without a gap, the text is the hexadecimal spelling of its bytes.\<close>

lemma from_hex_spells:
  assumes "from_hex s = Some bs" "length s = 2 * length bs"
  shows "map lower_char s = to_hex bs"
  using assms
proof (induction s arbitrary: bs rule: from_hex.induct)
  case (3 c d s)
  have gap: "\<not> hex_gap c"
  proof
    assume "hex_gap c"
    with 3 have "2 * length bs \<le> length (d # s)" by (auto dest!: from_hex_length)
    with 3(4) show False by simp
  qed
  obtain h l r where *: "hex_val c = Some h" "hex_val d = Some l" "from_hex s = Some r"
    "bs = char_of (16 * h + l) # r"
    using from_hex_pair [OF gap 3(3)] by blast
  have "map lower_char s = to_hex r"
    by (rule 3(2) [OF gap _ *(1) _ *(3)]) (use 3(4) * in auto)
  with * hex_val_lower [OF *(1)] hex_val_lower [OF *(2)] show ?case
    by (simp add: to_hex_def char_of_nibbles)
qed (auto simp: to_hex_def split: if_splits)

lemma hex_val_lower_char: "hex_val (lower_char c) = hex_val c"
  by (auto simp: hex_val_def lower_char_def Let_def)

lemma to_hex_Cons:
  "to_hex (b # bs) = hex_digit ((of_char b :: nat) div 16) # hex_digit ((of_char b :: nat) mod 16) # to_hex bs"
  by (simp add: to_hex_def Let_def)

lemma to_hex_length [simp]: "length (to_hex bs) = 2 * length bs"
  by (induction bs) (simp_all add: to_hex_Cons, simp add: to_hex_def)

lemma hex_val_gap: "hex_val c = Some h \<Longrightarrow> \<not> hex_gap c"
  by (auto simp: hex_val_def hex_gap_def Let_def split: if_splits)

lemma from_hex_of_spelling: "map lower_char s = to_hex bs \<Longrightarrow> from_hex s = Some bs"
proof (induction bs arbitrary: s)
  case (Cons b bs)
  let ?n = "of_char b :: nat"
  have n: "?n div 16 < 16" "?n mod 16 < 16" by (simp_all add: less_mult_imp_div_less)
  from Cons.prems obtain c d r where s: "s = c # d # r" and lc: "lower_char c = hex_digit (?n div 16)"
    and ld: "lower_char d = hex_digit (?n mod 16)" and r: "map lower_char r = to_hex bs"
    by (auto simp: to_hex_Cons)
  have c: "hex_val c = Some (?n div 16)" using hex_val_lower_char [of c] lc hex_val_digit [OF n(1)] by simp
  have d: "hex_val d = Some (?n mod 16)" using hex_val_lower_char [of d] ld hex_val_digit [OF n(2)] by simp
  show ?case using Cons.IH [OF r] hex_val_gap [OF c] c d by (simp add: s)
qed (simp add: to_hex_def)

lemma spelled_length: "map lower_char s = to_hex bs \<Longrightarrow> length s = 2 * length bs"
  by (metis length_map to_hex_length)

text \<open>
  C99.  The bearer check accepts a header exactly when it is \<open>Bearer\<close> followed by the hexadecimal
  spelling, in either case, of the 32 bytes of the token.
\<close>

theorem bearer_spells_token:
  "verify_bearer_authorization (Some a) token = Inr ()
   \<longleftrightarrow> length token = 32 \<and> (\<exists>h. a = ''Bearer '' @ h \<and> map lower_char h = to_hex token)"
  (is "?accepted = ?spelled")
proof
  assume ?accepted
  then have *: "take 7 a = ''Bearer ''" "length (drop 7 a) = 64" "from_hex (drop 7 a) = Some token"
    "length token = 32"
    by (auto simp: verify_bearer_authorization_def token_hex_length_def token_bytes_def Let_def
        split: option.splits if_splits)
  have "a = ''Bearer '' @ drop 7 a" by (metis *(1) append_take_drop_id)
  moreover have "map lower_char (drop 7 a) = to_hex token"
    by (rule from_hex_spells [OF *(3)]) (use * in simp)
  ultimately show ?spelled using *(4) by blast
next
  assume ?spelled
  then obtain h where h: "a = ''Bearer '' @ h" "map lower_char h = to_hex token" "length token = 32" by blast
  with from_hex_of_spelling [OF h(2)] spelled_length [OF h(2)] show ?accepted
    by (simp add: verify_bearer_authorization_def token_hex_length_def token_bytes_def
        max_authorization_header_chars_def)
qed

end
