(* ===== verification/NotificationSink.thy ===== *)
theory NotificationSink
  imports Notifications Auth
begin

text \<open>
  The delivery sinks of \<open>services/notifications.py\<close>: their configuration, the checks of
  \<open>HermesWebhookSink.__init__\<close>, the state its threads share, and the request it posts.
\<close>

section \<open>Configuration\<close>

datatype sink_error =
    NotificationPrivacyError | NotificationDeliveryError | NotificationCapacityError
  | NotificationConflictError

record delivery_receipt =
  dr_event_id :: pystr
  dr_destination :: pystr
  dr_delivered_at :: int

text \<open>The disabled sink acknowledges a valid event and does nothing.\<close>

definition null_send :: "(pystr \<Rightarrow> bool) \<Rightarrow> int \<Rightarrow> raw_event \<Rightarrow> sink_error + delivery_receipt" where
  "null_send wide now raw =
     (case strict_event_copy wide raw of
        None \<Rightarrow> Inl NotificationPrivacyError
      | Some e \<Rightarrow> Inr \<lparr>dr_event_id = ne_event_id e, dr_destination = ''null'', dr_delivered_at = now\<rparr>)"

record notification_config =
  nc_enabled :: bool
  nc_webhook_url :: "pystr option"
  nc_allowed_origins :: "pystr list option"
  nc_hmac_key_path :: "pystr option"
  nc_destination :: "pystr option"

definition is_absolute :: "pystr \<Rightarrow> bool" where
  "is_absolute path = (take 1 path = ''/'')"

definition validate_delivery_configuration :: "notification_config \<Rightarrow> exn + notification_config" where
  "validate_delivery_configuration c =
     (let configured = [nc_webhook_url c \<noteq> None, nc_allowed_origins c \<noteq> None,
                        nc_hmac_key_path c \<noteq> None, nc_destination c \<noteq> None] in
      if nc_enabled c \<and> \<not> list_all id configured \<or> \<not> nc_enabled c \<and> list_ex id configured
         \<or> (case nc_hmac_key_path c of None \<Rightarrow> False | Some p \<Rightarrow> \<not> is_absolute p)
      then Inl ValueError else Inr c)"

section \<open>The webhook address\<close>

text \<open>
  \<open>httpx.URL\<close> with what the code reads of it: \<open>hu_host\<close> is \<open>(url.host or "").lower()\<close>, a missing query or
  fragment is empty.
\<close>

record webhook_url =
  hu_scheme :: pystr
  hu_host :: pystr
  hu_port :: "nat option"
  hu_username :: pystr
  hu_password :: pystr
  hu_query :: bytes
  hu_fragment :: pystr
  hu_raw_path :: bytes

text \<open>\<open>_CANONICAL_DNS_HOST.fullmatch\<close>: at least two labels that start with a letter.\<close>

definition canonical_dns_label :: "pystr \<Rightarrow> bool" where
  "canonical_dns_label l = (dns_label l \<and> lower_letter (hd l))"

definition canonical_dns_host :: "pystr \<Rightarrow> bool" where
  "canonical_dns_host host =
     (let labels = split_on (CHR ''.'') host in
      1 \<le> length host \<and> length host \<le> 253 \<and> 2 \<le> length labels \<and> list_all canonical_dns_label labels)"

definition origin_of :: "webhook_url \<Rightarrow> pystr" where
  "origin_of u =
     ''https://'' @ strip_dots (hu_host u)
     @ (case hu_port u of None \<Rightarrow> [] | Some p \<Rightarrow> if p = 443 then [] else '':'' @ dec p)"

definition strip_slashes :: "pystr \<Rightarrow> pystr" where
  "strip_slashes s = rev (dropWhile (\<lambda>c. c = CHR ''/'') (rev s))"

definition origin_item_ok :: "pystr \<Rightarrow> bool" where
  "origin_item_ok s = (take 8 s = ''https://'' \<and> CHR ''*'' \<notin> set s \<and> strip_slashes s = s)"

text \<open>The arguments of the constructor; the timeout is in microseconds.\<close>

record sink_args =
  sa_webhook_url :: pystr
  sa_allowed_origins :: "pystr list option"
  sa_hmac_key_path :: pystr
  sa_destination :: pystr
  sa_has_client :: bool
  sa_has_transport :: bool
  sa_has_nonce_factory :: bool
  sa_timeout :: int
  sa_max_tracked_events :: int
  sa_max_concurrent_deliveries :: int
  sa_max_pending_deliveries :: int

definition default_sink_args :: "pystr \<Rightarrow> pystr list option \<Rightarrow> pystr \<Rightarrow> pystr \<Rightarrow> sink_args" where
  "default_sink_args url origins key_path destination =
     \<lparr>sa_webhook_url = url, sa_allowed_origins = origins, sa_hmac_key_path = key_path,
      sa_destination = destination, sa_has_client = False, sa_has_transport = False,
      sa_has_nonce_factory = False, sa_timeout = 5000000, sa_max_tracked_events = 10000,
      sa_max_concurrent_deliveries = 8, sa_max_pending_deliveries = 64\<rparr>"

definition webhook_allowed :: "url_library \<Rightarrow> sink_args \<Rightarrow> webhook_url \<Rightarrow> bool" where
  "webhook_allowed lib a u =
     (let host = strip_dots (hu_host u);
          local = ends_with ''.invalid'' host;
          allowed = (case sa_allowed_origins a of
                       Some items \<Rightarrow> items | None \<Rightarrow> if local then [origin_of u] else []) in
      \<not> (sa_has_client a \<and> sa_has_transport a)
      \<and> hu_scheme u = ''https'' \<and> hu_host u \<noteq> [] \<and> hu_username u = [] \<and> hu_password u = []
      \<and> hu_query u = [] \<and> hu_fragment u = [] \<and> ul_ip_address lib host = None
      \<and> hu_host u = host \<and> canonical_dns_host host \<and> host \<noteq> ''localhost''
      \<and> \<not> list_ex (\<lambda>t. ends_with t host) [''.localhost'', ''.local'', ''.internal'']
      \<and> (local \<or> \<not> sa_has_client a) \<and> (local \<or> \<not> sa_has_nonce_factory a)
      \<and> 1 \<le> length allowed \<and> length allowed \<le> 32 \<and> origin_of u \<in> set allowed
      \<and> list_all origin_item_ok allowed)"

definition sink_limits_ok :: "sink_args \<Rightarrow> bool" where
  "sink_limits_ok a =
     (100000 \<le> sa_timeout a \<and> sa_timeout a \<le> 10000000
      \<and> 1 \<le> sa_max_tracked_events a \<and> sa_max_tracked_events a \<le> 100000
      \<and> 1 \<le> sa_max_concurrent_deliveries a \<and> sa_max_concurrent_deliveries a \<le> 64
      \<and> sa_max_concurrent_deliveries a \<le> sa_max_pending_deliveries a
      \<and> sa_max_pending_deliveries a \<le> 1024)"

section \<open>The sink\<close>

text \<open>What the constructor fixes for the life of a sink.\<close>

record sink_config =
  hk_path :: pystr
  hk_key :: bytes
  hk_destination :: pystr
  hk_target :: "normalized_url option"
  hk_owns_client :: bool
  hk_max_tracked :: nat
  hk_max_concurrent :: nat
  hk_max_pending :: nat

datatype init_error = SinkValueError | SinkKeyError | SinkAssertionError

text \<open>
  \<open>parsed\<close> is \<open>httpx.URL(webhook_url)\<close> (\<open>None\<close> if it raises), \<open>key_file\<close> the file at the key path.
\<close>

definition make_sink ::
  "url_library \<Rightarrow> resolver \<Rightarrow> webhook_url option \<Rightarrow> key_file option \<Rightarrow> sink_args \<Rightarrow> init_error + sink_config"
  where
  "make_sink lib resolve parsed key_file a =
     (case parsed of
        None \<Rightarrow> Inl SinkValueError
      | Some u \<Rightarrow>
          if \<not> webhook_allowed lib a u \<or> \<not> sink_limits_ok a \<or> \<not> is_absolute (sa_hmac_key_path a)
          then Inl SinkValueError else
          bnd (if ends_with ''.invalid'' (strip_dots (hu_host u)) then Inr None
               else case normalize_public_http_url lib (JStr (sa_webhook_url a)) resolve of
                      Inl e \<Rightarrow> Inl SinkValueError | Inr n \<Rightarrow> Inr (Some n)) (\<lambda>target.
          if \<not> is_ascii (hu_raw_path u) then Inl SinkValueError else
          (case load_hmac_key key_file of
             Inl e \<Rightarrow> Inl SinkKeyError
           | Inr key \<Rightarrow>
               if \<not> is_identifier (sa_destination a) then Inl SinkValueError else
               Inr \<lparr>hk_path = hu_raw_path u, hk_key = key, hk_destination = sa_destination a,
                    hk_target = target, hk_owns_client = (target \<noteq> None \<or> \<not> sa_has_client a),
                    hk_max_tracked = nat (sa_max_tracked_events a),
                    hk_max_concurrent = nat (sa_max_concurrent_deliveries a),
                    hk_max_pending = nat (sa_max_pending_deliveries a)\<rparr>)))"

text \<open>\<open>build_notification_sink\<close>: \<open>None\<close> is the disabled sink.\<close>

definition build_notification_sink ::
  "url_library \<Rightarrow> resolver \<Rightarrow> webhook_url option \<Rightarrow> key_file option \<Rightarrow> notification_config \<Rightarrow> bool
   \<Rightarrow> init_error + sink_config option" where
  "build_notification_sink lib resolve parsed key_file c has_catalog =
     (if \<not> nc_enabled c then Inr None
      else if \<not> has_catalog then Inl SinkValueError
      else case (nc_webhook_url c, nc_allowed_origins c, nc_hmac_key_path c, nc_destination c) of
             (Some url, Some origins, Some path, Some destination) \<Rightarrow>
               bnd (make_sink lib resolve parsed key_file
                      (default_sink_args url (Some origins) path destination)) (\<lambda>k. Inr (Some k))
           | _ \<Rightarrow> Inl SinkAssertionError)"

section \<open>Pinned transport\<close>

record http_request =
  hr_method :: pystr
  hr_host :: pystr
  hr_port :: nat
  hr_target :: pystr
  hr_headers :: "(pystr \<times> pystr) list"
  hr_sni :: "pystr option"

text \<open>
  The request goes to the first resolved address, with the host name in the Host header and as the
  name of the TLS handshake.
\<close>

definition set_header :: "pystr \<Rightarrow> pystr \<Rightarrow> (pystr \<times> pystr) list \<Rightarrow> (pystr \<times> pystr) list" where
  "set_header k v hs = filter (\<lambda>(k', _). k' \<noteq> k) hs @ [(k, v)]"

definition pinned_request :: "normalized_url \<Rightarrow> http_request \<Rightarrow> http_request" where
  "pinned_request n r =
     (let authority = nu_hostname n @ (if nu_port n \<noteq> 443 then '':'' @ dec (nu_port n) else []) in
      r\<lparr>hr_headers := set_header ''host'' authority (hr_headers r), hr_sni := Some (nu_hostname n),
        hr_host := nu_resolved_addresses n ! 0, hr_port := nu_port n\<rparr>)"

section \<open>Shared state\<close>

datatype delivery_status = In_flight | Failed | Delivered

text \<open>
  \<open>_DeliveryState\<close> objects live in \<open>sk_states\<close> and are named by their position: a thread that waits
  keeps its object when the dict \<open>_events\<close> has already moved on to another one.
\<close>

record delivery_state =
  ds_payload_hash :: pystr
  ds_status :: delivery_status
  ds_done :: bool

datatype lifecycle = Lc_open | Lc_closing | Lc_closed

record sink_state =
  sk_states :: "delivery_state list"
  sk_events :: "(pystr \<times> nat) list"
  sk_transport_free :: nat
  sk_request_free :: nat
  sk_lifecycle :: lifecycle
  sk_active_sends :: int

definition fresh_sink :: "sink_config \<Rightarrow> sink_state" where
  "fresh_sink c =
     \<lparr>sk_states = [], sk_events = [], sk_transport_free = hk_max_concurrent c,
      sk_request_free = hk_max_pending c, sk_lifecycle = Lc_open, sk_active_sends = 0\<rparr>"

text \<open>A bounded semaphore: \<open>release\<close> beyond the initial value raises, and so may a fault.\<close>

definition semaphore_release :: "bool \<Rightarrow> nat \<Rightarrow> nat \<Rightarrow> nat option" where
  "semaphore_release fault bound free = (if fault \<or> bound \<le> free then None else Some (free + 1))"

section \<open>The request\<close>

record sent_request =
  sq_key :: pystr
  sq_body :: bytes
  sq_timestamp :: int
  sq_nonce :: pystr
  sq_signature :: pystr
  sq_payload_sha256 :: pystr

text \<open>\<open>_read_timestamp\<close>; \<open>None\<close> is a clock that raised.\<close>

definition read_timestamp :: "jval option \<Rightarrow> sink_error + int" where
  "read_timestamp clock =
     (case clock of
        Some (JInt t) \<Rightarrow> if 0 \<le> t \<and> t \<le> 4102444800 then Inr t else Inl NotificationDeliveryError
      | _ \<Rightarrow> Inl NotificationDeliveryError)"

text \<open>
  The first half of \<open>_deliver\<close>, up to the request.  Whatever goes wrong is reported as
  \<open>NotificationDeliveryError\<close> by the caller.
\<close>

definition prepare_delivery ::
  "(bytes \<Rightarrow> pystr) \<Rightarrow> (bytes \<Rightarrow> bytes \<Rightarrow> pystr) \<Rightarrow> sink_config \<Rightarrow> bytes \<Rightarrow> pystr \<Rightarrow> jval option
   \<Rightarrow> pystr option \<Rightarrow> sink_error + sent_request" where
  "prepare_delivery sha256 hmac c body key clock nonce =
     bnd (read_timestamp clock) (\<lambda>timestamp.
       case nonce of
         None \<Rightarrow> Inl NotificationDeliveryError
       | Some n \<Rightarrow>
           if length n \<noteq> 32 \<or> \<not> list_all lower_hex n then Inl NotificationDeliveryError else
           (case sign_request sha256 hmac ''POST'' (hk_path c) timestamp n body (hk_key c) of
              Inl e \<Rightarrow> Inl NotificationDeliveryError
            | Inr signature \<Rightarrow>
                Inr \<lparr>sq_key = key, sq_body = body, sq_timestamp = timestamp, sq_nonce = n,
                     sq_signature = signature, sq_payload_sha256 = sha256 body\<rparr>))"

definition delivery_headers :: "sent_request \<Rightarrow> (pystr \<times> pystr) list" where
  "delivery_headers q =
     [(''content-type'', ''application/json''), (''idempotency-key'', sq_key q),
      (''x-seo-payload-sha256'', sq_payload_sha256 q), (''x-seo-nonce'', sq_nonce q),
      (''x-seo-signature'', sq_signature q), (''x-seo-timestamp'', dec_int (sq_timestamp q))]"

text \<open>What comes back: a status code, an \<open>httpx.HTTPError\<close> or another exception.\<close>

datatype answer = Answered int | Http_error | Other_fault

definition delivery_outcome :: "answer \<Rightarrow> sink_error + unit" where
  "delivery_outcome a =
     (case a of
        Answered code \<Rightarrow>
          if code = 409 then Inl NotificationConflictError
          else if code \<noteq> 202 \<and> code \<noteq> 204 then Inl NotificationDeliveryError else Inr ()
      | _ \<Rightarrow> Inl NotificationDeliveryError)"

end
