(* ===== verification/NotificationSteps.thy ===== *)
theory NotificationSteps
  imports NotificationSink "HOL-Library.AList"
begin

text \<open>
  Concurrent calls of one \<open>HermesWebhookSink\<close> (\<open>close\<close>, \<open>send\<close>, \<open>_send_admitted\<close>, \<open>_finish_state\<close> and
  \<open>_deliver\<close> of \<open>services/notifications.py\<close>).  A call is a program counter with the local variables that
  are live there; a step is one section the code runs under a lock, one semaphore or event operation, or
  one exchange with the catalog or the network.  Every choice of the environment is in \<open>env\<close>, with
  \<open>en_fault\<close> for the exceptions the code guards against around its threading primitives.
\<close>

section \<open>Threads\<close>

text \<open>A delivery's outcome: the error to raise, or the timestamp it was sent with.\<close>

type_synonym delivery_end = "sink_error + int"
type_synonym send_result = "sink_error + delivery_receipt"

datatype pc =
    Called
  | Counted notification_event
  | Admitted notification_event
  | Keyed notification_event bytes pystr
  | Awaiting notification_event nat
  | Claimed notification_event bytes pystr nat
  | Slotted notification_event bytes pystr nat
  | Posting notification_event bytes pystr nat int
  | Unslotting notification_event bytes pystr nat delivery_end
  | Settling notification_event bytes pystr nat delivery_end bool
  | Signalling notification_event nat delivery_end bool
  | Unwinding send_result
  | Unadmitting send_result
  | Uncounting send_result bool
  | Returned send_result
  | Close_called
  | Draining
  | Closing_client
  | Marking_closed bool
  | Close_waiting
  | Close_returned "sink_error + unit"

text \<open>What the environment sees: catalog answers, requests, their answers and the closing of the client.\<close>

datatype sink_event =
    Resolved pystr raw_event
  | Sent sent_request
  | Answer_seen pystr answer
  | Client_closed

record env =
  en_fault :: bool
  en_catalog :: "raw_event option"
  en_clock :: "jval option"
  en_nonce :: "pystr option"
  en_answer :: answer
  en_timeout :: bool

section \<open>The steps of send\<close>

definition receipt_of :: "sink_config \<Rightarrow> notification_event \<Rightarrow> int \<Rightarrow> delivery_receipt" where
  "receipt_of c e timestamp =
     \<lparr>dr_event_id = ne_event_id e, dr_destination = hk_destination c, dr_delivered_at = timestamp\<rparr>"

definition receipt_now :: "sink_config \<Rightarrow> notification_event \<Rightarrow> jval option \<Rightarrow> send_result" where
  "receipt_now c e clock = bnd (read_timestamp clock) (\<lambda>t. Inr (receipt_of c e t))"

text \<open>The first lifecycle section; an event that is not valid is refused before it.\<close>

definition enter_send :: "(pystr \<Rightarrow> bool) \<Rightarrow> raw_event \<Rightarrow> sink_state \<Rightarrow> sink_state \<times> pc" where
  "enter_send wide raw s =
     (case strict_event_copy wide raw of
        None \<Rightarrow> (s, Returned (Inl NotificationPrivacyError))
      | Some e \<Rightarrow>
          if sk_lifecycle s \<noteq> Lc_open then (s, Returned (Inl NotificationDeliveryError))
          else (s\<lparr>sk_active_sends := sk_active_sends s + 1\<rparr>, Counted e))"

text \<open>The request slot, without waiting.\<close>

definition admit :: "bool \<Rightarrow> notification_event \<Rightarrow> sink_state \<Rightarrow> sink_state \<times> pc" where
  "admit fault e s =
     (if fault then (s, Unwinding (Inl NotificationDeliveryError))
      else if sk_request_free s = 0 then (s, Unwinding (Inl NotificationCapacityError))
      else (s\<lparr>sk_request_free := sk_request_free s - 1\<rparr>, Admitted e))"

text \<open>The catalog must return the very same event; then the payload and its identity are computed.\<close>

definition resolve_event ::
  "(pystr \<Rightarrow> bool) \<Rightarrow> (bytes \<Rightarrow> pystr) \<Rightarrow> sink_config \<Rightarrow> raw_event option \<Rightarrow> notification_event \<Rightarrow> pc" where
  "resolve_event wide sha256 c approved e =
     (case approved of
        None \<Rightarrow> Unadmitting (Inl NotificationPrivacyError)
      | Some raw \<Rightarrow>
          if strict_event_copy wide raw \<noteq> Some e then Unadmitting (Inl NotificationPrivacyError) else
          (case payload_bytes sha256 (hk_destination c) e of
             Inl x \<Rightarrow> Unadmitting (Inl NotificationDeliveryError)
           | Inr (body, key) \<Rightarrow> Keyed e body key))"

text \<open>
  The section under \<open>_delivery_lock\<close>: refuse other content under a known key, acknowledge a delivered
  one, join the delivery in flight, or install a new \<open>_DeliveryState\<close> and own it.
\<close>

definition start_delivery :: "pystr \<Rightarrow> pystr \<Rightarrow> sink_state \<Rightarrow> sink_state" where
  "start_delivery key payload_hash s =
     s\<lparr>sk_states := sk_states s @ [\<lparr>ds_payload_hash = payload_hash, ds_status = In_flight, ds_done = False\<rparr>],
       sk_events := AList.update key (length (sk_states s)) (sk_events s)\<rparr>"

definition claim_key ::
  "(bytes \<Rightarrow> pystr) \<Rightarrow> sink_config \<Rightarrow> bool \<Rightarrow> jval option \<Rightarrow> notification_event \<Rightarrow> bytes \<Rightarrow> pystr \<Rightarrow> sink_state
   \<Rightarrow> sink_state \<times> pc" where
  "claim_key sha256 c fault clock e body key s =
     (let payload_hash = sha256 body; a' = length (sk_states s) in
      case map_of (sk_events s) key of
        Some a \<Rightarrow>
          let existing = sk_states s ! a in
          if ds_payload_hash existing \<noteq> payload_hash then (s, Unadmitting (Inl NotificationConflictError))
          else (case ds_status existing of
                  Delivered \<Rightarrow> (s, Unadmitting (receipt_now c e clock))
                | In_flight \<Rightarrow> (s, Awaiting e a)
                | Failed \<Rightarrow>
                    if fault then (s, Unadmitting (Inl NotificationDeliveryError))
                    else (start_delivery key payload_hash s, Claimed e body key a'))
      | None \<Rightarrow>
          if hk_max_tracked c \<le> length (sk_events s) then (s, Unadmitting (Inl NotificationCapacityError))
          else if fault then (s, Unadmitting (Inl NotificationDeliveryError))
          else (start_delivery key payload_hash s, Claimed e body key a'))"

text \<open>A joined delivery: \<open>None\<close> while it is neither signalled nor the wait is over.\<close>

definition await_done ::
  "sink_config \<Rightarrow> env \<Rightarrow> notification_event \<Rightarrow> nat \<Rightarrow> sink_state \<Rightarrow> pc option" where
  "await_done c n e a s =
     (if en_fault n then Some (Unadmitting (Inl NotificationDeliveryError))
      else if ds_done (sk_states s ! a) then
        Some (Unadmitting (if ds_status (sk_states s ! a) \<noteq> Delivered then Inl NotificationDeliveryError
                           else receipt_now c e (en_clock n)))
      else if en_timeout n then Some (Unadmitting (Inl NotificationDeliveryError))
      else None)"

text \<open>The transport slot, without waiting.\<close>

definition take_slot ::
  "bool \<Rightarrow> notification_event \<Rightarrow> bytes \<Rightarrow> pystr \<Rightarrow> nat \<Rightarrow> sink_state \<Rightarrow> sink_state \<times> pc" where
  "take_slot fault e body key a s =
     (if fault then (s, Settling e body key a (Inl NotificationDeliveryError) False)
      else if sk_transport_free s = 0
      then (s, Settling e body key a (Inl NotificationCapacityError) False)
      else (s\<lparr>sk_transport_free := sk_transport_free s - 1\<rparr>, Slotted e body key a))"

text \<open>\<open>_deliver\<close>: the request goes out, or nothing does.\<close>

definition post_request ::
  "(bytes \<Rightarrow> pystr) \<Rightarrow> (bytes \<Rightarrow> bytes \<Rightarrow> pystr) \<Rightarrow> sink_config \<Rightarrow> env \<Rightarrow> notification_event \<Rightarrow> bytes \<Rightarrow> pystr
   \<Rightarrow> nat \<Rightarrow> sink_event list \<times> pc" where
  "post_request sha256 hmac c n e body key a =
     (case prepare_delivery sha256 hmac c body key (en_clock n) (en_nonce n) of
        Inl x \<Rightarrow> ([], Unslotting e body key a (Inl x))
      | Inr q \<Rightarrow> ([Sent q], Posting e body key a (sq_timestamp q)))"

text \<open>The slot goes back in the \<open>finally\<close> block; a fault there is remembered.\<close>

definition return_slot ::
  "sink_config \<Rightarrow> bool \<Rightarrow> notification_event \<Rightarrow> bytes \<Rightarrow> pystr \<Rightarrow> nat \<Rightarrow> delivery_end \<Rightarrow> sink_state
   \<Rightarrow> sink_state \<times> pc" where
  "return_slot c fault e body key a r s =
     (case semaphore_release fault (hk_max_concurrent c) (sk_transport_free s) of
        None \<Rightarrow> (s, Settling e body key a r True)
      | Some free \<Rightarrow> (s\<lparr>sk_transport_free := free\<rparr>, Settling e body key a r False))"

text \<open>\<open>_finish_state\<close> in its two steps: the status, then the event that wakes the waiters.\<close>

definition set_final_status :: "nat \<Rightarrow> delivery_end \<Rightarrow> sink_state \<Rightarrow> sink_state" where
  "set_final_status a r s =
     s\<lparr>sk_states := (sk_states s)[a := (sk_states s ! a)\<lparr>ds_status := (case r of Inl x \<Rightarrow> Failed | Inr t \<Rightarrow> Delivered)\<rparr>]\<rparr>"

definition signal_done ::
  "sink_config \<Rightarrow> bool \<Rightarrow> notification_event \<Rightarrow> nat \<Rightarrow> delivery_end \<Rightarrow> bool \<Rightarrow> sink_state \<Rightarrow> sink_state \<times> pc" where
  "signal_done c fault e a r cleanup_failed s =
     (if fault then (s, Unadmitting (Inl NotificationDeliveryError)) else
      let s' = s\<lparr>sk_states := (sk_states s)[a := (sk_states s ! a)\<lparr>ds_done := True\<rparr>]\<rparr> in
      case r of
        Inl x \<Rightarrow> (s', Unadmitting (Inl x))
      | Inr t \<Rightarrow> (s', Unadmitting (if cleanup_failed then Inl NotificationDeliveryError
                                 else Inr (receipt_of c e t))))"

text \<open>The outer \<open>finally\<close> block of \<open>send\<close>: the request slot, the count, then the pending result.\<close>

definition return_request_slot :: "sink_config \<Rightarrow> bool \<Rightarrow> send_result \<Rightarrow> sink_state \<Rightarrow> sink_state \<times> pc" where
  "return_request_slot c fault r s =
     (case semaphore_release fault (hk_max_pending c) (sk_request_free s) of
        None \<Rightarrow> (s, Uncounting r True)
      | Some free \<Rightarrow> (s\<lparr>sk_request_free := free\<rparr>, Uncounting r False))"

definition leave_send :: "send_result \<Rightarrow> bool \<Rightarrow> sink_state \<Rightarrow> sink_state \<times> pc" where
  "leave_send r release_failed s =
     (s\<lparr>sk_active_sends := sk_active_sends s - 1\<rparr>,
      Returned (if release_failed then Inl NotificationDeliveryError else r))"

section \<open>The steps of close\<close>

definition enter_close :: "sink_state \<Rightarrow> sink_state \<times> pc" where
  "enter_close s =
     (case sk_lifecycle s of
        Lc_closed \<Rightarrow> (s, Close_returned (Inr ()))
      | Lc_closing \<Rightarrow> (s, Close_waiting)
      | Lc_open \<Rightarrow> (s\<lparr>sk_lifecycle := Lc_closing\<rparr>, Draining))"

definition close_client :: "sink_config \<Rightarrow> bool \<Rightarrow> sink_event list \<times> pc" where
  "close_client c fault =
     (if \<not> hk_owns_client c then ([], Marking_closed False)
      else ([Client_closed], Marking_closed fault))"

definition mark_closed :: "bool \<Rightarrow> sink_state \<Rightarrow> sink_state \<times> pc" where
  "mark_closed close_failed s =
     (s\<lparr>sk_lifecycle := Lc_closed\<rparr>,
      Close_returned (if close_failed then Inl NotificationDeliveryError else Inr ()))"

section \<open>One step of a call\<close>

type_synonym libs = "(pystr \<Rightarrow> bool) \<times> (bytes \<Rightarrow> pystr) \<times> (bytes \<Rightarrow> bytes \<Rightarrow> pystr)"

text \<open>
  \<open>None\<close>: the call has returned, or it is blocked.  The result is the new shared state, the events the
  environment sees and the next program counter.
\<close>

fun call_step ::
  "libs \<Rightarrow> sink_config \<Rightarrow> env \<Rightarrow> raw_event \<Rightarrow> pc \<Rightarrow> sink_state \<Rightarrow> (sink_state \<times> sink_event list \<times> pc) option"
  where
  "call_step (wide, sha256, hmac) c n raw Called s =
     (case enter_send wide raw s of (s', p) \<Rightarrow> Some (s', [], p))"
| "call_step (wide, sha256, hmac) c n raw (Counted e) s =
     (case admit (en_fault n) e s of (s', p) \<Rightarrow> Some (s', [], p))"
| "call_step (wide, sha256, hmac) c n raw (Admitted e) s =
     Some (s, (case en_catalog n of None \<Rightarrow> [] | Some v \<Rightarrow> [Resolved (ne_event_id e) v]),
           resolve_event wide sha256 c (en_catalog n) e)"
| "call_step (wide, sha256, hmac) c n raw (Keyed e body key) s =
     (case claim_key sha256 c (en_fault n) (en_clock n) e body key s of (s', p) \<Rightarrow> Some (s', [], p))"
| "call_step (wide, sha256, hmac) c n raw (Awaiting e a) s =
     map_option (\<lambda>p. (s, [], p)) (await_done c n e a s)"
| "call_step (wide, sha256, hmac) c n raw (Claimed e body key a) s =
     (case take_slot (en_fault n) e body key a s of (s', p) \<Rightarrow> Some (s', [], p))"
| "call_step (wide, sha256, hmac) c n raw (Slotted e body key a) s =
     (case post_request sha256 hmac c n e body key a of (evs, p) \<Rightarrow> Some (s, evs, p))"
| "call_step (wide, sha256, hmac) c n raw (Posting e body key a t) s =
     Some (s, [Answer_seen key (en_answer n)],
           Unslotting e body key a (bnd (delivery_outcome (en_answer n)) (\<lambda>_. Inr t)))"
| "call_step (wide, sha256, hmac) c n raw (Unslotting e body key a r) s =
     (case return_slot c (en_fault n) e body key a r s of (s', p) \<Rightarrow> Some (s', [], p))"
| "call_step (wide, sha256, hmac) c n raw (Settling e body key a r cf) s =
     Some (set_final_status a r s, [], Signalling e a r cf)"
| "call_step (wide, sha256, hmac) c n raw (Signalling e a r cf) s =
     (case signal_done c (en_fault n) e a r cf s of (s', p) \<Rightarrow> Some (s', [], p))"
| "call_step (wide, sha256, hmac) c n raw (Unwinding r) s = Some (s, [], Uncounting r False)"
| "call_step (wide, sha256, hmac) c n raw (Unadmitting r) s =
     (case return_request_slot c (en_fault n) r s of (s', p) \<Rightarrow> Some (s', [], p))"
| "call_step (wide, sha256, hmac) c n raw (Uncounting r rf) s =
     (case leave_send r rf s of (s', p) \<Rightarrow> Some (s', [], p))"
| "call_step (wide, sha256, hmac) c n raw (Returned r) s = None"
| "call_step (wide, sha256, hmac) c n raw Close_called s =
     (case enter_close s of (s', p) \<Rightarrow> Some (s', [], p))"
| "call_step (wide, sha256, hmac) c n raw Draining s =
     (if sk_active_sends s = 0 then Some (s, [], Closing_client) else None)"
| "call_step (wide, sha256, hmac) c n raw Closing_client s =
     (case close_client c (en_fault n) of (evs, p) \<Rightarrow> Some (s, evs, p))"
| "call_step (wide, sha256, hmac) c n raw (Marking_closed cf) s =
     (case mark_closed cf s of (s', p) \<Rightarrow> Some (s', [], p))"
| "call_step (wide, sha256, hmac) c n raw Close_waiting s =
     (if sk_lifecycle s = Lc_closed then Some (s, [], Close_returned (Inr ())) else None)"
| "call_step (wide, sha256, hmac) c n raw (Close_returned r) s = None"

section \<open>Interleavings\<close>

text \<open>The running calls, each with the event it was given, the shared state and what was seen so far.\<close>

record system =
  sy_calls :: "(raw_event \<times> pc) list"
  sy_sink :: sink_state
  sy_log :: "sink_event list"

definition system_step :: "libs \<Rightarrow> sink_config \<Rightarrow> nat \<Rightarrow> env \<Rightarrow> system \<Rightarrow> system option" where
  "system_step l c i n y =
     (if length (sy_calls y) \<le> i then None else
      case sy_calls y ! i of (raw, p) \<Rightarrow>
        map_option (\<lambda>(s, evs, p'). \<lparr>sy_calls = (sy_calls y)[i := (raw, p')], sy_sink = s, sy_log = sy_log y @ evs\<rparr>)
          (call_step l c n raw p (sy_sink y)))"

inductive moves :: "libs \<Rightarrow> sink_config \<Rightarrow> system \<Rightarrow> system \<Rightarrow> bool" for l c where
  moves: "system_step l c i n y = Some z \<Longrightarrow> moves l c y z"

inductive_cases moves_cases: "moves l c y z"

text \<open>
  Any number of \<open>send\<close> and \<open>close\<close> calls on a fresh sink; a call that comes later is one whose first step
  is late.
\<close>

definition initial_system :: "sink_config \<Rightarrow> (raw_event \<times> bool) list \<Rightarrow> system" where
  "initial_system c calls =
     \<lparr>sy_calls = map (\<lambda>(raw, closing). (raw, if closing then Close_called else Called)) calls,
      sy_sink = fresh_sink c, sy_log = []\<rparr>"

inductive visits :: "libs \<Rightarrow> sink_config \<Rightarrow> system \<Rightarrow> bool" for l c where
  visits_initial: "visits l c (initial_system c calls)"
| visits_move: "visits l c y \<Longrightarrow> moves l c y z \<Longrightarrow> visits l c z"

text \<open>A schedule names the call that moves and what the environment answers; a blocked call is skipped.\<close>

fun run_schedule :: "libs \<Rightarrow> sink_config \<Rightarrow> (nat \<times> env) list \<Rightarrow> system \<Rightarrow> system" where
  "run_schedule l c [] y = y"
| "run_schedule l c ((i, n) # sched) y =
     run_schedule l c sched (case system_step l c i n y of None \<Rightarrow> y | Some z \<Rightarrow> z)"

lemma run_schedule_visits:
  "visits l c y \<Longrightarrow> visits l c (run_schedule l c sched y)"
proof (induction sched arbitrary: y)
  case (Cons step sched)
  obtain i n where step: "step = (i, n)" by (cases step)
  show ?case
  proof (cases "system_step l c i n y")
    case None
    with Cons step show ?thesis by simp
  next
    case (Some z)
    have "visits l c z" by (rule visits_move [OF Cons.prems]) (rule moves.moves [OF Some])
    with Cons.IH Some step show ?thesis by simp
  qed
qed simp

text \<open>An invariant of a sink's systems holds in all of them.\<close>

locale sink_invariant =
  fixes l :: libs and c :: sink_config and I :: "system \<Rightarrow> bool"
  assumes initial: "I (initial_system c calls)"
    and kept: "visits l c y \<Longrightarrow> moves l c y z \<Longrightarrow> I y \<Longrightarrow> I z"
begin

lemma reachable: "visits l c y \<Longrightarrow> I y"
  by (induction rule: visits.induct) (rule initial, rule kept)

end

end
