(* ===== verification/NotificationLifecycle.thy ===== *)
theory NotificationLifecycle
  imports NotificationSteps
begin

text \<open>
  Slots, counters and the lifecycle of the webhook sink: how many calls hold what in a reachable state,
  that the client is not used once it may be closed, and that every interleaving ends.
\<close>

section \<open>What a call holds\<close>

fun counted :: "pc \<Rightarrow> bool" where
  "counted Called = False"
| "counted (Returned r) = False"
| "counted Close_called = False"
| "counted Draining = False"
| "counted Closing_client = False"
| "counted (Marking_closed cf) = False"
| "counted Close_waiting = False"
| "counted (Close_returned r) = False"
| "counted _ = True"

fun holds_request :: "pc \<Rightarrow> bool" where
  "holds_request (Counted e) = False"
| "holds_request (Unwinding r) = False"
| "holds_request (Uncounting r rf) = False"
| "holds_request p = counted p"

fun holds_slot :: "pc \<Rightarrow> bool" where
  "holds_slot (Slotted e body key a) = True"
| "holds_slot (Posting e body key a t) = True"
| "holds_slot (Unslotting e body key a r) = True"
| "holds_slot _ = False"

fun past_drain :: "pc \<Rightarrow> bool" where
  "past_drain Closing_client = True"
| "past_drain (Marking_closed cf) = True"
| "past_drain _ = False"

fun closer :: "pc \<Rightarrow> bool" where
  "closer Draining = True"
| "closer p = past_drain p"

fun marking :: "pc \<Rightarrow> bool" where
  "marking (Marking_closed cf) = True"
| "marking _ = False"

fun close_waits :: "pc \<Rightarrow> bool" where
  "close_waits Close_waiting = True"
| "close_waits _ = False"

definition count_calls :: "(pc \<Rightarrow> bool) \<Rightarrow> system \<Rightarrow> nat" where
  "count_calls P y = length (filter (\<lambda>(raw, p). P p) (sy_calls y))"

lemma filter_update_count:
  "i < length xs \<Longrightarrow>
   length (filter P (xs[i := x])) + of_bool (P (xs ! i)) = length (filter P xs) + of_bool (P x)"
proof (induction xs arbitrary: i)
  case (Cons y xs)
  then show ?case by (cases i) (auto simp: nth_Cons')
qed simp

lemma count_moved:
  assumes "i < length (sy_calls y)" "sy_calls y ! i = (raw, p)" "sy_calls z = (sy_calls y)[i := (raw, p')]"
  shows "count_calls P z + of_bool (P p) = count_calls P y + of_bool (P p')"
  using filter_update_count [OF assms(1), of "\<lambda>(raw, p). P p" "(raw, p')"] assms(2,3)
  by (simp add: count_calls_def)

lemma length_filter_mono:
  "(\<And>x. x \<in> set xs \<Longrightarrow> P x \<Longrightarrow> Q x) \<Longrightarrow> length (filter P xs) \<le> length (filter Q xs)"
  by (induction xs) (auto intro: le_SucI)

lemma count_positive:
  "i < length (sy_calls y) \<Longrightarrow> sy_calls y ! i = (raw, p) \<Longrightarrow> P p \<Longrightarrow> 0 < count_calls P y"
  by (auto simp: count_calls_def length_greater_0_conv filter_empty_conv in_set_conv_nth
      intro!: bexI [of _ "(raw, p)"])

lemma count_mono: "(\<And>p. P p \<Longrightarrow> Q p) \<Longrightarrow> count_calls P y \<le> count_calls Q y"
  unfolding count_calls_def by (rule length_filter_mono) auto

lemma count_initial [simp]:
  assumes "\<not> P Called" "\<not> P Close_called"
  shows "count_calls P (initial_system c calls) = 0"
proof -
  have "filter (\<lambda>(raw, p). P p) (map (\<lambda>(raw, closing). (raw, if closing then Close_called else Called)) calls) = []"
    using assms by (auto simp: filter_empty_conv split: if_split_asm)
  then show ?thesis by (simp add: count_calls_def initial_system_def)
qed

text \<open>What a move is made of.\<close>

lemma moves_E:
  assumes "moves l c y z"
  obtains i n raw p s evs p' where
    "i < length (sy_calls y)" "sy_calls y ! i = (raw, p)"
    "call_step l c n raw p (sy_sink y) = Some (s, evs, p')"
    "z = \<lparr>sy_calls = (sy_calls y)[i := (raw, p')], sy_sink = s, sy_log = sy_log y @ evs\<rparr>"
proof -
  from assms obtain i n where step: "system_step l c i n y = Some z" by (auto elim: moves_cases)
  obtain raw p where p: "sy_calls y ! i = (raw, p)" by (cases "sy_calls y ! i")
  from step p obtain s evs p' where "i < length (sy_calls y)"
    "call_step l c n raw p (sy_sink y) = Some (s, evs, p')"
    "z = \<lparr>sy_calls = (sy_calls y)[i := (raw, p')], sy_sink = s, sy_log = sy_log y @ evs\<rparr>"
    by (auto simp: system_step_def split: if_splits)
  with p show ?thesis using that by blast
qed

section \<open>Counters\<close>

definition counters_ok :: "sink_config \<Rightarrow> system \<Rightarrow> bool" where
  "counters_ok c y =
     (sk_active_sends (sy_sink y) = int (count_calls counted y)
      \<and> sk_request_free (sy_sink y) + count_calls holds_request y \<le> hk_max_pending c
      \<and> sk_transport_free (sy_sink y) + count_calls holds_slot y \<le> hk_max_concurrent c)"

lemmas step_unfolds =
  enter_send_def admit_def resolve_event_def claim_key_def start_delivery_def await_done_def take_slot_def
  post_request_def return_slot_def set_final_status_def signal_done_def return_request_slot_def
  leave_send_def enter_close_def close_client_def mark_closed_def semaphore_release_def

text \<open>The change of each counter in one step, next to the change in what the call holds.\<close>

lemma step_counters:
  assumes "call_step l c n raw p s = Some (s', evs, p')"
  shows "sk_active_sends s' - of_bool (counted p') = sk_active_sends s - of_bool (counted p)"
    and "sk_request_free s' + of_bool (holds_request p') \<le> sk_request_free s + of_bool (holds_request p)"
    and "sk_transport_free s' + of_bool (holds_slot p') \<le> sk_transport_free s + of_bool (holds_slot p)"
  using assms
  by (cases l; cases p; auto simp: step_unfolds Let_def split: option.splits if_splits
        delivery_status.splits sum.splits prod.splits lifecycle.splits)+

lemma counters_kept:
  assumes "moves l c y z" "counters_ok c y"
  shows "counters_ok c z"
proof -
  from assms(1) obtain i n raw p s evs p' where i: "i < length (sy_calls y)" "sy_calls y ! i = (raw, p)"
    and step: "call_step l c n raw p (sy_sink y) = Some (s, evs, p')"
    and z: "z = \<lparr>sy_calls = (sy_calls y)[i := (raw, p')], sy_sink = s, sy_log = sy_log y @ evs\<rparr>"
    by (rule moves_E)
  have count: "count_calls P z + of_bool (P p) = count_calls P y + of_bool (P p')" for P
    by (rule count_moved [OF i]) (simp add: z)
  have sink: "sy_sink z = s" by (simp add: z)
  have "sk_active_sends s = int (count_calls counted z)"
    using assms(2) step_counters(1) [OF step] count [of counted]
    by (cases "counted p"; cases "counted p'") (auto simp: counters_ok_def)
  moreover have "sk_request_free s + count_calls holds_request z \<le> hk_max_pending c"
    using assms(2) step_counters(2) [OF step] count [of holds_request] by (simp add: counters_ok_def)
  moreover have "sk_transport_free s + count_calls holds_slot z \<le> hk_max_concurrent c"
    using assms(2) step_counters(3) [OF step] count [of holds_slot] by (simp add: counters_ok_def)
  ultimately show ?thesis by (simp add: counters_ok_def sink)
qed

interpretation counters: sink_invariant l c "counters_ok c" for l c
proof unfold_locales
  show "counters_ok c (initial_system c calls)" for calls
    by (simp add: counters_ok_def) (simp add: initial_system_def fresh_sink_def)
qed (rule counters_kept)

section \<open>Lifecycle\<close>

definition lifecycle_ok :: "system \<Rightarrow> bool" where
  "lifecycle_ok y =
     (count_calls closer y = (if sk_lifecycle (sy_sink y) = Lc_closing then 1 else 0)
      \<and> (0 < count_calls past_drain y \<longrightarrow> count_calls counted y = 0)
      \<and> (sk_lifecycle (sy_sink y) = Lc_closed \<longrightarrow> count_calls counted y = 0)
      \<and> (0 < count_calls close_waits y \<longrightarrow> sk_lifecycle (sy_sink y) \<noteq> Lc_open)
      \<and> (Client_closed \<in> set (sy_log y) \<longrightarrow>
           sk_lifecycle (sy_sink y) = Lc_closed \<or> 0 < count_calls marking y))"

lemma step_lifecycle:
  assumes "call_step l c n raw p s = Some (s', evs, p')"
  shows "counted p' \<Longrightarrow> counted p \<or> sk_lifecycle s = Lc_open"
    and "sk_lifecycle s' \<noteq> sk_lifecycle s \<Longrightarrow>
           p = Close_called \<and> p' = Draining \<and> sk_lifecycle s = Lc_open \<and> sk_lifecycle s' = Lc_closing
           \<or> marking p \<and> (\<exists>r. p' = Close_returned r) \<and> sk_lifecycle s' = Lc_closed"
    and "closer p' \<Longrightarrow> closer p \<or> p = Close_called \<and> p' = Draining \<and> sk_lifecycle s = Lc_open
           \<and> sk_lifecycle s' = Lc_closing"
    and "closer p \<Longrightarrow> closer p' \<or> marking p \<and> sk_lifecycle s' = Lc_closed"
    and "past_drain p' \<Longrightarrow> past_drain p \<or> p = Draining \<and> sk_active_sends s = 0"
    and "past_drain p \<Longrightarrow> past_drain p' \<or> marking p \<and> sk_lifecycle s' = Lc_closed"
    and "close_waits p' \<Longrightarrow> sk_lifecycle s' = Lc_closing"
    and "Client_closed \<in> set evs \<Longrightarrow> marking p' \<and> past_drain p"
    and "Sent q \<in> set evs \<Longrightarrow> counted p"
    and "marking p \<Longrightarrow> sk_lifecycle s' = Lc_closed"
  using assms
  by (cases l; cases p; auto simp: step_unfolds Let_def split: option.splits if_splits
        delivery_status.splits sum.splits prod.splits lifecycle.splits)+

lemma marking_past: "marking p \<Longrightarrow> past_drain p"
  by (cases p) simp_all

lemma past_closer: "past_drain p \<Longrightarrow> closer p"
  by (cases p) simp_all

lemma past_not_counted: "past_drain p \<Longrightarrow> \<not> counted p"
  by (cases p) simp_all

lemma lifecycle_kept:
  assumes "moves l c y z" "counters_ok c y" "lifecycle_ok y"
  shows "lifecycle_ok z"
proof -
  from assms(1) obtain i n raw p s evs p' where i: "i < length (sy_calls y)" "sy_calls y ! i = (raw, p)"
    and step: "call_step l c n raw p (sy_sink y) = Some (s, evs, p')"
    and z: "z = \<lparr>sy_calls = (sy_calls y)[i := (raw, p')], sy_sink = s, sy_log = sy_log y @ evs\<rparr>"
    by (rule moves_E)
  have count: "count_calls P z + of_bool (P p) = count_calls P y + of_bool (P p')" for P
    by (rule count_moved [OF i]) (simp add: z)
  have pos: "P p \<Longrightarrow> 0 < count_calls P y" for P by (rule count_positive [OF i])
  have sink: "sy_sink z = s" "sy_log z = sy_log y @ evs" by (simp_all add: z)
  note L = step_lifecycle [OF step]
  note old = assms(3) [unfolded lifecycle_ok_def]
  note marking = marking_past past_closer
  have le: "count_calls marking y \<le> count_calls past_drain y" "count_calls past_drain y \<le> count_calls closer y"
    by (rule count_mono, rule marking, assumption)+
  have one: "count_calls closer z = (if sk_lifecycle s = Lc_closing then 1 else 0)"
  proof (cases "sk_lifecycle s = sk_lifecycle (sy_sink y)")
    case True
    then have "closer p' = closer p"
      using L(3,4) old pos [of closer] marking by (auto split: if_split_asm)
    with True old count [of closer] show ?thesis by (simp split: if_split_asm)
  next
    case False
    with L(2) show ?thesis using old count [of closer] marking by (auto split: if_split_asm)
  qed
  have none: "counted p' \<Longrightarrow> counted p" "count_calls counted z = 0"
    if "count_calls counted y = 0" "sk_lifecycle (sy_sink y) \<noteq> Lc_open"
  proof -
    show p': "counted p" if "counted p'" using that L(1) \<open>sk_lifecycle (sy_sink y) \<noteq> Lc_open\<close> by blast
    show "count_calls counted z = 0"
      using count [of counted] pos [of counted] p' that(1) by (cases "counted p"; cases "counted p'") auto
  qed
  have drained: "count_calls counted z = 0" if "0 < count_calls past_drain y"
  proof (rule none(2))
    show "count_calls counted y = 0" using old that by blast
    show "sk_lifecycle (sy_sink y) \<noteq> Lc_open" using old that le by (auto split: if_split_asm)
  qed
  have two: "count_calls counted z = 0" if "0 < count_calls past_drain z"
  proof (cases "0 < count_calls past_drain y")
    case False
    with that count [of past_drain] have past: "past_drain p' \<and> \<not> past_drain p"
      by (cases "past_drain p'"; cases "past_drain p") simp_all
    with L(5) have "p = Draining" "sk_active_sends (sy_sink y) = 0" by auto
    moreover have "\<not> counted p'" using past by (simp add: past_not_counted)
    ultimately show ?thesis using assms(2) count [of counted] by (simp add: counters_ok_def)
  qed (rule drained)
  have three: "count_calls counted z = 0" if "sk_lifecycle s = Lc_closed"
  proof (cases "sk_lifecycle (sy_sink y) = Lc_closed")
    case True
    with old show ?thesis by (intro none(2)) auto
  next
    case False
    with that L(2) have "marking p" by auto
    then show ?thesis by (intro drained pos marking)
  qed
  have four: "sk_lifecycle s \<noteq> Lc_open" if "0 < count_calls close_waits z"
  proof (cases "close_waits p'")
    case True
    with L(7) show ?thesis by simp
  next
    case False
    with that count [of close_waits] have "0 < count_calls close_waits y" by simp
    with old have "sk_lifecycle (sy_sink y) \<noteq> Lc_open" by blast
    with L(2) show ?thesis by (cases "sk_lifecycle s = sk_lifecycle (sy_sink y)") auto
  qed
  have five: "sk_lifecycle s = Lc_closed \<or> 0 < count_calls marking z" if "Client_closed \<in> set (sy_log y @ evs)"
  proof (cases "Client_closed \<in> set evs")
    case True
    with L(8,10) count [of marking] show ?thesis by (cases "marking p") simp_all
  next
    case False
    with that old consider "sk_lifecycle (sy_sink y) = Lc_closed" | "0 < count_calls marking y" by auto
    then show ?thesis
    proof cases
      case 1
      with L(2) show ?thesis by (cases "sk_lifecycle s = sk_lifecycle (sy_sink y)") auto
    next
      case 2
      show ?thesis
      proof (cases "marking p")
        case True
        with L(10) show ?thesis by blast
      next
        case False
        with 2 count [of marking] show ?thesis by simp
      qed
    qed
  qed
  show ?thesis using one two three four five by (simp add: lifecycle_ok_def sink)
qed

interpretation life: sink_invariant l c lifecycle_ok for l c
proof unfold_locales
  show "lifecycle_ok (initial_system c calls)" for calls
    by (simp add: lifecycle_ok_def) (simp add: initial_system_def fresh_sink_def)
  show "visits l c y \<Longrightarrow> moves l c y z \<Longrightarrow> lifecycle_ok y \<Longrightarrow> lifecycle_ok z" for y z
    by (rule lifecycle_kept [OF _ counters.reachable])
qed

text \<open>From the closing of the client on, no request is seen.\<close>

definition closed_part :: "sink_event list \<Rightarrow> sink_event list" where
  "closed_part log = dropWhile (\<lambda>v. v \<noteq> Client_closed) log"

lemma closed_part_append:
  "closed_part (xs @ ys) = (if Client_closed \<in> set xs then closed_part xs @ ys else closed_part ys)"
  by (auto simp: closed_part_def dropWhile_append)

definition silent_when_closed :: "system \<Rightarrow> bool" where
  "silent_when_closed y = (\<forall>q. Sent q \<notin> set (closed_part (sy_log y)))"

lemma silence_kept:
  assumes "visits l c y" "moves l c y z" "silent_when_closed y"
  shows "silent_when_closed z"
proof -
  obtain i n raw p s evs p' where i: "i < length (sy_calls y)" "sy_calls y ! i = (raw, p)"
    and step: "call_step l c n raw p (sy_sink y) = Some (s, evs, p')"
    and z: "z = \<lparr>sy_calls = (sy_calls y)[i := (raw, p')], sy_sink = s, sy_log = sy_log y @ evs\<rparr>"
    using assms(2) by (rule moves_E)
  have "Sent q \<notin> set (closed_part (sy_log y @ evs))" for q
  proof (cases "Sent q \<in> set evs")
    case True
    have "0 < count_calls counted y"
      by (rule count_positive [OF i]) (rule step_lifecycle(9) [OF step True])
    moreover have "count_calls marking y \<le> count_calls past_drain y"
      by (rule count_mono) (rule marking_past)
    ultimately have "Client_closed \<notin> set (sy_log y)"
      using life.reachable [OF assms(1)] by (auto simp: lifecycle_ok_def)
    moreover have "Client_closed \<notin> set evs"
      using step_lifecycle(8,9) [OF step] True past_not_counted [of p] by blast
    ultimately have "closed_part (sy_log y @ evs) = []" by (auto simp: closed_part_def)
    then show ?thesis by simp
  next
    case False
    with assms(3) show ?thesis
      by (auto simp: silent_when_closed_def closed_part_append)
        (auto simp: closed_part_def dest: set_dropWhileD)
  qed
  then show ?thesis by (simp add: silent_when_closed_def z)
qed

interpretation silence: sink_invariant l c silent_when_closed for l c
  by unfold_locales (simp add: silent_when_closed_def initial_system_def closed_part_def, rule silence_kept)

section \<open>Every interleaving ends\<close>

fun rank :: "pc \<Rightarrow> nat" where
  "rank Called = 12"
| "rank (Counted e) = 11"
| "rank (Admitted e) = 10"
| "rank (Keyed e body key) = 9"
| "rank (Claimed e body key a) = 8"
| "rank (Slotted e body key a) = 7"
| "rank (Posting e body key a t) = 6"
| "rank (Unslotting e body key a r) = 5"
| "rank (Settling e body key a r cf) = 4"
| "rank (Signalling e a r cf) = 3"
| "rank (Awaiting e a) = 3"
| "rank (Unwinding r) = 2"
| "rank (Unadmitting r) = 2"
| "rank (Uncounting r rf) = 1"
| "rank (Returned r) = 0"
| "rank Close_called = 4"
| "rank Draining = 3"
| "rank Closing_client = 2"
| "rank (Marking_closed cf) = 1"
| "rank Close_waiting = 1"
| "rank (Close_returned r) = 0"

definition work_left :: "system \<Rightarrow> nat" where
  "work_left y = (\<Sum>(raw, p) \<leftarrow> sy_calls y. rank p)"

lemma step_rank: "call_step l c n raw p s = Some (s', evs, p') \<Longrightarrow> rank p' < rank p"
  by (cases l; cases p; auto simp: step_unfolds Let_def split: option.splits if_splits
        delivery_status.splits sum.splits prod.splits lifecycle.splits)

lemma sum_list_update_less:
  fixes f :: "'a \<Rightarrow> nat"
  shows "i < length xs \<Longrightarrow> f x < f (xs ! i) \<Longrightarrow> (\<Sum>x \<leftarrow> xs[i := x]. f x) < (\<Sum>x \<leftarrow> xs. f x)"
proof (induction xs arbitrary: i)
  case (Cons y xs)
  then show ?case by (cases i) (auto simp: nth_Cons')
qed simp

lemma move_works: "moves l c y z \<Longrightarrow> work_left z < work_left y"
proof (erule moves_E)
  fix i n raw p s evs p'
  assume *: "i < length (sy_calls y)" "sy_calls y ! i = (raw, p)"
    "call_step l c n raw p (sy_sink y) = Some (s, evs, p')"
    "z = \<lparr>sy_calls = (sy_calls y)[i := (raw, p')], sy_sink = s, sy_log = sy_log y @ evs\<rparr>"
  show ?thesis
    using sum_list_update_less [of i "sy_calls y" "\<lambda>(raw, p). rank p" "(raw, p')"] * step_rank [OF *(3)]
    by (simp add: work_left_def)
qed

lemma moves_bounded: "(moves l c ^^ k) y z \<Longrightarrow> k + work_left z \<le> work_left y"
proof (induction k arbitrary: z)
  case (Suc k)
  from Suc.prems obtain x where x: "(moves l c ^^ k) y x" "moves l c x z" by auto
  from Suc.IH [OF x(1)] move_works [OF x(2)] show ?case by simp
qed simp

lemma initial_work: "work_left (initial_system c calls) \<le> 12 * length calls"
  by (induction calls) (auto simp: work_left_def initial_system_def)

fun finished :: "pc \<Rightarrow> bool" where
  "finished (Returned r) = True"
| "finished (Close_returned r) = True"
| "finished _ = False"

text \<open>A call is only ever blocked in \<open>close\<close>: while calls are counted, or until the sink is closed.\<close>

definition impatient :: env where
  "impatient = \<lparr>en_fault = False, en_catalog = None, en_clock = None, en_nonce = None,
     en_answer = Http_error, en_timeout = True\<rparr>"

lemma call_enabled:
  assumes "\<not> finished p" "p = Draining \<longrightarrow> sk_active_sends s = 0"
    "p = Close_waiting \<longrightarrow> sk_lifecycle s = Lc_closed"
  shows "call_step l c impatient raw p s \<noteq> None"
  using assms
  by (cases l; cases p; auto simp: await_done_def impatient_def split: prod.splits)

lemma no_call_waits_forever:
  assumes "visits l c y" "\<And>z. \<not> moves l c y z" "i < length (sy_calls y)"
  shows "finished (snd (sy_calls y ! i))"
proof -
  have stuck: "finished p \<or> p = Draining \<and> sk_active_sends (sy_sink y) \<noteq> 0
      \<or> p = Close_waiting \<and> sk_lifecycle (sy_sink y) \<noteq> Lc_closed"
    if "(raw, p) \<in> set (sy_calls y)" for raw p
  proof (rule ccontr)
    assume "\<not> ?thesis"
    moreover from that obtain j where j: "j < length (sy_calls y)" "sy_calls y ! j = (raw, p)"
      by (auto simp: in_set_conv_nth)
    ultimately obtain s evs p' where "call_step l c impatient raw p (sy_sink y) = Some (s, evs, p')"
      using call_enabled [of p "sy_sink y" l c raw] by fastforce
    with j have "\<exists>z. system_step l c j impatient y = Some z" by (simp add: system_step_def)
    with assms(2) moves.moves show False by blast
  qed
  have empty: "count_calls P y = 0" if "\<And>p. P p \<Longrightarrow> \<not> finished p"
    "\<And>p. P p \<Longrightarrow> p \<noteq> Draining \<or> sk_active_sends (sy_sink y) = 0" "\<And>p. P p \<Longrightarrow> p \<noteq> Close_waiting" for P
    using stuck that by (fastforce simp: count_calls_def filter_empty_conv)
  have "count_calls counted y = 0"
  proof (rule empty)
    fix p show "counted p \<Longrightarrow> \<not> finished p" by (cases p) simp_all
  qed auto
  with counters.reachable [OF assms(1)] have active: "sk_active_sends (sy_sink y) = 0"
    by (simp add: counters_ok_def)
  have "count_calls closer y = 0"
  proof (rule empty)
    fix p show "closer p \<Longrightarrow> \<not> finished p" by (cases p) simp_all
  qed (use active in auto)
  with life.reachable [OF assms(1)] have "sk_lifecycle (sy_sink y) \<noteq> Lc_closing"
    by (auto simp: lifecycle_ok_def)
  moreover obtain raw p where p: "sy_calls y ! i = (raw, p)" by (cases "sy_calls y ! i")
  moreover have "p = Close_waiting \<Longrightarrow> sk_lifecycle (sy_sink y) \<noteq> Lc_open"
    using life.reachable [OF assms(1)] count_positive [OF assms(3) p, of close_waits]
    by (simp add: lifecycle_ok_def)
  ultimately have "p = Close_waiting \<Longrightarrow> sk_lifecycle (sy_sink y) = Lc_closed"
    by (cases "sk_lifecycle (sy_sink y)") auto
  with stuck [of raw p] active p assms(3) show ?thesis by (metis nth_mem snd_conv)
qed

end
