(* ===== verification/NotificationDelivery.thy ===== *)
theory NotificationDelivery
  imports NotificationLifecycle
begin

text \<open>
  Deliveries per idempotency key: which call owns the delivery in flight, what has been on the wire, and
  how both follow the recorded status.  The requests and answers seen under one key are read by a small
  automaton; it is overtaken when a request is sent while another is out or after one was accepted.
\<close>

section \<open>What is on the wire\<close>

datatype wire = Silent | In_transit | Acknowledged | Overtaken

definition accepted :: "answer \<Rightarrow> bool" where
  "accepted a = (delivery_outcome a = Inr ())"

fun wire_step :: "pystr \<Rightarrow> wire \<Rightarrow> sink_event \<Rightarrow> wire" where
  "wire_step key w (Sent q) =
     (if sq_key q \<noteq> key then w else if w = Silent then In_transit else Overtaken)"
| "wire_step key w (Answer_seen k a) =
     (if k \<noteq> key then w else if w = In_transit then (if accepted a then Acknowledged else Silent) else Overtaken)"
| "wire_step key w _ = w"

definition wire :: "pystr \<Rightarrow> sink_event list \<Rightarrow> wire" where
  "wire key log = foldl (wire_step key) Silent log"

lemma wire_simps [simp]:
  "wire key [] = Silent" "wire key (xs @ [v]) = wire_step key (wire key xs) v"
  by (simp_all add: wire_def)

section \<open>Owners\<close>

text \<open>The call that installed a \<open>_DeliveryState\<close>, until it has written its final status.\<close>

definition outcome_wire :: "delivery_end \<Rightarrow> wire" where
  "outcome_wire r = (case r of Inl x \<Rightarrow> Silent | Inr t \<Rightarrow> Acknowledged)"

fun owner :: "pc \<Rightarrow> (pystr \<times> bytes \<times> nat \<times> wire) option" where
  "owner (Claimed e body key a) = Some (key, body, a, Silent)"
| "owner (Slotted e body key a) = Some (key, body, a, Silent)"
| "owner (Posting e body key a t) = Some (key, body, a, In_transit)"
| "owner (Unslotting e body key a r) = Some (key, body, a, outcome_wire r)"
| "owner (Settling e body key a r cf) = Some (key, body, a, outcome_wire r)"
| "owner _ = None"

text \<open>Hash and status of a \<open>_DeliveryState\<close> object.\<close>

definition recorded :: "sink_state \<Rightarrow> nat \<Rightarrow> (pystr \<times> delivery_status) option" where
  "recorded s a =
     (if a < length (sk_states s)
      then Some (ds_payload_hash (sk_states s ! a), ds_status (sk_states s ! a)) else None)"

definition final_status :: "delivery_end \<Rightarrow> delivery_status" where
  "final_status r = (case r of Inl x \<Rightarrow> Failed | Inr t \<Rightarrow> Delivered)"

lemma recorded_start:
  "recorded (start_delivery key h s) = (recorded s)(length (sk_states s) \<mapsto> (h, In_flight))"
  by (auto simp: recorded_def start_delivery_def fun_eq_iff nth_append)

lemma recorded_fresh: "recorded s (length (sk_states s)) = None"
  by (simp add: recorded_def)

lemma recorded_final:
  "recorded s a = Some (h, st) \<Longrightarrow> recorded (set_final_status a r s) = (recorded s)(a \<mapsto> (h, final_status r))"
  by (auto simp: recorded_def set_final_status_def final_status_def fun_eq_iff nth_list_update split: if_splits)

lemma recorded_done:
  "recorded (s\<lparr>sk_states := (sk_states s)[a := (sk_states s ! a)\<lparr>ds_done := True\<rparr>]\<rparr>) = recorded s"
  by (cases "a < length (sk_states s)") (auto simp: recorded_def fun_eq_iff nth_list_update)

section \<open>What a step does to a delivery\<close>

inductive delivery_effect ::
  "(bytes \<Rightarrow> pystr) \<Rightarrow> sink_config \<Rightarrow> pc \<Rightarrow> sink_state \<Rightarrow> sink_event list \<Rightarrow> pc \<Rightarrow> sink_state \<Rightarrow> bool"
  for sha256 c where
  quiet: "owner p' = owner p \<Longrightarrow> sk_events s' = sk_events s \<Longrightarrow> recorded s' = recorded s
     \<Longrightarrow> evs = [] \<or> (\<exists>i v. evs = [Resolved i v]) \<or> evs = [Client_closed]
     \<Longrightarrow> delivery_effect sha256 c p s evs p' s'"
| claim: "(map_of (sk_events s) key = None \<and> length (sk_events s) < hk_max_tracked c)
       \<or> (\<exists>a d. map_of (sk_events s) key = Some a \<and> sk_states s ! a = d
            \<and> ds_payload_hash d = sha256 body \<and> ds_status d = Failed)
     \<Longrightarrow> delivery_effect sha256 c (Keyed e body key) s []
           (Claimed e body key (length (sk_states s))) (start_delivery key (sha256 body) s)"
| post: "sq_key q = key \<Longrightarrow> sq_body q = body
     \<Longrightarrow> delivery_effect sha256 c (Slotted e body key a) s [Sent q] (Posting e body key a t) s"
| answer: "delivery_effect sha256 c (Posting e body key a t) s [Answer_seen key ans]
     (Unslotting e body key a (bnd (delivery_outcome ans) (\<lambda>_. Inr t))) s"
| settle: "delivery_effect sha256 c (Settling e body key a r cf) s [] (Signalling e a r cf)
     (set_final_status a r s)"

lemma prepare_delivery_request:
  "prepare_delivery sha256 hmac c body key clock nonce = Inr q
   \<Longrightarrow> sq_key q = key \<and> sq_body q = body \<and> read_timestamp clock = Inr (sq_timestamp q)
       \<and> length (sq_nonce q) = 32 \<and> list_all lower_hex (sq_nonce q)
       \<and> sign_request sha256 hmac ''POST'' (hk_path c) (sq_timestamp q) (sq_nonce q) body (hk_key c)
           = Inr (sq_signature q)
       \<and> sq_payload_sha256 q = sha256 body"
  by (cases nonce) (auto simp: prepare_delivery_def bnd_eq_Inr split: if_splits sum.splits)

lemma recorded_other [simp]:
  "recorded (s\<lparr>sk_transport_free := x\<rparr>) = recorded s" "recorded (s\<lparr>sk_request_free := x\<rparr>) = recorded s"
  "recorded (s\<lparr>sk_lifecycle := lc\<rparr>) = recorded s" "recorded (s\<lparr>sk_active_sends := n\<rparr>) = recorded s"
  by (simp_all add: recorded_def fun_eq_iff)

lemma call_step_effect:
  assumes "call_step (wide, sha256, hmac) c n raw p s = Some (s', evs, p')"
  shows "delivery_effect sha256 c p s evs p' s'"
proof (cases p)
  case (Keyed e body key)
  with assms show ?thesis
    by (auto simp: claim_key_def Let_def split: option.splits if_splits delivery_status.splits
        intro: delivery_effect.quiet delivery_effect.claim)
next
  case (Slotted e body key a)
  with assms show ?thesis
    by (auto simp: post_request_def outcome_wire_def dest!: prepare_delivery_request split: sum.splits
        intro: delivery_effect.quiet delivery_effect.post)
next
  case (Settling e body key a r cf)
  with assms show ?thesis by (auto intro: delivery_effect.settle)
next
  case (Posting e body key a t)
  with assms show ?thesis by (auto intro: delivery_effect.answer)
next
  case (Signalling e a r cf)
  with assms show ?thesis
    by (intro delivery_effect.quiet)
      (auto simp: signal_done_def Let_def recorded_done split: if_splits sum.splits)
qed (use assms in \<open>auto intro!: delivery_effect.quiet simp: step_unfolds outcome_wire_def split: option.splits
      if_splits sum.splits prod.splits lifecycle.splits\<close>)

section \<open>Deliveries in step with the wire\<close>

text \<open>
  Over the dict (\<open>ev\<close>), the recorded objects (\<open>rc\<close>), the wire of every key (\<open>w\<close>) and the owner each call
  is (\<open>own\<close>): keys do not share objects, a failed delivery is silent and a delivered one acknowledged,
  and the deliveries in flight correspond one to one to their owners.
\<close>

definition status_wire :: "delivery_status \<Rightarrow> wire \<Rightarrow> bool" where
  "status_wire st w =
     (case st of Failed \<Rightarrow> w = Silent | Delivered \<Rightarrow> w = Acknowledged | In_flight \<Rightarrow> w \<noteq> Overtaken)"

definition deliveries ::
  "(bytes \<Rightarrow> pystr) \<Rightarrow> (pystr \<Rightarrow> nat option) \<Rightarrow> (nat \<Rightarrow> (pystr \<times> delivery_status) option)
   \<Rightarrow> (pystr \<Rightarrow> wire) \<Rightarrow> (nat \<Rightarrow> (pystr \<times> bytes \<times> nat \<times> wire) option) \<Rightarrow> bool" where
  "deliveries sha256 ev rc w own =
     ((\<forall>k a. ev k = Some a \<longrightarrow> (\<exists>h st. rc a = Some (h, st) \<and> status_wire st (w k)))
      \<and> (\<forall>k. ev k = None \<longrightarrow> w k = Silent)
      \<and> (\<forall>k k' a. ev k = Some a \<longrightarrow> ev k' = Some a \<longrightarrow> k = k')
      \<and> (\<forall>i k b a x. own i = Some (k, b, a, x) \<longrightarrow>
           ev k = Some a \<and> rc a = Some (sha256 b, In_flight) \<and> w k = x)
      \<and> (\<forall>i j k b a x k' b' x'. own i = Some (k, b, a, x) \<longrightarrow> own j = Some (k', b', a, x') \<longrightarrow> i = j)
      \<and> (\<forall>a h. rc a = Some (h, In_flight) \<longrightarrow> (\<exists>i k b x. own i = Some (k, b, a, x))))"

lemma deliveriesD:
  assumes "deliveries sha256 ev rc w own"
  shows "ev k = Some a \<Longrightarrow> \<exists>h st. rc a = Some (h, st) \<and> status_wire st (w k)"
    and "ev k = None \<Longrightarrow> w k = Silent"
    and "ev k = Some a \<Longrightarrow> ev k' = Some a \<Longrightarrow> k = k'"
    and "own i = Some (k, b, a, x) \<Longrightarrow> ev k = Some a \<and> rc a = Some (sha256 b, In_flight) \<and> w k = x"
    and "own i = Some (k, b, a, x) \<Longrightarrow> own j = Some (k', b', a, x') \<Longrightarrow> i = j"
    and "rc a = Some (h, In_flight) \<Longrightarrow> \<exists>i k b x. own i = Some (k, b, a, x)"
proof -
  note d = assms [unfolded deliveries_def]
  note t2 = d [THEN conjunct2]
  note t3 = t2 [THEN conjunct2]
  note t4 = t3 [THEN conjunct2]
  note t5 = t4 [THEN conjunct2]
  show "ev k = Some a \<Longrightarrow> \<exists>h st. rc a = Some (h, st) \<and> status_wire st (w k)"
    using d [THEN conjunct1] by blast
  show "ev k = None \<Longrightarrow> w k = Silent" using t2 [THEN conjunct1] by blast
  show "ev k = Some a \<Longrightarrow> ev k' = Some a \<Longrightarrow> k = k'" using t3 [THEN conjunct1] by blast
  show "own i = Some (k, b, a, x) \<Longrightarrow> ev k = Some a \<and> rc a = Some (sha256 b, In_flight) \<and> w k = x"
    using t4 [THEN conjunct1] by blast
  show "own i = Some (k, b, a, x) \<Longrightarrow> own j = Some (k', b', a, x') \<Longrightarrow> i = j"
    using t5 [THEN conjunct1] by blast
  show "rc a = Some (h, In_flight) \<Longrightarrow> \<exists>i k b x. own i = Some (k, b, a, x)"
    using t5 [THEN conjunct2] by blast
qed

lemma deliveriesI:
  assumes "\<And>k a. ev k = Some a \<Longrightarrow> \<exists>h st. rc a = Some (h, st) \<and> status_wire st (w k)"
    and "\<And>k. ev k = None \<Longrightarrow> w k = Silent"
    and "\<And>k k' a. ev k = Some a \<Longrightarrow> ev k' = Some a \<Longrightarrow> k = k'"
    and "\<And>i k b a x. own i = Some (k, b, a, x) \<Longrightarrow> ev k = Some a \<and> rc a = Some (sha256 b, In_flight) \<and> w k = x"
    and "\<And>i j k b a x k' b' x'. own i = Some (k, b, a, x) \<Longrightarrow> own j = Some (k', b', a, x') \<Longrightarrow> i = j"
    and "\<And>a h. rc a = Some (h, In_flight) \<Longrightarrow> \<exists>i k b x. own i = Some (k, b, a, x)"
  shows "deliveries sha256 ev rc w own"
proof -
  have "\<forall>k a. ev k = Some a \<longrightarrow> (\<exists>h st. rc a = Some (h, st) \<and> status_wire st (w k))" using assms(1) by blast
  moreover have "\<forall>k. ev k = None \<longrightarrow> w k = Silent" using assms(2) by blast
  moreover have "\<forall>k k' a. ev k = Some a \<longrightarrow> ev k' = Some a \<longrightarrow> k = k'" using assms(3) by blast
  moreover have "\<forall>i k b a x. own i = Some (k, b, a, x) \<longrightarrow>
      ev k = Some a \<and> rc a = Some (sha256 b, In_flight) \<and> w k = x" using assms(4) by blast
  moreover have "\<forall>i j k b a x k' b' x'. own i = Some (k, b, a, x) \<longrightarrow> own j = Some (k', b', a, x') \<longrightarrow> i = j"
    using assms(5) by blast
  moreover have "\<forall>a h. rc a = Some (h, In_flight) \<longrightarrow> (\<exists>i k b x. own i = Some (k, b, a, x))"
    using assms(6) by blast
  ultimately show ?thesis unfolding deliveries_def by (intro conjI)
qed

text \<open>Installing a fresh object for a key that is unknown or failed.\<close>

lemma deliveries_claim:
  assumes d: "deliveries sha256 ev rc w own" and fresh: "rc n = None" and i: "own i = None"
    and key: "ev k = None \<or> (\<exists>a h. ev k = Some a \<and> rc a = Some (h, Failed))"
  shows "deliveries sha256 (ev(k \<mapsto> n)) (rc(n \<mapsto> (sha256 b, In_flight))) w (own(i \<mapsto> (k, b, n, Silent)))"
proof -
  note D = deliveriesD [OF d]
  have silent: "w k = Silent" using key D(1,2) by (fastforce simp: status_wire_def)
  have used: "ev k' = Some a \<Longrightarrow> a \<noteq> n" for k' a using D(1) fresh by fastforce
  have owned: "own j = Some (k', b', a, x) \<Longrightarrow> k' \<noteq> k \<and> a \<noteq> n" for j k' b' a x
    using D(4) key used by fastforce
  show ?thesis
  proof (rule deliveriesI, goal_cases)
    case (1 k' a)
    then show ?case using D(1) silent used by (auto simp: status_wire_def split: if_split_asm)
  next
    case (2 k')
    then show ?case using D(2) by (auto split: if_split_asm)
  next
    case (3 k' k'' a)
    then show ?case using D(3) [of k' a k''] used [of k' a] used [of k'' a] by (auto split: if_split_asm)
  next
    case (4 j k' b' a x)
    then show ?case using D(4) silent owned by (auto split: if_split_asm)
  next
    case (5 j j' k' b' a x k'' b'' x'')
    then show ?case
      using D(5) [of j k' b' a x j' k'' b'' x''] owned [of j k' b' a x] owned [of j' k'' b'' a x'']
      by (auto split: if_split_asm)
  next
    case (6 a h)
    show ?case
    proof (cases "a = n")
      case False
      with 6 D(6) obtain j k' b' x where j: "own j = Some (k', b', a, x)" by fastforce
      with i have "j \<noteq> i" by auto
      with j show ?thesis by (intro exI [of _ j]) simp
    qed auto
  qed
qed

text \<open>The owner of a delivery moves the wire of its key.\<close>

lemma deliveries_wire:
  assumes d: "deliveries sha256 ev rc w own" and i: "own i = Some (k, b, a, x)" and x: "x' \<noteq> Overtaken"
  shows "deliveries sha256 ev rc (w(k := x')) (own(i \<mapsto> (k, b, a, x')))"
proof -
  note D = deliveriesD [OF d]
  have k: "ev k = Some a" "rc a = Some (sha256 b, In_flight)" using D(4) [OF i] by auto
  have other: "own j = Some (k', b', a', y) \<Longrightarrow> j \<noteq> i \<Longrightarrow> k' \<noteq> k \<and> a' \<noteq> a" for j k' b' a' y
    using D(4,5) i k by (metis option.inject)
  show ?thesis
  proof (rule deliveriesI, goal_cases)
    case (1 k' a')
    then show ?case using D(1) k x by (auto simp: status_wire_def)
  next
    case (2 k')
    then show ?case using D(2) k by auto
  next
    case (3 k' k'' a')
    then show ?case by (rule D(3))
  next
    case (4 j k' b' a' y)
    then show ?case using D(4) k other by (auto split: if_split_asm)
  next
    case (5 j j' k' b' a' y k'' b'' y'')
    then show ?case using D(5) other i by (auto split: if_split_asm)
  next
    case (6 a' h)
    then show ?case using D(6) [OF 6] by (metis fun_upd_apply i option.inject prod.inject)
  qed
qed

text \<open>The owner records how its delivery ended and gives it up.\<close>

lemma deliveries_settle:
  assumes d: "deliveries sha256 ev rc w own" and i: "own i = Some (k, b, a, outcome_wire r)"
  shows "deliveries sha256 ev (rc(a \<mapsto> (sha256 b, final_status r))) w (own(i := None))"
proof -
  note D = deliveriesD [OF d]
  have k: "ev k = Some a" "rc a = Some (sha256 b, In_flight)" "w k = outcome_wire r" using D(4) [OF i] by auto
  have other: "own j = Some (k', b', a', y) \<Longrightarrow> j \<noteq> i \<Longrightarrow> a' \<noteq> a" for j k' b' a' y
    using D(5) i by metis
  show ?thesis
  proof (rule deliveriesI, goal_cases)
    case (1 k' a')
    then show ?case
      using D(1) D(3) [OF k(1)] k(3)
      by (auto simp: status_wire_def final_status_def outcome_wire_def split: sum.splits)
  next
    case (2 k')
    then show ?case by (rule D(2))
  next
    case (3 k' k'' a')
    then show ?case by (rule D(3))
  next
    case (4 j k' b' a' y)
    then show ?case using D(4) other by (auto split: if_split_asm)
  next
    case (5 j j' k' b' a' y k'' b'' y'')
    then show ?case using D(5) by (auto split: if_split_asm)
  next
    case (6 a' h)
    then have "a' \<noteq> a" "rc a' = Some (h, In_flight)"
      by (auto simp: final_status_def split: if_split_asm sum.splits)
    with D(6) obtain j k' b' x where j: "own j = Some (k', b', a', x)" by blast
    with i \<open>a' \<noteq> a\<close> have "j \<noteq> i" by auto
    with j show ?case by (intro exI [of _ j]) simp
  qed
qed

section \<open>Reachable systems\<close>

definition owner_at :: "system \<Rightarrow> nat \<Rightarrow> (pystr \<times> bytes \<times> nat \<times> wire) option" where
  "owner_at y i = (if i < length (sy_calls y) then owner (snd (sy_calls y ! i)) else None)"

definition delivery_ok :: "(bytes \<Rightarrow> pystr) \<Rightarrow> system \<Rightarrow> bool" where
  "delivery_ok sha256 y =
     deliveries sha256 (map_of (sk_events (sy_sink y))) (recorded (sy_sink y)) (\<lambda>k. wire k (sy_log y))
       (owner_at y)"

lemma owner_at_moved:
  assumes "i < length (sy_calls y)" "sy_calls y ! i = (raw, p)"
  shows "owner_at \<lparr>sy_calls = (sy_calls y)[i := (raw, p')], sy_sink = s, sy_log = log\<rparr>
       = (owner_at y)(i := owner p')"
    and "owner_at y i = owner p"
  using assms by (auto simp: owner_at_def fun_eq_iff nth_list_update)

lemma map_of_start: "map_of (sk_events (start_delivery key h s)) = (map_of (sk_events s))(key \<mapsto> length (sk_states s))"
  by (simp add: start_delivery_def update_conv')

lemma delivery_kept:
  assumes "moves (wide, sha256, hmac) c y z" "delivery_ok sha256 y"
  shows "delivery_ok sha256 z"
proof -
  from assms(1) obtain i n raw p s evs p' where i: "i < length (sy_calls y)" "sy_calls y ! i = (raw, p)"
    and step: "call_step (wide, sha256, hmac) c n raw p (sy_sink y) = Some (s, evs, p')"
    and z: "z = \<lparr>sy_calls = (sy_calls y)[i := (raw, p')], sy_sink = s, sy_log = sy_log y @ evs\<rparr>"
    by (rule moves_E)
  note own = owner_at_moved [OF i]
  note old = assms(2) [unfolded delivery_ok_def]
  have new: "delivery_ok sha256 z =
      deliveries sha256 (map_of (sk_events s)) (recorded s) (\<lambda>k. wire k (sy_log y @ evs)) ((owner_at y)(i := owner p'))"
    by (simp add: delivery_ok_def z own)
  from call_step_effect [OF step] show ?thesis
  proof (cases rule: delivery_effect.cases)
    case quiet
    then have "(\<lambda>k. wire k (sy_log y @ evs)) = (\<lambda>k. wire k (sy_log y))" by (auto simp: fun_eq_iff)
    moreover have "(owner_at y)(i := owner p') = owner_at y" using quiet(1) own(2) by (simp add: fun_eq_iff)
    ultimately show ?thesis using quiet(2,3) old by (simp add: new)
  next
    case (claim key body)
    have "owner_at y i = None" using own(2) claim(1) by simp
    moreover have "map_of (sk_events (sy_sink y)) key = None
        \<or> (\<exists>a h. map_of (sk_events (sy_sink y)) key = Some a \<and> recorded (sy_sink y) a = Some (h, Failed))"
      using claim(5) deliveriesD(1) [OF old, of key] by (auto simp: recorded_def split: if_split_asm)
    ultimately show ?thesis
      using deliveries_claim [OF old recorded_fresh, of i key body] claim
      by (simp add: new map_of_start recorded_start)
  next
    case (post q key body e a t)
    then have i': "owner_at y i = Some (key, body, a, Silent)" using own(2) by simp
    have w: "wire key (sy_log y) = Silent" using deliveriesD(4) [OF old i'] by blast
    have "(\<lambda>k. wire k (sy_log y @ evs)) = (\<lambda>k. wire k (sy_log y))(key := In_transit)"
      using post w by (auto simp: fun_eq_iff)
    then show ?thesis using deliveries_wire [OF old i', of In_transit] post by (simp add: new)
  next
    case (answer e body key a t ans)
    then have i': "owner_at y i = Some (key, body, a, In_transit)" using own(2) by simp
    have w: "wire key (sy_log y) = In_transit" using deliveriesD(4) [OF old i'] by blast
    have r: "outcome_wire (bnd (delivery_outcome ans) (\<lambda>_. Inr t)) = (if accepted ans then Acknowledged else Silent)"
      by (cases "delivery_outcome ans") (simp_all add: outcome_wire_def accepted_def)
    have "(\<lambda>k. wire k (sy_log y @ evs))
        = (\<lambda>k. wire k (sy_log y))(key := (if accepted ans then Acknowledged else Silent))"
      using answer w by (auto simp: fun_eq_iff)
    then show ?thesis
      using deliveries_wire [OF old i', of "if accepted ans then Acknowledged else Silent"] answer r
      by (simp add: new split: if_split_asm)
  next
    case (settle e body key a r cf)
    then have i': "owner_at y i = Some (key, body, a, outcome_wire r)" using own(2) by simp
    have rc: "recorded (sy_sink y) a = Some (sha256 body, In_flight)" using deliveriesD(4) [OF old i'] by blast
    have ev: "sk_events (set_final_status a r (sy_sink y)) = sk_events (sy_sink y)" by (simp add: set_final_status_def)
    show ?thesis using deliveries_settle [OF old i'] settle recorded_final [OF rc, of r] ev by (simp add: new)
  qed
qed

lemma delivery_initial: "delivery_ok sha256 (initial_system c calls)"
proof -
  have none: "owner_at (initial_system c calls) i = None" for i
    by (auto simp: owner_at_def initial_system_def split: prod.split)
  show ?thesis unfolding delivery_ok_def
    by (rule deliveriesI) (simp_all add: none, simp_all add: initial_system_def fresh_sink_def recorded_def)
qed

interpretation delivery: sink_invariant "(wide, sha256, hmac)" c "delivery_ok sha256" for wide sha256 hmac c
  by unfold_locales (rule delivery_initial, rule delivery_kept)

text \<open>No key is overtaken: its requests do not overlap and none follows an accepted one.\<close>

lemma never_overtaken:
  assumes "visits (wide, sha256, hmac) c y"
  shows "wire key (sy_log y) \<noteq> Overtaken"
proof -
  note D = deliveriesD [OF delivery.reachable [OF assms, unfolded delivery_ok_def]]
  show ?thesis
  proof (cases "map_of (sk_events (sy_sink y)) key")
    case None
    with D(2) show ?thesis by simp
  next
    case (Some a)
    with D(1) show ?thesis by (fastforce simp: status_wire_def split: delivery_status.splits)
  qed
qed

end
