(* ===== verification/NotificationAccount.thy ===== *)
theory NotificationAccount
  imports NotificationDelivery
begin

text \<open>
  What a call of the webhook sink may rely on: that every request on the wire was approved and is signed,
  that the requests under one key carry one payload, that a receipt stands for a recorded delivery, and
  that the table of known keys stays within its bound.
\<close>

section \<open>The table of keys\<close>

definition key_table_ok :: "sink_config \<Rightarrow> sink_state \<Rightarrow> bool" where
  "key_table_ok c s = (distinct (map fst (sk_events s)) \<and> length (sk_events s) \<le> hk_max_tracked c)"

lemma update_length:
  "length (AList.update k v xs) = (if map_of xs k = None then length xs + 1 else length xs)"
proof -
  have "length (AList.update k v xs) = length (map fst (AList.update k v xs))" by simp
  also have "\<dots> = (if map_of xs k = None then length xs + 1 else length xs)"
    unfolding update_keys by (auto simp: map_of_eq_None_iff)
  finally show ?thesis .
qed

lemma table_kept:
  assumes "delivery_effect sha256 c p s evs p' s'" "key_table_ok c s"
  shows "key_table_ok c s'"
  using assms
  by (cases rule: delivery_effect.cases)
    (auto simp: key_table_ok_def start_delivery_def set_final_status_def update_length distinct_update)

section \<open>How the recorded deliveries grow\<close>

text \<open>
  An object keeps its payload hash and a final status; it leaves the dict only once it failed.
\<close>

definition grows :: "sink_state \<Rightarrow> sink_state \<Rightarrow> bool" where
  "grows s s' =
     ((\<forall>k a h. map_of (sk_events s) k = Some a \<longrightarrow> recorded s a = Some (h, Delivered) \<longrightarrow>
         map_of (sk_events s') k = Some a \<and> recorded s' a = Some (h, Delivered))
      \<and> (\<forall>k a h st. recorded s a = Some (h, st) \<longrightarrow> map_of (sk_events s) k = Some a \<or> st = Failed \<longrightarrow>
         (\<exists>st'. recorded s' a = Some (h, st') \<and> (map_of (sk_events s') k = Some a \<or> st' = Failed)))
      \<and> (\<forall>k a h st. map_of (sk_events s) k = Some a \<longrightarrow> recorded s a = Some (h, st) \<longrightarrow>
         (\<exists>a' st'. map_of (sk_events s') k = Some a' \<and> recorded s' a' = Some (h, st'))))"

lemma growsD:
  assumes "grows s s'"
  shows "map_of (sk_events s) k = Some a \<Longrightarrow> recorded s a = Some (h, Delivered) \<Longrightarrow>
      map_of (sk_events s') k = Some a \<and> recorded s' a = Some (h, Delivered)"
    and "recorded s a = Some (h, st) \<Longrightarrow> map_of (sk_events s) k = Some a \<or> st = Failed \<Longrightarrow>
      \<exists>st'. recorded s' a = Some (h, st') \<and> (map_of (sk_events s') k = Some a \<or> st' = Failed)"
    and "map_of (sk_events s) k = Some a \<Longrightarrow> recorded s a = Some (h, st) \<Longrightarrow>
      \<exists>a' st'. map_of (sk_events s') k = Some a' \<and> recorded s' a' = Some (h, st')"
proof -
  note t = assms [unfolded grows_def]
  show "map_of (sk_events s) k = Some a \<Longrightarrow> recorded s a = Some (h, Delivered) \<Longrightarrow>
      map_of (sk_events s') k = Some a \<and> recorded s' a = Some (h, Delivered)"
    using t [THEN conjunct1] by blast
  show "recorded s a = Some (h, st) \<Longrightarrow> map_of (sk_events s) k = Some a \<or> st = Failed \<Longrightarrow>
      \<exists>st'. recorded s' a = Some (h, st') \<and> (map_of (sk_events s') k = Some a \<or> st' = Failed)"
    using t [THEN conjunct2, THEN conjunct1] by blast
  show "map_of (sk_events s) k = Some a \<Longrightarrow> recorded s a = Some (h, st) \<Longrightarrow>
      \<exists>a' st'. map_of (sk_events s') k = Some a' \<and> recorded s' a' = Some (h, st')"
    using t [THEN conjunct2, THEN conjunct2] by blast
qed

lemma grows_same:
  assumes "sk_events s' = sk_events s" "recorded s' = recorded s"
  shows "grows s s'"
  using assms by (auto simp: grows_def)

lemma step_grows:
  assumes "delivery_effect sha256 c p s evs p' s'"
    and owned: "\<And>key body a x. owner p = Some (key, body, a, x) \<Longrightarrow>
      map_of (sk_events s) key = Some a \<and> recorded s a = Some (sha256 body, In_flight)"
    and own_key: "\<And>k k' a. map_of (sk_events s) k = Some a \<Longrightarrow> map_of (sk_events s) k' = Some a \<Longrightarrow> k = k'"
  shows "grows s s'"
  using assms(1)
proof (cases rule: delivery_effect.cases)
  case quiet
  then show ?thesis by (intro grows_same)
next
  case (claim key body)
  let ?n = "length (sk_states s)"
  have old: "map_of (sk_events s) key = Some a \<Longrightarrow> recorded s a = Some (h, st) \<Longrightarrow> h = sha256 body \<and> st = Failed"
    for a h st using claim(5) by (auto simp: recorded_def split: if_split_asm)
  have below: "recorded s a \<noteq> None \<Longrightarrow> a \<noteq> ?n" for a by (auto simp: recorded_def)
  show ?thesis
    unfolding grows_def claim map_of_start recorded_start
  proof (intro conjI allI impI, goal_cases)
    case (1 k a h)
    with old below show ?case by (cases "k = key") fastforce+
  next
    case (2 k a h)
    with below show ?case by fastforce
  next
    case (3 k a h st)
    then have "a \<noteq> ?n" using below by auto
    moreover have "map_of (sk_events s) k = Some a \<Longrightarrow> k = key \<Longrightarrow> st = Failed" using 3 old by blast
    ultimately show ?case using 3 by auto
  next
    case (4 k a h st)
    show ?case
    proof (cases "k = key")
      case True
      with 4 old have "h = sha256 body" by blast
      with True show ?thesis by (intro exI [of _ ?n] exI [of _ In_flight]) simp
    next
      case False
      with 4 below show ?thesis by (intro exI [of _ a] exI [of _ st]) auto
    qed
  qed
next
  case (settle e body key a r cf)
  then have *: "map_of (sk_events s) key = Some a" "recorded s a = Some (sha256 body, In_flight)"
    using owned by auto
  have ev: "sk_events (set_final_status a r s) = sk_events s" by (simp add: set_final_status_def)
  show ?thesis
    unfolding grows_def settle ev recorded_final [OF *(2)]
  proof (intro conjI allI impI, goal_cases)
    case (3 k a' h st)
    show ?case
    proof (cases "a' = a")
      case True
      with 3 * show ?thesis by auto
    qed (use 3 in auto)
  qed (use * in \<open>auto split: if_split_asm\<close>)
qed (auto intro: grows_same)

section \<open>What a call relies on\<close>

text \<open>The catalog answered the event, and the key and body are the ones of the event.\<close>

definition approved_event :: "(pystr \<Rightarrow> bool) \<Rightarrow> sink_event list \<Rightarrow> notification_event \<Rightarrow> bool" where
  "approved_event wide log e =
     (\<exists>v. Resolved (ne_event_id e) v \<in> set log \<and> strict_event_copy wide v = Some e)"

definition delivered_event :: "(bytes \<Rightarrow> pystr) \<Rightarrow> sink_config \<Rightarrow> sink_state \<Rightarrow> notification_event \<Rightarrow> bool" where
  "delivered_event sha256 c s e =
     (\<exists>body key a. payload_bytes sha256 (hk_destination c) e = Inr (body, key)
        \<and> map_of (sk_events s) key = Some a \<and> recorded s a = Some (sha256 body, Delivered))"

definition joined_event ::
  "(bytes \<Rightarrow> pystr) \<Rightarrow> sink_config \<Rightarrow> sink_state \<Rightarrow> notification_event \<Rightarrow> nat \<Rightarrow> bool" where
  "joined_event sha256 c s e a =
     (\<exists>body key st. payload_bytes sha256 (hk_destination c) e = Inr (body, key)
        \<and> recorded s a = Some (sha256 body, st) \<and> (map_of (sk_events s) key = Some a \<or> st = Failed))"

definition keyed_event ::
  "(pystr \<Rightarrow> bool) \<Rightarrow> (bytes \<Rightarrow> pystr) \<Rightarrow> sink_config \<Rightarrow> sink_event list \<Rightarrow> notification_event \<Rightarrow> bytes \<Rightarrow> pystr
   \<Rightarrow> bool" where
  "keyed_event wide sha256 c log e body key =
     (payload_bytes sha256 (hk_destination c) e = Inr (body, key) \<and> approved_event wide log e)"

definition receipt_backed ::
  "(pystr \<Rightarrow> bool) \<Rightarrow> (bytes \<Rightarrow> pystr) \<Rightarrow> sink_config \<Rightarrow> sink_state \<Rightarrow> raw_event \<Rightarrow> send_result \<Rightarrow> bool" where
  "receipt_backed wide sha256 c s raw r =
     (case r of Inl x \<Rightarrow> True
      | Inr receipt \<Rightarrow> (\<exists>e t. strict_event_copy wide raw = Some e \<and> receipt = receipt_of c e t
          \<and> delivered_event sha256 c s e))"

fun call_ok ::
  "(pystr \<Rightarrow> bool) \<Rightarrow> (bytes \<Rightarrow> pystr) \<Rightarrow> sink_config \<Rightarrow> sink_state \<Rightarrow> sink_event list \<Rightarrow> raw_event \<Rightarrow> pc
   \<Rightarrow> bool" where
  "call_ok wide sha256 c s log raw (Counted e) = (strict_event_copy wide raw = Some e)"
| "call_ok wide sha256 c s log raw (Admitted e) = (strict_event_copy wide raw = Some e)"
| "call_ok wide sha256 c s log raw (Keyed e body key) =
     (strict_event_copy wide raw = Some e \<and> keyed_event wide sha256 c log e body key)"
| "call_ok wide sha256 c s log raw (Awaiting e a) =
     (strict_event_copy wide raw = Some e \<and> joined_event sha256 c s e a)"
| "call_ok wide sha256 c s log raw (Claimed e body key a) =
     (strict_event_copy wide raw = Some e \<and> keyed_event wide sha256 c log e body key)"
| "call_ok wide sha256 c s log raw (Slotted e body key a) =
     (strict_event_copy wide raw = Some e \<and> keyed_event wide sha256 c log e body key)"
| "call_ok wide sha256 c s log raw (Posting e body key a t) =
     (strict_event_copy wide raw = Some e \<and> keyed_event wide sha256 c log e body key)"
| "call_ok wide sha256 c s log raw (Unslotting e body key a r) =
     (strict_event_copy wide raw = Some e \<and> keyed_event wide sha256 c log e body key)"
| "call_ok wide sha256 c s log raw (Settling e body key a r cf) =
     (strict_event_copy wide raw = Some e \<and> keyed_event wide sha256 c log e body key)"
| "call_ok wide sha256 c s log raw (Signalling e a r cf) =
     (strict_event_copy wide raw = Some e \<and> (case r of Inl x \<Rightarrow> True | Inr t \<Rightarrow> delivered_event sha256 c s e))"
| "call_ok wide sha256 c s log raw (Unwinding r) = receipt_backed wide sha256 c s raw r"
| "call_ok wide sha256 c s log raw (Unadmitting r) = receipt_backed wide sha256 c s raw r"
| "call_ok wide sha256 c s log raw (Uncounting r rf) = receipt_backed wide sha256 c s raw r"
| "call_ok wide sha256 c s log raw (Returned r) = receipt_backed wide sha256 c s raw r"
| "call_ok wide sha256 c s log raw _ = True"

text \<open>Nothing of this is lost when other calls move.\<close>

lemma delivered_grows: "grows s s' \<Longrightarrow> delivered_event sha256 c s e \<Longrightarrow> delivered_event sha256 c s' e"
  unfolding delivered_event_def using growsD(1) by blast

lemma joined_grows: "grows s s' \<Longrightarrow> joined_event sha256 c s e a \<Longrightarrow> joined_event sha256 c s' e a"
  unfolding joined_event_def using growsD(2) by blast

lemma keyed_grows: "keyed_event wide sha256 c log e body key \<Longrightarrow> keyed_event wide sha256 c (log @ evs) e body key"
  by (auto simp: keyed_event_def approved_event_def)

lemma backed_grows:
  "grows s s' \<Longrightarrow> receipt_backed wide sha256 c s raw r \<Longrightarrow> receipt_backed wide sha256 c s' raw r"
  by (auto simp: receipt_backed_def delivered_grows split: sum.splits)

lemma call_ok_grows:
  assumes "grows s s'" "call_ok wide sha256 c s log raw p"
  shows "call_ok wide sha256 c s' (log @ evs) raw p"
  using assms
  by (cases p) (auto simp: delivered_grows joined_grows keyed_grows backed_grows split: sum.splits)

lemma receipt_now_backed:
  assumes "strict_event_copy wide raw = Some e" "delivered_event sha256 c s e"
  shows "receipt_backed wide sha256 c s raw (receipt_now c e clock)"
  using assms by (auto simp: receipt_backed_def receipt_now_def bnd_def split: sum.splits)

lemma backed_error [simp]: "receipt_backed wide sha256 c s raw (Inl x)"
  by (simp add: receipt_backed_def)

lemma call_step_ok:
  assumes step: "call_step (wide, sha256, hmac) c n raw p s = Some (s', evs, p')"
    and ok: "call_ok wide sha256 c s log raw p"
    and owned: "\<And>key body a x. owner p = Some (key, body, a, x) \<Longrightarrow>
      map_of (sk_events s) key = Some a \<and> recorded s a = Some (sha256 body, In_flight)"
    and inside: "\<And>k a. map_of (sk_events s) k = Some a \<Longrightarrow> a < length (sk_states s)"
  shows "call_ok wide sha256 c s' (log @ evs) raw p'"
proof (cases p)
  case (Keyed e body key)
  with ok have e: "strict_event_copy wide raw = Some e" "keyed_event wide sha256 c log e body key" by auto
  show ?thesis
  proof (cases "map_of (sk_events s) key")
    case None
    with step Keyed e show ?thesis
      by (auto simp: claim_key_def Let_def keyed_grows split: if_splits)
  next
    case (Some a)
    have rc: "recorded s a = Some (ds_payload_hash (sk_states s ! a), ds_status (sk_states s ! a))"
      using inside [OF Some] by (simp add: recorded_def)
    have "delivered_event sha256 c s e" if "ds_payload_hash (sk_states s ! a) = sha256 body"
      "ds_status (sk_states s ! a) = Delivered"
      using that e Some rc by (auto simp: delivered_event_def keyed_event_def)
    moreover have "joined_event sha256 c s e a" if "ds_payload_hash (sk_states s ! a) = sha256 body"
      using that e Some rc by (auto simp: joined_event_def keyed_event_def)
    ultimately show ?thesis
      using step Keyed Some e
      by (auto simp: claim_key_def Let_def receipt_now_backed keyed_grows
          split: if_splits delivery_status.splits)
  qed
next
  case (Admitted e)
  with step ok show ?thesis
    by (auto simp: resolve_event_def keyed_event_def approved_event_def
        split: option.splits if_splits sum.splits prod.splits)
next
  case (Awaiting e a)
  then have e: "strict_event_copy wide raw = Some e" and joined: "joined_event sha256 c s e a"
    using ok by auto
  have "delivered_event sha256 c s e" if "ds_status (sk_states s ! a) = Delivered"
    using joined that unfolding joined_event_def delivered_event_def
    by (auto simp: recorded_def split: if_split_asm)
  with step Awaiting e show ?thesis
    by (auto simp: await_done_def receipt_now_backed split: if_splits)
next
  case (Settling e body key a r cf)
  then have *: "map_of (sk_events s) key = Some a" "recorded s a = Some (sha256 body, In_flight)"
    using owned by auto
  have ev: "sk_events (set_final_status a q s) = sk_events s" for q by (simp add: set_final_status_def)
  from Settling step ok * show ?thesis
    by (auto simp: delivered_event_def keyed_event_def ev recorded_final [OF *(2)] final_status_def
        split: sum.splits)
next
  case (Signalling e a r cf)
  have "grows s (s\<lparr>sk_states := (sk_states s)[a := (sk_states s ! a)\<lparr>ds_done := True\<rparr>]\<rparr>)"
    by (rule grows_same) (simp_all add: recorded_done)
  note kept = delivered_grows [OF this]
  from Signalling step ok show ?thesis
    by (auto simp: signal_done_def Let_def receipt_backed_def kept split: if_splits sum.splits)
next
  case (Unadmitting r)
  have "grows s (s\<lparr>sk_request_free := x\<rparr>)" for x by (rule grows_same) simp_all
  note kept = backed_grows [OF this]
  from Unadmitting step ok show ?thesis
    by (auto simp: return_request_slot_def kept split: option.splits)
next
  case (Uncounting r rf)
  have "grows s (s\<lparr>sk_active_sends := x\<rparr>)" for x by (rule grows_same) simp_all
  note kept = backed_grows [OF this]
  from Uncounting step ok show ?thesis
    by (auto simp: leave_send_def kept)
qed (use step ok in \<open>auto simp: enter_send_def admit_def take_slot_def post_request_def return_slot_def
      enter_close_def close_client_def mark_closed_def keyed_grows
      split: option.splits if_splits sum.splits prod.splits lifecycle.splits\<close>)

section \<open>What is on the wire was approved\<close>

text \<open>A request carries the event of an earlier catalog answer, and is signed with the sink's key.\<close>

definition request_ok ::
  "(pystr \<Rightarrow> bool) \<Rightarrow> (bytes \<Rightarrow> pystr) \<Rightarrow> (bytes \<Rightarrow> bytes \<Rightarrow> pystr) \<Rightarrow> sink_config \<Rightarrow> sink_event list
   \<Rightarrow> sent_request \<Rightarrow> bool" where
  "request_ok wide sha256 hmac c before q =
     ((\<exists>e. keyed_event wide sha256 c before e (sq_body q) (sq_key q) \<and> event_ok wide e)
      \<and> 0 \<le> sq_timestamp q \<and> sq_timestamp q \<le> 4102444800
      \<and> length (sq_nonce q) = 32 \<and> list_all lower_hex (sq_nonce q)
      \<and> sign_request sha256 hmac ''POST'' (hk_path c) (sq_timestamp q) (sq_nonce q) (sq_body q) (hk_key c)
          = Inr (sq_signature q)
      \<and> sq_payload_sha256 q = sha256 (sq_body q))"

definition sent_ok ::
  "(pystr \<Rightarrow> bool) \<Rightarrow> (bytes \<Rightarrow> pystr) \<Rightarrow> (bytes \<Rightarrow> bytes \<Rightarrow> pystr) \<Rightarrow> sink_config \<Rightarrow> sink_event list \<Rightarrow> bool"
  where
  "sent_ok wide sha256 hmac c log =
     (\<forall>before q after. log = before @ Sent q # after \<longrightarrow> request_ok wide sha256 hmac c before q)"

text \<open>Every request is covered by the entry of its key.\<close>

definition covered :: "(bytes \<Rightarrow> pystr) \<Rightarrow> sink_state \<Rightarrow> sink_event list \<Rightarrow> bool" where
  "covered sha256 s log =
     (\<forall>q. Sent q \<in> set log \<longrightarrow>
        (\<exists>a st. map_of (sk_events s) (sq_key q) = Some a \<and> recorded s a = Some (sha256 (sq_body q), st)))"

lemma event_copy_ok: "strict_event_copy wide raw = Some e \<Longrightarrow> event_ok wide e"
  by (auto simp: strict_event_copy_def Let_def split: option.splits list.splits bind_splits if_splits)

lemma sent_ok_append:
  assumes "sent_ok wide sha256 hmac c log" "evs = [] \<or> (\<exists>v. evs = [v])"
    and "\<And>q. evs = [Sent q] \<Longrightarrow> request_ok wide sha256 hmac c log q"
  shows "sent_ok wide sha256 hmac c (log @ evs)"
proof (cases "evs = []")
  case False
  with assms(2) obtain v where v: "evs = [v]" by blast
  show ?thesis
    unfolding sent_ok_def
  proof (intro allI impI)
    fix before q after
    assume eq: "log @ evs = before @ Sent q # after"
    show "request_ok wide sha256 hmac c before q"
    proof (cases after rule: rev_cases)
      case Nil
      with eq v have "log = before" "v = Sent q" by auto
      with assms(3) v show ?thesis by simp
    next
      case (snoc ys y)
      with eq v have "log = before @ Sent q # ys" by simp
      with assms(1) show ?thesis by (simp add: sent_ok_def)
    qed
  qed
qed (use assms(1) in simp)

lemma only_slotted_sends:
  assumes "delivery_effect sha256 c p s [Sent q] p' s'"
  shows "\<exists>e a. p = Slotted e (sq_body q) (sq_key q) a"
  using assms by (cases rule: delivery_effect.cases) auto

lemma step_request_ok:
  assumes "call_step (wide, sha256, hmac) c n raw p s = Some (s', [Sent q], p')"
    and "call_ok wide sha256 c s log raw p"
  shows "request_ok wide sha256 hmac c log q \<and> (\<exists>e a. p = Slotted e (sq_body q) (sq_key q) a)"
proof -
  obtain e body key a where p: "p = Slotted e body key a"
    using only_slotted_sends [OF call_step_effect [OF assms(1)]] by blast
  with assms(1) have "prepare_delivery sha256 hmac c body key (en_clock n) (en_nonce n) = Inr q"
    by (auto simp: post_request_def split: sum.splits)
  note request = prepare_delivery_request [OF this]
  have "0 \<le> sq_timestamp q \<and> sq_timestamp q \<le> 4102444800"
    using request by (auto simp: read_timestamp_def split: option.splits jval.splits if_splits)
  with request p assms(2) event_copy_ok show ?thesis
    by (auto simp: request_ok_def)
qed

section \<open>Reachable systems\<close>

definition account_ok ::
  "(pystr \<Rightarrow> bool) \<Rightarrow> (bytes \<Rightarrow> pystr) \<Rightarrow> (bytes \<Rightarrow> bytes \<Rightarrow> pystr) \<Rightarrow> sink_config \<Rightarrow> system \<Rightarrow> bool" where
  "account_ok wide sha256 hmac c y =
     (key_table_ok c (sy_sink y) \<and> sent_ok wide sha256 hmac c (sy_log y)
      \<and> covered sha256 (sy_sink y) (sy_log y)
      \<and> (\<forall>(raw, p) \<in> set (sy_calls y). call_ok wide sha256 c (sy_sink y) (sy_log y) raw p))"

lemma covered_grows:
  assumes "grows s s'" "covered sha256 s log" "\<And>q. Sent q \<in> set evs \<Longrightarrow>
      \<exists>a st. map_of (sk_events s) (sq_key q) = Some a \<and> recorded s a = Some (sha256 (sq_body q), st)"
  shows "covered sha256 s' (log @ evs)"
  using assms growsD(3) [OF assms(1)] unfolding covered_def by (metis Un_iff set_append)

lemma effect_events: "delivery_effect sha256 c p s evs p' s' \<Longrightarrow> evs = [] \<or> (\<exists>v. evs = [v])"
  by (cases rule: delivery_effect.cases) auto

lemma account_kept:
  assumes "moves (wide, sha256, hmac) c y z" "delivery_ok sha256 y" "account_ok wide sha256 hmac c y"
  shows "account_ok wide sha256 hmac c z"
proof -
  from assms(1) obtain i n raw p s evs p' where i: "i < length (sy_calls y)" "sy_calls y ! i = (raw, p)"
    and step: "call_step (wide, sha256, hmac) c n raw p (sy_sink y) = Some (s, evs, p')"
    and z: "z = \<lparr>sy_calls = (sy_calls y)[i := (raw, p')], sy_sink = s, sy_log = sy_log y @ evs\<rparr>"
    by (rule moves_E)
  note effect = call_step_effect [OF step]
  note D = deliveriesD [OF assms(2) [unfolded delivery_ok_def]]
  have old: "key_table_ok c (sy_sink y)" "sent_ok wide sha256 hmac c (sy_log y)"
    "covered sha256 (sy_sink y) (sy_log y)"
    and calls: "\<And>r q. (r, q) \<in> set (sy_calls y) \<Longrightarrow> call_ok wide sha256 c (sy_sink y) (sy_log y) r q"
    using assms(3) by (auto simp: account_ok_def)
  have own: "map_of (sk_events (sy_sink y)) key = Some a
      \<and> recorded (sy_sink y) a = Some (sha256 body, In_flight)"
    if "owner p = Some (key, body, a, x)" for key body a x
    using D(4) [of i key body a x] that i by (simp add: owner_at_def)
  have inside: "a < length (sk_states (sy_sink y))" if "map_of (sk_events (sy_sink y)) k = Some a" for k a
    using D(1) [OF that] by (auto simp: recorded_def split: if_split_asm)
  have grows: "grows (sy_sink y) s" by (rule step_grows [OF effect own D(3)])
  have mine: "call_ok wide sha256 c (sy_sink y) (sy_log y) raw p" using calls i by (metis nth_mem)
  have sends: "request_ok wide sha256 hmac c (sy_log y) q
      \<and> (\<exists>e a. p = Slotted e (sq_body q) (sq_key q) a)" if "evs = [Sent q]" for q
    using step_request_ok [OF step [unfolded that] mine] .
  have "key_table_ok c s" by (rule table_kept [OF effect old(1)])
  moreover have "sent_ok wide sha256 hmac c (sy_log y @ evs)"
    by (rule sent_ok_append [OF old(2) effect_events [OF effect]]) (use sends in blast)
  moreover have "covered sha256 s (sy_log y @ evs)"
  proof (rule covered_grows [OF grows old(3)])
    fix q assume "Sent q \<in> set evs"
    with effect_events [OF effect] have "evs = [Sent q]" by auto
    with sends obtain e a where "p = Slotted e (sq_body q) (sq_key q) a" by blast
    with own show "\<exists>a st. map_of (sk_events (sy_sink y)) (sq_key q) = Some a
        \<and> recorded (sy_sink y) a = Some (sha256 (sq_body q), st)" by auto
  qed
  moreover have "call_ok wide sha256 c s (sy_log y @ evs) r q"
    if "(r, q) \<in> set ((sy_calls y)[i := (raw, p')])" for r q
  proof -
    have new: "call_ok wide sha256 c s (sy_log y @ evs) raw p'"
      by (rule call_step_ok [OF step mine]) (use own inside in blast)+
    from that set_update_subset_insert have "(r, q) = (raw, p') \<or> (r, q) \<in> set (sy_calls y)" by fastforce
    with new show ?thesis using call_ok_grows [OF grows calls] by blast
  qed
  ultimately show ?thesis by (auto simp: account_ok_def z)
qed

interpretation account: sink_invariant "(wide, sha256, hmac)" c "account_ok wide sha256 hmac c"
  for wide sha256 hmac c
proof unfold_locales
  show "account_ok wide sha256 hmac c (initial_system c calls)" for calls
    by (auto simp: account_ok_def initial_system_def fresh_sink_def key_table_ok_def sent_ok_def covered_def
        split: prod.splits)
  show "visits (wide, sha256, hmac) c y \<Longrightarrow> moves (wide, sha256, hmac) c y z
      \<Longrightarrow> account_ok wide sha256 hmac c y \<Longrightarrow> account_ok wide sha256 hmac c z" for y z
    by (rule account_kept [OF _ delivery.reachable])
qed

end
