(* ===== verification/NotificationProperties.thy ===== *)
theory NotificationProperties
  imports NotificationAccount Results
begin

text \<open>
  The properties of the webhook sink over every interleaving of its calls, with a run of three calls for
  one event on which they are witnessed.
\<close>

section \<open>Reading the wire\<close>

lemma overtaken_sticky: "foldl (wire_step key) Overtaken xs = Overtaken"
proof (induction xs)
  case (Cons v xs)
  have "wire_step key Overtaken v = Overtaken" by (cases v) simp_all
  with Cons show ?case by simp
qed simp

lemma wire_prefix: "wire key (xs @ ys) \<noteq> Overtaken \<Longrightarrow> wire key xs \<noteq> Overtaken"
  using overtaken_sticky by (auto simp: wire_def)

lemma acknowledged_sticky:
  "foldl (wire_step key) Acknowledged xs \<in> {Acknowledged, Overtaken}"
proof (induction xs)
  case (Cons v xs)
  have "wire_step key Acknowledged v \<in> {Acknowledged, Overtaken}" by (cases v) auto
  with Cons overtaken_sticky show ?case by auto
qed simp

lemma unanswered:
  "(\<And>a. Answer_seen key a \<notin> set xs) \<Longrightarrow> foldl (wire_step key) In_transit xs \<in> {In_transit, Overtaken}"
proof (induction xs)
  case (Cons v xs)
  have "wire_step key In_transit v \<in> {In_transit, Overtaken}" using Cons.prems by (cases v) auto
  with Cons overtaken_sticky show ?case by auto
qed simp

lemma answered_accepted:
  assumes "Answer_seen key a \<in> set xs" "accepted a"
  shows "foldl (wire_step key) w xs \<in> {Acknowledged, Overtaken}"
proof -
  from assms(1) obtain ys zs where xs: "xs = ys @ Answer_seen key a # zs" by (auto dest: split_list)
  have "wire_step key (foldl (wire_step key) w ys) (Answer_seen key a) \<in> {Acknowledged, Overtaken}"
    using assms(2) by simp
  with acknowledged_sticky overtaken_sticky show ?thesis by (auto simp: xs)
qed

lemma requests_apart:
  assumes "wire key (before @ Sent q # between @ Sent q' # after) \<noteq> Overtaken" "sq_key q = key" "sq_key q' = key"
  shows "(\<exists>a. Answer_seen key a \<in> set between)"
    and "Answer_seen key a \<in> set (before @ between) \<Longrightarrow> \<not> accepted a"
proof -
  let ?w = "wire key before"
  have "wire key ((before @ Sent q # between @ [Sent q']) @ after) \<noteq> Overtaken" using assms(1) by simp
  then have "wire key (before @ Sent q # between @ [Sent q']) \<noteq> Overtaken" by (rule wire_prefix)
  then have mid: "foldl (wire_step key) (wire_step key ?w (Sent q)) between = Silent"
    using assms(3) by (auto simp: wire_def split: if_split_asm)
  then have w: "?w = Silent" using assms(2) overtaken_sticky by (cases "?w = Silent") simp_all
  with mid assms(2) have mid': "foldl (wire_step key) In_transit between = Silent" by simp
  show "\<exists>a. Answer_seen key a \<in> set between"
  proof (rule ccontr)
    assume "\<nexists>a. Answer_seen key a \<in> set between"
    with unanswered [of key between] mid' show False by auto
  qed
  show "\<not> accepted a" if "Answer_seen key a \<in> set (before @ between)"
  proof
    assume a: "accepted a"
    from that consider "Answer_seen key a \<in> set before" | "Answer_seen key a \<in> set between" by auto
    then show False
    proof cases
      case 1
      from answered_accepted [OF 1 a, of Silent] w show False by (auto simp: wire_def)
    next
      case 2
      from answered_accepted [OF 2 a, of In_transit] mid' show False by auto
    qed
  qed
qed

lemma acknowledged_seen:
  "wire key log = Acknowledged \<Longrightarrow>
   (\<exists>q. Sent q \<in> set log \<and> sq_key q = key) \<and> (\<exists>a. Answer_seen key a \<in> set log \<and> accepted a)"
proof -
  have transit: "wire key log = In_transit \<Longrightarrow> \<exists>q. Sent q \<in> set log \<and> sq_key q = key" for log
  proof (induction log rule: rev_induct)
    case (snoc v log)
    then show ?case by (cases v) (auto split: if_split_asm)
  qed simp
  show "wire key log = Acknowledged \<Longrightarrow> ?thesis"
  proof (induction log rule: rev_induct)
    case (snoc v log)
    then show ?case using transit [of log] by (cases v) (auto split: if_split_asm)
  qed simp
qed

section \<open>Opaque runs\<close>

text \<open>The scan finds exactly the names with 21 alphanumeric characters in a row.\<close>

lemma opaque_run_mono: "opaque_run wide m chs \<Longrightarrow> m \<le> n \<Longrightarrow> opaque_run wide n chs"
proof (induction chs arbitrary: m n)
  case (Cons ch chs)
  then show ?case using Cons.IH [of "Suc m" "Suc n"] by (auto simp: Let_def split: if_split_asm)
qed simp

lemma opaque_run_starts:
  "list_all (is_alnum wide) run \<Longrightarrow> length run + n = 21 \<Longrightarrow> run \<noteq> [] \<Longrightarrow> opaque_run wide n (run @ rest)"
proof (induction run arbitrary: n)
  case (Cons ch run)
  then show ?case by (cases "run = []") (auto simp: Let_def)
qed simp

lemma opaque_run_inside:
  assumes "list_all (is_alnum wide) run" "length run = 21"
  shows "opaque_run wide n (before @ run @ rest)"
proof (induction before arbitrary: n)
  case Nil
  have "opaque_run wide 0 (run @ rest)" by (rule opaque_run_starts) (use assms in auto)
  then show ?case by (auto intro: opaque_run_mono)
qed (simp add: Let_def)

lemma opaque_run_found:
  "opaque_run wide n chs \<Longrightarrow> n \<le> 20 \<Longrightarrow>
   \<exists>before run rest. chs = before @ run @ rest \<and> list_all (is_alnum wide) run
     \<and> (length run = 21 \<or> before = [] \<and> length run + n = 21)"
proof (induction chs arbitrary: n)
  case (Cons ch chs)
  show ?case
  proof (cases "is_alnum wide ch")
    case True
    show ?thesis
    proof (cases "n = 20")
      case True
      with \<open>is_alnum wide ch\<close> show ?thesis
        by (intro exI [of _ "[]"] exI [of _ "[ch]"] exI [of _ chs]) simp
    next
      case False
      with Cons.prems True have "opaque_run wide (n + 1) chs" "n + 1 \<le> 20" by (auto simp: Let_def)
      from Cons.IH [OF this] obtain before run rest where *: "chs = before @ run @ rest"
        "list_all (is_alnum wide) run" "length run = 21 \<or> before = [] \<and> length run + (n + 1) = 21"
        by blast
      from *(3) show ?thesis
      proof
        assume "length run = 21"
        with * show ?thesis by (intro exI [of _ "ch # before"] exI [of _ run] exI [of _ rest]) simp
      next
        assume "before = [] \<and> length run + (n + 1) = 21"
        with * True show ?thesis by (intro exI [of _ "[]"] exI [of _ "ch # run"] exI [of _ rest]) simp
      qed
    qed
  next
    case False
    with Cons.prems have "opaque_run wide 0 chs" by (simp add: Let_def)
    with Cons.IH [of 0] obtain before run rest where "chs = before @ run @ rest"
      "list_all (is_alnum wide) run" "length run = 21" by auto
    then show ?thesis by (intro exI [of _ "ch # before"] exI [of _ run] exI [of _ rest]) simp
  qed
qed simp

lemma long_opaque_run_iff:
  "has_long_opaque_run wide s \<longleftrightarrow>
     (\<exists>before run rest. characters s = before @ run @ rest \<and> length run = 21 \<and> list_all (is_alnum wide) run)"
  using opaque_run_found [of wide 0 "characters s"] opaque_run_inside [of wide _ 0]
  by (auto simp: has_long_opaque_run_def)

section \<open>A run of three calls\<close>

text \<open>
  Two calls for one event, and a \<open>close\<close>: the first delivery is refused by the receiver and retried by the
  second call, which is acknowledged while the closing call waits for both.
\<close>

definition demo_notification :: notification_event where
  "demo_notification =
     \<lparr>ne_event_id = ''ev-1'', ne_job_id = ''job-1'', ne_event_type = EvProgress,
      ne_company_display_name = ''Acme'', ne_direction_display_name = ''Valves'',
      ne_completed_stage_count = 2, ne_stage_id = Some ''draft'', ne_attempt = 1,
      ne_elapsed_seconds = 30, ne_artifact_ready = False\<rparr>"

definition raw_notification :: raw_event where
  "raw_notification =
     Some [JStr ''ev-1'', JStr ''job-1'', JStr ''progress'', JStr ''Acme'', JStr ''Valves'', JInt 2,
           JStr ''draft'', JInt 1, JInt 30, JBool False]"

definition notification_config_demo :: sink_config where
  "notification_config_demo =
     \<lparr>hk_path = ''/hook'', hk_key = ''01234567890123456789012345678901'', hk_destination = ''ops'',
      hk_target = None, hk_owns_client = True, hk_max_tracked = 2, hk_max_concurrent = 1,
      hk_max_pending = 2\<rparr>"

definition notification_libs :: libs where
  "notification_libs = ((\<lambda>ch. False), (\<lambda>b. ''digest''), (\<lambda>k m. demo_signature))"

definition demo_env :: "int \<Rightarrow> env" where
  "demo_env code =
     \<lparr>en_fault = False, en_catalog = Some raw_notification, en_clock = Some (JInt 100),
      en_nonce = Some ''0123456789abcdef0123456789abcdef'', en_answer = Answered code, en_timeout = False\<rparr>"

definition notification_calls :: "(raw_event \<times> bool) list" where
  "notification_calls = [(raw_notification, False), (raw_notification, False), (None, True)]"

definition notification_schedule :: "(nat \<times> env) list" where
  "notification_schedule =
     map (\<lambda>i. (i, demo_env 500)) [0, 0, 0, 0, 0, 0, 0, 0, 0, 0, 0, 0, 1]
     @ map (\<lambda>i. (i, demo_env 202)) [2, 2, 1, 1, 1, 1, 1, 1, 1, 1, 1, 1, 1, 2, 2, 2]"

definition notification_run :: system where
  "notification_run =
     run_schedule notification_libs notification_config_demo notification_schedule
       (initial_system notification_config_demo notification_calls)"

lemma demo_notification_copy: "strict_event_copy (\<lambda>ch. False) raw_notification = Some demo_notification"
  by code_simp

definition demo_body :: bytes where
  "demo_body = dumps (payload ''ops'' demo_notification)"

lemma demo_payload: "payload_bytes (\<lambda>b. ''digest'') ''ops'' demo_notification = Inr (demo_body, ''digest'')"
proof -
  have "canonical_json (payload ''ops'' demo_notification) = Inr demo_body"
    unfolding demo_body_def
    by (rule within_budget)
      (simp_all add: payload_def event_json_def notification_key_def stage_json_def demo_notification_def budget_simps dec_int_def dec.simps)
  moreover have "canonical_json (identity_payload ''ops'' demo_notification) = Inr (dumps (identity_payload ''ops'' demo_notification))"
    by (rule within_budget)
      (simp_all add: identity_payload_def notification_key_def stage_json_def demo_notification_def budget_simps dec_int_def dec.simps)
  ultimately show ?thesis by (simp add: payload_bytes_def)
qed

definition demo_request :: sent_request where
  "demo_request =
     \<lparr>sq_key = ''digest'', sq_body = demo_body, sq_timestamp = 100,
      sq_nonce = ''0123456789abcdef0123456789abcdef'', sq_signature = demo_signature,
      sq_payload_sha256 = ''digest''\<rparr>"

lemma demo_prepare:
  "prepare_delivery (\<lambda>b. ''digest'') (\<lambda>k m. demo_signature) notification_config_demo demo_body ''digest''
     (Some (JInt 100)) (Some ''0123456789abcdef0123456789abcdef'') = Inr demo_request"
  by (simp add: prepare_delivery_def read_timestamp_def sign_request_def canonical_input_def
      validated_method_def validated_path_def validated_timestamp_def validated_nonce_def validated_key_def
      nonce_char_def is_ascii_def no_line_break_def lowercase_def newline_def lower_hex_def
      notification_config_demo_def demo_request_def)

lemma demo_limits:
  "hk_max_tracked notification_config_demo = 2" "hk_max_concurrent notification_config_demo = 1"
  "hk_max_pending notification_config_demo = 2" "hk_destination notification_config_demo = ''ops''"
  "hk_owns_client notification_config_demo"
  "sq_timestamp demo_request = 100" "ne_event_id demo_notification = ''ev-1''"
  by (simp_all add: notification_config_demo_def demo_request_def demo_notification_def)

lemma notification_run_ends:
  "sy_calls notification_run =
     [(raw_notification, Returned (Inl NotificationDeliveryError)),
      (raw_notification, Returned (Inr (receipt_of notification_config_demo demo_notification 100))),
      (None, Close_returned (Inr ()))]
   \<and> sy_log notification_run =
     [Resolved ''ev-1'' raw_notification, Sent demo_request, Answer_seen ''digest'' (Answered 500),
      Resolved ''ev-1'' raw_notification, Sent demo_request, Answer_seen ''digest'' (Answered 202), Client_closed]"
  by (simp add: notification_run_def notification_schedule_def notification_calls_def initial_system_def
      system_step_def notification_libs_def fresh_sink_def enter_send_def admit_def resolve_event_def
      claim_key_def start_delivery_def take_slot_def post_request_def return_slot_def set_final_status_def
      signal_done_def return_request_slot_def leave_send_def enter_close_def close_client_def mark_closed_def
      semaphore_release_def demo_env_def demo_notification_copy demo_payload demo_prepare demo_limits
      delivery_outcome_def Let_def)

lemma notification_run_visits: "visits notification_libs notification_config_demo notification_run"
  unfolding notification_run_def by (rule run_schedule_visits [OF visits_initial])

lemmas notification_run_reached = notification_run_visits [unfolded notification_libs_def]

section \<open>Deliveries\<close>

lemma covered_same:
  assumes "covered sha256 s log" "Sent q \<in> set log" "Sent q' \<in> set log" "sq_key q' = sq_key q"
  shows "sha256 (sq_body q') = sha256 (sq_body q)"
proof -
  from assms(1,2) obtain a st where "map_of (sk_events s) (sq_key q) = Some a"
    "recorded s a = Some (sha256 (sq_body q), st)" unfolding covered_def by blast
  moreover from assms(1,3) obtain a' st' where "map_of (sk_events s) (sq_key q') = Some a'"
    "recorded s a' = Some (sha256 (sq_body q'), st')" unfolding covered_def by blast
  ultimately show ?thesis using assms(4) by simp
qed

text \<open>
  C30.  Whatever the interleaving of the calls, and whatever fails: the requests seen under one
  idempotency key carry one payload hash, each is answered before the next one goes out, and none follows
  an answer that accepted the event.
\<close>

theorem event_delivered_once:
  assumes "visits (wide, sha256, hmac) c y"
    and "sy_log y = before @ Sent q # between @ Sent q' # after" "sq_key q' = sq_key q"
  shows "sha256 (sq_body q') = sha256 (sq_body q)
    \<and> (\<exists>a. Answer_seen (sq_key q) a \<in> set between)
    \<and> (\<forall>a. Answer_seen (sq_key q) a \<in> set (before @ between) \<longrightarrow> \<not> accepted a)"
proof -
  have apart: "wire (sq_key q) (before @ Sent q # between @ Sent q' # after) \<noteq> Overtaken"
    using never_overtaken [OF assms(1), of "sq_key q"] assms(2) by simp
  have "covered sha256 (sy_sink y) (sy_log y)"
    using account.reachable [OF assms(1)] by (simp add: account_ok_def)
  then have "sha256 (sq_body q') = sha256 (sq_body q)"
    by (rule covered_same) (simp_all add: assms(2,3))
  with requests_apart [OF apart refl assms(3)] show ?thesis by blast
qed

lemma event_delivered_once_witness:
  "(\<exists>a. Answer_seen ''digest'' a \<in> set [Answer_seen ''digest'' (Answered 500), Resolved ''ev-1'' raw_notification])
   \<and> \<not> accepted (Answered 500)"
proof -
  have log: "sy_log notification_run = [Resolved ''ev-1'' raw_notification] @ Sent demo_request
      # [Answer_seen ''digest'' (Answered 500), Resolved ''ev-1'' raw_notification] @ Sent demo_request
      # [Answer_seen ''digest'' (Answered 202), Client_closed]"
    by (simp add: notification_run_ends)
  have key: "sq_key demo_request = ''digest''" by (simp add: demo_request_def)
  from event_delivered_once [OF notification_run_reached log refl] show ?thesis by (auto simp: key)
qed

text \<open>
  C31.  A receipt is never empty: if a call of \<open>send\<close> returned one for its event, a request with the
  payload hash of that event went out under the event's idempotency key and was accepted, in this call or
  in another.
\<close>

theorem receipt_means_delivered:
  assumes "visits (wide, sha256, hmac) c y" "i < length (sy_calls y)"
    and "sy_calls y ! i = (raw, Returned (Inr receipt))"
  shows "\<exists>e t body key q a. strict_event_copy wide raw = Some e \<and> receipt = receipt_of c e t
    \<and> payload_bytes sha256 (hk_destination c) e = Inr (body, key)
    \<and> Sent q \<in> set (sy_log y) \<and> sq_key q = key \<and> sha256 (sq_body q) = sha256 body
    \<and> Answer_seen key a \<in> set (sy_log y) \<and> accepted a"
proof -
  have account: "account_ok wide sha256 hmac c y" by (rule account.reachable [OF assms(1)])
  moreover have "(raw, Returned (Inr receipt)) \<in> set (sy_calls y)" using assms(2,3) by (metis nth_mem)
  ultimately have "call_ok wide sha256 c (sy_sink y) (sy_log y) raw (Returned (Inr receipt))"
    by (auto simp: account_ok_def)
  then obtain e t body key a where e: "strict_event_copy wide raw = Some e" "receipt = receipt_of c e t"
    "payload_bytes sha256 (hk_destination c) e = Inr (body, key)"
    and a: "map_of (sk_events (sy_sink y)) key = Some a" "recorded (sy_sink y) a = Some (sha256 body, Delivered)"
    by (auto simp: receipt_backed_def delivered_event_def)
  have "wire key (sy_log y) = Acknowledged"
    using deliveriesD(1) [OF delivery.reachable [OF assms(1), unfolded delivery_ok_def] a(1)] a(2)
    by (auto simp: status_wire_def)
  then obtain q ans where q: "Sent q \<in> set (sy_log y)" "sq_key q = key"
    and ans: "Answer_seen key ans \<in> set (sy_log y)" "accepted ans"
    using acknowledged_seen by blast
  have "covered sha256 (sy_sink y) (sy_log y)" using account by (simp add: account_ok_def)
  with q a have "sha256 (sq_body q) = sha256 body" unfolding covered_def by fastforce
  with e q ans show ?thesis by blast
qed

lemma receipt_means_delivered_witness:
  "\<exists>q a. Sent q \<in> set (sy_log notification_run) \<and> Answer_seen (sq_key q) a \<in> set (sy_log notification_run)
     \<and> accepted a"
  using receipt_means_delivered [OF notification_run_reached, of 1 raw_notification]
  by (auto simp: notification_run_ends)

text \<open>
  C32.  Nothing leaves but approved events: before every request the catalog answered with the very event
  it carries, whose display names never show 21 letters or digits in a row; and a receiver that holds the
  key, has its clock within 300 seconds and has not seen the nonce verifies the request.
\<close>

theorem notification_requests_approved:
  assumes "visits (wide, sha256, hmac) c y" "sy_log y = before @ Sent q # after"
  shows "\<exists>e raw. Resolved (ne_event_id e) raw \<in> set before \<and> strict_event_copy wide raw = Some e
    \<and> payload_bytes sha256 (hk_destination c) e = Inr (sq_body q, sq_key q)
    \<and> (\<forall>name run pre rest. name \<in> {ne_company_display_name e, ne_direction_display_name e} \<longrightarrow>
         characters name = pre @ run @ rest \<longrightarrow> length run = 21 \<longrightarrow> \<not> list_all (is_alnum wide) run)
    \<and> (\<forall>now consumer seen seen'. 0 \<le> now \<longrightarrow> \<bar>now - sq_timestamp q\<bar> \<le> 300 \<longrightarrow>
         is_sha256_hex (sq_signature q) \<longrightarrow> consumer (sq_nonce q) seen = (Inr True, seen') \<longrightarrow>
         verify_request sha256 hmac ''POST'' (hk_path c) (sq_timestamp q) (sq_nonce q) (sq_body q) (hk_key c)
           (sq_signature q) now consumer seen = (Inr (), seen'))"
proof -
  have "request_ok wide sha256 hmac c before q"
    using account.reachable [OF assms(1)] assms(2) by (simp add: account_ok_def sent_ok_def)
  then obtain e where e: "keyed_event wide sha256 c before e (sq_body q) (sq_key q)" "event_ok wide e"
    and stamp: "0 \<le> sq_timestamp q"
    and nonce: "length (sq_nonce q) = 32" "list_all lower_hex (sq_nonce q)"
    and sign: "sign_request sha256 hmac ''POST'' (hk_path c) (sq_timestamp q) (sq_nonce q) (sq_body q) (hk_key c)
        = Inr (sq_signature q)"
    by (auto simp: request_ok_def)
  have names: "\<not> has_long_opaque_run wide name"
    if "name \<in> {ne_company_display_name e, ne_direction_display_name e}" for name
    using e(2) that by (auto simp: event_ok_def display_name_ok_def display_text_ok_def)
  have accepts: "validated_nonce (sq_nonce q) = Inr (sq_nonce q)"
    using sign by (auto simp: sign_request_def canonical_input_def bnd_eq_Inr validated_nonce_def split: if_splits)
  have "verify_request sha256 hmac ''POST'' (hk_path c) (sq_timestamp q) (sq_nonce q) (sq_body q) (hk_key c)
      (sq_signature q) now consumer seen = (Inr (), seen')"
    if "0 \<le> now" "\<bar>now - sq_timestamp q\<bar> \<le> 300" "is_sha256_hex (sq_signature q)"
      "consumer (sq_nonce q) seen = (Inr True, seen')" for now consumer seen seen'
    using that stamp sign accepts
    by (simp add: verify_request_def validated_timestamp_def max_timestamp_skew_seconds_def)
  note verified = this
  from e(1) obtain raw where raw: "Resolved (ne_event_id e) raw \<in> set before"
    "strict_event_copy wide raw = Some e" "payload_bytes sha256 (hk_destination c) e = Inr (sq_body q, sq_key q)"
    by (auto simp: keyed_event_def approved_event_def)
  have "\<not> list_all (is_alnum wide) run" if "name \<in> {ne_company_display_name e, ne_direction_display_name e}"
    "characters name = pre @ run @ rest" "length run = 21" for name run pre rest
    using names [OF that(1)] long_opaque_run_iff that(2,3) by blast
  with raw verified show ?thesis by (intro exI [of _ e] exI [of _ raw] conjI allI impI) auto
qed

lemma notification_requests_approved_witness:
  "verify_request (\<lambda>b. ''digest'') (\<lambda>k m. demo_signature) ''POST'' ''/hook'' 100
     ''0123456789abcdef0123456789abcdef'' demo_body ''01234567890123456789012345678901'' demo_signature
     200 (\<lambda>n seen. (Inr True, seen)) () = (Inr (), ())"
proof -
  have log: "sy_log notification_run = [Resolved ''ev-1'' raw_notification] @ Sent demo_request
      # [Answer_seen ''digest'' (Answered 500), Resolved ''ev-1'' raw_notification, Sent demo_request,
         Answer_seen ''digest'' (Answered 202), Client_closed]"
    by (simp add: notification_run_ends)
  have hex: "is_sha256_hex (sq_signature demo_request)"
    by (simp add: demo_request_def demo_signature_def is_sha256_hex_def lower_hex_def)
  obtain e where "\<forall>now consumer seen seen'. 0 \<le> now \<longrightarrow> \<bar>now - sq_timestamp demo_request\<bar> \<le> 300 \<longrightarrow>
      is_sha256_hex (sq_signature demo_request) \<longrightarrow>
      consumer (sq_nonce demo_request) (seen :: unit) = (Inr True, seen') \<longrightarrow>
      verify_request (\<lambda>b. ''digest'') (\<lambda>k m. demo_signature) ''POST'' (hk_path notification_config_demo)
        (sq_timestamp demo_request) (sq_nonce demo_request) (sq_body demo_request)
        (hk_key notification_config_demo) (sq_signature demo_request) now consumer seen = (Inr (), seen')"
    using notification_requests_approved [OF notification_run_reached log, where ?'a = unit] by blast
  from this [rule_format, of 200 "\<lambda>n seen. (Inr True, seen)" "()" "()"] hex show ?thesis
    by (simp add: demo_request_def notification_config_demo_def)
qed

section \<open>Bounds and closing\<close>

text \<open>
  C34.  A sink that its constructor accepted never has more than 64 deliveries on the network or 1024
  admitted calls, remembers at most 100000 keys, and its own configured limits hold; from the closing of
  its client on no request is seen, and no call is inside.
\<close>

theorem sink_stays_bounded:
  assumes "make_sink lib resolve parsed key_file a = Inr c" "visits l c y"
  shows "count_calls holds_slot y \<le> hk_max_concurrent c \<and> hk_max_concurrent c \<le> 64
    \<and> count_calls holds_request y \<le> hk_max_pending c \<and> hk_max_pending c \<le> 1024
    \<and> length (sk_events (sy_sink y)) \<le> hk_max_tracked c \<and> hk_max_tracked c \<le> 100000
    \<and> Sent q \<notin> set (closed_part (sy_log y))
    \<and> (Client_closed \<in> set (sy_log y) \<longrightarrow> count_calls counted y = 0)"
proof -
  have limits: "hk_max_concurrent c \<le> 64" "hk_max_pending c \<le> 1024" "hk_max_tracked c \<le> 100000"
    using assms(1)
    by (auto simp: make_sink_def sink_limits_ok_def bnd_eq_Inr split: option.splits if_splits sum.splits)
  obtain wide sha256 hmac where l: "l = (wide, sha256, hmac)" by (cases l)
  have "key_table_ok c (sy_sink y)"
    using account.reachable [OF assms(2) [unfolded l]] by (simp add: account_ok_def)
  moreover have "Client_closed \<in> set (sy_log y) \<Longrightarrow> count_calls counted y = 0"
    using life.reachable [OF assms(2)] count_mono [of marking past_drain y] marking_past
    by (auto simp: lifecycle_ok_def)
  ultimately show ?thesis
    using limits counters.reachable [OF assms(2)] silence.reachable [OF assms(2)]
    by (auto simp: counters_ok_def key_table_ok_def silent_when_closed_def)
qed

definition demo_library :: url_library where
  "demo_library =
     \<lparr>ul_urlsplit = (\<lambda>s. Some \<lparr>u_scheme = ''https'', u_netloc = ''Example.com'', u_path = ''/x'', u_query = [],
        u_hostname = Some ''example.com'', u_port = None, u_username = None, u_password = None\<rparr>),
      ul_urlunsplit = (\<lambda>scheme netloc path query. scheme @ ''://'' @ netloc @ path),
      ul_urljoin = (\<lambda>source target. Some target),
      ul_ip_address = (\<lambda>s. if s = ''93.184.216.34'' then
         Some \<lparr>iv_text = s, iv_version = 4, iv_packed = ''p'', iv_is_global = True, iv_is_private = False,
           iv_is_loopback = False, iv_is_link_local = False, iv_is_multicast = False,
           iv_is_reserved = False, iv_is_unspecified = False\<rparr> else None),
      ul_idna = Some\<rparr>"

definition demo_resolver :: resolver where
  "demo_resolver hostname = Some [JStr ''93.184.216.34'']"

definition demo_webhook :: webhook_url where
  "demo_webhook =
     \<lparr>hu_scheme = ''https'', hu_host = ''hooks.invalid'', hu_port = None, hu_username = [], hu_password = [],
      hu_query = [], hu_fragment = [], hu_raw_path = ''/hook''\<rparr>"

definition demo_key_file :: key_file where
  "demo_key_file =
     \<lparr>kf_regular = True, kf_mode = 384, kf_owned = True, kf_links = 1,
      kf_bytes = to_hex (hk_key notification_config_demo)\<rparr>"

definition demo_sink_args :: sink_args where
  "demo_sink_args =
     (default_sink_args ''https://hooks.invalid/hook'' None ''/etc/key'' ''ops'')
       \<lparr>sa_max_tracked_events := 2, sa_max_concurrent_deliveries := 1, sa_max_pending_deliveries := 2\<rparr>"

lemma demo_sink: "make_sink demo_library demo_resolver (Some demo_webhook) (Some demo_key_file) demo_sink_args
    = Inr notification_config_demo"
  by code_simp

lemma sink_stays_bounded_witness:
  "count_calls holds_slot notification_run \<le> 64 \<and> Client_closed \<in> set (sy_log notification_run)
     \<and> count_calls counted notification_run = 0"
  using sink_stays_bounded [OF demo_sink notification_run_visits, of demo_request]
  by (auto simp: notification_run_ends)

section \<open>Every call returns\<close>

lemma relpow_visits: "visits l c y \<Longrightarrow> (moves l c ^^ k) y z \<Longrightarrow> visits l c z"
  by (induction k arbitrary: z) (auto intro: visits_move)

lemma run_schedule_moves: "\<exists>k. (moves l c ^^ k) y (run_schedule l c sched y)"
proof (induction sched arbitrary: y)
  case Nil
  then show ?case by (intro exI [of _ 0]) simp
next
  case (Cons step sched)
  obtain i n where step: "step = (i, n)" by (cases step)
  show ?case
  proof (cases "system_step l c i n y")
    case None
    with Cons step show ?thesis by simp
  next
    case (Some z)
    then have "moves l c y z" by (rule moves.moves)
    moreover obtain k where "(moves l c ^^ k) z (run_schedule l c sched z)" using Cons by blast
    ultimately have "(moves l c ^^ Suc k) y (run_schedule l c sched z)" by (rule relpowp_Suc_I2)
    with Some step show ?thesis by (intro exI [of _ "Suc k"]) simp
  qed
qed

text \<open>
  C33.  However calls of \<open>send\<close> and \<open>close\<close> interleave and whatever fails, they stop after at most twelve
  steps each; when nothing can move any more every call has returned, and no key is left in flight.
\<close>

theorem sink_calls_return:
  assumes "(moves (wide, sha256, hmac) c ^^ k) (initial_system c calls) y"
  shows "k \<le> 12 * length calls
    \<and> ((\<forall>z. \<not> moves (wide, sha256, hmac) c y z) \<longrightarrow>
         (\<forall>i < length (sy_calls y). finished (snd (sy_calls y ! i)))
         \<and> (\<forall>a h. recorded (sy_sink y) a \<noteq> Some (h, In_flight)))"
proof -
  have y: "visits (wide, sha256, hmac) c y" by (rule relpow_visits [OF visits_initial assms])
  have "k \<le> 12 * length calls" using moves_bounded [OF assms] initial_work [of c calls] by simp
  moreover have "recorded (sy_sink y) a \<noteq> Some (h, In_flight)"
    if "\<forall>i < length (sy_calls y). finished (snd (sy_calls y ! i))" for a h
  proof
    assume "recorded (sy_sink y) a = Some (h, In_flight)"
    from deliveriesD(6) [OF delivery.reachable [OF y, unfolded delivery_ok_def] this]
    obtain i k b x where "owner_at y i = Some (k, b, a, x)" by blast
    then have i: "i < length (sy_calls y)" "owner (snd (sy_calls y ! i)) \<noteq> None"
      by (auto simp: owner_at_def split: if_split_asm)
    with that have "finished (snd (sy_calls y ! i))" by blast
    with i show False by (cases "snd (sy_calls y ! i)") simp_all
  qed
  ultimately show ?thesis using no_call_waits_forever [OF y] by blast
qed

lemma sink_calls_return_witness:
  "\<exists>k \<le> 36. (moves notification_libs notification_config_demo ^^ k)
     (initial_system notification_config_demo notification_calls) notification_run
   \<and> finished (snd (sy_calls notification_run ! 1))"
proof -
  obtain k where k: "(moves notification_libs notification_config_demo ^^ k)
      (initial_system notification_config_demo notification_calls) notification_run"
    using run_schedule_moves unfolding notification_run_def by blast
  moreover from sink_calls_return [OF k [unfolded notification_libs_def]] have "k \<le> 36"
    by (simp add: notification_calls_def)
  moreover have "finished (snd (sy_calls notification_run ! 1))" by (simp add: notification_run_ends)
  ultimately show ?thesis by blast
qed

section \<open>Addresses\<close>

text \<open>
  C35.  A URL the policy accepts, directly or as a redirect target, is an HTTP address all of whose resolved
  addresses are public, whatever the resolver answered; and a request pinned to it goes to one of them, with
  the host name in the TLS handshake.
\<close>

theorem accepted_url_public:
  assumes "normalize_public_http_url lib v resolve = Inr n \<or> validate_redirect lib source v resolve = Inr n"
  shows "nu_scheme n \<in> {''http'', ''https''} \<and> nu_port n \<noteq> 0
    \<and> (\<forall>x \<in> set (nu_resolved_addresses n). \<exists>a s. ul_ip_address lib s = Some a \<and> public_ip a \<and> x = iv_text a)
    \<and> (ul_ip_address lib (nu_hostname n) = None \<longrightarrow>
         (\<exists>raws. resolve (nu_hostname n) = Some raws
            \<and> (\<forall>raw \<in> set raws. \<exists>a s. raw = JStr s \<and> ul_ip_address lib s = Some a \<and> public_ip a)))
    \<and> hr_host (pinned_request n r) \<in> set (nu_resolved_addresses n)
    \<and> hr_sni (pinned_request n r) = Some (nu_hostname n)"
proof -
  obtain raw where "normalize_public_http_url lib raw resolve = Inr n"
    using assms by (auto simp: validate_redirect_def split: jval.splits option.splits if_splits)
  from normalized_ok [OF this] show ?thesis
    by (auto simp: pinned_request_def public_answer_def Let_def)
qed

definition demo_http_request :: http_request where
  "demo_http_request =
     \<lparr>hr_method = ''POST'', hr_host = ''example.com'', hr_port = 443, hr_target = ''/x'', hr_headers = [],
      hr_sni = None\<rparr>"

lemma accepted_url_public_witness:
  "\<exists>n. normalize_public_http_url demo_library (JStr ''https://Example.com/x'') demo_resolver = Inr n
     \<and> nu_port n \<noteq> 0 \<and> hr_host (pinned_request n demo_http_request) \<in> set (nu_resolved_addresses n)"
proof -
  have "normalize_public_http_url demo_library (JStr ''https://Example.com/x'') demo_resolver
      = Inr \<lparr>nu_url = ''https://example.com/x'', nu_scheme = ''https'', nu_hostname = ''example.com'',
          nu_port = 443, nu_resolved_addresses = [''93.184.216.34'']\<rparr>"
    by code_simp
  from accepted_url_public [OF disjI1 [OF this]] this show ?thesis by blast
qed

end
