(* ===== verification/ExportPlans.thy ===== *)
theory ExportPlans
  imports System Screening
begin

text \<open>
  Sheet exports (\<open>services/exports.py\<close>), the data: targets, artifacts, plans, write requests and receipts
  with the checks of their constructors, and the four tables of \<open>db/migrations.py\<close> with their
  constraints, next to the job database.  A dict is the list of its items; a \<open>str\<close> argument that is not
  one is refused like a blank text.
\<close>

section \<open>Texts\<close>

definition non_empty_text :: "nat \<Rightarrow> pystr \<Rightarrow> exn + pystr" where
  "non_empty_text maximum value =
     (if blank value \<or> value \<noteq> strip value then Inl ValueError
      else if maximum < length (characters value) \<or> CHR 0x00 \<in> set value then Inl ValueError
      else Inr value)"

definition sha256_text :: "pystr \<Rightarrow> exn + pystr" where
  "sha256_text value = (if is_sha256_hex value then Inr value else Inl ValueError)"

fun each_item :: "(pystr \<times> pystr \<Rightarrow> exn + unit) \<Rightarrow> (pystr \<times> pystr) list \<Rightarrow> exn + unit" where
  "each_item check [] = Inr ()"
| "each_item check (i # is) = bnd (check i) (\<lambda>_. each_item check is)"

definition frozen_string_mapping :: "(pystr \<times> pystr) list \<Rightarrow> exn + (pystr \<times> pystr) list" where
  "frozen_string_mapping value =
     (if value = [] \<or> 64 < length value then Inl ValueError else
      bnd (each_item (\<lambda>(k, v). bnd (non_empty_text 64 k) (\<lambda>_. bnd (non_empty_text 64 v) (\<lambda>_. Inr ()))) value)
        (\<lambda>_. Inr value))"

definition string_items :: "(pystr \<times> pystr) list \<Rightarrow> jval" where
  "string_items kvs = JObj (map (\<lambda>(k, v). (k, JStr v)) kvs)"

definition frozen_artifact_values :: "(pystr \<times> pystr) list \<Rightarrow> exn + (pystr \<times> pystr) list" where
  "frozen_artifact_values value =
     (if value = [] \<or> 64 < length value then Inl ValueError else
      bnd (each_item (\<lambda>(k, v). bnd (non_empty_text 64 k) (\<lambda>_.
             if max_bytes < length (characters v) \<or> CHR 0x00 \<in> set v then Inl ValueError else Inr ())) value)
        (\<lambda>_. bnd (canonical_json (string_items value)) (\<lambda>_. Inr value)))"

section \<open>Targets, artifacts and plans\<close>

record sheet_target =
  st_spreadsheet_id :: pystr
  st_sheet_name :: pystr
  st_row_selector :: pystr
  st_column_map :: "(pystr \<times> pystr) list"

definition make_target :: "sheet_target \<Rightarrow> exn + sheet_target" where
  "make_target t =
     bnd (non_empty_text 256 (st_spreadsheet_id t)) (\<lambda>_.
     bnd (non_empty_text 256 (st_sheet_name t)) (\<lambda>_.
     bnd (non_empty_text 512 (st_row_selector t)) (\<lambda>_.
     bnd (frozen_string_mapping (st_column_map t)) (\<lambda>_. Inr t))))"

record export_artifact =
  ea_artifact_hash :: pystr
  ea_values :: "(pystr \<times> pystr) list"

definition make_artifact :: "export_artifact \<Rightarrow> exn + export_artifact" where
  "make_artifact a =
     bnd (sha256_text (ea_artifact_hash a)) (\<lambda>_.
     bnd (frozen_artifact_values (ea_values a)) (\<lambda>_. Inr a))"

record export_plan =
  xp_job_id :: pystr
  xp_artifact_hash :: pystr
  xp_target :: sheet_target
  xp_plan_fingerprint :: pystr

definition make_export_plan :: "export_plan \<Rightarrow> exn + export_plan" where
  "make_export_plan p =
     bnd (non_empty_text 256 (xp_job_id p)) (\<lambda>_.
     bnd (sha256_text (xp_artifact_hash p)) (\<lambda>_.
     bnd (make_target (xp_target p)) (\<lambda>_.
     bnd (sha256_text (xp_plan_fingerprint p)) (\<lambda>_. Inr p))))"

definition plan_value :: "pystr \<Rightarrow> pystr \<Rightarrow> sheet_target \<Rightarrow> jval" where
  "plan_value job_id artifact_hash t =
     JObj [(''job_id'', JStr job_id), (''artifact_hash'', JStr artifact_hash),
           (''spreadsheet_id'', JStr (st_spreadsheet_id t)), (''sheet_name'', JStr (st_sheet_name t)),
           (''row_selector'', JStr (st_row_selector t)), (''column_map'', string_items (st_column_map t))]"

text \<open>\<open>urllib.parse.quote\<close> with no safe characters; an unpaired surrogate cannot be encoded.\<close>

definition unreserved :: "char \<Rightarrow> bool" where
  "unreserved c = (is_digit c \<or> lower_letter (lower_char c) \<or> c \<in> set ''_.-~'')"

definition upper_hex_digit :: "nat \<Rightarrow> char" where
  "upper_hex_digit n = (if n < 10 then digit n else char_of (55 + n))"

definition percent_encoded :: "char \<Rightarrow> pystr" where
  "percent_encoded c =
     (let n = (of_char c :: nat) in
      if unreserved c then [c] else [CHR ''%'', upper_hex_digit (n div 16), upper_hex_digit (n mod 16)])"

definition url_quote :: "pystr \<Rightarrow> exn + pystr" where
  "url_quote s =
     (if utf8_ok False s then Inr (concat (map percent_encoded s)) else Inl ValueError)"

definition destination_reference :: "sheet_target \<Rightarrow> exn + pystr" where
  "destination_reference t =
     bnd (url_quote (st_spreadsheet_id t)) (\<lambda>a.
     bnd (url_quote (st_sheet_name t)) (\<lambda>b.
     bnd (url_quote (st_row_selector t)) (\<lambda>r.
       non_empty_text 2048 (''sheet://'' @ a @ ''/'' @ b @ ''?row='' @ r))))"

section \<open>Cells\<close>

text \<open>Every column gets the artifact value its source names; none may read as a formula.\<close>

definition missing_source :: "sheet_target \<Rightarrow> export_artifact \<Rightarrow> bool" where
  "missing_source t a = list_ex (\<lambda>(column, source). map_of (ea_values a) source = None) (st_column_map t)"

definition cells_of :: "sheet_target \<Rightarrow> export_artifact \<Rightarrow> (pystr \<times> pystr) list" where
  "cells_of t a = map (\<lambda>(column, source). (column, the (map_of (ea_values a) source))) (st_column_map t)"

definition formula_like :: "pystr \<Rightarrow> bool" where
  "formula_like v = (case v of [] \<Rightarrow> False | c # _ \<Rightarrow> c \<in> set ''=+-@'')"

definition payload_value :: "(pystr \<times> pystr) list \<Rightarrow> jval" where
  "payload_value cells = JObj [(''cells'', string_items cells)]"

definition export_key_value :: "pystr \<Rightarrow> pystr \<Rightarrow> jval" where
  "export_key_value job_id artifact_hash =
     JObj [(''job_id'', JStr job_id), (''artifact_hash'', JStr artifact_hash)]"

section \<open>Requests and receipts\<close>

record write_request =
  wq_job_id :: pystr
  wq_export_key :: pystr
  wq_spreadsheet_id :: pystr
  wq_sheet_name :: pystr
  wq_row_selector :: pystr
  wq_destination_reference :: pystr
  wq_cells :: "(pystr \<times> pystr) list"

text \<open>
  What a backend hands back: \<open>wr_exported_at\<close> is \<open>None\<close> for a value that is not an aware datetime in
  the range of UTC.  A raw receipt is \<open>None\<close> if it is no \<open>SheetWriteReceipt\<close> or a text field is no \<open>str\<close>.
\<close>

record write_receipt =
  wr_export_key :: pystr
  wr_spreadsheet_id :: pystr
  wr_sheet_name :: pystr
  wr_row_selector :: pystr
  wr_destination_reference :: pystr
  wr_exported_at :: "instant option"

type_synonym raw_receipt = "write_receipt option"

record export_receipt =
  xr_job_id :: pystr
  xr_export_key :: pystr
  xr_destination_reference :: pystr
  xr_exported_at :: instant

definition validate_backend_receipt :: "write_request \<Rightarrow> raw_receipt \<Rightarrow> exn + instant" where
  "validate_backend_receipt q raw =
     (case raw of
        None \<Rightarrow> Inl DataIntegrityError
      | Some r \<Rightarrow>
          if wr_export_key r \<noteq> wq_export_key q \<or> wr_spreadsheet_id r \<noteq> wq_spreadsheet_id q
             \<or> wr_sheet_name r \<noteq> wq_sheet_name q \<or> wr_row_selector r \<noteq> wq_row_selector q
             \<or> wr_destination_reference r \<noteq> wq_destination_reference q
          then Inl DataIntegrityError else
          (case wr_exported_at r of
             None \<Rightarrow> Inl DataIntegrityError
           | Some t \<Rightarrow>
               if \<not> valid_instant t then Inl DataIntegrityError else
               (case non_empty_text 2048 (wr_destination_reference r) of
                  Inl e \<Rightarrow> Inl DataIntegrityError | Inr u \<Rightarrow> Inr t)))"

section \<open>Tables\<close>

record plan_row =
  pr_company_id :: pystr
  pr_job_id :: pystr
  pr_artifact_hash :: pystr
  pr_spreadsheet_id :: pystr
  pr_sheet_name :: pystr
  pr_row_selector :: pystr
  pr_column_map_json :: bytes
  pr_payload_json :: bytes
  pr_plan_fingerprint :: pystr
  pr_prepared_at :: pystr

record claim_row =
  cr_company_id :: pystr
  cr_job_id :: pystr
  cr_approval_record_id :: pystr
  cr_plan_fingerprint :: pystr
  cr_claimed_at :: pystr

record attempt_row =
  tr_company_id :: pystr
  tr_job_id :: pystr
  tr_approval_record_id :: pystr
  tr_attempt_id :: pystr
  tr_started_at :: pystr

record receipt_row =
  er_company_id :: pystr
  er_job_id :: pystr
  er_approval_record_id :: pystr
  er_export_key :: pystr
  er_destination_reference :: pystr
  er_exported_at :: pystr

text \<open>
  The export tables beside the job database.  Rows are in the order of their rowids; plans, claims and
  receipts are append-only by their triggers, so no operation below changes one.
\<close>

record sheets =
  sh_db :: db
  sh_plans :: "plan_row list"
  sh_claims :: "claim_row list"
  sh_attempts :: "attempt_row list"
  sh_receipts :: "receipt_row list"

text \<open>\<open>length(x) = 64 AND x = lower(x)\<close>.\<close>

definition lower_64 :: "pystr \<Rightarrow> bool" where
  "lower_64 s = (length (characters s) = 64 \<and> map lower_char s = s)"

definition plan_checks :: "plan_row \<Rightarrow> bool" where
  "plan_checks p =
     (lower_64 (pr_artifact_hash p) \<and> lower_64 (pr_plan_fingerprint p)
      \<and> trimmed (pr_spreadsheet_id p) \<and> trimmed (pr_sheet_name p)
      \<and> trimmed (pr_row_selector p) \<and> is_utc_timestamp (pr_prepared_at p))"

text \<open>\<open>INSERT OR IGNORE\<close>: a violated CHECK or key skips the row, a foreign key or a trigger still raises.\<close>

definition same_plan_key :: "plan_row \<Rightarrow> plan_row \<Rightarrow> bool" where
  "same_plan_key p q =
     (pr_company_id p = pr_company_id q \<and> pr_job_id p = pr_job_id q
      \<and> pr_plan_fingerprint p = pr_plan_fingerprint q)"

definition insert_plan :: "plan_row \<Rightarrow> sheets \<Rightarrow> exn + sheets" where
  "insert_plan p s =
     (if \<not> plan_checks p \<or> list_ex (same_plan_key p) (sh_plans s) then Inr s
      else if \<not> list_ex (\<lambda>j. j_company_id j = pr_company_id p \<and> j_job_id j = pr_job_id p) (jobs (sh_db s))
      then Inl SqliteIntegrityError
      else Inr (s\<lparr>sh_plans := sh_plans s @ [p]\<rparr>))"

definition claim_approved :: "claim_row \<Rightarrow> sheets \<Rightarrow> bool" where
  "claim_approved c s =
     list_ex (\<lambda>a. a_approval_record_id a = cr_approval_record_id c \<and> a_job_id a = cr_job_id c
                  \<and> a_approval_type a = ''sheet_export'' \<and> a_plan_fingerprint a = cr_plan_fingerprint c)
       (approvals (sh_db s))"

definition insert_claim :: "claim_row \<Rightarrow> sheets \<Rightarrow> exn + sheets" where
  "insert_claim c s =
     (if \<not> claim_approved c s then Inl SqliteIntegrityError
      else if \<not> lower_64 (cr_plan_fingerprint c) \<or> \<not> is_utc_timestamp (cr_claimed_at c)
              \<or> list_ex (\<lambda>r. cr_company_id r = cr_company_id c \<and> cr_job_id r = cr_job_id c
                           \<or> cr_approval_record_id r = cr_approval_record_id c) (sh_claims s)
      then Inr s
      else if \<not> list_ex (\<lambda>p. pr_company_id p = cr_company_id c \<and> pr_job_id p = cr_job_id c
                           \<and> pr_plan_fingerprint p = cr_plan_fingerprint c) (sh_plans s)
      then Inl SqliteIntegrityError
      else Inr (s\<lparr>sh_claims := sh_claims s @ [c]\<rparr>))"

definition claimed_for :: "pystr \<Rightarrow> pystr \<Rightarrow> pystr \<Rightarrow> sheets \<Rightarrow> bool" where
  "claimed_for company_id job_id approval_id s =
     list_ex (\<lambda>r. cr_company_id r = company_id \<and> cr_job_id r = job_id \<and> cr_approval_record_id r = approval_id)
       (sh_claims s)"

text \<open>The flag is \<open>rowcount == 1\<close>.\<close>

definition insert_attempt :: "attempt_row \<Rightarrow> sheets \<Rightarrow> exn + (bool \<times> sheets)" where
  "insert_attempt t s =
     (if \<not> is_utc_timestamp (tr_started_at t)
         \<or> list_ex (\<lambda>r. tr_company_id r = tr_company_id t \<and> tr_job_id r = tr_job_id t
                      \<or> tr_approval_record_id r = tr_approval_record_id t \<or> tr_attempt_id r = tr_attempt_id t)
              (sh_attempts s)
      then Inr (False, s)
      else if \<not> claimed_for (tr_company_id t) (tr_job_id t) (tr_approval_record_id t) s
      then Inl SqliteIntegrityError
      else Inr (True, s\<lparr>sh_attempts := sh_attempts s @ [t]\<rparr>))"

definition receipt_checks :: "receipt_row \<Rightarrow> bool" where
  "receipt_checks r =
     (lower_64 (er_export_key r) \<and> trimmed (er_destination_reference r) \<and> is_utc_timestamp (er_exported_at r))"

definition insert_export_receipt :: "receipt_row \<Rightarrow> sheets \<Rightarrow> exn + sheets" where
  "insert_export_receipt r s =
     (if \<not> receipt_checks r
         \<or> list_ex (\<lambda>q. er_company_id q = er_company_id r \<and> er_job_id q = er_job_id r
                       \<and> er_export_key q = er_export_key r
                      \<or> er_approval_record_id q = er_approval_record_id r) (sh_receipts s)
         \<or> \<not> claimed_for (er_company_id r) (er_job_id r) (er_approval_record_id r) s
      then Inl SqliteIntegrityError
      else Inr (s\<lparr>sh_receipts := sh_receipts s @ [r]\<rparr>))"

definition delete_attempt :: "pystr \<Rightarrow> pystr \<Rightarrow> pystr \<Rightarrow> sheets \<Rightarrow> exn + sheets" where
  "delete_attempt company_id job_id attempt_id s =
     (let gone = (\<lambda>r. tr_company_id r = company_id \<and> tr_job_id r = job_id \<and> tr_attempt_id r = attempt_id) in
      if length (filter gone (sh_attempts s)) \<noteq> 1 then Inl DataIntegrityError
      else Inr (s\<lparr>sh_attempts := filter (\<lambda>r. \<not> gone r) (sh_attempts s)\<rparr>))"

definition sheet_transaction :: "(sheets \<Rightarrow> exn + ('a \<times> sheets)) \<Rightarrow> sheets \<Rightarrow> (exn + 'a) \<times> sheets" where
  "sheet_transaction body s =
     (case body s of Inl e \<Rightarrow> (Inl e, s) | Inr (x, s') \<Rightarrow> (Inr x, s'))"

end
