(* ===== verification/ExportService.thy ===== *)
theory ExportService
  imports ExportPlans
begin

text \<open>
  The transactions of \<open>ExportService\<close> (\<open>services/exports.py\<close>).  What the artifact source answers is the
  argument \<open>loaded\<close>, the readings of the clock and of the id factories are arguments too (\<open>None\<close> for a
  naive datetime).  A body runs between BEGIN IMMEDIATE and COMMIT, under \<open>sheet_transaction\<close>.
\<close>

section \<open>Inputs\<close>

type_synonym loaded = "exn + export_artifact"

definition load_artifact :: "loaded \<Rightarrow> exn + export_artifact" where
  "load_artifact l = bnd l make_artifact"

text \<open>An aware datetime outside the range of UTC overflows in \<open>astimezone\<close>.\<close>

definition in_range :: "instant \<Rightarrow> exn + instant" where
  "in_range t = (if valid_instant t then Inr t else Inl OverflowError)"

definition aware_clock :: "exn \<Rightarrow> instant option \<Rightarrow> exn + instant" where
  "aware_clock naive clock = (case clock of None \<Rightarrow> Inl naive | Some t \<Rightarrow> in_range t)"

text \<open>Two dicts are equal up to the order of their items.\<close>

definition same_items :: "(pystr \<times> pystr) list \<Rightarrow> (pystr \<times> pystr) list \<Rightarrow> bool" where
  "same_items a b = (sort_key fst a = sort_key fst b)"

definition same_target :: "sheet_target \<Rightarrow> sheet_target \<Rightarrow> bool" where
  "same_target t u =
     (st_spreadsheet_id t = st_spreadsheet_id u \<and> st_sheet_name t = st_sheet_name u
      \<and> st_row_selector t = st_row_selector u \<and> same_items (st_column_map t) (st_column_map u))"

section \<open>The current plan\<close>

fun texts_of :: "(pystr \<times> jval) list \<Rightarrow> exn + (pystr \<times> pystr) list" where
  "texts_of [] = Inr []"
| "texts_of ((k, JStr v) # kvs) = bnd (texts_of kvs) (\<lambda>ts. Inr ((k, v) # ts))"
| "texts_of (kv # kvs) = Inl ValueError"

definition stored_column_map :: "bytes \<Rightarrow> exn + (pystr \<times> pystr) list" where
  "stored_column_map json =
     (case json_loads json of
        None \<Rightarrow> Inl ValueError
      | Some (JObj kvs) \<Rightarrow>
          bnd (canonical_json (JObj kvs)) (\<lambda>b. if b \<noteq> json then Inl DataIntegrityError else texts_of kvs)
      | Some v \<Rightarrow> Inl DataIntegrityError)"

definition stored_target :: "plan_row \<Rightarrow> exn + sheet_target" where
  "stored_target p =
     bnd (stored_column_map (pr_column_map_json p)) (\<lambda>columns.
       make_target \<lparr>st_spreadsheet_id = pr_spreadsheet_id p, st_sheet_name = pr_sheet_name p,
                    st_row_selector = pr_row_selector p, st_column_map = columns\<rparr>)"

record current_plan =
  cp_artifact :: export_artifact
  cp_target :: sheet_target
  cp_cells :: "(pystr \<times> pystr) list"
  cp_fingerprint :: pystr

definition check_plan :: "(bytes \<Rightarrow> pystr) \<Rightarrow> loaded \<Rightarrow> pystr \<Rightarrow> plan_row \<Rightarrow> exn + current_plan" where
  "check_plan sha256 loaded job_id p =
     bnd (stored_target p) (\<lambda>t.
     bnd (destination_reference t) (\<lambda>_.
     bnd (load_artifact loaded) (\<lambda>a.
     bnd (require (ea_artifact_hash a = pr_artifact_hash p) DataIntegrityError) (\<lambda>_.
     bnd (require (\<not> missing_source t a) DataIntegrityError) (\<lambda>_.
     let cells = cells_of t a in
     bnd (require (list_all (\<lambda>(column, v). \<not> formula_like v) cells) DataIntegrityError) (\<lambda>_.
     bnd (canonical_json (payload_value cells)) (\<lambda>payload.
     bnd (require (payload = pr_payload_json p) DataIntegrityError) (\<lambda>_.
     bnd (canonical_json (plan_value job_id (ea_artifact_hash a) t)) (\<lambda>v.
     bnd (require (pr_plan_fingerprint p = sha256 v) DataIntegrityError) (\<lambda>_.
       Inr \<lparr>cp_artifact = a, cp_target = t, cp_cells = cells, cp_fingerprint = sha256 v\<rparr>))))))))))"

definition latest_plan :: "pystr \<Rightarrow> pystr \<Rightarrow> sheets \<Rightarrow> plan_row option" where
  "latest_plan company_id job_id s =
     find (\<lambda>p. pr_company_id p = company_id \<and> pr_job_id p = job_id) (rev (sh_plans s))"

definition validated_current_plan ::
  "(bytes \<Rightarrow> pystr) \<Rightarrow> loaded \<Rightarrow> pystr \<Rightarrow> job \<Rightarrow> sheets \<Rightarrow> exn + current_plan" where
  "validated_current_plan sha256 loaded company_id job s =
     (case latest_plan company_id (j_job_id job) s of
        None \<Rightarrow> Inl ApprovalInvalid
      | Some p \<Rightarrow>
          (case check_plan sha256 loaded (j_job_id job) p of
             Inl e \<Rightarrow> Inl (if type_or_value_error e then DataIntegrityError else e)
           | Inr c \<Rightarrow> Inr c))"

definition exportable :: "job \<Rightarrow> bool" where
  "exportable job = (j_state job = state_value SUCCEEDED \<and> j_artifact_manifest_path job \<noteq> None)"

section \<open>Preparing\<close>

definition claim_of :: "pystr \<Rightarrow> pystr \<Rightarrow> sheets \<Rightarrow> claim_row option" where
  "claim_of company_id job_id s =
     find (\<lambda>r. cr_company_id r = company_id \<and> cr_job_id r = job_id) (sh_claims s)"

definition prepare_body ::
  "(bytes \<Rightarrow> pystr) \<Rightarrow> pystr \<Rightarrow> pystr \<Rightarrow> sheet_target \<Rightarrow> loaded \<Rightarrow> instant option \<Rightarrow> loaded \<Rightarrow> sheets
   \<Rightarrow> exn + ((pystr \<times> pystr) \<times> sheets)" where
  "prepare_body sha256 company_id job_id t loaded clock reloaded s =
     bnd (get_job (sh_db s) company_id job_id) (\<lambda>job.
     bnd (require (exportable job) StateConflict) (\<lambda>_.
     bnd (load_artifact loaded) (\<lambda>a.
     bnd (require (\<not> missing_source t a) ValueError) (\<lambda>_.
     bnd (canonical_json (plan_value (j_job_id job) (ea_artifact_hash a) t)) (\<lambda>v.
     let fingerprint = sha256 v; cells = cells_of t a in
     bnd (require (case claim_of company_id (j_job_id job) s of
                     None \<Rightarrow> True | Some r \<Rightarrow> cr_plan_fingerprint r = fingerprint) StateConflict) (\<lambda>_.
     bnd (require (list_all (\<lambda>(column, v). \<not> formula_like v) cells) ValueError) (\<lambda>_.
     bnd (aware_clock ValueError clock) (\<lambda>prepared_at.
     bnd (canonical_json (string_items (st_column_map t))) (\<lambda>columns.
     bnd (canonical_json (payload_value cells)) (\<lambda>payload.
     bnd (insert_plan
            \<lparr>pr_company_id = company_id, pr_job_id = j_job_id job, pr_artifact_hash = ea_artifact_hash a,
             pr_spreadsheet_id = st_spreadsheet_id t, pr_sheet_name = st_sheet_name t,
             pr_row_selector = st_row_selector t, pr_column_map_json = columns,
             pr_payload_json = payload, pr_plan_fingerprint = fingerprint,
             pr_prepared_at = isoformat prepared_at\<rparr> s) (\<lambda>s1.
     bnd (validated_current_plan sha256 reloaded company_id job s1) (\<lambda>cp.
     bnd (require (same_target (cp_target cp) t \<and> same_items (cp_cells cp) cells
                   \<and> cp_fingerprint cp = fingerprint) StateConflict) (\<lambda>_.
       Inr ((ea_artifact_hash a, fingerprint), s1))))))))))))))"

definition prepare_export ::
  "(bytes \<Rightarrow> pystr) \<Rightarrow> pystr \<Rightarrow> pystr \<Rightarrow> sheet_target \<Rightarrow> loaded \<Rightarrow> instant option \<Rightarrow> loaded \<Rightarrow> sheets
   \<Rightarrow> (exn + export_plan) \<times> sheets" where
  "prepare_export sha256 company_id job_id t loaded clock reloaded s =
     (case bnd (non_empty_text 256 job_id) (\<lambda>_. bnd (make_target t) destination_reference) of
        Inl e \<Rightarrow> (Inl e, s)
      | Inr _ \<Rightarrow>
          (case sheet_transaction (prepare_body sha256 company_id job_id t loaded clock reloaded) s of
             (Inl e, s') \<Rightarrow> (Inl e, s')
           | (Inr (artifact_hash, fingerprint), s') \<Rightarrow>
               (make_export_plan \<lparr>xp_job_id = job_id, xp_artifact_hash = artifact_hash, xp_target = t,
                                  xp_plan_fingerprint = fingerprint\<rparr>, s')))"

section \<open>Approving\<close>

text \<open>\<open>ORDER BY approved_at, approval_record_id LIMIT 1\<close>.\<close>

definition first_export_approval :: "pystr \<Rightarrow> pystr \<Rightarrow> db \<Rightarrow> approval option" where
  "first_export_approval job_id fingerprint d =
     (case sort_key a_approved_at (sort_key a_approval_record_id
             (filter (\<lambda>a. a_job_id a = job_id \<and> a_approval_type a = ''sheet_export''
                          \<and> a_plan_fingerprint a = fingerprint) (approvals d))) of
        [] \<Rightarrow> None | a # _ \<Rightarrow> Some a)"

text \<open>The approval the plan already has, or a new one.\<close>

definition grant_export ::
  "pystr \<Rightarrow> job \<Rightarrow> pystr \<Rightarrow> pystr \<Rightarrow> pystr \<Rightarrow> instant option \<Rightarrow> pystr \<Rightarrow> db \<Rightarrow> exn + (approval_record \<times> db)" where
  "grant_export company_id job job_id fingerprint actor_id clock new_id d =
     (case first_export_approval job_id fingerprint d of
        Some a \<Rightarrow> bnd (get_approval d company_id job_id (a_approval_record_id a)) (\<lambda>ap. Inr (ap, d))
      | None \<Rightarrow>
          (case clock of
             None \<Rightarrow> Inl ValueError
           | Some now \<Rightarrow>
               bnd (make_approval_record
                      \<lparr>approval_record_id = new_id, approval_job_id = job_id,
                       approval_type = ''sheet_export'', approval_snapshot_hash = j_snapshot_hash job,
                       approval_plan_fingerprint = fingerprint, approved_by = actor_id,
                       approved_at = now, expires_at = None\<rparr>) (\<lambda>ap.
               bnd (in_range now) (\<lambda>_.
               bnd (add_approval company_id ap d) (\<lambda>(_, d'). Inr (ap, d'))))))"

definition approve_export_body ::
  "(bytes \<Rightarrow> pystr) \<Rightarrow> pystr \<Rightarrow> pystr \<Rightarrow> pystr \<Rightarrow> pystr \<Rightarrow> loaded \<Rightarrow> instant option \<Rightarrow> pystr \<Rightarrow> sheets
   \<Rightarrow> exn + (approval_record \<times> sheets)" where
  "approve_export_body sha256 company_id job_id fingerprint actor_id loaded clock new_id s =
     bnd (get_job (sh_db s) company_id job_id) (\<lambda>job.
     bnd (require (exportable job) ApprovalInvalid) (\<lambda>_.
     bnd (validated_current_plan sha256 loaded company_id job s) (\<lambda>cp.
     bnd (require (cp_fingerprint cp = fingerprint) ApprovalInvalid) (\<lambda>_.
     bnd (grant_export company_id job job_id fingerprint actor_id clock new_id (sh_db s)) (\<lambda>(ap, d).
       Inr (ap, s\<lparr>sh_db := d\<rparr>))))))"

definition approve_export ::
  "(bytes \<Rightarrow> pystr) \<Rightarrow> pystr \<Rightarrow> pystr \<Rightarrow> pystr \<Rightarrow> pystr \<Rightarrow> loaded \<Rightarrow> instant option \<Rightarrow> pystr \<Rightarrow> sheets
   \<Rightarrow> (exn + approval_record) \<times> sheets" where
  "approve_export sha256 company_id job_id fingerprint actor_id loaded clock new_id s =
     (case bnd (non_empty_text 256 job_id) (\<lambda>_. bnd (sha256_text fingerprint) (\<lambda>_.
             case non_empty_text 256 actor_id of Inl e \<Rightarrow> Inl ApprovalInvalid | Inr u \<Rightarrow> Inr u)) of
        Inl e \<Rightarrow> (Inl e, s)
      | Inr _ \<Rightarrow> sheet_transaction
                   (approve_export_body sha256 company_id job_id fingerprint actor_id loaded clock new_id) s)"

section \<open>Claiming a write\<close>

definition export_request :: "(bytes \<Rightarrow> pystr) \<Rightarrow> pystr \<Rightarrow> current_plan \<Rightarrow> exn + write_request" where
  "export_request sha256 job_id cp =
     bnd (canonical_json (export_key_value job_id (ea_artifact_hash (cp_artifact cp)))) (\<lambda>v.
     bnd (destination_reference (cp_target cp)) (\<lambda>reference.
       Inr \<lparr>wq_job_id = job_id, wq_export_key = sha256 v,
            wq_spreadsheet_id = st_spreadsheet_id (cp_target cp),
            wq_sheet_name = st_sheet_name (cp_target cp),
            wq_row_selector = st_row_selector (cp_target cp),
            wq_destination_reference = reference, wq_cells = cp_cells cp\<rparr>))"

text \<open>What \<open>lookup\<close> answers: \<open>Inr None\<close> for no row.\<close>

type_synonym looked_up = "exn + raw_receipt option"

definition receipt_for :: "pystr \<Rightarrow> pystr \<Rightarrow> sheets \<Rightarrow> receipt_row option" where
  "receipt_for company_id approval_id s =
     find (\<lambda>r. er_company_id r = company_id \<and> er_approval_record_id r = approval_id) (sh_receipts s)"

definition persisted_at :: "receipt_row \<Rightarrow> exn + instant" where
  "persisted_at r =
     (case parse_aware (er_exported_at r) of None \<Rightarrow> Inl DataIntegrityError | Some t \<Rightarrow> Inr t)"

definition receipt_of_request :: "write_request \<Rightarrow> pystr \<Rightarrow> instant \<Rightarrow> export_receipt" where
  "receipt_of_request q reference t =
     \<lparr>xr_job_id = wq_job_id q, xr_export_key = wq_export_key q,
      xr_destination_reference = reference, xr_exported_at = t\<rparr>"

text \<open>A stored receipt is returned only if the backend still shows the same row.\<close>

definition confirm_receipt :: "write_request \<Rightarrow> looked_up \<Rightarrow> receipt_row \<Rightarrow> exn + export_receipt" where
  "confirm_receipt q looked r =
     bnd (require (er_job_id r = wq_job_id q \<and> er_export_key r = wq_export_key q) DataIntegrityError) (\<lambda>_.
     bnd (persisted_at r) (\<lambda>t.
     bnd looked (\<lambda>answer.
     (case answer of
        None \<Rightarrow> Inl DataIntegrityError
      | Some raw \<Rightarrow>
          bnd (validate_backend_receipt q raw) (\<lambda>t'.
          bnd (require (er_destination_reference r = wq_destination_reference q \<and> t = t')
                 DataIntegrityError) (\<lambda>_.
            Inr (receipt_of_request q (er_destination_reference r) t)))))))"

record claimed_write =
  cw_request :: write_request
  cw_attempt_id :: pystr
  cw_write_allowed :: bool

definition approved_export :: "job \<Rightarrow> approval_record \<Rightarrow> bool" where
  "approved_export job ap =
     (approval_type ap = ''sheet_export'' \<and> approval_snapshot_hash ap = j_snapshot_hash job \<and> exportable job)"

definition attempt_of :: "pystr \<Rightarrow> pystr \<Rightarrow> sheets \<Rightarrow> attempt_row option" where
  "attempt_of company_id job_id s =
     find (\<lambda>r. tr_company_id r = company_id \<and> tr_job_id r = job_id) (sh_attempts s)"

text \<open>The claim and the attempt: the caller whose INSERT took effect may write.\<close>

definition open_attempt ::
  "pystr \<Rightarrow> approval_record \<Rightarrow> write_request \<Rightarrow> instant option \<Rightarrow> pystr \<Rightarrow> sheets
   \<Rightarrow> exn + (claimed_write \<times> sheets)" where
  "open_attempt company_id ap q clock new_id s =
     (let k = approval_job_id ap; aid = approval_record_id ap in
      bnd (aware_clock DataIntegrityError clock) (\<lambda>claimed_at.
      bnd (insert_claim
             \<lparr>cr_company_id = company_id, cr_job_id = k, cr_approval_record_id = aid,
              cr_plan_fingerprint = approval_plan_fingerprint ap, cr_claimed_at = isoformat claimed_at\<rparr> s) (\<lambda>s1.
      bnd (require (case claim_of company_id k s1 of
                      None \<Rightarrow> False
                    | Some r \<Rightarrow> cr_approval_record_id r = aid
                               \<and> cr_plan_fingerprint r = approval_plan_fingerprint ap) ApprovalInvalid) (\<lambda>_.
      bnd (insert_attempt
             \<lparr>tr_company_id = company_id, tr_job_id = k, tr_approval_record_id = aid,
              tr_attempt_id = new_id, tr_started_at = isoformat claimed_at\<rparr> s1) (\<lambda>(inserted, s2).
        if inserted then Inr (\<lparr>cw_request = q, cw_attempt_id = new_id, cw_write_allowed = True\<rparr>, s2) else
        (case attempt_of company_id k s2 of
           None \<Rightarrow> Inl DataIntegrityError
         | Some r \<Rightarrow>
             bnd (require (tr_approval_record_id r = aid) ApprovalInvalid) (\<lambda>_.
               Inr (\<lparr>cw_request = q, cw_attempt_id = tr_attempt_id r, cw_write_allowed = False\<rparr>, s2))))))))"

definition claim_body ::
  "(bytes \<Rightarrow> pystr) \<Rightarrow> pystr \<Rightarrow> pystr \<Rightarrow> loaded \<Rightarrow> (write_request \<Rightarrow> looked_up) \<Rightarrow> instant option \<Rightarrow> pystr
   \<Rightarrow> sheets \<Rightarrow> exn + ((export_receipt + claimed_write) \<times> sheets)" where
  "claim_body sha256 company_id approval_id loaded lookup clock new_id s =
     (case find (\<lambda>a. a_approval_record_id a = approval_id
                     \<and> list_ex (\<lambda>j. j_job_id j = a_job_id a \<and> j_company_id j = company_id) (jobs (sh_db s)))
             (approvals (sh_db s)) of
        None \<Rightarrow> Inl NotFound
      | Some row \<Rightarrow>
          bnd (get_approval (sh_db s) company_id (a_job_id row) approval_id) (\<lambda>ap.
          bnd (get_job (sh_db s) company_id (approval_job_id ap)) (\<lambda>job.
          bnd (require (approved_export job ap) ApprovalInvalid) (\<lambda>_.
          bnd (validated_current_plan sha256 loaded company_id job s) (\<lambda>cp.
          bnd (require (cp_fingerprint cp = approval_plan_fingerprint ap) ApprovalInvalid) (\<lambda>_.
          bnd (export_request sha256 (approval_job_id ap) cp) (\<lambda>q.
          (case receipt_for company_id approval_id s of
             Some r \<Rightarrow> bnd (confirm_receipt q (lookup q) r) (\<lambda>r. Inr (Inl r, s))
           | None \<Rightarrow> bnd (open_attempt company_id ap q clock new_id s) (\<lambda>(w, s'). Inr (Inr w, s'))))))))))"

definition claim_export ::
  "(bytes \<Rightarrow> pystr) \<Rightarrow> pystr \<Rightarrow> pystr \<Rightarrow> loaded \<Rightarrow> (write_request \<Rightarrow> looked_up) \<Rightarrow> instant option \<Rightarrow> pystr
   \<Rightarrow> sheets \<Rightarrow> (exn + (export_receipt + claimed_write)) \<times> sheets" where
  "claim_export sha256 company_id approval_id loaded lookup clock new_id s =
     (case non_empty_text 256 approval_id of
        Inl e \<Rightarrow> (Inl e, s)
      | Inr _ \<Rightarrow> sheet_transaction (claim_body sha256 company_id approval_id loaded lookup clock new_id) s)"

section \<open>Closing an attempt\<close>

definition same_receipt :: "write_request \<Rightarrow> instant \<Rightarrow> receipt_row \<Rightarrow> exn + export_receipt" where
  "same_receipt q t r =
     bnd (require (er_job_id r = wq_job_id q \<and> er_export_key r = wq_export_key q
                   \<and> er_destination_reference r = wq_destination_reference q) DataIntegrityError) (\<lambda>_.
     bnd (persisted_at r) (\<lambda>t'.
     bnd (require (t' = t) DataIntegrityError) (\<lambda>_.
       Inr (receipt_of_request q (wq_destination_reference q) t'))))"

definition persist_body ::
  "pystr \<Rightarrow> pystr \<Rightarrow> claimed_write \<Rightarrow> instant \<Rightarrow> sheets \<Rightarrow> exn + (export_receipt \<times> sheets)" where
  "persist_body company_id approval_id w t s =
     (let q = cw_request w; k = wq_job_id q in
      bnd (require (map_option cr_approval_record_id (claim_of company_id k s) = Some approval_id)
             ApprovalInvalid) (\<lambda>_.
      (case receipt_for company_id approval_id s of
         Some r \<Rightarrow> bnd (same_receipt q t r) (\<lambda>x. Inr (x, s))
       | None \<Rightarrow>
           bnd (require (map_option (\<lambda>r. (tr_approval_record_id r, tr_attempt_id r)) (attempt_of company_id k s)
                         = Some (approval_id, cw_attempt_id w)) DataIntegrityError) (\<lambda>_.
           bnd (insert_export_receipt
                  \<lparr>er_company_id = company_id, er_job_id = k, er_approval_record_id = approval_id,
                   er_export_key = wq_export_key q,
                   er_destination_reference = wq_destination_reference q,
                   er_exported_at = isoformat t\<rparr> s) (\<lambda>s1.
           (case receipt_for company_id approval_id s1 of
              None \<Rightarrow> Inl DataIntegrityError
            | Some r \<Rightarrow>
                bnd (same_receipt q t r) (\<lambda>x.
                bnd (delete_attempt company_id k (cw_attempt_id w) s1) (\<lambda>s2. Inr (x, s2)))))))))"

definition release_body :: "pystr \<Rightarrow> claimed_write \<Rightarrow> sheets \<Rightarrow> exn + (unit \<times> sheets)" where
  "release_body company_id w s =
     bnd (delete_attempt company_id (wq_job_id (cw_request w)) (cw_attempt_id w) s) (\<lambda>s'. Inr ((), s'))"

end
