(* ===== verification/ExportSteps.thy ===== *)
theory ExportSteps
  imports ExportService
begin

text \<open>
  Concurrent calls of \<open>ExportService.execute_export\<close> against one sheet backend, with the other users of the
  database around them.  A call is a program counter with its local variables; a step is one transaction or
  one exchange with the backend.  A process may die between any two steps.
\<close>

section \<open>Backends\<close>

text \<open>
  A \<open>SheetExportBackend\<close> with its own state; the choices of its environment are an argument of type \<open>'e\<close>.
  A write that raises may still have changed the sheet.
\<close>

record ('b, 'e) backend =
  bk_write :: "'e \<Rightarrow> write_request \<Rightarrow> 'b \<Rightarrow> (exn + raw_receipt) \<times> 'b"
  bk_lookup :: "'e \<Rightarrow> write_request \<Rightarrow> 'b \<Rightarrow> looked_up"

text \<open>\<open>MockSheetExportBackend\<close>: its environment is the clock.\<close>

type_synonym mock_rows = "(pystr \<times> write_request \<times> write_receipt) list"

definition same_request :: "write_request \<Rightarrow> write_request \<Rightarrow> bool" where
  "same_request q r =
     (q\<lparr>wq_cells := []\<rparr> = r\<lparr>wq_cells := []\<rparr> \<and> same_items (wq_cells q) (wq_cells r))"

definition mock_write :: "instant option \<Rightarrow> write_request \<Rightarrow> mock_rows \<Rightarrow> (exn + raw_receipt) \<times> mock_rows" where
  "mock_write clock q held =
     (case map_of held (wq_export_key q) of
        Some (q', r) \<Rightarrow> (if same_request q' q then Inr (Some r) else Inl StateConflict, held)
      | None \<Rightarrow>
          (case aware_clock ValueError clock of
             Inl e \<Rightarrow> (Inl e, held)
           | Inr t \<Rightarrow>
               let r = \<lparr>wr_export_key = wq_export_key q, wr_spreadsheet_id = wq_spreadsheet_id q,
                        wr_sheet_name = wq_sheet_name q, wr_row_selector = wq_row_selector q,
                        wr_destination_reference = wq_destination_reference q, wr_exported_at = Some t\<rparr>
               in (Inr (Some r), held @ [(wq_export_key q, q, r)])))"

definition mock_lookup :: "instant option \<Rightarrow> write_request \<Rightarrow> mock_rows \<Rightarrow> looked_up" where
  "mock_lookup clock q held =
     (case map_of held (wq_export_key q) of
        None \<Rightarrow> Inr None
      | Some (q', r) \<Rightarrow> if same_request q' q then Inr (Some (Some r)) else Inl StateConflict)"

definition mock_backend :: "(mock_rows, instant option) backend" where
  "mock_backend = \<lparr>bk_write = mock_write, bk_lookup = mock_lookup\<rparr>"

section \<open>Calls\<close>

datatype export_pc =
    Export_called
  | Cleared claimed_write
  | Writing claimed_write
  | Recovering_write claimed_write exn
  | Releasing claimed_write exn
  | Looking claimed_write
  | Storing claimed_write instant
  | Ended "exn + export_receipt"
  | Dead

text \<open>What a call does, under its number, the company and the job.\<close>

datatype export_action =
    Attempt_opened | Write_started write_request | Write_raised | Write_answered raw_receipt | Row_missing | Attempt_released
  | Row_found raw_receipt | Receipt_stored export_receipt

record 'e export_env =
  xe_loaded :: loaded
  xe_clock :: "instant option"
  xe_uuid :: pystr
  xe_backend :: 'e

definition attempt_id_of :: "pystr \<Rightarrow> pystr" where
  "attempt_id_of hex = ''export-attempt-'' @ hex"

definition job_of_write :: "claimed_write \<Rightarrow> pystr" where
  "job_of_write w = wq_job_id (cw_request w)"

definition begin_export ::
  "(bytes \<Rightarrow> pystr) \<Rightarrow> (write_request \<Rightarrow> looked_up) \<Rightarrow> 'e export_env \<Rightarrow> pystr \<Rightarrow> pystr \<Rightarrow> sheets
   \<Rightarrow> sheets \<times> (pystr \<times> export_action) list \<times> export_pc" where
  "begin_export sha256 lookup n company_id approval_id s =
     (case claim_export sha256 company_id approval_id (xe_loaded n) lookup (xe_clock n)
             (attempt_id_of (xe_uuid n)) s of
        (Inl e, s') \<Rightarrow> (s', [], Ended (Inl e))
      | (Inr (Inl r), s') \<Rightarrow> (s', [], Ended (Inr r))
      | (Inr (Inr w), s') \<Rightarrow>
          if cw_write_allowed w then (s', [(job_of_write w, Attempt_opened)], Cleared w) else (s', [], Looking w))"

definition settle_write :: "claimed_write \<Rightarrow> raw_receipt \<Rightarrow> export_pc" where
  "settle_write w raw =
     (case validate_backend_receipt (cw_request w) raw of Inl e \<Rightarrow> Ended (Inl e) | Inr t \<Rightarrow> Storing w t)"

definition write_sheet ::
  "((exn + raw_receipt) \<times> 'b) \<Rightarrow> claimed_write \<Rightarrow> 'b \<times> (pystr \<times> export_action) list \<times> export_pc" where
  "write_sheet outcome w =
     (case outcome of
        (Inl e, b) \<Rightarrow> (b, [(job_of_write w, Write_raised)], Recovering_write w e)
      | (Inr raw, b) \<Rightarrow> (b, [(job_of_write w, Write_answered raw)], settle_write w raw))"

definition recover_write :: "looked_up \<Rightarrow> claimed_write \<Rightarrow> exn \<Rightarrow> (pystr \<times> export_action) list \<times> export_pc" where
  "recover_write looked w e =
     (case looked of
        Inl e' \<Rightarrow> ([], Ended (Inl e'))
      | Inr None \<Rightarrow> ([(job_of_write w, Row_missing)], Releasing w e)
      | Inr (Some raw) \<Rightarrow> ([(job_of_write w, Row_found raw)], settle_write w raw))"

definition release_write ::
  "pystr \<Rightarrow> claimed_write \<Rightarrow> exn \<Rightarrow> sheets \<Rightarrow> sheets \<times> (pystr \<times> export_action) list \<times> export_pc" where
  "release_write company_id w e s =
     (case sheet_transaction (release_body company_id w) s of
        (Inl e', s') \<Rightarrow> (s', [], Ended (Inl e'))
      | (Inr _, s') \<Rightarrow> (s', [(job_of_write w, Attempt_released)], Ended (Inl e)))"

definition look_up_write :: "looked_up \<Rightarrow> claimed_write \<Rightarrow> (pystr \<times> export_action) list \<times> export_pc" where
  "look_up_write looked w =
     (case looked of
        Inl e \<Rightarrow> ([], Ended (Inl e))
      | Inr None \<Rightarrow> ([], Ended (Inl StateConflict))
      | Inr (Some raw) \<Rightarrow> ([(job_of_write w, Row_found raw)], settle_write w raw))"

definition store_receipt ::
  "pystr \<Rightarrow> pystr \<Rightarrow> claimed_write \<Rightarrow> instant \<Rightarrow> sheets \<Rightarrow> sheets \<times> (pystr \<times> export_action) list \<times> export_pc" where
  "store_receipt company_id approval_id w t s =
     (case sheet_transaction (persist_body company_id approval_id w t) s of
        (Inl e, s') \<Rightarrow> (s', [], Ended (Inl e))
      | (Inr r, s') \<Rightarrow> (s', [(job_of_write w, Receipt_stored r)], Ended (Inr r)))"

text \<open>One step of \<open>execute_export\<close>; \<open>None\<close> when the call is over.\<close>

fun export_step ::
  "(bytes \<Rightarrow> pystr) \<Rightarrow> ('b, 'e) backend \<Rightarrow> 'e export_env \<Rightarrow> pystr \<Rightarrow> pystr \<Rightarrow> export_pc \<Rightarrow> sheets \<Rightarrow> 'b
   \<Rightarrow> (sheets \<times> 'b \<times> (pystr \<times> export_action) list \<times> export_pc) option" where
  "export_step sha256 bk n c aid Export_called s b =
     (case begin_export sha256 (\<lambda>q. bk_lookup bk (xe_backend n) q b) n c aid s of (s', acts, p) \<Rightarrow>
        Some (s', b, acts, p))"
| "export_step sha256 bk n c aid (Cleared w) s b = Some (s, b, [(job_of_write w, Write_started (cw_request w))], Writing w)"
| "export_step sha256 bk n c aid (Writing w) s b =
     (case write_sheet (bk_write bk (xe_backend n) (cw_request w) b) w of (b', acts, p) \<Rightarrow>
        Some (s, b', acts, p))"
| "export_step sha256 bk n c aid (Recovering_write w e) s b =
     (case recover_write (bk_lookup bk (xe_backend n) (cw_request w) b) w e of (acts, p) \<Rightarrow>
        Some (s, b, acts, p))"
| "export_step sha256 bk n c aid (Releasing w e) s b =
     (case release_write c w e s of (s', acts, p) \<Rightarrow> Some (s', b, acts, p))"
| "export_step sha256 bk n c aid (Looking w) s b =
     (case look_up_write (bk_lookup bk (xe_backend n) (cw_request w) b) w of (acts, p) \<Rightarrow>
        Some (s, b, acts, p))"
| "export_step sha256 bk n c aid (Storing w t) s b =
     (case store_receipt c aid w t s of (s', acts, p) \<Rightarrow> Some (s', b, acts, p))"
| "export_step sha256 bk n c aid (Ended r) s b = None"
| "export_step sha256 bk n c aid Dead s b = None"

section \<open>Worlds\<close>

record export_call =
  ca_company :: pystr
  ca_approval :: pystr
  ca_pc :: export_pc

record export_event =
  xv_call :: nat
  xv_company :: pystr
  xv_job :: pystr
  xv_action :: export_action

record 'b export_world =
  ew_sheets :: sheets
  ew_backend :: 'b
  ew_calls :: "export_call list"
  ew_log :: "export_event list"

definition logged_actions :: "nat \<Rightarrow> pystr \<Rightarrow> (pystr \<times> export_action) list \<Rightarrow> export_event list" where
  "logged_actions i c acts = map (\<lambda>(k, a). \<lparr>xv_call = i, xv_company = c, xv_job = k, xv_action = a\<rparr>) acts"

text \<open>What can happen next: a call moves or its process dies, a new call arrives, or another process commits.\<close>

datatype 'e export_input =
    Call_step nat "'e export_env"
  | Call_dies nat
  | Call_arrives pystr pystr
  | Prepare_export pystr pystr sheet_target loaded "instant option" loaded
  | Approve_export pystr pystr pystr pystr loaded "instant option" pystr
  | Other_request request

fun export_react ::
  "externals \<Rightarrow> ('b, 'e) backend \<Rightarrow> 'e export_input \<Rightarrow> 'b export_world \<Rightarrow> 'b export_world" where
  "export_react x bk (Call_step i n) w =
     (if length (ew_calls w) \<le> i then w else
      let ca = ew_calls w ! i in
      case export_step (ext_sha256 x) bk n (ca_company ca) (ca_approval ca) (ca_pc ca) (ew_sheets w) (ew_backend w) of
        None \<Rightarrow> w
      | Some (s, b, acts, p) \<Rightarrow>
          \<lparr>ew_sheets = s, ew_backend = b, ew_calls = (ew_calls w)[i := ca\<lparr>ca_pc := p\<rparr>],
           ew_log = ew_log w @ logged_actions i (ca_company ca) acts\<rparr>)"
| "export_react x bk (Call_dies i) w =
     (if length (ew_calls w) \<le> i then w
      else w\<lparr>ew_calls := (ew_calls w)[i := (ew_calls w ! i)\<lparr>ca_pc := Dead\<rparr>]\<rparr>)"
| "export_react x bk (Call_arrives c aid) w =
     w\<lparr>ew_calls := ew_calls w @ [\<lparr>ca_company = c, ca_approval = aid, ca_pc = Export_called\<rparr>]\<rparr>"
| "export_react x bk (Prepare_export c k t l clock l') w =
     w\<lparr>ew_sheets := snd (prepare_export (ext_sha256 x) c k t l clock l' (ew_sheets w))\<rparr>"
| "export_react x bk (Approve_export c k fp actor l clock new_id) w =
     w\<lparr>ew_sheets := snd (approve_export (ext_sha256 x) c k fp actor l clock new_id (ew_sheets w))\<rparr>"
| "export_react x bk (Other_request rq) w =
     w\<lparr>ew_sheets := (ew_sheets w)\<lparr>sh_db := serve x rq (sh_db (ew_sheets w))\<rparr>\<rparr>"

definition empty_sheets :: "db \<Rightarrow> sheets" where
  "empty_sheets d = \<lparr>sh_db = d, sh_plans = [], sh_claims = [], sh_attempts = [], sh_receipts = []\<rparr>"

definition initial_world :: "db \<Rightarrow> 'b \<Rightarrow> 'b export_world" where
  "initial_world d b = \<lparr>ew_sheets = empty_sheets d, ew_backend = b, ew_calls = [], ew_log = []\<rparr>"

inductive exports_reach :: "externals \<Rightarrow> ('b, 'e) backend \<Rightarrow> db \<Rightarrow> 'b \<Rightarrow> 'b export_world \<Rightarrow> bool" for x bk d b where
  exports_initial: "exports_reach x bk d b (initial_world d b)"
| exports_react: "exports_reach x bk d b w \<Longrightarrow> exports_reach x bk d b (export_react x bk inp w)"

end
