(* ===== verification/ExportTables.thy ===== *)
theory ExportTables
  imports ExportSteps
begin

text \<open>
  What the export transactions do to the tables: one claim, attempt and receipt at a time, each under the
  approval the claim names, plans that never change, and one request per claim.
\<close>

section \<open>A stored plan fixes its request\<close>

lemma dict_set_keys: "fst ` set (dict_set k v kvs) = insert k (fst ` set kvs)"
proof (induction kvs)
  case (Cons kv kvs)
  then show ?case by (cases kv) auto
qed simp

lemma dict_set_distinct: "distinct (map fst kvs) \<Longrightarrow> distinct (map fst (dict_set k v kvs))"
proof (induction kvs)
  case (Cons kv kvs)
  then show ?case by (cases kv) (auto simp: dict_set_keys)
qed simp

lemma dict_of_keys_distinct: "distinct (map fst (dict_of pairs))"
proof -
  have "distinct (map fst kvs) \<Longrightarrow> distinct (map fst (foldl (\<lambda>kvs (k, v). dict_set k v kvs) kvs pairs))" for kvs
    by (induction pairs arbitrary: kvs) (auto simp: dict_set_distinct)
  then show ?thesis unfolding dict_of_def by simp
qed

lemma scan_scalar_no_object: "scan_scalar t \<noteq> Some (JObj kvs, r)"
  by (auto simp: scan_scalar_def scan_word_def scan_number_def bind_eq_Some_conv Let_def
      split: if_splits list.splits prod.splits)

lemma scan_object_keys:
  assumes "scan_value n s = Some (JObj kvs, r)"
  shows "distinct (map fst kvs)"
proof (cases "(n, s)")
  case (Pair m t)
  then obtain m c u where ms: "n = Suc m" "s = c # u" using assms by (cases n; cases s) auto
  show ?thesis
  proof (cases "c = CHR ''{''")
    case True
    then have "c \<noteq> quote_char" "c \<noteq> CHR ''[''" by (simp_all add: quote_char_def)
    with assms ms True show ?thesis
      by (cases "skip_ws u")
        (auto simp: bind_eq_Some_conv dict_of_keys_distinct simp del: scan_members.simps split: if_splits)
  next
    case False
    with assms ms show ?thesis
      by (auto simp: bind_eq_Some_conv scan_scalar_no_object simp del: scan_elements.simps
          split: if_splits list.splits)
  qed
qed

lemma json_loads_keys: "json_loads json = Some (JObj kvs) \<Longrightarrow> distinct (map fst kvs)"
  by (auto simp: json_loads_def parse_text_def Let_def bind_eq_Some_conv simp del: scan_value.simps
      split: if_splits dest: scan_object_keys)

lemma texts_of_keys: "texts_of kvs = Inr ts \<Longrightarrow> map fst ts = map fst kvs"
  by (induction kvs arbitrary: ts rule: texts_of.induct) (auto simp: bnd_eq_Inr)

lemma stored_column_map_keys: "stored_column_map json = Inr ts \<Longrightarrow> distinct (map fst ts)"
  by (auto simp: stored_column_map_def bnd_eq_Inr json_loads_keys texts_of_keys
      split: option.splits jval.splits if_splits)

lemma make_target_Inr: "make_target t = Inr u \<Longrightarrow> u = t"
  by (auto simp: make_target_def bnd_eq_Inr)

lemma stored_target_keys: "stored_target p = Inr t \<Longrightarrow> distinct (map fst (st_column_map t))"
  by (auto simp: stored_target_def bnd_eq_Inr stored_column_map_keys dest!: make_target_Inr)

lemma cells_of_keys: "map fst (cells_of t a) = map fst (st_column_map t)"
  by (simp add: cells_of_def comp_def case_prod_unfold)

lemma items_by_key:
  assumes "map fst a = map fst b" "distinct (map fst a)" "set a = set b"
  shows "a = b"
proof -
  have "distinct (map fst b)" using assms(1,2) by simp
  then have "map_of a = map_of b" using assms map_of_inject_set by metis
  moreover have "xs = map (\<lambda>k. (k, the (map_of xs k))) (map fst xs)" if d: "distinct (map fst xs)"
    for xs :: "('a \<times> 'b) list"
  proof -
    have "the (map_of xs (fst x)) = snd x" if "x \<in> set xs" for x
      using that map_of_eq_Some_iff [OF d, of "fst x" "snd x"] by simp
    then show ?thesis by (simp add: map_idI)
  qed
  ultimately show ?thesis using assms(1,2) \<open>distinct (map fst b)\<close> by metis
qed

text \<open>Payloads of cells under the same columns, as bytes, are equal only if the cells are.\<close>

lemma payload_inject:
  assumes "canonical_json (payload_value a) = Inr s" "canonical_json (payload_value b) = Inr s"
    and "map fst a = map fst b" "distinct (map fst a)"
  shows "a = b"
proof -
  have plain: "plain (payload_value c)" if "distinct (map fst c)" for c
    using that by (simp add: payload_value_def string_items_def comp_def case_prod_unfold list_all_iff)
  have items: "canon (payload_value c) = payload_value (sort_key fst c)" for c
    using sort_key_map_snd [of JStr c]
    by (simp add: payload_value_def string_items_def comp_def case_prod_unfold)
  have "distinct (map fst b)" using assms(3,4) by simp
  with assms plain have "canon (payload_value a) = canon (payload_value b)"
    using json_loads_canonical by (metis option.inject)
  then have "map (\<lambda>(k, v). (k, JStr v)) (sort_key fst a) = map (\<lambda>(k, v). (k, JStr v)) (sort_key fst b)"
    unfolding items by (simp add: payload_value_def string_items_def)
  moreover have "inj (\<lambda>(k, v). (k, JStr v))" by (auto simp: inj_on_def)
  ultimately have "sort_key fst a = sort_key fst b" by (metis inj_map_eq_map)
  then have "set a = set b" by (metis set_sort)
  with assms(3,4) show ?thesis by (rule items_by_key)
qed

lemma check_plan_Inr:
  assumes "check_plan sha256 l k p = Inr cp"
  shows "stored_target p = Inr (cp_target cp)" "ea_artifact_hash (cp_artifact cp) = pr_artifact_hash p"
    "cp_cells cp = cells_of (cp_target cp) (cp_artifact cp)"
    "canonical_json (payload_value (cp_cells cp)) = Inr (pr_payload_json p)"
    "list_all (\<lambda>(column, v). \<not> formula_like v) (cp_cells cp)"
    "canonical_json (plan_value k (pr_artifact_hash p) (cp_target cp)) = Inr v \<Longrightarrow> pr_plan_fingerprint p = sha256 v"
    "\<exists>v. canonical_json (plan_value k (pr_artifact_hash p) (cp_target cp)) = Inr v"
    "cp_fingerprint cp = pr_plan_fingerprint p" "load_artifact l = Inr (cp_artifact cp)"
  using assms by (auto simp: check_plan_def bnd_eq_Inr Let_def split: if_splits)

lemma check_plan_same:
  assumes a: "check_plan sha256 l k p = Inr cp" and b: "check_plan sha256 l' k p = Inr cp'"
  shows "cp_target cp' = cp_target cp" "cp_cells cp' = cp_cells cp"
proof -
  show t: "cp_target cp' = cp_target cp"
    using check_plan_Inr(1) [OF a] check_plan_Inr(1) [OF b] by simp
  show "cp_cells cp' = cp_cells cp"
  proof (rule payload_inject)
    show "map fst (cp_cells cp') = map fst (cp_cells cp)" "distinct (map fst (cp_cells cp'))"
      using check_plan_Inr(3) [OF a] check_plan_Inr(3) [OF b] t stored_target_keys [OF check_plan_Inr(1) [OF b]]
      by (simp_all add: cells_of_keys)
  qed (rule check_plan_Inr(4) [OF b], rule check_plan_Inr(4) [OF a])
qed

lemma export_request_same:
  assumes "check_plan sha256 l k p = Inr cp" "check_plan sha256 l' k p = Inr cp'"
  shows "export_request sha256 k cp' = export_request sha256 k cp"
  using check_plan_same [OF assms] check_plan_Inr(2) [OF assms(1)] check_plan_Inr(2) [OF assms(2)]
  by (simp add: export_request_def)

lemma export_request_job: "export_request sha256 k cp = Inr q \<Longrightarrow> wq_job_id q = k"
  by (auto simp: export_request_def bnd_eq_Inr)

section \<open>The tables\<close>

definition plan_of_claim :: "claim_row \<Rightarrow> plan_row \<Rightarrow> bool" where
  "plan_of_claim r p =
     (pr_company_id p = cr_company_id r \<and> pr_job_id p = cr_job_id r \<and> pr_plan_fingerprint p = cr_plan_fingerprint r)"

definition plans_ok :: "sheets \<Rightarrow> bool" where
  "plans_ok s = (\<forall>p \<in> set (sh_plans s). \<forall>p' \<in> set (sh_plans s). same_plan_key p p' \<longrightarrow> p = p')"

definition claims_ok :: "sheets \<Rightarrow> bool" where
  "claims_ok s =
     ((\<forall>r \<in> set (sh_claims s). \<forall>r' \<in> set (sh_claims s).
         cr_company_id r = cr_company_id r' \<and> cr_job_id r = cr_job_id r'
         \<or> cr_approval_record_id r = cr_approval_record_id r' \<longrightarrow> r = r')
      \<and> (\<forall>r \<in> set (sh_claims s). claim_approved r s \<and> (\<exists>p \<in> set (sh_plans s). plan_of_claim r p)))"

definition attempts_ok :: "sheets \<Rightarrow> bool" where
  "attempts_ok s =
     (distinct (sh_attempts s) \<and> (\<forall>t \<in> set (sh_attempts s). claimed_for (tr_company_id t) (tr_job_id t) (tr_approval_record_id t) s)
      \<and> (\<forall>t \<in> set (sh_attempts s). \<forall>t' \<in> set (sh_attempts s).
           tr_company_id t = tr_company_id t' \<and> tr_job_id t = tr_job_id t' \<longrightarrow> t = t'))"

definition receipts_ok :: "sheets \<Rightarrow> bool" where
  "receipts_ok s =
     (\<forall>r \<in> set (sh_receipts s).
        claimed_for (er_company_id r) (er_job_id r) (er_approval_record_id r) s \<and> receipt_checks r
        \<and> (\<forall>r' \<in> set (sh_receipts s). er_approval_record_id r = er_approval_record_id r' \<longrightarrow> r = r'))"

definition sheets_ok :: "sheets \<Rightarrow> bool" where
  "sheets_ok s = (plans_ok s \<and> claims_ok s \<and> attempts_ok s \<and> receipts_ok s)"

text \<open>What no export transaction and no other process undoes.\<close>

definition tables_grow :: "sheets \<Rightarrow> sheets \<Rightarrow> bool" where
  "tables_grow s s' =
     (set (sh_plans s) \<subseteq> set (sh_plans s') \<and> set (sh_claims s) \<subseteq> set (sh_claims s')
      \<and> set (sh_receipts s) \<subseteq> set (sh_receipts s') \<and> set (approvals (sh_db s)) \<subseteq> set (approvals (sh_db s')))"

text \<open>A job with an open attempt or a receipt: no further attempt can be opened.\<close>

definition receipted :: "pystr \<Rightarrow> pystr \<Rightarrow> sheets \<Rightarrow> bool" where
  "receipted c k s = (\<exists>r \<in> set (sh_receipts s). er_company_id r = c \<and> er_job_id r = k)"

definition attempted :: "pystr \<Rightarrow> pystr \<Rightarrow> sheets \<Rightarrow> bool" where
  "attempted c k s = (\<exists>t \<in> set (sh_attempts s). tr_company_id t = c \<and> tr_job_id t = k)"

definition occupied :: "pystr \<Rightarrow> pystr \<Rightarrow> sheets \<Rightarrow> bool" where
  "occupied c k s = (attempted c k s \<or> receipted c k s)"

text \<open>The request a claim stands for.\<close>

definition approved_request :: "(bytes \<Rightarrow> pystr) \<Rightarrow> pystr \<Rightarrow> pystr \<Rightarrow> write_request \<Rightarrow> sheets \<Rightarrow> bool" where
  "approved_request sha256 c aid q s =
     (\<exists>r \<in> set (sh_claims s). \<exists>p \<in> set (sh_plans s). \<exists>l cp.
        cr_company_id r = c \<and> cr_job_id r = wq_job_id q \<and> cr_approval_record_id r = aid \<and> plan_of_claim r p
        \<and> check_plan sha256 l (wq_job_id q) p = Inr cp \<and> export_request sha256 (wq_job_id q) cp = Inr q)"

lemma grows_refl [simp]: "tables_grow s s"
  by (simp add: tables_grow_def)

lemma grows_trans: "tables_grow a b \<Longrightarrow> tables_grow b c \<Longrightarrow> tables_grow a c"
  by (auto simp: tables_grow_def)

lemma grows_claimed: "tables_grow s s' \<Longrightarrow> claimed_for c k aid s \<Longrightarrow> claimed_for c k aid s'"
  by (auto simp: tables_grow_def claimed_for_def list_ex_iff)

lemma grows_approved: "tables_grow s s' \<Longrightarrow> claim_approved r s \<Longrightarrow> claim_approved r s'"
  by (auto simp: tables_grow_def claim_approved_def list_ex_iff)

lemma grows_receipted: "tables_grow s s' \<Longrightarrow> receipted c k s \<Longrightarrow> receipted c k s'"
  by (auto simp: tables_grow_def receipted_def)

lemma grows_request: "tables_grow s s' \<Longrightarrow> approved_request sha256 c aid q s \<Longrightarrow> approved_request sha256 c aid q s'"
  unfolding approved_request_def tables_grow_def by blast

lemma approved_request_same:
  assumes ok: "sheets_ok s" and a: "approved_request sha256 c aid q s" "approved_request sha256 c aid' q' s"
    and job: "wq_job_id q' = wq_job_id q"
  shows "q' = q" "aid' = aid"
proof -
  from a(1) obtain r p l cp where r: "r \<in> set (sh_claims s)" "p \<in> set (sh_plans s)" "cr_company_id r = c"
    "cr_job_id r = wq_job_id q" "cr_approval_record_id r = aid" "plan_of_claim r p"
    "check_plan sha256 l (wq_job_id q) p = Inr cp" "export_request sha256 (wq_job_id q) cp = Inr q"
    unfolding approved_request_def by blast
  from a(2) obtain r' p' l' cp' where r': "r' \<in> set (sh_claims s)" "p' \<in> set (sh_plans s)" "cr_company_id r' = c"
    "cr_job_id r' = wq_job_id q" "cr_approval_record_id r' = aid'" "plan_of_claim r' p'"
    "check_plan sha256 l' (wq_job_id q) p' = Inr cp'" "export_request sha256 (wq_job_id q) cp' = Inr q'"
    unfolding approved_request_def job by blast
  have "r' = r" using ok r r' unfolding sheets_ok_def claims_ok_def by metis
  then have "p' = p"
    using ok r(2,6) r'(2,6) unfolding sheets_ok_def plans_ok_def same_plan_key_def plan_of_claim_def by metis
  with r' r export_request_same [of sha256 l "wq_job_id q" p cp l' cp'] show "q' = q" by simp
  show "aid' = aid" using \<open>r' = r\<close> r(5) r'(5) by simp
qed

section \<open>The statements\<close>

text \<open>What a statement that leaves a table alone keeps of it.\<close>

lemma grows_keeps:
  assumes "tables_grow s s'"
  shows "sh_plans s' = sh_plans s \<Longrightarrow> plans_ok s \<Longrightarrow> plans_ok s'"
    and "sh_claims s' = sh_claims s \<Longrightarrow> claims_ok s \<Longrightarrow> claims_ok s'"
    and "sh_attempts s' = sh_attempts s \<Longrightarrow> attempts_ok s \<Longrightarrow> attempts_ok s'"
    and "sh_receipts s' = sh_receipts s \<Longrightarrow> receipts_ok s \<Longrightarrow> receipts_ok s'"
proof -
  have plans: "set (sh_plans s) \<subseteq> set (sh_plans s')" using assms by (simp add: tables_grow_def)
  show "sh_plans s' = sh_plans s \<Longrightarrow> plans_ok s \<Longrightarrow> plans_ok s'" by (simp add: plans_ok_def)
  show "sh_claims s' = sh_claims s \<Longrightarrow> claims_ok s \<Longrightarrow> claims_ok s'"
    using grows_approved [OF assms] plans unfolding claims_ok_def by (simp, blast)
  show "sh_attempts s' = sh_attempts s \<Longrightarrow> attempts_ok s \<Longrightarrow> attempts_ok s'"
    using grows_claimed [OF assms] unfolding attempts_ok_def by auto
  show "sh_receipts s' = sh_receipts s \<Longrightarrow> receipts_ok s \<Longrightarrow> receipts_ok s'"
    using grows_claimed [OF assms] unfolding receipts_ok_def by auto
qed

lemma sheets_ok_db:
  assumes "sheets_ok s" "set (approvals (sh_db s)) \<subseteq> set (approvals d)"
  shows "sheets_ok (s\<lparr>sh_db := d\<rparr>)" "tables_grow s (s\<lparr>sh_db := d\<rparr>)"
proof -
  show g: "tables_grow s (s\<lparr>sh_db := d\<rparr>)" using assms(2) by (simp add: tables_grow_def)
  show "sheets_ok (s\<lparr>sh_db := d\<rparr>)"
    using assms(1) grows_keeps [OF g] by (simp add: sheets_ok_def)
qed

lemma insert_plan_cases:
  assumes "insert_plan p s = Inr s'"
  obtains "s' = s" | "s' = s\<lparr>sh_plans := sh_plans s @ [p]\<rparr>"
    "\<And>q. q \<in> set (sh_plans s) \<Longrightarrow> \<not> same_plan_key p q"
  using assms by (auto simp: insert_plan_def list_ex_iff split: if_splits)

lemma insert_plan_ok:
  assumes "insert_plan p s = Inr s'" "sheets_ok s"
  shows "sheets_ok s'" "tables_grow s s'" "sh_attempts s' = sh_attempts s"
proof -
  have "sheets_ok s' \<and> tables_grow s s' \<and> sh_attempts s' = sh_attempts s"
    using assms(1)
  proof (cases rule: insert_plan_cases)
    case 2
    then have g: "tables_grow s s'" by (auto simp: tables_grow_def)
    have old: "plans_ok s" using assms(2) by (simp add: sheets_ok_def)
    have sym: "same_plan_key p q" if "same_plan_key q p" for q using that by (simp add: same_plan_key_def)
    have "q = q'" if "q \<in> set (sh_plans s')" "q' \<in> set (sh_plans s')" "same_plan_key q q'" for q q'
      using that old 2(2) sym unfolding 2(1) plans_ok_def by (simp, blast)
    then have "plans_ok s'" unfolding plans_ok_def by blast
    with assms(2) grows_keeps(2-4) [OF g] g show ?thesis by (simp add: 2(1) sheets_ok_def)
  qed (use assms(2) in simp)
  then show "sheets_ok s'" "tables_grow s s'" "sh_attempts s' = sh_attempts s" by blast+
qed

lemma insert_claim_cases:
  assumes "insert_claim r s = Inr s'"
  obtains "s' = s" | p where "s' = s\<lparr>sh_claims := sh_claims s @ [r]\<rparr>" "claim_approved r s"
    "p \<in> set (sh_plans s)" "plan_of_claim r p"
    "\<And>q. q \<in> set (sh_claims s) \<Longrightarrow> \<not> (cr_company_id q = cr_company_id r \<and> cr_job_id q = cr_job_id r)
       \<and> cr_approval_record_id q \<noteq> cr_approval_record_id r"
  using assms by (auto simp: insert_claim_def list_ex_iff plan_of_claim_def split: if_splits)

lemma insert_claim_ok:
  assumes "insert_claim r s = Inr s'" "sheets_ok s"
  shows "sheets_ok s'" "tables_grow s s'" "sh_attempts s' = sh_attempts s" "sh_receipts s' = sh_receipts s"
proof -
  have "sheets_ok s' \<and> tables_grow s s' \<and> sh_attempts s' = sh_attempts s \<and> sh_receipts s' = sh_receipts s"
    using assms(1)
  proof (cases rule: insert_claim_cases)
    case (2 p)
    then have g: "tables_grow s s'" by (auto simp: tables_grow_def)
    have old: "claims_ok s" using assms(2) by (simp add: sheets_ok_def)
    have "claim_approved q s' \<and> (\<exists>p \<in> set (sh_plans s'). plan_of_claim q p)" if "q \<in> set (sh_claims s')" for q
      using that old 2(1-4) grows_approved [OF g] by (auto simp: claims_ok_def)
    moreover have "q = q'"
      if "q \<in> set (sh_claims s')" "q' \<in> set (sh_claims s')"
        "cr_company_id q = cr_company_id q' \<and> cr_job_id q = cr_job_id q'
         \<or> cr_approval_record_id q = cr_approval_record_id q'" for q q'
      using that old 2(5) [of q] 2(5) [of q'] unfolding 2(1) claims_ok_def by auto
    ultimately have "claims_ok s'" unfolding claims_ok_def by blast
    with assms(2) grows_keeps(1,3,4) [OF g] g show ?thesis by (simp add: 2(1) sheets_ok_def)
  qed (use assms(2) in simp)
  then show "sheets_ok s'" "tables_grow s s'" "sh_attempts s' = sh_attempts s" "sh_receipts s' = sh_receipts s" by blast+
qed

lemma insert_attempt_ok:
  assumes "insert_attempt t s = Inr (b, s')" "sheets_ok s"
  shows "sheets_ok s'" "tables_grow s s'" "sh_receipts s' = sh_receipts s" "sh_claims s' = sh_claims s"
    "set (sh_attempts s) \<subseteq> set (sh_attempts s')" "\<not> b \<Longrightarrow> s' = s"
    "b \<Longrightarrow> t \<in> set (sh_attempts s')" "b \<Longrightarrow> \<not> attempted (tr_company_id t) (tr_job_id t) s"
proof -
  have "(s' = s \<and> \<not> b) \<or> (b \<and> s' = s\<lparr>sh_attempts := sh_attempts s @ [t]\<rparr>
      \<and> claimed_for (tr_company_id t) (tr_job_id t) (tr_approval_record_id t) s
      \<and> \<not> attempted (tr_company_id t) (tr_job_id t) s)"
    using assms(1) by (auto simp: insert_attempt_def list_ex_iff attempted_def split: if_splits)
  moreover have "sheets_ok s'" if b: "s' = s\<lparr>sh_attempts := sh_attempts s @ [t]\<rparr>"
    "claimed_for (tr_company_id t) (tr_job_id t) (tr_approval_record_id t) s"
    "\<not> attempted (tr_company_id t) (tr_job_id t) s"
  proof -
    have g: "tables_grow s s'" by (simp add: b(1) tables_grow_def)
    have old: "attempts_ok s" using assms(2) by (simp add: sheets_ok_def)
    have "claimed_for (tr_company_id u) (tr_job_id u) (tr_approval_record_id u) s'" if "u \<in> set (sh_attempts s')" for u
      using that old b(2) grows_claimed [OF g] by (auto simp: b(1) attempts_ok_def)
    moreover have "u = v" if "u \<in> set (sh_attempts s')" "v \<in> set (sh_attempts s')"
      "tr_company_id u = tr_company_id v \<and> tr_job_id u = tr_job_id v" for u v
      using that old b(3) unfolding b(1) attempts_ok_def attempted_def by (simp, metis)
    moreover have "distinct (sh_attempts s')"
      using old b(3) by (auto simp: b(1) attempts_ok_def attempted_def)
    ultimately have "attempts_ok s'" unfolding attempts_ok_def by blast
    with assms(2) grows_keeps(1,2,4) [OF g] show ?thesis by (simp add: b(1) sheets_ok_def)
  qed
  ultimately show "sheets_ok s'" "tables_grow s s'" "sh_receipts s' = sh_receipts s" "sh_claims s' = sh_claims s"
    "set (sh_attempts s) \<subseteq> set (sh_attempts s')" "\<not> b \<Longrightarrow> s' = s"
    "b \<Longrightarrow> t \<in> set (sh_attempts s')" "b \<Longrightarrow> \<not> attempted (tr_company_id t) (tr_job_id t) s"
    using assms(2) by (auto simp: tables_grow_def)
qed

lemma insert_export_receipt_ok:
  assumes "insert_export_receipt r s = Inr s'" "sheets_ok s"
  shows "sheets_ok s'" "tables_grow s s'" "sh_attempts s' = sh_attempts s" "r \<in> set (sh_receipts s')"
    "set (sh_receipts s') \<subseteq> insert r (set (sh_receipts s))" "receipt_checks r"
proof -
  have b: "s' = s\<lparr>sh_receipts := sh_receipts s @ [r]\<rparr>" "receipt_checks r"
    "claimed_for (er_company_id r) (er_job_id r) (er_approval_record_id r) s"
    "\<And>q. q \<in> set (sh_receipts s) \<Longrightarrow> er_approval_record_id q \<noteq> er_approval_record_id r"
    using assms(1) by (auto simp: insert_export_receipt_def list_ex_iff split: if_splits)
  show g: "tables_grow s s'" by (auto simp: b(1) tables_grow_def)
  have old: "receipts_ok s" using assms(2) by (simp add: sheets_ok_def)
  have "claimed_for (er_company_id q) (er_job_id q) (er_approval_record_id q) s' \<and> receipt_checks q"
    if "q \<in> set (sh_receipts s')" for q
    using that old b(2,3) grows_claimed [OF g] by (auto simp: b(1) receipts_ok_def)
  moreover have "u = v" if "u \<in> set (sh_receipts s')" "v \<in> set (sh_receipts s')"
    "er_approval_record_id u = er_approval_record_id v" for u v
    using that old b(4) unfolding b(1) receipts_ok_def by (simp, metis)
  ultimately have "receipts_ok s'" unfolding receipts_ok_def by blast
  with assms(2) grows_keeps(1-3) [OF g] show "sheets_ok s'" by (simp add: b(1) sheets_ok_def)
  show "sh_attempts s' = sh_attempts s" "r \<in> set (sh_receipts s')"
    "set (sh_receipts s') \<subseteq> insert r (set (sh_receipts s))" "receipt_checks r"
    using b(2) by (auto simp: b(1))
qed

lemma delete_attempt_ok:
  assumes "delete_attempt c k a s = Inr s'" "sheets_ok s"
  shows "sheets_ok s'" "tables_grow s s'" "sh_receipts s' = sh_receipts s"
    "attempted c' k' s \<Longrightarrow> (c', k') \<noteq> (c, k) \<Longrightarrow> attempted c' k' s'"
proof -
  have b: "s' = s\<lparr>sh_attempts :=
      filter (\<lambda>r. \<not> (tr_company_id r = c \<and> tr_job_id r = k \<and> tr_attempt_id r = a)) (sh_attempts s)\<rparr>"
    using assms(1) by (auto simp: delete_attempt_def Let_def split: if_splits)
  show g: "tables_grow s s'" by (simp add: b tables_grow_def)
  have "attempts_ok s'" using assms(2) by (simp add: b sheets_ok_def attempts_ok_def claimed_for_def)
  with assms(2) grows_keeps(1,2,4) [OF g] show "sheets_ok s'" by (simp add: b sheets_ok_def)
  show "sh_receipts s' = sh_receipts s" by (simp add: b)
  show "attempted c' k' s \<Longrightarrow> (c', k') \<noteq> (c, k) \<Longrightarrow> attempted c' k' s'" by (auto simp: b attempted_def)
qed

section \<open>Transactions\<close>

text \<open>What every transaction does, but the release of an attempt for its own job.\<close>

definition steady :: "sheets \<Rightarrow> sheets \<Rightarrow> bool" where
  "steady s s' = (tables_grow s s' \<and> (sheets_ok s \<longrightarrow> sheets_ok s') \<and> (sheets_ok s \<longrightarrow> (\<forall>c k. occupied c k s \<longrightarrow> occupied c k s')))"

lemma steady_refl [simp]: "steady s s"
  by (simp add: steady_def)

lemma steady_trans: "steady a b \<Longrightarrow> steady b c \<Longrightarrow> steady a c"
  by (auto simp: steady_def intro: grows_trans)

lemma steady_attempts:
  assumes "tables_grow s s'" "sheets_ok s \<Longrightarrow> sheets_ok s'" "set (sh_attempts s) \<subseteq> set (sh_attempts s')"
  shows "steady s s'"
  using assms grows_receipted by (auto simp: steady_def occupied_def attempted_def)

lemma steady_db:
  "set (approvals (sh_db s)) \<subseteq> set (approvals d) \<Longrightarrow> steady s (s\<lparr>sh_db := d\<rparr>)"
  by (rule steady_attempts) (auto simp: sheets_ok_db tables_grow_def)

lemma validated_plan:
  assumes "validated_current_plan sha256 l c job s = Inr cp"
  obtains p where "p \<in> set (sh_plans s)" "pr_company_id p = c" "pr_job_id p = j_job_id job"
    "check_plan sha256 l (j_job_id job) p = Inr cp"
proof -
  from assms obtain p where p: "latest_plan c (j_job_id job) s = Some p" "check_plan sha256 l (j_job_id job) p = Inr cp"
    by (auto simp: validated_current_plan_def split: option.splits sum.splits)
  from find_Some_in [OF p(1) [unfolded latest_plan_def]] p(2) show thesis by (intro that) auto
qed

text \<open>
  A plan that was prepared before another one cannot become the current plan again: its row is there, the
  INSERT is ignored, and the latest row is still the other plan's.
\<close>

lemma prepare_earlier_refused:
  assumes p: "p \<in> set (sh_plans s)" "pr_company_id p = c" "pr_job_id p = k" "pr_plan_fingerprint p = fingerprint"
    and latest: "latest_plan c k s = Some p'" "pr_plan_fingerprint p' \<noteq> fingerprint"
  shows "prepare_body sha256 c k t l clock l' s \<noteq> Inr ((h, fingerprint), s')"
proof
  assume pb: "prepare_body sha256 c k t l clock l' s = Inr ((h, fingerprint), s')"
  then obtain job row cp where job: "get_job (sh_db s) c k = Inr job" and ins: "insert_plan row s = Inr s'"
    and row: "pr_company_id row = c" "pr_job_id row = j_job_id job" "pr_plan_fingerprint row = fingerprint"
    and cp: "validated_current_plan sha256 l' c job s' = Inr cp" "cp_fingerprint cp = fingerprint"
    by (fastforce simp: prepare_body_def bnd_eq_Inr Let_def split: if_splits)
  have k: "j_job_id job = k" using job by (auto simp: get_job_def split: option.splits dest!: find_Some_in)
  from ins have "s' = s"
    by (cases rule: insert_plan_cases) (use p row k in \<open>auto simp: same_plan_key_def\<close>)
  with cp latest k have "check_plan sha256 l' k p' = Inr cp"
    by (auto simp: validated_current_plan_def split: sum.splits)
  from check_plan_Inr(8) [OF this] cp(2) latest(2) show False by simp
qed

lemma prepare_export_steady: "steady s (snd (prepare_export sha256 c k t l clock l' s))"
proof -
  have "steady s s'" if "prepare_body sha256 c k t l clock l' s = Inr (r, s')" for r s'
  proof -
    from that obtain p where p: "insert_plan p s = Inr s'"
      by (auto simp: prepare_body_def bnd_eq_Inr Let_def split: if_splits)
    show ?thesis
    proof (rule steady_attempts)
      show "tables_grow s s'" using p by (cases rule: insert_plan_cases) (auto simp: tables_grow_def)
      show "set (sh_attempts s) \<subseteq> set (sh_attempts s')" using p by (cases rule: insert_plan_cases) auto
    qed (rule insert_plan_ok [OF p])
  qed
  then show ?thesis
    by (auto simp: prepare_export_def sheet_transaction_def split: sum.splits)
qed

lemma add_approval_grows: "add_approval c ap d = Inr (u, d') \<Longrightarrow> set (approvals d) \<subseteq> set (approvals d')"
  by (auto simp: add_approval_def Let_def split: if_splits)

lemma grant_export_grows:
  assumes "grant_export c job k fp actor clock new_id d = Inr (ap, d')"
  shows "set (approvals d) \<subseteq> set (approvals d')"
proof (cases "first_export_approval k fp d")
  case None
  with assms obtain a u where "add_approval c a d = Inr (u, d')"
    by (cases clock) (auto simp: grant_export_def bnd_eq_Inr)
  then show ?thesis by (rule add_approval_grows)
qed (use assms in \<open>auto simp: grant_export_def bnd_eq_Inr\<close>)

lemma approve_export_steady: "steady s (snd (approve_export sha256 c k fp actor l clock new_id s))"
proof -
  have "steady s s'" if "approve_export_body sha256 c k fp actor l clock new_id s = Inr (r, s')" for r s'
  proof -
    from that obtain job ap d where "grant_export c job k fp actor clock new_id (sh_db s) = Inr (ap, d)"
      "s' = s\<lparr>sh_db := d\<rparr>"
      unfolding approve_export_body_def bnd_eq_Inr by (auto simp: bnd_eq_Inr split: if_splits)
    then show ?thesis using grant_export_grows steady_db by metis
  qed
  then show ?thesis
    by (auto simp: approve_export_def sheet_transaction_def split: sum.splits)
qed

lemma release_ok:
  assumes "release_body c w s = Inr (u, s')" "sheets_ok s"
  shows "sheets_ok s'" "tables_grow s s'"
    "occupied c' k' s \<Longrightarrow> (c', k') \<noteq> (c, wq_job_id (cw_request w)) \<Longrightarrow> occupied c' k' s'"
proof -
  from assms(1) have d: "delete_attempt c (wq_job_id (cw_request w)) (cw_attempt_id w) s = Inr s'"
    by (auto simp: release_body_def bnd_eq_Inr)
  show "sheets_ok s'" "tables_grow s s'" by (rule delete_attempt_ok [OF d assms(2)])+
  show "occupied c' k' s \<Longrightarrow> (c', k') \<noteq> (c, wq_job_id (cw_request w)) \<Longrightarrow> occupied c' k' s'"
    using delete_attempt_ok(3,4) [OF d assms(2)] by (auto simp: occupied_def receipted_def)
qed

text \<open>The row a returned receipt is read from.\<close>

definition receipt_row_of :: "pystr \<Rightarrow> pystr \<Rightarrow> write_request \<Rightarrow> instant \<Rightarrow> receipt_row \<Rightarrow> bool" where
  "receipt_row_of c aid q t r =
     (er_company_id r = c \<and> er_job_id r = wq_job_id q \<and> er_approval_record_id r = aid
      \<and> er_export_key r = wq_export_key q \<and> er_destination_reference r = wq_destination_reference q
      \<and> parse_aware (er_exported_at r) = Some t)"

lemma receipt_for_row:
  "receipt_for c aid s = Some r \<Longrightarrow> r \<in> set (sh_receipts s) \<and> er_company_id r = c \<and> er_approval_record_id r = aid"
  unfolding receipt_for_def by (drule find_Some_in) blast

lemma same_receipt_Inr:
  assumes "same_receipt q t r = Inr x"
  shows "x = receipt_of_request q (wq_destination_reference q) t"
    "er_company_id r = c \<Longrightarrow> er_approval_record_id r = aid \<Longrightarrow> receipt_row_of c aid q t r"
  using assms by (auto simp: same_receipt_def bnd_eq_Inr persisted_at_def receipt_row_of_def split: option.splits if_splits)

lemma persist_cases:
  assumes "persist_body c aid w t s = Inr (x, s')"
  obtains r where "s' = s" "receipt_for c aid s = Some r" "same_receipt (cw_request w) t r = Inr x"
  | r s1 where "receipt_for c aid s = None"
      "insert_export_receipt
         \<lparr>er_company_id = c, er_job_id = wq_job_id (cw_request w), er_approval_record_id = aid,
          er_export_key = wq_export_key (cw_request w),
          er_destination_reference = wq_destination_reference (cw_request w),
          er_exported_at = isoformat t\<rparr> s = Inr s1"
      "receipt_for c aid s1 = Some r" "same_receipt (cw_request w) t r = Inr x"
      "delete_attempt c (wq_job_id (cw_request w)) (cw_attempt_id w) s1 = Inr s'"
proof (cases "receipt_for c aid s")
  case (Some r)
  with assms have "s' = s" "same_receipt (cw_request w) t r = Inr x"
    by (auto simp: persist_body_def Let_def bnd_eq_Inr split: if_splits)
  with Some show thesis using that(1) by blast
next
  case None
  from assms None obtain s1 where i: "insert_export_receipt
         \<lparr>er_company_id = c, er_job_id = wq_job_id (cw_request w), er_approval_record_id = aid,
          er_export_key = wq_export_key (cw_request w),
          er_destination_reference = wq_destination_reference (cw_request w),
          er_exported_at = isoformat t\<rparr> s = Inr s1"
    and rest: "(case receipt_for c aid s1 of
              None \<Rightarrow> Inl DataIntegrityError
            | Some r \<Rightarrow>
                bnd (same_receipt (cw_request w) t r) (\<lambda>x.
                bnd (delete_attempt c (wq_job_id (cw_request w)) (cw_attempt_id w) s1) (\<lambda>s2. Inr (x, s2)))) = Inr (x, s')"
    by (auto simp: persist_body_def Let_def bnd_eq_Inr split: if_splits)
  from rest obtain r where "receipt_for c aid s1 = Some r" "same_receipt (cw_request w) t r = Inr x"
    "delete_attempt c (wq_job_id (cw_request w)) (cw_attempt_id w) s1 = Inr s'"
    by (cases "receipt_for c aid s1") (auto simp: bnd_eq_Inr)
  with None i show thesis using that(2) by blast
qed

lemma persist_ok:
  assumes p: "persist_body c aid w t s = Inr (x, s')" and ok: "sheets_ok s"
  shows "steady s s'" "x = receipt_of_request (cw_request w) (wq_destination_reference (cw_request w)) t"
    "\<exists>r \<in> set (sh_receipts s'). receipt_row_of c aid (cw_request w) t r"
    "q \<in> set (sh_receipts s') \<Longrightarrow> q \<in> set (sh_receipts s) \<or> receipt_row_of c aid (cw_request w) t q"
proof -
  have "steady s s' \<and> x = receipt_of_request (cw_request w) (wq_destination_reference (cw_request w)) t
    \<and> (\<exists>r \<in> set (sh_receipts s'). receipt_row_of c aid (cw_request w) t r)
    \<and> (\<forall>q \<in> set (sh_receipts s'). q \<in> set (sh_receipts s) \<or> receipt_row_of c aid (cw_request w) t q)"
    using p
  proof (cases rule: persist_cases)
    case (1 r)
    then show ?thesis using receipt_for_row [OF 1(2)] same_receipt_Inr [OF 1(3)] by auto
  next
    case (2 r s1)
    note ins = insert_export_receipt_ok [OF 2(2) ok]
    note del = delete_attempt_ok [OF 2(5) ins(1)]
    have r: "r \<in> set (sh_receipts s1)" "receipt_row_of c aid (cw_request w) t r"
      using receipt_for_row [OF 2(3)] same_receipt_Inr [OF 2(4)] by auto
    have other: "q \<in> set (sh_receipts s) \<or> receipt_row_of c aid (cw_request w) t q"
      if q: "q \<in> set (sh_receipts s1)" for q
    proof (cases "q \<in> set (sh_receipts s)")
      case False
      with q ins(5) have "er_approval_record_id q = er_approval_record_id r"
        using receipt_for_row [OF 2(3)] by auto
      with q r(1) ins(1) have "q = r" by (auto simp: sheets_ok_def receipts_ok_def)
      with r show ?thesis by simp
    qed simp
    have "occupied c' k' s'" if o: "occupied c' k' s" for c' k'
    proof (cases "(c', k') = (c, wq_job_id (cw_request w))")
      case True
      then show ?thesis using r unfolding occupied_def receipted_def del(3) receipt_row_of_def by blast
    next
      case False
      have "attempted c' k' s1 \<or> receipted c' k' s1"
        using o grows_receipted [OF ins(2)] unfolding occupied_def attempted_def ins(3) by blast
      then show ?thesis using del(4) False unfolding occupied_def receipted_def del(3) by blast
    qed
    then have "steady s s'" using grows_trans [OF ins(2) del(2)] del(1) by (simp add: steady_def)
    then show ?thesis using r other same_receipt_Inr(1) [OF 2(4)] by (simp add: del(3)) blast
  qed
  then show "steady s s'" "x = receipt_of_request (cw_request w) (wq_destination_reference (cw_request w)) t"
    "\<exists>r \<in> set (sh_receipts s'). receipt_row_of c aid (cw_request w) t r"
    "q \<in> set (sh_receipts s') \<Longrightarrow> q \<in> set (sh_receipts s) \<or> receipt_row_of c aid (cw_request w) t q"
    by blast+
qed

lemma open_attempt_ok:
  assumes op: "open_attempt c ap q clock new_id s = Inr (w, s')" and ok: "sheets_ok s"
    and none: "receipt_for c (approval_record_id ap) s = None"
  shows "steady s s'" "cw_request w = q"
    "\<exists>r \<in> set (sh_claims s'). cr_company_id r = c \<and> cr_job_id r = approval_job_id ap
       \<and> cr_approval_record_id r = approval_record_id ap \<and> cr_plan_fingerprint r = approval_plan_fingerprint ap"
    "cw_write_allowed w \<Longrightarrow> \<not> occupied c (approval_job_id ap) s \<and> attempted c (approval_job_id ap) s'"
    "sh_receipts s' = sh_receipts s"
proof -
  let ?k = "approval_job_id ap" and ?aid = "approval_record_id ap"
  from op obtain at s1 r inserted where i: "insert_claim
      \<lparr>cr_company_id = c, cr_job_id = ?k, cr_approval_record_id = ?aid,
       cr_plan_fingerprint = approval_plan_fingerprint ap, cr_claimed_at = isoformat at\<rparr> s = Inr s1"
    and r: "claim_of c ?k s1 = Some r" "cr_approval_record_id r = ?aid"
      "cr_plan_fingerprint r = approval_plan_fingerprint ap"
    and a: "insert_attempt
      \<lparr>tr_company_id = c, tr_job_id = ?k, tr_approval_record_id = ?aid,
       tr_attempt_id = new_id, tr_started_at = isoformat at\<rparr> s1 = Inr (inserted, s')"
    and w: "cw_request w = q" "cw_write_allowed w = inserted"
    by (auto simp: open_attempt_def Let_def bnd_eq_Inr split: if_splits option.splits)
  note ic = insert_claim_ok [OF i ok]
  note ia = insert_attempt_ok [OF a ic(1)]
  have row: "r \<in> set (sh_claims s1)" "cr_company_id r = c" "cr_job_id r = ?k"
    using find_Some_in [OF r(1) [unfolded claim_of_def]] by auto
  show "steady s s'"
    by (rule steady_trans [of s s1]; rule steady_attempts) (use ic ia in auto)
  show "cw_request w = q" by (rule w(1))
  show "\<exists>r \<in> set (sh_claims s'). cr_company_id r = c \<and> cr_job_id r = ?k \<and> cr_approval_record_id r = ?aid
      \<and> cr_plan_fingerprint r = approval_plan_fingerprint ap"
    using row r(2,3) unfolding ia(4) by blast
  show "sh_receipts s' = sh_receipts s" using ic(4) ia(3) by simp
  show "\<not> occupied c ?k s \<and> attempted c ?k s'" if "cw_write_allowed w"
  proof
    have "\<not> attempted c ?k s" using ia(8) that w(2) ic(3) by (simp add: attempted_def)
    moreover have "\<not> receipted c ?k s"
    proof
      assume "receipted c ?k s"
      then obtain x where x: "x \<in> set (sh_receipts s)" "er_company_id x = c" "er_job_id x = ?k"
        by (auto simp: receipted_def)
      from x(1) ic(4) ic(1) have "claimed_for c ?k (er_approval_record_id x) s1"
        using x(2,3) by (auto simp: sheets_ok_def receipts_ok_def)
      then obtain r' where "r' \<in> set (sh_claims s1)" "cr_company_id r' = c" "cr_job_id r' = ?k"
        "cr_approval_record_id r' = er_approval_record_id x"
        by (auto simp: claimed_for_def list_ex_iff)
      with row ic(1) r(2) have "er_approval_record_id x = ?aid"
        unfolding sheets_ok_def claims_ok_def by metis
      with x none show False by (auto simp: receipt_for_def find_None_iff)
    qed
    ultimately show "\<not> occupied c ?k s" by (simp add: occupied_def)
    show "attempted c ?k s'" unfolding attempted_def by (rule bexI [OF _ ia(7)]) (use that w(2) in simp_all)
  qed
qed

lemma make_approval_record_Inr: "make_approval_record a = Inr b \<Longrightarrow> b = a"
  by (auto simp: make_approval_record_def split: if_splits option.splits)

lemma get_approval_Inr:
  assumes "get_approval d c k aid = Inr ap"
  shows "approval_job_id ap = k \<and> approval_record_id ap = aid"
proof -
  obtain row where row: "find (\<lambda>a. a_job_id a = k \<and> a_approval_record_id a = aid
      \<and> list_ex (\<lambda>j. j_job_id j = k \<and> j_company_id j = c) (jobs d)) (approvals d) = Some row"
    using assms by (cases "find (\<lambda>a. a_job_id a = k \<and> a_approval_record_id a = aid
      \<and> list_ex (\<lambda>j. j_job_id j = k \<and> j_company_id j = c) (jobs d)) (approvals d)") (auto simp: get_approval_def)
  obtain t ex where "(case make_approval_record (approval_of_row row t ex) of
      Inl _ \<Rightarrow> Inl DataIntegrityError | Inr ap \<Rightarrow> Inr ap) = Inr ap"
    using assms unfolding get_approval_def row option.case bnd_eq_Inr by (auto split: option.splits)
  then have "make_approval_record (approval_of_row row t ex) = Inr ap" by (simp split: sum.splits)
  from make_approval_record_Inr [OF this] find_Some_in [OF row] show ?thesis
    by (simp add: approval_of_row_def)
qed

lemma job_row_Inr: "get_job d c k = Inr j \<Longrightarrow> j_job_id j = k"
  by (auto simp: get_job_def split: option.splits dest!: find_Some_in)

lemma claim_body_parts:
  assumes "claim_body sha256 c aid l lookup clock new_id s = Inr (out, s')"
  obtains ap p cp q where "approval_record_id ap = aid" "approval_job_id ap = wq_job_id q"
    "p \<in> set (sh_plans s)" "pr_company_id p = c" "pr_job_id p = wq_job_id q"
    "pr_plan_fingerprint p = approval_plan_fingerprint ap"
    "check_plan sha256 l (wq_job_id q) p = Inr cp" "export_request sha256 (wq_job_id q) cp = Inr q"
    "case receipt_for c aid s of
       Some r \<Rightarrow> \<exists>x. confirm_receipt q (lookup q) r = Inr x \<and> out = Inl x \<and> s' = s
     | None \<Rightarrow> \<exists>w. open_attempt c ap q clock new_id s = Inr (w, s') \<and> out = Inr w"
proof -
  obtain row where row: "find (\<lambda>a. a_approval_record_id a = aid
      \<and> list_ex (\<lambda>j. j_job_id j = a_job_id a \<and> j_company_id j = c) (jobs (sh_db s))) (approvals (sh_db s)) = Some row"
    using assms by (cases "find (\<lambda>a. a_approval_record_id a = aid
      \<and> list_ex (\<lambda>j. j_job_id j = a_job_id a \<and> j_company_id j = c) (jobs (sh_db s))) (approvals (sh_db s))")
      (auto simp: claim_body_def)
  from assms obtain ap job cp q where ap: "get_approval (sh_db s) c (a_job_id row) aid = Inr ap"
    and job: "get_job (sh_db s) c (approval_job_id ap) = Inr job"
    and cp: "validated_current_plan sha256 l c job s = Inr cp"
    and fp: "cp_fingerprint cp = approval_plan_fingerprint ap"
    and q: "export_request sha256 (approval_job_id ap) cp = Inr q"
    and out: "(case receipt_for c aid s of
             Some r \<Rightarrow> bnd (confirm_receipt q (lookup q) r) (\<lambda>r. Inr (Inl r, s))
           | None \<Rightarrow> bnd (open_attempt c ap q clock new_id s) (\<lambda>(w, s'). Inr (Inr w, s'))) = Inr (out, s')"
    unfolding claim_body_def row option.case bnd_eq_Inr require_eq by blast
  from cp obtain p where p: "p \<in> set (sh_plans s)" "pr_company_id p = c" "pr_job_id p = j_job_id job"
    "check_plan sha256 l (j_job_id job) p = Inr cp" by (rule validated_plan)
  note k = job_row_Inr [OF job] export_request_job [OF q]
  have cases: "case receipt_for c aid s of
       Some r \<Rightarrow> \<exists>x. confirm_receipt q (lookup q) r = Inr x \<and> out = Inl x \<and> s' = s
     | None \<Rightarrow> \<exists>w. open_attempt c ap q clock new_id s = Inr (w, s') \<and> out = Inr w"
    using out by (auto simp: bnd_eq_Inr split: option.splits)
  show thesis
    by (rule that [of ap q p cp]) (use get_approval_Inr [OF ap] p k fp q check_plan_Inr(8) [OF p(4)] cases in auto)
qed

end
