(* ===== verification/ExportSafety.thy ===== *)
theory ExportSafety
  imports ExportTables
begin

text \<open>
  Invariants of the export worlds: the tables stay well formed, every call works on the request its
  approval's claim stands for, and what the calls of one job do forms rounds.
\<close>

section \<open>Invariants\<close>

locale export_invariant =
  fixes x :: externals and bk :: "('b, 'e) backend" and d :: db and b :: 'b
    and holds :: "'b export_world \<Rightarrow> bool"
  assumes initially: "holds (initial_world d b)"
    and kept: "exports_reach x bk d b w \<Longrightarrow> holds w \<Longrightarrow> holds (export_react x bk inp w)"
begin

lemma reachable: "exports_reach x bk d b w \<Longrightarrow> holds w"
  by (induction rule: exports_reach.induct) (rule initially, rule kept)

end

section \<open>One reaction\<close>

text \<open>The claimed write a call works on.\<close>

fun write_of :: "export_pc \<Rightarrow> claimed_write option" where
  "write_of (Cleared w) = Some w"
| "write_of (Writing w) = Some w"
| "write_of (Recovering_write w e) = Some w"
| "write_of (Releasing w e) = Some w"
| "write_of (Looking w) = Some w"
| "write_of (Storing w t) = Some w"
| "write_of p = None"

lemma write_of_settle: "write_of (settle_write w raw) = Some v \<Longrightarrow> v = w"
  by (simp add: settle_write_def split: sum.splits)

lemma serve_approvals: "set (approvals d) \<subseteq> set (approvals (serve x rq d))"
  using serve_safe [of d x rq] by (auto simp: safe_step_def db_evolves_def prefix_of_iff)

lemma begin_export_cases:
  assumes "begin_export sha256 lookup n c aid s = (s', acts, p)"
  obtains e where "s' = s" "acts = []" "p = Ended (Inl e)"
  | r where "s' = s" "acts = []" "p = Ended (Inr r)"
      "claim_body sha256 c aid (xe_loaded n) lookup (xe_clock n) (attempt_id_of (xe_uuid n)) s = Inr (Inl r, s')"
  | w where "claim_body sha256 c aid (xe_loaded n) lookup (xe_clock n) (attempt_id_of (xe_uuid n)) s = Inr (Inr w, s')"
      "cw_write_allowed w" "acts = [(job_of_write w, Attempt_opened)]" "p = Cleared w"
  | w where "claim_body sha256 c aid (xe_loaded n) lookup (xe_clock n) (attempt_id_of (xe_uuid n)) s = Inr (Inr w, s')"
      "\<not> cw_write_allowed w" "acts = []" "p = Looking w"
proof (cases "claim_export sha256 c aid (xe_loaded n) lookup (xe_clock n) (attempt_id_of (xe_uuid n)) s")
  case (Pair r s1)
  show thesis
  proof (cases r)
    case (Inl e)
    with Pair have "s1 = s" by (auto simp: claim_export_def sheet_transaction_def split: sum.splits)
    with Inl Pair assms that(1) show thesis by (auto simp: begin_export_def)
  next
    case (Inr out)
    with Pair have body: "claim_body sha256 c aid (xe_loaded n) lookup (xe_clock n) (attempt_id_of (xe_uuid n)) s
        = Inr (out, s1)" by (auto simp: claim_export_def sheet_transaction_def split: sum.splits)
    show thesis
    proof (cases out)
      case (Inl y)
      obtain ap p cp q where "case receipt_for c aid s of
         Some r \<Rightarrow> \<exists>x. confirm_receipt q (lookup q) r = Inr x \<and> out = Inl x \<and> s1 = s
       | None \<Rightarrow> \<exists>w. open_attempt c ap q (xe_clock n) (attempt_id_of (xe_uuid n)) s = Inr (w, s1) \<and> out = Inr w"
        using body by (rule claim_body_parts)
      with Inl have "s1 = s" by (auto split: option.splits)
      with Inl Inr Pair assms body that(2) show thesis by (auto simp: begin_export_def)
    next
      case (Inr w)
      with \<open>r = Inr out\<close> Pair assms body that(3,4) show thesis
        by (cases "cw_write_allowed w") (auto simp: begin_export_def)
    qed
  qed
qed

lemma claim_write_ok:
  assumes b: "claim_body sha256 c aid l lookup clock new_id s = Inr (Inr w, s')" and ok: "sheets_ok s"
  shows "steady s s'" "approved_request sha256 c aid (cw_request w) s'"
    "cw_write_allowed w \<Longrightarrow> \<not> occupied c (job_of_write w) s \<and> occupied c (job_of_write w) s'"
    "sh_receipts s' = sh_receipts s"
proof -
  from b obtain ap p cp q where ap: "approval_record_id ap = aid" "approval_job_id ap = wq_job_id q"
    and p: "p \<in> set (sh_plans s)" "pr_company_id p = c" "pr_job_id p = wq_job_id q"
      "pr_plan_fingerprint p = approval_plan_fingerprint ap"
    and q: "check_plan sha256 l (wq_job_id q) p = Inr cp" "export_request sha256 (wq_job_id q) cp = Inr q"
    and out: "case receipt_for c aid s of
       Some r \<Rightarrow> \<exists>x. confirm_receipt q (lookup q) r = Inr x \<and> Inr w = Inl x \<and> s' = s
     | None \<Rightarrow> \<exists>w'. open_attempt c ap q clock new_id s = Inr (w', s') \<and> (Inr w :: export_receipt + claimed_write) = Inr w'"
    by (rule claim_body_parts) blast
  then have op: "receipt_for c aid s = None" "open_attempt c ap q clock new_id s = Inr (w, s')"
    by (auto split: option.splits)
  note o = open_attempt_ok [OF op(2) ok, unfolded ap(1), OF op(1), unfolded ap]
  show "steady s s'" by (rule o(1))
  show "sh_receipts s' = sh_receipts s" by (rule o(5))
  obtain r where r: "r \<in> set (sh_claims s')" "cr_company_id r = c" "cr_job_id r = wq_job_id q"
    "cr_approval_record_id r = aid" "cr_plan_fingerprint r = approval_plan_fingerprint ap"
    using o(3) by blast
  have "p \<in> set (sh_plans s')" using o(1) p(1) by (auto simp: steady_def tables_grow_def)
  moreover have "plan_of_claim r p" using p r by (simp add: plan_of_claim_def)
  ultimately show "approved_request sha256 c aid (cw_request w) s'"
    unfolding approved_request_def o(2) using r q by blast
  show "cw_write_allowed w \<Longrightarrow> \<not> occupied c (job_of_write w) s \<and> occupied c (job_of_write w) s'"
    using o(4) by (simp add: job_of_write_def o(2) occupied_def)
qed

text \<open>What one step of a call does to the tables, and to the write it works on.\<close>

lemma step_sheets:
  assumes step: "export_step sha256 bk n c aid p s b = Some (s', b', acts, p')" and ok: "sheets_ok s"
  shows "sheets_ok s'" "tables_grow s s'"
    "occupied c' k s \<Longrightarrow> occupied c' k s' \<or> (\<exists>w e. p = Releasing w e \<and> c' = c \<and> k = job_of_write w
       \<and> acts = [(k, Attempt_released)])"
    "write_of p' = Some w \<Longrightarrow> write_of p = Some w \<or> approved_request sha256 c aid (cw_request w) s'"
proof -
  have "sheets_ok s' \<and> tables_grow s s'
    \<and> (occupied c' k s \<longrightarrow> occupied c' k s' \<or> (\<exists>w e. p = Releasing w e \<and> c' = c \<and> k = job_of_write w
       \<and> acts = [(k, Attempt_released)]))
    \<and> (\<forall>w. write_of p' = Some w \<longrightarrow> write_of p = Some w \<or> approved_request sha256 c aid (cw_request w) s')"
  proof (cases p)
    case Export_called
    then have "begin_export sha256 (\<lambda>q. bk_lookup bk (xe_backend n) q b) n c aid s = (s', acts, p')"
      using step by (simp split: prod.splits)
    then show ?thesis
      by (cases rule: begin_export_cases) (use ok claim_write_ok [OF _ ok] in \<open>auto simp: steady_def\<close>)
  next
    case (Releasing w e)
    then have r: "release_write c w e s = (s', acts, p')" using step by (simp split: prod.splits)
    show ?thesis
    proof (cases "release_body c w s")
      case (Inl e')
      with r ok show ?thesis by (auto simp: release_write_def sheet_transaction_def)
    next
      case (Inr out)
      then have rel: "release_body c w s = Inr ((), s')" "p' = Ended (Inl e)"
        "acts = [(job_of_write w, Attempt_released)]" using r
        by (cases out; simp add: release_write_def sheet_transaction_def)+
      note kept = release_ok [OF rel(1) ok]
      show ?thesis using kept(1,2) kept(3) [of c' k] Releasing rel(2,3)
        by (cases "(c', k) = (c, job_of_write w)") (simp_all add: job_of_write_def)
    qed
  next
    case (Storing w t)
    then have r: "store_receipt c aid w t s = (s', acts, p')" using step by (simp split: prod.splits)
    show ?thesis
    proof (cases "persist_body c aid w t s")
      case (Inl e')
      with r ok show ?thesis by (auto simp: store_receipt_def sheet_transaction_def)
    next
      case (Inr out)
      then obtain y where "persist_body c aid w t s = Inr (y, s')" "p' = Ended (Inr y)" using r
        by (cases out) (auto simp: store_receipt_def sheet_transaction_def)
      with persist_ok(1) [OF _ ok] ok show ?thesis by (auto simp: steady_def)
    qed
  qed (use step ok in \<open>auto simp: write_sheet_def recover_write_def look_up_write_def
      split: sum.splits option.splits prod.splits dest: write_of_settle\<close>)
  then show "sheets_ok s'" "tables_grow s s'"
    "occupied c' k s \<Longrightarrow> occupied c' k s' \<or> (\<exists>w e. p = Releasing w e \<and> c' = c \<and> k = job_of_write w
       \<and> acts = [(k, Attempt_released)])"
    "write_of p' = Some w \<Longrightarrow> write_of p = Some w \<or> approved_request sha256 c aid (cw_request w) s'"
    by blast+
qed

lemma prepare_receipts: "sh_receipts (snd (prepare_export sha256 c k t l clock l' s)) = sh_receipts s"
proof -
  have "sh_receipts s' = sh_receipts s" if "prepare_body sha256 c k t l clock l' s = Inr (r, s')" for r s'
  proof -
    from that obtain p where "insert_plan p s = Inr s'"
      by (auto simp: prepare_body_def bnd_eq_Inr Let_def split: if_splits)
    then show ?thesis by (cases rule: insert_plan_cases) auto
  qed
  then show ?thesis by (auto simp: prepare_export_def sheet_transaction_def split: sum.splits)
qed

lemma approve_receipts: "sh_receipts (snd (approve_export sha256 c k fp actor l clock new_id s)) = sh_receipts s"
  by (auto simp: approve_export_def sheet_transaction_def approve_export_body_def bnd_eq_Inr split: sum.splits if_splits)

text \<open>What a reaction changes.\<close>

lemma react_cases:
  obtains "export_react x bk inp w = w"
  | s where "export_react x bk inp w = w\<lparr>ew_sheets := s\<rparr>" "steady (ew_sheets w) s"
      "sh_receipts s = sh_receipts (ew_sheets w)"
  | c aid where "export_react x bk inp w
      = w\<lparr>ew_calls := ew_calls w @ [\<lparr>ca_company = c, ca_approval = aid, ca_pc = Export_called\<rparr>]\<rparr>"
  | i where "i < length (ew_calls w)"
      "export_react x bk inp w = w\<lparr>ew_calls := (ew_calls w)[i := (ew_calls w ! i)\<lparr>ca_pc := Dead\<rparr>]\<rparr>"
  | i n s b acts p where "i < length (ew_calls w)"
      "export_step (ext_sha256 x) bk n (ca_company (ew_calls w ! i)) (ca_approval (ew_calls w ! i))
         (ca_pc (ew_calls w ! i)) (ew_sheets w) (ew_backend w) = Some (s, b, acts, p)"
      "export_react x bk inp w
         = \<lparr>ew_sheets = s, ew_backend = b, ew_calls = (ew_calls w)[i := (ew_calls w ! i)\<lparr>ca_pc := p\<rparr>],
            ew_log = ew_log w @ logged_actions i (ca_company (ew_calls w ! i)) acts\<rparr>"
proof (cases inp)
  case (Call_step i n)
  show thesis
  proof (cases "export_step (ext_sha256 x) bk n (ca_company (ew_calls w ! i)) (ca_approval (ew_calls w ! i))
         (ca_pc (ew_calls w ! i)) (ew_sheets w) (ew_backend w)")
    case None
    with Call_step that(1) show thesis by (simp add: Let_def split: if_splits)
  next
    case (Some out)
    obtain s b acts p where "out = (s, b, acts, p)" by (cases out)
    with Some Call_step that(1,5) show thesis by (cases "i < length (ew_calls w)") (simp_all add: Let_def)
  qed
next
  case (Call_dies i)
  with that(1,4) show thesis by (cases "i < length (ew_calls w)") simp_all
next
  case (Other_request rq)
  let ?s = "(ew_sheets w)\<lparr>sh_db := serve x rq (sh_db (ew_sheets w))\<rparr>"
  show thesis by (rule that(2) [of ?s]) (use Other_request steady_db [OF serve_approvals] in simp_all)
next
  case (Prepare_export c k t l clock l')
  show thesis
    by (rule that(2) [OF _ prepare_export_steady prepare_receipts]) (simp add: Prepare_export)
next
  case (Approve_export c k fp actor l clock new_id)
  show thesis
    by (rule that(2) [OF _ approve_export_steady approve_receipts]) (simp add: Approve_export)
qed (use that(3) in simp)

section \<open>Requests\<close>

definition requests_approved :: "externals \<Rightarrow> 'b export_world \<Rightarrow> bool" where
  "requests_approved x w =
     (sheets_ok (ew_sheets w)
      \<and> (\<forall>ca \<in> set (ew_calls w). \<forall>cw. write_of (ca_pc ca) = Some cw \<longrightarrow>
            approved_request (ext_sha256 x) (ca_company ca) (ca_approval ca) (cw_request cw) (ew_sheets w)))"

lemma requests_initial: "requests_approved x (initial_world d b)"
  by (simp add: requests_approved_def initial_world_def empty_sheets_def sheets_ok_def plans_ok_def claims_ok_def
      attempts_ok_def receipts_ok_def)

lemma requests_kept:
  assumes ok: "requests_approved x w"
  shows "requests_approved x (export_react x bk inp w) \<and> tables_grow (ew_sheets w) (ew_sheets (export_react x bk inp w))"
proof -
  have sheets: "sheets_ok (ew_sheets w)" using ok by (simp add: requests_approved_def)
  have old: "approved_request (ext_sha256 x) (ca_company ca) (ca_approval ca) (cw_request cw) s"
    if "ca \<in> set (ew_calls w)" "write_of (ca_pc ca) = Some cw" "tables_grow (ew_sheets w) s" for ca cw s
    using ok that grows_request unfolding requests_approved_def by blast
  show ?thesis
  proof (cases rule: react_cases [of x bk inp w])
    case 1
    with ok show ?thesis by simp
  next
    case (2 s)
    with sheets old show ?thesis by (simp add: requests_approved_def steady_def)
  next
    case (3 c aid)
    with sheets old show ?thesis by (auto simp: requests_approved_def)
  next
    case (4 i)
    have "approved_request (ext_sha256 x) (ca_company ca) (ca_approval ca) (cw_request cw) (ew_sheets w)"
      if "ca \<in> set ((ew_calls w)[i := (ew_calls w ! i)\<lparr>ca_pc := Dead\<rparr>])" "write_of (ca_pc ca) = Some cw" for ca cw
    proof (cases "ca \<in> set (ew_calls w)")
      case False
      then have "ca = (ew_calls w ! i)\<lparr>ca_pc := Dead\<rparr>"
        using that(1) set_update_subset_insert [of "ew_calls w" i] by blast
      then show ?thesis using that(2) by simp
    qed (use old that(2) grows_refl in blast)
    with 4 sheets show ?thesis by (simp add: requests_approved_def)
  next
    case (5 i n s b acts p)
    note st = step_sheets [OF 5(2) sheets]
    have "approved_request (ext_sha256 x) (ca_company ca) (ca_approval ca) (cw_request cw) s"
      if ca: "ca \<in> set ((ew_calls w)[i := (ew_calls w ! i)\<lparr>ca_pc := p\<rparr>])" "write_of (ca_pc ca) = Some cw" for ca cw
    proof (cases "ca \<in> set (ew_calls w)")
      case True
      then show ?thesis using old ca(2) st(2) by blast
    next
      case False
      then have "ca = (ew_calls w ! i)\<lparr>ca_pc := p\<rparr>"
        using ca(1) set_update_subset_insert [of "ew_calls w" i] by blast
      then show ?thesis using st(4) [of cw] ca(2) old [of "ew_calls w ! i" cw s] st(2) 5(1) by auto
    qed
    with 5 st(1,2) show ?thesis by (simp add: requests_approved_def)
  qed
qed

interpretation requests: export_invariant x bk d b "requests_approved x" for x bk d b
  by unfold_locales (rule requests_initial, rule requests_kept [THEN conjunct1])

end
