(* ===== verification/ExportDiscipline.thy ===== *)
theory ExportDiscipline
  imports ExportSafety
begin

text \<open>
  The writes of one job, in the order they happen: attempts never overlap, and a further one is opened only
  after the one before raised, was looked up in vain and was released.
\<close>

section \<open>Rounds\<close>

fun wired :: "export_action \<Rightarrow> bool" where
  "wired (Row_found raw) = False"
| "wired (Receipt_stored r) = False"
| "wired a = True"

definition job_wire :: "pystr \<Rightarrow> pystr \<Rightarrow> export_event list \<Rightarrow> (nat \<times> export_action) list" where
  "job_wire c k es =
     map (\<lambda>e. (xv_call e, xv_action e))
       (filter (\<lambda>e. xv_company e = c \<and> xv_job e = k \<and> wired (xv_action e)) es)"

datatype wire_phase =
    Free
  | Open_by nat
  | Writing_by nat write_request
  | Answered_by nat write_request raw_receipt
  | Raised_by nat write_request
  | Missed_by nat write_request

fun advance :: "wire_phase \<Rightarrow> nat \<times> export_action \<Rightarrow> wire_phase option" where
  "advance Free (j, Attempt_opened) = Some (Open_by j)"
| "advance (Open_by i) (j, Write_started q) = (if j = i then Some (Writing_by i q) else None)"
| "advance (Writing_by i q) (j, Write_answered raw) = (if j = i then Some (Answered_by i q raw) else None)"
| "advance (Writing_by i q) (j, Write_raised) = (if j = i then Some (Raised_by i q) else None)"
| "advance (Raised_by i q) (j, Row_missing) = (if j = i then Some (Missed_by i q) else None)"
| "advance (Missed_by i q) (j, Attempt_released) = (if j = i then Some Free else None)"
| "advance p e = None"

definition phase_of :: "(nat \<times> export_action) list \<Rightarrow> wire_phase option" where
  "phase_of es = foldl (\<lambda>p e. Option.bind p (\<lambda>p. advance p e)) (Some Free) es"

lemma phase_of_Nil [simp]: "phase_of [] = Some Free"
  by (simp add: phase_of_def)

lemma phase_of_snoc [simp]: "phase_of (es @ [e]) = Option.bind (phase_of es) (\<lambda>p. advance p e)"
  by (simp add: phase_of_def)

text \<open>A round that failed, and what a round in progress or an answered one has done so far.\<close>

definition failed_round :: "write_request \<Rightarrow> nat \<Rightarrow> (nat \<times> export_action) list" where
  "failed_round q i =
     [(i, Attempt_opened), (i, Write_started q), (i, Write_raised), (i, Row_missing), (i, Attempt_released)]"

definition last_round :: "write_request \<Rightarrow> nat \<Rightarrow> (nat \<times> export_action) list \<Rightarrow> bool" where
  "last_round q i es =
     ((\<exists>n < 5. es = take n (failed_round q i))
      \<or> (\<exists>raw. es = [(i, Attempt_opened), (i, Write_started q), (i, Write_answered raw)]))"

fun in_phase :: "wire_phase \<Rightarrow> (nat \<times> export_action) list" where
  "in_phase Free = []"
| "in_phase (Open_by i) = [(i, Attempt_opened)]"
| "in_phase (Writing_by i q) = [(i, Attempt_opened), (i, Write_started q)]"
| "in_phase (Answered_by i q raw) = [(i, Attempt_opened), (i, Write_started q), (i, Write_answered raw)]"
| "in_phase (Raised_by i q) = [(i, Attempt_opened), (i, Write_started q), (i, Write_raised)]"
| "in_phase (Missed_by i q) = [(i, Attempt_opened), (i, Write_started q), (i, Write_raised), (i, Row_missing)]"

lemma phase_rounds:
  "phase_of es = Some p \<Longrightarrow> \<exists>rs. es = concat (map (\<lambda>(q, i). failed_round q i) rs) @ in_phase p"
proof (induction es arbitrary: p rule: rev_induct)
  case (snoc e es)
  then obtain p0 where p0: "phase_of es = Some p0" "advance p0 e = Some p" by (auto simp: bind_eq_Some_conv)
  from snoc.IH [OF p0(1)] obtain rs where rs: "es = concat (map (\<lambda>(q, i). failed_round q i) rs) @ in_phase p0" ..
  show ?case
  proof (cases "snd e = Attempt_released")
    case True
    then obtain i q where "p0 = Missed_by i q" "e = (i, Attempt_released)" "p = Free"
      using p0(2) by (cases "(p0, e)" rule: advance.cases) (auto split: if_splits)
    then show ?thesis using rs by (intro exI [of _ "rs @ [(q, i)]"]) (simp add: failed_round_def)
  next
    case False
    then have "in_phase p0 @ [e] = in_phase p"
      using p0(2) by (cases "(p0, e)" rule: advance.cases) (auto split: if_splits)
    then show ?thesis using rs by (metis append.assoc)
  qed
qed (auto intro: exI [of _ "[]"])

section \<open>The invariant\<close>

text \<open>The phase a call's program counter stands for, on the job of its write.\<close>

fun expected :: "nat \<Rightarrow> export_pc \<Rightarrow> (claimed_write \<times> wire_phase) option" where
  "expected i (Cleared w) = Some (w, Open_by i)"
| "expected i (Writing w) = Some (w, Writing_by i (cw_request w))"
| "expected i (Recovering_write w e) = Some (w, Raised_by i (cw_request w))"
| "expected i (Releasing w e) = Some (w, Missed_by i (cw_request w))"
| "expected i p = None"

fun phase_owner :: "wire_phase \<Rightarrow> nat option" where
  "phase_owner Free = None"
| "phase_owner (Open_by i) = Some i"
| "phase_owner (Writing_by i q) = Some i"
| "phase_owner (Answered_by i q raw) = Some i"
| "phase_owner (Raised_by i q) = Some i"
| "phase_owner (Missed_by i q) = Some i"

lemma owner_expected: "expected i p = Some (w, ph) \<Longrightarrow> phase_owner ph = Some i"
  by (cases p) auto

lemma owner_advance: "advance ph (i, a) = Some ph' \<Longrightarrow> phase_owner ph = None \<or> phase_owner ph = Some i"
  by (cases "(ph, (i, a))" rule: advance.cases) (auto split: if_splits)

definition stores :: "pystr \<Rightarrow> pystr \<Rightarrow> export_event \<Rightarrow> bool" where
  "stores c k e =
     (xv_company e = c \<and> xv_job e = k \<and> (case xv_action e of Receipt_stored r \<Rightarrow> True | _ \<Rightarrow> False))"

lemma stores_iff:
  "stores c k e \<longleftrightarrow> xv_company e = c \<and> xv_job e = k \<and> (\<exists>r. xv_action e = Receipt_stored r)"
  by (cases "xv_action e") (auto simp: stores_def)

text \<open>No attempt is opened after a receipt is stored.\<close>

definition sealed :: "pystr \<Rightarrow> pystr \<Rightarrow> export_event list \<Rightarrow> bool" where
  "sealed c k es =
     list_all (\<lambda>(i, a). a \<noteq> Attempt_opened) (job_wire c k (dropWhile (\<lambda>e. \<not> stores c k e) es))"

definition phases_kept :: "'b export_world \<Rightarrow> bool" where
  "phases_kept w =
     ((\<forall>c k. \<exists>ph. phase_of (job_wire c k (ew_log w)) = Some ph \<and> (ph = Free \<or> occupied c k (ew_sheets w)))
      \<and> (\<forall>i < length (ew_calls w). \<forall>cw ph. expected i (ca_pc (ew_calls w ! i)) = Some (cw, ph) \<longrightarrow>
            phase_of (job_wire (ca_company (ew_calls w ! i)) (job_of_write cw) (ew_log w)) = Some ph))"

definition receipts_seal :: "'b export_world \<Rightarrow> bool" where
  "receipts_seal w =
     (\<forall>c k. sealed c k (ew_log w) \<and> (list_ex (stores c k) (ew_log w) \<longrightarrow> receipted c k (ew_sheets w)))"

definition disciplined :: "externals \<Rightarrow> 'b export_world \<Rightarrow> bool" where
  "disciplined x w = (requests_approved x w \<and> phases_kept w \<and> receipts_seal w)"

lemma job_wire_append [simp]: "job_wire c k (es @ fs) = job_wire c k es @ job_wire c k fs"
  by (simp add: job_wire_def)

lemma wire_logged:
  "job_wire c k (logged_actions i c' acts)
   = (if c' = c then map (\<lambda>(k, a). (i, a)) (filter (\<lambda>(k', a). k' = k \<and> wired a) acts) else [])"
  by (induction acts) (auto simp: job_wire_def logged_actions_def)

lemma stores_append:
  "list_ex (stores c k) (es @ fs) \<longleftrightarrow> list_ex (stores c k) es \<or> list_ex (stores c k) fs"
  by simp

text \<open>Appending the actions of one step keeps the seal, unless it opens an attempt after a receipt.\<close>

lemma dropWhile_stores:
  "dropWhile (\<lambda>e. \<not> stores c k e) (es @ fs)
   = (if list_ex (stores c k) es then dropWhile (\<lambda>e. \<not> stores c k e) es @ fs else dropWhile (\<lambda>e. \<not> stores c k e) fs)"
  by (induction es) auto

lemma sealed_append:
  assumes "sealed c k es" "sealed c k fs"
    and "list_ex (stores c k) es \<Longrightarrow> (i, Attempt_opened) \<notin> set (job_wire c k fs)"
    and "\<And>e. e \<in> set fs \<Longrightarrow> xv_call e = i"
  shows "sealed c k (es @ fs)"
proof (cases "list_ex (stores c k) es")
  case True
  have "(j, a) \<in> set (job_wire c k fs) \<Longrightarrow> j = i" for j a using assms(4) by (auto simp: job_wire_def)
  with assms(1,3) True show ?thesis by (auto simp: sealed_def dropWhile_stores list_all_iff)
next
  case False
  with assms(2) show ?thesis by (simp add: sealed_def dropWhile_stores)
qed

lemma sealed_single: "sealed c k (logged_actions i c' [(k', a)])"
  by (cases a) (simp_all add: sealed_def logged_actions_def stores_def job_wire_def)

lemma sealed_none: "sealed c k (logged_actions i c' [])"
  by (simp add: sealed_def logged_actions_def job_wire_def)

section \<open>One step\<close>

lemma expected_settle [simp]: "expected i (settle_write w raw) = None"
  by (simp add: settle_write_def split: sum.splits)

definition silent_step :: "nat \<Rightarrow> (pystr \<times> export_action) list \<Rightarrow> export_pc \<Rightarrow> bool" where
  "silent_step i acts p = (list_all (\<lambda>(k, a). \<not> wired a) acts \<and> expected i p = None)"

definition wired_step ::
  "nat \<Rightarrow> pystr \<Rightarrow> export_event list \<Rightarrow> sheets \<Rightarrow> sheets \<Rightarrow> (pystr \<times> export_action) list \<Rightarrow> export_pc
   \<Rightarrow> claimed_write \<Rightarrow> export_action \<Rightarrow> wire_phase \<Rightarrow> wire_phase \<Rightarrow> bool" where
  "wired_step i c es s s' acts p w a ph ph' =
     (acts = [(job_of_write w, a)] \<and> wired a \<and> phase_of (job_wire c (job_of_write w) es) = Some ph
      \<and> advance ph (i, a) = Some ph' \<and> (ph' = Free \<or> occupied c (job_of_write w) s')
      \<and> (expected i p = None \<or> expected i p = Some (w, ph'))
      \<and> (a = Attempt_opened \<longrightarrow> \<not> occupied c (job_of_write w) s))"

lemma step_phase:
  assumes step: "export_step sha256 bk n c aid p s b = Some (s', b', acts, p')" and ok: "sheets_ok s"
    and cur: "\<And>k. \<exists>ph. phase_of (job_wire c k es) = Some ph \<and> (ph = Free \<or> occupied c k s)"
    and exp: "\<And>w ph. expected i p = Some (w, ph) \<Longrightarrow> phase_of (job_wire c (job_of_write w) es) = Some ph"
  shows "silent_step i acts p' \<or> (\<exists>w a ph ph'. wired_step i c es s s' acts p' w a ph ph')"
proof (cases p)
  case Export_called
  then have "begin_export sha256 (\<lambda>q. bk_lookup bk (xe_backend n) q b) n c aid s = (s', acts, p')"
    using step by (simp split: prod.splits)
  then show ?thesis
  proof (cases rule: begin_export_cases)
    case (3 w)
    have o: "\<not> occupied c (job_of_write w) s" "occupied c (job_of_write w) s'"
      using claim_write_ok(3) [OF 3(1) ok 3(2)] by auto
    with cur [of "job_of_write w"] have "phase_of (job_wire c (job_of_write w) es) = Some Free" by auto
    with o 3 have "wired_step i c es s s' acts p' w Attempt_opened Free (Open_by i)" by (simp add: wired_step_def)
    then show ?thesis by blast
  qed (simp_all add: silent_step_def)
next
  case (Cleared w)
  then have out: "s' = s" "acts = [(job_of_write w, Write_started (cw_request w))]" "p' = Writing w" using step by auto
  have "phase_of (job_wire c (job_of_write w) es) = Some (Open_by i)" by (rule exp) (simp add: Cleared)
  moreover from this cur [of "job_of_write w"] have "occupied c (job_of_write w) s" by auto
  ultimately have "wired_step i c es s s' acts p' w (Write_started (cw_request w)) (Open_by i)
      (Writing_by i (cw_request w))" by (simp add: wired_step_def out)
  then show ?thesis by blast
next
  case (Writing w)
  then have out: "write_sheet (bk_write bk (xe_backend n) (cw_request w) b) w = (b', acts, p')" "s' = s"
    using step by (auto split: prod.splits)
  have ph: "phase_of (job_wire c (job_of_write w) es) = Some (Writing_by i (cw_request w))" by (rule exp) (simp add: Writing)
  with cur [of "job_of_write w"] have o: "occupied c (job_of_write w) s" by auto
  have "wired_step i c es s s' acts p' w Write_raised (Writing_by i (cw_request w)) (Raised_by i (cw_request w))
    \<or> (\<exists>raw. wired_step i c es s s' acts p' w (Write_answered raw) (Writing_by i (cw_request w))
              (Answered_by i (cw_request w) raw))"
    using out ph o by (auto simp: wired_step_def write_sheet_def split: prod.splits sum.splits)
  then show ?thesis by blast
next
  case (Recovering_write w e)
  then have out: "recover_write (bk_lookup bk (xe_backend n) (cw_request w) b) w e = (acts, p')" "s' = s"
    using step by (auto split: prod.splits)
  have ph: "phase_of (job_wire c (job_of_write w) es) = Some (Raised_by i (cw_request w))"
    by (rule exp) (simp add: Recovering_write)
  with cur [of "job_of_write w"] have o: "occupied c (job_of_write w) s" by auto
  have "silent_step i acts p'
    \<or> wired_step i c es s s' acts p' w Row_missing (Raised_by i (cw_request w)) (Missed_by i (cw_request w))"
    using out ph o by (auto simp: silent_step_def wired_step_def recover_write_def split: option.splits sum.splits)
  then show ?thesis by blast
next
  case (Releasing w e)
  then have out: "release_write c w e s = (s', acts, p')" using step by (simp split: prod.splits)
  have ph: "phase_of (job_wire c (job_of_write w) es) = Some (Missed_by i (cw_request w))"
    by (rule exp) (simp add: Releasing)
  have "silent_step i acts p' \<or> wired_step i c es s s' acts p' w Attempt_released (Missed_by i (cw_request w)) Free"
    using out ph by (auto simp: silent_step_def wired_step_def release_write_def split: prod.splits sum.splits)
  then show ?thesis by blast
next
  case (Looking w)
  then show ?thesis using step
    by (auto simp: silent_step_def look_up_write_def split: option.splits sum.splits)
next
  case (Storing w t)
  then show ?thesis using step
    by (auto simp: silent_step_def store_receipt_def split: prod.splits sum.splits)
qed (use step in simp_all)

text \<open>The receipt events of a step are for receipts that are in the table.\<close>

lemma step_stores:
  assumes step: "export_step sha256 bk n c aid p s b = Some (s', b', acts, p')" and ok: "sheets_ok s"
    and r: "(k, Receipt_stored r) \<in> set acts"
  shows "receipted c k s'"
proof -
  have "\<exists>w t. p = Storing w t"
    using step r by (cases p) (auto simp: begin_export_def write_sheet_def recover_write_def release_write_def
        look_up_write_def split: prod.splits sum.splits option.splits if_splits)
  then obtain w t where p: "p = Storing w t" by blast
  then have "store_receipt c aid w t s = (s', acts, p')" using step by (simp split: prod.splits)
  with r have "persist_body c aid w t s = Inr (r, s') \<and> k = job_of_write w"
    by (auto simp: store_receipt_def sheet_transaction_def split: prod.splits sum.splits)
  then show ?thesis
    using persist_ok(3) [OF _ ok] by (fastforce simp: receipted_def receipt_row_of_def job_of_write_def)
qed

lemma step_single:
  assumes "export_step sha256 bk n c aid p s b = Some (s', b', acts, p')"
  obtains "acts = []" | k a where "acts = [(k, a)]"
proof -
  have "acts = [] \<or> (\<exists>k a. acts = [(k, a)])"
    using assms by (cases p) (auto simp: begin_export_def write_sheet_def recover_write_def release_write_def
        look_up_write_def store_receipt_def split: prod.splits sum.splits option.splits if_splits)
  then show thesis using that by blast
qed

section \<open>The invariant is kept\<close>

lemma phases_step:
  assumes ok: "sheets_ok (ew_sheets w)" and old: "phases_kept w" and i: "i < length (ew_calls w)"
    and step: "export_step sha256 bk n c (ca_approval (ew_calls w ! i))
         (ca_pc (ew_calls w ! i)) (ew_sheets w) (ew_backend w) = Some (s, b, acts, p)"
    and c: "c = ca_company (ew_calls w ! i)"
  shows "phases_kept \<lparr>ew_sheets = s, ew_backend = b, ew_calls = (ew_calls w)[i := (ew_calls w ! i)\<lparr>ca_pc := p\<rparr>],
            ew_log = ew_log w @ logged_actions i c acts\<rparr>"
proof -
  let ?es = "ew_log w" and ?es' = "ew_log w @ logged_actions i c acts"
  have cur: "\<exists>ph. phase_of (job_wire c' k ?es) = Some ph \<and> (ph = Free \<or> occupied c' k (ew_sheets w))" for c' k
    using old unfolding phases_kept_def by blast
  have exp: "phase_of (job_wire (ca_company (ew_calls w ! j)) (job_of_write cw) ?es) = Some ph"
    if "j < length (ew_calls w)" "expected j (ca_pc (ew_calls w ! j)) = Some (cw, ph)" for j cw ph
    using old that unfolding phases_kept_def by blast
  have stay: "occupied c' k s" if "occupied c' k (ew_sheets w)" "\<not> (c' = c \<and> acts = [(k, Attempt_released)])" for c' k
    using step_sheets(3) [OF step ok that(1)] that(2) by blast
  have "silent_step i acts p \<or> (\<exists>cw a ph ph'. wired_step i c ?es (ew_sheets w) s acts p cw a ph ph')"
    by (rule step_phase [OF step ok cur]) (use exp [OF i] c in auto)
  then have "(\<forall>c' k. \<exists>ph. phase_of (job_wire c' k ?es') = Some ph \<and> (ph = Free \<or> occupied c' k s))
    \<and> (\<forall>j < length (ew_calls w). \<forall>cw ph. (if j = i then expected i p = Some (cw, ph)
          else expected j (ca_pc (ew_calls w ! j)) = Some (cw, ph)) \<longrightarrow>
        phase_of (job_wire (ca_company (ew_calls w ! j)) (job_of_write cw) ?es') = Some ph)"
  proof (elim disjE exE)
    assume q: "silent_step i acts p"
    then have "job_wire c' k ?es' = job_wire c' k ?es" for c' k
      by (auto simp: wire_logged silent_step_def list_all_iff filter_empty_conv)
    moreover have "acts \<noteq> [(k, Attempt_released)]" for k using q by (auto simp: silent_step_def)
    ultimately show ?thesis using cur stay exp q by (auto simp: silent_step_def) blast+
  next
    fix cw a ph ph'
    assume ws: "wired_step i c ?es (ew_sheets w) s acts p cw a ph ph'"
    then have acts: "acts = [(job_of_write cw, a)]" "wired a" and ph: "phase_of (job_wire c (job_of_write cw) ?es) = Some ph"
      and adv: "advance ph (i, a) = Some ph'" and occ: "ph' = Free \<or> occupied c (job_of_write cw) s"
      and p: "expected i p = None \<or> expected i p = Some (cw, ph')" by (simp_all add: wired_step_def)
    have here: "phase_of (job_wire c (job_of_write cw) ?es') = Some ph'" by (simp add: wire_logged acts ph adv)
    have there: "job_wire c' k ?es' = job_wire c' k ?es" if "(c', k) \<noteq> (c, job_of_write cw)" for c' k
      using that by (auto simp: wire_logged acts)
    have "\<exists>ph. phase_of (job_wire c' k ?es') = Some ph \<and> (ph = Free \<or> occupied c' k s)" for c' k
    proof (cases "(c', k) = (c, job_of_write cw)")
      case True
      then show ?thesis using here occ by auto
    next
      case False
      then show ?thesis using cur [of c' k] stay [of c' k] there acts by auto
    qed
    moreover have "phase_of (job_wire (ca_company (ew_calls w ! j)) (job_of_write v) ?es') = Some f"
      if j: "j < length (ew_calls w)" and f: "if j = i then expected i p = Some (v, f)
          else expected j (ca_pc (ew_calls w ! j)) = Some (v, f)" for j v f
    proof (cases "j = i")
      case True
      then show ?thesis using f p here c by auto
    next
      case False
      with f have e: "expected j (ca_pc (ew_calls w ! j)) = Some (v, f)" by simp
      have "(ca_company (ew_calls w ! j), job_of_write v) \<noteq> (c, job_of_write cw)"
      proof
        assume "(ca_company (ew_calls w ! j), job_of_write v) = (c, job_of_write cw)"
        then have "f = ph" using exp [OF j e] ph by simp
        then show False using owner_expected [OF e] owner_advance [OF adv] False by simp
      qed
      then show ?thesis using exp [OF j e] there by simp
    qed
    ultimately show ?thesis by blast
  qed
  then show ?thesis using i unfolding phases_kept_def by (auto simp: nth_list_update split: if_splits)
qed

lemma seal_step:
  assumes ok: "sheets_ok (ew_sheets w)" and old: "receipts_seal w"
    and step: "export_step sha256 bk n c aid p0 (ew_sheets w) (ew_backend w) = Some (s, b, acts, p)"
    and opened: "\<And>k. acts = [(k, Attempt_opened)] \<Longrightarrow> \<not> occupied c k (ew_sheets w)"
  shows "sealed c' k (ew_log w @ logged_actions i c acts)
    \<and> (list_ex (stores c' k) (ew_log w @ logged_actions i c acts) \<longrightarrow> receipted c' k s)"
proof -
  have was: "sealed c' k (ew_log w)" "list_ex (stores c' k) (ew_log w) \<Longrightarrow> receipted c' k (ew_sheets w)"
    using old unfolding receipts_seal_def by blast+
  have sealed_new: "sealed c' k (logged_actions i c acts)"
    using step by (cases rule: step_single) (simp_all add: sealed_none sealed_single)
  have "sealed c' k (ew_log w @ logged_actions i c acts)"
  proof (rule sealed_append [OF was(1) sealed_new])
    assume "list_ex (stores c' k) (ew_log w)"
    with was(2) have "occupied c' k (ew_sheets w)" by (simp add: occupied_def)
    with opened have "\<not> (c' = c \<and> acts = [(k, Attempt_opened)])" by blast
    with step show "(i, Attempt_opened) \<notin> set (job_wire c' k (logged_actions i c acts))"
      by (cases rule: step_single) (auto simp: wire_logged)
  qed (auto simp: logged_actions_def)
  moreover have "receipted c' k s" if "list_ex (stores c' k) (ew_log w @ logged_actions i c acts)"
  proof (cases "list_ex (stores c' k) (ew_log w)")
    case True
    then show ?thesis using was(2) grows_receipted [OF step_sheets(2) [OF step ok]] by blast
  next
    case False
    with that have "list_ex (stores c' k) (logged_actions i c acts)" by simp
    then obtain r where "c' = c" "(k, Receipt_stored r) \<in> set acts"
      by (auto simp: list_ex_iff stores_iff logged_actions_def)
    then show ?thesis using step_stores [OF step ok] by blast
  qed
  ultimately show ?thesis by blast
qed

lemma disciplined_initial: "disciplined x (initial_world d b)"
  using requests_initial [of x d b]
  by (simp add: disciplined_def phases_kept_def receipts_seal_def initial_world_def job_wire_def sealed_def)

text \<open>A change of the tables alone, a new call and a dead one.\<close>

lemma disciplined_sheets:
  assumes "phases_kept w" "receipts_seal w" "steady (ew_sheets w) s" "sheets_ok (ew_sheets w)"
  shows "phases_kept (w\<lparr>ew_sheets := s\<rparr>) \<and> receipts_seal (w\<lparr>ew_sheets := s\<rparr>)"
proof -
  have "occupied c k s" if "occupied c k (ew_sheets w)" for c k
    using that assms(3,4) by (simp add: steady_def)
  moreover have "receipted c k s" if "receipted c k (ew_sheets w)" for c k
    using that assms(3) grows_receipted by (auto simp: steady_def)
  ultimately show ?thesis using assms(1,2) unfolding phases_kept_def receipts_seal_def by (simp, blast)
qed

lemma phases_calls:
  assumes "phases_kept w"
    and "\<And>i. i < length cs \<Longrightarrow> expected i (ca_pc (cs ! i)) \<noteq> None \<Longrightarrow> i < length (ew_calls w) \<and> cs ! i = ew_calls w ! i"
  shows "phases_kept (w\<lparr>ew_calls := cs\<rparr>)"
  using assms unfolding phases_kept_def by (simp, metis option.distinct(1))

lemma disciplined_kept:
  assumes "disciplined x w"
  shows "disciplined x (export_react x bk inp w)"
proof -
  have req: "requests_approved x w" and ph: "phases_kept w" and seal: "receipts_seal w"
    using assms by (simp_all add: disciplined_def)
  then have ok: "sheets_ok (ew_sheets w)" by (simp add: requests_approved_def)
  have "phases_kept (export_react x bk inp w) \<and> receipts_seal (export_react x bk inp w)"
  proof (cases rule: react_cases [of x bk inp w])
    case 1
    with ph seal show ?thesis by simp
  next
    case (2 s)
    then show ?thesis using disciplined_sheets [OF ph seal _ ok] by simp
  next
    case (3 c aid)
    have "phases_kept (export_react x bk inp w)" unfolding 3
      by (rule phases_calls [OF ph]) (auto simp: nth_append split: if_splits)
    with 3 seal show ?thesis by (simp add: receipts_seal_def)
  next
    case (4 i)
    have "phases_kept (export_react x bk inp w)" unfolding 4(2)
      by (rule phases_calls [OF ph]) (use 4(1) in \<open>auto simp: nth_list_update split: if_splits\<close>)
    with 4(2) seal show ?thesis by (simp add: receipts_seal_def)
  next
    case (5 i n s b acts p)
    have "\<not> occupied (ca_company (ew_calls w ! i)) k (ew_sheets w)" if acts: "acts = [(k, Attempt_opened)]" for k
    proof -
      have "silent_step i acts p \<or> (\<exists>cw a ph ph'. wired_step i (ca_company (ew_calls w ! i)) (ew_log w) (ew_sheets w) s
          acts p cw a ph ph')"
        by (rule step_phase [OF 5(2) ok]) (use ph 5(1) in \<open>auto simp: phases_kept_def\<close>)
      with acts show ?thesis by (auto simp: silent_step_def wired_step_def)
    qed
    then have "receipts_seal (export_react x bk inp w)"
      using seal_step [OF ok seal 5(2)] unfolding 5(3) receipts_seal_def by simp
    moreover have "phases_kept (export_react x bk inp w)"
      unfolding 5(3) by (rule phases_step [OF ok ph 5(1,2) refl])
    ultimately show ?thesis by simp
  qed
  with requests_kept [OF req, of bk inp] show ?thesis by (simp add: disciplined_def)
qed

interpretation rounds: export_invariant x bk d b "disciplined x" for x bk d b
  by unfold_locales (rule disciplined_initial, rule disciplined_kept)

end
