(* ===== verification/ExportRecords.thy ===== *)
theory ExportRecords
  imports ExportDiscipline
begin

text \<open>
  Invariants on what the export worlds record: every write was sent for an approved plan, and every
  receipt, stored or returned, repeats an answer of the backend to the approved request.
\<close>

section \<open>Confirmed receipts\<close>

definition confirmed :: "pystr \<Rightarrow> write_request \<Rightarrow> instant \<Rightarrow> export_event list \<Rightarrow> bool" where
  "confirmed c q t es =
     (\<exists>e \<in> set es. \<exists>raw. xv_company e = c \<and> xv_job e = wq_job_id q
        \<and> (xv_action e = Write_answered raw \<or> xv_action e = Row_found raw)
        \<and> validate_backend_receipt q raw = Inr t)"

lemma confirmed_append: "confirmed c q t es \<Longrightarrow> confirmed c q t (es @ fs)"
  by (auto simp: confirmed_def)

lemma confirmed_later: "confirmed c q t fs \<Longrightarrow> confirmed c q t (es @ fs)"
  by (auto simp: confirmed_def)

definition writes_approved :: "externals \<Rightarrow> 'b export_world \<Rightarrow> bool" where
  "writes_approved x w =
     (\<forall>e \<in> set (ew_log w). \<forall>q. xv_action e = Write_started q \<longrightarrow>
        wq_job_id q = xv_job e \<and> (\<exists>aid. approved_request (ext_sha256 x) (xv_company e) aid q (ew_sheets w)))"

definition receipt_confirmed :: "externals \<Rightarrow> 'b export_world \<Rightarrow> receipt_row \<Rightarrow> write_request \<Rightarrow> instant \<Rightarrow> bool" where
  "receipt_confirmed x w r q t =
     (approved_request (ext_sha256 x) (er_company_id r) (er_approval_record_id r) q (ew_sheets w)
      \<and> receipt_row_of (er_company_id r) (er_approval_record_id r) q t r
      \<and> confirmed (er_company_id r) q t (ew_log w))"

definition receipts_confirmed :: "externals \<Rightarrow> 'b export_world \<Rightarrow> bool" where
  "receipts_confirmed x w =
     ((\<forall>r \<in> set (sh_receipts (ew_sheets w)). \<exists>q t. receipt_confirmed x w r q t)
      \<and> (\<forall>ca \<in> set (ew_calls w). \<forall>cw t. ca_pc ca = Storing cw t \<longrightarrow> confirmed (ca_company ca) (cw_request cw) t (ew_log w)))"

definition receipts_returned :: "externals \<Rightarrow> 'b export_world \<Rightarrow> bool" where
  "receipts_returned x w =
     (\<forall>ca \<in> set (ew_calls w). \<forall>r. ca_pc ca = Ended (Inr r) \<longrightarrow>
        (\<exists>row \<in> set (sh_receipts (ew_sheets w)). \<exists>q t. receipt_confirmed x w row q t
           \<and> er_company_id row = ca_company ca \<and> er_approval_record_id row = ca_approval ca
           \<and> r = receipt_of_request q (wq_destination_reference q) t))"

definition records_true :: "externals \<Rightarrow> 'b export_world \<Rightarrow> bool" where
  "records_true x w = (requests_approved x w \<and> writes_approved x w \<and> receipts_confirmed x w \<and> receipts_returned x w)"

lemma receipt_confirmed_grows:
  assumes "receipt_confirmed x w r q t" "tables_grow (ew_sheets w) (ew_sheets w')" "ew_log w' = ew_log w @ fs"
  shows "receipt_confirmed x w' r q t"
  using assms grows_request confirmed_append unfolding receipt_confirmed_def by metis

section \<open>One step\<close>

lemma step_started:
  assumes "export_step sha256 bk n c aid p s b = Some (s', b', acts, p')" "(k, Write_started q) \<in> set acts"
  obtains w where "p = Cleared w" "q = cw_request w" "k = wq_job_id q" "s' = s"
proof -
  have "\<exists>w. p = Cleared w \<and> q = cw_request w \<and> k = wq_job_id q \<and> s' = s"
    using assms by (cases p) (auto simp: begin_export_def write_sheet_def recover_write_def release_write_def
        look_up_write_def store_receipt_def job_of_write_def split: prod.splits sum.splits option.splits if_splits)
  then show thesis using that by blast
qed

lemma settle_write_Storing:
  "settle_write w raw = Storing cw t \<longleftrightarrow> cw = w \<and> validate_backend_receipt (cw_request w) raw = Inr t"
  by (auto simp: settle_write_def split: sum.splits)

lemma step_storing:
  assumes "export_step sha256 bk n c aid p s b = Some (s', b', acts, Storing cw t)"
  shows "confirmed c (cw_request cw) t (logged_actions i c acts)"
proof -
  have "\<exists>raw. (acts = [(job_of_write cw, Write_answered raw)] \<or> acts = [(job_of_write cw, Row_found raw)])
      \<and> validate_backend_receipt (cw_request cw) raw = Inr t"
    using assms by (cases p) (auto simp: begin_export_def write_sheet_def recover_write_def release_write_def
        look_up_write_def store_receipt_def settle_write_Storing
        split: prod.splits sum.splits option.splits if_splits)
  then show ?thesis by (auto simp: confirmed_def logged_actions_def job_of_write_def)
qed

text \<open>The receipt rows a step adds, and the receipt it returns.\<close>

lemma step_receipts:
  assumes step: "export_step sha256 bk n c aid p s b = Some (s', b', acts, p')" and ok: "sheets_ok s"
    and r: "r \<in> set (sh_receipts s')" "r \<notin> set (sh_receipts s)"
  obtains w t where "p = Storing w t" "receipt_row_of c aid (cw_request w) t r"
proof (cases p)
  case Export_called
  then have "begin_export sha256 (\<lambda>q. bk_lookup bk (xe_backend n) q b) n c aid s = (s', acts, p')"
    using step by (simp split: prod.splits)
  then have "sh_receipts s' = sh_receipts s"
    by (cases rule: begin_export_cases) (use claim_write_ok(4) [OF _ ok] in auto)
  with r show thesis by simp
next
  case (Releasing w e)
  then have "release_write c w e s = (s', acts, p')" using step by (simp split: prod.splits)
  then have "sh_receipts s' = sh_receipts s"
    by (auto simp: release_write_def sheet_transaction_def release_body_def bnd_eq_Inr
        dest: delete_attempt_ok(3) [OF _ ok] split: sum.splits)
  with r show thesis by simp
next
  case (Storing w t)
  then have st: "store_receipt c aid w t s = (s', acts, p')" using step by (simp split: prod.splits)
  show thesis
  proof (cases "persist_body c aid w t s")
    case (Inl e)
    with st r show thesis by (auto simp: store_receipt_def sheet_transaction_def)
  next
    case (Inr out)
    then obtain y where "persist_body c aid w t s = Inr (y, s')" using st
      by (cases out) (auto simp: store_receipt_def sheet_transaction_def)
    from persist_ok(4) [OF this ok r(1)] r(2) that Storing show thesis by blast
  qed
qed (use step r in \<open>auto split: prod.splits\<close>)

lemma step_returns:
  assumes step: "export_step sha256 bk n c aid p s b = Some (s', b', acts, Ended (Inr r))" and ok: "sheets_ok s"
  obtains w t where "p = Storing w t" "r = receipt_of_request (cw_request w) (wq_destination_reference (cw_request w)) t"
      "\<exists>row \<in> set (sh_receipts s'). receipt_row_of c aid (cw_request w) t row"
  | row q t where "s' = s" "row \<in> set (sh_receipts s)" "receipt_row_of c aid q t row"
      "r = receipt_of_request q (wq_destination_reference q) t"
proof (cases p)
  case Export_called
  then have "begin_export sha256 (\<lambda>q. bk_lookup bk (xe_backend n) q b) n c aid s = (s', acts, Ended (Inr r))"
    using step by (simp split: prod.splits)
  then show thesis
  proof (cases rule: begin_export_cases)
    case (2 r')
    obtain ap pl cp q where "case receipt_for c aid s of
        Some row \<Rightarrow> \<exists>x. confirm_receipt q (bk_lookup bk (xe_backend n) q b) row = Inr x
          \<and> (Inl r' :: export_receipt + claimed_write) = Inl x \<and> s' = s
      | None \<Rightarrow> \<exists>w. open_attempt c ap q (xe_clock n) (attempt_id_of (xe_uuid n)) s = Inr (w, s') \<and> Inl r' = Inr w"
      using 2(4) by (rule claim_body_parts) blast
    then obtain row where row: "receipt_for c aid s = Some row"
      and conf: "confirm_receipt q (bk_lookup bk (xe_backend n) q b) row = Inr r'" by (auto split: option.splits)
    from conf obtain t where "er_job_id row = wq_job_id q" "er_export_key row = wq_export_key q"
      "parse_aware (er_exported_at row) = Some t" "er_destination_reference row = wq_destination_reference q"
      "r' = receipt_of_request q (wq_destination_reference q) t"
      by (auto simp: confirm_receipt_def bnd_eq_Inr persisted_at_def split: option.splits if_splits)
    then show thesis
      by (intro that(2) [of row q t]) (use receipt_for_row [OF row] 2(1,3) in \<open>simp_all add: receipt_row_of_def\<close>)
  qed simp_all
next
  case (Storing w t)
  then have st: "store_receipt c aid w t s = (s', acts, Ended (Inr r))" using step by (simp split: prod.splits)
  then have "persist_body c aid w t s = Inr (r, s')"
    by (auto simp: store_receipt_def sheet_transaction_def split: prod.splits sum.splits)
  then show thesis using that(1) [OF Storing] persist_ok(2,3) [OF _ ok] by blast
qed (use step in \<open>auto simp: write_sheet_def recover_write_def release_write_def look_up_write_def settle_write_def
      split: prod.splits sum.splits option.splits\<close>)

section \<open>The invariant is kept\<close>

lemma records_initial: "records_true x (initial_world d b)"
  using requests_initial [of x d b]
  by (simp add: records_true_def writes_approved_def receipts_confirmed_def receipts_returned_def
      initial_world_def empty_sheets_def)

text \<open>When the rows and events stay, and no call gets to a receipt.\<close>

lemma records_still:
  assumes "writes_approved x w" "receipts_confirmed x w" "receipts_returned x w"
    and g: "tables_grow (ew_sheets w) (ew_sheets w')" "ew_log w' = ew_log w"
      "set (sh_receipts (ew_sheets w')) \<subseteq> set (sh_receipts (ew_sheets w))"
    and calls: "\<And>ca. ca \<in> set (ew_calls w') \<Longrightarrow> ca \<in> set (ew_calls w) \<or> ca_pc ca = Export_called \<or> ca_pc ca = Dead"
  shows "writes_approved x w' \<and> receipts_confirmed x w' \<and> receipts_returned x w'"
proof -
  have conf: "receipt_confirmed x w' r q t" if "receipt_confirmed x w r q t" for r q t
    by (rule receipt_confirmed_grows [OF that g(1)]) (simp add: g(2))
  have "writes_approved x w'"
    using assms(1) grows_request [OF g(1)] unfolding writes_approved_def g(2) by blast
  moreover have "receipts_confirmed x w'"
    unfolding receipts_confirmed_def
  proof (intro conjI ballI allI impI)
    show "\<exists>q t. receipt_confirmed x w' r q t" if "r \<in> set (sh_receipts (ew_sheets w'))" for r
      using that g(3) assms(2) conf unfolding receipts_confirmed_def by blast
    show "confirmed (ca_company ca) (cw_request cw) t (ew_log w')"
      if "ca \<in> set (ew_calls w')" "ca_pc ca = Storing cw t" for ca cw t
      using calls [OF that(1)] that(2) assms(2) unfolding receipts_confirmed_def g(2) by auto
  qed
  moreover have "receipts_returned x w'"
    unfolding receipts_returned_def
  proof (intro ballI allI impI)
    fix ca r assume ca: "ca \<in> set (ew_calls w')" "ca_pc ca = Ended (Inr r)"
    then have "ca \<in> set (ew_calls w)" using calls by fastforce
    then obtain row q t where "row \<in> set (sh_receipts (ew_sheets w))" "receipt_confirmed x w row q t"
      "er_company_id row = ca_company ca" "er_approval_record_id row = ca_approval ca"
      "r = receipt_of_request q (wq_destination_reference q) t"
      using assms(3) ca(2) unfolding receipts_returned_def by blast
    moreover from this(1) g(1) have "row \<in> set (sh_receipts (ew_sheets w'))" by (auto simp: tables_grow_def)
    ultimately show "\<exists>row \<in> set (sh_receipts (ew_sheets w')). \<exists>q t. receipt_confirmed x w' row q t
        \<and> er_company_id row = ca_company ca \<and> er_approval_record_id row = ca_approval ca
        \<and> r = receipt_of_request q (wq_destination_reference q) t" using conf by blast
  qed
  ultimately show ?thesis by blast
qed

lemma records_step:
  assumes rec: "records_true x w" and i: "i < length (ew_calls w)"
    and step: "export_step (ext_sha256 x) bk n c aid (ca_pc (ew_calls w ! i)) (ew_sheets w) (ew_backend w)
      = Some (s, b, acts, p)"
    and ca: "c = ca_company (ew_calls w ! i)" "aid = ca_approval (ew_calls w ! i)"
    and w': "w' = \<lparr>ew_sheets = s, ew_backend = b, ew_calls = (ew_calls w)[i := (ew_calls w ! i)\<lparr>ca_pc := p\<rparr>],
            ew_log = ew_log w @ logged_actions i c acts\<rparr>"
  shows "writes_approved x w' \<and> receipts_confirmed x w' \<and> receipts_returned x w'"
proof -
  have ok: "sheets_ok (ew_sheets w)" and wa: "writes_approved x w" and rc: "receipts_confirmed x w"
    and rr: "receipts_returned x w" using rec by (simp_all add: records_true_def requests_approved_def)
  have request: "approved_request (ext_sha256 x) c aid (cw_request cw) (ew_sheets w)"
    if "write_of (ca_pc (ew_calls w ! i)) = Some cw" for cw
    using rec that i nth_mem [OF i] unfolding ca records_true_def requests_approved_def by blast
  note g = step_sheets(2) [OF step ok]
  have conf: "receipt_confirmed x w' r q t" if "receipt_confirmed x w r q t" for r q t
    by (rule receipt_confirmed_grows [OF that]) (simp_all add: w' g)
  have fresh: "receipt_confirmed x w' r (cw_request cw) t"
    if p: "ca_pc (ew_calls w ! i) = Storing cw t" and r: "receipt_row_of c aid (cw_request cw) t r" for r cw t
  proof -
    have "confirmed c (cw_request cw) t (ew_log w)"
      using rc p nth_mem [OF i] unfolding receipts_confirmed_def ca by blast
    moreover have "approved_request (ext_sha256 x) c aid (cw_request cw) s"
      using grows_request [OF g request] p by simp
    ultimately show ?thesis using r
      by (simp add: receipt_confirmed_def w' receipt_row_of_def confirmed_append)
  qed
  have new: "ca \<in> set (ew_calls w) \<or> ca = (ew_calls w ! i)\<lparr>ca_pc := p\<rparr>" if "ca \<in> set (ew_calls w')" for ca
    using that set_update_subset_insert [of "ew_calls w" i] by (auto simp: w')
  have "writes_approved x w'"
    unfolding writes_approved_def
  proof (intro ballI allI impI)
    fix e q assume e: "e \<in> set (ew_log w')" "xv_action e = Write_started q"
    show "wq_job_id q = xv_job e \<and> (\<exists>aid. approved_request (ext_sha256 x) (xv_company e) aid q (ew_sheets w'))"
    proof (cases "e \<in> set (ew_log w)")
      case True
      then show ?thesis using wa e(2) grows_request [OF g] unfolding writes_approved_def w' by (simp, blast)
    next
      case False
      with e have "xv_company e = c" "(xv_job e, Write_started q) \<in> set acts"
        by (auto simp: w' logged_actions_def)
      moreover from step_started [OF step this(2)] obtain cw where "ca_pc (ew_calls w ! i) = Cleared cw"
        "q = cw_request cw" "xv_job e = wq_job_id q" "s = ew_sheets w" by blast
      ultimately show ?thesis using request [of cw] by (auto simp: w')
    qed
  qed
  moreover have "receipts_confirmed x w'"
    unfolding receipts_confirmed_def
  proof (intro conjI ballI allI impI)
    fix r assume r: "r \<in> set (sh_receipts (ew_sheets w'))"
    show "\<exists>q t. receipt_confirmed x w' r q t"
    proof (cases "r \<in> set (sh_receipts (ew_sheets w))")
      case True
      then show ?thesis using rc conf unfolding receipts_confirmed_def by blast
    next
      case False
      with r have "r \<in> set (sh_receipts s)" by (simp add: w')
      from step_receipts [OF step ok this False] show ?thesis using fresh by metis
    qed
  next
    fix ca' cw t assume c': "ca' \<in> set (ew_calls w')" "ca_pc ca' = Storing cw t"
    show "confirmed (ca_company ca') (cw_request cw) t (ew_log w')"
    proof (cases "ca' \<in> set (ew_calls w)")
      case True
      then show ?thesis using rc c'(2) unfolding receipts_confirmed_def by (simp add: w' confirmed_append)
    next
      case False
      then have "ca' = (ew_calls w ! i)\<lparr>ca_pc := p\<rparr>" using new [OF c'(1)] by simp
      with c'(2) have p: "p = Storing cw t" "ca_company ca' = c" by (simp_all add: ca)
      show ?thesis using confirmed_later [OF step_storing [OF step [unfolded p(1)], of i]] p(2) by (simp add: w')
    qed
  qed
  moreover have "receipts_returned x w'"
    unfolding receipts_returned_def
  proof (intro ballI allI impI)
    fix ca' r assume c': "ca' \<in> set (ew_calls w')" "ca_pc ca' = Ended (Inr r)"
    show "\<exists>row \<in> set (sh_receipts (ew_sheets w')). \<exists>q t. receipt_confirmed x w' row q t
        \<and> er_company_id row = ca_company ca' \<and> er_approval_record_id row = ca_approval ca'
        \<and> r = receipt_of_request q (wq_destination_reference q) t"
    proof (cases "ca' \<in> set (ew_calls w)")
      case True
      then obtain row q t where "row \<in> set (sh_receipts (ew_sheets w))" "receipt_confirmed x w row q t"
        "er_company_id row = ca_company ca'" "er_approval_record_id row = ca_approval ca'"
        "r = receipt_of_request q (wq_destination_reference q) t"
        using rr c'(2) unfolding receipts_returned_def by blast
      moreover from this(1) g have "row \<in> set (sh_receipts (ew_sheets w'))" by (auto simp: tables_grow_def w')
      ultimately show ?thesis using conf by blast
    next
      case False
      then have "ca' = (ew_calls w ! i)\<lparr>ca_pc := p\<rparr>" using new [OF c'(1)] by simp
      with c'(2) have p: "p = Ended (Inr r)" "ca_company ca' = c" "ca_approval ca' = aid" by (simp_all add: ca)
      show ?thesis using step [unfolded p(1)] ok
      proof (cases rule: step_returns)
        case (1 cw t)
        then obtain row where row: "row \<in> set (sh_receipts s)" "receipt_row_of c aid (cw_request cw) t row" by blast
        with fresh [OF 1(1) row(2)] 1(2) p(2,3) show ?thesis
          by (intro bexI [of _ row] exI [of _ "cw_request cw"] exI [of _ t]) (simp_all add: w' receipt_row_of_def)
      next
        case (2 row q t)
        obtain q' t' where q': "receipt_confirmed x w row q' t'"
          using rc 2(2) unfolding receipts_confirmed_def by blast
        have "t' = t" "wq_job_id q' = wq_job_id q" "wq_export_key q' = wq_export_key q"
          "wq_destination_reference q' = wq_destination_reference q"
          using q' 2(3) by (auto simp: receipt_confirmed_def receipt_row_of_def)
        then have "r = receipt_of_request q' (wq_destination_reference q') t'"
          using 2(4) by (simp add: receipt_of_request_def)
        then show ?thesis using conf [OF q'] 2(1-3) p(2,3)
          by (intro bexI [of _ row] exI [of _ q'] exI [of _ t']) (simp_all add: w' receipt_row_of_def)
      qed
    qed
  qed
  ultimately show ?thesis by blast
qed

lemma records_kept:
  assumes "records_true x w"
  shows "records_true x (export_react x bk inp w)"
proof -
  have req: "requests_approved x w" and parts: "writes_approved x w" "receipts_confirmed x w" "receipts_returned x w"
    using assms by (simp_all add: records_true_def)
  note g = requests_kept [OF req, of bk inp]
  have "writes_approved x (export_react x bk inp w) \<and> receipts_confirmed x (export_react x bk inp w)
      \<and> receipts_returned x (export_react x bk inp w)"
  proof (cases rule: react_cases [of x bk inp w])
    case 1
    then show ?thesis using parts by simp
  next
    case (2 s)
    show ?thesis by (rule records_still [OF parts g [THEN conjunct2]]) (simp_all add: 2)
  next
    case (3 c aid)
    show ?thesis by (rule records_still [OF parts g [THEN conjunct2]]) (auto simp: 3)
  next
    case (4 i)
    show ?thesis
      by (rule records_still [OF parts g [THEN conjunct2]])
        (use set_update_subset_insert [of "ew_calls w" i "(ew_calls w ! i)\<lparr>ca_pc := Dead\<rparr>"] in \<open>auto simp: 4(2)\<close>)
  next
    case (5 i n s b acts p)
    show ?thesis by (rule records_step [OF assms 5(1,2) refl refl 5(3)])
  qed
  with g show ?thesis by (simp add: records_true_def)
qed

interpretation records: export_invariant x bk d b "records_true x" for x bk d b
  by unfold_locales (rule records_initial, rule records_kept)

end
