(* ===== verification/ExportBackend.thy ===== *)
theory ExportBackend
  imports ExportRecords
begin

text \<open>
  Backends that tell the truth: what a write or a lookup answers is in the sheet and stays there.  The
  repository's \<open>MockSheetExportBackend\<close> is one; and no call of \<open>execute_export\<close> runs forever, whatever the
  backend does.
\<close>

section \<open>Honest backends\<close>

locale honest_backend =
  fixes bk :: "('b, 'e) backend" and shows_row :: "'b \<Rightarrow> write_request \<Rightarrow> raw_receipt \<Rightarrow> bool"
  assumes write_shows: "bk_write bk e q b = (Inr raw, b') \<Longrightarrow> shows_row b' q raw"
    and lookup_shows: "bk_lookup bk e q b = Inr (Some raw) \<Longrightarrow> shows_row b q raw"
    and write_keeps: "shows_row b q raw \<Longrightarrow> shows_row (snd (bk_write bk e q' b)) q raw"
begin

text \<open>An answer in the log is in the sheet, for the request its job's claim stands for.\<close>

definition answers_shown :: "externals \<Rightarrow> 'b export_world \<Rightarrow> bool" where
  "answers_shown x w =
     (requests_approved x w
      \<and> (\<forall>e \<in> set (ew_log w). \<forall>raw. xv_action e = Write_answered raw \<or> xv_action e = Row_found raw \<longrightarrow>
           (\<exists>aid q. wq_job_id q = xv_job e \<and> approved_request (ext_sha256 x) (xv_company e) aid q (ew_sheets w)
              \<and> shows_row (ew_backend w) q raw)))"

lemma step_answers:
  assumes "export_step sha256 bk n c aid p s b = Some (s', b', acts, p')"
    and "(k, a) \<in> set acts" "a = Write_answered raw \<or> a = Row_found raw"
  shows "\<exists>w. write_of p = Some w \<and> k = job_of_write w \<and> shows_row b' (cw_request w) raw"
  using assms write_shows lookup_shows
  by (cases p) (auto simp: begin_export_def write_sheet_def recover_write_def release_write_def
      look_up_write_def store_receipt_def split: prod.splits sum.splits option.splits if_splits)

lemma step_keeps:
  assumes "export_step sha256 bk n c aid p s b = Some (s', b', acts, p')" "shows_row b q raw"
  shows "shows_row b' q raw"
proof (cases p)
  case (Writing w)
  then have "b' = snd (bk_write bk (xe_backend n) (cw_request w) b)"
    using assms(1) by (auto simp: write_sheet_def split: prod.splits sum.splits)
  then show ?thesis using write_keeps [OF assms(2)] by simp
qed (use assms in \<open>auto split: prod.splits\<close>)

lemma shown_kept:
  assumes "answers_shown x w"
  shows "answers_shown x (export_react x bk inp w)"
proof -
  have req: "requests_approved x w" using assms by (simp add: answers_shown_def)
  note g = requests_kept [OF req, of bk inp]
  have old: "\<exists>aid q. wq_job_id q = xv_job e
      \<and> approved_request (ext_sha256 x) (xv_company e) aid q (ew_sheets (export_react x bk inp w))
      \<and> shows_row (ew_backend w) q raw"
    if "e \<in> set (ew_log w)" "xv_action e = Write_answered raw \<or> xv_action e = Row_found raw" for e raw
    using assms that grows_request [OF g [THEN conjunct2]] unfolding answers_shown_def by metis
  have "\<exists>aid q. wq_job_id q = xv_job e
      \<and> approved_request (ext_sha256 x) (xv_company e) aid q (ew_sheets (export_react x bk inp w))
      \<and> shows_row (ew_backend (export_react x bk inp w)) q raw"
    if e: "e \<in> set (ew_log (export_react x bk inp w))"
      "xv_action e = Write_answered raw \<or> xv_action e = Row_found raw" for e raw
  proof (cases rule: react_cases [of x bk inp w])
    case (5 i n s b acts p)
    show ?thesis
    proof (cases "e \<in> set (ew_log w)")
      case True
      from old [OF this e(2)] step_keeps [OF 5(2)] show ?thesis unfolding 5(3) by auto
    next
      case False
      let ?ca = "ew_calls w ! i"
      from False e have ev: "xv_company e = ca_company ?ca" "(xv_job e, xv_action e) \<in> set acts"
        by (auto simp: 5(3) logged_actions_def)
      from step_answers [OF 5(2) ev(2) e(2)] obtain cw where cw: "write_of (ca_pc ?ca) = Some cw"
        "xv_job e = job_of_write cw" "shows_row b (cw_request cw) raw" by blast
      have "approved_request (ext_sha256 x) (ca_company ?ca) (ca_approval ?ca) (cw_request cw) (ew_sheets w)"
        using req cw(1) nth_mem [OF 5(1)] unfolding requests_approved_def by blast
      from grows_request [OF g [THEN conjunct2] this] cw(2,3) ev(1) show ?thesis
        by (auto simp: 5(3) job_of_write_def)
    qed
  qed (use old e in auto)
  with g show ?thesis unfolding answers_shown_def by blast
qed

lemma shown_initial: "answers_shown x (initial_world d b)"
  using requests_initial [of x d b] by (simp add: answers_shown_def initial_world_def)

sublocale shown: export_invariant x bk d b "answers_shown x" for x d b
  by unfold_locales (rule shown_initial, rule shown_kept)

text \<open>So every stored receipt repeats a row of the sheet.\<close>

lemma receipt_in_sheet:
  assumes reach: "exports_reach x bk d b w" and r: "receipt_confirmed x w r q t"
  shows "\<exists>raw. shows_row (ew_backend w) q raw \<and> validate_backend_receipt q raw = Inr t"
proof -
  have ok: "sheets_ok (ew_sheets w)" using requests.reachable [OF reach] by (simp add: requests_approved_def)
  from r obtain e raw where e: "e \<in> set (ew_log w)" "xv_company e = er_company_id r" "xv_job e = wq_job_id q"
    "xv_action e = Write_answered raw \<or> xv_action e = Row_found raw" "validate_backend_receipt q raw = Inr t"
    unfolding receipt_confirmed_def confirmed_def by blast
  then obtain aid q' where q': "wq_job_id q' = wq_job_id q"
    "approved_request (ext_sha256 x) (er_company_id r) aid q' (ew_sheets w)" "shows_row (ew_backend w) q' raw"
    using shown.reachable [OF reach] unfolding answers_shown_def by metis
  have "approved_request (ext_sha256 x) (er_company_id r) (er_approval_record_id r) q (ew_sheets w)"
    using r by (simp add: receipt_confirmed_def)
  from approved_request_same(1) [OF ok this q'(2,1)] have "q' = q" .
  with q'(3) e(5) show ?thesis by blast
qed

end

section \<open>The mock backend\<close>

definition mock_shows :: "mock_rows \<Rightarrow> write_request \<Rightarrow> raw_receipt \<Rightarrow> bool" where
  "mock_shows held q raw =
     (case map_of held (wq_export_key q) of None \<Rightarrow> False | Some (q', r) \<Rightarrow> same_request q' q \<and> raw = Some r)"

lemma same_request_refl [simp]: "same_request q q"
  by (simp add: same_request_def same_items_def)

lemma mock_write_map:
  assumes "map_of held (wq_export_key q) = Some v"
  shows "map_of (snd (mock_write clock q' held)) (wq_export_key q) = Some v"
  using assms by (auto simp: mock_write_def Let_def map_add_def split: option.splits sum.splits)

interpretation mock: honest_backend mock_backend mock_shows
proof
  show "bk_write mock_backend e q b = (Inr raw, b') \<Longrightarrow> mock_shows b' q raw" for e q b raw b'
    by (auto simp: mock_backend_def mock_write_def mock_shows_def Let_def map_add_def
        split: option.splits sum.splits if_splits)
  show "bk_lookup mock_backend e q b = Inr (Some raw) \<Longrightarrow> mock_shows b q raw" for e q b raw
    by (auto simp: mock_backend_def mock_lookup_def mock_shows_def split: option.splits if_splits)
  show "mock_shows b q raw \<Longrightarrow> mock_shows (snd (bk_write mock_backend e q' b)) q raw" for b q raw e q'
    using mock_write_map [of b q] by (auto simp: mock_backend_def mock_shows_def split: option.splits)
qed

text \<open>The mock has one row per export key.\<close>

lemma mock_write_distinct:
  "distinct (map fst held) \<Longrightarrow> distinct (map fst (snd (mock_write clock q held)))"
  by (auto simp: mock_write_def Let_def map_of_eq_None_iff split: option.splits sum.splits)

section \<open>Every call ends\<close>

fun turns_left :: "export_pc \<Rightarrow> nat" where
  "turns_left Export_called = 6"
| "turns_left (Cleared w) = 5"
| "turns_left (Writing w) = 4"
| "turns_left (Recovering_write w e) = 3"
| "turns_left (Looking w) = 3"
| "turns_left (Releasing w e) = 2"
| "turns_left (Storing w t) = 1"
| "turns_left (Ended r) = 0"
| "turns_left Dead = 0"

lemma turns_settle: "1 < n \<Longrightarrow> turns_left (settle_write w raw) < n"
  by (simp add: settle_write_def split: sum.splits)

lemma step_turns:
  assumes "export_step sha256 bk n c aid p s b = Some (s', b', acts, p')"
  shows "turns_left p' < turns_left p"
  using assms
  by (cases p) (auto simp: begin_export_def write_sheet_def recover_write_def release_write_def look_up_write_def
      store_receipt_def turns_settle split: prod.splits sum.splits option.splits if_splits)

lemma step_blocked: "export_step sha256 bk n c aid p s b = None \<longleftrightarrow> turns_left p = 0"
  by (cases p) (auto split: prod.splits)

end
