(* ===== verification/ExportRecovery.thy ===== *)
theory ExportRecovery
  imports ExportBackend
begin

text \<open>
  What a crash between the write and the receipt leaves behind, on the mock backend: a later call finds
  the attempt open, finds the row, and stores the receipt without another write.
\<close>

section \<open>Texts\<close>

lemma lower_hex_small:
  assumes "lower_hex c"
  shows "(of_char c :: nat) < 128" "lower_char c = c"
  using assms by (auto simp: lower_hex_def lower_char_def)

lemma ascii_characters:
  "list_all (\<lambda>c. (of_char c :: nat) < 128) s \<Longrightarrow> length (characters s) = length s"
proof (induction s)
  case (Cons c s)
  then have "first_len True (c # s) = 1" by (simp add: first_len_def)
  with Cons show ?case by (simp add: characters.simps [of "c # s"])
qed (simp add: characters.simps)

lemma sha256_lower_64: "is_sha256_hex h \<Longrightarrow> lower_64 h"
  using lower_hex_small by (auto simp: is_sha256_hex_def lower_64_def list_all_iff ascii_characters intro: map_idI)

lemma stripped_trimmed:
  assumes "strip s = s" "\<not> blank s"
  shows "trimmed s"
proof -
  have "s \<noteq> []" using assms(2) by (metis assms(1) strip_Nil_iff)
  moreover have "lead_space s = 0" "trail_space s = 0"
    using assms(1) by (metis lead_space_lstrip lead_space_rstrip strip_def trail_space_rstrip)+
  moreover have "ascii_space CHR '' ''" by (simp add: ascii_space_def)
  ultimately have "hd s \<noteq> CHR '' ''" "last s \<noteq> CHR '' ''"
    by (auto simp: lead_space_def trail_space_def neq_Nil_conv hd_rev [symmetric] split: list.splits)
  with \<open>s \<noteq> []\<close> have "dropWhile (\<lambda>c. c = CHR '' '') s = s" "dropWhile (\<lambda>c. c = CHR '' '') (rev s) = rev s"
    by (simp_all add: dropWhile_eq_self_iff hd_rev)
  with \<open>s \<noteq> []\<close> show ?thesis by (simp add: trimmed_def sql_trim_def)
qed

section \<open>The mock's rows\<close>

definition mock_row_ok :: "pystr \<times> write_request \<times> write_receipt \<Rightarrow> bool" where
  "mock_row_ok = (\<lambda>(key, q, r). key = wq_export_key q \<and>
     (\<exists>t. valid_instant t \<and> r = \<lparr>wr_export_key = wq_export_key q, wr_spreadsheet_id = wq_spreadsheet_id q,
        wr_sheet_name = wq_sheet_name q, wr_row_selector = wq_row_selector q,
        wr_destination_reference = wq_destination_reference q, wr_exported_at = Some t\<rparr>))"

definition mock_ok :: "mock_rows export_world \<Rightarrow> bool" where
  "mock_ok w = (list_all mock_row_ok (ew_backend w) \<and> distinct (map fst (ew_backend w)))"

lemma mock_write_ok:
  "list_all mock_row_ok held \<and> distinct (map fst held)
   \<Longrightarrow> list_all mock_row_ok (snd (mock_write clock q held)) \<and> distinct (map fst (snd (mock_write clock q held)))"
  using mock_write_distinct [of held clock q]
  by (auto simp: mock_write_def Let_def aware_clock_def in_range_def mock_row_ok_def split: option.splits sum.splits if_splits)

lemma mock_kept:
  assumes "mock_ok w"
  shows "mock_ok (export_react x mock_backend inp w)"
proof (cases rule: react_cases [of x mock_backend inp w])
  case (5 i n s b acts p)
  have "b = ew_backend w \<or> (\<exists>cw. b = snd (mock_write (xe_backend n) cw (ew_backend w)))"
    using 5(2) by (cases "ca_pc (ew_calls w ! i)")
      (auto simp: mock_backend_def write_sheet_def split: prod.splits sum.splits, (metis snd_conv)+)
  then show ?thesis using assms mock_write_ok unfolding mock_ok_def 5(3) by auto
qed (use assms in \<open>auto simp: mock_ok_def\<close>)

interpretation mock_sheet: export_invariant x mock_backend d "[]" mock_ok for x d
  by unfold_locales (simp add: mock_ok_def initial_world_def, rule mock_kept)

lemma same_request_fields:
  assumes "same_request q' q"
  shows "wq_export_key q' = wq_export_key q" "wq_spreadsheet_id q' = wq_spreadsheet_id q"
    "wq_sheet_name q' = wq_sheet_name q" "wq_row_selector q' = wq_row_selector q"
    "wq_destination_reference q' = wq_destination_reference q" "same_items (wq_cells q') (wq_cells q)"
  using assms by (cases q'; cases q; simp add: same_request_def)+

lemma mock_lookup_valid:
  assumes "mock_ok w" "mock_lookup e q (ew_backend w) = Inr (Some raw)"
    and "non_empty_text 2048 (wq_destination_reference q) = Inr v"
  obtains t where "valid_instant t" "validate_backend_receipt q raw = Inr t"
proof -
  from assms(2) obtain q' r where r: "map_of (ew_backend w) (wq_export_key q) = Some (q', r)" "same_request q' q" "raw = Some r"
    by (auto simp: mock_lookup_def split: option.splits if_splits)
  from map_of_SomeD [OF r(1)] assms(1) have "mock_row_ok (wq_export_key q, q', r)"
    by (auto simp: mock_ok_def list_all_iff)
  then obtain t where t: "valid_instant t" and "r = \<lparr>wr_export_key = wq_export_key q', wr_spreadsheet_id = wq_spreadsheet_id q',
        wr_sheet_name = wq_sheet_name q', wr_row_selector = wq_row_selector q',
        wr_destination_reference = wq_destination_reference q', wr_exported_at = Some t\<rparr>"
    by (auto simp: mock_row_ok_def)
  with same_request_fields [OF r(2)] r(3) assms(3) have "validate_backend_receipt q raw = Inr t"
    by (simp add: validate_backend_receipt_def)
  with t show thesis by (rule that)
qed

lemma destination_text: "destination_reference t = Inr u \<Longrightarrow> non_empty_text 2048 u = Inr u"
  by (auto simp: destination_reference_def bnd_eq_Inr non_empty_text_def split: if_splits)

lemma approved_request_texts:
  assumes "approved_request sha256 c aid q s"
  shows "non_empty_text 2048 (wq_destination_reference q) = Inr (wq_destination_reference q)"
    "\<exists>v. wq_export_key q = sha256 v" "claimed_for c (wq_job_id q) aid s"
proof -
  from assms obtain r cp where r: "r \<in> set (sh_claims s)" "cr_company_id r = c" "cr_job_id r = wq_job_id q"
    "cr_approval_record_id r = aid" and q: "export_request sha256 (wq_job_id q) cp = Inr q"
    unfolding approved_request_def by blast
  from q obtain v u where v: "wq_export_key q = sha256 v" "wq_destination_reference q = u"
    and u: "destination_reference (cp_target cp) = Inr u"
    by (cases q) (auto simp: export_request_def bnd_eq_Inr)
  from v destination_text [OF u] show "non_empty_text 2048 (wq_destination_reference q) = Inr (wq_destination_reference q)"
    "\<exists>v. wq_export_key q = sha256 v" by auto
  show "claimed_for c (wq_job_id q) aid s" using r by (auto simp: claimed_for_def list_ex_iff)
qed

section \<open>Storing succeeds\<close>

lemma claimed_unique:
  assumes "sheets_ok s" "claimed_for c k aid s" "claimed_for c' k' aid' s" "c = c' \<and> k = k' \<or> aid = aid'"
  shows "c' = c" "k' = k" "aid' = aid"
proof -
  obtain r r' where r: "r \<in> set (sh_claims s)" "cr_company_id r = c" "cr_job_id r = k" "cr_approval_record_id r = aid"
    "r' \<in> set (sh_claims s)" "cr_company_id r' = c'" "cr_job_id r' = k'" "cr_approval_record_id r' = aid'"
    using assms(2,3) by (auto simp: claimed_for_def list_ex_iff)
  then have "r' = r" using assms(1,4) unfolding sheets_ok_def claims_ok_def by metis
  with r show "c' = c" "k' = k" "aid' = aid" by auto
qed

lemma claim_of_claimed:
  assumes "sheets_ok s" "claimed_for c k aid s"
  shows "map_option cr_approval_record_id (claim_of c k s) = Some aid"
proof -
  obtain r where r: "claim_of c k s = Some r"
    using assms(2) by (cases "claim_of c k s") (auto simp: claim_of_def claimed_for_def list_ex_iff find_None_iff)
  from find_Some_in [OF r [unfolded claim_of_def]] have "claimed_for c k (cr_approval_record_id r) s"
    by (auto simp: claimed_for_def list_ex_iff)
  with claimed_unique(3) [OF assms this] r show ?thesis by simp
qed

lemma receipt_of_claimed:
  assumes ok: "sheets_ok s" and cl: "claimed_for c k aid s" and none: "\<not> receipted c k s"
    and r: "r \<in> set (sh_receipts s)"
  shows "er_approval_record_id r \<noteq> aid" "\<not> (er_company_id r = c \<and> er_job_id r = k)"
proof -
  have rc: "claimed_for (er_company_id r) (er_job_id r) (er_approval_record_id r) s"
    using ok r by (simp add: sheets_ok_def receipts_ok_def)
  show "\<not> (er_company_id r = c \<and> er_job_id r = k)" using none r by (auto simp: receipted_def)
  with claimed_unique(1,2) [OF ok cl rc] show "er_approval_record_id r \<noteq> aid" by auto
qed

lemma delete_open_attempt:
  assumes ok: "sheets_ok s" and a: "attempt_of c k s = Some a" "tr_attempt_id a = aid"
  obtains s' where "delete_attempt c k aid s = Inr s'" "\<not> attempted c k s'"
proof -
  from find_Some_in [OF a(1) [unfolded attempt_of_def]]
  have a': "a \<in> set (sh_attempts s)" "tr_company_id a = c" "tr_job_id a = k" by auto
  have only: "t = a" if "t \<in> set (sh_attempts s)" "tr_company_id t = c" "tr_job_id t = k" for t
    using ok that a' by (auto simp: sheets_ok_def attempts_ok_def)
  have "filter (\<lambda>r. tr_company_id r = c \<and> tr_job_id r = k \<and> tr_attempt_id r = aid) (sh_attempts s)
      = filter (\<lambda>r. r = a) (sh_attempts s)"
    by (rule filter_cong [OF refl]) (use only a' a(2) in metis)
  also have "\<dots> = [a]"
    using ok a'(1) filter_unique [of "\<lambda>r. r" "sh_attempts s" a] by (simp add: sheets_ok_def attempts_ok_def)
  finally have "length (filter (\<lambda>r. tr_company_id r = c \<and> tr_job_id r = k \<and> tr_attempt_id r = aid) (sh_attempts s)) = 1" by simp
  then have d: "delete_attempt c k aid s = Inr (s\<lparr>sh_attempts :=
      filter (\<lambda>r. \<not> (tr_company_id r = c \<and> tr_job_id r = k \<and> tr_attempt_id r = aid)) (sh_attempts s)\<rparr>)"
    by (simp add: delete_attempt_def)
  show thesis
  proof (rule that [OF d])
    have "tr_attempt_id t = aid" if "t \<in> set (sh_attempts s)" "tr_company_id t = c" "tr_job_id t = k" for t
      using only [OF that] a(2) by simp
    then show "\<not> attempted c k (s\<lparr>sh_attempts :=
        filter (\<lambda>r. \<not> (tr_company_id r = c \<and> tr_job_id r = k \<and> tr_attempt_id r = aid)) (sh_attempts s)\<rparr>)"
      by (auto simp: attempted_def)
  qed
qed

lemma persist_succeeds:
  assumes ok: "sheets_ok s" and req: "approved_request sha256 c aid (cw_request w) s"
    and hex: "is_sha256_hex (wq_export_key (cw_request w))" and t: "valid_instant t"
    and a: "attempt_of c (job_of_write w) s = Some a" "tr_attempt_id a = cw_attempt_id w"
    and none: "\<not> receipted c (job_of_write w) s"
  obtains s' where "persist_body c aid w t s
      = Inr (receipt_of_request (cw_request w) (wq_destination_reference (cw_request w)) t, s')"
    "\<not> attempted c (job_of_write w) s'"
proof -
  let ?q = "cw_request w" and ?k = "job_of_write w"
  let ?row = "\<lparr>er_company_id = c, er_job_id = ?k, er_approval_record_id = aid, er_export_key = wq_export_key ?q,
     er_destination_reference = wq_destination_reference ?q, er_exported_at = isoformat t\<rparr>"
  have k: "wq_job_id ?q = ?k" by (simp add: job_of_write_def)
  note texts = approved_request_texts [OF req, unfolded k]
  note other = receipt_of_claimed [OF ok texts(3) none]
  have "claimed_for c ?k (tr_approval_record_id a) s"
    using find_Some_in [OF a(1) [unfolded attempt_of_def]] ok by (auto simp: sheets_ok_def attempts_ok_def)
  from claimed_unique(3) [OF ok texts(3) this] have aid: "tr_approval_record_id a = aid" by simp
  have "strip (wq_destination_reference ?q) = wq_destination_reference ?q" "\<not> blank (wq_destination_reference ?q)"
    using texts(1) by (auto simp: non_empty_text_def split: if_splits)
  then have checks: "receipt_checks ?row"
    using sha256_lower_64 [OF hex] is_utc_timestamp_isoformat [OF t] by (simp add: receipt_checks_def stripped_trimmed)
  have none': "receipt_for c aid s = None"
    using other(1) by (auto simp: receipt_for_def find_None_iff)
  let ?s1 = "s\<lparr>sh_receipts := sh_receipts s @ [?row]\<rparr>"
  have ins: "insert_export_receipt ?row s = Inr ?s1"
    using checks other texts(3) by (auto simp: insert_export_receipt_def list_ex_iff)
  have found: "receipt_for c aid ?s1 = Some ?row"
  proof -
    have "find P (xs @ [r]) = Some r" if "find P xs = None" "P r" for P and xs :: "receipt_row list" and r
      using that by (induction xs) auto
    then show ?thesis using none' by (simp add: receipt_for_def)
  qed
  have same: "same_receipt ?q t ?row = Inr (receipt_of_request ?q (wq_destination_reference ?q) t)"
    by (simp add: same_receipt_def persisted_at_def parse_aware_isoformat [OF t] k)
  have "sheets_ok ?s1" by (rule insert_export_receipt_ok(1) [OF ins ok])
  moreover have "attempt_of c ?k ?s1 = Some a" using a(1) by (simp add: attempt_of_def)
  ultimately obtain s' where s': "delete_attempt c ?k (cw_attempt_id w) ?s1 = Inr s'" "\<not> attempted c ?k s'"
    using a(2) by (rule delete_open_attempt)
  obtain cl where cl: "claim_of c ?k s = Some cl" "cr_approval_record_id cl = aid"
    using claim_of_claimed [OF ok texts(3)] by auto
  have "persist_body c aid w t s = Inr (receipt_of_request ?q (wq_destination_reference ?q) t, s')"
    by (simp add: persist_body_def Let_def k cl none' a aid ins found same s'(1))
  then show thesis using s'(2) by (rule that)
qed

end
