(* ===== verification/ExportDemo.thy ===== *)
theory ExportDemo
  imports ExportBackend Demo Results
begin

text \<open>
  A run on the mock backend: a plan is prepared and approved, a first call's write raises and its attempt
  is released, a second call writes the row and stores the receipt.
\<close>

definition sheet_job :: job where
  "sheet_job = demo_job\<lparr>j_state := ''SUCCEEDED'', j_artifact_manifest_path := Some ''m''\<rparr>"

definition sheet_db :: db where
  "sheet_db = demo_db\<lparr>jobs := [sheet_job]\<rparr>"

definition demo_target :: sheet_target where
  "demo_target = \<lparr>st_spreadsheet_id = ''s'', st_sheet_name = ''t'', st_row_selector = ''1'',
     st_column_map = [(''A'', ''x'')]\<rparr>"

definition demo_artifact :: export_artifact where
  "demo_artifact = \<lparr>ea_artifact_hash = demo_hash, ea_values = [(''x'', ''v'')]\<rparr>"

definition demo_cells :: "(pystr \<times> pystr) list" where
  "demo_cells = [(''A'', ''v'')]"

definition demo_plan_row :: plan_row where
  "demo_plan_row =
     \<lparr>pr_company_id = ''co'', pr_job_id = ''job'', pr_artifact_hash = demo_hash, pr_spreadsheet_id = ''s'',
      pr_sheet_name = ''t'', pr_row_selector = ''1'',
      pr_column_map_json = dumps (string_items [(''A'', ''x'')]), pr_payload_json = dumps (payload_value demo_cells),
      pr_plan_fingerprint = demo_hash, pr_prepared_at = demo_now\<rparr>"

definition sheet_plan :: current_plan where
  "sheet_plan = \<lparr>cp_artifact = demo_artifact, cp_target = demo_target, cp_cells = demo_cells, cp_fingerprint = demo_hash\<rparr>"

definition sheet_approval :: approval where
  "sheet_approval =
     \<lparr>a_approval_record_id = ''xa'', a_job_id = ''job'', a_approval_type = ''sheet_export'',
      a_snapshot_hash = demo_hash, a_plan_fingerprint = demo_hash, a_approved_by = ''amy'',
      a_approved_at = demo_now, a_expires_at = None\<rparr>"

definition sheet_record :: approval_record where
  "sheet_record =
     \<lparr>approval_record_id = ''xa'', approval_job_id = ''job'', approval_type = ''sheet_export'',
      approval_snapshot_hash = demo_hash, approval_plan_fingerprint = demo_hash, approved_by = ''amy'',
      approved_at = demo_instant 0, expires_at = None\<rparr>"

definition sheet_request :: write_request where
  "sheet_request =
     \<lparr>wq_job_id = ''job'', wq_export_key = demo_hash, wq_spreadsheet_id = ''s'', wq_sheet_name = ''t'',
      wq_row_selector = ''1'', wq_destination_reference = ''sheet://s/t?row=1'', wq_cells = demo_cells\<rparr>"

abbreviation sha :: "bytes \<Rightarrow> pystr" where "sha \<equiv> ext_sha256 demo_externals"

lemma sha_demo: "sha v = demo_hash"
  by (simp add: demo_externals_def)

lemma demo_texts:
  "make_target demo_target = Inr demo_target" "destination_reference demo_target = Inr ''sheet://s/t?row=1''"
  "sha256_text demo_hash = Inr demo_hash" "non_empty_text 256 ''job'' = Inr ''job''" "lower_64 demo_hash"
  "non_empty_text 64 ''x'' = Inr ''x''" "length (characters ''v'') = 1" "non_empty_text 256 ''xa'' = Inr ''xa''"
  "non_empty_text 256 ''amy'' = Inr ''amy''" "non_empty_text 2048 ''sheet://s/t?row=1'' = Inr ''sheet://s/t?row=1''"
  "make_approval_record sheet_record = Inr sheet_record"
  by code_simp+

lemma demo_canonical:
  "canonical_json (string_items [(''A'', ''x'')]) = Inr (dumps (string_items [(''A'', ''x'')]))"
  "canonical_json (string_items [(''x'', ''v'')]) = Inr (dumps (string_items [(''x'', ''v'')]))"
  "canonical_json (payload_value demo_cells) = Inr (dumps (payload_value demo_cells))"
  "canonical_json (plan_value ''job'' demo_hash demo_target) = Inr (dumps (plan_value ''job'' demo_hash demo_target))"
  "canonical_json (export_key_value ''job'' demo_hash) = Inr (dumps (export_key_value ''job'' demo_hash))"
  by (rule within_budget; simp add: string_items_def payload_value_def plan_value_def export_key_value_def
      demo_cells_def demo_target_def demo_hash_def budget_simps)+

lemma demo_column_map: "stored_column_map (dumps (string_items [(''A'', ''x'')])) = Inr [(''A'', ''x'')]"
proof -
  have "json_loads (dumps (string_items [(''A'', ''x'')])) = Some (JObj [(''A'', JStr ''x'')])"
    using json_loads_canonical [OF _ demo_canonical(1)] by (simp add: string_items_def)
  then show ?thesis using demo_canonical(1) by (simp add: stored_column_map_def string_items_def del: dumps.simps)
qed

lemma demo_check_plan: "check_plan sha (Inr demo_artifact) ''job'' demo_plan_row = Inr sheet_plan"
proof -
  have art: "load_artifact (Inr demo_artifact) = Inr demo_artifact"
    by (simp add: load_artifact_def make_artifact_def demo_artifact_def demo_texts frozen_artifact_values_def
        demo_canonical(2) max_bytes_def del: dumps.simps)
  have target: "stored_target demo_plan_row = Inr demo_target"
    using demo_texts(1) by (simp add: stored_target_def demo_plan_row_def demo_column_map demo_target_def del: dumps.simps)
  have cells: "cells_of demo_target demo_artifact = demo_cells" "\<not> missing_source demo_target demo_artifact"
    "list_all (\<lambda>(column, v). \<not> formula_like v) demo_cells"
    by (simp_all add: cells_of_def missing_source_def demo_target_def demo_artifact_def demo_cells_def formula_like_def)
  have hash: "ea_artifact_hash demo_artifact = demo_hash" by (simp add: demo_artifact_def)
  show ?thesis
    unfolding check_plan_def target
    by (simp add: demo_texts(2) art cells hash demo_canonical Let_def sha_demo del: dumps.simps)
      (simp add: demo_plan_row_def sheet_plan_def)
qed

section \<open>The transactions\<close>

definition prepared_sheets :: sheets where
  "prepared_sheets = (empty_sheets sheet_db)\<lparr>sh_plans := [demo_plan_row]\<rparr>"

definition approved_sheets :: sheets where
  "approved_sheets = prepared_sheets\<lparr>sh_db := sheet_db\<lparr>approvals := approvals sheet_db @ [sheet_approval]\<rparr>\<rparr>"

definition sheet_claim :: claim_row where
  "sheet_claim = \<lparr>cr_company_id = ''co'', cr_job_id = ''job'', cr_approval_record_id = ''xa'',
     cr_plan_fingerprint = demo_hash, cr_claimed_at = demo_now\<rparr>"

definition sheet_attempt :: attempt_row where
  "sheet_attempt = \<lparr>tr_company_id = ''co'', tr_job_id = ''job'', tr_approval_record_id = ''xa'',
     tr_attempt_id = ''export-attempt-u'', tr_started_at = demo_now\<rparr>"

definition claimed_sheets :: "attempt_row list \<Rightarrow> receipt_row list \<Rightarrow> sheets" where
  "claimed_sheets ts rs = approved_sheets\<lparr>sh_claims := [sheet_claim], sh_attempts := ts, sh_receipts := rs\<rparr>"

definition sheet_write :: claimed_write where
  "sheet_write = \<lparr>cw_request = sheet_request, cw_attempt_id = ''export-attempt-u'', cw_write_allowed = True\<rparr>"

definition sheet_receipt_row :: receipt_row where
  "sheet_receipt_row = \<lparr>er_company_id = ''co'', er_job_id = ''job'', er_approval_record_id = ''xa'',
     er_export_key = demo_hash, er_destination_reference = ''sheet://s/t?row=1'', er_exported_at = demo_now\<rparr>"

definition sheet_receipt :: export_receipt where
  "sheet_receipt = \<lparr>xr_job_id = ''job'', xr_export_key = demo_hash,
     xr_destination_reference = ''sheet://s/t?row=1'', xr_exported_at = demo_instant 0\<rparr>"

lemmas sheet_defs = sheet_db_def sheet_job_def demo_db_def demo_job_def prepared_sheets_def approved_sheets_def
  claimed_sheets_def empty_sheets_def

lemma sheet_get_job: "get_job sheet_db ''co'' ''job'' = Inr sheet_job" "exportable sheet_job" "j_job_id sheet_job = ''job''"
  "j_snapshot_hash sheet_job = demo_hash"
  by (simp_all add: get_job_def sheet_db_def sheet_job_def demo_db_def demo_job_def exportable_def)

lemma sheet_current_plan:
  "latest_plan ''co'' ''job'' s = Some demo_plan_row
   \<Longrightarrow> validated_current_plan sha (Inr demo_artifact) ''co'' sheet_job s = Inr sheet_plan"
  by (simp add: validated_current_plan_def sheet_get_job demo_check_plan)

lemma sheet_insert_plan: "insert_plan demo_plan_row (empty_sheets sheet_db) = Inr prepared_sheets"
  by (simp add: insert_plan_def plan_checks_def demo_plan_row_def demo_texts trimmed_def sql_trim_def sheet_defs)

lemma sheet_prepare:
  "snd (prepare_export sha ''co'' ''job'' demo_target (Inr demo_artifact) (Some (demo_instant 0)) (Inr demo_artifact)
     (empty_sheets sheet_db)) = prepared_sheets"
proof -
  have art: "load_artifact (Inr demo_artifact) = Inr demo_artifact"
    using check_plan_Inr(9) [OF demo_check_plan] by (simp add: sheet_plan_def)
  have cells: "cells_of demo_target demo_artifact = demo_cells" "\<not> missing_source demo_target demo_artifact"
    "list_all (\<lambda>(column, v). \<not> formula_like v) demo_cells"
    by (simp_all add: cells_of_def missing_source_def demo_target_def demo_artifact_def demo_cells_def formula_like_def)
  have hash: "ea_artifact_hash demo_artifact = demo_hash" by (simp add: demo_artifact_def)
  have row: "\<lparr>pr_company_id = ''co'', pr_job_id = ''job'', pr_artifact_hash = demo_hash,
      pr_spreadsheet_id = st_spreadsheet_id demo_target, pr_sheet_name = st_sheet_name demo_target,
      pr_row_selector = st_row_selector demo_target, pr_column_map_json = dumps (string_items [(''A'', ''x'')]),
      pr_payload_json = dumps (payload_value demo_cells), pr_plan_fingerprint = demo_hash,
      pr_prepared_at = isoformat (demo_instant 0)\<rparr> = demo_plan_row"
    by (simp add: demo_plan_row_def demo_target_def demo_time_def del: dumps.simps)
  have columns: "st_column_map demo_target = [(''A'', ''x'')]" by (simp add: demo_target_def)
  have plan: "validated_current_plan sha (Inr demo_artifact) ''co'' sheet_job prepared_sheets = Inr sheet_plan"
    by (rule sheet_current_plan) (simp add: latest_plan_def prepared_sheets_def demo_plan_row_def)
  have none: "claim_of ''co'' ''job'' (empty_sheets sheet_db) = None" by (simp add: claim_of_def empty_sheets_def)
  have db: "sh_db (empty_sheets sheet_db) = sheet_db" by (simp add: empty_sheets_def)
  have "prepare_body sha ''co'' ''job'' demo_target (Inr demo_artifact) (Some (demo_instant 0)) (Inr demo_artifact)
      (empty_sheets sheet_db) = Inr ((demo_hash, demo_hash), prepared_sheets)"
    by (simp add: prepare_body_def db sheet_get_job art cells hash columns demo_canonical Let_def sha_demo none
        aware_clock_def in_range_def row sheet_insert_plan plan sheet_plan_def same_target_def same_items_def
        del: dumps.simps)
  then show ?thesis by (simp add: prepare_export_def demo_texts sheet_transaction_def split: sum.splits)
qed

lemma sheet_approve:
  "snd (approve_export sha ''co'' ''job'' demo_hash ''amy'' (Inr demo_artifact) (Some (demo_instant 0)) ''xa''
     prepared_sheets) = approved_sheets"
proof -
  have db: "sh_db prepared_sheets = sheet_db" by (simp add: prepared_sheets_def empty_sheets_def)
  have plan: "validated_current_plan sha (Inr demo_artifact) ''co'' sheet_job prepared_sheets = Inr sheet_plan"
    by (rule sheet_current_plan) (simp add: latest_plan_def prepared_sheets_def demo_plan_row_def)
  have none: "first_export_approval ''job'' demo_hash sheet_db = None"
    by (simp add: first_export_approval_def sheet_db_def demo_db_def demo_approval_def)
  have "add_approval ''co'' sheet_record sheet_db = Inr ((), sheet_db\<lparr>approvals := approvals sheet_db @ [sheet_approval]\<rparr>)"
    by (simp add: add_approval_def sheet_record_def sheet_approval_def sheet_db_def demo_db_def demo_approval_def
        sheet_job_def demo_job_def approval_types_def storage_timestamp_def demo_time_def)
  then have "grant_export ''co'' sheet_job ''job'' demo_hash ''amy'' (Some (demo_instant 0)) ''xa'' sheet_db
      = Inr (sheet_record, sheet_db\<lparr>approvals := approvals sheet_db @ [sheet_approval]\<rparr>)"
    using demo_texts(11)
    by (simp add: grant_export_def none sheet_get_job in_range_def sheet_record_def)
  then have "approve_export_body sha ''co'' ''job'' demo_hash ''amy'' (Inr demo_artifact) (Some (demo_instant 0)) ''xa''
      prepared_sheets = Inr (sheet_record, approved_sheets)"
    by (simp add: approve_export_body_def db sheet_get_job plan sheet_plan_def approved_sheets_def)
  then show ?thesis by (simp add: approve_export_def demo_texts sheet_transaction_def)
qed

lemma sheet_claim_opens:
  assumes s: "s = approved_sheets \<or> s = claimed_sheets ts []"
  shows "claim_body sha ''co'' ''xa'' (Inr demo_artifact) lookup (Some (demo_instant 0)) ''export-attempt-u'' s
    = bnd (open_attempt ''co'' sheet_record sheet_request (Some (demo_instant 0)) ''export-attempt-u'' s)
        (\<lambda>(w, s'). Inr (Inr w, s'))"
proof -
  have db: "sh_db s = sheet_db\<lparr>approvals := approvals sheet_db @ [sheet_approval]\<rparr>"
    using s by (auto simp: claimed_sheets_def approved_sheets_def)
  have found: "find (\<lambda>a. a_approval_record_id a = ''xa''
      \<and> list_ex (\<lambda>j. j_job_id j = a_job_id a \<and> j_company_id j = ''co'') (jobs (sh_db s))) (approvals (sh_db s))
      = Some sheet_approval"
    by (simp add: db sheet_db_def demo_db_def demo_approval_def sheet_approval_def sheet_job_def demo_job_def)
  have ap: "get_approval (sh_db s) ''co'' ''job'' ''xa'' = Inr sheet_record"
    using demo_texts(11)
    by (simp add: get_approval_def db sheet_db_def demo_db_def demo_approval_def sheet_approval_def sheet_job_def
        demo_job_def domain_timestamp_def approval_of_row_def sheet_record_def)
  have job: "get_job (sh_db s) ''co'' ''job'' = Inr sheet_job"
    using sheet_get_job(1) by (simp add: db get_job_def)
  have plan: "validated_current_plan sha (Inr demo_artifact) ''co'' sheet_job s = Inr sheet_plan"
    by (rule sheet_current_plan)
      (use s in \<open>auto simp: latest_plan_def claimed_sheets_def approved_sheets_def prepared_sheets_def demo_plan_row_def\<close>)
  have request: "export_request sha ''job'' sheet_plan = Inr sheet_request"
    using demo_texts(2) demo_canonical(5)
    by (simp add: export_request_def sheet_plan_def demo_artifact_def sha_demo sheet_request_def demo_target_def
        del: dumps.simps)
  have receipt: "receipt_for ''co'' ''xa'' s = None"
    using s by (auto simp: receipt_for_def claimed_sheets_def approved_sheets_def prepared_sheets_def empty_sheets_def)
  have approved: "approved_export sheet_job sheet_record"
    by (simp add: approved_export_def sheet_get_job sheet_record_def)
  have "a_job_id sheet_approval = ''job''" "approval_job_id sheet_record = ''job''"
    "cp_fingerprint sheet_plan = approval_plan_fingerprint sheet_record"
    by (simp_all add: sheet_approval_def sheet_record_def sheet_plan_def)
  then show ?thesis
    unfolding claim_body_def found option.case by (simp add: ap job approved plan request receipt)
qed

text \<open>The claim of a job that is claimed already is refused by its key, and the row stays.\<close>

lemma sheet_claim_row:
  "\<lparr>cr_company_id = ''co'', cr_job_id = ''job'', cr_approval_record_id = ''xa'',
     cr_plan_fingerprint = demo_hash, cr_claimed_at = isoformat (demo_instant 0)\<rparr> = sheet_claim"
  "\<lparr>tr_company_id = ''co'', tr_job_id = ''job'', tr_approval_record_id = ''xa'',
     tr_attempt_id = ''export-attempt-u'', tr_started_at = isoformat (demo_instant 0)\<rparr> = sheet_attempt"
  "claim_of ''co'' ''job'' (claimed_sheets ts rs) = Some sheet_claim"
  "approval_record_id sheet_record = ''xa''" "approval_job_id sheet_record = ''job''"
  "approval_plan_fingerprint sheet_record = demo_hash" "cr_approval_record_id sheet_claim = ''xa''"
  "cr_plan_fingerprint sheet_claim = demo_hash"
  by (simp_all add: sheet_record_def sheet_claim_def sheet_attempt_def demo_time_def claim_of_def claimed_sheets_def)

lemma sheet_insert_claim:
  "s = approved_sheets \<Longrightarrow> insert_claim sheet_claim s = Inr (claimed_sheets [] [])"
  "insert_claim sheet_claim (claimed_sheets ts []) = Inr (claimed_sheets ts [])"
  by (auto simp: insert_claim_def claim_approved_def sheet_claim_def sheet_approval_def demo_texts
      demo_plan_row_def sheet_defs demo_approval_def)

lemma sheet_insert_attempt:
  "insert_attempt sheet_attempt (claimed_sheets [] []) = Inr (True, claimed_sheets [sheet_attempt] [])"
  "insert_attempt sheet_attempt (claimed_sheets [sheet_attempt] []) = Inr (False, claimed_sheets [sheet_attempt] [])"
  "attempt_of ''co'' ''job'' (claimed_sheets [sheet_attempt] []) = Some sheet_attempt"
  "tr_approval_record_id sheet_attempt = ''xa''" "tr_attempt_id sheet_attempt = ''export-attempt-u''"
  by (simp_all add: insert_attempt_def sheet_attempt_def claimed_for_def sheet_claim_def claimed_sheets_def attempt_of_def)

lemma sheet_claim_body:
  assumes s: "s = approved_sheets \<or> s = claimed_sheets [] []"
  shows "claim_body sha ''co'' ''xa'' (Inr demo_artifact) lookup (Some (demo_instant 0)) ''export-attempt-u'' s
    = Inr (Inr sheet_write, claimed_sheets [sheet_attempt] [])"
proof -
  have "insert_claim sheet_claim s = Inr (claimed_sheets [] [])" using s sheet_insert_claim by auto
  then have "open_attempt ''co'' sheet_record sheet_request (Some (demo_instant 0)) ''export-attempt-u'' s
      = Inr (sheet_write, claimed_sheets [sheet_attempt] [])"
    by (simp add: open_attempt_def aware_clock_def in_range_def sheet_claim_row sheet_insert_attempt sheet_write_def)
  then show ?thesis using sheet_claim_opens [OF s, of lookup] by simp
qed

definition sheet_look :: claimed_write where
  "sheet_look = sheet_write\<lparr>cw_write_allowed := False\<rparr>"

lemma sheet_claim_again:
  "claim_body sha ''co'' ''xa'' (Inr demo_artifact) lookup (Some (demo_instant 0)) ''export-attempt-u''
     (claimed_sheets [sheet_attempt] []) = Inr (Inr sheet_look, claimed_sheets [sheet_attempt] [])"
proof -
  have "open_attempt ''co'' sheet_record sheet_request (Some (demo_instant 0)) ''export-attempt-u''
      (claimed_sheets [sheet_attempt] []) = Inr (sheet_look, claimed_sheets [sheet_attempt] [])"
    by (simp add: open_attempt_def aware_clock_def in_range_def sheet_claim_row sheet_insert_claim sheet_insert_attempt
        sheet_look_def sheet_write_def)
  then show ?thesis using sheet_claim_opens [of "claimed_sheets [sheet_attempt] []" "[sheet_attempt]" lookup] by simp
qed

lemma sheet_release:
  "sheet_transaction (release_body ''co'' sheet_write) (claimed_sheets [sheet_attempt] []) = (Inr (), claimed_sheets [] [])"
  by (simp add: sheet_transaction_def release_body_def delete_attempt_def sheet_write_def sheet_request_def
      sheet_attempt_def claimed_sheets_def)

lemma sheet_persist:
  "sheet_transaction (persist_body ''co'' ''xa'' sheet_write (demo_instant 0)) (claimed_sheets [sheet_attempt] [])
   = (Inr sheet_receipt, claimed_sheets [] [sheet_receipt_row])"
proof -
  have row: "\<lparr>er_company_id = ''co'', er_job_id = ''job'', er_approval_record_id = ''xa'', er_export_key = demo_hash,
      er_destination_reference = ''sheet://s/t?row=1'', er_exported_at = isoformat (demo_instant 0)\<rparr> = sheet_receipt_row"
    by (simp add: sheet_receipt_row_def demo_time_def)
  have insert: "insert_export_receipt sheet_receipt_row (claimed_sheets [sheet_attempt] [])
      = Inr (claimed_sheets [sheet_attempt] [sheet_receipt_row])"
    by (simp add: insert_export_receipt_def receipt_checks_def sheet_receipt_row_def demo_texts trimmed_def sql_trim_def
        claimed_for_def sheet_claim_def claimed_sheets_def)
  have same: "same_receipt sheet_request (demo_instant 0) sheet_receipt_row = Inr sheet_receipt"
    by (simp add: same_receipt_def sheet_receipt_row_def sheet_request_def persisted_at_def receipt_of_request_def
        sheet_receipt_def)
  have request: "cw_request sheet_write = sheet_request" "cw_attempt_id sheet_write = ''export-attempt-u''"
    "wq_job_id sheet_request = ''job''" "wq_export_key sheet_request = demo_hash"
    "wq_destination_reference sheet_request = ''sheet://s/t?row=1''"
    by (simp_all add: sheet_write_def sheet_request_def)
  have tables: "claim_of ''co'' ''job'' (claimed_sheets [sheet_attempt] []) = Some sheet_claim"
    "receipt_for ''co'' ''xa'' (claimed_sheets [sheet_attempt] []) = None"
    "attempt_of ''co'' ''job'' (claimed_sheets [sheet_attempt] []) = Some sheet_attempt"
    "receipt_for ''co'' ''xa'' (claimed_sheets [sheet_attempt] [sheet_receipt_row]) = Some sheet_receipt_row"
    "delete_attempt ''co'' ''job'' ''export-attempt-u'' (claimed_sheets [sheet_attempt] [sheet_receipt_row])
       = Inr (claimed_sheets [] [sheet_receipt_row])"
    by (simp_all add: claim_of_def receipt_for_def attempt_of_def delete_attempt_def claimed_sheets_def sheet_claim_def
        sheet_attempt_def sheet_receipt_row_def)
  have keys: "cr_approval_record_id sheet_claim = ''xa''" "tr_approval_record_id sheet_attempt = ''xa''"
    "tr_attempt_id sheet_attempt = ''export-attempt-u''"
    by (simp_all add: sheet_claim_def sheet_attempt_def)
  show ?thesis
    by (simp add: sheet_transaction_def persist_body_def Let_def request tables keys row insert same)
qed

section \<open>The run\<close>

definition mock_row :: write_receipt where
  "mock_row = \<lparr>wr_export_key = demo_hash, wr_spreadsheet_id = ''s'', wr_sheet_name = ''t'', wr_row_selector = ''1'',
     wr_destination_reference = ''sheet://s/t?row=1'', wr_exported_at = Some (demo_instant 0)\<rparr>"

definition sheet_env :: "instant option \<Rightarrow> instant option export_env" where
  "sheet_env clock = \<lparr>xe_loaded = Inr demo_artifact, xe_clock = Some (demo_instant 0), xe_uuid = ''u'', xe_backend = clock\<rparr>"

lemma sheet_mock:
  "bk_write mock_backend None sheet_request [] = (Inl ValueError, [])"
  "bk_lookup mock_backend c sheet_request [] = Inr None"
  "bk_write mock_backend (Some (demo_instant 0)) sheet_request []
     = (Inr (Some mock_row), [(demo_hash, sheet_request, mock_row)])"
  by (simp_all add: mock_backend_def mock_write_def mock_lookup_def aware_clock_def in_range_def mock_row_def
      sheet_request_def Let_def)

lemma sheet_validate: "validate_backend_receipt sheet_request (Some mock_row) = Inr (demo_instant 0)"
  using demo_texts(10) by (simp add: validate_backend_receipt_def mock_row_def sheet_request_def)

definition export_run :: "instant option export_input list" where
  "export_run =
     [Prepare_export ''co'' ''job'' demo_target (Inr demo_artifact) (Some (demo_instant 0)) (Inr demo_artifact),
      Approve_export ''co'' ''job'' demo_hash ''amy'' (Inr demo_artifact) (Some (demo_instant 0)) ''xa'',
      Call_arrives ''co'' ''xa'',
      Call_step 0 (sheet_env None), Call_step 0 (sheet_env None), Call_step 0 (sheet_env None),
      Call_step 0 (sheet_env None), Call_step 0 (sheet_env None),
      Call_arrives ''co'' ''xa'',
      Call_step 1 (sheet_env (Some (demo_instant 0))), Call_step 1 (sheet_env (Some (demo_instant 0))),
      Call_step 1 (sheet_env (Some (demo_instant 0))), Call_step 1 (sheet_env (Some (demo_instant 0)))]"

definition exports_after ::
  "externals \<Rightarrow> ('b, 'e) backend \<Rightarrow> 'e export_input list \<Rightarrow> 'b export_world \<Rightarrow> 'b export_world" where
  "exports_after x bk inps w = foldl (\<lambda>w inp. export_react x bk inp w) w inps"

lemma exports_after_reach: "exports_reach x bk d b w \<Longrightarrow> exports_reach x bk d b (exports_after x bk inps w)"
  unfolding exports_after_def by (induction inps arbitrary: w) (auto intro: exports_react)

definition export_end :: "mock_rows export_world" where
  "export_end = exports_after demo_externals mock_backend export_run (initial_world sheet_db [])"

lemma sheet_begin:
  assumes "s = approved_sheets \<or> s = claimed_sheets [] []"
  shows "begin_export sha lookup (sheet_env clock) ''co'' ''xa'' s
    = (claimed_sheets [sheet_attempt] [], [(''job'', Attempt_opened)], Cleared sheet_write)"
  using sheet_claim_body [OF assms, of lookup] demo_texts(8)
  by (simp add: begin_export_def claim_export_def sheet_transaction_def sheet_env_def attempt_id_of_def sheet_write_def
      job_of_write_def sheet_request_def)

definition sheet_event :: "nat \<Rightarrow> export_action \<Rightarrow> export_event" where
  "sheet_event i a = \<lparr>xv_call = i, xv_company = ''co'', xv_job = ''job'', xv_action = a\<rparr>"

lemma export_end_is:
  "export_end =
     \<lparr>ew_sheets = claimed_sheets [] [sheet_receipt_row], ew_backend = [(demo_hash, sheet_request, mock_row)],
      ew_calls = [\<lparr>ca_company = ''co'', ca_approval = ''xa'', ca_pc = Ended (Inl ValueError)\<rparr>,
                  \<lparr>ca_company = ''co'', ca_approval = ''xa'', ca_pc = Ended (Inr sheet_receipt)\<rparr>],
      ew_log = [sheet_event 0 Attempt_opened, sheet_event 0 (Write_started sheet_request), sheet_event 0 Write_raised,
                sheet_event 0 Row_missing, sheet_event 0 Attempt_released,
                sheet_event 1 Attempt_opened, sheet_event 1 (Write_started sheet_request),
                sheet_event 1 (Write_answered (Some mock_row)), sheet_event 1 (Receipt_stored sheet_receipt)]\<rparr>"
proof -
  have job: "job_of_write sheet_write = ''job''" "cw_request sheet_write = sheet_request"
    by (simp_all add: job_of_write_def sheet_write_def sheet_request_def)
  have clock: "xe_backend (sheet_env c) = c" for c by (simp add: sheet_env_def)
  have settle: "settle_write sheet_write (Some mock_row) = Storing sheet_write (demo_instant 0)"
    by (simp add: settle_write_def job sheet_validate)
  show ?thesis
    by (simp add: export_end_def exports_after_def export_run_def initial_world_def sheet_prepare sheet_approve
        sheet_begin job clock sheet_mock write_sheet_def recover_write_def release_write_def sheet_release
        store_receipt_def sheet_persist settle logged_actions_def sheet_event_def)
qed

lemma export_end_reached: "exports_reach demo_externals mock_backend sheet_db [] export_end"
  unfolding export_end_def by (rule exports_after_reach) (rule exports_initial)

section \<open>A crash\<close>

text \<open>The writer dies between the answer and the receipt; another call finds its attempt open.\<close>

definition crash_run :: "instant option export_input list" where
  "crash_run =
     [Prepare_export ''co'' ''job'' demo_target (Inr demo_artifact) (Some (demo_instant 0)) (Inr demo_artifact),
      Approve_export ''co'' ''job'' demo_hash ''amy'' (Inr demo_artifact) (Some (demo_instant 0)) ''xa'',
      Call_arrives ''co'' ''xa'',
      Call_step 0 (sheet_env (Some (demo_instant 0))), Call_step 0 (sheet_env (Some (demo_instant 0))),
      Call_step 0 (sheet_env (Some (demo_instant 0))), Call_dies 0,
      Call_arrives ''co'' ''xa'', Call_step 1 (sheet_env None)]"

definition crash_end :: "mock_rows export_world" where
  "crash_end = exports_after demo_externals mock_backend crash_run (initial_world sheet_db [])"

lemma sheet_begin_again:
  "begin_export sha lookup (sheet_env clock) ''co'' ''xa'' (claimed_sheets [sheet_attempt] [])
    = (claimed_sheets [sheet_attempt] [], [], Looking sheet_look)"
  using sheet_claim_again [of lookup] demo_texts(8)
  by (simp add: begin_export_def claim_export_def sheet_transaction_def sheet_env_def attempt_id_of_def sheet_look_def)

lemma crash_end_is:
  "crash_end =
     \<lparr>ew_sheets = claimed_sheets [sheet_attempt] [], ew_backend = [(demo_hash, sheet_request, mock_row)],
      ew_calls = [\<lparr>ca_company = ''co'', ca_approval = ''xa'', ca_pc = Dead\<rparr>,
                  \<lparr>ca_company = ''co'', ca_approval = ''xa'', ca_pc = Looking sheet_look\<rparr>],
      ew_log = [sheet_event 0 Attempt_opened, sheet_event 0 (Write_started sheet_request),
                sheet_event 0 (Write_answered (Some mock_row))]\<rparr>"
proof -
  have job: "job_of_write sheet_write = ''job''" "cw_request sheet_write = sheet_request"
    by (simp_all add: job_of_write_def sheet_write_def sheet_request_def)
  have clock: "xe_backend (sheet_env c) = c" for c by (simp add: sheet_env_def)
  have settle: "settle_write sheet_write (Some mock_row) = Storing sheet_write (demo_instant 0)"
    by (simp add: settle_write_def job sheet_validate)
  show ?thesis
    by (simp add: crash_end_def exports_after_def crash_run_def initial_world_def sheet_prepare sheet_approve
        sheet_begin sheet_begin_again job clock sheet_mock write_sheet_def settle logged_actions_def sheet_event_def)
qed

lemma crash_end_reached: "exports_reach demo_externals mock_backend sheet_db [] crash_end"
  unfolding crash_end_def by (rule exports_after_reach) (rule exports_initial)

end
