(* ===== verification/ExportProperties.thy ===== *)
theory ExportProperties
  imports ExportRecovery ExportDemo
begin

text \<open>
  The properties of \<open>ExportService\<close>: the discipline of the writes, the approvals behind them, the receipts,
  the mock's sheet, recovery after a crash, and termination.
\<close>

section \<open>One write at a time\<close>

lemma wire_event:
  "(i, a) \<in> set (job_wire c k es)
   \<Longrightarrow> \<exists>e \<in> set es. xv_call e = i \<and> xv_company e = c \<and> xv_job e = k \<and> xv_action e = a"
  by (auto simp: job_wire_def)

lemma one_request:
  assumes reach: "exports_reach x bk d b w"
    and a: "(i, Write_started q) \<in> set (job_wire c k (ew_log w))" "(j, Write_started q') \<in> set (job_wire c k (ew_log w))"
  shows "q' = q"
proof -
  note rec = records.reachable [OF reach]
  then have ok: "sheets_ok (ew_sheets w)" and wa: "writes_approved x w"
    by (simp_all add: records_true_def requests_approved_def)
  obtain aid where p: "approved_request (ext_sha256 x) c aid q (ew_sheets w)" "wq_job_id q = k"
    using wire_event [OF a(1)] wa unfolding writes_approved_def by metis
  obtain aid' where p': "approved_request (ext_sha256 x) c aid' q' (ew_sheets w)" "wq_job_id q' = k"
    using wire_event [OF a(2)] wa unfolding writes_approved_def by metis
  show ?thesis by (rule approved_request_same(1) [OF ok p(1) p'(1)]) (simp add: p(2) p'(2))
qed

lemma in_phase_last:
  "(\<And>i q'. (i, Write_started q') \<in> set (in_phase ph) \<Longrightarrow> q' = q) \<Longrightarrow> \<exists>i. last_round q i (in_phase ph)"
proof -
  have take: "\<exists>n < 5. es = take n (failed_round q i)" if "n < 5" "es = take n (failed_round q i)" for n es i
    using that by blast
  assume a: "\<And>i q'. (i, Write_started q') \<in> set (in_phase ph) \<Longrightarrow> q' = q"
  show ?thesis
  proof (cases ph)
    case Free
    then show ?thesis using take [of 0] by (auto simp: last_round_def)
  next
    case (Open_by i)
    then show ?thesis using take [of 1 _ i] by (auto simp: last_round_def failed_round_def)
  next
    case (Writing_by i q')
    then show ?thesis using a take [of 2 _ i] by (auto simp: last_round_def failed_round_def numeral_2_eq_2)
  next
    case (Answered_by i q' raw)
    then show ?thesis using a by (auto simp: last_round_def)
  next
    case (Raised_by i q')
    then show ?thesis using a take [of 3 _ i] by (auto simp: last_round_def failed_round_def numeral_3_eq_3)
  next
    case (Missed_by i q')
    then show ?thesis using a take [of 4 _ i] by (auto simp: last_round_def failed_round_def eval_nat_numeral)
  qed
qed

text \<open>
  C9.  The external write of a job happens under one attempt at a time, whatever the calls of
  \<open>execute_export\<close>, in whatever order, and whenever their processes die: what they do to the sheet is a
  sequence of rounds in each of which one call opens the attempt, sends the request, sees it raise, looks
  the row up in vain and releases the attempt, followed by at most one round that is under way, was
  abandoned or was answered.  Every request sent is the same one, and no attempt is opened once a receipt
  is stored.
\<close>

theorem sheet_writes_in_rounds:
  assumes "exports_reach x bk d b w"
  shows "(\<exists>q is i es. job_wire c k (ew_log w) = concat (map (failed_round q) is) @ es \<and> last_round q i es)
    \<and> sealed c k (ew_log w)"
proof -
  have inv: "disciplined x w" by (rule rounds.reachable [OF assms])
  then obtain ph where ph: "phase_of (job_wire c k (ew_log w)) = Some ph"
    unfolding disciplined_def phases_kept_def by blast
  obtain rs where rs: "job_wire c k (ew_log w) = concat (map (\<lambda>(q, i). failed_round q i) rs) @ in_phase ph"
    using phase_rounds [OF ph] ..
  have one: "q' = q" if "(i, Write_started q) \<in> set (job_wire c k (ew_log w))"
    "(j, Write_started q') \<in> set (job_wire c k (ew_log w))" for q q' i j
    by (rule one_request [OF assms that])
  define q where "q = (SOME q. \<exists>i. (i, Write_started q) \<in> set (job_wire c k (ew_log w)))"
  have q: "q' = q" if "(i, Write_started q') \<in> set (job_wire c k (ew_log w))" for i q'
  proof -
    have "\<exists>i. (i, Write_started q) \<in> set (job_wire c k (ew_log w))"
      unfolding q_def by (rule someI_ex) (use that in blast)
    then show ?thesis using one that by blast
  qed
  have "fst r = q" if "r \<in> set rs" for r
  proof (rule q)
    show "(snd r, Write_started (fst r)) \<in> set (job_wire c k (ew_log w))"
      unfolding rs using that by (force simp: failed_round_def)
  qed
  then have m: "map (\<lambda>(q, i). failed_round q i) rs = map (failed_round q) (map snd rs)"
    by (simp add: case_prod_unfold comp_def cong: map_cong)
  obtain i where "last_round q i (in_phase ph)"
    using in_phase_last [of ph q] q rs by auto
  then have "job_wire c k (ew_log w) = concat (map (failed_round q) (map snd rs)) @ in_phase ph
      \<and> last_round q i (in_phase ph)" using rs unfolding m by blast
  moreover have "sealed c k (ew_log w)" using inv by (simp add: disciplined_def receipts_seal_def)
  ultimately show ?thesis by blast
qed

lemma sheet_writes_in_rounds_witness:
  "(\<exists>q is i es. job_wire ''co'' ''job'' (ew_log export_end) = concat (map (failed_round q) is) @ es \<and> last_round q i es)
   \<and> job_wire ''co'' ''job'' (ew_log export_end)
     = failed_round sheet_request 0
       @ [(1, Attempt_opened), (1, Write_started sheet_request), (1, Write_answered (Some mock_row))]
   \<and> sealed ''co'' ''job'' (ew_log export_end)"
  using sheet_writes_in_rounds [OF export_end_reached, of "''co''" "''job''"]
  by (simp add: export_end_is job_wire_def sheet_event_def failed_round_def)

section \<open>Approved writes\<close>

text \<open>
  C10.  No request reaches the backend that was not approved: when one was sent for a job, the job has a
  \<open>sheet_export\<close> approval whose plan fingerprint is the digest of the job, the artifact hash and the target
  that the request was computed from; the request's cells are the prepared payload, byte for byte, none of
  them can read as a formula, and the row's columns are those of the approved target.
\<close>

theorem sheet_write_approved:
  assumes "exports_reach x bk d b w" "e \<in> set (ew_log w)" "xv_action e = Write_started q"
  shows "\<exists>a p t v. a \<in> set (approvals (sh_db (ew_sheets w))) \<and> p \<in> set (sh_plans (ew_sheets w))
      \<and> a_approval_type a = ''sheet_export'' \<and> a_job_id a = xv_job e \<and> pr_company_id p = xv_company e
      \<and> canonical_json (plan_value (xv_job e) (pr_artifact_hash p) t) = Inr v
      \<and> a_plan_fingerprint a = ext_sha256 x v
      \<and> wq_job_id q = xv_job e \<and> wq_spreadsheet_id q = st_spreadsheet_id t
      \<and> wq_sheet_name q = st_sheet_name t \<and> wq_row_selector q = st_row_selector t
      \<and> map fst (wq_cells q) = map fst (st_column_map t)
      \<and> canonical_json (payload_value (wq_cells q)) = Inr (pr_payload_json p)
      \<and> list_all (\<lambda>(column, v). \<not> formula_like v) (wq_cells q)"
proof -
  note rec = records.reachable [OF assms(1)]
  then have ok: "sheets_ok (ew_sheets w)" by (simp add: records_true_def requests_approved_def)
  from rec assms(2,3) obtain aid where k: "wq_job_id q = xv_job e"
    and ap: "approved_request (ext_sha256 x) (xv_company e) aid q (ew_sheets w)"
    unfolding records_true_def writes_approved_def by blast
  from ap obtain r p l cp where r: "r \<in> set (sh_claims (ew_sheets w))" "p \<in> set (sh_plans (ew_sheets w))"
    "cr_company_id r = xv_company e" "cr_job_id r = xv_job e" "plan_of_claim r p"
    and cp: "check_plan (ext_sha256 x) l (xv_job e) p = Inr cp" "export_request (ext_sha256 x) (xv_job e) cp = Inr q"
    unfolding approved_request_def k by blast
  note plan = check_plan_Inr [OF cp(1)]
  obtain v where v: "canonical_json (plan_value (xv_job e) (pr_artifact_hash p) (cp_target cp)) = Inr v"
    using plan(7) ..
  have "claim_approved r (ew_sheets w)" using ok r(1) by (simp add: sheets_ok_def claims_ok_def)
  then obtain a where a: "a \<in> set (approvals (sh_db (ew_sheets w)))" "a_job_id a = xv_job e"
    "a_approval_type a = ''sheet_export''" "a_plan_fingerprint a = cr_plan_fingerprint r"
    using r(4) by (auto simp: claim_approved_def list_ex_iff)
  have fields: "wq_spreadsheet_id q = st_spreadsheet_id (cp_target cp)" "wq_sheet_name q = st_sheet_name (cp_target cp)"
    "wq_row_selector q = st_row_selector (cp_target cp)" "wq_cells q = cp_cells cp"
    using cp(2) by (auto simp: export_request_def bnd_eq_Inr)
  show ?thesis
    by (rule exI [of _ a], rule exI [of _ p], rule exI [of _ "cp_target cp"], rule exI [of _ v])
      (use a r v k fields plan(3-5) plan(6) [OF v] in \<open>simp add: plan_of_claim_def cells_of_keys\<close>)
qed

lemma sheet_write_approved_witness:
  "\<exists>a p t v. a \<in> set (approvals (sh_db (ew_sheets export_end))) \<and> p \<in> set (sh_plans (ew_sheets export_end))
      \<and> a_approval_type a = ''sheet_export'' \<and> a_job_id a = ''job''
      \<and> canonical_json (plan_value ''job'' (pr_artifact_hash p) t) = Inr v \<and> a_plan_fingerprint a = sha v
      \<and> canonical_json (payload_value demo_cells) = Inr (pr_payload_json p)"
  using sheet_write_approved [OF export_end_reached, of "sheet_event 0 (Write_started sheet_request)" sheet_request]
  by (fastforce simp: export_end_is sheet_event_def sheet_request_def)

section \<open>Receipts\<close>

text \<open>
  C11.  A call of \<open>execute_export\<close> returns a receipt only if it is in the table and the backend confirmed it: the
  row is stored for the call's company and approval, with the job, export key and destination of the request
  the approval stands for, and its time is that of an answer the backend gave to this very request, a write
  or a lookup.  All calls for one job return the same receipt, however often the export is executed.
\<close>

theorem sheet_receipts_confirmed:
  assumes "exports_reach x bk d b w" "ca \<in> set (ew_calls w)" "ca_pc ca = Ended (Inr r)"
  shows "(\<exists>row q. row \<in> set (sh_receipts (ew_sheets w))
       \<and> approved_request (ext_sha256 x) (ca_company ca) (ca_approval ca) q (ew_sheets w)
       \<and> receipt_row_of (ca_company ca) (ca_approval ca) q (xr_exported_at r) row
       \<and> r = receipt_of_request q (wq_destination_reference q) (xr_exported_at r)
       \<and> confirmed (ca_company ca) q (xr_exported_at r) (ew_log w))
    \<and> (\<forall>ca' \<in> set (ew_calls w). \<forall>r'. ca_pc ca' = Ended (Inr r') \<longrightarrow> ca_company ca' = ca_company ca
         \<longrightarrow> xr_job_id r' = xr_job_id r \<longrightarrow> r' = r)"
proof -
  note rec = records.reachable [OF assms(1)]
  then have ok: "sheets_ok (ew_sheets w)" and ret: "receipts_returned x w"
    by (simp_all add: records_true_def requests_approved_def)
  have returned: "\<exists>row q. row \<in> set (sh_receipts (ew_sheets w))
       \<and> approved_request (ext_sha256 x) (ca_company ca) (ca_approval ca) q (ew_sheets w)
       \<and> receipt_row_of (ca_company ca) (ca_approval ca) q (xr_exported_at r) row
       \<and> r = receipt_of_request q (wq_destination_reference q) (xr_exported_at r)
       \<and> confirmed (ca_company ca) q (xr_exported_at r) (ew_log w)"
    if ended: "ca \<in> set (ew_calls w)" "ca_pc ca = Ended (Inr r)" for ca r
  proof -
    obtain row q t where "row \<in> set (sh_receipts (ew_sheets w))" "receipt_confirmed x w row q t"
      "er_company_id row = ca_company ca" "er_approval_record_id row = ca_approval ca"
      "r = receipt_of_request q (wq_destination_reference q) t"
      using ret [unfolded receipts_returned_def, rule_format, OF ended] by blast
    then show ?thesis
      by (intro exI [of _ row] exI [of _ q]) (auto simp: receipt_confirmed_def receipt_of_request_def)
  qed
  from returned [OF assms(2,3)] obtain row q where row: "row \<in> set (sh_receipts (ew_sheets w))"
    "approved_request (ext_sha256 x) (ca_company ca) (ca_approval ca) q (ew_sheets w)"
    "receipt_row_of (ca_company ca) (ca_approval ca) q (xr_exported_at r) row"
    "r = receipt_of_request q (wq_destination_reference q) (xr_exported_at r)" by blast
  have "r' = r" if c': "ca' \<in> set (ew_calls w)" "ca_pc ca' = Ended (Inr r')" "ca_company ca' = ca_company ca"
    "xr_job_id r' = xr_job_id r" for ca' r'
  proof -
    from returned [OF c'(1,2)] obtain row' q' where row': "row' \<in> set (sh_receipts (ew_sheets w))"
      "approved_request (ext_sha256 x) (ca_company ca) (ca_approval ca') q' (ew_sheets w)"
      "receipt_row_of (ca_company ca) (ca_approval ca') q' (xr_exported_at r') row'"
      "r' = receipt_of_request q' (wq_destination_reference q') (xr_exported_at r')" unfolding c'(3) by blast
    have "xr_job_id r = wq_job_id q" "xr_job_id r' = wq_job_id q'"
      by (subst row(4), simp add: receipt_of_request_def, subst row'(4), simp add: receipt_of_request_def)
    with c'(4) have job: "wq_job_id q' = wq_job_id q" by simp
    note same = approved_request_same [OF ok row(2) row'(2) job]
    have "row' = row"
      using ok row(1,3) row'(1,3) same(2) by (auto simp: sheets_ok_def receipts_ok_def receipt_row_of_def)
    then have "xr_exported_at r' = xr_exported_at r" using row(3) row'(3) by (simp add: receipt_row_of_def)
    then show ?thesis using row(4) row'(4) same(1) by simp
  qed
  with returned [OF assms(2,3)] show ?thesis by blast
qed

lemma sheet_receipts_confirmed_witness:
  "\<exists>row q. row \<in> set (sh_receipts (ew_sheets export_end))
     \<and> approved_request sha ''co'' ''xa'' q (ew_sheets export_end)
     \<and> receipt_row_of ''co'' ''xa'' q (demo_instant 0) row
     \<and> sheet_receipt = receipt_of_request q (wq_destination_reference q) (demo_instant 0)
     \<and> confirmed ''co'' q (demo_instant 0) (ew_log export_end)"
  using sheet_receipts_confirmed [OF export_end_reached,
      of "\<lparr>ca_company = ''co'', ca_approval = ''xa'', ca_pc = Ended (Inr sheet_receipt)\<rparr>" sheet_receipt,
      THEN conjunct1]
  by (simp add: export_end_is sheet_receipt_def)

section \<open>The mock's sheet\<close>

text \<open>
  C13.  On the repository's own backend a returned receipt is about one row of the sheet: there is exactly one
  row under its export key, it holds the cells of the approved request at the approved place, and the
  receipt repeats the row's destination and time.
\<close>

theorem mock_sheet_holds_receipts:
  assumes "exports_reach x mock_backend d [] w" "ca \<in> set (ew_calls w)" "ca_pc ca = Ended (Inr r)"
  shows "\<exists>q held row. approved_request (ext_sha256 x) (ca_company ca) (ca_approval ca) q (ew_sheets w)
      \<and> filter (\<lambda>(key, v). key = xr_export_key r) (ew_backend w) = [(xr_export_key r, held, row)]
      \<and> same_request held q \<and> wq_job_id q = xr_job_id r
      \<and> wr_destination_reference row = xr_destination_reference r \<and> wr_exported_at row = Some (xr_exported_at r)"
proof -
  have ret: "receipts_returned x w" using records.reachable [OF assms(1)] by (simp add: records_true_def)
  then obtain rr q t where c: "receipt_confirmed x w rr q t" "er_company_id rr = ca_company ca"
    "er_approval_record_id rr = ca_approval ca" "r = receipt_of_request q (wq_destination_reference q) t"
    using assms(2,3) unfolding receipts_returned_def by blast
  obtain raw where raw: "mock_shows (ew_backend w) q raw" "validate_backend_receipt q raw = Inr t"
    using mock.receipt_in_sheet [OF assms(1) c(1)] by blast
  then obtain held row where held: "map_of (ew_backend w) (wq_export_key q) = Some (held, row)" "same_request held q"
    "raw = Some row" by (auto simp: mock_shows_def split: option.splits)
  have "distinct (map fst (ew_backend w))" using mock_sheet.reachable [OF assms(1)] by (simp add: mock_ok_def)
  from filter_unique [OF this map_of_SomeD [OF held(1)]]
  have "filter (\<lambda>(key, v). key = wq_export_key q) (ew_backend w) = [(wq_export_key q, held, row)]"
    by (simp add: case_prod_unfold)
  moreover have "wr_destination_reference row = wq_destination_reference q" "wr_exported_at row = Some t"
    using raw(2) held(3) by (auto simp: validate_backend_receipt_def split: if_splits option.splits sum.splits)
  ultimately show ?thesis
    using c held(2) by (intro exI [of _ q] exI [of _ held] exI [of _ row])
      (simp add: receipt_confirmed_def receipt_of_request_def)
qed

lemma mock_sheet_holds_receipts_witness:
  "\<exists>q held row. approved_request sha ''co'' ''xa'' q (ew_sheets export_end)
      \<and> filter (\<lambda>(key, v). key = demo_hash) (ew_backend export_end) = [(demo_hash, held, row)]
      \<and> same_request held q \<and> wr_exported_at row = Some (demo_instant 0)"
  using mock_sheet_holds_receipts [OF export_end_reached,
      of "\<lparr>ca_company = ''co'', ca_approval = ''xa'', ca_pc = Ended (Inr sheet_receipt)\<rparr>" sheet_receipt]
  by (auto simp: export_end_is sheet_receipt_def)

section \<open>Recovery\<close>

text \<open>
  C12.  A crash between the write and the receipt costs nothing: on the repository's backend, a later call that
  finds the attempt of a writer open, dead or slow, and the row in the sheet needs two more turns to return
  the receipt.  It then is stored and the attempt closed, and neither the sheet changed nor was another
  write sent.
\<close>

theorem sheet_export_recovers:
  assumes reach: "exports_reach x mock_backend d [] w" and hex: "\<And>v. is_sha256_hex (ext_sha256 x v)"
    and i: "i < length (ew_calls w)" "ca_pc (ew_calls w ! i) = Looking cw" "ca_company (ew_calls w ! i) = c"
    and attempt: "attempt_of c (job_of_write cw) (ew_sheets w) = Some a" "tr_attempt_id a = cw_attempt_id cw"
    and unstored: "\<not> receipted c (job_of_write cw) (ew_sheets w)"
    and row: "mock_lookup None (cw_request cw) (ew_backend w) = Inr (Some raw)"
    and w': "w' = exports_after x mock_backend [Call_step i n, Call_step i n'] w"
  shows "(\<exists>r. ca_pc (ew_calls w' ! i) = Ended (Inr r)) \<and> receipted c (job_of_write cw) (ew_sheets w')
    \<and> \<not> attempted c (job_of_write cw) (ew_sheets w') \<and> ew_backend w' = ew_backend w
    \<and> job_wire c (job_of_write cw) (ew_log w') = job_wire c (job_of_write cw) (ew_log w)"
proof -
  let ?q = "cw_request cw" and ?aid = "ca_approval (ew_calls w ! i)"
  have req: "requests_approved x w" using rounds.reachable [OF reach] by (simp add: disciplined_def)
  then have ok: "sheets_ok (ew_sheets w)" by (simp add: requests_approved_def)
  have q: "approved_request (ext_sha256 x) c ?aid ?q (ew_sheets w)"
    using req nth_mem [OF i(1)] i(2,3) unfolding requests_approved_def by (metis write_of.simps(5))
  note texts = approved_request_texts [OF q]
  have key: "is_sha256_hex (wq_export_key ?q)" using texts(2) hex by auto
  obtain t where t: "valid_instant t" "validate_backend_receipt ?q raw = Inr t"
    using mock_lookup_valid [OF mock_sheet.reachable [OF reach] row texts(1)] .
  obtain s' where s': "persist_body c ?aid cw t (ew_sheets w)
      = Inr (receipt_of_request ?q (wq_destination_reference ?q) t, s')" "\<not> attempted c (job_of_write cw) s'"
    using persist_succeeds [OF ok q key t(1) attempt unstored] .
  have stored: "receipted c (job_of_write cw) s'"
    using persist_ok(3) [OF s'(1) ok] by (auto simp: receipted_def receipt_row_of_def job_of_write_def)
  have "bk_lookup mock_backend e ?q (ew_backend w) = Inr (Some raw)" for e
    using row by (simp add: mock_backend_def mock_lookup_def)
  then have "w' = w\<lparr>ew_sheets := s',
      ew_calls := (ew_calls w)[i := (ew_calls w ! i)\<lparr>ca_pc := Ended (Inr (receipt_of_request ?q (wq_destination_reference ?q) t))\<rparr>],
      ew_log := ew_log w @ logged_actions i c [(job_of_write cw, Row_found raw)]
        @ logged_actions i c [(job_of_write cw, Receipt_stored (receipt_of_request ?q (wq_destination_reference ?q) t))]\<rparr>"
    using i t(2) s'(1)
    by (simp add: w' exports_after_def look_up_write_def settle_write_def store_receipt_def sheet_transaction_def)
  then show ?thesis using i(1) stored s'(2) by (simp add: wire_logged)
qed

lemma sheet_export_recovers_witness:
  "(\<exists>r. ca_pc (ew_calls (exports_after demo_externals mock_backend
        [Call_step 1 (sheet_env None), Call_step 1 (sheet_env None)] crash_end) ! 1) = Ended (Inr r))
   \<and> receipted ''co'' ''job'' (ew_sheets (exports_after demo_externals mock_backend
        [Call_step 1 (sheet_env None), Call_step 1 (sheet_env None)] crash_end))"
proof -
  have job: "job_of_write sheet_look = ''job''" "cw_request sheet_look = sheet_request"
    "cw_attempt_id sheet_look = ''export-attempt-u''"
    by (simp_all add: job_of_write_def sheet_look_def sheet_write_def sheet_request_def)
  have hex: "is_sha256_hex (ext_sha256 demo_externals v)" for v
    using demo_texts(3) by (simp add: sha_demo sha256_text_def split: if_splits)
  have row: "mock_lookup None sheet_request [(demo_hash, sheet_request, mock_row)] = Inr (Some (Some mock_row))"
    by (simp add: mock_lookup_def sheet_request_def)
  have none: "\<not> receipted ''co'' ''job'' (claimed_sheets [sheet_attempt] [])"
    by (simp add: receipted_def claimed_sheets_def sheet_defs)
  show ?thesis
    using sheet_export_recovers [OF crash_end_reached hex, of 1 sheet_look "''co''" sheet_attempt "Some mock_row"
        _ "sheet_env None" "sheet_env None", OF _ _ _ _ _ _ _ refl]
    by (simp add: crash_end_is job sheet_insert_attempt none row)
qed

section \<open>Every call ends\<close>

fun moves_call :: "nat \<Rightarrow> 'e export_input \<Rightarrow> bool" where
  "moves_call i (Call_step j n) = (j = i)"
| "moves_call i inp = False"

definition call_turns :: "nat \<Rightarrow> 'b export_world \<Rightarrow> nat" where
  "call_turns i w = turns_left (ca_pc (ew_calls w ! i))"

lemma react_turns:
  assumes i: "i < length (ew_calls w)"
  shows "i < length (ew_calls (export_react x bk inp w))" "call_turns i (export_react x bk inp w) \<le> call_turns i w"
    "moves_call i inp \<Longrightarrow> call_turns i (export_react x bk inp w) \<le> call_turns i w - 1"
proof -
  show "i < length (ew_calls (export_react x bk inp w))"
    using i by (cases inp) (auto simp: Let_def split: option.splits prod.splits)
  have less: "turns_left p \<le> turns_left (ca_pc (ew_calls w ! j)) - 1"
    if "export_step (ext_sha256 x) bk n (ca_company (ew_calls w ! j)) (ca_approval (ew_calls w ! j))
         (ca_pc (ew_calls w ! j)) (ew_sheets w) (ew_backend w) = Some (s, b, acts, p)" for j n s b acts p
    using step_turns [OF that] by simp
  show le: "call_turns i (export_react x bk inp w) \<le> call_turns i w"
  proof (cases rule: react_cases [of x bk inp w])
    case (5 j n s b acts p)
    then show ?thesis using less [OF 5(2)] i by (cases "j = i") (simp_all add: call_turns_def)
  next
    case (4 j)
    then show ?thesis using i by (cases "j = i") (simp_all add: call_turns_def)
  qed (use i in \<open>simp_all add: call_turns_def nth_append\<close>)
  show "call_turns i (export_react x bk inp w) \<le> call_turns i w - 1" if m: "moves_call i inp"
  proof -
    from m obtain n where inp: "inp = Call_step i n" by (cases inp) auto
    show ?thesis
    proof (cases "export_step (ext_sha256 x) bk n (ca_company (ew_calls w ! i)) (ca_approval (ew_calls w ! i))
         (ca_pc (ew_calls w ! i)) (ew_sheets w) (ew_backend w)")
      case None
      then have "call_turns i w = 0" by (simp add: call_turns_def step_blocked)
      with le show ?thesis by simp
    next
      case (Some out)
      obtain s b acts p where "out = (s, b, acts, p)" by (cases out)
      from less [OF Some [unfolded this]] Some this i inp show ?thesis by (simp add: call_turns_def Let_def)
    qed
  qed
qed

lemma after_turns:
  "i < length (ew_calls w)
   \<Longrightarrow> call_turns i (exports_after x bk inps w) \<le> call_turns i w - length (filter (moves_call i) inps)"
proof (induction inps arbitrary: w)
  case (Cons inp inps)
  let ?w = "export_react x bk inp w"
  have "call_turns i (exports_after x bk inps ?w) \<le> call_turns i ?w - length (filter (moves_call i) inps)"
    by (rule Cons.IH) (rule react_turns(1) [OF Cons.prems])
  moreover have "exports_after x bk (inp # inps) w = exports_after x bk inps ?w" by (simp add: exports_after_def)
  ultimately show ?case
    using react_turns(2,3) [OF Cons.prems, where x = x and bk = bk and inp = inp] by (cases "moves_call i inp") auto
qed (simp add: exports_after_def)

text \<open>
  \<open>execute_export\<close> always ends: a call that gets six turns, between any steps of the other calls, crashes,
  preparations, approvals and transactions of other processes, and whatever the backend answers, has
  returned a receipt or raised, or its process is dead.  There is no loop and nothing a call waits for.
\<close>

theorem export_calls_end:
  assumes "i < length (ew_calls w)" "6 \<le> length (filter (moves_call i) inps)"
  shows "\<exists>r. ca_pc (ew_calls (exports_after x bk inps w) ! i) = Ended r
      \<or> ca_pc (ew_calls (exports_after x bk inps w) ! i) = Dead"
proof -
  have "call_turns i w \<le> 6" unfolding call_turns_def by (cases "ca_pc (ew_calls w ! i)") auto
  with after_turns [OF assms(1), where x = x and bk = bk and inps = inps] assms(2)
  have "turns_left (ca_pc (ew_calls (exports_after x bk inps w) ! i)) = 0" by (simp add: call_turns_def)
  then show ?thesis by (cases "ca_pc (ew_calls (exports_after x bk inps w) ! i)") auto
qed

end
