(* ===== verification/Spec2Isabelle.thy ===== *)
theory Spec2Isabelle
  imports CallbackProperties LeaseProperties CanonicalFacts Signatures JobProperties SchedulerProperties SystemProperties
    CanonicalBounds Results RunnerProperties RecoveryProperties RailProperties NotificationProperties
    ExportProperties
begin

text \<open>
  A verification development for the SEO content orchestrator (\<open>src/seo_orchestrator\<close>): a worker that
  turns an approved brief into a paid execution by an external executor, keeps every job in SQLite and
  lets several processes (HTTP API, CLI, runners) act on the same database.  Everything below follows
  from the definitions, which are translated from the Python source and its SQL.

  \<^bold>\<open>How the program fits together.\<close>  \<open>services/jobs.py\<close> plans a job on a frozen snapshot, a paid
  approval (\<open>services/approvals.py\<close>) queues it, a runner (\<open>runner.py\<close>) claims it under a lease, submits it
  to the executor (\<open>executors/\<close>), polls it, retries it within the plan's budget, cancels it or hands the
  result on; callbacks of the executor (\<open>services/callbacks.py\<close>) arrive signed
  (\<open>security/signatures.py\<close>).  All of them meet in the database: \<open>db/migrations.py\<close> declares its tables,
  CHECKs, unique indexes and triggers, \<open>db/repositories.py\<close> holds the statements.

  \<^bold>\<open>Values.\<close>  \<open>Prelude\<close>: Python \<open>str\<close> and \<open>bytes\<close> as lists of 8-bit characters (UTF-8 code units), errors
  as sums (\<open>bnd\<close>), SQL null as \<open>option\<close>.  \<open>Timestamps\<close>: aware UTC datetimes as microsecond counts,
  \<open>isoformat\<close>, \<open>fromisoformat\<close> and the checks of \<open>db/connection.py\<close>.  \<open>JobStates\<close>: \<open>errors.py\<close>,
  \<open>domain/jobs.py\<close>.  \<open>Canonical\<close>, \<open>CanonicalFacts\<close>, \<open>CanonicalBounds\<close>: \<open>canonical.py\<close> with the parts of
  \<open>json\<close> it uses; the reader inverts the writer, and the writer accepts exactly the values within its
  budgets.  \<open>Plans\<close>: \<open>domain/approvals.py\<close>.  \<open>Results\<close>: the validated execution result of
  \<open>services/artifacts.py\<close> and its durable bytes (\<open>executors/base.py\<close>).

  \<^bold>\<open>The database.\<close>  \<open>SqlTable\<close>: an UPDATE over a list of rows judged by triggers and constraints, with the
  locales \<open>keyed_table\<close> and \<open>constrained_table\<close> (what a table's checks promise its clients).  \<open>Schema\<close>:
  one record per row, the checks of \<open>db/migrations.py\<close>.  \<open>Evolution\<close>: the locales interpreted on the
  tables; \<open>db_evolves\<close> is the preorder in which stored rows may change, \<open>schema_ok\<close> the constraints on
  jobs, runs, retry budgets and the key from runs to jobs (the uniqueness of approvals, snapshots,
  receipts and nonces is checked by the statements that insert them and not part of it).
  \<open>JobRepository\<close>, \<open>Snapshots\<close>, \<open>RunnerStore\<close>, \<open>RunnerClaims\<close>, \<open>RunnerSettle\<close>: the repositories of
  \<open>db/repositories.py\<close> over jobs, approvals, nonces, receipts, snapshots and runs; \<open>RunnerSafety\<close> shows
  that each keeps the schema and history.

  \<^bold>\<open>The services.\<close>  \<open>JobService\<close> (reads and checks) and \<open>JobTransitions\<close> (writes): \<open>services/jobs.py\<close>,
  \<open>services/approvals.py\<close>.  \<open>Signatures\<close>, \<open>Callbacks\<close>: \<open>security/signatures.py\<close>, \<open>services/callbacks.py\<close>.
  \<open>AuditSpec\<close> is the abstract specification of a job's life: a ledger of states, plans, approvals and
  audit rows, attempts and the steps it may take.  \<open>AuditRefinement\<close> shows that every transaction of the code is
  such a step (or none), \<open>System\<close> composes all transactions into a state machine whose reachable states
  \<open>SystemProperties\<close> speaks about.  \<open>Leases\<close> has the contract of leased operations (locales
  \<open>leased_writes\<close> and \<open>lease_protocol\<close>, interpreted on the repository), \<open>SystemLeases\<close> what leases and
  final states mean for all requests of the system, \<open>JobProperties\<close>, \<open>SchedulerProperties\<close>, \<open>LeaseProperties\<close>, \<open>CallbackProperties\<close>
  state the behaviour operation by operation, on the rows of \<open>Demo\<close>.

  \<^bold>\<open>The runner.\<close>  \<open>Executors\<close>: \<open>executors/base.py\<close> and \<open>RetryPolicy\<close>.  \<open>RunnerWorld\<close>: a runner action is a
  state-passing function over a world of database, clock readings, tokens and the log of executor calls;
  between any two of its transactions an arbitrary other process may commit (a parameter).
  \<open>RunnerSubmit\<close>, \<open>RunnerTick\<close>: the methods of \<open>Runner\<close>, up to \<open>tick\<close>.  \<open>RunnerFrame\<close> has the judgements
  \<open>keeps\<close> and \<open>yields\<close> with one rule per primitive and the locale of an invariant on worlds;
  \<open>RunnerInvariant\<close> and \<open>RunnerCalls\<close> interpret it, \<open>RunnerDemo\<close> runs one round, \<open>RunnerProperties\<close> and
  \<open>RecoveryProperties\<close> state the results.

  \<^bold>\<open>The supervised rail.\<close>  \<open>supervised_rail.py\<close> keeps a ledger of its own for runs that a human operator
  executes stage by stage.  \<open>RailPackets\<close>: stage packets, attestations, completions, prompts, payload and
  evidence checks (the screens of \<open>services/artifacts.py\<close> are \<open>Screening\<close>).  \<open>RailLedger\<close>: the four tables
  with their CHECKs and triggers and the hash-chained event log.  \<open>RailStatus\<close>: the validation that re-reads
  and authenticates a whole run.  \<open>RailOps\<close>: every method, as a function from the ledger to a value or
  exception and the next ledger.  \<open>RailFacts\<close> and \<open>RailStored\<close>: what is stored reads back as it was.
  \<open>RailSound\<close>: what a successful validation proves.  \<open>RailHistory\<close>: what any request may change at all.
  \<open>RailCommit\<close>: the head hash determines the rows.  \<open>RailViews\<close>, \<open>RailChain\<close>, \<open>RailHonest\<close>, \<open>RailSteps\<close>,
  \<open>RailAlive\<close>: the operations keep every run validating, from a single appended event up to each request.
  \<open>RailDemo\<close> prepares a concrete run, \<open>RailProperties\<close> states the results.

  \<^bold>\<open>Notifications.\<close>  \<open>services/notifications.py\<close> posts progress events to one signed webhook, from many
  threads at once.  \<open>UrlPolicy\<close>: \<open>security/url_policy.py\<close>, which URLs may be contacted; \<open>Auth\<close>:
  \<open>api/auth.py\<close>, the key files and the bearer check.  \<open>Notifications\<close>: the event, its validation, payload
  and identity.  \<open>NotificationSink\<close>: configuration and constructor checks, the shared state, the request.
  \<open>NotificationSteps\<close>: \<open>send\<close> and \<open>close\<close> as program counters whose steps are the code's locked sections,
  semaphore operations and exchanges with the outside, interleaved freely, with a fault possible wherever
  the code guards against one; the locale \<open>sink_invariant\<close> is an invariant of all interleavings.
  \<open>NotificationLifecycle\<close> (slots, counters, closing, termination), \<open>NotificationDelivery\<close> (owners of
  deliveries against what is on the wire) and \<open>NotificationAccount\<close> (approval of requests, backing of
  receipts) interpret it; \<open>NotificationProperties\<close> states the results.

  \<^bold>\<open>Sheet exports.\<close>  \<open>services/exports.py\<close> writes an approved row of a finished job to a spreadsheet it does
  not control.  \<open>ExportPlans\<close>: targets, artifacts, plans, requests, receipts, and the four export tables
  beside the job database.  \<open>ExportService\<close>: every transaction of the service.  \<open>ExportSteps\<close>: the backend
  interface, the repository's mock backend, and \<open>execute_export\<close> as a program counter whose steps are its
  transactions and its exchanges with the backend; calls interleave freely with each other, with
  preparations and approvals, with crashes and with everything \<open>System\<close> lets other processes commit.
  \<open>ExportTables\<close>: what each transaction keeps of the tables, and that a stored plan fixes its request.
  \<open>ExportSafety\<close> has the locale of an invariant of all these runs; \<open>ExportDiscipline\<close> (who may write, as an
  automaton over the log) and \<open>ExportRecords\<close> (approvals behind writes, answers behind receipts) interpret
  it.  \<open>ExportBackend\<close>: the locale of honest backends, interpreted on the mock, and the bound on a call's
  turns.  \<open>ExportRecovery\<close>: a crashed export can be finished.  \<open>ExportDemo\<close> runs it, \<open>ExportProperties\<close>
  states the results.

  \<^bold>\<open>Bounds and fuel.\<close>  The JSON scanner runs on fuel \<open>2 * length s + 2\<close>, which \<open>json_loads_canonical\<close>
  shows to be enough for every text the program writes; the loop of \<open>tick\<close> is bounded by its limit, as in
  the code; the doubling loop of \<open>RetryPolicy\<close> by its attempt number.

  \<^bold>\<open>Parameters.\<close>  Code that is not in the repository is an argument: SHA-256 and HMAC, pydantic's
  validation, the executor behind its interface, the clock, random tokens and jitter, the regular
  expressions and URL parsing that screen texts, the artifact files, the rail's integrity key (its HMAC),
  the resolver, the catalog and the HTTP client of the notification sink, the source of export artifacts
  and the spreadsheet behind its backend.

  \<^bold>\<open>Not modelled.\<close>  File-system I/O (private files, directories, file descriptors), process wiring (HTTP
  routes, CLI), the thread that pumps an executor call, and the components listed as such in the
  manifest.  Within the modelled parts: delays are rationals, so the rounding of Python's float product
  is not represented; a service that issues two SELECTs outside a transaction reads one state; a column
  holds values of its declared type; \<open>OverflowError\<close> of an \<open>astimezone\<close> at the ends of the calendar and
  \<open>RecursionError\<close> of \<open>json\<close> are not represented; a method of the rail that only reads sees one state;
  the rail's private state file, its key file and its two-line metadata table are not represented.
\<close>

end
